(* ===== verification/Karta_Prelude.thy ===== *)
theory Karta_Prelude
  imports Complex_Main "HOL-Library.AList" "HOL-Library.Word" "HOL-Library.Multiset"
begin

text \<open>
  What every component shares: the dynamic values that flow between gojq, encoding/json and
  the code (\<open>json\<close>, \<open>goany\<close>), Go errors with their wrapping chains (\<open>goerr\<close>), the outcome of a
  call (\<open>res\<close>: a result, an error, a panic, or no return within the fuel), the state-and-error
  actions (\<open>act\<close>) in which methods that touch the shared runner are written, and a total-correctness
  Hoare triple for them with its rules.
\<close>

named_theorems act_simps \<open>unfolding rules of the action combinators\<close>
named_theorems triple_intro \<open>structural rules of the Hoare triple\<close>
named_theorems reads_intro \<open>structural rules of read-only actions\<close>

section \<open>Dynamic values\<close>

text \<open>
  A Go value of type \<open>any\<close> that came out of json.Unmarshal or of a gojq iterator: nil, bool, number,
  string, \<open>[]any\<close> or \<open>map[string]any\<close>. Numbers are finite and kept as rationals. Objects are association
  lists read with \<open>map_of\<close>.
\<close>

datatype json =
    JNull
  | JBool bool
  | JNum rat
  | JString string
  | JArray "json list"
  | JObject "(string \<times> json) list"

text \<open>
  A Go value handed to the runner to be written: a nil pointer, map or slice, plain data, a value
  of a struct type declared outside the repository (\<open>'o\<close>, for example corev1.PodSpec), or a non-nil slice.
\<close>

datatype 'o goany =
    GoNil
  | GoJson json
  | GoObj 'o
  | GoList "'o goany list"

section \<open>Errors\<close>

text \<open>
  \<open>Errorf\<close> is fmt.Errorf without a wrapped error, \<open>Wrapf\<close> is fmt.Errorf with one \<open>%w\<close>; both keep the format
  string and its operands. \<open>LibraryError\<close> is an error value that a library call returned.
\<close>

datatype fmtarg = AStr string | AInt int | AStrs "string list" | AJson json

datatype goerr =
    LibraryError string
  | Errorf string "fmtarg list"
  | Wrapf string "fmtarg list" goerr
  | JoinErr "goerr list"
  | DefinitionNotFoundError string
  | InstanceNotFoundError string "string list"
  | JQParseError string goerr
  | JQCompileError string goerr
  | JQExecutionError string goerr
  | ErrDelFunc
  | ErrRecursiveDescent

text \<open>errors.As with a target of type DefinitionNotFoundError: walks the chain of Unwrap.\<close>

fun isDefinitionNotFoundError :: "goerr \<Rightarrow> bool" where
  "isDefinitionNotFoundError (DefinitionNotFoundError s) = True"
| "isDefinitionNotFoundError (Wrapf f as e) = isDefinitionNotFoundError e"
| "isDefinitionNotFoundError (JoinErr es) = list_ex isDefinitionNotFoundError es"
| "isDefinitionNotFoundError (JQParseError x e) = isDefinitionNotFoundError e"
| "isDefinitionNotFoundError (JQCompileError x e) = isDefinitionNotFoundError e"
| "isDefinitionNotFoundError (JQExecutionError x e) = isDefinitionNotFoundError e"
| "isDefinitionNotFoundError e = False"

text \<open>errors.As with a target of type *JQParseError.\<close>

fun hasJQParseError :: "goerr \<Rightarrow> bool" where
  "hasJQParseError (JQParseError x e) = True"
| "hasJQParseError (Wrapf f as e) = hasJQParseError e"
| "hasJQParseError (JoinErr es) = list_ex hasJQParseError es"
| "hasJQParseError (JQCompileError x e) = hasJQParseError e"
| "hasJQParseError (JQExecutionError x e) = hasJQParseError e"
| "hasJQParseError e = False"

section \<open>Outcomes and actions\<close>

datatype 'a res = Ok 'a | Err goerr | Panic string | NoReturn

type_synonym ('r, 'a) act = "'r \<Rightarrow> 'a res \<times> 'r"

definition return_act :: "'a \<Rightarrow> ('r, 'a) act" where
  "return_act a = (\<lambda>r. (Ok a, r))"

definition fail_act :: "goerr \<Rightarrow> ('r, 'a) act" where
  "fail_act e = (\<lambda>r. (Err e, r))"

definition panic_act :: "string \<Rightarrow> ('r, 'a) act" where
  "panic_act p = (\<lambda>r. (Panic p, r))"

definition no_return_act :: "('r, 'a) act" where
  "no_return_act = (\<lambda>r. (NoReturn, r))"

text \<open>\<open>v, err := m(); if err != nil \{ return ..., err \}; f(v)\<close>\<close>

definition and_then :: "('r, 'a) act \<Rightarrow> ('a \<Rightarrow> ('r, 'b) act) \<Rightarrow> ('r, 'b) act" where
  "and_then m f = (\<lambda>r. case m r of
       (Ok a, r') \<Rightarrow> f a r'
     | (Err e, r') \<Rightarrow> (Err e, r')
     | (Panic p, r') \<Rightarrow> (Panic p, r')
     | (NoReturn, r') \<Rightarrow> (NoReturn, r'))"

text \<open>\<open>v, err := m(); if err != nil \{ handler(err) \}\<close>: the handler decides what an error becomes.\<close>

definition on_error :: "('r, 'a) act \<Rightarrow> (goerr \<Rightarrow> ('r, 'a) act) \<Rightarrow> ('r, 'a) act" where
  "on_error m h = (\<lambda>r. case m r of (Err e, r') \<Rightarrow> h e r' | x \<Rightarrow> x)"

text \<open>\<open>return fmt.Errorf(f, as..., err)\<close> with \<open>%w\<close>.\<close>

definition wrap_error :: "string \<Rightarrow> fmtarg list \<Rightarrow> ('r, 'a) act \<Rightarrow> ('r, 'a) act" where
  "wrap_error f as m = on_error m (\<lambda>e. fail_act (Wrapf f as e))"

text \<open>A pure fallible computation lifted into an action.\<close>

definition lift_res :: "'a res \<Rightarrow> ('r, 'a) act" where
  "lift_res x = (\<lambda>r. (x, r))"

text \<open>A \<open>for range\<close> loop whose body appends one element per item and returns at the first error.\<close>

fun map_act :: "('x \<Rightarrow> ('r, 'a) act) \<Rightarrow> 'x list \<Rightarrow> ('r, 'a list) act" where
  "map_act f [] = return_act []"
| "map_act f (x # xs) = and_then (f x) (\<lambda>a. and_then (map_act f xs) (\<lambda>as. return_act (a # as)))"

text \<open>A \<open>for range\<close> loop run for its effect only.\<close>

fun iter_act :: "('x \<Rightarrow> ('r, unit) act) \<Rightarrow> 'x list \<Rightarrow> ('r, unit) act" where
  "iter_act f [] = return_act ()"
| "iter_act f (x # xs) = and_then (f x) (\<lambda>_. iter_act f xs)"

lemma return_act_apply [act_simps]: "return_act a r = (Ok a, r)"
  by (simp add: return_act_def)

lemma fail_act_apply [act_simps]: "fail_act e r = (Err e, r)"
  by (simp add: fail_act_def)

lemma panic_act_apply [act_simps]: "panic_act p r = (Panic p, r)"
  by (simp add: panic_act_def)

lemma no_return_act_apply [act_simps]: "no_return_act r = (NoReturn, r)"
  by (simp add: no_return_act_def)

lemma lift_res_apply [act_simps]: "lift_res x r = (x, r)"
  by (simp add: lift_res_def)

lemma and_then_apply [act_simps]:
  "and_then m f r = (case m r of
       (Ok a, r') \<Rightarrow> f a r' | (Err e, r') \<Rightarrow> (Err e, r')
     | (Panic p, r') \<Rightarrow> (Panic p, r') | (NoReturn, r') \<Rightarrow> (NoReturn, r'))"
  by (simp add: and_then_def)

lemma on_error_apply [act_simps]:
  "on_error m h r = (case m r of (Err e, r') \<Rightarrow> h e r' | x \<Rightarrow> x)"
  by (simp add: on_error_def)

lemma wrap_error_apply [act_simps]:
  "wrap_error f as m r = (case m r of (Err e, r') \<Rightarrow> (Err (Wrapf f as e), r') | x \<Rightarrow> x)"
  by (simp add: wrap_error_def on_error_def fail_act_def)

lemma wrap_error_Ok: "wrap_error f as m r = (Ok a, r') \<longleftrightarrow> m r = (Ok a, r')"
  by (auto simp: wrap_error_apply split: prod.splits res.splits)

lemma and_then_Ok:
  "and_then m f r = (Ok b, r') \<longleftrightarrow> (\<exists>a r1. m r = (Ok a, r1) \<and> f a r1 = (Ok b, r'))"
  by (auto simp: and_then_apply split: prod.splits res.splits)

lemma and_then_cong:
  assumes "m r = m' r" and "\<And>a r1. m' r = (Ok a, r1) \<Longrightarrow> f a r1 = f' a r1"
  shows "and_then m f r = and_then m' f' r"
  using assms by (auto simp: and_then_apply split: prod.splits res.splits)

section \<open>A total-correctness triple\<close>

text \<open>
  \<open>triple P m Q E\<close>: started in a state that satisfies \<open>P\<close>, the action returns a result that satisfies
  \<open>Q\<close> or an error that satisfies \<open>E\<close>; it neither panics nor fails to return.
\<close>

definition triple :: "('r \<Rightarrow> bool) \<Rightarrow> ('r, 'a) act \<Rightarrow> ('a \<Rightarrow> 'r \<Rightarrow> bool) \<Rightarrow> (goerr \<Rightarrow> 'r \<Rightarrow> bool) \<Rightarrow> bool" where
  "triple P m Q E \<longleftrightarrow> (\<forall>r. P r \<longrightarrow> (case m r of
       (Ok a, r') \<Rightarrow> Q a r' | (Err e, r') \<Rightarrow> E e r' | (Panic p, r') \<Rightarrow> False | (NoReturn, r') \<Rightarrow> False))"

lemma tripleI:
  assumes "\<And>r a r'. P r \<Longrightarrow> m r = (Ok a, r') \<Longrightarrow> Q a r'"
    and "\<And>r e r'. P r \<Longrightarrow> m r = (Err e, r') \<Longrightarrow> E e r'"
    and "\<And>r p r'. P r \<Longrightarrow> m r = (Panic p, r') \<Longrightarrow> False"
    and "\<And>r r'. P r \<Longrightarrow> m r = (NoReturn, r') \<Longrightarrow> False"
  shows "triple P m Q E"
  unfolding triple_def using assms by (fastforce split: prod.splits res.splits)

lemma triple_OkD: "triple P m Q E \<Longrightarrow> P r \<Longrightarrow> m r = (Ok a, r') \<Longrightarrow> Q a r'"
  unfolding triple_def by fastforce

lemma triple_ErrD: "triple P m Q E \<Longrightarrow> P r \<Longrightarrow> m r = (Err e, r') \<Longrightarrow> E e r'"
  unfolding triple_def by fastforce

lemma triple_no_panic: "triple P m Q E \<Longrightarrow> P r \<Longrightarrow> m r \<noteq> (Panic p, r')"
  unfolding triple_def by fastforce

lemma triple_returns: "triple P m Q E \<Longrightarrow> P r \<Longrightarrow> m r \<noteq> (NoReturn, r')"
  unfolding triple_def by fastforce

lemma triple_conseq:
  assumes "triple P m Q E" and "\<And>r. P' r \<Longrightarrow> P r"
    and "\<And>a r. Q a r \<Longrightarrow> Q' a r" and "\<And>e r. E e r \<Longrightarrow> E' e r"
  shows "triple P' m Q' E'"
  using assms unfolding triple_def by (fastforce split: prod.splits res.splits)

lemma triple_conj:
  assumes "triple P m Q E" and "triple P m Q' E'"
  shows "triple P m (\<lambda>a r. Q a r \<and> Q' a r) (\<lambda>e r. E e r \<and> E' e r)"
  using assms unfolding triple_def by (fastforce split: prod.splits res.splits)

text \<open>A triple for every fixed value of a view of the state is a triple without the view.\<close>

lemma triple_all_views:
  assumes "\<And>v. triple (\<lambda>r. I r \<and> view r = v) m (\<lambda>a r. I r \<and> Q v a r) (\<lambda>e r. I r \<and> E v e r)"
    and "\<And>v e r. E v e r \<Longrightarrow> E' e r"
  shows "triple I m (\<lambda>a. I) (\<lambda>e r. I r \<and> E' e r)"
proof (rule tripleI)
  fix r a r' assume "I r" "m r = (Ok a, r')"
  with triple_OkD [OF assms(1) [of "view r"]] show "I r'" by blast
next
  fix r e r' assume "I r" "m r = (Err e, r')"
  with triple_ErrD [OF assms(1) [of "view r"]] assms(2) show "I r' \<and> E' e r'" by blast
next
  fix r p r' assume "I r" "m r = (Panic p, r')"
  with triple_no_panic [OF assms(1) [of "view r"]] show False by blast
next
  fix r r' assume "I r" "m r = (NoReturn, r')"
  with triple_returns [OF assms(1) [of "view r"]] show False by blast
qed

lemma triple_return [triple_intro]: "(\<And>r. P r \<Longrightarrow> Q a r) \<Longrightarrow> triple P (return_act a) Q E"
  by (simp add: triple_def return_act_apply)

lemma triple_fail [triple_intro]: "(\<And>r. P r \<Longrightarrow> E e r) \<Longrightarrow> triple P (fail_act e) Q E"
  by (simp add: triple_def fail_act_apply)

lemma triple_and_then:
  assumes "triple P m R E" and "\<And>a. triple (R a) (f a) Q E"
  shows "triple P (and_then m f) Q E"
  using assms unfolding triple_def and_then_apply by (fastforce split: prod.splits res.splits)

lemma triple_on_error:
  assumes "triple P m Q R" and "\<And>e. triple (R e) (h e) Q E"
  shows "triple P (on_error m h) Q E"
  using assms unfolding triple_def on_error_apply by (fastforce split: prod.splits res.splits)

lemma triple_wrap_error:
  assumes "triple P m Q (\<lambda>e r. E (Wrapf f as e) r)"
  shows "triple P (wrap_error f as m) Q E"
  using assms unfolding triple_def wrap_error_apply by (fastforce split: prod.splits res.splits)

lemma triple_map_act:
  assumes "\<And>x. x \<in> set xs \<Longrightarrow> triple P (f x) (\<lambda>_. P) (\<lambda>_. P)"
  shows "triple P (map_act f xs) (\<lambda>as r. P r \<and> length as = length xs) (\<lambda>_. P)"
  using assms
proof (induction xs)
  case Nil
  then show ?case by (simp add: triple_return)
next
  case (Cons x xs)
  have "triple P (map_act f xs) (\<lambda>as r. P r \<and> length as = length xs) (\<lambda>_. P)"
    using Cons by simp
  then have "triple P (and_then (map_act f xs) (\<lambda>as. return_act (a # as)))
      (\<lambda>as r. P r \<and> length as = length (x # xs)) (\<lambda>_. P)" for a
    by (rule triple_and_then) (simp add: triple_return)
  with Cons.prems show ?case
    unfolding map_act.simps by (rule_tac R = "\<lambda>_. P" in triple_and_then) simp_all
qed

lemma triple_iter_act:
  assumes "\<And>x. x \<in> set xs \<Longrightarrow> triple P (f x) (\<lambda>_. P) E"
  shows "triple P (iter_act f xs) (\<lambda>_. P) E"
  using assms
  by (induction xs) (auto intro!: triple_return triple_and_then [where R = "\<lambda>_. P"])

text \<open>Sequencing when one state predicate is kept throughout.\<close>

lemma triple_and_then_inv [triple_intro]:
  assumes "triple P m (\<lambda>_. P) E" and "\<And>a. triple P (f a) Q E"
  shows "triple P (and_then m f) Q E"
  using assms by (rule triple_and_then)

lemma triple_if [triple_intro]:
  assumes "b \<Longrightarrow> triple P m Q E" and "\<not> b \<Longrightarrow> triple P m' Q E"
  shows "triple P (if b then m else m') Q E"
  using assms by simp

lemma triple_option [triple_intro]:
  assumes "x = None \<Longrightarrow> triple P m Q E" and "\<And>a. x = Some a \<Longrightarrow> triple P (f a) Q E"
  shows "triple P (case x of None \<Rightarrow> m | Some a \<Rightarrow> f a) Q E"
  using assms by (cases x) simp_all

section \<open>Read-only actions\<close>

text \<open>
  \<open>reads E invar view m\<close>: from states that satisfy \<open>invar\<close>, the action keeps the invariant and everything
  visible through \<open>view\<close>, its outcome is determined by the view, and the outcome is a result or an error
  that satisfies \<open>E\<close>.
\<close>

definition ok_res :: "(goerr \<Rightarrow> bool) \<Rightarrow> 'a res \<Rightarrow> bool" where
  "ok_res E x = (case x of Ok a \<Rightarrow> True | Err e \<Rightarrow> E e | Panic p \<Rightarrow> False | NoReturn \<Rightarrow> False)"

definition reads :: "(goerr \<Rightarrow> bool) \<Rightarrow> ('r \<Rightarrow> bool) \<Rightarrow> ('r \<Rightarrow> 'v) \<Rightarrow> ('r, 'a) act \<Rightarrow> bool" where
  "reads E invar view m \<longleftrightarrow>
     (\<forall>r. invar r \<longrightarrow> invar (snd (m r)) \<and> view (snd (m r)) = view r \<and> ok_res E (fst (m r)))
     \<and> (\<forall>r r'. invar r \<longrightarrow> invar r' \<longrightarrow> view r = view r' \<longrightarrow> fst (m r) = fst (m r'))"

lemma ok_res_simps [simp]:
  "ok_res E (Ok a)" "ok_res E (Err e) \<longleftrightarrow> E e" "\<not> ok_res E (Panic p)" "\<not> ok_res E NoReturn"
  by (simp_all add: ok_res_def)

lemma ok_res_cases:
  assumes "ok_res E x"
  obtains a where "x = Ok a" | e where "x = Err e" "E e"
  using assms by (cases x) auto

lemma readsD:
  assumes "reads E invar view m" "invar r"
  shows "invar (snd (m r))" "view (snd (m r)) = view r" "ok_res E (fst (m r))"
  using assms unfolding reads_def by blast+

lemma reads_same:
  "reads E invar view m \<Longrightarrow> invar r \<Longrightarrow> invar r' \<Longrightarrow> view r = view r' \<Longrightarrow> fst (m r) = fst (m r')"
  unfolding reads_def by blast

lemma reads_triple:
  assumes "reads E invar view m"
  shows "triple (\<lambda>r. invar r \<and> view r = v) m (\<lambda>_ r. invar r \<and> view r = v) (\<lambda>e r. invar r \<and> view r = v \<and> E e)"
proof (rule tripleI)
  fix r a r' assume r: "invar r \<and> view r = v" "m r = (Ok a, r')"
  then show "invar r' \<and> view r' = v" using readsD [OF assms, of r] by simp
next
  fix r e r' assume r: "invar r \<and> view r = v" "m r = (Err e, r')"
  then show "invar r' \<and> view r' = v \<and> E e" using readsD [OF assms, of r] by simp
next
  fix r p r' assume r: "invar r \<and> view r = v" "m r = (Panic p, r')"
  then show False using readsD(3) [OF assms, of r] by simp
next
  fix r r' assume r: "invar r \<and> view r = v" "m r = (NoReturn, r')"
  then show False using readsD(3) [OF assms, of r] by simp
qed

lemma readsI:
  assumes "\<And>r. invar r \<Longrightarrow> invar (snd (m r))" "\<And>r. invar r \<Longrightarrow> view (snd (m r)) = view r"
    "\<And>r. invar r \<Longrightarrow> ok_res E (fst (m r))"
    "\<And>r r'. invar r \<Longrightarrow> invar r' \<Longrightarrow> view r = view r' \<Longrightarrow> fst (m r) = fst (m r')"
  shows "reads E invar view m"
  using assms unfolding reads_def by blast

lemma ok_res_mono: "ok_res E x \<Longrightarrow> (\<And>e. E e \<Longrightarrow> E' e) \<Longrightarrow> ok_res E' x"
  by (cases x) auto

lemma reads_weaken:
  assumes "reads E invar view m" "\<And>e. E e \<Longrightarrow> E' e"
  shows "reads E' invar view m"
  using readsD(1,2) [OF assms(1)] ok_res_mono [OF readsD(3) [OF assms(1)] assms(2)] reads_same [OF assms(1)]
  by (rule readsI)

lemma reads_return [reads_intro]: "reads E invar view (return_act a)"
  by (simp add: reads_def return_act_apply)

lemma reads_fail [reads_intro]: "E e \<Longrightarrow> reads E invar view (fail_act e)"
  by (simp add: reads_def fail_act_apply)

lemma reads_lift [reads_intro]: "ok_res E x \<Longrightarrow> reads E invar view (lift_res x)"
  by (simp add: reads_def lift_res_apply)

lemma reads_and_then [reads_intro]:
  assumes m: "reads E invar view m" and f: "\<And>a. reads E invar view (f a)"
  shows "reads E invar view (and_then m f)"
proof -
  have step: "invar (snd (and_then m f r)) \<and> view (snd (and_then m f r)) = view r \<and> ok_res E (fst (and_then m f r))"
    if r: "invar r" for r
  proof (cases "m r")
    case (Pair x r1)
    with readsD [OF m r] have r1: "invar r1" "view r1 = view r" "ok_res E x" by simp_all
    from r1(3) show ?thesis
      using Pair r1(1,2) readsD [OF f r1(1)] by (cases rule: ok_res_cases) (simp_all add: and_then_apply)
  qed
  have same: "fst (and_then m f r) = fst (and_then m f r')" if r: "invar r" "invar r'" "view r = view r'" for r r'
  proof (cases "m r"; cases "m r'")
    fix x r1 x' r1' assume eq: "m r = (x, r1)" "m r' = (x', r1')"
    with reads_same [OF m r] readsD [OF m r(1)] readsD [OF m r(2)] r(3)
    have *: "x' = x" "invar r1" "invar r1'" "view r1 = view r1'" "ok_res E x" by simp_all
    from *(5) show ?thesis
      using eq *(1) reads_same [OF f *(2-4)] by (cases rule: ok_res_cases) (simp_all add: and_then_apply)
  qed
  show ?thesis using step same unfolding reads_def by blast
qed

lemma reads_wrap_error [reads_intro]:
  assumes "reads (\<lambda>e. E (Wrapf f as e)) invar view m"
  shows "reads E invar view (wrap_error f as m)"
proof -
  have "fst (wrap_error f as m r) = (case fst (m r) of Err e \<Rightarrow> Err (Wrapf f as e) | x \<Rightarrow> x)"
    and "snd (wrap_error f as m r) = snd (m r)" for r
    by (simp_all add: wrap_error_apply split: prod.splits res.splits)
  note wrap = this
  have "ok_res E (fst (wrap_error f as m r))" if "invar r" for r
    using readsD(3) [OF assms that] by (cases rule: ok_res_cases) (simp_all add: wrap)
  moreover have "fst (wrap_error f as m r) = fst (wrap_error f as m r')"
    if "invar r" "invar r'" "view r = view r'" for r r'
    unfolding wrap(1) reads_same [OF assms that] by (rule refl)
  moreover have "invar (snd (wrap_error f as m r))" "view (snd (wrap_error f as m r)) = view r" if "invar r" for r
    unfolding wrap(2) by (rule readsD(1) [OF assms that], rule readsD(2) [OF assms that])
  ultimately show ?thesis by (rule_tac readsI)
qed

lemma reads_if [reads_intro]:
  "(b \<Longrightarrow> reads E invar view m) \<Longrightarrow> (\<not> b \<Longrightarrow> reads E invar view m') \<Longrightarrow> reads E invar view (if b then m else m')"
  by simp

lemma reads_option [reads_intro]:
  assumes "x = None \<Longrightarrow> reads E invar view m" and "\<And>a. x = Some a \<Longrightarrow> reads E invar view (f a)"
  shows "reads E invar view (case x of None \<Rightarrow> m | Some a \<Rightarrow> f a)"
  using assms by (cases x) simp_all

lemma reads_list [reads_intro]:
  assumes "xs = [] \<Longrightarrow> reads E invar view m" and "\<And>y ys. xs = y # ys \<Longrightarrow> reads E invar view (f y ys)"
  shows "reads E invar view (case xs of [] \<Rightarrow> m | y # ys \<Rightarrow> f y ys)"
  using assms by (cases xs) simp_all

lemma reads_on_error:
  assumes "reads E invar view m" "\<And>e. E e \<Longrightarrow> reads E' invar view (h e)"
  shows "reads E' invar view (on_error m h)"
proof -
  have step: "invar (snd (on_error m h r)) \<and> view (snd (on_error m h r)) = view r \<and> ok_res E' (fst (on_error m h r))"
    if r: "invar r" for r
  proof (cases "m r")
    case (Pair x r1)
    with readsD [OF assms(1) r] have r1: "invar r1" "view r1 = view r" "ok_res E x" by simp_all
    from r1(3) show ?thesis
      using Pair r1(1,2) readsD [OF assms(2) r1(1)] by (cases rule: ok_res_cases) (simp_all add: on_error_apply)
  qed
  have same: "fst (on_error m h r) = fst (on_error m h r')" if r: "invar r" "invar r'" "view r = view r'" for r r'
  proof (cases "m r"; cases "m r'")
    fix x r1 x' r1' assume eq: "m r = (x, r1)" "m r' = (x', r1')"
    with reads_same [OF assms(1) r] readsD [OF assms(1) r(1)] readsD [OF assms(1) r(2)] r(3)
    have *: "x' = x" "invar r1" "invar r1'" "view r1 = view r1'" "ok_res E x" by simp_all
    from *(5) show ?thesis
      using eq *(1) reads_same [OF assms(2) *(2-4)] by (cases rule: ok_res_cases) (simp_all add: on_error_apply)
  qed
  show ?thesis using step same unfolding reads_def by blast
qed

lemma reads_map_act [reads_intro]:
  assumes "\<And>x. x \<in> set xs \<Longrightarrow> reads E invar view (f x)"
  shows "reads E invar view (map_act f xs)"
  using assms by (induction xs) (auto intro!: reads_intro)

section \<open>Go strings and slices\<close>

text \<open>strconv.Itoa of a non-negative integer, as used by \<open>%d\<close> of an index.\<close>

fun itoa :: "nat \<Rightarrow> string" where
  "itoa n = (if n < 10 then [char_of (48 + n)] else itoa (n div 10) @ [char_of (48 + n mod 10)])"

declare itoa.simps [simp del]

text \<open>The elements of a slice with their indices, as \<open>for i, x := range xs\<close> visits them.\<close>

definition indexed :: "'a list \<Rightarrow> (nat \<times> 'a) list" where
  "indexed xs = zip [0..<length xs] xs"

lemma length_indexed [simp]: "length (indexed xs) = length xs"
  by (simp add: indexed_def)

lemma snd_indexed [simp]: "map snd (indexed xs) = xs"
  by (simp add: indexed_def)

lemma set_indexed_snd: "(i, x) \<in> set (indexed xs) \<Longrightarrow> x \<in> set xs"
  by (auto simp: indexed_def dest: set_zip_rightD)

lemma ex_indexed: "x \<in> set xs \<Longrightarrow> \<exists>i. (i, x) \<in> set (indexed xs)"
  unfolding indexed_def by (metis in_set_impl_in_set_zip2 length_upt diff_zero)

lemma concat_map_Nil: "concat (map f xs) = [] \<longleftrightarrow> (\<forall>x \<in> set xs. f x = [])"
  by (induction xs) auto

text \<open>A key of a Go map that is written in a loop: the last write wins.\<close>

definition go_map :: "(string \<times> 'a) list \<Rightarrow> (string \<rightharpoonup> 'a)" where
  "go_map kvs = foldl (\<lambda>m (k, v). m(k \<mapsto> v)) Map.empty kvs"

lemma foldl_fun_upd: "foldl (\<lambda>m (k, v). m(k \<mapsto> v)) m0 kvs = m0 ++ map_of (rev kvs)"
  by (induction kvs arbitrary: m0) (auto simp: map_add_assoc [symmetric])

lemma go_map_rev: "go_map kvs = map_of (rev kvs)"
  by (simp add: go_map_def foldl_fun_upd)

lemma dom_go_map: "dom (go_map kvs) = fst ` set kvs"
  by (simp add: go_map_rev dom_map_of_conv_image_fst)

lemma go_map_distinct: "distinct (map fst kvs) \<Longrightarrow> go_map kvs = map_of kvs"
  by (metis go_map_rev map_of_inject_set distinct_rev rev_map set_rev)

lemma go_map_Some_in: "go_map kvs k = Some v \<Longrightarrow> (k, v) \<in> set kvs"
  using map_of_SomeD by (fastforce simp: go_map_rev)

section \<open>32-bit integers\<close>

type_synonym int32 = "32 word"

end
