(* ===== verification/Karta_Types.thy ===== *)
theory Karta_Types
  imports Karta_Prelude
begin

text \<open>
  The Karta API types of \<^verbatim>\<open>karta/sdk/pkg/api/runai/v1alpha1\<close> (structure.go, instructions.go, types.go):
  every struct is a record with the source's fields behind a prefix, a Go pointer or optional
  field is an \<open>option\<close>, a string-valued enum is a datatype with the function that gives its string.
  Object metadata (metav1.TypeMeta, metav1.ObjectMeta) belongs to a library and no function modelled here
  reads more of it than the name, so it is kept as the name.
\<close>

section \<open>structure.go\<close>

record GroupVersionKind =
  gvk_Group :: string
  gvk_Version :: string
  gvk_Kind :: string

record SuspendAction =
  sa_Path :: string
  sa_Value :: string

record SuspendDefinition =
  sus_SuspendActions :: "SuspendAction list"
  sus_ResumeActions :: "SuspendAction list"

record FragmentedPodSpecDefinition =
  fd_SchedulerNamePath :: "string option"
  fd_LabelsPath :: "string option"
  fd_AnnotationsPath :: "string option"
  fd_ResourcesPath :: "string option"
  fd_ResourceClaimsPath :: "string option"
  fd_PodAffinityPath :: "string option"
  fd_NodeAffinityPath :: "string option"
  fd_ContainersPath :: "string option"
  fd_ContainerPath :: "string option"
  fd_PriorityClassNamePath :: "string option"
  fd_ImagePath :: "string option"

record SpecDefinition =
  sp_PodTemplateSpecPath :: "string option"
  sp_PodSpecPath :: "string option"
  sp_MetadataPath :: "string option"
  sp_FragmentedPodSpecDefinition :: "FragmentedPodSpecDefinition option"

record ScaleDefinition =
  sc_ReplicasPath :: "string option"
  sc_MinReplicasPath :: "string option"
  sc_MaxReplicasPath :: "string option"

record ComponentTypeSelector =
  cts_KeyPath :: string
  cts_Value :: "string option"

record ComponentInstanceSelector =
  cis_IdPath :: string

record ReplicaSelector =
  rs_KeyPath :: string

record PodSelector =
  psel_ComponentTypeSelector :: "ComponentTypeSelector option"
  psel_ComponentInstanceSelector :: "ComponentInstanceSelector option"
  psel_ReplicaSelector :: "ReplicaSelector option"

datatype ResourceStatus =
    InitializingStatus
  | RunningStatus
  | CompletedStatus
  | FailedStatus
  | DegradedStatus
  | UndefinedStatus
  | SuspendedStatus
  | SuspendingStatus
  | ResumingStatus

fun ResourceStatus_string :: "ResourceStatus \<Rightarrow> string" where
  "ResourceStatus_string InitializingStatus = ''Initializing''"
| "ResourceStatus_string RunningStatus = ''Running''"
| "ResourceStatus_string CompletedStatus = ''Completed''"
| "ResourceStatus_string FailedStatus = ''Failed''"
| "ResourceStatus_string DegradedStatus = ''Degraded''"
| "ResourceStatus_string UndefinedStatus = ''Undefined''"
| "ResourceStatus_string SuspendedStatus = ''Suspended''"
| "ResourceStatus_string SuspendingStatus = ''Suspending''"
| "ResourceStatus_string ResumingStatus = ''Resuming''"

record PhaseDefinition =
  pd_Path :: string

record ConditionsDefinition =
  cdef_Path :: string
  cdef_TypeFieldName :: string
  cdef_StatusFieldName :: string
  cdef_MessageFieldName :: "string option"
  cdef_ReasonFieldName :: "string option"

record ExpressionMatcher =
  em_Expression :: string
  em_ExpectedResult :: string

record ExpectedCondition =
  ec_Type :: string
  ec_Status :: "string option"
  ec_Reason :: "string option"

record StatusMatcher =
  sm_ByPhase :: string
  sm_ByConditions :: "ExpectedCondition list"
  sm_ByExpression :: "ExpressionMatcher option"

record StatusMappings =
  map_Initializing :: "StatusMatcher list"
  map_Running :: "StatusMatcher list"
  map_Completed :: "StatusMatcher list"
  map_Failed :: "StatusMatcher list"
  map_Degraded :: "StatusMatcher list"
  map_Suspended :: "StatusMatcher list"
  map_Suspending :: "StatusMatcher list"
  map_Resuming :: "StatusMatcher list"

text \<open>A StatusMatchEntry is the pair of its two fields.\<close>

type_synonym StatusMatchEntry = "ResourceStatus \<times> StatusMatcher list"

definition Entries :: "StatusMappings \<Rightarrow> StatusMatchEntry list" where
  "Entries m =
     [(ResumingStatus, map_Resuming m),
      (SuspendingStatus, map_Suspending m),
      (SuspendedStatus, map_Suspended m),
      (RunningStatus, map_Running m),
      (FailedStatus, map_Failed m),
      (CompletedStatus, map_Completed m),
      (InitializingStatus, map_Initializing m),
      (DegradedStatus, map_Degraded m)]"

record StatusDefinition =
  std_PhaseDefinition :: "PhaseDefinition option"
  std_ConditionsDefinition :: "ConditionsDefinition option"
  std_StatusMappings :: StatusMappings

record ComponentDefinition =
  cd_Name :: string
  cd_Kind :: "GroupVersionKind option"
  cd_OwnerRef :: "string option"
  cd_SpecDefinition :: "SpecDefinition option"
  cd_ScaleDefinition :: "ScaleDefinition option"
  cd_StatusDefinition :: "StatusDefinition option"
  cd_SuspendDefinition :: "SuspendDefinition option"
  cd_InstanceIdPath :: "string option"
  cd_PodSelector :: "PodSelector option"

text \<open>The zero value of the struct, which a map lookup of a missing key yields.\<close>

definition zero_ComponentDefinition :: ComponentDefinition where
  "zero_ComponentDefinition = \<lparr>cd_Name = [], cd_Kind = None, cd_OwnerRef = None,
     cd_SpecDefinition = None, cd_ScaleDefinition = None, cd_StatusDefinition = None,
     cd_SuspendDefinition = None, cd_InstanceIdPath = None, cd_PodSelector = None\<rparr>"

section \<open>instructions.go\<close>

record TopologyConstraint =
  tc_TopologyName :: string
  tc_PreferredTopologyLevel :: string
  tc_RequiredTopologyLevel :: string

record SubGroupComponentMapping =
  sg_ComponentName :: string
  sg_Topology :: "TopologyConstraint option"

record PodGroupComponentsMapping =
  pgm_Name :: string
  pgm_SubGroups :: "SubGroupComponentMapping list"
  pgm_Topology :: "TopologyConstraint option"

record PodGroupMemberDefinition =
  mem_ComponentName :: string
  mem_GroupByKeyPaths :: "string list"
  mem_Filters :: "string list"

record PodGroupDefinition =
  pg_Name :: string
  pg_Members :: "PodGroupMemberDefinition list"

record GangSchedulingInstruction =
  gs_PodGroups :: "PodGroupDefinition list"
  gs_PodGroup :: "PodGroupComponentsMapping option"

section \<open>types.go\<close>

record StructureDefinition =
  str_RootComponent :: ComponentDefinition
  str_ChildComponents :: "ComponentDefinition list"
  str_AdditionalChildKinds :: "GroupVersionKind list"

record OptimizationInstructions =
  oi_GangScheduling :: "GangSchedulingInstruction option"

record KartaSpec =
  ks_StructureDefinition :: StructureDefinition
  ks_Instructions :: OptimizationInstructions

record Karta =
  k_Name :: string
  k_Spec :: KartaSpec

abbreviation root_of :: "Karta \<Rightarrow> ComponentDefinition" where
  "root_of k \<equiv> str_RootComponent (ks_StructureDefinition (k_Spec k))"

abbreviation children_of :: "Karta \<Rightarrow> ComponentDefinition list" where
  "children_of k \<equiv> str_ChildComponents (ks_StructureDefinition (k_Spec k))"

abbreviation gang_of :: "Karta \<Rightarrow> GangSchedulingInstruction option" where
  "gang_of k \<equiv> oi_GangScheduling (ks_Instructions (k_Spec k))"

section \<open>Facts about the enumeration\<close>

text \<open>The nine status strings are different, so a status can be recovered from its string.\<close>

lemma ResourceStatus_string_inject:
  "ResourceStatus_string s = ResourceStatus_string t \<longleftrightarrow> s = t"
  by (cases s; cases t) simp_all

text \<open>Entries lists every status but Undefined, each once.\<close>

lemma Entries_statuses: "set (map fst (Entries m)) = UNIV - {UndefinedStatus}"
proof -
  have "s \<in> set (map fst (Entries m)) \<longleftrightarrow> s \<noteq> UndefinedStatus" for s
    by (cases s) (simp_all add: Entries_def)
  then show ?thesis by auto
qed

lemma Entries_distinct: "distinct (map fst (Entries m))"
  by (simp add: Entries_def)

end
