(* ===== verification/JQ_Validation.thy ===== *)
theory JQ_Validation
  imports Karta_Types
begin

text \<open>
  \<^verbatim>\<open>karta/sdk/pkg/jq/validation.go\<close>: the reflection-driven search for fields tagged \<^verbatim>\<open>jq:"validate"\<close>
  and the read-only check of each parsed expression. The parser gojq.Parse is an argument; the tree
  it returns is seen only through package reflect, so it is modelled as the tree of reflect values the
  code walks (\<open>ast\<close>). The reflection of the Karta struct with its tags is \<open>karta_rval\<close>.
\<close>

section \<open>The parsed query as reflect values\<close>

datatype gojq_op =
    OpAssign | OpModify | OpUpdateAdd | OpUpdateSub | OpUpdateMul | OpUpdateDiv | OpUpdateMod
  | OpUpdateAlt | OpOther string

datatype gojq_term_type = TermTypeRecurse | TermTypeOther string

datatype gojq_node =
    QueryNode gojq_op
  | TermNode gojq_term_type
  | FuncNode string
  | OtherNode

text \<open>
  An invalid value; a nil pointer or interface; a non-nil pointer or interface; a struct with its
  addressability, what \<open>v.Addr().Interface()\<close> is, and its fields; a slice or array; any other kind.
\<close>

datatype ast =
    AInvalid
  | ANil
  | AElem ast
  | AStruct bool gojq_node "ast list"
  | ASeq "ast list"
  | ALeaf

section \<open>The read-only check\<close>

fun op_string :: "gojq_op \<Rightarrow> string" where
  "op_string OpAssign = ''=''"
| "op_string OpModify = ''|=''"
| "op_string OpUpdateAdd = ''+=''"
| "op_string OpUpdateSub = ''-=''"
| "op_string OpUpdateMul = ''*=''"
| "op_string OpUpdateDiv = ''/=''"
| "op_string OpUpdateMod = ''%=''"
| "op_string OpUpdateAlt = ''//=''"
| "op_string (OpOther s) = s"

fun modifying_op :: "gojq_op \<Rightarrow> bool" where
  "modifying_op (OpOther s) = False"
| "modifying_op op = True"

fun checkASTNode :: "bool \<Rightarrow> gojq_node \<Rightarrow> goerr option" where
  "checkASTNode canAddr n =
     (if \<not> canAddr then None
      else case n of
        QueryNode op \<Rightarrow>
          if modifying_op op
          then Some (Errorf ''modifying operator '%s' is not allowed'' [AStr (op_string op)])
          else None
      | TermNode t \<Rightarrow> if t = TermTypeRecurse then Some ErrRecursiveDescent else None
      | FuncNode name \<Rightarrow>
          if name = ''del'' then Some ErrDelFunc
          else if name \<in> {''range'', ''paths'', ''recurse'', ''walk'', ''repeat''}
          then Some (Errorf ''function '%s' may produce excessive output and is not allowed'' [AStr name])
          else None
      | OtherNode \<Rightarrow> None)"

fun walkAST :: "ast \<Rightarrow> goerr option"
  and walkASTs :: "ast list \<Rightarrow> goerr option" where
  "walkAST AInvalid = None"
| "walkAST ANil = None"
| "walkAST (AElem v) = walkAST v"
| "walkAST (AStruct canAddr n fs) =
     (case checkASTNode canAddr n of Some e \<Rightarrow> Some e | None \<Rightarrow> walkASTs fs)"
| "walkAST (ASeq vs) = walkASTs vs"
| "walkAST ALeaf = None"
| "walkASTs [] = None"
| "walkASTs (v # vs) = (case walkAST v of Some e \<Rightarrow> Some e | None \<Rightarrow> walkASTs vs)"

text \<open>\<open>reflect.ValueOf(q)\<close> of the pointer that gojq.Parse returned.\<close>

definition ValidateParsedJQ :: "ast \<Rightarrow> goerr option" where
  "ValidateParsedJQ q = walkAST q"

text \<open>Specification side: the struct nodes of a tree in the order the walk meets them.\<close>

fun preorder :: "ast \<Rightarrow> (bool \<times> gojq_node) list" where
  "preorder (AElem v) = preorder v"
| "preorder (AStruct canAddr n fs) = (canAddr, n) # concat (map preorder fs)"
| "preorder (ASeq vs) = concat (map preorder vs)"
| "preorder v = []"

fun first_error :: "('a \<Rightarrow> goerr option) \<Rightarrow> 'a list \<Rightarrow> goerr option" where
  "first_error f [] = None"
| "first_error f (x # xs) = (case f x of Some e \<Rightarrow> Some e | None \<Rightarrow> first_error f xs)"

lemma first_error_append:
  "first_error f (xs @ ys) = (case first_error f xs of Some e \<Rightarrow> Some e | None \<Rightarrow> first_error f ys)"
  by (induction xs) (auto split: option.splits)

lemma first_error_None: "first_error f xs = None \<longleftrightarrow> (\<forall>x \<in> set xs. f x = None)"
  by (induction xs) (auto split: option.splits)

lemma walk_first_error:
  "walkAST a = first_error (case_prod checkASTNode) (preorder a)"
  "walkASTs as = first_error (case_prod checkASTNode) (concat (map preorder as))"
  by (induction a and as rule: walkAST_walkASTs.induct)
     (auto simp: first_error_append simp del: checkASTNode.simps split: option.splits)

section \<open>The reflection walk\<close>

text \<open>
  reflect.Value as the walk inspects it. The flag of a pointer, slice or map says whether the static
  element type is string. A struct field carries whether it is exported, its name and its jq tag.
\<close>

datatype rval =
    RInvalid
  | RString string
  | RPtr bool "rval option"
  | RStruct "rfield list"
  | RSlice bool "rval list"
  | RMap bool "(string \<times> rval) list"
  | ROther
and rfield = RField bool string "string option" rval

text \<open>Go's \<open>fmt.Sprintf("%s[%d]", p, i)\<close>, \<open>fmt.Sprintf("%s[%v]", p, k)\<close> and buildFieldPath.\<close>

definition index_path :: "string \<Rightarrow> nat \<Rightarrow> string" where
  "index_path p i = p @ ''['' @ itoa i @ '']''"

definition key_path :: "string \<Rightarrow> string \<Rightarrow> string" where
  "key_path p k = p @ ''['' @ k @ '']''"

definition buildFieldPath :: "string \<Rightarrow> string \<Rightarrow> string" where
  "buildFieldPath base name = (if base = [] then name else base @ ''.'' @ name)"

fun isStringField :: "rval \<Rightarrow> bool" where
  "isStringField (RString s) = True"
| "isStringField (RPtr str v) = str"
| "isStringField v = False"

fun isStringSliceField :: "rval \<Rightarrow> bool" where
  "isStringSliceField (RSlice str vs) = str"
| "isStringSliceField v = False"

fun isStringMapField :: "rval \<Rightarrow> bool" where
  "isStringMapField (RMap str kvs) = str"
| "isStringMapField v = False"

definition tag_type_error :: "string \<Rightarrow> goerr" where
  "tag_type_error p = Errorf ''%s: jq:'validate' tag can only be used on string or *string fields'' [AStr p]"

definition validateExpression :: "(string \<Rightarrow> goerr + ast) \<Rightarrow> string \<Rightarrow> string \<Rightarrow> goerr option" where
  "validateExpression parse expr path =
     (if expr = [] then None
      else case parse expr of
        Inl e \<Rightarrow> Some (Wrapf ''failed to parse JQ expression '%s' at '%s': %w'' [AStr expr, AStr path] e)
      | Inr parsed \<Rightarrow>
          (case ValidateParsedJQ parsed of
             Some e \<Rightarrow> Some (Wrapf ''JQ expression '%s' at '%s' failed validation: %w'' [AStr expr, AStr path] e)
           | None \<Rightarrow> None))"

fun validateStringField :: "(string \<Rightarrow> goerr + ast) \<Rightarrow> rval \<Rightarrow> string \<Rightarrow> goerr option" where
  "validateStringField parse (RPtr str None) path = None"
| "validateStringField parse (RPtr str (Some (RString s))) path = validateExpression parse s path"
| "validateStringField parse (RPtr str (Some v)) path = Some (tag_type_error path)"
| "validateStringField parse (RString s) path = validateExpression parse s path"
| "validateStringField parse v path = Some (tag_type_error path)"

definition errs_of :: "goerr option \<Rightarrow> goerr list" where
  "errs_of x = (case x of None \<Rightarrow> [] | Some e \<Rightarrow> [e])"

fun handleTaggedStructField :: "(string \<Rightarrow> goerr + ast) \<Rightarrow> rval \<Rightarrow> string \<Rightarrow> goerr list" where
  "handleTaggedStructField parse field path =
     (if isStringField field then errs_of (validateStringField parse field path)
      else case field of
        RSlice True vs \<Rightarrow>
          concat (map (\<lambda>(j, v). errs_of (validateStringField parse v (index_path path j))) (indexed vs))
      | RMap True kvs \<Rightarrow>
          concat (map (\<lambda>(k, v). errs_of (validateStringField parse v (key_path path k))) kvs)
      | _ \<Rightarrow> [Errorf ''%s: jq:'validate' tag can only be used on string, *string, []string, and map[K]string fields''
                [AStr path]])"

text \<open>
  validateJQExpressionsRecursive dereferences one pointer and dispatches on the kind
  (validateKind); the struct, slice and map walks are the other three functions of the group.
\<close>

function validateKind :: "(string \<Rightarrow> goerr + ast) \<Rightarrow> rval \<Rightarrow> string \<Rightarrow> goerr list"
  and validateJQExpressionsRecursive :: "(string \<Rightarrow> goerr + ast) \<Rightarrow> rval \<Rightarrow> string \<Rightarrow> goerr list"
  and validateJQExpressionsInStruct :: "(string \<Rightarrow> goerr + ast) \<Rightarrow> rfield list \<Rightarrow> string \<Rightarrow> goerr list"
  and validateJQExpressionsInSlice :: "(string \<Rightarrow> goerr + ast) \<Rightarrow> nat \<Rightarrow> rval list \<Rightarrow> string \<Rightarrow> goerr list"
  and validateJQExpressionsInMap :: "(string \<Rightarrow> goerr + ast) \<Rightarrow> (string \<times> rval) list \<Rightarrow> string \<Rightarrow> goerr list" where
  "validateKind parse val path =
     (case val of
        RStruct fs \<Rightarrow> validateJQExpressionsInStruct parse fs path
      | RSlice str vs \<Rightarrow> validateJQExpressionsInSlice parse 0 vs path
      | RMap str kvs \<Rightarrow> validateJQExpressionsInMap parse kvs path
      | _ \<Rightarrow> [])"
| "validateJQExpressionsRecursive parse val path =
     (case val of
        RInvalid \<Rightarrow> []
      | RPtr str None \<Rightarrow> []
      | RPtr str (Some v) \<Rightarrow> validateKind parse v path
      | RStruct fs \<Rightarrow> validateJQExpressionsInStruct parse fs path
      | RSlice str vs \<Rightarrow> validateJQExpressionsInSlice parse 0 vs path
      | RMap str kvs \<Rightarrow> validateJQExpressionsInMap parse kvs path
      | _ \<Rightarrow> [])"
| "validateJQExpressionsInStruct parse [] base = []"
| "validateJQExpressionsInStruct parse (RField exported name tag v # fs) base =
     (if \<not> exported then []
      else if tag = Some ''validate'' then handleTaggedStructField parse v (buildFieldPath base name)
      else validateJQExpressionsRecursive parse v (buildFieldPath base name))
     @ validateJQExpressionsInStruct parse fs base"
| "validateJQExpressionsInSlice parse i [] base = []"
| "validateJQExpressionsInSlice parse i (v # vs) base =
     validateJQExpressionsRecursive parse v (index_path base i)
     @ validateJQExpressionsInSlice parse (Suc i) vs base"
| "validateJQExpressionsInMap parse [] base = []"
| "validateJQExpressionsInMap parse ((k, v) # kvs) base =
     validateJQExpressionsRecursive parse v (key_path base k)
     @ validateJQExpressionsInMap parse kvs base"
  by pat_completeness auto
termination
  by (relation "measure (case_sum (case_sum (\<lambda>(parse, v, path). size v) (\<lambda>(parse, v, path). size v))
        (case_sum (\<lambda>(parse, fs, base). size_list size fs)
          (case_sum (\<lambda>(parse, i, vs, base). size_list size vs)
            (\<lambda>(parse, kvs, base). size_list (size_prod (\<lambda>_. 0) size) kvs))))") auto

declare validateKind.simps [simp del] validateJQExpressionsRecursive.simps [simp del]

definition ValidateJQExpressions :: "(string \<Rightarrow> goerr + ast) \<Rightarrow> rval \<Rightarrow> goerr list" where
  "ValidateJQExpressions parse v = validateJQExpressionsRecursive parse v []"


section \<open>The reflection of a Karta\<close>

text \<open>Fields as they are declared: an exported field without a jq tag, and one tagged for validation.\<close>

abbreviation plain :: "string \<Rightarrow> rval \<Rightarrow> rfield" where
  "plain name v \<equiv> RField True name None v"

abbreviation tagged :: "string \<Rightarrow> rval \<Rightarrow> rfield" where
  "tagged name v \<equiv> RField True name (Some ''validate'') v"

definition str_ptr :: "string option \<Rightarrow> rval" where
  "str_ptr x = RPtr True (map_option RString x)"

definition ptr_to :: "('a \<Rightarrow> rval) \<Rightarrow> 'a option \<Rightarrow> rval" where
  "ptr_to f x = RPtr False (map_option f x)"

definition slice_of :: "('a \<Rightarrow> rval) \<Rightarrow> 'a list \<Rightarrow> rval" where
  "slice_of f xs = RSlice False (map f xs)"

definition str_slice :: "string list \<Rightarrow> rval" where
  "str_slice xs = RSlice True (map RString xs)"

definition GroupVersionKind_rval :: "GroupVersionKind \<Rightarrow> rval" where
  "GroupVersionKind_rval g = RStruct
     [plain ''Group'' (RString (gvk_Group g)), plain ''Version'' (RString (gvk_Version g)),
      plain ''Kind'' (RString (gvk_Kind g))]"

definition SuspendAction_rval :: "SuspendAction \<Rightarrow> rval" where
  "SuspendAction_rval a = RStruct
     [tagged ''Path'' (RString (sa_Path a)), plain ''Value'' (RString (sa_Value a))]"

definition SuspendDefinition_rval :: "SuspendDefinition \<Rightarrow> rval" where
  "SuspendDefinition_rval d = RStruct
     [plain ''SuspendActions'' (slice_of SuspendAction_rval (sus_SuspendActions d)),
      plain ''ResumeActions'' (slice_of SuspendAction_rval (sus_ResumeActions d))]"

definition FragmentedPodSpecDefinition_rval :: "FragmentedPodSpecDefinition \<Rightarrow> rval" where
  "FragmentedPodSpecDefinition_rval d = RStruct
     [tagged ''SchedulerNamePath'' (str_ptr (fd_SchedulerNamePath d)),
      tagged ''LabelsPath'' (str_ptr (fd_LabelsPath d)),
      tagged ''AnnotationsPath'' (str_ptr (fd_AnnotationsPath d)),
      tagged ''ResourcesPath'' (str_ptr (fd_ResourcesPath d)),
      tagged ''ResourceClaimsPath'' (str_ptr (fd_ResourceClaimsPath d)),
      tagged ''PodAffinityPath'' (str_ptr (fd_PodAffinityPath d)),
      tagged ''NodeAffinityPath'' (str_ptr (fd_NodeAffinityPath d)),
      tagged ''ContainersPath'' (str_ptr (fd_ContainersPath d)),
      tagged ''ContainerPath'' (str_ptr (fd_ContainerPath d)),
      tagged ''PriorityClassNamePath'' (str_ptr (fd_PriorityClassNamePath d)),
      tagged ''ImagePath'' (str_ptr (fd_ImagePath d))]"

definition SpecDefinition_rval :: "SpecDefinition \<Rightarrow> rval" where
  "SpecDefinition_rval d = RStruct
     [tagged ''PodTemplateSpecPath'' (str_ptr (sp_PodTemplateSpecPath d)),
      tagged ''PodSpecPath'' (str_ptr (sp_PodSpecPath d)),
      tagged ''MetadataPath'' (str_ptr (sp_MetadataPath d)),
      plain ''FragmentedPodSpecDefinition''
        (ptr_to FragmentedPodSpecDefinition_rval (sp_FragmentedPodSpecDefinition d))]"

definition ScaleDefinition_rval :: "ScaleDefinition \<Rightarrow> rval" where
  "ScaleDefinition_rval d = RStruct
     [tagged ''ReplicasPath'' (str_ptr (sc_ReplicasPath d)),
      tagged ''MinReplicasPath'' (str_ptr (sc_MinReplicasPath d)),
      tagged ''MaxReplicasPath'' (str_ptr (sc_MaxReplicasPath d))]"

definition ComponentTypeSelector_rval :: "ComponentTypeSelector \<Rightarrow> rval" where
  "ComponentTypeSelector_rval s = RStruct
     [tagged ''KeyPath'' (RString (cts_KeyPath s)), plain ''Value'' (str_ptr (cts_Value s))]"

definition ComponentInstanceSelector_rval :: "ComponentInstanceSelector \<Rightarrow> rval" where
  "ComponentInstanceSelector_rval s = RStruct [tagged ''IdPath'' (RString (cis_IdPath s))]"

definition ReplicaSelector_rval :: "ReplicaSelector \<Rightarrow> rval" where
  "ReplicaSelector_rval s = RStruct [tagged ''KeyPath'' (RString (rs_KeyPath s))]"

definition PodSelector_rval :: "PodSelector \<Rightarrow> rval" where
  "PodSelector_rval s = RStruct
     [plain ''ComponentTypeSelector'' (ptr_to ComponentTypeSelector_rval (psel_ComponentTypeSelector s)),
      plain ''ComponentInstanceSelector''
        (ptr_to ComponentInstanceSelector_rval (psel_ComponentInstanceSelector s)),
      plain ''ReplicaSelector'' (ptr_to ReplicaSelector_rval (psel_ReplicaSelector s))]"

definition ExpectedCondition_rval :: "ExpectedCondition \<Rightarrow> rval" where
  "ExpectedCondition_rval c = RStruct
     [plain ''Type'' (RString (ec_Type c)), plain ''Status'' (str_ptr (ec_Status c)),
      plain ''Reason'' (str_ptr (ec_Reason c))]"

definition ExpressionMatcher_rval :: "ExpressionMatcher \<Rightarrow> rval" where
  "ExpressionMatcher_rval m = RStruct
     [tagged ''Expression'' (RString (em_Expression m)),
      plain ''ExpectedResult'' (RString (em_ExpectedResult m))]"

definition StatusMatcher_rval :: "StatusMatcher \<Rightarrow> rval" where
  "StatusMatcher_rval m = RStruct
     [plain ''ByPhase'' (RString (sm_ByPhase m)),
      plain ''ByConditions'' (slice_of ExpectedCondition_rval (sm_ByConditions m)),
      plain ''ByExpression'' (ptr_to ExpressionMatcher_rval (sm_ByExpression m))]"

definition StatusMappings_rval :: "StatusMappings \<Rightarrow> rval" where
  "StatusMappings_rval m = RStruct
     [plain ''Initializing'' (slice_of StatusMatcher_rval (map_Initializing m)),
      plain ''Running'' (slice_of StatusMatcher_rval (map_Running m)),
      plain ''Completed'' (slice_of StatusMatcher_rval (map_Completed m)),
      plain ''Failed'' (slice_of StatusMatcher_rval (map_Failed m)),
      plain ''Degraded'' (slice_of StatusMatcher_rval (map_Degraded m)),
      plain ''Suspended'' (slice_of StatusMatcher_rval (map_Suspended m)),
      plain ''Suspending'' (slice_of StatusMatcher_rval (map_Suspending m)),
      plain ''Resuming'' (slice_of StatusMatcher_rval (map_Resuming m))]"

definition PhaseDefinition_rval :: "PhaseDefinition \<Rightarrow> rval" where
  "PhaseDefinition_rval d = RStruct [tagged ''Path'' (RString (pd_Path d))]"

definition ConditionsDefinition_rval :: "ConditionsDefinition \<Rightarrow> rval" where
  "ConditionsDefinition_rval d = RStruct
     [tagged ''Path'' (RString (cdef_Path d)),
      plain ''TypeFieldName'' (RString (cdef_TypeFieldName d)),
      plain ''StatusFieldName'' (RString (cdef_StatusFieldName d)),
      plain ''MessageFieldName'' (str_ptr (cdef_MessageFieldName d)),
      plain ''ReasonFieldName'' (str_ptr (cdef_ReasonFieldName d))]"

definition StatusDefinition_rval :: "StatusDefinition \<Rightarrow> rval" where
  "StatusDefinition_rval d = RStruct
     [plain ''PhaseDefinition'' (ptr_to PhaseDefinition_rval (std_PhaseDefinition d)),
      plain ''ConditionsDefinition'' (ptr_to ConditionsDefinition_rval (std_ConditionsDefinition d)),
      plain ''StatusMappings'' (StatusMappings_rval (std_StatusMappings d))]"

definition ComponentDefinition_rval :: "ComponentDefinition \<Rightarrow> rval" where
  "ComponentDefinition_rval c = RStruct
     [plain ''Name'' (RString (cd_Name c)),
      plain ''Kind'' (ptr_to GroupVersionKind_rval (cd_Kind c)),
      plain ''OwnerRef'' (str_ptr (cd_OwnerRef c)),
      plain ''SpecDefinition'' (ptr_to SpecDefinition_rval (cd_SpecDefinition c)),
      plain ''ScaleDefinition'' (ptr_to ScaleDefinition_rval (cd_ScaleDefinition c)),
      plain ''StatusDefinition'' (ptr_to StatusDefinition_rval (cd_StatusDefinition c)),
      plain ''SuspendDefinition'' (ptr_to SuspendDefinition_rval (cd_SuspendDefinition c)),
      tagged ''InstanceIdPath'' (str_ptr (cd_InstanceIdPath c)),
      plain ''PodSelector'' (ptr_to PodSelector_rval (cd_PodSelector c))]"

definition TopologyConstraint_rval :: "TopologyConstraint \<Rightarrow> rval" where
  "TopologyConstraint_rval t = RStruct
     [plain ''TopologyName'' (RString (tc_TopologyName t)),
      plain ''PreferredTopologyLevel'' (RString (tc_PreferredTopologyLevel t)),
      plain ''RequiredTopologyLevel'' (RString (tc_RequiredTopologyLevel t))]"

definition SubGroupComponentMapping_rval :: "SubGroupComponentMapping \<Rightarrow> rval" where
  "SubGroupComponentMapping_rval s = RStruct
     [plain ''ComponentName'' (RString (sg_ComponentName s)),
      plain ''Topology'' (ptr_to TopologyConstraint_rval (sg_Topology s))]"

definition PodGroupComponentsMapping_rval :: "PodGroupComponentsMapping \<Rightarrow> rval" where
  "PodGroupComponentsMapping_rval m = RStruct
     [plain ''Name'' (RString (pgm_Name m)),
      plain ''SubGroups'' (slice_of SubGroupComponentMapping_rval (pgm_SubGroups m)),
      plain ''Topology'' (ptr_to TopologyConstraint_rval (pgm_Topology m))]"

definition PodGroupMemberDefinition_rval :: "PodGroupMemberDefinition \<Rightarrow> rval" where
  "PodGroupMemberDefinition_rval m = RStruct
     [plain ''ComponentName'' (RString (mem_ComponentName m)),
      tagged ''GroupByKeyPaths'' (str_slice (mem_GroupByKeyPaths m)),
      tagged ''Filters'' (str_slice (mem_Filters m))]"

definition PodGroupDefinition_rval :: "PodGroupDefinition \<Rightarrow> rval" where
  "PodGroupDefinition_rval g = RStruct
     [plain ''Name'' (RString (pg_Name g)),
      plain ''Members'' (slice_of PodGroupMemberDefinition_rval (pg_Members g))]"

definition GangSchedulingInstruction_rval :: "GangSchedulingInstruction \<Rightarrow> rval" where
  "GangSchedulingInstruction_rval g = RStruct
     [plain ''PodGroups'' (slice_of PodGroupDefinition_rval (gs_PodGroups g)),
      plain ''PodGroup'' (ptr_to PodGroupComponentsMapping_rval (gs_PodGroup g))]"

definition StructureDefinition_rval :: "StructureDefinition \<Rightarrow> rval" where
  "StructureDefinition_rval d = RStruct
     [plain ''RootComponent'' (ComponentDefinition_rval (str_RootComponent d)),
      plain ''ChildComponents'' (slice_of ComponentDefinition_rval (str_ChildComponents d)),
      plain ''AdditionalChildKinds'' (slice_of GroupVersionKind_rval (str_AdditionalChildKinds d))]"

definition OptimizationInstructions_rval :: "OptimizationInstructions \<Rightarrow> rval" where
  "OptimizationInstructions_rval i = RStruct
     [plain ''GangScheduling'' (ptr_to GangSchedulingInstruction_rval (oi_GangScheduling i))]"

definition KartaSpec_rval :: "KartaSpec \<Rightarrow> rval" where
  "KartaSpec_rval s = RStruct
     [plain ''StructureDefinition'' (StructureDefinition_rval (ks_StructureDefinition s)),
      plain ''Instructions'' (OptimizationInstructions_rval (ks_Instructions s))]"

text \<open>
  \<open>reflect.ValueOf(karta)\<close> of a non-nil pointer. The embedded metadata and the status are structs of
  package metav1, whose fields carry no jq tag, so the walk finds nothing in them.
\<close>

definition karta_rval :: "Karta \<Rightarrow> rval" where
  "karta_rval k = RPtr False (Some (RStruct
     [plain ''TypeMeta'' ROther, plain ''ObjectMeta'' ROther,
      plain ''Spec'' (KartaSpec_rval (k_Spec k)), plain ''Status'' ROther]))"

end
