(* ===== verification/Karta_Paths.thy ===== *)
theory Karta_Paths
  imports JQ_Validation
begin

text \<open>
  Specification of the jq expressions a Karta holds: for every struct, the list of its expressions with
  the field path the error message names, written over the API records and not over reflection.
  The main fact is that the reflection walk of JQ\_Validation reports exactly the invalid ones among
  these, in this order.
\<close>

named_theorems walk_simps \<open>the reflection walk of one struct, as a list of checked expressions\<close>

type_synonym jq_field = "string \<times> string"

section \<open>The expressions of each struct\<close>

definition opt_jq :: "string \<Rightarrow> string option \<Rightarrow> jq_field list" where
  "opt_jq path x = (case x of None \<Rightarrow> [] | Some s \<Rightarrow> [(path, s)])"

definition ptr_jq :: "(string \<Rightarrow> 'a \<Rightarrow> jq_field list) \<Rightarrow> string \<Rightarrow> 'a option \<Rightarrow> jq_field list" where
  "ptr_jq f path x = (case x of None \<Rightarrow> [] | Some a \<Rightarrow> f path a)"

definition slice_jq :: "(string \<Rightarrow> 'a \<Rightarrow> jq_field list) \<Rightarrow> string \<Rightarrow> 'a list \<Rightarrow> jq_field list" where
  "slice_jq f path xs = concat (map (\<lambda>(i, x). f (index_path path i) x) (indexed xs))"

definition strs_jq :: "string \<Rightarrow> string list \<Rightarrow> jq_field list" where
  "strs_jq path xs = map (\<lambda>(i, s). (index_path path i, s)) (indexed xs)"

definition SuspendAction_jq :: "string \<Rightarrow> SuspendAction \<Rightarrow> jq_field list" where
  "SuspendAction_jq p a = [(buildFieldPath p ''Path'', sa_Path a)]"

definition SuspendDefinition_jq :: "string \<Rightarrow> SuspendDefinition \<Rightarrow> jq_field list" where
  "SuspendDefinition_jq p d =
     slice_jq SuspendAction_jq (buildFieldPath p ''SuspendActions'') (sus_SuspendActions d)
     @ slice_jq SuspendAction_jq (buildFieldPath p ''ResumeActions'') (sus_ResumeActions d)"

definition FragmentedPodSpecDefinition_jq :: "string \<Rightarrow> FragmentedPodSpecDefinition \<Rightarrow> jq_field list" where
  "FragmentedPodSpecDefinition_jq p d =
     opt_jq (buildFieldPath p ''SchedulerNamePath'') (fd_SchedulerNamePath d)
     @ opt_jq (buildFieldPath p ''LabelsPath'') (fd_LabelsPath d)
     @ opt_jq (buildFieldPath p ''AnnotationsPath'') (fd_AnnotationsPath d)
     @ opt_jq (buildFieldPath p ''ResourcesPath'') (fd_ResourcesPath d)
     @ opt_jq (buildFieldPath p ''ResourceClaimsPath'') (fd_ResourceClaimsPath d)
     @ opt_jq (buildFieldPath p ''PodAffinityPath'') (fd_PodAffinityPath d)
     @ opt_jq (buildFieldPath p ''NodeAffinityPath'') (fd_NodeAffinityPath d)
     @ opt_jq (buildFieldPath p ''ContainersPath'') (fd_ContainersPath d)
     @ opt_jq (buildFieldPath p ''ContainerPath'') (fd_ContainerPath d)
     @ opt_jq (buildFieldPath p ''PriorityClassNamePath'') (fd_PriorityClassNamePath d)
     @ opt_jq (buildFieldPath p ''ImagePath'') (fd_ImagePath d)"

definition SpecDefinition_jq :: "string \<Rightarrow> SpecDefinition \<Rightarrow> jq_field list" where
  "SpecDefinition_jq p d =
     opt_jq (buildFieldPath p ''PodTemplateSpecPath'') (sp_PodTemplateSpecPath d)
     @ opt_jq (buildFieldPath p ''PodSpecPath'') (sp_PodSpecPath d)
     @ opt_jq (buildFieldPath p ''MetadataPath'') (sp_MetadataPath d)
     @ ptr_jq FragmentedPodSpecDefinition_jq (buildFieldPath p ''FragmentedPodSpecDefinition'')
         (sp_FragmentedPodSpecDefinition d)"

definition ScaleDefinition_jq :: "string \<Rightarrow> ScaleDefinition \<Rightarrow> jq_field list" where
  "ScaleDefinition_jq p d =
     opt_jq (buildFieldPath p ''ReplicasPath'') (sc_ReplicasPath d)
     @ opt_jq (buildFieldPath p ''MinReplicasPath'') (sc_MinReplicasPath d)
     @ opt_jq (buildFieldPath p ''MaxReplicasPath'') (sc_MaxReplicasPath d)"

definition ComponentTypeSelector_jq :: "string \<Rightarrow> ComponentTypeSelector \<Rightarrow> jq_field list" where
  "ComponentTypeSelector_jq p s = [(buildFieldPath p ''KeyPath'', cts_KeyPath s)]"

definition ComponentInstanceSelector_jq :: "string \<Rightarrow> ComponentInstanceSelector \<Rightarrow> jq_field list" where
  "ComponentInstanceSelector_jq p s = [(buildFieldPath p ''IdPath'', cis_IdPath s)]"

definition ReplicaSelector_jq :: "string \<Rightarrow> ReplicaSelector \<Rightarrow> jq_field list" where
  "ReplicaSelector_jq p s = [(buildFieldPath p ''KeyPath'', rs_KeyPath s)]"

definition PodSelector_jq :: "string \<Rightarrow> PodSelector \<Rightarrow> jq_field list" where
  "PodSelector_jq p s =
     ptr_jq ComponentTypeSelector_jq (buildFieldPath p ''ComponentTypeSelector'')
       (psel_ComponentTypeSelector s)
     @ ptr_jq ComponentInstanceSelector_jq (buildFieldPath p ''ComponentInstanceSelector'')
       (psel_ComponentInstanceSelector s)
     @ ptr_jq ReplicaSelector_jq (buildFieldPath p ''ReplicaSelector'') (psel_ReplicaSelector s)"

definition ExpressionMatcher_jq :: "string \<Rightarrow> ExpressionMatcher \<Rightarrow> jq_field list" where
  "ExpressionMatcher_jq p m = [(buildFieldPath p ''Expression'', em_Expression m)]"

definition StatusMatcher_jq :: "string \<Rightarrow> StatusMatcher \<Rightarrow> jq_field list" where
  "StatusMatcher_jq p m = ptr_jq ExpressionMatcher_jq (buildFieldPath p ''ByExpression'') (sm_ByExpression m)"

definition StatusMappings_jq :: "string \<Rightarrow> StatusMappings \<Rightarrow> jq_field list" where
  "StatusMappings_jq p m =
     slice_jq StatusMatcher_jq (buildFieldPath p ''Initializing'') (map_Initializing m)
     @ slice_jq StatusMatcher_jq (buildFieldPath p ''Running'') (map_Running m)
     @ slice_jq StatusMatcher_jq (buildFieldPath p ''Completed'') (map_Completed m)
     @ slice_jq StatusMatcher_jq (buildFieldPath p ''Failed'') (map_Failed m)
     @ slice_jq StatusMatcher_jq (buildFieldPath p ''Degraded'') (map_Degraded m)
     @ slice_jq StatusMatcher_jq (buildFieldPath p ''Suspended'') (map_Suspended m)
     @ slice_jq StatusMatcher_jq (buildFieldPath p ''Suspending'') (map_Suspending m)
     @ slice_jq StatusMatcher_jq (buildFieldPath p ''Resuming'') (map_Resuming m)"

definition PhaseDefinition_jq :: "string \<Rightarrow> PhaseDefinition \<Rightarrow> jq_field list" where
  "PhaseDefinition_jq p d = [(buildFieldPath p ''Path'', pd_Path d)]"

definition ConditionsDefinition_jq :: "string \<Rightarrow> ConditionsDefinition \<Rightarrow> jq_field list" where
  "ConditionsDefinition_jq p d = [(buildFieldPath p ''Path'', cdef_Path d)]"

definition StatusDefinition_jq :: "string \<Rightarrow> StatusDefinition \<Rightarrow> jq_field list" where
  "StatusDefinition_jq p d =
     ptr_jq PhaseDefinition_jq (buildFieldPath p ''PhaseDefinition'') (std_PhaseDefinition d)
     @ ptr_jq ConditionsDefinition_jq (buildFieldPath p ''ConditionsDefinition'') (std_ConditionsDefinition d)
     @ StatusMappings_jq (buildFieldPath p ''StatusMappings'') (std_StatusMappings d)"

definition ComponentDefinition_jq :: "string \<Rightarrow> ComponentDefinition \<Rightarrow> jq_field list" where
  "ComponentDefinition_jq p c =
     ptr_jq SpecDefinition_jq (buildFieldPath p ''SpecDefinition'') (cd_SpecDefinition c)
     @ ptr_jq ScaleDefinition_jq (buildFieldPath p ''ScaleDefinition'') (cd_ScaleDefinition c)
     @ ptr_jq StatusDefinition_jq (buildFieldPath p ''StatusDefinition'') (cd_StatusDefinition c)
     @ ptr_jq SuspendDefinition_jq (buildFieldPath p ''SuspendDefinition'') (cd_SuspendDefinition c)
     @ opt_jq (buildFieldPath p ''InstanceIdPath'') (cd_InstanceIdPath c)
     @ ptr_jq PodSelector_jq (buildFieldPath p ''PodSelector'') (cd_PodSelector c)"

definition PodGroupMemberDefinition_jq :: "string \<Rightarrow> PodGroupMemberDefinition \<Rightarrow> jq_field list" where
  "PodGroupMemberDefinition_jq p m =
     strs_jq (buildFieldPath p ''GroupByKeyPaths'') (mem_GroupByKeyPaths m)
     @ strs_jq (buildFieldPath p ''Filters'') (mem_Filters m)"

definition PodGroupDefinition_jq :: "string \<Rightarrow> PodGroupDefinition \<Rightarrow> jq_field list" where
  "PodGroupDefinition_jq p g =
     slice_jq PodGroupMemberDefinition_jq (buildFieldPath p ''Members'') (pg_Members g)"

definition GangSchedulingInstruction_jq :: "string \<Rightarrow> GangSchedulingInstruction \<Rightarrow> jq_field list" where
  "GangSchedulingInstruction_jq p g =
     slice_jq PodGroupDefinition_jq (buildFieldPath p ''PodGroups'') (gs_PodGroups g)"

definition StructureDefinition_jq :: "string \<Rightarrow> StructureDefinition \<Rightarrow> jq_field list" where
  "StructureDefinition_jq p d =
     ComponentDefinition_jq (buildFieldPath p ''RootComponent'') (str_RootComponent d)
     @ slice_jq ComponentDefinition_jq (buildFieldPath p ''ChildComponents'') (str_ChildComponents d)"

text \<open>Every jq expression of a Karta, with the path the error message gives it.\<close>

definition karta_jq :: "Karta \<Rightarrow> jq_field list" where
  "karta_jq k =
     StructureDefinition_jq ''Spec.StructureDefinition'' (ks_StructureDefinition (k_Spec k))
     @ ptr_jq GangSchedulingInstruction_jq ''Spec.Instructions.GangScheduling'' (gang_of k)"

section \<open>The walk visits exactly these\<close>

definition check_all :: "(string \<Rightarrow> goerr + ast) \<Rightarrow> jq_field list \<Rightarrow> goerr list" where
  "check_all parse fs = concat (map (\<lambda>(path, expr). errs_of (validateExpression parse expr path)) fs)"

lemma check_all_Nil [simp]: "check_all parse [] = []"
  by (simp add: check_all_def)

lemma check_all_append [simp]: "check_all parse (xs @ ys) = check_all parse xs @ check_all parse ys"
  by (simp add: check_all_def)

lemma check_all_Cons [simp]:
  "check_all parse ((path, expr) # fs) = errs_of (validateExpression parse expr path) @ check_all parse fs"
  by (simp add: check_all_def)

lemma check_all_concat: "check_all parse (concat xss) = concat (map (check_all parse) xss)"
  by (induction xss) simp_all

lemma tagged_string:
  "handleTaggedStructField parse (RString s) path = errs_of (validateExpression parse s path)"
  by simp

lemma tagged_str_ptr:
  "handleTaggedStructField parse (str_ptr x) path = check_all parse (opt_jq path x)"
  by (cases x) (simp_all add: str_ptr_def opt_jq_def errs_of_def)

lemma tagged_str_slice:
  "handleTaggedStructField parse (str_slice xs) path = check_all parse (strs_jq path xs)"
proof -
  have "concat (map (\<lambda>(j, v). errs_of (validateStringField parse v (index_path path j))) (zip is (map RString xs)))
      = check_all parse (map (\<lambda>(i, s). (index_path path i, s)) (zip is xs))" for "is" :: "nat list"
    by (induction "is" xs rule: list_induct2') simp_all
  then show ?thesis by (simp add: str_slice_def strs_jq_def indexed_def)
qed

lemma walk_str_ptr: "validateJQExpressionsRecursive parse (str_ptr x) path = []"
  by (cases x) (simp_all add: str_ptr_def validateJQExpressionsRecursive.simps validateKind.simps)

lemma walk_leaf:
  "validateJQExpressionsRecursive parse (RString s) path = []"
  "validateJQExpressionsRecursive parse ROther path = []"
  by (simp_all add: validateJQExpressionsRecursive.simps)

lemma walk_struct:
  "validateJQExpressionsRecursive parse (RStruct fs) path = validateJQExpressionsInStruct parse fs path"
  by (simp add: validateJQExpressionsRecursive.simps)

lemma walk_slice:
  assumes "\<And>x p. x \<in> set xs \<Longrightarrow> validateJQExpressionsRecursive parse (f x) p = check_all parse (g p x)"
  shows "validateJQExpressionsRecursive parse (slice_of f xs) path = check_all parse (slice_jq g path xs)"
proof -
  have "validateJQExpressionsInSlice parse i (map f xs) path
      = check_all parse (concat (map (\<lambda>(i, x). g (index_path path i) x) (zip [i..<i + length xs] xs)))" for i
    using assms
    by (induction xs arbitrary: i) (simp_all add: upt_conv_Cons del: upt_Suc)
  from this [of 0] show ?thesis
    by (simp add: slice_of_def slice_jq_def indexed_def validateJQExpressionsRecursive.simps)
qed

lemma walk_ptr:
  assumes "\<And>a p. x = Some a \<Longrightarrow> validateJQExpressionsRecursive parse (f a) p = check_all parse (g p a)"
    and "\<And>a. x = Some a \<Longrightarrow> \<exists>fs. f a = RStruct fs"
  shows "validateJQExpressionsRecursive parse (ptr_to f x) path = check_all parse (ptr_jq g path x)"
proof (cases x)
  case None
  then show ?thesis by (simp add: ptr_to_def ptr_jq_def validateJQExpressionsRecursive.simps)
next
  case (Some a)
  with assms(2) obtain fs where "f a = RStruct fs" by blast
  with Some assms(1) [of a path] show ?thesis
    by (simp add: ptr_to_def ptr_jq_def validateJQExpressionsRecursive.simps validateKind.simps)
qed

text \<open>A slice or pointer of structs that hold no expression contributes nothing.\<close>

lemma slice_jq_empty [simp]: "slice_jq (\<lambda>_ _. []) path xs = []"
  by (simp add: slice_jq_def)

lemma ptr_jq_empty [simp]: "ptr_jq (\<lambda>_ _. []) path x = []"
  by (simp add: ptr_jq_def split: option.splits)

lemmas walk_fields = walk_struct walk_leaf walk_str_ptr tagged_string tagged_str_ptr tagged_str_slice

lemma walk_GroupVersionKind:
  "validateJQExpressionsRecursive parse (GroupVersionKind_rval x) p = check_all parse []"
  by (simp add: GroupVersionKind_rval_def walk_fields del: handleTaggedStructField.simps)

lemma walk_SuspendAction:
  "validateJQExpressionsRecursive parse (SuspendAction_rval x) p = check_all parse (SuspendAction_jq p x)"
  by (simp add: SuspendAction_rval_def SuspendAction_jq_def walk_fields del: handleTaggedStructField.simps)

lemma walk_FragmentedPodSpecDefinition:
  "validateJQExpressionsRecursive parse (FragmentedPodSpecDefinition_rval x) p
     = check_all parse (FragmentedPodSpecDefinition_jq p x)"
  by (simp add: FragmentedPodSpecDefinition_rval_def FragmentedPodSpecDefinition_jq_def walk_fields
      del: handleTaggedStructField.simps)

lemma walk_ScaleDefinition:
  "validateJQExpressionsRecursive parse (ScaleDefinition_rval x) p = check_all parse (ScaleDefinition_jq p x)"
  by (simp add: ScaleDefinition_rval_def ScaleDefinition_jq_def walk_fields del: handleTaggedStructField.simps)

lemma walk_selectors:
  "validateJQExpressionsRecursive parse (ComponentTypeSelector_rval s) p
     = check_all parse (ComponentTypeSelector_jq p s)"
  "validateJQExpressionsRecursive parse (ComponentInstanceSelector_rval t) p
     = check_all parse (ComponentInstanceSelector_jq p t)"
  "validateJQExpressionsRecursive parse (ReplicaSelector_rval u) p
     = check_all parse (ReplicaSelector_jq p u)"
  by (simp_all add: ComponentTypeSelector_rval_def ComponentTypeSelector_jq_def
      ComponentInstanceSelector_rval_def ComponentInstanceSelector_jq_def
      ReplicaSelector_rval_def ReplicaSelector_jq_def walk_fields del: handleTaggedStructField.simps)

lemma walk_status_leaves:
  "validateJQExpressionsRecursive parse (ExpectedCondition_rval c) p = check_all parse []"
  "validateJQExpressionsRecursive parse (ExpressionMatcher_rval m) p = check_all parse (ExpressionMatcher_jq p m)"
  "validateJQExpressionsRecursive parse (PhaseDefinition_rval d) p = check_all parse (PhaseDefinition_jq p d)"
  "validateJQExpressionsRecursive parse (ConditionsDefinition_rval e) p
     = check_all parse (ConditionsDefinition_jq p e)"
  by (simp_all add: ExpectedCondition_rval_def ExpressionMatcher_rval_def ExpressionMatcher_jq_def
      PhaseDefinition_rval_def PhaseDefinition_jq_def ConditionsDefinition_rval_def
      ConditionsDefinition_jq_def walk_fields del: handleTaggedStructField.simps)

lemma walk_TopologyConstraint:
  "validateJQExpressionsRecursive parse (TopologyConstraint_rval t) p = check_all parse []"
  by (simp add: TopologyConstraint_rval_def walk_fields del: handleTaggedStructField.simps)

lemma walk_PodGroupMemberDefinition:
  "validateJQExpressionsRecursive parse (PodGroupMemberDefinition_rval m) p
     = check_all parse (PodGroupMemberDefinition_jq p m)"
  by (simp add: PodGroupMemberDefinition_rval_def PodGroupMemberDefinition_jq_def walk_fields
      del: handleTaggedStructField.simps)

text \<open>Every struct a pointer of the API can point to is a struct value.\<close>

lemma struct_rvals:
  "\<exists>fs. FragmentedPodSpecDefinition_rval x0 = RStruct fs"
  "\<exists>fs. SpecDefinition_rval x1 = RStruct fs"
  "\<exists>fs. ScaleDefinition_rval x2 = RStruct fs"
  "\<exists>fs. ComponentTypeSelector_rval x3 = RStruct fs"
  "\<exists>fs. ComponentInstanceSelector_rval x4 = RStruct fs"
  "\<exists>fs. ReplicaSelector_rval x5 = RStruct fs"
  "\<exists>fs. PodSelector_rval x6 = RStruct fs"
  "\<exists>fs. ExpressionMatcher_rval x7 = RStruct fs"
  "\<exists>fs. PhaseDefinition_rval x8 = RStruct fs"
  "\<exists>fs. ConditionsDefinition_rval x9 = RStruct fs"
  "\<exists>fs. StatusDefinition_rval x10 = RStruct fs"
  "\<exists>fs. SuspendDefinition_rval x11 = RStruct fs"
  "\<exists>fs. GroupVersionKind_rval x12 = RStruct fs"
  "\<exists>fs. TopologyConstraint_rval x13 = RStruct fs"
  "\<exists>fs. PodGroupComponentsMapping_rval x14 = RStruct fs"
  "\<exists>fs. GangSchedulingInstruction_rval x15 = RStruct fs"
  by (simp_all add: FragmentedPodSpecDefinition_rval_def SpecDefinition_rval_def ScaleDefinition_rval_def ComponentTypeSelector_rval_def ComponentInstanceSelector_rval_def ReplicaSelector_rval_def PodSelector_rval_def ExpressionMatcher_rval_def PhaseDefinition_rval_def ConditionsDefinition_rval_def StatusDefinition_rval_def SuspendDefinition_rval_def GroupVersionKind_rval_def TopologyConstraint_rval_def PodGroupComponentsMapping_rval_def GangSchedulingInstruction_rval_def)

text \<open>The structs that hold other structs, bottom up.\<close>

lemma walk_SuspendDefinition:
  "validateJQExpressionsRecursive parse (SuspendDefinition_rval x) p = check_all parse (SuspendDefinition_jq p x)"
  by (simp add: SuspendDefinition_rval_def SuspendDefinition_jq_def walk_struct walk_SuspendAction
      walk_slice [where g = SuspendAction_jq])

lemma walk_SpecDefinition:
  "validateJQExpressionsRecursive parse (SpecDefinition_rval x) p = check_all parse (SpecDefinition_jq p x)"
  by (simp add: SpecDefinition_rval_def SpecDefinition_jq_def walk_fields struct_rvals
      walk_FragmentedPodSpecDefinition walk_ptr [where g = FragmentedPodSpecDefinition_jq]
      del: handleTaggedStructField.simps)

lemma walk_PodSelector:
  "validateJQExpressionsRecursive parse (PodSelector_rval x) p = check_all parse (PodSelector_jq p x)"
  by (simp add: PodSelector_rval_def PodSelector_jq_def walk_fields struct_rvals
      walk_selectors walk_ptr [where g = ComponentTypeSelector_jq]
      walk_ptr [where g = ComponentInstanceSelector_jq] walk_ptr [where g = ReplicaSelector_jq]
      del: handleTaggedStructField.simps)

lemma walk_StatusMatcher:
  "validateJQExpressionsRecursive parse (StatusMatcher_rval x) p = check_all parse (StatusMatcher_jq p x)"
  by (simp add: StatusMatcher_rval_def StatusMatcher_jq_def walk_fields struct_rvals
      walk_status_leaves walk_ptr [where g = ExpressionMatcher_jq]
      walk_slice [where f = ExpectedCondition_rval and g = "\<lambda>_ _. []"]
      del: handleTaggedStructField.simps)

lemma walk_StatusMappings:
  "validateJQExpressionsRecursive parse (StatusMappings_rval x) p = check_all parse (StatusMappings_jq p x)"
  by (simp add: StatusMappings_rval_def StatusMappings_jq_def walk_fields struct_rvals
      walk_StatusMatcher walk_slice [where g = StatusMatcher_jq]
      del: handleTaggedStructField.simps)

lemma walk_StatusDefinition:
  "validateJQExpressionsRecursive parse (StatusDefinition_rval x) p = check_all parse (StatusDefinition_jq p x)"
  by (simp add: StatusDefinition_rval_def StatusDefinition_jq_def walk_fields struct_rvals
      walk_status_leaves walk_StatusMappings walk_ptr [where g = PhaseDefinition_jq]
      walk_ptr [where g = ConditionsDefinition_jq]
      del: handleTaggedStructField.simps)

lemma walk_ComponentDefinition:
  "validateJQExpressionsRecursive parse (ComponentDefinition_rval x) p = check_all parse (ComponentDefinition_jq p x)"
  by (simp add: ComponentDefinition_rval_def ComponentDefinition_jq_def walk_fields struct_rvals
      walk_SpecDefinition walk_ScaleDefinition walk_StatusDefinition walk_SuspendDefinition
      walk_PodSelector walk_GroupVersionKind walk_ptr [where f = GroupVersionKind_rval and g = "\<lambda>_ _. []"]
      walk_ptr [where g = SpecDefinition_jq] walk_ptr [where g = ScaleDefinition_jq]
      walk_ptr [where g = StatusDefinition_jq] walk_ptr [where g = SuspendDefinition_jq]
      walk_ptr [where g = PodSelector_jq]
      del: handleTaggedStructField.simps)

lemma walk_SubGroupComponentMapping:
  "validateJQExpressionsRecursive parse (SubGroupComponentMapping_rval x) p = check_all parse ([])"
  by (simp add: SubGroupComponentMapping_rval_def walk_fields struct_rvals
      walk_TopologyConstraint walk_ptr [where f = TopologyConstraint_rval and g = "\<lambda>_ _. []"]
      del: handleTaggedStructField.simps)

lemma walk_PodGroupComponentsMapping:
  "validateJQExpressionsRecursive parse (PodGroupComponentsMapping_rval x) p = check_all parse ([])"
  by (simp add: PodGroupComponentsMapping_rval_def walk_fields struct_rvals
      walk_TopologyConstraint walk_SubGroupComponentMapping
      walk_ptr [where f = TopologyConstraint_rval and g = "\<lambda>_ _. []"]
      walk_slice [where f = SubGroupComponentMapping_rval and g = "\<lambda>_ _. []"]
      del: handleTaggedStructField.simps)

lemma walk_PodGroupDefinition:
  "validateJQExpressionsRecursive parse (PodGroupDefinition_rval x) p = check_all parse (PodGroupDefinition_jq p x)"
  by (simp add: PodGroupDefinition_rval_def PodGroupDefinition_jq_def walk_fields struct_rvals
      walk_PodGroupMemberDefinition walk_slice [where g = PodGroupMemberDefinition_jq]
      del: handleTaggedStructField.simps)

lemma walk_GangSchedulingInstruction:
  "validateJQExpressionsRecursive parse (GangSchedulingInstruction_rval x) p = check_all parse (GangSchedulingInstruction_jq p x)"
  by (simp add: GangSchedulingInstruction_rval_def GangSchedulingInstruction_jq_def walk_fields struct_rvals
      walk_PodGroupDefinition walk_slice [where g = PodGroupDefinition_jq]
      walk_PodGroupComponentsMapping walk_ptr [where f = PodGroupComponentsMapping_rval and g = "\<lambda>_ _. []"]
      del: handleTaggedStructField.simps)

lemma walk_StructureDefinition:
  "validateJQExpressionsRecursive parse (StructureDefinition_rval x) p = check_all parse (StructureDefinition_jq p x)"
  by (simp add: StructureDefinition_rval_def StructureDefinition_jq_def walk_fields struct_rvals
      walk_ComponentDefinition walk_slice [where g = ComponentDefinition_jq]
      walk_GroupVersionKind walk_slice [where f = GroupVersionKind_rval and g = "\<lambda>_ _. []"]
      del: handleTaggedStructField.simps)

lemma ValidateJQExpressions_karta:
  "ValidateJQExpressions parse (karta_rval k) = check_all parse (karta_jq k)"
  by (simp add: ValidateJQExpressions_def karta_rval_def karta_jq_def KartaSpec_rval_def
      OptimizationInstructions_rval_def walk_fields struct_rvals walk_StructureDefinition
      walk_GangSchedulingInstruction walk_ptr [where g = GangSchedulingInstruction_jq]
      validateJQExpressionsRecursive.simps [of _ "RPtr b v" for b v] validateKind.simps buildFieldPath_def)

text \<open>An expression is acceptable: empty, or parsed to a query that passes the read-only check.\<close>

definition acceptable :: "(string \<Rightarrow> goerr + ast) \<Rightarrow> string \<Rightarrow> bool" where
  "acceptable parse expr \<longleftrightarrow> expr = [] \<or>
     (case parse expr of Inl e \<Rightarrow> False | Inr q \<Rightarrow> ValidateParsedJQ q = None)"

lemma validateExpression_None: "validateExpression parse expr path = None \<longleftrightarrow> acceptable parse expr"
  by (auto simp: validateExpression_def acceptable_def split: sum.splits option.splits)

lemma check_all_empty:
  "check_all parse fs = [] \<longleftrightarrow> (\<forall>expr \<in> set (map snd fs). acceptable parse expr)"
  by (induction fs) (auto simp: validateExpression_None errs_of_def split: option.splits)

lemma length_check_all:
  "length (check_all parse fs) = length (filter (\<lambda>(path, expr). \<not> acceptable parse expr) fs)"
proof (induction fs)
  case Nil
  then show ?case by simp
next
  case (Cons f fs)
  obtain path expr where f: "f = (path, expr)" by (cases f)
  have "length (errs_of (validateExpression parse expr path)) = (if acceptable parse expr then 0 else 1)"
    by (simp add: errs_of_def validateExpression_None [of parse expr path, symmetric] split: option.splits)
  with f Cons show ?case by simp
qed

end
