(* ===== verification/Karta_Validation.thy ===== *)
theory Karta_Validation
  imports Karta_Paths
begin

text \<open>
  \<^verbatim>\<open>karta/sdk/pkg/api/runai/v1alpha1/validation.go\<close>: KartaValidator. The validator's map of components is an
  association list updated as the source assigns to it; the walk along owner references is the source's
  loop with its visited set and its set of already validated components. The main result is that
  Validate returns nil exactly on the Kartas that satisfy \<open>well_formed\<close>, a predicate that does
  not mention the validator.
\<close>

section \<open>The validator\<close>

type_synonym components = "(string \<times> ComponentDefinition) list"

text \<open>A lookup that yields the zero struct for a missing key.\<close>

definition lookup_component :: "components \<Rightarrow> string \<Rightarrow> ComponentDefinition" where
  "lookup_component all n = (case map_of all n of None \<Rightarrow> zero_ComponentDefinition | Some c \<Rightarrow> c)"

definition kindsWithoutGroup :: "string \<Rightarrow> bool" where
  "kindsWithoutGroup kind \<longleftrightarrow> kind = ''Pod''"

fun initialize_loop :: "ComponentDefinition list \<Rightarrow> components \<Rightarrow> goerr list \<times> components" where
  "initialize_loop [] all = ([], all)"
| "initialize_loop (c # cs) all =
     (let errs = (if map_of all (cd_Name c) \<noteq> None
                  then [Errorf ''component name %s is not unique'' [AStr (cd_Name c)]] else []);
          rest = initialize_loop cs (AList.update (cd_Name c) c all)
      in (errs @ fst rest, snd rest))"

definition initialize :: "Karta \<Rightarrow> goerr list \<times> components" where
  "initialize k = initialize_loop (children_of k @ [root_of k]) []"

definition validateMultiInstanceComponent :: "ComponentDefinition \<Rightarrow> goerr option" where
  "validateMultiInstanceComponent c =
     (let selector = (case cd_PodSelector c of None \<Rightarrow> None | Some s \<Rightarrow> psel_ComponentInstanceSelector s)
      in if cd_InstanceIdPath c \<noteq> None \<and> selector = None
         then Some (Errorf ''component '%s' has instance id path but no pod component instance selector'' [AStr (cd_Name c)])
         else if selector \<noteq> None \<and> cd_InstanceIdPath c = None
         then Some (Errorf ''component '%s' has pod component instance selector but no instance id path'' [AStr (cd_Name c)])
         else None)"

text \<open>The counter of pod spec definitions in validateComponent.\<close>

definition pod_spec_count :: "SpecDefinition \<Rightarrow> nat" where
  "pod_spec_count s = (if sp_PodTemplateSpecPath s \<noteq> None then 1 else 0)
     + (if sp_PodSpecPath s \<noteq> None then 1 else 0)
     + (if sp_FragmentedPodSpecDefinition s \<noteq> None then 1 else 0)"

definition validateComponent :: "ComponentDefinition \<Rightarrow> goerr list" where
  "validateComponent c =
     (if cd_Name c = [] then [Errorf ''component name is empty'' []] else [])
     @ (case cd_SpecDefinition c of
          None \<Rightarrow> []
        | Some s \<Rightarrow>
            if pod_spec_count s > 1
            then [Errorf ''component '%s' has multiple pod spec definitions'' [AStr (cd_Name c)]] else [])
     @ errs_of (validateMultiInstanceComponent c)"

text \<open>The guard of validateRootComponent: the kind is missing or lacks a part.\<close>

definition missing_kind :: "ComponentDefinition \<Rightarrow> bool" where
  "missing_kind c = (case cd_Kind c of
       None \<Rightarrow> True
     | Some g \<Rightarrow> gvk_Version g = [] \<or> gvk_Kind g = [] \<or> (gvk_Group g = [] \<and> \<not> kindsWithoutGroup (gvk_Kind g)))"

definition validateRootComponent :: "ComponentDefinition \<Rightarrow> goerr list" where
  "validateRootComponent c =
     (if missing_kind c then [Errorf ''root component must have full kind (group, version, kind)'' []] else [])
     @ (if cd_OwnerRef c \<noteq> None then [Errorf ''root component cannot have owner ref'' []] else [])
     @ (if cd_StatusDefinition c = None then [Errorf ''root component must have status definition'' []] else [])
     @ validateComponent c"

definition validateChildOwner :: "components \<Rightarrow> ComponentDefinition \<Rightarrow> goerr list" where
  "validateChildOwner all c =
     (case cd_OwnerRef c of
        None \<Rightarrow> [Errorf ''child component '%s' has no owner ref'' [AStr (cd_Name c)]]
      | Some p \<Rightarrow>
          if p = [] then [Errorf ''child component '%s' has no owner ref'' [AStr (cd_Name c)]]
          else if map_of all p = None
          then [Errorf (''child component '%s' has owner ref to non-existing component '%s'' @ [CHR 0x27]) [AStr (cd_Name c), AStr p]]
          else [])"

text \<open>The loop of checkPathToRoot: how it ends.\<close>

datatype path_result = CycleFound string | ReachedRoot | Stopped

function checkPath_loop :: "components \<Rightarrow> string set \<Rightarrow> string set \<Rightarrow> string \<Rightarrow> bool \<Rightarrow> path_result" where
  "checkPath_loop all validated visited current alreadyValidated =
     (if current = [] \<or> alreadyValidated then Stopped
      else if current \<in> visited then CycleFound current
      else case cd_OwnerRef (lookup_component all current) of
        None \<Rightarrow> ReachedRoot
      | Some parent \<Rightarrow>
          checkPath_loop all validated (insert current visited) parent (parent \<in> validated))"
  by pat_completeness auto
termination
proof (relation "measure (\<lambda>(all, validated, visited, current, already). card (fst ` set all - visited))", goal_cases)
  case 1
  then show ?case by simp
next
  case (2 all validated visited current already parent)
  then have "current \<in> fst ` set all"
    by (force simp: lookup_component_def zero_ComponentDefinition_def dest: map_of_SomeD split: option.splits)
  moreover have "current \<notin> visited" using 2 by simp
  ultimately have "fst ` set all - insert current visited \<subset> fst ` set all - visited" by blast
  then show ?case by (simp add: psubset_card_mono)
qed

declare checkPath_loop.simps [simp del]

definition checkPathToRoot :: "components \<Rightarrow> ComponentDefinition \<Rightarrow> string set \<Rightarrow> goerr option \<times> string set" where
  "checkPathToRoot all c validated =
     (case checkPath_loop all validated {} (cd_Name c) False of
        CycleFound n \<Rightarrow> (Some (Errorf ''ownership cycle detected involving component %s'' [AStr n]), validated)
      | ReachedRoot \<Rightarrow> (None, validated)
      | Stopped \<Rightarrow> (None, insert (cd_Name c) validated))"

fun validateNoOwnershipCycles_loop :: "components \<Rightarrow> ComponentDefinition list \<Rightarrow> string set \<Rightarrow> goerr option" where
  "validateNoOwnershipCycles_loop all [] validated = None"
| "validateNoOwnershipCycles_loop all (c # cs) validated =
     (case checkPathToRoot all c validated of
        (Some e, _) \<Rightarrow> Some e
      | (None, validated') \<Rightarrow> validateNoOwnershipCycles_loop all cs validated')"

definition validateNoOwnershipCycles :: "components \<Rightarrow> Karta \<Rightarrow> goerr option" where
  "validateNoOwnershipCycles all k = validateNoOwnershipCycles_loop all (children_of k) {}"

definition validateStructureDefinition :: "components \<Rightarrow> Karta \<Rightarrow> goerr list" where
  "validateStructureDefinition all k =
     (let errs = validateRootComponent (root_of k)
                 @ concat (map (\<lambda>c. validateChildOwner all c @ validateComponent c) (children_of k))
      in if errs \<noteq> [] then errs else errs_of (validateNoOwnershipCycles all k))"

definition validateGangScheduling :: "components \<Rightarrow> Karta \<Rightarrow> goerr list" where
  "validateGangScheduling all k =
     (case gang_of k of
        None \<Rightarrow> []
      | Some g \<Rightarrow>
          concat (map (\<lambda>group. concat (map (\<lambda>member.
            if map_of all (mem_ComponentName member) = None
            then [Errorf ''pod-group member component '%s' is not defined (should be a root or child component)''
                    [AStr (mem_ComponentName member)]]
            else []) (pg_Members group))) (gs_PodGroups g)))"

definition validateInstructions :: "components \<Rightarrow> Karta \<Rightarrow> goerr list" where
  "validateInstructions all k = validateGangScheduling all k"

text \<open>errors.Join: nil when there is no error.\<close>

definition errors_Join :: "goerr list \<Rightarrow> goerr option" where
  "errors_Join es = (if es = [] then None else Some (JoinErr es))"

definition Validate :: "(string \<Rightarrow> goerr + ast) \<Rightarrow> Karta option \<Rightarrow> goerr option" where
  "Validate parse kopt =
     (case kopt of
        None \<Rightarrow> Some (Errorf ''karta is nil'' [])
      | Some k \<Rightarrow>
          (let (initErrs, all) = initialize k
           in if initErrs \<noteq> [] then errors_Join initErrs
              else errors_Join (validateStructureDefinition all k @ validateInstructions all k
                     @ ValidateJQExpressions parse (karta_rval k))))"

section \<open>Specification\<close>

text \<open>
  \<open>rooted_at all d n\<close>: following owner references from component \<open>n\<close>, the component without an owner
  is reached after exactly \<open>d\<close> steps.
\<close>

fun rooted_at :: "components \<Rightarrow> nat \<Rightarrow> string \<Rightarrow> bool" where
  "rooted_at all 0 n \<longleftrightarrow> (case map_of all n of None \<Rightarrow> False | Some c \<Rightarrow> cd_OwnerRef c = None)"
| "rooted_at all (Suc d) n \<longleftrightarrow>
     (case map_of all n of
        None \<Rightarrow> False
      | Some c \<Rightarrow> (case cd_OwnerRef c of None \<Rightarrow> False | Some p \<Rightarrow> rooted_at all d p))"

definition named_components :: "Karta \<Rightarrow> components" where
  "named_components k = map (\<lambda>c. (cd_Name c, c)) (children_of k @ [root_of k])"

definition component_names :: "Karta \<Rightarrow> string list" where
  "component_names k = map cd_Name (children_of k @ [root_of k])"

definition full_kind :: "ComponentDefinition \<Rightarrow> bool" where
  "full_kind c = (\<exists>g. cd_Kind c = Some g \<and> gvk_Version g \<noteq> [] \<and> gvk_Kind g \<noteq> []
     \<and> (gvk_Group g \<noteq> [] \<or> gvk_Kind g = ''Pod''))"

definition has_instance_selector :: "ComponentDefinition \<Rightarrow> bool" where
  "has_instance_selector c = (\<exists>s. cd_PodSelector c = Some s \<and> psel_ComponentInstanceSelector s \<noteq> None)"

definition component_ok :: "ComponentDefinition \<Rightarrow> bool" where
  "component_ok c \<longleftrightarrow> cd_Name c \<noteq> []
     \<and> (\<forall>s. cd_SpecDefinition c = Some s \<longrightarrow> pod_spec_count s \<le> 1)
     \<and> (cd_InstanceIdPath c \<noteq> None \<longleftrightarrow> has_instance_selector c)"

definition gang_members :: "Karta \<Rightarrow> string list" where
  "gang_members k = (case gang_of k of None \<Rightarrow> []
     | Some g \<Rightarrow> concat (map (\<lambda>group. map mem_ComponentName (pg_Members group)) (gs_PodGroups g)))"

text \<open>
  A well-formed Karta: unique non-empty names; a root with a full kind, no owner and a status definition;
  at most one pod spec definition per component; instance ids and instance selectors only together; every
  child owned by a component and linked to the root by its owners; gang members that exist; jq
  expressions that parse and only read.
\<close>

definition well_formed :: "(string \<Rightarrow> goerr + ast) \<Rightarrow> Karta \<Rightarrow> bool" where
  "well_formed parse k \<longleftrightarrow>
     distinct (component_names k)
     \<and> full_kind (root_of k) \<and> cd_OwnerRef (root_of k) = None \<and> cd_StatusDefinition (root_of k) \<noteq> None
     \<and> (\<forall>c \<in> set (children_of k @ [root_of k]). component_ok c)
     \<and> (\<forall>c \<in> set (children_of k). \<exists>p. cd_OwnerRef c = Some p \<and> p \<in> set (component_names k))
     \<and> (\<forall>c \<in> set (children_of k). \<exists>d. rooted_at (named_components k) d (cd_Name c))
     \<and> set (gang_members k) \<subseteq> set (component_names k)
     \<and> (\<forall>expr \<in> set (map snd (karta_jq k)). acceptable parse expr)"

section \<open>Owner chains\<close>

lemma rooted_at_dom: "rooted_at all d n \<Longrightarrow> n \<in> dom (map_of all)"
  by (cases d) (auto split: option.splits)

lemma rooted_at_unique: "rooted_at all d n \<Longrightarrow> rooted_at all d' n \<Longrightarrow> d = d'"
proof (induction d arbitrary: d' n)
  case 0
  then show ?case by (cases d') (auto split: option.splits)
next
  case (Suc d)
  then show ?case by (cases d') (auto split: option.splits)
qed

text \<open>The components on an owner chain are pairwise different, so a chain is shorter than the map.\<close>

lemma rooted_at_chain:
  assumes "rooted_at all d n"
  shows "\<exists>S \<subseteq> dom (map_of all). card S = Suc d \<and> finite S \<and> (\<forall>m \<in> S. \<exists>j \<le> d. rooted_at all j m)"
  using assms
proof (induction d arbitrary: n)
  case 0
  then show ?case by (intro exI [of _ "{n}"]) (auto dest: rooted_at_dom simp del: rooted_at.simps)
next
  case (Suc d)
  then obtain p where "rooted_at all d p"
    by (auto split: option.splits)
  with Suc.IH obtain S where S: "S \<subseteq> dom (map_of all)" "card S = Suc d" "finite S"
    and deep: "\<forall>m \<in> S. \<exists>j \<le> d. rooted_at all j m" by blast
  have "n \<notin> S"
  proof
    assume "n \<in> S"
    with deep obtain j where "j \<le> d" "rooted_at all j n" by blast
    with Suc.prems show False by (auto dest: rooted_at_unique simp del: rooted_at.simps)
  qed
  with S deep Suc.prems show ?case
    by (intro exI [of _ "insert n S"])
       (auto dest: rooted_at_dom simp del: rooted_at.simps, meson le_SucI)
qed

lemma rooted_at_bound: "rooted_at all d n \<Longrightarrow> d < card (dom (map_of all))"
proof -
  assume "rooted_at all d n"
  then obtain S where "S \<subseteq> dom (map_of all)" "card S = Suc d"
    using rooted_at_chain by blast
  then have "Suc d \<le> card (dom (map_of all))"
    by (metis card_mono finite_dom_map_of)
  then show ?thesis by simp
qed

text \<open>Every owner reference of the map leads to a component of the map, and no name is empty.\<close>

definition owner_closed :: "components \<Rightarrow> bool" where
  "owner_closed all \<longleftrightarrow> (\<forall>n c. map_of all n = Some c \<longrightarrow>
     n \<noteq> [] \<and> (\<forall>p. cd_OwnerRef c = Some p \<longrightarrow> p \<in> dom (map_of all)))"

lemma owner_closedD:
  assumes "owner_closed all" "n \<in> dom (map_of all)"
  shows "n \<noteq> []" and "cd_OwnerRef (lookup_component all n) = Some p \<Longrightarrow> p \<in> dom (map_of all)"
  using assms unfolding owner_closed_def lookup_component_def by fastforce+

text \<open>
  With no component validated yet, the loop ends at the root or at a repeated component, and it ends
  at the root exactly when the owner chain does.
\<close>

lemma checkPath_ends:
  assumes "owner_closed all" "n \<in> dom (map_of all)" "validated = {}" "\<not> already"
  shows "checkPath_loop all validated visited n already \<noteq> Stopped"
  using assms
proof (induction all validated visited n already rule: checkPath_loop.induct)
  case (1 all validated visited n already)
  then show ?case
    using owner_closedD [of all n]
    by (subst checkPath_loop.simps) (auto split: option.splits)
qed

lemma checkPath_root:
  assumes "checkPath_loop all validated visited n already = ReachedRoot"
    and "owner_closed all" "n \<in> dom (map_of all)" "validated = {}"
  shows "\<exists>d. rooted_at all d n"
  using assms
proof (induction all validated visited n already rule: checkPath_loop.induct)
  case (1 all validated visited n already)
  have stop: "\<not> (n = [] \<or> already)" and fresh: "n \<notin> visited"
    using "1.prems"(1) by (auto simp: checkPath_loop.simps [of all validated visited n already] split: if_splits)
  obtain c where c: "map_of all n = Some c" using "1.prems"(3) by blast
  show ?case
  proof (cases "cd_OwnerRef c")
    case None
    with c have "rooted_at all 0 n" by simp
    then show ?thesis ..
  next
    case (Some p)
    with c have look: "cd_OwnerRef (lookup_component all n) = Some p" by (simp add: lookup_component_def)
    then have "checkPath_loop all validated (insert n visited) p (p \<in> validated) = ReachedRoot"
      using "1.prems"(1) stop fresh by (simp add: checkPath_loop.simps [of all validated visited n already])
    moreover have "p \<in> dom (map_of all)"
      using owner_closedD(2) [OF "1.prems"(2,3) look] .
    ultimately obtain d where "rooted_at all d p"
      using "1.IH" [OF stop fresh look] "1.prems"(2,4) by blast
    with c Some have "rooted_at all (Suc d) n" by simp
    then show ?thesis ..
  qed
qed

lemma checkPath_rooted:
  assumes "rooted_at all d n" "owner_closed all" "\<forall>v \<in> visited. \<exists>k > d. rooted_at all k v"
  shows "checkPath_loop all {} visited n False = ReachedRoot"
  using assms
proof (induction d arbitrary: n visited)
  case 0
  then have "n \<notin> visited" by (metis less_numeral_extra(3) rooted_at_unique)
  moreover have "n \<noteq> []" using 0 owner_closedD(1) rooted_at_dom by blast
  ultimately show ?case
    using "0.prems"(1) by (subst checkPath_loop.simps) (auto simp: lookup_component_def split: option.splits)
next
  case (Suc d)
  have fresh: "n \<notin> visited" using Suc.prems(1,3) by (metis nat_less_le rooted_at_unique)
  have "n \<noteq> []" using Suc.prems(1,2) owner_closedD(1) rooted_at_dom by blast
  from Suc.prems(1) obtain p where look: "cd_OwnerRef (lookup_component all n) = Some p"
    and p: "rooted_at all d p"
    by (auto simp: lookup_component_def split: option.splits)
  have "\<forall>v \<in> insert n visited. \<exists>k > d. rooted_at all k v"
    using Suc.prems(1,3) by (metis Suc_lessD insert_iff lessI)
  then have "checkPath_loop all {} (insert n visited) p False = ReachedRoot"
    using Suc.IH p Suc.prems(2) by blast
  with look fresh \<open>n \<noteq> []\<close> show ?case by (subst checkPath_loop.simps) simp
qed

lemma checkPath_iff_rooted:
  assumes "owner_closed all" "n \<in> dom (map_of all)"
  shows "checkPath_loop all {} {} n False = ReachedRoot \<longleftrightarrow> (\<exists>d. rooted_at all d n)"
  using checkPath_root [OF _ assms] checkPath_rooted [OF _ assms(1)] by blast

text \<open>
  The set of validated components stays empty: a walk that ends well ends at the root, where the source
  returns before it records the component.
\<close>

lemma validateNoOwnershipCycles_None:
  assumes "owner_closed all" "\<forall>c \<in> set cs. cd_Name c \<in> dom (map_of all)"
  shows "validateNoOwnershipCycles_loop all cs {} = None
    \<longleftrightarrow> (\<forall>c \<in> set cs. \<exists>d. rooted_at all d (cd_Name c))"
  using assms(2)
proof (induction cs)
  case Nil
  then show ?case by simp
next
  case (Cons c cs)
  have dom: "cd_Name c \<in> dom (map_of all)" using Cons.prems by simp
  show ?case
    using Cons checkPath_iff_rooted [OF assms(1) dom] checkPath_ends [OF assms(1) dom refl, of False "{}"]
    by (cases "checkPath_loop all {} {} (cd_Name c) False") (auto simp: checkPathToRoot_def)
qed

section \<open>Validate accepts exactly the well-formed Kartas\<close>

lemma snd_initialize_loop: "snd (initialize_loop cs all) = foldl (\<lambda>m c. AList.update (cd_Name c) c m) all cs"
  by (induction cs arbitrary: all) (simp_all add: Let_def)

lemma map_of_foldl_update:
  "map_of (foldl (\<lambda>m c. AList.update (cd_Name c) c m) all cs) = map_of all ++ go_map (map (\<lambda>c. (cd_Name c, c)) cs)"
proof (induction cs rule: rev_induct)
  case Nil
  then show ?case by (simp add: go_map_def)
next
  case (snoc c cs)
  have "map_of (foldl (\<lambda>m c. AList.update (cd_Name c) c m) all (cs @ [c]))
      = (map_of (foldl (\<lambda>m c. AList.update (cd_Name c) c m) all cs))(cd_Name c \<mapsto> c)"
    by (simp add: AList.update_conv')
  with snoc show ?case by (auto simp: go_map_def fun_eq_iff map_add_def split: option.splits)
qed

lemma initialize_loop_errs:
  "fst (initialize_loop cs all) = []
     \<longleftrightarrow> distinct (map cd_Name cs) \<and> set (map cd_Name cs) \<inter> fst ` set all = {}"
proof (induction cs arbitrary: all)
  case Nil
  then show ?case by simp
next
  case (Cons c cs)
  have "fst (initialize_loop (c # cs) all) = [] \<longleftrightarrow> cd_Name c \<notin> fst ` set all
      \<and> distinct (map cd_Name cs) \<and> set (map cd_Name cs) \<inter> insert (cd_Name c) (fst ` set all) = {}"
    by (simp add: Let_def Cons AList.dom_update map_of_eq_None_iff)
  then show ?case by auto
qed

lemma initialize_errs: "fst (initialize k) = [] \<longleftrightarrow> distinct (component_names k)"
  by (simp add: initialize_def component_names_def initialize_loop_errs)

lemma initialize_all:
  assumes "distinct (component_names k)"
  shows "map_of (snd (initialize k)) = map_of (named_components k)"
proof -
  have "map_of (snd (initialize k)) = go_map (named_components k)"
    unfolding initialize_def snd_initialize_loop map_of_foldl_update named_components_def by simp
  also have "\<dots> = map_of (named_components k)"
    using assms by (intro go_map_distinct) (simp add: named_components_def component_names_def comp_def)
  finally show ?thesis .
qed

text \<open>The clauses of validateStructureDefinition, one by one.\<close>

lemma validateMultiInstanceComponent_None:
  "validateMultiInstanceComponent c = None \<longleftrightarrow> (cd_InstanceIdPath c \<noteq> None \<longleftrightarrow> has_instance_selector c)"
  by (auto simp: validateMultiInstanceComponent_def has_instance_selector_def Let_def split: option.splits)

lemma validateComponent_empty: "validateComponent c = [] \<longleftrightarrow> component_ok c"
proof -
  have "errs_of (validateMultiInstanceComponent c) = [] \<longleftrightarrow> (cd_InstanceIdPath c \<noteq> None \<longleftrightarrow> has_instance_selector c)"
    unfolding validateMultiInstanceComponent_None [symmetric] by (simp add: errs_of_def split: option.splits)
  then show ?thesis
    by (auto simp: validateComponent_def component_ok_def split: option.splits)
qed

lemma missing_kind_iff: "missing_kind c \<longleftrightarrow> \<not> full_kind c"
  by (auto simp: missing_kind_def full_kind_def kindsWithoutGroup_def split: option.splits)

lemma validateRootComponent_empty:
  "validateRootComponent c = [] \<longleftrightarrow> full_kind c \<and> cd_OwnerRef c = None \<and> cd_StatusDefinition c \<noteq> None
     \<and> component_ok c"
  by (auto simp: validateRootComponent_def missing_kind_iff validateComponent_empty)

lemma validateChildOwner_empty:
  "validateChildOwner all c = [] \<longleftrightarrow> (\<exists>p. cd_OwnerRef c = Some p \<and> p \<noteq> [] \<and> p \<in> dom (map_of all))"
  by (auto simp: validateChildOwner_def split: option.splits)

lemma validateGangScheduling_empty:
  "validateGangScheduling all k = [] \<longleftrightarrow> set (gang_members k) \<subseteq> dom (map_of all)"
  by (cases "gang_of k")
     (auto simp: validateGangScheduling_def gang_members_def domIff concat_map_Nil
       simp del: concat_eq_Nil_conv not_None_eq)

lemma dom_named_components: "dom (map_of (named_components k)) = set (component_names k)"
  by (simp add: named_components_def component_names_def dom_map_of_conv_image_fst image_image)

lemma named_components_Some:
  "distinct (component_names k) \<Longrightarrow>
     map_of (named_components k) n = Some c \<longleftrightarrow> c \<in> set (children_of k @ [root_of k]) \<and> cd_Name c = n"
  by (subst map_of_eq_Some_iff) (auto simp: named_components_def component_names_def comp_def)

text \<open>The structural part of well-formedness, without the chains.\<close>

definition structure_ok :: "Karta \<Rightarrow> bool" where
  "structure_ok k \<longleftrightarrow> full_kind (root_of k) \<and> cd_OwnerRef (root_of k) = None
     \<and> cd_StatusDefinition (root_of k) \<noteq> None
     \<and> (\<forall>c \<in> set (children_of k @ [root_of k]). component_ok c)
     \<and> (\<forall>c \<in> set (children_of k). \<exists>p. cd_OwnerRef c = Some p \<and> p \<in> set (component_names k))"

lemma structure_ok_closed:
  assumes "distinct (component_names k)" "structure_ok k"
  shows "owner_closed (named_components k)"
  using assms unfolding owner_closed_def named_components_Some [OF assms(1)] dom_named_components
  by (auto simp: structure_ok_def component_ok_def)

lemma structure_errs_empty:
  assumes "distinct (component_names k)" "map_of all = map_of (named_components k)"
  shows "validateRootComponent (root_of k)
      @ concat (map (\<lambda>c. validateChildOwner all c @ validateComponent c) (children_of k)) = []
    \<longleftrightarrow> structure_ok k"
proof -
  have "p \<noteq> []" if "\<forall>c \<in> set (children_of k @ [root_of k]). component_ok c" "p \<in> set (component_names k)" for p
    using that by (auto simp: component_names_def component_ok_def)
  then show ?thesis
    by (auto simp: validateRootComponent_empty validateChildOwner_empty validateComponent_empty
        structure_ok_def assms(2) dom_named_components)
qed

lemma rooted_at_cong: "map_of a = map_of b \<Longrightarrow> rooted_at a d n = rooted_at b d n"
  by (induction d arbitrary: n) (auto split: option.splits)

lemma validateStructureDefinition_empty:
  assumes "distinct (component_names k)" "map_of all = map_of (named_components k)"
  shows "validateStructureDefinition all k = [] \<longleftrightarrow>
    structure_ok k \<and> (\<forall>c \<in> set (children_of k). \<exists>d. rooted_at (named_components k) d (cd_Name c))"
proof (cases "structure_ok k")
  case True
  have "owner_closed all"
    using structure_ok_closed [OF assms(1) True] assms(2) by (simp add: owner_closed_def)
  moreover have "\<forall>c \<in> set (children_of k). cd_Name c \<in> dom (map_of all)"
    by (simp add: assms(2) dom_named_components component_names_def)
  ultimately have "validateNoOwnershipCycles all k = None
      \<longleftrightarrow> (\<forall>c \<in> set (children_of k). \<exists>d. rooted_at all d (cd_Name c))"
    unfolding validateNoOwnershipCycles_def by (rule validateNoOwnershipCycles_None)
  then show ?thesis
    using True structure_errs_empty [OF assms] rooted_at_cong [OF assms(2)]
    unfolding validateStructureDefinition_def Let_def by (auto simp: errs_of_def split: option.splits)
next
  case False
  then show ?thesis
    using structure_errs_empty [OF assms] unfolding validateStructureDefinition_def Let_def by auto
qed

lemma Validate_None:
  "Validate parse (Some k) = None \<longleftrightarrow> well_formed parse k"
proof (cases "distinct (component_names k)")
  case True
  let ?all = "snd (initialize k)"
  have "Validate parse (Some k) = None \<longleftrightarrow> validateStructureDefinition ?all k = []
      \<and> validateGangScheduling ?all k = [] \<and> check_all parse (karta_jq k) = []"
    using True initialize_errs [of k]
    by (auto simp: Validate_def errors_Join_def validateInstructions_def ValidateJQExpressions_karta
        split: prod.splits)
  then show ?thesis
    using True initialize_all [OF True]
    unfolding well_formed_def validateStructureDefinition_empty [OF True initialize_all [OF True]]
      structure_ok_def check_all_empty validateGangScheduling_empty
    by (auto simp: dom_named_components)
next
  case False
  then show ?thesis
    using initialize_errs [of k]
    by (auto simp: Validate_def errors_Join_def well_formed_def split: prod.splits)
qed

text \<open>Every component of a well-formed Karta, the root included, hangs below the root at a bounded depth.\<close>

lemma well_formed_distinct: "well_formed parse k \<Longrightarrow> distinct (component_names k)"
  by (simp add: well_formed_def)

lemma well_formed_rooted:
  assumes "well_formed parse k" "n \<in> set (component_names k)"
  shows "\<exists>d \<le> length (children_of k). rooted_at (named_components k) d n"
proof -
  have dist: "distinct (component_names k)" using assms(1) by (rule well_formed_distinct)
  have "\<exists>d. rooted_at (named_components k) d n"
  proof (cases "n = cd_Name (root_of k)")
    case True
    then have "map_of (named_components k) n = Some (root_of k)"
      using dist by (simp add: named_components_Some)
    then have "rooted_at (named_components k) 0 n"
      using assms(1) by (simp add: well_formed_def)
    then show ?thesis ..
  next
    case False
    then show ?thesis using assms by (auto simp: well_formed_def component_names_def)
  qed
  then obtain d where d: "rooted_at (named_components k) d n" ..
  then have "d < card (dom (map_of (named_components k)))" by (rule rooted_at_bound)
  also have "\<dots> \<le> length (component_names k)"
    by (simp add: dom_named_components card_length)
  finally have "d \<le> length (children_of k)" by (simp add: component_names_def)
  with d show ?thesis by blast
qed

end
