(* ===== verification/JQ_Runner.thy ===== *)
theory JQ_Runner
  imports Karta_Validation
begin

text \<open>
  \<^verbatim>\<open>karta/sdk/pkg/jq/execution\<close>: the runner (runner.go) and the Evaluator, Assigner and Runner interfaces
  (interface.go). The runner keeps a source object, its JSON form converted once on first use, a limit
  on the number of results and a query timeout. The libraries it calls are the fields of \<open>jqlib\<close>:
  gojq's parser, compiler and iterator, and the JSON form of a typed object. A Go interface value is a
  record of its methods over an implementation state; the laws that clients of a Runner rely on are the
  locale \<open>runner_contract\<close>, interpreted here on the runner.
\<close>

section \<open>Libraries\<close>

text \<open>
  An error of a library is the text it prints. \<open>gojq_Run t c input vars i\<close> is what the \<open>i\<close>-th call of
  \<open>iter.Next()\<close> gives for a run with timeout \<open>t\<close>: no more values, an error value, or a value.
\<close>

record ('o, 'c) jqlib =
  gojq_Parse :: "string \<Rightarrow> string + ast"
  gojq_Compile :: "ast \<Rightarrow> string list \<Rightarrow> string + 'c"
  gojq_Run :: "64 word \<Rightarrow> 'c \<Rightarrow> json \<Rightarrow> json list \<Rightarrow> nat \<Rightarrow> (string + json) option"
  json_Marshal :: "'o \<Rightarrow> string + json"

definition lib_error :: "string + 'a \<Rightarrow> goerr + 'a" where
  "lib_error x = map_sum LibraryError id x"

text \<open>The parser as the validator sees it.\<close>

definition jq_parse :: "('o, 'c) jqlib \<Rightarrow> string \<Rightarrow> goerr + ast" where
  "jq_parse L s = lib_error (gojq_Parse L s)"

text \<open>
  json.Marshal followed by json.Unmarshal into \<open>any\<close>: a slice fails with its first failing element. The numbers of a value that is
  JSON already are taken to be ones that a float64 holds; the code reads every number back as a float64 and so rounds other integers.
\<close>

fun marshal_any :: "('o \<Rightarrow> string + json) \<Rightarrow> 'o goany \<Rightarrow> string + json"
  and marshal_anys :: "('o \<Rightarrow> string + json) \<Rightarrow> 'o goany list \<Rightarrow> string + json list" where
  "marshal_any m GoNil = Inr JNull"
| "marshal_any m (GoJson j) = Inr j"
| "marshal_any m (GoObj x) = m x"
| "marshal_any m (GoList xs) = (case marshal_anys m xs of Inl e \<Rightarrow> Inl e | Inr js \<Rightarrow> Inr (JArray js))"
| "marshal_anys m [] = Inr []"
| "marshal_anys m (x # xs) =
     (case marshal_any m x of
        Inl e \<Rightarrow> Inl e
      | Inr j \<Rightarrow> (case marshal_anys m xs of Inl e \<Rightarrow> Inl e | Inr js \<Rightarrow> Inr (j # js)))"

section \<open>interface.go\<close>

record ('r, 'o) Runner =
  Evaluate :: "string \<Rightarrow> ('r, json list) act"
  GetObject :: "('r, json) act"
  Assign :: "string \<Rightarrow> 'o goany \<Rightarrow> ('r, unit) act"
  AssignZip :: "string \<Rightarrow> 'o goany list \<Rightarrow> ('r, unit) act"

section \<open>runner.go\<close>

definition defaultMaxResults :: int where
  "defaultMaxResults = 1000"

definition defaultTimeoutInMilliseconds :: int where
  "defaultTimeoutInMilliseconds = 10000"

text \<open>Durations are int64 nanoseconds; the product wraps.\<close>

definition milliseconds :: "int \<Rightarrow> 64 word" where
  "milliseconds n = word_of_int n * 1000000"

record 'o runner =
  rn_source :: 'o
  rn_maxResults :: int
  rn_queryTimeout :: "64 word"
  rn_jsonOnce :: bool
  rn_objectData :: json
  rn_jsonErr :: "goerr option"

definition NewDefaultRunner :: "'o \<Rightarrow> 'o runner" where
  "NewDefaultRunner source =
     \<lparr>rn_source = source, rn_maxResults = defaultMaxResults,
      rn_queryTimeout = milliseconds defaultTimeoutInMilliseconds,
      rn_jsonOnce = False, rn_objectData = JNull, rn_jsonErr = None\<rparr>"

definition NewRunner :: "'o \<Rightarrow> int option \<Rightarrow> int option \<Rightarrow> 'o runner" where
  "NewRunner source queryMaxResults queryTimeoutInMilliseconds =
     (let r = NewDefaultRunner source;
          r1 = (case queryMaxResults of None \<Rightarrow> r | Some n \<Rightarrow> r\<lparr>rn_maxResults := n\<rparr>)
      in case queryTimeoutInMilliseconds of None \<Rightarrow> r1 | Some t \<Rightarrow> r1\<lparr>rn_queryTimeout := milliseconds t\<rparr>)"

definition convertToPrimitive :: "('o, 'c) jqlib \<Rightarrow> 'o goany \<Rightarrow> json res" where
  "convertToPrimitive L v =
     (case marshal_any (json_Marshal L) v of
        Inl e \<Rightarrow> Err (Wrapf ''failed to marshal value to JSON: %w'' [] (LibraryError e))
      | Inr j \<Rightarrow> Ok j)"

text \<open>The function passed to jsonOnce.Do.\<close>

definition convert_source :: "('o, 'c) jqlib \<Rightarrow> 'o runner \<Rightarrow> 'o runner" where
  "convert_source L r =
     (case convertToPrimitive L (GoObj (rn_source r)) of
        Ok j \<Rightarrow> r\<lparr>rn_jsonOnce := True, rn_objectData := j\<rparr>
      | Err e \<Rightarrow> r\<lparr>rn_jsonOnce := True, rn_jsonErr := Some (Wrapf ''failed to convert source to primitive: %w'' [] e)\<rparr>
      | _ \<Rightarrow> r)"

definition getObjectData :: "('o, 'c) jqlib \<Rightarrow> ('o runner, json) act" where
  "getObjectData L = (\<lambda>r.
     let r' = (if rn_jsonOnce r then r else convert_source L r)
     in case rn_jsonErr r' of Some e \<Rightarrow> (Err e, r') | None \<Rightarrow> (Ok (rn_objectData r'), r'))"

definition compile :: "('o, 'c) jqlib \<Rightarrow> string \<Rightarrow> string list \<Rightarrow> 'c res" where
  "compile L expression variables =
     (case gojq_Parse L expression of
        Inl e \<Rightarrow> Err (JQParseError expression (LibraryError e))
      | Inr parsed \<Rightarrow>
          (case gojq_Compile L parsed variables of
             Inl e \<Rightarrow> Err (JQCompileError expression (LibraryError e))
           | Inr code \<Rightarrow> Ok code))"

text \<open>The loop of safeRunWithVariables: \<open>i\<close> counts the calls of iter.Next().\<close>

function run_loop :: "int \<Rightarrow> (nat \<Rightarrow> (string + json) option) \<Rightarrow> string \<Rightarrow> nat \<Rightarrow> json list \<Rightarrow> json list res" where
  "run_loop maxResults iter expression i results =
     (case iter i of
        None \<Rightarrow> Ok results
      | Some (Inl e) \<Rightarrow> Err (JQExecutionError expression (LibraryError e))
      | Some (Inr v) \<Rightarrow>
          let results' = results @ [v]
          in if int (length results') \<ge> maxResults
             then Err (Errorf ''query results exceed the allowed number %d'' [AInt maxResults])
             else run_loop maxResults iter expression (Suc i) results')"
  by pat_completeness auto
termination
  by (relation "measure (\<lambda>(maxResults, iter, expression, i, results). nat (maxResults - int (length results)))") auto

declare run_loop.simps [simp del]

definition safeRunWithVariables ::
  "('o, 'c) jqlib \<Rightarrow> 'o runner \<Rightarrow> 'c \<Rightarrow> json \<Rightarrow> string \<Rightarrow> json list \<Rightarrow> json list res" where
  "safeRunWithVariables L r code input expression variables =
     run_loop (rn_maxResults r) (gojq_Run L (rn_queryTimeout r) code input variables) expression 0 []"

definition runner_Evaluate :: "('o, 'c) jqlib \<Rightarrow> string \<Rightarrow> ('o runner, json list) act" where
  "runner_Evaluate L expression =
     and_then (wrap_error ''failed to get JSON data: %w'' [] (getObjectData L)) (\<lambda>objectData.
     and_then (lift_res (compile L expression [])) (\<lambda>query.
     (\<lambda>r. (safeRunWithVariables L r query objectData expression [], r))))"

definition assignWithExpression ::
  "('o, 'c) jqlib \<Rightarrow> string \<Rightarrow> string list \<Rightarrow> 'o goany list \<Rightarrow> ('o runner, unit) act" where
  "assignWithExpression L updateExpression variables values =
     (if length variables \<noteq> length values
      then fail_act (Errorf ''variables and values length mismatch: %d variables but %d values''
             [AInt (int (length variables)), AInt (int (length values))])
      else
        and_then (wrap_error ''failed to get JSON data: %w'' [] (getObjectData L)) (\<lambda>objectData.
        and_then (map_act (\<lambda>v. wrap_error ''failed to convert value to primitive: %w'' []
                    (lift_res (convertToPrimitive L v))) values) (\<lambda>convertedValues.
        and_then (lift_res (compile L updateExpression variables)) (\<lambda>query.
        and_then (\<lambda>r. (safeRunWithVariables L r query objectData updateExpression convertedValues, r)) (\<lambda>results.
        (case results of
           [] \<Rightarrow> fail_act (Errorf ''update query returned no results for expression: %s'' [AStr updateExpression])
         | x # _ \<Rightarrow> (\<lambda>r. (Ok (), r\<lparr>rn_objectData := x\<rparr>))))))))"

definition runner_Assign :: "('o, 'c) jqlib \<Rightarrow> string \<Rightarrow> 'o goany \<Rightarrow> ('o runner, unit) act" where
  "runner_Assign L expression v = assignWithExpression L (''('' @ expression @ '') = $val'') [''$val''] [v]"

text \<open>Line feed and tab of the raw string literal in AssignZip.\<close>

definition nl :: "nat \<Rightarrow> string" where
  "nl tabs = CHR 0x0A # replicate tabs (CHR 0x09)"

definition zip_expression :: "string \<Rightarrow> string" where
  "zip_expression expression =
     nl 2 @ ''[path('' @ expression @ '')] as $paths |''
     @ nl 2 @ ''if ($paths | length) == ($val | length) then''
     @ nl 3 @ ''reduce range($paths | length) as $i (.; setpath($paths[$i]; $val[$i]))''
     @ nl 2 @ ''else''
     @ nl 3 @ ''error('' @ [CHR 0x22] @ ''array length mismatch: expected '' @ [CHR 0x22]
       @ '' + ($paths | length | tostring) + '' @ [CHR 0x22] @ '' values but got '' @ [CHR 0x22]
       @ '' + ($val | length | tostring))''
     @ nl 2 @ ''end'' @ nl 1"

definition runner_AssignZip :: "('o, 'c) jqlib \<Rightarrow> string \<Rightarrow> 'o goany list \<Rightarrow> ('o runner, unit) act" where
  "runner_AssignZip L expression values =
     assignWithExpression L (zip_expression expression) [''$val''] [GoList values]"

definition runner_GetObject :: "('o, 'c) jqlib \<Rightarrow> ('o runner, json) act" where
  "runner_GetObject L = getObjectData L"

text \<open>The runner as a value of the Runner interface.\<close>

definition runner_iface :: "('o, 'c) jqlib \<Rightarrow> ('o runner, 'o) Runner" where
  "runner_iface L = \<lparr>Evaluate = runner_Evaluate L, GetObject = runner_GetObject L,
     Assign = runner_Assign L, AssignZip = runner_AssignZip L\<rparr>"

section \<open>The result limit\<close>

text \<open>From its \<open>i\<close>-th call on, the iterator gives exactly the values \<open>vs\<close> and then ends without an error.\<close>

fun yields :: "(nat \<Rightarrow> (string + json) option) \<Rightarrow> nat \<Rightarrow> json list \<Rightarrow> bool" where
  "yields iter i [] \<longleftrightarrow> iter i = None"
| "yields iter i (v # vs) \<longleftrightarrow> iter i = Some (Inr v) \<and> yields iter (Suc i) vs"

lemma yields_cases:
  "iter i = None \<Longrightarrow> yields iter i new \<longleftrightarrow> new = []"
  "iter i = Some (Inl e) \<Longrightarrow> \<not> yields iter i new"
  "iter i = Some (Inr v) \<Longrightarrow> yields iter i new \<longleftrightarrow> (\<exists>vs. new = v # vs \<and> yields iter (Suc i) vs)"
  by (cases new; auto)+

lemma yields_unique: "yields iter i vs \<Longrightarrow> yields iter i ws \<Longrightarrow> vs = ws"
  by (induction vs arbitrary: i ws) (auto simp: yields_cases)

lemma run_loop_Ok:
  "run_loop n iter expression i results = Ok vs \<longleftrightarrow>
    (\<exists>new. vs = results @ new \<and> yields iter i new \<and> (new = [] \<or> int (length vs) < n))"
proof (induction n iter expression i results rule: run_loop.induct)
  case (1 n iter expression i results)
  show ?case
  proof (cases "iter i")
    case None
    then show ?thesis by (subst run_loop.simps) (auto simp: yields_cases)
  next
    case (Some x)
    show ?thesis
    proof (cases x)
      case (Inl e)
      with Some show ?thesis by (subst run_loop.simps) (auto simp: yields_cases)
    next
      case (Inr v)
      show ?thesis
      proof (cases "n \<le> int (length (results @ [v]))")
        case True
        with Some Inr show ?thesis by (subst run_loop.simps) (auto simp: yields_cases)
      next
        case False
        with Some Inr "1.IH" [OF Some Inr refl False] show ?thesis
          by (subst run_loop.simps) (auto simp: yields_cases)
      qed
    qed
  qed
qed

lemma run_loop_outcome:
  "(\<exists>vs. run_loop n iter expression i results = Ok vs)
   \<or> (\<exists>e. run_loop n iter expression i results = Err (JQExecutionError expression (LibraryError e)))
   \<or> run_loop n iter expression i results = Err (Errorf ''query results exceed the allowed number %d'' [AInt n])"
proof (induction n iter expression i results rule: run_loop.induct)
  case (1 n iter expression i results)
  show ?case
  proof (cases "iter i")
    case None
    then show ?thesis by (subst run_loop.simps) simp
  next
    case (Some x)
    then show ?thesis
    proof (cases x)
      case (Inl e)
      with Some show ?thesis by (simp add: run_loop.simps [of n iter expression i results])
    next
      case (Inr v)
      with Some "1.IH" [OF Some Inr refl] show ?thesis
        by (cases "n \<le> int (length (results @ [v]))") (simp_all add: run_loop.simps [of n iter expression i results])
    qed
  qed
qed

section \<open>The lazily converted object\<close>

text \<open>What the runner stands for, whether or not the conversion has run: the JSON form or its error.\<close>

definition runner_data :: "('o, 'c) jqlib \<Rightarrow> 'o runner \<Rightarrow> goerr + json" where
  "runner_data L r =
     (let r' = (if rn_jsonOnce r then r else convert_source L r)
      in case rn_jsonErr r' of Some e \<Rightarrow> Inl e | None \<Rightarrow> Inr (rn_objectData r'))"

definition runner_view :: "('o, 'c) jqlib \<Rightarrow> 'o runner \<Rightarrow> (goerr + json) \<times> int \<times> 64 word" where
  "runner_view L r = (runner_data L r, rn_maxResults r, rn_queryTimeout r)"

definition forced :: "('o, 'c) jqlib \<Rightarrow> 'o runner \<Rightarrow> 'o runner" where
  "forced L r = (if rn_jsonOnce r then r else convert_source L r)"

lemma convert_source_fields [simp]:
  "rn_source (convert_source L r) = rn_source r"
  "rn_maxResults (convert_source L r) = rn_maxResults r"
  "rn_queryTimeout (convert_source L r) = rn_queryTimeout r"
  "rn_jsonOnce (convert_source L r)"
  by (auto simp: convert_source_def convertToPrimitive_def split: sum.splits)

lemma forced_once [simp]: "rn_jsonOnce (forced L r)"
  by (simp add: forced_def)

lemma forced_idem [simp]: "forced L (forced L r) = forced L r"
  by (simp add: forced_def)

lemma forced_fields [simp]:
  "rn_source (forced L r) = rn_source r" "rn_maxResults (forced L r) = rn_maxResults r"
  "rn_queryTimeout (forced L r) = rn_queryTimeout r"
  by (simp_all add: forced_def)

lemma runner_data_forced [simp]: "runner_data L (forced L r) = runner_data L r"
  by (simp add: runner_data_def forced_def Let_def)

lemma runner_view_forced [simp]: "runner_view L (forced L r) = runner_view L r"
  by (simp add: runner_view_def)

lemma getObjectData_eq:
  "getObjectData L r = (case runner_data L r of Inl e \<Rightarrow> Err e | Inr j \<Rightarrow> Ok j, forced L r)"
  by (auto simp: getObjectData_def runner_data_def forced_def Let_def split: option.splits)

text \<open>The runner's own errors never claim that a definition is missing.\<close>

definition clean_runner :: "'o runner \<Rightarrow> bool" where
  "clean_runner r \<longleftrightarrow> (\<forall>e. rn_jsonErr r = Some e \<longrightarrow> \<not> isDefinitionNotFoundError e)"

section \<open>Evaluate and the assignments\<close>

text \<open>What an evaluation yields, as a function of the view.\<close>

definition eval_result :: "('o, 'c) jqlib \<Rightarrow> (goerr + json) \<times> int \<times> 64 word \<Rightarrow> string \<Rightarrow> json list res" where
  "eval_result L v expression =
     (case v of (data, n, t) \<Rightarrow>
       case data of
         Inl e \<Rightarrow> Err (Wrapf ''failed to get JSON data: %w'' [] e)
       | Inr j \<Rightarrow>
           (case compile L expression [] of
              Ok code \<Rightarrow> run_loop n (gojq_Run L t code j []) expression 0 []
            | Err e \<Rightarrow> Err e | Panic p \<Rightarrow> Panic p | NoReturn \<Rightarrow> NoReturn))"

lemma runner_Evaluate_eq:
  "runner_Evaluate L expression r = (eval_result L (runner_view L r) expression, forced L r)"
  by (auto simp: runner_Evaluate_def eval_result_def runner_view_def act_simps getObjectData_eq
      safeRunWithVariables_def split: sum.splits res.splits)

lemma compile_outcome:
  "(\<exists>c. compile L expression vars = Ok c)
   \<or> (\<exists>e. compile L expression vars = Err (JQParseError expression (LibraryError e)))
   \<or> (\<exists>e. compile L expression vars = Err (JQCompileError expression (LibraryError e)))"
  by (auto simp: compile_def split: sum.splits)

lemma run_loop_clean:
  "(\<exists>vs. run_loop n iter expression i results = Ok vs)
   \<or> (\<exists>e. run_loop n iter expression i results = Err e \<and> \<not> isDefinitionNotFoundError e)"
  using run_loop_outcome [of n iter expression i results] by auto

lemma eval_result_outcome:
  assumes "\<And>e. fst v = Inl e \<Longrightarrow> \<not> isDefinitionNotFoundError e"
  shows "(\<exists>vs. eval_result L v expression = Ok vs)
    \<or> (\<exists>e. eval_result L v expression = Err e \<and> \<not> isDefinitionNotFoundError e)"
proof (cases v)
  case (fields data n t)
  show ?thesis
  proof (cases "\<exists>j c. data = Inr j \<and> compile L expression [] = Ok c")
    case True
    then obtain j c where "data = Inr j" "compile L expression [] = Ok c" by blast
    with fields run_loop_clean [of n "gojq_Run L t c j []" expression 0 "[]"] show ?thesis
      by (simp add: eval_result_def)
  next
    case False
    with assms fields compile_outcome [of L expression "[]"] show ?thesis
      by (auto simp: eval_result_def split: sum.splits)
  qed
qed

text \<open>The assignment part after the object is known: the converted values, the query and its first result.\<close>

fun convert_values :: "('o, 'c) jqlib \<Rightarrow> 'o goany list \<Rightarrow> json list res" where
  "convert_values L [] = Ok []"
| "convert_values L (v # vs) =
     (case convertToPrimitive L v of
        Ok j \<Rightarrow> (case convert_values L vs of Ok js \<Rightarrow> Ok (j # js) | x \<Rightarrow> x)
      | Err e \<Rightarrow> Err (Wrapf ''failed to convert value to primitive: %w'' [] e)
      | Panic p \<Rightarrow> Panic p | NoReturn \<Rightarrow> NoReturn)"

lemma map_act_convert:
  "map_act (\<lambda>v. wrap_error ''failed to convert value to primitive: %w'' [] (lift_res (convertToPrimitive L v))) vs r
     = (convert_values L vs, r)"
  by (induction vs) (auto simp: act_simps split: res.splits)

lemma convert_values_outcome:
  "(\<exists>js. convert_values L vs = Ok js \<and> length js = length vs)
   \<or> (\<exists>e. convert_values L vs = Err e \<and> \<not> isDefinitionNotFoundError e)"
  by (induction vs) (auto simp: convertToPrimitive_def split: sum.splits)

definition assign_result ::
  "('o, 'c) jqlib \<Rightarrow> (goerr + json) \<times> int \<times> 64 word \<Rightarrow> string \<Rightarrow> 'o goany \<Rightarrow> json res" where
  "assign_result L v expression x =
     (case v of (data, n, t) \<Rightarrow>
       case data of
         Inl e \<Rightarrow> Err (Wrapf ''failed to get JSON data: %w'' [] e)
       | Inr j \<Rightarrow>
           (case convert_values L [x] of
              Ok vals \<Rightarrow>
                (case compile L expression [''$val''] of
                   Ok code \<Rightarrow>
                     (case run_loop n (gojq_Run L t code j vals) expression 0 [] of
                        Ok [] \<Rightarrow> Err (Errorf ''update query returned no results for expression: %s'' [AStr expression])
                      | Ok (y # _) \<Rightarrow> Ok y
                      | Err e \<Rightarrow> Err e | Panic p \<Rightarrow> Panic p | NoReturn \<Rightarrow> NoReturn)
                 | Err e \<Rightarrow> Err e | Panic p \<Rightarrow> Panic p | NoReturn \<Rightarrow> NoReturn)
            | Err e \<Rightarrow> Err e | Panic p \<Rightarrow> Panic p | NoReturn \<Rightarrow> NoReturn))"

lemma assignWithExpression_eq:
  "assignWithExpression L expression [''$val''] [x] r =
     (case assign_result L (runner_view L r) expression x of
        Ok y \<Rightarrow> (Ok (), (forced L r)\<lparr>rn_objectData := y\<rparr>)
      | Err e \<Rightarrow> (Err e, forced L r) | Panic p \<Rightarrow> (Panic p, forced L r) | NoReturn \<Rightarrow> (NoReturn, forced L r))"
  by (auto simp: assignWithExpression_def assign_result_def runner_view_def act_simps getObjectData_eq
      map_act_convert safeRunWithVariables_def simp del: map_act.simps convert_values.simps
      split: sum.splits res.splits list.splits)

lemma assign_result_outcome:
  assumes "\<And>e. fst v = Inl e \<Longrightarrow> \<not> isDefinitionNotFoundError e"
  shows "(\<exists>y. assign_result L v expression x = Ok y)
    \<or> (\<exists>e. assign_result L v expression x = Err e \<and> \<not> isDefinitionNotFoundError e)"
proof (cases v)
  case (fields data n t)
  show ?thesis
  proof (cases "\<exists>j vals c. data = Inr j \<and> convert_values L [x] = Ok vals \<and> compile L expression [''$val''] = Ok c")
    case True
    then obtain j vals c where "data = Inr j" "convert_values L [x] = Ok vals"
      "compile L expression [''$val''] = Ok c" by blast
    with fields run_loop_clean [of n "gojq_Run L t c j vals" expression 0 "[]"] show ?thesis
      by (auto simp: assign_result_def simp del: convert_values.simps split: list.splits)
  next
    case False
    with assms fields compile_outcome [of L expression "[''$val'']"] convert_values_outcome [of L "[x]"]
    show ?thesis
      by (auto simp: assign_result_def simp del: convert_values.simps split: sum.splits)
  qed
qed

section \<open>The contract of a Runner\<close>

text \<open>
  What the code above the runner relies on, for the states that satisfy an invariant: evaluation depends
  on the view only and changes nothing a client can see; an assignment that fails leaves the view as
  it was; no operation panics or hangs; and no error says that a definition is missing.
\<close>

locale runner_contract =
  fixes R :: "('r, 'o) Runner"
    and view :: "'r \<Rightarrow> 'v"
    and invar :: "'r \<Rightarrow> bool"
  assumes evaluate_reads: "reads (\<lambda>e. \<not> isDefinitionNotFoundError e) invar view (Evaluate R expression)"
    and object_reads: "reads (\<lambda>e. \<not> isDefinitionNotFoundError e) invar view (GetObject R)"
    and assign_atomic: "triple (\<lambda>r. invar r \<and> view r = v) (Assign R expression x)
      (\<lambda>_ r. invar r) (\<lambda>e r. invar r \<and> view r = v \<and> \<not> isDefinitionNotFoundError e)"
    and assign_zip_atomic: "triple (\<lambda>r. invar r \<and> view r = v) (AssignZip R expression xs)
      (\<lambda>_ r. invar r) (\<lambda>e r. invar r \<and> view r = v \<and> \<not> isDefinitionNotFoundError e)"
begin

lemma assign_inv: "triple invar (Assign R expression x) (\<lambda>_. invar) (\<lambda>e r. invar r \<and> \<not> isDefinitionNotFoundError e)"
  by (rule triple_all_views [where view = view and Q = "\<lambda>_ _ _. True", simplified, OF assign_atomic]) simp

lemma assign_zip_inv: "triple invar (AssignZip R expression xs) (\<lambda>_. invar) (\<lambda>e r. invar r \<and> \<not> isDefinitionNotFoundError e)"
  by (rule triple_all_views [where view = view and Q = "\<lambda>_ _ _. True", simplified, OF assign_zip_atomic]) simp

end

lemma runner_data_clean: "clean_runner r \<Longrightarrow> runner_data L r = Inl e \<Longrightarrow> \<not> isDefinitionNotFoundError e"
  by (auto simp: runner_data_def clean_runner_def convert_source_def convertToPrimitive_def Let_def
      split: if_splits option.splits sum.splits)

lemma forced_clean: "clean_runner r \<Longrightarrow> clean_runner (forced L r)"
  by (auto simp: forced_def clean_runner_def convert_source_def convertToPrimitive_def split: sum.splits)

lemma clean_runner_data_upd [simp]: "clean_runner (r\<lparr>rn_objectData := j\<rparr>) = clean_runner r"
  by (simp add: clean_runner_def)

lemma NewRunner_clean: "clean_runner (NewDefaultRunner x)" "clean_runner (NewRunner x n t)"
  by (auto simp: clean_runner_def NewRunner_def NewDefaultRunner_def Let_def split: option.splits)

lemma assign_triple:
  "triple (\<lambda>r. clean_runner r \<and> runner_view L r = v) (assignWithExpression L expression [''$val''] [x])
     (\<lambda>_ r. clean_runner r) (\<lambda>e r. clean_runner r \<and> runner_view L r = v \<and> \<not> isDefinitionNotFoundError e)"
proof -
  have "(\<exists>y. assign_result L (runner_view L r) expression x = Ok y)
      \<or> (\<exists>e. assign_result L (runner_view L r) expression x = Err e \<and> \<not> isDefinitionNotFoundError e)"
    if "clean_runner r" for r
    using that by (intro assign_result_outcome) (auto simp: runner_view_def dest: runner_data_clean)
  then show ?thesis
    unfolding triple_def assignWithExpression_eq by (fastforce intro: forced_clean)
qed

lemma evaluate_reads_runner:
  "reads (\<lambda>e. \<not> isDefinitionNotFoundError e) clean_runner (runner_view L) (runner_Evaluate L expression)"
proof -
  have "(\<exists>vs. eval_result L (runner_view L r) expression = Ok vs)
      \<or> (\<exists>e. eval_result L (runner_view L r) expression = Err e \<and> \<not> isDefinitionNotFoundError e)"
    if "clean_runner r" for r
    using that by (intro eval_result_outcome) (auto simp: runner_view_def dest: runner_data_clean)
  then show ?thesis
    unfolding reads_def runner_Evaluate_eq by (fastforce intro: forced_clean)
qed

interpretation std: runner_contract "runner_iface L" "runner_view L" clean_runner for L
proof (unfold_locales, goal_cases)
  case (1 expression)
  show ?case by (simp add: runner_iface_def evaluate_reads_runner)
next
  case 2
  show ?case
    unfolding reads_def runner_iface_def
    by (auto simp: runner_GetObject_def getObjectData_eq runner_view_def intro: forced_clean
        dest: runner_data_clean split: sum.splits)
next
  case (3 v expression x)
  show ?case by (simp add: runner_iface_def runner_Assign_def assign_triple)
next
  case (4 v expression xs)
  show ?case by (simp add: runner_iface_def runner_AssignZip_def assign_triple)
qed

end
