(* ===== verification/Accessor.thy ===== *)
theory Accessor
  imports JQ_Runner
begin

text \<open>
  \<^verbatim>\<open>karta/sdk/pkg/resource/accessor.go\<close> and the data types of component.go it fills. The accessor is the
  runner it holds, so every method takes the Runner and is an action over its state. A Go type parameter
  \<open>T\<close> of the generic helpers is a \<open>gotype\<close>: the direct type assertion and json.Unmarshal into \<open>T\<close>. Types
  declared in the Kubernetes libraries are the type \<open>'o\<close>, decoded by the functions of \<open>k8slib\<close>. A nil
  slice and an empty one differ only where the code or json.Marshal tells them apart; there the
  slice is an \<open>option\<close>.
\<close>

section \<open>Data of component.go\<close>

record 'o FragmentedPodSpec =
  fp_SchedulerName :: string
  fp_Labels :: "(string \<times> string) list option"
  fp_Annotations :: "(string \<times> string) list option"
  fp_Resources :: "'o option"
  fp_ResourceClaims :: "'o list option"
  fp_PodAffinity :: "'o option"
  fp_NodeAffinity :: "'o option"
  fp_Containers :: "'o list option"
  fp_Container :: "'o option"
  fp_PriorityClassName :: string
  fp_Image :: string

record Scale =
  scale_Replicas :: "int32 option"
  scale_MinReplicas :: "int32 option"
  scale_MaxReplicas :: "int32 option"

record Condition =
  co_Type :: string
  co_Status :: "string option"
  co_Reason :: "string option"
  co_Message :: string

record Status =
  st_Phase :: "string option"
  st_Conditions :: "Condition list"
  st_MatchedStatuses :: "ResourceStatus list"

section \<open>Kubernetes and JSON libraries\<close>

text \<open>
  json.Unmarshal into the library types, and of the text of a suspend action into \<open>any\<close>.
\<close>

record 'o k8slib =
  dec_PodTemplateSpec :: "json \<Rightarrow> string + 'o"
  dec_PodSpec :: "json \<Rightarrow> string + 'o"
  dec_ObjectMeta :: "json \<Rightarrow> string + 'o"
  dec_ResourceRequirements :: "json \<Rightarrow> string + 'o"
  dec_PodResourceClaim :: "json \<Rightarrow> string + 'o"
  dec_PodAffinity :: "json \<Rightarrow> string + 'o"
  dec_NodeAffinity :: "json \<Rightarrow> string + 'o"
  dec_Container :: "json \<Rightarrow> string + 'o"
  json_Unmarshal_any :: "string \<Rightarrow> string + json"

section \<open>Generic conversion\<close>

record 't gotype =
  ty_assert :: "json \<Rightarrow> 't option"
  ty_decode :: "json \<Rightarrow> string + 't"

definition unmarshal_error :: "string \<Rightarrow> string + 't" where
  "unmarshal_error goType = Inl (''json: cannot unmarshal into Go value of type '' @ goType)"

fun decode_list :: "(json \<Rightarrow> string + 't) \<Rightarrow> json list \<Rightarrow> string + 't list" where
  "decode_list dec [] = Inr []"
| "decode_list dec (j # js) =
     (case dec j of
        Inl e \<Rightarrow> Inl e
      | Inr t \<Rightarrow> (case decode_list dec js of Inl e \<Rightarrow> Inl e | Inr ts \<Rightarrow> Inr (t # ts)))"

text \<open>A struct type of a library: never what gojq returns, so the assertion fails.\<close>

definition go_struct :: "(json \<Rightarrow> string + 'o) \<Rightarrow> 'o gotype" where
  "go_struct dec = \<lparr>ty_assert = (\<lambda>_. None), ty_decode = dec\<rparr>"

fun decode_string :: "json \<Rightarrow> string + string" where
  "decode_string (JString s) = Inr s"
| "decode_string JNull = Inr []"
| "decode_string j = unmarshal_error ''string''"

definition go_string :: "string gotype" where
  "go_string = \<lparr>ty_assert = (\<lambda>j. case j of JString s \<Rightarrow> Some s | _ \<Rightarrow> None), ty_decode = decode_string\<rparr>"

fun decode_string_map :: "json \<Rightarrow> string + (string \<times> string) list option" where
  "decode_string_map JNull = Inr None"
| "decode_string_map (JObject kvs) =
     (case decode_list (\<lambda>v. decode_string v) (map snd kvs) of
        Inl e \<Rightarrow> Inl e | Inr vs \<Rightarrow> Inr (Some (zip (map fst kvs) vs)))"
| "decode_string_map j = unmarshal_error ''map[string]string''"

definition go_string_map :: "(string \<times> string) list option gotype" where
  "go_string_map = \<lparr>ty_assert = (\<lambda>_. None), ty_decode = decode_string_map\<rparr>"

fun decode_any_map :: "json \<Rightarrow> string + (string \<times> json) list" where
  "decode_any_map JNull = Inr []"
| "decode_any_map (JObject kvs) = Inr kvs"
| "decode_any_map j = unmarshal_error ''map[string]interface {}''"

fun decode_slice :: "(json \<Rightarrow> string + 't) \<Rightarrow> json \<Rightarrow> string + 't list option" where
  "decode_slice dec JNull = Inr None"
| "decode_slice dec (JArray js) = (case decode_list dec js of Inl e \<Rightarrow> Inl e | Inr ts \<Rightarrow> Inr (Some ts))"
| "decode_slice dec j = unmarshal_error ''slice''"

definition go_slice :: "(json \<Rightarrow> string + 't) \<Rightarrow> 't list option gotype" where
  "go_slice dec = \<lparr>ty_assert = (\<lambda>_. None), ty_decode = decode_slice dec\<rparr>"

fun decode_ptr :: "(json \<Rightarrow> string + 't) \<Rightarrow> json \<Rightarrow> string + 't option" where
  "decode_ptr dec JNull = Inr None"
| "decode_ptr dec j = (case dec j of Inl e \<Rightarrow> Inl e | Inr t \<Rightarrow> Inr (Some t))"

definition go_ptr :: "(json \<Rightarrow> string + 't) \<Rightarrow> 't option gotype" where
  "go_ptr dec = \<lparr>ty_assert = (\<lambda>_. None), ty_decode = decode_ptr dec\<rparr>"

text \<open>A JSON number fits int32 when it is an integer in range.\<close>

definition int32_of_rat :: "rat \<Rightarrow> int32 option" where
  "int32_of_rat q = (let n = \<lfloor>q\<rfloor> in
     if of_int n = q \<and> - (2 ^ 31) \<le> n \<and> n < 2 ^ 31 then Some (word_of_int n) else None)"

fun decode_int32 :: "json \<Rightarrow> string + int32" where
  "decode_int32 (JNum q) = (case int32_of_rat q of Some w \<Rightarrow> Inr w | None \<Rightarrow> unmarshal_error ''int32'')"
| "decode_int32 JNull = Inr 0"
| "decode_int32 j = unmarshal_error ''int32''"

definition convertViaJSON :: "'t gotype \<Rightarrow> json \<Rightarrow> 't res" where
  "convertViaJSON ty j =
     (case ty_decode ty j of
        Inl e \<Rightarrow> Err (Wrapf ''failed to unmarshal to destination: %w'' [] (LibraryError e))
      | Inr t \<Rightarrow> Ok t)"

fun safeConvertSlice_from :: "nat \<Rightarrow> 't gotype \<Rightarrow> json list \<Rightarrow> 't list res" where
  "safeConvertSlice_from i ty [] = Ok []"
| "safeConvertSlice_from i ty (j # js) =
     (case (case ty_assert ty j of Some t \<Rightarrow> Ok t | None \<Rightarrow> convertViaJSON ty j) of
        Ok t \<Rightarrow> (case safeConvertSlice_from (Suc i) ty js of Ok ts \<Rightarrow> Ok (t # ts) | x \<Rightarrow> x)
      | Err e \<Rightarrow> Err (Wrapf ''failed to convert object at index %d to type %T: %w'' [AInt (int i)] e)
      | Panic p \<Rightarrow> Panic p | NoReturn \<Rightarrow> NoReturn)"

definition safeConvertSlice :: "'t gotype \<Rightarrow> json list \<Rightarrow> 't list res" where
  "safeConvertSlice ty js = safeConvertSlice_from 0 ty js"

text \<open>The zero value of \<open>T\<close> is passed along.\<close>

definition safeGetByIndex :: "'t \<Rightarrow> 't list \<Rightarrow> nat \<Rightarrow> 't" where
  "safeGetByIndex zero xs i = (if i < length xs then xs ! i else zero)"

definition extract_go :: "('r, 'o) Runner \<Rightarrow> 't gotype \<Rightarrow> string option \<Rightarrow> ('r, 't list) act" where
  "extract_go R ty path =
     (case path of
        None \<Rightarrow> return_act []
      | Some p \<Rightarrow> and_then (Evaluate R p) (\<lambda>results. lift_res (safeConvertSlice ty results)))"

text \<open>strconv.ParseInt(s, 10, 32): an optional sign, at least one decimal digit, a value in range.\<close>

fun decimal :: "nat \<Rightarrow> string \<Rightarrow> nat option" where
  "decimal acc [] = Some acc"
| "decimal acc (c # cs) =
     (let d = (of_char c :: nat) in if 48 \<le> d \<and> d \<le> 57 then decimal (acc * 10 + (d - 48)) cs else None)"

definition unsigned_decimal :: "string \<Rightarrow> nat option" where
  "unsigned_decimal s = (if s = [] then None else decimal 0 s)"

definition ParseInt32 :: "string \<Rightarrow> int option" where
  "ParseInt32 s =
     (case s of
        [] \<Rightarrow> None
      | c # cs \<Rightarrow>
          let (neg, body) = (if c = CHR ''-'' then (True, cs) else if c = CHR ''+'' then (False, cs) else (False, s))
          in case unsigned_decimal body of
               None \<Rightarrow> None
             | Some n \<Rightarrow>
                 if neg then (if n \<le> 2 ^ 31 then Some (- int n) else None)
                 else (if n < 2 ^ 31 then Some (int n) else None))"

text \<open>One pass through the loop that turns a string into a number.\<close>

definition normalize_replica :: "nat \<Rightarrow> json \<Rightarrow> json res" where
  "normalize_replica i j =
     (case j of
        JString s \<Rightarrow> (case ParseInt32 s of
            None \<Rightarrow> Err (Errorf ''replicas value %q at index %d is not a number'' [AStr s, AInt (int i)])
          | Some n \<Rightarrow> Ok (JNum (of_int n)))
      | _ \<Rightarrow> Ok j)"

fun normalize_replicas :: "nat \<Rightarrow> json list \<Rightarrow> json list res" where
  "normalize_replicas i [] = Ok []"
| "normalize_replicas i (j # js) =
     (case normalize_replica i j of
        Ok j' \<Rightarrow> (case normalize_replicas (Suc i) js of Ok js' \<Rightarrow> Ok (j' # js') | x \<Rightarrow> x)
      | Err e \<Rightarrow> Err e | Panic p \<Rightarrow> Panic p | NoReturn \<Rightarrow> NoReturn)"

definition extractReplicas :: "('r, 'o) Runner \<Rightarrow> string option \<Rightarrow> ('r, int32 option list) act" where
  "extractReplicas R path =
     (case path of
        None \<Rightarrow> return_act []
      | Some p \<Rightarrow> and_then (Evaluate R p) (\<lambda>results.
          and_then (lift_res (normalize_replicas 0 results)) (\<lambda>normalized.
          lift_res (safeConvertSlice (go_ptr decode_int32) normalized))))"

section \<open>Extraction\<close>

definition no_definition :: "string \<Rightarrow> string \<Rightarrow> ('r, 'a) act" where
  "no_definition name what = fail_act (DefinitionNotFoundError (''component '' @ name @ '' does not have '' @ what))"

definition accessor_GetObject :: "('r, 'o) Runner \<Rightarrow> ('r, (string \<times> json) list) act" where
  "accessor_GetObject R =
     and_then (GetObject R) (\<lambda>object. case object of
         JObject kvs \<Rightarrow> return_act kvs
       | _ \<Rightarrow> fail_act (Errorf ''object is not a map[string]interface{}'' []))"

definition ExtractPodTemplateSpec :: "('r, 'o) Runner \<Rightarrow> 'o k8slib \<Rightarrow> ComponentDefinition \<Rightarrow> ('r, 'o list) act" where
  "ExtractPodTemplateSpec R K d =
     (case cd_SpecDefinition d of
        None \<Rightarrow> no_definition (cd_Name d) ''spec definition''
      | Some sd \<Rightarrow>
          (case sp_PodTemplateSpecPath sd of
             None \<Rightarrow> no_definition (cd_Name d) ''pod template spec definition''
           | Some p \<Rightarrow> extract_go R (go_struct (dec_PodTemplateSpec K)) (Some p)))"

definition ExtractPodSpec :: "('r, 'o) Runner \<Rightarrow> 'o k8slib \<Rightarrow> ComponentDefinition \<Rightarrow> ('r, 'o list) act" where
  "ExtractPodSpec R K d =
     (case cd_SpecDefinition d of
        None \<Rightarrow> no_definition (cd_Name d) ''spec definition''
      | Some sd \<Rightarrow>
          (case sp_PodSpecPath sd of
             None \<Rightarrow> no_definition (cd_Name d) ''pod spec definition''
           | Some p \<Rightarrow> extract_go R (go_struct (dec_PodSpec K)) (Some p)))"

definition ExtractPodMetadata :: "('r, 'o) Runner \<Rightarrow> 'o k8slib \<Rightarrow> ComponentDefinition \<Rightarrow> ('r, 'o list) act" where
  "ExtractPodMetadata R K d =
     (case cd_SpecDefinition d of
        None \<Rightarrow> no_definition (cd_Name d) ''spec definition''
      | Some sd \<Rightarrow>
          (case sp_MetadataPath sd of
             None \<Rightarrow> no_definition (cd_Name d) ''pod metadata definition''
           | Some p \<Rightarrow> extract_go R (go_struct (dec_ObjectMeta K)) (Some p)))"

text \<open>The scales built from the three result lists.\<close>

definition zip_scales :: "int32 option list \<Rightarrow> int32 option list \<Rightarrow> int32 option list \<Rightarrow> Scale list" where
  "zip_scales replicas minReplicas maxReplicas =
     (let scaleCount = max (max (length replicas) (length minReplicas)) (length maxReplicas)
      in map (\<lambda>i. \<lparr>scale_Replicas = safeGetByIndex None replicas i,
                   scale_MinReplicas = safeGetByIndex None minReplicas i,
                   scale_MaxReplicas = safeGetByIndex None maxReplicas i\<rparr>) [0..<scaleCount])"

definition ExtractScale :: "('r, 'o) Runner \<Rightarrow> ComponentDefinition \<Rightarrow> ('r, Scale list) act" where
  "ExtractScale R d =
     (case cd_ScaleDefinition d of
        None \<Rightarrow> no_definition (cd_Name d) ''scale definition''
      | Some sd \<Rightarrow>
          and_then (extractReplicas R (sc_ReplicasPath sd)) (\<lambda>replicas.
          and_then (extractReplicas R (sc_MinReplicasPath sd)) (\<lambda>minReplicas.
          and_then (extractReplicas R (sc_MaxReplicasPath sd)) (\<lambda>maxReplicas.
          return_act (zip_scales replicas minReplicas maxReplicas)))))"

definition ExtractFragmentedPodSpec ::
  "('r, 'o) Runner \<Rightarrow> 'o k8slib \<Rightarrow> ComponentDefinition \<Rightarrow> ('r, 'o FragmentedPodSpec list) act" where
  "ExtractFragmentedPodSpec R K d =
     (case cd_SpecDefinition d of
        None \<Rightarrow> no_definition (cd_Name d) ''spec definition''
      | Some sd \<Rightarrow>
          (case sp_FragmentedPodSpecDefinition sd of
             None \<Rightarrow> no_definition (cd_Name d) ''fragmented pod spec definition''
           | Some fd \<Rightarrow>
               and_then (extract_go R go_string (fd_SchedulerNamePath fd)) (\<lambda>schedulerNames.
               and_then (extract_go R go_string_map (fd_LabelsPath fd)) (\<lambda>labels.
               and_then (extract_go R go_string_map (fd_AnnotationsPath fd)) (\<lambda>annotations.
               and_then (extract_go R (go_ptr (dec_ResourceRequirements K)) (fd_ResourcesPath fd)) (\<lambda>resources.
               and_then (extract_go R (go_slice (dec_PodResourceClaim K)) (fd_ResourceClaimsPath fd)) (\<lambda>resourceClaims.
               and_then (extract_go R (go_ptr (dec_PodAffinity K)) (fd_PodAffinityPath fd)) (\<lambda>podAffinities.
               and_then (extract_go R (go_ptr (dec_NodeAffinity K)) (fd_NodeAffinityPath fd)) (\<lambda>nodeAffinities.
               and_then (extract_go R (go_slice (dec_Container K)) (fd_ContainersPath fd)) (\<lambda>containers.
               and_then (extract_go R (go_ptr (dec_Container K)) (fd_ContainerPath fd)) (\<lambda>container.
               and_then (extract_go R go_string (fd_PriorityClassNamePath fd)) (\<lambda>priorityClassNames.
               and_then (extract_go R go_string (fd_ImagePath fd)) (\<lambda>images.
               let specCount = fold max [length labels, length annotations, length resources, length resourceClaims,
                     length podAffinities, length nodeAffinities, length containers, length container,
                     length priorityClassNames, length images] (length schedulerNames)
               in return_act (map (\<lambda>i.
                    \<lparr>fp_SchedulerName = safeGetByIndex [] schedulerNames i,
                     fp_Labels = safeGetByIndex None labels i,
                     fp_Annotations = safeGetByIndex None annotations i,
                     fp_Resources = safeGetByIndex None resources i,
                     fp_ResourceClaims = safeGetByIndex None resourceClaims i,
                     fp_PodAffinity = safeGetByIndex None podAffinities i,
                     fp_NodeAffinity = safeGetByIndex None nodeAffinities i,
                     fp_Containers = safeGetByIndex None containers i,
                     fp_Container = safeGetByIndex None container i,
                     fp_PriorityClassName = safeGetByIndex [] priorityClassNames i,
                     fp_Image = safeGetByIndex [] images i\<rparr>) [0..<specCount]))))))))))))))"

section \<open>Status\<close>

text \<open>A field of a raw condition that is present and a string.\<close>

definition string_field :: "(string \<times> json) list \<Rightarrow> string \<Rightarrow> string option" where
  "string_field m name = (case map_of m name of Some (JString s) \<Rightarrow> Some s | _ \<Rightarrow> None)"

definition opt_string_field :: "(string \<times> json) list \<Rightarrow> string option \<Rightarrow> string option" where
  "opt_string_field m name = (case name of None \<Rightarrow> None | Some n \<Rightarrow> string_field m n)"

definition mk_condition :: "ConditionsDefinition \<Rightarrow> (string \<times> json) list \<Rightarrow> Condition" where
  "mk_condition cd m =
     \<lparr>co_Type = (case string_field m (cdef_TypeFieldName cd) of None \<Rightarrow> [] | Some s \<Rightarrow> s),
      co_Status = string_field m (cdef_StatusFieldName cd),
      co_Reason = opt_string_field m (cdef_ReasonFieldName cd),
      co_Message = (case opt_string_field m (cdef_MessageFieldName cd) of None \<Rightarrow> [] | Some s \<Rightarrow> s)\<rparr>"

definition extractConditions :: "('r, 'o) Runner \<Rightarrow> ConditionsDefinition option \<Rightarrow> ('r, Condition list) act" where
  "extractConditions R cdo =
     (case cdo of
        None \<Rightarrow> return_act []
      | Some cd \<Rightarrow>
          and_then (wrap_error ''failed to extract conditions: %w'' []
                     (extract_go R (go_slice decode_any_map) (Some (cdef_Path cd)))) (\<lambda>raw.
          let rawConditions = concat (map (\<lambda>x. case x of None \<Rightarrow> [] | Some ms \<Rightarrow> ms) raw)
          in return_act (map (mk_condition cd) rawConditions)))"

definition checkCondition :: "(string \<rightharpoonup> Condition) \<Rightarrow> ExpectedCondition \<Rightarrow> Condition option" where
  "checkCondition conditionsMap ec = conditionsMap (ec_Type ec)"

text \<open>ptr.Deref(p, "").\<close>

definition deref_string :: "string option \<Rightarrow> string" where
  "deref_string p = (case p of None \<Rightarrow> [] | Some s \<Rightarrow> s)"

text \<open>One pass through the loop over ByConditions: whether it goes on to the next expected condition.\<close>

definition condition_matches :: "(string \<rightharpoonup> Condition) \<Rightarrow> ExpectedCondition \<Rightarrow> bool" where
  "condition_matches conditionsMap ec =
     (case checkCondition conditionsMap ec of
        None \<Rightarrow> False
      | Some actual \<Rightarrow>
          \<not> (deref_string (ec_Status ec) \<noteq> [] \<and> deref_string (ec_Status ec) \<noteq> deref_string (co_Status actual))
          \<and> \<not> (deref_string (ec_Reason ec) \<noteq> [] \<and> deref_string (ec_Reason ec) \<noteq> deref_string (co_Reason actual)))"

definition matchByExpression :: "('r, 'o) Runner \<Rightarrow> ExpressionMatcher \<Rightarrow> ('r, bool) act" where
  "matchByExpression R em =
     and_then (wrap_error ''failed to evaluate ByExpression: %w'' []
                (Evaluate R (''('' @ em_Expression em @ '') | tostring''))) (\<lambda>results.
       case results of
         [] \<Rightarrow> return_act False
       | JNull # _ \<Rightarrow> return_act False
       | JString actual # _ \<Rightarrow> return_act (actual = em_ExpectedResult em)
       | j # _ \<Rightarrow> fail_act (Errorf ''expression result did not convert to a string, got %T'' [AJson j]))"

definition match_status :: "('r, 'o) Runner \<Rightarrow> string option \<Rightarrow> (string \<rightharpoonup> Condition) \<Rightarrow> StatusMatcher \<Rightarrow> ('r, bool) act" where
  "match_status R phase conditionsMap matcher =
     (if sm_ByPhase matcher \<noteq> [] \<and> phase \<noteq> Some (sm_ByPhase matcher) then return_act False
      else if \<not> list_all (condition_matches conditionsMap) (sm_ByConditions matcher) then return_act False
      else case sm_ByExpression matcher of
        Some em \<Rightarrow> matchByExpression R em
      | None \<Rightarrow> return_act True)"

fun evaluateMatchers ::
  "('r, 'o) Runner \<Rightarrow> string option \<Rightarrow> (string \<rightharpoonup> Condition) \<Rightarrow> StatusMatcher list \<Rightarrow> ('r, bool) act" where
  "evaluateMatchers R phase conditionsMap [] = return_act False"
| "evaluateMatchers R phase conditionsMap (m # ms) =
     and_then (wrap_error ''failed to evaluate matcher: %w'' [] (match_status R phase conditionsMap m)) (\<lambda>matched.
       if matched then return_act True else evaluateMatchers R phase conditionsMap ms)"

fun matchEntries ::
  "('r, 'o) Runner \<Rightarrow> string option \<Rightarrow> (string \<rightharpoonup> Condition) \<Rightarrow> StatusMatchEntry list \<Rightarrow> ('r, ResourceStatus list) act" where
  "matchEntries R phase conditionsMap [] = return_act []"
| "matchEntries R phase conditionsMap ((status, matchers) # es) =
     and_then (evaluateMatchers R phase conditionsMap matchers) (\<lambda>matched.
     and_then (matchEntries R phase conditionsMap es) (\<lambda>rest.
     return_act (if matched then status # rest else rest)))"

definition matchStatus ::
  "('r, 'o) Runner \<Rightarrow> string option \<Rightarrow> Condition list \<Rightarrow> StatusMappings \<Rightarrow> ('r, ResourceStatus list) act" where
  "matchStatus R phase conditions mappings =
     (let conditionsMap = go_map (map (\<lambda>c. (co_Type c, c)) conditions)
      in and_then (matchEntries R phase conditionsMap (Entries mappings)) (\<lambda>matchedStatuses.
         return_act (if matchedStatuses = [] then [UndefinedStatus] else matchedStatuses)))"

definition extractPhase :: "('r, 'o) Runner \<Rightarrow> PhaseDefinition option \<Rightarrow> ('r, string option) act" where
  "extractPhase R pdo =
     (case pdo of
        None \<Rightarrow> return_act None
      | Some pd \<Rightarrow>
          and_then (wrap_error ''failed to extract phase: %w'' [] (extract_go R go_string (Some (pd_Path pd)))) (\<lambda>phases.
          return_act (case phases of [] \<Rightarrow> None | p # _ \<Rightarrow> Some p)))"

definition ExtractStatus :: "('r, 'o) Runner \<Rightarrow> ComponentDefinition \<Rightarrow> ('r, Status) act" where
  "ExtractStatus R d =
     (case cd_StatusDefinition d of
        None \<Rightarrow> no_definition (cd_Name d) ''status definition''
      | Some sd \<Rightarrow>
          and_then (extractPhase R (std_PhaseDefinition sd)) (\<lambda>phase.
          and_then (extractConditions R (std_ConditionsDefinition sd)) (\<lambda>conditions.
          and_then (wrap_error ''failed to match status: %w'' []
                     (matchStatus R phase conditions (std_StatusMappings sd))) (\<lambda>matchedStatuses.
          return_act \<lparr>st_Phase = phase, st_Conditions = conditions, st_MatchedStatuses = matchedStatuses\<rparr>))))"

section \<open>Suspend, resume, instance ids\<close>

definition apply_action :: "('r, 'o) Runner \<Rightarrow> 'o k8slib \<Rightarrow> string \<Rightarrow> nat \<times> SuspendAction \<Rightarrow> ('r, unit) act" where
  "apply_action R K field ia =
     (case ia of (i, action) \<Rightarrow>
       case json_Unmarshal_any K (sa_Value action) of
         Inl e \<Rightarrow> fail_act (Wrapf (field @ ''[%d]: failed to decode value: %w'') [AInt (int i)] (LibraryError e))
       | Inr v \<Rightarrow> wrap_error (field @ ''[%d]: %w'') [AInt (int i)] (Assign R (sa_Path action) (GoJson v)))"

definition ApplySuspendActions :: "('r, 'o) Runner \<Rightarrow> 'o k8slib \<Rightarrow> ComponentDefinition \<Rightarrow> ('r, unit) act" where
  "ApplySuspendActions R K d =
     (case cd_SuspendDefinition d of
        None \<Rightarrow> no_definition (cd_Name d) ''suspendDefinition''
      | Some sd \<Rightarrow> iter_act (apply_action R K ''suspendActions'') (indexed (sus_SuspendActions sd)))"

definition ApplyResumeActions :: "('r, 'o) Runner \<Rightarrow> 'o k8slib \<Rightarrow> ComponentDefinition \<Rightarrow> ('r, unit) act" where
  "ApplyResumeActions R K d =
     (case cd_SuspendDefinition d of
        None \<Rightarrow> no_definition (cd_Name d) ''suspendDefinition''
      | Some sd \<Rightarrow> iter_act (apply_action R K ''resumeActions'') (indexed (sus_ResumeActions sd)))"

definition ExtractInstanceIds :: "('r, 'o) Runner \<Rightarrow> ComponentDefinition \<Rightarrow> ('r, string list) act" where
  "ExtractInstanceIds R d =
     (case cd_InstanceIdPath d of
        None \<Rightarrow> fail_act (DefinitionNotFoundError ''no instance id path defined'')
      | Some p \<Rightarrow>
          and_then (extract_go R go_string (Some p)) (\<lambda>instanceIds.
          if [] \<in> set instanceIds
          then fail_act (Errorf ''instance id path contained empty string values [%s]'' [AStrs instanceIds])
          else return_act instanceIds))"

section \<open>Updates\<close>

text \<open>\<open>values[0]\<close> of an empty slice panics.\<close>

definition assign_values ::
  "('r, 'o) Runner \<Rightarrow> ComponentDefinition \<Rightarrow> string \<Rightarrow> 'o goany list \<Rightarrow> ('r, unit) act" where
  "assign_values R d path values =
     (if cd_InstanceIdPath d \<noteq> None then AssignZip R path values
      else case values of
        [] \<Rightarrow> panic_act ''index out of range [0] with length 0''
      | v # _ \<Rightarrow> Assign R path v)"

definition UpdatePodTemplateSpec ::
  "('r, 'o) Runner \<Rightarrow> ComponentDefinition \<Rightarrow> 'o list \<Rightarrow> ('r, unit) act" where
  "UpdatePodTemplateSpec R d xs =
     (case cd_SpecDefinition d of
        None \<Rightarrow> no_definition (cd_Name d) ''spec definition''
      | Some sd \<Rightarrow>
          (case sp_PodTemplateSpecPath sd of
             None \<Rightarrow> no_definition (cd_Name d) ''pod template spec definition''
           | Some p \<Rightarrow> assign_values R d p (map GoObj xs)))"

definition UpdatePodSpec :: "('r, 'o) Runner \<Rightarrow> ComponentDefinition \<Rightarrow> 'o list \<Rightarrow> ('r, unit) act" where
  "UpdatePodSpec R d xs =
     (case cd_SpecDefinition d of
        None \<Rightarrow> no_definition (cd_Name d) ''spec definition''
      | Some sd \<Rightarrow>
          (case sp_PodSpecPath sd of
             None \<Rightarrow> no_definition (cd_Name d) ''pod spec definition''
           | Some p \<Rightarrow> assign_values R d p (map GoObj xs)))"

definition UpdatePodMetadata :: "('r, 'o) Runner \<Rightarrow> ComponentDefinition \<Rightarrow> 'o list \<Rightarrow> ('r, unit) act" where
  "UpdatePodMetadata R d xs =
     (case cd_SpecDefinition d of
        None \<Rightarrow> no_definition (cd_Name d) ''spec definition''
      | Some sd \<Rightarrow>
          (case sp_MetadataPath sd of
             None \<Rightarrow> no_definition (cd_Name d) ''pod metadata definition''
           | Some p \<Rightarrow> assign_values R d p (map GoObj xs)))"

definition updateField ::
  "('r, 'o) Runner \<Rightarrow> ComponentDefinition \<Rightarrow> string option \<Rightarrow> 'o goany list \<Rightarrow> ('o goany \<Rightarrow> bool) \<Rightarrow> ('r, unit) act" where
  "updateField R d path values isEmpty =
     (case path of
        Some p \<Rightarrow> if list_all isEmpty values then return_act () else assign_values R d p values
      | None \<Rightarrow>
          if list_ex (\<lambda>v. \<not> isEmpty v) values
          then fail_act (Errorf ''path is not defined and values are not empty'' [])
          else return_act ())"

fun empty_string :: "'o goany \<Rightarrow> bool" where
  "empty_string (GoJson (JString s)) \<longleftrightarrow> s = []"
| "empty_string v \<longleftrightarrow> False"

definition updateStringField ::
  "('r, 'o) Runner \<Rightarrow> ComponentDefinition \<Rightarrow> string option \<Rightarrow> 'o FragmentedPodSpec list
     \<Rightarrow> ('o FragmentedPodSpec \<Rightarrow> string) \<Rightarrow> ('r, unit) act" where
  "updateStringField R d path specs getter =
     updateField R d path (map (\<lambda>s. GoJson (JString (getter s))) specs) empty_string"

definition any_string_map :: "(string \<times> string) list option \<Rightarrow> 'o goany" where
  "any_string_map m = (case m of None \<Rightarrow> GoNil | Some kvs \<Rightarrow> GoJson (JObject (map (\<lambda>(k, v). (k, JString v)) kvs)))"

fun empty_map :: "'o goany \<Rightarrow> bool" where
  "empty_map GoNil \<longleftrightarrow> True"
| "empty_map (GoJson (JObject kvs)) \<longleftrightarrow> kvs = []"
| "empty_map v \<longleftrightarrow> False"

definition updateMapField ::
  "('r, 'o) Runner \<Rightarrow> ComponentDefinition \<Rightarrow> string option \<Rightarrow> 'o FragmentedPodSpec list
     \<Rightarrow> ('o FragmentedPodSpec \<Rightarrow> (string \<times> string) list option) \<Rightarrow> ('r, unit) act" where
  "updateMapField R d path specs getter =
     updateField R d path (map (\<lambda>s. any_string_map (getter s)) specs) empty_map"

definition any_ptr :: "'o option \<Rightarrow> 'o goany" where
  "any_ptr p = (case p of None \<Rightarrow> GoNil | Some x \<Rightarrow> GoObj x)"

fun nil_ptr :: "'o goany \<Rightarrow> bool" where
  "nil_ptr GoNil \<longleftrightarrow> True"
| "nil_ptr v \<longleftrightarrow> False"

definition updateStructPointerField ::
  "('r, 'o) Runner \<Rightarrow> ComponentDefinition \<Rightarrow> string option \<Rightarrow> 'o FragmentedPodSpec list
     \<Rightarrow> ('o FragmentedPodSpec \<Rightarrow> 'o option) \<Rightarrow> ('r, unit) act" where
  "updateStructPointerField R d path specs getter =
     updateField R d path (map (\<lambda>s. any_ptr (getter s)) specs) nil_ptr"

definition any_slice :: "'o list option \<Rightarrow> 'o goany" where
  "any_slice xs = (case xs of None \<Rightarrow> GoNil | Some ys \<Rightarrow> GoList (map GoObj ys))"

fun empty_slice :: "'o goany \<Rightarrow> bool" where
  "empty_slice GoNil \<longleftrightarrow> True"
| "empty_slice (GoList xs) \<longleftrightarrow> xs = []"
| "empty_slice v \<longleftrightarrow> False"

definition updateSliceField ::
  "('r, 'o) Runner \<Rightarrow> ComponentDefinition \<Rightarrow> string option \<Rightarrow> 'o FragmentedPodSpec list
     \<Rightarrow> ('o FragmentedPodSpec \<Rightarrow> 'o list option) \<Rightarrow> ('r, unit) act" where
  "updateSliceField R d path specs getter =
     updateField R d path (map (\<lambda>s. any_slice (getter s)) specs) empty_slice"

definition UpdateFragmentedPodSpec ::
  "('r, 'o) Runner \<Rightarrow> ComponentDefinition \<Rightarrow> 'o FragmentedPodSpec list \<Rightarrow> ('r, unit) act" where
  "UpdateFragmentedPodSpec R d specs =
     (case cd_SpecDefinition d of
        None \<Rightarrow> no_definition (cd_Name d) ''spec definition''
      | Some sd \<Rightarrow>
          (case sp_FragmentedPodSpecDefinition sd of
             None \<Rightarrow> no_definition (cd_Name d) ''fragmented pod spec definition''
           | Some fd \<Rightarrow>
               and_then (wrap_error ''failed to update scheduler name: %w'' []
                 (updateStringField R d (fd_SchedulerNamePath fd) specs fp_SchedulerName)) (\<lambda>_.
               and_then (wrap_error ''failed to update priority class name: %w'' []
                 (updateStringField R d (fd_PriorityClassNamePath fd) specs fp_PriorityClassName)) (\<lambda>_.
               and_then (wrap_error ''failed to update image: %w'' []
                 (updateStringField R d (fd_ImagePath fd) specs fp_Image)) (\<lambda>_.
               and_then (wrap_error ''failed to update labels: %w'' []
                 (updateMapField R d (fd_LabelsPath fd) specs fp_Labels)) (\<lambda>_.
               and_then (wrap_error ''failed to update annotations: %w'' []
                 (updateMapField R d (fd_AnnotationsPath fd) specs fp_Annotations)) (\<lambda>_.
               and_then (wrap_error ''failed to update resources: %w'' []
                 (updateStructPointerField R d (fd_ResourcesPath fd) specs fp_Resources)) (\<lambda>_.
               and_then (wrap_error ''failed to update pod affinity: %w'' []
                 (updateStructPointerField R d (fd_PodAffinityPath fd) specs fp_PodAffinity)) (\<lambda>_.
               and_then (wrap_error ''failed to update node affinity: %w'' []
                 (updateStructPointerField R d (fd_NodeAffinityPath fd) specs fp_NodeAffinity)) (\<lambda>_.
               and_then (wrap_error ''failed to update container: %w'' []
                 (updateStructPointerField R d (fd_ContainerPath fd) specs fp_Container)) (\<lambda>_.
               and_then (wrap_error ''failed to update resource claims: %w'' []
                 (updateSliceField R d (fd_ResourceClaimsPath fd) specs fp_ResourceClaims)) (\<lambda>_.
               wrap_error ''failed to update containers: %w'' []
                 (updateSliceField R d (fd_ContainersPath fd) specs fp_Containers)))))))))))))"

section \<open>What the conversions guarantee\<close>

abbreviation clean :: "goerr \<Rightarrow> bool" where
  "clean e \<equiv> \<not> isDefinitionNotFoundError e"

lemma safeConvertSlice_from_ok:
  "ok_res clean (safeConvertSlice_from i ty js)
   \<and> (\<forall>ts. safeConvertSlice_from i ty js = Ok ts \<longrightarrow> length ts = length js)"
proof (induction js arbitrary: i)
  case (Cons j js)
  obtain x where x: "(case ty_assert ty j of Some t \<Rightarrow> Ok t | None \<Rightarrow> convertViaJSON ty j) = x"
    and clean: "ok_res clean x"
    by (cases "ty_assert ty j") (auto simp: convertViaJSON_def split: sum.splits)
  from clean show ?case
    using x Cons.IH [of "Suc i"]
    by (cases rule: ok_res_cases; cases "safeConvertSlice_from (Suc i) ty js") auto
qed simp

lemma safeConvertSlice_clean: "ok_res clean (safeConvertSlice ty js)"
  by (simp add: safeConvertSlice_def safeConvertSlice_from_ok)

lemma safeConvertSlice_length: "safeConvertSlice ty js = Ok ts \<Longrightarrow> length ts = length js"
  using safeConvertSlice_from_ok by (auto simp: safeConvertSlice_def)

lemma normalize_replica_clean: "ok_res clean (normalize_replica i j)"
  by (cases j) (simp_all add: normalize_replica_def split: option.splits)

lemma normalize_replicas_ok:
  "ok_res clean (normalize_replicas i js)
   \<and> (\<forall>ts. normalize_replicas i js = Ok ts \<longrightarrow> length ts = length js)"
proof (induction js arbitrary: i)
  case (Cons j js)
  consider (ok) j' where "normalize_replica i j = Ok j'" | (err) e where "normalize_replica i j = Err e" "clean e"
    using normalize_replica_clean [of i j] by (cases rule: ok_res_cases) blast+
  then show ?case
  proof cases
    case ok
    with Cons.IH [of "Suc i"] show ?thesis by (cases "normalize_replicas (Suc i) js") simp_all
  next
    case err
    then show ?thesis by simp
  qed
qed simp

text \<open>The path under which a pod spec definition is found, if the component has one.\<close>

definition spec_path :: "(SpecDefinition \<Rightarrow> 'p option) \<Rightarrow> ComponentDefinition \<Rightarrow> 'p option" where
  "spec_path sel d = (case cd_SpecDefinition d of None \<Rightarrow> None | Some sd \<Rightarrow> sel sd)"

lemmas missing_simps = spec_path_def no_definition_def fail_act_apply

lemma spec_missing:
  "spec_path sp_PodTemplateSpecPath d = None \<Longrightarrow> \<exists>s. ExtractPodTemplateSpec R K d r = (Err (DefinitionNotFoundError s), r)"
  "spec_path sp_PodSpecPath d = None \<Longrightarrow> \<exists>s. ExtractPodSpec R K d r = (Err (DefinitionNotFoundError s), r)"
  "spec_path sp_MetadataPath d = None \<Longrightarrow> \<exists>s. ExtractPodMetadata R K d r = (Err (DefinitionNotFoundError s), r)"
  by (cases "cd_SpecDefinition d"; simp add: missing_simps ExtractPodTemplateSpec_def ExtractPodSpec_def
      ExtractPodMetadata_def)+

lemma fragmented_missing:
  "spec_path sp_FragmentedPodSpecDefinition d = None
     \<Longrightarrow> \<exists>s. ExtractFragmentedPodSpec R K d r = (Err (DefinitionNotFoundError s), r)"
  by (cases "cd_SpecDefinition d") (simp_all add: missing_simps ExtractFragmentedPodSpec_def)

lemma definition_missing:
  "cd_ScaleDefinition d = None \<Longrightarrow> \<exists>s. ExtractScale R d r = (Err (DefinitionNotFoundError s), r)"
  "cd_StatusDefinition d = None \<Longrightarrow> \<exists>s. ExtractStatus R d r = (Err (DefinitionNotFoundError s), r)"
  "cd_InstanceIdPath d = None \<Longrightarrow> \<exists>s. ExtractInstanceIds R d r = (Err (DefinitionNotFoundError s), r)"
  "cd_SuspendDefinition d = None \<Longrightarrow> \<exists>s. ApplySuspendActions R K d r = (Err (DefinitionNotFoundError s), r)"
  "cd_SuspendDefinition d = None \<Longrightarrow> \<exists>s. ApplyResumeActions R K d r = (Err (DefinitionNotFoundError s), r)"
  by (simp_all add: missing_simps ExtractScale_def ExtractStatus_def ExtractInstanceIds_def
      ApplySuspendActions_def ApplyResumeActions_def)

section \<open>Extraction over any runner that keeps the contract\<close>

context runner_contract
begin

lemma extract_go_reads [reads_intro]: "reads clean invar view (extract_go R ty path)"
  unfolding extract_go_def
  by (intro reads_intro evaluate_reads safeConvertSlice_clean)

lemma extractReplicas_reads [reads_intro]: "reads clean invar view (extractReplicas R path)"
  unfolding extractReplicas_def
  by (intro reads_intro evaluate_reads safeConvertSlice_clean conjunct1 [OF normalize_replicas_ok])

lemma ExtractPodTemplateSpec_reads:
  "spec_path sp_PodTemplateSpecPath d \<noteq> None \<Longrightarrow> reads clean invar view (ExtractPodTemplateSpec R K d)"
  by (auto simp: ExtractPodTemplateSpec_def spec_path_def intro: reads_intro split: option.splits)

lemma ExtractPodSpec_reads:
  "spec_path sp_PodSpecPath d \<noteq> None \<Longrightarrow> reads clean invar view (ExtractPodSpec R K d)"
  by (auto simp: ExtractPodSpec_def spec_path_def intro: reads_intro split: option.splits)

lemma ExtractPodMetadata_reads:
  "spec_path sp_MetadataPath d \<noteq> None \<Longrightarrow> reads clean invar view (ExtractPodMetadata R K d)"
  by (auto simp: ExtractPodMetadata_def spec_path_def intro: reads_intro split: option.splits)

lemma ExtractScale_reads: "cd_ScaleDefinition d \<noteq> None \<Longrightarrow> reads clean invar view (ExtractScale R d)"
  by (auto simp: ExtractScale_def intro!: reads_intro split: option.splits)

lemma ExtractFragmentedPodSpec_reads:
  assumes "spec_path sp_FragmentedPodSpecDefinition d \<noteq> None"
  shows "reads clean invar view (ExtractFragmentedPodSpec R K d)"
proof -
  from assms obtain sd fd where d: "cd_SpecDefinition d = Some sd" "sp_FragmentedPodSpecDefinition sd = Some fd"
    by (auto simp: spec_path_def split: option.splits)
  show ?thesis
    unfolding ExtractFragmentedPodSpec_def d option.case Let_def by (intro reads_intro)
qed

lemma ExtractInstanceIds_reads: "cd_InstanceIdPath d \<noteq> None \<Longrightarrow> reads clean invar view (ExtractInstanceIds R d)"
  by (auto simp: ExtractInstanceIds_def intro!: reads_intro split: option.splits)

lemma extractPhase_reads: "reads clean invar view (extractPhase R pdo)"
  unfolding extractPhase_def by (intro reads_intro) (simp add: extract_go_reads)

lemma extractConditions_reads: "reads clean invar view (extractConditions R cdo)"
  unfolding extractConditions_def Let_def by (intro reads_intro) (simp add: extract_go_reads)

lemma matchByExpression_reads: "reads clean invar view (matchByExpression R em)"
  unfolding matchByExpression_def
  by (intro reads_intro) (auto simp: evaluate_reads intro: reads_intro split: json.split)

lemma match_status_reads: "reads clean invar view (match_status R phase cm m)"
  unfolding match_status_def by (intro reads_intro matchByExpression_reads)

lemma evaluateMatchers_reads: "reads clean invar view (evaluateMatchers R phase cm ms)"
  by (induction ms) (auto simp: match_status_reads intro!: reads_intro)

lemma matchEntries_reads: "reads clean invar view (matchEntries R phase cm es)"
  by (induction es) (auto intro!: reads_intro evaluateMatchers_reads)

lemma matchStatus_reads: "reads clean invar view (matchStatus R phase conditions mappings)"
  unfolding matchStatus_def Let_def by (intro reads_intro matchEntries_reads)

lemma ExtractStatus_reads: "cd_StatusDefinition d \<noteq> None \<Longrightarrow> reads clean invar view (ExtractStatus R d)"
  by (auto simp: ExtractStatus_def matchStatus_reads intro!: reads_intro extractPhase_reads extractConditions_reads
      split: option.splits)

text \<open>The matchers of one status are alternatives: the first that holds decides.\<close>

lemma evaluateMatchers_iff:
  assumes "invar r" "evaluateMatchers R phase cm ms r = (Ok b, r')"
  shows "b \<longleftrightarrow> (\<exists>m \<in> set ms. fst (match_status R phase cm m r) = Ok True)"
  using assms
proof (induction ms arbitrary: r)
  case Nil
  then show ?case by (simp add: act_simps)
next
  case (Cons m ms)
  from Cons.prems(2) obtain c r1 where m: "match_status R phase cm m r = (Ok c, r1)"
    and rest: "(if c then return_act True else evaluateMatchers R phase cm ms) r1 = (Ok b, r')"
    by (auto simp: and_then_Ok wrap_error_Ok)
  have r1: "invar r1" "view r1 = view r"
    using readsD [OF match_status_reads Cons.prems(1), of phase cm m] m by simp_all
  show ?case
  proof (cases c)
    case True
    with m rest show ?thesis by (auto simp: act_simps)
  next
    case False
    with rest Cons.IH [OF r1(1)] have "b \<longleftrightarrow> (\<exists>m \<in> set ms. fst (match_status R phase cm m r1) = Ok True)" by simp
    moreover have "fst (match_status R phase cm m' r1) = fst (match_status R phase cm m' r)" for m'
      by (rule reads_same [OF match_status_reads r1(1) Cons.prems(1) r1(2)])
    ultimately show ?thesis using m False by simp
  qed
qed

lemma matchEntries_filter:
  assumes "invar r" "matchEntries R phase cm es r = (Ok ss, r')"
  shows "ss = map fst (filter (\<lambda>(s, ms). \<exists>m \<in> set ms. fst (match_status R phase cm m r) = Ok True) es)"
  using assms
proof (induction es arbitrary: r ss r')
  case Nil
  then show ?case by (simp add: act_simps)
next
  case (Cons e es)
  obtain s ms where e: "e = (s, ms)" by (cases e)
  from Cons.prems(2) e obtain b r1 rest where b: "evaluateMatchers R phase cm ms r = (Ok b, r1)"
    and rest: "matchEntries R phase cm es r1 = (Ok rest, r')"
    and ss: "ss = (if b then s # rest else rest)"
    by (auto simp: and_then_Ok return_act_apply)
  have r1: "invar r1" "view r1 = view r"
    using readsD [OF evaluateMatchers_reads Cons.prems(1), of phase cm ms] b by simp_all
  have same: "fst (match_status R phase cm m r1) = fst (match_status R phase cm m r)" for m
    by (rule reads_same [OF match_status_reads r1(1) Cons.prems(1) r1(2)])
  show ?case
    using Cons.IH [OF r1(1) rest] evaluateMatchers_iff [OF Cons.prems(1) b] ss e by (simp add: same)
qed

text \<open>An update keeps the runner's invariant and does not panic when there is a value to take.\<close>

lemma assign_values_triple:
  "cd_InstanceIdPath d \<noteq> None \<or> values \<noteq> [] \<Longrightarrow>
     triple invar (assign_values R d path values) (\<lambda>_. invar) (\<lambda>e r. invar r \<and> clean e)"
  by (auto simp: assign_values_def neq_Nil_conv intro: assign_inv assign_zip_inv)

lemma updateField_triple:
  "cd_InstanceIdPath d \<noteq> None \<or> values \<noteq> [] \<Longrightarrow>
     triple invar (updateField R d path values isEmpty) (\<lambda>_. invar) (\<lambda>e r. invar r \<and> clean e)"
  unfolding updateField_def
  by (auto intro!: triple_intro assign_values_triple split: option.splits)

lemma update_step:
  assumes "cd_InstanceIdPath d \<noteq> None \<or> specs \<noteq> []"
  shows "triple invar (wrap_error msg [] (updateField R d path (map f specs) isEmpty)) (\<lambda>_. invar) (\<lambda>e r. invar r \<and> clean e)"
  by (rule triple_wrap_error) (use assms updateField_triple [of d "map f specs" path isEmpty] in simp)

lemma UpdateFragmentedPodSpec_triple:
  assumes "cd_InstanceIdPath d \<noteq> None \<or> specs \<noteq> []"
  shows "triple invar (UpdateFragmentedPodSpec R d specs) (\<lambda>_. invar) (\<lambda>e r. invar r)"
proof -
  have step: "triple invar (wrap_error msg [] (updateField R d path (map f specs) isEmpty)) (\<lambda>_. invar) (\<lambda>e r. invar r)"
    for msg path isEmpty f
    using update_step [OF assms] by (rule triple_conseq) auto
  show ?thesis
    unfolding UpdateFragmentedPodSpec_def no_definition_def updateStringField_def updateMapField_def
      updateStructPointerField_def updateSliceField_def
    by (intro triple_option triple_fail triple_and_then_inv step)
qed

lemma Update_triple:
  assumes "cd_InstanceIdPath d \<noteq> None \<or> xs \<noteq> []"
  shows "triple invar (UpdatePodTemplateSpec R d xs) (\<lambda>_. invar) (\<lambda>e r. invar r)"
    and "triple invar (UpdatePodSpec R d xs) (\<lambda>_. invar) (\<lambda>e r. invar r)"
    and "triple invar (UpdatePodMetadata R d xs) (\<lambda>_. invar) (\<lambda>e r. invar r)"
proof -
  have "triple invar (assign_values R d p (map GoObj xs)) (\<lambda>_. invar) (\<lambda>e r. invar r)" for p
    using assms by (intro triple_conseq [OF assign_values_triple]) auto
  then show "triple invar (UpdatePodTemplateSpec R d xs) (\<lambda>_. invar) (\<lambda>e r. invar r)"
    and "triple invar (UpdatePodSpec R d xs) (\<lambda>_. invar) (\<lambda>e r. invar r)"
    and "triple invar (UpdatePodMetadata R d xs) (\<lambda>_. invar) (\<lambda>e r. invar r)"
    unfolding UpdatePodTemplateSpec_def UpdatePodSpec_def UpdatePodMetadata_def no_definition_def
    by (intro triple_option triple_fail; simp)+
qed

end

end
