(* ===== verification/Component.thy ===== *)
theory Component
  imports Accessor
begin

text \<open>
  \<^verbatim>\<open>karta/sdk/pkg/resource/component.go\<close> and component_factory.go. The ComponentAccessor interface is a record
  of its methods; what a Component relies on is the locale \<open>accessor_contract\<close>, which every accessor over a
  runner that keeps \<open>runner_contract\<close> satisfies. A Component is its name and definition, and its methods
  take the accessor they share. A Go map keyed by instance id is an association list with distinct keys,
  a nil map is \<open>None\<close>; the order of the list carries no meaning.
\<close>

section \<open>The ComponentAccessor interface\<close>

record ('r, 'o) ComponentAccessor =
  acc_ExtractPodTemplateSpec :: "ComponentDefinition \<Rightarrow> ('r, 'o list) act"
  acc_ExtractPodSpec :: "ComponentDefinition \<Rightarrow> ('r, 'o list) act"
  acc_ExtractPodMetadata :: "ComponentDefinition \<Rightarrow> ('r, 'o list) act"
  acc_ExtractFragmentedPodSpec :: "ComponentDefinition \<Rightarrow> ('r, 'o FragmentedPodSpec list) act"
  acc_ExtractScale :: "ComponentDefinition \<Rightarrow> ('r, Scale list) act"
  acc_ExtractStatus :: "ComponentDefinition \<Rightarrow> ('r, Status) act"
  acc_ExtractInstanceIds :: "ComponentDefinition \<Rightarrow> ('r, string list) act"
  acc_GetObject :: "('r, (string \<times> json) list) act"
  acc_UpdatePodTemplateSpec :: "ComponentDefinition \<Rightarrow> 'o list \<Rightarrow> ('r, unit) act"
  acc_UpdatePodSpec :: "ComponentDefinition \<Rightarrow> 'o list \<Rightarrow> ('r, unit) act"
  acc_UpdatePodMetadata :: "ComponentDefinition \<Rightarrow> 'o list \<Rightarrow> ('r, unit) act"
  acc_UpdateFragmentedPodSpec :: "ComponentDefinition \<Rightarrow> 'o FragmentedPodSpec list \<Rightarrow> ('r, unit) act"
  acc_ApplySuspendActions :: "ComponentDefinition \<Rightarrow> ('r, unit) act"
  acc_ApplyResumeActions :: "ComponentDefinition \<Rightarrow> ('r, unit) act"

text \<open>NewAccessor: the accessor of a runner.\<close>

definition NewAccessor :: "('r, 'o) Runner \<Rightarrow> 'o k8slib \<Rightarrow> ('r, 'o) ComponentAccessor" where
  "NewAccessor R K =
     \<lparr>acc_ExtractPodTemplateSpec = ExtractPodTemplateSpec R K,
      acc_ExtractPodSpec = ExtractPodSpec R K,
      acc_ExtractPodMetadata = ExtractPodMetadata R K,
      acc_ExtractFragmentedPodSpec = ExtractFragmentedPodSpec R K,
      acc_ExtractScale = ExtractScale R,
      acc_ExtractStatus = ExtractStatus R,
      acc_ExtractInstanceIds = ExtractInstanceIds R,
      acc_GetObject = accessor_GetObject R,
      acc_UpdatePodTemplateSpec = UpdatePodTemplateSpec R,
      acc_UpdatePodSpec = UpdatePodSpec R,
      acc_UpdatePodMetadata = UpdatePodMetadata R,
      acc_UpdateFragmentedPodSpec = UpdateFragmentedPodSpec R,
      acc_ApplySuspendActions = ApplySuspendActions R K,
      acc_ApplyResumeActions = ApplyResumeActions R K\<rparr>"

section \<open>component.go\<close>

record Component =
  comp_name :: string
  comp_definition :: ComponentDefinition

record 'o ExtractedInstance =
  ei_PodTemplateSpec :: "'o option"
  ei_PodSpec :: "'o option"
  ei_FragmentedPodSpec :: "'o FragmentedPodSpec option"
  ei_Metadata :: "'o option"
  ei_Scale :: "Scale option"

type_synonym 'a by_instance = "(string \<times> 'a) list"

definition errGetInstanceIds :: string where
  "errGetInstanceIds = ''failed to get instance ids''"

definition Component_Kind :: "Component \<Rightarrow> GroupVersionKind option" where
  "Component_Kind c =
     (case cd_Kind (comp_definition c) of
        None \<Rightarrow> None
      | Some k \<Rightarrow> Some \<lparr>gvk_Group = gvk_Group k, gvk_Version = gvk_Version k, gvk_Kind = gvk_Kind k\<rparr>)"

text \<open>The loop \<open>zipped[instanceId] = results[i]\<close>: a later write to the same key wins.\<close>

definition write_all :: "(string \<times> 'a) list \<Rightarrow> 'a by_instance" where
  "write_all kvs = foldl (\<lambda>m (k, v). AList.update k v m) [] kvs"

definition zipWithInstanceIds :: "string list \<Rightarrow> 'a list \<Rightarrow> 'a by_instance res" where
  "zipWithInstanceIds instanceIds results =
     (if length instanceIds \<noteq> length results
      then Err (Errorf ''instance ids count (%d) does not match results count (%d)''
             [AInt (int (length instanceIds)), AInt (int (length results))])
      else Ok (write_all (zip instanceIds results)))"

definition GetInstanceIds :: "('r, 'o) ComponentAccessor \<Rightarrow> Component \<Rightarrow> ('r, string list) act" where
  "GetInstanceIds A c =
     on_error (acc_ExtractInstanceIds A (comp_definition c)) (\<lambda>e.
       if isDefinitionNotFoundError e then return_act [[]]
       else fail_act (Wrapf ''failed to extract instance ids for component %s: %w'' [AStr (comp_name c)] e))"

text \<open>
  \<open>if err != nil \{ if isDefinitionNotFoundError(err) \{ return nil, nil \}; return nil, fmt.Errorf(...) \}\<close>
\<close>

definition optional :: "string \<Rightarrow> ('r, 'a) act \<Rightarrow> ('r, 'a option) act" where
  "optional msg m =
     on_error (and_then m (\<lambda>x. return_act (Some x))) (\<lambda>e.
       if isDefinitionNotFoundError e then return_act None else fail_act (Wrapf msg [] e))"

text \<open>The common body of the getters that map extraction results to instance ids.\<close>

definition get_by_instance ::
  "('r, 'o) ComponentAccessor \<Rightarrow> Component \<Rightarrow> string \<Rightarrow> ('r, 'a list) act \<Rightarrow> ('r, 'a by_instance option) act" where
  "get_by_instance A c msg m =
     and_then (optional msg m) (\<lambda>x. case x of
         None \<Rightarrow> return_act None
       | Some results \<Rightarrow>
           and_then (wrap_error ''%s: %w'' [AStr errGetInstanceIds] (GetInstanceIds A c)) (\<lambda>instanceIds.
           and_then (lift_res (zipWithInstanceIds instanceIds results)) (\<lambda>zipped. return_act (Some zipped))))"

definition GetPodTemplateSpec :: "('r, 'o) ComponentAccessor \<Rightarrow> Component \<Rightarrow> ('r, 'o by_instance option) act" where
  "GetPodTemplateSpec A c = get_by_instance A c ''failed to extract pod template specs: %w''
     (acc_ExtractPodTemplateSpec A (comp_definition c))"

definition GetFragmentedPodSpec ::
  "('r, 'o) ComponentAccessor \<Rightarrow> Component \<Rightarrow> ('r, 'o FragmentedPodSpec by_instance option) act" where
  "GetFragmentedPodSpec A c = get_by_instance A c ''failed to extract fragmented pod specs: %w''
     (acc_ExtractFragmentedPodSpec A (comp_definition c))"

definition GetPodSpec :: "('r, 'o) ComponentAccessor \<Rightarrow> Component \<Rightarrow> ('r, 'o by_instance option) act" where
  "GetPodSpec A c = get_by_instance A c ''failed to extract pod specs: %w''
     (acc_ExtractPodSpec A (comp_definition c))"

definition GetPodMetadata :: "('r, 'o) ComponentAccessor \<Rightarrow> Component \<Rightarrow> ('r, 'o by_instance option) act" where
  "GetPodMetadata A c = get_by_instance A c ''failed to extract pod metadata: %w''
     (acc_ExtractPodMetadata A (comp_definition c))"

definition GetScale :: "('r, 'o) ComponentAccessor \<Rightarrow> Component \<Rightarrow> ('r, Scale by_instance option) act" where
  "GetScale A c = get_by_instance A c ''failed to extract scales: %w''
     (acc_ExtractScale A (comp_definition c))"

definition GetStatus :: "('r, 'o) ComponentAccessor \<Rightarrow> Component \<Rightarrow> ('r, Status option) act" where
  "GetStatus A c = optional ''failed to extract status: %w'' (acc_ExtractStatus A (comp_definition c))"

definition unzipWithInstanceIds ::
  "('r, 'o) ComponentAccessor \<Rightarrow> Component \<Rightarrow> 'a by_instance \<Rightarrow> ('r, string list \<times> 'a list) act" where
  "unzipWithInstanceIds A c valueMap =
     and_then (wrap_error ''%s: %w'' [AStr errGetInstanceIds] (GetInstanceIds A c)) (\<lambda>instanceIds.
     and_then (map_act (\<lambda>instanceId. case map_of valueMap instanceId of
         None \<Rightarrow> fail_act (Errorf ''value not found for instance id: %s'' [AStr instanceId])
       | Some v \<Rightarrow> return_act v) instanceIds) (\<lambda>results.
     return_act (instanceIds, results)))"

definition Component_UpdatePodTemplateSpec ::
  "('r, 'o) ComponentAccessor \<Rightarrow> Component \<Rightarrow> 'o by_instance \<Rightarrow> ('r, unit) act" where
  "Component_UpdatePodTemplateSpec A c m =
     and_then (wrap_error ''failed to unzip given pod template specs and instance ids: %w'' []
                (unzipWithInstanceIds A c m)) (\<lambda>(_, xs).
     acc_UpdatePodTemplateSpec A (comp_definition c) xs)"

definition Component_UpdatePodSpec ::
  "('r, 'o) ComponentAccessor \<Rightarrow> Component \<Rightarrow> 'o by_instance \<Rightarrow> ('r, unit) act" where
  "Component_UpdatePodSpec A c m =
     and_then (wrap_error ''failed to unzip given pod specs and instance ids: %w'' []
                (unzipWithInstanceIds A c m)) (\<lambda>(_, xs).
     acc_UpdatePodSpec A (comp_definition c) xs)"

definition Component_UpdatePodMetadata ::
  "('r, 'o) ComponentAccessor \<Rightarrow> Component \<Rightarrow> 'o by_instance \<Rightarrow> ('r, unit) act" where
  "Component_UpdatePodMetadata A c m =
     and_then (wrap_error ''failed to unzip given pod metadata and instance ids: %w'' []
                (unzipWithInstanceIds A c m)) (\<lambda>(_, xs).
     acc_UpdatePodMetadata A (comp_definition c) xs)"

definition Component_UpdateFragmentedPodSpec ::
  "('r, 'o) ComponentAccessor \<Rightarrow> Component \<Rightarrow> 'o FragmentedPodSpec by_instance \<Rightarrow> ('r, unit) act" where
  "Component_UpdateFragmentedPodSpec A c m =
     and_then (wrap_error ''failed to unzip given fragmented pod specs and instance ids: %w'' []
                (unzipWithInstanceIds A c m)) (\<lambda>(_, xs).
     acc_UpdateFragmentedPodSpec A (comp_definition c) xs)"

text \<open>\<open>if m != nil \{ if v, ok := m[id]; ok \{ ... \} \}\<close>\<close>

definition lookup_instance :: "'a by_instance option \<Rightarrow> string \<Rightarrow> 'a option" where
  "lookup_instance m instanceID = (case m of None \<Rightarrow> None | Some kvs \<Rightarrow> map_of kvs instanceID)"

definition GetExtractedInstances ::
  "('r, 'o) ComponentAccessor \<Rightarrow> Component \<Rightarrow> ('r, 'o ExtractedInstance by_instance) act" where
  "GetExtractedInstances A c =
     and_then (wrap_error ''%s: %w'' [AStr errGetInstanceIds] (GetInstanceIds A c)) (\<lambda>instanceIds.
     and_then (wrap_error ''failed to get pod template specs: %w'' [] (GetPodTemplateSpec A c)) (\<lambda>podTemplateSpecs.
     and_then (wrap_error ''failed to get pod specs: %w'' [] (GetPodSpec A c)) (\<lambda>podSpecs.
     and_then (wrap_error ''failed to get fragmented pod specs: %w'' [] (GetFragmentedPodSpec A c)) (\<lambda>fragmentedPodSpecs.
     and_then (wrap_error ''failed to get pod metadata: %w'' [] (GetPodMetadata A c)) (\<lambda>metadata.
     and_then (wrap_error ''failed to get scales: %w'' [] (GetScale A c)) (\<lambda>scales.
     return_act (write_all (map (\<lambda>instanceID.
       (instanceID,
        \<lparr>ei_PodTemplateSpec = lookup_instance podTemplateSpecs instanceID,
         ei_PodSpec = lookup_instance podSpecs instanceID,
         ei_FragmentedPodSpec = lookup_instance fragmentedPodSpecs instanceID,
         ei_Metadata = lookup_instance metadata instanceID,
         ei_Scale = lookup_instance scales instanceID\<rparr>)) instanceIds))))))))"

definition HasSuspendDefinition :: "Component \<Rightarrow> bool" where
  "HasSuspendDefinition c \<longleftrightarrow> cd_SuspendDefinition (comp_definition c) \<noteq> None"

definition Suspend :: "('r, 'o) ComponentAccessor \<Rightarrow> Component \<Rightarrow> ('r, unit) act" where
  "Suspend A c =
     on_error (acc_ApplySuspendActions A (comp_definition c)) (\<lambda>e.
       if isDefinitionNotFoundError e then return_act ()
       else fail_act (Wrapf (''apply suspend actions for component '' @ [CHR 0x27] @ ''%s'' @ [CHR 0x27] @ '': %w'')
              [AStr (comp_name c)] e))"

definition Resume :: "('r, 'o) ComponentAccessor \<Rightarrow> Component \<Rightarrow> ('r, unit) act" where
  "Resume A c =
     on_error (acc_ApplyResumeActions A (comp_definition c)) (\<lambda>e.
       if isDefinitionNotFoundError e then return_act ()
       else fail_act (Wrapf (''apply resume actions for component '' @ [CHR 0x27] @ ''%s'' @ [CHR 0x27] @ '': %w'')
              [AStr (comp_name c)] e))"

definition spec_has_pod :: "SpecDefinition \<Rightarrow> bool" where
  "spec_has_pod spec \<longleftrightarrow>
     sp_PodTemplateSpecPath spec \<noteq> None \<or> sp_PodSpecPath spec \<noteq> None \<or> sp_FragmentedPodSpecDefinition spec \<noteq> None"

definition HasPodDefinition :: "Component \<Rightarrow> bool" where
  "HasPodDefinition c =
     (case cd_SpecDefinition (comp_definition c) of None \<Rightarrow> False | Some spec \<Rightarrow> spec_has_pod spec)"

definition GetPodSelector :: "Component \<Rightarrow> PodSelector option" where
  "GetPodSelector c = cd_PodSelector (comp_definition c)"

definition HasInstanceIdDefinition :: "Component \<Rightarrow> bool" where
  "HasInstanceIdDefinition c \<longleftrightarrow> cd_InstanceIdPath (comp_definition c) \<noteq> None"

section \<open>component\_factory.go\<close>

record ComponentFactory =
  cf_karta :: "Karta option"
  cf_componentDefinitionsByName :: "string \<rightharpoonup> ComponentDefinition"
  cf_childNamesByParent :: "string \<rightharpoonup> string list"

text \<open>Reading a map of slices: a missing key yields the nil slice.\<close>

definition get_slice :: "(string \<rightharpoonup> 'a list) \<Rightarrow> string \<Rightarrow> 'a list" where
  "get_slice m k = (case m k of None \<Rightarrow> [] | Some xs \<Rightarrow> xs)"

text \<open>\<open>m[k] = append(m[k], x)\<close>\<close>

definition append_slice :: "(string \<rightharpoonup> 'a list) \<Rightarrow> string \<Rightarrow> 'a \<Rightarrow> (string \<rightharpoonup> 'a list)" where
  "append_slice m k x = m(k \<mapsto> get_slice m k @ [x])"

fun index_definitions ::
  "ComponentDefinition list \<Rightarrow> (string \<rightharpoonup> ComponentDefinition) \<Rightarrow> (string \<rightharpoonup> string list)
     \<Rightarrow> (string \<rightharpoonup> ComponentDefinition) \<times> (string \<rightharpoonup> string list)" where
  "index_definitions [] definitionsByName childNamesByParent = (definitionsByName, childNamesByParent)"
| "index_definitions (d # ds) definitionsByName childNamesByParent =
     index_definitions ds (definitionsByName(cd_Name d \<mapsto> d))
       (case cd_OwnerRef d of
          None \<Rightarrow> childNamesByParent
        | Some parent \<Rightarrow> append_slice childNamesByParent parent (cd_Name d))"

text \<open>Reading the fields of a nil Karta panics.\<close>

definition NewComponentFactory :: "Karta option \<Rightarrow> ComponentFactory res" where
  "NewComponentFactory karta =
     (case karta of
        None \<Rightarrow> Panic ''invalid memory address or nil pointer dereference''
      | Some k \<Rightarrow>
          let (definitionsByName, childNamesByParent) =
                index_definitions (children_of k @ [root_of k]) Map.empty Map.empty
          in Ok \<lparr>cf_karta = Some k, cf_componentDefinitionsByName = definitionsByName,
                 cf_childNamesByParent = childNamesByParent\<rparr>)"

text \<open>The factory together with the state of the runner behind its accessor.\<close>

definition NewComponentFactoryFromObject :: "Karta option \<Rightarrow> 'o \<Rightarrow> (ComponentFactory \<times> 'o runner) res" where
  "NewComponentFactoryFromObject karta obj =
     (case NewComponentFactory karta of
        Ok f \<Rightarrow> Ok (f, NewDefaultRunner obj)
      | Err e \<Rightarrow> Err e | Panic p \<Rightarrow> Panic p | NoReturn \<Rightarrow> NoReturn)"

definition GetComponent :: "ComponentFactory \<Rightarrow> string \<Rightarrow> Component res" where
  "GetComponent f name =
     (case cf_componentDefinitionsByName f name of
        None \<Rightarrow> Err (Errorf ''component %s not found'' [AStr name])
      | Some d \<Rightarrow> Ok \<lparr>comp_name = name, comp_definition = d\<rparr>)"

definition GetRootComponent :: "ComponentFactory \<Rightarrow> Component res" where
  "GetRootComponent f =
     (case cf_karta f of
        None \<Rightarrow> Err (Errorf ''karta is nil'' [])
      | Some k \<Rightarrow> GetComponent f (cd_Name (root_of k)))"

fun get_children :: "ComponentFactory \<Rightarrow> string list \<Rightarrow> Component list res" where
  "get_children f [] = Ok []"
| "get_children f (name # names) =
     (case GetComponent f name of
        Ok c \<Rightarrow> (case get_children f names of Ok cs \<Rightarrow> Ok (c # cs) | x \<Rightarrow> x)
      | Err e \<Rightarrow> Err (Wrapf ''failed to get child component %s: %w'' [AStr name] e)
      | Panic p \<Rightarrow> Panic p | NoReturn \<Rightarrow> NoReturn)"

definition GetChildComponentsOf :: "ComponentFactory \<Rightarrow> string \<Rightarrow> Component list res" where
  "GetChildComponentsOf f parentName = get_children f (get_slice (cf_childNamesByParent f) parentName)"

definition GetChildComponents :: "ComponentFactory \<Rightarrow> Component list res" where
  "GetChildComponents f =
     (case cf_karta f of
        None \<Rightarrow> Err (Errorf ''karta is nil'' [])
      | Some k \<Rightarrow> get_children f (map cd_Name (children_of k)))"

definition isComponentHasSpecDefinition :: "ComponentDefinition \<Rightarrow> bool" where
  "isComponentHasSpecDefinition d =
     (case cd_SpecDefinition d of None \<Rightarrow> False | Some spec \<Rightarrow> spec_has_pod spec)"

definition IsContainSpecDefinition :: "ComponentFactory \<Rightarrow> bool res" where
  "IsContainSpecDefinition f =
     (case GetChildComponents f of
        Ok components \<Rightarrow>
          (case GetRootComponent f of
             Ok rootComponent \<Rightarrow>
               Ok (list_ex (\<lambda>c. isComponentHasSpecDefinition (comp_definition c)) (components @ [rootComponent]))
           | Err e \<Rightarrow> Err (Wrapf ''failed to get root component: %w'' [] e)
           | Panic p \<Rightarrow> Panic p | NoReturn \<Rightarrow> NoReturn)
      | Err e \<Rightarrow> Err (Wrapf ''failed to get child components: %w'' [] e)
      | Panic p \<Rightarrow> Panic p | NoReturn \<Rightarrow> NoReturn)"

text \<open>The accessors of unstructured.Unstructured that the code calls.\<close>

record unstructuredlib =
  us_GroupVersionKind :: "(string \<times> json) list \<Rightarrow> GroupVersionKind"
  us_GetName :: "(string \<times> json) list \<Rightarrow> string"
  us_GetGenerateName :: "(string \<times> json) list \<Rightarrow> string"

definition validateKubernetesObject :: "unstructuredlib \<Rightarrow> (string \<times> json) list \<Rightarrow> goerr option" where
  "validateKubernetesObject U u =
     (let gvk = us_GroupVersionKind U u
      in if gvk_Group gvk = [] \<and> gvk_Version gvk = [] then Some (Errorf ''missing apiVersion'' [])
         else if gvk_Kind gvk = [] then Some (Errorf ''missing kind'' [])
         else if us_GetName U u = [] \<and> us_GetGenerateName U u = []
         then Some (Errorf ''missing metadata.name or metadata.generateName'' [])
         else None)"

definition GetResource :: "unstructuredlib \<Rightarrow> ('r, 'o) ComponentAccessor \<Rightarrow> ('r, (string \<times> json) list) act" where
  "GetResource U A =
     and_then (wrap_error ''failed to get updated data: %w'' [] (acc_GetObject A)) (\<lambda>u.
     case validateKubernetesObject U u of
       Some e \<Rightarrow> fail_act (Wrapf ''invalid Kubernetes object: %w'' [] e)
     | None \<Rightarrow> return_act u)"

section \<open>Maps keyed by instance id\<close>

lemma foldl_update: "map_of (foldl (\<lambda>m (k, v). AList.update k v m) m0 kvs) = foldl (\<lambda>m (k, v). m(k \<mapsto> v)) (map_of m0) kvs"
  by (induction kvs arbitrary: m0) (auto simp: AList.update_conv')

lemma map_of_write_all: "map_of (write_all kvs) = go_map kvs"
  by (simp add: write_all_def go_map_def foldl_update)

lemma foldl_update_keys: "set (map fst (foldl (\<lambda>m (k, v). AList.update k v m) m0 kvs)) = fst ` set m0 \<union> fst ` set kvs"
proof (induction kvs arbitrary: m0)
  case (Cons kv kvs)
  then show ?case by (cases kv) (simp add: AList.dom_update)
qed simp

lemma write_all_keys: "fst ` set (write_all kvs) = fst ` set kvs"
  using foldl_update_keys [of "[]" kvs] by (simp add: write_all_def)

lemma write_all_distinct: "distinct (map fst (write_all kvs))"
proof -
  have "distinct (map fst m0) \<Longrightarrow> distinct (map fst (foldl (\<lambda>m (k, v). AList.update k v m) m0 kvs))" for m0 :: "'a by_instance"
    by (induction kvs arbitrary: m0) (auto simp: AList.distinct_update)
  then show ?thesis by (simp add: write_all_def)
qed

lemma zipWithInstanceIds_Ok:
  "zipWithInstanceIds ids xs = Ok m \<longleftrightarrow> length ids = length xs \<and> m = write_all (zip ids xs)"
  by (auto simp: zipWithInstanceIds_def)

lemma zipWithInstanceIds_clean: "ok_res clean (zipWithInstanceIds ids xs)"
  by (simp add: zipWithInstanceIds_def)

lemma write_all_lookup:
  assumes "length ids = length xs" "distinct ids" "i < length ids"
  shows "map_of (write_all (zip ids xs)) (ids ! i) = Some (xs ! i)"
  using assms by (simp add: map_of_write_all go_map_distinct map_of_zip_nth)

lemma write_all_back:
  assumes "length ids = length xs" "distinct ids"
  shows "map (map_of (write_all (zip ids xs))) ids = map Some xs"
  using write_all_lookup [OF assms] assms(1) by (intro nth_equalityI) simp_all

section \<open>The contract of a ComponentAccessor\<close>

text \<open>
  An extraction whose definition is present reads the object and never fails with a missing definition;
  one whose definition is absent fails with exactly that and leaves the object alone.
\<close>

definition extraction :: "('r \<Rightarrow> bool) \<Rightarrow> ('r \<Rightarrow> 'v) \<Rightarrow> bool \<Rightarrow> ('r, 'a) act \<Rightarrow> bool" where
  "extraction invar view present m \<longleftrightarrow>
     (if present then reads clean invar view m
      else (\<forall>r. \<exists>s. m r = (Err (DefinitionNotFoundError s), r)))"

locale accessor_contract =
  fixes A :: "('r, 'o) ComponentAccessor"
    and view :: "'r \<Rightarrow> 'v"
    and invar :: "'r \<Rightarrow> bool"
  assumes template_law: "extraction invar view (spec_path sp_PodTemplateSpecPath d \<noteq> None) (acc_ExtractPodTemplateSpec A d)"
    and pod_spec_law: "extraction invar view (spec_path sp_PodSpecPath d \<noteq> None) (acc_ExtractPodSpec A d)"
    and metadata_law: "extraction invar view (spec_path sp_MetadataPath d \<noteq> None) (acc_ExtractPodMetadata A d)"
    and fragmented_law: "extraction invar view (spec_path sp_FragmentedPodSpecDefinition d \<noteq> None) (acc_ExtractFragmentedPodSpec A d)"
    and scale_law: "extraction invar view (cd_ScaleDefinition d \<noteq> None) (acc_ExtractScale A d)"
    and status_law: "extraction invar view (cd_StatusDefinition d \<noteq> None) (acc_ExtractStatus A d)"
    and ids_law: "extraction invar view (cd_InstanceIdPath d \<noteq> None) (acc_ExtractInstanceIds A d)"
    and ids_nonempty: "acc_ExtractInstanceIds A d r = (Ok ids, r') \<Longrightarrow> [] \<notin> set ids"
    and object_law: "reads clean invar view (acc_GetObject A)"
    and update_law: "cd_InstanceIdPath d \<noteq> None \<or> xs \<noteq> [] \<Longrightarrow> triple invar (acc_UpdatePodTemplateSpec A d xs) (\<lambda>_. invar) (\<lambda>_. invar)"
      "cd_InstanceIdPath d \<noteq> None \<or> xs \<noteq> [] \<Longrightarrow> triple invar (acc_UpdatePodSpec A d xs) (\<lambda>_. invar) (\<lambda>_. invar)"
      "cd_InstanceIdPath d \<noteq> None \<or> xs \<noteq> [] \<Longrightarrow> triple invar (acc_UpdatePodMetadata A d xs) (\<lambda>_. invar) (\<lambda>_. invar)"
    and update_fragmented_law: "cd_InstanceIdPath d \<noteq> None \<or> fs \<noteq> []
      \<Longrightarrow> triple invar (acc_UpdateFragmentedPodSpec A d fs) (\<lambda>_. invar) (\<lambda>_. invar)"
    and suspend_law: "cd_SuspendDefinition d \<noteq> None \<Longrightarrow> triple invar (acc_ApplySuspendActions A d) (\<lambda>_. invar) (\<lambda>e r. invar r \<and> clean e)"
      "cd_SuspendDefinition d \<noteq> None \<Longrightarrow> triple invar (acc_ApplyResumeActions A d) (\<lambda>_. invar) (\<lambda>e r. invar r \<and> clean e)"
    and suspend_missing: "cd_SuspendDefinition d = None \<Longrightarrow> \<exists>s. acc_ApplySuspendActions A d r = (Err (DefinitionNotFoundError s), r)"
      "cd_SuspendDefinition d = None \<Longrightarrow> \<exists>s. acc_ApplyResumeActions A d r = (Err (DefinitionNotFoundError s), r)"

text \<open>Every runner that keeps its contract gives an accessor that keeps this one.\<close>

lemma ExtractInstanceIds_nonempty: "ExtractInstanceIds R d r = (Ok ids, r') \<Longrightarrow> [] \<notin> set ids"
  by (auto simp: ExtractInstanceIds_def and_then_Ok return_act_apply fail_act_apply split: option.splits if_splits)

lemma extractionI:
  assumes "present \<Longrightarrow> reads clean invar view m"
    and "\<And>r. \<not> present \<Longrightarrow> \<exists>s. m r = (Err (DefinitionNotFoundError s), r)"
  shows "extraction invar view present m"
  using assms by (simp add: extraction_def)

context runner_contract
begin

lemma apply_action_triple: "triple invar (apply_action R K field ia) (\<lambda>_. invar) (\<lambda>e r. invar r \<and> clean e)"
proof (cases ia)
  case (Pair i action)
  have "triple invar (wrap_error msg args (Assign R p v)) (\<lambda>_. invar) (\<lambda>e r. invar r \<and> clean e)" for msg args p v
    by (rule triple_wrap_error) (simp add: assign_inv)
  then show ?thesis
    unfolding apply_action_def Pair by (auto intro: triple_fail split: sum.splits)
qed

lemma ApplyActions_triple:
  "cd_SuspendDefinition d \<noteq> None \<Longrightarrow> triple invar (ApplySuspendActions R K d) (\<lambda>_. invar) (\<lambda>e r. invar r \<and> clean e)"
  "cd_SuspendDefinition d \<noteq> None \<Longrightarrow> triple invar (ApplyResumeActions R K d) (\<lambda>_. invar) (\<lambda>e r. invar r \<and> clean e)"
  by (auto simp: ApplySuspendActions_def ApplyResumeActions_def intro!: triple_iter_act apply_action_triple)

lemma accessor_GetObject_reads: "reads clean invar view (accessor_GetObject R)"
  unfolding accessor_GetObject_def
  by (rule reads_and_then [OF object_reads]) (auto intro: reads_return reads_fail split: json.splits)

end

sublocale runner_contract < acc: accessor_contract "NewAccessor R K" view invar for K
proof (unfold_locales, unfold NewAccessor_def ComponentAccessor.simps, goal_cases)
  case (1 d) show ?case by (rule extractionI) (simp_all add: ExtractPodTemplateSpec_reads spec_missing)
next
  case (2 d) show ?case by (rule extractionI) (simp_all add: ExtractPodSpec_reads spec_missing)
next
  case (3 d) show ?case by (rule extractionI) (simp_all add: ExtractPodMetadata_reads spec_missing)
next
  case (4 d) show ?case by (rule extractionI) (simp_all add: ExtractFragmentedPodSpec_reads fragmented_missing)
next
  case (5 d) show ?case by (rule extractionI) (simp_all add: ExtractScale_reads definition_missing)
next
  case (6 d) show ?case by (rule extractionI) (simp_all add: ExtractStatus_reads definition_missing)
next
  case (7 d) show ?case by (rule extractionI) (simp_all add: ExtractInstanceIds_reads definition_missing)
next
  case (8 d r ids r') then show ?case by (rule ExtractInstanceIds_nonempty)
next
  case 9 show ?case by (rule accessor_GetObject_reads)
qed (simp_all add: Update_triple UpdateFragmentedPodSpec_triple ApplyActions_triple definition_missing)

section \<open>A component over any accessor that keeps the contract\<close>

lemma reads_inv_triple: "reads E invar view m \<Longrightarrow> triple invar m (\<lambda>_. invar) (\<lambda>e r. invar r \<and> E e)"
  by (rule triple_all_views [where view = view and Q = "\<lambda>v _ r. view r = v" and E = "\<lambda>v e r. view r = v \<and> E e"])
     (auto intro: reads_triple)

lemma triple_guard: "(b \<Longrightarrow> triple P m Q E) \<Longrightarrow> triple (\<lambda>r. P r \<and> b) m Q E"
  by (cases b) (simp_all add: triple_def)

lemma lookup_all_Ok:
  "map_act (\<lambda>instanceId. case map_of m instanceId of
       None \<Rightarrow> fail_act (Errorf ''value not found for instance id: %s'' [AStr instanceId])
     | Some v \<Rightarrow> return_act v) ids r = (Ok xs, r') \<longleftrightarrow> r' = r \<and> map (map_of m) ids = map Some xs"
proof (induction ids arbitrary: xs)
  case Nil
  then show ?case by (auto simp: return_act_apply)
next
  case (Cons i ids)
  then show ?case
    by (cases "map_of m i"; cases xs) (auto simp: and_then_Ok return_act_apply fail_act_apply)
qed

lemma optional_absent: "extraction invar view False m \<Longrightarrow> optional msg m = return_act None"
proof
  fix r
  assume "extraction invar view False m"
  then obtain s where "m r = (Err (DefinitionNotFoundError s), r)" by (auto simp: extraction_def)
  then show "optional msg m r = return_act None r"
    by (simp add: optional_def on_error_apply and_then_apply return_act_apply)
qed

lemma optional_reads: "extraction invar view present m \<Longrightarrow> reads clean invar view (optional msg m)"
proof (cases present)
  case True
  assume "extraction invar view present m"
  with True have "reads clean invar view (and_then m (\<lambda>x. return_act (Some x)))"
    by (auto simp: extraction_def intro: reads_and_then reads_return)
  then show ?thesis
    unfolding optional_def by (rule reads_on_error) (simp add: reads_fail)
next
  case False
  assume "extraction invar view present m"
  with False have "optional msg m = return_act None" by (intro optional_absent) simp
  then show ?thesis by (simp add: reads_return)
qed

lemma optional_Some: "optional msg m r = (Ok (Some x), r') \<longleftrightarrow> m r = (Ok x, r')"
  by (auto simp: optional_def on_error_apply and_then_apply return_act_apply fail_act_apply
      split: prod.splits res.splits if_splits)

lemma optional_present:
  assumes "extraction invar view True m" "invar r" "optional msg m r = (Ok x, r')"
  shows "x \<noteq> None"
proof -
  have "ok_res clean (fst (m r))" using assms(1,2) readsD(3) by (auto simp: extraction_def)
  then show ?thesis
    using assms(3) by (cases "m r"; cases rule: ok_res_cases)
      (auto simp: optional_def on_error_apply and_then_apply return_act_apply fail_act_apply)
qed

context accessor_contract
begin

lemma ids_default: "cd_InstanceIdPath (comp_definition c) = None \<Longrightarrow> GetInstanceIds A c = return_act [[]]"
proof
  fix r
  assume "cd_InstanceIdPath (comp_definition c) = None"
  with ids_law [of "comp_definition c"] obtain s
    where "acc_ExtractInstanceIds A (comp_definition c) r = (Err (DefinitionNotFoundError s), r)"
    by (auto simp: extraction_def)
  then show "GetInstanceIds A c r = return_act [[]] r"
    by (simp add: GetInstanceIds_def on_error_apply return_act_apply)
qed

lemma GetInstanceIds_reads: "reads clean invar view (GetInstanceIds A c)"
proof (cases "cd_InstanceIdPath (comp_definition c)")
  case None
  then show ?thesis by (simp add: ids_default reads_return)
next
  case (Some p)
  with ids_law [of "comp_definition c"]
  have "reads clean invar view (acc_ExtractInstanceIds A (comp_definition c))" by (simp add: extraction_def)
  then show ?thesis
    unfolding GetInstanceIds_def by (rule reads_on_error) (simp add: reads_fail)
qed

lemma GetInstanceIds_nonempty:
  assumes "cd_InstanceIdPath (comp_definition c) \<noteq> None" "invar r" "GetInstanceIds A c r = (Ok ids, r')"
  shows "[] \<notin> set ids"
proof -
  have law: "reads clean invar view (acc_ExtractInstanceIds A (comp_definition c))"
    using ids_law [of "comp_definition c"] assms(1) by (simp add: extraction_def)
  obtain x r1 where x: "acc_ExtractInstanceIds A (comp_definition c) r = (x, r1)" by fastforce
  with readsD(3) [OF law assms(2)] have "ok_res clean x" by simp
  then show ?thesis
    using assms(3) x ids_nonempty [of "comp_definition c" r ids r']
    by (cases rule: ok_res_cases) (auto simp: GetInstanceIds_def on_error_apply fail_act_apply)
qed

lemma get_by_instance_absent: "extraction invar view False m \<Longrightarrow> get_by_instance A c msg m = return_act None"
  by (rule ext) (simp add: get_by_instance_def optional_absent and_then_apply return_act_apply)

lemma get_by_instance_reads:
  assumes "extraction invar view present m"
  shows "reads clean invar view (get_by_instance A c msg m)"
proof -
  have "reads clean invar view (wrap_error f as (GetInstanceIds A c))" for f as
    by (rule reads_wrap_error) (simp add: GetInstanceIds_reads)
  then show ?thesis
    unfolding get_by_instance_def
    by (intro reads_and_then reads_option reads_return reads_lift zipWithInstanceIds_clean optional_reads [OF assms])
qed

lemma get_by_instance_Some:
  "get_by_instance A c msg m r = (Ok (Some z), r') \<longleftrightarrow>
     (\<exists>xs r1 ids. m r = (Ok xs, r1) \<and> GetInstanceIds A c r1 = (Ok ids, r')
        \<and> length ids = length xs \<and> z = write_all (zip ids xs))"
proof -
  have "get_by_instance A c msg m r = (Ok (Some z), r') \<longleftrightarrow>
      (\<exists>xs r1. optional msg m r = (Ok (Some xs), r1) \<and> (\<exists>ids. GetInstanceIds A c r1 = (Ok ids, r')
         \<and> zipWithInstanceIds ids xs = Ok z))"
    unfolding get_by_instance_def and_then_Ok
    by (auto simp: and_then_Ok wrap_error_Ok lift_res_apply return_act_apply split: option.splits)
  then show ?thesis by (simp add: optional_Some zipWithInstanceIds_Ok)
qed

lemma get_by_instance_present:
  assumes "extraction invar view True m" "invar r" "get_by_instance A c msg m r = (Ok x, r')"
  shows "x \<noteq> None"
proof -
  from assms(3) obtain y r1 where "optional msg m r = (Ok y, r1)"
    and rest: "(case y of None \<Rightarrow> return_act None | Some results \<Rightarrow>
      and_then (wrap_error ''%s: %w'' [AStr errGetInstanceIds] (GetInstanceIds A c)) (\<lambda>instanceIds.
      and_then (lift_res (zipWithInstanceIds instanceIds results)) (\<lambda>zipped. return_act (Some zipped)))) r1 = (Ok x, r')"
    unfolding get_by_instance_def and_then_Ok by blast
  moreover from this(1) have "y \<noteq> None" by (rule optional_present [OF assms(1,2)])
  ultimately show ?thesis by (auto simp: and_then_Ok return_act_apply)
qed

lemmas getter_defs = GetPodTemplateSpec_def GetPodSpec_def GetFragmentedPodSpec_def GetPodMetadata_def GetScale_def

lemma getters_read:
  "reads clean invar view (GetPodTemplateSpec A c)" "reads clean invar view (GetPodSpec A c)"
  "reads clean invar view (GetFragmentedPodSpec A c)" "reads clean invar view (GetPodMetadata A c)"
  "reads clean invar view (GetScale A c)" "reads clean invar view (GetStatus A c)"
  unfolding getter_defs GetStatus_def
  by (rule get_by_instance_reads optional_reads, rule template_law pod_spec_law fragmented_law metadata_law scale_law status_law)+

text \<open>A getter returns nil exactly when the component lacks the definition it needs.\<close>

lemma getter_nil:
  assumes "extraction invar view present m" "invar r" "get_by_instance A c msg m r = (Ok x, r')"
  shows "x = None \<longleftrightarrow> \<not> present"
  using assms get_by_instance_present [of m r c msg x r'] get_by_instance_absent [of m c msg]
  by (cases present) (auto simp: return_act_apply)

lemma GetExtractedInstances_reads: "reads clean invar view (GetExtractedInstances A c)"
proof -
  have wrap: "reads clean invar view (wrap_error f as m)" if "reads clean invar view m" for f as and m :: "('r, 'x) act"
    using that by (intro reads_wrap_error) simp
  show ?thesis
    unfolding GetExtractedInstances_def
    by (intro reads_and_then reads_return) (rule wrap, rule GetInstanceIds_reads getters_read)+
qed

text \<open>Writing back: the values of a map in the order of the instance ids.\<close>

lemma unzip_reads: "reads clean invar view (unzipWithInstanceIds A c m)"
proof -
  have "reads clean invar view (wrap_error f as (GetInstanceIds A c))" for f as
    by (rule reads_wrap_error) (simp add: GetInstanceIds_reads)
  then show ?thesis
    unfolding unzipWithInstanceIds_def
    by (intro reads_and_then reads_map_act reads_option reads_return reads_fail) simp_all
qed

lemma unzip_Ok:
  "unzipWithInstanceIds A c m r = (Ok (ids, xs), r') \<longleftrightarrow>
     GetInstanceIds A c r = (Ok ids, r') \<and> map (map_of m) ids = map Some xs"
  unfolding unzipWithInstanceIds_def and_then_Ok wrap_error_Ok
  by (auto simp: return_act_apply lookup_all_Ok)

lemma unzip_triple:
  "triple invar (unzipWithInstanceIds A c m)
     (\<lambda>(ids, xs) r. invar r \<and> (cd_InstanceIdPath (comp_definition c) \<noteq> None \<or> xs \<noteq> [])) (\<lambda>_. invar)"
proof (rule tripleI, goal_cases)
  case (1 r a r')
  moreover have "invar r'"
    using 1 readsD(1) [OF unzip_reads, of r c m] by simp
  ultimately show ?case
    by (cases a) (auto simp: unzip_Ok ids_default return_act_apply)
next
  case (2 r e r')
  then show ?case using readsD(1) [OF unzip_reads, of r c m] by simp
next
  case (3 r p r')
  then show ?case using readsD(3) [OF unzip_reads, of r c m] by simp
next
  case (4 r r')
  then show ?case using readsD(3) [OF unzip_reads, of r c m] by simp
qed

lemma update_pattern:
  assumes "\<And>xs. cd_InstanceIdPath (comp_definition c) \<noteq> None \<or> xs \<noteq> [] \<Longrightarrow> triple invar (upd xs) (\<lambda>_. invar) (\<lambda>_. invar)"
  shows "triple invar (and_then (wrap_error msg [] (unzipWithInstanceIds A c m)) (\<lambda>(_, xs). upd xs)) (\<lambda>_. invar) (\<lambda>_. invar)"
  by (rule triple_and_then [OF triple_wrap_error [OF unzip_triple]]) (auto simp only: split_beta intro: triple_guard assms)

lemma updates_keep:
  "triple invar (Component_UpdatePodTemplateSpec A c m) (\<lambda>_. invar) (\<lambda>_. invar)"
  "triple invar (Component_UpdatePodSpec A c m) (\<lambda>_. invar) (\<lambda>_. invar)"
  "triple invar (Component_UpdatePodMetadata A c m) (\<lambda>_. invar) (\<lambda>_. invar)"
  "triple invar (Component_UpdateFragmentedPodSpec A c fm) (\<lambda>_. invar) (\<lambda>_. invar)"
  unfolding Component_UpdatePodTemplateSpec_def Component_UpdatePodSpec_def Component_UpdatePodMetadata_def
    Component_UpdateFragmentedPodSpec_def
  by (rule update_pattern, erule update_law update_fragmented_law)+

text \<open>What a getter returned can be written back: the update receives the extracted values in order.\<close>

lemma get_unzip:
  assumes m: "reads clean invar view m" and r: "invar r"
    and get: "get_by_instance A c msg m r = (Ok (Some z), r')"
    and ids: "fst (GetInstanceIds A c r) = Ok ids" "distinct ids"
  shows "\<exists>xs r2. fst (m r) = Ok xs \<and> unzipWithInstanceIds A c z r' = (Ok (ids, xs), r2) \<and> invar r2 \<and> view r2 = view r"
proof -
  from get obtain xs r1 ids' where xs: "m r = (Ok xs, r1)" and ids': "GetInstanceIds A c r1 = (Ok ids', r')"
    and z: "length ids' = length xs" "z = write_all (zip ids' xs)"
    unfolding get_by_instance_Some by blast
  have r1: "invar r1" "view r1 = view r" using readsD [OF m r] xs by simp_all
  have r': "invar r'" "view r' = view r" using readsD [OF GetInstanceIds_reads r1(1), of c] ids' r1(2) by simp_all
  have "ids' = ids"
    using reads_same [OF GetInstanceIds_reads r1(1) r r1(2), of c] ids' ids(1) by simp
  moreover obtain r2 where r2: "GetInstanceIds A c r' = (Ok ids, r2)"
    using reads_same [OF GetInstanceIds_reads r'(1) r r'(2), of c] ids(1) by (cases "GetInstanceIds A c r'") simp
  ultimately have "unzipWithInstanceIds A c z r' = (Ok (ids, xs), r2)"
    using z ids(2) by (simp add: unzip_Ok write_all_back)
  moreover have "invar r2" "view r2 = view r"
    using readsD [OF GetInstanceIds_reads r'(1), of c] r2 r'(2) by simp_all
  ultimately show ?thesis using xs by simp
qed

text \<open>Suspend and Resume do nothing without a definition, and with one they hide no failure.\<close>

lemma suspend_absent:
  assumes "cd_SuspendDefinition (comp_definition c) = None"
  shows "Suspend A c r = (Ok (), r)" "Resume A c r = (Ok (), r)"
  using suspend_missing [OF assms, of r] by (auto simp: Suspend_def Resume_def on_error_apply return_act_apply)

lemma suspend_present:
  assumes "cd_SuspendDefinition (comp_definition c) \<noteq> None" "invar r"
  shows "Suspend A c r = (Ok (), r') \<longleftrightarrow> acc_ApplySuspendActions A (comp_definition c) r = (Ok (), r')"
    and "Resume A c r = (Ok (), r') \<longleftrightarrow> acc_ApplyResumeActions A (comp_definition c) r = (Ok (), r')"
  using triple_ErrD [OF suspend_law(1) [OF assms(1)] assms(2)] triple_ErrD [OF suspend_law(2) [OF assms(1)] assms(2)]
  by (auto simp: Suspend_def Resume_def on_error_apply return_act_apply fail_act_apply split: prod.splits res.splits)

end

interpretation stdacc: accessor_contract "NewAccessor (runner_iface L) K" "runner_view L" clean_runner for L K
  by (rule std.acc.accessor_contract_axioms)

section \<open>The factory of a Karta\<close>

definition owned_by :: "string \<Rightarrow> ComponentDefinition list \<Rightarrow> ComponentDefinition list" where
  "owned_by p ds = filter (\<lambda>d. cd_OwnerRef d = Some p) ds"

definition component_of :: "ComponentDefinition \<Rightarrow> Component" where
  "component_of d = \<lparr>comp_name = cd_Name d, comp_definition = d\<rparr>"

lemma component_of_simps [simp]:
  "comp_name (component_of d) = cd_Name d" "comp_definition (component_of d) = d"
  by (simp_all add: component_of_def)

lemma get_slice_append: "get_slice (append_slice m k x) p = (if p = k then get_slice m p @ [x] else get_slice m p)"
  by (simp add: append_slice_def get_slice_def)

lemma index_definitions_maps:
  "fst (index_definitions ds m ch) = m ++ map_of (rev (map (\<lambda>d. (cd_Name d, d)) ds))"
  "get_slice (snd (index_definitions ds m ch)) p = get_slice ch p @ map cd_Name (owned_by p ds)"
proof (induction ds arbitrary: m ch)
  case (Cons d ds)
  {
    case 1
    show ?case by (simp add: Cons map_add_upd_left) (simp add: fun_eq_iff map_add_def split: option.splits)
  next
    case 2
    show ?case by (auto simp: Cons owned_by_def get_slice_append split: option.splits)
  }
qed (simp_all add: owned_by_def)

lemma NewComponentFactory_fields:
  assumes "NewComponentFactory (Some k) = Ok f"
  shows "cf_karta f = Some k"
    and "cf_componentDefinitionsByName f = go_map (named_components k)"
    and "get_slice (cf_childNamesByParent f) p = map cd_Name (owned_by p (children_of k @ [root_of k]))"
  using assms index_definitions_maps [of "children_of k @ [root_of k]" Map.empty Map.empty]
  by (auto simp: NewComponentFactory_def go_map_rev named_components_def split_beta get_slice_def
      simp del: rev_append index_definitions.simps)

lemma NewComponentFactory_total: "\<exists>f. NewComponentFactory (Some k) = Ok f"
  by (simp add: NewComponentFactory_def split: prod.splits)

lemma factory_lookup:
  assumes "NewComponentFactory (Some k) = Ok f" "distinct (component_names k)"
  shows "cf_componentDefinitionsByName f = map_of (named_components k)"
  using NewComponentFactory_fields(2) [OF assms(1)] assms(2)
  by (simp add: go_map_distinct component_names_def named_components_def comp_def)

lemma GetComponent_Ok:
  assumes "NewComponentFactory (Some k) = Ok f" "distinct (component_names k)"
  shows "GetComponent f n = Ok c \<longleftrightarrow> (\<exists>d \<in> set (children_of k @ [root_of k]). cd_Name d = n \<and> c = component_of d)"
proof -
  have "GetComponent f n = Ok c \<longleftrightarrow> (\<exists>d. map_of (named_components k) n = Some d \<and> c = \<lparr>comp_name = n, comp_definition = d\<rparr>)"
    by (auto simp: GetComponent_def factory_lookup [OF assms] split: option.splits)
  also have "\<dots> \<longleftrightarrow> (\<exists>d \<in> set (children_of k @ [root_of k]). cd_Name d = n \<and> c = component_of d)"
    unfolding named_components_Some [OF assms(2)] component_of_def by blast
  finally show ?thesis .
qed

lemma get_children_Ok:
  assumes "NewComponentFactory (Some k) = Ok f" "distinct (component_names k)" "set ds \<subseteq> set (children_of k @ [root_of k])"
  shows "get_children f (map cd_Name ds) = Ok (map component_of ds)"
  using assms(3)
proof (induction ds)
  case (Cons d ds)
  then have "GetComponent f (cd_Name d) = Ok (component_of d)"
    unfolding GetComponent_Ok [OF assms(1,2)] by auto
  with Cons show ?case by simp
qed simp

lemma factory_navigation:
  assumes "NewComponentFactory (Some k) = Ok f" "distinct (component_names k)"
  shows "GetRootComponent f = Ok (component_of (root_of k))"
    and "GetChildComponents f = Ok (map component_of (children_of k))"
    and "GetChildComponentsOf f p = Ok (map component_of (owned_by p (children_of k @ [root_of k])))"
proof -
  show "GetRootComponent f = Ok (component_of (root_of k))"
    using GetComponent_Ok [OF assms] NewComponentFactory_fields(1) [OF assms(1)]
    by (auto simp: GetRootComponent_def)
  show "GetChildComponents f = Ok (map component_of (children_of k))"
    using get_children_Ok [OF assms, of "children_of k"] NewComponentFactory_fields(1) [OF assms(1)]
    by (auto simp: GetChildComponents_def)
  show "GetChildComponentsOf f p = Ok (map component_of (owned_by p (children_of k @ [root_of k])))"
    unfolding GetChildComponentsOf_def NewComponentFactory_fields(3) [OF assms(1)]
    by (rule get_children_Ok [OF assms]) (auto simp: owned_by_def)
qed

lemma IsContainSpecDefinition_iff:
  assumes "NewComponentFactory (Some k) = Ok f" "distinct (component_names k)"
  shows "IsContainSpecDefinition f = Ok (\<exists>d \<in> set (children_of k @ [root_of k]). HasPodDefinition (component_of d))"
  by (auto simp: IsContainSpecDefinition_def factory_navigation [OF assms] list_ex_iff
      isComponentHasSpecDefinition_def HasPodDefinition_def)

text \<open>A component owned by one at depth \<open>d\<close> is at depth \<open>d + 1\<close>.\<close>

lemma owned_rooted:
  assumes "distinct (component_names k)" "rooted_at (named_components k) d p"
    and "c \<in> set (owned_by p (children_of k @ [root_of k]))"
  shows "rooted_at (named_components k) (Suc d) (cd_Name c)"
proof -
  have "map_of (named_components k) (cd_Name c) = Some c" "cd_OwnerRef c = Some p"
    using assms(3) unfolding named_components_Some [OF assms(1)] owned_by_def by (simp_all del: filter.simps filter_append)
  with assms(2) show ?thesis by simp
qed

lemma depth_bound:
  assumes "rooted_at (named_components k) d n"
  shows "d \<le> length (children_of k)"
proof -
  have "d < card (set (component_names k))"
    using rooted_at_bound [OF assms] by (simp add: dom_named_components)
  also have "\<dots> \<le> length (component_names k)" by (rule card_length)
  finally show ?thesis by (simp add: component_names_def)
qed

end
