(* ===== verification/Pod_Querier.thy ===== *)
theory Pod_Querier
  imports Component "HOL-Library.Char_ord" "HOL-Library.List_Lexorder"
begin

text \<open>
  \<^verbatim>\<open>karta/sdk/pkg/resource/pod_querier.go\<close>: queries against one pod through the Evaluator interface. Strings are
  their UTF-8 bytes and are ordered as Go orders them. json.Marshal of a string is written out; of
  \<open>%v\<close> only the text of a number is left open (\<open>num\<close>), because it depends on whether gojq holds the number as
  an int or a float64, which \<open>json\<close> does not tell apart.
\<close>

section \<open>Rendering\<close>

definition hex_digit :: "nat \<Rightarrow> char" where
  "hex_digit n = (if n < 10 then char_of (48 + n) else char_of (87 + n))"

text \<open>encoding/json: one byte of a string, with the HTML-escaping that json.Marshal applies.\<close>

definition escape_byte :: "char \<Rightarrow> string" where
  "escape_byte c =
     (let n = (of_char c :: nat) in
      if c = CHR 0x22 \<or> c = CHR 0x5C then [CHR 0x5C, c]
      else if c = CHR 0x08 then [CHR 0x5C, CHR ''b'']
      else if c = CHR 0x0C then [CHR 0x5C, CHR ''f'']
      else if c = CHR 0x0A then [CHR 0x5C, CHR ''n'']
      else if c = CHR 0x0D then [CHR 0x5C, CHR ''r'']
      else if c = CHR 0x09 then [CHR 0x5C, CHR ''t'']
      else if n < 32 \<or> c = CHR 0x3C \<or> c = CHR 0x3E \<or> c = CHR 0x26
      then [CHR 0x5C, CHR ''u'', CHR ''0'', CHR ''0'', hex_digit (n div 16), hex_digit (n mod 16)]
      else [c])"

text \<open>
  utf8.DecodeRuneInString: the number of bytes of the code point that the string starts with, 0 when the
  first bytes are not valid UTF-8. The first byte restricts the range of the second one.
\<close>

definition byte_in :: "nat \<Rightarrow> nat \<Rightarrow> char \<Rightarrow> bool" where
  "byte_in lo hi c \<longleftrightarrow> lo \<le> of_char c \<and> of_char c \<le> hi"

definition second_range :: "char \<Rightarrow> nat \<times> nat" where
  "second_range c = (if c = CHR 0xE0 then (0xA0, 0xBF) else if c = CHR 0xED then (0x80, 0x9F)
     else if c = CHR 0xF0 then (0x90, 0xBF) else if c = CHR 0xF4 then (0x80, 0x8F) else (0x80, 0xBF))"

definition rune_len :: "string \<Rightarrow> nat" where
  "rune_len s = (case s of
     c # c1 # cs \<Rightarrow>
       let (lo, hi) = second_range c in
       if \<not> byte_in lo hi c1 then 0
       else if byte_in 0xC2 0xDF c then 2
       else if byte_in 0xE0 0xEF c then (case cs of c2 # _ \<Rightarrow> if byte_in 0x80 0xBF c2 then 3 else 0 | _ \<Rightarrow> 0)
       else if byte_in 0xF0 0xF4 c
       then (case cs of c2 # c3 # _ \<Rightarrow> if byte_in 0x80 0xBF c2 \<and> byte_in 0x80 0xBF c3 then 4 else 0 | _ \<Rightarrow> 0)
       else 0
   | _ \<Rightarrow> 0)"

text \<open>
  encoding/json: a byte that is not part of valid UTF-8 becomes U+FFFD; U+2028 and U+2029 are escaped as a
  whole; any other code point above ASCII is copied.
\<close>

fun escape_string :: "string \<Rightarrow> string" where
  "escape_string [] = []"
| "escape_string (c # cs) =
     (if (of_char c :: nat) < 128 then escape_byte c @ escape_string cs
      else case rune_len (c # cs) of
        0 \<Rightarrow> [CHR 0x5C] @ ''ufffd'' @ escape_string cs
      | Suc m \<Rightarrow>
          (if c # take m cs = [CHR 0xE2, CHR 0x80, CHR 0xA8] then [CHR 0x5C] @ ''u2028''
           else if c # take m cs = [CHR 0xE2, CHR 0x80, CHR 0xA9] then [CHR 0x5C] @ ''u2029''
           else c # take m cs) @ escape_string (drop m cs))"

definition serialize :: "string \<Rightarrow> string res" where
  "serialize s = Ok ([CHR 0x22] @ escape_string s @ [CHR 0x22])"

fun join_with :: "string \<Rightarrow> string list \<Rightarrow> string" where
  "join_with sep [] = []"
| "join_with sep [s] = s"
| "join_with sep (s # t # ss) = s @ sep @ join_with sep (t # ss)"

text \<open>fmt.Sprintf with the verb v.\<close>

function fmt_v :: "(rat \<Rightarrow> string) \<Rightarrow> json \<Rightarrow> string" where
  "fmt_v num JNull = ''<nil>''"
| "fmt_v num (JBool b) = (if b then ''true'' else ''false'')"
| "fmt_v num (JNum q) = num q"
| "fmt_v num (JString s) = s"
| "fmt_v num (JArray xs) = ''['' @ join_with '' '' (map (fmt_v num) xs) @ '']''"
| "fmt_v num (JObject kvs) = ''map['' @ join_with '' ''
     (map (\<lambda>kv. fst kv @ '':'' @ fmt_v num (snd kv)) (sort_key fst kvs)) @ '']''"
  by pat_completeness auto
termination
proof (relation "measure (\<lambda>(num, j). size j)", goal_cases)
  case 1
  then show ?case by simp
next
  case (2 num xs x)
  then show ?case by (induction xs) auto
next
  case (3 num kvs kv)
  then have "kv \<in> set kvs" by simp
  then show ?case by (induction kvs) (auto simp: size_prod_simp)
qed

section \<open>pod\_querier.go\<close>

type_synonym 'r evaluator = "string \<Rightarrow> ('r, json list) act"

definition checkKeyExists :: "'r evaluator \<Rightarrow> string \<Rightarrow> ('r, bool) act" where
  "checkKeyExists E keyPath =
     and_then (E keyPath) (\<lambda>results. return_act (list_ex (\<lambda>result. result \<noteq> JNull) results))"

definition checkKeyValue :: "'r evaluator \<Rightarrow> string \<Rightarrow> string \<Rightarrow> ('r, bool) act" where
  "checkKeyValue E keyPath expectedValue =
     and_then (wrap_error ''failed to serialize selector value: %w'' [] (lift_res (serialize expectedValue))) (\<lambda>serializedValue.
     and_then (E (keyPath @ '' == '' @ serializedValue)) (\<lambda>results.
     return_act (list_ex (\<lambda>result. result = JBool True) results)))"

definition MatchesComponentType :: "'r evaluator \<Rightarrow> ComponentTypeSelector option \<Rightarrow> ('r, bool) act" where
  "MatchesComponentType E selector =
     (case selector of
        None \<Rightarrow> return_act False
      | Some s \<Rightarrow>
          (case cts_Value s of
             None \<Rightarrow> checkKeyExists E (cts_KeyPath s)
           | Some v \<Rightarrow> checkKeyValue E (cts_KeyPath s) v))"

definition validateSingleQueryResult :: "json list \<Rightarrow> goerr option" where
  "validateSingleQueryResult results =
     (if length results \<noteq> 1 then Some (Errorf ''expected single query result, got %d'' [AInt (int (length results))])
      else if hd results = JNull \<or> hd results = JString []
      then Some (Errorf ''query result is empty %v'' [AJson (hd results)])
      else None)"

definition evaluateSingleResult :: "'r evaluator \<Rightarrow> string \<Rightarrow> ('r, json) act" where
  "evaluateSingleResult E jqPath =
     and_then (E jqPath) (\<lambda>results.
       case validateSingleQueryResult results of
         Some e \<Rightarrow> fail_act e
       | None \<Rightarrow> return_act (hd results))"

definition evaluateStringField :: "(rat \<Rightarrow> string) \<Rightarrow> 'r evaluator \<Rightarrow> string \<Rightarrow> ('r, string) act" where
  "evaluateStringField num E jqPath =
     and_then (evaluateSingleResult E jqPath) (\<lambda>result. return_act (fmt_v num result))"

text \<open>The string and whether a value was found.\<close>

definition ExtractInstanceId ::
  "(rat \<Rightarrow> string) \<Rightarrow> 'r evaluator \<Rightarrow> ComponentInstanceSelector option \<Rightarrow> ('r, string \<times> bool) act" where
  "ExtractInstanceId num E selector =
     (case selector of
        None \<Rightarrow> return_act ([], False)
      | Some s \<Rightarrow>
          if cis_IdPath s = [] then return_act ([], False)
          else
            and_then (wrap_error ''failed to extract instance id from path %q: %w'' [AStr (cis_IdPath s)]
                       (evaluateStringField num E (cis_IdPath s))) (\<lambda>v. return_act (v, True)))"

definition ExtractReplicaKey ::
  "(rat \<Rightarrow> string) \<Rightarrow> 'r evaluator \<Rightarrow> ReplicaSelector option \<Rightarrow> ('r, string \<times> bool) act" where
  "ExtractReplicaKey num E selector =
     (case selector of
        None \<Rightarrow> return_act ([], False)
      | Some s \<Rightarrow>
          if rs_KeyPath s = [] then return_act ([], False)
          else
            and_then (wrap_error ''failed to extract replica key from path %q: %w'' [AStr (rs_KeyPath s)]
                       (evaluateStringField num E (rs_KeyPath s))) (\<lambda>v. return_act (v, True)))"

definition ExtractGroupKeys :: "(rat \<Rightarrow> string) \<Rightarrow> 'r evaluator \<Rightarrow> string list \<Rightarrow> ('r, string list) act" where
  "ExtractGroupKeys num E keyPaths =
     (if keyPaths = [] then return_act []
      else map_act (\<lambda>keyPath. wrap_error ''failed to extract group key from path %q: %w'' [AStr keyPath]
             (evaluateStringField num E keyPath)) keyPaths)"

fun filters_loop :: "'r evaluator \<Rightarrow> string list \<Rightarrow> ('r, bool) act" where
  "filters_loop E [] = return_act True"
| "filters_loop E (f # filters) =
     and_then (wrap_error ''failed to evaluate filter %q: %w'' [AStr f] (evaluateSingleResult E f)) (\<lambda>result.
       if result \<noteq> JBool True then return_act False else filters_loop E filters)"

definition PassesFilters :: "'r evaluator \<Rightarrow> string list \<Rightarrow> ('r, bool) act" where
  "PassesFilters E filters = (if filters = [] then return_act True else filters_loop E filters)"

definition GetMatchingInstanceId ::
  "(rat \<Rightarrow> string) \<Rightarrow> 'r evaluator \<Rightarrow> ComponentInstanceSelector option \<Rightarrow> string list \<Rightarrow> ('r, string) act" where
  "GetMatchingInstanceId num E selector instanceIds =
     (case selector of
        None \<Rightarrow>
          if instanceIds = [[]] then return_act []
          else fail_act (Errorf ''no instance selector provided but instance ids are not empty'' [])
      | Some s \<Rightarrow>
          and_then (ExtractInstanceId num E (Some s)) (\<lambda>(podInstanceId, _).
          if podInstanceId \<in> set instanceIds then return_act podInstanceId
          else fail_act (InstanceNotFoundError podInstanceId instanceIds)))"

section \<open>A serialized value reads back as itself\<close>

text \<open>
  The JSON string syntax, as a decoder: it stops at the first quote that is not escaped and gives the
  decoded bytes and what follows.
\<close>

definition hex_value :: "char \<Rightarrow> nat option" where
  "hex_value c = (let n = (of_char c :: nat) in
     if 48 \<le> n \<and> n \<le> 57 then Some (n - 48) else if 97 \<le> n \<and> n \<le> 102 then Some (n - 87) else None)"

fun hex4 :: "char \<Rightarrow> char \<Rightarrow> char \<Rightarrow> char \<Rightarrow> nat option" where
  "hex4 a b c d =
     (case (hex_value a, hex_value b, hex_value c, hex_value d) of
        (Some w, Some x, Some y, Some z) \<Rightarrow> Some (w * 4096 + x * 256 + y * 16 + z) | _ \<Rightarrow> None)"

text \<open>The UTF-8 bytes of a code point below 0x80 or from 0x800 up to 0xFFFF.\<close>

definition utf8 :: "nat \<Rightarrow> string" where
  "utf8 n = (if n < 0x80 then [char_of n]
     else [char_of (0xE0 + n div 4096), char_of (0x80 + n div 64 mod 64), char_of (0x80 + n mod 64)])"

definition simple_escape :: "char \<Rightarrow> char option" where
  "simple_escape c =
     (if c = CHR 0x22 \<or> c = CHR 0x5C then Some c
      else if c = CHR ''b'' then Some (CHR 0x08) else if c = CHR ''f'' then Some (CHR 0x0C)
      else if c = CHR ''n'' then Some (CHR 0x0A) else if c = CHR ''r'' then Some (CHR 0x0D)
      else if c = CHR ''t'' then Some (CHR 0x09) else None)"

definition emit :: "string \<Rightarrow> (string \<times> string) option \<Rightarrow> (string \<times> string) option" where
  "emit out rest = (case rest of None \<Rightarrow> None | Some (s, tail) \<Rightarrow> Some (out @ s, tail))"

fun unescape :: "string \<Rightarrow> (string \<times> string) option" where
  "unescape [] = None"
| "unescape (c # cs) =
     (if c = CHR 0x22 then Some ([], cs)
      else if c \<noteq> CHR 0x5C then emit [c] (unescape cs)
      else case cs of
        [] \<Rightarrow> None
      | e # ds \<Rightarrow>
          if e = CHR ''u''
          then (case ds of w # x # y # z # rest \<Rightarrow>
                  (case hex4 w x y z of None \<Rightarrow> None | Some n \<Rightarrow> emit (utf8 n) (unescape rest)) | _ \<Rightarrow> None)
          else (case simple_escape e of None \<Rightarrow> None | Some b \<Rightarrow> emit [b] (unescape ds)))"

declare unescape.simps [simp del]

lemma hex_value_digit: "n < 16 \<Longrightarrow> hex_value (hex_digit n) = Some n"
  by (auto simp: hex_value_def hex_digit_def Let_def)

lemma unescape_plain: "c \<noteq> CHR 0x22 \<Longrightarrow> c \<noteq> CHR 0x5C \<Longrightarrow> unescape (c # cs) = emit [c] (unescape cs)"
  by (simp add: unescape.simps(2))

lemma unescape_simple: "e \<noteq> CHR ''u'' \<Longrightarrow> simple_escape e = Some b \<Longrightarrow> unescape (CHR 0x5C # e # cs) = emit [b] (unescape cs)"
  by (simp add: unescape.simps(2))

lemma unescape_hex: "hex4 w x y z = Some n \<Longrightarrow> unescape (CHR 0x5C # CHR ''u'' # w # x # y # z # cs) = emit (utf8 n) (unescape cs)"
  by (simp add: unescape.simps(2))

lemma escape_byte_u:
  assumes "(of_char c :: nat) < 128"
  shows "unescape ([CHR 0x5C, CHR ''u'', CHR ''0'', CHR ''0'', hex_digit (of_char c div 16), hex_digit (of_char c mod 16)] @ rest)
     = emit [c] (unescape rest)"
proof -
  let ?n = "of_char c :: nat"
  have zero: "hex_value (CHR ''0'') = Some 0" by (simp add: hex_value_def)
  have "hex4 (CHR ''0'') (CHR ''0'') (hex_digit (?n div 16)) (hex_digit (?n mod 16)) = Some ?n"
    using assms by (simp add: zero hex_value_digit)
  then have "unescape ([CHR 0x5C, CHR ''u'', CHR ''0'', CHR ''0'', hex_digit (?n div 16), hex_digit (?n mod 16)] @ rest)
      = emit (utf8 ?n) (unescape rest)"
    by (simp add: unescape_hex del: hex4.simps)
  with assms show ?thesis by (simp add: utf8_def)
qed

lemma escape_byte_back: "unescape (escape_byte c @ rest) = emit [c] (unescape rest)"
proof (cases "c \<in> {CHR 0x22, CHR 0x5C, CHR 0x08, CHR 0x0C, CHR 0x0A, CHR 0x0D, CHR 0x09}")
  case True
  then show ?thesis
    by (elim insertE emptyE) (simp_all add: escape_byte_def Let_def unescape_simple simple_escape_def)
next
  case False
  show ?thesis
  proof (cases "(of_char c :: nat) < 32 \<or> c = CHR 0x3C \<or> c = CHR 0x3E \<or> c = CHR 0x26")
    case True
    then have "(of_char c :: nat) < 128" by auto
    with True False escape_byte_u [of c rest] show ?thesis by (simp add: escape_byte_def Let_def)
  next
    case plain: False
    with False show ?thesis by (simp add: escape_byte_def Let_def unescape_plain)
  qed
qed

lemma escape_code_point:
  "unescape (CHR 0x5C # ''u2028'' @ rest) = emit [CHR 0xE2, CHR 0x80, CHR 0xA8] (unescape rest)"
  "unescape (CHR 0x5C # ''u2029'' @ rest) = emit [CHR 0xE2, CHR 0x80, CHR 0xA9] (unescape rest)"
  "unescape (CHR 0x5C # ''ufffd'' @ rest) = emit [CHR 0xEF, CHR 0xBF, CHR 0xBD] (unescape rest)"
proof -
  have "hex4 (CHR ''2'') (CHR ''0'') (CHR ''2'') (CHR ''8'') = Some 0x2028"
    "hex4 (CHR ''2'') (CHR ''0'') (CHR ''2'') (CHR ''9'') = Some 0x2029"
    "hex4 (CHR ''f'') (CHR ''f'') (CHR ''f'') (CHR ''d'') = Some 0xFFFD"
    by (simp_all add: hex_value_def)
  moreover have "utf8 0x2028 = [CHR 0xE2, CHR 0x80, CHR 0xA8]" "utf8 0x2029 = [CHR 0xE2, CHR 0x80, CHR 0xA9]"
    "utf8 0xFFFD = [CHR 0xEF, CHR 0xBF, CHR 0xBD]"
    by (simp_all add: utf8_def char_of_def bit_0)
  ultimately show "unescape (CHR 0x5C # ''u2028'' @ rest) = emit [CHR 0xE2, CHR 0x80, CHR 0xA8] (unescape rest)"
    "unescape (CHR 0x5C # ''u2029'' @ rest) = emit [CHR 0xE2, CHR 0x80, CHR 0xA9] (unescape rest)"
    "unescape (CHR 0x5C # ''ufffd'' @ rest) = emit [CHR 0xEF, CHR 0xBF, CHR 0xBD] (unescape rest)"
    by (simp_all add: unescape_hex del: hex4.simps)
qed

text \<open>What a reader of the literal gets: the string with every invalid byte replaced by U+FFFD.\<close>

fun to_valid :: "string \<Rightarrow> string" where
  "to_valid [] = []"
| "to_valid (c # cs) =
     (if (of_char c :: nat) < 128 then c # to_valid cs
      else case rune_len (c # cs) of
        0 \<Rightarrow> [CHR 0xEF, CHR 0xBF, CHR 0xBD] @ to_valid cs
      | Suc m \<Rightarrow> c # take m cs @ to_valid (drop m cs))"

fun valid_utf8 :: "string \<Rightarrow> bool" where
  "valid_utf8 [] = True"
| "valid_utf8 (c # cs) =
     (if (of_char c :: nat) < 128 then valid_utf8 cs
      else case rune_len (c # cs) of 0 \<Rightarrow> False | Suc m \<Rightarrow> valid_utf8 (drop m cs))"

lemma to_valid_id: "valid_utf8 s \<Longrightarrow> to_valid s = s"
  by (induction s rule: valid_utf8.induct) (auto split: if_splits nat.splits)

lemma second_range_high: "second_range c = (lo, hi) \<Longrightarrow> 128 \<le> lo"
  by (auto simp: second_range_def split: if_splits)

lemma rune_high:
  assumes "rune_len (c # cs) = Suc m" "x \<in> set (c # take m cs)"
  shows "128 \<le> (of_char x :: nat)"
proof -
  obtain lo hi where r: "second_range c = (lo, hi)" by (cases "second_range c")
  note lo = second_range_high [OF r]
  show ?thesis
    using assms lo r
    by (auto simp: rune_len_def byte_in_def Let_def take_Cons' split: list.splits if_splits)
qed

lemma unescape_high: "(\<And>x. x \<in> set bs \<Longrightarrow> 128 \<le> (of_char x :: nat)) \<Longrightarrow> unescape (bs @ rest) = emit bs (unescape rest)"
proof (induction bs)
  case Nil
  show ?case by (simp add: emit_def split: option.splits prod.splits)
next
  case (Cons b bs)
  have "b \<noteq> CHR 0x22" "b \<noteq> CHR 0x5C" using Cons.prems [of b] by auto
  then show ?case using Cons by (simp add: unescape_plain emit_def split: option.splits prod.splits)
qed

lemma escape_string_back: "unescape (escape_string s @ CHR 0x22 # tail) = Some (to_valid s, tail)"
proof (induction s rule: escape_string.induct)
  case 1
  then show ?case by (simp add: unescape.simps(2))
next
  case (2 c cs)
  show ?case
  proof (cases "(of_char c :: nat) < 128")
    case True
    with "2.IH"(1) show ?thesis by (simp add: escape_byte_back emit_def)
  next
    case high: False
    show ?thesis
    proof (cases "rune_len (c # cs)")
      case 0
      with "2.IH"(2) high show ?thesis
        using escape_code_point(3) [of "escape_string cs @ CHR 0x22 # tail"] by (simp add: emit_def)
    next
      case (Suc m)
      let ?rest = "escape_string (drop m cs) @ CHR 0x22 # tail"
      have IH: "unescape ?rest = Some (to_valid (drop m cs), tail)" using "2.IH"(3) [OF high Suc] .
      have "unescape ((c # take m cs) @ ?rest) = emit (c # take m cs) (unescape ?rest)"
        by (rule unescape_high [OF rune_high [OF Suc]])
      with high Suc IH escape_code_point(1,2) [of ?rest] show ?thesis
        by (auto simp: emit_def)
    qed
  qed
qed

section \<open>The contract of an Evaluator\<close>

locale evaluator_contract =
  fixes E :: "'r evaluator"
    and view :: "'r \<Rightarrow> 'v"
    and invar :: "'r \<Rightarrow> bool"
  assumes eval_reads: "reads clean invar view (E expression)"
begin

lemma wrap_reads: "reads clean invar view m \<Longrightarrow> reads clean invar view (wrap_error f as m)"
  by (rule reads_wrap_error) simp

lemma evaluateSingleResult_reads: "reads clean invar view (evaluateSingleResult E p)"
  unfolding evaluateSingleResult_def validateSingleQueryResult_def
  by (intro reads_and_then eval_reads) (auto intro: reads_return reads_fail)

lemma evaluateStringField_reads: "reads clean invar view (evaluateStringField num E p)"
  unfolding evaluateStringField_def by (intro reads_and_then evaluateSingleResult_reads reads_return)

lemma MatchesComponentType_reads: "reads clean invar view (MatchesComponentType E selector)"
  unfolding MatchesComponentType_def checkKeyExists_def checkKeyValue_def serialize_def
  by (intro reads_option reads_return reads_and_then eval_reads wrap_reads reads_lift) simp

lemma ExtractInstanceId_reads: "reads clean invar view (ExtractInstanceId num E selector)"
  unfolding ExtractInstanceId_def
  by (intro reads_option reads_if reads_return reads_and_then wrap_reads evaluateStringField_reads)

lemma ExtractReplicaKey_reads: "reads clean invar view (ExtractReplicaKey num E selector)"
  unfolding ExtractReplicaKey_def
  by (intro reads_option reads_if reads_return reads_and_then wrap_reads evaluateStringField_reads)

lemma ExtractGroupKeys_reads: "reads clean invar view (ExtractGroupKeys num E keyPaths)"
  unfolding ExtractGroupKeys_def by (intro reads_if reads_return reads_map_act wrap_reads evaluateStringField_reads)

lemma filters_loop_reads: "reads clean invar view (filters_loop E fs)"
  by (induction fs) (auto intro!: reads_return reads_and_then wrap_reads evaluateSingleResult_reads reads_if)

lemma PassesFilters_reads: "reads clean invar view (PassesFilters E fs)"
  unfolding PassesFilters_def by (intro reads_if reads_return filters_loop_reads)

lemma GetMatchingInstanceId_reads: "reads clean invar view (GetMatchingInstanceId num E selector ids)"
  unfolding GetMatchingInstanceId_def
  by (intro reads_option reads_if reads_return reads_and_then ExtractInstanceId_reads reads_fail)
     (auto intro!: reads_if reads_return reads_fail split: prod.splits)

lemma evaluateSingleResult_Ok:
  "evaluateSingleResult E p r = (Ok j, r') \<longleftrightarrow> E p r = (Ok [j], r') \<and> j \<noteq> JNull \<and> j \<noteq> JString []"
proof -
  have "validateSingleQueryResult js = None \<longleftrightarrow> (\<exists>j. js = [j] \<and> j \<noteq> JNull \<and> j \<noteq> JString [])" for js
    by (cases js) (auto simp: validateSingleQueryResult_def)
  then show ?thesis
    unfolding evaluateSingleResult_def and_then_Ok
    by (auto simp: return_act_apply fail_act_apply split: option.splits)
qed

text \<open>The filters are a conjunction: each is read on the same object and has to give exactly \<open>true\<close>.\<close>

lemma filters_loop_iff:
  assumes "invar r" "filters_loop E fs r = (Ok b, r')"
  shows "b \<longleftrightarrow> (\<forall>f \<in> set fs. fst (E f r) = Ok [JBool True])"
  using assms
proof (induction fs arbitrary: r)
  case Nil
  then show ?case by (simp add: return_act_apply)
next
  case (Cons f fs)
  from Cons.prems(2) obtain j r1 where j: "E f r = (Ok [j], r1)"
    and rest: "(if j \<noteq> JBool True then return_act False else filters_loop E fs) r1 = (Ok b, r')"
    by (auto simp: and_then_Ok wrap_error_Ok evaluateSingleResult_Ok)
  have r1: "invar r1" "view r1 = view r" using readsD [OF eval_reads Cons.prems(1), of f] j by simp_all
  have same: "fst (E g r1) = fst (E g r)" for g
    by (rule reads_same [OF eval_reads r1(1) Cons.prems(1) r1(2)])
  show ?case
    using j rest Cons.IH [OF r1(1)] by (auto simp: return_act_apply same split: if_splits)
qed

lemma PassesFilters_iff:
  assumes "invar r" "PassesFilters E fs r = (Ok b, r')"
  shows "b \<longleftrightarrow> (\<forall>f \<in> set fs. fst (E f r) = Ok [JBool True])"
  using assms(2) filters_loop_iff [OF assms(1)]
  by (auto simp: PassesFilters_def return_act_apply split: if_splits)

lemma GetMatchingInstanceId_in:
  "GetMatchingInstanceId num E selector ids r = (Ok i, r') \<Longrightarrow> i \<in> set ids"
  by (auto simp: GetMatchingInstanceId_def and_then_Ok return_act_apply fail_act_apply split: option.splits if_splits)

end

sublocale runner_contract < ev: evaluator_contract "Evaluate R" view invar
  by unfold_locales (rule evaluate_reads)

interpretation podq: evaluator_contract "runner_Evaluate L" "runner_view L" clean_runner for L
  by unfold_locales (rule evaluate_reads_runner)

end
