(* ===== verification/Structure_Summary.thy ===== *)
theory Structure_Summary
  imports Pod_Querier
begin

text \<open>
  \<^verbatim>\<open>karta/sdk/pkg/instructions/summary.go\<close>: the lookup maps of a Karta and, per component, the candidates for
  gang scheduling. The walk to the parents runs until the parent map has no entry; on a cyclic parent
  map it does not return, so it is a partial function whose value is then \<open>None\<close>. sort.Slice, which promises
  a sorted permutation and no stability, is the parameter \<open>sort_Slice\<close> with the contract \<open>slice_sorter\<close>.
\<close>

section \<open>summary.go\<close>

record effectiveComponentCandidate =
  ecc_effectiveComponent :: string
  ecc_podGroupName :: string
  ecc_member :: PodGroupMemberDefinition

record gangSchedulingSummary =
  gss_effectiveComponentCandidates :: "string \<rightharpoonup> effectiveComponentCandidate list"
  gss_podGroupsByName :: "string \<rightharpoonup> PodGroupDefinition"

record StructureSummary =
  ss_karta :: Karta
  ss_parentMap :: "string \<rightharpoonup> string"
  ss_childrenMap :: "string \<rightharpoonup> string list"
  ss_componentDefinitionsByName :: "string \<rightharpoonup> ComponentDefinition"
  ss_leafComponents :: "string list"
  ss_hasScaleDefinition :: bool
  ss_gangSchedulingSummary :: "gangSchedulingSummary option"

type_synonym sort_slice =
  "(effectiveComponentCandidate \<Rightarrow> effectiveComponentCandidate \<Rightarrow> bool)
     \<Rightarrow> effectiveComponentCandidate list \<Rightarrow> effectiveComponentCandidate list"

definition getAllComponents :: "Karta \<Rightarrow> ComponentDefinition list" where
  "getAllComponents k = root_of k # children_of k"

definition hasPodDefinition :: "ComponentDefinition \<Rightarrow> bool" where
  "hasPodDefinition component =
     (case cd_SpecDefinition component of None \<Rightarrow> False | Some spec \<Rightarrow> spec_has_pod spec)"

text \<open>One pass through the loop of build.\<close>

definition build_component :: "StructureSummary \<Rightarrow> ComponentDefinition \<Rightarrow> StructureSummary" where
  "build_component s component =
     (let s1 = s\<lparr>ss_componentDefinitionsByName := (ss_componentDefinitionsByName s)(cd_Name component \<mapsto> component)\<rparr>;
          s2 = (if hasPodDefinition component
                then s1\<lparr>ss_leafComponents := ss_leafComponents s1 @ [cd_Name component]\<rparr> else s1);
          s3 = (if cd_ScaleDefinition component \<noteq> None then s2\<lparr>ss_hasScaleDefinition := True\<rparr> else s2)
      in case cd_OwnerRef component of
           None \<Rightarrow> s3
         | Some parentName \<Rightarrow>
             s3\<lparr>ss_parentMap := (ss_parentMap s3)(cd_Name component \<mapsto> parentName),
                ss_childrenMap := append_slice (ss_childrenMap s3) parentName (cd_Name component)\<rparr>)"

text \<open>The two inner loops of findEffectiveComponentCandidates.\<close>

definition mentions :: "PodGroupDefinition list \<Rightarrow> string \<Rightarrow> effectiveComponentCandidate list" where
  "mentions podGroups current =
     concat (map (\<lambda>group.
       map (\<lambda>member. \<lparr>ecc_effectiveComponent = current, ecc_podGroupName = pg_Name group, ecc_member = member\<rparr>)
         (filter (\<lambda>member. mem_ComponentName member = current) (pg_Members group))) podGroups)"

text \<open>A lookup in the parent map: the empty string for a missing key.\<close>

definition parent_of :: "(string \<rightharpoonup> string) \<Rightarrow> string \<Rightarrow> string" where
  "parent_of parentMap n = (case parentMap n of None \<Rightarrow> [] | Some p \<Rightarrow> p)"

partial_function (option) findEffectiveComponentCandidates_loop ::
  "PodGroupDefinition list \<Rightarrow> (string \<rightharpoonup> string) \<Rightarrow> string \<Rightarrow> effectiveComponentCandidate list
     \<Rightarrow> effectiveComponentCandidate list option" where
  "findEffectiveComponentCandidates_loop podGroups parentMap current candidates =
     (if current = [] then Some candidates
      else findEffectiveComponentCandidates_loop podGroups parentMap (parent_of parentMap current)
             (candidates @ mentions podGroups current))"

declare findEffectiveComponentCandidates_loop.simps [code]

definition findEffectiveComponentCandidates ::
  "PodGroupDefinition list \<Rightarrow> (string \<rightharpoonup> string) \<Rightarrow> string \<Rightarrow> effectiveComponentCandidate list option" where
  "findEffectiveComponentCandidates podGroups parentMap componentName =
     findEffectiveComponentCandidates_loop podGroups parentMap componentName []"

text \<open>The less function passed to sort.Slice.\<close>

definition direct_first :: "string \<Rightarrow> effectiveComponentCandidate \<Rightarrow> effectiveComponentCandidate \<Rightarrow> bool" where
  "direct_first originalComponent a b =
     (let iIsDirect = (ecc_effectiveComponent a = originalComponent);
          jIsDirect = (ecc_effectiveComponent b = originalComponent)
      in if iIsDirect \<noteq> jIsDirect then iIsDirect else False)"

definition sortEffectiveComponentCandidatesByPriority ::
  "sort_slice \<Rightarrow> effectiveComponentCandidate list \<Rightarrow> string \<Rightarrow> effectiveComponentCandidate list" where
  "sortEffectiveComponentCandidatesByPriority sort_Slice candidates originalComponent =
     sort_Slice (direct_first originalComponent) candidates"

fun buildEffectiveComponentCandidates ::
  "sort_slice \<Rightarrow> PodGroupDefinition list \<Rightarrow> (string \<rightharpoonup> string) \<Rightarrow> ComponentDefinition list
     \<Rightarrow> (string \<rightharpoonup> effectiveComponentCandidate list) \<Rightarrow> (string \<rightharpoonup> effectiveComponentCandidate list) res" where
  "buildEffectiveComponentCandidates sort_Slice podGroups parentMap [] m = Ok m"
| "buildEffectiveComponentCandidates sort_Slice podGroups parentMap (component # components) m =
     (case findEffectiveComponentCandidates podGroups parentMap (cd_Name component) of
        None \<Rightarrow> NoReturn
      | Some candidates \<Rightarrow>
          buildEffectiveComponentCandidates sort_Slice podGroups parentMap components
            (if length candidates > 0
             then m(cd_Name component \<mapsto>
                    sortEffectiveComponentCandidatesByPriority sort_Slice candidates (cd_Name component))
             else m))"

definition build :: "sort_slice \<Rightarrow> StructureSummary \<Rightarrow> StructureSummary res" where
  "build sort_Slice s =
     (let s1 = foldl build_component s (getAllComponents (ss_karta s))
      in case gang_of (ss_karta s) of
           None \<Rightarrow> Ok s1
         | Some g \<Rightarrow>
             (case buildEffectiveComponentCandidates sort_Slice (gs_PodGroups g) (ss_parentMap s1)
                     (getAllComponents (ss_karta s)) Map.empty of
                Ok m \<Rightarrow> Ok (s1\<lparr>ss_gangSchedulingSummary := Some
                  \<lparr>gss_effectiveComponentCandidates = m,
                   gss_podGroupsByName = go_map (map (\<lambda>group. (pg_Name group, group)) (gs_PodGroups g))\<rparr>\<rparr>)
              | Err e \<Rightarrow> Err (Wrapf ''failed to build effective component candidates: %w'' [] e)
              | Panic p \<Rightarrow> Panic p | NoReturn \<Rightarrow> NoReturn))"

definition NewStructureSummary :: "sort_slice \<Rightarrow> Karta option \<Rightarrow> StructureSummary res" where
  "NewStructureSummary sort_Slice karta =
     (case karta of
        None \<Rightarrow> Err (Errorf ''karta cannot be nil'' [])
      | Some k \<Rightarrow>
          (case build sort_Slice \<lparr>ss_karta = k, ss_parentMap = Map.empty, ss_childrenMap = Map.empty,
                  ss_componentDefinitionsByName = Map.empty, ss_leafComponents = [],
                  ss_hasScaleDefinition = False, ss_gangSchedulingSummary = None\<rparr> of
             Ok s \<Rightarrow> Ok s
           | Err e \<Rightarrow> Err (Wrapf ''failed to build structure summary: %w'' [] e)
           | Panic p \<Rightarrow> Panic p | NoReturn \<Rightarrow> NoReturn))"

section \<open>sort.Slice\<close>

text \<open>The documented contract, for a less function that compares by a rank.\<close>

locale slice_sorter =
  fixes sort_Slice :: sort_slice
  assumes sort_permutes: "mset (sort_Slice lt xs) = mset xs"
    and sort_sorts: "(\<And>a b. lt a b \<longleftrightarrow> rank a < (rank b :: nat)) \<Longrightarrow> sorted (map rank (sort_Slice lt xs))"

text \<open>What the library runs on short slices: each element moves left past the larger ones.\<close>

fun insert_left :: "('a \<Rightarrow> 'a \<Rightarrow> bool) \<Rightarrow> 'a \<Rightarrow> 'a list \<Rightarrow> 'a list" where
  "insert_left lt x [] = [x]"
| "insert_left lt x (y # ys) = (if lt x y then x # y # ys else y # insert_left lt x ys)"

definition insertion_sort :: "('a \<Rightarrow> 'a \<Rightarrow> bool) \<Rightarrow> 'a list \<Rightarrow> 'a list" where
  "insertion_sort lt xs = foldl (\<lambda>ys x. insert_left lt x ys) [] xs"

lemma mset_insert_left: "mset (insert_left lt x xs) = add_mset x (mset xs)"
  by (induction xs) auto

lemma insert_left_sorted:
  assumes "\<And>a b. lt a b \<longleftrightarrow> rank a < (rank b :: nat)" "sorted (map rank xs)"
  shows "sorted (map rank (insert_left lt x xs))"
proof -
  have "set (insert_left lt x ys) = insert x (set ys)" for ys
    using arg_cong [OF mset_insert_left [of lt x ys], of set_mset] by simp
  with assms(2) show ?thesis by (induction xs) (auto simp: assms(1))
qed

lemma foldl_insertion:
  "mset (foldl (\<lambda>ys x. insert_left lt x ys) ys xs) = mset ys + mset xs"
  "(\<And>a b. lt a b \<longleftrightarrow> rank a < (rank b :: nat)) \<Longrightarrow> sorted (map rank ys)
     \<Longrightarrow> sorted (map rank (foldl (\<lambda>ys x. insert_left lt x ys) ys xs))"
  by (induction xs arbitrary: ys) (simp_all add: mset_insert_left insert_left_sorted)

interpretation isort: slice_sorter insertion_sort
proof (unfold_locales, goal_cases)
  case (1 lt xs)
  show ?case unfolding insertion_sort_def by (simp add: foldl_insertion(1))
next
  case (2 lt rank xs)
  then show ?case unfolding insertion_sort_def by (intro foldl_insertion(2)) simp_all
qed

section \<open>The lookup maps\<close>

lemma get_slice_empty: "get_slice Map.empty p = []"
  by (simp add: get_slice_def)

lemma build_component_fields:
  "ss_karta (build_component s d) = ss_karta s"
  "ss_componentDefinitionsByName (build_component s d) = (ss_componentDefinitionsByName s)(cd_Name d \<mapsto> d)"
  "ss_leafComponents (build_component s d) = ss_leafComponents s @ (if hasPodDefinition d then [cd_Name d] else [])"
  "ss_hasScaleDefinition (build_component s d) \<longleftrightarrow> ss_hasScaleDefinition s \<or> cd_ScaleDefinition d \<noteq> None"
  "ss_gangSchedulingSummary (build_component s d) = ss_gangSchedulingSummary s"
  "ss_parentMap (build_component s d) = (case cd_OwnerRef d of None \<Rightarrow> ss_parentMap s | Some p \<Rightarrow> (ss_parentMap s)(cd_Name d \<mapsto> p))"
  "get_slice (ss_childrenMap (build_component s d)) p
     = get_slice (ss_childrenMap s) p @ (if cd_OwnerRef d = Some p then [cd_Name d] else [])"
  by (auto simp: build_component_def Let_def get_slice_append split: option.splits)

lemma foldl_build_fields:
  "ss_karta (foldl build_component s ds) = ss_karta s"
  "ss_leafComponents (foldl build_component s ds) = ss_leafComponents s @ map cd_Name (filter hasPodDefinition ds)"
  "ss_hasScaleDefinition (foldl build_component s ds) \<longleftrightarrow>
     ss_hasScaleDefinition s \<or> (\<exists>d \<in> set ds. cd_ScaleDefinition d \<noteq> None)"
  "ss_gangSchedulingSummary (foldl build_component s ds) = ss_gangSchedulingSummary s"
  "get_slice (ss_childrenMap (foldl build_component s ds)) p
     = get_slice (ss_childrenMap s) p @ map cd_Name (owned_by p ds)"
  by (induction ds arbitrary: s) (auto simp: build_component_fields owned_by_def)

lemma foldl_build_defs:
  "ss_componentDefinitionsByName (foldl build_component s ds)
     = ss_componentDefinitionsByName s ++ go_map (map (\<lambda>d. (cd_Name d, d)) ds)"
proof (induction ds rule: rev_induct)
  case (snoc d ds)
  then show ?case
    by (auto simp: build_component_fields go_map_def fun_eq_iff map_add_def split: option.splits)
qed (simp add: go_map_def)

lemma foldl_build_parent_other:
  "n \<notin> cd_Name ` set ds \<Longrightarrow> ss_parentMap (foldl build_component s ds) n = ss_parentMap s n"
  by (induction ds arbitrary: s) (auto simp: build_component_fields split: option.splits)

lemma foldl_build_parent:
  assumes "distinct (map cd_Name ds)" "d \<in> set ds" "ss_parentMap s (cd_Name d) = None"
  shows "ss_parentMap (foldl build_component s ds) (cd_Name d) = cd_OwnerRef d"
  using assms
proof (induction ds arbitrary: s)
  case (Cons e ds)
  show ?case
  proof (cases "d = e")
    case True
    with Cons.prems show ?thesis
      by (simp add: foldl_build_parent_other build_component_fields split: option.splits)
  next
    case False
    with Cons.prems have "d \<in> set ds" by simp
    then have "cd_Name d \<in> cd_Name ` set ds" by (rule imageI)
    with Cons.prems(1) have "cd_Name d \<noteq> cd_Name e" by auto
    with Cons \<open>d \<in> set ds\<close> show ?thesis by (simp add: build_component_fields split: option.splits)
  qed
qed simp

section \<open>The walk to the parents\<close>

text \<open>The components from \<open>n\<close> up to its \<open>d\<close>-th ancestor.\<close>

fun lineage :: "(string \<rightharpoonup> string) \<Rightarrow> nat \<Rightarrow> string \<Rightarrow> string list" where
  "lineage parentMap 0 n = [n]"
| "lineage parentMap (Suc d) n = n # lineage parentMap d (parent_of parentMap n)"

lemma find_loop_steps:
  assumes "(parent_of pm ^^ d) n = []" "\<forall>j < d. (parent_of pm ^^ j) n \<noteq> []"
  shows "findEffectiveComponentCandidates_loop g pm n acc
    = Some (acc @ concat (map (mentions g) (map (\<lambda>j. (parent_of pm ^^ j) n) [0..<d])))"
  using assms
proof (induction d arbitrary: n acc)
  case 0
  then show ?case by (subst findEffectiveComponentCandidates_loop.simps) simp
next
  case (Suc d)
  have shift: "(parent_of pm ^^ j) (parent_of pm n) = (parent_of pm ^^ Suc j) n" for j
    by (simp add: funpow_swap1)
  have "n \<noteq> []" using Suc.prems(2) by (metis funpow_0 zero_less_Suc)
  then have "findEffectiveComponentCandidates_loop g pm n acc
      = findEffectiveComponentCandidates_loop g pm (parent_of pm n) (acc @ mentions g n)"
    by (subst findEffectiveComponentCandidates_loop.simps) simp
  also have "\<dots> = Some ((acc @ mentions g n)
      @ concat (map (mentions g) (map (\<lambda>j. (parent_of pm ^^ j) (parent_of pm n)) [0..<d])))"
    using Suc.prems by (intro Suc.IH) (auto simp: shift simp del: funpow.simps)
  also have "map (\<lambda>j. (parent_of pm ^^ j) (parent_of pm n)) [0..<d] = map (\<lambda>j. (parent_of pm ^^ j) n) [1..<Suc d]"
    unfolding shift by (simp add: map_Suc_upt [symmetric] del: funpow.simps upt_Suc)
  finally show ?case by (simp add: upt_conv_Cons del: funpow.simps upt_Suc)
qed

lemma find_loop_ends:
  "findEffectiveComponentCandidates_loop g pm n acc = Some res \<Longrightarrow> \<exists>d. (parent_of pm ^^ d) n = []"
proof (induction rule: findEffectiveComponentCandidates_loop.raw_induct [rotated, consumes 1, case_names step])
  case (step loop g pm n acc res)
  show ?case
  proof (cases "n = []")
    case True
    then show ?thesis by (intro exI [of _ 0]) simp
  next
    case False
    with step obtain d where "(parent_of pm ^^ d) (parent_of pm n) = []" by fastforce
    then show ?thesis by (intro exI [of _ "Suc d"]) (simp add: funpow_swap1)
  qed
qed

text \<open>The walk returns exactly when the empty name is reached.\<close>

lemma find_returns_iff:
  "(\<exists>cs. findEffectiveComponentCandidates g pm n = Some cs) \<longleftrightarrow> (\<exists>d. (parent_of pm ^^ d) n = [])"
proof
  assume "\<exists>cs. findEffectiveComponentCandidates g pm n = Some cs"
  then show "\<exists>d. (parent_of pm ^^ d) n = []"
    unfolding findEffectiveComponentCandidates_def using find_loop_ends by blast
next
  assume "\<exists>d. (parent_of pm ^^ d) n = []"
  then obtain d where "(parent_of pm ^^ d) n = []" "\<forall>j < d. (parent_of pm ^^ j) n \<noteq> []"
    using exists_least_iff [of "\<lambda>d. (parent_of pm ^^ d) n = []"] by blast
  then show "\<exists>cs. findEffectiveComponentCandidates g pm n = Some cs"
    unfolding findEffectiveComponentCandidates_def using find_loop_steps by blast
qed

section \<open>The summary of a well-formed Karta\<close>

definition empty_summary :: "Karta \<Rightarrow> StructureSummary" where
  "empty_summary k = \<lparr>ss_karta = k, ss_parentMap = Map.empty, ss_childrenMap = Map.empty,
     ss_componentDefinitionsByName = Map.empty, ss_leafComponents = [],
     ss_hasScaleDefinition = False, ss_gangSchedulingSummary = None\<rparr>"

text \<open>The summary after the loop of build, before the gang scheduling part.\<close>

definition basic_summary :: "Karta \<Rightarrow> StructureSummary" where
  "basic_summary k = foldl build_component (empty_summary k) (getAllComponents k)"

abbreviation parents :: "Karta \<Rightarrow> string \<rightharpoonup> string" where
  "parents k \<equiv> ss_parentMap (basic_summary k)"

lemma NewStructureSummary_eq:
  "NewStructureSummary sorter (Some k) =
     (case gang_of k of
        None \<Rightarrow> Ok (basic_summary k)
      | Some g \<Rightarrow>
          (case buildEffectiveComponentCandidates sorter (gs_PodGroups g) (parents k) (getAllComponents k) Map.empty of
             Ok m \<Rightarrow> Ok ((basic_summary k)\<lparr>ss_gangSchedulingSummary := Some
               \<lparr>gss_effectiveComponentCandidates = m,
                gss_podGroupsByName = go_map (map (\<lambda>group. (pg_Name group, group)) (gs_PodGroups g))\<rparr>\<rparr>)
           | Err e \<Rightarrow> Err (Wrapf ''failed to build structure summary: %w'' []
                (Wrapf ''failed to build effective component candidates: %w'' [] e))
           | Panic p \<Rightarrow> Panic p | NoReturn \<Rightarrow> NoReturn))"
  by (auto simp: NewStructureSummary_def build_def basic_summary_def empty_summary_def Let_def
      split: option.splits res.splits)

text \<open>The maps of any summary that was built are those of the loop.\<close>

lemma NewStructureSummary_basic:
  assumes "NewStructureSummary sorter (Some k) = Ok s"
  shows "ss_karta s = k" "ss_parentMap s = parents k" "ss_childrenMap s = ss_childrenMap (basic_summary k)"
    "ss_leafComponents s = map cd_Name (filter hasPodDefinition (getAllComponents k))"
    "ss_hasScaleDefinition s \<longleftrightarrow> (\<exists>d \<in> set (getAllComponents k). cd_ScaleDefinition d \<noteq> None)"
    "ss_componentDefinitionsByName s = go_map (map (\<lambda>d. (cd_Name d, d)) (getAllComponents k))"
    "get_slice (ss_childrenMap s) p = map cd_Name (owned_by p (getAllComponents k))"
proof -
  have base: "ss_karta (basic_summary k) = k"
    "ss_leafComponents (basic_summary k) = map cd_Name (filter hasPodDefinition (getAllComponents k))"
    "ss_hasScaleDefinition (basic_summary k) \<longleftrightarrow> (\<exists>d \<in> set (getAllComponents k). cd_ScaleDefinition d \<noteq> None)"
    "ss_componentDefinitionsByName (basic_summary k) = go_map (map (\<lambda>d. (cd_Name d, d)) (getAllComponents k))"
    "get_slice (ss_childrenMap (basic_summary k)) p = map cd_Name (owned_by p (getAllComponents k))"
    by (simp_all add: basic_summary_def foldl_build_fields foldl_build_defs empty_summary_def get_slice_empty)
  obtain g where "s = (basic_summary k)\<lparr>ss_gangSchedulingSummary := g\<rparr>"
  proof (cases "gang_of k")
    case None
    with assms have "s = basic_summary k" by (simp add: NewStructureSummary_eq)
    then show ?thesis using that [of "ss_gangSchedulingSummary (basic_summary k)"] by simp
  next
    case (Some g)
    with assms that show ?thesis by (auto simp: NewStructureSummary_eq split: res.splits)
  qed
  with base show "ss_karta s = k" "ss_parentMap s = parents k" "ss_childrenMap s = ss_childrenMap (basic_summary k)"
    "ss_leafComponents s = map cd_Name (filter hasPodDefinition (getAllComponents k))"
    "ss_hasScaleDefinition s \<longleftrightarrow> (\<exists>d \<in> set (getAllComponents k). cd_ScaleDefinition d \<noteq> None)"
    "ss_componentDefinitionsByName s = go_map (map (\<lambda>d. (cd_Name d, d)) (getAllComponents k))"
    "get_slice (ss_childrenMap s) p = map cd_Name (owned_by p (getAllComponents k))"
    by simp_all
qed

lemma set_getAllComponents: "set (getAllComponents k) = set (children_of k @ [root_of k])"
  by (simp add: getAllComponents_def)

lemma distinct_getAllComponents:
  "distinct (map cd_Name (getAllComponents k)) \<longleftrightarrow> distinct (component_names k)"
  by (auto simp: getAllComponents_def component_names_def)

lemma parents_owner:
  assumes "distinct (component_names k)" "map_of (named_components k) n = Some c"
  shows "parents k n = cd_OwnerRef c"
proof -
  from assms have "c \<in> set (getAllComponents k)" "cd_Name c = n"
    by (simp_all add: named_components_Some set_getAllComponents)
  with foldl_build_parent [of "getAllComponents k" c "empty_summary k"] assms(1) show ?thesis
    by (simp add: basic_summary_def distinct_getAllComponents empty_summary_def)
qed

lemma lineage_funpow: "map (\<lambda>j. (parent_of pm ^^ j) n) [0..<Suc d] = lineage pm d n"
proof (induction d arbitrary: n)
  case (Suc d)
  have "[0..<Suc (Suc d)] = 0 # map Suc [0..<Suc d]" by (simp add: map_Suc_upt upt_conv_Cons del: upt_Suc)
  then have "map (\<lambda>j. (parent_of pm ^^ j) n) [0..<Suc (Suc d)]
      = n # map (\<lambda>j. (parent_of pm ^^ j) (parent_of pm n)) [0..<Suc d]"
    by (simp add: comp_def funpow_swap1 del: upt_Suc)
  with Suc show ?case by (simp del: upt_Suc)
qed simp

text \<open>A component at depth \<open>d\<close> reaches the empty name after \<open>d + 1\<close> steps.\<close>

lemma walk_rooted:
  assumes "distinct (component_names k)" "owner_closed (named_components k)" "rooted_at (named_components k) d n"
  shows "(parent_of (parents k) ^^ Suc d) n = [] \<and> (\<forall>j \<le> d. (parent_of (parents k) ^^ j) n \<noteq> [])"
  using assms(3)
proof (induction d arbitrary: n)
  case 0
  then obtain c where c: "map_of (named_components k) n = Some c" "cd_OwnerRef c = None"
    by (auto split: option.splits)
  then have "n \<noteq> []" using assms(2) by (auto simp: owner_closed_def)
  with c parents_owner [OF assms(1) c(1)] show ?case by (simp add: parent_of_def)
next
  case (Suc d)
  then obtain c p where c: "map_of (named_components k) n = Some c" "cd_OwnerRef c = Some p"
    and p: "rooted_at (named_components k) d p"
    by (auto split: option.splits)
  have "n \<noteq> []" using c(1) assms(2) by (auto simp: owner_closed_def)
  moreover have "parent_of (parents k) n = p" using parents_owner [OF assms(1) c(1)] c(2) by (simp add: parent_of_def)
  then have shift: "(parent_of (parents k) ^^ Suc j) n = (parent_of (parents k) ^^ j) p" for j
    by (simp add: funpow_swap1)
  ultimately show ?case
    using Suc.IH [OF p] shift by (metis Suc_le_mono funpow_0 not0_implies_Suc)
qed

lemma find_rooted:
  assumes "distinct (component_names k)" "owner_closed (named_components k)" "rooted_at (named_components k) d n"
  shows "findEffectiveComponentCandidates g (parents k) n = Some (concat (map (mentions g) (lineage (parents k) d n)))"
  using walk_rooted [OF assms] find_loop_steps [of "Suc d" "parents k" n g "[]"]
  by (simp add: findEffectiveComponentCandidates_def lineage_funpow less_Suc_eq_le del: upt_Suc funpow.simps)

lemma lineage_rooted:
  assumes "distinct (component_names k)" "rooted_at (named_components k) d n" "m \<in> set (lineage (parents k) d n)"
  shows "\<exists>j \<le> d. rooted_at (named_components k) j m"
  using assms(2,3)
proof (induction d arbitrary: n)
  case (Suc d)
  then obtain c p where "map_of (named_components k) n = Some c" "cd_OwnerRef c = Some p"
    and p: "rooted_at (named_components k) d p"
    by (auto split: option.splits)
  then have "parent_of (parents k) n = p" using parents_owner [OF assms(1)] by (simp add: parent_of_def)
  with Suc p show ?case by (auto simp del: rooted_at.simps intro: le_SucI)
qed auto

lemma lineage_head_fresh:
  assumes "distinct (component_names k)" "rooted_at (named_components k) d n"
  shows "n \<notin> set (tl (lineage (parents k) d n))"
proof (cases d)
  case (Suc e)
  with assms(2) obtain c p where "map_of (named_components k) n = Some c" "cd_OwnerRef c = Some p"
    and p: "rooted_at (named_components k) e p"
    by (auto split: option.splits)
  then have "parent_of (parents k) n = p" using parents_owner [OF assms(1)] by (simp add: parent_of_def)
  with lineage_rooted [OF assms(1) p, of n] rooted_at_unique [OF assms(2)] Suc show ?thesis
    by (auto simp del: rooted_at.simps) fastforce
qed simp

section \<open>The candidates\<close>

lemma build_candidates_Ok:
  assumes "\<forall>c \<in> set cs. findEffectiveComponentCandidates g pm (cd_Name c) = Some (cand (cd_Name c))"
  shows "\<exists>m'. buildEffectiveComponentCandidates sorter g pm cs m = Ok m' \<and>
    (\<forall>n. m' n = (if n \<in> cd_Name ` set cs \<and> cand n \<noteq> []
       then Some (sortEffectiveComponentCandidatesByPriority sorter (cand n) n) else m n))"
  using assms
proof (induction cs arbitrary: m)
  case (Cons c cs)
  let ?m = "if length (cand (cd_Name c)) > 0
    then m(cd_Name c \<mapsto> sortEffectiveComponentCandidatesByPriority sorter (cand (cd_Name c)) (cd_Name c)) else m"
  have "buildEffectiveComponentCandidates sorter g pm (c # cs) m = buildEffectiveComponentCandidates sorter g pm cs ?m"
    using Cons.prems by simp
  moreover obtain m' where "buildEffectiveComponentCandidates sorter g pm cs ?m = Ok m'"
    and "\<forall>n. m' n = (if n \<in> cd_Name ` set cs \<and> cand n \<noteq> []
       then Some (sortEffectiveComponentCandidatesByPriority sorter (cand n) n) else ?m n)"
    using Cons.IH [of ?m] Cons.prems by auto
  ultimately show ?case by auto
qed simp

lemma build_candidates_NoReturn:
  assumes "c \<in> set cs" "findEffectiveComponentCandidates g pm (cd_Name c) = None"
  shows "buildEffectiveComponentCandidates sorter g pm cs m = NoReturn"
  using assms by (induction cs arbitrary: m) (auto split: option.splits)

lemma build_candidates_returns_iff:
  "buildEffectiveComponentCandidates sorter g pm cs m = NoReturn
     \<longleftrightarrow> (\<exists>c \<in> set cs. findEffectiveComponentCandidates g pm (cd_Name c) = None)"
proof
  assume nr: "buildEffectiveComponentCandidates sorter g pm cs m = NoReturn"
  show "\<exists>c \<in> set cs. findEffectiveComponentCandidates g pm (cd_Name c) = None"
  proof (rule ccontr)
    assume "\<not> (\<exists>c \<in> set cs. findEffectiveComponentCandidates g pm (cd_Name c) = None)"
    then have "\<forall>c \<in> set cs. findEffectiveComponentCandidates g pm (cd_Name c)
        = Some (the (findEffectiveComponentCandidates g pm (cd_Name c)))" by auto
    from build_candidates_Ok [OF this, of sorter m] nr show False by auto
  qed
qed (auto dest: build_candidates_NoReturn)

text \<open>Candidates of a component, nearest first, before they are sorted.\<close>

definition ranked_candidates :: "PodGroupDefinition list \<Rightarrow> Karta \<Rightarrow> string \<Rightarrow> effectiveComponentCandidate list" where
  "ranked_candidates g k n =
     (case findEffectiveComponentCandidates g (parents k) n of None \<Rightarrow> [] | Some cs \<Rightarrow> cs)"

lemma well_formed_closed: "well_formed parse k \<Longrightarrow> owner_closed (named_components k)"
  by (rule structure_ok_closed [OF well_formed_distinct]) (auto simp: well_formed_def structure_ok_def)

lemma well_formed_find:
  assumes "well_formed parse k" "c \<in> set (getAllComponents k)"
  shows "findEffectiveComponentCandidates g (parents k) (cd_Name c) = Some (ranked_candidates g k (cd_Name c))"
proof -
  have "cd_Name c \<in> set (component_names k)"
    using assms(2) by (auto simp: component_names_def getAllComponents_def)
  then obtain d where "rooted_at (named_components k) d (cd_Name c)"
    using well_formed_rooted [OF assms(1)] by blast
  from find_rooted [OF well_formed_distinct [OF assms(1)] well_formed_closed [OF assms(1)] this]
  show ?thesis by (simp add: ranked_candidates_def)
qed

lemma NewStructureSummary_total:
  assumes "well_formed parse k"
  shows "\<exists>s. NewStructureSummary sorter (Some k) = Ok s"
proof (cases "gang_of k")
  case (Some g)
  with build_candidates_Ok [of "getAllComponents k" "gs_PodGroups g" "parents k" "ranked_candidates (gs_PodGroups g) k"
      sorter Map.empty] well_formed_find [OF assms]
  show ?thesis by (auto simp: NewStructureSummary_eq)
qed (simp add: NewStructureSummary_eq)

text \<open>A list sorted by a rank of 0 and 1 has the elements of rank 0 in front.\<close>

lemma sorted_two_ranks:
  "sorted (map (\<lambda>a. if P a then 0 else 1 :: nat) xs) \<Longrightarrow> xs = filter P xs @ filter (\<lambda>a. \<not> P a) xs"
proof (induction xs)
  case (Cons x xs)
  show ?case
  proof (cases "P x")
    case False
    with Cons.prems have "filter P xs = []" by (auto simp: filter_empty_conv split: if_splits)
    with False Cons show ?thesis by simp
  qed (use Cons in simp)
qed simp

lemma direct_first_rank:
  "direct_first n a b \<longleftrightarrow>
     (if ecc_effectiveComponent a = n then 0 else 1 :: nat) < (if ecc_effectiveComponent b = n then 0 else 1)"
  by (auto simp: direct_first_def)

lemma mentions_component: "a \<in> set (mentions g n) \<Longrightarrow> ecc_effectiveComponent a = n"
  by (auto simp: mentions_def)

lemma filter_direct:
  assumes "n \<notin> set ns"
  shows "filter (\<lambda>a. ecc_effectiveComponent a = n) (concat (map (mentions g) (n # ns))) = mentions g n"
    and "filter (\<lambda>a. ecc_effectiveComponent a \<noteq> n) (concat (map (mentions g) (n # ns))) = concat (map (mentions g) ns)"
proof -
  have "filter (\<lambda>a. ecc_effectiveComponent a = n) (concat (map (mentions g) ns)) = []"
    using assms mentions_component by (fastforce simp: filter_empty_conv)
  moreover have "filter (\<lambda>a. ecc_effectiveComponent a \<noteq> n) (concat (map (mentions g) ns)) = concat (map (mentions g) ns)"
    using assms mentions_component by (fastforce simp: filter_id_conv)
  moreover have "filter (\<lambda>a. ecc_effectiveComponent a = n) (mentions g n) = mentions g n"
    "filter (\<lambda>a. ecc_effectiveComponent a \<noteq> n) (mentions g n) = []"
    using mentions_component by (fastforce simp: filter_id_conv filter_empty_conv)+
  ultimately show "filter (\<lambda>a. ecc_effectiveComponent a = n) (concat (map (mentions g) (n # ns))) = mentions g n"
    "filter (\<lambda>a. ecc_effectiveComponent a \<noteq> n) (concat (map (mentions g) (n # ns))) = concat (map (mentions g) ns)"
    by simp_all
qed

context slice_sorter
begin

lemma sort_empty: "sort_Slice lt [] = []"
  using sort_permutes [of lt "[]"] by simp

lemma candidates_of:
  assumes "well_formed parse k" "NewStructureSummary sort_Slice (Some k) = Ok s"
    and "ss_gangSchedulingSummary s = Some gs" "gang_of k = Some g" "c \<in> set (getAllComponents k)"
  shows "get_slice (gss_effectiveComponentCandidates gs) (cd_Name c)
    = sortEffectiveComponentCandidatesByPriority sort_Slice (ranked_candidates (gs_PodGroups g) k (cd_Name c)) (cd_Name c)"
proof -
  obtain m where m: "buildEffectiveComponentCandidates sort_Slice (gs_PodGroups g) (parents k) (getAllComponents k) Map.empty = Ok m"
    and look: "\<forall>n. m n = (if n \<in> cd_Name ` set (getAllComponents k) \<and> ranked_candidates (gs_PodGroups g) k n \<noteq> []
       then Some (sortEffectiveComponentCandidatesByPriority sort_Slice (ranked_candidates (gs_PodGroups g) k n) n) else None)"
    using build_candidates_Ok [of "getAllComponents k" "gs_PodGroups g" "parents k" "ranked_candidates (gs_PodGroups g) k"
        sort_Slice Map.empty] well_formed_find [OF assms(1)] by blast
  have "gss_effectiveComponentCandidates gs = m"
    using assms(2-4) m by (auto simp: NewStructureSummary_eq)
  with look assms(5) show ?thesis
    by (simp add: get_slice_def sortEffectiveComponentCandidatesByPriority_def sort_empty)
qed

lemma sorted_direct_first:
  "sortEffectiveComponentCandidatesByPriority sort_Slice cs n
     = filter (\<lambda>a. ecc_effectiveComponent a = n) (sortEffectiveComponentCandidatesByPriority sort_Slice cs n)
       @ filter (\<lambda>a. ecc_effectiveComponent a \<noteq> n) (sortEffectiveComponentCandidatesByPriority sort_Slice cs n)"
  by (rule sorted_two_ranks) (unfold sortEffectiveComponentCandidatesByPriority_def, rule sort_sorts, rule direct_first_rank)

lemma candidates_split:
  assumes "distinct (component_names k)" "owner_closed (named_components k)" "rooted_at (named_components k) d n"
  shows "\<exists>direct others. sortEffectiveComponentCandidatesByPriority sort_Slice (ranked_candidates g k n) n = direct @ others
    \<and> mset direct = mset (mentions g n)
    \<and> mset others = mset (concat (map (mentions g) (tl (lineage (parents k) d n))))"
proof -
  let ?cs = "ranked_candidates g k n"
  let ?sorted = "sortEffectiveComponentCandidatesByPriority sort_Slice ?cs n"
  have cs: "?cs = concat (map (mentions g) (n # tl (lineage (parents k) d n)))"
    using find_rooted [OF assms] by (cases d) (simp_all add: ranked_candidates_def)
  have perm: "mset ?sorted = mset ?cs"
    by (simp add: sortEffectiveComponentCandidatesByPriority_def sort_permutes)
  have "mset (filter (\<lambda>a. ecc_effectiveComponent a = n) ?sorted) = mset (mentions g n)"
    "mset (filter (\<lambda>a. ecc_effectiveComponent a \<noteq> n) ?sorted) = mset (concat (map (mentions g) (tl (lineage (parents k) d n))))"
    unfolding mset_filter perm unfolding mset_filter [symmetric] cs filter_direct [OF lineage_head_fresh [OF assms(1,3)]]
    by (rule refl)+
  with sorted_direct_first [of ?cs n] show ?thesis by blast
qed

end

text \<open>On short lists, where the library sorts by insertion, the order found is the order kept.\<close>

lemma insert_left_last:
  assumes "\<And>y. y \<in> set ys \<Longrightarrow> \<not> lt x y"
  shows "insert_left lt x ys = ys @ [x]"
  using assms by (induction ys) simp_all

lemma insertion_sort_sorted:
  assumes "\<And>a b. lt a b \<longleftrightarrow> rank a < (rank b :: nat)" "sorted (map rank xs)"
  shows "insertion_sort lt xs = xs"
proof -
  have "sorted (map rank (ys @ zs)) \<Longrightarrow> foldl (\<lambda>ys x. insert_left lt x ys) ys zs = ys @ zs" for ys zs
  proof (induction zs arbitrary: ys)
    case (Cons z zs)
    then have "insert_left lt z ys = ys @ [z]"
      by (intro insert_left_last) (auto simp: assms(1) sorted_append leD)
    with Cons show ?case by simp
  qed simp
  from this [of "[]" xs] assms(2) show ?thesis by (simp add: insertion_sort_def)
qed

lemma two_ranks_sorted:
  "xs = filter P xs @ filter (\<lambda>a. \<not> P a) xs \<Longrightarrow> sorted (map (\<lambda>a. if P a then 0 else 1 :: nat) xs)"
proof -
  have "sorted (map (\<lambda>a. if P a then 0 else 1 :: nat) (filter P xs))"
    "sorted (map (\<lambda>a. if P a then 0 else 1 :: nat) (filter (\<lambda>a. \<not> P a) xs))"
    by (induction xs) simp_all
  then have "sorted (map (\<lambda>a. if P a then 0 else 1 :: nat) (filter P xs @ filter (\<lambda>a. \<not> P a) xs))"
    by (auto simp: sorted_append)
  then show "xs = filter P xs @ filter (\<lambda>a. \<not> P a) xs \<Longrightarrow> ?thesis" by metis
qed

lemma insertion_sort_candidates:
  assumes "distinct (component_names k)" "owner_closed (named_components k)" "rooted_at (named_components k) d n"
  shows "sortEffectiveComponentCandidatesByPriority insertion_sort (ranked_candidates g k n) n
    = concat (map (mentions g) (lineage (parents k) d n))"
proof -
  let ?cs = "concat (map (mentions g) (n # tl (lineage (parents k) d n)))"
  have lin: "lineage (parents k) d n = n # tl (lineage (parents k) d n)" by (cases d) simp_all
  have cs: "ranked_candidates g k n = ?cs"
    using find_rooted [OF assms, of g] by (subst lin [symmetric]) (simp add: ranked_candidates_def)
  have "?cs = filter (\<lambda>a. ecc_effectiveComponent a = n) ?cs @ filter (\<lambda>a. ecc_effectiveComponent a \<noteq> n) ?cs"
    unfolding filter_direct [OF lineage_head_fresh [OF assms(1,3)]] by simp
  then have "insertion_sort (direct_first n) ?cs = ?cs"
    by (rule insertion_sort_sorted [OF direct_first_rank two_ranks_sorted])
  with cs lin show ?thesis unfolding sortEffectiveComponentCandidatesByPriority_def by metis
qed

end
