(* ===== verification/Gang_Scheduling.thy ===== *)
theory Gang_Scheduling
  imports Structure_Summary
begin

text \<open>
  \<^verbatim>\<open>karta/sdk/pkg/instructions/gang_scheduling.go\<close> and pod.go. Replica counts are 32-bit words that are compared as
  signed numbers and whose sums and products wrap. The recursion over the children takes fuel and
  gives \<open>NoReturn\<close> when it runs out, so that a recursion without end is visible; the number of components is
  enough fuel for a well-formed Karta. A query of a pod and a query of the workload use two runners: where
  a function needs both, its state is the pair.
\<close>

section \<open>gang\_scheduling.go: the effective component of a pod\<close>

record PodGroupingEffectiveComponent =
  pge_EffectiveComponent :: string
  pge_PodGroupName :: string
  pge_MemberDefinition :: PodGroupMemberDefinition

definition effective_of :: "effectiveComponentCandidate \<Rightarrow> PodGroupingEffectiveComponent" where
  "effective_of candidate =
     \<lparr>pge_EffectiveComponent = ecc_effectiveComponent candidate,
      pge_PodGroupName = ecc_podGroupName candidate,
      pge_MemberDefinition = ecc_member candidate\<rparr>"

fun try_candidates ::
  "'p evaluator \<Rightarrow> effectiveComponentCandidate list \<Rightarrow> ('p, PodGroupingEffectiveComponent option) act" where
  "try_candidates E [] = return_act None"
| "try_candidates E (candidate # candidates) =
     (if mem_Filters (ecc_member candidate) = [] then return_act (Some (effective_of candidate))
      else
        and_then (wrap_error ''failed to evaluate filters for component %s in group %s: %w''
                   [AStr (ecc_effectiveComponent candidate), AStr (ecc_podGroupName candidate)]
                   (PassesFilters E (mem_Filters (ecc_member candidate)))) (\<lambda>passed.
        if passed then return_act (Some (effective_of candidate)) else try_candidates E candidates))"

definition getEffectiveComponentForPod ::
  "'p evaluator \<Rightarrow> string \<Rightarrow> StructureSummary \<Rightarrow> ('p, PodGroupingEffectiveComponent option) act" where
  "getEffectiveComponentForPod E componentName summary =
     (case ss_gangSchedulingSummary summary of
        None \<Rightarrow> return_act None
      | Some gs \<Rightarrow>
          (case gss_effectiveComponentCandidates gs componentName of
             None \<Rightarrow> return_act None
           | Some candidates \<Rightarrow>
               if candidates = [] then return_act None else try_candidates E candidates))"

definition GetPodGroupingEffectiveComponent ::
  "'p evaluator \<Rightarrow> string \<Rightarrow> StructureSummary \<Rightarrow> ('p, PodGroupingEffectiveComponent option) act" where
  "GetPodGroupingEffectiveComponent E podComponentName summary =
     getEffectiveComponentForPod E podComponentName summary"

section \<open>gang\_scheduling.go: the scale of a subtree\<close>

record SubtreeRoot =
  sr_ComponentName :: string
  sr_InstanceId :: "string option"

definition getEffectiveMinReplicas :: "Scale \<Rightarrow> int32" where
  "getEffectiveMinReplicas scale =
     (case scale_MinReplicas scale of
        Some m \<Rightarrow>
          if 0 < sint m then m
          else (case scale_Replicas scale of Some n \<Rightarrow> if 0 < sint n then n else 0 | None \<Rightarrow> 0)
      | None \<Rightarrow> (case scale_Replicas scale of Some n \<Rightarrow> if 0 < sint n then n else 0 | None \<Rightarrow> 0))"

text \<open>\<open>for _, scale := range scales\<close>: no iteration over a nil map.\<close>

definition sum_scales :: "Scale by_instance option \<Rightarrow> int32" where
  "sum_scales scales =
     (case scales of
        None \<Rightarrow> 0
      | Some kvs \<Rightarrow> foldl (\<lambda>acc kv. acc + getEffectiveMinReplicas (snd kv)) 0 kvs)"

definition current_scale :: "string \<Rightarrow> SubtreeRoot \<Rightarrow> Scale by_instance option \<Rightarrow> int32 res" where
  "current_scale currentComponentName subtreeRoot scales =
     (case sr_InstanceId subtreeRoot of
        Some instanceId \<Rightarrow>
          if sr_ComponentName subtreeRoot = currentComponentName
          then (case lookup_instance scales instanceId of
                  Some instanceScale \<Rightarrow> Ok (getEffectiveMinReplicas instanceScale)
                | None \<Rightarrow> Err (Errorf ''instance id %s not found'' [AStr instanceId]))
          else Ok (sum_scales scales)
      | None \<Rightarrow> Ok (sum_scales scales))"

text \<open>A loop over children that adds up what the body returns.\<close>

fun sum_act :: "('x \<Rightarrow> ('r, int32) act) \<Rightarrow> 'x list \<Rightarrow> int32 \<Rightarrow> ('r, int32) act" where
  "sum_act f [] acc = return_act acc"
| "sum_act f (x # xs) acc = and_then (f x) (\<lambda>v. sum_act f xs (acc + v))"

primrec calculateSubtreeScaleByDefinition ::
  "nat \<Rightarrow> ('r, 'o) ComponentAccessor \<Rightarrow> string \<Rightarrow> SubtreeRoot \<Rightarrow> ComponentFactory \<Rightarrow> StructureSummary \<Rightarrow> ('r, int32) act" where
  "calculateSubtreeScaleByDefinition 0 A currentComponentName subtreeRoot factory summary = no_return_act"
| "calculateSubtreeScaleByDefinition (Suc fuel) A currentComponentName subtreeRoot factory summary =
     and_then (lift_res (GetComponent factory currentComponentName)) (\<lambda>component.
     and_then (on_error (GetScale A component) (\<lambda>e.
        if \<not> isDefinitionNotFoundError e then fail_act e else return_act None)) (\<lambda>scales.
     and_then (lift_res (current_scale currentComponentName subtreeRoot scales)) (\<lambda>currentComponentScale.
     (let children = get_slice (ss_childrenMap summary) currentComponentName
      in if children = [] then return_act currentComponentScale
         else
           and_then (sum_act (\<lambda>child. calculateSubtreeScaleByDefinition fuel A child subtreeRoot factory summary)
                      children 0) (\<lambda>childrenSum.
           return_act (if childrenSum = 0 then currentComponentScale
                       else if currentComponentScale = 0 then childrenSum
                       else currentComponentScale * childrenSum))))))"

primrec calculateSubtreeScaleByLeaves ::
  "nat \<Rightarrow> ('r, 'o) ComponentAccessor \<Rightarrow> string \<Rightarrow> SubtreeRoot \<Rightarrow> ComponentFactory \<Rightarrow> StructureSummary \<Rightarrow> ('r, int32) act" where
  "calculateSubtreeScaleByLeaves 0 A currentComponentName subtreeRoot factory summary = no_return_act"
| "calculateSubtreeScaleByLeaves (Suc fuel) A currentComponentName subtreeRoot factory summary =
     and_then (lift_res (GetComponent factory currentComponentName)) (\<lambda>component.
     if comp_name component \<in> set (ss_leafComponents summary)
     then
       if \<not> HasInstanceIdDefinition component then return_act 1
       else
         and_then (GetInstanceIds A component) (\<lambda>instanceIds.
         case sr_InstanceId subtreeRoot of
           Some instanceId \<Rightarrow>
             if currentComponentName = sr_ComponentName subtreeRoot
             then if instanceId \<in> set instanceIds then return_act 1
                  else fail_act (Errorf ''instance id %s not found'' [AStr instanceId])
             else return_act (word_of_nat (length instanceIds))
         | None \<Rightarrow> return_act (word_of_nat (length instanceIds)))
     else
       sum_act (\<lambda>child. calculateSubtreeScaleByLeaves fuel A child subtreeRoot factory summary)
         (get_slice (ss_childrenMap summary) currentComponentName) 0)"

definition CalculateSubtreeScale ::
  "nat \<Rightarrow> ('r, 'o) ComponentAccessor \<Rightarrow> string \<Rightarrow> string option \<Rightarrow> ComponentFactory \<Rightarrow> StructureSummary \<Rightarrow> ('r, int32) act" where
  "CalculateSubtreeScale fuel A componentName instanceId factory summary =
     (if instanceId = Some [] then fail_act (Errorf ''instance id is empty'' [])
      else
        let subtreeRoot = \<lparr>sr_ComponentName = componentName, sr_InstanceId = instanceId\<rparr>
        in if ss_hasScaleDefinition summary
           then calculateSubtreeScaleByDefinition fuel A componentName subtreeRoot factory summary
           else calculateSubtreeScaleByLeaves fuel A componentName subtreeRoot factory summary)"

section \<open>pod.go\<close>

fun infer_loop :: "'p evaluator \<Rightarrow> StructureSummary \<Rightarrow> string \<Rightarrow> string list \<Rightarrow> ('p, string) act" where
  "infer_loop E summary podName [] = fail_act (Errorf ''no component found for pod %s'' [AStr podName])"
| "infer_loop E summary podName (componentName # names) =
     (case ss_componentDefinitionsByName summary componentName of
        None \<Rightarrow> panic_act ''invalid memory address or nil pointer dereference''
      | Some leafDefinition \<Rightarrow>
          (case cd_PodSelector leafDefinition of
             None \<Rightarrow> infer_loop E summary podName names
           | Some selector \<Rightarrow>
               and_then (wrap_error ''failed to check if pod matches component %s: %w'' [AStr componentName]
                          (MatchesComponentType E (psel_ComponentTypeSelector selector))) (\<lambda>matches.
               if matches then return_act componentName else infer_loop E summary podName names)))"

definition InferPodComponent :: "'p evaluator \<Rightarrow> string \<Rightarrow> StructureSummary \<Rightarrow> ('p, string) act" where
  "InferPodComponent E podName summary =
     (case ss_leafComponents summary of
        [leaf] \<Rightarrow> return_act leaf
      | leafComponents \<Rightarrow> infer_loop E summary podName leafComponents)"

text \<open>An action on one of the two runners.\<close>

definition on_pod :: "('p, 'a) act \<Rightarrow> ('p \<times> 'r, 'a) act" where
  "on_pod m = (\<lambda>(p, r). case m p of (x, p') \<Rightarrow> (x, (p', r)))"

definition on_workload :: "('r, 'a) act \<Rightarrow> ('p \<times> 'r, 'a) act" where
  "on_workload m = (\<lambda>(p, r). case m r of (x, r') \<Rightarrow> (x, (p, r')))"

definition InferPodComponentInstance ::
  "(rat \<Rightarrow> string) \<Rightarrow> 'p evaluator \<Rightarrow> ('r, 'o) ComponentAccessor \<Rightarrow> string \<Rightarrow> ComponentFactory
     \<Rightarrow> ('p \<times> 'r, string option) act" where
  "InferPodComponentInstance num E A componentName factory =
     and_then (lift_res (GetComponent factory componentName)) (\<lambda>component.
     and_then (on_workload (GetInstanceIds A component)) (\<lambda>instanceIds.
     case (instanceIds, GetPodSelector component) of
       (firstId # _, Some selector) \<Rightarrow>
         if firstId \<noteq> []
         then and_then (on_pod (GetMatchingInstanceId num E (psel_ComponentInstanceSelector selector) instanceIds)) (\<lambda>name.
              return_act (if name \<noteq> [] then Some name else None))
         else return_act None
     | _ \<Rightarrow> return_act None))"

section \<open>The first candidate whose filters pass\<close>

definition passes :: "'p evaluator \<Rightarrow> 'p \<Rightarrow> effectiveComponentCandidate \<Rightarrow> bool" where
  "passes E p c = list_all (\<lambda>f. fst (E f p) = Ok [JBool True]) (mem_Filters (ecc_member c))"

text \<open>The leaf component \<open>n\<close> has a type selector that the pod matches.\<close>

definition leaf_matches :: "'p evaluator \<Rightarrow> StructureSummary \<Rightarrow> 'p \<Rightarrow> string \<Rightarrow> bool" where
  "leaf_matches E summary p n =
     (case ss_componentDefinitionsByName summary n of
        None \<Rightarrow> False
      | Some d \<Rightarrow>
          (case cd_PodSelector d of
             None \<Rightarrow> False
           | Some selector \<Rightarrow> fst (MatchesComponentType E (psel_ComponentTypeSelector selector) p) = Ok True))"

context evaluator_contract
begin

lemma try_candidates_reads: "reads clean invar view (try_candidates E cs)"
proof (induction cs)
  case (Cons c cs)
  then show ?case
    unfolding try_candidates.simps by (intro reads_if reads_return reads_and_then wrap_reads PassesFilters_reads)
qed (simp add: reads_return)

lemma getEffective_reads: "reads clean invar view (getEffectiveComponentForPod E n s)"
  unfolding getEffectiveComponentForPod_def by (intro reads_option reads_if reads_return try_candidates_reads)

lemma passes_same:
  assumes "invar p" "invar q" "view p = view q"
  shows "passes E p = passes E q"
proof -
  have "fst (E f p) = fst (E f q)" for f by (rule reads_same [OF eval_reads assms])
  then show ?thesis by (simp add: passes_def fun_eq_iff)
qed

lemma try_candidates_find:
  assumes "invar p" "try_candidates E cs p = (Ok x, p')"
  shows "x = map_option effective_of (find (passes E p) cs)"
  using assms
proof (induction cs arbitrary: p)
  case Nil
  then show ?case by (simp add: return_act_apply)
next
  case (Cons c cs)
  show ?case
  proof (cases "mem_Filters (ecc_member c) = []")
    case True
    with Cons.prems show ?thesis by (simp add: return_act_apply passes_def)
  next
    case False
    with Cons.prems(2) obtain b p1 where b: "PassesFilters E (mem_Filters (ecc_member c)) p = (Ok b, p1)"
      and rest: "(if b then return_act (Some (effective_of c)) else try_candidates E cs) p1 = (Ok x, p')"
      by (auto simp: and_then_Ok wrap_error_Ok)
    have p1: "invar p1" "view p1 = view p"
      using readsD [OF PassesFilters_reads Cons.prems(1), of "mem_Filters (ecc_member c)"] b by simp_all
    have "b \<longleftrightarrow> passes E p c"
      using PassesFilters_iff [OF Cons.prems(1) b] by (simp add: passes_def list_all_iff)
    with rest Cons.IH [OF p1(1)] passes_same [OF p1(1) Cons.prems(1) p1(2)] show ?thesis
      by (auto simp: return_act_apply split: if_splits)
  qed
qed

lemma infer_loop_find:
  assumes "invar p" "infer_loop E s podName ns p = (Ok n, p')"
  shows "find (leaf_matches E s p) ns = Some n"
  using assms
proof (induction ns arbitrary: p)
  case Nil
  then show ?case by (simp add: fail_act_apply)
next
  case (Cons m ns)
  from Cons.prems(2) obtain d where d: "ss_componentDefinitionsByName s m = Some d"
    by (auto simp: panic_act_apply split: option.splits)
  show ?case
  proof (cases "cd_PodSelector d")
    case None
    with Cons d show ?thesis by (simp add: leaf_matches_def)
  next
    case (Some sel)
    with Cons.prems(2) d obtain b p1 where b: "MatchesComponentType E (psel_ComponentTypeSelector sel) p = (Ok b, p1)"
      and rest: "(if b then return_act m else infer_loop E s podName ns) p1 = (Ok n, p')"
      by (auto simp: and_then_Ok wrap_error_Ok)
    have p1: "invar p1" "view p1 = view p"
      using readsD [OF MatchesComponentType_reads Cons.prems(1), of "psel_ComponentTypeSelector sel"] b by simp_all
    have "leaf_matches E s p1 = leaf_matches E s p"
      using reads_same [OF MatchesComponentType_reads p1(1) Cons.prems(1) p1(2)]
      by (auto simp: leaf_matches_def fun_eq_iff split: option.splits)
    with rest b d Some Cons.IH [OF p1(1)] show ?thesis
      by (auto simp: return_act_apply leaf_matches_def split: if_splits)
  qed
qed

lemma infer_loop_reads:
  "\<forall>n \<in> set ns. ss_componentDefinitionsByName s n \<noteq> None \<Longrightarrow> reads clean invar view (infer_loop E s podName ns)"
proof (induction ns)
  case (Cons n ns)
  then show ?case
    unfolding infer_loop.simps
    by (intro reads_option reads_and_then wrap_reads MatchesComponentType_reads reads_if reads_return) simp_all
qed (simp add: reads_fail)

end

section \<open>Sums of scales\<close>

lemma foldl_scales:
  "foldl (\<lambda>acc kv. acc + getEffectiveMinReplicas (snd kv)) a kvs = a + sum_list (map (\<lambda>kv. getEffectiveMinReplicas (snd kv)) kvs)"
  by (induction kvs arbitrary: a) (simp_all add: add.assoc)

text \<open>The order in which the map is visited does not matter.\<close>

lemma sum_scales_order: "mset kvs = mset kvs' \<Longrightarrow> sum_scales (Some kvs) = sum_scales (Some kvs')"
  by (simp add: sum_scales_def foldl_scales sum_mset_sum_list [symmetric] del: sum_mset_sum_list)

lemma getEffectiveMinReplicas_nonneg: "0 \<le> sint (getEffectiveMinReplicas scale)"
  by (auto simp: getEffectiveMinReplicas_def split: option.splits)

text \<open>The exact sum, over the integers.\<close>

definition exact_scale :: "Scale by_instance option \<Rightarrow> int" where
  "exact_scale scales =
     (case scales of None \<Rightarrow> 0 | Some kvs \<Rightarrow> sum_list (map (\<lambda>kv. sint (getEffectiveMinReplicas (snd kv))) kvs))"

lemma exact_scale_nonneg: "0 \<le> exact_scale scales"
  by (auto simp: exact_scale_def getEffectiveMinReplicas_nonneg intro!: sum_list_nonneg split: option.splits)

lemma sum_list_word_of_int: "sum_list (map (\<lambda>x. word_of_int (h x)) xs) = (word_of_int (sum_list (map h xs)) :: int32)"
  by (induction xs) simp_all

lemma sum_scales_exact: "sum_scales scales = word_of_int (exact_scale scales)"
  by (cases scales) (simp_all add: sum_scales_def exact_scale_def foldl_scales sum_list_word_of_int [symmetric])

text \<open>The scale of a subtree over the integers, where nothing wraps.\<close>

primrec exact_subtree :: "nat \<Rightarrow> (string \<Rightarrow> string list) \<Rightarrow> (string \<Rightarrow> int) \<Rightarrow> string \<Rightarrow> int" where
  "exact_subtree 0 kids own n = 0"
| "exact_subtree (Suc fuel) kids own n =
     (let childrenSum = sum_list (map (exact_subtree fuel kids own) (kids n))
      in if childrenSum = 0 then own n else if own n = 0 then childrenSum else own n * childrenSum)"

lemma exact_subtree_nonneg: "(\<And>m. 0 \<le> own m) \<Longrightarrow> 0 \<le> exact_subtree fuel kids own n"
proof (induction fuel arbitrary: n)
  case (Suc fuel)
  then have "0 \<le> sum_list (map (exact_subtree fuel kids own) (kids n))"
    by (intro sum_list_nonneg) auto
  with Suc.prems [of n] show ?case by (simp add: Let_def)
qed simp

lemma exact_subtree_children:
  assumes "\<And>m. 0 \<le> own m"
  shows "sum_list (map (exact_subtree fuel kids own) (kids n)) \<le> exact_subtree (Suc fuel) kids own n"
    and "own n \<le> exact_subtree (Suc fuel) kids own n"
proof -
  let ?c = "sum_list (map (exact_subtree fuel kids own) (kids n))"
  have c: "0 \<le> ?c" by (intro sum_list_nonneg) (auto simp: exact_subtree_nonneg assms)
  have "own n \<le> own n * ?c" if "?c \<noteq> 0"
    using that c assms [of n] by (simp add: mult_le_cancel_left1)
  moreover have "?c \<le> own n * ?c" if "own n \<noteq> 0"
    using that c assms [of n] by (simp add: mult_le_cancel_right1)
  ultimately show "?c \<le> exact_subtree (Suc fuel) kids own n" "own n \<le> exact_subtree (Suc fuel) kids own n"
    using c assms [of n] by (auto simp: Let_def)
qed

primrec leaf_count :: "nat \<Rightarrow> (string \<Rightarrow> string list) \<Rightarrow> string list \<Rightarrow> (string \<Rightarrow> nat) \<Rightarrow> string \<Rightarrow> nat" where
  "leaf_count 0 kids leaves instances n = 0"
| "leaf_count (Suc fuel) kids leaves instances n =
     (if n \<in> set leaves then instances n
      else sum_list (map (leaf_count fuel kids leaves instances) (kids n)))"

lemma sum_list_word_of_nat: "sum_list (map (\<lambda>x. word_of_nat (h x)) xs) = (word_of_nat (sum_list (map h xs)) :: int32)"
  by (induction xs) simp_all

lemma sint_word_of_int_small: "0 \<le> z \<Longrightarrow> z < 2 ^ 31 \<Longrightarrow> sint (word_of_int z :: int32) = z"
  by (simp add: sint_sbintrunc' signed_take_bit_int_eq_self)

lemma word_of_int_zero_iff: "0 \<le> z \<Longrightarrow> z < 2 ^ 31 \<Longrightarrow> (word_of_int z :: int32) = 0 \<longleftrightarrow> z = 0"
  using sint_word_of_int_small [of z] by auto

section \<open>The recursion over the children\<close>

text \<open>
  What a factory and a summary of the same Karta give the recursion: \<open>kids\<close> lists children that exist, one
  level deeper than their parent, and the depth is bounded.
\<close>

definition same_karta :: "Karta \<Rightarrow> ComponentFactory \<Rightarrow> StructureSummary \<Rightarrow> bool" where
  "same_karta k f s \<longleftrightarrow> NewComponentFactory (Some k) = Ok f \<and> ss_childrenMap s = ss_childrenMap (basic_summary k)
     \<and> ss_leafComponents s = map cd_Name (filter hasPodDefinition (getAllComponents k))"

lemma same_kartaI:
  "NewComponentFactory (Some k) = Ok f \<Longrightarrow> NewStructureSummary sorter (Some k) = Ok s \<Longrightarrow> same_karta k f s"
  by (simp add: same_karta_def NewStructureSummary_basic)

lemma kids_eq:
  "same_karta k f s \<Longrightarrow> get_slice (ss_childrenMap s) n = map cd_Name (owned_by n (getAllComponents k))"
  by (simp add: same_karta_def basic_summary_def foldl_build_fields empty_summary_def get_slice_empty)

lemma kid_rooted:
  assumes "same_karta k f s" "distinct (component_names k)" "rooted_at (named_components k) d n"
    and "m \<in> set (get_slice (ss_childrenMap s) n)"
  shows "rooted_at (named_components k) (Suc d) m"
proof -
  from assms(4) obtain c where c: "c \<in> set (owned_by n (getAllComponents k))" "m = cd_Name c"
    by (auto simp: kids_eq [OF assms(1)])
  then have "c \<in> set (owned_by n (children_of k @ [root_of k]))"
    by (auto simp: owned_by_def set_getAllComponents)
  with owned_rooted [OF assms(2,3)] c(2) show ?thesis by simp
qed

lemma rooted_component:
  assumes "same_karta k f s" "distinct (component_names k)" "rooted_at (named_components k) d n"
  shows "\<exists>c. GetComponent f n = Ok c"
proof -
  have f: "NewComponentFactory (Some k) = Ok f" using assms(1) by (simp add: same_karta_def)
  from rooted_at_dom [OF assms(3)] show ?thesis
    by (auto simp: GetComponent_def factory_lookup [OF f assms(2)])
qed

lemma current_scale_clean: "ok_res clean (current_scale n sroot scales)"
  by (simp add: current_scale_def split: option.splits)

lemma sum_act_reads:
  "(\<And>x. x \<in> set xs \<Longrightarrow> reads E invar view (f x)) \<Longrightarrow> reads E invar view (sum_act f xs acc)"
  by (induction xs arbitrary: acc) (simp_all add: reads_return reads_and_then)

lemma sum_act_value:
  assumes "\<And>x. x \<in> set xs \<Longrightarrow> reads E invar view (f x)"
    and "\<And>x q w q'. x \<in> set xs \<Longrightarrow> invar q \<Longrightarrow> view q = v \<Longrightarrow> f x q = (Ok w, q') \<Longrightarrow> w = val x"
    and "invar r" "view r = v" "sum_act f xs acc r = (Ok w, r')"
  shows "w = acc + sum_list (map val xs)"
  using assms
proof (induction xs arbitrary: acc r)
  case Nil
  then show ?case by (simp add: return_act_apply)
next
  case (Cons x xs)
  from Cons.prems(5) obtain u r1 where u: "f x r = (Ok u, r1)" and rest: "sum_act f xs (acc + u) r1 = (Ok w, r')"
    by (auto simp: and_then_Ok)
  have r1: "invar r1" "view r1 = v"
    using readsD [OF Cons.prems(1) [of x] Cons.prems(3)] u Cons.prems(4) by simp_all
  have "w = acc + u + sum_list (map val xs)"
    by (rule Cons.IH [OF _ _ r1 rest]) (use Cons.prems(1,2) in auto)
  moreover have "u = val x" using Cons.prems(2) [of x r u r1] Cons.prems(3,4) u by simp
  ultimately show ?case by (simp add: add.assoc)
qed

context accessor_contract
begin

text \<open>GetScale never reports a missing definition, so the handler of that case is not reached.\<close>

lemma scale_handler:
  assumes "invar r"
  shows "on_error (GetScale A c) (\<lambda>e. if \<not> isDefinitionNotFoundError e then fail_act e else return_act None) r = GetScale A c r"
proof -
  have "ok_res clean (fst (GetScale A c r))" by (rule readsD(3) [OF getters_read(5) assms])
  then show ?thesis
    by (cases "GetScale A c r"; cases rule: ok_res_cases) (auto simp: on_error_apply fail_act_apply)
qed

lemma scale_or_nil_reads:
  "reads clean invar view (on_error (GetScale A c) (\<lambda>e. if \<not> isDefinitionNotFoundError e then fail_act e else return_act None))"
  by (rule reads_on_error [OF getters_read(5)]) (simp add: reads_fail)

lemma byDefinition_reads:
  assumes "same_karta k f s" "distinct (component_names k)"
  shows "rooted_at (named_components k) d n \<Longrightarrow> length (children_of k) < fuel + d
    \<Longrightarrow> reads clean invar view (calculateSubtreeScaleByDefinition fuel A n sroot f s)"
proof (induction fuel arbitrary: n d)
  case 0
  then show ?case using depth_bound [OF "0.prems"(1)] by simp
next
  case (Suc fuel)
  obtain c where c: "GetComponent f n = Ok c" using rooted_component [OF assms Suc.prems(1)] by blast
  have kids: "reads clean invar view (calculateSubtreeScaleByDefinition fuel A m sroot f s)"
    if "m \<in> set (get_slice (ss_childrenMap s) n)" for m
    using kid_rooted [OF assms Suc.prems(1) that] by (rule Suc.IH) (use Suc.prems(2) in simp)
  show ?case
    unfolding calculateSubtreeScaleByDefinition.simps c Let_def
    by (intro reads_and_then reads_if reads_return sum_act_reads kids scale_or_nil_reads reads_lift current_scale_clean) simp_all
qed

lemma byLeaves_reads:
  assumes "same_karta k f s" "distinct (component_names k)"
  shows "rooted_at (named_components k) d n \<Longrightarrow> length (children_of k) < fuel + d
    \<Longrightarrow> reads clean invar view (calculateSubtreeScaleByLeaves fuel A n sroot f s)"
proof (induction fuel arbitrary: n d)
  case 0
  then show ?case using depth_bound [OF "0.prems"(1)] by simp
next
  case (Suc fuel)
  obtain c where c: "GetComponent f n = Ok c" using rooted_component [OF assms Suc.prems(1)] by blast
  have kids: "reads clean invar view (calculateSubtreeScaleByLeaves fuel A m sroot f s)"
    if "m \<in> set (get_slice (ss_childrenMap s) n)" for m
    using kid_rooted [OF assms Suc.prems(1) that] by (rule Suc.IH) (use Suc.prems(2) in simp)
  show ?case
    unfolding calculateSubtreeScaleByLeaves.simps c
    by (intro reads_and_then reads_if reads_return reads_option reads_fail sum_act_reads kids GetInstanceIds_reads reads_lift)
       simp_all
qed

lemma CalculateSubtreeScale_reads:
  assumes "same_karta k f s" "distinct (component_names k)" "rooted_at (named_components k) d n"
    and "length (children_of k) < fuel"
  shows "reads clean invar view (CalculateSubtreeScale fuel A n i f s)"
  unfolding CalculateSubtreeScale_def Let_def using assms(4)
  by (intro reads_if reads_fail byDefinition_reads [OF assms(1-3)] byLeaves_reads [OF assms(1-3)]) simp_all

lemma byDefinition_step:
  assumes "sr_InstanceId sroot = None" "invar r"
    and "calculateSubtreeScaleByDefinition (Suc fuel) A n sroot f s r = (Ok w, r')"
  shows "\<exists>c sc r1. GetComponent f n = Ok c \<and> GetScale A c r = (Ok sc, r1)
    \<and> (get_slice (ss_childrenMap s) n = [] \<longrightarrow> w = sum_scales sc)
    \<and> (get_slice (ss_childrenMap s) n \<noteq> [] \<longrightarrow>
      (\<exists>t r2. sum_act (\<lambda>m. calculateSubtreeScaleByDefinition fuel A m sroot f s) (get_slice (ss_childrenMap s) n) 0 r1 = (Ok t, r2)
        \<and> w = (if t = 0 then sum_scales sc else if sum_scales sc = 0 then t else sum_scales sc * t)))"
proof -
  from assms(3) obtain c sc r1 where c: "GetComponent f n = Ok c" and sc: "GetScale A c r = (Ok sc, r1)"
    and rest: "(if get_slice (ss_childrenMap s) n = [] then return_act (sum_scales sc)
      else and_then (sum_act (\<lambda>m. calculateSubtreeScaleByDefinition fuel A m sroot f s) (get_slice (ss_childrenMap s) n) 0) (\<lambda>t.
        return_act (if t = 0 then sum_scales sc else if sum_scales sc = 0 then t else sum_scales sc * t))) r1 = (Ok w, r')"
    using assms(1) by (auto simp: and_then_Ok lift_res_apply scale_handler [OF assms(2)] current_scale_def Let_def)
  have "\<exists>t r2. sum_act (\<lambda>m. calculateSubtreeScaleByDefinition fuel A m sroot f s) (get_slice (ss_childrenMap s) n) 0 r1 = (Ok t, r2)
      \<and> w = (if t = 0 then sum_scales sc else if sum_scales sc = 0 then t else sum_scales sc * t)"
    if "get_slice (ss_childrenMap s) n \<noteq> []"
    using rest that by (simp only: if_False and_then_Ok return_act_apply) blast
  moreover have "w = sum_scales sc" if "get_slice (ss_childrenMap s) n = []"
    using rest that by (simp add: return_act_apply)
  ultimately show ?thesis using c sc by blast
qed

text \<open>Below 2^31 the words are the exact integers.\<close>

lemma byDefinition_exact:
  assumes k: "same_karta k f s" "distinct (component_names k)" and sroot: "sr_InstanceId sroot = None"
    and own: "\<And>m c q sc q'. GetComponent f m = Ok c \<Longrightarrow> invar q \<Longrightarrow> view q = v \<Longrightarrow> GetScale A c q = (Ok sc, q') \<Longrightarrow> own m = exact_scale sc"
    and nonneg: "\<And>m. 0 \<le> own m"
  shows "rooted_at (named_components k) d n \<Longrightarrow> length (children_of k) < fuel + d \<Longrightarrow> invar r \<Longrightarrow> view r = v
    \<Longrightarrow> exact_subtree fuel (get_slice (ss_childrenMap s)) own n < 2 ^ 31
    \<Longrightarrow> calculateSubtreeScaleByDefinition fuel A n sroot f s r = (Ok w, r')
    \<Longrightarrow> w = word_of_int (exact_subtree fuel (get_slice (ss_childrenMap s)) own n)"
proof (induction fuel arbitrary: n d r w r')
  case 0
  then show ?case by (simp add: no_return_act_apply)
next
  case (Suc fuel)
  let ?kids = "get_slice (ss_childrenMap s)"
  let ?sum = "sum_list (map (exact_subtree fuel ?kids own) (?kids n))"
  obtain c sc r1 where c: "GetComponent f n = Ok c" and sc: "GetScale A c r = (Ok sc, r1)"
    and leaf: "?kids n = [] \<Longrightarrow> w = sum_scales sc"
    and inner: "?kids n \<noteq> [] \<Longrightarrow>
      \<exists>t r2. sum_act (\<lambda>m. calculateSubtreeScaleByDefinition fuel A m sroot f s) (?kids n) 0 r1 = (Ok t, r2)
        \<and> w = (if t = 0 then sum_scales sc else if sum_scales sc = 0 then t else sum_scales sc * t)"
    using byDefinition_step [OF sroot Suc.prems(3,6)] by blast
  have r1: "invar r1" "view r1 = v"
    using readsD [OF getters_read(5) Suc.prems(3), of c] sc Suc.prems(4) by simp_all
  have mine: "sum_scales sc = word_of_int (own n)"
    using own [OF c Suc.prems(3,4) sc] by (simp add: sum_scales_exact)
  have bounds: "0 \<le> ?sum" "?sum < 2 ^ 31" "own n < 2 ^ 31"
    using exact_subtree_children [where own = own and n = n and kids = ?kids and fuel = fuel, OF nonneg] Suc.prems(5)
    by (auto simp del: exact_subtree.simps intro!: sum_list_nonneg exact_subtree_nonneg nonneg)
  have kid: "w' = word_of_int (exact_subtree fuel ?kids own m)"
    if "m \<in> set (?kids n)" "invar q" "view q = v" "calculateSubtreeScaleByDefinition fuel A m sroot f s q = (Ok w', q')"
    for m q w' q'
  proof (rule Suc.IH [OF _ _ that(2,3) _ that(4)])
    show "rooted_at (named_components k) (Suc d) m" by (rule kid_rooted [OF k Suc.prems(1) that(1)])
    have "exact_subtree fuel ?kids own m \<le> ?sum"
      using that(1) by (intro member_le_sum_list) (auto intro: exact_subtree_nonneg nonneg)
    with bounds(2) show "exact_subtree fuel ?kids own m < 2 ^ 31" by simp
  qed (use Suc.prems(2) in simp)
  show ?case
  proof (cases "?kids n = []")
    case True
    with leaf mine show ?thesis by simp
  next
    case False
    with inner obtain t r2 where t: "sum_act (\<lambda>m. calculateSubtreeScaleByDefinition fuel A m sroot f s) (?kids n) 0 r1 = (Ok t, r2)"
      and w: "w = (if t = 0 then sum_scales sc else if sum_scales sc = 0 then t else sum_scales sc * t)"
      by blast
    have "t = 0 + sum_list (map (\<lambda>m. word_of_int (exact_subtree fuel ?kids own m)) (?kids n))"
    proof (rule sum_act_value [where v = v and r = r1 and r' = r2 and E = clean and invar = invar and view = view])
      show "invar r1" "view r1 = v" by (fact r1)+
      show "sum_act (\<lambda>m. calculateSubtreeScaleByDefinition fuel A m sroot f s) (?kids n) 0 r1 = (Ok t, r2)" by (fact t)
      show "w' = word_of_int (exact_subtree fuel ?kids own m)"
        if "m \<in> set (?kids n)" "invar q" "view q = v" "calculateSubtreeScaleByDefinition fuel A m sroot f s q = (Ok w', q')"
        for m q w' q'
        using that by (rule kid)
      fix m assume "m \<in> set (?kids n)"
      then show "reads clean invar view (calculateSubtreeScaleByDefinition fuel A m sroot f s)"
        using kid_rooted [OF k Suc.prems(1)] Suc.prems(2) by (intro byDefinition_reads [OF k, of "Suc d"]) simp_all
    qed
    also have "\<dots> = word_of_int ?sum" by (simp add: sum_list_word_of_int)
    finally have "t = word_of_int ?sum" .
    with w mine show ?thesis
      using word_of_int_zero_iff [OF bounds(1,2)] word_of_int_zero_iff [OF nonneg bounds(3)]
      by (simp add: Let_def)
  qed
qed

text \<open>Without scale definitions the result counts the instances of the leaf components below.\<close>

lemma byLeaves_count:
  assumes k: "same_karta k f s" "distinct (component_names k)" and sroot: "sr_InstanceId sroot = None"
    and inst: "\<And>m c q ids q'. GetComponent f m = Ok c \<Longrightarrow> invar q \<Longrightarrow> view q = v \<Longrightarrow> GetInstanceIds A c q = (Ok ids, q') \<Longrightarrow> inst m = length ids"
  shows "rooted_at (named_components k) d n \<Longrightarrow> length (children_of k) < fuel + d \<Longrightarrow> invar r \<Longrightarrow> view r = v
    \<Longrightarrow> calculateSubtreeScaleByLeaves fuel A n sroot f s r = (Ok w, r')
    \<Longrightarrow> w = word_of_nat (leaf_count fuel (get_slice (ss_childrenMap s)) (ss_leafComponents s) inst n)"
proof (induction fuel arbitrary: n d r w r')
  case 0
  then show ?case by (simp add: no_return_act_apply)
next
  case (Suc fuel)
  let ?kids = "get_slice (ss_childrenMap s)"
  from Suc.prems(5) obtain c where c: "GetComponent f n = Ok c"
    by (auto simp: and_then_Ok lift_res_apply)
  then have name: "comp_name c = n" by (auto simp: GetComponent_def split: option.splits)
  show ?case
  proof (cases "n \<in> set (ss_leafComponents s)")
    case True
    have ids: "\<exists>ids r1. GetInstanceIds A c r = (Ok ids, r1) \<and> w = word_of_nat (length ids)"
    proof (cases "HasInstanceIdDefinition c")
      case has: True
      then show ?thesis
        using Suc.prems(5) sroot True name by (simp add: and_then_Ok lift_res_apply c return_act_apply) blast
    next
      case False
      then have "GetInstanceIds A c r = (Ok [[]], r)"
        by (simp add: HasInstanceIdDefinition_def ids_default return_act_apply)
      with False Suc.prems(5) True name show ?thesis by (simp add: and_then_Ok lift_res_apply c return_act_apply)
    qed
    with inst [OF c Suc.prems(3,4)] True show ?thesis by auto
  next
    case False
    with Suc.prems(5) name have "sum_act (\<lambda>m. calculateSubtreeScaleByLeaves fuel A m sroot f s) (?kids n) 0 r = (Ok w, r')"
      by (simp add: and_then_Ok lift_res_apply c)
    then have "w = 0 + sum_list (map (\<lambda>m. word_of_nat (leaf_count fuel ?kids (ss_leafComponents s) inst m)) (?kids n))"
    proof (rule sum_act_value [where E = clean and invar = invar and view = view and v = v, rotated -1])
      show "w' = word_of_nat (leaf_count fuel ?kids (ss_leafComponents s) inst m)"
        if "m \<in> set (?kids n)" "invar q" "view q = v" "calculateSubtreeScaleByLeaves fuel A m sroot f s q = (Ok w', q')"
        for m q w' q'
        using kid_rooted [OF k Suc.prems(1) that(1)] _ that(2-4) by (rule Suc.IH) (use Suc.prems(2) in simp)
      fix m assume "m \<in> set (?kids n)"
      from kid_rooted [OF k Suc.prems(1) this] show "reads clean invar view (calculateSubtreeScaleByLeaves fuel A m sroot f s)"
        by (rule byLeaves_reads [OF k]) (use Suc.prems(2) in simp)
    qed (use Suc.prems(3,4) in simp_all)
    with False show ?thesis by (simp add: sum_list_word_of_nat)
  qed
qed

end

section \<open>The instance of a pod\<close>

lemma on_one_runner:
  "on_workload m (p, r) = (x, q) \<longleftrightarrow> (\<exists>r'. m r = (x, r') \<and> q = (p, r'))"
  "on_pod m' (p, r) = (x, q) \<longleftrightarrow> (\<exists>p'. m' p = (x, p') \<and> q = (p', r))"
  by (auto simp: on_workload_def on_pod_def split: prod.splits)

lemma InferPodComponentInstance_in:
  assumes "InferPodComponentInstance num E A n f (p, r) = (Ok (Some i), q)"
  shows "\<exists>c ids r'. GetComponent f n = Ok c \<and> GetInstanceIds A c r = (Ok ids, r') \<and> i \<in> set ids \<and> i \<noteq> []"
proof -
  from assms obtain c ids r' where c: "GetComponent f n = Ok c" and ids: "GetInstanceIds A c r = (Ok ids, r')"
    and rest: "(case (ids, GetPodSelector c) of
       (firstId # _, Some selector) \<Rightarrow>
         if firstId \<noteq> []
         then and_then (on_pod (GetMatchingInstanceId num E (psel_ComponentInstanceSelector selector) ids)) (\<lambda>name.
              return_act (if name \<noteq> [] then Some name else None))
         else return_act None
     | _ \<Rightarrow> return_act None) (p, r') = (Ok (Some i), q)"
    unfolding InferPodComponentInstance_def and_then_Ok
    by (auto simp: lift_res_apply on_one_runner)
  from rest obtain sel p' where "GetMatchingInstanceId num E sel ids p = (Ok i, p')" "i \<noteq> []"
    by (auto simp: return_act_apply and_then_Ok on_one_runner split: list.splits option.splits if_splits)
  then have "i \<in> set ids"
    by (auto simp: GetMatchingInstanceId_def and_then_Ok return_act_apply fail_act_apply split: option.splits if_splits)
  with c ids \<open>i \<noteq> []\<close> show ?thesis by blast
qed

end
