(* ===== verification/Workload_Tree.thy ===== *)
theory Workload_Tree
  imports Gang_Scheduling
begin

text \<open>
  \<^verbatim>\<open>karta/sdk/pkg/tree\<close>: the tree of a workload (tree.go) and its builder (builder.go). The two builder functions
  call each other; they take fuel and give \<open>NoReturn\<close> when it runs out, and two more than the number of
  child components is enough once the Karta is valid. sort.Strings orders strings by their bytes. A tree is a
  value, so that the deep copies of the builder are copies of values.
\<close>

section \<open>tree.go\<close>

datatype 'o ComponentNode =
    ComponentNode (cn_Name: string) (cn_Kind: "GroupVersionKind option") (cn_HasPodDefinition: bool)
      (cn_Instances: "'o InstanceNode list")
and 'o InstanceNode =
    InstanceNode (in_InstanceKey: "string option") (in_ReplicaKey: "string option") (in_Scale: "Scale option")
      (in_ExtractedInstance: "'o ExtractedInstance option") (in_Children: "'o ComponentNode list")

record WorkloadStatus =
  ws_Phases :: "string list"

record 'o WorkloadTree =
  wt_Status :: "WorkloadStatus option"
  wt_Children :: "'o ComponentNode list"

section \<open>builder.go\<close>

fun cloneComponentNodes :: "'o ComponentNode list \<Rightarrow> 'o ComponentNode list"
  and cloneInstanceNodes :: "'o InstanceNode list \<Rightarrow> 'o InstanceNode list" where
  "cloneComponentNodes [] = []"
| "cloneComponentNodes (ComponentNode name kind pod instances # nodes) =
     ComponentNode name kind pod (cloneInstanceNodes instances) # cloneComponentNodes nodes"
| "cloneInstanceNodes [] = []"
| "cloneInstanceNodes (InstanceNode key replica scale extracted children # instances) =
     InstanceNode key replica scale extracted (cloneComponentNodes children) # cloneInstanceNodes instances"

definition matchedStatusStrings :: "Status option \<Rightarrow> string list" where
  "matchedStatusStrings status =
     (case status of None \<Rightarrow> [] | Some s \<Rightarrow> map ResourceStatus_string (st_MatchedStatuses s))"

text \<open>The body of the loop over the instance keys.\<close>

definition instance_node :: "'o ExtractedInstance by_instance \<Rightarrow> 'o ComponentNode list \<Rightarrow> string \<Rightarrow> 'o InstanceNode" where
  "instance_node extractedInstances baseChildren key =
     (let extracted = map_of extractedInstances key;
          scale = (case extracted of None \<Rightarrow> None | Some ei \<Rightarrow> ei_Scale ei)
      in InstanceNode (if key \<noteq> [] then Some key else None) None scale extracted (cloneComponentNodes baseChildren))"

fun buildComponentNodes ::
  "nat \<Rightarrow> ('r, 'o) ComponentAccessor \<Rightarrow> Component list \<Rightarrow> ComponentFactory \<Rightarrow> ('r, 'o ComponentNode list) act"
  and buildInstanceNodes ::
  "nat \<Rightarrow> ('r, 'o) ComponentAccessor \<Rightarrow> string list \<Rightarrow> 'o ExtractedInstance by_instance \<Rightarrow> Component list
     \<Rightarrow> ComponentFactory \<Rightarrow> ('r, 'o InstanceNode list) act" where
  "buildComponentNodes 0 A components factory = no_return_act"
| "buildComponentNodes (Suc fuel) A components factory =
     map_act (\<lambda>component.
       and_then (wrap_error ''get instance ids for component %s: %w'' [AStr (comp_name component)]
                  (GetInstanceIds A component)) (\<lambda>instanceKeys.
       and_then (lift_res (GetChildComponentsOf factory (comp_name component))) (\<lambda>children.
       and_then (wrap_error ''get extracted instances for component %s: %w'' [AStr (comp_name component)]
                  (GetExtractedInstances A component)) (\<lambda>extractedInstances.
       and_then (wrap_error ''build instance nodes for component %s: %w'' [AStr (comp_name component)]
                  (buildInstanceNodes fuel A instanceKeys extractedInstances children factory)) (\<lambda>instances.
       return_act (ComponentNode (comp_name component) (Component_Kind component) (HasPodDefinition component) instances))))))
       components"
| "buildInstanceNodes fuel A instanceKeys extractedInstances children factory =
     (let sortedKeys = sort instanceKeys
      in and_then (buildComponentNodes fuel A children factory) (\<lambda>baseChildren.
         return_act (map (instance_node extractedInstances baseChildren) sortedKeys)))"

definition Build ::
  "nat \<Rightarrow> (string \<Rightarrow> goerr + ast) \<Rightarrow> ('r, 'o) ComponentAccessor \<Rightarrow> ComponentFactory \<Rightarrow> ('r, 'o WorkloadTree) act" where
  "Build fuel parse A factory =
     (case Validate parse (cf_karta factory) of
        Some e \<Rightarrow> fail_act (Wrapf ''invalid karta: %w'' [] e)
      | None \<Rightarrow>
          and_then (wrap_error ''failed to get root component: %w'' [] (lift_res (GetRootComponent factory))) (\<lambda>rootComponent.
          and_then (buildComponentNodes fuel A [rootComponent] factory) (\<lambda>rootNodes.
          case rootNodes of
            [] \<Rightarrow> panic_act ''index out of range [0] with length 0''
          | rootNode # _ \<Rightarrow>
              and_then (wrap_error ''failed to get root status: %w'' [] (GetStatus A rootComponent)) (\<lambda>status.
              return_act
                \<lparr>wt_Status = (case status of
                    None \<Rightarrow> None
                  | Some s \<Rightarrow> Some \<lparr>ws_Phases = matchedStatusStrings (Some s)\<rparr>),
                 wt_Children = (case cn_Instances rootNode of
                    [] \<Rightarrow> []
                  | i # _ \<Rightarrow> in_Children i)\<rparr>))))"

section \<open>Copies\<close>

lemma clone_id:
  fixes nodes :: "'o ComponentNode list" and instances :: "'o InstanceNode list"
  shows "cloneComponentNodes nodes = nodes" and "cloneInstanceNodes instances = instances"
  by (induction nodes and instances rule: cloneComponentNodes_cloneInstanceNodes.induct) simp_all

section \<open>The shape of the tree\<close>

lemma Component_Kind_eq: "Component_Kind c = cd_Kind (comp_definition c)"
  by (simp add: Component_Kind_def split: option.splits)

text \<open>
  \<open>instance_shape k c i\<close>: what the builder fixes of an instance node of component \<open>c\<close>, apart from its children.
\<close>

definition instance_shape :: "'o InstanceNode \<Rightarrow> bool" where
  "instance_shape i \<longleftrightarrow> in_ReplicaKey i = None \<and> in_InstanceKey i \<noteq> Some []
     \<and> (\<exists>ei. in_ExtractedInstance i = Some ei \<and> in_Scale i = ei_Scale ei)"

definition instance_key :: "'o InstanceNode \<Rightarrow> string" where
  "instance_key i = deref_string (in_InstanceKey i)"

text \<open>
  A node describes component \<open>c\<close>: its name, kind and pod flag, its instances sorted by key (a single one without
  a key when the component has no instance id path, only keyed ones when it has), and below every
  instance one node per component that \<open>c\<close> owns, in the order of the definition.
\<close>

definition keys_fit :: "ComponentDefinition \<Rightarrow> string option list \<Rightarrow> bool" where
  "keys_fit c keys = (if cd_InstanceIdPath c = None then keys = [None] else None \<notin> set keys)"

inductive describes :: "Karta \<Rightarrow> ComponentDefinition \<Rightarrow> 'o ComponentNode \<Rightarrow> bool" for k where
  "sorted (map instance_key instances) \<Longrightarrow> keys_fit c (map in_InstanceKey instances)
     \<Longrightarrow> \<forall>i \<in> set instances. instance_shape i
     \<Longrightarrow> \<forall>i \<in> set instances. list_all2 (describes k) (owned_by (cd_Name c) (children_of k @ [root_of k])) (in_Children i)
     \<Longrightarrow> describes k c (ComponentNode (cd_Name c) (cd_Kind c) (HasPodDefinition (component_of c)) instances)"

inductive_cases describesE: "describes k c node"

lemma and_then_lift_Ok: "and_then (lift_res (Ok x)) f = f x"
  by (rule ext) (simp add: and_then_apply lift_res_apply)

lemma wrap_lift_Ok: "wrap_error msg as (lift_res (Ok x)) = lift_res (Ok x)"
  by (rule ext) (simp add: wrap_error_apply lift_res_apply)

lemma triple_strengthen:
  assumes "triple P m (\<lambda>a r. Q r) E" "\<And>r a r'. P r \<Longrightarrow> m r = (Ok a, r') \<Longrightarrow> Q' a r'"
  shows "triple P m (\<lambda>a r. Q r \<and> Q' a r) E"
proof (rule tripleI)
  show "Q r' \<and> Q' a r'" if "P r" "m r = (Ok a, r')" for r a r'
    using triple_OkD [OF assms(1) that] assms(2) [OF that] by blast
  show "E e r'" if "P r" "m r = (Err e, r')" for r e r' by (rule triple_ErrD [OF assms(1) that])
  show False if "P r" "m r = (Panic p, r')" for r p r' using triple_no_panic [OF assms(1) that(1)] that(2) by blast
  show False if "P r" "m r = (NoReturn, r')" for r r' using triple_returns [OF assms(1) that(1)] that(2) by blast
qed

lemma map_act_all2:
  assumes "\<And>x. x \<in> set xs \<Longrightarrow> reads E invar view (f x)"
    and "\<And>x q y q'. x \<in> set xs \<Longrightarrow> invar q \<Longrightarrow> view q = v \<Longrightarrow> f x q = (Ok y, q') \<Longrightarrow> P x y"
    and "invar r" "view r = v" "map_act f xs r = (Ok ys, r')"
  shows "list_all2 P xs ys"
  using assms
proof (induction xs arbitrary: ys r)
  case Nil
  then show ?case by (simp add: return_act_apply)
next
  case (Cons x xs)
  from Cons.prems(5) obtain y r1 zs where y: "f x r = (Ok y, r1)" and rest: "map_act f xs r1 = (Ok zs, r')"
    and ys: "ys = y # zs"
    by (auto simp: and_then_Ok return_act_apply)
  have r1: "invar r1" "view r1 = v"
    using readsD [OF Cons.prems(1) [of x] Cons.prems(3)] y Cons.prems(4) by simp_all
  have "list_all2 P xs zs" by (rule Cons.IH [OF _ _ r1 rest]) (use Cons.prems(1,2) in auto)
  with Cons.prems(2) [of x r y r1] Cons.prems(3,4) y ys show ?case by simp
qed

text \<open>The loop body of buildComponentNodes, with the call for the instances as a parameter.\<close>

definition component_node ::
  "(string list \<Rightarrow> 'o ExtractedInstance by_instance \<Rightarrow> Component list \<Rightarrow> ('r, 'o InstanceNode list) act)
     \<Rightarrow> ('r, 'o) ComponentAccessor \<Rightarrow> ComponentFactory \<Rightarrow> Component \<Rightarrow> ('r, 'o ComponentNode) act" where
  "component_node g A f c =
     and_then (wrap_error ''get instance ids for component %s: %w'' [AStr (comp_name c)] (GetInstanceIds A c)) (\<lambda>ids.
     and_then (lift_res (GetChildComponentsOf f (comp_name c))) (\<lambda>children.
     and_then (wrap_error ''get extracted instances for component %s: %w'' [AStr (comp_name c)] (GetExtractedInstances A c)) (\<lambda>ex.
     and_then (wrap_error ''build instance nodes for component %s: %w'' [AStr (comp_name c)] (g ids ex children)) (\<lambda>instances.
     return_act (ComponentNode (comp_name c) (Component_Kind c) (HasPodDefinition c) instances)))))"

lemma build_component_node:
  "buildComponentNodes (Suc fuel) A cs f = map_act (component_node (\<lambda>ids ex ch. buildInstanceNodes fuel A ids ex ch f) A f) cs"
  unfolding component_node_def buildComponentNodes.simps by (rule refl)

text \<open>Enough fuel for the components \<open>cs\<close>: it covers the levels below each of them and one empty level.\<close>

definition enough_fuel :: "Karta \<Rightarrow> ComponentDefinition list \<Rightarrow> nat \<Rightarrow> bool" where
  "enough_fuel k cs fuel \<longleftrightarrow> 0 < fuel
     \<and> (\<forall>c \<in> set cs. \<exists>d. rooted_at (named_components k) d (cd_Name c) \<and> Suc (length (children_of k)) < fuel + d)"

context accessor_contract
begin

lemma extracted_keys:
  assumes "GetExtractedInstances A c r = (Ok m, r')"
  shows "\<exists>ids r1. GetInstanceIds A c r = (Ok ids, r1) \<and> fst ` set m = set ids"
proof -
  from assms obtain ids r1 h where "GetInstanceIds A c r = (Ok ids, r1)" "m = write_all (map (\<lambda>i. (i, h i)) ids)"
    unfolding GetExtractedInstances_def by (auto simp: and_then_Ok wrap_error_Ok return_act_apply)
  moreover have "fst ` set (write_all (map (\<lambda>i. (i, h i)) ids)) = set ids"
    unfolding write_all_keys by (simp add: image_image)
  ultimately show ?thesis by blast
qed

lemma wrap_clean: "reads clean invar view m \<Longrightarrow> reads clean invar view (wrap_error f as m)"
  by (rule reads_wrap_error) simp

lemma owned_fuel:
  assumes "distinct (component_names k)" "rooted_at (named_components k) d (cd_Name c)"
    and "Suc (length (children_of k)) < Suc fuel + d"
  shows "enough_fuel k (owned_by (cd_Name c) (children_of k @ [root_of k])) fuel"
proof -
  have "0 < fuel" using assms(3) depth_bound [OF assms(2)] by simp
  then show ?thesis
    using owned_rooted [OF assms(1,2)] assms(3) unfolding enough_fuel_def by (metis add_Suc add_Suc_right)
qed

lemma enough_fuel_owned:
  assumes "distinct (component_names k)" "enough_fuel k cs (Suc fuel)" "c \<in> set cs"
  shows "enough_fuel k (owned_by (cd_Name c) (children_of k @ [root_of k])) fuel"
  using assms(2,3) owned_fuel [OF assms(1)] unfolding enough_fuel_def [of k cs] by blast

lemma component_node_reads:
  assumes f: "NewComponentFactory (Some k) = Ok f" "distinct (component_names k)"
    and "\<And>ids ex. reads clean invar view (g ids ex (map component_of (owned_by (cd_Name c) (children_of k @ [root_of k]))))"
  shows "reads clean invar view (component_node g A f (component_of c))"
  unfolding component_node_def component_of_simps factory_navigation(3) [OF f] and_then_lift_Ok
  by (intro reads_and_then wrap_clean GetInstanceIds_reads GetExtractedInstances_reads reads_return assms(3))

lemma build_reads:
  assumes f: "NewComponentFactory (Some k) = Ok f" "distinct (component_names k)"
  shows "enough_fuel k cs fuel \<Longrightarrow> reads clean invar view (buildComponentNodes fuel A (map component_of cs) f)"
    and "enough_fuel k cs fuel \<Longrightarrow> reads clean invar view (buildInstanceNodes fuel A ids ex (map component_of cs) f)"
proof -
  show nodes: "enough_fuel k cs fuel \<Longrightarrow> reads clean invar view (buildComponentNodes fuel A (map component_of cs) f)" for cs
  proof (induction fuel arbitrary: cs)
    case (Suc fuel)
    have "reads clean invar view (component_node (\<lambda>ids ex ch. buildInstanceNodes fuel A ids ex ch f) A f (component_of c))"
      if "c \<in> set cs" for c
      unfolding buildInstanceNodes.simps Let_def
      using enough_fuel_owned [OF f(2) Suc.prems that]
      by (intro component_node_reads [OF f] reads_and_then reads_return Suc.IH)
    then show ?case unfolding build_component_node by (intro reads_map_act) auto
  qed (simp add: enough_fuel_def)
  then show "enough_fuel k cs fuel \<Longrightarrow> reads clean invar view (buildInstanceNodes fuel A ids ex (map component_of cs) f)"
    by (auto intro!: reads_and_then reads_return)
qed

lemma instance_nodes_shape:
  assumes "fst ` set ex = set ids"
  shows "sorted (map instance_key (map (instance_node ex base) (sort ids)))"
    and "i \<in> set (map (instance_node ex base) (sort ids)) \<Longrightarrow> instance_shape i \<and> in_Children i = base"
proof -
  have "instance_key (instance_node ex base key) = key" for key
    by (simp add: instance_key_def instance_node_def Let_def deref_string_def)
  then show "sorted (map instance_key (map (instance_node ex base) (sort ids)))" by (simp add: comp_def)
  assume "i \<in> set (map (instance_node ex base) (sort ids))"
  then obtain key where key: "key \<in> set ids" "i = instance_node ex base key" by auto
  then obtain ei where "map_of ex key = Some ei" using assms by (metis map_of_eq_None_iff option.exhaust)
  with key show "instance_shape i \<and> in_Children i = base"
    by (simp add: instance_shape_def instance_node_def Let_def clone_id)
qed

lemma keys_of_ids:
  assumes "invar r" "GetInstanceIds A (component_of c) r = (Ok ids, r1)"
  shows "keys_fit c (map in_InstanceKey (map (instance_node ex base) (sort ids)))"
proof -
  have key: "in_InstanceKey (instance_node ex base key) = (if key \<noteq> [] then Some key else None)" for key
    by (simp add: instance_node_def Let_def)
  show ?thesis
  proof (cases "cd_InstanceIdPath c")
    case None
    with assms(2) have "ids = [[]]" by (simp add: ids_default return_act_apply)
    with None show ?thesis by (simp add: keys_fit_def key)
  next
    case (Some p)
    with GetInstanceIds_nonempty [OF _ assms] show ?thesis by (auto simp: keys_fit_def key)
  qed
qed

lemma component_node_describes:
  assumes f: "NewComponentFactory (Some k) = Ok f" "distinct (component_names k)" and r: "invar r"
    and node: "component_node (\<lambda>ids ex ch. buildInstanceNodes fuel A ids ex ch f) A f (component_of c) r = (Ok node, r')"
    and kids: "\<And>q base q'. invar q \<Longrightarrow> buildComponentNodes fuel A (map component_of (owned_by (cd_Name c) (children_of k @ [root_of k]))) f q = (Ok base, q')
      \<Longrightarrow> list_all2 (describes k) (owned_by (cd_Name c) (children_of k @ [root_of k])) base"
  shows "describes k c node"
proof -
  from node obtain ids r1 ex r2 base r3
    where ids: "GetInstanceIds A (component_of c) r = (Ok ids, r1)"
      and ex: "GetExtractedInstances A (component_of c) r1 = (Ok ex, r2)"
      and base: "buildComponentNodes fuel A (map component_of (owned_by (cd_Name c) (children_of k @ [root_of k]))) f r2 = (Ok base, r3)"
      and n: "node = ComponentNode (cd_Name c) (cd_Kind c) (HasPodDefinition (component_of c)) (map (instance_node ex base) (sort ids))"
    unfolding component_node_def component_of_simps factory_navigation(3) [OF f] and_then_lift_Ok
    by (auto simp: and_then_Ok wrap_error_Ok return_act_apply Let_def Component_Kind_eq)
  have r1: "invar r1" "view r1 = view r" using readsD [OF GetInstanceIds_reads r, of "component_of c"] ids by simp_all
  have r2: "invar r2" using readsD(1) [OF GetExtractedInstances_reads r1(1), of "component_of c"] ex by simp
  obtain ids' where "fst (GetInstanceIds A (component_of c) r1) = Ok ids'" "fst ` set ex = set ids'"
    using extracted_keys [OF ex] by auto
  moreover have "fst (GetInstanceIds A (component_of c) r1) = fst (GetInstanceIds A (component_of c) r)"
    by (rule reads_same [OF GetInstanceIds_reads r1(1) r r1(2)])
  ultimately have keys: "fst ` set ex = set ids" using ids by simp
  show ?thesis
    unfolding n using instance_nodes_shape [where base = base, OF keys] kids [OF r2 base] keys_of_ids [OF r ids]
    by (intro describes.intros ballI) simp_all
qed

lemma build_describes:
  assumes f: "NewComponentFactory (Some k) = Ok f" "distinct (component_names k)"
  shows "enough_fuel k cs fuel \<Longrightarrow> invar r \<Longrightarrow> buildComponentNodes fuel A (map component_of cs) f r = (Ok nodes, r')
    \<Longrightarrow> list_all2 (describes k) cs nodes"
proof (induction fuel arbitrary: cs r nodes r')
  case (Suc fuel)
  let ?node = "component_node (\<lambda>ids ex ch. buildInstanceNodes fuel A ids ex ch f) A f"
  note fuel = enough_fuel_owned [OF f(2) Suc.prems(1)]
  have "list_all2 (\<lambda>c. describes k (comp_definition c)) (map component_of cs) nodes"
  proof (rule map_act_all2 [where f = ?node and r = r and r' = r' and v = "view r" and E = clean and view = view and invar = invar])
    show "reads clean invar view (?node x)" if "x \<in> set (map component_of cs)" for x
      using that fuel by (auto simp del: buildInstanceNodes.simps intro!: component_node_reads [OF f] build_reads(2) [OF f])
    show "describes k (comp_definition x) y"
      if "x \<in> set (map component_of cs)" "invar q" "view q = view r" "?node x q = (Ok y, q')" for x q y q'
      using that fuel Suc.IH by (auto intro: component_node_describes [OF f that(2)])
    show "map_act ?node (map component_of cs) r = (Ok nodes, r')"
      using Suc.prems(3) by (simp only: build_component_node)
  qed (use Suc.prems(2) in simp_all)
  then show ?case by (simp add: list.rel_map)
qed (simp add: enough_fuel_def)

lemma GetStatus_present:
  "cd_StatusDefinition (comp_definition c) \<noteq> None \<Longrightarrow> invar r \<Longrightarrow> GetStatus A c r = (Ok x, r') \<Longrightarrow> x \<noteq> None"
  using optional_present [of invar view "acc_ExtractStatus A (comp_definition c)"] status_law [of "comp_definition c"]
  by (simp add: GetStatus_def)

lemma root_node:
  assumes f: "NewComponentFactory (Some k) = Ok f" and wf: "well_formed parse k"
    and fuel: "Suc (length (children_of k)) < fuel"
  shows "triple (\<lambda>r. invar r \<and> view r = v) (buildComponentNodes fuel A [component_of (root_of k)] f)
    (\<lambda>ns r. invar r \<and> view r = v \<and> list_all2 (describes k) [root_of k] ns) (\<lambda>e r. invar r \<and> view r = v \<and> clean e)"
proof -
  have "cd_Name (root_of k) \<in> set (component_names k)" by (simp add: component_names_def)
  then have "enough_fuel k [root_of k] fuel"
    using well_formed_rooted [OF wf] fuel by (auto simp: enough_fuel_def simp del: rooted_at.simps)
  note enough = this
  have "reads clean invar view (buildComponentNodes fuel A [component_of (root_of k)] f)"
    using build_reads(1) [OF f well_formed_distinct [OF wf] enough] by simp
  from triple_strengthen [OF reads_triple [OF this, of v], of "\<lambda>ns _. list_all2 (describes k) [root_of k] ns"] show ?thesis
    using build_describes [OF f well_formed_distinct [OF wf] enough] by auto
qed

end

lemma root_children:
  assumes "describes k c node"
  shows "list_all2 (describes k) (owned_by (cd_Name c) (children_of k @ [root_of k]))
      (case cn_Instances node of [] \<Rightarrow> [] | i # _ \<Rightarrow> in_Children i)
    \<or> (case cn_Instances node of [] \<Rightarrow> [] | i # _ \<Rightarrow> in_Children i) = [] \<and> cd_InstanceIdPath c \<noteq> None"
  using assms by (cases rule: describes.cases) (auto simp: keys_fit_def split: list.splits if_splits)

text \<open>What Build guarantees of the tree it returns.\<close>

definition tree_ok :: "Karta \<Rightarrow> 'o WorkloadTree \<Rightarrow> bool" where
  "tree_ok k t \<longleftrightarrow> wt_Status t \<noteq> None
     \<and> (list_all2 (describes k) (owned_by (cd_Name (root_of k)) (children_of k @ [root_of k])) (wt_Children t)
        \<or> wt_Children t = [] \<and> cd_InstanceIdPath (root_of k) \<noteq> None)"

context accessor_contract
begin

lemma Build_triple:
  assumes f: "NewComponentFactory (Some k) = Ok f" and wf: "well_formed parse k"
    and fuel: "Suc (length (children_of k)) < fuel"
  shows "triple (\<lambda>r. invar r \<and> view r = v) (Build fuel parse A f)
    (\<lambda>t r. invar r \<and> view r = v \<and> tree_ok k t) (\<lambda>e r. invar r \<and> view r = v \<and> clean e)"
proof -
  have "cd_StatusDefinition (comp_definition (component_of (root_of k))) \<noteq> None" using wf by (simp add: well_formed_def)
  note present = GetStatus_present [OF this]
  have status: "triple (\<lambda>r. invar r \<and> view r = v) (GetStatus A (component_of (root_of k)))
      (\<lambda>x r. (invar r \<and> view r = v) \<and> x \<noteq> None) (\<lambda>e r. invar r \<and> view r = v \<and> clean (Wrapf msg [] e))" for msg
    using triple_strengthen [OF reads_triple [OF getters_read(6) [of "component_of (root_of k)"], of v], of "\<lambda>x _. x \<noteq> None"]
      present by auto
  have rest: "triple (\<lambda>r. invar r \<and> view r = v \<and> list_all2 (describes k) [root_of k] ns)
      (case ns of [] \<Rightarrow> panic_act p | node # _ \<Rightarrow>
        and_then (wrap_error msg [] (GetStatus A (component_of (root_of k)))) (\<lambda>status. return_act
          \<lparr>wt_Status = (case status of None \<Rightarrow> None | Some s \<Rightarrow> Some (h s)),
           wt_Children = (case cn_Instances node of [] \<Rightarrow> [] | i # _ \<Rightarrow> in_Children i)\<rparr>))
      (\<lambda>t r. invar r \<and> view r = v \<and> tree_ok k t) (\<lambda>e r. invar r \<and> view r = v \<and> clean e)" for ns p msg h
  proof (cases "list_all2 (describes k) [root_of k] ns")
    case True
    then obtain node where node: "ns = [node]" "describes k (root_of k) node"
      by (auto simp: list_all2_Cons1)
    have "triple (\<lambda>r. invar r \<and> view r = v) (and_then (wrap_error msg [] (GetStatus A (component_of (root_of k)))) (\<lambda>status. return_act
          \<lparr>wt_Status = (case status of None \<Rightarrow> None | Some s \<Rightarrow> Some (h s)),
           wt_Children = (case cn_Instances node of [] \<Rightarrow> [] | i # _ \<Rightarrow> in_Children i)\<rparr>))
        (\<lambda>t r. invar r \<and> view r = v \<and> tree_ok k t) (\<lambda>e r. invar r \<and> view r = v \<and> clean e)"
      by (rule triple_and_then [OF triple_wrap_error [OF status]], rule triple_return)
         (use root_children [OF node(2)] in \<open>auto simp: tree_ok_def\<close>)
    then show ?thesis using True by (simp add: node(1))
  qed (simp add: triple_def)
  have valid: "Validate parse (cf_karta f) = None"
    using wf by (simp add: Validate_None NewComponentFactory_fields(1) [OF f])
  show ?thesis
    unfolding Build_def valid option.case factory_navigation(1) [OF f well_formed_distinct [OF wf]]
      wrap_lift_Ok and_then_lift_Ok
    by (rule triple_and_then [OF root_node [OF f wf fuel]], rule rest)
qed

end

end
