(* ===== verification/Product_Version.thy ===== *)
theory Product_Version
  imports Karta_Prelude
begin

text \<open>
  \<^verbatim>\<open>karta/sdk/pkg/version/version.go\<close>: the product version from the value set at link time or from the build
  information of the binary. debug.ReadBuildInfo is the parameter \<open>readBuildInfo\<close>: nothing, or the version of
  the main module. Strings are bytes; strings.TrimSpace is modelled for ASCII white space.
\<close>

definition is_space :: "char \<Rightarrow> bool" where
  "is_space c \<longleftrightarrow> c \<in> {CHR 0x09, CHR 0x0A, CHR 0x0B, CHR 0x0C, CHR 0x0D, CHR 0x20}"

definition TrimSpace :: "string \<Rightarrow> string" where
  "TrimSpace s = rev (dropWhile is_space (rev (dropWhile is_space s)))"

definition TrimPrefix :: "string \<Rightarrow> string \<Rightarrow> string" where
  "TrimPrefix s prefix = (if take (length prefix) s = prefix then drop (length prefix) s else s)"

definition unknownVersion :: string where
  "unknownVersion = ''unknown''"

definition normalize :: "string \<Rightarrow> string" where
  "normalize v =
     (let v' = TrimSpace v
      in if v' = [] \<or> v' = ''(devel)'' then [] else TrimPrefix v' ''v'')"

definition resolve :: "string \<Rightarrow> string option \<Rightarrow> string" where
  "resolve explicit readBuildInfo =
     (let explicit' = TrimSpace explicit
      in if explicit' \<noteq> [] then explicit'
         else case readBuildInfo of
           None \<Rightarrow> unknownVersion
         | Some mainVersion \<Rightarrow>
             let normalized = normalize mainVersion
             in if normalized \<noteq> [] then normalized else unknownVersion)"

definition version_String :: "string \<Rightarrow> string option \<Rightarrow> string" where
  "version_String version readBuildInfo = resolve version readBuildInfo"

lemma TrimSpace_ends:
  "TrimSpace s = [] \<or> \<not> is_space (hd (TrimSpace s)) \<and> \<not> is_space (last (TrimSpace s))"
proof (cases "TrimSpace s = []")
  case False
  let ?t = "dropWhile is_space s"
  have ne: "dropWhile is_space (rev ?t) \<noteq> []" using False by (simp add: TrimSpace_def)
  then have "\<not> is_space (hd (dropWhile is_space (rev ?t)))" by (rule hd_dropWhile)
  then have l: "\<not> is_space (last (TrimSpace s))" using ne by (simp add: TrimSpace_def last_rev)
  obtain z where z: "rev ?t = z @ dropWhile is_space (rev ?t)" by (metis takeWhile_dropWhile_id)
  then have "?t = TrimSpace s @ rev z" by (metis TrimSpace_def rev_append rev_rev_ident)
  then have "hd ?t = hd (TrimSpace s)" "?t \<noteq> []" using False by (metis hd_append2, auto)
  then have "\<not> is_space (hd (TrimSpace s))" by (metis hd_dropWhile)
  with l show ?thesis by blast
qed simp

lemma resolve_nonempty: "resolve explicit info \<noteq> []"
  by (auto simp: resolve_def Let_def unknownVersion_def split: option.splits)

end
