(* ===== verification/Karta_Samples.thy ===== *)
theory Karta_Samples
  imports Workload_Tree Product_Version
begin

text \<open>
  A small Karta and small libraries, on which the hypotheses of the properties can be evaluated: a training
  job with one kind of workers, a jq library that knows the paths of this Karta, and a workload object.
\<close>

section \<open>Definitions\<close>

definition sample_matcher :: "string \<Rightarrow> StatusMatcher" where
  "sample_matcher phase = \<lparr>sm_ByPhase = phase, sm_ByConditions = [], sm_ByExpression = None\<rparr>"

definition sample_status :: StatusDefinition where
  "sample_status = \<lparr>std_PhaseDefinition = Some \<lparr>pd_Path = ''.status.phase''\<rparr>, std_ConditionsDefinition = None,
     std_StatusMappings = \<lparr>map_Initializing = [], map_Running = [sample_matcher ''Running''], map_Completed = [],
       map_Failed = [sample_matcher ''Failed''], map_Degraded = [sample_matcher ''Running''], map_Suspended = [],
       map_Suspending = [], map_Resuming = []\<rparr>\<rparr>"

definition sample_root :: ComponentDefinition where
  "sample_root = \<lparr>cd_Name = ''job'', cd_Kind = Some \<lparr>gvk_Group = ''batch'', gvk_Version = ''v1'', gvk_Kind = ''Job''\<rparr>,
     cd_OwnerRef = None, cd_SpecDefinition = None,
     cd_ScaleDefinition = Some \<lparr>sc_ReplicasPath = Some ''.spec.groups'', sc_MinReplicasPath = None, sc_MaxReplicasPath = None\<rparr>,
     cd_StatusDefinition = Some sample_status,
     cd_SuspendDefinition = Some \<lparr>sus_SuspendActions = [\<lparr>sa_Path = ''.spec.suspend'', sa_Value = ''true''\<rparr>],
       sus_ResumeActions = [\<lparr>sa_Path = ''.spec.suspend'', sa_Value = ''false''\<rparr>]\<rparr>,
     cd_InstanceIdPath = None, cd_PodSelector = None\<rparr>"

definition sample_worker :: ComponentDefinition where
  "sample_worker = \<lparr>cd_Name = ''worker'', cd_Kind = None, cd_OwnerRef = Some ''job'',
     cd_SpecDefinition = Some \<lparr>sp_PodTemplateSpecPath = None, sp_PodSpecPath = Some ''.spec.pods'', sp_MetadataPath = None,
       sp_FragmentedPodSpecDefinition = None\<rparr>,
     cd_ScaleDefinition = Some \<lparr>sc_ReplicasPath = Some ''.spec.replicas'', sc_MinReplicasPath = None, sc_MaxReplicasPath = None\<rparr>,
     cd_StatusDefinition = None, cd_SuspendDefinition = None, cd_InstanceIdPath = Some ''.spec.ids'',
     cd_PodSelector = Some \<lparr>psel_ComponentTypeSelector = Some \<lparr>cts_KeyPath = ''.labels.role'', cts_Value = Some ''worker''\<rparr>,
       psel_ComponentInstanceSelector = Some \<lparr>cis_IdPath = ''.labels.id''\<rparr>, psel_ReplicaSelector = None\<rparr>\<rparr>"

definition sample_member :: "string \<Rightarrow> string list \<Rightarrow> PodGroupMemberDefinition" where
  "sample_member name filters = \<lparr>mem_ComponentName = name, mem_GroupByKeyPaths = [], mem_Filters = filters\<rparr>"

definition sample_groups :: "PodGroupDefinition list" where
  "sample_groups = [\<lparr>pg_Name = ''all'', pg_Members = [sample_member ''job'' []]\<rparr>,
     \<lparr>pg_Name = ''gpu'', pg_Members = [sample_member ''worker'' [''.labels.gpu'']]\<rparr>]"

definition karta_with :: "ComponentDefinition \<Rightarrow> ComponentDefinition list \<Rightarrow> Karta" where
  "karta_with rt children = \<lparr>k_Name = ''sample'', k_Spec = \<lparr>ks_StructureDefinition =
       \<lparr>str_RootComponent = rt, str_ChildComponents = children, str_AdditionalChildKinds = []\<rparr>,
     ks_Instructions = \<lparr>oi_GangScheduling = Some \<lparr>gs_PodGroups = sample_groups, gs_PodGroup = None\<rparr>\<rparr>\<rparr>\<rparr>"

definition sample_karta :: Karta where
  "sample_karta = karta_with sample_root [sample_worker]"

section \<open>Libraries\<close>

text \<open>Every non-empty expression but \<open>bad\<close> parses, to a call of the function it names.\<close>

definition sample_Parse :: "string \<Rightarrow> string + ast" where
  "sample_Parse s = (if s = [] \<or> s = ''bad'' then Inl ''syntax error'' else Inr (AStruct True (FuncNode s) []))"

definition sample_Compile :: "ast \<Rightarrow> string list \<Rightarrow> string + string" where
  "sample_Compile a vars = (case a of AStruct b (FuncNode s) fs \<Rightarrow> Inr s | _ \<Rightarrow> Inl ''unknown query'')"

definition object_field :: "json \<Rightarrow> string \<Rightarrow> json list" where
  "object_field j name = (case j of
     JObject kvs \<Rightarrow> (case map_of kvs name of Some (JArray xs) \<Rightarrow> xs | Some v \<Rightarrow> [v] | None \<Rightarrow> []) | _ \<Rightarrow> [])"

definition sample_results :: "string \<Rightarrow> json \<Rightarrow> json list \<Rightarrow> json list" where
  "sample_results code input vars =
     (if code = ''(.spec.suspend) = $val''
      then (case input of JObject kvs \<Rightarrow> [JObject (AList.update ''.spec.suspend'' (hd vars) kvs)] | _ \<Rightarrow> [])
      else if code = ''none'' then []
      else object_field input code)"

definition sample_Run :: "64 word \<Rightarrow> string \<Rightarrow> json \<Rightarrow> json list \<Rightarrow> nat \<Rightarrow> (string + json) option" where
  "sample_Run timeout code input vars i =
     (let results = sample_results code input vars
      in if i < length results then Some (Inr (results ! i)) else None)"

definition sample_lib :: "(json, string) jqlib" where
  "sample_lib = \<lparr>gojq_Parse = sample_Parse, gojq_Compile = sample_Compile, gojq_Run = sample_Run, json_Marshal = Inr\<rparr>"

definition sample_k8s :: "json k8slib" where
  "sample_k8s = \<lparr>dec_PodTemplateSpec = Inr, dec_PodSpec = Inr, dec_ObjectMeta = Inr, dec_ResourceRequirements = Inr,
     dec_PodResourceClaim = Inr, dec_PodAffinity = Inr, dec_NodeAffinity = Inr, dec_Container = Inr,
     json_Unmarshal_any = (\<lambda>s. if s = ''true'' then Inr (JBool True) else if s = ''false'' then Inr (JBool False)
        else Inl ''invalid JSON'')\<rparr>"

definition sample_object :: json where
  "sample_object = JObject
     [(''.status.phase'', JString ''Running''), (''.spec.groups'', JNum 2), (''.spec.replicas'', JArray [JNum 3, JNum 4]),
      (''.spec.ids'', JArray [JString ''b'', JString ''a'']), (''.spec.pods'', JArray [JString ''podB'', JString ''podA''])]"

definition sample_pod :: json where
  "sample_pod = JObject [(''.labels.gpu'', JBool True), (''.labels.id'', JString ''a''),
     (''.labels.role == '' @ [CHR 0x22] @ ''worker'' @ [CHR 0x22], JBool True)]"

abbreviation sample_runner :: "json runner" where
  "sample_runner \<equiv> NewDefaultRunner sample_object"

abbreviation pod_runner :: "json runner" where
  "pod_runner \<equiv> NewDefaultRunner sample_pod"

abbreviation sample_iface :: "(json runner, json) Runner" where
  "sample_iface \<equiv> runner_iface sample_lib"

abbreviation sample_accessor :: "(json runner, json) ComponentAccessor" where
  "sample_accessor \<equiv> NewAccessor sample_iface sample_k8s"

abbreviation sample_eval :: "json runner evaluator" where
  "sample_eval \<equiv> runner_Evaluate sample_lib"

definition sample_factory :: ComponentFactory where
  "sample_factory = (case NewComponentFactory (Some sample_karta) of Ok f \<Rightarrow> f | _ \<Rightarrow> undefined)"

definition sample_summary :: StructureSummary where
  "sample_summary = (case NewStructureSummary insertion_sort (Some sample_karta) of Ok s \<Rightarrow> s | _ \<Rightarrow> undefined)"

section \<open>The sample satisfies the hypotheses\<close>

lemma sample_parse_ok: "s \<noteq> [] \<Longrightarrow> s \<notin> {''bad'', ''del'', ''range'', ''paths'', ''recurse'', ''walk'', ''repeat''}
    \<Longrightarrow> acceptable (jq_parse sample_lib) s"
  by (simp add: acceptable_def jq_parse_def lib_error_def sample_lib_def sample_Parse_def ValidateParsedJQ_def)

lemma sample_valid: "Validate (jq_parse sample_lib) (Some sample_karta) = None"
  by code_simp

lemma sample_well_formed: "well_formed (jq_parse sample_lib) sample_karta"
  using sample_valid by (simp add: Validate_None)

lemma sample_factory_ok: "NewComponentFactory (Some sample_karta) = Ok sample_factory"
  using NewComponentFactory_total [of sample_karta] by (auto simp: sample_factory_def)

lemma sample_summary_ok: "NewStructureSummary insertion_sort (Some sample_karta) = Ok sample_summary"
  using NewStructureSummary_total [OF sample_well_formed, of insertion_sort] by (auto simp: sample_summary_def)

lemma sample_clean: "clean_runner sample_runner" "clean_runner pod_runner"
  by (rule NewRunner_clean)+

end
