(* ===== verification/Validation_Properties.thy ===== *)
theory Validation_Properties
  imports Karta_Samples
begin

text \<open>
  Properties of the validator, of the jq checks and of the runner.
\<close>

section \<open>Validation\<close>

text \<open>C1 Validate returns nil exactly on the well-formed Kartas: unique non-empty names, a root with a full kind and
  a status definition and no owner, children whose owner chain ends at the root, at most one pod spec
  definition per component, instance ids only together with instance selectors, existing gang members,
  and jq expressions that parse and only read.\<close>

theorem validate_iff: "Validate parse (Some k) = None \<longleftrightarrow> well_formed parse k"
  by (rule Validate_None)

text \<open>C10 On a map of components that is closed under owners, the search for ownership cycles succeeds exactly when
  every listed component reaches a component without owner by finitely many owner steps; the loop
  itself always ends.\<close>

theorem ownership_cycles:
  assumes "owner_closed all" "\<forall>c \<in> set cs. cd_Name c \<in> dom (map_of all)"
  shows "validateNoOwnershipCycles_loop all cs {} = None \<longleftrightarrow> (\<forall>c \<in> set cs. \<exists>d. rooted_at all d (cd_Name c))"
  using assms by (rule validateNoOwnershipCycles_None)

theorem ownership_cycles_witness:
  "validateNoOwnershipCycles_loop (named_components sample_karta) [sample_worker] {} = None
     \<longleftrightarrow> (\<forall>c \<in> set [sample_worker]. \<exists>d. rooted_at (named_components sample_karta) d (cd_Name c))"
proof (rule ownership_cycles)
  show "owner_closed (named_components sample_karta)"
    by (rule well_formed_closed [OF sample_well_formed])
  show "\<forall>c \<in> set [sample_worker]. cd_Name c \<in> dom (map_of (named_components sample_karta))"
    by (simp add: dom_named_components component_names_def sample_karta_def karta_with_def)
qed

text \<open>A walk to the root that finds no cycle returns before it records the component as validated: over owner-closed
  components the set of validated components stays empty.\<close>

theorem memo_unused:
  assumes "owner_closed all" "cd_Name c \<in> dom (map_of all)"
  shows "snd (checkPathToRoot all c {}) = {}"
  using checkPath_ends [OF assms refl, of False "{}"]
  by (auto simp: checkPathToRoot_def split: path_result.splits)

theorem memo_unused_witness: "snd (checkPathToRoot (named_components sample_karta) sample_worker {}) = {}"
proof (rule memo_unused)
  show "owner_closed (named_components sample_karta)"
    by (rule well_formed_closed [OF sample_well_formed])
  show "cd_Name sample_worker \<in> dom (map_of (named_components sample_karta))"
    by (simp add: dom_named_components component_names_def sample_karta_def karta_with_def)
qed

text \<open>The reflection walk over a parsed query reports the error of the first forbidden node in preorder, and
  none when no node is forbidden.\<close>

theorem readonly_walk: "ValidateParsedJQ q = first_error (case_prod checkASTNode) (preorder q)"
  by (simp add: ValidateParsedJQ_def walk_first_error)

text \<open>The reflection walk over a Karta reports one error per tagged jq expression that is not acceptable, so it
  reports none exactly when all of them are acceptable.\<close>

theorem expressions_reported:
  "length (ValidateJQExpressions parse (karta_rval k))
     = length (filter (\<lambda>(path, expr). \<not> acceptable parse expr) (karta_jq k))"
  by (simp add: ValidateJQExpressions_karta length_check_all)

section \<open>The runner\<close>

text \<open>C34 A query returns its values exactly when the iterator ends without an error and yields no value, or fewer
  values than the limit; a query that yields exactly the limit is already refused.\<close>

theorem result_limit:
  "safeRunWithVariables L r code input expression vars = Ok vs \<longleftrightarrow>
     yields (gojq_Run L (rn_queryTimeout r) code input vars) 0 vs \<and> (vs = [] \<or> int (length vs) < rn_maxResults r)"
  by (auto simp: safeRunWithVariables_def run_loop_Ok)

text \<open>Evaluate changes nothing that a client can see: the data, the limit and the timeout stay, whatever
  the outcome, and evaluating again gives the same outcome.\<close>

theorem evaluate_reads:
  "runner_view L (snd (runner_Evaluate L expression r)) = runner_view L r
   \<and> fst (runner_Evaluate L expression' (snd (runner_Evaluate L expression r))) = fst (runner_Evaluate L expression' r)"
  by (simp add: runner_Evaluate_eq)

text \<open>The source object is converted at most once: after the first access the runner never converts again,
  and a failed conversion is reported by every later access.\<close>

theorem converted_once:
  "rn_jsonOnce (snd (getObjectData L r))
   \<and> getObjectData L (snd (getObjectData L r)) = (fst (getObjectData L r), snd (getObjectData L r))"
  by (simp add: getObjectData_eq)

text \<open>An assignment that fails leaves the object as it was.\<close>

theorem failed_assign:
  assumes "Assign (runner_iface L) path x r = (Err e, r')"
  shows "runner_view L r' = runner_view L r"
  using assms by (auto simp: runner_iface_def runner_Assign_def assignWithExpression_eq split: res.splits)

theorem failed_assign_witness:
  "runner_view sample_lib (snd (Assign sample_iface ''none'' (GoJson JNull) sample_runner)) = runner_view sample_lib sample_runner"
proof -
  obtain e r' where "Assign sample_iface ''none'' (GoJson JNull) sample_runner = (Err e, r')"
    by (simp add: runner_iface_def runner_Assign_def assignWithExpression_eq assign_result_def runner_view_def runner_data_def
        NewDefaultRunner_def convert_source_def convertToPrimitive_def sample_lib_def compile_def sample_Parse_def sample_Compile_def
        run_loop.simps sample_Run_def sample_results_def object_field_def sample_object_def)
  with failed_assign [OF this] show ?thesis by simp
qed

text \<open>After a successful assignment the object is the first result of the update query, and that is what GetObject
  returns.\<close>

theorem assign_then_read:
  assumes "Assign (runner_iface L) path x r = (Ok (), r')"
  shows "\<exists>y. assign_result L (runner_view L r) (''('' @ path @ '') = $val'') x = Ok y
    \<and> fst (GetObject (runner_iface L) r') = Ok y"
proof -
  let ?e = "''('' @ path @ '') = $val''"
  from assms obtain y where y: "assign_result L (runner_view L r) ?e x = Ok y"
    and r': "r' = (forced L r)\<lparr>rn_objectData := y\<rparr>"
    by (auto simp: runner_iface_def runner_Assign_def assignWithExpression_eq split: res.splits)
  from y have "rn_jsonErr (forced L r) = None"
    by (auto simp: assign_result_def runner_view_def runner_data_def forced_def Let_def split: option.splits)
  then have "fst (GetObject (runner_iface L) r') = Ok y"
    by (simp add: r' runner_iface_def runner_GetObject_def getObjectData_def)
  with y show ?thesis by blast
qed

theorem assign_then_read_witness:
  "\<exists>y. assign_result sample_lib (runner_view sample_lib sample_runner) (''('' @ ''.spec.suspend'' @ '') = $val'') (GoJson (JBool True)) = Ok y
    \<and> fst (GetObject sample_iface (snd (Assign sample_iface ''.spec.suspend'' (GoJson (JBool True)) sample_runner))) = Ok y"
proof -
  have "fst (Assign sample_iface ''.spec.suspend'' (GoJson (JBool True)) sample_runner) = Ok ()"
    by code_simp
  then obtain r' where r': "Assign sample_iface ''.spec.suspend'' (GoJson (JBool True)) sample_runner = (Ok (), r')"
    by (cases "Assign sample_iface ''.spec.suspend'' (GoJson (JBool True)) sample_runner") simp
  from assign_then_read [OF r'] show ?thesis by (simp add: r')
qed

section \<open>Validation and evaluation together\<close>

lemma run_loop_parse_error: "run_loop n iter expr i vs = Err e \<Longrightarrow> \<not> hasJQParseError e"
  using run_loop_outcome [of n iter expr i vs] by auto

lemma eval_result_parse_error:
  assumes "acceptable (jq_parse L) expr" "expr \<noteq> []" "eval_result L v expr = Err e"
    and "\<And>e. fst v = Inl e \<Longrightarrow> \<not> hasJQParseError e"
  shows "\<not> hasJQParseError e"
proof -
  from assms(1,2) obtain q where q: "gojq_Parse L expr = Inr q"
    by (auto simp: acceptable_def jq_parse_def lib_error_def map_sum_def split: sum.splits)
  obtain data n t where v: "v = (data, n, t)" by (cases v)
  from assms(3,4) show ?thesis
    unfolding v eval_result_def by (auto simp: compile_def q dest: run_loop_parse_error split: sum.splits)
qed

text \<open>Once Validate has accepted a Karta, evaluating one of its non-empty expressions on a fresh runner never fails
  because the expression does not parse.\<close>

theorem validated_parses:
  assumes "Validate (jq_parse L) (Some k) = None" "expr \<in> set (map snd (karta_jq k))" "expr \<noteq> []"
    and "runner_Evaluate L expr (NewRunner source maxResults timeout) = (Err e, r')"
  shows "\<not> hasJQParseError e"
proof (rule eval_result_parse_error [OF _ assms(3)])
  show "acceptable (jq_parse L) expr"
    using assms(1,2) by (auto simp: Validate_None well_formed_def)
  show "eval_result L (runner_view L (NewRunner source maxResults timeout)) expr = Err e"
    using assms(4) by (simp add: runner_Evaluate_eq)
  show "\<not> hasJQParseError e'" if "fst (runner_view L (NewRunner source maxResults timeout)) = Inl e'" for e'
    using that by (auto simp: runner_view_def runner_data_def NewRunner_def NewDefaultRunner_def Let_def convert_source_def
        convertToPrimitive_def split: sum.splits option.splits)
qed

theorem validated_parses_witness:
  "\<not> hasJQParseError (Errorf ''query results exceed the allowed number %d'' [AInt 2])"
proof (rule validated_parses [OF sample_valid, of "''.spec.replicas''" sample_object "Some 2" None])
  show "''.spec.replicas'' \<in> set (map snd (karta_jq sample_karta))" by code_simp
  show "''.spec.replicas'' \<noteq> ([] :: string)" by simp
  have "fst (runner_Evaluate sample_lib ''.spec.replicas'' (NewRunner sample_object (Some 2) None))
      = Err (Errorf ''query results exceed the allowed number %d'' [AInt 2])"
    by code_simp
  then show "runner_Evaluate sample_lib ''.spec.replicas'' (NewRunner sample_object (Some 2) None)
      = (Err (Errorf ''query results exceed the allowed number %d'' [AInt 2]),
         snd (runner_Evaluate sample_lib ''.spec.replicas'' (NewRunner sample_object (Some 2) None)))"
    by (cases "runner_Evaluate sample_lib ''.spec.replicas'' (NewRunner sample_object (Some 2) None)") simp
qed

end
