(* ===== verification/Resource_Properties.thy ===== *)
theory Resource_Properties
  imports Karta_Samples
begin

text \<open>
  Properties of the accessor, of components and their factory, and of pod queries, over the runner of the SDK.
\<close>

section \<open>Helper lemmas\<close>

lemma decimal_append:
  "decimal acc (xs @ ys) = (case decimal acc xs of None \<Rightarrow> None | Some a \<Rightarrow> decimal a ys)"
  by (induction acc xs rule: decimal.induct) (auto simp: Let_def)

lemma itoa_digits: "c \<in> set (itoa n) \<Longrightarrow> 48 \<le> (of_char c :: nat) \<and> (of_char c :: nat) \<le> 57"
proof (induction n rule: itoa.induct)
  case (1 n)
  have digit: "48 \<le> (of_char (char_of (48 + d) :: char) :: nat) \<and> (of_char (char_of (48 + d) :: char) :: nat) \<le> 57"
    if "d < 10" for d :: nat
    using that by simp
  show ?case
  proof (cases "n < 10")
    case True
    with 1(2) digit [of n] show ?thesis by (simp add: itoa.simps [of n])
  next
    case False
    with 1 digit [of "n mod 10"] show ?thesis by (auto simp: itoa.simps [of n])
  qed
qed

lemma decimal_itoa: "decimal 0 (itoa n) = Some n"
proof (induction n rule: itoa.induct)
  case (1 n)
  have digit: "decimal a [char_of (48 + d) :: char] = Some (a * 10 + d)" if "d < 10" for a d :: nat
    using that by (simp add: Let_def)
  show ?case
    using 1 digit [of n 0] digit [of "n mod 10" "n div 10"]
    by (cases "n < 10") (simp_all add: itoa.simps [of n] decimal_append)
qed

lemma itoa_nonempty: "itoa n \<noteq> []"
  by (simp add: itoa.simps)

lemma iter_act_Err:
  assumes "iter_act f xs r = (Err e, r')"
  shows "\<exists>pre x post r1. xs = pre @ x # post \<and> iter_act f pre r = (Ok (), r1) \<and> f x r1 = (Err e, r')"
  using assms
proof (induction xs arbitrary: r)
  case Nil
  then show ?case by (simp add: return_act_apply)
next
  case (Cons x xs)
  then consider "f x r = (Err e, r')" | r1 where "f x r = (Ok (), r1)" "iter_act f xs r1 = (Err e, r')"
    by (auto simp: and_then_apply split: prod.splits res.splits)
  then show ?case
  proof cases
    case 1
    then have "x # xs = [] @ x # xs \<and> iter_act f [] r = (Ok (), r) \<and> f x r = (Err e, r')"
      by (simp add: return_act_apply)
    then show ?thesis by blast
  next
    case 2
    from Cons.IH [OF 2(2)] obtain pre y post r2 where "xs = pre @ y # post" "iter_act f pre r1 = (Ok (), r2)" "f y r2 = (Err e, r')"
      by blast
    with 2(1) have "x # xs = (x # pre) @ y # post \<and> iter_act f (x # pre) r = (Ok (), r2) \<and> f y r2 = (Err e, r')"
      by (simp add: and_then_Ok)
    then show ?thesis by blast
  qed
qed

context accessor_contract
begin

lemma nil_iff:
  assumes "extraction invar view present m" "invar r"
  shows "fst (get_by_instance A c msg m r) = Ok None \<longleftrightarrow> \<not> present"
  using getter_nil [OF assms] get_by_instance_absent [of m c msg] assms(1)
  by (cases "get_by_instance A c msg m r"; cases present) (auto simp: return_act_apply)

end

section \<open>Extraction\<close>

text \<open>A replica count given as a string is read as the decimal number it writes, for every value that fits a
  32-bit signed integer, and is refused outside that range.\<close>

theorem replicas_decimal:
  "ParseInt32 (itoa n) = (if n < 2 ^ 31 then Some (int n) else None)
   \<and> ParseInt32 (''-'' @ itoa n) = (if n \<le> 2 ^ 31 then Some (- int n) else None)"
proof -
  obtain c cs where c: "itoa n = c # cs" using itoa_nonempty by (cases "itoa n") auto
  have "c \<noteq> CHR ''-''" "c \<noteq> CHR ''+''" using itoa_digits [of c n] by (auto simp: c)
  with c decimal_itoa [of n] show ?thesis
    by (simp add: ParseInt32_def unsigned_decimal_def del: decimal.simps)
qed

text \<open>C35 The matched statuses are, in the order of Entries, exactly those with a matcher that holds on the object;
  Undefined stands alone and only when none holds.\<close>

theorem status_matches:
  assumes "clean_runner r" "matchStatus (runner_iface L) phase conditions mappings r = (Ok ss, r')"
  shows "ss = (let hits = map fst (filter (\<lambda>(s, ms). \<exists>m \<in> set ms.
      fst (match_status (runner_iface L) phase (go_map (map (\<lambda>c. (co_Type c, c)) conditions)) m r) = Ok True) (Entries mappings))
    in if hits = [] then [UndefinedStatus] else hits)"
proof -
  from assms(2) obtain hits where hits: "matchEntries (runner_iface L) phase (go_map (map (\<lambda>c. (co_Type c, c)) conditions)) (Entries mappings) r
      = (Ok hits, r')" and ss: "ss = (if hits = [] then [UndefinedStatus] else hits)"
    by (auto simp: matchStatus_def and_then_Ok return_act_apply)
  show ?thesis using std.matchEntries_filter [OF assms(1) hits] by (simp add: ss)
qed

theorem status_matches_witness:
  "[RunningStatus, DegradedStatus] = (let hits = map fst (filter (\<lambda>(s, ms). \<exists>m \<in> set ms.
      fst (match_status sample_iface (Some ''Running'') (go_map (map (\<lambda>c. (co_Type c, c)) [])) m sample_runner) = Ok True)
        (Entries (std_StatusMappings sample_status)))
    in if hits = [] then [UndefinedStatus] else hits)"
proof (rule status_matches [OF sample_clean(1)])
  have "fst (matchStatus sample_iface (Some ''Running'') [] (std_StatusMappings sample_status) sample_runner)
      = Ok [RunningStatus, DegradedStatus]"
    by code_simp
  then show "matchStatus sample_iface (Some ''Running'') [] (std_StatusMappings sample_status) sample_runner
      = (Ok [RunningStatus, DegradedStatus],
         snd (matchStatus sample_iface (Some ''Running'') [] (std_StatusMappings sample_status) sample_runner))"
    by (cases "matchStatus sample_iface (Some ''Running'') [] (std_StatusMappings sample_status) sample_runner") simp
qed

section \<open>Components\<close>

lemma getters_nil_each:
  assumes "clean_runner r"
  shows "fst (GetPodTemplateSpec (NewAccessor (runner_iface L) K) c r) = Ok None \<longleftrightarrow> spec_path sp_PodTemplateSpecPath (comp_definition c) = None"
    and "fst (GetPodSpec (NewAccessor (runner_iface L) K) c r) = Ok None \<longleftrightarrow> spec_path sp_PodSpecPath (comp_definition c) = None"
    and "fst (GetFragmentedPodSpec (NewAccessor (runner_iface L) K) c r) = Ok None
      \<longleftrightarrow> spec_path sp_FragmentedPodSpecDefinition (comp_definition c) = None"
    and "fst (GetPodMetadata (NewAccessor (runner_iface L) K) c r) = Ok None \<longleftrightarrow> spec_path sp_MetadataPath (comp_definition c) = None"
    and "fst (GetScale (NewAccessor (runner_iface L) K) c r) = Ok None \<longleftrightarrow> cd_ScaleDefinition (comp_definition c) = None"
  unfolding std.acc.getter_defs std.acc.nil_iff [OF std.acc.template_law assms] std.acc.nil_iff [OF std.acc.pod_spec_law assms]
    std.acc.nil_iff [OF std.acc.fragmented_law assms] std.acc.nil_iff [OF std.acc.metadata_law assms]
    std.acc.nil_iff [OF std.acc.scale_law assms]
  by simp_all

text \<open>A getter returns nil without an error exactly when the component lacks the definition it needs; any other
  failure is an error.\<close>

theorem getters_nil:
  assumes "clean_runner r"
  shows "(fst (GetPodTemplateSpec (NewAccessor (runner_iface L) K) c r) = Ok None \<longleftrightarrow> spec_path sp_PodTemplateSpecPath (comp_definition c) = None)
    \<and> (fst (GetPodSpec (NewAccessor (runner_iface L) K) c r) = Ok None \<longleftrightarrow> spec_path sp_PodSpecPath (comp_definition c) = None)
    \<and> (fst (GetFragmentedPodSpec (NewAccessor (runner_iface L) K) c r) = Ok None
         \<longleftrightarrow> spec_path sp_FragmentedPodSpecDefinition (comp_definition c) = None)
    \<and> (fst (GetPodMetadata (NewAccessor (runner_iface L) K) c r) = Ok None \<longleftrightarrow> spec_path sp_MetadataPath (comp_definition c) = None)
    \<and> (fst (GetScale (NewAccessor (runner_iface L) K) c r) = Ok None \<longleftrightarrow> cd_ScaleDefinition (comp_definition c) = None)"
  by (simp only: getters_nil_each [OF assms] simp_thms)

theorem getters_nil_witness:
  "fst (GetPodTemplateSpec sample_accessor (component_of sample_worker) sample_runner) = Ok None"
  using getters_nil [OF sample_clean(1), of sample_lib sample_k8s "component_of sample_worker"]
  by (simp add: spec_path_def sample_worker_def)

text \<open>A component without an instance id path has the single instance with the empty id; with a path, no
  instance id is empty.\<close>

theorem instance_ids:
  assumes "clean_runner r" "GetInstanceIds (NewAccessor (runner_iface L) K) c r = (Ok ids, r')"
  shows "if cd_InstanceIdPath (comp_definition c) = None then ids = [[]] else [] \<notin> set ids"
  using std.acc.GetInstanceIds_nonempty [OF _ assms] assms(2) std.acc.ids_default [where c = c and L = L and K = K]
  by (auto simp: return_act_apply)

theorem instance_ids_witness: "[] \<notin> set [''b'', ''a'']"
proof -
  have "fst (GetInstanceIds sample_accessor (component_of sample_worker) sample_runner) = Ok [''b'', ''a'']"
    by code_simp
  then have "GetInstanceIds sample_accessor (component_of sample_worker) sample_runner
      = (Ok [''b'', ''a''], snd (GetInstanceIds sample_accessor (component_of sample_worker) sample_runner))"
    by (cases "GetInstanceIds sample_accessor (component_of sample_worker) sample_runner") simp
  from instance_ids [OF sample_clean(1) this] show ?thesis by (simp add: sample_worker_def)
qed

lemma updates_safe_each:
  assumes "clean_runner r"
  shows "ok_res (\<lambda>_. True) (fst (Component_UpdatePodTemplateSpec (NewAccessor (runner_iface L) K) c m r))"
    and "ok_res (\<lambda>_. True) (fst (Component_UpdatePodSpec (NewAccessor (runner_iface L) K) c m r))"
    and "ok_res (\<lambda>_. True) (fst (Component_UpdatePodMetadata (NewAccessor (runner_iface L) K) c m r))"
    and "ok_res (\<lambda>_. True) (fst (Component_UpdateFragmentedPodSpec (NewAccessor (runner_iface L) K) c fm r))"
proof -
  have "ok_res (\<lambda>_. True) (fst (act r))" if "triple clean_runner act (\<lambda>_. clean_runner) (\<lambda>_. clean_runner)"
    for act :: "('a runner, unit) act"
    using triple_no_panic [OF that assms] triple_returns [OF that assms] by (cases "act r"; cases "fst (act r)") auto
  then show "ok_res (\<lambda>_. True) (fst (Component_UpdatePodTemplateSpec (NewAccessor (runner_iface L) K) c m r))"
    "ok_res (\<lambda>_. True) (fst (Component_UpdatePodSpec (NewAccessor (runner_iface L) K) c m r))"
    "ok_res (\<lambda>_. True) (fst (Component_UpdatePodMetadata (NewAccessor (runner_iface L) K) c m r))"
    "ok_res (\<lambda>_. True) (fst (Component_UpdateFragmentedPodSpec (NewAccessor (runner_iface L) K) c fm r))"
    using std.acc.updates_keep by blast+
qed

text \<open>No update of a component panics or hangs, whatever map it is given, and the runner stays usable.\<close>

theorem updates_safe:
  assumes "clean_runner r"
  shows "ok_res (\<lambda>_. True) (fst (Component_UpdatePodTemplateSpec (NewAccessor (runner_iface L) K) c m r))
    \<and> ok_res (\<lambda>_. True) (fst (Component_UpdatePodSpec (NewAccessor (runner_iface L) K) c m r))
    \<and> ok_res (\<lambda>_. True) (fst (Component_UpdatePodMetadata (NewAccessor (runner_iface L) K) c m r))
    \<and> ok_res (\<lambda>_. True) (fst (Component_UpdateFragmentedPodSpec (NewAccessor (runner_iface L) K) c fm r))"
  using updates_safe_each [OF assms] by blast

theorem updates_safe_witness:
  "ok_res (\<lambda>_. True) (fst (Component_UpdatePodSpec sample_accessor (component_of sample_worker) [] sample_runner))"
  using updates_safe [OF sample_clean(1), of sample_lib sample_k8s "component_of sample_worker" "[]"] by blast

text \<open>What GetPodSpec returned can be written back: the update passes the extracted values, in the order of the
  instance ids, to the accessor, on an object that the reads did not change.\<close>

theorem write_back:
  assumes "clean_runner r" "GetPodSpec (NewAccessor (runner_iface L) K) c r = (Ok (Some m), r1)"
    and "fst (GetInstanceIds (NewAccessor (runner_iface L) K) c r) = Ok ids" "distinct ids"
  shows "\<exists>xs r2. fst (ExtractPodSpec (runner_iface L) K (comp_definition c) r) = Ok xs
    \<and> runner_view L r2 = runner_view L r
    \<and> Component_UpdatePodSpec (NewAccessor (runner_iface L) K) c m r1 = UpdatePodSpec (runner_iface L) (comp_definition c) xs r2"
proof -
  let ?A = "NewAccessor (runner_iface L) K"
  have acc: "acc_ExtractPodSpec ?A = ExtractPodSpec (runner_iface L) K" "acc_UpdatePodSpec ?A = UpdatePodSpec (runner_iface L)"
    by (simp_all add: NewAccessor_def)
  have "spec_path sp_PodSpecPath (comp_definition c) \<noteq> None"
    using getters_nil_each(2) [OF assms(1), of L K c] assms(2) by simp
  then have "reads clean clean_runner (runner_view L) (acc_ExtractPodSpec ?A (comp_definition c))"
    using std.acc.pod_spec_law [where L = L and K = K and d = "comp_definition c"] by (simp add: extraction_def)
  from std.acc.get_unzip [OF this assms(1) assms(2) [unfolded GetPodSpec_def] assms(3,4)]
  obtain xs r2 where "fst (acc_ExtractPodSpec ?A (comp_definition c) r) = Ok xs"
    "unzipWithInstanceIds ?A c m r1 = (Ok (ids, xs), r2)" "runner_view L r2 = runner_view L r" by blast
  then show ?thesis
    by (auto simp: Component_UpdatePodSpec_def and_then_apply wrap_error_apply acc)
qed

theorem write_back_witness:
  "\<exists>xs r2. fst (ExtractPodSpec sample_iface sample_k8s sample_worker sample_runner) = Ok xs
    \<and> runner_view sample_lib r2 = runner_view sample_lib sample_runner
    \<and> Component_UpdatePodSpec sample_accessor (component_of sample_worker) [(''b'', JString ''podB''), (''a'', JString ''podA'')]
        (snd (GetPodSpec sample_accessor (component_of sample_worker) sample_runner))
      = UpdatePodSpec sample_iface sample_worker xs r2"
proof -
  have "fst (GetPodSpec sample_accessor (component_of sample_worker) sample_runner)
      = Ok (Some [(''b'', JString ''podB''), (''a'', JString ''podA'')])"
    by code_simp
  then have get: "GetPodSpec sample_accessor (component_of sample_worker) sample_runner
      = (Ok (Some [(''b'', JString ''podB''), (''a'', JString ''podA'')]),
         snd (GetPodSpec sample_accessor (component_of sample_worker) sample_runner))"
    by (cases "GetPodSpec sample_accessor (component_of sample_worker) sample_runner") simp
  have ids: "fst (GetInstanceIds sample_accessor (component_of sample_worker) sample_runner) = Ok [''b'', ''a'']"
    by code_simp
  from write_back [OF sample_clean(1) get ids] show ?thesis by simp
qed

section \<open>Suspend and resume\<close>

text \<open>Suspend and Resume are no-ops on a component without a suspend definition; with one they succeed exactly
  when all the actions did, so no failure is taken for a missing definition.\<close>

theorem suspend_noop:
  assumes "clean_runner r"
  shows "if cd_SuspendDefinition (comp_definition c) = None
    then Suspend (NewAccessor (runner_iface L) K) c r = (Ok (), r) \<and> Resume (NewAccessor (runner_iface L) K) c r = (Ok (), r)
    else (Suspend (NewAccessor (runner_iface L) K) c r = (Ok (), r') \<longleftrightarrow> ApplySuspendActions (runner_iface L) K (comp_definition c) r = (Ok (), r'))
       \<and> (Resume (NewAccessor (runner_iface L) K) c r = (Ok (), r') \<longleftrightarrow> ApplyResumeActions (runner_iface L) K (comp_definition c) r = (Ok (), r'))"
proof -
  have "acc_ApplySuspendActions (NewAccessor (runner_iface L) K) = ApplySuspendActions (runner_iface L) K"
    "acc_ApplyResumeActions (NewAccessor (runner_iface L) K) = ApplyResumeActions (runner_iface L) K"
    by (simp_all add: NewAccessor_def)
  then show ?thesis
    using std.acc.suspend_absent [of c L K r] std.acc.suspend_present [OF _ assms, of c L K r'] by simp
qed

theorem suspend_noop_witness:
  "Suspend sample_accessor (component_of sample_worker) sample_runner = (Ok (), sample_runner)"
  using suspend_noop [OF sample_clean(1), where c = "component_of sample_worker" and L = sample_lib and K = sample_k8s]
  by (simp add: sample_worker_def)

text \<open>When the suspend actions fail, the actions before the failing one have been applied and stay, and nothing
  after it was tried: the object is what the successful prefix left.\<close>

theorem suspend_partial:
  assumes "cd_SuspendDefinition d = Some sd" "ApplySuspendActions (runner_iface L) K d r = (Err e, r')"
  shows "\<exists>pre ia post r1. indexed (sus_SuspendActions sd) = pre @ ia # post
    \<and> iter_act (apply_action (runner_iface L) K ''suspendActions'') pre r = (Ok (), r1) \<and> runner_view L r' = runner_view L r1"
proof -
  from assms have "iter_act (apply_action (runner_iface L) K ''suspendActions'') (indexed (sus_SuspendActions sd)) r = (Err e, r')"
    by (simp add: ApplySuspendActions_def)
  from iter_act_Err [OF this] obtain pre ia post r1 where pre: "indexed (sus_SuspendActions sd) = pre @ ia # post"
    "iter_act (apply_action (runner_iface L) K ''suspendActions'') pre r = (Ok (), r1)"
    and ia: "apply_action (runner_iface L) K ''suspendActions'' ia r1 = (Err e, r')" by blast
  have "runner_view L r' = runner_view L r1"
    using ia by (auto simp: apply_action_def fail_act_apply wrap_error_apply runner_iface_def runner_Assign_def
        assignWithExpression_eq split: prod.splits sum.splits res.splits)
  with pre show ?thesis by blast
qed

definition failing_suspend :: ComponentDefinition where
  "failing_suspend = sample_root\<lparr>cd_SuspendDefinition := Some \<lparr>sus_SuspendActions =
     [\<lparr>sa_Path = ''.spec.suspend'', sa_Value = ''true''\<rparr>, \<lparr>sa_Path = ''.spec.suspend'', sa_Value = ''maybe''\<rparr>], sus_ResumeActions = []\<rparr>\<rparr>"

theorem suspend_partial_witness:
  "\<exists>pre ia post r1. indexed [\<lparr>sa_Path = ''.spec.suspend'', sa_Value = ''true''\<rparr>, \<lparr>sa_Path = ''.spec.suspend'', sa_Value = ''maybe''\<rparr>]
      = pre @ ia # post
    \<and> iter_act (apply_action sample_iface sample_k8s ''suspendActions'') pre sample_runner = (Ok (), r1)
    \<and> runner_view sample_lib (snd (ApplySuspendActions sample_iface sample_k8s failing_suspend sample_runner)) = runner_view sample_lib r1"
proof -
  have "(case fst (ApplySuspendActions sample_iface sample_k8s failing_suspend sample_runner) of Err e \<Rightarrow> True | _ \<Rightarrow> False)"
    by code_simp
  then obtain e where "ApplySuspendActions sample_iface sample_k8s failing_suspend sample_runner
      = (Err e, snd (ApplySuspendActions sample_iface sample_k8s failing_suspend sample_runner))"
    by (cases "ApplySuspendActions sample_iface sample_k8s failing_suspend sample_runner") (auto split: res.splits)
  from suspend_partial [OF _ this] show ?thesis by (simp add: failing_suspend_def)
qed

section \<open>Factory and pod queries\<close>

text \<open>Over a Karta with unique names, the factory finds the root, the child components, and below every name the components
  that name it as owner, in the order of the definition.\<close>

theorem navigation:
  assumes "NewComponentFactory (Some k) = Ok f" "distinct (component_names k)"
  shows "GetRootComponent f = Ok (component_of (root_of k))
    \<and> GetChildComponents f = Ok (map component_of (children_of k))
    \<and> GetChildComponentsOf f p = Ok (map component_of (owned_by p (children_of k @ [root_of k])))"
  by (simp add: factory_navigation [OF assms])

theorem navigation_witness: "GetChildComponentsOf sample_factory ''job'' = Ok [component_of sample_worker]"
proof -
  have "owned_by ''job'' (children_of sample_karta @ [root_of sample_karta]) = [sample_worker]" by code_simp
  with navigation [OF sample_factory_ok well_formed_distinct [OF sample_well_formed], of "''job''"]
  show ?thesis by simp
qed

text \<open>A selector value is serialized to a JSON string literal that ends where it should, whatever follows it in the query:
  the value cannot end the literal early. Read back it is the value itself when that is valid UTF-8; otherwise every invalid
  byte reads as U+FFFD.\<close>

theorem serialize_roundtrip:
  "\<exists>body. serialize s = Ok (CHR 0x22 # body) \<and> unescape (body @ rest) = Some (to_valid s, rest) \<and> (valid_utf8 s \<longrightarrow> to_valid s = s)"
  using to_valid_id by (simp add: serialize_def escape_string_back)

theorem serialize_roundtrip_witness:
  "\<exists>body. serialize [CHR 0x22, CHR 0xC3, CHR 0xA9] = Ok (CHR 0x22 # body)
    \<and> unescape (body @ '' | halt'') = Some ([CHR 0x22, CHR 0xC3, CHR 0xA9], '' | halt'')"
proof -
  have "valid_utf8 [CHR 0x22, CHR 0xC3, CHR 0xA9]" by code_simp
  with serialize_roundtrip [of "[CHR 0x22, CHR 0xC3, CHR 0xA9]" "'' | halt''"] show ?thesis by auto
qed

text \<open>PassesFilters is a conjunction: it answers true exactly when every filter, read on the same pod, gives the
  single result true.\<close>

theorem filters_and:
  assumes "clean_runner p" "PassesFilters (runner_Evaluate L) fs p = (Ok b, p')"
  shows "b \<longleftrightarrow> (\<forall>f \<in> set fs. fst (runner_Evaluate L f p) = Ok [JBool True])"
  using assms by (rule podq.PassesFilters_iff)

theorem filters_and_witness:
  "True \<longleftrightarrow> (\<forall>f \<in> set [''.labels.gpu'']. fst (runner_Evaluate sample_lib f pod_runner) = Ok [JBool True])"
proof (rule filters_and [OF sample_clean(2)])
  have "fst (PassesFilters sample_eval [''.labels.gpu''] pod_runner) = Ok True" by code_simp
  then show "PassesFilters sample_eval [''.labels.gpu''] pod_runner
      = (Ok True, snd (PassesFilters sample_eval [''.labels.gpu''] pod_runner))"
    by (cases "PassesFilters sample_eval [''.labels.gpu''] pod_runner") simp
qed

end
