(* ===== verification/Instruction_Properties.thy ===== *)
theory Instruction_Properties
  imports Karta_Samples
begin

text \<open>
  Properties of the structure summary, of gang scheduling and of the inference of pod components, over the
  runner of the SDK.
\<close>

section \<open>The structure summary\<close>

lemma sample_gang: "\<exists>gs. ss_gangSchedulingSummary sample_summary = Some gs"
proof -
  have "case ss_gangSchedulingSummary sample_summary of None \<Rightarrow> False | Some gs \<Rightarrow> True" by code_simp
  then show ?thesis by (simp split: option.splits)
qed

text \<open>C15 Building the summary fails to return exactly when the Karta has gang scheduling instructions and some component's
  chain of owners never leaves the named components, as on an ownership cycle.\<close>

theorem summary_hangs_iff:
  "NewStructureSummary sorter (Some k) = NoReturn \<longleftrightarrow>
     gang_of k \<noteq> None \<and> (\<exists>c \<in> set (getAllComponents k). \<forall>d. (parent_of (parents k) ^^ d) (cd_Name c) \<noteq> [])"
proof -
  have "findEffectiveComponentCandidates g (parents k) n = None \<longleftrightarrow> (\<forall>d. (parent_of (parents k) ^^ d) n \<noteq> [])" for g n
    using find_returns_iff [of g "parents k" n] by (cases "findEffectiveComponentCandidates g (parents k) n") auto
  note hangs = this
  show ?thesis
  proof (cases "gang_of k")
    case (Some g)
    have "NewStructureSummary sorter (Some k) = NoReturn
        \<longleftrightarrow> buildEffectiveComponentCandidates sorter (gs_PodGroups g) (parents k) (getAllComponents k) Map.empty = NoReturn"
      by (simp add: NewStructureSummary_eq Some split: res.split)
    then show ?thesis by (simp add: build_candidates_returns_iff hangs Some)
  qed (simp add: NewStructureSummary_eq)
qed

text \<open>On every Karta that Validate accepts, the summary is built.\<close>

theorem summary_returns:
  assumes "Validate parse (Some k) = None"
  shows "\<exists>s. NewStructureSummary sorter (Some k) = Ok s"
  using assms by (simp add: Validate_None NewStructureSummary_total)

theorem summary_returns_witness: "\<exists>s. NewStructureSummary insertion_sort (Some sample_karta) = Ok s"
  by (rule summary_returns [OF sample_valid])

text \<open>The summary and the component factory of an accepted Karta list the same children of every component, in the same
  order.\<close>

theorem children_agree:
  assumes "Validate parse (Some k) = None" "NewComponentFactory (Some k) = Ok f"
    and "NewStructureSummary sorter (Some k) = Ok s" "GetChildComponentsOf f p = Ok cs"
  shows "get_slice (ss_childrenMap s) p = map comp_name cs"
proof -
  have wf: "well_formed parse k" using assms(1) by (simp add: Validate_None)
  then have "cd_OwnerRef (root_of k) = None" by (simp add: well_formed_def)
  then have "owned_by p (getAllComponents k) = owned_by p (children_of k @ [root_of k])"
    by (simp add: owned_by_def getAllComponents_def)
  moreover have "cs = map component_of (owned_by p (children_of k @ [root_of k]))"
    using assms(4) factory_navigation(3) [OF assms(2) well_formed_distinct [OF wf], of p] by simp
  ultimately show ?thesis
    using NewStructureSummary_basic(7) [OF assms(3), of p] by simp
qed

theorem children_agree_witness: "get_slice (ss_childrenMap sample_summary) ''job'' = map comp_name [component_of sample_worker]"
proof (rule children_agree [OF sample_valid sample_factory_ok sample_summary_ok])
  show "GetChildComponentsOf sample_factory ''job'' = Ok [component_of sample_worker]" by code_simp
qed

text \<open>The gang candidates of a component are its own mentions in the pod groups, followed by those of its ancestors, whatever
  sorted permutation sort.Slice chooses.\<close>

theorem candidates_direct_first:
  assumes "slice_sorter sorter" "Validate parse (Some k) = None" "NewStructureSummary sorter (Some k) = Ok s"
    and "ss_gangSchedulingSummary s = Some gs" "gang_of k = Some g" "c \<in> set (getAllComponents k)"
  shows "\<exists>direct others d. get_slice (gss_effectiveComponentCandidates gs) (cd_Name c) = direct @ others
    \<and> mset direct = mset (mentions (gs_PodGroups g) (cd_Name c))
    \<and> rooted_at (named_components k) d (cd_Name c)
    \<and> mset others = mset (concat (map (mentions (gs_PodGroups g)) (tl (lineage (parents k) d (cd_Name c)))))"
proof -
  have wf: "well_formed parse k" using assms(2) by (simp add: Validate_None)
  have "cd_Name c \<in> set (component_names k)"
    using assms(6) by (auto simp: component_names_def getAllComponents_def)
  then obtain d where d: "rooted_at (named_components k) d (cd_Name c)" using well_formed_rooted [OF wf] by blast
  show ?thesis
    unfolding slice_sorter.candidates_of [OF assms(1) wf assms(3-6)]
    using slice_sorter.candidates_split [OF assms(1) well_formed_distinct [OF wf] well_formed_closed [OF wf] d] d by blast
qed

theorem candidates_direct_first_witness:
  "\<exists>direct others d. get_slice (gss_effectiveComponentCandidates (the (ss_gangSchedulingSummary sample_summary))) (cd_Name sample_worker)
      = direct @ others
    \<and> mset direct = mset (mentions sample_groups (cd_Name sample_worker))
    \<and> rooted_at (named_components sample_karta) d (cd_Name sample_worker)
    \<and> mset others = mset (concat (map (mentions sample_groups) (tl (lineage (parents sample_karta) d (cd_Name sample_worker)))))"
proof -
  have g: "gang_of sample_karta = Some \<lparr>gs_PodGroups = sample_groups, gs_PodGroup = None\<rparr>"
    by (simp add: sample_karta_def karta_with_def)
  have c: "sample_worker \<in> set (getAllComponents sample_karta)"
    by (simp add: getAllComponents_def sample_karta_def karta_with_def)
  have gs: "ss_gangSchedulingSummary sample_summary = Some (the (ss_gangSchedulingSummary sample_summary))" using sample_gang by auto
  from candidates_direct_first [OF isort.slice_sorter_axioms sample_valid sample_summary_ok gs g c]
  show ?thesis unfolding GangSchedulingInstruction.select_convs .
qed

section \<open>Gang scheduling\<close>

text \<open>The effective component of a pod is the first candidate whose filters all give true on the pod; there is none exactly
  when no candidate passes.\<close>

theorem effective_first:
  assumes "clean_runner p" "ss_gangSchedulingSummary s = Some gs"
    and "GetPodGroupingEffectiveComponent (runner_Evaluate L) n s p = (Ok x, p')"
  shows "x = map_option effective_of (find (passes (runner_Evaluate L) p) (get_slice (gss_effectiveComponentCandidates gs) n))"
proof -
  have "try_candidates (runner_Evaluate L) (get_slice (gss_effectiveComponentCandidates gs) n) p = (Ok x, p')"
    using assms(2,3)
    by (auto simp: GetPodGroupingEffectiveComponent_def getEffectiveComponentForPod_def get_slice_def split: option.splits if_splits)
  from podq.try_candidates_find [OF assms(1) this] show ?thesis .
qed

theorem effective_first_witness:
  "Some (effective_of \<lparr>ecc_effectiveComponent = ''worker'', ecc_podGroupName = ''gpu'', ecc_member = sample_member ''worker'' [''.labels.gpu'']\<rparr>)
    = map_option effective_of (find (passes sample_eval pod_runner)
        (get_slice (gss_effectiveComponentCandidates (the (ss_gangSchedulingSummary sample_summary))) ''worker''))"
proof -
  have gs: "ss_gangSchedulingSummary sample_summary = Some (the (ss_gangSchedulingSummary sample_summary))" using sample_gang by auto
  let ?x = "Some (effective_of \<lparr>ecc_effectiveComponent = ''worker'', ecc_podGroupName = ''gpu'', ecc_member = sample_member ''worker'' [''.labels.gpu'']\<rparr>)"
  have "fst (GetPodGroupingEffectiveComponent sample_eval ''worker'' sample_summary pod_runner) = Ok ?x" by code_simp
  then have "GetPodGroupingEffectiveComponent sample_eval ''worker'' sample_summary pod_runner
      = (Ok ?x, snd (GetPodGroupingEffectiveComponent sample_eval ''worker'' sample_summary pod_runner))"
    by (cases "GetPodGroupingEffectiveComponent sample_eval ''worker'' sample_summary pod_runner") simp
  from effective_first [OF sample_clean(2) gs this] show ?thesis .
qed

text \<open>The sum of the scales of a component does not depend on the order in which the map of instances is visited.\<close>

theorem scale_order:
  assumes "mset kvs = mset kvs'"
  shows "sum_scales (Some kvs) = sum_scales (Some kvs')"
  using assms by (rule sum_scales_order)

theorem scale_order_witness:
  "sum_scales (Some [(''a'', \<lparr>scale_Replicas = Some 1, scale_MinReplicas = None, scale_MaxReplicas = None\<rparr>),
                     (''b'', \<lparr>scale_Replicas = Some 2, scale_MinReplicas = None, scale_MaxReplicas = None\<rparr>)])
   = sum_scales (Some [(''b'', \<lparr>scale_Replicas = Some 2, scale_MinReplicas = None, scale_MaxReplicas = None\<rparr>),
                       (''a'', \<lparr>scale_Replicas = Some 1, scale_MinReplicas = None, scale_MaxReplicas = None\<rparr>)])"
  by (rule scale_order) simp

text \<open>C8 On an accepted Karta, fuel for one more level than there are child components is enough: the scale of any subtree is
  computed or an error is returned; the computation neither recurses without end nor panics, and it only reads.\<close>

theorem scale_returns:
  assumes "Validate parse (Some k) = None" "NewComponentFactory (Some k) = Ok f" "NewStructureSummary sorter (Some k) = Ok s"
    and "n \<in> set (component_names k)" "length (children_of k) < fuel" "clean_runner r"
  shows "ok_res (\<lambda>e. \<not> isDefinitionNotFoundError e) (fst (CalculateSubtreeScale fuel (NewAccessor (runner_iface L) K) n i f s r))
    \<and> runner_view L (snd (CalculateSubtreeScale fuel (NewAccessor (runner_iface L) K) n i f s r)) = runner_view L r"
proof -
  have wf: "well_formed parse k" using assms(1) by (simp add: Validate_None)
  obtain d where "rooted_at (named_components k) d n" using well_formed_rooted [OF wf assms(4)] by blast
  from std.acc.CalculateSubtreeScale_reads [OF same_kartaI [OF assms(2,3)] well_formed_distinct [OF wf] this assms(5)]
  have rd: "reads clean clean_runner (runner_view L) (CalculateSubtreeScale fuel (NewAccessor (runner_iface L) K) n i f s)" .
  show ?thesis using readsD(2,3) [OF rd assms(6)] by (rule conjI [rotated])
qed

theorem scale_returns_witness:
  "ok_res (\<lambda>e. \<not> isDefinitionNotFoundError e)
     (fst (CalculateSubtreeScale 2 sample_accessor ''job'' None sample_factory sample_summary sample_runner))"
proof (rule scale_returns [OF sample_valid sample_factory_ok sample_summary_ok, THEN conjunct1])
  show "''job'' \<in> set (component_names sample_karta)" by code_simp
  show "length (children_of sample_karta) < 2" by code_simp
qed (rule sample_clean)

text \<open>What each component contributes, over the integers, and how many instances it has.\<close>

definition own_scale :: "('r, 'o) ComponentAccessor \<Rightarrow> ComponentFactory \<Rightarrow> 'r \<Rightarrow> string \<Rightarrow> int" where
  "own_scale A f r n =
     (case GetComponent f n of Ok c \<Rightarrow> (case fst (GetScale A c r) of Ok scales \<Rightarrow> exact_scale scales | _ \<Rightarrow> 0) | _ \<Rightarrow> 0)"

definition instance_count :: "('r, 'o) ComponentAccessor \<Rightarrow> ComponentFactory \<Rightarrow> 'r \<Rightarrow> string \<Rightarrow> nat" where
  "instance_count A f r n =
     (case GetComponent f n of Ok c \<Rightarrow> (case fst (GetInstanceIds A c r) of Ok ids \<Rightarrow> length ids | _ \<Rightarrow> 0) | _ \<Rightarrow> 0)"

lemma own_scale_nonneg: "0 \<le> own_scale A f r n"
  by (auto simp: own_scale_def exact_scale_nonneg split: res.splits)

text \<open>C4 With scale definitions, the scale of a subtree is the exact product-and-sum of the replica counts over the integers
  whenever that number fits a 32-bit signed integer: nothing wraps below it.\<close>

theorem scale_exact:
  assumes "Validate parse (Some k) = None" "NewComponentFactory (Some k) = Ok f" "NewStructureSummary sorter (Some k) = Ok s"
    and "n \<in> set (component_names k)" "length (children_of k) < fuel" "clean_runner r" "ss_hasScaleDefinition s"
    and "CalculateSubtreeScale fuel (NewAccessor (runner_iface L) K) n None f s r = (Ok w, r')"
    and "exact_subtree fuel (get_slice (ss_childrenMap s)) (own_scale (NewAccessor (runner_iface L) K) f r) n < 2 ^ 31"
  shows "sint w = exact_subtree fuel (get_slice (ss_childrenMap s)) (own_scale (NewAccessor (runner_iface L) K) f r) n"
proof -
  let ?A = "NewAccessor (runner_iface L) K"
  let ?root = "\<lparr>sr_ComponentName = n, sr_InstanceId = None\<rparr>"
  have wf: "well_formed parse k" using assms(1) by (simp add: Validate_None)
  obtain d where d: "rooted_at (named_components k) d n" using well_formed_rooted [OF wf assms(4)] by blast
  have run: "calculateSubtreeScaleByDefinition fuel ?A n ?root f s r = (Ok w, r')"
    using assms(7,8) by (simp add: CalculateSubtreeScale_def)
  have own: "own_scale ?A f r m = exact_scale sc"
    if "GetComponent f m = Ok c" "clean_runner q" "runner_view L q = runner_view L r" "GetScale ?A c q = (Ok sc, q')" for m c q sc q'
    using reads_same [OF std.acc.getters_read(5) assms(6) that(2) that(3) [symmetric], of K c] that(1,4) by (simp add: own_scale_def)
  have "w = word_of_int (exact_subtree fuel (get_slice (ss_childrenMap s)) (own_scale ?A f r) n)"
    by (rule std.acc.byDefinition_exact [OF same_kartaI [OF assms(2,3)] well_formed_distinct [OF wf] _ own own_scale_nonneg d
          _ assms(6) refl assms(9) run]) (use assms(5) in simp_all)
  then show ?thesis
    using assms(9) by (simp only:) (rule sint_word_of_int_small, rule exact_subtree_nonneg, rule own_scale_nonneg)
qed

theorem scale_exact_witness:
  "sint (14 :: int32) = exact_subtree 2 (get_slice (ss_childrenMap sample_summary)) (own_scale sample_accessor sample_factory sample_runner) ''job''"
proof (rule scale_exact [OF sample_valid sample_factory_ok sample_summary_ok])
  show "''job'' \<in> set (component_names sample_karta)" by code_simp
  show "length (children_of sample_karta) < 2" by code_simp
  show "clean_runner sample_runner" by (rule sample_clean)
  show "ss_hasScaleDefinition sample_summary" by code_simp
  have "fst (CalculateSubtreeScale 2 sample_accessor ''job'' None sample_factory sample_summary sample_runner) = Ok 14"
    by code_simp
  then show "CalculateSubtreeScale 2 sample_accessor ''job'' None sample_factory sample_summary sample_runner
      = (Ok 14, snd (CalculateSubtreeScale 2 sample_accessor ''job'' None sample_factory sample_summary sample_runner))"
    by (cases "CalculateSubtreeScale 2 sample_accessor ''job'' None sample_factory sample_summary sample_runner") simp
  show "exact_subtree 2 (get_slice (ss_childrenMap sample_summary)) (own_scale sample_accessor sample_factory sample_runner) ''job'' < 2 ^ 31"
    by code_simp
qed

text \<open>Without scale definitions, the scale of a subtree is the number of instances of the leaf components found below,
  as a 32-bit number.\<close>

theorem leaves_counted:
  assumes "Validate parse (Some k) = None" "NewComponentFactory (Some k) = Ok f" "NewStructureSummary sorter (Some k) = Ok s"
    and "n \<in> set (component_names k)" "length (children_of k) < fuel" "clean_runner r" "\<not> ss_hasScaleDefinition s"
    and "CalculateSubtreeScale fuel (NewAccessor (runner_iface L) K) n None f s r = (Ok w, r')"
  shows "w = word_of_nat (leaf_count fuel (get_slice (ss_childrenMap s)) (ss_leafComponents s)
    (instance_count (NewAccessor (runner_iface L) K) f r) n)"
proof -
  let ?A = "NewAccessor (runner_iface L) K"
  let ?root = "\<lparr>sr_ComponentName = n, sr_InstanceId = None\<rparr>"
  have wf: "well_formed parse k" using assms(1) by (simp add: Validate_None)
  obtain d where d: "rooted_at (named_components k) d n" using well_formed_rooted [OF wf assms(4)] by blast
  have run: "calculateSubtreeScaleByLeaves fuel ?A n ?root f s r = (Ok w, r')"
    using assms(7,8) by (simp add: CalculateSubtreeScale_def)
  have count: "instance_count ?A f r m = length ids"
    if "GetComponent f m = Ok c" "clean_runner q" "runner_view L q = runner_view L r" "GetInstanceIds ?A c q = (Ok ids, q')" for m c q ids q'
    using reads_same [OF std.acc.GetInstanceIds_reads assms(6) that(2) that(3) [symmetric], of K c] that(1,4) by (simp add: instance_count_def)
  show ?thesis
    by (rule std.acc.byLeaves_count [OF same_kartaI [OF assms(2,3)] well_formed_distinct [OF wf] _ count d _ assms(6) refl run])
       (use assms(5) in simp_all)
qed

definition plain_karta :: Karta where
  "plain_karta = karta_with (sample_root\<lparr>cd_ScaleDefinition := None\<rparr>) [sample_worker\<lparr>cd_ScaleDefinition := None\<rparr>]"

definition plain_factory :: ComponentFactory where
  "plain_factory = (case NewComponentFactory (Some plain_karta) of Ok f \<Rightarrow> f | _ \<Rightarrow> undefined)"

definition plain_summary :: StructureSummary where
  "plain_summary = (case NewStructureSummary insertion_sort (Some plain_karta) of Ok s \<Rightarrow> s | _ \<Rightarrow> undefined)"

theorem leaves_counted_witness:
  "(2 :: int32) = word_of_nat (leaf_count 2 (get_slice (ss_childrenMap plain_summary)) (ss_leafComponents plain_summary)
    (instance_count sample_accessor plain_factory sample_runner) ''job'')"
proof (rule leaves_counted)
  show valid: "Validate (jq_parse sample_lib) (Some plain_karta) = None" by code_simp
  show "NewComponentFactory (Some plain_karta) = Ok plain_factory"
    using NewComponentFactory_total [of plain_karta] by (auto simp: plain_factory_def)
  have "well_formed (jq_parse sample_lib) plain_karta" using valid by (simp add: Validate_None)
  from NewStructureSummary_total [OF this, of insertion_sort]
  show "NewStructureSummary insertion_sort (Some plain_karta) = Ok plain_summary" by (auto simp: plain_summary_def)
  show "''job'' \<in> set (component_names plain_karta)" by code_simp
  show "length (children_of plain_karta) < 2" by code_simp
  show "clean_runner sample_runner" by (rule sample_clean)
  show "\<not> ss_hasScaleDefinition plain_summary" by code_simp
  have "fst (CalculateSubtreeScale 2 sample_accessor ''job'' None plain_factory plain_summary sample_runner) = Ok 2"
    by code_simp
  then show "CalculateSubtreeScale 2 sample_accessor ''job'' None plain_factory plain_summary sample_runner
      = (Ok 2, snd (CalculateSubtreeScale 2 sample_accessor ''job'' None plain_factory plain_summary sample_runner))"
    by (cases "CalculateSubtreeScale 2 sample_accessor ''job'' None plain_factory plain_summary sample_runner") simp
qed

section \<open>The component of a pod\<close>

text \<open>A pod belongs to the only leaf component if there is one, and otherwise to the first leaf component whose type
  selector it matches.\<close>

theorem infer_first:
  assumes "clean_runner p" "InferPodComponent (runner_Evaluate L) podName s p = (Ok n, p')"
  shows "n \<in> set (ss_leafComponents s)
    \<and> (length (ss_leafComponents s) \<noteq> 1 \<longrightarrow> find (leaf_matches (runner_Evaluate L) s p) (ss_leafComponents s) = Some n)"
proof (cases "length (ss_leafComponents s) = 1")
  case True
  then obtain m where "ss_leafComponents s = [m]" by (auto simp: length_Suc_conv)
  with assms(2) show ?thesis by (simp add: InferPodComponent_def return_act_apply)
next
  case False
  then have "infer_loop (runner_Evaluate L) s podName (ss_leafComponents s) p = (Ok n, p')"
    using assms(2) by (auto simp: InferPodComponent_def split: list.splits)
  from podq.infer_loop_find [OF assms(1) this] show ?thesis by (auto simp: find_Some_iff)
qed

theorem infer_first_witness: "''worker'' \<in> set (ss_leafComponents sample_summary)"
proof -
  have "fst (InferPodComponent sample_eval ''pod-0'' sample_summary pod_runner) = Ok ''worker''" by code_simp
  then have "InferPodComponent sample_eval ''pod-0'' sample_summary pod_runner
      = (Ok ''worker'', snd (InferPodComponent sample_eval ''pod-0'' sample_summary pod_runner))"
    by (cases "InferPodComponent sample_eval ''pod-0'' sample_summary pod_runner") simp
  from infer_first [OF sample_clean(2) this] show ?thesis by blast
qed

text \<open>The instance inferred for a pod is one of the component's instance ids and not empty.\<close>

theorem infer_instance:
  assumes "InferPodComponentInstance num E A n f (p, r) = (Ok (Some i), q)"
  shows "\<exists>c ids r'. GetComponent f n = Ok c \<and> GetInstanceIds A c r = (Ok ids, r') \<and> i \<in> set ids \<and> i \<noteq> []"
  using assms by (rule InferPodComponentInstance_in)

theorem infer_instance_witness:
  "\<exists>c ids r'. GetComponent sample_factory ''worker'' = Ok c \<and> GetInstanceIds sample_accessor c sample_runner = (Ok ids, r')
     \<and> ''a'' \<in> set ids \<and> ''a'' \<noteq> ([] :: string)"
proof (rule infer_instance)
  have "fst (InferPodComponentInstance (\<lambda>_. []) sample_eval sample_accessor ''worker'' sample_factory (pod_runner, sample_runner)) = Ok (Some ''a'')"
    by code_simp
  then show "InferPodComponentInstance (\<lambda>_. []) sample_eval sample_accessor ''worker'' sample_factory (pod_runner, sample_runner)
      = (Ok (Some ''a''), snd (InferPodComponentInstance (\<lambda>_. []) sample_eval sample_accessor ''worker'' sample_factory (pod_runner, sample_runner)))"
    by (cases "InferPodComponentInstance (\<lambda>_. []) sample_eval sample_accessor ''worker'' sample_factory (pod_runner, sample_runner)") simp
qed

end
