(* ===== verification/Catalog_Kartas.thy ===== *)
theory Catalog_Kartas
  imports Karta_Types
begin

text \<open>
  \<^verbatim>\<open>karta/sdk/pkg/catalog/kartas\<close>: the built-in Karta definitions, one definition per function of the package. A composite
  literal of Go leaves the fields it does not name at their zero values, so it is an update of the zero value of its
  struct; ptr.To is \<open>Some\<close>. The type metadata (run.ai/v1alpha1, Karta) is the same for every definition and is left out, as in
  \<open>Karta\<close>. Long literals are split at the status definition, the components and the instructions.
\<close>

section \<open>Zero values\<close>

definition zero_GroupVersionKind :: GroupVersionKind where
  "zero_GroupVersionKind = \<lparr>gvk_Group = [], gvk_Version = [], gvk_Kind = []\<rparr>"

definition zero_SuspendAction :: SuspendAction where
  "zero_SuspendAction = \<lparr>sa_Path = [], sa_Value = []\<rparr>"

definition zero_SuspendDefinition :: SuspendDefinition where
  "zero_SuspendDefinition = \<lparr>sus_SuspendActions = [], sus_ResumeActions = []\<rparr>"

definition zero_FragmentedPodSpecDefinition :: FragmentedPodSpecDefinition where
  "zero_FragmentedPodSpecDefinition = \<lparr>fd_SchedulerNamePath = None, fd_LabelsPath = None, fd_AnnotationsPath = None, fd_ResourcesPath = None, fd_ResourceClaimsPath = None, fd_PodAffinityPath = None, fd_NodeAffinityPath = None, fd_ContainersPath = None, fd_ContainerPath = None, fd_PriorityClassNamePath = None, fd_ImagePath = None\<rparr>"

definition zero_SpecDefinition :: SpecDefinition where
  "zero_SpecDefinition = \<lparr>sp_PodTemplateSpecPath = None, sp_PodSpecPath = None, sp_MetadataPath = None, sp_FragmentedPodSpecDefinition = None\<rparr>"

definition zero_ScaleDefinition :: ScaleDefinition where
  "zero_ScaleDefinition = \<lparr>sc_ReplicasPath = None, sc_MinReplicasPath = None, sc_MaxReplicasPath = None\<rparr>"

definition zero_ComponentTypeSelector :: ComponentTypeSelector where
  "zero_ComponentTypeSelector = \<lparr>cts_KeyPath = [], cts_Value = None\<rparr>"

definition zero_ComponentInstanceSelector :: ComponentInstanceSelector where
  "zero_ComponentInstanceSelector = \<lparr>cis_IdPath = []\<rparr>"

definition zero_ReplicaSelector :: ReplicaSelector where
  "zero_ReplicaSelector = \<lparr>rs_KeyPath = []\<rparr>"

definition zero_PodSelector :: PodSelector where
  "zero_PodSelector = \<lparr>psel_ComponentTypeSelector = None, psel_ComponentInstanceSelector = None, psel_ReplicaSelector = None\<rparr>"

definition zero_PhaseDefinition :: PhaseDefinition where
  "zero_PhaseDefinition = \<lparr>pd_Path = []\<rparr>"

definition zero_ConditionsDefinition :: ConditionsDefinition where
  "zero_ConditionsDefinition = \<lparr>cdef_Path = [], cdef_TypeFieldName = [], cdef_StatusFieldName = [], cdef_MessageFieldName = None, cdef_ReasonFieldName = None\<rparr>"

definition zero_ExpressionMatcher :: ExpressionMatcher where
  "zero_ExpressionMatcher = \<lparr>em_Expression = [], em_ExpectedResult = []\<rparr>"

definition zero_ExpectedCondition :: ExpectedCondition where
  "zero_ExpectedCondition = \<lparr>ec_Type = [], ec_Status = None, ec_Reason = None\<rparr>"

definition zero_StatusMatcher :: StatusMatcher where
  "zero_StatusMatcher = \<lparr>sm_ByPhase = [], sm_ByConditions = [], sm_ByExpression = None\<rparr>"

definition zero_StatusMappings :: StatusMappings where
  "zero_StatusMappings = \<lparr>map_Initializing = [], map_Running = [], map_Completed = [], map_Failed = [], map_Degraded = [], map_Suspended = [], map_Suspending = [], map_Resuming = []\<rparr>"

definition zero_StatusDefinition :: StatusDefinition where
  "zero_StatusDefinition = \<lparr>std_PhaseDefinition = None, std_ConditionsDefinition = None, std_StatusMappings = zero_StatusMappings\<rparr>"

definition zero_PodGroupMemberDefinition :: PodGroupMemberDefinition where
  "zero_PodGroupMemberDefinition = \<lparr>mem_ComponentName = [], mem_GroupByKeyPaths = [], mem_Filters = []\<rparr>"

definition zero_PodGroupDefinition :: PodGroupDefinition where
  "zero_PodGroupDefinition = \<lparr>pg_Name = [], pg_Members = []\<rparr>"

definition zero_GangSchedulingInstruction :: GangSchedulingInstruction where
  "zero_GangSchedulingInstruction = \<lparr>gs_PodGroups = [], gs_PodGroup = None\<rparr>"

definition zero_StructureDefinition :: StructureDefinition where
  "zero_StructureDefinition = \<lparr>str_RootComponent = zero_ComponentDefinition, str_ChildComponents = [], str_AdditionalChildKinds = []\<rparr>"

definition zero_OptimizationInstructions :: OptimizationInstructions where
  "zero_OptimizationInstructions = \<lparr>oi_GangScheduling = None\<rparr>"

definition zero_KartaSpec :: KartaSpec where
  "zero_KartaSpec = \<lparr>ks_StructureDefinition = zero_StructureDefinition, ks_Instructions = zero_OptimizationInstructions\<rparr>"

definition zero_Karta :: Karta where
  "zero_Karta = \<lparr>k_Name = [], k_Spec = zero_KartaSpec\<rparr>"

section \<open>batch\_job.go\<close>

definition BatchJob_status :: StatusDefinition where
  "BatchJob_status =
     zero_StatusDefinition\<lparr>
       std_ConditionsDefinition := Some (zero_ConditionsDefinition\<lparr>
         cdef_Path := ''.status.conditions'',
         cdef_TypeFieldName := ''type'',
         cdef_StatusFieldName := ''status'',
         cdef_MessageFieldName := Some ''message'',
         cdef_ReasonFieldName := Some ''reason''\<rparr>),
       std_StatusMappings := zero_StatusMappings\<lparr>
         map_Initializing := [zero_StatusMatcher\<lparr>
            sm_ByExpression := Some (zero_ExpressionMatcher\<lparr>
              em_Expression := ''(.status.active // 0) > 0 and (.status.ready // 0) == 0'',
              em_ExpectedResult := ''true''\<rparr>)\<rparr>],
         map_Running := [zero_StatusMatcher\<lparr>
            sm_ByExpression := Some (zero_ExpressionMatcher\<lparr>
              em_Expression := ''(.status.active // 0) > 0 and (.status.ready // 0) > 0'',
              em_ExpectedResult := ''true''\<rparr>)\<rparr>],
         map_Completed := [zero_StatusMatcher\<lparr>
            sm_ByConditions := [zero_ExpectedCondition\<lparr>ec_Type := ''Complete'', ec_Status := Some ''True''\<rparr>]\<rparr>,
          zero_StatusMatcher\<lparr>
            sm_ByConditions := [zero_ExpectedCondition\<lparr>ec_Type := ''SuccessCriteriaMet'', ec_Status := Some ''True''\<rparr>]\<rparr>],
         map_Failed := [zero_StatusMatcher\<lparr>
            sm_ByConditions := [zero_ExpectedCondition\<lparr>ec_Type := ''Failed'', ec_Status := Some ''True''\<rparr>]\<rparr>,
          zero_StatusMatcher\<lparr>
            sm_ByConditions := [zero_ExpectedCondition\<lparr>ec_Type := ''FailureTarget'', ec_Status := Some ''True''\<rparr>]\<rparr>],
         map_Degraded := [zero_StatusMatcher\<lparr>
            sm_ByExpression := Some (zero_ExpressionMatcher\<lparr>
              em_Expression := ''.spec.parallelism > 1 and (.status.ready // 0) < .spec.parallelism and ((.status.succeeded // 0) > 0 or (.status.failed // 0) > 0)'',
              em_ExpectedResult := ''true''\<rparr>)\<rparr>],
         map_Suspended := [zero_StatusMatcher\<lparr>
            sm_ByConditions := [zero_ExpectedCondition\<lparr>ec_Type := ''Suspended'', ec_Status := Some ''True''\<rparr>]\<rparr>]\<rparr>\<rparr>"

definition BatchJob_root :: ComponentDefinition where
  "BatchJob_root =
     zero_ComponentDefinition\<lparr>
       cd_Name := ''job'',
       cd_Kind := Some (zero_GroupVersionKind\<lparr>gvk_Group := ''batch'', gvk_Version := ''v1'', gvk_Kind := ''Job''\<rparr>),
       cd_ScaleDefinition := Some (zero_ScaleDefinition\<lparr>sc_ReplicasPath := Some ''.spec.parallelism // 1''\<rparr>),
       cd_SpecDefinition := Some (zero_SpecDefinition\<lparr>sp_PodTemplateSpecPath := Some ''.spec.template''\<rparr>),
       cd_StatusDefinition := Some BatchJob_status,
       cd_SuspendDefinition := Some (zero_SuspendDefinition\<lparr>
         sus_SuspendActions := [zero_SuspendAction\<lparr>sa_Path := ''.spec.suspend'', sa_Value := ''true''\<rparr>],
         sus_ResumeActions := [zero_SuspendAction\<lparr>sa_Path := ''.spec.suspend'', sa_Value := ''false''\<rparr>]\<rparr>)\<rparr>"

definition BatchJob_instructions :: OptimizationInstructions where
  "BatchJob_instructions =
     zero_OptimizationInstructions\<lparr>
       oi_GangScheduling := Some (zero_GangSchedulingInstruction\<lparr>
         gs_PodGroups := [zero_PodGroupDefinition\<lparr>
            pg_Name := ''job'',
            pg_Members := [zero_PodGroupMemberDefinition\<lparr>
               mem_ComponentName := ''job'',
               mem_GroupByKeyPaths := [''.metadata.labels[\"batch.kubernetes.io/job-name\"]'']\<rparr>]\<rparr>]\<rparr>)\<rparr>"

definition BatchJob :: Karta where
  "BatchJob =
     zero_Karta\<lparr>
       k_Name := ''batch-job-v1'',
       k_Spec := zero_KartaSpec\<lparr>
         ks_StructureDefinition := zero_StructureDefinition\<lparr>str_RootComponent := BatchJob_root\<rparr>,
         ks_Instructions := BatchJob_instructions\<rparr>\<rparr>"

section \<open>cronjob.go\<close>

definition CronJob_status :: StatusDefinition where
  "CronJob_status =
     zero_StatusDefinition\<lparr>
       std_StatusMappings := zero_StatusMappings\<lparr>
         map_Initializing := [zero_StatusMatcher\<lparr>
            sm_ByExpression := Some (zero_ExpressionMatcher\<lparr>
              em_Expression := ''(.spec.suspend // false) != true and (.status.lastScheduleTime == null)'',
              em_ExpectedResult := ''true''\<rparr>)\<rparr>],
         map_Running := [zero_StatusMatcher\<lparr>
            sm_ByExpression := Some (zero_ExpressionMatcher\<lparr>
              em_Expression := ''(.spec.suspend // false) != true and (.status.lastScheduleTime != null)'',
              em_ExpectedResult := ''true''\<rparr>)\<rparr>],
         map_Suspended := [zero_StatusMatcher\<lparr>
            sm_ByExpression := Some (zero_ExpressionMatcher\<lparr>
              em_Expression := ''(.spec.suspend // false) == true'',
              em_ExpectedResult := ''true''\<rparr>)\<rparr>]\<rparr>\<rparr>"

definition CronJob_root :: ComponentDefinition where
  "CronJob_root =
     zero_ComponentDefinition\<lparr>
       cd_Name := ''cronjob'',
       cd_Kind := Some (zero_GroupVersionKind\<lparr>gvk_Group := ''batch'', gvk_Version := ''v1'', gvk_Kind := ''CronJob''\<rparr>),
       cd_ScaleDefinition := Some (zero_ScaleDefinition\<lparr>sc_ReplicasPath := Some ''.spec.jobTemplate.spec.parallelism // 1''\<rparr>),
       cd_SpecDefinition := Some (zero_SpecDefinition\<lparr>sp_PodTemplateSpecPath := Some ''.spec.jobTemplate.spec.template''\<rparr>),
       cd_SuspendDefinition := Some (zero_SuspendDefinition\<lparr>
         sus_SuspendActions := [zero_SuspendAction\<lparr>sa_Path := ''.spec.suspend'', sa_Value := ''true''\<rparr>],
         sus_ResumeActions := [zero_SuspendAction\<lparr>sa_Path := ''.spec.suspend'', sa_Value := ''false''\<rparr>]\<rparr>),
       cd_StatusDefinition := Some CronJob_status\<rparr>"

definition CronJob_job :: ComponentDefinition where
  "CronJob_job =
     zero_ComponentDefinition\<lparr>
       cd_Name := ''job'',
       cd_Kind := Some (zero_GroupVersionKind\<lparr>gvk_Group := ''batch'', gvk_Version := ''v1'', gvk_Kind := ''Job''\<rparr>),
       cd_OwnerRef := Some ''cronjob''\<rparr>"

definition CronJob :: Karta where
  "CronJob =
     zero_Karta\<lparr>
       k_Name := ''batch-cronjob-v1'',
       k_Spec := zero_KartaSpec\<lparr>
         ks_StructureDefinition := zero_StructureDefinition\<lparr>str_RootComponent := CronJob_root, str_ChildComponents := [CronJob_job]\<rparr>\<rparr>\<rparr>"

section \<open>deployment.go\<close>

definition Deployment_status :: StatusDefinition where
  "Deployment_status =
     zero_StatusDefinition\<lparr>
       std_ConditionsDefinition := Some (zero_ConditionsDefinition\<lparr>
         cdef_Path := ''.status.conditions'',
         cdef_TypeFieldName := ''type'',
         cdef_StatusFieldName := ''status'',
         cdef_MessageFieldName := Some ''message'',
         cdef_ReasonFieldName := Some ''reason''\<rparr>),
       std_StatusMappings := zero_StatusMappings\<lparr>
         map_Initializing := [zero_StatusMatcher\<lparr>
            sm_ByConditions := [zero_ExpectedCondition\<lparr>
               ec_Type := ''Progressing'',
               ec_Status := Some ''True'',
               ec_Reason := Some ''NewReplicaSetCreated''\<rparr>]\<rparr>,
          zero_StatusMatcher\<lparr>
            sm_ByConditions := [zero_ExpectedCondition\<lparr>ec_Type := ''Progressing'', ec_Status := Some ''True''\<rparr>,
             zero_ExpectedCondition\<lparr>ec_Type := ''Available'', ec_Status := Some ''False''\<rparr>]\<rparr>],
         map_Running := [zero_StatusMatcher\<lparr>
            sm_ByConditions := [zero_ExpectedCondition\<lparr>
               ec_Type := ''Progressing'',
               ec_Status := Some ''True'',
               ec_Reason := Some ''NewReplicaSetAvailable''\<rparr>]\<rparr>],
         map_Failed := [zero_StatusMatcher\<lparr>
            sm_ByConditions := [zero_ExpectedCondition\<lparr>
               ec_Type := ''Progressing'',
               ec_Status := Some ''False'',
               ec_Reason := Some ''ProgressDeadlineExceeded''\<rparr>]\<rparr>]\<rparr>\<rparr>"

definition Deployment_root :: ComponentDefinition where
  "Deployment_root =
     zero_ComponentDefinition\<lparr>
       cd_Name := ''deployment'',
       cd_Kind := Some (zero_GroupVersionKind\<lparr>gvk_Group := ''apps'', gvk_Version := ''v1'', gvk_Kind := ''Deployment''\<rparr>),
       cd_ScaleDefinition := Some (zero_ScaleDefinition\<lparr>sc_ReplicasPath := Some ''.spec.replicas // 1''\<rparr>),
       cd_SpecDefinition := Some (zero_SpecDefinition\<lparr>sp_PodTemplateSpecPath := Some ''.spec.template''\<rparr>),
       cd_StatusDefinition := Some Deployment_status\<rparr>"

definition Deployment_replicaset :: ComponentDefinition where
  "Deployment_replicaset =
     zero_ComponentDefinition\<lparr>
       cd_Name := ''replicaset'',
       cd_Kind := Some (zero_GroupVersionKind\<lparr>gvk_Group := ''apps'', gvk_Version := ''v1'', gvk_Kind := ''ReplicaSet''\<rparr>),
       cd_OwnerRef := Some ''deployment''\<rparr>"

definition Deployment :: Karta where
  "Deployment =
     zero_Karta\<lparr>
       k_Name := ''apps-deployment-v1'',
       k_Spec := zero_KartaSpec\<lparr>
         ks_StructureDefinition := zero_StructureDefinition\<lparr>
           str_RootComponent := Deployment_root,
           str_ChildComponents := [Deployment_replicaset]\<rparr>\<rparr>\<rparr>"

section \<open>statefulset.go\<close>

definition StatefulSet_status :: StatusDefinition where
  "StatefulSet_status =
     zero_StatusDefinition\<lparr>
       std_StatusMappings := zero_StatusMappings\<lparr>
         map_Running := [zero_StatusMatcher\<lparr>
            sm_ByExpression := Some (zero_ExpressionMatcher\<lparr>
              em_Expression := ''(.status.observedGeneration // 0) == (.metadata.generation // 0) and (.status.replicas // 0) == (.spec.replicas // 1) and (.status.readyReplicas // 0) == (.spec.replicas // 1) and (.status.updatedReplicas // 0) == (.spec.replicas // 1) and (.status.currentRevision == .status.updateRevision)'',
              em_ExpectedResult := ''true''\<rparr>)\<rparr>],
         map_Degraded := [zero_StatusMatcher\<lparr>
            sm_ByExpression := Some (zero_ExpressionMatcher\<lparr>
              em_Expression := ''(.status.readyReplicas // 0) > 0 and (.status.readyReplicas // 0) < (.spec.replicas // 1) and (.status.updatedReplicas // 0) == (.spec.replicas // 1) and (.status.currentRevision == .status.updateRevision) and (.status.observedGeneration // 0) == (.metadata.generation // 0)'',
              em_ExpectedResult := ''true''\<rparr>)\<rparr>],
         map_Initializing := [zero_StatusMatcher\<lparr>
            sm_ByExpression := Some (zero_ExpressionMatcher\<lparr>
              em_Expression := ''.status.observedGeneration == .metadata.generation and (.status.replicas // 0) > (.spec.replicas // 1)'',
              em_ExpectedResult := ''true''\<rparr>)\<rparr>,
          zero_StatusMatcher\<lparr>
            sm_ByExpression := Some (zero_ExpressionMatcher\<lparr>
              em_Expression := ''(.spec.replicas // 1) > 0 and ((.status.observedGeneration // 0) != (.metadata.generation // 0) or (.status.readyReplicas // 0) == 0 or (.status.updatedReplicas // 0) != (.spec.replicas // 1) or (.status.currentRevision != .status.updateRevision))'',
              em_ExpectedResult := ''true''\<rparr>)\<rparr>]\<rparr>\<rparr>"

definition StatefulSet_root :: ComponentDefinition where
  "StatefulSet_root =
     zero_ComponentDefinition\<lparr>
       cd_Name := ''statefulset'',
       cd_Kind := Some (zero_GroupVersionKind\<lparr>gvk_Group := ''apps'', gvk_Version := ''v1'', gvk_Kind := ''StatefulSet''\<rparr>),
       cd_ScaleDefinition := Some (zero_ScaleDefinition\<lparr>sc_ReplicasPath := Some ''.spec.replicas // 1''\<rparr>),
       cd_SpecDefinition := Some (zero_SpecDefinition\<lparr>sp_PodTemplateSpecPath := Some ''.spec.template''\<rparr>),
       cd_StatusDefinition := Some StatefulSet_status\<rparr>"

definition StatefulSet :: Karta where
  "StatefulSet =
     zero_Karta\<lparr>
       k_Name := ''apps-statefulset-v1'',
       k_Spec := zero_KartaSpec\<lparr>
         ks_StructureDefinition := zero_StructureDefinition\<lparr>str_RootComponent := StatefulSet_root\<rparr>\<rparr>\<rparr>"

section \<open>pod.go\<close>

definition Pod_status :: StatusDefinition where
  "Pod_status =
     zero_StatusDefinition\<lparr>
       std_PhaseDefinition := Some (zero_PhaseDefinition\<lparr>pd_Path := ''.status.phase''\<rparr>),
       std_ConditionsDefinition := Some (zero_ConditionsDefinition\<lparr>
         cdef_Path := ''.status.conditions'',
         cdef_TypeFieldName := ''type'',
         cdef_StatusFieldName := ''status'',
         cdef_MessageFieldName := Some ''message'',
         cdef_ReasonFieldName := Some ''reason''\<rparr>),
       std_StatusMappings := zero_StatusMappings\<lparr>
         map_Initializing := [zero_StatusMatcher\<lparr>sm_ByPhase := ''Pending''\<rparr>],
         map_Running := [zero_StatusMatcher\<lparr>sm_ByPhase := ''Running''\<rparr>],
         map_Completed := [zero_StatusMatcher\<lparr>sm_ByPhase := ''Succeeded''\<rparr>],
         map_Failed := [zero_StatusMatcher\<lparr>sm_ByPhase := ''Failed''\<rparr>]\<rparr>\<rparr>"

definition Pod_root :: ComponentDefinition where
  "Pod_root =
     zero_ComponentDefinition\<lparr>
       cd_Name := ''pod'',
       cd_Kind := Some (zero_GroupVersionKind\<lparr>gvk_Group := '''', gvk_Version := ''v1'', gvk_Kind := ''Pod''\<rparr>),
       cd_ScaleDefinition := Some (zero_ScaleDefinition\<lparr>sc_ReplicasPath := Some ''1''\<rparr>),
       cd_SpecDefinition := Some (zero_SpecDefinition\<lparr>sp_PodTemplateSpecPath := Some ''.''\<rparr>),
       cd_StatusDefinition := Some Pod_status\<rparr>"

definition Pod :: Karta where
  "Pod =
     zero_Karta\<lparr>
       k_Name := ''core-pod-v1'',
       k_Spec := zero_KartaSpec\<lparr>
         ks_StructureDefinition := zero_StructureDefinition\<lparr>str_RootComponent := Pod_root\<rparr>\<rparr>\<rparr>"

section \<open>jobset.go\<close>

definition Jobset_status :: StatusDefinition where
  "Jobset_status =
     zero_StatusDefinition\<lparr>
       std_ConditionsDefinition := Some (zero_ConditionsDefinition\<lparr>
         cdef_Path := ''.status.conditions'',
         cdef_TypeFieldName := ''type'',
         cdef_StatusFieldName := ''status'',
         cdef_MessageFieldName := Some ''message'',
         cdef_ReasonFieldName := Some ''reason''\<rparr>),
       std_StatusMappings := zero_StatusMappings\<lparr>
         map_Initializing := [zero_StatusMatcher\<lparr>
            sm_ByExpression := Some (zero_ExpressionMatcher\<lparr>
              em_Expression := ''(.status.replicatedJobsStatus // []) | any(.active > 0 and (.ready // 0) == 0) and all(.failed == 0)'',
              em_ExpectedResult := ''true''\<rparr>)\<rparr>],
         map_Running := [zero_StatusMatcher\<lparr>
            sm_ByExpression := Some (zero_ExpressionMatcher\<lparr>
              em_Expression := ''(.status.replicatedJobsStatus // []) | any(.active > 0 or .ready > 0) and all((.failed // 0) == 0)'',
              em_ExpectedResult := ''true''\<rparr>)\<rparr>],
         map_Completed := [zero_StatusMatcher\<lparr>
            sm_ByConditions := [zero_ExpectedCondition\<lparr>ec_Type := ''Completed'', ec_Status := Some ''True''\<rparr>]\<rparr>],
         map_Failed := [zero_StatusMatcher\<lparr>
            sm_ByConditions := [zero_ExpectedCondition\<lparr>ec_Type := ''Failed'', ec_Status := Some ''True''\<rparr>]\<rparr>],
         map_Suspended := [zero_StatusMatcher\<lparr>
            sm_ByConditions := [zero_ExpectedCondition\<lparr>ec_Type := ''Suspended'', ec_Status := Some ''True''\<rparr>]\<rparr>]\<rparr>\<rparr>"

definition Jobset_root :: ComponentDefinition where
  "Jobset_root =
     zero_ComponentDefinition\<lparr>
       cd_Name := ''jobset'',
       cd_Kind := Some (zero_GroupVersionKind\<lparr>
         gvk_Group := ''jobset.x-k8s.io'',
         gvk_Version := ''v1alpha2'',
         gvk_Kind := ''JobSet''\<rparr>),
       cd_SuspendDefinition := Some (zero_SuspendDefinition\<lparr>
         sus_SuspendActions := [zero_SuspendAction\<lparr>sa_Path := ''.spec.suspend'', sa_Value := ''true''\<rparr>],
         sus_ResumeActions := [zero_SuspendAction\<lparr>sa_Path := ''.spec.suspend'', sa_Value := ''false''\<rparr>]\<rparr>),
       cd_StatusDefinition := Some Jobset_status\<rparr>"

definition Jobset_replicatedjob :: ComponentDefinition where
  "Jobset_replicatedjob =
     zero_ComponentDefinition\<lparr>
       cd_Name := ''replicatedjob'',
       cd_Kind := Some (zero_GroupVersionKind\<lparr>gvk_Group := ''batch'', gvk_Version := ''v1'', gvk_Kind := ''Job''\<rparr>),
       cd_OwnerRef := Some ''jobset'',
       cd_SpecDefinition := Some (zero_SpecDefinition\<lparr>sp_PodTemplateSpecPath := Some ''.spec.replicatedJobs[].template.spec.template''\<rparr>),
       cd_ScaleDefinition := Some (zero_ScaleDefinition\<lparr>
         sc_ReplicasPath := Some ''.spec.replicatedJobs[] | .replicas * .template.spec.parallelism''\<rparr>),
       cd_InstanceIdPath := Some ''.spec.replicatedJobs[].name'',
       cd_PodSelector := Some (zero_PodSelector\<lparr>
         psel_ComponentInstanceSelector := Some (zero_ComponentInstanceSelector\<lparr>
           cis_IdPath := ''.metadata.labels[\"jobset.sigs.k8s.io/replicatedjob-name\"]''\<rparr>)\<rparr>)\<rparr>"

definition Jobset_instructions :: OptimizationInstructions where
  "Jobset_instructions =
     zero_OptimizationInstructions\<lparr>
       oi_GangScheduling := Some (zero_GangSchedulingInstruction\<lparr>
         gs_PodGroups := [zero_PodGroupDefinition\<lparr>
            pg_Name := ''job'',
            pg_Members := [zero_PodGroupMemberDefinition\<lparr>
               mem_ComponentName := ''replicatedjob'',
               mem_GroupByKeyPaths := [''.metadata.labels[\"jobset.sigs.k8s.io/replicatedjob-name\"]'']\<rparr>]\<rparr>]\<rparr>)\<rparr>"

definition Jobset :: Karta where
  "Jobset =
     zero_Karta\<lparr>
       k_Name := ''jobset-x-k8s-io-jobset-v1alpha2'',
       k_Spec := zero_KartaSpec\<lparr>
         ks_StructureDefinition := zero_StructureDefinition\<lparr>str_RootComponent := Jobset_root, str_ChildComponents := [Jobset_replicatedjob]\<rparr>,
         ks_Instructions := Jobset_instructions\<rparr>\<rparr>"

section \<open>pytorch.go\<close>

definition Pytorch_status :: StatusDefinition where
  "Pytorch_status =
     zero_StatusDefinition\<lparr>
       std_ConditionsDefinition := Some (zero_ConditionsDefinition\<lparr>
         cdef_Path := ''.status.conditions'',
         cdef_TypeFieldName := ''type'',
         cdef_StatusFieldName := ''status'',
         cdef_MessageFieldName := Some ''message''\<rparr>),
       std_StatusMappings := zero_StatusMappings\<lparr>
         map_Initializing := [zero_StatusMatcher\<lparr>
            sm_ByConditions := [zero_ExpectedCondition\<lparr>ec_Type := ''Created'', ec_Status := Some ''True''\<rparr>]\<rparr>],
         map_Running := [zero_StatusMatcher\<lparr>
            sm_ByConditions := [zero_ExpectedCondition\<lparr>ec_Type := ''Running'', ec_Status := Some ''True''\<rparr>]\<rparr>],
         map_Completed := [zero_StatusMatcher\<lparr>
            sm_ByConditions := [zero_ExpectedCondition\<lparr>ec_Type := ''Succeeded'', ec_Status := Some ''True''\<rparr>]\<rparr>],
         map_Failed := [zero_StatusMatcher\<lparr>
            sm_ByConditions := [zero_ExpectedCondition\<lparr>ec_Type := ''Failed'', ec_Status := Some ''True''\<rparr>]\<rparr>],
         map_Suspended := [zero_StatusMatcher\<lparr>
            sm_ByConditions := [zero_ExpectedCondition\<lparr>ec_Type := ''Suspended'', ec_Status := Some ''True''\<rparr>]\<rparr>]\<rparr>\<rparr>"

definition Pytorch_root :: ComponentDefinition where
  "Pytorch_root =
     zero_ComponentDefinition\<lparr>
       cd_Name := ''pytorchjob'',
       cd_Kind := Some (zero_GroupVersionKind\<lparr>gvk_Group := ''kubeflow.org'', gvk_Version := ''v1'', gvk_Kind := ''PyTorchJob''\<rparr>),
       cd_SuspendDefinition := Some (zero_SuspendDefinition\<lparr>
         sus_SuspendActions := [zero_SuspendAction\<lparr>sa_Path := ''.spec.runPolicy.suspend'', sa_Value := ''true''\<rparr>],
         sus_ResumeActions := [zero_SuspendAction\<lparr>sa_Path := ''.spec.runPolicy.suspend'', sa_Value := ''false''\<rparr>]\<rparr>),
       cd_StatusDefinition := Some Pytorch_status\<rparr>"

definition Pytorch_master :: ComponentDefinition where
  "Pytorch_master =
     zero_ComponentDefinition\<lparr>
       cd_Name := ''master'',
       cd_Kind := Some (zero_GroupVersionKind\<lparr>gvk_Group := '''', gvk_Version := ''v1'', gvk_Kind := ''Pod''\<rparr>),
       cd_OwnerRef := Some ''pytorchjob'',
       cd_SpecDefinition := Some (zero_SpecDefinition\<lparr>sp_PodTemplateSpecPath := Some ''.spec.pytorchReplicaSpecs.Master.template''\<rparr>),
       cd_ScaleDefinition := Some (zero_ScaleDefinition\<lparr>sc_ReplicasPath := Some ''.spec.pytorchReplicaSpecs.Master.replicas // 1''\<rparr>),
       cd_PodSelector := Some (zero_PodSelector\<lparr>
         psel_ComponentTypeSelector := Some (zero_ComponentTypeSelector\<lparr>
           cts_KeyPath := ''.metadata.labels[\"training.kubeflow.org/replica-type\"]'',
           cts_Value := Some ''master''\<rparr>)\<rparr>)\<rparr>"

definition Pytorch_worker :: ComponentDefinition where
  "Pytorch_worker =
     zero_ComponentDefinition\<lparr>
       cd_Name := ''worker'',
       cd_Kind := Some (zero_GroupVersionKind\<lparr>gvk_Group := '''', gvk_Version := ''v1'', gvk_Kind := ''Pod''\<rparr>),
       cd_OwnerRef := Some ''pytorchjob'',
       cd_SpecDefinition := Some (zero_SpecDefinition\<lparr>sp_PodTemplateSpecPath := Some ''.spec.pytorchReplicaSpecs.Worker.template''\<rparr>),
       cd_ScaleDefinition := Some (zero_ScaleDefinition\<lparr>
         sc_ReplicasPath := Some ''.spec.pytorchReplicaSpecs.Worker.replicas // 1'',
         sc_MinReplicasPath := Some ''.spec.elasticPolicy.minReplicas'',
         sc_MaxReplicasPath := Some ''.spec.elasticPolicy.maxReplicas''\<rparr>),
       cd_PodSelector := Some (zero_PodSelector\<lparr>
         psel_ComponentTypeSelector := Some (zero_ComponentTypeSelector\<lparr>
           cts_KeyPath := ''.metadata.labels[\"training.kubeflow.org/replica-type\"]'',
           cts_Value := Some ''worker''\<rparr>)\<rparr>)\<rparr>"

definition Pytorch_instructions :: OptimizationInstructions where
  "Pytorch_instructions =
     zero_OptimizationInstructions\<lparr>
       oi_GangScheduling := Some (zero_GangSchedulingInstruction\<lparr>
         gs_PodGroups := [zero_PodGroupDefinition\<lparr>
            pg_Name := ''job'',
            pg_Members := [zero_PodGroupMemberDefinition\<lparr>
               mem_ComponentName := ''master'',
               mem_GroupByKeyPaths := [''.metadata.labels[\"training.kubeflow.org/job-name\"]'']\<rparr>,
             zero_PodGroupMemberDefinition\<lparr>
               mem_ComponentName := ''worker'',
               mem_GroupByKeyPaths := [''.metadata.labels[\"training.kubeflow.org/job-name\"]'']\<rparr>]\<rparr>]\<rparr>)\<rparr>"

definition Pytorch :: Karta where
  "Pytorch =
     zero_Karta\<lparr>
       k_Name := ''kubeflow-org-pytorchjob-v1'',
       k_Spec := zero_KartaSpec\<lparr>
         ks_StructureDefinition := zero_StructureDefinition\<lparr>
           str_RootComponent := Pytorch_root,
           str_ChildComponents := [Pytorch_master, Pytorch_worker]\<rparr>,
         ks_Instructions := Pytorch_instructions\<rparr>\<rparr>"

section \<open>mpijob.go\<close>

definition Mpijob_status :: StatusDefinition where
  "Mpijob_status =
     zero_StatusDefinition\<lparr>
       std_ConditionsDefinition := Some (zero_ConditionsDefinition\<lparr>
         cdef_Path := ''.status.conditions'',
         cdef_TypeFieldName := ''type'',
         cdef_StatusFieldName := ''status'',
         cdef_ReasonFieldName := Some ''reason'',
         cdef_MessageFieldName := Some ''message''\<rparr>),
       std_StatusMappings := zero_StatusMappings\<lparr>
         map_Initializing := [zero_StatusMatcher\<lparr>
            sm_ByConditions := [zero_ExpectedCondition\<lparr>ec_Type := ''Created'', ec_Status := Some ''True''\<rparr>]\<rparr>],
         map_Running := [zero_StatusMatcher\<lparr>
            sm_ByConditions := [zero_ExpectedCondition\<lparr>ec_Type := ''Running'', ec_Status := Some ''True''\<rparr>]\<rparr>],
         map_Completed := [zero_StatusMatcher\<lparr>
            sm_ByConditions := [zero_ExpectedCondition\<lparr>ec_Type := ''Succeeded'', ec_Status := Some ''True''\<rparr>]\<rparr>],
         map_Failed := [zero_StatusMatcher\<lparr>
            sm_ByConditions := [zero_ExpectedCondition\<lparr>ec_Type := ''Failed'', ec_Status := Some ''True''\<rparr>]\<rparr>],
         map_Suspended := [zero_StatusMatcher\<lparr>
            sm_ByConditions := [zero_ExpectedCondition\<lparr>ec_Type := ''Suspended'', ec_Status := Some ''True''\<rparr>]\<rparr>]\<rparr>\<rparr>"

definition Mpijob_root :: ComponentDefinition where
  "Mpijob_root =
     zero_ComponentDefinition\<lparr>
       cd_Name := ''mpijob'',
       cd_Kind := Some (zero_GroupVersionKind\<lparr>gvk_Group := ''kubeflow.org'', gvk_Version := ''v2beta1'', gvk_Kind := ''MPIJob''\<rparr>),
       cd_SuspendDefinition := Some (zero_SuspendDefinition\<lparr>
         sus_SuspendActions := [zero_SuspendAction\<lparr>sa_Path := ''.spec.runPolicy.suspend'', sa_Value := ''true''\<rparr>],
         sus_ResumeActions := [zero_SuspendAction\<lparr>sa_Path := ''.spec.runPolicy.suspend'', sa_Value := ''false''\<rparr>]\<rparr>),
       cd_StatusDefinition := Some Mpijob_status\<rparr>"

definition Mpijob_launcher :: ComponentDefinition where
  "Mpijob_launcher =
     zero_ComponentDefinition\<lparr>
       cd_Name := ''launcher'',
       cd_Kind := Some (zero_GroupVersionKind\<lparr>gvk_Group := '''', gvk_Version := ''v1'', gvk_Kind := ''Pod''\<rparr>),
       cd_OwnerRef := Some ''mpijob'',
       cd_SpecDefinition := Some (zero_SpecDefinition\<lparr>sp_PodTemplateSpecPath := Some ''.spec.mpiReplicaSpecs.Launcher.template''\<rparr>),
       cd_ScaleDefinition := Some (zero_ScaleDefinition\<lparr>sc_ReplicasPath := Some ''.spec.mpiReplicaSpecs.Launcher.replicas // 1''\<rparr>),
       cd_PodSelector := Some (zero_PodSelector\<lparr>
         psel_ComponentTypeSelector := Some (zero_ComponentTypeSelector\<lparr>
           cts_KeyPath := ''.metadata.labels[\"training.kubeflow.org/job-role\"]'',
           cts_Value := Some ''launcher''\<rparr>)\<rparr>)\<rparr>"

definition Mpijob_worker :: ComponentDefinition where
  "Mpijob_worker =
     zero_ComponentDefinition\<lparr>
       cd_Name := ''worker'',
       cd_Kind := Some (zero_GroupVersionKind\<lparr>gvk_Group := '''', gvk_Version := ''v1'', gvk_Kind := ''Pod''\<rparr>),
       cd_OwnerRef := Some ''mpijob'',
       cd_SpecDefinition := Some (zero_SpecDefinition\<lparr>sp_PodTemplateSpecPath := Some ''.spec.mpiReplicaSpecs.Worker.template''\<rparr>),
       cd_ScaleDefinition := Some (zero_ScaleDefinition\<lparr>sc_ReplicasPath := Some ''.spec.mpiReplicaSpecs.Worker.replicas // 1''\<rparr>),
       cd_PodSelector := Some (zero_PodSelector\<lparr>
         psel_ComponentTypeSelector := Some (zero_ComponentTypeSelector\<lparr>
           cts_KeyPath := ''.metadata.labels[\"training.kubeflow.org/job-role\"]'',
           cts_Value := Some ''worker''\<rparr>)\<rparr>)\<rparr>"

definition Mpijob_instructions :: OptimizationInstructions where
  "Mpijob_instructions =
     zero_OptimizationInstructions\<lparr>
       oi_GangScheduling := Some (zero_GangSchedulingInstruction\<lparr>
         gs_PodGroups := [zero_PodGroupDefinition\<lparr>
            pg_Name := ''job'',
            pg_Members := [zero_PodGroupMemberDefinition\<lparr>
               mem_ComponentName := ''launcher'',
               mem_GroupByKeyPaths := [''.metadata.labels[\"training.kubeflow.org/job-name\"]'']\<rparr>,
             zero_PodGroupMemberDefinition\<lparr>
               mem_ComponentName := ''worker'',
               mem_GroupByKeyPaths := [''.metadata.labels[\"training.kubeflow.org/job-name\"]'']\<rparr>]\<rparr>]\<rparr>)\<rparr>"

definition Mpijob :: Karta where
  "Mpijob =
     zero_Karta\<lparr>
       k_Name := ''kubeflow-org-mpijob-v2beta1'',
       k_Spec := zero_KartaSpec\<lparr>
         ks_StructureDefinition := zero_StructureDefinition\<lparr>
           str_RootComponent := Mpijob_root,
           str_ChildComponents := [Mpijob_launcher, Mpijob_worker]\<rparr>,
         ks_Instructions := Mpijob_instructions\<rparr>\<rparr>"

section \<open>raycluster.go\<close>

definition Raycluster_status :: StatusDefinition where
  "Raycluster_status =
     zero_StatusDefinition\<lparr>
       std_PhaseDefinition := Some (zero_PhaseDefinition\<lparr>pd_Path := ''.status.state''\<rparr>),
       std_StatusMappings := zero_StatusMappings\<lparr>
         map_Running := [zero_StatusMatcher\<lparr>sm_ByPhase := ''ready''\<rparr>],
         map_Failed := [zero_StatusMatcher\<lparr>sm_ByPhase := ''failed''\<rparr>],
         map_Suspended := [zero_StatusMatcher\<lparr>
            sm_ByExpression := Some (zero_ExpressionMatcher\<lparr>
              em_Expression := ''.spec.suspend == true and (.status.state == \"suspended\" or (.status.state | not))'',
              em_ExpectedResult := ''true''\<rparr>)\<rparr>]\<rparr>\<rparr>"

definition Raycluster_root :: ComponentDefinition where
  "Raycluster_root =
     zero_ComponentDefinition\<lparr>
       cd_Name := ''raycluster'',
       cd_Kind := Some (zero_GroupVersionKind\<lparr>gvk_Group := ''ray.io'', gvk_Version := ''v1'', gvk_Kind := ''RayCluster''\<rparr>),
       cd_SuspendDefinition := Some (zero_SuspendDefinition\<lparr>
         sus_SuspendActions := [zero_SuspendAction\<lparr>sa_Path := ''.spec.suspend'', sa_Value := ''true''\<rparr>],
         sus_ResumeActions := [zero_SuspendAction\<lparr>sa_Path := ''.spec.suspend'', sa_Value := ''false''\<rparr>]\<rparr>),
       cd_StatusDefinition := Some Raycluster_status\<rparr>"

definition Raycluster_head :: ComponentDefinition where
  "Raycluster_head =
     zero_ComponentDefinition\<lparr>
       cd_Name := ''head'',
       cd_Kind := Some (zero_GroupVersionKind\<lparr>gvk_Group := '''', gvk_Version := ''v1'', gvk_Kind := ''Pod''\<rparr>),
       cd_OwnerRef := Some ''raycluster'',
       cd_SpecDefinition := Some (zero_SpecDefinition\<lparr>sp_PodTemplateSpecPath := Some ''.spec.headGroupSpec.template''\<rparr>),
       cd_ScaleDefinition := Some (zero_ScaleDefinition\<lparr>sc_ReplicasPath := Some ''1''\<rparr>),
       cd_PodSelector := Some (zero_PodSelector\<lparr>
         psel_ComponentTypeSelector := Some (zero_ComponentTypeSelector\<lparr>
           cts_KeyPath := ''.metadata.labels[\"ray.io/node-type\"]'',
           cts_Value := Some ''head''\<rparr>)\<rparr>)\<rparr>"

definition Raycluster_worker :: ComponentDefinition where
  "Raycluster_worker =
     zero_ComponentDefinition\<lparr>
       cd_Name := ''worker'',
       cd_Kind := Some (zero_GroupVersionKind\<lparr>gvk_Group := '''', gvk_Version := ''v1'', gvk_Kind := ''Pod''\<rparr>),
       cd_OwnerRef := Some ''raycluster'',
       cd_SpecDefinition := Some (zero_SpecDefinition\<lparr>sp_PodTemplateSpecPath := Some ''.spec.workerGroupSpecs[].template''\<rparr>),
       cd_ScaleDefinition := Some (zero_ScaleDefinition\<lparr>
         sc_ReplicasPath := Some ''.spec.workerGroupSpecs[].replicas'',
         sc_MinReplicasPath := Some ''.spec.workerGroupSpecs[].minReplicas'',
         sc_MaxReplicasPath := Some ''.spec.workerGroupSpecs[].maxReplicas''\<rparr>),
       cd_InstanceIdPath := Some ''.spec.workerGroupSpecs[].groupName'',
       cd_PodSelector := Some (zero_PodSelector\<lparr>
         psel_ComponentTypeSelector := Some (zero_ComponentTypeSelector\<lparr>
           cts_KeyPath := ''.metadata.labels[\"ray.io/node-type\"]'',
           cts_Value := Some ''worker''\<rparr>),
         psel_ComponentInstanceSelector := Some (zero_ComponentInstanceSelector\<lparr>cis_IdPath := ''.metadata.labels[\"ray.io/group\"]''\<rparr>)\<rparr>)\<rparr>"

definition Raycluster_instructions :: OptimizationInstructions where
  "Raycluster_instructions =
     zero_OptimizationInstructions\<lparr>
       oi_GangScheduling := Some (zero_GangSchedulingInstruction\<lparr>
         gs_PodGroups := [zero_PodGroupDefinition\<lparr>
            pg_Name := ''cluster'',
            pg_Members := [zero_PodGroupMemberDefinition\<lparr>
               mem_ComponentName := ''head'',
               mem_GroupByKeyPaths := [''.metadata.labels[\"ray.io/cluster\"]'']\<rparr>,
             zero_PodGroupMemberDefinition\<lparr>
               mem_ComponentName := ''worker'',
               mem_GroupByKeyPaths := [''.metadata.labels[\"ray.io/cluster\"]'']\<rparr>]\<rparr>]\<rparr>)\<rparr>"

definition Raycluster :: Karta where
  "Raycluster =
     zero_Karta\<lparr>
       k_Name := ''ray-io-raycluster-v1'',
       k_Spec := zero_KartaSpec\<lparr>
         ks_StructureDefinition := zero_StructureDefinition\<lparr>
           str_RootComponent := Raycluster_root,
           str_ChildComponents := [Raycluster_head, Raycluster_worker]\<rparr>,
         ks_Instructions := Raycluster_instructions\<rparr>\<rparr>"

section \<open>rayjob.go\<close>

definition Rayjob_status :: StatusDefinition where
  "Rayjob_status =
     zero_StatusDefinition\<lparr>
       std_PhaseDefinition := Some (zero_PhaseDefinition\<lparr>pd_Path := ''.status.jobStatus''\<rparr>),
       std_ConditionsDefinition := Some (zero_ConditionsDefinition\<lparr>
         cdef_Path := ''.status.conditions'',
         cdef_TypeFieldName := ''type'',
         cdef_StatusFieldName := ''status'',
         cdef_MessageFieldName := Some ''message''\<rparr>),
       std_StatusMappings := zero_StatusMappings\<lparr>
         map_Initializing := [zero_StatusMatcher\<lparr>sm_ByPhase := ''PENDING''\<rparr>,
          zero_StatusMatcher\<lparr>
            sm_ByExpression := Some (zero_ExpressionMatcher\<lparr>
              em_Expression := ''.status.jobDeploymentStatus == \"Initializing\"'',
              em_ExpectedResult := ''true''\<rparr>)\<rparr>],
         map_Running := [zero_StatusMatcher\<lparr>sm_ByPhase := ''RUNNING''\<rparr>],
         map_Completed := [zero_StatusMatcher\<lparr>sm_ByPhase := ''SUCCEEDED''\<rparr>],
         map_Failed := [zero_StatusMatcher\<lparr>sm_ByPhase := ''FAILED''\<rparr>],
         map_Suspended := [zero_StatusMatcher\<lparr>
            sm_ByExpression := Some (zero_ExpressionMatcher\<lparr>
              em_Expression := ''.status.jobDeploymentStatus == \"Suspended\"'',
              em_ExpectedResult := ''true''\<rparr>)\<rparr>]\<rparr>\<rparr>"

definition Rayjob_root :: ComponentDefinition where
  "Rayjob_root =
     zero_ComponentDefinition\<lparr>
       cd_Name := ''rayjob'',
       cd_Kind := Some (zero_GroupVersionKind\<lparr>gvk_Group := ''ray.io'', gvk_Version := ''v1'', gvk_Kind := ''RayJob''\<rparr>),
       cd_SuspendDefinition := Some (zero_SuspendDefinition\<lparr>
         sus_SuspendActions := [zero_SuspendAction\<lparr>sa_Path := ''.spec.suspend'', sa_Value := ''true''\<rparr>],
         sus_ResumeActions := [zero_SuspendAction\<lparr>sa_Path := ''.spec.suspend'', sa_Value := ''false''\<rparr>]\<rparr>),
       cd_StatusDefinition := Some Rayjob_status\<rparr>"

definition Rayjob_head :: ComponentDefinition where
  "Rayjob_head =
     zero_ComponentDefinition\<lparr>
       cd_Name := ''head'',
       cd_Kind := Some (zero_GroupVersionKind\<lparr>gvk_Group := '''', gvk_Version := ''v1'', gvk_Kind := ''Pod''\<rparr>),
       cd_OwnerRef := Some ''rayjob'',
       cd_SpecDefinition := Some (zero_SpecDefinition\<lparr>sp_PodTemplateSpecPath := Some ''.spec.rayClusterSpec.headGroupSpec.template''\<rparr>),
       cd_ScaleDefinition := Some (zero_ScaleDefinition\<lparr>sc_ReplicasPath := Some ''1''\<rparr>),
       cd_PodSelector := Some (zero_PodSelector\<lparr>
         psel_ComponentTypeSelector := Some (zero_ComponentTypeSelector\<lparr>
           cts_KeyPath := ''.metadata.labels[\"ray.io/node-type\"]'',
           cts_Value := Some ''head''\<rparr>)\<rparr>)\<rparr>"

definition Rayjob_worker :: ComponentDefinition where
  "Rayjob_worker =
     zero_ComponentDefinition\<lparr>
       cd_Name := ''worker'',
       cd_Kind := Some (zero_GroupVersionKind\<lparr>gvk_Group := '''', gvk_Version := ''v1'', gvk_Kind := ''Pod''\<rparr>),
       cd_OwnerRef := Some ''rayjob'',
       cd_SpecDefinition := Some (zero_SpecDefinition\<lparr>sp_PodTemplateSpecPath := Some ''.spec.rayClusterSpec.workerGroupSpecs[].template''\<rparr>),
       cd_ScaleDefinition := Some (zero_ScaleDefinition\<lparr>
         sc_ReplicasPath := Some ''.spec.rayClusterSpec.workerGroupSpecs[].replicas // 1'',
         sc_MinReplicasPath := Some ''.spec.rayClusterSpec.workerGroupSpecs[].minReplicas'',
         sc_MaxReplicasPath := Some ''.spec.rayClusterSpec.workerGroupSpecs[].maxReplicas''\<rparr>),
       cd_InstanceIdPath := Some ''.spec.rayClusterSpec.workerGroupSpecs[].groupName'',
       cd_PodSelector := Some (zero_PodSelector\<lparr>
         psel_ComponentTypeSelector := Some (zero_ComponentTypeSelector\<lparr>
           cts_KeyPath := ''.metadata.labels[\"ray.io/node-type\"]'',
           cts_Value := Some ''worker''\<rparr>),
         psel_ComponentInstanceSelector := Some (zero_ComponentInstanceSelector\<lparr>cis_IdPath := ''.metadata.labels[\"ray.io/group\"]''\<rparr>)\<rparr>)\<rparr>"

definition Rayjob_instructions :: OptimizationInstructions where
  "Rayjob_instructions =
     zero_OptimizationInstructions\<lparr>
       oi_GangScheduling := Some (zero_GangSchedulingInstruction\<lparr>
         gs_PodGroups := [zero_PodGroupDefinition\<lparr>
            pg_Name := ''job'',
            pg_Members := [zero_PodGroupMemberDefinition\<lparr>
               mem_ComponentName := ''head'',
               mem_GroupByKeyPaths := [''.metadata.labels[\"ray.io/cluster\"]'']\<rparr>,
             zero_PodGroupMemberDefinition\<lparr>
               mem_ComponentName := ''worker'',
               mem_GroupByKeyPaths := [''.metadata.labels[\"ray.io/cluster\"]'']\<rparr>]\<rparr>]\<rparr>)\<rparr>"

definition Rayjob :: Karta where
  "Rayjob =
     zero_Karta\<lparr>
       k_Name := ''ray-io-rayjob-v1'',
       k_Spec := zero_KartaSpec\<lparr>
         ks_StructureDefinition := zero_StructureDefinition\<lparr>
           str_RootComponent := Rayjob_root,
           str_ChildComponents := [Rayjob_head, Rayjob_worker]\<rparr>,
         ks_Instructions := Rayjob_instructions\<rparr>\<rparr>"

section \<open>rayservice.go\<close>

definition RayService_status :: StatusDefinition where
  "RayService_status =
     zero_StatusDefinition\<lparr>
       std_ConditionsDefinition := Some (zero_ConditionsDefinition\<lparr>
         cdef_Path := ''.status.conditions'',
         cdef_TypeFieldName := ''type'',
         cdef_StatusFieldName := ''status'',
         cdef_ReasonFieldName := Some ''reason'',
         cdef_MessageFieldName := Some ''message''\<rparr>),
       std_StatusMappings := zero_StatusMappings\<lparr>
         map_Running := [zero_StatusMatcher\<lparr>
            sm_ByConditions := [zero_ExpectedCondition\<lparr>ec_Type := ''Ready'', ec_Status := Some ''True''\<rparr>]\<rparr>],
         map_Initializing := [zero_StatusMatcher\<lparr>
            sm_ByConditions := [zero_ExpectedCondition\<lparr>
               ec_Type := ''Ready'',
               ec_Status := Some ''False'',
               ec_Reason := Some ''Initializing''\<rparr>]\<rparr>],
         map_Degraded := [zero_StatusMatcher\<lparr>
            sm_ByConditions := [zero_ExpectedCondition\<lparr>
               ec_Type := ''Ready'',
               ec_Status := Some ''False'',
               ec_Reason := Some ''ZeroServeEndpoints''\<rparr>]\<rparr>],
         map_Failed := [zero_StatusMatcher\<lparr>
            sm_ByConditions := [zero_ExpectedCondition\<lparr>
               ec_Type := ''Ready'',
               ec_Status := Some ''False'',
               ec_Reason := Some ''InitializingTimeout''\<rparr>]\<rparr>,
          zero_StatusMatcher\<lparr>
            sm_ByConditions := [zero_ExpectedCondition\<lparr>
               ec_Type := ''Ready'',
               ec_Status := Some ''False'',
               ec_Reason := Some ''ValidationFailed''\<rparr>]\<rparr>]\<rparr>\<rparr>"

definition RayService_root :: ComponentDefinition where
  "RayService_root =
     zero_ComponentDefinition\<lparr>
       cd_Name := ''rayservice'',
       cd_Kind := Some (zero_GroupVersionKind\<lparr>gvk_Group := ''ray.io'', gvk_Version := ''v1'', gvk_Kind := ''RayService''\<rparr>),
       cd_StatusDefinition := Some RayService_status\<rparr>"

definition RayService_head :: ComponentDefinition where
  "RayService_head =
     zero_ComponentDefinition\<lparr>
       cd_Name := ''head'',
       cd_Kind := Some (zero_GroupVersionKind\<lparr>gvk_Group := '''', gvk_Version := ''v1'', gvk_Kind := ''Pod''\<rparr>),
       cd_OwnerRef := Some ''rayservice'',
       cd_SpecDefinition := Some (zero_SpecDefinition\<lparr>sp_PodTemplateSpecPath := Some ''.spec.rayClusterConfig.headGroupSpec.template''\<rparr>),
       cd_ScaleDefinition := Some (zero_ScaleDefinition\<lparr>sc_ReplicasPath := Some ''1''\<rparr>),
       cd_PodSelector := Some (zero_PodSelector\<lparr>
         psel_ComponentTypeSelector := Some (zero_ComponentTypeSelector\<lparr>
           cts_KeyPath := ''.metadata.labels[\"ray.io/node-type\"]'',
           cts_Value := Some ''head''\<rparr>)\<rparr>)\<rparr>"

definition RayService_worker :: ComponentDefinition where
  "RayService_worker =
     zero_ComponentDefinition\<lparr>
       cd_Name := ''worker'',
       cd_Kind := Some (zero_GroupVersionKind\<lparr>gvk_Group := '''', gvk_Version := ''v1'', gvk_Kind := ''Pod''\<rparr>),
       cd_OwnerRef := Some ''rayservice'',
       cd_SpecDefinition := Some (zero_SpecDefinition\<lparr>
         sp_PodTemplateSpecPath := Some ''.spec.rayClusterConfig.workerGroupSpecs[].template''\<rparr>),
       cd_ScaleDefinition := Some (zero_ScaleDefinition\<lparr>sc_ReplicasPath := Some ''.spec.rayClusterConfig.workerGroupSpecs[].replicas // 1''\<rparr>),
       cd_InstanceIdPath := Some ''.spec.rayClusterConfig.workerGroupSpecs[].groupName'',
       cd_PodSelector := Some (zero_PodSelector\<lparr>
         psel_ComponentTypeSelector := Some (zero_ComponentTypeSelector\<lparr>
           cts_KeyPath := ''.metadata.labels[\"ray.io/node-type\"]'',
           cts_Value := Some ''worker''\<rparr>),
         psel_ComponentInstanceSelector := Some (zero_ComponentInstanceSelector\<lparr>cis_IdPath := ''.metadata.labels[\"ray.io/group\"]''\<rparr>)\<rparr>)\<rparr>"

definition RayService_instructions :: OptimizationInstructions where
  "RayService_instructions =
     zero_OptimizationInstructions\<lparr>
       oi_GangScheduling := Some (zero_GangSchedulingInstruction\<lparr>
         gs_PodGroups := [zero_PodGroupDefinition\<lparr>
            pg_Name := ''service'',
            pg_Members := [zero_PodGroupMemberDefinition\<lparr>
               mem_ComponentName := ''head'',
               mem_GroupByKeyPaths := [''.metadata.labels[\"ray.io/cluster\"]'']\<rparr>,
             zero_PodGroupMemberDefinition\<lparr>
               mem_ComponentName := ''worker'',
               mem_GroupByKeyPaths := [''.metadata.labels[\"ray.io/cluster\"]'']\<rparr>]\<rparr>]\<rparr>)\<rparr>"

definition RayService :: Karta where
  "RayService =
     zero_Karta\<lparr>
       k_Name := ''ray-io-rayservice-v1'',
       k_Spec := zero_KartaSpec\<lparr>
         ks_StructureDefinition := zero_StructureDefinition\<lparr>
           str_RootComponent := RayService_root,
           str_ChildComponents := [RayService_head, RayService_worker]\<rparr>,
         ks_Instructions := RayService_instructions\<rparr>\<rparr>"

section \<open>lws.go\<close>

definition LWS_status :: StatusDefinition where
  "LWS_status =
     zero_StatusDefinition\<lparr>
       std_ConditionsDefinition := Some (zero_ConditionsDefinition\<lparr>
         cdef_Path := ''.status.conditions'',
         cdef_TypeFieldName := ''type'',
         cdef_StatusFieldName := ''status'',
         cdef_MessageFieldName := Some ''message''\<rparr>),
       std_StatusMappings := zero_StatusMappings\<lparr>
         map_Initializing := [zero_StatusMatcher\<lparr>
            sm_ByConditions := [zero_ExpectedCondition\<lparr>ec_Type := ''Progressing'', ec_Status := Some ''True''\<rparr>]\<rparr>],
         map_Running := [zero_StatusMatcher\<lparr>
            sm_ByConditions := [zero_ExpectedCondition\<lparr>ec_Type := ''Available'', ec_Status := Some ''True''\<rparr>]\<rparr>,
          zero_StatusMatcher\<lparr>
            sm_ByExpression := Some (zero_ExpressionMatcher\<lparr>
              em_Expression := ''(.status.replicas // 0) > 0 and .status.readyReplicas == .status.replicas and .status.updatedReplicas == .status.replicas'',
              em_ExpectedResult := ''true''\<rparr>)\<rparr>],
         map_Failed := [zero_StatusMatcher\<lparr>
            sm_ByConditions := [zero_ExpectedCondition\<lparr>ec_Type := ''Available'', ec_Status := Some ''False''\<rparr>,
             zero_ExpectedCondition\<lparr>ec_Type := ''Progressing'', ec_Status := Some ''False''\<rparr>,
             zero_ExpectedCondition\<lparr>ec_Type := ''UpdateInProgress'', ec_Status := Some ''False''\<rparr>]\<rparr>]\<rparr>\<rparr>"

definition LWS_root :: ComponentDefinition where
  "LWS_root =
     zero_ComponentDefinition\<lparr>
       cd_Name := ''leaderworkerset'',
       cd_Kind := Some (zero_GroupVersionKind\<lparr>
         gvk_Group := ''leaderworkerset.x-k8s.io'',
         gvk_Version := ''v1'',
         gvk_Kind := ''LeaderWorkerSet''\<rparr>),
       cd_StatusDefinition := Some LWS_status\<rparr>"

definition LWS_group :: ComponentDefinition where
  "LWS_group =
     zero_ComponentDefinition\<lparr>
       cd_Name := ''group'',
       cd_OwnerRef := Some ''leaderworkerset'',
       cd_ScaleDefinition := Some (zero_ScaleDefinition\<lparr>sc_ReplicasPath := Some ''.spec.leaderWorkerTemplate.size''\<rparr>),
       cd_PodSelector := Some (zero_PodSelector\<lparr>
         psel_ReplicaSelector := Some (zero_ReplicaSelector\<lparr>rs_KeyPath := ''.metadata.labels[\"leaderworkerset.sigs.k8s.io/group-index\"]''\<rparr>)\<rparr>)\<rparr>"

definition LWS_leader :: ComponentDefinition where
  "LWS_leader =
     zero_ComponentDefinition\<lparr>
       cd_Name := ''leader'',
       cd_Kind := Some (zero_GroupVersionKind\<lparr>gvk_Group := ''apps'', gvk_Version := ''v1'', gvk_Kind := ''StatefulSet''\<rparr>),
       cd_OwnerRef := Some ''group'',
       cd_SpecDefinition := Some (zero_SpecDefinition\<lparr>sp_PodTemplateSpecPath := Some ''.spec.leaderWorkerTemplate.leaderTemplate''\<rparr>),
       cd_ScaleDefinition := Some (zero_ScaleDefinition\<lparr>sc_ReplicasPath := Some ''.spec.replicas // 1''\<rparr>),
       cd_PodSelector := Some (zero_PodSelector\<lparr>
         psel_ComponentTypeSelector := Some (zero_ComponentTypeSelector\<lparr>
           cts_KeyPath := ''.metadata.labels[\"leaderworkerset.sigs.k8s.io/worker-index\"]'',
           cts_Value := Some ''0''\<rparr>)\<rparr>)\<rparr>"

definition LWS_worker :: ComponentDefinition where
  "LWS_worker =
     zero_ComponentDefinition\<lparr>
       cd_Name := ''worker'',
       cd_Kind := Some (zero_GroupVersionKind\<lparr>gvk_Group := ''apps'', gvk_Version := ''v1'', gvk_Kind := ''StatefulSet''\<rparr>),
       cd_OwnerRef := Some ''group'',
       cd_SpecDefinition := Some (zero_SpecDefinition\<lparr>sp_PodTemplateSpecPath := Some ''.spec.leaderWorkerTemplate.workerTemplate''\<rparr>),
       cd_ScaleDefinition := Some (zero_ScaleDefinition\<lparr>
         sc_ReplicasPath := Some ''(.spec.replicas // 1) * ((.spec.leaderWorkerTemplate.size // 1) - 1)''\<rparr>),
       cd_PodSelector := Some (zero_PodSelector\<lparr>
         psel_ComponentTypeSelector := Some (zero_ComponentTypeSelector\<lparr>
           cts_KeyPath := ''.metadata.annotations[\"leaderworkerset.sigs.k8s.io/leader-name\"]''\<rparr>)\<rparr>)\<rparr>"

definition LWS_instructions :: OptimizationInstructions where
  "LWS_instructions =
     zero_OptimizationInstructions\<lparr>
       oi_GangScheduling := Some (zero_GangSchedulingInstruction\<lparr>
         gs_PodGroups := [zero_PodGroupDefinition\<lparr>
            pg_Name := ''group'',
            pg_Members := [zero_PodGroupMemberDefinition\<lparr>
               mem_ComponentName := ''group'',
               mem_GroupByKeyPaths := [''.metadata.labels[\"leaderworkerset.sigs.k8s.io/name\"]'',
                ''.metadata.labels[\"leaderworkerset.sigs.k8s.io/group-index\"] // \"0\"'']\<rparr>]\<rparr>]\<rparr>)\<rparr>"

definition LWS :: Karta where
  "LWS =
     zero_Karta\<lparr>
       k_Name := ''leaderworkerset-x-k8s-io-leaderworkerset-v1'',
       k_Spec := zero_KartaSpec\<lparr>
         ks_StructureDefinition := zero_StructureDefinition\<lparr>
           str_RootComponent := LWS_root,
           str_ChildComponents := [LWS_group, LWS_leader, LWS_worker]\<rparr>,
         ks_Instructions := LWS_instructions\<rparr>\<rparr>"

section \<open>kserve.go\<close>

definition KServe_status :: StatusDefinition where
  "KServe_status =
     zero_StatusDefinition\<lparr>
       std_ConditionsDefinition := Some (zero_ConditionsDefinition\<lparr>
         cdef_Path := ''.status.conditions'',
         cdef_TypeFieldName := ''type'',
         cdef_StatusFieldName := ''status'',
         cdef_MessageFieldName := Some ''message''\<rparr>),
       std_StatusMappings := zero_StatusMappings\<lparr>
         map_Running := [zero_StatusMatcher\<lparr>
            sm_ByConditions := [zero_ExpectedCondition\<lparr>ec_Type := ''PredictorReady'', ec_Status := Some ''True''\<rparr>,
             zero_ExpectedCondition\<lparr>ec_Type := ''RoutesReady'', ec_Status := Some ''True''\<rparr>,
             zero_ExpectedCondition\<lparr>ec_Type := ''LatestDeploymentReady'', ec_Status := Some ''True''\<rparr>]\<rparr>],
         map_Failed := [zero_StatusMatcher\<lparr>
            sm_ByConditions := [zero_ExpectedCondition\<lparr>ec_Type := ''PredictorReady'', ec_Status := Some ''False''\<rparr>,
             zero_ExpectedCondition\<lparr>ec_Type := ''PredictorConfigurationReady'', ec_Status := Some ''False''\<rparr>,
             zero_ExpectedCondition\<lparr>ec_Type := ''RoutesReady'', ec_Status := Some ''False''\<rparr>]\<rparr>]\<rparr>\<rparr>"

definition KServe_root :: ComponentDefinition where
  "KServe_root =
     zero_ComponentDefinition\<lparr>
       cd_Name := ''inferenceservice'',
       cd_Kind := Some (zero_GroupVersionKind\<lparr>
         gvk_Group := ''serving.kserve.io'',
         gvk_Version := ''v1beta1'',
         gvk_Kind := ''InferenceService''\<rparr>),
       cd_StatusDefinition := Some KServe_status\<rparr>"

definition KServe_predictor :: ComponentDefinition where
  "KServe_predictor =
     zero_ComponentDefinition\<lparr>
       cd_Name := ''predictor'',
       cd_Kind := Some (zero_GroupVersionKind\<lparr>gvk_Group := ''apps'', gvk_Version := ''v1'', gvk_Kind := ''Deployment''\<rparr>),
       cd_OwnerRef := Some ''inferenceservice'',
       cd_SpecDefinition := Some (zero_SpecDefinition\<lparr>
         sp_FragmentedPodSpecDefinition := Some (zero_FragmentedPodSpecDefinition\<lparr>
           fd_SchedulerNamePath := Some ''.spec.predictor.schedulerName'',
           fd_LabelsPath := Some ''.spec.predictor.labels'',
           fd_AnnotationsPath := Some ''.spec.predictor.annotations'',
           fd_PodAffinityPath := Some ''.spec.predictor.affinity.podAffinity'',
           fd_NodeAffinityPath := Some ''.spec.predictor.affinity.nodeAffinity'',
           fd_ContainersPath := Some ''.spec.predictor.containers'',
           fd_ContainerPath := Some ''.spec.predictor | ( (.[]?  | select(type ==\"object\" and .storageUri )))'',
           fd_PriorityClassNamePath := Some ''.spec.predictor.priorityClassName''\<rparr>)\<rparr>),
       cd_ScaleDefinition := Some (zero_ScaleDefinition\<lparr>
         sc_MinReplicasPath := Some ''.spec.predictor.minReplicas'',
         sc_MaxReplicasPath := Some ''.spec.predictor.maxReplicas''\<rparr>),
       cd_PodSelector := Some (zero_PodSelector\<lparr>
         psel_ComponentTypeSelector := Some (zero_ComponentTypeSelector\<lparr>
           cts_KeyPath := ''.metadata.labels[\"component\"]'',
           cts_Value := Some ''predictor''\<rparr>)\<rparr>)\<rparr>"

definition KServe_transformer :: ComponentDefinition where
  "KServe_transformer =
     zero_ComponentDefinition\<lparr>
       cd_Name := ''transformer'',
       cd_Kind := Some (zero_GroupVersionKind\<lparr>gvk_Group := ''apps'', gvk_Version := ''v1'', gvk_Kind := ''Deployment''\<rparr>),
       cd_OwnerRef := Some ''inferenceservice'',
       cd_SpecDefinition := Some (zero_SpecDefinition\<lparr>
         sp_PodSpecPath := Some ''.spec.transformer'',
         sp_MetadataPath := Some ''.spec.transformer''\<rparr>),
       cd_ScaleDefinition := Some (zero_ScaleDefinition\<lparr>
         sc_MinReplicasPath := Some ''.spec.transformer.minReplicas'',
         sc_MaxReplicasPath := Some ''.spec.transformer.maxReplicas''\<rparr>),
       cd_PodSelector := Some (zero_PodSelector\<lparr>
         psel_ComponentTypeSelector := Some (zero_ComponentTypeSelector\<lparr>
           cts_KeyPath := ''.metadata.labels[\"component\"]'',
           cts_Value := Some ''transformer''\<rparr>)\<rparr>)\<rparr>"

definition KServe_instructions :: OptimizationInstructions where
  "KServe_instructions =
     zero_OptimizationInstructions\<lparr>
       oi_GangScheduling := Some (zero_GangSchedulingInstruction\<lparr>
         gs_PodGroups := [zero_PodGroupDefinition\<lparr>
            pg_Name := ''service'',
            pg_Members := [zero_PodGroupMemberDefinition\<lparr>
               mem_ComponentName := ''predictor'',
               mem_GroupByKeyPaths := [''.metadata.labels[\"serving.kserve.io/inferenceservice\"]'']\<rparr>,
             zero_PodGroupMemberDefinition\<lparr>
               mem_ComponentName := ''transformer'',
               mem_GroupByKeyPaths := [''.metadata.labels[\"serving.kserve.io/inferenceservice\"]'']\<rparr>]\<rparr>]\<rparr>)\<rparr>"

definition KServe :: Karta where
  "KServe =
     zero_Karta\<lparr>
       k_Name := ''serving-kserve-io-inferenceservice-v1beta1'',
       k_Spec := zero_KartaSpec\<lparr>
         ks_StructureDefinition := zero_StructureDefinition\<lparr>
           str_RootComponent := KServe_root,
           str_ChildComponents := [KServe_predictor, KServe_transformer]\<rparr>,
         ks_Instructions := KServe_instructions\<rparr>\<rparr>"

section \<open>llminferenceservice.go\<close>

text \<open>The verb \<open>%q\<close> of a string of printable ASCII characters without quotes and backslashes, which is what the code formats.\<close>

definition go_quote :: "string \<Rightarrow> string" where
  "go_quote s =
     [CHR 0x22] @ s @ [CHR 0x22]"

definition llmStartupReasons :: "string list" where
  "llmStartupReasons =
     [''Progressing'',
      ''MinimumReplicasUnavailable'',
      ''WaitingForGateway'',
      ''GatewaysNotReady'',
      ''HTTPRoutesNotReady'',
      ''InferencePoolNotReady'',
      ''HPAProgressing'',
      ''ScaledObjectProgressing'',
      ''AllGroupsReady'']"

definition llmStopReason :: string where
  "llmStopReason =
     ''Stopped''"

definition llm_condition :: "string \<Rightarrow> string \<Rightarrow> string" where
  "llm_condition conditionType status =
     ''any(.status.conditions[]?; .type == '' @ go_quote conditionType @ '' and .status == '' @ go_quote status"

definition llm_ready :: "string \<Rightarrow> string" where
  "llm_ready status =
     llm_condition ''Ready'' status"

text \<open>strings.Join.\<close>

fun strings_Join :: "string list \<Rightarrow> string \<Rightarrow> string" where
  "strings_Join [] sep = []"
| "strings_Join [s] sep = s"
| "strings_Join (s # t # ts) sep = s @ sep @ strings_Join (t # ts) sep"

definition llm_startup :: string where
  "llm_startup =
     strings_Join (map go_quote llmStartupReasons) '', ''"

definition lwsGroupKeys :: "string list" where
  "lwsGroupKeys =
     [''.metadata.labels[\"app.kubernetes.io/name\"]'',
      ''.metadata.labels[\"leaderworkerset.sigs.k8s.io/group-index\"] // \"0\"'']"

definition llm_status :: StatusDefinition where
  "llm_status =
     zero_StatusDefinition\<lparr>
       std_ConditionsDefinition := Some (zero_ConditionsDefinition\<lparr>
         cdef_Path := ''.status.conditions'',
         cdef_TypeFieldName := ''type'',
         cdef_StatusFieldName := ''status'',
         cdef_MessageFieldName := Some ''message'',
         cdef_ReasonFieldName := Some ''reason''\<rparr>),
       std_StatusMappings := zero_StatusMappings\<lparr>
         map_Initializing := [zero_StatusMatcher\<lparr>
            sm_ByExpression := Some (zero_ExpressionMatcher\<lparr>
              em_Expression := llm_ready ''Unknown'' @ '') and ('' @ llm_condition ''PresetsCombined'' ''False'' @ '') | not)'',
              em_ExpectedResult := ''true''\<rparr>)\<rparr>,
          zero_StatusMatcher\<lparr>
            sm_ByExpression := Some (zero_ExpressionMatcher\<lparr>
              em_Expression := llm_ready ''False'' @ '' and (.reason | IN('' @ llm_startup @ '')))'',
              em_ExpectedResult := ''true''\<rparr>)\<rparr>],
         map_Running := [zero_StatusMatcher\<lparr>
            sm_ByConditions := [zero_ExpectedCondition\<lparr>ec_Type := ''Ready'', ec_Status := Some ''True''\<rparr>]\<rparr>],
         map_Suspended := [zero_StatusMatcher\<lparr>
            sm_ByConditions := [zero_ExpectedCondition\<lparr>
               ec_Type := ''Ready'',
               ec_Status := Some ''False'',
               ec_Reason := Some llmStopReason\<rparr>]\<rparr>,
          zero_StatusMatcher\<lparr>
            sm_ByConditions := [zero_ExpectedCondition\<lparr>
               ec_Type := ''PresetsCombined'',
               ec_Status := Some ''False'',
               ec_Reason := Some llmStopReason\<rparr>]\<rparr>],
         map_Failed := [zero_StatusMatcher\<lparr>
            sm_ByExpression := Some (zero_ExpressionMatcher\<lparr>
              em_Expression := llm_ready ''False'' @ '' and (.reason | IN('' @ llm_startup @ '', '' @ go_quote llmStopReason @ '') | not))'',
              em_ExpectedResult := ''true''\<rparr>)\<rparr>,
          zero_StatusMatcher\<lparr>
            sm_ByExpression := Some (zero_ExpressionMatcher\<lparr>
              em_Expression := llm_ready ''Unknown'' @ '') and ('' @ llm_condition ''PresetsCombined'' ''False'' @ '' and .reason != '' @ go_quote llmStopReason @ '')'' @ '')'',
              em_ExpectedResult := ''true''\<rparr>)\<rparr>]\<rparr>\<rparr>"

definition llm_root :: "string \<Rightarrow> ComponentDefinition" where
  "llm_root version =
     zero_ComponentDefinition\<lparr>
       cd_Name := ''llminferenceservice'',
       cd_Kind := Some (zero_GroupVersionKind\<lparr>
         gvk_Group := ''serving.kserve.io'',
         gvk_Version := version,
         gvk_Kind := ''LLMInferenceService''\<rparr>),
       cd_StatusDefinition := Some llm_status\<rparr>"

definition llm_main :: ComponentDefinition where
  "llm_main =
     zero_ComponentDefinition\<lparr>
       cd_Name := ''main'',
       cd_Kind := Some (zero_GroupVersionKind\<lparr>gvk_Group := ''apps'', gvk_Version := ''v1'', gvk_Kind := ''Deployment''\<rparr>),
       cd_OwnerRef := Some ''llminferenceservice'',
       cd_SpecDefinition := Some (zero_SpecDefinition\<lparr>sp_PodSpecPath := Some ''(select(.spec.worker == null) | .spec.template)''\<rparr>),
       cd_ScaleDefinition := Some (zero_ScaleDefinition\<lparr>
         sc_ReplicasPath := Some ''(select(.spec.worker == null) | .spec.replicas)'',
         sc_MinReplicasPath := Some ''(select(.spec.worker == null) | .spec.scaling.minReplicas)'',
         sc_MaxReplicasPath := Some ''(select(.spec.worker == null) | .spec.scaling.maxReplicas)''\<rparr>),
       cd_PodSelector := Some (zero_PodSelector\<lparr>
         psel_ComponentTypeSelector := Some (zero_ComponentTypeSelector\<lparr>
           cts_KeyPath := ''.metadata.labels[\"app.kubernetes.io/component\"]'',
           cts_Value := Some ''llminferenceservice-workload''\<rparr>)\<rparr>)\<rparr>"

definition llm_prefill :: ComponentDefinition where
  "llm_prefill =
     zero_ComponentDefinition\<lparr>
       cd_Name := ''prefill'',
       cd_Kind := Some (zero_GroupVersionKind\<lparr>gvk_Group := ''apps'', gvk_Version := ''v1'', gvk_Kind := ''Deployment''\<rparr>),
       cd_OwnerRef := Some ''llminferenceservice'',
       cd_SpecDefinition := Some (zero_SpecDefinition\<lparr>
         sp_PodSpecPath := Some ''(select(.spec.prefill.worker == null) | .spec.prefill.template)''\<rparr>),
       cd_ScaleDefinition := Some (zero_ScaleDefinition\<lparr>
         sc_ReplicasPath := Some ''(select(.spec.prefill.worker == null) | .spec.prefill.replicas)'',
         sc_MinReplicasPath := Some ''(select(.spec.prefill.worker == null) | .spec.prefill.scaling.minReplicas)'',
         sc_MaxReplicasPath := Some ''(select(.spec.prefill.worker == null) | .spec.prefill.scaling.maxReplicas)''\<rparr>),
       cd_PodSelector := Some (zero_PodSelector\<lparr>
         psel_ComponentTypeSelector := Some (zero_ComponentTypeSelector\<lparr>
           cts_KeyPath := ''.metadata.labels[\"app.kubernetes.io/component\"]'',
           cts_Value := Some ''llminferenceservice-workload-prefill''\<rparr>)\<rparr>)\<rparr>"

definition llm_worker :: ComponentDefinition where
  "llm_worker =
     zero_ComponentDefinition\<lparr>
       cd_Name := ''worker'',
       cd_Kind := Some (zero_GroupVersionKind\<lparr>
         gvk_Group := ''leaderworkerset.x-k8s.io'',
         gvk_Version := ''v1'',
         gvk_Kind := ''LeaderWorkerSet''\<rparr>),
       cd_OwnerRef := Some ''llminferenceservice'',
       cd_SpecDefinition := Some (zero_SpecDefinition\<lparr>sp_PodSpecPath := Some ''.spec.worker''\<rparr>),
       cd_ScaleDefinition := Some (zero_ScaleDefinition\<lparr>
         sc_ReplicasPath := Some ''(select(.spec.worker != null) | .spec.replicas)'',
         sc_MinReplicasPath := Some ''(select(.spec.worker != null) | .spec.scaling.minReplicas)'',
         sc_MaxReplicasPath := Some ''(select(.spec.worker != null) | .spec.scaling.maxReplicas)''\<rparr>),
       cd_PodSelector := Some (zero_PodSelector\<lparr>
         psel_ComponentTypeSelector := Some (zero_ComponentTypeSelector\<lparr>
           cts_KeyPath := ''.metadata.labels[\"app.kubernetes.io/component\"]'',
           cts_Value := Some ''llminferenceservice-workload-worker''\<rparr>)\<rparr>)\<rparr>"

definition llm_leader :: ComponentDefinition where
  "llm_leader =
     zero_ComponentDefinition\<lparr>
       cd_Name := ''leader'',
       cd_Kind := Some (zero_GroupVersionKind\<lparr>
         gvk_Group := ''leaderworkerset.x-k8s.io'',
         gvk_Version := ''v1'',
         gvk_Kind := ''LeaderWorkerSet''\<rparr>),
       cd_OwnerRef := Some ''llminferenceservice'',
       cd_SpecDefinition := Some (zero_SpecDefinition\<lparr>sp_PodSpecPath := Some ''(select(.spec.worker != null) | .spec.template)''\<rparr>),
       cd_ScaleDefinition := Some (zero_ScaleDefinition\<lparr>
         sc_ReplicasPath := Some ''(select(.spec.worker != null) | .spec.replicas)'',
         sc_MinReplicasPath := Some ''(select(.spec.worker != null) | .spec.scaling.minReplicas)'',
         sc_MaxReplicasPath := Some ''(select(.spec.worker != null) | .spec.scaling.maxReplicas)''\<rparr>),
       cd_PodSelector := Some (zero_PodSelector\<lparr>
         psel_ComponentTypeSelector := Some (zero_ComponentTypeSelector\<lparr>
           cts_KeyPath := ''.metadata.labels[\"app.kubernetes.io/component\"]'',
           cts_Value := Some ''llminferenceservice-workload-leader''\<rparr>)\<rparr>)\<rparr>"

definition llm_prefill_leader :: ComponentDefinition where
  "llm_prefill_leader =
     zero_ComponentDefinition\<lparr>
       cd_Name := ''prefill-leader'',
       cd_Kind := Some (zero_GroupVersionKind\<lparr>
         gvk_Group := ''leaderworkerset.x-k8s.io'',
         gvk_Version := ''v1'',
         gvk_Kind := ''LeaderWorkerSet''\<rparr>),
       cd_OwnerRef := Some ''llminferenceservice'',
       cd_SpecDefinition := Some (zero_SpecDefinition\<lparr>
         sp_PodSpecPath := Some ''(select(.spec.prefill.worker != null) | .spec.prefill.template)''\<rparr>),
       cd_ScaleDefinition := Some (zero_ScaleDefinition\<lparr>
         sc_ReplicasPath := Some ''(select(.spec.prefill.worker != null) | .spec.prefill.replicas)'',
         sc_MinReplicasPath := Some ''(select(.spec.prefill.worker != null) | .spec.prefill.scaling.minReplicas)'',
         sc_MaxReplicasPath := Some ''(select(.spec.prefill.worker != null) | .spec.prefill.scaling.maxReplicas)''\<rparr>),
       cd_PodSelector := Some (zero_PodSelector\<lparr>
         psel_ComponentTypeSelector := Some (zero_ComponentTypeSelector\<lparr>
           cts_KeyPath := ''.metadata.labels[\"app.kubernetes.io/component\"]'',
           cts_Value := Some ''llminferenceservice-workload-leader-prefill''\<rparr>)\<rparr>)\<rparr>"

definition llm_prefill_worker :: ComponentDefinition where
  "llm_prefill_worker =
     zero_ComponentDefinition\<lparr>
       cd_Name := ''prefill-worker'',
       cd_Kind := Some (zero_GroupVersionKind\<lparr>
         gvk_Group := ''leaderworkerset.x-k8s.io'',
         gvk_Version := ''v1'',
         gvk_Kind := ''LeaderWorkerSet''\<rparr>),
       cd_OwnerRef := Some ''llminferenceservice'',
       cd_SpecDefinition := Some (zero_SpecDefinition\<lparr>sp_PodSpecPath := Some ''.spec.prefill.worker''\<rparr>),
       cd_ScaleDefinition := Some (zero_ScaleDefinition\<lparr>
         sc_ReplicasPath := Some ''(select(.spec.prefill.worker != null) | .spec.prefill.replicas)'',
         sc_MinReplicasPath := Some ''(select(.spec.prefill.worker != null) | .spec.prefill.scaling.minReplicas)'',
         sc_MaxReplicasPath := Some ''(select(.spec.prefill.worker != null) | .spec.prefill.scaling.maxReplicas)''\<rparr>),
       cd_PodSelector := Some (zero_PodSelector\<lparr>
         psel_ComponentTypeSelector := Some (zero_ComponentTypeSelector\<lparr>
           cts_KeyPath := ''.metadata.labels[\"app.kubernetes.io/component\"]'',
           cts_Value := Some ''llminferenceservice-workload-worker-prefill''\<rparr>)\<rparr>)\<rparr>"

definition llm_router_scheduler :: ComponentDefinition where
  "llm_router_scheduler =
     zero_ComponentDefinition\<lparr>
       cd_Name := ''router-scheduler'',
       cd_Kind := Some (zero_GroupVersionKind\<lparr>gvk_Group := ''apps'', gvk_Version := ''v1'', gvk_Kind := ''Deployment''\<rparr>),
       cd_OwnerRef := Some ''llminferenceservice'',
       cd_SpecDefinition := Some (zero_SpecDefinition\<lparr>sp_PodSpecPath := Some ''.spec.router.scheduler.template''\<rparr>),
       cd_ScaleDefinition := Some (zero_ScaleDefinition\<lparr>sc_ReplicasPath := Some ''.spec.router.scheduler.replicas''\<rparr>),
       cd_PodSelector := Some (zero_PodSelector\<lparr>
         psel_ComponentTypeSelector := Some (zero_ComponentTypeSelector\<lparr>
           cts_KeyPath := ''.metadata.labels[\"app.kubernetes.io/component\"]'',
           cts_Value := Some ''llminferenceservice-router-scheduler''\<rparr>)\<rparr>)\<rparr>"

definition llm_instructions :: OptimizationInstructions where
  "llm_instructions =
     zero_OptimizationInstructions\<lparr>
       oi_GangScheduling := Some (zero_GangSchedulingInstruction\<lparr>
         gs_PodGroups := [zero_PodGroupDefinition\<lparr>
            pg_Name := ''service'',
            pg_Members := [zero_PodGroupMemberDefinition\<lparr>
               mem_ComponentName := ''main'',
               mem_GroupByKeyPaths := [''.metadata.labels[\"app.kubernetes.io/name\"]'']\<rparr>,
             zero_PodGroupMemberDefinition\<lparr>
               mem_ComponentName := ''prefill'',
               mem_GroupByKeyPaths := [''.metadata.labels[\"app.kubernetes.io/name\"]'']\<rparr>,
             zero_PodGroupMemberDefinition\<lparr>mem_ComponentName := ''worker'', mem_GroupByKeyPaths := lwsGroupKeys\<rparr>,
             zero_PodGroupMemberDefinition\<lparr>mem_ComponentName := ''leader'', mem_GroupByKeyPaths := lwsGroupKeys\<rparr>,
             zero_PodGroupMemberDefinition\<lparr>
               mem_ComponentName := ''prefill-leader'',
               mem_GroupByKeyPaths := lwsGroupKeys\<rparr>,
             zero_PodGroupMemberDefinition\<lparr>
               mem_ComponentName := ''prefill-worker'',
               mem_GroupByKeyPaths := lwsGroupKeys\<rparr>,
             zero_PodGroupMemberDefinition\<lparr>
               mem_ComponentName := ''router-scheduler'',
               mem_GroupByKeyPaths := [''.metadata.labels[\"app.kubernetes.io/name\"]'']\<rparr>]\<rparr>]\<rparr>)\<rparr>"

definition llmInferenceService :: "string \<Rightarrow> Karta" where
  "llmInferenceService version =
     zero_Karta\<lparr>
       k_Name := ''serving-kserve-io-llminferenceservice-'' @ version,
       k_Spec := zero_KartaSpec\<lparr>
         ks_StructureDefinition := zero_StructureDefinition\<lparr>
           str_RootComponent := llm_root version,
           str_ChildComponents := [llm_main, llm_prefill, llm_worker, llm_leader, llm_prefill_leader, llm_prefill_worker, llm_router_scheduler],
           str_AdditionalChildKinds := [zero_GroupVersionKind\<lparr>
              gvk_Group := ''leaderworkerset.x-k8s.io'',
              gvk_Version := ''v1'',
              gvk_Kind := ''LeaderWorkerSet''\<rparr>,
            zero_GroupVersionKind\<lparr>
              gvk_Group := ''inference.networking.k8s.io'',
              gvk_Version := ''v1'',
              gvk_Kind := ''InferencePool''\<rparr>,
            zero_GroupVersionKind\<lparr>
              gvk_Group := ''gateway.networking.k8s.io'',
              gvk_Version := ''v1'',
              gvk_Kind := ''HTTPRoute''\<rparr>,
            zero_GroupVersionKind\<lparr>gvk_Group := '''', gvk_Version := ''v1'', gvk_Kind := ''Service''\<rparr>]\<rparr>,
         ks_Instructions := llm_instructions\<rparr>\<rparr>"

definition LLMInferenceService :: Karta where
  "LLMInferenceService =
     llmInferenceService ''v1alpha1''"

definition LLMInferenceServiceV1alpha2 :: Karta where
  "LLMInferenceServiceV1alpha2 =
     llmInferenceService ''v1alpha2''"

section \<open>knative\_serving.go\<close>

definition KnativeServing_status :: StatusDefinition where
  "KnativeServing_status =
     zero_StatusDefinition\<lparr>
       std_ConditionsDefinition := Some (zero_ConditionsDefinition\<lparr>
         cdef_Path := ''.status.conditions'',
         cdef_TypeFieldName := ''type'',
         cdef_StatusFieldName := ''status'',
         cdef_MessageFieldName := Some ''message''\<rparr>),
       std_StatusMappings := zero_StatusMappings\<lparr>
         map_Running := [zero_StatusMatcher\<lparr>
            sm_ByConditions := [zero_ExpectedCondition\<lparr>ec_Type := ''Ready'', ec_Status := Some ''True''\<rparr>]\<rparr>],
         map_Initializing := [zero_StatusMatcher\<lparr>
            sm_ByConditions := [zero_ExpectedCondition\<lparr>ec_Type := ''Ready'', ec_Status := Some ''Unknown''\<rparr>]\<rparr>],
         map_Failed := [zero_StatusMatcher\<lparr>
            sm_ByConditions := [zero_ExpectedCondition\<lparr>ec_Type := ''Ready'', ec_Status := Some ''False''\<rparr>]\<rparr>]\<rparr>\<rparr>"

definition KnativeServing_root :: ComponentDefinition where
  "KnativeServing_root =
     zero_ComponentDefinition\<lparr>
       cd_Name := ''knativeservice'',
       cd_Kind := Some (zero_GroupVersionKind\<lparr>
         gvk_Group := ''serving.knative.dev'',
         gvk_Version := ''v1'',
         gvk_Kind := ''Service''\<rparr>),
       cd_StatusDefinition := Some KnativeServing_status\<rparr>"

definition KnativeServing_revision :: ComponentDefinition where
  "KnativeServing_revision =
     zero_ComponentDefinition\<lparr>
       cd_Name := ''revision'',
       cd_Kind := Some (zero_GroupVersionKind\<lparr>
         gvk_Group := ''serving.knative.dev'',
         gvk_Version := ''v1'',
         gvk_Kind := ''Revision''\<rparr>),
       cd_OwnerRef := Some ''knativeservice'',
       cd_SpecDefinition := Some (zero_SpecDefinition\<lparr>sp_PodTemplateSpecPath := Some ''.spec.template''\<rparr>),
       cd_ScaleDefinition := Some (zero_ScaleDefinition\<lparr>
         sc_MinReplicasPath := Some ''.spec.template.metadata.annotations[\"autoscaling.knative.dev/min-scale\"] // 1 | tonumber'',
         sc_MaxReplicasPath := Some ''.spec.template.metadata.annotations[\"autoscaling.knative.dev/max-scale\"] | tonumber?''\<rparr>)\<rparr>"

definition KnativeServing_instructions :: OptimizationInstructions where
  "KnativeServing_instructions =
     zero_OptimizationInstructions\<lparr>
       oi_GangScheduling := Some (zero_GangSchedulingInstruction\<lparr>
         gs_PodGroups := [zero_PodGroupDefinition\<lparr>
            pg_Name := ''revision'',
            pg_Members := [zero_PodGroupMemberDefinition\<lparr>
               mem_ComponentName := ''revision'',
               mem_GroupByKeyPaths := [''.metadata.labels[\"serving.knative.dev/revision\"]'']\<rparr>]\<rparr>]\<rparr>)\<rparr>"

definition KnativeServing :: Karta where
  "KnativeServing =
     zero_Karta\<lparr>
       k_Name := ''serving-knative-dev-service-v1'',
       k_Spec := zero_KartaSpec\<lparr>
         ks_StructureDefinition := zero_StructureDefinition\<lparr>
           str_RootComponent := KnativeServing_root,
           str_ChildComponents := [KnativeServing_revision],
           str_AdditionalChildKinds := [zero_GroupVersionKind\<lparr>gvk_Group := ''apps'', gvk_Version := ''v1'', gvk_Kind := ''Deployment''\<rparr>]\<rparr>,
         ks_Instructions := KnativeServing_instructions\<rparr>\<rparr>"

section \<open>nimservice.go\<close>

definition NIMService_status :: StatusDefinition where
  "NIMService_status =
     zero_StatusDefinition\<lparr>
       std_PhaseDefinition := Some (zero_PhaseDefinition\<lparr>pd_Path := ''.status.state''\<rparr>),
       std_ConditionsDefinition := Some (zero_ConditionsDefinition\<lparr>
         cdef_Path := ''.status.conditions'',
         cdef_TypeFieldName := ''type'',
         cdef_StatusFieldName := ''status'',
         cdef_MessageFieldName := Some ''message''\<rparr>),
       std_StatusMappings := zero_StatusMappings\<lparr>
         map_Initializing := [zero_StatusMatcher\<lparr>sm_ByPhase := ''NotReady''\<rparr>,
          zero_StatusMatcher\<lparr>sm_ByPhase := ''Pending''\<rparr>],
         map_Running := [zero_StatusMatcher\<lparr>sm_ByPhase := ''Ready''\<rparr>],
         map_Failed := [zero_StatusMatcher\<lparr>sm_ByPhase := ''Failed''\<rparr>]\<rparr>\<rparr>"

definition NIMService_root :: ComponentDefinition where
  "NIMService_root =
     zero_ComponentDefinition\<lparr>
       cd_Name := ''nimservice'',
       cd_Kind := Some (zero_GroupVersionKind\<lparr>
         gvk_Group := ''apps.nvidia.com'',
         gvk_Version := ''v1alpha1'',
         gvk_Kind := ''NIMService''\<rparr>),
       cd_SpecDefinition := Some (zero_SpecDefinition\<lparr>
         sp_FragmentedPodSpecDefinition := Some (zero_FragmentedPodSpecDefinition\<lparr>
           fd_SchedulerNamePath := Some ''.spec.schedulerName'',
           fd_LabelsPath := Some ''.spec.labels'',
           fd_AnnotationsPath := Some ''.spec.annotations'',
           fd_ResourcesPath := Some ''.spec.resources'',
           fd_PodAffinityPath := Some ''.spec.affinity.podAffinity'',
           fd_NodeAffinityPath := Some ''.spec.affinity.nodeAffinity''\<rparr>)\<rparr>),
       cd_ScaleDefinition := Some (zero_ScaleDefinition\<lparr>sc_ReplicasPath := Some ''.spec.replicas // 1''\<rparr>),
       cd_StatusDefinition := Some NIMService_status\<rparr>"

definition NIMService_instructions :: OptimizationInstructions where
  "NIMService_instructions =
     zero_OptimizationInstructions\<lparr>
       oi_GangScheduling := Some (zero_GangSchedulingInstruction\<lparr>
         gs_PodGroups := [zero_PodGroupDefinition\<lparr>
            pg_Name := ''service'',
            pg_Members := [zero_PodGroupMemberDefinition\<lparr>
               mem_ComponentName := ''nimservice'',
               mem_GroupByKeyPaths := [''.metadata.labels[\"app.kubernetes.io/name\"]'']\<rparr>]\<rparr>]\<rparr>)\<rparr>"

definition NIMService :: Karta where
  "NIMService =
     zero_Karta\<lparr>
       k_Name := ''apps-nvidia-com-nimservice-v1alpha1'',
       k_Spec := zero_KartaSpec\<lparr>
         ks_StructureDefinition := zero_StructureDefinition\<lparr>str_RootComponent := NIMService_root\<rparr>,
         ks_Instructions := NIMService_instructions\<rparr>\<rparr>"

section \<open>nimcache.go\<close>

definition NIMCache_status :: StatusDefinition where
  "NIMCache_status =
     zero_StatusDefinition\<lparr>
       std_PhaseDefinition := Some (zero_PhaseDefinition\<lparr>pd_Path := ''.status.state''\<rparr>),
       std_ConditionsDefinition := Some (zero_ConditionsDefinition\<lparr>
         cdef_Path := ''.status.conditions'',
         cdef_TypeFieldName := ''type'',
         cdef_StatusFieldName := ''status'',
         cdef_ReasonFieldName := Some ''reason'',
         cdef_MessageFieldName := Some ''message''\<rparr>),
       std_StatusMappings := zero_StatusMappings\<lparr>
         map_Initializing := [zero_StatusMatcher\<lparr>sm_ByPhase := ''Pending''\<rparr>,
          zero_StatusMatcher\<lparr>sm_ByPhase := ''NotReady''\<rparr>,
          zero_StatusMatcher\<lparr>sm_ByPhase := ''PVC-Created''\<rparr>,
          zero_StatusMatcher\<lparr>sm_ByPhase := ''Started''\<rparr>,
          zero_StatusMatcher\<lparr>
            sm_ByConditions := [zero_ExpectedCondition\<lparr>ec_Type := ''NIM_CACHE_JOB_CREATED'', ec_Status := Some ''True''\<rparr>]\<rparr>],
         map_Running := [zero_StatusMatcher\<lparr>sm_ByPhase := ''InProgress''\<rparr>],
         map_Completed := [zero_StatusMatcher\<lparr>
            sm_ByPhase := ''Ready'',
            sm_ByConditions := [zero_ExpectedCondition\<lparr>ec_Type := ''NIM_CACHE_JOB_COMPLETED'', ec_Status := Some ''True''\<rparr>]\<rparr>],
         map_Failed := [zero_StatusMatcher\<lparr>sm_ByPhase := ''Failed''\<rparr>]\<rparr>\<rparr>"

definition NIMCache_root :: ComponentDefinition where
  "NIMCache_root =
     zero_ComponentDefinition\<lparr>
       cd_Name := ''nimcache'',
       cd_Kind := Some (zero_GroupVersionKind\<lparr>
         gvk_Group := ''apps.nvidia.com'',
         gvk_Version := ''v1alpha1'',
         gvk_Kind := ''NIMCache''\<rparr>),
       cd_ScaleDefinition := Some (zero_ScaleDefinition\<lparr>sc_ReplicasPath := Some ''1''\<rparr>),
       cd_SpecDefinition := Some (zero_SpecDefinition\<lparr>
         sp_FragmentedPodSpecDefinition := Some (zero_FragmentedPodSpecDefinition\<lparr>fd_ResourcesPath := Some ''{requests: .spec.resources}''\<rparr>)\<rparr>),
       cd_StatusDefinition := Some NIMCache_status\<rparr>"

definition NIMCache :: Karta where
  "NIMCache =
     zero_Karta\<lparr>
       k_Name := ''apps-nvidia-com-nimcache-v1alpha1'',
       k_Spec := zero_KartaSpec\<lparr>
         ks_StructureDefinition := zero_StructureDefinition\<lparr>str_RootComponent := NIMCache_root\<rparr>\<rparr>\<rparr>"

section \<open>milvus.go\<close>

definition Milvus_status :: StatusDefinition where
  "Milvus_status =
     zero_StatusDefinition\<lparr>
       std_PhaseDefinition := Some (zero_PhaseDefinition\<lparr>pd_Path := ''.status.status''\<rparr>),
       std_ConditionsDefinition := Some (zero_ConditionsDefinition\<lparr>
         cdef_Path := ''.status.conditions'',
         cdef_TypeFieldName := ''type'',
         cdef_StatusFieldName := ''status''\<rparr>),
       std_StatusMappings := zero_StatusMappings\<lparr>
         map_Running := [zero_StatusMatcher\<lparr>sm_ByPhase := ''Healthy''\<rparr>],
         map_Initializing := [zero_StatusMatcher\<lparr>sm_ByPhase := ''Pending''\<rparr>],
         map_Degraded := [zero_StatusMatcher\<lparr>sm_ByPhase := ''Unhealthy''\<rparr>]\<rparr>\<rparr>"

definition Milvus_root :: ComponentDefinition where
  "Milvus_root =
     zero_ComponentDefinition\<lparr>
       cd_Name := ''milvus'',
       cd_Kind := Some (zero_GroupVersionKind\<lparr>gvk_Group := ''milvus.io'', gvk_Version := ''v1beta1'', gvk_Kind := ''Milvus''\<rparr>),
       cd_StatusDefinition := Some Milvus_status\<rparr>"

definition Milvus_standalone :: ComponentDefinition where
  "Milvus_standalone =
     zero_ComponentDefinition\<lparr>
       cd_Name := ''standalone'',
       cd_Kind := Some (zero_GroupVersionKind\<lparr>gvk_Group := ''apps'', gvk_Version := ''v1'', gvk_Kind := ''Deployment''\<rparr>),
       cd_OwnerRef := Some ''milvus'',
       cd_SpecDefinition := Some (zero_SpecDefinition\<lparr>
         sp_FragmentedPodSpecDefinition := Some (zero_FragmentedPodSpecDefinition\<lparr>
           fd_SchedulerNamePath := Some ''.spec.components.standalone.schedulerName'',
           fd_LabelsPath := Some ''.spec.components.standalone.podLabels'',
           fd_AnnotationsPath := Some ''.spec.components.standalone.podAnnotations'',
           fd_ResourcesPath := Some ''.spec.components.standalone.resources'',
           fd_PriorityClassNamePath := Some ''.spec.components.standalone.priorityClassName'',
           fd_NodeAffinityPath := Some ''.spec.components.standalone.affinity.nodeAffinity'',
           fd_PodAffinityPath := Some ''.spec.components.standalone.affinity.podAffinity''\<rparr>)\<rparr>),
       cd_ScaleDefinition := Some (zero_ScaleDefinition\<lparr>sc_ReplicasPath := Some ''.spec.components.standalone.replicas''\<rparr>),
       cd_PodSelector := Some (zero_PodSelector\<lparr>
         psel_ComponentTypeSelector := Some (zero_ComponentTypeSelector\<lparr>
           cts_KeyPath := ''.metadata.labels[\"app.kubernetes.io/component\"]'',
           cts_Value := Some ''standalone''\<rparr>)\<rparr>)\<rparr>"

definition Milvus_proxy :: ComponentDefinition where
  "Milvus_proxy =
     zero_ComponentDefinition\<lparr>
       cd_Name := ''proxy'',
       cd_Kind := Some (zero_GroupVersionKind\<lparr>gvk_Group := ''apps'', gvk_Version := ''v1'', gvk_Kind := ''Deployment''\<rparr>),
       cd_OwnerRef := Some ''milvus'',
       cd_SpecDefinition := Some (zero_SpecDefinition\<lparr>
         sp_FragmentedPodSpecDefinition := Some (zero_FragmentedPodSpecDefinition\<lparr>
           fd_SchedulerNamePath := Some ''.spec.components.proxy.schedulerName'',
           fd_LabelsPath := Some ''.spec.components.proxy.podLabels'',
           fd_AnnotationsPath := Some ''.spec.components.proxy.podAnnotations'',
           fd_ResourcesPath := Some ''.spec.components.proxy.resources'',
           fd_PriorityClassNamePath := Some ''.spec.components.proxy.priorityClassName'',
           fd_NodeAffinityPath := Some ''.spec.components.proxy.affinity.nodeAffinity'',
           fd_PodAffinityPath := Some ''.spec.components.proxy.affinity.podAffinity''\<rparr>)\<rparr>),
       cd_ScaleDefinition := Some (zero_ScaleDefinition\<lparr>sc_ReplicasPath := Some ''.spec.components.proxy.replicas''\<rparr>),
       cd_PodSelector := Some (zero_PodSelector\<lparr>
         psel_ComponentTypeSelector := Some (zero_ComponentTypeSelector\<lparr>
           cts_KeyPath := ''.metadata.labels[\"app.kubernetes.io/component\"]'',
           cts_Value := Some ''proxy''\<rparr>)\<rparr>)\<rparr>"

definition Milvus_mixcoord :: ComponentDefinition where
  "Milvus_mixcoord =
     zero_ComponentDefinition\<lparr>
       cd_Name := ''mixcoord'',
       cd_Kind := Some (zero_GroupVersionKind\<lparr>gvk_Group := ''apps'', gvk_Version := ''v1'', gvk_Kind := ''Deployment''\<rparr>),
       cd_OwnerRef := Some ''milvus'',
       cd_SpecDefinition := Some (zero_SpecDefinition\<lparr>
         sp_FragmentedPodSpecDefinition := Some (zero_FragmentedPodSpecDefinition\<lparr>
           fd_SchedulerNamePath := Some ''.spec.components.mixCoord.schedulerName'',
           fd_LabelsPath := Some ''.spec.components.mixCoord.podLabels'',
           fd_AnnotationsPath := Some ''.spec.components.mixCoord.podAnnotations'',
           fd_ResourcesPath := Some ''.spec.components.mixCoord.resources'',
           fd_PriorityClassNamePath := Some ''.spec.components.mixCoord.priorityClassName'',
           fd_NodeAffinityPath := Some ''.spec.components.mixCoord.affinity.nodeAffinity'',
           fd_PodAffinityPath := Some ''.spec.components.mixCoord.affinity.podAffinity''\<rparr>)\<rparr>),
       cd_ScaleDefinition := Some (zero_ScaleDefinition\<lparr>sc_ReplicasPath := Some ''.spec.components.mixCoord.replicas''\<rparr>),
       cd_PodSelector := Some (zero_PodSelector\<lparr>
         psel_ComponentTypeSelector := Some (zero_ComponentTypeSelector\<lparr>
           cts_KeyPath := ''.metadata.labels[\"app.kubernetes.io/component\"]'',
           cts_Value := Some ''mixcoord''\<rparr>)\<rparr>)\<rparr>"

definition Milvus_datanode :: ComponentDefinition where
  "Milvus_datanode =
     zero_ComponentDefinition\<lparr>
       cd_Name := ''datanode'',
       cd_Kind := Some (zero_GroupVersionKind\<lparr>gvk_Group := ''apps'', gvk_Version := ''v1'', gvk_Kind := ''Deployment''\<rparr>),
       cd_OwnerRef := Some ''milvus'',
       cd_SpecDefinition := Some (zero_SpecDefinition\<lparr>
         sp_FragmentedPodSpecDefinition := Some (zero_FragmentedPodSpecDefinition\<lparr>
           fd_SchedulerNamePath := Some ''.spec.components.dataNode.schedulerName'',
           fd_LabelsPath := Some ''.spec.components.dataNode.podLabels'',
           fd_AnnotationsPath := Some ''.spec.components.dataNode.podAnnotations'',
           fd_ResourcesPath := Some ''.spec.components.dataNode.resources'',
           fd_PriorityClassNamePath := Some ''.spec.components.dataNode.priorityClassName'',
           fd_NodeAffinityPath := Some ''.spec.components.dataNode.affinity.nodeAffinity'',
           fd_PodAffinityPath := Some ''.spec.components.dataNode.affinity.podAffinity''\<rparr>)\<rparr>),
       cd_ScaleDefinition := Some (zero_ScaleDefinition\<lparr>sc_ReplicasPath := Some ''.spec.components.dataNode.replicas''\<rparr>),
       cd_PodSelector := Some (zero_PodSelector\<lparr>
         psel_ComponentTypeSelector := Some (zero_ComponentTypeSelector\<lparr>
           cts_KeyPath := ''.metadata.labels[\"app.kubernetes.io/component\"]'',
           cts_Value := Some ''datanode''\<rparr>)\<rparr>)\<rparr>"

definition Milvus_querynode :: ComponentDefinition where
  "Milvus_querynode =
     zero_ComponentDefinition\<lparr>
       cd_Name := ''querynode'',
       cd_Kind := Some (zero_GroupVersionKind\<lparr>gvk_Group := ''apps'', gvk_Version := ''v1'', gvk_Kind := ''Deployment''\<rparr>),
       cd_OwnerRef := Some ''milvus'',
       cd_SpecDefinition := Some (zero_SpecDefinition\<lparr>
         sp_FragmentedPodSpecDefinition := Some (zero_FragmentedPodSpecDefinition\<lparr>
           fd_SchedulerNamePath := Some ''.spec.components.queryNode.schedulerName'',
           fd_LabelsPath := Some ''.spec.components.queryNode.podLabels'',
           fd_AnnotationsPath := Some ''.spec.components.queryNode.podAnnotations'',
           fd_ResourcesPath := Some ''.spec.components.queryNode.resources'',
           fd_PriorityClassNamePath := Some ''.spec.components.queryNode.priorityClassName'',
           fd_NodeAffinityPath := Some ''.spec.components.queryNode.affinity.nodeAffinity'',
           fd_PodAffinityPath := Some ''.spec.components.queryNode.affinity.podAffinity''\<rparr>)\<rparr>),
       cd_ScaleDefinition := Some (zero_ScaleDefinition\<lparr>sc_ReplicasPath := Some ''.spec.components.queryNode.replicas''\<rparr>),
       cd_PodSelector := Some (zero_PodSelector\<lparr>
         psel_ComponentTypeSelector := Some (zero_ComponentTypeSelector\<lparr>
           cts_KeyPath := ''.metadata.labels[\"app.kubernetes.io/component\"]'',
           cts_Value := Some ''querynode''\<rparr>)\<rparr>)\<rparr>"

definition Milvus_streamingnode :: ComponentDefinition where
  "Milvus_streamingnode =
     zero_ComponentDefinition\<lparr>
       cd_Name := ''streamingnode'',
       cd_Kind := Some (zero_GroupVersionKind\<lparr>gvk_Group := ''apps'', gvk_Version := ''v1'', gvk_Kind := ''Deployment''\<rparr>),
       cd_OwnerRef := Some ''milvus'',
       cd_SpecDefinition := Some (zero_SpecDefinition\<lparr>
         sp_FragmentedPodSpecDefinition := Some (zero_FragmentedPodSpecDefinition\<lparr>
           fd_SchedulerNamePath := Some ''.spec.components.streamingNode.schedulerName'',
           fd_LabelsPath := Some ''.spec.components.streamingNode.podLabels'',
           fd_AnnotationsPath := Some ''.spec.components.streamingNode.podAnnotations'',
           fd_ResourcesPath := Some ''.spec.components.streamingNode.resources'',
           fd_PriorityClassNamePath := Some ''.spec.components.streamingNode.priorityClassName'',
           fd_NodeAffinityPath := Some ''.spec.components.streamingNode.affinity.nodeAffinity'',
           fd_PodAffinityPath := Some ''.spec.components.streamingNode.affinity.podAffinity''\<rparr>)\<rparr>),
       cd_ScaleDefinition := Some (zero_ScaleDefinition\<lparr>sc_ReplicasPath := Some ''.spec.components.streamingNode.replicas''\<rparr>),
       cd_PodSelector := Some (zero_PodSelector\<lparr>
         psel_ComponentTypeSelector := Some (zero_ComponentTypeSelector\<lparr>
           cts_KeyPath := ''.metadata.labels[\"app.kubernetes.io/component\"]'',
           cts_Value := Some ''streamingnode''\<rparr>)\<rparr>)\<rparr>"

definition Milvus_indexnode :: ComponentDefinition where
  "Milvus_indexnode =
     zero_ComponentDefinition\<lparr>
       cd_Name := ''indexnode'',
       cd_Kind := Some (zero_GroupVersionKind\<lparr>gvk_Group := ''apps'', gvk_Version := ''v1'', gvk_Kind := ''Deployment''\<rparr>),
       cd_OwnerRef := Some ''milvus'',
       cd_SpecDefinition := Some (zero_SpecDefinition\<lparr>
         sp_FragmentedPodSpecDefinition := Some (zero_FragmentedPodSpecDefinition\<lparr>
           fd_SchedulerNamePath := Some ''.spec.components.indexNode.schedulerName'',
           fd_LabelsPath := Some ''.spec.components.indexNode.podLabels'',
           fd_AnnotationsPath := Some ''.spec.components.indexNode.podAnnotations'',
           fd_ResourcesPath := Some ''.spec.components.indexNode.resources'',
           fd_PriorityClassNamePath := Some ''.spec.components.indexNode.priorityClassName'',
           fd_NodeAffinityPath := Some ''.spec.components.indexNode.affinity.nodeAffinity'',
           fd_PodAffinityPath := Some ''.spec.components.indexNode.affinity.podAffinity''\<rparr>)\<rparr>),
       cd_ScaleDefinition := Some (zero_ScaleDefinition\<lparr>sc_ReplicasPath := Some ''.spec.components.indexNode.replicas''\<rparr>),
       cd_PodSelector := Some (zero_PodSelector\<lparr>
         psel_ComponentTypeSelector := Some (zero_ComponentTypeSelector\<lparr>
           cts_KeyPath := ''.metadata.labels[\"app.kubernetes.io/component\"]'',
           cts_Value := Some ''indexnode''\<rparr>)\<rparr>)\<rparr>"

definition Milvus_rootcoord :: ComponentDefinition where
  "Milvus_rootcoord =
     zero_ComponentDefinition\<lparr>
       cd_Name := ''rootcoord'',
       cd_Kind := Some (zero_GroupVersionKind\<lparr>gvk_Group := ''apps'', gvk_Version := ''v1'', gvk_Kind := ''Deployment''\<rparr>),
       cd_OwnerRef := Some ''milvus'',
       cd_SpecDefinition := Some (zero_SpecDefinition\<lparr>
         sp_FragmentedPodSpecDefinition := Some (zero_FragmentedPodSpecDefinition\<lparr>
           fd_SchedulerNamePath := Some ''.spec.components.rootCoord.schedulerName'',
           fd_LabelsPath := Some ''.spec.components.rootCoord.podLabels'',
           fd_AnnotationsPath := Some ''.spec.components.rootCoord.podAnnotations'',
           fd_ResourcesPath := Some ''.spec.components.rootCoord.resources'',
           fd_PriorityClassNamePath := Some ''.spec.components.rootCoord.priorityClassName'',
           fd_NodeAffinityPath := Some ''.spec.components.rootCoord.affinity.nodeAffinity'',
           fd_PodAffinityPath := Some ''.spec.components.rootCoord.affinity.podAffinity''\<rparr>)\<rparr>),
       cd_ScaleDefinition := Some (zero_ScaleDefinition\<lparr>sc_ReplicasPath := Some ''.spec.components.rootCoord.replicas''\<rparr>),
       cd_PodSelector := Some (zero_PodSelector\<lparr>
         psel_ComponentTypeSelector := Some (zero_ComponentTypeSelector\<lparr>
           cts_KeyPath := ''.metadata.labels[\"app.kubernetes.io/component\"]'',
           cts_Value := Some ''rootcoord''\<rparr>)\<rparr>)\<rparr>"

definition Milvus_datacoord :: ComponentDefinition where
  "Milvus_datacoord =
     zero_ComponentDefinition\<lparr>
       cd_Name := ''datacoord'',
       cd_Kind := Some (zero_GroupVersionKind\<lparr>gvk_Group := ''apps'', gvk_Version := ''v1'', gvk_Kind := ''Deployment''\<rparr>),
       cd_OwnerRef := Some ''milvus'',
       cd_SpecDefinition := Some (zero_SpecDefinition\<lparr>
         sp_FragmentedPodSpecDefinition := Some (zero_FragmentedPodSpecDefinition\<lparr>
           fd_SchedulerNamePath := Some ''.spec.components.dataCoord.schedulerName'',
           fd_LabelsPath := Some ''.spec.components.dataCoord.podLabels'',
           fd_AnnotationsPath := Some ''.spec.components.dataCoord.podAnnotations'',
           fd_ResourcesPath := Some ''.spec.components.dataCoord.resources'',
           fd_PriorityClassNamePath := Some ''.spec.components.dataCoord.priorityClassName'',
           fd_NodeAffinityPath := Some ''.spec.components.dataCoord.affinity.nodeAffinity'',
           fd_PodAffinityPath := Some ''.spec.components.dataCoord.affinity.podAffinity''\<rparr>)\<rparr>),
       cd_ScaleDefinition := Some (zero_ScaleDefinition\<lparr>sc_ReplicasPath := Some ''.spec.components.dataCoord.replicas''\<rparr>),
       cd_PodSelector := Some (zero_PodSelector\<lparr>
         psel_ComponentTypeSelector := Some (zero_ComponentTypeSelector\<lparr>
           cts_KeyPath := ''.metadata.labels[\"app.kubernetes.io/component\"]'',
           cts_Value := Some ''datacoord''\<rparr>)\<rparr>)\<rparr>"

definition Milvus_querycoord :: ComponentDefinition where
  "Milvus_querycoord =
     zero_ComponentDefinition\<lparr>
       cd_Name := ''querycoord'',
       cd_Kind := Some (zero_GroupVersionKind\<lparr>gvk_Group := ''apps'', gvk_Version := ''v1'', gvk_Kind := ''Deployment''\<rparr>),
       cd_OwnerRef := Some ''milvus'',
       cd_SpecDefinition := Some (zero_SpecDefinition\<lparr>
         sp_FragmentedPodSpecDefinition := Some (zero_FragmentedPodSpecDefinition\<lparr>
           fd_SchedulerNamePath := Some ''.spec.components.queryCoord.schedulerName'',
           fd_LabelsPath := Some ''.spec.components.queryCoord.podLabels'',
           fd_AnnotationsPath := Some ''.spec.components.queryCoord.podAnnotations'',
           fd_ResourcesPath := Some ''.spec.components.queryCoord.resources'',
           fd_PriorityClassNamePath := Some ''.spec.components.queryCoord.priorityClassName'',
           fd_NodeAffinityPath := Some ''.spec.components.queryCoord.affinity.nodeAffinity'',
           fd_PodAffinityPath := Some ''.spec.components.queryCoord.affinity.podAffinity''\<rparr>)\<rparr>),
       cd_ScaleDefinition := Some (zero_ScaleDefinition\<lparr>sc_ReplicasPath := Some ''.spec.components.queryCoord.replicas''\<rparr>),
       cd_PodSelector := Some (zero_PodSelector\<lparr>
         psel_ComponentTypeSelector := Some (zero_ComponentTypeSelector\<lparr>
           cts_KeyPath := ''.metadata.labels[\"app.kubernetes.io/component\"]'',
           cts_Value := Some ''querycoord''\<rparr>)\<rparr>)\<rparr>"

definition Milvus_indexcoord :: ComponentDefinition where
  "Milvus_indexcoord =
     zero_ComponentDefinition\<lparr>
       cd_Name := ''indexcoord'',
       cd_Kind := Some (zero_GroupVersionKind\<lparr>gvk_Group := ''apps'', gvk_Version := ''v1'', gvk_Kind := ''Deployment''\<rparr>),
       cd_OwnerRef := Some ''milvus'',
       cd_SpecDefinition := Some (zero_SpecDefinition\<lparr>
         sp_FragmentedPodSpecDefinition := Some (zero_FragmentedPodSpecDefinition\<lparr>
           fd_SchedulerNamePath := Some ''.spec.components.indexCoord.schedulerName'',
           fd_LabelsPath := Some ''.spec.components.indexCoord.podLabels'',
           fd_AnnotationsPath := Some ''.spec.components.indexCoord.podAnnotations'',
           fd_ResourcesPath := Some ''.spec.components.indexCoord.resources'',
           fd_PriorityClassNamePath := Some ''.spec.components.indexCoord.priorityClassName'',
           fd_NodeAffinityPath := Some ''.spec.components.indexCoord.affinity.nodeAffinity'',
           fd_PodAffinityPath := Some ''.spec.components.indexCoord.affinity.podAffinity''\<rparr>)\<rparr>),
       cd_ScaleDefinition := Some (zero_ScaleDefinition\<lparr>sc_ReplicasPath := Some ''.spec.components.indexCoord.replicas''\<rparr>),
       cd_PodSelector := Some (zero_PodSelector\<lparr>
         psel_ComponentTypeSelector := Some (zero_ComponentTypeSelector\<lparr>
           cts_KeyPath := ''.metadata.labels[\"app.kubernetes.io/component\"]'',
           cts_Value := Some ''indexcoord''\<rparr>)\<rparr>)\<rparr>"

definition Milvus_cdc :: ComponentDefinition where
  "Milvus_cdc =
     zero_ComponentDefinition\<lparr>
       cd_Name := ''cdc'',
       cd_Kind := Some (zero_GroupVersionKind\<lparr>gvk_Group := ''apps'', gvk_Version := ''v1'', gvk_Kind := ''Deployment''\<rparr>),
       cd_OwnerRef := Some ''milvus'',
       cd_SpecDefinition := Some (zero_SpecDefinition\<lparr>
         sp_FragmentedPodSpecDefinition := Some (zero_FragmentedPodSpecDefinition\<lparr>
           fd_SchedulerNamePath := Some ''.spec.components.cdc.schedulerName'',
           fd_LabelsPath := Some ''.spec.components.cdc.podLabels'',
           fd_AnnotationsPath := Some ''.spec.components.cdc.podAnnotations'',
           fd_ResourcesPath := Some ''.spec.components.cdc.resources'',
           fd_PriorityClassNamePath := Some ''.spec.components.cdc.priorityClassName'',
           fd_NodeAffinityPath := Some ''.spec.components.cdc.affinity.nodeAffinity'',
           fd_PodAffinityPath := Some ''.spec.components.cdc.affinity.podAffinity''\<rparr>)\<rparr>),
       cd_ScaleDefinition := Some (zero_ScaleDefinition\<lparr>sc_ReplicasPath := Some ''.spec.components.cdc.replicas''\<rparr>),
       cd_PodSelector := Some (zero_PodSelector\<lparr>
         psel_ComponentTypeSelector := Some (zero_ComponentTypeSelector\<lparr>
           cts_KeyPath := ''.metadata.labels[\"app.kubernetes.io/component\"]'',
           cts_Value := Some ''cdc''\<rparr>)\<rparr>)\<rparr>"

definition Milvus_etcd :: ComponentDefinition where
  "Milvus_etcd =
     zero_ComponentDefinition\<lparr>
       cd_Name := ''etcd'',
       cd_Kind := Some (zero_GroupVersionKind\<lparr>gvk_Group := ''apps'', gvk_Version := ''v1'', gvk_Kind := ''StatefulSet''\<rparr>),
       cd_OwnerRef := Some ''milvus'',
       cd_SpecDefinition := Some (zero_SpecDefinition\<lparr>
         sp_FragmentedPodSpecDefinition := Some (zero_FragmentedPodSpecDefinition\<lparr>
           fd_ResourcesPath := Some ''.spec.dependencies.etcd.inCluster.values.resources''\<rparr>)\<rparr>),
       cd_ScaleDefinition := Some (zero_ScaleDefinition\<lparr>sc_ReplicasPath := Some ''.spec.dependencies.etcd.inCluster.values.replicaCount''\<rparr>)\<rparr>"

definition Milvus_minio :: ComponentDefinition where
  "Milvus_minio =
     zero_ComponentDefinition\<lparr>
       cd_Name := ''minio'',
       cd_Kind := Some (zero_GroupVersionKind\<lparr>gvk_Group := ''apps'', gvk_Version := ''v1'', gvk_Kind := ''StatefulSet''\<rparr>),
       cd_OwnerRef := Some ''milvus'',
       cd_SpecDefinition := Some (zero_SpecDefinition\<lparr>
         sp_FragmentedPodSpecDefinition := Some (zero_FragmentedPodSpecDefinition\<lparr>
           fd_ResourcesPath := Some ''.spec.dependencies.storage.inCluster.values.resources''\<rparr>)\<rparr>)\<rparr>"

definition Milvus_pulsar_zookeeper :: ComponentDefinition where
  "Milvus_pulsar_zookeeper =
     zero_ComponentDefinition\<lparr>
       cd_Name := ''pulsar-zookeeper'',
       cd_Kind := Some (zero_GroupVersionKind\<lparr>gvk_Group := ''apps'', gvk_Version := ''v1'', gvk_Kind := ''StatefulSet''\<rparr>),
       cd_OwnerRef := Some ''milvus'',
       cd_SpecDefinition := Some (zero_SpecDefinition\<lparr>
         sp_FragmentedPodSpecDefinition := Some (zero_FragmentedPodSpecDefinition\<lparr>
           fd_ResourcesPath := Some ''.spec.dependencies.pulsar.inCluster.values.zookeeper.resources''\<rparr>)\<rparr>),
       cd_ScaleDefinition := Some (zero_ScaleDefinition\<lparr>
         sc_ReplicasPath := Some ''.spec.dependencies.pulsar.inCluster.values.zookeeper.replicaCount''\<rparr>)\<rparr>"

definition Milvus_pulsar_bookkeeper :: ComponentDefinition where
  "Milvus_pulsar_bookkeeper =
     zero_ComponentDefinition\<lparr>
       cd_Name := ''pulsar-bookkeeper'',
       cd_Kind := Some (zero_GroupVersionKind\<lparr>gvk_Group := ''apps'', gvk_Version := ''v1'', gvk_Kind := ''StatefulSet''\<rparr>),
       cd_OwnerRef := Some ''milvus'',
       cd_SpecDefinition := Some (zero_SpecDefinition\<lparr>
         sp_FragmentedPodSpecDefinition := Some (zero_FragmentedPodSpecDefinition\<lparr>
           fd_ResourcesPath := Some ''.spec.dependencies.pulsar.inCluster.values.bookkeeper.resources''\<rparr>)\<rparr>),
       cd_ScaleDefinition := Some (zero_ScaleDefinition\<lparr>
         sc_ReplicasPath := Some ''.spec.dependencies.pulsar.inCluster.values.bookkeeper.replicaCount''\<rparr>)\<rparr>"

definition Milvus_pulsar_broker :: ComponentDefinition where
  "Milvus_pulsar_broker =
     zero_ComponentDefinition\<lparr>
       cd_Name := ''pulsar-broker'',
       cd_Kind := Some (zero_GroupVersionKind\<lparr>gvk_Group := ''apps'', gvk_Version := ''v1'', gvk_Kind := ''StatefulSet''\<rparr>),
       cd_OwnerRef := Some ''milvus'',
       cd_SpecDefinition := Some (zero_SpecDefinition\<lparr>
         sp_FragmentedPodSpecDefinition := Some (zero_FragmentedPodSpecDefinition\<lparr>
           fd_ResourcesPath := Some ''.spec.dependencies.pulsar.inCluster.values.broker.resources''\<rparr>)\<rparr>),
       cd_ScaleDefinition := Some (zero_ScaleDefinition\<lparr>
         sc_ReplicasPath := Some ''.spec.dependencies.pulsar.inCluster.values.broker.replicaCount''\<rparr>)\<rparr>"

definition Milvus_pulsar_proxy :: ComponentDefinition where
  "Milvus_pulsar_proxy =
     zero_ComponentDefinition\<lparr>
       cd_Name := ''pulsar-proxy'',
       cd_Kind := Some (zero_GroupVersionKind\<lparr>gvk_Group := ''apps'', gvk_Version := ''v1'', gvk_Kind := ''StatefulSet''\<rparr>),
       cd_OwnerRef := Some ''milvus'',
       cd_SpecDefinition := Some (zero_SpecDefinition\<lparr>
         sp_FragmentedPodSpecDefinition := Some (zero_FragmentedPodSpecDefinition\<lparr>
           fd_ResourcesPath := Some ''.spec.dependencies.pulsar.inCluster.values.proxy.resources''\<rparr>)\<rparr>),
       cd_ScaleDefinition := Some (zero_ScaleDefinition\<lparr>
         sc_ReplicasPath := Some ''.spec.dependencies.pulsar.inCluster.values.proxy.replicaCount''\<rparr>)\<rparr>"

definition Milvus_instructions :: OptimizationInstructions where
  "Milvus_instructions =
     zero_OptimizationInstructions\<lparr>
       oi_GangScheduling := Some (zero_GangSchedulingInstruction\<lparr>
         gs_PodGroups := [zero_PodGroupDefinition\<lparr>
            pg_Name := ''cluster'',
            pg_Members := [zero_PodGroupMemberDefinition\<lparr>
               mem_ComponentName := ''querynode'',
               mem_GroupByKeyPaths := [''.metadata.labels[\"app.kubernetes.io/instance\"]'']\<rparr>,
             zero_PodGroupMemberDefinition\<lparr>
               mem_ComponentName := ''datanode'',
               mem_GroupByKeyPaths := [''.metadata.labels[\"app.kubernetes.io/instance\"]'']\<rparr>,
             zero_PodGroupMemberDefinition\<lparr>
               mem_ComponentName := ''streamingnode'',
               mem_GroupByKeyPaths := [''.metadata.labels[\"app.kubernetes.io/instance\"]'']\<rparr>]\<rparr>]\<rparr>)\<rparr>"

definition Milvus :: Karta where
  "Milvus =
     zero_Karta\<lparr>
       k_Name := ''milvus-io-milvus-v1beta1'',
       k_Spec := zero_KartaSpec\<lparr>
         ks_StructureDefinition := zero_StructureDefinition\<lparr>
           str_RootComponent := Milvus_root,
           str_ChildComponents := [Milvus_standalone,
            Milvus_proxy,
            Milvus_mixcoord,
            Milvus_datanode,
            Milvus_querynode,
            Milvus_streamingnode,
            Milvus_indexnode,
            Milvus_rootcoord,
            Milvus_datacoord,
            Milvus_querycoord,
            Milvus_indexcoord,
            Milvus_cdc,
            Milvus_etcd,
            Milvus_minio,
            Milvus_pulsar_zookeeper,
            Milvus_pulsar_bookkeeper,
            Milvus_pulsar_broker,
            Milvus_pulsar_proxy]\<rparr>,
         ks_Instructions := Milvus_instructions\<rparr>\<rparr>"

section \<open>dynamo.go\<close>

definition Dynamo_status :: StatusDefinition where
  "Dynamo_status =
     zero_StatusDefinition\<lparr>
       std_PhaseDefinition := Some (zero_PhaseDefinition\<lparr>pd_Path := ''.status.state''\<rparr>),
       std_StatusMappings := zero_StatusMappings\<lparr>
         map_Initializing := [zero_StatusMatcher\<lparr>sm_ByPhase := ''initializing''\<rparr>,
          zero_StatusMatcher\<lparr>sm_ByPhase := ''pending''\<rparr>],
         map_Running := [zero_StatusMatcher\<lparr>sm_ByPhase := ''successful''\<rparr>],
         map_Failed := [zero_StatusMatcher\<lparr>sm_ByPhase := ''failed''\<rparr>]\<rparr>\<rparr>"

definition Dynamo_root :: ComponentDefinition where
  "Dynamo_root =
     zero_ComponentDefinition\<lparr>
       cd_Name := ''dynamographdeployment'',
       cd_Kind := Some (zero_GroupVersionKind\<lparr>
         gvk_Group := ''nvidia.com'',
         gvk_Version := ''v1alpha1'',
         gvk_Kind := ''DynamoGraphDeployment''\<rparr>),
       cd_StatusDefinition := Some Dynamo_status\<rparr>"

definition Dynamo_service :: ComponentDefinition where
  "Dynamo_service =
     zero_ComponentDefinition\<lparr>
       cd_Name := ''service'',
       cd_OwnerRef := Some ''dynamographdeployment'',
       cd_SpecDefinition := Some (zero_SpecDefinition\<lparr>
         sp_FragmentedPodSpecDefinition := Some (zero_FragmentedPodSpecDefinition\<lparr>
           fd_SchedulerNamePath := Some ''.spec.services | .[] | .extraPodSpec.schedulerName'',
           fd_LabelsPath := Some ''.spec.services | .[] | .labels'',
           fd_AnnotationsPath := Some ''.spec.services | .[] | .annotations'',
           fd_ResourcesPath := Some ''.spec.services | .[] | .resources'',
           fd_ResourceClaimsPath := Some ''.spec.services | .[] | .extraPodSpec.resourceClaims'',
           fd_PodAffinityPath := Some ''.spec.services | .[] | .extraPodSpec.affinity.podAffinity'',
           fd_NodeAffinityPath := Some ''.spec.services | .[] | .extraPodSpec.affinity.nodeAffinity'',
           fd_ContainerPath := Some ''.spec.services | .[] | .extraPodSpec.mainContainer'',
           fd_PriorityClassNamePath := Some ''.spec.services | .[] | .extraPodSpec.priorityClassName'',
           fd_ImagePath := Some ''.spec.services | .[] | .extraPodSpec.mainContainer.image''\<rparr>)\<rparr>),
       cd_ScaleDefinition := Some (zero_ScaleDefinition\<lparr>
         sc_ReplicasPath := Some ''.spec.services[] | (.replicas // 1) * (.multinode.nodeCount // 1)'',
         sc_MinReplicasPath := Some ''.spec.services | .[] | .autoscaling.minReplicas'',
         sc_MaxReplicasPath := Some ''.spec.services | .[] | .autoscaling.maxReplicas''\<rparr>),
       cd_InstanceIdPath := Some ''.spec.services | to_entries[] | .key'',
       cd_PodSelector := Some (zero_PodSelector\<lparr>
         psel_ComponentInstanceSelector := Some (zero_ComponentInstanceSelector\<lparr>cis_IdPath := ''.metadata.labels[\"nvidia.com/dynamo-component\"]''\<rparr>),
         psel_ReplicaSelector := Some (zero_ReplicaSelector\<lparr>
           rs_KeyPath := ''.metadata.labels[\"grove.io/podcliquescalinggroup-replica-index\"] // .metadata.labels[\"leaderworkerset.sigs.k8s.io/group-index\"]''\<rparr>)\<rparr>)\<rparr>"

definition Dynamo_instructions :: OptimizationInstructions where
  "Dynamo_instructions =
     zero_OptimizationInstructions\<lparr>
       oi_GangScheduling := Some (zero_GangSchedulingInstruction\<lparr>
         gs_PodGroups := [zero_PodGroupDefinition\<lparr>
            pg_Name := ''service'',
            pg_Members := [zero_PodGroupMemberDefinition\<lparr>
               mem_ComponentName := ''service'',
               mem_GroupByKeyPaths := [''.metadata.labels[\"nvidia.com/dynamo-component\"]'']\<rparr>]\<rparr>]\<rparr>)\<rparr>"

definition Dynamo :: Karta where
  "Dynamo =
     zero_Karta\<lparr>
       k_Name := ''nvidia-com-dynamographdeployment-v1alpha1'',
       k_Spec := zero_KartaSpec\<lparr>
         ks_StructureDefinition := zero_StructureDefinition\<lparr>
           str_RootComponent := Dynamo_root,
           str_ChildComponents := [Dynamo_service],
           str_AdditionalChildKinds := [zero_GroupVersionKind\<lparr>
              gvk_Group := ''nvidia.com'',
              gvk_Version := ''v1alpha1'',
              gvk_Kind := ''DynamoComponentDeployment''\<rparr>,
            zero_GroupVersionKind\<lparr>
              gvk_Group := ''leaderworkerset.x-k8s.io'',
              gvk_Version := ''v1'',
              gvk_Kind := ''LeaderWorkerSet''\<rparr>,
            zero_GroupVersionKind\<lparr>
              gvk_Group := ''scheduler.grove.io'',
              gvk_Version := ''v1alpha1'',
              gvk_Kind := ''PodGang''\<rparr>,
            zero_GroupVersionKind\<lparr>gvk_Group := ''grove.io'', gvk_Version := ''v1alpha1'', gvk_Kind := ''PodClique''\<rparr>,
            zero_GroupVersionKind\<lparr>
              gvk_Group := ''grove.io'',
              gvk_Version := ''v1alpha1'',
              gvk_Kind := ''PodCliqueSet''\<rparr>,
            zero_GroupVersionKind\<lparr>
              gvk_Group := ''grove.io'',
              gvk_Version := ''v1alpha1'',
              gvk_Kind := ''PodCliqueScalingGroup''\<rparr>]\<rparr>,
         ks_Instructions := Dynamo_instructions\<rparr>\<rparr>"

section \<open>dynamo\_v1beta1.go\<close>

definition DynamoV1beta1_status :: StatusDefinition where
  "DynamoV1beta1_status =
     zero_StatusDefinition\<lparr>
       std_PhaseDefinition := Some (zero_PhaseDefinition\<lparr>pd_Path := ''.status.state''\<rparr>),
       std_StatusMappings := zero_StatusMappings\<lparr>
         map_Initializing := [zero_StatusMatcher\<lparr>sm_ByPhase := ''initializing''\<rparr>,
          zero_StatusMatcher\<lparr>sm_ByPhase := ''pending''\<rparr>],
         map_Running := [zero_StatusMatcher\<lparr>sm_ByPhase := ''successful''\<rparr>],
         map_Failed := [zero_StatusMatcher\<lparr>sm_ByPhase := ''failed''\<rparr>]\<rparr>\<rparr>"

definition DynamoV1beta1_root :: ComponentDefinition where
  "DynamoV1beta1_root =
     zero_ComponentDefinition\<lparr>
       cd_Name := ''dynamographdeployment'',
       cd_Kind := Some (zero_GroupVersionKind\<lparr>
         gvk_Group := ''nvidia.com'',
         gvk_Version := ''v1beta1'',
         gvk_Kind := ''DynamoGraphDeployment''\<rparr>),
       cd_StatusDefinition := Some DynamoV1beta1_status\<rparr>"

definition DynamoV1beta1_component :: ComponentDefinition where
  "DynamoV1beta1_component =
     zero_ComponentDefinition\<lparr>
       cd_Name := ''component'',
       cd_OwnerRef := Some ''dynamographdeployment'',
       cd_SpecDefinition := Some (zero_SpecDefinition\<lparr>
         sp_FragmentedPodSpecDefinition := Some (zero_FragmentedPodSpecDefinition\<lparr>
           fd_SchedulerNamePath := Some ''.spec.components[] | .podTemplate.spec.schedulerName'',
           fd_LabelsPath := Some ''.spec.components[] | .podTemplate.metadata.labels'',
           fd_AnnotationsPath := Some ''.spec.components[] | .podTemplate.metadata.annotations'',
           fd_ResourceClaimsPath := Some ''.spec.components[] | .podTemplate.spec.resourceClaims'',
           fd_PodAffinityPath := Some ''.spec.components[] | .podTemplate.spec.affinity.podAffinity'',
           fd_NodeAffinityPath := Some ''.spec.components[] | .podTemplate.spec.affinity.nodeAffinity'',
           fd_ContainerPath := Some ''.spec.components[] | .podTemplate.spec.containers[] | select(.name == \"main\")'',
           fd_ImagePath := Some ''.spec.components[] | .podTemplate.spec.containers[] | select(.name == \"main\") | .image'',
           fd_PriorityClassNamePath := Some ''.spec.components[] | .podTemplate.spec.priorityClassName''\<rparr>)\<rparr>),
       cd_ScaleDefinition := Some (zero_ScaleDefinition\<lparr>
         sc_ReplicasPath := Some ''.spec.components[] | (.replicas // 1) * (.multinode.nodeCount // 1)''\<rparr>),
       cd_InstanceIdPath := Some ''.spec.components[] | .name'',
       cd_PodSelector := Some (zero_PodSelector\<lparr>
         psel_ComponentInstanceSelector := Some (zero_ComponentInstanceSelector\<lparr>cis_IdPath := ''.metadata.labels[\"nvidia.com/dynamo-component\"]''\<rparr>),
         psel_ReplicaSelector := Some (zero_ReplicaSelector\<lparr>
           rs_KeyPath := ''.metadata.labels[\"grove.io/podcliquescalinggroup-replica-index\"] // .metadata.labels[\"leaderworkerset.sigs.k8s.io/group-index\"]''\<rparr>)\<rparr>)\<rparr>"

definition DynamoV1beta1_instructions :: OptimizationInstructions where
  "DynamoV1beta1_instructions =
     zero_OptimizationInstructions\<lparr>
       oi_GangScheduling := Some (zero_GangSchedulingInstruction\<lparr>
         gs_PodGroups := [zero_PodGroupDefinition\<lparr>
            pg_Name := ''component'',
            pg_Members := [zero_PodGroupMemberDefinition\<lparr>
               mem_ComponentName := ''component'',
               mem_GroupByKeyPaths := [''.metadata.labels[\"nvidia.com/dynamo-component\"] | ascii_downcase'']\<rparr>]\<rparr>]\<rparr>)\<rparr>"

definition DynamoV1beta1 :: Karta where
  "DynamoV1beta1 =
     zero_Karta\<lparr>
       k_Name := ''nvidia-com-dynamographdeployment-v1beta1'',
       k_Spec := zero_KartaSpec\<lparr>
         ks_StructureDefinition := zero_StructureDefinition\<lparr>
           str_RootComponent := DynamoV1beta1_root,
           str_ChildComponents := [DynamoV1beta1_component],
           str_AdditionalChildKinds := [zero_GroupVersionKind\<lparr>
              gvk_Group := ''nvidia.com'',
              gvk_Version := ''v1beta1'',
              gvk_Kind := ''DynamoComponentDeployment''\<rparr>,
            zero_GroupVersionKind\<lparr>
              gvk_Group := ''leaderworkerset.x-k8s.io'',
              gvk_Version := ''v1'',
              gvk_Kind := ''LeaderWorkerSet''\<rparr>,
            zero_GroupVersionKind\<lparr>
              gvk_Group := ''scheduler.grove.io'',
              gvk_Version := ''v1alpha1'',
              gvk_Kind := ''PodGang''\<rparr>,
            zero_GroupVersionKind\<lparr>gvk_Group := ''grove.io'', gvk_Version := ''v1alpha1'', gvk_Kind := ''PodClique''\<rparr>,
            zero_GroupVersionKind\<lparr>
              gvk_Group := ''grove.io'',
              gvk_Version := ''v1alpha1'',
              gvk_Kind := ''PodCliqueSet''\<rparr>,
            zero_GroupVersionKind\<lparr>
              gvk_Group := ''grove.io'',
              gvk_Version := ''v1alpha1'',
              gvk_Kind := ''PodCliqueScalingGroup''\<rparr>]\<rparr>,
         ks_Instructions := DynamoV1beta1_instructions\<rparr>\<rparr>"

section \<open>grove\_podcliqueset.go\<close>

definition GrovePodCliqueSet_status :: StatusDefinition where
  "GrovePodCliqueSet_status =
     zero_StatusDefinition\<lparr>
       std_ConditionsDefinition := Some (zero_ConditionsDefinition\<lparr>
         cdef_Path := ''.status.conditions'',
         cdef_TypeFieldName := ''type'',
         cdef_StatusFieldName := ''status'',
         cdef_ReasonFieldName := Some ''reason'',
         cdef_MessageFieldName := Some ''message''\<rparr>),
       std_StatusMappings := zero_StatusMappings\<lparr>
         map_Failed := [zero_StatusMatcher\<lparr>
            sm_ByConditions := [zero_ExpectedCondition\<lparr>ec_Type := ''TopologyLevelsUnavailable'', ec_Status := Some ''True''\<rparr>]\<rparr>],
         map_Running := [zero_StatusMatcher\<lparr>
            sm_ByExpression := Some (zero_ExpressionMatcher\<lparr>
              em_Expression := ''(.status.availableReplicas // 0) >= (.spec.replicas // 0)'',
              em_ExpectedResult := ''true''\<rparr>)\<rparr>],
         map_Initializing := [zero_StatusMatcher\<lparr>
            sm_ByExpression := Some (zero_ExpressionMatcher\<lparr>
              em_Expression := ''(.spec.replicas // 0) > 0 and (.status.availableReplicas // 0) < (.spec.replicas // 0)'',
              em_ExpectedResult := ''true''\<rparr>)\<rparr>]\<rparr>\<rparr>"

definition GrovePodCliqueSet_root :: ComponentDefinition where
  "GrovePodCliqueSet_root =
     zero_ComponentDefinition\<lparr>
       cd_Name := ''podcliqueset'',
       cd_Kind := Some (zero_GroupVersionKind\<lparr>
         gvk_Group := ''grove.io'',
         gvk_Version := ''v1alpha1'',
         gvk_Kind := ''PodCliqueSet''\<rparr>),
       cd_StatusDefinition := Some GrovePodCliqueSet_status\<rparr>"

definition GrovePodCliqueSet_clique :: ComponentDefinition where
  "GrovePodCliqueSet_clique =
     zero_ComponentDefinition\<lparr>
       cd_Name := ''clique'',
       cd_Kind := Some (zero_GroupVersionKind\<lparr>gvk_Group := ''grove.io'', gvk_Version := ''v1alpha1'', gvk_Kind := ''PodClique''\<rparr>),
       cd_OwnerRef := Some ''podcliqueset'',
       cd_SpecDefinition := Some (zero_SpecDefinition\<lparr>
         sp_FragmentedPodSpecDefinition := Some (zero_FragmentedPodSpecDefinition\<lparr>
           fd_SchedulerNamePath := Some ''.spec.template.cliques[].spec.podSpec.schedulerName'',
           fd_LabelsPath := Some ''.spec.template.cliques[].labels'',
           fd_AnnotationsPath := Some ''.spec.template.cliques[].annotations'',
           fd_ContainersPath := Some ''.spec.template.cliques[].spec.podSpec.containers'',
           fd_ResourceClaimsPath := Some ''.spec.template.cliques[].spec.podSpec.resourceClaims'',
           fd_PriorityClassNamePath := Some ''.spec.template.cliques[].spec.podSpec.priorityClassName'',
           fd_PodAffinityPath := Some ''.spec.template.cliques[].spec.podSpec.affinity.podAffinity'',
           fd_NodeAffinityPath := Some ''.spec.template.cliques[].spec.podSpec.affinity.nodeAffinity''\<rparr>)\<rparr>),
       cd_ScaleDefinition := Some (zero_ScaleDefinition\<lparr>
         sc_ReplicasPath := Some ''(.spec.replicas // 1) * (.spec.template.cliques[].spec.replicas // 1)'',
         sc_MinReplicasPath := Some ''.spec.template.cliques[].spec.autoScalingConfig.minReplicas'',
         sc_MaxReplicasPath := Some ''.spec.template.cliques[].spec.autoScalingConfig.maxReplicas''\<rparr>),
       cd_InstanceIdPath := Some ''.spec.template.cliques[].name'',
       cd_PodSelector := Some (zero_PodSelector\<lparr>
         psel_ComponentInstanceSelector := Some (zero_ComponentInstanceSelector\<lparr>cis_IdPath := ''.metadata.labels[\"grove.io/podclique\"]''\<rparr>),
         psel_ReplicaSelector := Some (zero_ReplicaSelector\<lparr>rs_KeyPath := ''.metadata.labels[\"grove.io/podcliqueset-replica-index\"]''\<rparr>)\<rparr>)\<rparr>"

definition GrovePodCliqueSet_scalinggroup :: ComponentDefinition where
  "GrovePodCliqueSet_scalinggroup =
     zero_ComponentDefinition\<lparr>
       cd_Name := ''scalinggroup'',
       cd_Kind := Some (zero_GroupVersionKind\<lparr>
         gvk_Group := ''grove.io'',
         gvk_Version := ''v1alpha1'',
         gvk_Kind := ''PodCliqueScalingGroup''\<rparr>),
       cd_OwnerRef := Some ''podcliqueset'',
       cd_ScaleDefinition := Some (zero_ScaleDefinition\<lparr>
         sc_ReplicasPath := Some ''(.spec.replicas // 1) * (.spec.template.podCliqueScalingGroups[].replicas // 1)'',
         sc_MinReplicasPath := Some ''.spec.template.podCliqueScalingGroups[].scaleConfig.minReplicas'',
         sc_MaxReplicasPath := Some ''.spec.template.podCliqueScalingGroups[].scaleConfig.maxReplicas''\<rparr>),
       cd_InstanceIdPath := Some ''.spec.template.podCliqueScalingGroups[].name'',
       cd_PodSelector := Some (zero_PodSelector\<lparr>
         psel_ComponentInstanceSelector := Some (zero_ComponentInstanceSelector\<lparr>cis_IdPath := ''.metadata.labels[\"grove.io/podcliquescalinggroup\"]''\<rparr>),
         psel_ReplicaSelector := Some (zero_ReplicaSelector\<lparr>
           rs_KeyPath := ''.metadata.labels[\"grove.io/podcliquescalinggroup-replica-index\"]''\<rparr>)\<rparr>)\<rparr>"

definition GrovePodCliqueSet_instructions :: OptimizationInstructions where
  "GrovePodCliqueSet_instructions =
     zero_OptimizationInstructions\<lparr>
       oi_GangScheduling := Some (zero_GangSchedulingInstruction\<lparr>
         gs_PodGroups := [zero_PodGroupDefinition\<lparr>
            pg_Name := ''podcliqueset-replica'',
            pg_Members := [zero_PodGroupMemberDefinition\<lparr>
               mem_ComponentName := ''clique'',
               mem_GroupByKeyPaths := [''.metadata.labels[\"app.kubernetes.io/part-of\"]'', ''.metadata.labels[\"grove.io/podcliqueset-replica-index\"]'']\<rparr>,
             zero_PodGroupMemberDefinition\<lparr>
               mem_ComponentName := ''scalinggroup'',
               mem_GroupByKeyPaths := [''.metadata.labels[\"app.kubernetes.io/part-of\"]'', ''.metadata.labels[\"grove.io/podcliqueset-replica-index\"]'']\<rparr>]\<rparr>]\<rparr>)\<rparr>"

definition GrovePodCliqueSet :: Karta where
  "GrovePodCliqueSet =
     zero_Karta\<lparr>
       k_Name := ''grove-io-podcliqueset-v1alpha1'',
       k_Spec := zero_KartaSpec\<lparr>
         ks_StructureDefinition := zero_StructureDefinition\<lparr>
           str_RootComponent := GrovePodCliqueSet_root,
           str_ChildComponents := [GrovePodCliqueSet_clique, GrovePodCliqueSet_scalinggroup],
           str_AdditionalChildKinds := [zero_GroupVersionKind\<lparr>gvk_Group := ''grove.io'', gvk_Version := ''v1alpha1'', gvk_Kind := ''PodClique''\<rparr>,
            zero_GroupVersionKind\<lparr>
              gvk_Group := ''grove.io'',
              gvk_Version := ''v1alpha1'',
              gvk_Kind := ''PodCliqueScalingGroup''\<rparr>,
            zero_GroupVersionKind\<lparr>
              gvk_Group := ''scheduler.grove.io'',
              gvk_Version := ''v1alpha1'',
              gvk_Kind := ''PodGang''\<rparr>]\<rparr>,
         ks_Instructions := GrovePodCliqueSet_instructions\<rparr>\<rparr>"

section \<open>sandbox.go\<close>

definition sandboxOwnerUID :: string where
  "sandboxOwnerUID =
     ''[.metadata.ownerReferences[]? | select(.kind == \"Sandbox\" and (.apiVersion | startswith(\"agents.x-k8s.io/\"))) | .uid][0]''"

definition sandboxPodLabel :: string where
  "sandboxPodLabel =
     ''.metadata.labels[\"agents.x-k8s.io/sandbox-name-hash\"]''"

definition Sandbox_status :: StatusDefinition where
  "Sandbox_status =
     zero_StatusDefinition\<lparr>
       std_ConditionsDefinition := Some (zero_ConditionsDefinition\<lparr>
         cdef_Path := ''.status.conditions'',
         cdef_TypeFieldName := ''type'',
         cdef_StatusFieldName := ''status'',
         cdef_MessageFieldName := Some ''message'',
         cdef_ReasonFieldName := Some ''reason''\<rparr>),
       std_StatusMappings := zero_StatusMappings\<lparr>
         map_Initializing := [zero_StatusMatcher\<lparr>
            sm_ByConditions := [zero_ExpectedCondition\<lparr>ec_Type := ''Ready'', ec_Status := Some ''False''\<rparr>,
             zero_ExpectedCondition\<lparr>ec_Type := ''Suspended'', ec_Status := Some ''False''\<rparr>],
            sm_ByExpression := Some (zero_ExpressionMatcher\<lparr>
              em_Expression := ''(.spec.operatingMode // \"Running\") != \"Suspended\"'',
              em_ExpectedResult := ''true''\<rparr>)\<rparr>],
         map_Running := [zero_StatusMatcher\<lparr>
            sm_ByConditions := [zero_ExpectedCondition\<lparr>ec_Type := ''Ready'', ec_Status := Some ''True''\<rparr>],
            sm_ByExpression := Some (zero_ExpressionMatcher\<lparr>
              em_Expression := ''(.spec.operatingMode // \"Running\") != \"Suspended\" and ([(.status.conditions // [])[] | select(.type == \"Suspended\" and .status == \"True\")] | length) == 0'',
              em_ExpectedResult := ''true''\<rparr>)\<rparr>],
         map_Suspending := [zero_StatusMatcher\<lparr>
            sm_ByExpression := Some (zero_ExpressionMatcher\<lparr>
              em_Expression := ''.spec.operatingMode == \"Suspended\" and ([(.status.conditions // [])[] | select(.type == \"Suspended\" and .status == \"True\")] | length) == 0'',
              em_ExpectedResult := ''true''\<rparr>)\<rparr>],
         map_Suspended := [zero_StatusMatcher\<lparr>
            sm_ByConditions := [zero_ExpectedCondition\<lparr>ec_Type := ''Suspended'', ec_Status := Some ''True''\<rparr>],
            sm_ByExpression := Some (zero_ExpressionMatcher\<lparr>
              em_Expression := ''.spec.operatingMode == \"Suspended\"'',
              em_ExpectedResult := ''true''\<rparr>)\<rparr>],
         map_Resuming := [zero_StatusMatcher\<lparr>
            sm_ByConditions := [zero_ExpectedCondition\<lparr>ec_Type := ''Suspended'', ec_Status := Some ''True''\<rparr>],
            sm_ByExpression := Some (zero_ExpressionMatcher\<lparr>
              em_Expression := ''(.spec.operatingMode // \"Running\") != \"Suspended\"'',
              em_ExpectedResult := ''true''\<rparr>)\<rparr>]\<rparr>\<rparr>"

definition Sandbox_root :: ComponentDefinition where
  "Sandbox_root =
     zero_ComponentDefinition\<lparr>
       cd_Name := ''sandbox'',
       cd_Kind := Some (zero_GroupVersionKind\<lparr>
         gvk_Group := ''agents.x-k8s.io'',
         gvk_Version := ''v1beta1'',
         gvk_Kind := ''Sandbox''\<rparr>),
       cd_SuspendDefinition := Some (zero_SuspendDefinition\<lparr>
         sus_SuspendActions := [zero_SuspendAction\<lparr>sa_Path := ''.spec.operatingMode'', sa_Value := ''\"Suspended\"''\<rparr>],
         sus_ResumeActions := [zero_SuspendAction\<lparr>sa_Path := ''.spec.operatingMode'', sa_Value := ''\"Running\"''\<rparr>]\<rparr>),
       cd_StatusDefinition := Some Sandbox_status\<rparr>"

definition Sandbox_agent :: ComponentDefinition where
  "Sandbox_agent =
     zero_ComponentDefinition\<lparr>
       cd_Name := ''agent'',
       cd_Kind := Some (zero_GroupVersionKind\<lparr>gvk_Group := '''', gvk_Version := ''v1'', gvk_Kind := ''Pod''\<rparr>),
       cd_OwnerRef := Some ''sandbox'',
       cd_SpecDefinition := Some (zero_SpecDefinition\<lparr>sp_PodTemplateSpecPath := Some ''.spec.podTemplate''\<rparr>),
       cd_PodSelector := Some (zero_PodSelector\<lparr>
         psel_ComponentTypeSelector := Some (zero_ComponentTypeSelector\<lparr>cts_KeyPath := sandboxPodLabel\<rparr>)\<rparr>)\<rparr>"

definition Sandbox_companion :: ComponentDefinition where
  "Sandbox_companion =
     zero_ComponentDefinition\<lparr>
       cd_Name := ''companion'',
       cd_Kind := Some (zero_GroupVersionKind\<lparr>gvk_Group := '''', gvk_Version := ''v1'', gvk_Kind := ''Pod''\<rparr>),
       cd_OwnerRef := Some ''sandbox'',
       cd_PodSelector := Some (zero_PodSelector\<lparr>
         psel_ComponentTypeSelector := Some (zero_ComponentTypeSelector\<lparr>
           cts_KeyPath := ''select('' @ sandboxPodLabel @ '' == null) | '' @ sandboxOwnerUID\<rparr>)\<rparr>)\<rparr>"

definition Sandbox_instructions :: OptimizationInstructions where
  "Sandbox_instructions =
     zero_OptimizationInstructions\<lparr>
       oi_GangScheduling := Some (zero_GangSchedulingInstruction\<lparr>
         gs_PodGroups := [zero_PodGroupDefinition\<lparr>
            pg_Name := ''sandbox'',
            pg_Members := [zero_PodGroupMemberDefinition\<lparr>mem_ComponentName := ''agent'', mem_GroupByKeyPaths := [sandboxOwnerUID]\<rparr>,
             zero_PodGroupMemberDefinition\<lparr>
               mem_ComponentName := ''companion'',
               mem_GroupByKeyPaths := [sandboxOwnerUID]\<rparr>]\<rparr>]\<rparr>)\<rparr>"

definition Sandbox :: Karta where
  "Sandbox =
     zero_Karta\<lparr>
       k_Name := ''agents-x-k8s-io-sandbox-v1beta1'',
       k_Spec := zero_KartaSpec\<lparr>
         ks_StructureDefinition := zero_StructureDefinition\<lparr>
           str_RootComponent := Sandbox_root,
           str_ChildComponents := [Sandbox_agent, Sandbox_companion]\<rparr>,
         ks_Instructions := Sandbox_instructions\<rparr>\<rparr>"

end
