(* ===== verification/Catalog.thy ===== *)
theory Catalog
  imports Catalog_Kartas Karta_Validation "HOL-Library.Char_ord" "HOL-Library.List_Lexorder"
begin

text \<open>
  \<^verbatim>\<open>karta/sdk/pkg/catalog/catalog.go\<close>: the catalog of built-in Kartas, indexed by the kind of their root components. The text of
  a kind (GroupVersionKind.String of apimachinery) is the parameter \<open>str\<close>. A catalog entry is a value, so that the deep copies of Get
  and List are the entries themselves. MarshalYAML only calls the YAML library and is left out.
\<close>

section \<open>Sorting by a text\<close>

text \<open>
  slices.SortedFunc and slices.SortFunc with a comparison by strings.Compare of a text: a permutation that is sorted by the
  text. Which of two elements with the same text comes first is left open.
\<close>

locale key_sorter =
  fixes sort_by :: "('k \<Rightarrow> string) \<Rightarrow> 'k list \<Rightarrow> 'k list"
  assumes sort_by_permutes: "mset (sort_by f ks) = mset ks"
    and sort_by_sorts: "sorted (map f (sort_by f ks))"
begin

lemma set_sort_by [simp]: "set (sort_by f ks) = set ks"
  by (metis sort_by_permutes set_mset_mset)

lemma distinct_sort_by: "distinct ks \<Longrightarrow> distinct (sort_by f ks)"
  by (metis sort_by_permutes mset_eq_imp_distinct_iff)

lemma sort_by_unique:
  assumes "inj_on f (set ks)"
  shows "sort_by f ks = sort_key f ks"
proof (rule map_inj_on [where f = f])
  have "mset (map f (sort_by f ks)) = mset (map f (sort_key f ks))"
    by (simp add: sort_by_permutes)
  then show "map f (sort_by f ks) = map f (sort_key f ks)"
    using sort_by_sorts sorted_sort_key by (metis properties_for_sort)
  show "inj_on f (set (sort_by f ks) \<union> set (sort_key f ks))" using assms by simp
qed

end

interpretation ksort: key_sorter sort_key
  by unfold_locales simp_all

section \<open>Definitions\<close>

record Catalog =
  cat_byGVK :: "(GroupVersionKind \<times> Karta) list"

definition ErrNotFound :: goerr where
  "ErrNotFound = Errorf ''catalog: no Karta registered for GVK'' []"

definition ErrInvalidGVK :: goerr where
  "ErrInvalidGVK = Errorf ''catalog: root component GVK incomplete'' []"

definition RootKey :: "Karta \<Rightarrow> GroupVersionKind" where
  "RootKey k = (case cd_Kind (root_of k) of None \<Rightarrow> zero_GroupVersionKind | Some kind \<Rightarrow> kind)"

definition incomplete_kind :: "GroupVersionKind option \<Rightarrow> bool" where
  "incomplete_kind kind \<longleftrightarrow> (case kind of None \<Rightarrow> True | Some g \<Rightarrow> gvk_Version g = [] \<or> gvk_Kind g = [])"

fun newCatalog_loop :: "(GroupVersionKind \<Rightarrow> string) \<Rightarrow> Karta list \<Rightarrow> (GroupVersionKind \<times> Karta) list \<Rightarrow> (GroupVersionKind \<times> Karta) list res" where
  "newCatalog_loop str [] byGVK = Ok byGVK"
| "newCatalog_loop str (k # ks) byGVK =
     (if incomplete_kind (cd_Kind (root_of k))
      then Err (Wrapf ''%w: Karta %q'' [AStr (k_Name k)] ErrInvalidGVK)
      else case map_of byGVK (RootKey k) of
        Some existing \<Rightarrow> Err (Errorf ''duplicate GVK %s defined by %q and %q''
                            [AStr (str (RootKey k)), AStr (k_Name existing), AStr (k_Name k)])
      | None \<Rightarrow> newCatalog_loop str ks (AList.update (RootKey k) k byGVK))"

definition newCatalog :: "(GroupVersionKind \<Rightarrow> string) \<Rightarrow> Karta list \<Rightarrow> Catalog res" where
  "newCatalog str defs = (case newCatalog_loop str defs [] of
       Ok m \<Rightarrow> Ok \<lparr>cat_byGVK = m\<rparr> | Err e \<Rightarrow> Err e | Panic p \<Rightarrow> Panic p | NoReturn \<Rightarrow> NoReturn)"

definition definitions :: "Karta list" where
  "definitions =
     [BatchJob, CronJob, Deployment, StatefulSet, Pod, Jobset, Pytorch, Mpijob, Raycluster, Rayjob, RayService, LWS, KServe,
      LLMInferenceService, LLMInferenceServiceV1alpha2, KnativeServing, NIMService, NIMCache, Milvus, Dynamo, DynamoV1beta1,
      GrovePodCliqueSet, Sandbox]"

definition catalog_New :: "(GroupVersionKind \<Rightarrow> string) \<Rightarrow> Catalog res" where
  "catalog_New str = (case newCatalog str definitions of Err e \<Rightarrow> Panic ''catalog: %v'' | x \<Rightarrow> x)"

definition catalog_Get :: "(GroupVersionKind \<Rightarrow> string) \<Rightarrow> Catalog \<Rightarrow> GroupVersionKind \<Rightarrow> Karta res" where
  "catalog_Get str c gvk = (case map_of (cat_byGVK c) gvk of
       Some k \<Rightarrow> Ok k
     | None \<Rightarrow> Err (Wrapf ''%w: %s'' [AStr (str gvk)] ErrNotFound))"

text \<open>The loop over the sorted keys reads the map; a key of the map is always found.\<close>

definition catalog_List ::
  "((GroupVersionKind \<Rightarrow> string) \<Rightarrow> GroupVersionKind list \<Rightarrow> GroupVersionKind list) \<Rightarrow> (GroupVersionKind \<Rightarrow> string) \<Rightarrow> Catalog \<Rightarrow> Karta list" where
  "catalog_List sort_by str c =
     (let ks = sort_by str (map fst (cat_byGVK c))
      in List.map_filter (map_of (cat_byGVK c)) ks)"

text \<open>strings.ReplaceAll(group, ".", "-") and strings.ToLower on ASCII text.\<close>

definition dots_to_dashes :: "string \<Rightarrow> string" where
  "dots_to_dashes s = map (\<lambda>c. if c = CHR ''.'' then CHR ''-'' else c) s"

definition to_lower :: "string \<Rightarrow> string" where
  "to_lower s = map (\<lambda>c. if CHR ''A'' \<le> c \<and> c \<le> CHR ''Z'' then char_of ((of_char c :: nat) + 32) else c) s"

definition Slug :: "Karta \<Rightarrow> string res" where
  "Slug k =
     (let gvk = RootKey k
      in if gvk_Version gvk = [] \<or> gvk_Kind gvk = []
         then Err (Wrapf ''%w: Karta %q'' [AStr (k_Name k)] ErrInvalidGVK)
         else let group = (if gvk_Group gvk = [] then ''core'' else gvk_Group gvk)
              in Ok (dots_to_dashes group @ ''-'' @ to_lower (gvk_Kind gvk) @ ''-'' @ gvk_Version gvk))"

section \<open>Building a catalog\<close>

lemma update_fresh: "a \<notin> fst ` set m \<Longrightarrow> AList.update a b m = m @ [(a, b)]"
  by (induction m) auto

lemma newCatalog_loop_Ok:
  "newCatalog_loop str ks m = Ok m' \<longleftrightarrow>
     (\<forall>k \<in> set ks. \<not> incomplete_kind (cd_Kind (root_of k)))
     \<and> distinct (map RootKey ks) \<and> RootKey ` set ks \<inter> fst ` set m = {}
     \<and> m' = m @ map (\<lambda>k. (RootKey k, k)) ks"
proof (induction ks arbitrary: m)
  case Nil
  then show ?case by auto
next
  case (Cons k ks)
  show ?case
  proof (cases "map_of m (RootKey k)")
    case None
    then have fresh: "RootKey k \<notin> fst ` set m" by (simp add: map_of_eq_None_iff)
    with None Cons.IH [of "m @ [(RootKey k, k)]"] show ?thesis by (auto simp: update_fresh)
  next
    case (Some x)
    then have "RootKey k \<in> fst ` set m" by (metis map_of_eq_None_iff option.distinct(1))
    with Some show ?thesis by auto
  qed
qed

lemma newCatalog_Ok:
  "newCatalog str ks = Ok c \<longleftrightarrow>
     (\<forall>k \<in> set ks. \<not> incomplete_kind (cd_Kind (root_of k))) \<and> distinct (map RootKey ks)
     \<and> c = \<lparr>cat_byGVK = map (\<lambda>k. (RootKey k, k)) ks\<rparr>"
proof -
  have "newCatalog str ks = Ok c \<longleftrightarrow> newCatalog_loop str ks [] = Ok (cat_byGVK c)"
    by (cases c) (auto simp: newCatalog_def split: res.splits)
  also have "\<dots> \<longleftrightarrow> (\<forall>k \<in> set ks. \<not> incomplete_kind (cd_Kind (root_of k))) \<and> distinct (map RootKey ks)
      \<and> c = \<lparr>cat_byGVK = map (\<lambda>k. (RootKey k, k)) ks\<rparr>"
    by (cases c) (simp add: newCatalog_loop_Ok)
  finally show ?thesis .
qed

lemma catalog_lookup:
  "distinct (map RootKey ks) \<Longrightarrow> k \<in> set ks \<Longrightarrow> map_of (map (\<lambda>k. (RootKey k, k)) ks) (RootKey k) = Some k"
  by (intro map_of_is_SomeI) (auto simp: comp_def)

lemma catalog_List_mset:
  assumes "distinct (map RootKey ks)" "mset xs = mset (map RootKey ks)"
  shows "mset (List.map_filter (map_of (map (\<lambda>k. (RootKey k, k)) ks)) xs) = mset ks"
proof -
  let ?m = "map_of (map (\<lambda>k. (RootKey k, k)) ks)"
  have "mset (List.map_filter ?m xs) = mset (List.map_filter ?m (map RootKey ks))"
    unfolding List.map_filter_def mset_map mset_filter assms(2) ..
  also have "List.map_filter ?m (map RootKey ks) = ks"
  proof -
    have "List.map_filter ?m (map RootKey xs) = xs" if "set xs \<subseteq> set ks" for xs
      using that catalog_lookup [OF assms(1)] by (induction xs) (auto simp: List.map_filter_simps)
    then show ?thesis by simp
  qed
  finally show ?thesis .
qed

section \<open>The built-in catalog\<close>

lemma definitions_keys: "distinct (map RootKey definitions)"
  by code_simp

lemma definitions_complete: "list_all (\<lambda>k. \<not> incomplete_kind (cd_Kind (root_of k))) definitions"
  by code_simp

lemma definitions_names: "map Slug definitions = map (\<lambda>k. Ok (k_Name k)) definitions"
  by code_simp

text \<open>All checks of Validate but those of the jq expressions.\<close>

definition structurally_valid :: "Karta \<Rightarrow> bool" where
  "structurally_valid k = (case initialize k of
     (errs, all) \<Rightarrow> errs = [] \<and> validateStructureDefinition all k = [] \<and> validateInstructions all k = [])"

lemma Validate_structural:
  "Validate parse (Some k) = None \<longleftrightarrow>
     structurally_valid k \<and> (\<forall>expr \<in> set (map snd (karta_jq k)). acceptable parse expr)"
  by (auto simp: Validate_def structurally_valid_def errors_Join_def ValidateJQExpressions_karta check_all_empty
      split: prod.splits if_splits)

lemma structure_a:
  "structurally_valid Milvus"
  by code_simp+

lemma structure_b:
  "structurally_valid BatchJob"
  "structurally_valid StatefulSet"
  "structurally_valid Pytorch"
  "structurally_valid Rayjob"
  "structurally_valid KServe"
  "structurally_valid KnativeServing"
  "structurally_valid Dynamo"
  "structurally_valid Sandbox"
  by code_simp+

lemma structure_c:
  "structurally_valid CronJob"
  "structurally_valid Pod"
  "structurally_valid Mpijob"
  "structurally_valid RayService"
  "structurally_valid LLMInferenceService"
  "structurally_valid NIMService"
  "structurally_valid DynamoV1beta1"
  by code_simp+

lemma structure_d:
  "structurally_valid Deployment"
  "structurally_valid Jobset"
  "structurally_valid Raycluster"
  "structurally_valid LWS"
  "structurally_valid LLMInferenceServiceV1alpha2"
  "structurally_valid NIMCache"
  "structurally_valid GrovePodCliqueSet"
  by code_simp+

lemma definitions_structure: "list_all structurally_valid definitions"
  by (simp add: definitions_def structure_a structure_b structure_c structure_d)

end
