(* ===== verification/Catalog_Properties.thy ===== *)
theory Catalog_Properties
  imports Catalog
begin

text \<open>
  The properties of the built-in catalog: it is built without an error, finds its Kartas by the kind of their roots, and its
  Kartas are valid.
\<close>

lemma definitions_map:
  "newCatalog str definitions = Ok \<lparr>cat_byGVK = map (\<lambda>k. (RootKey k, k)) definitions\<rparr>"
  using definitions_keys definitions_complete by (simp add: newCatalog_Ok list_all_iff)

lemma map_of_find: "map_of (map (\<lambda>k. (f k, k)) ks) x = find (\<lambda>k. f k = x) ks"
  by (induction ks) auto

lemma RootKey_find: "find (\<lambda>k. RootKey k = gvk) ks = Some k \<Longrightarrow> RootKey k = gvk"
  by (auto simp: find_Some_iff)

lemma catalog_List_keys:
  assumes "\<forall>gvk \<in> set xs. find (\<lambda>k. RootKey k = gvk) ks \<noteq> None"
  shows "map RootKey (List.map_filter (\<lambda>gvk. find (\<lambda>k. RootKey k = gvk) ks) xs) = xs"
  using assms by (induction xs) (auto simp: List.map_filter_simps dest: RootKey_find)

text \<open>C36 Building the catalog never panics. Get answers with the Karta whose root component has the requested kind, and
  with ErrNotFound when the catalog has none; List returns every built-in Karta once, sorted by the text of its kind, for every
  function that slices.SortedFunc may be.\<close>

theorem catalog_builds:
  assumes "key_sorter sort_by"
  shows "\<exists>c. catalog_New str = Ok c
    \<and> (\<forall>gvk. catalog_Get str c gvk = (case find (\<lambda>k. RootKey k = gvk) definitions of
          Some k \<Rightarrow> Ok k | None \<Rightarrow> Err (Wrapf ''%w: %s'' [AStr (str gvk)] ErrNotFound)))
    \<and> mset (catalog_List sort_by str c) = mset definitions
    \<and> sorted (map (str \<circ> RootKey) (catalog_List sort_by str c))"
proof -
  let ?c = "\<lparr>cat_byGVK = map (\<lambda>k. (RootKey k, k)) definitions\<rparr>"
  let ?keys = "sort_by str (map RootKey definitions)"
  note S = key_sorter.sort_by_permutes [OF assms, of str "map RootKey definitions"]
    key_sorter.sort_by_sorts [OF assms, of str "map RootKey definitions"]
    key_sorter.set_sort_by [OF assms, of str "map RootKey definitions"]
  have get: "map_of (cat_byGVK ?c) = (\<lambda>gvk. find (\<lambda>k. RootKey k = gvk) definitions)"
    by (rule ext) (simp add: map_of_find)
  have lst: "catalog_List sort_by str ?c = List.map_filter (\<lambda>gvk. find (\<lambda>k. RootKey k = gvk) definitions) ?keys"
    unfolding catalog_List_def get by (simp add: comp_def)
  have "mset (catalog_List sort_by str ?c) = mset definitions"
    unfolding lst get [symmetric] using catalog_List_mset [OF definitions_keys S(1)] by simp
  moreover have "map RootKey (catalog_List sort_by str ?c) = ?keys"
    unfolding lst by (rule catalog_List_keys) (auto simp: S(3) find_None_iff)
  then have "sorted (map (str \<circ> RootKey) (catalog_List sort_by str ?c))"
    using S(2) by (metis list.map_comp)
  moreover have "catalog_New str = Ok ?c" by (simp add: catalog_New_def definitions_map)
  moreover have "catalog_Get str ?c gvk = (case find (\<lambda>k. RootKey k = gvk) definitions of
      Some k \<Rightarrow> Ok k | None \<Rightarrow> Err (Wrapf ''%w: %s'' [AStr (str gvk)] ErrNotFound))" for gvk
    unfolding catalog_Get_def get by (simp split: option.split)
  ultimately show ?thesis by blast
qed

theorem catalog_builds_witness:
  "\<exists>c. catalog_New gvk_Kind = Ok c \<and> length (catalog_List sort_key gvk_Kind c) = 23 \<and> catalog_Get gvk_Kind c (RootKey Milvus) = Ok Milvus"
proof -
  obtain c where c: "catalog_New gvk_Kind = Ok c"
    "\<And>gvk. catalog_Get gvk_Kind c gvk = (case find (\<lambda>k. RootKey k = gvk) definitions of
        Some k \<Rightarrow> Ok k | None \<Rightarrow> Err (Wrapf ''%w: %s'' [AStr (gvk_Kind gvk)] ErrNotFound))"
    "mset (catalog_List sort_key gvk_Kind c) = mset definitions"
    using catalog_builds [OF ksort.key_sorter_axioms, of gvk_Kind] by blast
  have "find (\<lambda>k. RootKey k = RootKey Milvus) definitions = Some Milvus" by code_simp
  moreover have "length (catalog_List sort_key gvk_Kind c) = length definitions"
    using c(3) by (rule mset_eq_length)
  moreover have "length definitions = 23" by (simp add: definitions_def)
  ultimately show ?thesis using c(1,2) by auto
qed

text \<open>C40 Every built-in Karta passes all structural checks of Validate: whether Validate accepts it depends only on the
  parser that is asked about its jq expressions.\<close>

theorem catalog_valid:
  "map (\<lambda>k. Validate parse (Some k) = None) definitions
   = map (\<lambda>k. list_all (acceptable parse) (map snd (karta_jq k))) definitions"
  using definitions_structure by (intro map_cong refl) (simp add: Validate_structural list_all_iff)

end
