(* ===== verification/Exporter_Prelude.thy ===== *)
theory Exporter_Prelude
  imports Karta_Types "HOL-Library.Char_ord" "HOL-Library.List_Lexorder"
begin

text \<open>
  What the theories of the workload exporter (\<^verbatim>\<open>dsx-workload-exporter/pkg\<close>) share: its errors, with the sentinel values of its packages
  and the tests errors.Is and apierrors.IsForbidden and so on, which look through wrapped and joined errors, and object references.
\<close>

section \<open>Errors\<close>

text \<open>The values made by errors.New at package level, and the two errors of package context.\<close>

datatype sentinel =
    DiscoveryErrPending | DiscoveryErrPermissionDenied | DiscoveryErrUnavailable | DiscoveryErrUnresolvedOwner
  | DiscoveryErrInvalidDefinition | DiscoveryErrEvaluation | DiscoveryErrStale | DiscoveryErrReaderRequired
  | InventoryErrInvalidConfig | InventoryErrNoClient | InventoryErrNotReady | InventoryErrUnavailable
  | InventoryErrPermissionDenied | InventoryErrInvalidDefinition | InventoryErrStopped | InventoryErrRelist
  | LabelErrMissingCompiler | LabelErrDuplicateMetric | LabelErrUnsupportedMetric | LabelErrMissingWorkload
  | LabelErrMissingPod | LabelErrNegativeLimit
  | ContextCanceled | ContextDeadlineExceeded

text \<open>The reason of an API status error.\<close>

datatype api_reason = Forbidden | Unauthorized | NotFound | Invalid | OtherReason string

text \<open>
  \<open>XErrorf\<close> is errors.New or fmt.Errorf without a wrapped error, \<open>XWrapf\<close> is fmt.Errorf with the errors of its \<open>%w\<close> verbs, \<open>XJoin\<close> is
  errors.Join of errors that are not nil, \<open>SdkError\<close> an error of the SDK and \<open>XLibrary\<close> any other error of a library.
\<close>

datatype xerr =
    Sentinel sentinel
  | ApiError api_reason string
  | XErrorf string "fmtarg list"
  | XWrapf string "fmtarg list" "xerr list"
  | XJoin "xerr list"
  | SdkError goerr
  | XLibrary string

type_synonym 'a xres = "xerr + 'a"

fun errors_Is :: "xerr \<Rightarrow> sentinel \<Rightarrow> bool" where
  "errors_Is (Sentinel t) s \<longleftrightarrow> t = s"
| "errors_Is (XWrapf f as es) s \<longleftrightarrow> (\<exists>e \<in> set es. errors_Is e s)"
| "errors_Is (XJoin es) s \<longleftrightarrow> (\<exists>e \<in> set es. errors_Is e s)"
| "errors_Is e s \<longleftrightarrow> False"

text \<open>apierrors.ReasonForError: the reason of the first status error, depth first.\<close>

fun first_some :: "'a option list \<Rightarrow> 'a option" where
  "first_some [] = None"
| "first_some (None # xs) = first_some xs"
| "first_some (Some x # xs) = Some x"

fun api_reason_of :: "xerr \<Rightarrow> api_reason option" where
  "api_reason_of (ApiError r msg) = Some r"
| "api_reason_of (XWrapf f as es) = first_some (map api_reason_of es)"
| "api_reason_of (XJoin es) = first_some (map api_reason_of es)"
| "api_reason_of e = None"

definition IsForbidden :: "xerr \<Rightarrow> bool" where
  "IsForbidden e \<longleftrightarrow> api_reason_of e = Some Forbidden"

definition IsUnauthorized :: "xerr \<Rightarrow> bool" where
  "IsUnauthorized e \<longleftrightarrow> api_reason_of e = Some Unauthorized"

definition IsNotFound :: "xerr \<Rightarrow> bool" where
  "IsNotFound e \<longleftrightarrow> api_reason_of e = Some NotFound"

text \<open>errors.Join: nil when every error is nil.\<close>

definition join_errors :: "xerr list \<Rightarrow> xerr option" where
  "join_errors es = (if es = [] then None else Some (XJoin es))"

section \<open>Object references\<close>

text \<open>
  discovery.ObjectRef and store.ObjectRef have the same fields, and a conversion between them copies every field. A types.UID is a
  string.
\<close>

type_synonym UID = string

record ObjectRef =
  or_GVK :: GroupVersionKind
  or_Namespace :: string
  or_Name :: string
  or_UID :: UID
  or_ResourceVersion :: string

text \<open>schema.GroupKind: a kind without its version.\<close>

type_synonym GroupKind = "string \<times> string"

definition GroupKind_of :: "GroupVersionKind \<Rightarrow> GroupKind" where
  "GroupKind_of gvk = (gvk_Group gvk, gvk_Kind gvk)"

datatype OwnerResolution = Resolved | IgnoredOwner | UnknownOwner

lemma first_some_None: "first_some xs = None \<longleftrightarrow> (\<forall>x \<in> set xs. x = None)"
  by (induction xs rule: first_some.induct) auto

end
