(* ===== verification/Owner_Discovery.thy ===== *)
theory Owner_Discovery
  imports Exporter_Prelude
begin

text \<open>
  \<^verbatim>\<open>discovery/discovery.go\<close> and \<^verbatim>\<open>discovery/resolve.go\<close>: the walk from an object over its controller references to the top owner. The
  reader of objects and the context depend on the state \<open>'w\<close> of the rest of the process, which a read may change. ParseGroupVersion
  of apimachinery is the parameter \<open>parse_gv\<close>.
\<close>

section \<open>Objects and their owners\<close>

record OwnerReference =
  ow_APIVersion :: string
  ow_Kind :: string
  ow_Name :: string
  ow_UID :: UID
  ow_Controller :: "bool option"

text \<open>What the walk reads of an object through metav1.Object.\<close>

record ObjectMeta =
  om_UID :: UID
  om_Namespace :: string
  om_Name :: string
  om_ResourceVersion :: string
  om_OwnerReferences :: "OwnerReference list"

record WatchRequest =
  wr_GVK :: GroupVersionKind
  wr_Namespace :: string

record GenericWorkload =
  gw_Root :: ObjectRef
  gw_Path :: "ObjectRef list"
  gw_Resolution :: OwnerResolution

record DiscoveryResult =
  dr_Workload :: "GenericWorkload option"
  dr_MissingCoverage :: "WatchRequest list"

definition no_ref :: ObjectRef where
  "no_ref = \<lparr>or_GVK = \<lparr>gvk_Group = [], gvk_Version = [], gvk_Kind = []\<rparr>, or_Namespace = [], or_Name = [], or_UID = [],
     or_ResourceVersion = []\<rparr>"

type_synonym parse_gv = "string \<Rightarrow> (string \<times> string) option"

fun ControllerOwner_loop :: "parse_gv \<Rightarrow> OwnerReference list \<Rightarrow> ObjectRef \<Rightarrow> ObjectRef option" where
  "ControllerOwner_loop parse_gv [] ref = Some ref"
| "ControllerOwner_loop parse_gv (ow # ows) ref =
     (if ow_Controller ow \<noteq> Some True then ControllerOwner_loop parse_gv ows ref
      else case parse_gv (ow_APIVersion ow) of
        None \<Rightarrow> None
      | Some (grp, version) \<Rightarrow>
          if or_UID ref \<noteq> [] \<or> version = [] \<or> ow_Name ow = [] \<or> ow_Kind ow = [] \<or> ow_UID ow = [] then None
          else ControllerOwner_loop parse_gv ows
                 (no_ref\<lparr>or_GVK := \<lparr>gvk_Group = grp, gvk_Version = version, gvk_Kind = ow_Kind ow\<rparr>,
                    or_Name := ow_Name ow, or_UID := ow_UID ow\<rparr>))"

text \<open>None stands for the second result false.\<close>

definition ControllerOwner :: "parse_gv \<Rightarrow> ObjectMeta \<Rightarrow> ObjectRef option" where
  "ControllerOwner parse_gv object = ControllerOwner_loop parse_gv (om_OwnerReferences object) no_ref"

section \<open>The walk\<close>

text \<open>A cached object that is nil counts as a miss; the metadata may be nil.\<close>

record 'w ObjectReader =
  Cached :: "ObjectRef \<Rightarrow> 'w \<Rightarrow> ObjectMeta option \<times> 'w"
  GetMetadata :: "ObjectRef \<Rightarrow> 'w \<Rightarrow> ObjectMeta option xres \<times> 'w"

record 'w discovery =
  d_reader :: "'w ObjectReader"
  d_ignored :: "GroupVersionKind set"

definition discovery_New :: "'w ObjectReader option \<Rightarrow> GroupVersionKind list \<Rightarrow> 'w discovery xres" where
  "discovery_New reader ignoredTopOwners =
     (case reader of
        None \<Rightarrow> Inl (Sentinel DiscoveryErrReaderRequired)
      | Some rd \<Rightarrow> Inr \<lparr>d_reader = rd, d_ignored = set ignoredTopOwners\<rparr>)"

definition readError :: "xerr \<Rightarrow> xerr" where
  "readError e =
     (if errors_Is e DiscoveryErrPending then XWrapf ''%w: %w'' [] [Sentinel DiscoveryErrPending, e]
      else if errors_Is e DiscoveryErrStale then e
      else if IsForbidden e \<or> IsUnauthorized e \<or> errors_Is e DiscoveryErrPermissionDenied
      then XWrapf ''%w: %w'' [] [Sentinel DiscoveryErrPermissionDenied, e]
      else if IsNotFound e \<or> errors_Is e DiscoveryErrUnresolvedOwner
      then XWrapf ''%w: %w'' [] [Sentinel DiscoveryErrUnresolvedOwner, e]
      else XWrapf ''%w: %w'' [] [Sentinel DiscoveryErrUnavailable, e])"

definition read_object :: "'w ObjectReader \<Rightarrow> ObjectRef \<Rightarrow> 'w \<Rightarrow> ObjectMeta xres \<times> 'w" where
  "read_object rd ref w =
     (case Cached rd ref w of
        (Some object, w1) \<Rightarrow> (Inr object, w1)
      | (None, w1) \<Rightarrow>
          (case GetMetadata rd ref w1 of
             (Inl e, w2) \<Rightarrow> (Inl (readError e), w2)
           | (Inr None, w2) \<Rightarrow> (Inl (XWrapf ''%w: empty metadata'' [] [Sentinel DiscoveryErrUnavailable]), w2)
           | (Inr (Some object), w2) \<Rightarrow> (Inr object, w2)))"

text \<open>The checks of the object that was read against the reference that led to it.\<close>

definition identify :: "bool \<Rightarrow> ObjectRef \<Rightarrow> ObjectMeta \<Rightarrow> ObjectRef xres" where
  "identify is_owner ref object =
     (let ref1 = (if is_owner \<and> om_Namespace object = [] then ref\<lparr>or_Namespace := []\<rparr> else ref)
      in if or_Name ref1 \<noteq> om_Name object \<or> or_Namespace ref1 \<noteq> om_Namespace object \<or> om_UID object = []
            \<or> (or_UID ref1 \<noteq> [] \<and> or_UID ref1 \<noteq> om_UID object)
         then Inl (XWrapf ''%w: object identity changed'' [] [Sentinel DiscoveryErrStale])
         else if or_ResourceVersion ref1 \<noteq> [] \<and> or_ResourceVersion ref1 \<noteq> om_ResourceVersion object
         then Inl (XWrapf ''%w: resource version changed'' [] [Sentinel DiscoveryErrStale])
         else Inr (ref1\<lparr>or_UID := om_UID object, or_ResourceVersion := om_ResourceVersion object\<rparr>))"

lemma identify_Inr:
  assumes "identify own ref object = Inr ref'"
  shows "or_Name ref' = om_Name object \<and> or_Namespace ref' = om_Namespace object \<and> or_UID ref' = om_UID object
    \<and> or_ResourceVersion ref' = om_ResourceVersion object \<and> or_GVK ref' = or_GVK ref \<and> or_Name ref' = or_Name ref
    \<and> om_UID object \<noteq> [] \<and> (or_UID ref \<noteq> [] \<longrightarrow> or_UID ref = om_UID object)
    \<and> (or_ResourceVersion ref \<noteq> [] \<longrightarrow> or_ResourceVersion ref = om_ResourceVersion object)
    \<and> (\<not> own \<longrightarrow> or_Namespace ref' = or_Namespace ref)"
  using assms by (auto simp: identify_def Let_def split: if_splits)

definition found :: "ObjectRef list \<Rightarrow> ObjectRef \<Rightarrow> OwnerResolution \<Rightarrow> DiscoveryResult" where
  "found path ref resolution =
     \<lparr>dr_Workload = Some \<lparr>gw_Root = ref, gw_Path = path, gw_Resolution = resolution\<rparr>, dr_MissingCoverage = []\<rparr>"

function Get_loop :: "parse_gv \<Rightarrow> ('w \<Rightarrow> xerr option) \<Rightarrow> 'w discovery \<Rightarrow> ObjectRef \<Rightarrow> ObjectRef list \<Rightarrow> UID list \<Rightarrow> 'w
    \<Rightarrow> DiscoveryResult xres \<times> 'w" where
  "Get_loop parse_gv ctx_Err d ref path seen w =
     (case ctx_Err w of
        Some e \<Rightarrow> (Inl e, w)
      | None \<Rightarrow>
          if or_UID ref \<in> set seen
          then (Inl (XWrapf ''%w: ownership cycle at %s'' [AStr (or_Name ref)] [Sentinel DiscoveryErrUnresolvedOwner]), w)
          else if length seen \<ge> 1024
          then (Inl (XWrapf ''%w: owner chain exceeds limit'' [] [Sentinel DiscoveryErrUnresolvedOwner]), w)
          else case read_object (d_reader d) ref w of
            (Inl e, w') \<Rightarrow> (Inl e, w')
          | (Inr object, w') \<Rightarrow>
              (case identify (path \<noteq> []) ref object of
                 Inl e \<Rightarrow> (Inl e, w')
               | Inr ref' \<Rightarrow>
                   (case ControllerOwner parse_gv object of
                      None \<Rightarrow> (Inl (XWrapf ''%w: invalid controller reference'' [] [Sentinel DiscoveryErrUnresolvedOwner]), w')
                    | Some owner \<Rightarrow>
                        if or_UID owner = [] then (Inr (found (path @ [ref']) ref' Resolved), w')
                        else if or_GVK owner \<in> d_ignored d then (Inr (found (path @ [ref']) ref' IgnoredOwner), w')
                        else Get_loop parse_gv ctx_Err d (owner\<lparr>or_Namespace := or_Namespace ref'\<rparr>) (path @ [ref'])
                               (List.insert (om_UID object) seen) w')))"
  by pat_completeness auto

termination
proof (relation "measures [\<lambda>(p, c, d, ref, path, seen, w). if or_UID ref = [] then 1 else 0,
    \<lambda>(p, c, d, ref, path, seen, w). 1024 - length seen]", goal_cases)
  case (2 parse_gv ctx_Err d ref path seen w x w' object ref' owner)
  then show ?case
    using identify_Inr [of "path \<noteq> []" ref object ref'] by (auto simp: List.insert_def)
qed simp

declare Get_loop.simps [simp del]

definition discovery_Get :: "parse_gv \<Rightarrow> ('w \<Rightarrow> xerr option) \<Rightarrow> 'w discovery \<Rightarrow> ObjectRef \<Rightarrow> 'w \<Rightarrow> DiscoveryResult xres \<times> 'w" where
  "discovery_Get parse_gv ctx_Err d ref = Get_loop parse_gv ctx_Err d ref [] []"

section \<open>What a walk returns\<close>

definition names_object :: "ObjectRef \<Rightarrow> ObjectMeta \<Rightarrow> bool" where
  "names_object ref object \<longleftrightarrow> or_Name ref = om_Name object \<and> or_Namespace ref = om_Namespace object
     \<and> or_UID ref = om_UID object \<and> or_UID ref \<noteq> [] \<and> or_ResourceVersion ref = om_ResourceVersion object"

text \<open>The controller references of an object, and the reference to an owner as the walk asks for it.\<close>

definition controllers :: "ObjectMeta \<Rightarrow> OwnerReference list" where
  "controllers object = filter (\<lambda>ow. ow_Controller ow = Some True) (om_OwnerReferences object)"

definition owner_ref :: "string \<times> string \<Rightarrow> OwnerReference \<Rightarrow> string \<Rightarrow> ObjectRef" where
  "owner_ref gv ow namespace = \<lparr>or_GVK = \<lparr>gvk_Group = fst gv, gvk_Version = snd gv, gvk_Kind = ow_Kind ow\<rparr>,
     or_Namespace = namespace, or_Name = ow_Name ow, or_UID = ow_UID ow, or_ResourceVersion = []\<rparr>"

text \<open>The only controller reference of an object, with its parsed version: it has a version, a name, a kind and a UID.\<close>

definition controlled_by :: "parse_gv \<Rightarrow> ObjectMeta \<Rightarrow> OwnerReference \<Rightarrow> string \<times> string \<Rightarrow> bool" where
  "controlled_by parse_gv object ow gv \<longleftrightarrow> controllers object = [ow] \<and> parse_gv (ow_APIVersion ow) = Some gv
     \<and> snd gv \<noteq> [] \<and> ow_Name ow \<noteq> [] \<and> ow_Kind ow \<noteq> [] \<and> ow_UID ow \<noteq> []"

lemma ControllerOwner_loop_more:
  "or_UID ref \<noteq> [] \<Longrightarrow> ControllerOwner_loop parse_gv ows ref = Some owner
     \<longleftrightarrow> filter (\<lambda>ow. ow_Controller ow = Some True) ows = [] \<and> owner = ref"
  by (induction parse_gv ows ref rule: ControllerOwner_loop.induct) (auto split: option.split)

lemma ControllerOwner_Some:
  "ControllerOwner parse_gv object = Some owner
     \<longleftrightarrow> controllers object = [] \<and> owner = no_ref \<or> (\<exists>ow gv. controlled_by parse_gv object ow gv \<and> owner = owner_ref gv ow [])"
proof -
  have "ControllerOwner_loop parse_gv ows ref = Some owner
    \<longleftrightarrow> filter (\<lambda>ow. ow_Controller ow = Some True) ows = [] \<and> owner = ref
      \<or> (\<exists>ow gv. filter (\<lambda>ow. ow_Controller ow = Some True) ows = [ow] \<and> parse_gv (ow_APIVersion ow) = Some gv
           \<and> snd gv \<noteq> [] \<and> ow_Name ow \<noteq> [] \<and> ow_Kind ow \<noteq> [] \<and> ow_UID ow \<noteq> [] \<and> owner = owner_ref gv ow [])"
    if "or_UID ref = []" for ows ref
    using that
    by (induction parse_gv ows ref rule: ControllerOwner_loop.induct)
      (auto simp: ControllerOwner_loop_more no_ref_def owner_ref_def split: option.splits)
  from this [of no_ref "om_OwnerReferences object"] show ?thesis
    by (auto simp: ControllerOwner_def controllers_def controlled_by_def no_ref_def)
qed

text \<open>
  \<open>answers rd ref w object w'\<close>: asked for \<open>ref\<close> in the world \<open>w\<close>, the reader has the object in its cache, or reads its metadata.
\<close>

inductive answers :: "'w ObjectReader \<Rightarrow> ObjectRef \<Rightarrow> 'w \<Rightarrow> ObjectMeta \<Rightarrow> 'w \<Rightarrow> bool" for rd where
  answers_cached: "Cached rd ref w = (Some object, w') \<Longrightarrow> answers rd ref w object w'"
| answers_read: "Cached rd ref w = (None, w1) \<Longrightarrow> GetMetadata rd ref w1 = (Inr (Some object), w') \<Longrightarrow> answers rd ref w object w'"

lemma read_object_answers: "read_object rd ref w = (Inr object, w') \<longleftrightarrow> answers rd ref w object w'"
  by (auto simp: read_object_def answers.simps split: prod.splits option.splits sum.splits)

text \<open>
  \<open>names_answer is_owner ref object ref'\<close>: the object is the requested one, and \<open>ref'\<close> is its reference. An owner may be cluster-scoped.
\<close>

definition names_answer :: "bool \<Rightarrow> ObjectRef \<Rightarrow> ObjectMeta \<Rightarrow> ObjectRef \<Rightarrow> bool" where
  "names_answer is_owner ref object ref' \<longleftrightarrow>
     om_Name object = or_Name ref \<and> (om_Namespace object = or_Namespace ref \<or> is_owner \<and> om_Namespace object = [])
     \<and> om_UID object \<noteq> [] \<and> or_UID ref \<in> {[], om_UID object} \<and> or_ResourceVersion ref \<in> {[], om_ResourceVersion object}
     \<and> ref' = \<lparr>or_GVK = or_GVK ref, or_Namespace = om_Namespace object, or_Name = om_Name object, or_UID = om_UID object,
         or_ResourceVersion = om_ResourceVersion object\<rparr>"

lemma identify_names: "identify is_owner ref object = Inr ref' \<longleftrightarrow> names_answer is_owner ref object ref'"
  by (cases ref) (auto simp: identify_def names_answer_def Let_def)

text \<open>
  \<open>ascent parse_gv ctx_Err rd ignored is_owner ref w refs resolution w'\<close>: while the context goes on, the references name the objects
  that the reader answers with, first for \<open>ref\<close> and then for the only controller of each object, looked for in its namespace; the
  last object has no controller, or one of an ignored kind.
\<close>

inductive ascent ::
  "parse_gv \<Rightarrow> ('w \<Rightarrow> xerr option) \<Rightarrow> 'w ObjectReader \<Rightarrow> GroupVersionKind set \<Rightarrow> bool \<Rightarrow> ObjectRef \<Rightarrow> 'w
     \<Rightarrow> ObjectRef list \<Rightarrow> OwnerResolution \<Rightarrow> 'w \<Rightarrow> bool"
  for parse_gv ctx_Err rd ignored where
  climb_top: "ctx_Err w = None \<Longrightarrow> answers rd ref w object w' \<Longrightarrow> names_answer is_owner ref object ref'
     \<Longrightarrow> controllers object = [] \<Longrightarrow> ascent parse_gv ctx_Err rd ignored is_owner ref w [ref'] Resolved w'"
| climb_ignored: "ctx_Err w = None \<Longrightarrow> answers rd ref w object w' \<Longrightarrow> names_answer is_owner ref object ref'
     \<Longrightarrow> controlled_by parse_gv object ow gv \<Longrightarrow> or_GVK (owner_ref gv ow (or_Namespace ref')) \<in> ignored
     \<Longrightarrow> ascent parse_gv ctx_Err rd ignored is_owner ref w [ref'] IgnoredOwner w'"
| climb_owner: "ctx_Err w = None \<Longrightarrow> answers rd ref w object w1 \<Longrightarrow> names_answer is_owner ref object ref'
     \<Longrightarrow> controlled_by parse_gv object ow gv \<Longrightarrow> or_GVK (owner_ref gv ow (or_Namespace ref')) \<notin> ignored
     \<Longrightarrow> ascent parse_gv ctx_Err rd ignored True (owner_ref gv ow (or_Namespace ref')) w1 refs resolution w'
     \<Longrightarrow> ascent parse_gv ctx_Err rd ignored is_owner ref w (ref' # refs) resolution w'"

lemma climb_path: "ascent parse_gv ctx_Err rd ignored is_owner ref w refs resolution w' \<Longrightarrow> refs \<noteq> [] \<and> or_UID (last refs) \<noteq> []"
  by (induction rule: ascent.induct) (auto simp: names_answer_def)

definition discovery_error :: "xerr \<Rightarrow> bool" where
  "discovery_error e \<longleftrightarrow> errors_Is e DiscoveryErrPending \<or> errors_Is e DiscoveryErrStale \<or> errors_Is e DiscoveryErrPermissionDenied
     \<or> errors_Is e DiscoveryErrUnresolvedOwner \<or> errors_Is e DiscoveryErrUnavailable"

lemma readError_classified: "discovery_error (readError e)"
  by (auto simp: readError_def discovery_error_def)

lemma discovery_error_wrapped:
  "discovery_error (XWrapf f as [Sentinel DiscoveryErrUnavailable])"
  "discovery_error (XWrapf f as [Sentinel DiscoveryErrUnresolvedOwner])"
  "discovery_error (XWrapf f as [Sentinel DiscoveryErrStale])"
  by (simp_all add: discovery_error_def)

lemma read_object_error: "read_object rd ref w = (Inl e, w') \<Longrightarrow> discovery_error e"
  by (auto simp: read_object_def readError_classified discovery_error_wrapped split: prod.splits option.splits sum.splits)

lemma identify_error: "identify own ref object = Inl e \<Longrightarrow> discovery_error e"
  by (auto simp: identify_def discovery_error_wrapped Let_def split: if_splits)

lemma Get_loop_error:
  "Get_loop parse_gv ctx_Err d ref path seen w = (Inl e, w') \<Longrightarrow> discovery_error e \<or> (\<exists>v. ctx_Err v = Some e)"
proof (induction parse_gv ctx_Err d ref path seen w rule: Get_loop.induct)
  case (1 parse_gv ctx_Err d ref path seen w)
  from "1.prems" show ?case
    apply (subst (asm) Get_loop.simps)
    apply (auto split: option.splits if_splits prod.splits sum.splits
        dest: read_object_error identify_error "1.IH" simp: discovery_error_wrapped)
    done
qed

text \<open>The outcome of the loop, as the references it appends to the path.\<close>

lemma Get_loop_climb:
  assumes "Get_loop parse_gv ctx_Err d ref path seen w = (Inr res, w')" "distinct seen"
    and "or_UID ref = [] \<longrightarrow> seen = []"
  shows "\<exists>refs resolution. res = found (path @ refs) (last refs) resolution
    \<and> ascent parse_gv ctx_Err (d_reader d) (d_ignored d) (path \<noteq> []) ref w refs resolution w'
    \<and> distinct (map or_UID refs) \<and> or_UID ` set refs \<inter> set seen = {} \<and> length seen + length refs \<le> 1024"
  using assms
proof (induction parse_gv ctx_Err d ref path seen w rule: Get_loop.induct)
  case (1 parse_gv ctx_Err d ref path seen w)
  from "1.prems"(1) obtain object w1 ref' owner where
    ctx: "ctx_Err w = None" and new: "or_UID ref \<notin> set seen" "\<not> 1024 \<le> length seen"
    and read: "read_object (d_reader d) ref w = (Inr object, w1)" and ident: "identify (path \<noteq> []) ref object = Inr ref'"
    and owner: "ControllerOwner parse_gv object = Some owner"
    by (subst (asm) Get_loop.simps) (auto split: option.splits if_splits prod.splits sum.splits)
  note step = "1.prems"(1) [unfolded Get_loop.simps [of parse_gv ctx_Err d ref path seen w] ctx read ident owner option.case prod.case sum.case
      if_not_P [OF new(1)] if_not_P [OF new(2)]]
  note ref' = identify_Inr [OF ident] and climbs = ascent.intros [where parse_gv = parse_gv and ctx_Err = ctx_Err and
      is_owner = "path \<noteq> []" and rd = "d_reader d" and ignored = "d_ignored d", OF ctx read [unfolded read_object_answers] ident [unfolded identify_names]]
  have fresh: "or_UID ref' \<notin> set seen" using ref' new(1) "1.prems"(3) by (cases "or_UID ref = []") auto
  have here: ?case if "res = found (path @ [ref']) ref' resolution"
    "ascent parse_gv ctx_Err (d_reader d) (d_ignored d) (path \<noteq> []) ref w [ref'] resolution w'" for resolution
    using that ref' fresh new(2) by (intro exI [of _ "[ref']"] exI [of _ resolution]) auto
  consider (top) "controllers object = []" "owner = no_ref" | (owned) ow gv where "controlled_by parse_gv object ow gv" "owner = owner_ref gv ow []"
    using owner unfolding ControllerOwner_Some by blast
  then show ?case
  proof cases
    case top
    with step have "res = found (path @ [ref']) ref' Resolved" "w' = w1" by (simp_all add: no_ref_def)
    with here climbs(1) [OF top(1)] show ?thesis by simp
  next
    case owned
    let ?next = "owner_ref gv ow (or_Namespace ref')"
    have kind: "or_UID owner \<noteq> []" "or_GVK ?next = or_GVK owner" "owner\<lparr>or_Namespace := or_Namespace ref'\<rparr> = ?next" "or_UID ?next \<noteq> []"
      using owned by (simp_all add: owner_ref_def controlled_by_def)
    show ?thesis
    proof (cases "or_GVK owner \<in> d_ignored d")
      case True
      with step kind have "res = found (path @ [ref']) ref' IgnoredOwner" "w' = w1" by simp_all
      with here climbs(2) [OF owned(1)] True kind(2) show ?thesis by simp
    next
      case False
      from step False kind have rec: "Get_loop parse_gv ctx_Err d ?next (path @ [ref']) (List.insert (om_UID object) seen) w1 = (Inr res, w')"
        by simp
      have ins: "List.insert (om_UID object) seen = om_UID object # seen" using fresh ref' by (simp add: List.insert_def)
      from "1.IH" [OF ctx new read [symmetric] refl ident owner] False kind rec "1.prems"(2) fresh ref'
      obtain refs resolution where res: "res = found ((path @ [ref']) @ refs) (last refs) resolution"
        and ch: "ascent parse_gv ctx_Err (d_reader d) (d_ignored d) True ?next w1 refs resolution w'"
        and uids: "distinct (map or_UID refs)" "or_UID ` set refs \<inter> set (om_UID object # seen) = {}"
          "length (om_UID object # seen) + length refs \<le> 1024"
        by (auto simp: ins)
      have "ascent parse_gv ctx_Err (d_reader d) (d_ignored d) (path \<noteq> []) ref w (ref' # refs) resolution w'"
        using climbs(3) [OF owned(1) _ ch] False kind(2) by simp
      then show ?thesis
        using res uids ref' fresh climb_path [OF ch]
        by (intro exI [of _ "ref' # refs"] exI [of _ resolution]) auto
    qed
  qed
qed

text \<open>Every ascent without a repeated UID and within the limit is what the loop returns.\<close>

lemma Get_loop_read:
  assumes "ctx_Err w = None" "answers (d_reader d) ref w object w'" "names_answer (path \<noteq> []) ref object ref'"
    and "ControllerOwner parse_gv object = Some owner" "or_UID ref \<notin> set seen" "length seen < 1024"
  shows "Get_loop parse_gv ctx_Err d ref path seen w =
    (if or_UID owner = [] then (Inr (found (path @ [ref']) ref' Resolved), w')
     else if or_GVK owner \<in> d_ignored d then (Inr (found (path @ [ref']) ref' IgnoredOwner), w')
     else Get_loop parse_gv ctx_Err d (owner\<lparr>or_Namespace := or_Namespace ref'\<rparr>) (path @ [ref']) (List.insert (om_UID object) seen) w')"
  by (subst Get_loop.simps)
    (simp add: assms(1,4-6) assms(2) [folded read_object_answers] assms(3) [folded identify_names] not_le [THEN iffD2, OF assms(6)])

lemma climb_Get_loop:
  assumes "ascent parse_gv ctx_Err (d_reader d) (d_ignored d) is_owner ref w refs resolution w'"
    and "is_owner = (path \<noteq> [])" "distinct (map or_UID refs)" "or_UID ` set refs \<inter> set seen = {}"
    and "length seen + length refs \<le> 1024" "or_UID ref = [] \<longrightarrow> seen = []"
  shows "Get_loop parse_gv ctx_Err d ref path seen w = (Inr (found (path @ refs) (last refs) resolution), w')"
  using assms
proof (induction arbitrary: path seen rule: ascent.induct)
  case (climb_top w ref object w' is_owner ref')
  from climb_top(3-) have owner: "ControllerOwner parse_gv object = Some no_ref" and new: "or_UID ref \<notin> set seen"
    and here: "names_answer (path \<noteq> []) ref object ref'" and room: "length seen < 1024"
    by (auto simp: ControllerOwner_Some names_answer_def)
  show ?case
    unfolding Get_loop_read [where ctx_Err = ctx_Err and path = path, OF climb_top(1,2) here owner new room] by (simp add: no_ref_def)
next
  case (climb_ignored w ref object w' is_owner ref' ow gv)
  have owner: "ControllerOwner parse_gv object = Some (owner_ref gv ow [])"
    using climb_ignored(4) unfolding ControllerOwner_Some by blast
  from climb_ignored(3) climb_ignored.prems have new: "or_UID ref \<notin> set seen"
    and here: "names_answer (path \<noteq> []) ref object ref'" and room: "length seen < 1024"
    by (auto simp: names_answer_def)
  show ?case
    unfolding Get_loop_read [where ctx_Err = ctx_Err and path = path, OF climb_ignored(1,2) here owner new room]
    using climb_ignored(4,5) by (simp add: owner_ref_def controlled_by_def)
next
  case (climb_owner w ref object w1 is_owner ref' ow gv refs resolution w')
  have owner: "ControllerOwner parse_gv object = Some (owner_ref gv ow [])"
    using climb_owner(4) unfolding ControllerOwner_Some by blast
  from climb_owner(3) climb_owner.prems have new: "or_UID ref \<notin> set seen"
    and here: "names_answer (path \<noteq> []) ref object ref'" and room: "length seen < 1024"
    by (auto simp: names_answer_def)
  have uid: "or_UID ref' = om_UID object" using climb_owner(3) by (simp add: names_answer_def)
  then have ins: "List.insert (om_UID object) seen = om_UID object # seen"
    using climb_owner.prems(3) by (simp add: List.insert_def)
  have path: "refs \<noteq> []" "ow_UID ow \<noteq> []" using climb_path [OF climb_owner(6)] climb_owner(4) by (simp_all add: controlled_by_def)
  have rec: "Get_loop parse_gv ctx_Err d (owner_ref gv ow (or_Namespace ref')) (path @ [ref']) (om_UID object # seen) w1
      = (Inr (found ((path @ [ref']) @ refs) (last refs) resolution), w')"
    using climb_owner.prems path(2) uid by (intro climb_owner.IH) (auto simp: owner_ref_def)
  show ?case
    unfolding Get_loop_read [where ctx_Err = ctx_Err and path = path, OF climb_owner(1,2) here owner new room] ins
    using climb_owner(5) path rec by (simp add: owner_ref_def)
qed

text \<open>The walk returns exactly the climbs from the requested object without a repeated UID and of at most 1024 objects.\<close>

lemma discovery_Get_climb:
  "discovery_Get parse_gv ctx_Err d ref w = (Inr res, w')
     \<longleftrightarrow> (\<exists>refs resolution. res = found refs (last refs) resolution
          \<and> ascent parse_gv ctx_Err (d_reader d) (d_ignored d) False ref w refs resolution w'
          \<and> distinct (map or_UID refs) \<and> length refs \<le> 1024)"
proof
  assume "discovery_Get parse_gv ctx_Err d ref w = (Inr res, w')"
  from Get_loop_climb [of parse_gv ctx_Err d ref "[]" "[]" w res w'] this show "\<exists>refs resolution. res = found refs (last refs) resolution
    \<and> ascent parse_gv ctx_Err (d_reader d) (d_ignored d) False ref w refs resolution w' \<and> distinct (map or_UID refs) \<and> length refs \<le> 1024"
    by (simp add: discovery_Get_def)
next
  assume "\<exists>refs resolution. res = found refs (last refs) resolution
    \<and> ascent parse_gv ctx_Err (d_reader d) (d_ignored d) False ref w refs resolution w' \<and> distinct (map or_UID refs) \<and> length refs \<le> 1024"
  then obtain refs resolution where res: "res = found refs (last refs) resolution"
    and c: "ascent parse_gv ctx_Err (d_reader d) (d_ignored d) False ref w refs resolution w'"
    and u: "distinct (map or_UID refs)" "length refs \<le> 1024"
    by blast
  from climb_Get_loop [OF c, of "[]" "[]"] u show "discovery_Get parse_gv ctx_Err d ref w = (Inr res, w')"
    by (simp add: discovery_Get_def res)
qed

end
