(* ===== verification/Definition_Inventory.thy ===== *)
theory Definition_Inventory
  imports Exporter_Prelude Catalog
begin

text \<open>
  \<^verbatim>\<open>kartadefinitioninventory/inventory.go\<close>: the definitions from the catalog and from the cluster, their election per group and kind,
  and the bookkeeping of failures of the list and watch that feed it. Every method is one transition: the code holds the lock
  for the whole of it. The channels \<open>loaded\<close> and \<open>done\<close> are their closed flags, \<open>changes\<close> (capacity one, non-blocking send) is its pending
  signal, times are integers. The reflector of client-go, which calls the methods, is not modelled; logging is left out.
\<close>

section \<open>State\<close>

datatype Source = SourceCatalog | SourceCluster

fun Source_string :: "Source \<Rightarrow> string" where
  "Source_string SourceCatalog = ''catalog''"
| "Source_string SourceCluster = ''cluster''"

text \<open>A Karta with the object metadata that the inventory reads.\<close>

record KartaObject =
  ko_karta :: Karta
  ko_UID :: UID
  ko_ResourceVersion :: string
  ko_CreationTimestamp :: int

record Origin =
  og_Source :: "Source option"
  og_Name :: string
  og_UID :: UID
  og_ResourceVersion :: string

record Selection =
  sel_Definition :: "KartaObject option"
  sel_GVK :: GroupVersionKind
  sel_Origin :: Origin

record SelectionResult =
  sr_Selection :: Selection
  sr_Err :: "xerr option"

record SourceConfig =
  src_Enabled :: bool
  src_Include :: "string list"
  src_Exclude :: "string list"

record InventoryConfig =
  ic_Catalog :: SourceConfig
  ic_Cluster :: SourceConfig
  ic_RequestTimeout :: int

record definitionEntry =
  de_definition :: "KartaObject option"
  de_err :: "xerr option"

record sourceFilter =
  sf_enabled :: bool
  sf_include :: "string set"
  sf_exclude :: "string set"

record Inventory =
  iv_requestTimeout :: int
  iv_catalog :: "(GroupKind \<times> definitionEntry) list"
  iv_clusterFilter :: sourceFilter
  iv_loaded :: bool
  iv_done :: bool
  iv_changes :: bool
  iv_started :: bool
  iv_cluster :: "(string \<times> definitionEntry) list"
  iv_synced :: bool
  iv_stopped :: bool
  iv_failure :: "xerr option"
  iv_failures :: "64 word"
  iv_listedFrom :: "64 word"
  iv_applied :: "int option"
  iv_unkeyable :: "string list"
  iv_unmatchedIncludes :: "string list"

text \<open>
  What the inventory calls: the jq parser of the validation, CompareKubeAwareVersionStrings, and, on unstructured objects \<open>'u\<close>,
  GetName and the conversion to a Karta.
\<close>

record 'u invlib =
  il_parse :: "string \<Rightarrow> goerr + ast"
  il_compareVersions :: "string \<Rightarrow> string \<Rightarrow> int"
  il_GetName :: "'u \<Rightarrow> string"
  il_FromUnstructured :: "'u \<Rightarrow> KartaObject xres"

section \<open>Filters and entries\<close>

definition matches :: "sourceFilter \<Rightarrow> string \<Rightarrow> bool" where
  "matches f name \<longleftrightarrow> sf_enabled f \<and> (sf_include f = {} \<or> name \<in> sf_include f) \<and> name \<notin> sf_exclude f"

text \<open>The problem of one configured name, as its format and operands.\<close>

definition name_problem :: "string set option \<Rightarrow> string set \<Rightarrow> string \<Rightarrow> (string \<times> fmtarg list) option" where
  "name_problem known seen name =
     (if name = [] then Some (''empty definition name'', [])
      else if name \<in> seen then Some (''duplicate definition name %q'', [AStr name])
      else case known of
        None \<Rightarrow> None
      | Some k \<Rightarrow> if name \<in> k then None else Some (''unknown definition %q; known: %s'', [AStr name, AStrs (sorted_list_of_set k)]))"

fun compileNames :: "Source \<Rightarrow> string \<Rightarrow> string set option \<Rightarrow> string list \<Rightarrow> string set \<Rightarrow> string set \<times> xerr list" where
  "compileNames source field known [] seen = (seen, [])"
| "compileNames source field known (name # names) seen =
     (let errs = (case name_problem known seen name of
            None \<Rightarrow> []
          | Some (problem, args) \<Rightarrow>
              [XWrapf ''%w: %s.%s: %s'' ([AStr (Source_string source), AStr field, AStr problem] @ args) [Sentinel InventoryErrInvalidConfig]]);
          (compiled, rest) = compileNames source field known names (insert name seen)
      in (compiled, errs @ rest))"

definition compileSource :: "Source \<Rightarrow> SourceConfig \<Rightarrow> string set option \<Rightarrow> sourceFilter \<times> xerr list" where
  "compileSource source config known =
     (let (incl, errs1) = compileNames source ''include'' known (src_Include config) {};
          (excl, errs2) = compileNames source ''exclude'' known (src_Exclude config) {}
      in (\<lparr>sf_enabled = src_Enabled config, sf_include = incl, sf_exclude = excl\<rparr>, errs1 @ errs2))"

text \<open>The copy that is validated gets an empty status definition when the root has none.\<close>

definition with_status :: "Karta \<Rightarrow> Karta" where
  "with_status k =
     (if cd_StatusDefinition (root_of k) \<noteq> None then k
      else let spec = k_Spec k; str = ks_StructureDefinition spec;
               rc = (str_RootComponent str)\<lparr>cd_StatusDefinition := Some zero_StatusDefinition\<rparr>
           in k\<lparr>k_Spec := spec\<lparr>ks_StructureDefinition := str\<lparr>str_RootComponent := rc\<rparr>\<rparr>\<rparr>)"

definition validatedEntry :: "(string \<Rightarrow> goerr + ast) \<Rightarrow> KartaObject \<Rightarrow> definitionEntry" where
  "validatedEntry parse k =
     \<lparr>de_definition = Some k,
      de_err = (case Validate parse (Some (with_status (ko_karta k))) of
          None \<Rightarrow> None
        | Some e \<Rightarrow> Some (XWrapf ''%w %q: %w'' [AStr (k_Name (ko_karta k))] [Sentinel InventoryErrInvalidDefinition, SdkError e]))\<rparr>"

definition decodeKarta :: "'u invlib \<Rightarrow> 'u \<Rightarrow> definitionEntry" where
  "decodeKarta lib u =
     (case il_FromUnstructured lib u of
        Inl e \<Rightarrow> \<lparr>de_definition = None,
          de_err = Some (XWrapf ''%w: decode Karta %q: %w'' [AStr (il_GetName lib u)] [Sentinel InventoryErrUnavailable, e])\<rparr>
      | Inr k \<Rightarrow> validatedEntry (il_parse lib) k)"

section \<open>Signals, failures and health\<close>

definition notify :: "Inventory \<Rightarrow> Inventory" where
  "notify i = i\<lparr>iv_changes := True\<rparr>"

definition fail :: "xerr \<Rightarrow> Inventory \<Rightarrow> Inventory" where
  "fail e i = notify (i\<lparr>iv_failure := Some e, iv_failures := iv_failures i + 1\<rparr>)"

definition recordFailure :: "xerr \<Rightarrow> Inventory \<Rightarrow> Inventory" where
  "recordFailure = fail"

definition failWatch :: "bool \<Rightarrow> bool \<Rightarrow> xerr \<Rightarrow> Inventory \<Rightarrow> Inventory" where
  "failWatch stopping cancelled e i = (if \<not> stopping \<and> \<not> cancelled then fail e i else i)"

definition beginList :: "Inventory \<Rightarrow> Inventory" where
  "beginList i = i\<lparr>iv_listedFrom := iv_failures i\<rparr>"

definition beginWatch :: "bool \<Rightarrow> Inventory \<Rightarrow> bool \<times> Inventory" where
  "beginWatch streaming i =
     (iv_failure i \<noteq> None, if streaming then i\<lparr>iv_listedFrom := iv_failures i\<rparr> else i)"

definition ready :: "Inventory \<Rightarrow> xerr option" where
  "ready i =
     (if \<not> sf_enabled (iv_clusterFilter i) then None
      else if iv_stopped i then Some (XWrapf ''%w: %w'' [] [Sentinel InventoryErrUnavailable, Sentinel InventoryErrStopped])
      else case iv_failure i of
        Some e \<Rightarrow> Some (XWrapf ''%w: %w'' []
          [Sentinel (if IsForbidden e \<or> IsUnauthorized e then InventoryErrPermissionDenied else InventoryErrUnavailable), e])
      | None \<Rightarrow>
          if \<not> iv_synced i then Some (Sentinel InventoryErrNotReady)
          else (case find (\<lambda>(name, entry). de_definition entry = None) (iv_cluster i) of
              None \<Rightarrow> None
            | Some (name, entry) \<Rightarrow> de_err entry))"

section \<open>Election and lookup\<close>

text \<open>cmp.Or(x, y): the first of the two that is not zero. strings.Compare orders bytes.\<close>

definition cmp_Or :: "int \<Rightarrow> int \<Rightarrow> int" where
  "cmp_Or x y = (if x \<noteq> 0 then x else y)"

definition strings_Compare :: "string \<Rightarrow> string \<Rightarrow> int" where
  "strings_Compare a b = (if a < b then -1 else if a = b then 0 else 1)"

definition time_Compare :: "int \<Rightarrow> int \<Rightarrow> int" where
  "time_Compare a b = (if a < b then -1 else if a = b then 0 else 1)"

definition older :: "KartaObject \<Rightarrow> KartaObject \<Rightarrow> bool" where
  "older k winner \<longleftrightarrow>
     cmp_Or (time_Compare (ko_CreationTimestamp k) (ko_CreationTimestamp winner))
            (strings_Compare (k_Name (ko_karta k)) (k_Name (ko_karta winner))) < 0"

definition eligible :: "GroupVersionKind \<Rightarrow> KartaObject \<Rightarrow> bool" where
  "eligible gvk k \<longleftrightarrow> (let key = RootKey (ko_karta k)
     in GroupKind_of key = GroupKind_of gvk \<and> gvk_Version key \<noteq> [] \<and> gvk_Kind key \<noteq> [])"

definition empty_entry :: definitionEntry where
  "empty_entry = \<lparr>de_definition = None, de_err = None\<rparr>"

text \<open>The loop over the cluster entries. None is the panic of RootKey on an entry without a definition.\<close>

fun elect_loop :: "GroupVersionKind \<Rightarrow> (string \<times> definitionEntry) list \<Rightarrow> definitionEntry \<Rightarrow> definitionEntry option" where
  "elect_loop gvk [] winner = Some winner"
| "elect_loop gvk ((name, entry) # entries) winner =
     (case de_definition entry of
        None \<Rightarrow> None
      | Some k \<Rightarrow>
          if \<not> eligible gvk k then elect_loop gvk entries winner
          else case de_definition winner of
            None \<Rightarrow> elect_loop gvk entries entry
          | Some w \<Rightarrow> elect_loop gvk entries (if older k w then entry else winner))"

definition electLocked :: "Inventory \<Rightarrow> GroupVersionKind \<Rightarrow> (definitionEntry \<times> Source) option" where
  "electLocked i gvk =
     (case elect_loop gvk (iv_cluster i) empty_entry of
        None \<Rightarrow> None
      | Some winner \<Rightarrow>
          if de_definition winner = None
          then Some (case map_of (iv_catalog i) (GroupKind_of gvk) of Some e \<Rightarrow> e | None \<Rightarrow> empty_entry, SourceCatalog)
          else Some (winner, SourceCluster))"

definition empty_selection :: Selection where
  "empty_selection = \<lparr>sel_Definition = None, sel_GVK = zero_GroupVersionKind,
     sel_Origin = \<lparr>og_Source = None, og_Name = [], og_UID = [], og_ResourceVersion = []\<rparr>\<rparr>"

definition selection :: "KartaObject option \<Rightarrow> Source \<Rightarrow> Selection" where
  "selection kopt source =
     (case kopt of
        None \<Rightarrow> empty_selection
      | Some k \<Rightarrow>
          \<lparr>sel_Definition = Some k, sel_GVK = RootKey (ko_karta k),
           sel_Origin = \<lparr>og_Source = Some source, og_Name = k_Name (ko_karta k),
             og_UID = (if source = SourceCluster then ko_UID k else []),
             og_ResourceVersion = (if source = SourceCluster then ko_ResourceVersion k else [])\<rparr>\<rparr>)"

text \<open>None is a panic.\<close>

definition Lookup :: "Inventory \<Rightarrow> GroupVersionKind \<Rightarrow> Selection xres option" where
  "Lookup i gvk =
     (case ready i of
        Some e \<Rightarrow> Some (Inl e)
      | None \<Rightarrow>
          (case electLocked i gvk of
             None \<Rightarrow> None
           | Some (winner, source) \<Rightarrow>
               (case de_err winner of
                  Some e \<Rightarrow> Some (Inl e)
                | None \<Rightarrow> Some (Inr (selection (de_definition winner) source)))))"

text \<open>The group kinds of the catalog and of the cluster definitions with a complete root kind; the set has no order.\<close>

definition entry_kind :: "definitionEntry \<Rightarrow> GroupKind list" where
  "entry_kind entry =
     (case de_definition entry of
        None \<Rightarrow> []
      | Some k \<Rightarrow> let gvk = RootKey (ko_karta k)
                  in if gvk_Version gvk \<noteq> [] \<and> gvk_Kind gvk \<noteq> [] then [GroupKind_of gvk] else [])"

definition selected_kinds :: "Inventory \<Rightarrow> GroupKind list" where
  "selected_kinds i = remdups (map fst (iv_catalog i) @ concat (map (entry_kind \<circ> snd) (iv_cluster i)))"

definition elected_result :: "Inventory \<Rightarrow> GroupKind \<Rightarrow> SelectionResult option" where
  "elected_result i gk =
     (case electLocked i \<lparr>gvk_Group = fst gk, gvk_Version = [], gvk_Kind = snd gk\<rparr> of
        None \<Rightarrow> None
      | Some (winner, source) \<Rightarrow> Some \<lparr>sr_Selection = selection (de_definition winner) source, sr_Err = de_err winner\<rparr>)"

fun all_some :: "'a option list \<Rightarrow> 'a list option" where
  "all_some [] = Some []"
| "all_some (None # xs) = None"
| "all_some (Some x # xs) = map_option (Cons x) (all_some xs)"

definition inventory_List ::
  "((SelectionResult \<Rightarrow> string) \<Rightarrow> SelectionResult list \<Rightarrow> SelectionResult list) \<Rightarrow> (GroupVersionKind \<Rightarrow> string) \<Rightarrow> Inventory
     \<Rightarrow> SelectionResult list xres option" where
  "inventory_List sort_by str i =
     (case ready i of
        Some e \<Rightarrow> Some (Inl e)
      | None \<Rightarrow>
          (if \<exists>(name, entry) \<in> set (iv_cluster i). de_definition entry = None then None
           else map_option (\<lambda>results. Inr (sort_by (\<lambda>r. str (sel_GVK (sr_Selection r))) results))
                  (all_some (map (elected_result i) (selected_kinds i)))))"

section \<open>Construction and runs\<close>

definition builtin_object :: "Karta \<Rightarrow> KartaObject" where
  "builtin_object k = \<lparr>ko_karta = k, ko_UID = [], ko_ResourceVersion = [], ko_CreationTimestamp = 0\<rparr>"

definition newer_builtin :: "'u invlib \<Rightarrow> Karta \<Rightarrow> KartaObject \<Rightarrow> bool" where
  "newer_builtin lib k other \<longleftrightarrow>
     cmp_Or (il_compareVersions lib (gvk_Version (RootKey (ko_karta other))) (gvk_Version (RootKey k)))
            (strings_Compare (k_Name k) (k_Name (ko_karta other))) < 0"

fun catalog_winners :: "'u invlib \<Rightarrow> sourceFilter \<Rightarrow> Karta list \<Rightarrow> (GroupKind \<times> KartaObject) list \<Rightarrow> (GroupKind \<times> KartaObject) list" where
  "catalog_winners lib f [] winners = winners"
| "catalog_winners lib f (k # ks) winners =
     (let gk = GroupKind_of (RootKey k) in
      if \<not> matches f (k_Name k) then catalog_winners lib f ks winners
      else case map_of winners gk of
        None \<Rightarrow> catalog_winners lib f ks (AList.update gk (builtin_object k) winners)
      | Some other \<Rightarrow>
          catalog_winners lib f ks (if newer_builtin lib k other then AList.update gk (builtin_object k) winners else winners))"

text \<open>\<open>catalogDefinitions\<close> is what catalog.List returns.\<close>

definition inventory_New :: "'u invlib \<Rightarrow> Karta list \<Rightarrow> bool \<Rightarrow> InventoryConfig \<Rightarrow> Inventory xres" where
  "inventory_New lib catalogDefinitions has_client config =
     (if ic_RequestTimeout config < 0
      then Inl (XWrapf ''%w: request timeout must not be negative'' [] [Sentinel InventoryErrInvalidConfig])
      else
        let known = k_Name ` set catalogDefinitions;
            (catalogFilter, catalogErrs) = compileSource SourceCatalog (ic_Catalog config) (Some known);
            (clusterFilter, clusterErrs) = compileSource SourceCluster (ic_Cluster config) None
        in case join_errors (catalogErrs @ clusterErrs) of
             Some e \<Rightarrow> Inl e
           | None \<Rightarrow>
               if sf_enabled clusterFilter \<and> \<not> has_client then Inl (Sentinel InventoryErrNoClient)
               else Inr (notify
                 \<lparr>iv_requestTimeout = ic_RequestTimeout config,
                  iv_catalog = map (\<lambda>(gk, k). (gk, validatedEntry (il_parse lib) k)) (catalog_winners lib catalogFilter catalogDefinitions []),
                  iv_clusterFilter = clusterFilter, iv_loaded = \<not> sf_enabled clusterFilter, iv_done = False, iv_changes = False,
                  iv_started = False, iv_cluster = [], iv_synced = \<not> sf_enabled clusterFilter, iv_stopped = False,
                  iv_failure = None, iv_failures = 0, iv_listedFrom = 0, iv_applied = None, iv_unkeyable = [],
                  iv_unmatchedIncludes = []\<rparr>))"

text \<open>Run: the start, and the deferred function at its end.\<close>

definition Run_start :: "Inventory \<Rightarrow> (xerr option) \<times> Inventory" where
  "Run_start i =
     (if iv_started i then (Some (XErrorf ''definition inventory already started'' []), i) else (None, i\<lparr>iv_started := True\<rparr>))"

definition Run_end :: "Inventory \<Rightarrow> Inventory" where
  "Run_end i = notify (i\<lparr>iv_stopped := True, iv_done := True\<rparr>)"

text \<open>
  WaitLoaded: the outcomes that select allows, where \<open>cancelled\<close> is the error of the context; no outcome means that the call blocks.
\<close>

definition WaitLoaded :: "xerr option \<Rightarrow> Inventory \<Rightarrow> xerr option set" where
  "WaitLoaded cancelled i =
     (case cancelled of
        Some e \<Rightarrow> {Some e}
      | None \<Rightarrow>
          if iv_loaded i then {None}
          else if iv_done i then {Some (XWrapf ''%w: %w'' [] [Sentinel InventoryErrUnavailable, Sentinel InventoryErrStopped])}
          else {})"

section \<open>The reflector's store\<close>

definition unkeyable_names :: "(string \<times> definitionEntry) list \<Rightarrow> string list" where
  "unkeyable_names cluster = sort (map fst (filter (\<lambda>(name, entry). de_definition entry \<noteq> None \<and> entry_kind entry = []) cluster))"

definition unmatched_names :: "sourceFilter \<Rightarrow> (string \<times> definitionEntry) list \<Rightarrow> string list" where
  "unmatched_names f cluster = sorted_list_of_set {name \<in> sf_include f. map_of cluster name = None \<and> name \<notin> sf_exclude f}"

text \<open>The diagnostics are kept so that each change is logged once.\<close>

definition report :: "Inventory \<Rightarrow> Inventory" where
  "report i = i\<lparr>iv_unkeyable := unkeyable_names (iv_cluster i),
     iv_unmatchedIncludes := unmatched_names (iv_clusterFilter i) (iv_cluster i)\<rparr>"

text \<open>An object that is not unstructured is None; the error carries its Go type in the code.\<close>

definition unexpected_object :: xerr where
  "unexpected_object = XErrorf ''unexpected Karta object %T'' []"

definition store_Add :: "'u invlib \<Rightarrow> 'u option \<Rightarrow> Inventory \<Rightarrow> xerr option \<times> Inventory" where
  "store_Add lib obj i =
     (case obj of
        None \<Rightarrow> (Some unexpected_object, i)
      | Some u \<Rightarrow>
          if \<not> matches (iv_clusterFilter i) (il_GetName lib u) then (None, i)
          else (None, notify (report (i\<lparr>iv_cluster := AList.update (il_GetName lib u) (decodeKarta lib u) (iv_cluster i)\<rparr>))))"

definition store_Update :: "'u invlib \<Rightarrow> 'u option \<Rightarrow> Inventory \<Rightarrow> xerr option \<times> Inventory" where
  "store_Update = store_Add"

definition store_Delete :: "'u invlib \<Rightarrow> 'u option \<Rightarrow> Inventory \<Rightarrow> xerr option \<times> Inventory" where
  "store_Delete lib obj i =
     (case obj of
        None \<Rightarrow> (Some unexpected_object, i)
      | Some u \<Rightarrow>
          if map_of (iv_cluster i) (il_GetName lib u) = None then (None, i)
          else (None, notify (report (i\<lparr>iv_cluster := AList.delete (il_GetName lib u) (iv_cluster i)\<rparr>))))"

fun listed_cluster :: "'u invlib \<Rightarrow> sourceFilter \<Rightarrow> 'u option list \<Rightarrow> (string \<times> definitionEntry) list \<Rightarrow> (string \<times> definitionEntry) list option" where
  "listed_cluster lib f [] cluster = Some cluster"
| "listed_cluster lib f (None # objs) cluster = None"
| "listed_cluster lib f (Some u # objs) cluster =
     listed_cluster lib f objs
       (if matches f (il_GetName lib u) then AList.update (il_GetName lib u) (decodeKarta lib u) cluster else cluster)"

text \<open>\<open>now\<close> is the time of the call.\<close>

definition store_Replace :: "'u invlib \<Rightarrow> int \<Rightarrow> 'u option list \<Rightarrow> Inventory \<Rightarrow> xerr option \<times> Inventory" where
  "store_Replace lib now objs i =
     (case listed_cluster lib (iv_clusterFilter i) objs [] of
        None \<Rightarrow> (Some unexpected_object, i)
      | Some cluster \<Rightarrow>
          (let i1 = i\<lparr>iv_cluster := cluster\<rparr>;
               i2 = (if iv_failures i1 = iv_listedFrom i1 then i1\<lparr>iv_failure := None\<rparr> else i1);
               i3 = report i2;
               i4 = (if \<not> iv_synced i3 then i3\<lparr>iv_synced := True, iv_loaded := True\<rparr> else i3)
           in (None, notify (i4\<lparr>iv_applied := Some now\<rparr>))))"

section \<open>The list and watch functions\<close>

text \<open>One page of a list: \<open>continued\<close> when it continues an earlier page, \<open>outcome\<close> the error of the API call.\<close>

definition inventory_list :: "bool \<Rightarrow> xerr option \<Rightarrow> Inventory \<Rightarrow> Inventory" where
  "inventory_list continued outcome i =
     (let i1 = (if continued then i else beginList i)
      in case outcome of None \<Rightarrow> i1 | Some e \<Rightarrow> recordFailure e i1)"

text \<open>The start of a watch; the first result is its error.\<close>

definition startWatch :: "bool \<Rightarrow> xerr option \<Rightarrow> Inventory \<Rightarrow> xerr option \<times> Inventory" where
  "startWatch streaming outcome i =
     (let (failed, i1) = beginWatch streaming i
      in if failed \<and> \<not> streaming then (Some (Sentinel InventoryErrRelist), i1)
         else case outcome of
           None \<Rightarrow> (None, i1)
         | Some e \<Rightarrow>
             if streaming \<and> api_reason_of e = Some Invalid then (Some e, i1)
             else (Some e, recordFailure e i1))"

text \<open>Whether a watch that ended without events counts as short; \<open>second\<close> is one second.\<close>

definition shortWatch :: "int \<Rightarrow> int \<Rightarrow> int \<Rightarrow> int option \<Rightarrow> Inventory \<Rightarrow> bool" where
  "shortWatch second now started listEnded i =
     (case listEnded of
        None \<Rightarrow> now - started < second
      | Some ended \<Rightarrow>
          (case iv_applied i of
             None \<Rightarrow> True
           | Some applied \<Rightarrow> applied < ended \<or> now - applied < second))"

text \<open>The events of a watch as forward sees them, and the state of its loop.\<close>

datatype watch_event = InitialListEnd | ErrorEvent xerr | OtherEvent

record forwarder =
  fw_received :: bool
  fw_listEnded :: "int option"

definition forward_event :: "bool \<Rightarrow> bool \<Rightarrow> int \<Rightarrow> watch_event \<Rightarrow> forwarder \<times> Inventory \<Rightarrow> forwarder \<times> Inventory" where
  "forward_event stopping cancelled now event = (\<lambda>(fw, i).
     (case event of
        InitialListEnd \<Rightarrow> (fw\<lparr>fw_received := False, fw_listEnded := Some now\<rparr>, i)
      | ErrorEvent e \<Rightarrow> (fw\<lparr>fw_received := True\<rparr>, failWatch stopping cancelled e i)
      | OtherEvent \<Rightarrow> (fw\<lparr>fw_received := True\<rparr>, i)))"

definition forward_closed :: "int \<Rightarrow> bool \<Rightarrow> bool \<Rightarrow> int \<Rightarrow> int \<Rightarrow> forwarder \<times> Inventory \<Rightarrow> Inventory" where
  "forward_closed second stopping cancelled started now = (\<lambda>(fw, i).
     if \<not> fw_received fw \<and> shortWatch second now started (fw_listEnded fw) i
     then failWatch stopping cancelled (XErrorf ''watch closed within a second without events; relisting'' []) i
     else i)"

section \<open>Transitions\<close>

text \<open>
  The methods that change an inventory after its construction, and the observer that receives the signal, in any order: the
  goroutines are serialized by its lock.
\<close>

inductive istep :: "'u invlib \<Rightarrow> Inventory \<Rightarrow> Inventory \<Rightarrow> bool" for lib where
  istep_Add: "istep lib i (snd (store_Add lib obj i))"
| istep_Delete: "istep lib i (snd (store_Delete lib obj i))"
| istep_Replace: "istep lib i (snd (store_Replace lib now objs i))"
| istep_list: "istep lib i (inventory_list continued outcome i)"
| istep_watch: "istep lib i (snd (startWatch streaming outcome i))"
| istep_event: "istep lib i (snd (forward_event stopping cancelled now event (fw, i)))"
| istep_closed: "istep lib i (forward_closed second stopping cancelled started now (fw, i))"
| istep_start: "istep lib i (snd (Run_start i))"
| istep_end: "istep lib i (Run_end i)"
| istep_receive: "istep lib i (i\<lparr>iv_changes := False\<rparr>)"

inductive reachable :: "'u invlib \<Rightarrow> Inventory \<Rightarrow> bool" for lib where
  reachable_New: "inventory_New lib defs has_client config = Inr i \<Longrightarrow> reachable lib i"
| reachable_step: "reachable lib i \<Longrightarrow> istep lib i i' \<Longrightarrow> reachable lib i'"

text \<open>
  What holds in every reachable state: the entries have the names that the filter accepts, and only entries whose decoding failed
  have no definition; the catalog entries have definitions; the channels agree with the flags; the diagnostics are current.
\<close>

definition entry_ok :: "definitionEntry \<Rightarrow> bool" where
  "entry_ok e \<longleftrightarrow> de_definition e = None \<longrightarrow> (\<exists>err. de_err e = Some err \<and> errors_Is err InventoryErrUnavailable)"

definition inventory_inv :: "Inventory \<Rightarrow> bool" where
  "inventory_inv i \<longleftrightarrow>
     distinct (map fst (iv_cluster i))
     \<and> (\<forall>(name, entry) \<in> set (iv_cluster i). matches (iv_clusterFilter i) name \<and> entry_ok entry)
     \<and> (\<forall>(gk, entry) \<in> set (iv_catalog i). de_definition entry \<noteq> None)
     \<and> distinct (map fst (iv_catalog i))
     \<and> iv_loaded i = iv_synced i \<and> iv_done i = iv_stopped i
     \<and> (\<not> sf_enabled (iv_clusterFilter i) \<longrightarrow> iv_synced i)
     \<and> iv_unkeyable i = unkeyable_names (iv_cluster i)"

named_theorems inv_ops \<open>the definitions of the operations of the inventory\<close>

declare store_Add_def [inv_ops] store_Delete_def [inv_ops] store_Replace_def [inv_ops] inventory_list_def [inv_ops]
  startWatch_def [inv_ops] forward_event_def [inv_ops] forward_closed_def [inv_ops] Run_start_def [inv_ops] Run_end_def [inv_ops]
  notify_def [inv_ops] fail_def [inv_ops] recordFailure_def [inv_ops] failWatch_def [inv_ops] beginList_def [inv_ops]
  beginWatch_def [inv_ops] report_def [inv_ops] Let_def [inv_ops]

lemma decodeKarta_ok: "entry_ok (decodeKarta lib u)"
  by (simp add: entry_ok_def decodeKarta_def validatedEntry_def split: sum.splits)

definition cluster_ok :: "sourceFilter \<Rightarrow> (string \<times> definitionEntry) list \<Rightarrow> bool" where
  "cluster_ok f cluster \<longleftrightarrow> distinct (map fst cluster) \<and> (\<forall>(name, entry) \<in> set cluster. matches f name \<and> entry_ok entry)"

lemma cluster_ok_update:
  assumes "cluster_ok f cluster" "matches f name" "entry_ok entry"
  shows "cluster_ok f (AList.update name entry cluster)"
proof -
  have "set (AList.update name entry cluster) \<subseteq> insert (name, entry) (set cluster)"
    by (induction cluster) auto
  with assms show ?thesis by (auto simp: cluster_ok_def distinct_update)
qed

lemma cluster_ok_delete: "cluster_ok f cluster \<Longrightarrow> cluster_ok f (AList.delete name cluster)"
  by (auto simp: cluster_ok_def AList.delete_eq distinct_map_filter)

lemma cluster_ok_listed:
  "listed_cluster lib f objs cluster = Some cluster' \<Longrightarrow> cluster_ok f cluster \<Longrightarrow> cluster_ok f cluster'"
  by (induction lib f objs cluster rule: listed_cluster.induct)
     (auto split: if_splits intro: cluster_ok_update decodeKarta_ok)

lemma inventory_inv_eq:
  "inventory_inv i \<longleftrightarrow> cluster_ok (iv_clusterFilter i) (iv_cluster i)
     \<and> (\<forall>(gk, entry) \<in> set (iv_catalog i). de_definition entry \<noteq> None) \<and> distinct (map fst (iv_catalog i))
     \<and> iv_loaded i = iv_synced i \<and> iv_done i = iv_stopped i \<and> (\<not> sf_enabled (iv_clusterFilter i) \<longrightarrow> iv_synced i)
     \<and> iv_unkeyable i = unkeyable_names (iv_cluster i)"
  by (auto simp: inventory_inv_def cluster_ok_def)

lemma inventory_inv_step: "istep lib i i' \<Longrightarrow> inventory_inv i \<Longrightarrow> inventory_inv i'"
proof (induction rule: istep.induct)
  case (istep_Add i obj)
  then show ?case
    by (cases obj) (auto simp: inv_ops inventory_inv_eq intro: cluster_ok_update decodeKarta_ok)
next
  case (istep_Delete i obj)
  then show ?case
    by (cases obj) (auto simp: inv_ops inventory_inv_eq intro: cluster_ok_delete)
next
  case (istep_Replace i now objs)
  have "cluster_ok f []" for f by (simp add: cluster_ok_def)
  with istep_Replace cluster_ok_listed [of lib "iv_clusterFilter i" objs "[]"] show ?case
    by (cases "listed_cluster lib (iv_clusterFilter i) objs []") (simp_all add: inv_ops inventory_inv_eq)
qed (auto simp: inv_ops inventory_inv_eq split: option.splits watch_event.splits)

lemma catalog_winners_distinct:
  "distinct (map fst winners) \<Longrightarrow> distinct (map fst (catalog_winners lib f ks winners))"
  by (induction lib f ks winners rule: catalog_winners.induct)
     (auto simp: Let_def distinct_update split: option.splits)

lemma fst_case_pair: "fst (case x of (gk, k) \<Rightarrow> (gk, h k)) = fst x"
  by (cases x) simp

lemma inventory_inv_New: "inventory_New lib defs has_client config = Inr i \<Longrightarrow> inventory_inv i"
  using catalog_winners_distinct [of "[]" lib]
  by (auto simp: inventory_New_def inv_ops inventory_inv_eq cluster_ok_def unkeyable_names_def validatedEntry_def comp_def fst_case_pair
      split: if_splits prod.splits option.splits)

lemma reachable_inv: "reachable lib i \<Longrightarrow> inventory_inv i"
  by (induction rule: reachable.induct) (blast intro: inventory_inv_New inventory_inv_step)+

section \<open>The elected definition\<close>

lemma older_iff:
  "older k w \<longleftrightarrow> ko_CreationTimestamp k < ko_CreationTimestamp w
     \<or> ko_CreationTimestamp k = ko_CreationTimestamp w \<and> k_Name (ko_karta k) < k_Name (ko_karta w)"
  by (auto simp: older_def cmp_Or_def time_Compare_def strings_Compare_def)

lemma older_trans: "\<not> older b a \<Longrightarrow> \<not> older c b \<Longrightarrow> \<not> older c a"
  by (auto simp: older_iff)

lemma older_asym: "older a b \<Longrightarrow> \<not> older b a"
  by (auto simp: older_iff)

definition eligible_entry :: "GroupVersionKind \<Rightarrow> definitionEntry \<Rightarrow> bool" where
  "eligible_entry gvk e \<longleftrightarrow> (\<exists>k. de_definition e = Some k \<and> eligible gvk k)"

definition beats :: "definitionEntry \<Rightarrow> definitionEntry \<Rightarrow> bool" where
  "beats w e \<longleftrightarrow> (\<exists>kw k. de_definition w = Some kw \<and> de_definition e = Some k \<and> \<not> older k kw)"

lemma beats_trans: "beats a b \<Longrightarrow> beats b c \<Longrightarrow> beats a c"
  unfolding beats_def using older_trans by fastforce

lemma beats_refl: "de_definition e \<noteq> None \<Longrightarrow> beats e e"
  by (auto simp: beats_def older_iff)

lemma elect_loop_spec:
  assumes "elect_loop gvk es w0 = Some w"
  shows "(w = w0 \<or> (w \<in> snd ` set es \<and> eligible_entry gvk w))
    \<and> (\<forall>e \<in> snd ` set es. eligible_entry gvk e \<longrightarrow> beats w e) \<and> (de_definition w0 \<noteq> None \<longrightarrow> beats w w0)"
  using assms
proof (induction gvk es w0 rule: elect_loop.induct)
  case (1 gvk winner)
  then show ?case using beats_refl by auto
next
  case (2 gvk name entry entries winner)
  from "2.prems" obtain k where k: "de_definition entry = Some k" by (auto split: option.splits)
  show ?case
  proof (cases "eligible gvk k")
    case False
    with 2 k show ?thesis by (auto simp: eligible_entry_def)
  next
    case el: True
    show ?thesis
    proof (cases "de_definition winner")
      case None
      with 2 k el have IH: "(w = entry \<or> (w \<in> snd ` set entries \<and> eligible_entry gvk w))
          \<and> (\<forall>e \<in> snd ` set entries. eligible_entry gvk e \<longrightarrow> beats w e) \<and> beats w entry"
        by simp
      with None k el show ?thesis by (auto simp: eligible_entry_def)
    next
      case (Some wk)
      let ?w1 = "if older k wk then entry else winner"
      have IH: "(w = ?w1 \<or> (w \<in> snd ` set entries \<and> eligible_entry gvk w))
          \<and> (\<forall>e \<in> snd ` set entries. eligible_entry gvk e \<longrightarrow> beats w e) \<and> beats w ?w1"
        using "2.IH"(3) [OF k _ Some] "2.prems" k el Some by (cases "older k wk") auto
      have "beats ?w1 entry" "beats ?w1 winner"
        using k Some older_asym [of k wk] by (auto simp: beats_def older_iff)
      with IH have "beats w entry" "beats w winner" using beats_trans by blast+
      with IH k el show ?thesis by (auto simp: eligible_entry_def split: if_splits)
    qed
  qed
qed

lemma elect_loop_decoded:
  "elect_loop gvk es w0 \<noteq> None \<longleftrightarrow> (\<forall>e \<in> snd ` set es. de_definition e \<noteq> None)"
  by (induction gvk es w0 rule: elect_loop.induct) (auto split: option.splits)

lemma ready_None:
  assumes "inventory_inv i"
  shows "ready i = None \<longleftrightarrow> (sf_enabled (iv_clusterFilter i) \<longrightarrow> \<not> iv_stopped i \<and> iv_failure i = None \<and> iv_synced i
    \<and> (\<forall>e \<in> snd ` set (iv_cluster i). de_definition e \<noteq> None))"
proof -
  have undecoded: "de_err e \<noteq> None" if "(name, e) \<in> set (iv_cluster i)" "de_definition e = None" for name e
    using assms that by (auto simp: inventory_inv_def entry_ok_def)
  show ?thesis
  proof (cases "find (\<lambda>(name, entry). de_definition entry = None) (iv_cluster i)")
    case None
    then have "\<forall>e \<in> snd ` set (iv_cluster i). de_definition e \<noteq> None" by (auto simp: find_None_iff)
    with None show ?thesis by (auto simp: ready_def split: option.splits)
  next
    case (Some x)
    obtain name e where x: "x = (name, e)" by (cases x)
    from Some obtain j where "j < length (iv_cluster i)" "x = iv_cluster i ! j" "de_definition e = None"
      by (auto simp: find_Some_iff x)
    then have "(name, e) \<in> set (iv_cluster i)" "de_definition e = None" using nth_mem x by metis+
    with Some undecoded [of name e] x show ?thesis by (auto simp: ready_def split: option.splits)
  qed
qed

lemma disabled_empty: "inventory_inv i \<Longrightarrow> \<not> sf_enabled (iv_clusterFilter i) \<Longrightarrow> iv_cluster i = []"
  by (cases "iv_cluster i") (auto simp: inventory_inv_def matches_def)

lemma ready_decoded:
  assumes "inventory_inv i" "ready i = None" "e \<in> snd ` set (iv_cluster i)"
  shows "de_definition e \<noteq> None"
  using assms ready_None [OF assms(1)] disabled_empty [OF assms(1)] by (cases "sf_enabled (iv_clusterFilter i)") auto

lemma electLocked_total: "inventory_inv i \<Longrightarrow> ready i = None \<Longrightarrow> electLocked i gvk \<noteq> None"
  using ready_decoded [of i] elect_loop_decoded [of gvk "iv_cluster i" empty_entry]
  by (auto simp: electLocked_def split: option.splits)

lemma all_some_total: "(\<forall>x \<in> set xs. x \<noteq> None) \<Longrightarrow> all_some xs \<noteq> None"
  by (induction xs rule: all_some.induct) auto

lemma all_some_Some: "all_some xs = Some ys \<longleftrightarrow> map Some ys = xs"
  by (induction xs arbitrary: ys rule: all_some.induct) (auto simp: Cons_eq_map_conv)

section \<open>Failures and lists\<close>

lemma istep_failure:
  "istep lib i i' \<Longrightarrow> iv_failure i' = None \<Longrightarrow> iv_failure i = None \<or> iv_failures i = iv_listedFrom i"
  by (induction rule: istep.induct) (auto simp: inv_ops split: option.splits watch_event.splits if_splits)

text \<open>\<open>run lib n i i'\<close>: steps during which \<open>n\<close> failures are recorded and no list begins.\<close>

inductive run :: "'u invlib \<Rightarrow> nat \<Rightarrow> Inventory \<Rightarrow> Inventory \<Rightarrow> bool" for lib where
  run_none: "run lib 0 i i"
| run_fail: "run lib n i i' \<Longrightarrow> run lib (Suc n) i (fail e i')"
| run_other: "run lib n i i' \<Longrightarrow> istep lib i' i'' \<Longrightarrow> iv_failures i'' = iv_failures i' \<Longrightarrow> iv_listedFrom i'' = iv_listedFrom i'
    \<Longrightarrow> run lib n i i''"

lemma run_counts:
  assumes "run lib n i i'" "n < 2 ^ 64" "iv_listedFrom i = iv_failures i"
  shows "iv_failures i' = iv_failures i + word_of_nat n \<and> iv_listedFrom i' = iv_failures i \<and> (0 < n \<longrightarrow> iv_failure i' \<noteq> None)"
  using assms
proof (induction rule: run.induct)
  case (run_fail n i i' e)
  then show ?case by (simp add: fail_def notify_def)
next
  case (run_other n i i' i'')
  then have IH: "iv_failures i' = iv_failures i + word_of_nat n" "iv_listedFrom i' = iv_failures i"
    "0 < n \<longrightarrow> iv_failure i' \<noteq> None" by auto
  have "(word_of_nat n :: 64 word) \<noteq> 0" if "0 < n"
  proof
    assume "(word_of_nat n :: 64 word) = 0"
    then have "unat (word_of_nat n :: 64 word) = 0" by simp
    with run_other.prems(1) that show False by (simp add: unat_of_nat)
  qed
  with IH istep_failure [OF run_other.hyps(2)] run_other.hyps show ?case by (cases "iv_failure i''") auto
qed auto

end
