(* ===== verification/Inventory_History.thy ===== *)
theory Inventory_History
  imports Definition_Inventory
begin

text \<open>
  The readiness of the inventory as a function of what happened to it. A history lists the calls of its methods, the newest first;
  what it promises is stated over the history alone, without the flags and the failure counters of the code.
\<close>

section \<open>Histories\<close>

datatype 'u occurrence =
    Stored "'u option"
  | Removed "'u option"
  | Replaced int "'u option list"
  | Paged bool "xerr option"
  | Watched bool "xerr option"
  | Relayed bool bool int watch_event forwarder
  | Unwatched int bool bool int int forwarder
  | Run_begun
  | Run_ended
  | Signal_read

fun occur :: "'u invlib \<Rightarrow> 'u occurrence \<Rightarrow> Inventory \<Rightarrow> Inventory" where
  "occur lib (Stored obj) i = snd (store_Add lib obj i)"
| "occur lib (Removed obj) i = snd (store_Delete lib obj i)"
| "occur lib (Replaced now objs) i = snd (store_Replace lib now objs i)"
| "occur lib (Paged continued outcome) i = inventory_list continued outcome i"
| "occur lib (Watched streaming outcome) i = snd (startWatch streaming outcome i)"
| "occur lib (Relayed stopping cancelled now event fw) i = snd (forward_event stopping cancelled now event (fw, i))"
| "occur lib (Unwatched second stopping cancelled started now fw) i = forward_closed second stopping cancelled started now (fw, i)"
| "occur lib Run_begun i = snd (Run_start i)"
| "occur lib Run_ended i = Run_end i"
| "occur lib Signal_read i = i\<lparr>iv_changes := False\<rparr>"

primrec after :: "'u invlib \<Rightarrow> Inventory \<Rightarrow> 'u occurrence list \<Rightarrow> Inventory" where
  "after lib i [] = i"
| "after lib i (ev # evs) = occur lib ev (after lib i evs)"

text \<open>The reachable states are the ones that a history leads to.\<close>

lemma istep_occur: "istep lib i i' \<longleftrightarrow> (\<exists>ev. i' = occur lib ev i)"
proof
  assume "istep lib i i'"
  then show "\<exists>ev. i' = occur lib ev i" by cases (metis occur.simps)+
next
  assume "\<exists>ev. i' = occur lib ev i"
  then obtain ev where "i' = occur lib ev i" ..
  then show "istep lib i i'" by (cases ev) (auto intro: istep.intros)
qed

lemma reachable_after: "reachable lib i \<longleftrightarrow> (\<exists>defs has_client config i0 evs. inventory_New lib defs has_client config = Inr i0 \<and> i = after lib i0 evs)"
proof
  assume "reachable lib i"
  then show "\<exists>defs has_client config i0 evs. inventory_New lib defs has_client config = Inr i0 \<and> i = after lib i0 evs"
    by induction (metis after.simps(1), metis after.simps(2) istep_occur)
next
  assume "\<exists>defs has_client config i0 evs. inventory_New lib defs has_client config = Inr i0 \<and> i = after lib i0 evs"
  then obtain defs has_client config i0 evs where new: "inventory_New lib defs has_client config = Inr i0" and i: "i = after lib i0 evs"
    by blast
  have "reachable lib (after lib i0 evs)"
    by (induction evs) (auto intro: reachable_New [OF new] reachable_step istep_occur [THEN iffD2])
  with i show "reachable lib i" by simp
qed

section \<open>What a history tells\<close>

text \<open>A list is complete when every object in it is unstructured. The time at which the last complete list was applied:\<close>

fun complete_list :: "'u occurrence \<Rightarrow> bool" where
  "complete_list (Replaced now objs) = (None \<notin> set objs)"
| "complete_list ev = False"

fun applied_at :: "'u occurrence list \<Rightarrow> int option" where
  "applied_at [] = None"
| "applied_at (Replaced now objs # evs) = (if None \<in> set objs then applied_at evs else Some now)"
| "applied_at (ev # evs) = applied_at evs"

text \<open>A fresh list begins with a first page or with a streaming watch.\<close>

fun begins_list :: "'u occurrence \<Rightarrow> bool" where
  "begins_list (Paged continued outcome) = (\<not> continued)"
| "begins_list (Watched streaming outcome) = streaming"
| "begins_list ev = False"

text \<open>
  The health of the source: a failure stays until a complete list is applied, and a list counts only when it began after the failure.
\<close>

datatype health = Healthy | Failed xerr | Relisting xerr

fun pending :: "health \<Rightarrow> xerr option" where
  "pending Healthy = None"
| "pending (Failed e) = Some e"
| "pending (Relisting e) = Some e"

text \<open>
  The failure that an occurrence brings, given the health and the time of the last list before it: a page or a watch that the server
  refuses, except that a watch is not started before a pending failure is settled, and that a server may not support streaming; an error
  event; a watch that ends within a second without events. A watch that was stopped on purpose brings none.
\<close>

fun failure_by :: "health \<Rightarrow> int option \<Rightarrow> 'u occurrence \<Rightarrow> xerr option" where
  "failure_by h applied (Paged continued outcome) = outcome"
| "failure_by h applied (Watched streaming outcome) =
     (if streaming then (if outcome \<noteq> None \<and> api_reason_of (the outcome) = Some Invalid then None else outcome)
      else if h = Healthy then outcome else None)"
| "failure_by h applied (Relayed stopping cancelled now (ErrorEvent e) fw) = (if stopping \<or> cancelled then None else Some e)"
| "failure_by h applied (Unwatched second stopping cancelled started now fw) =
     (if stopping \<or> cancelled \<or> fw_received fw then None
      else if (case fw_listEnded fw of
          None \<Rightarrow> now < started + second
        | Some ended \<Rightarrow> applied = None \<or> the applied < ended \<or> now < the applied + second)
      then Some (XErrorf ''watch closed within a second without events; relisting'' []) else None)"
| "failure_by h applied ev = None"

definition health_step :: "'u occurrence \<Rightarrow> int option \<Rightarrow> health \<Rightarrow> health" where
  "health_step ev applied h =
     (case failure_by h applied ev of
        Some e \<Rightarrow> Failed e
      | None \<Rightarrow>
          (case h of
             Healthy \<Rightarrow> Healthy
           | Failed e \<Rightarrow> if begins_list ev then Relisting e else Failed e
           | Relisting e \<Rightarrow> if complete_list ev then Healthy else Relisting e))"

primrec health_after :: "'u occurrence list \<Rightarrow> health" where
  "health_after [] = Healthy"
| "health_after (ev # evs) = health_step ev (applied_at evs) (health_after evs)"

primrec failures_in :: "'u occurrence list \<Rightarrow> nat" where
  "failures_in [] = 0"
| "failures_in (ev # evs) = failures_in evs + (if failure_by (health_after evs) (applied_at evs) ev = None then 0 else 1)"

text \<open>The object that was last reported for every name that the filter accepts.\<close>

fun reported :: "('u \<Rightarrow> string) \<Rightarrow> sourceFilter \<Rightarrow> 'u occurrence list \<Rightarrow> string \<rightharpoonup> 'u" where
  "reported GetName f [] = Map.empty"
| "reported GetName f (Stored (Some u) # evs) =
     (if matches f (GetName u) then (reported GetName f evs)(GetName u \<mapsto> u) else reported GetName f evs)"
| "reported GetName f (Removed (Some u) # evs) = (reported GetName f evs)(GetName u := None)"
| "reported GetName f (Replaced now objs # evs) =
     (if None \<in> set objs then reported GetName f evs
      else (\<lambda>name. find (\<lambda>u. GetName u = name \<and> matches f name) (rev (map the objs))))"
| "reported GetName f (ev # evs) = reported GetName f evs"

section \<open>The state after a history\<close>

lemma occur_filter: "iv_clusterFilter (occur lib ev i) = iv_clusterFilter i"
  by (cases ev) (auto simp: inv_ops split: option.splits watch_event.splits)

lemma after_filter: "iv_clusterFilter (after lib i evs) = iv_clusterFilter i"
  by (induction evs) (simp_all add: occur_filter)

lemma listed_cluster_None: "listed_cluster lib f objs cluster = None \<longleftrightarrow> None \<in> set objs"
  by (induction lib f objs cluster rule: listed_cluster.induct) auto

lemma find_append: "find P (xs @ ys) = (case find P xs of None \<Rightarrow> find P ys | Some x \<Rightarrow> Some x)"
  by (induction xs) simp_all

lemma listed_cluster_map:
  "listed_cluster lib f objs cluster = Some cluster' \<Longrightarrow> map_of cluster' name =
     (case find (\<lambda>u. il_GetName lib u = name \<and> matches f name) (rev (map the objs)) of
        Some u \<Rightarrow> Some (decodeKarta lib u) | None \<Rightarrow> map_of cluster name)"
  by (induction lib f objs cluster rule: listed_cluster.induct)
    (auto simp: update_conv' find_append split: option.splits if_splits)

lemma after_stopped: "iv_stopped (after lib i evs) \<longleftrightarrow> iv_stopped i \<or> Run_ended \<in> set evs"
proof (induction evs)
  case (Cons ev evs)
  then show ?case by (cases ev) (auto simp: inv_ops split: option.splits watch_event.splits)
qed simp

lemma occur_synced: "iv_synced (occur lib ev i) \<longleftrightarrow> iv_synced i \<or> complete_list ev"
proof (cases ev)
  case (Replaced now objs)
  then show ?thesis
    using listed_cluster_None [of lib "iv_clusterFilter i" objs "[]"] by (auto simp: inv_ops split: option.splits)
qed (auto simp: inv_ops split: option.splits watch_event.splits)

lemma after_synced: "iv_synced (after lib i evs) \<longleftrightarrow> iv_synced i \<or> list_ex complete_list evs"
  by (induction evs) (auto simp: occur_synced)

lemma occur_applied: "iv_applied i = applied_at evs \<Longrightarrow> iv_applied (occur lib ev i) = applied_at (ev # evs)"
proof (cases ev)
  case (Replaced now objs)
  assume "iv_applied i = applied_at evs"
  then show ?thesis
    using Replaced listed_cluster_None [of lib "iv_clusterFilter i" objs "[]"] by (auto simp: inv_ops split: option.splits)
qed (auto simp: inv_ops split: option.splits watch_event.splits)

lemma after_applied: "iv_applied i = None \<Longrightarrow> iv_applied (after lib i evs) = applied_at evs"
  by (induction evs) (auto intro: occur_applied [of _ _ lib])

lemma occur_cluster:
  assumes "\<And>name. map_of (iv_cluster i) name = map_option (decodeKarta lib) (reported (il_GetName lib) (iv_clusterFilter i) evs name)"
    and "distinct (map fst (iv_cluster i))"
  shows "map_of (iv_cluster (occur lib ev i)) name
    = map_option (decodeKarta lib) (reported (il_GetName lib) (iv_clusterFilter i) (ev # evs) name)"
proof (cases ev)
  case (Stored obj)
  then show ?thesis by (cases obj) (auto simp: inv_ops assms(1) update_conv')
next
  case (Removed obj)
  then show ?thesis by (cases obj) (auto simp: inv_ops assms(1) delete_conv' split: option.splits)
next
  case (Replaced now objs)
  show ?thesis
  proof (cases "listed_cluster lib (iv_clusterFilter i) objs []")
    case None
    then show ?thesis using listed_cluster_None [of lib "iv_clusterFilter i" objs "[]"] by (simp add: Replaced inv_ops assms(1))
  next
    case (Some cluster)
    then show ?thesis
      using listed_cluster_None [of lib "iv_clusterFilter i" objs "[]"] listed_cluster_map [OF Some]
      by (auto simp: Replaced inv_ops split: option.splits)
  qed
qed (auto simp: inv_ops assms(1) split: option.splits watch_event.splits)

text \<open>
  \<open>tracks h n i\<close>: the failure and the counters of the state agree with the health and with the number of failures. The counters tell
  whether the last list began after the last failure as long as they have not wrapped around.
\<close>

definition tracks :: "health \<Rightarrow> nat \<Rightarrow> Inventory \<Rightarrow> bool" where
  "tracks h n i \<longleftrightarrow> iv_failure i = pending h \<and> iv_failures i = word_of_nat n
     \<and> (\<exists>m \<le> n. iv_listedFrom i = word_of_nat m \<and> (case h of Healthy \<Rightarrow> True | Failed e \<Rightarrow> m < n | Relisting e \<Rightarrow> m = n))"

lemma tracks_fail: "tracks h n i \<Longrightarrow> tracks (Failed e) (Suc n) (fail e i)"
  by (auto simp: tracks_def fail_def notify_def add.commute intro: le_imp_less_Suc le_SucI)

lemma tracks_begin:
  "tracks h n i \<Longrightarrow> tracks (case h of Failed e \<Rightarrow> Relisting e | h \<Rightarrow> h) n (i\<lparr>iv_listedFrom := iv_failures i\<rparr>)"
  by (auto simp: tracks_def split: health.splits)

lemma tracks_same:
  "iv_failure i' = iv_failure i \<Longrightarrow> iv_failures i' = iv_failures i \<Longrightarrow> iv_listedFrom i' = iv_listedFrom i \<Longrightarrow> tracks h n i' = tracks h n i"
  by (simp add: tracks_def)

lemma word_of_nat_same: "m \<le> n \<Longrightarrow> n < 2 ^ 64 \<Longrightarrow> (word_of_nat m :: 64 word) = word_of_nat n \<longleftrightarrow> m = n"
  by (simp add: word_of_nat_eq_iff take_bit_nat_eq_self)

lemma tracks_replace:
  assumes "tracks h n i" "n < 2 ^ 64" "None \<notin> set objs"
  shows "tracks (case h of Relisting e \<Rightarrow> Healthy | h \<Rightarrow> h) n (snd (store_Replace lib now objs i))"
proof -
  obtain cluster where cluster: "listed_cluster lib (iv_clusterFilter i) objs [] = Some cluster"
    using listed_cluster_None [of lib "iv_clusterFilter i" objs "[]"] assms(3) by auto
  from assms(1) obtain m where m: "m \<le> n" "iv_listedFrom i = word_of_nat m" "iv_failures i = word_of_nat n" "iv_failure i = pending h"
    "case h of Healthy \<Rightarrow> True | Failed e \<Rightarrow> m < n | Relisting e \<Rightarrow> m = n"
    by (auto simp: tracks_def)
  have "iv_failures i = iv_listedFrom i \<longleftrightarrow> m = n" using word_of_nat_same [OF m(1) assms(2)] m(2,3) by auto
  with m show ?thesis
    by (cases h) (auto simp: tracks_def store_Replace_def cluster Let_def notify_def report_def intro: exI [of _ m])
qed

lemma tracks_occur:
  assumes t: "tracks h n i" and applied: "iv_applied i = applied"
    and n: "n < 2 ^ 64"
  shows "tracks (health_step ev applied h) (n + (if failure_by h applied ev = None then 0 else 1)) (occur lib ev i)"
proof (cases ev)
  case (Stored obj)
  then show ?thesis using t
    by (cases obj) (auto simp: inv_ops health_step_def tracks_def split: health.splits)
next
  case (Removed obj)
  then show ?thesis using t
    by (cases obj) (auto simp: inv_ops health_step_def tracks_def split: health.splits option.splits)
next
  case (Replaced now objs)
  show ?thesis
  proof (cases "None \<in> set objs")
    case True
    then show ?thesis using t listed_cluster_None [of lib "iv_clusterFilter i" objs "[]"]
      by (auto simp: Replaced inv_ops health_step_def tracks_def split: health.splits option.splits)
  next
    case False
    from tracks_replace [OF t n False, of lib now] show ?thesis
      using False by (cases h) (simp_all add: Replaced health_step_def)
  qed
next
  case (Paged continued outcome)
  show ?thesis
  proof (cases continued)
    case True
    then show ?thesis using t tracks_fail [OF t]
      by (cases outcome; cases h) (simp_all add: Paged health_step_def inventory_list_def recordFailure_def)
  next
    case False
    note b = tracks_begin [OF t, folded beginList_def]
    from False b tracks_fail [OF b] show ?thesis
      by (cases outcome; cases h) (simp_all add: Paged health_step_def inventory_list_def recordFailure_def)
  qed
next
  case (Watched streaming outcome)
  show ?thesis
  proof (cases streaming)
    case True
    note b = tracks_begin [OF t]
    from True b tracks_fail [OF b] show ?thesis
      by (cases outcome; cases h) (simp_all add: Watched health_step_def startWatch_def beginWatch_def recordFailure_def)
  next
    case False
    have "iv_failure i = pending h" using t by (simp add: tracks_def)
    with False t tracks_fail [OF t] show ?thesis
      by (cases outcome; cases h) (simp_all add: Watched health_step_def startWatch_def beginWatch_def recordFailure_def)
  qed
next
  case (Relayed stopping cancelled now event fw)
  then show ?thesis using t tracks_fail [OF t]
    by (cases event; cases h) (auto simp: health_step_def forward_event_def failWatch_def)
next
  case (Unwatched second stopping cancelled started now fw)
  have "shortWatch second now started (fw_listEnded fw) i \<longleftrightarrow> (case fw_listEnded fw of
      None \<Rightarrow> now < started + second | Some ended \<Rightarrow> applied = None \<or> the applied < ended \<or> now < the applied + second)"
    by (auto simp: shortWatch_def applied [symmetric] split: option.splits)
  then show ?thesis using t tracks_fail [OF t]
    by (cases h) (auto simp: Unwatched health_step_def forward_closed_def failWatch_def)
qed (use t in \<open>auto simp: inv_ops health_step_def tracks_def split: health.splits\<close>)

text \<open>The state after a history, field by field.\<close>

lemma inventory_New_state:
  assumes "inventory_New lib defs has_client config = Inr i"
  shows "tracks Healthy 0 i \<and> iv_applied i = None \<and> iv_cluster i = [] \<and> \<not> iv_stopped i
    \<and> iv_synced i = (\<not> sf_enabled (iv_clusterFilter i))"
  using assms by (auto simp: inventory_New_def tracks_def notify_def Let_def split: if_splits option.splits prod.splits)

lemma after_tracks:
  assumes "inventory_New lib defs has_client config = Inr i" "failures_in evs < 2 ^ 64"
  shows "tracks (health_after evs) (failures_in evs) (after lib i evs)"
  using assms(2)
proof (induction evs)
  case Nil
  then show ?case using inventory_New_state [OF assms(1)] by simp
next
  case (Cons ev evs)
  then have "failures_in evs < 2 ^ 64" by (simp split: if_splits)
  with tracks_occur [OF Cons.IH after_applied this, of ev lib] inventory_New_state [OF assms(1)] Cons.IH show ?case by simp
qed

lemma after_cluster:
  assumes "inventory_New lib defs has_client config = Inr i"
  shows "map_of (iv_cluster (after lib i evs)) name
    = map_option (decodeKarta lib) (reported (il_GetName lib) (iv_clusterFilter i) evs name)"
proof (induction evs arbitrary: name)
  case Nil
  then show ?case using inventory_New_state [OF assms] by simp
next
  case (Cons ev evs)
  have "inventory_inv (after lib i evs)" using reachable_inv reachable_after assms by metis
  then have "distinct (map fst (iv_cluster (after lib i evs)))" by (simp add: inventory_inv_def)
  from occur_cluster [where lib = lib and evs = evs and name = name and ev = ev, OF _ this] Cons show ?case by (simp add: after_filter)
qed

lemma decodeKarta_None: "de_definition (decodeKarta lib u) = None \<longleftrightarrow> isl (il_FromUnstructured lib u)"
  by (auto simp: decodeKarta_def validatedEntry_def split: sum.splits)

text \<open>The undecodable objects among the reported ones.\<close>

definition undecodable :: "'u invlib \<Rightarrow> sourceFilter \<Rightarrow> 'u occurrence list \<Rightarrow> 'u set" where
  "undecodable lib f evs = {u \<in> ran (reported (il_GetName lib) f evs). isl (il_FromUnstructured lib u)}"

lemma ready_undecoded:
  assumes "inventory_New lib defs has_client config = Inr i" "entry \<in> snd ` set (iv_cluster (after lib i evs))" "de_definition entry = None"
  shows "\<exists>u \<in> undecodable lib (iv_clusterFilter i) evs. entry = decodeKarta lib u"
proof -
  from assms(2) obtain name where mem: "(name, entry) \<in> set (iv_cluster (after lib i evs))" by auto
  have "inventory_inv (after lib i evs)" using reachable_inv reachable_after assms(1) by metis
  then have "distinct (map fst (iv_cluster (after lib i evs)))" by (simp add: inventory_inv_def)
  with mem have "map_of (iv_cluster (after lib i evs)) name = Some entry" by simp
  then obtain u where "reported (il_GetName lib) (iv_clusterFilter i) evs name = Some u" "entry = decodeKarta lib u"
    unfolding after_cluster [OF assms(1)] by auto
  with assms(3) show ?thesis by (auto simp: undecodable_def decodeKarta_None intro: ranI)
qed

lemma undecoded_entry:
  assumes "inventory_New lib defs has_client config = Inr i" "u \<in> undecodable lib (iv_clusterFilter i) evs"
  shows "\<exists>entry \<in> snd ` set (iv_cluster (after lib i evs)). de_definition entry = None"
proof -
  from assms(2) obtain name where "reported (il_GetName lib) (iv_clusterFilter i) evs name = Some u" "isl (il_FromUnstructured lib u)"
    by (auto simp: undecodable_def ran_def)
  then have "map_of (iv_cluster (after lib i evs)) name = Some (decodeKarta lib u)" "de_definition (decodeKarta lib u) = None"
    by (simp_all add: after_cluster [OF assms(1)] decodeKarta_None)
  then show ?thesis by (force dest: map_of_SomeD)
qed

end
