(* ===== verification/Exporter_Store.thy ===== *)
theory Exporter_Store
  imports Exporter_Prelude "HOL-Library.AList"
begin

text \<open>
  \<^verbatim>\<open>store/store.go\<close>: the published results per Pod and per workload, the health of the sources and the failures of discovery, with
  the captured view and its validity rule. Every method holds the lock, so each is one transition. Results are values: the
  code copies the nested maps and slices of a result before it stores it. A map is an association list, whose order stands for
  the unspecified order of iteration.
\<close>

section \<open>State\<close>

record GroupVersionResource =
  gvr_Group :: string
  gvr_Version :: string
  gvr_Resource :: string

record SourceKey =
  sk_Resource :: GroupVersionResource
  sk_Namespace :: string

record SourceHealth =
  sh_GVK :: GroupVersionKind
  sh_Synced :: bool
  sh_Error :: string

record DiscoveryFailure =
  df_Input :: ObjectRef
  df_Error :: string

record PodRecord =
  pr_Workload :: ObjectRef
  pr_Karta :: string
  pr_KartaSource :: string
  pr_Namespace :: string
  pr_UID :: UID
  pr_Name :: string
  pr_Component :: string
  pr_Instance :: string
  pr_Group :: string
  pr_OwnerResolution :: "OwnerResolution option"
  pr_Labels :: "string \<rightharpoonup> string"

record PodResult =
  pres_Record :: PodRecord
  pres_Input :: ObjectRef
  pres_HasValue :: bool
  pres_Error :: string
  pres_Sources :: "SourceKey list"

record WorkloadRecord =
  wrec_UID :: UID
  wrec_Ref :: ObjectRef
  wrec_Karta :: string
  wrec_KartaSource :: string
  wrec_OwnerResolution :: "OwnerResolution option"
  wrec_HasStatus :: bool
  wrec_Phases :: "string list"
  wrec_CreatedTimestamp :: int
  wrec_StatusLabels :: "string \<rightharpoonup> string"

record WorkloadResult =
  wres_Record :: WorkloadRecord
  wres_HasValue :: bool
  wres_Error :: string
  wres_StatusError :: string
  wres_Sources :: "SourceKey list"
  wres_CreationSources :: "SourceKey list"

record Store =
  st_pods :: "(UID \<times> PodResult) list"
  st_workloads :: "(UID \<times> WorkloadResult) list"
  st_sources :: "(SourceKey \<times> SourceHealth) list"
  st_failures :: "(UID \<times> DiscoveryFailure) list"

record CapturedView =
  cv_Pods :: "PodResult list"
  cv_Workloads :: "WorkloadResult list"
  cv_Sources :: "(SourceKey \<times> SourceHealth) list"
  cv_Failures :: "DiscoveryFailure list"

definition ReasonNone :: string where "ReasonNone = ''none''"
definition ReasonPermissionDenied :: string where "ReasonPermissionDenied = ''permission_denied''"
definition ReasonAPIUnavailable :: string where "ReasonAPIUnavailable = ''api_unavailable''"
definition ReasonInvalidDefinition :: string where "ReasonInvalidDefinition = ''invalid_definition''"
definition ReasonUnresolvedOwner :: string where "ReasonUnresolvedOwner = ''unresolved_owner''"
definition ReasonEvaluationFailed :: string where "ReasonEvaluationFailed = ''evaluation_failed''"

section \<open>Operations\<close>

definition store_New :: Store where
  "store_New = \<lparr>st_pods = [], st_workloads = [], st_sources = [], st_failures = []\<rparr>"

definition UpsertPod :: "PodResult \<Rightarrow> Store \<Rightarrow> Store" where
  "UpsertPod result s = s\<lparr>st_pods := AList.update (pr_UID (pres_Record result)) result (st_pods s)\<rparr>"

definition store_Pod :: "Store \<Rightarrow> UID \<Rightarrow> PodResult option" where
  "store_Pod s uid = map_of (st_pods s) uid"

definition RemovePod :: "UID \<Rightarrow> Store \<Rightarrow> Store" where
  "RemovePod uid s = s\<lparr>st_pods := AList.delete uid (st_pods s)\<rparr>"

definition UpsertWorkload :: "WorkloadResult \<Rightarrow> Store \<Rightarrow> Store" where
  "UpsertWorkload result s = s\<lparr>st_workloads := AList.update (wrec_UID (wres_Record result)) result (st_workloads s)\<rparr>"

definition store_Workload :: "Store \<Rightarrow> UID \<Rightarrow> WorkloadResult option" where
  "store_Workload s uid = map_of (st_workloads s) uid"

definition RemoveWorkload :: "UID \<Rightarrow> Store \<Rightarrow> Store" where
  "RemoveWorkload uid s = s\<lparr>st_workloads := AList.delete uid (st_workloads s)\<rparr>"

definition SetSourceHealth :: "SourceKey \<Rightarrow> SourceHealth \<Rightarrow> Store \<Rightarrow> Store" where
  "SetSourceHealth key health s = s\<lparr>st_sources := AList.update key health (st_sources s)\<rparr>"

definition RemoveSourceHealth :: "SourceKey \<Rightarrow> Store \<Rightarrow> Store" where
  "RemoveSourceHealth key s = s\<lparr>st_sources := AList.delete key (st_sources s)\<rparr>"

definition SetDiscoveryFailure :: "ObjectRef \<Rightarrow> string \<Rightarrow> Store \<Rightarrow> Store" where
  "SetDiscoveryFailure input reason s =
     s\<lparr>st_failures := AList.update (or_UID input) \<lparr>df_Input = input, df_Error = reason\<rparr> (st_failures s)\<rparr>"

definition RemoveDiscoveryFailure :: "UID \<Rightarrow> Store \<Rightarrow> Store" where
  "RemoveDiscoveryFailure uid s = s\<lparr>st_failures := AList.delete uid (st_failures s)\<rparr>"

definition Capture :: "Store \<Rightarrow> CapturedView" where
  "Capture s = \<lparr>cv_Pods = map snd (st_pods s), cv_Workloads = map snd (st_workloads s), cv_Sources = st_sources s,
     cv_Failures = map snd (st_failures s)\<rparr>"

text \<open>The loop of Valid. A missing key reads as the zero health.\<close>

definition zero_health :: SourceHealth where
  "zero_health = \<lparr>sh_GVK = \<lparr>gvk_Group = [], gvk_Version = [], gvk_Kind = []\<rparr>, sh_Synced = False, sh_Error = []\<rparr>"

fun Valid_loop :: "CapturedView \<Rightarrow> SourceKey list \<Rightarrow> string \<Rightarrow> bool \<times> string" where
  "Valid_loop v [] reason = (reason = ReasonNone, reason)"
| "Valid_loop v (key # ks) reason =
     (let health = (case map_of (cv_Sources v) key of Some h \<Rightarrow> h | None \<Rightarrow> zero_health)
      in if sh_Error health = ReasonPermissionDenied then (False, ReasonPermissionDenied)
         else if map_of (cv_Sources v) key = None \<or> \<not> sh_Synced health \<or> (sh_Error health \<noteq> [] \<and> sh_Error health \<noteq> ReasonNone)
         then Valid_loop v ks ReasonAPIUnavailable
         else Valid_loop v ks reason)"

definition Valid :: "CapturedView \<Rightarrow> SourceKey list \<Rightarrow> string \<Rightarrow> bool \<times> string" where
  "Valid v sources reason =
     (if reason \<noteq> [] \<and> reason \<noteq> ReasonNone then (False, reason) else Valid_loop v sources ReasonNone)"

section \<open>The validity rule\<close>

definition denied :: "CapturedView \<Rightarrow> SourceKey \<Rightarrow> bool" where
  "denied v key \<longleftrightarrow> (\<exists>h. map_of (cv_Sources v) key = Some h \<and> sh_Error h = ReasonPermissionDenied)"

definition healthy :: "CapturedView \<Rightarrow> SourceKey \<Rightarrow> bool" where
  "healthy v key \<longleftrightarrow> (\<exists>h. map_of (cv_Sources v) key = Some h \<and> sh_Synced h \<and> (sh_Error h = [] \<or> sh_Error h = ReasonNone))"

lemma Valid_loop_spec:
  "Valid_loop v ks reason =
     (if \<exists>key \<in> set ks. denied v key then (False, ReasonPermissionDenied)
      else if \<forall>key \<in> set ks. healthy v key then (reason = ReasonNone, reason)
      else (False, ReasonAPIUnavailable))"
proof (induction v ks reason rule: Valid_loop.induct)
  case (2 v key ks reason)
  have distinct_reasons: "ReasonAPIUnavailable \<noteq> ReasonNone" "ReasonPermissionDenied \<noteq> ReasonNone" "ReasonPermissionDenied \<noteq> []"
    by (simp_all add: ReasonAPIUnavailable_def ReasonPermissionDenied_def ReasonNone_def)
  show ?case
    using 2 distinct_reasons
    by (cases "map_of (cv_Sources v) key") (auto simp: Let_def denied_def healthy_def zero_health_def)
qed simp

section \<open>Histories\<close>

text \<open>The calls of the writers of the store, and what they leave in it, as finite maps.\<close>

datatype store_call =
    CUpsertPod PodResult | CRemovePod UID | CUpsertWorkload WorkloadResult | CRemoveWorkload UID
  | CSetSourceHealth SourceKey SourceHealth | CRemoveSourceHealth SourceKey
  | CSetDiscoveryFailure ObjectRef string | CRemoveDiscoveryFailure UID

fun call :: "Store \<Rightarrow> store_call \<Rightarrow> Store" where
  "call s (CUpsertPod r) = UpsertPod r s"
| "call s (CRemovePod uid) = RemovePod uid s"
| "call s (CUpsertWorkload r) = UpsertWorkload r s"
| "call s (CRemoveWorkload uid) = RemoveWorkload uid s"
| "call s (CSetSourceHealth key h) = SetSourceHealth key h s"
| "call s (CRemoveSourceHealth key) = RemoveSourceHealth key s"
| "call s (CSetDiscoveryFailure r reason) = SetDiscoveryFailure r reason s"
| "call s (CRemoveDiscoveryFailure uid) = RemoveDiscoveryFailure uid s"

text \<open>The last call about a Pod, a workload, a source or an input decides.\<close>

fun last_pod :: "store_call list \<Rightarrow> UID \<Rightarrow> PodResult option" where
  "last_pod [] uid = None"
| "last_pod (c # cs) uid = (case c of
     CUpsertPod r \<Rightarrow> if pr_UID (pres_Record r) = uid then Some r else last_pod cs uid
   | CRemovePod u \<Rightarrow> if u = uid then None else last_pod cs uid
   | _ \<Rightarrow> last_pod cs uid)"

fun last_workload :: "store_call list \<Rightarrow> UID \<Rightarrow> WorkloadResult option" where
  "last_workload [] uid = None"
| "last_workload (c # cs) uid = (case c of
     CUpsertWorkload r \<Rightarrow> if wrec_UID (wres_Record r) = uid then Some r else last_workload cs uid
   | CRemoveWorkload u \<Rightarrow> if u = uid then None else last_workload cs uid
   | _ \<Rightarrow> last_workload cs uid)"

fun last_health :: "store_call list \<Rightarrow> SourceKey \<Rightarrow> SourceHealth option" where
  "last_health [] key = None"
| "last_health (c # cs) key = (case c of
     CSetSourceHealth k h \<Rightarrow> if k = key then Some h else last_health cs key
   | CRemoveSourceHealth k \<Rightarrow> if k = key then None else last_health cs key
   | _ \<Rightarrow> last_health cs key)"

fun last_failure :: "store_call list \<Rightarrow> UID \<Rightarrow> DiscoveryFailure option" where
  "last_failure [] uid = None"
| "last_failure (c # cs) uid = (case c of
     CSetDiscoveryFailure r reason \<Rightarrow> if or_UID r = uid then Some \<lparr>df_Input = r, df_Error = reason\<rparr> else last_failure cs uid
   | CRemoveDiscoveryFailure u \<Rightarrow> if u = uid then None else last_failure cs uid
   | _ \<Rightarrow> last_failure cs uid)"

lemmas store_ops = UpsertPod_def RemovePod_def UpsertWorkload_def RemoveWorkload_def SetSourceHealth_def RemoveSourceHealth_def
  SetDiscoveryFailure_def RemoveDiscoveryFailure_def store_New_def

definition history :: "store_call list \<Rightarrow> Store" where
  "history calls = foldl call store_New calls"

lemma history_snoc: "history (cs @ [c]) = call (history cs) c"
  by (simp add: history_def)

lemma history_maps:
  "distinct (map fst (st_pods (history cs))) \<and> map_of (st_pods (history cs)) = last_pod (rev cs)"
  "distinct (map fst (st_workloads (history cs))) \<and> map_of (st_workloads (history cs)) = last_workload (rev cs)"
  "distinct (map fst (st_sources (history cs))) \<and> map_of (st_sources (history cs)) = last_health (rev cs)"
  "distinct (map fst (st_failures (history cs))) \<and> map_of (st_failures (history cs)) = last_failure (rev cs)"
proof (induction cs rule: rev_induct)
  case Nil
  case 1 show ?case by (auto simp: history_def store_ops)
  case 2 show ?case by (auto simp: history_def store_ops)
  case 3 show ?case by (auto simp: history_def store_ops)
  case 4 show ?case by (auto simp: history_def store_ops)
next
  case (snoc c cs)
  case 1 show ?case using snoc(1) by (cases c) (auto simp: history_snoc store_ops update_conv' delete_conv' distinct_update distinct_delete)
  case 2 show ?case using snoc(2) by (cases c) (auto simp: history_snoc store_ops update_conv' delete_conv' distinct_update distinct_delete)
  case 3 show ?case using snoc(3) by (cases c) (auto simp: history_snoc store_ops update_conv' delete_conv' distinct_update distinct_delete)
  case 4 show ?case using snoc(4) by (cases c) (auto simp: history_snoc store_ops update_conv' delete_conv' distinct_update distinct_delete)
qed

text \<open>The values of a map that is an association list with distinct keys.\<close>

lemma snd_ran: "distinct (map fst m) \<Longrightarrow> set (map snd m) = ran (map_of m)"
  by (simp add: ran_distinct)

end
