(* ===== verification/Label_Resolver.thy ===== *)
theory Label_Resolver
  imports Exporter_Prelude Product_Version
begin

text \<open>
  \<^verbatim>\<open>labelresolver/resolver.go\<close> and \<^verbatim>\<open>labelresolver/validate.go\<close>, over the interfaces of \<^verbatim>\<open>labelevaluator/evaluator.go\<close>: rules that
  compute metric labels from the workload and Pod objects. The compiler and the evaluators it returns are parameters, an
  evaluator is a function of the object it is given (None is a nil object). The context is a function from the number of times
  that it has been asked to its error at that time. strings.TrimSpace is modelled for ASCII white space.
\<close>

section \<open>Types\<close>

datatype LabelSource = SourceWorkload | SourcePod | OtherSource string

fun LabelSource_string :: "LabelSource \<Rightarrow> string" where
  "LabelSource_string SourceWorkload = ''workload''"
| "LabelSource_string SourcePod = ''pod''"
| "LabelSource_string (OtherSource s) = s"

record Limits =
  lim_CostLimit :: "64 word"
  lim_MaxExpressionBytes :: int
  lim_MaxResultBytes :: int

record LabelRule =
  lr_Name :: string
  lr_Metrics :: "string list"
  lr_Sources :: "LabelSource list"
  lr_Expression :: string

record LabelConfig =
  lc_Rules :: "LabelRule list"
  lc_Limits :: Limits

type_synonym 'o label_evaluator = "'o option \<Rightarrow> string xres"

record 'o compiledRule =
  cr_name :: string
  cr_sources :: "LabelSource list"
  cr_evaluator :: "'o label_evaluator"

record ruleResult =
  rr_value :: string
  rr_err :: "xerr option"

record 'o resolver =
  rv_rules :: "'o compiledRule list"
  rv_rulesByMetric :: "string \<rightharpoonup> nat list"
  rv_podMetrics :: "string set"

record 'o LabelInput =
  li_Metrics :: "string list"
  li_Workload :: "'o option"
  li_Pod :: "'o option"

record ResolvedMetricLabels =
  rml_Metric :: string
  rml_Labels :: "string \<rightharpoonup> string"
  rml_Errors :: "string \<rightharpoonup> xerr"

definition MetricPodWorkloadInfo :: string where "MetricPodWorkloadInfo = ''dsx_workload_pod_info''"
definition MetricWorkloadStatus :: string where "MetricWorkloadStatus = ''dsx_workload_status''"

text \<open>The metrics that accept rules, and whether their rules may read the Pod.\<close>

definition supportedMetrics :: "string \<rightharpoonup> bool" where
  "supportedMetrics = [MetricPodWorkloadInfo \<mapsto> True, MetricWorkloadStatus \<mapsto> False]"

section \<open>validate.go\<close>

text \<open>The regular expression \<open>^[a-zA-Z_][a-zA-Z0-9_]*$\<close>.\<close>

definition between :: "char \<Rightarrow> char \<Rightarrow> char \<Rightarrow> bool" where
  "between lo hi c \<longleftrightarrow> lo \<le> c \<and> c \<le> hi"

definition label_start :: "char \<Rightarrow> bool" where
  "label_start c \<longleftrightarrow> between (CHR ''a'') (CHR ''z'') c \<or> between (CHR ''A'') (CHR ''Z'') c \<or> c = CHR ''_''"

definition label_char :: "char \<Rightarrow> bool" where
  "label_char c \<longleftrightarrow> label_start c \<or> between (CHR ''0'') (CHR ''9'') c"

fun labelName :: "string \<Rightarrow> bool" where
  "labelName [] = False"
| "labelName (c # cs) = (label_start c \<and> list_all label_char cs)"

text \<open>The loop over the sources of a rule, with the set of sources seen so far.\<close>

fun check_sources :: "nat \<Rightarrow> LabelSource list \<Rightarrow> LabelSource set \<Rightarrow> LabelSource set xres" where
  "check_sources i [] seen = Inr seen"
| "check_sources i (source # sources) seen =
     (if (source \<noteq> SourceWorkload \<and> source \<noteq> SourcePod) \<or> source \<in> seen
      then Inl (XErrorf ''labelRules[%d]: invalid or duplicate source %q'' [AInt (int i), AStr (LabelSource_string source)])
      else check_sources i sources (insert source seen))"

fun check_metrics :: "nat \<Rightarrow> bool \<Rightarrow> string list \<Rightarrow> string set \<Rightarrow> xerr option" where
  "check_metrics i readsPod [] seen = None"
| "check_metrics i readsPod (metric # metrics) seen =
     (case supportedMetrics metric of
        None \<Rightarrow> Some (XErrorf ''labelRules[%d]: unsupported metric %q'' [AInt (int i), AStr metric])
      | Some allowsPod \<Rightarrow>
          if readsPod \<and> \<not> allowsPod then Some (XErrorf ''labelRules[%d]: %s cannot use a Pod source'' [AInt (int i), AStr metric])
          else if metric \<in> seen then Some (XErrorf ''labelRules[%d]: duplicate metric %q'' [AInt (int i), AStr metric])
          else check_metrics i readsPod metrics (insert metric seen))"

definition check_rule :: "nat \<Rightarrow> LabelRule \<Rightarrow> xerr option" where
  "check_rule i rule =
     (if \<not> labelName (lr_Name rule) \<or> take 2 (lr_Name rule) = ''__''
      then Some (XErrorf ''labelRules[%d]: invalid label name %q'' [AInt (int i), AStr (lr_Name rule)])
      else if lr_Metrics rule = [] \<or> lr_Sources rule = [] \<or> TrimSpace (lr_Expression rule) = []
      then Some (XErrorf ''labelRules[%d]: metrics, sources and expression are required'' [AInt (int i)])
      else case check_sources i (lr_Sources rule) {} of
        Inl e \<Rightarrow> Some e
      | Inr sources \<Rightarrow> check_metrics i (SourcePod \<in> sources) (lr_Metrics rule) {})"

definition ValidateConfig :: "LabelConfig \<Rightarrow> xerr option" where
  "ValidateConfig cfg = first_some (map (\<lambda>(i, rule). check_rule i rule) (indexed (lc_Rules cfg)))"

section \<open>New\<close>

text \<open>The compiler; it is nil when None.\<close>

type_synonym 'o compiler = "string \<Rightarrow> Limits \<Rightarrow> 'o label_evaluator xres"

definition append_index :: "(string \<rightharpoonup> nat list) \<Rightarrow> string \<Rightarrow> nat \<Rightarrow> (string \<rightharpoonup> nat list)" where
  "append_index m metric i = m(metric \<mapsto> (case m metric of None \<Rightarrow> [] | Some is \<Rightarrow> is) @ [i])"

definition add_rule :: "'o label_evaluator \<Rightarrow> nat \<Rightarrow> LabelRule \<Rightarrow> 'o resolver \<Rightarrow> 'o resolver" where
  "add_rule evaluator i rule r =
     r\<lparr>rv_rules := rv_rules r @ [\<lparr>cr_name = lr_Name rule, cr_sources = lr_Sources rule, cr_evaluator = evaluator\<rparr>],
       rv_rulesByMetric := foldl (\<lambda>m metric. append_index m metric i) (rv_rulesByMetric r) (lr_Metrics rule),
       rv_podMetrics := rv_podMetrics r \<union> (if SourcePod \<in> set (lr_Sources rule) then set (lr_Metrics rule) else {})\<rparr>"

fun compile_rules :: "'o compiler \<Rightarrow> Limits \<Rightarrow> (nat \<times> LabelRule) list \<Rightarrow> 'o resolver \<Rightarrow> 'o resolver xres" where
  "compile_rules cmpl limits [] r = Inr r"
| "compile_rules cmpl limits ((i, rule) # rules) r =
     (case cmpl (lr_Expression rule) limits of
        Inl e \<Rightarrow> Inl (XWrapf ''labelRules[%d] %q: %w'' [AInt (int i), AStr (lr_Name rule)] [e])
      | Inr evaluator \<Rightarrow> compile_rules cmpl limits rules (add_rule evaluator i rule r))"

definition resolver_New :: "'o compiler option \<Rightarrow> LabelConfig \<Rightarrow> 'o resolver xres" where
  "resolver_New compiler cfg =
     (case compiler of
        None \<Rightarrow> Inl (Sentinel LabelErrMissingCompiler)
      | Some cmpl \<Rightarrow>
          if lim_MaxExpressionBytes (lc_Limits cfg) < 0 \<or> lim_MaxResultBytes (lc_Limits cfg) < 0
          then Inl (Sentinel LabelErrNegativeLimit)
          else case ValidateConfig cfg of
            Some e \<Rightarrow> Inl e
          | None \<Rightarrow> compile_rules cmpl (lc_Limits cfg) (indexed (lc_Rules cfg))
                     \<lparr>rv_rules = [], rv_rulesByMetric = Map.empty, rv_podMetrics = {}\<rparr>)"

section \<open>Resolve\<close>

type_synonym contexts = "nat \<Rightarrow> xerr option"

text \<open>The loop over the sources of a rule; \<open>t\<close> is the time of the context, which each question advances.\<close>

fun evaluate_sources ::
  "contexts \<Rightarrow> 'o label_evaluator \<Rightarrow> (LabelSource \<Rightarrow> 'o option) \<Rightarrow> LabelSource list \<Rightarrow> xerr list \<Rightarrow> nat \<Rightarrow> ruleResult xres \<times> nat" where
  "evaluate_sources ctx E objects [] errs t = (Inr \<lparr>rr_value = [], rr_err = join_errors errs\<rparr>, t)"
| "evaluate_sources ctx E objects (source # sources) errs t =
     (let outcome = E (objects source)
      in case ctx t of
           Some e \<Rightarrow> (Inl e, Suc t)
         | None \<Rightarrow>
             (case outcome of
                Inl e \<Rightarrow> evaluate_sources ctx E objects sources
                           (errs @ [XWrapf ''%s source: %w'' [AStr (LabelSource_string source)] [e]]) (Suc t)
              | Inr v \<Rightarrow>
                  if v \<noteq> [] then (Inr \<lparr>rr_value = v, rr_err = join_errors errs\<rparr>, Suc t)
                  else evaluate_sources ctx E objects sources errs (Suc t)))"

definition rule_evaluate ::
  "contexts \<Rightarrow> 'o compiledRule \<Rightarrow> (LabelSource \<Rightarrow> 'o option) \<Rightarrow> nat \<Rightarrow> ruleResult xres \<times> nat" where
  "rule_evaluate ctx rule objects t = evaluate_sources ctx (cr_evaluator rule) objects (cr_sources rule) [] t"

text \<open>errors.Join of the error kept under a name, which may be nil, and a further one.\<close>

definition join_under :: "(string \<rightharpoonup> xerr) \<Rightarrow> string \<Rightarrow> xerr \<Rightarrow> (string \<rightharpoonup> xerr)" where
  "join_under errors name e = errors(name \<mapsto> XJoin ((case errors name of None \<Rightarrow> [] | Some e' \<Rightarrow> [e']) @ [e]))"

definition record_outcome :: "string \<Rightarrow> ruleResult \<Rightarrow> ResolvedMetricLabels \<Rightarrow> ResolvedMetricLabels" where
  "record_outcome name outcome result =
     result\<lparr>rml_Labels := (if rr_value outcome \<noteq> [] then (rml_Labels result)(name \<mapsto> rr_value outcome) else rml_Labels result),
       rml_Errors := (case rr_err outcome of None \<Rightarrow> rml_Errors result | Some e \<Rightarrow> join_under (rml_Errors result) name e)\<rparr>"

text \<open>The rules of one metric. The outcomes found so far are kept by the index of their rule.\<close>

fun resolve_rules ::
  "contexts \<Rightarrow> 'o compiledRule list \<Rightarrow> (LabelSource \<Rightarrow> 'o option) \<Rightarrow> nat list \<Rightarrow> (nat \<rightharpoonup> ruleResult) \<Rightarrow> ResolvedMetricLabels \<Rightarrow> nat
     \<Rightarrow> (ResolvedMetricLabels \<times> (nat \<rightharpoonup> ruleResult)) xres \<times> nat" where
  "resolve_rules ctx rules objects [] evaluated result t = (Inr (result, evaluated), t)"
| "resolve_rules ctx rules objects (i # is) evaluated result t =
     (case evaluated i of
        Some outcome \<Rightarrow> resolve_rules ctx rules objects is evaluated (record_outcome (cr_name (rules ! i)) outcome result) t
      | None \<Rightarrow>
          (case rule_evaluate ctx (rules ! i) objects t of
             (Inl e, t') \<Rightarrow> (Inl e, t')
           | (Inr outcome, t') \<Rightarrow>
               resolve_rules ctx rules objects is (evaluated(i \<mapsto> outcome)) (record_outcome (cr_name (rules ! i)) outcome result) t'))"

definition metric_rules :: "'o resolver \<Rightarrow> string \<Rightarrow> nat list" where
  "metric_rules r metric = (case rv_rulesByMetric r metric of None \<Rightarrow> [] | Some is \<Rightarrow> is)"

fun resolve_metrics ::
  "contexts \<Rightarrow> 'o resolver \<Rightarrow> (LabelSource \<Rightarrow> 'o option) \<Rightarrow> string list \<Rightarrow> (nat \<rightharpoonup> ruleResult) \<Rightarrow> nat
     \<Rightarrow> ResolvedMetricLabels list xres \<times> nat" where
  "resolve_metrics ctx r objects [] evaluated t = (Inr [], t)"
| "resolve_metrics ctx r objects (metric # metrics) evaluated t =
     (case resolve_rules ctx (rv_rules r) objects (metric_rules r metric) evaluated
             \<lparr>rml_Metric = metric, rml_Labels = Map.empty, rml_Errors = Map.empty\<rparr> t of
        (Inl e, t') \<Rightarrow> (Inl e, t')
      | (Inr (result, evaluated'), t') \<Rightarrow>
          (case resolve_metrics ctx r objects metrics evaluated' t' of
             (Inl e, t'') \<Rightarrow> (Inl e, t'')
           | (Inr results, t'') \<Rightarrow> (Inr (result # results), t'')))"

text \<open>The loop over the requested metrics: the error, or whether a requested rule reads the Pod.\<close>

fun check_requested :: "'o resolver \<Rightarrow> string list \<Rightarrow> string set \<Rightarrow> bool \<Rightarrow> bool xres" where
  "check_requested r [] requested readsPod = Inr readsPod"
| "check_requested r (metric # metrics) requested readsPod =
     (if supportedMetrics metric = None then Inl (XWrapf ''%w %q'' [AStr metric] [Sentinel LabelErrUnsupportedMetric])
      else if metric \<in> requested then Inl (XWrapf ''%w %q'' [AStr metric] [Sentinel LabelErrDuplicateMetric])
      else check_requested r metrics (insert metric requested) (readsPod \<or> metric \<in> rv_podMetrics r))"

definition source_objects :: "'o LabelInput \<Rightarrow> LabelSource \<Rightarrow> 'o option" where
  "source_objects input source = (case source of SourceWorkload \<Rightarrow> li_Workload input | SourcePod \<Rightarrow> li_Pod input | OtherSource s \<Rightarrow> None)"

definition Resolve :: "contexts \<Rightarrow> 'o resolver \<Rightarrow> 'o LabelInput \<Rightarrow> nat \<Rightarrow> ResolvedMetricLabels list xres \<times> nat" where
  "Resolve ctx r input t =
     (case ctx t of
        Some e \<Rightarrow> (Inl e, Suc t)
      | None \<Rightarrow>
          if li_Workload input = None then (Inl (Sentinel LabelErrMissingWorkload), Suc t)
          else case check_requested r (li_Metrics input) {} False of
            Inl e \<Rightarrow> (Inl e, Suc t)
          | Inr readsPod \<Rightarrow>
              if readsPod \<and> li_Pod input = None then (Inl (Sentinel LabelErrMissingPod), Suc t)
              else resolve_metrics ctx r (source_objects input) (li_Metrics input) Map.empty (Suc t))"

definition Apply :: "ResolvedMetricLabels \<Rightarrow> (string \<rightharpoonup> string) option \<Rightarrow> (string \<rightharpoonup> string)" where
  "Apply r builtIn = (case builtIn of None \<Rightarrow> Map.empty | Some m \<Rightarrow> m) ++ rml_Labels r"

section \<open>Validation as a predicate\<close>

definition rule_ok :: "LabelRule \<Rightarrow> bool" where
  "rule_ok rule \<longleftrightarrow> labelName (lr_Name rule) \<and> take 2 (lr_Name rule) \<noteq> ''__''
     \<and> lr_Metrics rule \<noteq> [] \<and> lr_Sources rule \<noteq> [] \<and> TrimSpace (lr_Expression rule) \<noteq> []
     \<and> distinct (lr_Sources rule) \<and> set (lr_Sources rule) \<subseteq> {SourceWorkload, SourcePod}
     \<and> distinct (lr_Metrics rule)
     \<and> (\<forall>metric \<in> set (lr_Metrics rule). metric \<in> {MetricPodWorkloadInfo, MetricWorkloadStatus}
          \<and> (SourcePod \<in> set (lr_Sources rule) \<longrightarrow> metric \<noteq> MetricWorkloadStatus))"

lemma check_sources_Inr:
  "check_sources i ss seen = Inr seen' \<longleftrightarrow>
     distinct ss \<and> set ss \<inter> seen = {} \<and> set ss \<subseteq> {SourceWorkload, SourcePod} \<and> seen' = set ss \<union> seen"
  by (induction ss arbitrary: seen) auto

lemma check_metrics_None:
  "check_metrics i readsPod ms seen = None \<longleftrightarrow>
     distinct ms \<and> set ms \<inter> seen = {}
     \<and> (\<forall>m \<in> set ms. \<exists>allowsPod. supportedMetrics m = Some allowsPod \<and> (readsPod \<longrightarrow> allowsPod))"
  by (induction ms arbitrary: seen) (auto split: option.splits)

lemma metric_names: "MetricPodWorkloadInfo \<noteq> MetricWorkloadStatus"
  by (simp add: MetricPodWorkloadInfo_def MetricWorkloadStatus_def)

lemma supportedMetrics_iff:
  "(\<exists>allowsPod. supportedMetrics m = Some allowsPod \<and> (readsPod \<longrightarrow> allowsPod)) \<longleftrightarrow>
     m \<in> {MetricPodWorkloadInfo, MetricWorkloadStatus} \<and> (readsPod \<longrightarrow> m \<noteq> MetricWorkloadStatus)"
  using metric_names by (auto simp: supportedMetrics_def)

lemma check_rule_None: "check_rule i rule = None \<longleftrightarrow> rule_ok rule"
proof (cases "distinct (lr_Sources rule) \<and> set (lr_Sources rule) \<subseteq> {SourceWorkload, SourcePod}")
  case True
  then have "check_sources i (lr_Sources rule) {} = Inr (set (lr_Sources rule))"
    by (simp add: check_sources_Inr)
  with True show ?thesis by (auto simp: check_rule_def rule_ok_def check_metrics_None supportedMetrics_iff)
next
  case False
  then have "check_sources i (lr_Sources rule) {} \<noteq> Inr sources" for sources
    using False by (auto simp: check_sources_Inr)
  with False show ?thesis by (cases "check_sources i (lr_Sources rule) {}") (auto simp: check_rule_def rule_ok_def)
qed

lemma ValidateConfig_None: "ValidateConfig cfg = None \<longleftrightarrow> list_all rule_ok (lc_Rules cfg)"
  by (auto simp: ValidateConfig_def first_some_None check_rule_None indexed_def list_all_length set_zip)

section \<open>Compilation\<close>

definition compiled :: "'o compiler \<Rightarrow> Limits \<Rightarrow> LabelRule \<Rightarrow> 'o compiledRule" where
  "compiled cmpl limits rule =
     \<lparr>cr_name = lr_Name rule, cr_sources = lr_Sources rule, cr_evaluator = projr (cmpl (lr_Expression rule) limits)\<rparr>"

definition targeting :: "string \<Rightarrow> (nat \<times> LabelRule) list \<Rightarrow> nat list" where
  "targeting metric rules = map fst (filter (\<lambda>(i, rule). metric \<in> set (lr_Metrics rule)) rules)"

lemma metric_rules_append:
  assumes "distinct metrics"
  shows "(case foldl (\<lambda>m metric. append_index m metric i) m metrics k of None \<Rightarrow> [] | Some is \<Rightarrow> is)
    = (case m k of None \<Rightarrow> [] | Some is \<Rightarrow> is) @ (if k \<in> set metrics then [i] else [])"
  using assms by (induction metrics arbitrary: m) (auto simp: append_index_def)

lemma compile_rules_Inr:
  assumes "compile_rules cmpl limits rules r = Inr r'" "\<forall>(i, rule) \<in> set rules. distinct (lr_Metrics rule)"
  shows "rv_rules r' = rv_rules r @ map (compiled cmpl limits \<circ> snd) rules
    \<and> (\<forall>metric. metric_rules r' metric = metric_rules r metric @ targeting metric rules)
    \<and> rv_podMetrics r' = rv_podMetrics r
        \<union> {metric. \<exists>(i, rule) \<in> set rules. SourcePod \<in> set (lr_Sources rule) \<and> metric \<in> set (lr_Metrics rule)}"
  using assms
proof (induction cmpl limits rules r rule: compile_rules.induct)
  case (2 cmpl limits i rule rules r)
  from "2.prems" obtain E where E: "cmpl (lr_Expression rule) limits = Inr E"
    by (auto split: sum.splits)
  with 2 have rest: "compile_rules cmpl limits rules (add_rule E i rule r) = Inr r'" by simp
  have first: "metric_rules (add_rule E i rule r) metric = metric_rules r metric @ (if metric \<in> set (lr_Metrics rule) then [i] else [])"
    for metric
    using "2.prems"(2) by (simp add: add_rule_def metric_rules_def metric_rules_append)
  from "2.IH" [OF E rest] "2.prems"(2) show ?case
    by (auto simp: first targeting_def) (auto simp: add_rule_def compiled_def E split: if_splits)
qed (simp add: targeting_def)

text \<open>What New returns for a configuration: the rules in order, and the indices by metric.\<close>

lemma resolver_New_Inr:
  assumes "resolver_New (Some cmpl) cfg = Inr r"
  shows "list_all rule_ok (lc_Rules cfg) \<and> rv_rules r = map (compiled cmpl (lc_Limits cfg)) (lc_Rules cfg)
    \<and> (\<forall>metric. metric_rules r metric = targeting metric (indexed (lc_Rules cfg)))
    \<and> rv_podMetrics r = {metric. \<exists>rule \<in> set (lc_Rules cfg). SourcePod \<in> set (lr_Sources rule) \<and> metric \<in> set (lr_Metrics rule)}"
proof -
  from assms have ok: "list_all rule_ok (lc_Rules cfg)"
    and comp: "compile_rules cmpl (lc_Limits cfg) (indexed (lc_Rules cfg)) \<lparr>rv_rules = [], rv_rulesByMetric = Map.empty, rv_podMetrics = {}\<rparr>
      = Inr r"
    by (auto simp: resolver_New_def ValidateConfig_None split: if_splits option.splits)
  have snd: "map snd (indexed (lc_Rules cfg)) = lc_Rules cfg" by (simp add: indexed_def)
  have "\<forall>(i, rule) \<in> set (indexed (lc_Rules cfg)). distinct (lr_Metrics rule)"
    using ok by (auto simp: indexed_def set_zip list_all_length rule_ok_def)
  note C = compile_rules_Inr [OF comp this]
  have "set (lc_Rules cfg) = snd ` set (indexed (lc_Rules cfg))"
    by (metis snd set_map)
  then have ex: "(\<exists>(i, rule) \<in> set (indexed (lc_Rules cfg)). P rule) \<longleftrightarrow> (\<exists>rule \<in> set (lc_Rules cfg). P rule)" for P
    by (simp only:) force
  show ?thesis using ok C by (simp add: ex map_map [symmetric] snd metric_rules_def del: map_map)
qed

section \<open>A reference without cache and index\<close>

text \<open>
  The outcome of a rule: the value of the first source whose evaluation succeeds with a value, with the errors of the sources
  before it.
\<close>

definition gives_value :: "'o label_evaluator \<Rightarrow> 'o option \<Rightarrow> bool" where
  "gives_value E obj \<longleftrightarrow> (case E obj of Inl e \<Rightarrow> False | Inr v \<Rightarrow> v \<noteq> [])"

definition source_errors :: "'o label_evaluator \<Rightarrow> (LabelSource \<Rightarrow> 'o option) \<Rightarrow> LabelSource list \<Rightarrow> xerr list" where
  "source_errors E objects sources =
     List.map_filter (\<lambda>source. case E (objects source) of
         Inl e \<Rightarrow> Some (XWrapf ''%s source: %w'' [AStr (LabelSource_string source)] [e]) | Inr v \<Rightarrow> None) sources"

definition rule_outcome :: "'o compiledRule \<Rightarrow> (LabelSource \<Rightarrow> 'o option) \<Rightarrow> ruleResult" where
  "rule_outcome rule objects =
     (let E = cr_evaluator rule
      in \<lparr>rr_value = (case find (\<lambda>source. gives_value E (objects source)) (cr_sources rule) of
              None \<Rightarrow> [] | Some source \<Rightarrow> projr (E (objects source))),
          rr_err = join_errors (source_errors E objects (takeWhile (\<lambda>source. \<not> gives_value E (objects source)) (cr_sources rule)))\<rparr>)"

text \<open>The result for a metric: every rule that targets it is evaluated afresh, in the order of the configuration.\<close>

definition metric_result :: "'o compiler \<Rightarrow> LabelConfig \<Rightarrow> (LabelSource \<Rightarrow> 'o option) \<Rightarrow> string \<Rightarrow> ResolvedMetricLabels" where
  "metric_result cmpl cfg objects metric =
     foldl (\<lambda>result rule. record_outcome (lr_Name rule) (rule_outcome (compiled cmpl (lc_Limits cfg) rule) objects) result)
       \<lparr>rml_Metric = metric, rml_Labels = Map.empty, rml_Errors = Map.empty\<rparr>
       (filter (\<lambda>rule. metric \<in> set (lr_Metrics rule)) (lc_Rules cfg))"

definition valid_input :: "LabelConfig \<Rightarrow> 'o LabelInput \<Rightarrow> bool" where
  "valid_input cfg input \<longleftrightarrow> li_Workload input \<noteq> None
     \<and> distinct (li_Metrics input) \<and> set (li_Metrics input) \<subseteq> dom supportedMetrics
     \<and> (li_Pod input = None \<longrightarrow> (\<forall>rule \<in> set (lc_Rules cfg).
          SourcePod \<in> set (lr_Sources rule) \<longrightarrow> set (lr_Metrics rule) \<inter> set (li_Metrics input) = {}))"

definition cancelled :: "contexts \<Rightarrow> xerr + 'a \<Rightarrow> bool" where
  "cancelled ctx x \<longleftrightarrow> (\<exists>t e. ctx t = Some e \<and> x = Inl e)"

lemma evaluate_sources_reference:
  "cancelled ctx (fst (evaluate_sources ctx E objects sources errs t)) \<or>
   fst (evaluate_sources ctx E objects sources errs t) = Inr
     \<lparr>rr_value = (case find (\<lambda>source. gives_value E (objects source)) sources of
          None \<Rightarrow> [] | Some source \<Rightarrow> projr (E (objects source))),
      rr_err = join_errors (errs @ source_errors E objects (takeWhile (\<lambda>source. \<not> gives_value E (objects source)) sources))\<rparr>"
proof (induction ctx E objects sources errs t rule: evaluate_sources.induct)
  case (2 ctx E objects source sources errs t)
  show ?case
  proof (cases "ctx t")
    case (Some e)
    then show ?thesis by (auto simp: cancelled_def)
  next
    case None
    then show ?thesis
      using "2.IH"(1) [OF refl None] "2.IH"(2) [OF refl None]
      by (cases "E (objects source)") (simp_all add: gives_value_def source_errors_def List.map_filter_simps)
  qed
qed (simp add: source_errors_def List.map_filter_simps)

lemma rule_evaluate_reference:
  "cancelled ctx (fst (rule_evaluate ctx rule objects t)) \<or> fst (rule_evaluate ctx rule objects t) = Inr (rule_outcome rule objects)"
  using evaluate_sources_reference [of ctx "cr_evaluator rule" objects "cr_sources rule" "[]" t]
  by (simp add: rule_evaluate_def rule_outcome_def Let_def)

text \<open>The cache holds the outcomes of its rules.\<close>

definition cache_ok :: "'o compiledRule list \<Rightarrow> (LabelSource \<Rightarrow> 'o option) \<Rightarrow> (nat \<rightharpoonup> ruleResult) \<Rightarrow> bool" where
  "cache_ok rules objects evaluated \<longleftrightarrow> (\<forall>i outcome. evaluated i = Some outcome \<longrightarrow> outcome = rule_outcome (rules ! i) objects)"

lemma cache_ok_empty: "cache_ok rules objects Map.empty"
  by (simp add: cache_ok_def)

lemma cache_ok_update: "cache_ok rules objects m \<Longrightarrow> cache_ok rules objects (m(i \<mapsto> rule_outcome (rules ! i) objects))"
  by (simp add: cache_ok_def)

definition apply_rules :: "'o compiledRule list \<Rightarrow> (LabelSource \<Rightarrow> 'o option) \<Rightarrow> nat list \<Rightarrow> ResolvedMetricLabels \<Rightarrow> ResolvedMetricLabels" where
  "apply_rules rules objects is result =
     foldl (\<lambda>result i. record_outcome (cr_name (rules ! i)) (rule_outcome (rules ! i) objects) result) result is"

lemma resolve_rules_reference:
  assumes "cache_ok rules objects evaluated"
  shows "cancelled ctx (fst (resolve_rules ctx rules objects is evaluated result t)) \<or>
    (\<exists>evaluated'. fst (resolve_rules ctx rules objects is evaluated result t) = Inr (apply_rules rules objects is result, evaluated')
       \<and> cache_ok rules objects evaluated')"
  using assms
proof (induction "is" arbitrary: evaluated result t)
  case Nil
  then show ?case by (simp add: apply_rules_def)
next
  case (Cons i "is")
  show ?case
  proof (cases "evaluated i")
    case (Some outcome)
    with Cons.prems have "outcome = rule_outcome (rules ! i) objects" by (simp add: cache_ok_def)
    with Some Cons.IH [OF Cons.prems] show ?thesis by (simp add: apply_rules_def)
  next
    case None
    obtain x t' where ev: "rule_evaluate ctx (rules ! i) objects t = (x, t')" by fastforce
    with rule_evaluate_reference [of ctx "rules ! i" objects t]
    consider e where "x = Inl e" "cancelled ctx x" | "x = Inr (rule_outcome (rules ! i) objects)"
      by (auto simp: cancelled_def)
    then show ?thesis
    proof cases
      case 1
      with None ev show ?thesis by (simp add: cancelled_def)
    next
      case 2
      let ?result = "record_outcome (cr_name (rules ! i)) (rule_outcome (rules ! i) objects) result"
      have "resolve_rules ctx rules objects (i # is) evaluated result t
          = resolve_rules ctx rules objects is (evaluated(i \<mapsto> rule_outcome (rules ! i) objects)) ?result t'"
        using 2 None ev by simp
      moreover have "apply_rules rules objects (i # is) result = apply_rules rules objects is ?result"
        by (simp add: apply_rules_def)
      ultimately show ?thesis using Cons.IH [OF cache_ok_update [OF Cons.prems]] by (simp only:)
    qed
  qed
qed

lemma resolve_metrics_reference:
  assumes "cache_ok (rv_rules r) objects evaluated"
  shows "cancelled ctx (fst (resolve_metrics ctx r objects metrics evaluated t)) \<or>
    fst (resolve_metrics ctx r objects metrics evaluated t)
      = Inr (map (\<lambda>metric. apply_rules (rv_rules r) objects (metric_rules r metric)
          \<lparr>rml_Metric = metric, rml_Labels = Map.empty, rml_Errors = Map.empty\<rparr>) metrics)"
  using assms
proof (induction metrics arbitrary: evaluated t)
  case (Cons metric metrics)
  let ?start = "\<lparr>rml_Metric = metric, rml_Labels = Map.empty, rml_Errors = Map.empty\<rparr>"
  obtain x t' where rr: "resolve_rules ctx (rv_rules r) objects (metric_rules r metric) evaluated ?start t = (x, t')" by fastforce
  with resolve_rules_reference [OF Cons.prems, of ctx "metric_rules r metric" ?start t]
  consider e where "x = Inl e" "cancelled ctx x"
    | evaluated' where "x = Inr (apply_rules (rv_rules r) objects (metric_rules r metric) ?start, evaluated')"
        "cache_ok (rv_rules r) objects evaluated'"
    by (auto simp: cancelled_def)
  then show ?case
  proof cases
    case 1
    with rr show ?thesis by (simp add: cancelled_def)
  next
    case (2 evaluated')
    obtain y t'' where rest: "resolve_metrics ctx r objects metrics evaluated' t' = (y, t'')" by fastforce
    with Cons.IH [OF 2(2), of t'] 2(1) rr show ?thesis
      by (cases y) (auto simp: cancelled_def)
  qed
qed simp

text \<open>The same outcomes through the list of rules instead of their indices.\<close>

lemma apply_rules_targeting:
  "apply_rules (map (compiled cmpl limits) rules) objects (targeting metric (indexed rules)) result =
   foldl (\<lambda>result rule. record_outcome (lr_Name rule) (rule_outcome (compiled cmpl limits rule) objects) result) result
     (filter (\<lambda>rule. metric \<in> set (lr_Metrics rule)) rules)"
proof (induction rules rule: rev_induct)
  case Nil
  then show ?case by (simp add: apply_rules_def targeting_def indexed_def)
next
  case (snoc rule rules)
  have ix: "indexed (rules @ [rule]) = indexed rules @ [(length rules, rule)]"
    by (simp add: indexed_def zip_append)
  have small: "i < length rules" if "i \<in> set (targeting metric (indexed rules))" for i
    using that by (auto simp: targeting_def indexed_def set_zip)
  have same: "apply_rules (map (compiled cmpl limits) (rules @ [rule])) objects (targeting metric (indexed rules)) result
      = apply_rules (map (compiled cmpl limits) rules) objects (targeting metric (indexed rules)) result"
    unfolding apply_rules_def using small by (intro foldl_cong) (auto simp: nth_append)
  have split: "targeting metric (indexed (rules @ [rule]))
      = targeting metric (indexed rules) @ (if metric \<in> set (lr_Metrics rule) then [length rules] else [])"
    by (simp add: ix targeting_def)
  have append: "apply_rules rs objects (is @ js) res = apply_rules rs objects js (apply_rules rs objects is res)" for rs "is" js res
    by (simp add: apply_rules_def)
  have last: "apply_rules (map (compiled cmpl limits) (rules @ [rule])) objects [length rules] res
      = record_outcome (lr_Name rule) (rule_outcome (compiled cmpl limits rule) objects) res" for res
    by (simp add: apply_rules_def nth_append) (simp add: compiled_def)
  show ?case
    unfolding split append same snoc.IH by (simp only: last append if_distrib split: if_split) (auto simp: apply_rules_def)
qed

lemma check_requested_Inr:
  "check_requested r metrics requested readsPod = Inr b \<longleftrightarrow>
     distinct metrics \<and> set metrics \<inter> requested = {} \<and> set metrics \<subseteq> dom supportedMetrics
     \<and> (b \<longleftrightarrow> readsPod \<or> set metrics \<inter> rv_podMetrics r \<noteq> {})"
  by (induction metrics arbitrary: requested readsPod) (auto simp: domIff)

text \<open>Whether Resolve accepts its input, and the rules it then applies.\<close>

lemma Resolve_reference:
  assumes "resolver_New (Some cmpl) cfg = Inr r"
  shows "cancelled ctx (fst (Resolve ctx r input t)) \<or>
    (if valid_input cfg input
     then fst (Resolve ctx r input t) = Inr (map (metric_result cmpl cfg (source_objects input)) (li_Metrics input))
     else \<exists>e. fst (Resolve ctx r input t) = Inl e)"
proof (cases "ctx t")
  case (Some e)
  then show ?thesis by (auto simp: Resolve_def cancelled_def)
next
  case ctx: None
  note N = resolver_New_Inr [OF assms]
  show ?thesis
  proof (cases "valid_input cfg input")
    case True
    then obtain w where w: "li_Workload input = Some w" by (auto simp: valid_input_def)
    define pods where "pods \<longleftrightarrow> set (li_Metrics input) \<inter> rv_podMetrics r \<noteq> {}"
    have req: "check_requested r (li_Metrics input) {} False = Inr pods"
      using True by (simp add: check_requested_Inr valid_input_def pods_def)
    have "\<not> (pods \<and> li_Pod input = None)" using True N by (auto simp: valid_input_def pods_def)
    with ctx w req have "Resolve ctx r input t
        = resolve_metrics ctx r (source_objects input) (li_Metrics input) Map.empty (Suc t)"
      by (auto simp: Resolve_def)
    with True resolve_metrics_reference [OF cache_ok_empty, of ctx r "source_objects input" "li_Metrics input" "Suc t"] N
    show ?thesis by (simp add: apply_rules_targeting metric_result_def [abs_def])
  next
    case False
    have "\<exists>e. fst (Resolve ctx r input t) = Inl e"
    proof (cases "li_Workload input = None")
      case True
      with ctx show ?thesis by (simp add: Resolve_def)
    next
      case w: False
      show ?thesis
      proof (cases "check_requested r (li_Metrics input) {} False")
        case (Inl e)
        with ctx w show ?thesis by (simp add: Resolve_def)
      next
        case (Inr b)
        with False w N have "b \<and> li_Pod input = None"
          unfolding check_requested_Inr valid_input_def by auto
        with Inr ctx w show ?thesis by (simp add: Resolve_def)
      qed
    qed
    with False show ?thesis by simp
  qed
qed

end
