(* ===== verification/Exporter_Properties.thy ===== *)
theory Exporter_Properties
  imports Owner_Discovery Inventory_History Exporter_Store Label_Resolver
begin

text \<open>The properties of the workload exporter: owner discovery, definition inventory, attribution store and label rules.\<close>

section \<open>Samples\<close>

text \<open>A cluster with two definitions for one kind, of which the one with the later name is the older, and an inventory over it.\<close>

definition cluster_object :: "string \<Rightarrow> int \<Rightarrow> KartaObject" where
  "cluster_object name created =
     \<lparr>ko_karta = Sandbox\<lparr>k_Name := name\<rparr>, ko_UID = name, ko_ResourceVersion = ''1'', ko_CreationTimestamp = created\<rparr>"

definition inventory_lib :: "KartaObject invlib" where
  "inventory_lib = \<lparr>il_parse = (\<lambda>s. Inr ALeaf), il_compareVersions = (\<lambda>a b. 0), il_GetName = k_Name \<circ> ko_karta,
     il_FromUnstructured = Inr\<rparr>"

definition inventory_config :: InventoryConfig where
  "inventory_config = \<lparr>ic_Catalog = \<lparr>src_Enabled = False, src_Include = [], src_Exclude = []\<rparr>,
     ic_Cluster = \<lparr>src_Enabled = True, src_Include = [], src_Exclude = [''excluded'']\<rparr>, ic_RequestTimeout = 0\<rparr>"

definition inventory_start :: Inventory where
  "inventory_start = projr (inventory_New inventory_lib [] True inventory_config)"

definition inventory_loaded :: Inventory where
  "inventory_loaded = snd (store_Replace inventory_lib 7
     [Some (cluster_object ''excluded'' 1), Some (cluster_object ''a'' 5), Some (cluster_object ''b'' 3)] inventory_start)"

lemma inventory_start_New: "inventory_New inventory_lib [] True inventory_config = Inr inventory_start"
  by (simp add: inventory_start_def inventory_New_def inventory_config_def compileSource_def join_errors_def name_problem_def)

lemma inventory_loaded_reachable: "reachable inventory_lib inventory_loaded"
  unfolding inventory_loaded_def by (rule reachable_step [OF reachable_New [OF inventory_start_New] istep_Replace])

lemma inventory_loaded_ready: "ready inventory_loaded = None"
  by code_simp

lemma inventory_loaded_elected: "electLocked inventory_loaded (RootKey Sandbox)
    = Some (\<lparr>de_definition = Some (cluster_object ''b'' 3), de_err = None\<rparr>, SourceCluster)"
  by code_simp

section \<open>The elected definition\<close>

text \<open>The candidates of the cluster for a kind, and the order of the election: by creation time, ties broken by the name.\<close>

definition candidate :: "GroupVersionKind \<Rightarrow> definitionEntry \<Rightarrow> bool" where
  "candidate gvk e = (case de_definition e of
     None \<Rightarrow> False
   | Some k \<Rightarrow> gvk_Group (RootKey (ko_karta k)) = gvk_Group gvk \<and> gvk_Kind (RootKey (ko_karta k)) = gvk_Kind gvk
       \<and> gvk_Version (RootKey (ko_karta k)) \<noteq> [] \<and> gvk_Kind gvk \<noteq> [])"

definition created_before :: "definitionEntry \<Rightarrow> definitionEntry \<Rightarrow> bool" where
  "created_before a b = (case (de_definition a, de_definition b) of
     (Some ka, Some kb) \<Rightarrow> ko_CreationTimestamp ka < ko_CreationTimestamp kb
       \<or> ko_CreationTimestamp ka = ko_CreationTimestamp kb \<and> k_Name (ko_karta ka) \<le> k_Name (ko_karta kb)
   | _ \<Rightarrow> False)"

definition elected :: "Inventory \<Rightarrow> GroupVersionKind \<Rightarrow> definitionEntry \<Rightarrow> Source \<Rightarrow> bool" where
  "elected i gvk w source \<longleftrightarrow>
     (let candidates = {e \<in> snd ` set (iv_cluster i). candidate gvk e}
      in if candidates = {}
         then source = SourceCatalog
           \<and> w = (case map_of (iv_catalog i) (gvk_Group gvk, gvk_Kind gvk) of Some e \<Rightarrow> e | None \<Rightarrow> empty_entry)
         else source = SourceCluster \<and> w \<in> candidates \<and> (\<forall>e \<in> candidates. created_before w e))"

lemma eligible_candidate: "eligible_entry gvk e \<longleftrightarrow> candidate gvk e"
  by (auto simp: eligible_entry_def candidate_def eligible_def GroupKind_of_def Let_def split: option.splits)

lemma beats_created: "beats w e \<Longrightarrow> created_before w e"
  by (auto simp: beats_def created_before_def older_iff)

lemma electLocked_elected:
  assumes "electLocked i gvk = Some (w, source)"
  shows "elected i gvk w source"
proof -
  from assms obtain v where v: "elect_loop gvk (iv_cluster i) empty_entry = Some v"
    by (auto simp: electLocked_def split: option.splits)
  note E = elect_loop_spec [OF v, unfolded eligible_candidate]
  show ?thesis
  proof (cases "de_definition v = None")
    case True
    then have "\<not> beats v e" for e by (simp add: beats_def)
    with E True assms v show ?thesis by (auto simp: elected_def electLocked_def GroupKind_of_def)
  next
    case False
    then have "v \<noteq> empty_entry" by (auto simp: empty_entry_def)
    with E have "v \<in> {e \<in> snd ` set (iv_cluster i). candidate gvk e}" by simp
    moreover have "created_before v e" if "(name, e) \<in> set (iv_cluster i)" "candidate gvk e" for name e
      using E that by (intro beats_created) force
    ultimately show ?thesis
      using False assms v unfolding elected_def Let_def electLocked_def by (auto intro: rev_image_eqI)
  qed
qed

section \<open>Owner discovery\<close>

text \<open>C20 The walk from an object to its top owner always ends. It returns exactly the climbs without a repeated UID and of at
  most 1024 objects: starting at the requested object, each reference names the object that the reader answered with, from its cache or
  with its metadata; the next one asked for is its only controller, in its namespace; no ignored kind is entered; the last object has no
  controller, or one of an ignored kind, and is the root of the workload. The reader is asked nothing else. An error is one of the five
  classes of discovery, or the error of the context.\<close>

theorem discovery_walk:
  "((\<exists>refs resolution. res = found refs (last refs) resolution
       \<and> ascent parse_gv ctx_Err (d_reader d) (d_ignored d) False ref w refs resolution w'
       \<and> distinct (map or_UID refs) \<and> length refs \<le> 1024)
     \<longleftrightarrow> discovery_Get parse_gv ctx_Err d ref w = (Inr res, w'))
   \<and> (case fst (discovery_Get parse_gv ctx_Err d ref w) of
        Inl e \<Rightarrow> discovery_error e \<or> (\<exists>v. ctx_Err v = Some e)
      | Inr found_workload \<Rightarrow> True)"
proof (intro conjI)
  show "case fst (discovery_Get parse_gv ctx_Err d ref w) of
      Inl e \<Rightarrow> discovery_error e \<or> (\<exists>v. ctx_Err v = Some e) | Inr found_workload \<Rightarrow> True"
    using Get_loop_error [of parse_gv ctx_Err d ref "[]" "[]" w]
    by (cases "discovery_Get parse_gv ctx_Err d ref w") (auto simp: discovery_Get_def split: sum.split)
qed (auto simp: discovery_Get_climb)

section \<open>The inventory of definitions\<close>

text \<open>C25 After any history of an inventory with fewer than 2^64 failures, whether it answers, and the error when it does not,
  depend on the history alone: a disabled cluster source is always ready; a run that ended is an error; a failure is an error until a
  complete list that began after it was applied, as a denied permission when it is one; then the first complete list must have been applied,
  and the objects last reported under the accepted names must all decode, or one that does not is the error.\<close>

theorem ready_history:
  assumes "inventory_New lib defs has_client config = Inr i" "failures_in evs < 2 ^ 64"
  shows "if \<not> sf_enabled (iv_clusterFilter i) then ready (after lib i evs) = None
    else if Run_ended \<in> set evs
    then ready (after lib i evs) = Some (XWrapf ''%w: %w'' [] [Sentinel InventoryErrUnavailable, Sentinel InventoryErrStopped])
    else case pending (health_after evs) of
      Some e \<Rightarrow> ready (after lib i evs) = Some (XWrapf ''%w: %w'' []
        [Sentinel (if IsForbidden e \<or> IsUnauthorized e then InventoryErrPermissionDenied else InventoryErrUnavailable), e])
    | None \<Rightarrow>
        if \<not> list_ex complete_list evs then ready (after lib i evs) = Some (Sentinel InventoryErrNotReady)
        else if undecodable lib (iv_clusterFilter i) evs = {} then ready (after lib i evs) = None
        else ready (after lib i evs) \<in> (\<lambda>u. Some (XWrapf ''%w: decode Karta %q: %w'' [AStr (il_GetName lib u)]
          [Sentinel InventoryErrUnavailable, projl (il_FromUnstructured lib u)])) ` undecodable lib (iv_clusterFilter i) evs"
proof -
  let ?i = "after lib i evs"
  note state = inventory_New_state [OF assms(1)]
  have failure: "iv_failure ?i = pending (health_after evs)"
    using after_tracks [OF assms] by (simp add: tracks_def)
  have stopped: "iv_stopped ?i \<longleftrightarrow> Run_ended \<in> set evs" using state by (simp add: after_stopped)
  have synced: "iv_synced ?i \<longleftrightarrow> \<not> sf_enabled (iv_clusterFilter i) \<or> list_ex complete_list evs" using state by (simp add: after_synced)
  consider (none) "find (\<lambda>(name, entry). de_definition entry = None) (iv_cluster ?i) = None" "undecodable lib (iv_clusterFilter i) evs = {}"
    | (bad) name u where "find (\<lambda>(name, entry). de_definition entry = None) (iv_cluster ?i) = Some (name, decodeKarta lib u)"
        "u \<in> undecodable lib (iv_clusterFilter i) evs"
  proof (cases "find (\<lambda>(name, entry). de_definition entry = None) (iv_cluster ?i)")
    case None
    then have "\<forall>e \<in> snd ` set (iv_cluster ?i). de_definition e \<noteq> None" by (auto simp: find_None_iff)
    with undecoded_entry [OF assms(1)] None show ?thesis by (intro that(1)) blast+
  next
    case (Some x)
    then have "snd x \<in> snd ` set (iv_cluster ?i)" "de_definition (snd x) = None"
      by (auto simp: find_Some_iff intro!: imageI nth_mem)
    from ready_undecoded [OF assms(1) this] Some that(2) show ?thesis by (metis prod.collapse)
  qed
  then show ?thesis
  proof cases
    case none
    then show ?thesis by (simp add: ready_def after_filter failure stopped synced split: option.split)
  next
    case bad
    have "de_err (decodeKarta lib u) = Some (XWrapf ''%w: decode Karta %q: %w'' [AStr (il_GetName lib u)]
        [Sentinel InventoryErrUnavailable, projl (il_FromUnstructured lib u)])"
      using bad(2) by (auto simp: undecodable_def decodeKarta_def split: sum.split)
    with bad show ?thesis
      by (auto simp: ready_def after_filter failure stopped synced split: option.split)
  qed
qed

text \<open>A failure while a list is under way survives the list, and the next list settles it.\<close>

definition relisted :: "KartaObject occurrence list" where
  "relisted = [Replaced 9 [Some (cluster_object ''a'' 5)], Paged False None, Replaced 8 [],
     Relayed False False 7 (ErrorEvent (Sentinel InventoryErrRelist)) \<lparr>fw_received = False, fw_listEnded = None\<rparr>, Paged False None, Run_begun]"

theorem ready_history_witness:
  "ready (after inventory_lib inventory_start relisted) = None
   \<and> ready (after inventory_lib inventory_start (drop 2 relisted))
       = Some (XWrapf ''%w: %w'' [] [Sentinel InventoryErrUnavailable, Sentinel InventoryErrRelist])"
proof -
  have on: "sf_enabled (iv_clusterFilter inventory_start)" by code_simp
  have h: "health_after relisted = Healthy" "failures_in relisted = 1" "list_ex complete_list relisted" "Run_ended \<notin> set relisted"
    "health_after (drop 2 relisted) = Failed (Sentinel InventoryErrRelist)" "failures_in (drop 2 relisted) = 1"
    "Run_ended \<notin> set (drop 2 relisted)"
    by (simp_all add: relisted_def health_step_def)
  have "undecodable inventory_lib (iv_clusterFilter inventory_start) relisted = {}" by (simp add: undecodable_def inventory_lib_def)
  with ready_history [OF inventory_start_New, of relisted] ready_history [OF inventory_start_New, of "drop 2 relisted"] on h show ?thesis
    by (simp add: IsForbidden_def IsUnauthorized_def)
qed

text \<open>C6 In every reachable state Lookup does not panic. It fails when the inventory is not ready. Otherwise it answers with
  the elected definition: the oldest definition of the cluster for the requested group and kind, ties broken by the name, or the
  entry of the catalog when the cluster has none; an invalid winner is reported, never replaced by another candidate.\<close>

theorem lookup_elects:
  assumes "reachable lib i"
  shows "(\<exists>e. ready i = Some e \<and> Lookup i gvk = Some (Inl e))
    \<or> (\<exists>w source. ready i = None \<and> elected i gvk w source
         \<and> Lookup i gvk = Some (case de_err w of Some e \<Rightarrow> Inl e | None \<Rightarrow> Inr (selection (de_definition w) source)))"
proof (cases "ready i")
  case None
  with electLocked_total [OF reachable_inv [OF assms]] obtain w source where el: "electLocked i gvk = Some (w, source)"
    by fastforce
  have "Lookup i gvk = Some (case de_err w of Some e \<Rightarrow> Inl e | None \<Rightarrow> Inr (selection (de_definition w) source))"
    by (simp add: Lookup_def None el split: option.split)
  with electLocked_elected [OF el] None show ?thesis by blast
next
  case (Some e)
  then show ?thesis by (simp add: Lookup_def)
qed

theorem lookup_elects_witness:
  "\<exists>w source. elected inventory_loaded (RootKey Sandbox) w source
    \<and> Lookup inventory_loaded (RootKey Sandbox) = Some (case de_err w of Some e \<Rightarrow> Inl e | None \<Rightarrow> Inr (selection (de_definition w) source))"
  using lookup_elects [OF inventory_loaded_reachable, of "RootKey Sandbox"] inventory_loaded_ready by auto

section \<open>Listing the definitions\<close>

lemma electLocked_kind: "GroupKind_of gvk = GroupKind_of gvk' \<Longrightarrow> electLocked i gvk = electLocked i gvk'"
proof -
  assume eq: "GroupKind_of gvk = GroupKind_of gvk'"
  then have loop: "elect_loop gvk es w = elect_loop gvk' es w" for es w
    by (induction gvk es w rule: elect_loop.induct) (auto simp: eligible_def split: option.splits)
  show ?thesis unfolding electLocked_def loop eq by (rule refl)
qed

definition result_answer :: "SelectionResult \<Rightarrow> Selection xres" where
  "result_answer r = (case sr_Err r of Some e \<Rightarrow> Inl e | None \<Rightarrow> Inr (sr_Selection r))"

lemma Lookup_elected_result:
  assumes "ready i = None" "elected_result i (GroupKind_of gvk) = Some r"
  shows "Lookup i gvk = Some (result_answer r)"
proof -
  have "GroupKind_of gvk = GroupKind_of \<lparr>gvk_Group = fst (GroupKind_of gvk), gvk_Version = [], gvk_Kind = snd (GroupKind_of gvk)\<rparr>"
    by (simp add: GroupKind_of_def)
  from electLocked_kind [OF this] assms show ?thesis
    by (auto simp: elected_result_def Lookup_def result_answer_def split: option.splits prod.splits)
qed

lemma selected_kinds_None:
  assumes "inventory_inv i" "ready i = None" "GroupKind_of gvk \<notin> set (selected_kinds i)"
  shows "Lookup i gvk = Some (Inr empty_selection)"
proof -
  have clu: "\<forall>(name, e) \<in> set (iv_cluster i). GroupKind_of gvk \<notin> set (entry_kind e)"
    using assms(3) by (auto simp: selected_kinds_def)
  have "map_of (iv_catalog i) (GroupKind_of gvk) = None"
    using assms(3) by (auto simp: selected_kinds_def map_of_eq_None_iff)
  moreover have "\<not> eligible_entry gvk e" if "e \<in> snd ` set (iv_cluster i)" for e
    using that clu by (auto simp: eligible_entry_def eligible_def entry_kind_def Let_def split: option.splits)
  moreover obtain w source where el: "electLocked i gvk = Some (w, source)"
    using electLocked_total [OF assms(1,2)] by fastforce
  ultimately have "w = empty_entry"
    using electLocked_elected [OF el] by (auto simp: elected_def eligible_candidate GroupKind_of_def)
  with el assms(2) show ?thesis by (simp add: Lookup_def empty_entry_def selection_def)
qed

text \<open>In every reachable state that is ready, List does not panic and agrees with Lookup: it has one result per group
  and kind that is known, each result is what Lookup answers for its group and kind, and Lookup finds nothing for every other.
  The results are sorted by the text of their kinds, for every function that slices.SortFunc may be.\<close>

theorem list_lookup:
  assumes "reachable lib i" "ready i = None" "key_sorter sort_by"
  shows "\<exists>results. inventory_List sort_by str i = Some (Inr results)
    \<and> sorted (map (\<lambda>r. str (sel_GVK (sr_Selection r))) results) \<and> length results = length (selected_kinds i)
    \<and> (\<forall>gvk. if GroupKind_of gvk \<in> set (selected_kinds i)
         then \<exists>r \<in> set results. Lookup i gvk = Some (result_answer r) else Lookup i gvk = Some (Inr empty_selection))"
proof -
  note inv = reachable_inv [OF assms(1)]
  have "elected_result i gk \<noteq> None" for gk
    using electLocked_total [OF inv assms(2), of "\<lparr>gvk_Group = fst gk, gvk_Version = [], gvk_Kind = snd gk\<rparr>"]
    by (auto simp: elected_result_def)
  then obtain results where results: "all_some (map (elected_result i) (selected_kinds i)) = Some results"
    using all_some_total [of "map (elected_result i) (selected_kinds i)"] by auto
  let ?text = "\<lambda>r. str (sel_GVK (sr_Selection r))"
  have "\<not> (\<exists>(name, entry) \<in> set (iv_cluster i). de_definition entry = None)"
    using ready_decoded [OF inv assms(2)] by force
  then have "inventory_List sort_by str i = Some (Inr (sort_by ?text results))"
    using results assms(2) by (simp add: inventory_List_def)
  moreover have "length (sort_by ?text results) = length (selected_kinds i)"
    using key_sorter.sort_by_permutes [OF assms(3), THEN mset_eq_length] results
    by (metis all_some_Some length_map)
  moreover have "\<exists>r \<in> set results. Lookup i gvk = Some (result_answer r)" if "GroupKind_of gvk \<in> set (selected_kinds i)" for gvk
  proof -
    from that results have "elected_result i (GroupKind_of gvk) \<in> Some ` set results"
      unfolding all_some_Some by (metis image_eqI set_map)
    then show ?thesis using Lookup_elected_result [OF assms(2)] by auto
  qed
  ultimately show ?thesis
    using key_sorter.sort_by_sorts [OF assms(3)] key_sorter.set_sort_by [OF assms(3)] selected_kinds_None [OF inv assms(2)]
    by auto
qed

theorem list_lookup_witness:
  "\<exists>results. inventory_List sort_key gvk_Kind inventory_loaded = Some (Inr results) \<and> length results = 1"
proof -
  have "length (selected_kinds inventory_loaded) = 1" by code_simp
  with list_lookup [OF inventory_loaded_reachable inventory_loaded_ready ksort.key_sorter_axioms, of gvk_Kind] show ?thesis
    by auto
qed

section \<open>Failures during a list\<close>

text \<open>C13 A list that succeeds clears a recorded failure exactly when no failure was recorded since it began: a failure that
  comes between the start of the list and its end survives it, for every interleaving with fewer than 2^64 failures.\<close>

theorem stale_list:
  assumes "run lib n (beginList i) i'" "n < 2 ^ 64" "listed_cluster lib (iv_clusterFilter i') objs [] \<noteq> None"
  shows "iv_failure (snd (store_Replace lib now objs i')) = None \<longleftrightarrow> n = 0"
proof -
  from assms(3) obtain cluster where cluster: "listed_cluster lib (iv_clusterFilter i') objs [] = Some cluster" by blast
  have "iv_listedFrom (beginList i) = iv_failures (beginList i)" by (simp add: beginList_def)
  note C = run_counts [OF assms(1,2) this]
  show ?thesis
  proof (cases "n = 0")
    case True
    with C cluster show ?thesis by (simp add: store_Replace_def Let_def notify_def report_def)
  next
    case False
    have "(word_of_nat n :: 64 word) \<noteq> 0"
    proof
      assume "(word_of_nat n :: 64 word) = 0"
      then have "2 ^ 64 dvd n" by (simp add: word_of_nat_eq_0_iff)
      with False assms(2) show False by (auto dest: dvd_imp_le)
    qed
    with C cluster False show ?thesis by (auto simp: store_Replace_def Let_def notify_def report_def)
  qed
qed

theorem stale_list_witness:
  "run inventory_lib 1 (beginList inventory_loaded) (fail (Sentinel InventoryErrRelist) (beginList inventory_loaded))
   \<and> iv_failure (snd (store_Replace inventory_lib 9 [] (fail (Sentinel InventoryErrRelist) (beginList inventory_loaded)))) \<noteq> None"
proof -
  have r: "run inventory_lib 1 (beginList inventory_loaded) (fail (Sentinel InventoryErrRelist) (beginList inventory_loaded))"
    using run_fail [OF run_none [of inventory_lib "beginList inventory_loaded"]] by simp
  with stale_list [OF r, of "[]" 9] show ?thesis by simp
qed

section \<open>The attribution store\<close>

lemma last_uids:
  "last_pod cs uid = Some r \<Longrightarrow> pr_UID (pres_Record r) = uid"
  "last_workload cs uid = Some wr \<Longrightarrow> wrec_UID (wres_Record wr) = uid"
  "last_failure cs uid = Some f \<Longrightarrow> or_UID (df_Input f) = uid"
  by (induction cs) (auto split: store_call.splits if_splits)

lemma distinct_values:
  assumes "distinct (map fst m)" "\<And>k v. map_of m k = Some v \<Longrightarrow> f v = k"
  shows "distinct (map f (map snd m))"
proof -
  have "f (snd x) = fst x" if "x \<in> set m" for x
    using assms that by (cases x) simp
  then have eq: "map f (map snd m) = map fst m" by simp
  show ?thesis unfolding eq by (rule assms(1))
qed

text \<open>C39 After any history of calls of the store every lookup gives what the last call about its key left there, and a capture
  holds exactly the current results and failures, one per UID, and the current health of every source.\<close>

theorem store_latest:
  "store_Pod (history calls) = last_pod (rev calls) \<and> store_Workload (history calls) = last_workload (rev calls)
   \<and> set (cv_Pods (Capture (history calls))) = ran (last_pod (rev calls))
   \<and> distinct (map (pr_UID \<circ> pres_Record) (cv_Pods (Capture (history calls))))
   \<and> set (cv_Workloads (Capture (history calls))) = ran (last_workload (rev calls))
   \<and> distinct (map (wrec_UID \<circ> wres_Record) (cv_Workloads (Capture (history calls))))
   \<and> set (cv_Failures (Capture (history calls))) = ran (last_failure (rev calls))
   \<and> distinct (map (or_UID \<circ> df_Input) (cv_Failures (Capture (history calls))))
   \<and> map_of (cv_Sources (Capture (history calls))) = last_health (rev calls)"
proof -
  note H = history_maps [of calls]
  have "distinct (map (pr_UID \<circ> pres_Record) (map snd (st_pods (history calls))))"
    using H(1) last_uids(1) by (intro distinct_values) auto
  moreover have "distinct (map (wrec_UID \<circ> wres_Record) (map snd (st_workloads (history calls))))"
    using H(2) last_uids(2) by (intro distinct_values) auto
  moreover have "distinct (map (or_UID \<circ> df_Input) (map snd (st_failures (history calls))))"
    using H(4) last_uids(3) by (intro distinct_values) auto
  moreover have "set (map snd m) = ran g" if "distinct (map fst m) \<and> map_of m = g" for m :: "('k \<times> 'v) list" and g
    using that snd_ran by blast
  note H(1) [THEN this] H(2) [THEN this] H(4) [THEN this]
  ultimately show ?thesis
    using H by (simp add: Capture_def store_Pod_def store_Workload_def fun_eq_iff)
qed

text \<open>The validity rule of a captured view, for every history of the store: a recorded reason makes a value invalid for that
  reason, a source that was last seen as denied makes it invalid as permission_denied, a source that is missing, not synced or
  failing makes it invalid as api_unavailable, and otherwise it is valid. Permission errors win whatever the order of the sources.\<close>

theorem capture_valid:
  "Valid (Capture (history calls)) sources reason =
     (if reason \<noteq> [] \<and> reason \<noteq> ReasonNone then (False, reason)
      else if list_ex (\<lambda>key. case last_health (rev calls) key of Some h \<Rightarrow> sh_Error h = ReasonPermissionDenied | None \<Rightarrow> False) sources
      then (False, ReasonPermissionDenied)
      else if list_all (\<lambda>key. case last_health (rev calls) key of
          Some h \<Rightarrow> sh_Synced h \<and> sh_Error h \<in> {[], ReasonNone} | None \<Rightarrow> False) sources
      then (True, ReasonNone) else (False, ReasonAPIUnavailable))"
proof -
  have sources: "map_of (cv_Sources (Capture (history calls))) = last_health (rev calls)"
    using history_maps(3) [of calls] by (simp add: Capture_def)
  have "denied (Capture (history calls)) key \<longleftrightarrow>
      (case last_health (rev calls) key of Some h \<Rightarrow> sh_Error h = ReasonPermissionDenied | None \<Rightarrow> False)"
    "healthy (Capture (history calls)) key \<longleftrightarrow>
      (case last_health (rev calls) key of Some h \<Rightarrow> sh_Synced h \<and> sh_Error h \<in> {[], ReasonNone} | None \<Rightarrow> False)" for key
    by (auto simp: denied_def healthy_def sources split: option.splits)
  then show ?thesis
    unfolding Valid_def Valid_loop_spec by (simp add: list_ex_iff list_all_iff)
qed

section \<open>Label rules\<close>

text \<open>ValidateConfig accepts exactly the configurations whose rules have a label name that is not reserved, a
  non-blank expression, at least one source and one metric, known sources and metrics without repetition, and no rule that reads the Pod for
  the metric that describes a workload.\<close>

theorem validate_config:
  "ValidateConfig cfg = None \<longleftrightarrow> list_all rule_ok (lc_Rules cfg)"
  by (rule ValidateConfig_None)

text \<open>C16 For a resolver that New returned, and whatever the context does, Resolve fails with the error of the context or
  behaves as a reference that evaluates every rule afresh for every metric that it targets: on a valid input it gives one result per
  requested metric, in the order of the request, and an invalid input is an error. The cache of outcomes and the index of rules
  by metric change nothing.\<close>

theorem resolve_reference:
  assumes "resolver_New (Some cmpl) cfg = Inr r"
  shows "cancelled ctx (fst (Resolve ctx r input t)) \<or>
    (if valid_input cfg input
     then fst (Resolve ctx r input t) = Inr (map (metric_result cmpl cfg (source_objects input)) (li_Metrics input))
     else \<exists>e. fst (Resolve ctx r input t) = Inl e)"
  using assms by (rule Resolve_reference)

definition label_config :: LabelConfig where
  "label_config = \<lparr>lc_Rules = [\<lparr>lr_Name = ''team'', lr_Metrics = [MetricPodWorkloadInfo, MetricWorkloadStatus],
       lr_Sources = [SourceWorkload], lr_Expression = ''team''\<rparr>],
     lc_Limits = \<lparr>lim_CostLimit = 0, lim_MaxExpressionBytes = 0, lim_MaxResultBytes = 0\<rparr>\<rparr>"

definition label_compiler :: "string compiler" where
  "label_compiler expression limits = Inr (\<lambda>obj. case obj of None \<Rightarrow> Inl (XLibrary ''nil'') | Some s \<Rightarrow> Inr (expression @ s))"

definition label_input :: "string LabelInput" where
  "label_input = \<lparr>li_Metrics = [MetricWorkloadStatus, MetricPodWorkloadInfo], li_Workload = Some ''-x'', li_Pod = None\<rparr>"

theorem resolve_reference_witness:
  "\<exists>r. resolver_New (Some label_compiler) label_config = Inr r
    \<and> fst (Resolve (\<lambda>t. None) r label_input 0)
        = Inr (map (metric_result label_compiler label_config (source_objects label_input)) [MetricWorkloadStatus, MetricPodWorkloadInfo])"
proof -
  have "ValidateConfig label_config = None" by code_simp
  then obtain r where r: "resolver_New (Some label_compiler) label_config = Inr r"
    by (simp add: resolver_New_def label_config_def indexed_def label_compiler_def)
  have "valid_input label_config label_input"
    by (simp add: valid_input_def label_config_def label_input_def metric_names [symmetric] supportedMetrics_def)
  with resolve_reference [OF r, of "\<lambda>t. None" label_input 0] r show ?thesis
    by (simp add: cancelled_def label_input_def)
qed

end
