(* ===== verification/Controller_State.thy ===== *)
theory Controller_State
  imports Owner_Discovery Exporter_Store Definition_Inventory Structure_Summary
begin

text \<open>
  \<^verbatim>\<open>controller/state.go\<close>, with the cache of \<^verbatim>\<open>controller/reader.go\<close>: the state that the workers of the exporter share, and the
  operations on it. Every operation holds the lock stateMu, so each is one transition; helpers that run inside the lock of their
  callers are functions of the state. The results go to the store of \<^verbatim>\<open>Exporter_Store\<close>. A work queue is the set of the keys that it
  still has to hand out: adding a key that waits already changes nothing. Beside metadata and labels a Kubernetes object has a payload
  \<open>'d\<close>, or none when only its metadata are watched. Maps are association lists.
\<close>

section \<open>State\<close>

record 'd KubeObject =
  kb_GVK :: GroupVersionKind
  kb_Meta :: ObjectMeta
  kb_Labels :: "(string \<times> string) list"
  kb_Data :: "'d option"

record objectKey =
  ky_GVK :: GroupVersionKind
  ky_Namespace :: string
  ky_Name :: string

record 'd cachedObject =
  ce_object :: "'d KubeObject"
  ce_source :: SourceKey

record cacheSource =
  cs_gvk :: GroupVersionKind
  cs_hasFullObject :: bool
  cs_synced :: bool
  cs_err :: "xerr option"

record objectJobKey =
  jk_Object :: objectKey
  jk_UID :: UID
  jk_Rescan :: bool

record workloadJobKey =
  wk_RootUID :: UID
  wk_SelectedObject :: objectJobKey

text \<open>The summary is None where the code keeps a nil pointer.\<close>

record selectedDefinition =
  sd_Selection :: Selection
  sd_summary :: "StructureSummary option"
  sd_err :: "xerr option"
  sd_version :: "64 word"

record selectedObjectExclusion =
  ex_path :: "ObjectRef list"
  ex_root :: ObjectRef
  ex_selection :: selectedDefinition
  ex_rootSelection :: selectedDefinition

record selectedObjectOutcome =
  so_rootUID :: UID
  so_exclusion :: "selectedObjectExclusion option"

record rootState =
  rs_ref :: ObjectRef
  rs_pods :: "(UID \<times> objectJobKey) list"
  rs_selected :: "objectJobKey list"

record ResourceRule =
  rl_APIGroups :: "string list"
  rl_APIVersions :: "string list"
  rl_Resources :: "string list"

text \<open>The selectors of the configuration are applied through the library; here it counts whether the one on namespaces is set.\<close>

record ControllerConfig =
  cc_IgnoredOwnerKinds :: "GroupVersionKind list"
  cc_ResourceRules :: "ResourceRule list"
  cc_ExcludeResourceRules :: "ResourceRule list"
  cc_NamespaceSelector :: bool
  cc_ClusterDefinitions :: bool
  cc_RequiredKinds :: "GroupVersionKind list"

text \<open>A watch; \<open>rw_id\<close> stands for the pointer to it, which the code compares.\<close>

record resourceWatch =
  rw_id :: nat
  rw_key :: SourceKey
  rw_gvk :: GroupVersionKind
  rw_full :: bool
  rw_ready :: bool
  rw_err :: "xerr option"
  rw_objects :: "objectKey list"

record 'd Controller =
  ct_config :: ControllerConfig
  ct_objects :: "(objectKey \<times> 'd cachedObject) list"
  ct_sources :: "(SourceKey \<times> cacheSource) list"
  ct_podQueue :: "objectJobKey set"
  ct_workloadQueue :: "workloadJobKey set"
  ct_syncQueue :: bool
  ct_watches :: "(SourceKey \<times> resourceWatch) list"
  ct_replacements :: "(SourceKey \<times> resourceWatch) list"
  ct_watchFailures :: "(WatchRequest \<times> xerr) list"
  ct_scopes :: "string list"
  ct_roots :: "(UID \<times> rootState) list"
  ct_podRoots :: "(UID \<times> UID) list"
  ct_ancestorPods :: "UID list"
  ct_selectedObjectRoots :: "(objectJobKey \<times> selectedObjectOutcome) list"
  ct_selectedDefinitions :: "(GroupKind \<times> selectedDefinition) list"
  ct_definitionInventoryErr :: "xerr option"
  ct_definitionVersion :: "64 word"
  ct_publications :: Store
  ct_running :: bool
  ct_cancelled :: "nat set"
  ct_nextWatch :: nat

text \<open>
  ParseGroupVersion, GroupVersionKind.String, the compiled selectors on labels, reflect.DeepEqual on the specs of two Kartas, and the
  resource under which the API serves namespaces.
\<close>

record ctllib =
  cl_parse_gv :: parse_gv
  cl_gvk_String :: "GroupVersionKind \<Rightarrow> string"
  cl_namespaceSelector :: "(string \<times> string) list \<Rightarrow> bool"
  cl_objectSelector :: "(string \<times> string) list \<Rightarrow> bool"
  cl_podSelector :: "(string \<times> string) list \<Rightarrow> bool"
  cl_DeepEqual :: "KartaSpec \<Rightarrow> KartaSpec \<Rightarrow> bool"
  cl_namespaces :: GroupVersionResource

definition podGVK :: GroupVersionKind where
  "podGVK = \<lparr>gvk_Group = [], gvk_Version = ''v1'', gvk_Kind = ''Pod''\<rparr>"

definition kartaGVK :: GroupVersionKind where
  "kartaGVK = \<lparr>gvk_Group = ''run.ai'', gvk_Version = ''v1alpha1'', gvk_Kind = ''Karta''\<rparr>"

definition namespaceGVK :: GroupVersionKind where
  "namespaceGVK = \<lparr>gvk_Group = [], gvk_Version = ''v1'', gvk_Kind = ''Namespace''\<rparr>"

definition definitionSource :: SourceKey where
  "definitionSource = \<lparr>sk_Resource = \<lparr>gvr_Group = ''run.ai'', gvr_Version = ''v1alpha1'', gvr_Resource = ''kartas''\<rparr>, sk_Namespace = []\<rparr>"

section \<open>References and keys\<close>

definition kb_UID :: "'d KubeObject \<Rightarrow> UID" where
  "kb_UID object = om_UID (kb_Meta object)"

definition kb_Namespace :: "'d KubeObject \<Rightarrow> string" where
  "kb_Namespace object = om_Namespace (kb_Meta object)"

definition kb_Name :: "'d KubeObject \<Rightarrow> string" where
  "kb_Name object = om_Name (kb_Meta object)"

definition keyOf :: "ObjectRef \<Rightarrow> objectKey" where
  "keyOf ref = \<lparr>ky_GVK = or_GVK ref, ky_Namespace = or_Namespace ref, ky_Name = or_Name ref\<rparr>"

definition refOf :: "'d KubeObject \<Rightarrow> ObjectRef" where
  "refOf object = \<lparr>or_GVK = kb_GVK object, or_Namespace = kb_Namespace object, or_Name = kb_Name object, or_UID = kb_UID object,
     or_ResourceVersion = om_ResourceVersion (kb_Meta object)\<rparr>"

definition objectJobFor :: "ObjectRef \<Rightarrow> objectJobKey" where
  "objectJobFor ref = \<lparr>jk_Object = keyOf ref, jk_UID = or_UID ref, jk_Rescan = False\<rparr>"

definition jk_ref :: "objectJobKey \<Rightarrow> ObjectRef" where
  "jk_ref key = \<lparr>or_GVK = ky_GVK (jk_Object key), or_Namespace = ky_Namespace (jk_Object key), or_Name = ky_Name (jk_Object key),
     or_UID = jk_UID key, or_ResourceVersion = []\<rparr>"

text \<open>The zero values of the two kinds of jobs, and the three jobs that the code makes.\<close>

definition zero_job :: objectJobKey where
  "zero_job = \<lparr>jk_Object = \<lparr>ky_GVK = zero_GroupVersionKind, ky_Namespace = [], ky_Name = []\<rparr>, jk_UID = [], jk_Rescan = False\<rparr>"

definition root_job :: "UID \<Rightarrow> workloadJobKey" where
  "root_job uid = \<lparr>wk_RootUID = uid, wk_SelectedObject = zero_job\<rparr>"

definition selected_job :: "objectJobKey \<Rightarrow> workloadJobKey" where
  "selected_job key = \<lparr>wk_RootUID = [], wk_SelectedObject = key\<rparr>"

definition rescan_job :: "string \<Rightarrow> objectJobKey" where
  "rescan_job namespace = zero_job\<lparr>jk_Object := (jk_Object zero_job)\<lparr>ky_Namespace := namespace\<rparr>, jk_Rescan := True\<rparr>"

definition add_pods :: "objectJobKey list \<Rightarrow> 'd Controller \<Rightarrow> 'd Controller" where
  "add_pods ks c = c\<lparr>ct_podQueue := ct_podQueue c \<union> set ks\<rparr>"

definition add_jobs :: "workloadJobKey list \<Rightarrow> 'd Controller \<Rightarrow> 'd Controller" where
  "add_jobs ks c = c\<lparr>ct_workloadQueue := ct_workloadQueue c \<union> set ks\<rparr>"

definition publish :: "(Store \<Rightarrow> Store) \<Rightarrow> 'd Controller \<Rightarrow> 'd Controller" where
  "publish f c = c\<lparr>ct_publications := f (ct_publications c)\<rparr>"

definition failureReason :: "xerr option \<Rightarrow> string" where
  "failureReason err =
     (case err of
        None \<Rightarrow> []
      | Some e \<Rightarrow>
          if IsForbidden e \<or> IsUnauthorized e \<or> errors_Is e DiscoveryErrPermissionDenied \<or> errors_Is e InventoryErrPermissionDenied
          then ReasonPermissionDenied
          else if errors_Is e DiscoveryErrUnresolvedOwner \<or> IsNotFound e then ReasonUnresolvedOwner
          else if errors_Is e DiscoveryErrInvalidDefinition \<or> errors_Is e InventoryErrInvalidDefinition then ReasonInvalidDefinition
          else if errors_Is e DiscoveryErrEvaluation then ReasonEvaluationFailed
          else ReasonAPIUnavailable)"

section \<open>Reading the cache\<close>

text \<open>
  The zero value of a missing map entry. The source key that the code returns beside an error is used by no caller and left out.
\<close>

definition zero_source :: cacheSource where
  "zero_source = \<lparr>cs_gvk = zero_GroupVersionKind, cs_hasFullObject = False, cs_synced = False, cs_err = None\<rparr>"

definition zero_selected :: selectedDefinition where
  "zero_selected = \<lparr>sd_Selection = empty_selection, sd_summary = None, sd_err = None, sd_version = 0\<rparr>"

definition selected_of :: "'d Controller \<Rightarrow> GroupVersionKind \<Rightarrow> selectedDefinition" where
  "selected_of c gvk = (case map_of (ct_selectedDefinitions c) (GroupKind_of gvk) of None \<Rightarrow> zero_selected | Some s \<Rightarrow> s)"

definition source_of :: "'d Controller \<Rightarrow> SourceKey \<Rightarrow> cacheSource" where
  "source_of c key = (case map_of (ct_sources c) key of None \<Rightarrow> zero_source | Some s \<Rightarrow> s)"

definition cached_entry :: "'d Controller \<Rightarrow> ObjectRef \<Rightarrow> 'd cachedObject option" where
  "cached_entry c ref =
     (case map_of (ct_objects c) (keyOf ref) of
        Some e \<Rightarrow> Some e
      | None \<Rightarrow> if or_Namespace ref \<noteq> [] then map_of (ct_objects c) (keyOf (ref\<lparr>or_Namespace := []\<rparr>)) else None)"

definition source_for :: "'d Controller \<Rightarrow> ObjectRef \<Rightarrow> SourceKey option" where
  "source_for c ref =
     map_option fst (find (\<lambda>(key, source). cs_gvk source = or_GVK ref \<and> (sk_Namespace key = [] \<or> sk_Namespace key = or_Namespace ref))
       (ct_sources c))"

definition not_found :: "ObjectRef \<Rightarrow> xerr" where
  "not_found ref = ApiError NotFound (or_Name ref)"

definition lookupObject :: "'d Controller \<Rightarrow> ObjectRef \<Rightarrow> bool \<Rightarrow> ('d KubeObject \<times> SourceKey) xres" where
  "lookupObject c ref requireFullObject =
     (case (case cached_entry c ref of Some e \<Rightarrow> Some (ce_source e) | None \<Rightarrow> source_for c ref) of
        None \<Rightarrow> Inl (Sentinel DiscoveryErrPending)
      | Some sourceKey \<Rightarrow>
          let source = source_of c sourceKey
          in case cs_err source of
               Some e \<Rightarrow> Inl e
             | None \<Rightarrow>
                 if \<not> cs_synced source \<or> (requireFullObject \<and> \<not> cs_hasFullObject source) then Inl (Sentinel DiscoveryErrPending)
                 else case cached_entry c ref of
                   None \<Rightarrow> Inl (not_found ref)
                 | Some e \<Rightarrow>
                     if or_UID ref \<noteq> [] \<and> kb_UID (ce_object e) \<noteq> or_UID ref then Inl (not_found ref)
                     else if or_ResourceVersion ref \<noteq> [] \<and> om_ResourceVersion (kb_Meta (ce_object e)) \<noteq> or_ResourceVersion ref
                     then Inl (Sentinel DiscoveryErrStale)
                     else Inr (ce_object e, sourceKey))"

definition lookup_ok :: "'d Controller \<Rightarrow> ObjectRef \<Rightarrow> bool" where
  "lookup_ok c ref \<longleftrightarrow> (case lookupObject c ref False of Inl e \<Rightarrow> False | Inr x \<Rightarrow> True)"

definition isPathCurrent :: "'d Controller \<Rightarrow> ObjectRef list \<Rightarrow> bool" where
  "isPathCurrent c path \<longleftrightarrow> list_all (lookup_ok c) path"

definition isDefinitionCurrent :: "'d Controller \<Rightarrow> ObjectRef \<Rightarrow> selectedDefinition \<Rightarrow> bool" where
  "isDefinitionCurrent c ref sel \<longleftrightarrow>
     ct_definitionVersion c = sd_version sel
     \<and> (let current = sd_Selection (selected_of c (or_GVK ref))
        in sel_GVK current = sel_GVK (sd_Selection sel) \<and> sel_Origin current = sel_Origin (sd_Selection sel))"

text \<open>Whether the controller of an object lets it be a root: it has none, or one of an ignored kind.\<close>

definition top_owner :: "ctllib \<Rightarrow> 'd Controller \<Rightarrow> 'd KubeObject \<Rightarrow> bool" where
  "top_owner lib c object \<longleftrightarrow>
     (case ControllerOwner (cl_parse_gv lib) (kb_Meta object) of
        None \<Rightarrow> False
      | Some owner \<Rightarrow> or_UID owner = [] \<or> or_GVK owner \<in> set (cc_IgnoredOwnerKinds (ct_config c)))"

definition gvk_entry :: "'d Controller \<Rightarrow> GroupVersionKind \<Rightarrow> ObjectRef \<Rightarrow> 'd cachedObject option" where
  "gvk_entry c gvk ref = map_of (ct_objects c) (keyOf (ref\<lparr>or_GVK := gvk\<rparr>))"

text \<open>The entry of the selected version of a kind, when its source can be trusted.\<close>

definition trusted_entry :: "'d Controller \<Rightarrow> ObjectRef \<Rightarrow> 'd cachedObject option" where
  "trusted_entry c ref =
     (let selected = selected_of c (or_GVK ref)
      in if sel_Definition (sd_Selection selected) = None \<or> sd_err selected \<noteq> None then None
         else case gvk_entry c (sel_GVK (sd_Selection selected)) ref of
           None \<Rightarrow> None
         | Some e \<Rightarrow>
             let source = source_of c (ce_source e)
             in if kb_UID (ce_object e) = or_UID ref \<and> cs_hasFullObject source \<and> cs_synced source \<and> cs_err source = None then Some e
                else None)"

definition hasRootOwnership :: "ctllib \<Rightarrow> 'd Controller \<Rightarrow> ObjectRef \<Rightarrow> bool" where
  "hasRootOwnership lib c ref \<longleftrightarrow>
     (case trusted_entry c ref of
        Some e \<Rightarrow> top_owner lib c (ce_object e)
      | None \<Rightarrow>
          list_all (\<lambda>(sourceKey, source).
            if \<not> cs_synced source \<or> cs_err source \<noteq> None \<or> GroupKind_of (cs_gvk source) \<noteq> GroupKind_of (or_GVK ref) then True
            else case gvk_entry c (cs_gvk source) ref of
              None \<Rightarrow> True
            | Some e \<Rightarrow> ce_source e \<noteq> sourceKey \<or> kb_UID (ce_object e) \<noteq> or_UID ref \<or> top_owner lib c (ce_object e))
          (ct_sources c))"

end
