(* ===== verification/Controller_Membership.thy ===== *)
theory Controller_Membership
  imports Controller_State
begin

text \<open>
  The operations of \<^verbatim>\<open>controller/state.go\<close>: which Pods and which watched objects belong to which root, and the checked publication
  of their results. An operation that fails returns its error; the errors of discovery are those of \<^verbatim>\<open>Exporter_Prelude\<close>. The second
  half shows what every operation keeps: both directions of the membership relations agree, and a published workload has a root.
\<close>

section \<open>Zero values\<close>

definition zero_PodRecord :: PodRecord where
  "zero_PodRecord = \<lparr>pr_Workload = no_ref, pr_Karta = [], pr_KartaSource = [], pr_Namespace = [], pr_UID = [], pr_Name = [],
     pr_Component = [], pr_Instance = [], pr_Group = [], pr_OwnerResolution = None, pr_Labels = Map.empty\<rparr>"

definition zero_WorkloadRecord :: WorkloadRecord where
  "zero_WorkloadRecord = \<lparr>wrec_UID = [], wrec_Ref = no_ref, wrec_Karta = [], wrec_KartaSource = [], wrec_OwnerResolution = None,
     wrec_HasStatus = False, wrec_Phases = [], wrec_CreatedTimestamp = 0, wrec_StatusLabels = Map.empty\<rparr>"

definition zero_outcome :: selectedObjectOutcome where
  "zero_outcome = \<lparr>so_rootUID = [], so_exclusion = None\<rparr>"

definition root_uid_of_pod :: "'d Controller \<Rightarrow> UID \<Rightarrow> UID" where
  "root_uid_of_pod c uid = (case map_of (ct_podRoots c) uid of None \<Rightarrow> [] | Some u \<Rightarrow> u)"

definition outcome_of :: "'d Controller \<Rightarrow> objectJobKey \<Rightarrow> selectedObjectOutcome" where
  "outcome_of c key = (case map_of (ct_selectedObjectRoots c) key of None \<Rightarrow> zero_outcome | Some oc \<Rightarrow> oc)"

text \<open>A root is a pointer in the map of roots: a change of it is a change of its entry.\<close>

definition update_root :: "UID \<Rightarrow> (rootState \<Rightarrow> rootState) \<Rightarrow> 'd Controller \<Rightarrow> 'd Controller" where
  "update_root uid f c = (case map_of (ct_roots c) uid of
       None \<Rightarrow> c
     | Some rt \<Rightarrow> c\<lparr>ct_roots := AList.update uid (f rt) (ct_roots c)\<rparr>)"

definition drop_pod :: "UID \<Rightarrow> rootState \<Rightarrow> rootState" where
  "drop_pod uid rt = rt\<lparr>rs_pods := AList.delete uid (rs_pods rt)\<rparr>"

definition put_pod :: "objectJobKey \<Rightarrow> rootState \<Rightarrow> rootState" where
  "put_pod key rt = rt\<lparr>rs_pods := AList.update (jk_UID key) key (rs_pods rt)\<rparr>"

definition drop_selected :: "objectJobKey \<Rightarrow> rootState \<Rightarrow> rootState" where
  "drop_selected key rt = rt\<lparr>rs_selected := removeAll key (rs_selected rt)\<rparr>"

definition put_selected :: "objectJobKey \<Rightarrow> rootState \<Rightarrow> rootState" where
  "put_selected key rt = rt\<lparr>rs_selected := List.insert key (rs_selected rt)\<rparr>"

section \<open>Definitions and scopes\<close>

definition lookupDefinition :: "'d Controller \<Rightarrow> GroupVersionKind \<Rightarrow> selectedDefinition \<times> xerr option" where
  "lookupDefinition c gvk =
     (let selected = (selected_of c gvk)\<lparr>sd_version := ct_definitionVersion c\<rparr>
      in (selected, case ct_definitionInventoryErr c of Some e \<Rightarrow> Some e | None \<Rightarrow> sd_err selected))"

definition isNamespaceInScope :: "'d Controller \<Rightarrow> string \<Rightarrow> bool" where
  "isNamespaceInScope c namespace \<longleftrightarrow>
     \<not> cc_NamespaceSelector (ct_config c) \<or> namespace = [] \<or> namespace \<in> set (ct_scopes c)"

definition namespaceAdmitted :: "'d Controller \<Rightarrow> string \<Rightarrow> bool" where
  "namespaceAdmitted = isNamespaceInScope"

definition hasSelectedDefinition :: "'d Controller \<Rightarrow> GroupVersionKind \<Rightarrow> bool" where
  "hasSelectedDefinition c gvk \<longleftrightarrow>
     (let s = sd_Selection (selected_of c gvk) in sel_Definition s \<noteq> None \<and> sel_GVK s = gvk)"

definition shouldDiscoverObject :: "'d Controller \<Rightarrow> GroupVersionKind \<Rightarrow> bool" where
  "shouldDiscoverObject c gvk \<longleftrightarrow>
     gvk \<noteq> namespaceGVK \<and> gvk \<noteq> kartaGVK \<and> (gvk \<noteq> podGVK \<or> hasSelectedDefinition c gvk)"

definition watchFailed :: "'d Controller \<Rightarrow> ObjectRef \<Rightarrow> bool" where
  "watchFailed c ref \<longleftrightarrow> map_of (ct_watchFailures c) \<lparr>wr_GVK = or_GVK ref, wr_Namespace = or_Namespace ref\<rparr> \<noteq> None"

definition isRoot :: "ctllib \<Rightarrow> 'd Controller \<Rightarrow> ObjectRef \<Rightarrow> bool" where
  "isRoot = hasRootOwnership"

definition snapshotRoot :: "'d Controller \<Rightarrow> UID \<Rightarrow> ObjectRef option" where
  "snapshotRoot c uid = map_option rs_ref (map_of (ct_roots c) uid)"

section \<open>Queuing\<close>

definition enqueueMembers :: "rootState \<Rightarrow> 'd Controller \<Rightarrow> 'd Controller" where
  "enqueueMembers rt c = add_jobs (map selected_job (rs_selected rt)) (add_pods (map snd (rs_pods rt)) c)"

definition enqueueRootAndMembers :: "UID \<Rightarrow> 'd Controller \<Rightarrow> 'd Controller" where
  "enqueueRootAndMembers uid c = (case map_of (ct_roots c) uid of
       None \<Rightarrow> c
     | Some rt \<Rightarrow> enqueueMembers rt (add_jobs [root_job uid] c))"

definition enqueueScopeRefresh :: "string \<Rightarrow> 'd Controller \<Rightarrow> 'd Controller" where
  "enqueueScopeRefresh namespace = add_pods [rescan_job namespace]"

text \<open>None is a nil object.\<close>

definition enqueuePod :: "ctllib \<Rightarrow> 'd KubeObject option \<Rightarrow> 'd Controller \<Rightarrow> 'd Controller" where
  "enqueuePod lib obj c =
     (case obj of
        None \<Rightarrow> c
      | Some object \<Rightarrow>
          if kb_GVK object \<noteq> podGVK then c
          else if cl_podSelector lib (kb_Labels object) \<or> map_of (ct_podRoots c) (kb_UID object) \<noteq> None
               \<or> store_Pod (ct_publications c) (kb_UID object) \<noteq> None
          then add_pods [objectJobFor (refOf object)] c
          else c)"

definition enqueueObject :: "ctllib \<Rightarrow> 'd KubeObject \<Rightarrow> 'd Controller \<Rightarrow> 'd Controller" where
  "enqueueObject lib object c =
     (let c1 = enqueuePod lib (Some object) c
      in if shouldDiscoverObject c1 (kb_GVK object) then add_jobs [selected_job (objectJobFor (refOf object))] c1 else c1)"

definition requeueScope :: "ctllib \<Rightarrow> string \<Rightarrow> 'd Controller \<Rightarrow> 'd Controller" where
  "requeueScope lib namespace c =
     (let objects = filter (\<lambda>object. namespace = [] \<or> kb_Namespace object = namespace) (map (ce_object \<circ> snd) (ct_objects c));
          tracked = filter (\<lambda>key. namespace = [] \<or> ky_Namespace (jk_Object key) = namespace) (map fst (ct_selectedObjectRoots c))
      in add_jobs (map selected_job tracked) (fold (enqueueObject lib) objects c))"

section \<open>Roots\<close>

definition removeRoot :: "UID \<Rightarrow> 'd Controller \<Rightarrow> 'd Controller" where
  "removeRoot uid c =
     (let c1 = (case map_of (ct_roots c) uid of
            None \<Rightarrow> c
          | Some rt \<Rightarrow>
              (enqueueMembers rt c)
                \<lparr>ct_podRoots := fold AList.delete (map fst (rs_pods rt)) (ct_podRoots c),
                 ct_selectedObjectRoots := fold (\<lambda>key. AList.update key zero_outcome) (rs_selected rt) (ct_selectedObjectRoots c)\<rparr>)
      in publish (RemoveWorkload uid) (c1\<lparr>ct_roots := AList.delete uid (ct_roots c1)\<rparr>))"

definition withdrawWorkload :: "UID \<Rightarrow> 'd Controller \<Rightarrow> 'd Controller" where
  "withdrawWorkload = removeRoot"

text \<open>
  The reference that a root keeps: it follows the selected version of its kind; without a definition a root of another version is
  replaced when it cannot be read any more, and then evaluated again (the second component).
\<close>

definition refreshed_ref :: "'d Controller \<Rightarrow> ObjectRef \<Rightarrow> ObjectRef \<Rightarrow> ObjectRef \<times> bool" where
  "refreshed_ref c rt ref =
     (let s = sd_Selection (selected_of c (or_GVK rt))
      in if sel_Definition s \<noteq> None then (ref\<lparr>or_GVK := sel_GVK s\<rparr>, False)
         else if or_GVK ref \<noteq> or_GVK rt \<and> \<not> lookup_ok c (ref\<lparr>or_ResourceVersion := []\<rparr>) then (rt, True)
         else (ref, False))"

text \<open>None is the panic of slicing an empty path.\<close>

definition ensureRoot :: "GenericWorkload \<Rightarrow> 'd Controller \<Rightarrow> (ObjectRef \<times> 'd Controller) option" where
  "ensureRoot workload c =
     (case gw_Path workload of
        [] \<Rightarrow> None
      | requested # ancestors \<Rightarrow>
          let rt = gw_Root workload;
              pods = map or_UID (filter (\<lambda>ref. or_GVK ref = podGVK) ancestors);
              state = (case map_of (ct_roots c) (or_UID rt) of Some st \<Rightarrow> st | None \<Rightarrow> \<lparr>rs_ref = rt, rs_pods = [], rs_selected = []\<rparr>);
              (ref, again) = refreshed_ref c rt (rs_ref state);
              c1 = c\<lparr>ct_ancestorPods := fold List.insert pods (ct_ancestorPods c),
                     ct_roots := AList.update (or_UID rt) (state\<lparr>rs_ref := ref\<rparr>) (ct_roots c)\<rparr>
          in Some (ref, if again then add_jobs [root_job (or_UID rt)] c1 else c1))"

section \<open>Membership of Pods\<close>

definition unregisterPod :: "objectJobKey \<Rightarrow> 'd Controller \<Rightarrow> 'd Controller" where
  "unregisterPod key c =
     (let uid = root_uid_of_pod c (jk_UID key);
          c1 = (case map_of (ct_roots c) uid of
             None \<Rightarrow> c
           | Some rt \<Rightarrow> add_jobs [root_job (or_UID (rs_ref rt))] (update_root uid (drop_pod (jk_UID key)) c))
      in publish (RemovePod (jk_UID key)) (c1\<lparr>ct_podRoots := AList.delete (jk_UID key) (ct_podRoots c1)\<rparr>))"

definition registerPodRoot ::
  "ctllib \<Rightarrow> objectJobKey \<Rightarrow> GenericWorkload \<Rightarrow> 'd Controller \<Rightarrow> (xerr option \<times> 'd Controller) option" where
  "registerPodRoot lib key workload c =
     (if \<not> isNamespaceInScope c (ky_Namespace (jk_Object key)) \<or> \<not> isNamespaceInScope c (or_Namespace (gw_Root workload))
         \<or> \<not> isPathCurrent c (gw_Path workload)
      then Some (Some (Sentinel DiscoveryErrStale), c)
      else if \<not> hasRootOwnership lib c (gw_Root workload) then Some (Some (Sentinel DiscoveryErrUnresolvedOwner), c)
      else
        let previous = root_uid_of_pod c (jk_UID key)
        in case ensureRoot workload c of
             None \<Rightarrow> None
           | Some (ref, c1) \<Rightarrow>
               if previous = or_UID ref then Some (None, c1)
               else
                 let c2 = (if map_of (ct_roots c1) previous = None then c1
                        else add_jobs [root_job previous] (update_root previous (drop_pod (jk_UID key)) c1));
                     c3 = c2\<lparr>ct_podRoots := AList.update (jk_UID key) (or_UID ref) (ct_podRoots c2)\<rparr>
                 in Some (None, add_jobs [root_job (or_UID ref)] (update_root (or_UID (gw_Root workload)) (put_pod key) c3)))"

section \<open>Membership of watched objects\<close>

definition trackSelectedObject :: "objectJobKey \<Rightarrow> 'd Controller \<Rightarrow> 'd Controller" where
  "trackSelectedObject key c =
     c\<lparr>ct_selectedObjectRoots := AList.update key ((outcome_of c key)\<lparr>so_exclusion := None\<rparr>) (ct_selectedObjectRoots c)\<rparr>"

definition removeSelectedObjectMembership :: "objectJobKey \<Rightarrow> 'd Controller \<Rightarrow> 'd Controller" where
  "removeSelectedObjectMembership key c =
     (let uid = so_rootUID (outcome_of c key);
          c1 = (case map_of (ct_roots c) uid of
             None \<Rightarrow> c
           | Some rt \<Rightarrow> add_jobs [root_job (or_UID (rs_ref rt))] (update_root uid (drop_selected key) c))
      in publish (RemoveDiscoveryFailure (jk_UID key))
           (c1\<lparr>ct_selectedObjectRoots := AList.delete key (ct_selectedObjectRoots c1)\<rparr>))"

definition unregisterSelectedObject :: "objectJobKey \<Rightarrow> 'd Controller \<Rightarrow> 'd Controller" where
  "unregisterSelectedObject = removeSelectedObjectMembership"

text \<open>Whether the outcome of the replacing object still holds: it has a root, or an exclusion whose inputs are current.\<close>

definition replacement_error :: "'d Controller \<Rightarrow> objectJobKey \<Rightarrow> xerr option" where
  "replacement_error c replacement =
     (let oc = outcome_of c replacement
      in if so_rootUID oc \<noteq> [] then None
         else case so_exclusion oc of
           None \<Rightarrow> Some (Sentinel DiscoveryErrPending)
         | Some ex \<Rightarrow>
             if \<not> isPathCurrent c (ex_path ex) \<or> \<not> isDefinitionCurrent c (jk_ref replacement) (ex_selection ex)
                \<or> \<not> isDefinitionCurrent c (ex_root ex) (ex_rootSelection ex)
             then Some (Sentinel DiscoveryErrStale) else None)"

definition replaceSelectedObjectTracking ::
  "objectJobKey \<Rightarrow> 'd KubeObject option \<Rightarrow> selectedDefinition \<Rightarrow> 'd Controller \<Rightarrow> xerr option \<times> 'd Controller" where
  "replaceSelectedObjectTracking key obj sel c =
     (if \<not> isDefinitionCurrent c (jk_ref key) sel then (Some (Sentinel DiscoveryErrStale), c)
      else case obj of
        None \<Rightarrow> (None, removeSelectedObjectMembership key c)
      | Some object \<Rightarrow>
          let replacement = objectJobFor (refOf object);
              c1 = add_jobs [selected_job replacement] c
          in case replacement_error c1 replacement of
               Some e \<Rightarrow> (Some e, c1)
             | None \<Rightarrow> (None, removeSelectedObjectMembership key c1))"

definition registerSelectedObjectRoot ::
  "objectJobKey \<Rightarrow> GenericWorkload \<Rightarrow> selectedDefinition \<Rightarrow> selectedDefinition \<Rightarrow> 'd Controller
     \<Rightarrow> (xerr option \<times> 'd Controller) option" where
  "registerSelectedObjectRoot key workload sel rootSel c =
     (if \<not> isNamespaceInScope c (ky_Namespace (jk_Object key)) \<or> \<not> isNamespaceInScope c (or_Namespace (gw_Root workload))
      then Some (Some (Sentinel DiscoveryErrStale), c)
      else if \<not> isPathCurrent c (gw_Path workload) \<or> \<not> isDefinitionCurrent c (jk_ref key) sel
         \<or> \<not> isDefinitionCurrent c (gw_Root workload) rootSel
      then Some (Some (Sentinel DiscoveryErrStale), c)
      else
        let previous = so_rootUID (outcome_of c key)
        in case ensureRoot workload c of
             None \<Rightarrow> None
           | Some (ref, c1) \<Rightarrow>
               let c2 = (if previous = or_UID ref \<or> map_of (ct_roots c1) previous = None then c1
                      else add_jobs [root_job previous] (update_root previous (drop_selected key) c1));
                   c3 = c2\<lparr>ct_selectedObjectRoots :=
                          AList.update key \<lparr>so_rootUID = or_UID ref, so_exclusion = None\<rparr> (ct_selectedObjectRoots c2)\<rparr>
               in Some (None, publish (RemoveDiscoveryFailure (jk_UID key))
                     (add_jobs [root_job (or_UID ref)] (update_root (or_UID (gw_Root workload)) (put_selected key) c3))))"

definition excludeSelectedObject ::
  "objectJobKey \<Rightarrow> GenericWorkload \<Rightarrow> selectedDefinition \<Rightarrow> selectedDefinition \<Rightarrow> 'd Controller \<Rightarrow> xerr option \<times> 'd Controller" where
  "excludeSelectedObject key workload sel rootSel c =
     (if \<not> isPathCurrent c (gw_Path workload) \<or> \<not> isDefinitionCurrent c (jk_ref key) sel
         \<or> \<not> isDefinitionCurrent c (gw_Root workload) rootSel
      then (Some (Sentinel DiscoveryErrStale), c)
      else
        let c1 = removeSelectedObjectMembership key c;
            ex = \<lparr>ex_path = gw_Path workload, ex_root = gw_Root workload, ex_selection = sel, ex_rootSelection = rootSel\<rparr>
        in (None, c1\<lparr>ct_selectedObjectRoots :=
              AList.update key \<lparr>so_rootUID = [], so_exclusion = Some ex\<rparr> (ct_selectedObjectRoots c1)\<rparr>))"

section \<open>Sources and failures\<close>

definition appendSources :: "SourceKey list \<Rightarrow> SourceKey list \<Rightarrow> SourceKey list" where
  "appendSources sources additional = fold (\<lambda>key result. if key \<in> set result then result else result @ [key]) additional sources"

text \<open>It takes a lock of its own, before the operation that uses the sources.\<close>

definition sourcesFor :: "'d Controller \<Rightarrow> ObjectRef list \<Rightarrow> SourceKey list" where
  "sourcesFor c path =
     (let cached = appendSources [] (List.map_filter (\<lambda>ref. map_option ce_source (map_of (ct_objects c) (keyOf ref))) path);
          namespaces = map fst (filter (\<lambda>(key, source). cs_gvk source = namespaceGVK \<and> cc_NamespaceSelector (ct_config c)) (ct_sources c));
          sources = appendSources cached namespaces
      in if cc_ClusterDefinitions (ct_config c) then sources @ [definitionSource] else sources)"

text \<open>The last argument is the optional root.\<close>

definition publishPodFailure ::
  "objectJobKey \<Rightarrow> SourceKey list \<Rightarrow> xerr \<Rightarrow> ObjectRef option \<Rightarrow> 'd Controller \<Rightarrow> xerr option \<times> 'd Controller" where
  "publishPodFailure key sources cause rt c =
     (if errors_Is cause ContextCanceled then (Some cause, c)
      else
        let fresh = \<lparr>pres_Record = zero_PodRecord\<lparr>pr_UID := jk_UID key, pr_Workload := (case rt of None \<Rightarrow> no_ref | Some ref \<Rightarrow> ref)\<rparr>,
               pres_Input = jk_ref key, pres_HasValue = False, pres_Error = [], pres_Sources = []\<rparr>;
            (next, used) = (case store_Pod (ct_publications c) (jk_UID key) of
               None \<Rightarrow> (fresh, sources)
             | Some previous \<Rightarrow>
                 (if pres_HasValue previous \<or> rt = None then previous else fresh, appendSources (pres_Sources previous) sources));
            c1 = publish (UpsertPod (next\<lparr>pres_Error := failureReason (Some cause), pres_Sources := used\<rparr>)) c
        in (if errors_Is cause DiscoveryErrEvaluation \<or> errors_Is cause InventoryErrInvalidDefinition
               \<or> errors_Is cause DiscoveryErrInvalidDefinition then None else Some cause, c1))"

definition failPod ::
  "'d Controller \<Rightarrow> objectJobKey \<Rightarrow> ObjectRef list \<Rightarrow> xerr \<Rightarrow> ObjectRef option \<Rightarrow> 'd Controller \<Rightarrow> xerr option \<times> 'd Controller" where
  "failPod c0 key path cause rt c = publishPodFailure key (sourcesFor c0 path) cause rt c"

definition failPodEvaluation ::
  "ctllib \<Rightarrow> 'd Controller \<Rightarrow> objectJobKey \<Rightarrow> ObjectRef list \<Rightarrow> xerr \<Rightarrow> ObjectRef \<Rightarrow> selectedDefinition \<Rightarrow> 'd Controller
     \<Rightarrow> xerr option \<times> 'd Controller" where
  "failPodEvaluation lib c0 key path cause rt sel c =
     (if \<not> isDefinitionCurrent c rt sel \<or> \<not> isPathCurrent c path then (Some (Sentinel DiscoveryErrStale), c)
      else if \<not> lookup_ok c rt \<or> \<not> hasRootOwnership lib c rt then (Some (Sentinel DiscoveryErrStale), c)
      else publishPodFailure key (sourcesFor c0 path) cause (Some rt) c)"

definition failSelectedObjectDiscovery :: "objectJobKey \<Rightarrow> xerr \<Rightarrow> 'd Controller \<Rightarrow> 'd Controller" where
  "failSelectedObjectDiscovery key e c = publish (SetDiscoveryFailure (jk_ref key) (failureReason (Some e))) c"

definition failWorkload ::
  "'d Controller \<Rightarrow> UID \<Rightarrow> ObjectRef \<Rightarrow> xerr \<Rightarrow> 'd Controller \<Rightarrow> xerr option \<times> 'd Controller" where
  "failWorkload c0 uid ref cause c =
     (if errors_Is cause ContextCanceled then (Some cause, c)
      else if map_of (ct_roots c) uid = None then (None, c)
      else
        let sources = sourcesFor c0 [ref];
            next = (case store_Workload (ct_publications c) uid of
               None \<Rightarrow> \<lparr>wres_Record = zero_WorkloadRecord\<lparr>wrec_UID := uid, wrec_Ref := ref\<rparr>, wres_HasValue = False, wres_Error = [],
                  wres_StatusError = [], wres_Sources = sources, wres_CreationSources = sources\<rparr>
             | Some previous \<Rightarrow>
                 previous\<lparr>wres_Sources := appendSources (wres_Sources previous) sources,
                   wres_CreationSources := appendSources (wres_CreationSources previous) sources\<rparr>)
        in (Some cause, publish (UpsertWorkload (next\<lparr>wres_Error := failureReason (Some cause)\<rparr>)) c))"

section \<open>Publication\<close>

text \<open>
  What is stored when the labels of a Pod, or the status of a workload, could not be evaluated: the earlier record if it has a
  value, unless its definition is gone.
\<close>

definition kept_pod :: "'d Controller \<Rightarrow> selectedDefinition \<Rightarrow> PodResult \<Rightarrow> PodResult" where
  "kept_pod c sel next =
     (case store_Pod (ct_publications c) (pr_UID (pres_Record next)) of
        None \<Rightarrow> next
      | Some previous \<Rightarrow>
          if pres_HasValue previous \<and> \<not> (sel_Definition (sd_Selection sel) = None \<and> pr_Karta (pres_Record previous) \<noteq> [])
          then next\<lparr>pres_Record := pres_Record previous, pres_Sources := appendSources (pres_Sources previous) (pres_Sources next)\<rparr>
          else next)"

definition publishPod ::
  "ctllib \<Rightarrow> ObjectRef list \<Rightarrow> ObjectRef \<Rightarrow> selectedDefinition \<Rightarrow> PodResult \<Rightarrow> bool \<Rightarrow> 'd Controller \<Rightarrow> xerr option \<times> 'd Controller" where
  "publishPod lib path rootRef sel next labelFailed c =
     (if \<not> isPathCurrent c path \<or> \<not> hasRootOwnership lib c rootRef \<or> \<not> isDefinitionCurrent c rootRef sel
      then (Some (Sentinel DiscoveryErrStale), c)
      else case lookupObject c rootRef False of
        Inl e \<Rightarrow> (Some (Sentinel DiscoveryErrStale), c)
      | Inr (current, key) \<Rightarrow>
          if om_ResourceVersion (kb_Meta current) \<noteq> or_ResourceVersion rootRef then (Some (Sentinel DiscoveryErrStale), c)
          else (None, publish (UpsertPod
                 (if labelFailed then kept_pod c sel (next\<lparr>pres_Error := ReasonEvaluationFailed\<rparr>) else next)) c))"

definition kept_workload :: "'d Controller \<Rightarrow> UID \<Rightarrow> selectedDefinition \<Rightarrow> WorkloadResult \<Rightarrow> WorkloadResult" where
  "kept_workload c uid sel next =
     (case store_Workload (ct_publications c) uid of
        None \<Rightarrow> next
      | Some previous \<Rightarrow>
          if wres_HasValue previous
             \<and> \<not> (sel_Definition (sd_Selection sel) = None \<and> wrec_HasStatus (wres_Record next) \<and> wrec_Karta (wres_Record previous) \<noteq> [])
          then next\<lparr>wres_Record := wres_Record previous, wres_Sources := appendSources (wres_Sources previous) (wres_Sources next)\<rparr>
          else next)"

definition publishWorkload ::
  "ctllib \<Rightarrow> UID \<Rightarrow> ObjectRef \<Rightarrow> selectedDefinition \<Rightarrow> WorkloadResult \<Rightarrow> 'd Controller \<Rightarrow> xerr option \<times> 'd Controller" where
  "publishWorkload lib uid ref sel next c =
     (if map_of (ct_roots c) uid = None \<or> \<not> isNamespaceInScope c (or_Namespace ref) then (Some (Sentinel DiscoveryErrStale), c)
      else if \<not> isPathCurrent c [ref] \<or> \<not> hasRootOwnership lib c ref then (Some (Sentinel DiscoveryErrStale), c)
      else if \<not> isDefinitionCurrent c ref sel then (Some (Sentinel DiscoveryErrStale), c)
      else (None, publish (UpsertWorkload (if wres_StatusError next \<noteq> [] then kept_workload c uid sel next else next))
              (update_root uid (\<lambda>rt. rt\<lparr>rs_ref := ref\<rparr>) c)))"

section \<open>Consistency\<close>

text \<open>
  Roots are stored under their UID. A Pod has a root in \<open>podRoots\<close> exactly when that root lists it; a watched object has a
  root in its outcome exactly when that root lists it.
\<close>

definition members_ok ::
  "(UID \<rightharpoonup> rootState) \<Rightarrow> (UID \<rightharpoonup> UID) \<Rightarrow> (objectJobKey \<rightharpoonup> selectedObjectOutcome) \<Rightarrow> bool" where
  "members_ok roots podRoots outcomes \<longleftrightarrow>
     (\<forall>u rt. roots u = Some rt \<longrightarrow> u \<noteq> [] \<and> or_UID (rs_ref rt) = u)
     \<and> (\<forall>p u. podRoots p = Some u \<longleftrightarrow> (\<exists>rt. roots u = Some rt \<and> map_of (rs_pods rt) p \<noteq> None))
     \<and> (\<forall>k u. (u \<noteq> [] \<and> (\<exists>oc. outcomes k = Some oc \<and> so_rootUID oc = u)) \<longleftrightarrow> (\<exists>rt. roots u = Some rt \<and> k \<in> set (rs_selected rt)))"

definition membership_inv :: "'d Controller \<Rightarrow> bool" where
  "membership_inv c \<longleftrightarrow> members_ok (map_of (ct_roots c)) (map_of (ct_podRoots c)) (map_of (ct_selectedObjectRoots c))"

text \<open>A published workload is stored under its UID and has a root.\<close>

definition published_inv :: "'d Controller \<Rightarrow> bool" where
  "published_inv c \<longleftrightarrow>
     (\<forall>u w. store_Workload (ct_publications c) u = Some w \<longrightarrow> wrec_UID (wres_Record w) = u \<and> map_of (ct_roots c) u \<noteq> None)"

lemma members_okI:
  assumes "\<And>u rt. roots u = Some rt \<Longrightarrow> u \<noteq> [] \<and> or_UID (rs_ref rt) = u"
    and "\<And>p u. podRoots p = Some u \<longleftrightarrow> (\<exists>rt. roots u = Some rt \<and> map_of (rs_pods rt) p \<noteq> None)"
    and "\<And>k u. (u \<noteq> [] \<and> (\<exists>oc. outcomes k = Some oc \<and> so_rootUID oc = u)) \<longleftrightarrow> (\<exists>rt. roots u = Some rt \<and> k \<in> set (rs_selected rt))"
  shows "members_ok roots podRoots outcomes"
  using assms by (auto simp: members_ok_def)

lemma members_okD:
  assumes "members_ok roots podRoots outcomes"
  shows "roots u = Some rt \<Longrightarrow> u \<noteq> []" and "roots u = Some rt \<Longrightarrow> or_UID (rs_ref rt) = u"
    and "podRoots p = Some u \<longleftrightarrow> (\<exists>rt. roots u = Some rt \<and> map_of (rs_pods rt) p \<noteq> None)"
    and "(u \<noteq> [] \<and> (\<exists>oc. outcomes k = Some oc \<and> so_rootUID oc = u)) \<longleftrightarrow> (\<exists>rt. roots u = Some rt \<and> k \<in> set (rs_selected rt))"
  using assms unfolding members_ok_def by blast+

text \<open>Changing the reference of a root, without its UID, or adding an empty root keeps the relations.\<close>

lemma members_ok_ref:
  assumes "members_ok roots podRoots outcomes" "u \<noteq> []" "or_UID (rs_ref st) = u"
    and "case roots u of None \<Rightarrow> rs_pods st = [] \<and> rs_selected st = [] | Some rt \<Rightarrow> rs_pods st = rs_pods rt \<and> rs_selected st = rs_selected rt"
  shows "members_ok (roots(u \<mapsto> st)) podRoots outcomes"
proof (rule members_okI)
  fix p v
  show "podRoots p = Some v \<longleftrightarrow> (\<exists>rt. (roots(u \<mapsto> st)) v = Some rt \<and> map_of (rs_pods rt) p \<noteq> None)"
    using members_okD(3) [OF assms(1), of p v] assms(4) by (auto split: option.splits)
next
  fix k v
  show "(v \<noteq> [] \<and> (\<exists>oc. outcomes k = Some oc \<and> so_rootUID oc = v))
      \<longleftrightarrow> (\<exists>rt. (roots(u \<mapsto> st)) v = Some rt \<and> k \<in> set (rs_selected rt))"
    using members_okD(4) [OF assms(1), of v k] assms(4) by (auto split: option.splits)
next
  fix v rt assume "(roots(u \<mapsto> st)) v = Some rt"
  then show "v \<noteq> [] \<and> or_UID (rs_ref rt) = v"
    using assms(2,3) members_okD(1,2) [OF assms(1), of v rt] by (auto split: if_splits)
qed

text \<open>Taking a Pod out of its root, and putting it into a root when it has none.\<close>

lemma members_ok_drop_pod:
  assumes "members_ok roots podRoots outcomes" "podRoots p = Some u" "roots u = Some rt"
  shows "members_ok (roots(u \<mapsto> drop_pod p rt)) (podRoots(p := None)) outcomes"
proof (rule members_okI)
  fix q v
  show "(podRoots(p := None)) q = Some v \<longleftrightarrow> (\<exists>rs. (roots(u \<mapsto> drop_pod p rt)) v = Some rs \<and> map_of (rs_pods rs) q \<noteq> None)"
    using members_okD(3) [OF assms(1), of q v] members_okD(3) [OF assms(1), of p v] assms(2,3)
    by (auto simp: drop_pod_def delete_conv')
next
  fix k v
  show "(v \<noteq> [] \<and> (\<exists>oc. outcomes k = Some oc \<and> so_rootUID oc = v))
      \<longleftrightarrow> (\<exists>rs. (roots(u \<mapsto> drop_pod p rt)) v = Some rs \<and> k \<in> set (rs_selected rs))"
    using members_okD(4) [OF assms(1), of v k] assms(3) by (auto simp: drop_pod_def)
next
  fix v rs assume "(roots(u \<mapsto> drop_pod p rt)) v = Some rs"
  then show "v \<noteq> [] \<and> or_UID (rs_ref rs) = v"
    using members_okD(1,2) [OF assms(1)] assms(3) by (auto simp: drop_pod_def split: if_splits)
qed

lemma members_ok_put_pod:
  assumes "members_ok roots podRoots outcomes" "podRoots (jk_UID key) = None" "roots u = Some rt"
  shows "members_ok (roots(u \<mapsto> put_pod key rt)) (podRoots(jk_UID key \<mapsto> u)) outcomes"
proof (rule members_okI)
  fix q v
  show "(podRoots(jk_UID key \<mapsto> u)) q = Some v \<longleftrightarrow> (\<exists>rs. (roots(u \<mapsto> put_pod key rt)) v = Some rs \<and> map_of (rs_pods rs) q \<noteq> None)"
    using members_okD(3) [OF assms(1), of q v] assms(2,3)
    by (auto simp: put_pod_def update_conv')
next
  fix k v
  show "(v \<noteq> [] \<and> (\<exists>oc. outcomes k = Some oc \<and> so_rootUID oc = v))
      \<longleftrightarrow> (\<exists>rs. (roots(u \<mapsto> put_pod key rt)) v = Some rs \<and> k \<in> set (rs_selected rs))"
    using members_okD(4) [OF assms(1), of v k] assms(3) by (auto simp: put_pod_def)
next
  fix v rs assume "(roots(u \<mapsto> put_pod key rt)) v = Some rs"
  then show "v \<noteq> [] \<and> or_UID (rs_ref rs) = v"
    using members_okD(1,2) [OF assms(1)] assms(3) by (auto simp: put_pod_def split: if_splits)
qed

text \<open>The same for watched objects; an outcome without a root is no membership.\<close>

lemma members_ok_drop_selected:
  assumes "members_ok roots podRoots outcomes" "outcomes k = Some oc" "so_rootUID oc = u" "roots u = Some rt"
    and "case new of None \<Rightarrow> True | Some oc' \<Rightarrow> so_rootUID oc' = []"
  shows "members_ok (roots(u \<mapsto> drop_selected k rt)) podRoots (outcomes(k := new))"
proof (rule members_okI)
  fix q v
  show "podRoots q = Some v \<longleftrightarrow> (\<exists>rs. (roots(u \<mapsto> drop_selected k rt)) v = Some rs \<and> map_of (rs_pods rs) q \<noteq> None)"
    using members_okD(3) [OF assms(1), of q v] assms(4) by (auto simp: drop_selected_def)
next
  fix j v
  show "(v \<noteq> [] \<and> (\<exists>oc. (outcomes(k := new)) j = Some oc \<and> so_rootUID oc = v))
      \<longleftrightarrow> (\<exists>rs. (roots(u \<mapsto> drop_selected k rt)) v = Some rs \<and> j \<in> set (rs_selected rs))"
    using members_okD(4) [OF assms(1), of v j] members_okD(1) [OF assms(1) assms(4)] assms(2-5)
    by (auto simp: drop_selected_def split: option.splits)
next
  fix v rs assume "(roots(u \<mapsto> drop_selected k rt)) v = Some rs"
  then show "v \<noteq> [] \<and> or_UID (rs_ref rs) = v"
    using members_okD(1,2) [OF assms(1)] assms(4) by (auto simp: drop_selected_def split: if_splits)
qed

lemma members_ok_no_root:
  assumes "members_ok roots podRoots outcomes" "case outcomes k of None \<Rightarrow> True | Some oc \<Rightarrow> so_rootUID oc = []"
    and "case new of None \<Rightarrow> True | Some oc \<Rightarrow> so_rootUID oc = []"
  shows "members_ok roots podRoots (outcomes(k := new))"
proof (rule members_okI)
  fix j v
  show "(v \<noteq> [] \<and> (\<exists>oc. (outcomes(k := new)) j = Some oc \<and> so_rootUID oc = v)) \<longleftrightarrow> (\<exists>rs. roots v = Some rs \<and> j \<in> set (rs_selected rs))"
    using members_okD(4) [OF assms(1), of v j] assms(2,3) by (auto split: option.splits)
qed (use members_okD [OF assms(1)] in blast)+

lemma members_ok_put_selected:
  assumes "members_ok roots podRoots outcomes" "case outcomes k of None \<Rightarrow> True | Some oc \<Rightarrow> so_rootUID oc \<in> {[], u}"
    and "roots u = Some rt" "so_rootUID oc = u"
  shows "members_ok (roots(u \<mapsto> put_selected k rt)) podRoots (outcomes(k \<mapsto> oc))"
proof (rule members_okI)
  fix q v
  show "podRoots q = Some v \<longleftrightarrow> (\<exists>rs. (roots(u \<mapsto> put_selected k rt)) v = Some rs \<and> map_of (rs_pods rs) q \<noteq> None)"
    using members_okD(3) [OF assms(1), of q v] assms(3) by (auto simp: put_selected_def)
next
  fix j v
  show "(v \<noteq> [] \<and> (\<exists>oc'. (outcomes(k \<mapsto> oc)) j = Some oc' \<and> so_rootUID oc' = v))
      \<longleftrightarrow> (\<exists>rs. (roots(u \<mapsto> put_selected k rt)) v = Some rs \<and> j \<in> set (rs_selected rs))"
    using members_okD(4) [OF assms(1), of v j] members_okD(1) [OF assms(1) assms(3)] assms(2-4)
    by (auto simp: put_selected_def split: option.splits)
next
  fix v rs assume "(roots(u \<mapsto> put_selected k rt)) v = Some rs"
  then show "v \<noteq> [] \<and> or_UID (rs_ref rs) = v"
    using members_okD(1,2) [OF assms(1)] assms(3) by (auto simp: put_selected_def split: if_splits)
qed

lemma members_ok_remove_root:
  assumes "members_ok roots podRoots outcomes" "roots u = Some rt"
  shows "members_ok (roots(u := None)) (podRoots |` (- dom (map_of (rs_pods rt))))
    (\<lambda>k. if k \<in> set (rs_selected rt) then Some zero_outcome else outcomes k)"
proof (rule members_okI)
  fix p v
  show "(podRoots |` (- dom (map_of (rs_pods rt)))) p = Some v
      \<longleftrightarrow> (\<exists>rs. (roots(u := None)) v = Some rs \<and> map_of (rs_pods rs) p \<noteq> None)"
    using members_okD(3) [OF assms(1), of p v] members_okD(3) [OF assms(1), of p u] assms(2)
    by (auto simp: restrict_map_def)
next
  fix k v
  show "(v \<noteq> [] \<and> (\<exists>oc. (if k \<in> set (rs_selected rt) then Some zero_outcome else outcomes k) = Some oc \<and> so_rootUID oc = v))
      \<longleftrightarrow> (\<exists>rs. (roots(u := None)) v = Some rs \<and> k \<in> set (rs_selected rs))"
    using members_okD(4) [OF assms(1), of v k] members_okD(4) [OF assms(1), of u k] assms(2)
    by (auto simp: zero_outcome_def)
next
  fix v rs assume "(roots(u := None)) v = Some rs"
  then show "v \<noteq> [] \<and> or_UID (rs_ref rs) = v"
    using members_okD(1,2) [OF assms(1)] by (auto split: if_splits)
qed

section \<open>What the operations keep\<close>

text \<open>Queuing and publishing change neither roots nor memberships.\<close>

named_theorems frame \<open>parts of the state that an operation leaves alone\<close>

lemma add_frame [frame]:
  "ct_roots (add_jobs js c) = ct_roots c" "ct_podRoots (add_jobs js c) = ct_podRoots c"
  "ct_selectedObjectRoots (add_jobs js c) = ct_selectedObjectRoots c" "ct_publications (add_jobs js c) = ct_publications c"
  "ct_roots (add_pods ps c) = ct_roots c" "ct_podRoots (add_pods ps c) = ct_podRoots c"
  "ct_selectedObjectRoots (add_pods ps c) = ct_selectedObjectRoots c" "ct_publications (add_pods ps c) = ct_publications c"
  "ct_roots (publish f c) = ct_roots c" "ct_podRoots (publish f c) = ct_podRoots c"
  "ct_selectedObjectRoots (publish f c) = ct_selectedObjectRoots c" "ct_publications (publish f c) = f (ct_publications c)"
  by (simp_all add: add_jobs_def add_pods_def publish_def)

lemma enqueue_frame [frame]:
  "ct_roots (enqueueMembers rt c) = ct_roots c" "ct_podRoots (enqueueMembers rt c) = ct_podRoots c"
  "ct_selectedObjectRoots (enqueueMembers rt c) = ct_selectedObjectRoots c"
  "ct_publications (enqueueMembers rt c) = ct_publications c"
  "ct_roots (enqueuePod lib obj c) = ct_roots c" "ct_podRoots (enqueuePod lib obj c) = ct_podRoots c"
  "ct_selectedObjectRoots (enqueuePod lib obj c) = ct_selectedObjectRoots c"
  "ct_publications (enqueuePod lib obj c) = ct_publications c"
  by (simp_all add: enqueueMembers_def enqueuePod_def frame split: option.split)

lemma enqueueObject_frame [frame]:
  "ct_roots (enqueueObject lib object c) = ct_roots c" "ct_podRoots (enqueueObject lib object c) = ct_podRoots c"
  "ct_selectedObjectRoots (enqueueObject lib object c) = ct_selectedObjectRoots c"
  "ct_publications (enqueueObject lib object c) = ct_publications c"
  by (simp_all add: enqueueObject_def Let_def frame)

lemma fold_frame:
  assumes "\<And>x c. g (f x c) = g c"
  shows "g (fold f xs c) = g c"
  using assms by (induction xs arbitrary: c) auto

lemma fold_enqueue_frame [frame]:
  "ct_roots (fold (enqueueObject lib) objects c) = ct_roots c" "ct_podRoots (fold (enqueueObject lib) objects c) = ct_podRoots c"
  "ct_selectedObjectRoots (fold (enqueueObject lib) objects c) = ct_selectedObjectRoots c"
  "ct_publications (fold (enqueueObject lib) objects c) = ct_publications c"
  by (simp_all add: fold_frame frame)

lemma update_root_frame [frame]:
  "ct_podRoots (update_root u f c) = ct_podRoots c" "ct_selectedObjectRoots (update_root u f c) = ct_selectedObjectRoots c"
  "ct_publications (update_root u f c) = ct_publications c"
  by (simp_all add: update_root_def split: option.split)

lemma update_root_roots:
  "map_of (ct_roots (update_root u f c)) = (case map_of (ct_roots c) u of
     None \<Rightarrow> map_of (ct_roots c) | Some rt \<Rightarrow> (map_of (ct_roots c))(u \<mapsto> f rt))"
  by (simp add: update_root_def update_conv' split: option.split)

lemma map_of_fold_delete: "map_of (fold AList.delete ks m) = map_of m |` (- set ks)"
  by (induction ks arbitrary: m) (auto simp: delete_conv' restrict_map_def fun_eq_iff)

lemma map_of_fold_update: "map_of (fold (\<lambda>k. AList.update k v) ks m) = (\<lambda>k. if k \<in> set ks then Some v else map_of m k)"
  by (induction ks arbitrary: m) (auto simp: update_conv' fun_eq_iff)

lemma dom_map_of: "- dom (map_of m) = - set (map fst m)"
  by (simp add: dom_map_of_conv_image_fst)

lemma removeRoot_inv:
  assumes "membership_inv c"
  shows "membership_inv (removeRoot uid c)"
proof (cases "map_of (ct_roots c) uid")
  case None
  then have "(map_of (ct_roots c))(uid := None) = map_of (ct_roots c)" by auto
  with assms None show ?thesis
    by (simp add: removeRoot_def membership_inv_def frame delete_conv')
next
  case (Some rt)
  from members_ok_remove_root [OF assms [unfolded membership_inv_def] Some] Some show ?thesis
    by (simp add: removeRoot_def membership_inv_def frame delete_conv' map_of_fold_delete map_of_fold_update dom_map_of del: set_map)
qed

lemma removeRoot_roots [frame]: "map_of (ct_roots (removeRoot uid c)) = (map_of (ct_roots c))(uid := None)"
  by (simp add: removeRoot_def Let_def frame delete_conv' split: option.split)

lemma removeRoot_published [frame]: "ct_publications (removeRoot uid c) = RemoveWorkload uid (ct_publications c)"
  by (simp add: removeRoot_def Let_def frame split: option.split)

lemma refreshed_UID: "or_UID (fst (refreshed_ref c rt ref)) \<in> {or_UID ref, or_UID rt}"
  by (simp add: refreshed_ref_def Let_def)

lemma ensureRoot_inv:
  assumes "membership_inv c" "or_UID (gw_Root workload) \<noteq> []" "ensureRoot workload c = Some (ref, c1)"
  shows "membership_inv c1" "or_UID ref = or_UID (gw_Root workload)"
    "map_of (ct_roots c1) (or_UID (gw_Root workload)) \<noteq> None" "dom (map_of (ct_roots c)) \<subseteq> dom (map_of (ct_roots c1))"
    "ct_podRoots c1 = ct_podRoots c" "ct_selectedObjectRoots c1 = ct_selectedObjectRoots c" "ct_publications c1 = ct_publications c"
proof -
  let ?u = "or_UID (gw_Root workload)"
  let ?st = "case map_of (ct_roots c) ?u of Some st \<Rightarrow> st | None \<Rightarrow> \<lparr>rs_ref = gw_Root workload, rs_pods = [], rs_selected = []\<rparr>"
  obtain again where r: "refreshed_ref c (gw_Root workload) (rs_ref ?st) = (ref, again)"
    using assms(3) by (auto simp: ensureRoot_def Let_def split: prod.splits list.splits)
  note ok = assms(1) [unfolded membership_inv_def]
  have uid: "or_UID (rs_ref ?st) = ?u" using members_okD(2) [OF ok] by (auto split: option.split)
  show ref: "or_UID ref = ?u" using refreshed_UID [of c "gw_Root workload" "rs_ref ?st"] by (simp add: r uid)
  have roots: "map_of (ct_roots c1) = (map_of (ct_roots c))(?u \<mapsto> ?st\<lparr>rs_ref := ref\<rparr>)"
    using assms(3) r by (auto simp: ensureRoot_def Let_def frame update_conv' split: if_splits list.splits)
  show same: "ct_podRoots c1 = ct_podRoots c" "ct_selectedObjectRoots c1 = ct_selectedObjectRoots c"
    "ct_publications c1 = ct_publications c"
    using assms(3) r by (auto simp: ensureRoot_def Let_def frame split: if_splits list.splits)
  show "membership_inv c1"
    unfolding membership_inv_def roots same
    by (rule members_ok_ref [OF ok assms(2)]) (auto simp: ref split: option.split)
  show "map_of (ct_roots c1) ?u \<noteq> None" "dom (map_of (ct_roots c)) \<subseteq> dom (map_of (ct_roots c1))"
    by (auto simp: roots)
qed

text \<open>Taking a Pod or a watched object out of whatever root it has.\<close>

lemma detach_pod:
  assumes "members_ok roots podRoots outcomes"
  shows "members_ok (case roots (case podRoots p of None \<Rightarrow> [] | Some u \<Rightarrow> u) of
      None \<Rightarrow> roots | Some rt \<Rightarrow> roots((case podRoots p of None \<Rightarrow> [] | Some u \<Rightarrow> u) \<mapsto> drop_pod p rt)) (podRoots(p := None)) outcomes"
proof (cases "podRoots p")
  case None
  then have "podRoots(p := None) = podRoots" by auto
  moreover have "roots [] = None" using members_okD(1) [OF assms, of "[]"] by (cases "roots []") auto
  ultimately show ?thesis using assms None by simp
next
  case (Some u)
  with members_okD(3) [OF assms, of p u] obtain rt where "roots u = Some rt" by blast
  with Some members_ok_drop_pod [OF assms Some this] show ?thesis by simp
qed

lemma detach_selected:
  assumes "members_ok roots podRoots outcomes" "case new of None \<Rightarrow> True | Some oc \<Rightarrow> so_rootUID oc = []"
    and "u = so_rootUID (case outcomes k of None \<Rightarrow> zero_outcome | Some oc \<Rightarrow> oc)"
  shows "members_ok (case roots u of None \<Rightarrow> roots | Some rt \<Rightarrow> roots(u \<mapsto> drop_selected k rt)) podRoots (outcomes(k := new))"
proof (cases "u = []")
  case True
  moreover have "roots [] = None" using members_okD(1) [OF assms(1), of "[]"] by (cases "roots []") auto
  ultimately show ?thesis
    using members_ok_no_root [OF assms(1) _ assms(2), of k] assms(3) by (auto split: option.splits)
next
  case False
  with assms(3) obtain oc where oc: "outcomes k = Some oc" "so_rootUID oc = u"
    by (auto simp: zero_outcome_def split: option.splits)
  with False members_okD(4) [OF assms(1), of u k] obtain rt where "roots u = Some rt" by blast
  with members_ok_drop_selected [OF assms(1) oc this assms(2)] show ?thesis by simp
qed

lemma unregisterPod_inv:
  assumes "membership_inv c"
  shows "membership_inv (unregisterPod key c)"
  using detach_pod [OF assms [unfolded membership_inv_def], of "jk_UID key"]
  by (auto simp: membership_inv_def unregisterPod_def root_uid_of_pod_def Let_def frame delete_conv' update_root_roots split: option.splits)

lemma removeSelected_inv:
  assumes "membership_inv c"
  shows "membership_inv (removeSelectedObjectMembership key c)"
  using detach_selected [OF assms [unfolded membership_inv_def], of None _ key]
  by (auto simp: membership_inv_def removeSelectedObjectMembership_def outcome_of_def Let_def frame delete_conv' update_root_roots
      split: option.splits)

lemma trackSelectedObject_inv:
  assumes "membership_inv c"
  shows "membership_inv (trackSelectedObject key c)"
proof -
  let ?new = "(outcome_of c key)\<lparr>so_exclusion := None\<rparr>"
  note ok = assms [unfolded membership_inv_def]
  have "members_ok (map_of (ct_roots c)) (map_of (ct_podRoots c)) ((map_of (ct_selectedObjectRoots c))(key \<mapsto> ?new))"
  proof (rule members_okI)
    fix k v
    show "(v \<noteq> [] \<and> (\<exists>oc. ((map_of (ct_selectedObjectRoots c))(key \<mapsto> ?new)) k = Some oc \<and> so_rootUID oc = v))
        \<longleftrightarrow> (\<exists>rt. map_of (ct_roots c) v = Some rt \<and> k \<in> set (rs_selected rt))"
      using members_okD(4) [OF ok, of v k] by (auto simp: outcome_of_def zero_outcome_def split: option.splits)
  qed (use members_okD [OF ok] in blast)+
  then show ?thesis by (simp add: membership_inv_def trackSelectedObject_def update_conv')
qed

text \<open>A registration is refused and changes nothing, or makes sure of the root.\<close>

lemma ensureRoot_None: "ensureRoot workload c = None \<longleftrightarrow> gw_Path workload = []"
  by (auto simp: ensureRoot_def Let_def case_prod_beta split: list.splits)

lemma registerPodRoot_total: "gw_Path workload \<noteq> [] \<Longrightarrow> registerPodRoot lib key workload c \<noteq> None"
  by (auto simp: registerPodRoot_def Let_def ensureRoot_None split: option.splits)

lemma registerSelectedObjectRoot_total: "gw_Path workload \<noteq> [] \<Longrightarrow> registerSelectedObjectRoot key workload sel rootSel c \<noteq> None"
  by (auto simp: registerSelectedObjectRoot_def Let_def ensureRoot_None split: option.splits)

lemma registerPodRoot_cases:
  assumes "registerPodRoot lib key workload c = Some (err, c')"
  obtains "c' = c" | ref c1 where "ensureRoot workload c = Some (ref, c1)"
  using assms by (auto simp: registerPodRoot_def Let_def split: if_splits option.splits)

lemma registerSelectedObjectRoot_cases:
  assumes "registerSelectedObjectRoot key workload sel rootSel c = Some (err, c')"
  obtains "c' = c" | ref c1 where "ensureRoot workload c = Some (ref, c1)"
  using assms by (auto simp: registerSelectedObjectRoot_def Let_def split: if_splits option.splits)

lemma registerPodRoot_inv:
  assumes inv: "membership_inv c" and uid: "or_UID (gw_Root workload) \<noteq> []" and r: "registerPodRoot lib key workload c = Some (err, c')"
  shows "membership_inv c'"
  using r
proof (cases rule: registerPodRoot_cases)
  case 1
  with inv show ?thesis by simp
next
  case e: (2 ref c1)
  note E = ensureRoot_inv [OF inv uid e]
  let ?p = "jk_UID key" and ?u = "or_UID (gw_Root workload)"
  let ?prev = "root_uid_of_pod c ?p"
  have prev: "?prev = (case map_of (ct_podRoots c1) ?p of None \<Rightarrow> [] | Some u \<Rightarrow> u)" by (simp add: root_uid_of_pod_def E)
  let ?roots = "case map_of (ct_roots c1) ?prev of None \<Rightarrow> map_of (ct_roots c1)
      | Some rt \<Rightarrow> (map_of (ct_roots c1))(?prev \<mapsto> drop_pod ?p rt)"
  have detached: "members_ok ?roots ((map_of (ct_podRoots c1))(?p := None)) (map_of (ct_selectedObjectRoots c1))"
    unfolding prev by (rule detach_pod [OF E(1) [unfolded membership_inv_def]])
  show ?thesis
  proof (cases "?prev = ?u")
    case True
    with inv E(1,2) e r show ?thesis by (auto simp: registerPodRoot_def Let_def split: if_splits)
  next
    case False
    with E(3) obtain rt where rt: "?roots ?u = Some rt" by (cases "map_of (ct_roots c1) ?prev") auto
    have "membership_inv (add_jobs [root_job ?u] (update_root ?u (put_pod key)
        ((if map_of (ct_roots c1) ?prev = None then c1 else add_jobs [root_job ?prev] (update_root ?prev (drop_pod ?p) c1))
          \<lparr>ct_podRoots := AList.update ?p ?u (ct_podRoots (if map_of (ct_roots c1) ?prev = None then c1
             else add_jobs [root_job ?prev] (update_root ?prev (drop_pod ?p) c1)))\<rparr>)))"
      using members_ok_put_pod [OF detached _ rt, of key] rt
      by (auto simp: membership_inv_def frame update_conv' update_root_def split: option.splits)
    with inv False E(2) e r show ?thesis by (simp add: registerPodRoot_def Let_def split: if_splits)
  qed
qed

lemma registerSelectedObjectRoot_inv:
  assumes inv: "membership_inv c" and uid: "or_UID (gw_Root workload) \<noteq> []"
    and r: "registerSelectedObjectRoot key workload sel rootSel c = Some (err, c')"
  shows "membership_inv c'"
  using r
proof (cases rule: registerSelectedObjectRoot_cases)
  case 1
  with inv show ?thesis by simp
next
  case e: (2 ref c1)
  note E = ensureRoot_inv [OF inv uid e]
  let ?u = "or_UID (gw_Root workload)" and ?prev = "so_rootUID (outcome_of c key)"
  let ?new = "\<lparr>so_rootUID = ?u, so_exclusion = None\<rparr>"
  have prev: "?prev = so_rootUID (case map_of (ct_selectedObjectRoots c1) key of None \<Rightarrow> zero_outcome | Some oc \<Rightarrow> oc)"
    by (simp add: outcome_of_def E)
  let ?roots = "if ?prev = ?u then map_of (ct_roots c1) else case map_of (ct_roots c1) ?prev of None \<Rightarrow> map_of (ct_roots c1)
      | Some rt \<Rightarrow> (map_of (ct_roots c1))(?prev \<mapsto> drop_selected key rt)"
  obtain rt where rt: "?roots ?u = Some rt" using E(3) by (cases "map_of (ct_roots c1) ?prev") auto
  have final: "members_ok (?roots(?u \<mapsto> put_selected key rt)) (map_of (ct_podRoots c1)) ((map_of (ct_selectedObjectRoots c1))(key \<mapsto> ?new))"
  proof (cases "?prev = ?u")
    case True
    with rt prev show ?thesis
      by (intro members_ok_put_selected) (auto simp: E(1) [unfolded membership_inv_def] split: option.splits)
  next
    case False
    have "members_ok ?roots (map_of (ct_podRoots c1)) ((map_of (ct_selectedObjectRoots c1))(key := None))"
      using detach_selected [OF E(1) [unfolded membership_inv_def] _ prev, of None] False by simp
    from members_ok_put_selected [OF this _ rt, of key ?new] show ?thesis by simp
  qed
  have "membership_inv (publish (RemoveDiscoveryFailure (jk_UID key)) (add_jobs [root_job ?u] (update_root ?u (put_selected key)
      ((if ?prev = ?u \<or> map_of (ct_roots c1) ?prev = None then c1 else add_jobs [root_job ?prev] (update_root ?prev (drop_selected key) c1))
        \<lparr>ct_selectedObjectRoots := AList.update key ?new (ct_selectedObjectRoots
          (if ?prev = ?u \<or> map_of (ct_roots c1) ?prev = None then c1
           else add_jobs [root_job ?prev] (update_root ?prev (drop_selected key) c1)))\<rparr>))))"
    using final rt by (auto simp: membership_inv_def frame update_conv' update_root_def split: option.splits if_splits)
  with inv E(2) e r show ?thesis by (simp add: registerSelectedObjectRoot_def Let_def split: if_splits)
qed

lemma excludeSelectedObject_inv:
  assumes "membership_inv c"
  shows "membership_inv (snd (excludeSelectedObject key workload sel rootSel c))"
proof -
  let ?c1 = "removeSelectedObjectMembership key c"
  have none: "map_of (ct_selectedObjectRoots ?c1) key = None"
    by (simp add: removeSelectedObjectMembership_def Let_def frame delete_conv')
  have "members_ok (map_of (ct_roots ?c1)) (map_of (ct_podRoots ?c1)) ((map_of (ct_selectedObjectRoots ?c1))(key \<mapsto> \<lparr>so_rootUID = [], so_exclusion = ex\<rparr>))"
    for ex using members_ok_no_root [OF removeSelected_inv [OF assms, unfolded membership_inv_def], of key] none by simp
  with assms show ?thesis by (simp add: excludeSelectedObject_def Let_def membership_inv_def update_conv')
qed

lemma replaceSelectedObjectTracking_inv:
  assumes "membership_inv c"
  shows "membership_inv (snd (replaceSelectedObjectTracking key obj sel c))"
proof -
  have "membership_inv (add_jobs js c)" for js using assms by (simp add: membership_inv_def frame)
  with assms removeSelected_inv show ?thesis
    by (auto simp: replaceSelectedObjectTracking_def Let_def split: option.split)
qed

lemma membership_frame:
  assumes "membership_inv c" "ct_roots c' = ct_roots c" "ct_podRoots c' = ct_podRoots c" "ct_selectedObjectRoots c' = ct_selectedObjectRoots c"
  shows "membership_inv c'"
  using assms by (simp add: membership_inv_def)

lemma failure_frame [frame]:
  "ct_roots (snd (publishPodFailure key sources cause rt c)) = ct_roots c"
  "ct_podRoots (snd (publishPodFailure key sources cause rt c)) = ct_podRoots c"
  "ct_selectedObjectRoots (snd (publishPodFailure key sources cause rt c)) = ct_selectedObjectRoots c"
  "ct_roots (snd (failWorkload c0 uid ref cause c)) = ct_roots c"
  "ct_podRoots (snd (failWorkload c0 uid ref cause c)) = ct_podRoots c"
  "ct_selectedObjectRoots (snd (failWorkload c0 uid ref cause c)) = ct_selectedObjectRoots c"
  by (auto simp: publishPodFailure_def failWorkload_def Let_def frame split: prod.split)

lemma publishPod_frame [frame]:
  "ct_roots (snd (publishPod lib path rootRef sel next labelFailed c)) = ct_roots c"
  "ct_podRoots (snd (publishPod lib path rootRef sel next labelFailed c)) = ct_podRoots c"
  "ct_selectedObjectRoots (snd (publishPod lib path rootRef sel next labelFailed c)) = ct_selectedObjectRoots c"
  by (auto simp: publishPod_def frame split: sum.split prod.split)

lemma publishWorkload_inv:
  assumes "membership_inv c" "or_UID ref = uid"
  shows "membership_inv (snd (publishWorkload lib uid ref sel next c))"
proof (cases "map_of (ct_roots c) uid")
  case (Some rt)
  have "uid \<noteq> []" using members_okD(1) [OF assms(1) [unfolded membership_inv_def] Some] .
  with members_ok_ref [OF assms(1) [unfolded membership_inv_def], of uid "rt\<lparr>rs_ref := ref\<rparr>"] assms Some
  show ?thesis by (auto simp: publishWorkload_def membership_inv_def frame update_root_roots)
qed (simp add: publishWorkload_def assms)

end
