(* ===== verification/Controller_Watches.thy ===== *)
theory Controller_Watches
  imports Controller_Membership
begin

text \<open>
  \<^verbatim>\<open>controller/sources.go\<close>: the watches that fill the cache of the controller, and the work that a changed object causes. A watch is
  known by its key and its identity; only a tracked watch may change the state. The mapping of a kind to its resource, the calls
  of the API and the conversion of what they deliver to an object are outcomes given to the operations. An object that is nil
  is None; an operation that would dereference a nil pointer gives None.
\<close>

section \<open>Tracked watches\<close>

definition is_watch :: "(SourceKey \<times> resourceWatch) list \<Rightarrow> resourceWatch \<Rightarrow> bool" where
  "is_watch m w \<longleftrightarrow> (case map_of m (rw_key w) of None \<Rightarrow> False | Some x \<Rightarrow> rw_id x = rw_id w)"

definition isTrackedWatch :: "'d Controller \<Rightarrow> resourceWatch \<Rightarrow> bool" where
  "isTrackedWatch c w \<longleftrightarrow> is_watch (ct_watches c) w \<or> is_watch (ct_replacements c) w"

text \<open>What the pointer of a tracked watch refers to now.\<close>

definition current_watch :: "'d Controller \<Rightarrow> resourceWatch \<Rightarrow> resourceWatch" where
  "current_watch c w =
     (if is_watch (ct_watches c) w then the (map_of (ct_watches c) (rw_key w)) else the (map_of (ct_replacements c) (rw_key w)))"

definition source_of_watch :: "resourceWatch \<Rightarrow> cacheSource" where
  "source_of_watch w = \<lparr>cs_gvk = rw_gvk w, cs_hasFullObject = rw_full w, cs_synced = rw_ready w, cs_err = rw_err w\<rparr>"

definition put_watch :: "resourceWatch \<Rightarrow> 'd Controller \<Rightarrow> 'd Controller" where
  "put_watch w c = c\<lparr>ct_watches := AList.update (rw_key w) w (ct_watches c)\<rparr>"

definition sync_sources :: "'d Controller \<Rightarrow> 'd Controller" where
  "sync_sources c = c\<lparr>ct_syncQueue := True\<rparr>"

definition updateWatchHealth :: "resourceWatch \<Rightarrow> xerr option \<Rightarrow> 'd Controller \<Rightarrow> 'd Controller" where
  "updateWatchHealth w err c =
     (if \<not> isTrackedWatch c w then c
      else
        let x = current_watch c w;
            recovered = (rw_err x \<noteq> None \<and> err = None);
            x' = x\<lparr>rw_err := err\<rparr>;
            c1 = (if is_watch (ct_watches c) w
                  then (put_watch x' c)\<lparr>ct_sources := AList.update (rw_key w) (source_of_watch x') (ct_sources c)\<rparr>
                  else c\<lparr>ct_replacements := AList.update (rw_key w) x' (ct_replacements c)\<rparr>);
            c2 = (if map_of (ct_replacements c1) (rw_key w) = None \<or> is_watch (ct_replacements c1) w
                  then publish (SetSourceHealth (rw_key w)
                         \<lparr>sh_GVK = rw_gvk x, sh_Synced = rw_ready x, sh_Error = failureReason err\<rparr>) c1
                  else c1);
            c3 = (if recovered then add_jobs (map (root_job \<circ> fst) (ct_roots c2)) (enqueueScopeRefresh (sk_Namespace (rw_key w)) c2)
                  else c2)
        in if rw_gvk x = namespaceGVK then sync_sources c3 else c3)"

definition setWatchHealth :: "resourceWatch \<Rightarrow> xerr option \<Rightarrow> 'd Controller \<Rightarrow> 'd Controller" where
  "setWatchHealth = updateWatchHealth"

definition rejectWatchObject :: "resourceWatch \<Rightarrow> xerr \<Rightarrow> 'd Controller \<Rightarrow> xerr option \<times> 'd Controller" where
  "rejectWatchObject w e c = (Some e, setWatchHealth w (Some e) c)"

text \<open>The outcome of the LIST request of a watch, and the start of its WATCH request; \<open>cancelled\<close> tells whether its context has ended.\<close>

definition listResource_outcome :: "bool \<Rightarrow> resourceWatch \<Rightarrow> xerr option \<Rightarrow> 'd Controller \<Rightarrow> 'd Controller" where
  "listResource_outcome cancelled w err c = (if err \<noteq> None \<and> \<not> cancelled then setWatchHealth w err c else c)"

definition IsBadRequest :: "xerr option \<Rightarrow> bool" where
  "IsBadRequest err \<longleftrightarrow> (case err of None \<Rightarrow> False | Some e \<Rightarrow> api_reason_of e = Some (OtherReason ''BadRequest''))"

definition recordWatchStart :: "bool \<Rightarrow> resourceWatch \<Rightarrow> bool \<Rightarrow> xerr option \<Rightarrow> 'd Controller \<Rightarrow> 'd Controller" where
  "recordWatchStart cancelled w sendInitialEvents err c =
     (let isWatchListFallback = (sendInitialEvents \<and> IsBadRequest err)
      in if err = None then updateWatchHealth w None c
         else if \<not> cancelled \<and> \<not> isWatchListFallback then updateWatchHealth w err c
         else c)"

section \<open>Changed objects\<close>

text \<open>
  Four parts of the code: the ancestor test, the object that went away, whether the owner changed, and the object that is there now.
\<close>

definition is_ancestor :: "'d Controller \<Rightarrow> 'd KubeObject option \<Rightarrow> 'd KubeObject \<Rightarrow> bool" where
  "is_ancestor c old object \<longleftrightarrow> kb_GVK object \<noteq> podGVK \<or> kb_UID object \<in> set (ct_ancestorPods c)
     \<or> (case old of None \<Rightarrow> False | Some prev \<Rightarrow> kb_UID prev \<in> set (ct_ancestorPods c))"

definition replaced_object :: "'d KubeObject option \<Rightarrow> 'd KubeObject option \<Rightarrow> bool" where
  "replaced_object old current =
     (case (old, current) of (None, _) \<Rightarrow> False | (Some prev, None) \<Rightarrow> True | (Some prev, Some cur) \<Rightarrow> kb_UID prev \<noteq> kb_UID cur)"

definition ownership_changed :: "ctllib \<Rightarrow> 'd KubeObject option \<Rightarrow> 'd KubeObject option \<Rightarrow> bool" where
  "ownership_changed lib old current =
     (case (old, current) of
        (Some prev, Some cur) \<Rightarrow> kb_UID prev \<noteq> kb_UID cur
          \<or> ControllerOwner (cl_parse_gv lib) (kb_Meta prev) \<noteq> ControllerOwner (cl_parse_gv lib) (kb_Meta cur)
      | _ \<Rightarrow> True)"

definition selector_changed :: "ctllib \<Rightarrow> 'd KubeObject option \<Rightarrow> 'd KubeObject option \<Rightarrow> bool" where
  "selector_changed lib old current =
     (case (old, current) of
        (Some prev, Some cur) \<Rightarrow> cl_objectSelector lib (kb_Labels prev) \<noteq> cl_objectSelector lib (kb_Labels cur)
      | _ \<Rightarrow> False)"

definition queue_gone :: "'d KubeObject \<Rightarrow> 'd Controller \<Rightarrow> 'd Controller" where
  "queue_gone prev c =
     (let d = c\<lparr>ct_ancestorPods := removeAll (kb_UID prev) (ct_ancestorPods c)\<rparr>;
          oldKey = objectJobFor (refOf prev)
      in enqueueRootAndMembers (kb_UID prev)
           (if map_of (ct_selectedObjectRoots d) oldKey \<noteq> None then add_jobs [selected_job oldKey] d else d))"

definition queue_current :: "bool \<Rightarrow> 'd KubeObject \<Rightarrow> 'd Controller \<Rightarrow> 'd Controller" where
  "queue_current ownershipChanged cur c =
     (let key = objectJobFor (refOf cur);
          d = (if (map_of (ct_selectedObjectRoots c) key = None \<or> ownershipChanged) \<and> shouldDiscoverObject c (kb_GVK cur)
               then add_jobs [selected_job key] c else c)
      in case map_of (ct_roots d) (kb_UID cur) of
           None \<Rightarrow> d
         | Some rt \<Rightarrow> add_pods (map snd (rs_pods rt)) (add_jobs [root_job (kb_UID cur)] d))"

definition queueObjectChange :: "ctllib \<Rightarrow> 'd KubeObject option \<Rightarrow> 'd KubeObject option \<Rightarrow> 'd Controller \<Rightarrow> 'd Controller" where
  "queueObjectChange lib old current c =
     (case (case current of Some x \<Rightarrow> Some x | None \<Rightarrow> old) of
        None \<Rightarrow> c
      | Some object \<Rightarrow>
          let c0 = enqueuePod lib current (enqueuePod lib old c);
              c1 = (if kb_GVK object = namespaceGVK \<and> cc_NamespaceSelector (ct_config c0) then sync_sources c0 else c0);
              c2 = (case old of None \<Rightarrow> c1 | Some prev \<Rightarrow> if replaced_object old current then queue_gone prev c1 else c1);
              c3 = (case current of None \<Rightarrow> c2 | Some cur \<Rightarrow> queue_current (ownership_changed lib old current) cur c2)
          in if (ownership_changed lib old current \<and> is_ancestor c1 old object) \<or> selector_changed lib old current
             then enqueueScopeRefresh (kb_Namespace object) c3 else c3)"

text \<open>Removing an entry from the cache, and putting one into it.\<close>

definition uncache :: "ctllib \<Rightarrow> objectKey \<Rightarrow> 'd Controller \<Rightarrow> 'd Controller" where
  "uncache lib key c =
     (let old = map_option ce_object (map_of (ct_objects c) key)
      in queueObjectChange lib old None (c\<lparr>ct_objects := AList.delete key (ct_objects c)\<rparr>))"

definition cache :: "ctllib \<Rightarrow> SourceKey \<Rightarrow> objectKey \<Rightarrow> 'd KubeObject \<Rightarrow> 'd Controller \<Rightarrow> 'd Controller" where
  "cache lib source key object c =
     (let old = map_option ce_object (map_of (ct_objects c) key)
      in queueObjectChange lib old (Some object)
           (c\<lparr>ct_objects := AList.update key \<lparr>ce_object = object, ce_source = source\<rparr> (ct_objects c)\<rparr>))"

text \<open>
  \<open>value\<close> is what the conversion of the event's object gives. A watch of metadata drops everything else; the kind is that of the
  watch.
\<close>

definition prepareWatchObject :: "'d KubeObject xres \<Rightarrow> GroupVersionKind \<Rightarrow> bool \<Rightarrow> 'd KubeObject xres" where
  "prepareWatchObject v gvk full =
     (case v of
        Inl e \<Rightarrow> Inl e
      | Inr object \<Rightarrow> Inr ((if full then object else object\<lparr>kb_Data := None\<rparr>)\<lparr>kb_GVK := gvk\<rparr>))"

definition no_identity :: "'d KubeObject \<Rightarrow> bool" where
  "no_identity object \<longleftrightarrow> kb_UID object = [] \<or> kb_Name object = []"

definition applyWatchEvent ::
  "ctllib \<Rightarrow> resourceWatch \<Rightarrow> 'd KubeObject xres \<Rightarrow> bool \<Rightarrow> 'd Controller \<Rightarrow> xerr option \<times> 'd Controller" where
  "applyWatchEvent lib w v deleted c =
     (case prepareWatchObject v (rw_gvk w) (rw_full w) of
        Inl e \<Rightarrow> rejectWatchObject w e c
      | Inr object \<Rightarrow>
          if no_identity object then rejectWatchObject w (XErrorf ''watch object has no identity'' []) c
          else if \<not> is_watch (ct_watches c) w then (None, c)
          else
            let key = keyOf (refOf object);
                x = current_watch c w
            in if deleted then
                 (case map_of (ct_objects c) key of
                    None \<Rightarrow> (None, c)
                  | Some old \<Rightarrow>
                      if kb_UID (ce_object old) \<noteq> kb_UID object then (None, c)
                      else (None, uncache lib key (put_watch (x\<lparr>rw_objects := removeAll key (rw_objects x)\<rparr>) c)))
               else (None, cache lib (rw_key w) key object (put_watch (x\<lparr>rw_objects := List.insert key (rw_objects x)\<rparr>) c)))"

section \<open>Snapshots\<close>

fun prepareWatchSnapshot ::
  "'d KubeObject xres list \<Rightarrow> GroupVersionKind \<Rightarrow> bool \<Rightarrow> (objectKey \<times> 'd KubeObject) list \<Rightarrow> (objectKey \<times> 'd KubeObject) list xres" where
  "prepareWatchSnapshot [] gvk full objects = Inr objects"
| "prepareWatchSnapshot (v # vs) gvk full objects =
     (case prepareWatchObject v gvk full of
        Inl e \<Rightarrow> Inl e
      | Inr object \<Rightarrow>
          if no_identity object then Inl (XErrorf ''LIST object has no identity'' [])
          else if map_of objects (keyOf (refOf object)) \<noteq> None then Inl (XErrorf ''LIST contains duplicate object names'' [])
          else prepareWatchSnapshot vs gvk full (objects @ [(keyOf (refOf object), object)]))"

definition cancel_watch :: "resourceWatch \<Rightarrow> 'd Controller \<Rightarrow> 'd Controller" where
  "cancel_watch w c = c\<lparr>ct_cancelled := insert (rw_id w) (ct_cancelled c)\<rparr>"

text \<open>A replacement takes over from the watch it replaces; None when there is no such watch.\<close>

definition promote :: "resourceWatch \<Rightarrow> 'd Controller \<Rightarrow> 'd Controller option" where
  "promote w c =
     (if is_watch (ct_watches c) w then Some c
      else case map_of (ct_watches c) (rw_key w) of
        None \<Rightarrow> None
      | Some previous \<Rightarrow>
          Some (put_watch ((current_watch c w)\<lparr>rw_objects := rw_objects previous\<rparr>)
            ((cancel_watch previous c)\<lparr>ct_replacements := AList.delete (rw_key w) (ct_replacements c)\<rparr>)))"

definition change_watch :: "resourceWatch \<Rightarrow> (resourceWatch \<Rightarrow> resourceWatch) \<Rightarrow> 'd Controller \<Rightarrow> 'd Controller" where
  "change_watch w f c = (if is_watch (ct_watches c) w then put_watch (f (current_watch c w)) c else c)"

definition watch_Replace ::
  "ctllib \<Rightarrow> resourceWatch \<Rightarrow> 'd KubeObject xres list \<Rightarrow> 'd Controller \<Rightarrow> (xerr option \<times> 'd Controller) option" where
  "watch_Replace lib w vs c =
     (case prepareWatchSnapshot vs (rw_gvk w) (rw_full w) [] of
        Inl e \<Rightarrow> Some (rejectWatchObject w e c)
      | Inr objects \<Rightarrow>
          if \<not> isTrackedWatch c w then Some (None, c)
          else case promote w c of
            None \<Rightarrow> None
          | Some c1 \<Rightarrow>
              let gone = filter (\<lambda>key. map_of objects key = None) (rw_objects (current_watch c1 w));
                  c2 = fold (uncache lib) gone c1;
                  c3 = change_watch w (\<lambda>x. x\<lparr>rw_objects := map fst objects\<rparr>) c2;
                  c4 = fold (\<lambda>(key, object). cache lib (rw_key w) key object) objects c3;
                  c5 = change_watch w (\<lambda>x. x\<lparr>rw_ready := True\<rparr>) c4
              in Some (None, enqueueScopeRefresh (sk_Namespace (rw_key w)) (updateWatchHealth w None c5)))"

section \<open>Starting and retiring watches\<close>

definition sourceFailureUID :: "ctllib \<Rightarrow> GroupVersionKind \<Rightarrow> string \<Rightarrow> UID" where
  "sourceFailureUID lib gvk namespace = ''source:'' @ cl_gvk_String lib gvk @ ''/'' @ namespace"

definition recordWatchFailure :: "WatchRequest \<Rightarrow> ObjectRef \<Rightarrow> xerr \<Rightarrow> 'd Controller \<Rightarrow> xerr \<times> 'd Controller" where
  "recordWatchFailure request ref e c =
     (if cc_NamespaceSelector (ct_config c) \<and> wr_Namespace request \<noteq> [] \<and> wr_Namespace request \<notin> set (ct_scopes c)
      then (Sentinel DiscoveryErrPending, c)
      else (e, publish (SetDiscoveryFailure ref (failureReason (Some e)))
                 (c\<lparr>ct_watchFailures := AList.update request e (ct_watchFailures c)\<rparr>)))"

definition forget_failure :: "ctllib \<Rightarrow> WatchRequest \<Rightarrow> 'd Controller \<Rightarrow> 'd Controller" where
  "forget_failure lib request c =
     publish (RemoveDiscoveryFailure (sourceFailureUID lib (wr_GVK request) (wr_Namespace request)))
       (c\<lparr>ct_watchFailures := AList.delete request (ct_watchFailures c)\<rparr>)"

definition start_watch :: "SourceKey \<Rightarrow> GroupVersionKind \<Rightarrow> bool \<Rightarrow> 'd Controller \<Rightarrow> 'd Controller" where
  "start_watch key gvk metadataOnly c =
     (let w = \<lparr>rw_id = ct_nextWatch c, rw_key = key, rw_gvk = gvk, rw_full = \<not> metadataOnly, rw_ready = False, rw_err = None,
                rw_objects = []\<rparr>;
          c1 = c\<lparr>ct_nextWatch := Suc (ct_nextWatch c)\<rparr>;
          c2 = (if map_of (ct_watches c1) key \<noteq> None
                then c1\<lparr>ct_replacements := AList.update key w (ct_replacements c1)\<rparr>
                else (put_watch w c1)\<lparr>ct_sources := AList.update key (source_of_watch w) (ct_sources c1)\<rparr>)
      in publish (SetSourceHealth key \<lparr>sh_GVK = gvk, sh_Synced = False, sh_Error = []\<rparr>) c2)"

text \<open>
  \<open>mapping\<close> is the outcome of the REST mapper: the resource of the kind and whether it has cluster scope. \<open>ctx\<close> is the error of the
  context of the controller, or of the caller before the controller has started.
\<close>

definition ensureWatch ::
  "ctllib \<Rightarrow> (GroupVersionResource \<times> bool) xres \<Rightarrow> xerr option \<Rightarrow> GroupVersionKind \<Rightarrow> string \<Rightarrow> bool \<Rightarrow> 'd Controller
     \<Rightarrow> SourceKey xres \<times> 'd Controller" where
  "ensureWatch lib mapping ctx gvk requested metadataOnly c0 =
     (case mapping of
        Inl e \<Rightarrow>
          (let (e', c') = recordWatchFailure \<lparr>wr_GVK = gvk, wr_Namespace = requested\<rparr>
                  (no_ref\<lparr>or_GVK := gvk, or_Namespace := requested, or_UID := sourceFailureUID lib gvk requested\<rparr>) e c0
           in (Inl e', c'))
      | Inr (resource, rootScope) \<Rightarrow>
          let namespace = (if rootScope \<or> \<not> cc_NamespaceSelector (ct_config c0) then [] else requested);
              key = \<lparr>sk_Resource = resource, sk_Namespace = namespace\<rparr>;
              failed = filter (\<lambda>request. wr_GVK request = gvk \<and> (namespace = [] \<or> wr_Namespace request = namespace))
                         (map fst (ct_watchFailures c0));
              c = fold (forget_failure lib) failed c0
          in if namespace \<noteq> [] \<and> namespace \<notin> set (ct_scopes c) then (Inl (Sentinel DiscoveryErrPending), c)
             else if (case map_of (ct_watches c) key of
                 None \<Rightarrow> False
               | Some existing \<Rightarrow> metadataOnly \<or> rw_full existing \<or> map_of (ct_replacements c) key \<noteq> None)
             then (Inr key, c)
             else case ctx of
               Some e \<Rightarrow> (Inl e, c)
             | None \<Rightarrow> (Inr key, start_watch key gvk metadataOnly c))"

definition retireWatch :: "ctllib \<Rightarrow> resourceWatch \<Rightarrow> 'd Controller \<Rightarrow> 'd Controller" where
  "retireWatch lib w c =
     (let c1 = (cancel_watch w c)\<lparr>ct_watches := AList.delete (rw_key w) (ct_watches c)\<rparr>;
          c2 = fold (\<lambda>key d. case map_of (ct_objects d) key of
                   None \<Rightarrow> d
                 | Some e \<Rightarrow> if ce_source e = rw_key w then uncache lib key d else d) (rw_objects w) c1
      in publish (RemoveSourceHealth (rw_key w)) (c2\<lparr>ct_sources := AList.delete (rw_key w) (ct_sources c2)\<rparr>))"

definition stopWatches :: "'d Controller \<Rightarrow> 'd Controller" where
  "stopWatches c = fold (cancel_watch \<circ> snd) (ct_replacements c) (fold (cancel_watch \<circ> snd) (ct_watches c) c)"

section \<open>What the operations leave alone\<close>

text \<open>Queuing changes only the queues and the ancestors that are Pods: the rest of the state is the same.\<close>

definition sans_queues :: "'d Controller \<Rightarrow> 'd Controller" where
  "sans_queues c = c\<lparr>ct_podQueue := {}, ct_workloadQueue := {}, ct_syncQueue := False, ct_ancestorPods := []\<rparr>"

named_theorems same_state \<open>operations that change only the queues\<close>

lemma sans_queues_add [same_state]:
  "sans_queues (add_jobs js c) = sans_queues c" "sans_queues (add_pods ps c) = sans_queues c"
  "sans_queues (sync_sources c) = sans_queues c" "sans_queues (enqueueScopeRefresh ns c) = sans_queues c"
  "sans_queues (c\<lparr>ct_ancestorPods := us\<rparr>) = sans_queues c"
  by (simp_all add: sans_queues_def add_jobs_def add_pods_def sync_sources_def enqueueScopeRefresh_def)

lemma sans_queues_enqueue [same_state]:
  "sans_queues (enqueueMembers rt c) = sans_queues c" "sans_queues (enqueueRootAndMembers u c) = sans_queues c"
  "sans_queues (enqueuePod lib obj c) = sans_queues c" "sans_queues (enqueueObject lib object c) = sans_queues c"
  by (simp_all add: enqueueMembers_def enqueueRootAndMembers_def enqueuePod_def enqueueObject_def Let_def same_state split: option.split)

lemma sans_queues_parts [same_state]:
  "sans_queues (queue_gone prev c) = sans_queues c" "sans_queues (queue_current b cur c) = sans_queues c"
  by (simp_all add: queue_gone_def queue_current_def Let_def same_state split: option.split)

lemma sans_queues_let:
  "sans_queues a = y \<Longrightarrow> (\<And>x. sans_queues x = y \<Longrightarrow> sans_queues (f x) = y) \<Longrightarrow> sans_queues (let x = a in f x) = y"
  by (simp add: Let_def)

lemma sans_queues_if: "sans_queues a = y \<Longrightarrow> sans_queues b = y \<Longrightarrow> sans_queues (if P then a else b) = y"
  by simp

lemma sans_queues_option:
  "sans_queues a = y \<Longrightarrow> (\<And>x. sans_queues (f x) = y) \<Longrightarrow> sans_queues (case v of None \<Rightarrow> a | Some x \<Rightarrow> f x) = y"
  by (simp split: option.split)

lemma sans_queues_change [same_state]: "sans_queues (queueObjectChange lib old current c) = sans_queues c"
  unfolding queueObjectChange_def
  by (intro sans_queues_let sans_queues_if sans_queues_option) (simp_all only: same_state)

lemma sans_queues_sel:
  "ct_roots (sans_queues c) = ct_roots c" "ct_podRoots (sans_queues c) = ct_podRoots c"
  "ct_selectedObjectRoots (sans_queues c) = ct_selectedObjectRoots c"
  "ct_publications (sans_queues c) = ct_publications c" "ct_objects (sans_queues c) = ct_objects c" "ct_sources (sans_queues c) = ct_sources c"
  "ct_watches (sans_queues c) = ct_watches c" "ct_replacements (sans_queues c) = ct_replacements c"
  "ct_config (sans_queues c) = ct_config c" "ct_scopes (sans_queues c) = ct_scopes c"
  "ct_selectedDefinitions (sans_queues c) = ct_selectedDefinitions c" "ct_definitionVersion (sans_queues c) = ct_definitionVersion c"
  "ct_nextWatch (sans_queues c) = ct_nextWatch c" "ct_watchFailures (sans_queues c) = ct_watchFailures c"
  by (simp_all add: sans_queues_def)

lemma sans_queuesD:
  assumes "sans_queues c' = sans_queues c"
  shows "ct_roots c' = ct_roots c" "ct_podRoots c' = ct_podRoots c" "ct_selectedObjectRoots c' = ct_selectedObjectRoots c"
    "ct_publications c' = ct_publications c" "ct_objects c' = ct_objects c" "ct_sources c' = ct_sources c"
    "ct_watches c' = ct_watches c" "ct_replacements c' = ct_replacements c" "ct_config c' = ct_config c" "ct_scopes c' = ct_scopes c"
    "ct_selectedDefinitions c' = ct_selectedDefinitions c" "ct_definitionVersion c' = ct_definitionVersion c"
    "ct_nextWatch c' = ct_nextWatch c" "ct_watchFailures c' = ct_watchFailures c"
  using assms by (metis sans_queues_sel)+

lemmas change_frame = sans_queuesD [OF sans_queues_change]

lemma cache_frame [frame]:
  "ct_roots (uncache lib key c) = ct_roots c" "ct_podRoots (uncache lib key c) = ct_podRoots c"
  "ct_selectedObjectRoots (uncache lib key c) = ct_selectedObjectRoots c" "ct_publications (uncache lib key c) = ct_publications c"
  "ct_sources (uncache lib key c) = ct_sources c" "ct_watches (uncache lib key c) = ct_watches c"
  "ct_replacements (uncache lib key c) = ct_replacements c" "ct_objects (uncache lib key c) = AList.delete key (ct_objects c)"
  "ct_roots (cache lib source key object c) = ct_roots c" "ct_podRoots (cache lib source key object c) = ct_podRoots c"
  "ct_selectedObjectRoots (cache lib source key object c) = ct_selectedObjectRoots c"
  "ct_publications (cache lib source key object c) = ct_publications c"
  "ct_sources (cache lib source key object c) = ct_sources c" "ct_watches (cache lib source key object c) = ct_watches c"
  "ct_replacements (cache lib source key object c) = ct_replacements c"
  "ct_objects (cache lib source key object c) = AList.update key \<lparr>ce_object = object, ce_source = source\<rparr> (ct_objects c)"
  by (simp_all add: uncache_def cache_def change_frame)

text \<open>Watches never change memberships, and in the store only source health and discovery failures.\<close>

definition same_members :: "'d Controller \<Rightarrow> 'd Controller \<Rightarrow> bool" where
  "same_members c c' \<longleftrightarrow> ct_roots c' = ct_roots c \<and> ct_podRoots c' = ct_podRoots c \<and> ct_selectedObjectRoots c' = ct_selectedObjectRoots c
     \<and> st_workloads (ct_publications c') = st_workloads (ct_publications c)
     \<and> st_pods (ct_publications c') = st_pods (ct_publications c)"

lemma same_members_refl [simp]: "same_members c c"
  by (simp add: same_members_def)

lemma same_members_trans: "same_members a b \<Longrightarrow> same_members b c \<Longrightarrow> same_members a c"
  by (simp add: same_members_def)

lemma same_members_fold:
  assumes "\<And>x c. same_members c (f x c)"
  shows "same_members c (fold f xs c)"
  by (induction xs arbitrary: c) (auto intro: same_members_trans assms)

lemma same_members_sans: "sans_queues c' = sans_queues c \<Longrightarrow> same_members c c'"
  unfolding same_members_def by (metis sans_queuesD(1-4))

lemma put_watch_frame [frame]:
  "ct_roots (put_watch w c) = ct_roots c" "ct_podRoots (put_watch w c) = ct_podRoots c"
  "ct_selectedObjectRoots (put_watch w c) = ct_selectedObjectRoots c" "ct_publications (put_watch w c) = ct_publications c"
  "ct_objects (put_watch w c) = ct_objects c" "ct_sources (put_watch w c) = ct_sources c"
  "ct_replacements (put_watch w c) = ct_replacements c"
  "ct_watches (put_watch w c) = AList.update (rw_key w) w (ct_watches c)"
  by (simp_all add: put_watch_def)

lemma cancel_watch_frame [frame]:
  "ct_roots (cancel_watch w c) = ct_roots c" "ct_podRoots (cancel_watch w c) = ct_podRoots c"
  "ct_selectedObjectRoots (cancel_watch w c) = ct_selectedObjectRoots c" "ct_publications (cancel_watch w c) = ct_publications c"
  "ct_objects (cancel_watch w c) = ct_objects c" "ct_sources (cancel_watch w c) = ct_sources c"
  "ct_watches (cancel_watch w c) = ct_watches c" "ct_replacements (cancel_watch w c) = ct_replacements c"
  by (simp_all add: cancel_watch_def)

lemma queue_frame [frame]:
  "ct_roots (sync_sources c) = ct_roots c" "ct_podRoots (sync_sources c) = ct_podRoots c"
  "ct_selectedObjectRoots (sync_sources c) = ct_selectedObjectRoots c" "ct_publications (sync_sources c) = ct_publications c"
  "ct_objects (sync_sources c) = ct_objects c" "ct_sources (sync_sources c) = ct_sources c"
  "ct_watches (sync_sources c) = ct_watches c" "ct_replacements (sync_sources c) = ct_replacements c"
  "ct_roots (enqueueScopeRefresh ns c) = ct_roots c" "ct_podRoots (enqueueScopeRefresh ns c) = ct_podRoots c"
  "ct_selectedObjectRoots (enqueueScopeRefresh ns c) = ct_selectedObjectRoots c"
  "ct_publications (enqueueScopeRefresh ns c) = ct_publications c" "ct_objects (enqueueScopeRefresh ns c) = ct_objects c"
  "ct_sources (enqueueScopeRefresh ns c) = ct_sources c" "ct_watches (enqueueScopeRefresh ns c) = ct_watches c"
  "ct_replacements (enqueueScopeRefresh ns c) = ct_replacements c"
  by (simp_all add: sync_sources_def enqueueScopeRefresh_def add_pods_def)

lemma cache_add_frame [frame]:
  "ct_objects (add_jobs js c) = ct_objects c" "ct_sources (add_jobs js c) = ct_sources c"
  "ct_watches (add_jobs js c) = ct_watches c" "ct_replacements (add_jobs js c) = ct_replacements c"
  "ct_objects (add_pods ps c) = ct_objects c" "ct_sources (add_pods ps c) = ct_sources c"
  "ct_watches (add_pods ps c) = ct_watches c" "ct_replacements (add_pods ps c) = ct_replacements c"
  "ct_objects (publish f c) = ct_objects c" "ct_sources (publish f c) = ct_sources c"
  "ct_watches (publish f c) = ct_watches c" "ct_replacements (publish f c) = ct_replacements c"
  by (simp_all add: add_jobs_def add_pods_def publish_def)

lemma source_health_frame [frame]:
  "st_workloads (SetSourceHealth key h s) = st_workloads s" "st_pods (SetSourceHealth key h s) = st_pods s"
  "st_workloads (RemoveSourceHealth key s) = st_workloads s" "st_pods (RemoveSourceHealth key s) = st_pods s"
  "st_workloads (SetDiscoveryFailure ref reason s) = st_workloads s" "st_pods (SetDiscoveryFailure ref reason s) = st_pods s"
  "st_workloads (RemoveDiscoveryFailure u s) = st_workloads s" "st_pods (RemoveDiscoveryFailure u s) = st_pods s"
  by (simp_all add: SetSourceHealth_def RemoveSourceHealth_def SetDiscoveryFailure_def RemoveDiscoveryFailure_def)

lemma updateWatchHealth_members: "same_members c (updateWatchHealth w err c)"
  by (simp add: updateWatchHealth_def Let_def same_members_def frame)

lemma uncache_members: "same_members c (uncache lib key c)"
  and cache_members: "same_members c (cache lib source key object c)"
  by (simp_all add: same_members_def frame)

lemma change_watch_members: "same_members c (change_watch w f c)"
  by (simp add: change_watch_def same_members_def frame)

lemma applyWatchEvent_members: "same_members c (snd (applyWatchEvent lib w v deleted c))"
  using updateWatchHealth_members [of c w]
  by (auto simp: applyWatchEvent_def rejectWatchObject_def setWatchHealth_def Let_def same_members_def frame split: sum.split option.split)

lemma promote_members: "promote w c = Some c' \<Longrightarrow> same_members c c'"
  by (auto simp: promote_def same_members_def frame split: if_splits option.splits)

lemma watch_Replace_members: "watch_Replace lib w vs c = Some (e, c') \<Longrightarrow> same_members c c'"
proof -
  assume r: "watch_Replace lib w vs c = Some (e, c')"
  show "same_members c c'"
  proof (cases "prepareWatchSnapshot vs (rw_gvk w) (rw_full w) []")
    case (Inl e)
    with r updateWatchHealth_members show ?thesis
      by (auto simp: watch_Replace_def rejectWatchObject_def setWatchHealth_def)
  next
    case (Inr objects)
    show ?thesis
    proof (cases "isTrackedWatch c w")
      case True
      with r Inr obtain c1 where c1: "promote w c = Some c1" by (auto simp: watch_Replace_def split: option.splits)
      let ?c2 = "fold (uncache lib) (filter (\<lambda>key. map_of objects key = None) (rw_objects (current_watch c1 w))) c1"
      let ?c3 = "change_watch w (\<lambda>x. x\<lparr>rw_objects := map fst objects\<rparr>) ?c2"
      let ?c4 = "fold (\<lambda>(key, object). cache lib (rw_key w) key object) objects ?c3"
      let ?c5 = "change_watch w (\<lambda>x. x\<lparr>rw_ready := True\<rparr>) ?c4"
      have "same_members c1 ?c2" by (rule same_members_fold) (rule uncache_members)
      moreover have "same_members ?c3 ?c4" by (rule same_members_fold) (auto intro: cache_members)
      ultimately have "same_members c (updateWatchHealth w None ?c5)"
        by (meson promote_members [OF c1] change_watch_members updateWatchHealth_members same_members_trans)
      moreover have "c' = enqueueScopeRefresh (sk_Namespace (rw_key w)) (updateWatchHealth w None ?c5)"
        using r Inr True c1 by (simp add: watch_Replace_def Let_def)
      ultimately show ?thesis by (simp add: same_members_def frame)
    qed (use r Inr in \<open>auto simp: watch_Replace_def\<close>)
  qed
qed

end
