(* ===== verification/Controller_Cache.thy ===== *)
theory Controller_Cache
  imports Controller_Watches
begin

text \<open>
  What the operations of \<^verbatim>\<open>Controller_Watches\<close> keep of the cache: the sources mirror the watches, a replacement stands beside the
  watch it will replace, and a cached object is listed by the watch it came from, has the kind of that watch, and a payload exactly
  when that is a watch of full objects. Namespaces are served under one resource, so only one watch lists them, and what it lists is
  cached.
\<close>

section \<open>The invariant\<close>

definition cached_ok :: "(SourceKey \<rightharpoonup> resourceWatch) \<Rightarrow> objectKey \<Rightarrow> 'd cachedObject \<Rightarrow> bool" where
  "cached_ok watches key e \<longleftrightarrow> keyOf (refOf (ce_object e)) = key
     \<and> (case watches (ce_source e) of
          None \<Rightarrow> False
        | Some w \<Rightarrow> key \<in> set (rw_objects w) \<and> kb_GVK (ce_object e) = rw_gvk w \<and> (kb_Data (ce_object e) \<noteq> None \<longleftrightarrow> rw_full w))"

definition watches_ok ::
  "(SourceKey \<rightharpoonup> cacheSource) \<Rightarrow> (SourceKey \<rightharpoonup> resourceWatch) \<Rightarrow> (SourceKey \<rightharpoonup> resourceWatch) \<Rightarrow> bool" where
  "watches_ok sources watches replacements \<longleftrightarrow>
     (\<forall>k. sources k = map_option source_of_watch (watches k))
     \<and> (\<forall>k w. watches k = Some w \<longrightarrow> rw_key w = k) \<and> (\<forall>k w. replacements k = Some w \<longrightarrow> rw_key w = k)
     \<and> dom replacements \<subseteq> dom watches"

definition entries_ok :: "(objectKey \<rightharpoonup> 'd cachedObject) \<Rightarrow> (SourceKey \<rightharpoonup> resourceWatch) \<Rightarrow> bool" where
  "entries_ok objects watches \<longleftrightarrow> (\<forall>key e. objects key = Some e \<longrightarrow> cached_ok watches key e)"

definition ns_key :: "ctllib \<Rightarrow> SourceKey" where
  "ns_key lib = \<lparr>sk_Resource = cl_namespaces lib, sk_Namespace = []\<rparr>"

definition listed_ok ::
  "ctllib \<Rightarrow> (objectKey \<rightharpoonup> 'd cachedObject) \<Rightarrow> (SourceKey \<rightharpoonup> resourceWatch) \<Rightarrow> (SourceKey \<rightharpoonup> resourceWatch) \<Rightarrow> bool" where
  "listed_ok lib objects watches replacements \<longleftrightarrow>
     (\<forall>k w. watches k = Some w \<longrightarrow> (\<forall>key \<in> set (rw_objects w). ky_GVK key = rw_gvk w)
        \<and> (rw_gvk w = namespaceGVK \<longrightarrow> k = ns_key lib \<and> (\<forall>key \<in> set (rw_objects w). objects key \<noteq> None)))
     \<and> (\<forall>k w. replacements k = Some w \<longrightarrow> rw_gvk w = namespaceGVK \<longrightarrow> k = ns_key lib)"

definition cache_inv :: "ctllib \<Rightarrow> 'd Controller \<Rightarrow> bool" where
  "cache_inv lib c \<longleftrightarrow>
     watches_ok (map_of (ct_sources c)) (map_of (ct_watches c)) (map_of (ct_replacements c))
     \<and> entries_ok (map_of (ct_objects c)) (map_of (ct_watches c))
     \<and> listed_ok lib (map_of (ct_objects c)) (map_of (ct_watches c)) (map_of (ct_replacements c))"

text \<open>What the REST mapper answers: namespaces have cluster scope and one resource.\<close>

definition mapping_ok :: "ctllib \<Rightarrow> GroupVersionKind \<Rightarrow> (GroupVersionResource \<times> bool) xres \<Rightarrow> bool" where
  "mapping_ok lib gvk mapping \<longleftrightarrow> (case mapping of Inl e \<Rightarrow> True | Inr m \<Rightarrow> gvk = namespaceGVK \<longrightarrow> m = (cl_namespaces lib, True))"

text \<open>
  A watch is used through its pointer: its kind and its extent never change after \<open>ensureWatch\<close> made it. A converted object is
  complete: the conversion of a whole object has a payload.
\<close>

definition same_pointer :: "'d Controller \<Rightarrow> resourceWatch \<Rightarrow> bool" where
  "same_pointer c w \<longleftrightarrow>
     list_all (\<lambda>m. case map_of m (rw_key w) of
         None \<Rightarrow> True
       | Some x \<Rightarrow> rw_id x = rw_id w \<longrightarrow> rw_gvk x = rw_gvk w \<and> rw_full x = rw_full w) [ct_watches c, ct_replacements c]"

definition complete :: "'d KubeObject xres \<Rightarrow> bool" where
  "complete v \<longleftrightarrow> (case v of Inl e \<Rightarrow> True | Inr object \<Rightarrow> kb_Data object \<noteq> None)"

lemma cache_invI:
  assumes "\<And>k. map_of (ct_sources c) k = map_option source_of_watch (map_of (ct_watches c) k)"
    and "\<And>k w. map_of (ct_watches c) k = Some w \<Longrightarrow> rw_key w = k"
    and "\<And>k w. map_of (ct_replacements c) k = Some w \<Longrightarrow> rw_key w = k"
    and "\<And>k. map_of (ct_watches c) k = None \<Longrightarrow> map_of (ct_replacements c) k = None"
    and "\<And>key e. map_of (ct_objects c) key = Some e \<Longrightarrow> cached_ok (map_of (ct_watches c)) key e"
    and "\<And>k w key. map_of (ct_watches c) k = Some w \<Longrightarrow> key \<in> set (rw_objects w) \<Longrightarrow> ky_GVK key = rw_gvk w"
    and "\<And>k w. map_of (ct_watches c) k = Some w \<Longrightarrow> rw_gvk w = namespaceGVK \<Longrightarrow> k = ns_key lib"
    and "\<And>k w key. map_of (ct_watches c) k = Some w \<Longrightarrow> rw_gvk w = namespaceGVK \<Longrightarrow> key \<in> set (rw_objects w)
           \<Longrightarrow> map_of (ct_objects c) key \<noteq> None"
    and "\<And>k w. map_of (ct_replacements c) k = Some w \<Longrightarrow> rw_gvk w = namespaceGVK \<Longrightarrow> k = ns_key lib"
  shows "cache_inv lib c"
  unfolding cache_inv_def watches_ok_def entries_ok_def listed_ok_def
proof (intro conjI allI impI subsetI ballI)
  fix k assume "k \<in> dom (map_of (ct_replacements c))"
  with assms(4) [of k] show "k \<in> dom (map_of (ct_watches c))" by (auto simp only: domIff)
qed (rule assms; assumption)+

lemma cache_invD:
  assumes "cache_inv lib c"
  shows "map_of (ct_sources c) k = map_option source_of_watch (map_of (ct_watches c) k)"
    and "map_of (ct_watches c) k = Some w \<Longrightarrow> rw_key w = k"
    and "map_of (ct_replacements c) k = Some w \<Longrightarrow> rw_key w = k"
    and "map_of (ct_watches c) k = None \<Longrightarrow> map_of (ct_replacements c) k = None"
    and "map_of (ct_objects c) key = Some e \<Longrightarrow> cached_ok (map_of (ct_watches c)) key e"
    and "map_of (ct_watches c) k = Some w \<Longrightarrow> key \<in> set (rw_objects w) \<Longrightarrow> ky_GVK key = rw_gvk w"
    and "map_of (ct_watches c) k = Some w \<Longrightarrow> rw_gvk w = namespaceGVK \<Longrightarrow> k = ns_key lib"
    and "map_of (ct_watches c) k = Some w \<Longrightarrow> rw_gvk w = namespaceGVK \<Longrightarrow> key \<in> set (rw_objects w) \<Longrightarrow> map_of (ct_objects c) key \<noteq> None"
    and "map_of (ct_replacements c) k = Some w \<Longrightarrow> rw_gvk w = namespaceGVK \<Longrightarrow> k = ns_key lib"
  using assms unfolding cache_inv_def watches_ok_def entries_ok_def listed_ok_def by blast+

text \<open>Operations that do not touch the cache.\<close>

definition same_cache :: "'d Controller \<Rightarrow> 'd Controller \<Rightarrow> bool" where
  "same_cache c c' \<longleftrightarrow> map_of (ct_objects c') = map_of (ct_objects c) \<and> map_of (ct_sources c') = map_of (ct_sources c)
     \<and> map_of (ct_watches c') = map_of (ct_watches c) \<and> map_of (ct_replacements c') = map_of (ct_replacements c)"

lemma same_cache_inv: "same_cache c c' \<Longrightarrow> cache_inv lib c \<Longrightarrow> cache_inv lib c'"
  by (simp add: same_cache_def cache_inv_def)

lemma same_cache_trans: "same_cache a b \<Longrightarrow> same_cache b c \<Longrightarrow> same_cache a c"
  by (simp add: same_cache_def)

lemma same_cache_refl [simp]: "same_cache c c"
  by (simp add: same_cache_def)

lemma same_cache_sans: "sans_queues c' = sans_queues c \<Longrightarrow> same_cache c c'"
  unfolding same_cache_def by (metis sans_queuesD(5-8))

section \<open>Health of a watch\<close>

lemma is_watchD: "is_watch m w \<Longrightarrow> \<exists>x. map_of m (rw_key w) = Some x \<and> rw_id x = rw_id w"
  by (auto simp: is_watch_def split: option.splits)

lemma current_watch_key:
  assumes "cache_inv lib c" "isTrackedWatch c w"
  shows "rw_key (current_watch c w) = rw_key w"
proof (cases "is_watch (ct_watches c) w")
  case True
  then obtain x where "map_of (ct_watches c) (rw_key w) = Some x" using is_watchD by blast
  with True cache_invD(2) [OF assms(1) this] show ?thesis by (simp add: current_watch_def)
next
  case False
  with assms(2) have "is_watch (ct_replacements c) w" by (simp add: isTrackedWatch_def)
  then obtain x where "map_of (ct_replacements c) (rw_key w) = Some x" using is_watchD by blast
  with False cache_invD(3) [OF assms(1) this] show ?thesis by (simp add: current_watch_def)
qed

lemma updateWatchHealth_maps:
  assumes "isTrackedWatch c w" and "x = (current_watch c w)\<lparr>rw_err := err\<rparr>"
  shows "ct_objects (updateWatchHealth w err c) = ct_objects c"
    and "ct_sources (updateWatchHealth w err c)
      = (if is_watch (ct_watches c) w then AList.update (rw_key w) (source_of_watch x) (ct_sources c) else ct_sources c)"
    and "ct_watches (updateWatchHealth w err c)
      = (if is_watch (ct_watches c) w then AList.update (rw_key x) x (ct_watches c) else ct_watches c)"
    and "ct_replacements (updateWatchHealth w err c)
      = (if is_watch (ct_watches c) w then ct_replacements c else AList.update (rw_key w) x (ct_replacements c))"
  using assms by (simp_all add: updateWatchHealth_def Let_def frame)

text \<open>A new value for a watch that keeps its key, kind and extent and loses no object, with the source in step.\<close>

lemma entry_ok_upd:
  assumes "cached_ok watches key e" "watches k = Some w" "rw_gvk x = rw_gvk w" "rw_full x = rw_full w"
    "ce_source e = k \<Longrightarrow> key \<in> set (rw_objects w) \<Longrightarrow> key \<in> set (rw_objects x)"
  shows "cached_ok (watches(k \<mapsto> x)) key e"
  using assms by (auto simp: cached_ok_def split: option.splits)

lemma cache_updated_inv:
  assumes inv: "cache_inv lib c" and w: "map_of (ct_watches c) k = Some w"
    and x: "rw_key x = k" "rw_gvk x = rw_gvk w" "rw_full x = rw_full w" "rw_objects x = rw_objects w"
    and c': "map_of (ct_objects c') = map_of (ct_objects c)" "map_of (ct_watches c') = (map_of (ct_watches c))(k \<mapsto> x)"
      "map_of (ct_sources c') = (map_of (ct_sources c))(k \<mapsto> source_of_watch x)"
      "map_of (ct_replacements c') = map_of (ct_replacements c)"
  shows "cache_inv lib c'"
proof (rule cache_invI)
  fix q e assume "map_of (ct_objects c') q = Some e"
  then have "map_of (ct_objects c) q = Some e" by (simp add: c')
  from entry_ok_upd [OF cache_invD(5) [OF inv this] w x(2,3)] x(4) show "cached_ok (map_of (ct_watches c')) q e" by (simp add: c')
next
  fix k' show "map_of (ct_sources c') k' = map_option source_of_watch (map_of (ct_watches c') k')"
    using cache_invD(1) [OF inv] by (simp add: c')
next
  fix k' y q assume y: "map_of (ct_watches c') k' = Some y" "rw_gvk y = namespaceGVK" "q \<in> set (rw_objects y)"
  show "map_of (ct_objects c') q \<noteq> None"
  proof (cases "k' = k")
    case True
    with y x have "rw_gvk w = namespaceGVK" "q \<in> set (rw_objects w)" by (auto simp: c')
    from cache_invD(8) [OF inv w this] show ?thesis by (simp add: c')
  next
    case False
    with y have "map_of (ct_watches c) k' = Some y" by (simp add: c')
    from cache_invD(8) [OF inv this y(2,3)] show ?thesis by (simp add: c')
  qed
next
  fix k' y q assume y: "map_of (ct_watches c') k' = Some y" "q \<in> set (rw_objects y)"
  then show "ky_GVK q = rw_gvk y" using cache_invD(6) [OF inv w, of q] cache_invD(6) [OF inv] x by (cases "k' = k") (auto simp: c')
next
  fix k' y assume y: "map_of (ct_watches c') k' = Some y" "rw_gvk y = namespaceGVK"
  then show "k' = ns_key lib" using cache_invD(7) [OF inv w] cache_invD(7) [OF inv] x by (cases "k' = k") (auto simp: c')
next
  fix k' y assume "map_of (ct_watches c') k' = Some y"
  then show "rw_key y = k'" using cache_invD(2) [OF inv] x by (cases "k' = k") (auto simp: c')
next
  fix k' assume "map_of (ct_watches c') k' = None"
  then show "map_of (ct_replacements c') k' = None" using cache_invD(4) [OF inv] by (cases "k' = k") (auto simp: c')
qed (use cache_invD(3,9) [OF inv] in \<open>simp_all add: c'\<close>)

lemma new_replacement_inv:
  assumes inv: "cache_inv lib c" and some: "map_of (ct_watches c) k \<noteq> None"
    and w: "rw_key w = k" "rw_gvk w = namespaceGVK \<longrightarrow> k = ns_key lib"
    and c': "map_of (ct_objects c') = map_of (ct_objects c)" "map_of (ct_watches c') = map_of (ct_watches c)"
      "map_of (ct_sources c') = map_of (ct_sources c)" "map_of (ct_replacements c') = (map_of (ct_replacements c))(k \<mapsto> w)"
  shows "cache_inv lib c'"
  by (rule cache_invI) (use cache_invD [OF inv] some w in \<open>auto simp: c' split: if_splits\<close>)

lemma updateWatchHealth_cache:
  assumes "cache_inv lib c"
  shows "cache_inv lib (updateWatchHealth w err c)"
proof (cases "isTrackedWatch c w")
  case tracked: True
  let ?x = "(current_watch c w)\<lparr>rw_err := err\<rparr>"
  note maps = updateWatchHealth_maps [OF tracked refl, of err]
  note D = cache_invD [OF assms]
  have key: "rw_key ?x = rw_key w" using current_watch_key [OF assms tracked] by simp
  show ?thesis
  proof (cases "is_watch (ct_watches c) w")
    case True
    then obtain y where y: "map_of (ct_watches c) (rw_key w) = Some y" "current_watch c w = y"
      using is_watchD [OF True] by (auto simp: current_watch_def)
    show ?thesis
      by (rule cache_updated_inv [OF assms y(1), of ?x]) (use y key in \<open>simp_all add: maps True update_conv'\<close>)
  next
    case False
    then obtain r where r: "map_of (ct_replacements c) (rw_key w) = Some r" "current_watch c w = r"
      using tracked is_watchD [of "ct_replacements c" w] by (auto simp: isTrackedWatch_def current_watch_def)
    from r(1) D(4) [of "rw_key w"] have some: "map_of (ct_watches c) (rw_key w) \<noteq> None" by auto
    show ?thesis
      by (rule new_replacement_inv [OF assms some key])
        (use D(9) [OF r(1)] r(2) False in \<open>simp_all add: maps update_conv'\<close>)
  qed
qed (simp add: updateWatchHealth_def assms)

section \<open>Events\<close>

lemma prepared_object:
  assumes "prepareWatchObject v gvk full = Inr object" "complete v"
  shows "kb_GVK object = gvk" "kb_Data object \<noteq> None \<longleftrightarrow> full"
  using assms by (auto simp: prepareWatchObject_def complete_def split: sum.splits if_splits)

lemma same_pointer_watch:
  assumes "same_pointer c w" "is_watch (ct_watches c) w"
  obtains x where "map_of (ct_watches c) (rw_key w) = Some x" "current_watch c w = x" "rw_gvk x = rw_gvk w" "rw_full x = rw_full w"
  using assms is_watchD [OF assms(2)] by (auto simp: same_pointer_def current_watch_def)

text \<open>An object put into the cache by its watch, and one taken out.\<close>

lemma put_entry_inv:
  assumes inv: "cache_inv lib c" and w: "map_of (ct_watches c) k = Some x"
    and e: "keyOf (refOf object) = key" "kb_GVK object = rw_gvk x" "kb_Data object \<noteq> None \<longleftrightarrow> rw_full x"
    and c': "map_of (ct_objects c') = (map_of (ct_objects c))(key \<mapsto> \<lparr>ce_object = object, ce_source = k\<rparr>)"
      "map_of (ct_watches c') = (map_of (ct_watches c))(k \<mapsto> x\<lparr>rw_objects := List.insert key (rw_objects x)\<rparr>)"
      "map_of (ct_sources c') = map_of (ct_sources c)" "map_of (ct_replacements c') = map_of (ct_replacements c)"
  shows "cache_inv lib c'"
proof (rule cache_invI)
  note D = cache_invD [OF inv]
  fix q e assume q: "map_of (ct_objects c') q = Some e"
  show "cached_ok (map_of (ct_watches c')) q e"
  proof (cases "q = key")
    case True
    with q e show ?thesis by (auto simp: c' cached_ok_def)
  next
    case False
    with q have "map_of (ct_objects c) q = Some e" by (simp add: c')
    from entry_ok_upd [OF D(5) [OF this] w] show ?thesis by (simp add: c')
  qed
next
  fix k' show "map_of (ct_sources c') k' = map_option source_of_watch (map_of (ct_watches c') k')"
    using cache_invD(1) [OF inv] w by (simp add: c' source_of_watch_def)
next
  fix k' y q assume y: "map_of (ct_watches c') k' = Some y" "rw_gvk y = namespaceGVK" "q \<in> set (rw_objects y)"
  show "map_of (ct_objects c') q \<noteq> None"
  proof (cases "q = key \<or> k' \<noteq> k")
    case True
    with y cache_invD(8) [OF inv, of k' y q] show ?thesis by (auto simp: c')
  next
    case False
    with y w cache_invD(8) [OF inv w, of q] show ?thesis by (auto simp: c')
  qed
next
  have "ky_GVK key = rw_gvk x" using e(1,2) by (auto simp: keyOf_def refOf_def)
  then show "ky_GVK q = rw_gvk y" if "map_of (ct_watches c') k' = Some y" "q \<in> set (rw_objects y)" for k' y q
    using that cache_invD(6) [OF inv] w by (fastforce simp: c' split: if_splits)
qed (use cache_invD(2-4,7,9) [OF inv] w in \<open>auto simp: c' split: if_splits\<close>)

lemma drop_entry_inv:
  assumes inv: "cache_inv lib c" and w: "map_of (ct_watches c) k = Some x" and gvk: "ky_GVK key = rw_gvk x"
    and c': "map_of (ct_objects c') = (map_of (ct_objects c))(key := None)"
      "map_of (ct_watches c') = (map_of (ct_watches c))(k \<mapsto> x\<lparr>rw_objects := removeAll key (rw_objects x)\<rparr>)"
      "map_of (ct_sources c') = map_of (ct_sources c)" "map_of (ct_replacements c') = map_of (ct_replacements c)"
  shows "cache_inv lib c'"
proof (rule cache_invI)
  note D = cache_invD [OF inv]
  fix q e assume "map_of (ct_objects c') q = Some e"
  then have q: "map_of (ct_objects c) q = Some e" "q \<noteq> key" by (auto simp: c' split: if_splits)
  with entry_ok_upd [OF D(5) [OF q(1)] w, of "x\<lparr>rw_objects := removeAll key (rw_objects x)\<rparr>"]
  show "cached_ok (map_of (ct_watches c')) q e" by (simp add: c')
next
  fix k' show "map_of (ct_sources c') k' = map_option source_of_watch (map_of (ct_watches c') k')"
    using cache_invD(1) [OF inv] w by (simp add: c' source_of_watch_def)
next
  fix k' y q assume y: "map_of (ct_watches c') k' = Some y" "rw_gvk y = namespaceGVK" "q \<in> set (rw_objects y)"
  show "map_of (ct_objects c') q \<noteq> None"
  proof (cases "k' = k")
    case True
    with y w have "rw_gvk x = namespaceGVK" "q \<in> set (rw_objects x)" "q \<noteq> key" by (auto simp: c')
    with cache_invD(8) [OF inv w, of q] show ?thesis by (simp add: c')
  next
    case False
    with y have old: "map_of (ct_watches c) k' = Some y" by (simp add: c')
    with False y(2) cache_invD(7) [OF inv] w have "rw_gvk x \<noteq> namespaceGVK" by metis
    with cache_invD(6) [OF inv old y(3)] y(2) gvk have "q \<noteq> key" by auto
    with cache_invD(8) [OF inv old y(2,3)] show ?thesis by (simp add: c')
  qed
next
  fix k' y q assume "map_of (ct_watches c') k' = Some y" "q \<in> set (rw_objects y)"
  then show "ky_GVK q = rw_gvk y" using cache_invD(6) [OF inv] w by (fastforce simp: c' split: if_splits)
qed (use cache_invD(2-4,7,9) [OF inv] w in \<open>auto simp: c' split: if_splits\<close>)

lemma applyWatchEvent_cache:
  assumes inv: "cache_inv lib c" and ptr: "same_pointer c w" and v: "complete v"
  shows "cache_inv lib (snd (applyWatchEvent lib w v deleted c))"
proof (cases "prepareWatchObject v (rw_gvk w) (rw_full w)")
  case (Inl e)
  with updateWatchHealth_cache [OF inv] show ?thesis
    by (simp add: applyWatchEvent_def rejectWatchObject_def setWatchHealth_def)
next
  case (Inr object)
  note obj = prepared_object [OF Inr v]
  let ?key = "keyOf (refOf object)"
  show ?thesis
  proof (cases "no_identity object \<or> \<not> is_watch (ct_watches c) w")
    case True
    with Inr inv updateWatchHealth_cache [OF inv] show ?thesis
      by (auto simp: applyWatchEvent_def rejectWatchObject_def setWatchHealth_def)
  next
    case False
    with ptr obtain x where x: "map_of (ct_watches c) (rw_key w) = Some x" "current_watch c w = x" "rw_gvk x = rw_gvk w"
      "rw_full x = rw_full w" by (auto elim: same_pointer_watch)
    have k: "rw_key x = rw_key w" using cache_invD(2) [OF inv x(1)] .
    show ?thesis
    proof (cases deleted)
      case True
      have "cache_inv lib (uncache lib ?key (put_watch (x\<lparr>rw_objects := removeAll ?key (rw_objects x)\<rparr>) c))"
        by (rule drop_entry_inv [OF inv x(1), where key = ?key])
          (use obj(1) in \<open>simp_all add: frame k update_conv' delete_conv' x(3) keyOf_def refOf_def\<close>)
      with False Inr True inv x(2) show ?thesis by (auto simp: applyWatchEvent_def Let_def split: option.splits)
    next
      case add: False
      have "cache_inv lib (cache lib (rw_key w) ?key object (put_watch (x\<lparr>rw_objects := List.insert ?key (rw_objects x)\<rparr>) c))"
        by (rule put_entry_inv [OF inv x(1), where key = ?key and object = object])
          (use obj in \<open>simp_all add: frame k update_conv' x(3,4)\<close>)
      with False Inr add x(2) show ?thesis by (simp add: applyWatchEvent_def Let_def)
    qed
  qed
qed

section \<open>Snapshots\<close>

definition snapshot_ok :: "GroupVersionKind \<Rightarrow> bool \<Rightarrow> (objectKey \<times> 'd KubeObject) list \<Rightarrow> bool" where
  "snapshot_ok gvk full objects \<longleftrightarrow> distinct (map fst objects)
     \<and> (\<forall>(key, object) \<in> set objects. keyOf (refOf object) = key \<and> kb_GVK object = gvk \<and> (kb_Data object \<noteq> None \<longleftrightarrow> full))"

lemma prepareWatchSnapshot_ok:
  assumes "prepareWatchSnapshot vs gvk full acc = Inr objects" "list_all complete vs" "snapshot_ok gvk full acc"
  shows "snapshot_ok gvk full objects"
  using assms
proof (induction vs gvk full acc rule: prepareWatchSnapshot.induct)
  case (2 v vs gvk full acc)
  from "2.prems"(1) obtain object where p: "prepareWatchObject v gvk full = Inr object"
    and acc: "map_of acc (keyOf (refOf object)) = None" "\<not> no_identity object"
    and rest: "prepareWatchSnapshot vs gvk full (acc @ [(keyOf (refOf object), object)]) = Inr objects"
    by (auto split: sum.splits if_splits)
  have "snapshot_ok gvk full (acc @ [(keyOf (refOf object), object)])"
    using "2.prems"(2,3) acc(1) prepared_object [OF p] by (auto simp: snapshot_ok_def map_of_eq_None_iff)
  with "2.IH" [OF p acc(2) _ rest] "2.prems"(2) acc(1) show ?case by simp
qed simp

lemma fold_uncache_frame:
  "ct_sources (fold (uncache lib) ks c) = ct_sources c" "ct_watches (fold (uncache lib) ks c) = ct_watches c"
  "ct_replacements (fold (uncache lib) ks c) = ct_replacements c"
  "map_of (ct_objects (fold (uncache lib) ks c)) = map_of (ct_objects c) |` (- set ks)"
proof -
  show "map_of (ct_objects (fold (uncache lib) ks c)) = map_of (ct_objects c) |` (- set ks)"
    by (induction ks arbitrary: c) (auto simp: frame delete_conv' restrict_map_def fun_eq_iff)
qed (simp_all add: fold_frame frame)

lemma fold_cache_frame:
  assumes "distinct (map fst objects)"
  shows "ct_sources (fold (\<lambda>(key, object). cache lib k key object) objects c) = ct_sources c"
    and "ct_watches (fold (\<lambda>(key, object). cache lib k key object) objects c) = ct_watches c"
    and "ct_replacements (fold (\<lambda>(key, object). cache lib k key object) objects c) = ct_replacements c"
    and "map_of (ct_objects (fold (\<lambda>(key, object). cache lib k key object) objects c))
      = (\<lambda>key. case map_of objects key of None \<Rightarrow> map_of (ct_objects c) key | Some object \<Rightarrow> Some \<lparr>ce_object = object, ce_source = k\<rparr>)"
proof -
  show "map_of (ct_objects (fold (\<lambda>(key, object). cache lib k key object) objects c))
      = (\<lambda>key. case map_of objects key of None \<Rightarrow> map_of (ct_objects c) key | Some object \<Rightarrow> Some \<lparr>ce_object = object, ce_source = k\<rparr>)"
    using assms
  proof (induction objects arbitrary: c)
    case (Cons a objects)
    obtain key object where a: "a = (key, object)" by fastforce
    with Cons have "map_of objects key = None" by (simp add: map_of_eq_None_iff)
    with Cons a show ?case by (auto simp: frame update_conv' fun_eq_iff split: option.split)
  qed simp
qed (auto simp: frame intro!: fold_frame split: prod.split)

text \<open>A tracked watch takes its place, with the objects of the watch it replaces.\<close>

lemma promote_maps:
  assumes inv: "cache_inv lib c" and ptr: "same_pointer c w" and tracked: "isTrackedWatch c w"
  obtains c1 prev y where "promote w c = Some c1" "map_of (ct_watches c) (rw_key w) = Some prev"
    "map_of (ct_watches c1) = (map_of (ct_watches c))(rw_key w \<mapsto> y)" "current_watch c1 w = y" "is_watch (ct_watches c1) w"
    "rw_key y = rw_key w" "rw_gvk y = rw_gvk w" "rw_full y = rw_full w" "rw_objects y = rw_objects prev"
    "ct_objects c1 = ct_objects c" "ct_sources c1 = ct_sources c"
    "map_of (ct_replacements c1) \<subseteq>\<^sub>m map_of (ct_replacements c)" "rw_gvk w = namespaceGVK \<longrightarrow> rw_key w = ns_key lib"
proof (cases "is_watch (ct_watches c) w")
  case True
  with ptr obtain x where x: "map_of (ct_watches c) (rw_key w) = Some x" "current_watch c w = x" "rw_gvk x = rw_gvk w" "rw_full x = rw_full w"
    by (auto elim: same_pointer_watch)
  with True cache_invD(2,7) [OF inv x(1)] show thesis
    by (intro that [of c x x]) (auto simp: promote_def)
next
  case False
  with tracked have repl: "is_watch (ct_replacements c) w" by (simp add: isTrackedWatch_def)
  then obtain r where r: "map_of (ct_replacements c) (rw_key w) = Some r" "rw_id r = rw_id w" using is_watchD by blast
  with ptr have same: "rw_gvk r = rw_gvk w" "rw_full r = rw_full w" by (auto simp: same_pointer_def)
  from r(1) cache_invD(4) [OF inv, of "rw_key w"] obtain prev where prev: "map_of (ct_watches c) (rw_key w) = Some prev" by fastforce
  have key: "rw_key r = rw_key w" using cache_invD(3) [OF inv r(1)] .
  have cur: "current_watch c w = r" using False r(1) by (simp add: current_watch_def)
  let ?y = "r\<lparr>rw_objects := rw_objects prev\<rparr>"
  let ?c1 = "put_watch ?y ((cancel_watch prev c)\<lparr>ct_replacements := AList.delete (rw_key w) (ct_replacements c)\<rparr>)"
  show thesis
  proof (rule that [of ?c1 prev ?y])
    show "promote w c = Some ?c1" using False prev cur by (simp add: promote_def)
    show "map_of (ct_watches ?c1) = (map_of (ct_watches c))(rw_key w \<mapsto> ?y)" by (simp add: frame key update_conv')
    then show "is_watch (ct_watches ?c1) w" "current_watch ?c1 w = ?y" using r(2) by (simp_all add: is_watch_def current_watch_def)
    show "map_of (ct_replacements ?c1) \<subseteq>\<^sub>m map_of (ct_replacements c)" by (simp add: frame delete_conv' map_le_def)
  qed (use prev key same cache_invD(9) [OF inv r(1)] in \<open>simp_all add: frame\<close>)
qed

lemma change_watch_maps:
  assumes "is_watch (ct_watches c) w" "map_of (ct_watches c) (rw_key w) = Some y" "rw_key (f y) = rw_key w" "rw_id (f y) = rw_id y"
  shows "map_of (ct_watches (change_watch w f c)) = (map_of (ct_watches c))(rw_key w \<mapsto> f y)"
    "is_watch (ct_watches (change_watch w f c)) w" "ct_objects (change_watch w f c) = ct_objects c"
    "ct_sources (change_watch w f c) = ct_sources c" "ct_replacements (change_watch w f c) = ct_replacements c"
  using assms by (simp_all add: change_watch_def current_watch_def frame update_conv' is_watch_def)

text \<open>What a snapshot leaves: its objects, and those of the other watches; the source is healthy.\<close>

lemma replaced_inv:
  assumes inv: "cache_inv lib c" and prev: "map_of (ct_watches c) k = Some prev" and snap: "snapshot_ok (rw_gvk x) (rw_full x) objects"
    and x: "rw_key x = k" "rw_objects x = map fst objects" "rw_gvk x = namespaceGVK \<longrightarrow> k = ns_key lib"
    and c': "\<And>key. map_of (ct_objects c') key = (case map_of objects key of
          Some object \<Rightarrow> Some \<lparr>ce_object = object, ce_source = k\<rparr>
        | None \<Rightarrow> if key \<in> set (rw_objects prev) then None else map_of (ct_objects c) key)"
      "map_of (ct_watches c') = (map_of (ct_watches c))(k \<mapsto> x)"
      "map_of (ct_sources c') = (map_of (ct_sources c))(k \<mapsto> source_of_watch x)"
      "map_of (ct_replacements c') \<subseteq>\<^sub>m map_of (ct_replacements c)"
  shows "cache_inv lib c'"
proof (rule cache_invI)
  note D = cache_invD [OF inv]
  fix key e assume e: "map_of (ct_objects c') key = Some e"
  show "cached_ok (map_of (ct_watches c')) key e"
  proof (cases "map_of objects key")
    case (Some object)
    with snap have "keyOf (refOf object) = key \<and> kb_GVK object = rw_gvk x \<and> (kb_Data object \<noteq> None \<longleftrightarrow> rw_full x)"
      by (auto simp: snapshot_ok_def dest!: map_of_SomeD)
    moreover have "key \<in> set (map fst objects)" using Some by (force dest: map_of_SomeD)
    ultimately show ?thesis using e Some x by (auto simp: c' cached_ok_def)
  next
    case None
    with e have old: "map_of (ct_objects c) key = Some e" "key \<notin> set (rw_objects prev)" by (auto simp: c' split: if_splits)
    with D(5) [OF old(1)] prev show ?thesis by (auto simp: c' cached_ok_def)
  qed
next
  fix k' show "map_of (ct_sources c') k' = map_option source_of_watch (map_of (ct_watches c') k')"
    using cache_invD(1) [OF inv] by (simp add: c')
next
  fix k' w assume "map_of (ct_watches c') k' = Some w"
  then show "rw_key w = k'" using cache_invD(2) [OF inv] x(1) by (auto simp: c' split: if_splits)
next
  fix k' w assume "map_of (ct_replacements c') k' = Some w"
  with c'(4) have "map_of (ct_replacements c) k' = Some w" by (metis map_le_def domI)
  then show "rw_key w = k'" by (rule cache_invD(3) [OF inv])
next
  fix k' assume "map_of (ct_watches c') k' = None"
  then have "map_of (ct_replacements c) k' = None" using cache_invD(4) [OF inv] by (auto simp: c' split: if_splits)
  then show "map_of (ct_replacements c') k' = None" using c'(4) by (force simp: map_le_def)
next
  fix k' w assume r: "map_of (ct_replacements c') k' = Some w" "rw_gvk w = namespaceGVK"
  with c'(4) have "map_of (ct_replacements c) k' = Some w" by (metis map_le_def domI)
  then show "k' = ns_key lib" using r(2) by (rule cache_invD(9) [OF inv])
next
  fix k' w assume "map_of (ct_watches c') k' = Some w" "rw_gvk w = namespaceGVK"
  then show "k' = ns_key lib" using cache_invD(7) [OF inv] x(3) by (auto simp: c' split: if_splits)
next
  fix k' w key assume "map_of (ct_watches c') k' = Some w" "key \<in> set (rw_objects w)"
  then show "ky_GVK key = rw_gvk w"
    using cache_invD(6) [OF inv] x(2) snap by (fastforce simp: c' snapshot_ok_def keyOf_def refOf_def split: if_splits)
next
  fix k' w key assume w: "map_of (ct_watches c') k' = Some w" "rw_gvk w = namespaceGVK" "key \<in> set (rw_objects w)"
  show "map_of (ct_objects c') key \<noteq> None"
  proof (cases "k' = k")
    case True
    with w x(2) have "key \<in> fst ` set objects" by (auto simp: c')
    then have "map_of objects key \<noteq> None" by (simp add: map_of_eq_None_iff)
    then show ?thesis by (auto simp: c')
  next
    case False
    with w have old: "map_of (ct_watches c) k' = Some w" by (simp add: c')
    from False w(2) cache_invD(7) [OF inv] prev old have "rw_gvk prev \<noteq> namespaceGVK" by metis
    with cache_invD(6) [OF inv old w(3)] cache_invD(6) [OF inv prev, of key] w(2) have "key \<notin> set (rw_objects prev)" by auto
    with cache_invD(8) [OF inv old w(2,3)] show ?thesis by (auto simp: c' split: option.split)
  qed
qed

text \<open>What a tracked watch makes of a snapshot without duplicates.\<close>

lemma watch_Replace_contents:
  assumes inv: "cache_inv lib c" and ptr: "same_pointer c w" and tracked: "isTrackedWatch c w"
    and objects: "prepareWatchSnapshot vs (rw_gvk w) (rw_full w) [] = Inr objects" and dist: "distinct (map fst objects)"
  obtains c' prev x where "watch_Replace lib w vs c = Some (None, c')" "map_of (ct_watches c) (rw_key w) = Some prev"
    "rw_key x = rw_key w" "rw_gvk x = rw_gvk w" "rw_full x = rw_full w" "rw_objects x = map fst objects" "rw_ready x" "rw_err x = None"
    "rw_gvk w = namespaceGVK \<longrightarrow> rw_key w = ns_key lib"
    "map_of (ct_watches c') = (map_of (ct_watches c))(rw_key w \<mapsto> x)"
    "map_of (ct_sources c') = (map_of (ct_sources c))(rw_key w \<mapsto> source_of_watch x)"
    "map_of (ct_replacements c') \<subseteq>\<^sub>m map_of (ct_replacements c)"
    "map_of (ct_objects c') = (\<lambda>key. case map_of objects key of
          Some object \<Rightarrow> Some \<lparr>ce_object = object, ce_source = rw_key w\<rparr>
        | None \<Rightarrow> if key \<in> set (rw_objects prev) then None else map_of (ct_objects c) key)"
proof -
  obtain c1 prev y where p: "promote w c = Some c1" "map_of (ct_watches c) (rw_key w) = Some prev"
    "map_of (ct_watches c1) = (map_of (ct_watches c))(rw_key w \<mapsto> y)" "current_watch c1 w = y" "is_watch (ct_watches c1) w"
    "rw_key y = rw_key w" "rw_gvk y = rw_gvk w" "rw_full y = rw_full w" "rw_objects y = rw_objects prev"
    "ct_objects c1 = ct_objects c" "ct_sources c1 = ct_sources c" "map_of (ct_replacements c1) \<subseteq>\<^sub>m map_of (ct_replacements c)"
    "rw_gvk w = namespaceGVK \<longrightarrow> rw_key w = ns_key lib"
    by (rule promote_maps [OF inv ptr tracked])
  define gone where "gone = filter (\<lambda>key. map_of objects key = None) (rw_objects y)"
  define c2 where "c2 = fold (uncache lib) gone c1"
  define c3 where "c3 = change_watch w (\<lambda>x. x\<lparr>rw_objects := map fst objects\<rparr>) c2"
  define c4 where "c4 = fold (\<lambda>(key, object). cache lib (rw_key w) key object) objects c3"
  define c5 where "c5 = change_watch w (\<lambda>x. x\<lparr>rw_ready := True\<rparr>) c4"
  note f2 = fold_uncache_frame [of lib gone c1, folded c2_def]
  note f3 = change_watch_maps [of c2 w y "\<lambda>x. x\<lparr>rw_objects := map fst objects\<rparr>", folded c3_def]
  note f4 = fold_cache_frame [OF dist, of lib "rw_key w" c3, folded c4_def]
  note f5 = change_watch_maps [of c4 w "y\<lparr>rw_objects := map fst objects\<rparr>" "\<lambda>x. x\<lparr>rw_ready := True\<rparr>", folded c5_def]
  let ?x = "y\<lparr>rw_objects := map fst objects, rw_ready := True, rw_err := None\<rparr>"
  have w5: "map_of (ct_watches c5) = (map_of (ct_watches c))(rw_key w \<mapsto> y\<lparr>rw_objects := map fst objects, rw_ready := True\<rparr>)"
    "is_watch (ct_watches c5) w" "ct_sources c5 = ct_sources c" "ct_replacements c5 = ct_replacements c1"
    "ct_objects c5 = ct_objects c4" "ct_objects c3 = ct_objects c2"
    using p f2 f3 f4 f5 by simp_all
  then have t5: "isTrackedWatch c5 w"
    "(current_watch c5 w)\<lparr>rw_err := None\<rparr> = y\<lparr>rw_objects := map fst objects, rw_ready := True, rw_err := None\<rparr>"
    by (simp_all add: isTrackedWatch_def current_watch_def)
  note f6 = updateWatchHealth_maps [OF t5(1) t5(2) [symmetric]]
  let ?c' = "enqueueScopeRefresh (sk_Namespace (rw_key w)) (updateWatchHealth w None c5)"
  show thesis
  proof (rule that [of ?c' prev ?x])
    show "watch_Replace lib w vs c = Some (None, ?c')"
      using objects tracked p(1,4) by (simp add: watch_Replace_def Let_def c5_def c4_def c3_def c2_def gone_def)
    show "map_of (ct_objects ?c') = (\<lambda>key. case map_of objects key of
        Some object \<Rightarrow> Some \<lparr>ce_object = object, ce_source = rw_key w\<rparr>
      | None \<Rightarrow> if key \<in> set (rw_objects prev) then None else map_of (ct_objects c) key)"
      using p by (auto simp: fun_eq_iff frame f6 w5 f4 f2 gone_def restrict_map_def split: option.split)
  qed (use p in \<open>simp_all add: frame f6 w5 update_conv'\<close>)
qed

lemma watch_Replace_cache:
  assumes inv: "cache_inv lib c" and ptr: "same_pointer c w" and vs: "list_all complete vs"
  shows "\<exists>e c'. watch_Replace lib w vs c = Some (e, c') \<and> cache_inv lib c'"
proof (cases "prepareWatchSnapshot vs (rw_gvk w) (rw_full w) []")
  case (Inl e)
  with updateWatchHealth_cache [OF inv] show ?thesis
    by (simp add: watch_Replace_def rejectWatchObject_def setWatchHealth_def)
next
  case (Inr objects)
  have snap: "snapshot_ok (rw_gvk w) (rw_full w) objects"
    by (rule prepareWatchSnapshot_ok [OF Inr vs]) (simp add: snapshot_ok_def)
  then have dist: "distinct (map fst objects)" by (simp add: snapshot_ok_def)
  show ?thesis
  proof (cases "isTrackedWatch c w")
    case False
    with Inr inv show ?thesis by (simp add: watch_Replace_def)
  next
    case True
    obtain c' prev x where r: "watch_Replace lib w vs c = Some (None, c')" "map_of (ct_watches c) (rw_key w) = Some prev"
      "rw_key x = rw_key w" "rw_gvk x = rw_gvk w" "rw_full x = rw_full w" "rw_objects x = map fst objects" "rw_ready x" "rw_err x = None"
      "rw_gvk w = namespaceGVK \<longrightarrow> rw_key w = ns_key lib"
      "map_of (ct_watches c') = (map_of (ct_watches c))(rw_key w \<mapsto> x)"
      "map_of (ct_sources c') = (map_of (ct_sources c))(rw_key w \<mapsto> source_of_watch x)"
      "map_of (ct_replacements c') \<subseteq>\<^sub>m map_of (ct_replacements c)"
      "map_of (ct_objects c') = (\<lambda>key. case map_of objects key of
          Some object \<Rightarrow> Some \<lparr>ce_object = object, ce_source = rw_key w\<rparr>
        | None \<Rightarrow> if key \<in> set (rw_objects prev) then None else map_of (ct_objects c) key)"
      by (rule watch_Replace_contents [OF inv ptr True Inr dist])
    have "cache_inv lib c'"
      by (rule replaced_inv [OF inv r(2) _ r(3,6) _ r(13) [THEN fun_cong] r(10,11,12)]) (use r(4,5,9) snap in simp_all)
    with r(1) show ?thesis by blast
  qed
qed

section \<open>New and retired watches\<close>

lemma forget_failures_same: "same_cache c (fold (forget_failure lib) requests c)"
proof -
  have "same_cache c (forget_failure lib request c)" for request and c :: "'a Controller"
    by (simp add: forget_failure_def same_cache_def frame)
  then show ?thesis by (induction requests arbitrary: c) (auto intro: same_cache_trans)
qed

lemma recordWatchFailure_same: "same_cache c (snd (recordWatchFailure request ref e c))"
  by (simp add: recordWatchFailure_def same_cache_def frame)

lemma new_watch_inv:
  assumes inv: "cache_inv lib c" and none: "map_of (ct_watches c) k = None"
    and w: "rw_key w = k" "rw_objects w = []" "rw_gvk w = namespaceGVK \<longrightarrow> k = ns_key lib"
    and c': "map_of (ct_objects c') = map_of (ct_objects c)" "map_of (ct_watches c') = (map_of (ct_watches c))(k \<mapsto> w)"
      "map_of (ct_sources c') = (map_of (ct_sources c))(k \<mapsto> source_of_watch w)"
      "map_of (ct_replacements c') = map_of (ct_replacements c)"
  shows "cache_inv lib c'"
proof (rule cache_invI)
  note D = cache_invD [OF inv]
  fix key e assume "map_of (ct_objects c') key = Some e"
  then have "cached_ok (map_of (ct_watches c)) key e" using D(5) by (simp add: c')
  with none show "cached_ok (map_of (ct_watches c')) key e" by (auto simp: c' cached_ok_def split: option.splits)
next
  fix k' show "map_of (ct_sources c') k' = map_option source_of_watch (map_of (ct_watches c') k')"
    using cache_invD(1) [OF inv] by (simp add: c')
qed (use cache_invD [OF inv] w none in \<open>auto simp: c' split: if_splits\<close>)

lemma start_watch_cache:
  assumes inv: "cache_inv lib c" and ns: "gvk = namespaceGVK \<longrightarrow> key = ns_key lib"
  shows "cache_inv lib (start_watch key gvk metadataOnly c)"
proof -
  define w where "w = \<lparr>rw_id = ct_nextWatch c, rw_key = key, rw_gvk = gvk, rw_full = \<not> metadataOnly, rw_ready = False, rw_err = None,
      rw_objects = []\<rparr>"
  have w: "rw_key w = key" "rw_objects w = []" "rw_gvk w = namespaceGVK \<longrightarrow> key = ns_key lib" using ns by (simp_all add: w_def)
  let ?c1 = "c\<lparr>ct_nextWatch := Suc (ct_nextWatch c)\<rparr>"
  let ?c2 = "if map_of (ct_watches ?c1) key \<noteq> None
      then ?c1\<lparr>ct_replacements := AList.update key w (ct_replacements ?c1)\<rparr>
      else (put_watch w ?c1)\<lparr>ct_sources := AList.update key (source_of_watch w) (ct_sources ?c1)\<rparr>"
  have c2: "cache_inv lib ?c2"
  proof (cases "map_of (ct_watches c) key")
    case None
    then show ?thesis
      by (intro new_watch_inv [OF inv None, where w = w]) (simp_all add: w frame update_conv')
  next
    case (Some x)
    then show ?thesis
      by (intro new_replacement_inv [OF inv, of key w]) (simp_all add: w update_conv')
  qed
  have start: "start_watch key gvk metadataOnly c = publish (SetSourceHealth key \<lparr>sh_GVK = gvk, sh_Synced = False, sh_Error = []\<rparr>) ?c2"
    by (simp only: start_watch_def w_def Let_def)
  have "same_cache d (publish f d)" for f and d :: "'a Controller" by (simp add: same_cache_def frame)
  from same_cache_inv [OF this c2] show ?thesis unfolding start .
qed

lemma ensureWatch_cases:
  obtains ref e where "snd (ensureWatch lib mapping ctx gvk requested metadataOnly c)
      = snd (recordWatchFailure \<lparr>wr_GVK = gvk, wr_Namespace = requested\<rparr> ref e c)"
  | requests where "snd (ensureWatch lib mapping ctx gvk requested metadataOnly c) = fold (forget_failure lib) requests c"
  | requests key where "snd (ensureWatch lib mapping ctx gvk requested metadataOnly c)
      = start_watch key gvk metadataOnly (fold (forget_failure lib) requests c)"
    "mapping_ok lib gvk mapping \<Longrightarrow> gvk = namespaceGVK \<longrightarrow> key = ns_key lib"
proof (cases mapping)
  case (Inl e)
  show thesis by (rule that(1)) (simp add: ensureWatch_def Inl case_prod_beta)
next
  case (Inr m)
  obtain resource rootScope where m: "m = (resource, rootScope)" by fastforce
  define namespace where "namespace = (if rootScope \<or> \<not> cc_NamespaceSelector (ct_config c) then [] else requested)"
  define key where "key = \<lparr>sk_Resource = resource, sk_Namespace = namespace\<rparr>"
  define requests where "requests = filter (\<lambda>request. wr_GVK request = gvk \<and> (namespace = [] \<or> wr_Namespace request = namespace))
                         (map fst (ct_watchFailures c))"
  define d where "d = fold (forget_failure lib) requests c"
  have "snd (ensureWatch lib mapping ctx gvk requested metadataOnly c) \<in> {d, start_watch key gvk metadataOnly d}"
    unfolding ensureWatch_def Inr m sum.case prod.case Let_def namespace_def [symmetric] key_def [symmetric] requests_def [symmetric]
      d_def [symmetric]
    by (auto split: option.split)
  then consider "snd (ensureWatch lib mapping ctx gvk requested metadataOnly c) = d"
    | "snd (ensureWatch lib mapping ctx gvk requested metadataOnly c) = start_watch key gvk metadataOnly d" by blast
  then show thesis
  proof cases
    case 1
    then show thesis unfolding d_def by (rule that(2))
  next
    case 2
    have "gvk = namespaceGVK \<longrightarrow> key = ns_key lib" if "mapping_ok lib gvk mapping"
      using that by (auto simp: mapping_ok_def Inr m key_def namespace_def ns_key_def)
    then show thesis by (rule that(3) [OF 2 [unfolded d_def]])
  qed
qed

lemma ensureWatch_cache:
  assumes inv: "cache_inv lib c" and m: "mapping_ok lib gvk mapping"
  shows "cache_inv lib (snd (ensureWatch lib mapping ctx gvk requested metadataOnly c))"
  by (rule ensureWatch_cases [of lib mapping ctx gvk requested metadataOnly c])
    (simp_all add: start_watch_cache m same_cache_inv [OF recordWatchFailure_same inv] same_cache_inv [OF forget_failures_same inv])

lemma ensureWatch_members: "same_members c (snd (ensureWatch lib mapping ctx gvk requested metadataOnly c))"
proof -
  have forget: "same_members c (forget_failure lib request c)" for request and c :: "'a Controller"
    by (simp add: forget_failure_def same_members_def frame)
  have start: "same_members c (start_watch key gvk metadataOnly c)" for key and c :: "'a Controller"
    by (simp add: start_watch_def Let_def same_members_def frame)
  have noted: "same_members c (snd (recordWatchFailure request ref e c))" for request ref e
    by (simp add: recordWatchFailure_def same_members_def frame)
  show ?thesis
    by (rule ensureWatch_cases [of lib mapping ctx gvk requested metadataOnly c])
      (auto simp: noted intro!: same_members_fold forget intro: same_members_trans [OF same_members_fold start])
qed

definition retire_object :: "ctllib \<Rightarrow> SourceKey \<Rightarrow> objectKey \<Rightarrow> 'd Controller \<Rightarrow> 'd Controller" where
  "retire_object lib k key d = (case map_of (ct_objects d) key of
       None \<Rightarrow> d
     | Some e \<Rightarrow> if ce_source e = k then uncache lib key d else d)"

lemma retire_object_frame:
  "ct_sources (retire_object lib k key c) = ct_sources c" "ct_watches (retire_object lib k key c) = ct_watches c"
  "ct_replacements (retire_object lib k key c) = ct_replacements c"
  "map_of (ct_objects (retire_object lib k key c)) = (\<lambda>q. case map_of (ct_objects c) q of
     None \<Rightarrow> None | Some e \<Rightarrow> if q = key \<and> ce_source e = k then None else Some e)"
  "same_members c (retire_object lib k key c)"
  by (auto simp: retire_object_def frame delete_conv' fun_eq_iff uncache_members split: option.split)

lemma fold_retire_frame:
  "ct_sources (fold (retire_object lib k) ks c) = ct_sources c" "ct_watches (fold (retire_object lib k) ks c) = ct_watches c"
  "ct_replacements (fold (retire_object lib k) ks c) = ct_replacements c"
  "map_of (ct_objects (fold (retire_object lib k) ks c)) = (\<lambda>q. case map_of (ct_objects c) q of
     None \<Rightarrow> None | Some e \<Rightarrow> if q \<in> set ks \<and> ce_source e = k then None else Some e)"
  "same_members c (fold (retire_object lib k) ks c)"
proof -
  show "map_of (ct_objects (fold (retire_object lib k) ks c)) = (\<lambda>q. case map_of (ct_objects c) q of
     None \<Rightarrow> None | Some e \<Rightarrow> if q \<in> set ks \<and> ce_source e = k then None else Some e)"
    by (induction ks arbitrary: c) (auto simp: retire_object_frame fun_eq_iff split: option.split)
qed (simp_all add: fold_frame retire_object_frame same_members_fold)

lemma retireWatch_fold:
  "retireWatch lib w c =
     (let c2 = fold (retire_object lib (rw_key w)) (rw_objects w)
            ((cancel_watch w c)\<lparr>ct_watches := AList.delete (rw_key w) (ct_watches c)\<rparr>)
      in publish (RemoveSourceHealth (rw_key w)) (c2\<lparr>ct_sources := AList.delete (rw_key w) (ct_sources c2)\<rparr>))"
  by (simp add: retireWatch_def retire_object_def [abs_def] Let_def)

lemma retireWatch_frame:
  "map_of (ct_sources (retireWatch lib w c)) = (map_of (ct_sources c))(rw_key w := None)"
  "map_of (ct_watches (retireWatch lib w c)) = (map_of (ct_watches c))(rw_key w := None)"
  "ct_replacements (retireWatch lib w c) = ct_replacements c"
  "map_of (ct_objects (retireWatch lib w c)) = (\<lambda>q. case map_of (ct_objects c) q of
     None \<Rightarrow> None | Some e \<Rightarrow> if q \<in> set (rw_objects w) \<and> ce_source e = rw_key w then None else Some e)"
  by (simp_all add: retireWatch_fold Let_def frame fold_retire_frame delete_conv')

lemma retireWatch_members: "same_members c (retireWatch lib w c)"
proof -
  let ?d = "(cancel_watch w c)\<lparr>ct_watches := AList.delete (rw_key w) (ct_watches c)\<rparr>"
  have "same_members c ?d" by (simp add: same_members_def frame)
  moreover have "same_members ?d (fold (retire_object lib (rw_key w)) (rw_objects w) ?d)" by (rule fold_retire_frame)
  ultimately have "same_members c (fold (retire_object lib (rw_key w)) (rw_objects w) ?d)" by (rule same_members_trans)
  then show ?thesis by (simp add: retireWatch_fold Let_def same_members_def frame)
qed

text \<open>A retired watch goes with its replacement.\<close>

definition retire_both :: "ctllib \<Rightarrow> resourceWatch \<Rightarrow> 'd Controller \<Rightarrow> 'd Controller" where
  "retire_both lib w c =
     (let c1 = retireWatch lib w c
      in case map_of (ct_replacements c1) (rw_key w) of
           None \<Rightarrow> c1
         | Some replacement \<Rightarrow>
             (cancel_watch replacement c1)\<lparr>ct_replacements := AList.delete (rw_key w) (ct_replacements c1)\<rparr>)"

lemma retire_both_members: "same_members c (retire_both lib w c)"
  using retireWatch_members [of c lib w] by (simp add: retire_both_def Let_def same_members_def frame split: option.split)

lemma retire_both_cache:
  assumes inv: "cache_inv lib c" and w: "map_of (ct_watches c) (rw_key w) = Some w"
  shows "cache_inv lib (retire_both lib w c)"
proof (rule cache_invI)
  have maps: "map_of (ct_sources (retire_both lib w c)) = (map_of (ct_sources c))(rw_key w := None)"
    "map_of (ct_watches (retire_both lib w c)) = (map_of (ct_watches c))(rw_key w := None)"
    "map_of (ct_replacements (retire_both lib w c)) = (map_of (ct_replacements c))(rw_key w := None)"
    "map_of (ct_objects (retire_both lib w c)) = map_of (ct_objects (retireWatch lib w c))"
    by (auto simp: retire_both_def Let_def frame retireWatch_frame delete_conv' fun_eq_iff split: option.split)
  note D = cache_invD [OF inv]
  {
    fix key e assume "map_of (ct_objects (retire_both lib w c)) key = Some e"
    then have e: "map_of (ct_objects c) key = Some e" "\<not> (key \<in> set (rw_objects w) \<and> ce_source e = rw_key w)"
      by (auto simp: maps retireWatch_frame split: option.splits if_splits)
    with D(5) [OF e(1)] w show "cached_ok (map_of (ct_watches (retire_both lib w c))) key e"
      by (auto simp: maps cached_ok_def)
  next
    fix k show "map_of (ct_sources (retire_both lib w c)) k = map_option source_of_watch (map_of (ct_watches (retire_both lib w c)) k)"
      using D(1) by (simp add: maps)
  next
    fix k x assume "map_of (ct_watches (retire_both lib w c)) k = Some x"
    then show "rw_key x = k" using D(2) by (auto simp: maps split: if_splits)
  next
    fix k x assume "map_of (ct_replacements (retire_both lib w c)) k = Some x"
    then show "rw_key x = k" using D(3) by (auto simp: maps split: if_splits)
  next
    fix k assume "map_of (ct_watches (retire_both lib w c)) k = None"
    then show "map_of (ct_replacements (retire_both lib w c)) k = None" using D(4) by (auto simp: maps split: if_splits)
  next
    fix k x key assume "map_of (ct_watches (retire_both lib w c)) k = Some x" "key \<in> set (rw_objects x)"
    then show "ky_GVK key = rw_gvk x" using D(6) by (auto simp: maps split: if_splits)
  next
    fix k x assume "map_of (ct_watches (retire_both lib w c)) k = Some x" "rw_gvk x = namespaceGVK"
    then show "k = ns_key lib" using D(7) by (auto simp: maps split: if_splits)
  next
    fix k x assume "map_of (ct_replacements (retire_both lib w c)) k = Some x" "rw_gvk x = namespaceGVK"
    then show "k = ns_key lib" using D(9) by (auto simp: maps split: if_splits)
  next
    fix k x key assume x: "map_of (ct_watches (retire_both lib w c)) k = Some x" "rw_gvk x = namespaceGVK" "key \<in> set (rw_objects x)"
    then have old: "map_of (ct_watches c) k = Some x" "k \<noteq> rw_key w" by (auto simp: maps split: if_splits)
    from D(8) [OF old(1) x(2,3)] obtain e where e: "map_of (ct_objects c) key = Some e" by auto
    have "rw_gvk w \<noteq> namespaceGVK" using D(7) [OF w] D(7) [OF old(1) x(2)] old(2) by auto
    with D(6) [OF old(1) x(3)] D(6) [OF w, of key] x(2) have "key \<notin> set (rw_objects w)" by auto
    with e show "map_of (ct_objects (retire_both lib w c)) key \<noteq> None" by (simp add: maps retireWatch_frame)
  }
qed

section \<open>What a lookup means\<close>

lemma lookupObject_entry:
  assumes inv: "cache_inv lib c" and r: "lookupObject c ref full = Inr (object, k)"
  obtains w where "map_of (ct_watches c) k = Some w" "rw_ready w" "rw_err w = None" "full \<longrightarrow> rw_full w"
    "rw_gvk w = kb_GVK object" "kb_Data object \<noteq> None \<longleftrightarrow> rw_full w" "kb_GVK object = or_GVK ref" "kb_Name object = or_Name ref"
    "kb_Namespace object \<in> {or_Namespace ref, []}" "or_UID ref \<noteq> [] \<longrightarrow> kb_UID object = or_UID ref"
    "or_ResourceVersion ref \<noteq> [] \<longrightarrow> om_ResourceVersion (kb_Meta object) = or_ResourceVersion ref"
    "keyOf (refOf object) \<in> set (rw_objects w)"
proof -
  from r obtain e where e: "cached_entry c ref = Some e" "ce_object e = object" "ce_source e = k"
    "cs_err (source_of c k) = None" "cs_synced (source_of c k)" "full \<longrightarrow> cs_hasFullObject (source_of c k)"
    "or_UID ref \<noteq> [] \<longrightarrow> kb_UID object = or_UID ref"
    "or_ResourceVersion ref \<noteq> [] \<longrightarrow> om_ResourceVersion (kb_Meta object) = or_ResourceVersion ref"
    by (auto simp: lookupObject_def Let_def split: option.splits if_splits)
  from e(1) obtain ns where ns: "map_of (ct_objects c) (keyOf (ref\<lparr>or_Namespace := ns\<rparr>)) = Some e" "ns \<in> {or_Namespace ref, []}"
    by (auto simp: cached_entry_def keyOf_def split: option.splits if_splits)
  from cache_invD(5) [OF inv ns(1)] e(2,3) obtain w where w: "map_of (ct_watches c) k = Some w"
    "keyOf (refOf object) = keyOf (ref\<lparr>or_Namespace := ns\<rparr>)" "keyOf (refOf object) \<in> set (rw_objects w)" "kb_GVK object = rw_gvk w"
    "kb_Data object \<noteq> None \<longleftrightarrow> rw_full w"
    by (auto simp: cached_ok_def split: option.splits)
  have src: "source_of c k = source_of_watch w" using cache_invD(1) [OF inv, of k] w(1) by (simp add: source_of_def)
  show thesis
    by (rule that [OF w(1)]) (use e(4-) w(2-) ns(2) src in \<open>auto simp: source_of_watch_def keyOf_def refOf_def\<close>)
qed

section \<open>One watch per key\<close>

definition keyed :: "'d Controller \<Rightarrow> bool" where
  "keyed c \<longleftrightarrow> distinct (map fst (ct_watches c))"

lemma keyed_frame: "keyed c \<Longrightarrow> ct_watches c' = ct_watches c \<Longrightarrow> keyed c'"
  by (simp add: keyed_def)

lemma keyed_put_watch: "keyed c \<Longrightarrow> keyed (put_watch w c)"
  by (simp add: keyed_def frame distinct_update)

lemma keyed_updateWatchHealth: "keyed c \<Longrightarrow> keyed (updateWatchHealth w err c)"
  by (cases "isTrackedWatch c w")
    (simp_all add: keyed_def updateWatchHealth_maps(3) [OF _ refl] distinct_update, simp add: updateWatchHealth_def)

lemma keyed_cache: "keyed (cache lib k key object c) = keyed c" "keyed (uncache lib key c) = keyed c"
  by (simp_all add: keyed_def frame)

lemma keyed_applyWatchEvent: "keyed c \<Longrightarrow> keyed (snd (applyWatchEvent lib w v deleted c))"
  by (simp add: applyWatchEvent_def rejectWatchObject_def setWatchHealth_def keyed_updateWatchHealth keyed_cache keyed_put_watch Let_def
      split: sum.split option.split)

lemma keyed_change_watch: "keyed c \<Longrightarrow> keyed (change_watch w f c)"
  by (simp add: change_watch_def keyed_put_watch)

lemma keyed_promote: "promote w c = Some c' \<Longrightarrow> keyed c \<Longrightarrow> keyed c'"
proof -
  have "keyed (put_watch x ((cancel_watch y c)\<lparr>ct_replacements := m\<rparr>))" if "keyed c" for x y m
    by (rule keyed_put_watch) (use that in \<open>simp add: keyed_def frame\<close>)
  then show "promote w c = Some c' \<Longrightarrow> keyed c \<Longrightarrow> keyed c'"
    by (auto simp: promote_def split: if_splits option.splits)
qed

lemma keyed_fold: "(\<And>x c. keyed c \<Longrightarrow> keyed (f x c)) \<Longrightarrow> keyed c \<Longrightarrow> keyed (fold f xs c)"
  by (induction xs arbitrary: c) auto

lemma keyed_watch_Replace:
  assumes "watch_Replace lib w vs c = Some (e, c')" "keyed c"
  shows "keyed c'"
proof -
  have scope: "keyed (enqueueScopeRefresh ns d) = keyed d" for ns and d :: "'a Controller" by (simp add: keyed_def frame)
  have keep: "keyed (fold (\<lambda>(key, object). cache lib k key object) objects d)" if "keyed d" for k objects and d :: "'a Controller"
    by (rule keyed_fold [OF _ that]) (auto simp: keyed_cache)
  have drop: "keyed (fold (uncache lib) keys d)" if "keyed d" for keys and d :: "'a Controller"
    by (rule keyed_fold [OF _ that]) (simp add: keyed_cache)
  show ?thesis
    using assms
    by (auto simp: watch_Replace_def rejectWatchObject_def setWatchHealth_def Let_def scope
        intro!: keyed_updateWatchHealth keyed_change_watch keep drop split: sum.splits if_splits option.splits dest: keyed_promote)
qed

lemma keyed_start_watch: "keyed c \<Longrightarrow> keyed (start_watch key gvk metadataOnly c)"
  by (simp add: start_watch_def Let_def keyed_def frame distinct_update)

lemma keyed_ensureWatch: "keyed c \<Longrightarrow> keyed (snd (ensureWatch lib mapping ctx gvk requested metadataOnly c))"
proof -
  assume c: "keyed c"
  have forget: "keyed (fold (forget_failure lib) requests c)" for requests
    by (rule keyed_fold [OF _ c]) (simp add: keyed_def forget_failure_def frame)
  have fail: "keyed (snd (recordWatchFailure request ref e c))" for request ref e
    using c by (simp add: keyed_def recordWatchFailure_def frame)
  show ?thesis
    by (rule ensureWatch_cases [of lib mapping ctx gvk requested metadataOnly c]) (simp_all add: fail forget keyed_start_watch)
qed

lemma keyed_retire_both: "keyed c \<Longrightarrow> keyed (retire_both lib w c)"
  by (simp add: retire_both_def retireWatch_fold Let_def keyed_def frame fold_retire_frame distinct_delete split: option.split)

text \<open>What the watches of namespaces list is in the cache.\<close>

lemma listed_namespaces_cached:
  assumes "cache_inv lib c" "keyed c" "w \<in> set (map snd (ct_watches c))" "rw_gvk w = namespaceGVK" "key \<in> set (rw_objects w)"
  shows "map_of (ct_objects c) key \<noteq> None"
proof -
  from assms(3) obtain k where "(k, w) \<in> set (ct_watches c)" by auto
  with assms(2) have "map_of (ct_watches c) k = Some w" by (simp add: keyed_def)
  from cache_invD(8) [OF assms(1) this assms(4,5)] show ?thesis .
qed

end
