(* ===== verification/Controller_Runtime.thy ===== *)
theory Controller_Runtime
  imports Controller_Cache
begin

text \<open>
  \<^verbatim>\<open>controller/runtime.go\<close>, the resource rules of \<^verbatim>\<open>controller/root.go\<close> and the two synchronizations of \<^verbatim>\<open>controller/sources.go\<close>: how
  the controller is built, when it is ready, how it takes over a snapshot of the definitions and which watches it asks for. The
  goroutines, the rate limits of the queues and the reflectors are not modelled.
\<close>

section \<open>Construction\<close>

record LabelSelector =
  ls_MatchLabels :: "(string \<times> string) list"
  ls_MatchExpressions :: "string list"

record ControllerOptions =
  co_IgnoredOwnerKinds :: "GroupVersionKind list"
  co_ResourceRules :: "ResourceRule list"
  co_ExcludeResourceRules :: "ResourceRule list"
  co_NamespaceSelector :: "LabelSelector option"
  co_ObjectSelector :: "LabelSelector option"
  co_PodSelector :: "LabelSelector option"
  co_ClusterDefinitions :: bool
  co_RequiredKinds :: "GroupVersionKind list"
  co_Workers :: int
  co_LeafWorkers :: int
  co_RootWorkers :: int

definition ErrMissingDependencies :: xerr where
  "ErrMissingDependencies = XErrorf ''runtime dependencies are required'' []"

definition contains_any :: "string \<Rightarrow> bool" where
  "contains_any s \<longleftrightarrow> list_ex (\<lambda>ch. ch \<in> {CHR ''/'', CHR '' '', CHR 0x09, CHR 0x0A}) s"

definition rule_problem :: "nat \<Rightarrow> ResourceRule \<Rightarrow> xerr option" where
  "rule_problem index rule =
     (if rl_APIGroups rule = [] \<or> rl_APIVersions rule = [] \<or> rl_Resources rule = []
      then Some (XErrorf ''resource rule %d requires apiGroups, apiVersions and resources'' [AInt (int index)])
      else if list_ex (\<lambda>v. v = [] \<or> contains_any v) (rl_APIVersions rule)
      then Some (XErrorf ''resource rule API versions must name a version or *'' [])
      else if list_ex (\<lambda>r. r = [] \<or> contains_any r) (rl_Resources rule)
      then Some (XErrorf ''resource rules must name whole resources or *'' [])
      else None)"

definition ValidateResourceRules :: "ResourceRule list \<Rightarrow> xerr option" where
  "ValidateResourceRules rules = first_some (map (\<lambda>(i, r). rule_problem i r) (enumerate 0 rules))"

text \<open>\<open>LabelSelectorAsSelector\<close> is \<open>asSelector\<close>; no selector selects everything.\<close>

definition selector_of ::
  "(LabelSelector \<Rightarrow> ((string \<times> string) list \<Rightarrow> bool) xres) \<Rightarrow> LabelSelector option \<Rightarrow> ((string \<times> string) list \<Rightarrow> bool) xres" where
  "selector_of asSelector v = (case v of None \<Rightarrow> Inr (\<lambda>labels. True) | Some s \<Rightarrow> asSelector s)"

text \<open>The cache that the reader brings is empty.\<close>

definition newControllerState :: "ControllerConfig \<Rightarrow> 'd Controller" where
  "newControllerState config =
     \<lparr>ct_config = config, ct_objects = [], ct_sources = [], ct_podQueue = {}, ct_workloadQueue = {}, ct_syncQueue = False,
      ct_watches = [], ct_replacements = [], ct_watchFailures = [], ct_scopes = [], ct_roots = [], ct_podRoots = [],
      ct_ancestorPods = [], ct_selectedObjectRoots = [], ct_selectedDefinitions = [], ct_definitionInventoryErr = None,
      ct_definitionVersion = 0, ct_publications = store_New, ct_running = False, ct_cancelled = {}, ct_nextWatch = 0\<rparr>"

definition or_default :: "int \<Rightarrow> int \<Rightarrow> int" where
  "or_default n d = (if n = 0 then d else n)"

definition worker_limits :: "ControllerOptions \<Rightarrow> (int \<times> int) xres" where
  "worker_limits opts =
     (let workers = or_default (co_Workers opts) 4;
          leaf = or_default (co_LeafWorkers opts) workers;
          root_workers = or_default (co_RootWorkers opts) workers
      in if workers < 1 \<or> leaf < 1 \<or> root_workers < 1 then Inl (XErrorf ''worker limits must be positive'' [])
         else Inr (leaf, root_workers))"

definition normalized_selector :: "LabelSelector option \<Rightarrow> LabelSelector option" where
  "normalized_selector v =
     (case v of None \<Rightarrow> None | Some s \<Rightarrow> if ls_MatchLabels s = [] \<and> ls_MatchExpressions s = [] then None else Some s)"

definition initial_state :: "ControllerOptions \<Rightarrow> 'd Controller" where
  "initial_state opts =
     (let config = \<lparr>cc_IgnoredOwnerKinds = co_IgnoredOwnerKinds opts, cc_ResourceRules = co_ResourceRules opts,
            cc_ExcludeResourceRules = co_ExcludeResourceRules opts,
            cc_NamespaceSelector = (normalized_selector (co_NamespaceSelector opts) \<noteq> None),
            cc_ClusterDefinitions = co_ClusterDefinitions opts, cc_RequiredKinds = co_RequiredKinds opts\<rparr>;
          c0 = newControllerState config;
          c1 = (if normalized_selector (co_NamespaceSelector opts) = None then c0\<lparr>ct_scopes := [[]]\<rparr> else c0)
      in if co_ClusterDefinitions opts
         then publish (SetSourceHealth definitionSource \<lparr>sh_GVK = kartaGVK, sh_Synced = False, sh_Error = []\<rparr>)
                (c1\<lparr>ct_definitionInventoryErr := Some (Sentinel InventoryErrNotReady)\<rparr>)
         else c1)"

text \<open>The result has the worker limits, the library with the compiled selectors, and the state. Without dependencies it fails.\<close>

definition controller_New ::
  "bool \<Rightarrow> (LabelSelector \<Rightarrow> ((string \<times> string) list \<Rightarrow> bool) xres) \<Rightarrow> ctllib \<Rightarrow> ControllerOptions
     \<Rightarrow> ((int \<times> int) \<times> ctllib \<times> 'd Controller) xres" where
  "controller_New dependencies asSelector lib opts =
     (if \<not> dependencies then Inl ErrMissingDependencies
      else case ValidateResourceRules (co_ResourceRules opts @ co_ExcludeResourceRules opts) of
        Some e \<Rightarrow> Inl e
      | None \<Rightarrow> (case worker_limits opts of
          Inl e \<Rightarrow> Inl e
        | Inr limits \<Rightarrow> (case selector_of asSelector (normalized_selector (co_NamespaceSelector opts)) of
            Inl e \<Rightarrow> Inl e
          | Inr namespaces \<Rightarrow> (case selector_of asSelector (co_ObjectSelector opts) of
              Inl e \<Rightarrow> Inl e
            | Inr objects \<Rightarrow> (case selector_of asSelector (co_PodSelector opts) of
                Inl e \<Rightarrow> Inl e
              | Inr pods \<Rightarrow>
                  Inr (limits, lib\<lparr>cl_namespaceSelector := namespaces, cl_objectSelector := objects, cl_podSelector := pods\<rparr>,
                    initial_state opts))))))"

definition start :: "'d Controller \<Rightarrow> 'd Controller" where
  "start c = c\<lparr>ct_running := True\<rparr>"

section \<open>Resource rules\<close>

definition star_or :: "string list \<Rightarrow> string \<Rightarrow> bool" where
  "star_or xs x \<longleftrightarrow> ''*'' \<in> set xs \<or> x \<in> set xs"

definition matchesResourceRule :: "ResourceRule \<Rightarrow> GroupVersionResource \<Rightarrow> bool" where
  "matchesResourceRule rule gvr \<longleftrightarrow>
     star_or (rl_APIGroups rule) (gvr_Group gvr) \<and> star_or (rl_APIVersions rule) (gvr_Version gvr)
     \<and> star_or (rl_Resources rule) (gvr_Resource gvr)"

text \<open>\<open>mapping\<close> is the outcome of the REST mapper for the kind.\<close>

definition isResourceSelected :: "ControllerConfig \<Rightarrow> (GroupVersionResource \<times> bool) xres \<Rightarrow> bool xres" where
  "isResourceSelected config mapping =
     (if cc_ResourceRules config = [] \<and> cc_ExcludeResourceRules config = [] then Inr True
      else case mapping of
        Inl e \<Rightarrow> Inl e
      | Inr (resource, rootScope) \<Rightarrow>
          if list_ex (\<lambda>rule. matchesResourceRule rule resource) (cc_ExcludeResourceRules config) then Inr False
          else if cc_ResourceRules config = [] then Inr True
          else Inr (list_ex (\<lambda>rule. matchesResourceRule rule resource) (cc_ResourceRules config)))"

definition isRootSelected :: "ctllib \<Rightarrow> ControllerConfig \<Rightarrow> (GroupVersionResource \<times> bool) xres \<Rightarrow> 'd KubeObject \<Rightarrow> bool xres" where
  "isRootSelected lib config mapping object =
     (if \<not> cl_objectSelector lib (kb_Labels object) then Inr False else isResourceSelected config mapping)"

section \<open>Readiness\<close>

definition requiredWatch :: "ControllerConfig \<Rightarrow> GroupVersionKind \<Rightarrow> bool" where
  "requiredWatch config gvk \<longleftrightarrow>
     gvk = podGVK \<or> (gvk = namespaceGVK \<and> cc_NamespaceSelector config) \<or> gvk \<in> set (cc_RequiredKinds config)"

definition hasRequiredWatches :: "'d Controller \<Rightarrow> string \<Rightarrow> bool" where
  "hasRequiredWatches c namespace \<longleftrightarrow>
     list_all (\<lambda>gvk. list_ex (\<lambda>(key, w). rw_gvk w = gvk \<and> (sk_Namespace key = [] \<or> sk_Namespace key = namespace)) (ct_watches c))
       (podGVK # cc_RequiredKinds (ct_config c))"

text \<open>The objects of a watch of namespaces that the selector admits. None is the panic on an object that the cache does not have.\<close>

fun admitted_objects :: "ctllib \<Rightarrow> 'd Controller \<Rightarrow> objectKey list \<Rightarrow> string list option" where
  "admitted_objects lib c [] = Some []"
| "admitted_objects lib c (key # keys) =
     (case map_of (ct_objects c) key of
        None \<Rightarrow> None
      | Some e \<Rightarrow>
          map_option (\<lambda>names. if cl_namespaceSelector lib (kb_Labels (ce_object e)) then kb_Name (ce_object e) # names else names)
            (admitted_objects lib c keys))"

fun ready_namespaces :: "ctllib \<Rightarrow> 'd Controller \<Rightarrow> objectKey list \<Rightarrow> bool option" where
  "ready_namespaces lib c [] = Some True"
| "ready_namespaces lib c (key # keys) =
     (case map_of (ct_objects c) key of
        None \<Rightarrow> None
      | Some e \<Rightarrow>
          if cl_namespaceSelector lib (kb_Labels (ce_object e)) \<and> \<not> hasRequiredWatches c (kb_Name (ce_object e)) then Some False
          else ready_namespaces lib c keys)"

fun ready_watches :: "ctllib \<Rightarrow> 'd Controller \<Rightarrow> resourceWatch list \<Rightarrow> bool \<Rightarrow> bool option" where
  "ready_watches lib c [] hasNamespaceWatch =
     Some (if cc_NamespaceSelector (ct_config c) then hasNamespaceWatch else hasRequiredWatches c [])"
| "ready_watches lib c (w # ws) hasNamespaceWatch =
     (if requiredWatch (ct_config c) (rw_gvk w) \<and> (\<not> rw_ready w \<or> rw_err w \<noteq> None \<or> map_of (ct_replacements c) (rw_key w) \<noteq> None)
      then Some False
      else if rw_gvk w = namespaceGVK \<and> cc_NamespaceSelector (ct_config c) then
        (case ready_namespaces lib c (rw_objects w) of
           None \<Rightarrow> None
         | Some False \<Rightarrow> Some False
         | Some True \<Rightarrow> ready_watches lib c ws True)
      else ready_watches lib c ws hasNamespaceWatch)"

text \<open>\<open>cancelled\<close> tells whether the context of the controller has ended.\<close>

definition controller_ready :: "ctllib \<Rightarrow> bool \<Rightarrow> 'd Controller \<Rightarrow> bool option" where
  "controller_ready lib cancelled c =
     (if \<not> (ct_running c \<and> \<not> cancelled) \<or> ct_definitionInventoryErr c \<noteq> None \<or> ct_watches c = [] then Some False
      else if list_ex (\<lambda>(request, e). requiredWatch (ct_config c) (wr_GVK request)) (ct_watchFailures c) then Some False
      else ready_watches lib c (map snd (ct_watches c)) False)"

section \<open>Definitions\<close>

text \<open>None when the summary of a definition panics or does not return.\<close>

definition prepared_definition :: "sort_slice \<Rightarrow> SelectionResult \<Rightarrow> selectedDefinition option" where
  "prepared_definition sorter r =
     (let s = \<lparr>sd_Selection = sr_Selection r, sd_summary = None, sd_err = sr_Err r, sd_version = 0\<rparr>
      in case (sr_Err r, sel_Definition (sr_Selection r)) of
           (None, Some k) \<Rightarrow>
             (case NewStructureSummary sorter (Some (ko_karta k)) of
                Ok summary \<Rightarrow> Some (s\<lparr>sd_summary := Some summary\<rparr>)
              | Err e \<Rightarrow> Some (s\<lparr>sd_err := Some (XWrapf ''%w: %w'' [] [Sentinel DiscoveryErrInvalidDefinition, SdkError e])\<rparr>)
              | Panic p \<Rightarrow> None
              | NoReturn \<Rightarrow> None)
         | _ \<Rightarrow> Some s)"

fun prepare_results ::
  "sort_slice \<Rightarrow> SelectionResult list \<Rightarrow> (GroupKind \<times> selectedDefinition) list \<Rightarrow> (GroupKind \<times> selectedDefinition) list option" where
  "prepare_results sorter [] next = Some next"
| "prepare_results sorter (r # rs) next =
     (case prepared_definition sorter r of
        None \<Rightarrow> None
      | Some s \<Rightarrow> prepare_results sorter rs (AList.update (GroupKind_of (sel_GVK (sr_Selection r))) s next))"

text \<open>\<open>results\<close> is what List of the inventory returned.\<close>

definition prepareDefinitions :: "sort_slice \<Rightarrow> SelectionResult list xres \<Rightarrow> (GroupKind \<times> selectedDefinition) list xres option" where
  "prepareDefinitions sorter results =
     (case results of Inl e \<Rightarrow> Some (Inl e) | Inr rs \<Rightarrow> map_option Inr (prepare_results sorter rs []))"

definition isSameDefinition :: "ctllib \<Rightarrow> selectedDefinition \<Rightarrow> selectedDefinition \<Rightarrow> bool" where
  "isSameDefinition lib previous next \<longleftrightarrow>
     (let p = sd_Selection previous; n = sd_Selection next
      in sel_GVK p = sel_GVK n
         \<and> og_Source (sel_Origin p) = og_Source (sel_Origin n) \<and> og_Name (sel_Origin p) = og_Name (sel_Origin n)
         \<and> og_UID (sel_Origin p) = og_UID (sel_Origin n)
         \<and> failureReason (sd_err previous) = failureReason (sd_err next)
         \<and> (case (sel_Definition p, sel_Definition n) of
              (Some k, Some k') \<Rightarrow> cl_DeepEqual lib (k_Spec (ko_karta k)) (k_Spec (ko_karta k'))
            | (None, None) \<Rightarrow> True
            | _ \<Rightarrow> False))"

text \<open>The snapshot that is kept, and the kinds whose definition is another one now.\<close>

definition kept_definition :: "ctllib \<Rightarrow> 'd Controller \<Rightarrow> GroupKind \<Rightarrow> selectedDefinition \<Rightarrow> selectedDefinition" where
  "kept_definition lib c kind selected =
     (case map_of (ct_selectedDefinitions c) kind of
        None \<Rightarrow> selected
      | Some previous \<Rightarrow> if isSameDefinition lib previous selected then previous else selected)"

definition changed_kinds :: "ctllib \<Rightarrow> 'd Controller \<Rightarrow> (GroupKind \<times> selectedDefinition) list \<Rightarrow> GroupKind list" where
  "changed_kinds lib c next =
     map fst (filter (\<lambda>(kind, selected). case map_of (ct_selectedDefinitions c) kind of
         None \<Rightarrow> True | Some previous \<Rightarrow> \<not> isSameDefinition lib previous selected) next)
     @ filter (\<lambda>kind. map_of next kind = None) (map fst (ct_selectedDefinitions c))"

definition requeue_object :: "ctllib \<Rightarrow> GroupKind list \<Rightarrow> 'd KubeObject \<Rightarrow> 'd Controller \<Rightarrow> 'd Controller" where
  "requeue_object lib kinds object c =
     (let ref = refOf object;
          c1 = (if GroupKind_of (or_GVK ref) \<in> set kinds then enqueueObject lib object c else c)
      in if or_GVK ref \<noteq> podGVK then c1
         else case map_of (ct_roots c1) (root_uid_of_pod c1 (or_UID ref)) of
           None \<Rightarrow> enqueuePod lib (Some object) c1
         | Some rt \<Rightarrow> if GroupKind_of (or_GVK (rs_ref rt)) \<in> set kinds then enqueuePod lib (Some object) c1 else c1)"

definition requeue_root :: "bool \<Rightarrow> GroupKind list \<Rightarrow> UID \<times> rootState \<Rightarrow> 'd Controller \<Rightarrow> 'd Controller" where
  "requeue_root healthChanged kinds r c =
     (if healthChanged \<or> GroupKind_of (or_GVK (rs_ref (snd r))) \<in> set kinds
      then enqueueMembers (snd r) (add_jobs [root_job (fst r)] c) else c)"

definition requeue_definitions :: "ctllib \<Rightarrow> bool \<Rightarrow> GroupKind list \<Rightarrow> 'd Controller \<Rightarrow> 'd Controller" where
  "requeue_definitions lib healthChanged kinds c =
     (let c1 = (if healthChanged then enqueueScopeRefresh [] c
            else fold (requeue_object lib kinds) (map (ce_object \<circ> snd) (ct_objects c)) c);
          c2 = fold (requeue_root healthChanged kinds) (ct_roots c1) c1
      in add_jobs (map selected_job (filter (\<lambda>key. GroupKind_of (ky_GVK (jk_Object key)) \<in> set kinds)
           (map fst (ct_selectedObjectRoots c2)))) c2)"

definition accept_definitions ::
  "ctllib \<Rightarrow> (GroupKind \<times> selectedDefinition) list \<Rightarrow> xerr option \<Rightarrow> 'd Controller \<Rightarrow> 'd Controller" where
  "accept_definitions lib next sourceErr c =
     (let c1 = c\<lparr>ct_definitionInventoryErr := sourceErr,
             ct_selectedDefinitions := map (\<lambda>(kind, selected). (kind, kept_definition lib c kind selected)) next\<rparr>
      in if cc_ClusterDefinitions (ct_config c)
         then publish (SetSourceHealth definitionSource \<lparr>sh_GVK = kartaGVK, sh_Synced = (sourceErr = None), sh_Error = failureReason sourceErr\<rparr>) c1
         else c1)"

definition refreshDefinitions ::
  "ctllib \<Rightarrow> (GroupKind \<times> selectedDefinition) list xres \<Rightarrow> 'd Controller \<Rightarrow> xerr option \<times> 'd Controller" where
  "refreshDefinitions lib prepared c =
     (let (sourceErr, next) = (case prepared of Inl e \<Rightarrow> (Some e, ct_selectedDefinitions c) | Inr next \<Rightarrow> (None, next));
          healthChanged = (failureReason (ct_definitionInventoryErr c) \<noteq> failureReason sourceErr);
          kinds = changed_kinds lib c next;
          c1 = accept_definitions lib next sourceErr c
      in (sourceErr,
          if \<not> healthChanged \<and> kinds = [] then c1
          else requeue_definitions lib healthChanged kinds (c1\<lparr>ct_definitionVersion := ct_definitionVersion c1 + 1\<rparr>)))"

section \<open>Which watches\<close>

definition namespace_watches :: "'d Controller \<Rightarrow> resourceWatch list" where
  "namespace_watches c = filter (\<lambda>w. rw_gvk w = namespaceGVK \<and> rw_ready w \<and> rw_err w = None) (map snd (ct_watches c))"

definition wanted_kinds :: "'d Controller \<Rightarrow> GroupVersionKind list" where
  "wanted_kinds c = remdups (podGVK
     # filter (\<lambda>gvk. gvk_Version gvk \<noteq> [] \<and> gvk_Kind gvk \<noteq> []) (map (sel_GVK \<circ> sd_Selection \<circ> snd) (ct_selectedDefinitions c))
     @ cc_RequiredKinds (ct_config c))"

definition out_of_scope :: "'d Controller \<Rightarrow> string \<Rightarrow> bool" where
  "out_of_scope c namespace \<longleftrightarrow> namespace \<noteq> [] \<and> namespace \<notin> set (ct_scopes c)"

definition rescope :: "string list \<Rightarrow> 'd Controller \<Rightarrow> 'd Controller" where
  "rescope admitted c =
     (let c1 = c\<lparr>ct_scopes := admitted\<rparr>
      in fold (\<lambda>uid d. case map_of (ct_roots d) uid of
             None \<Rightarrow> d
           | Some rt \<Rightarrow> if isNamespaceInScope d (or_Namespace (rs_ref rt)) then d else removeRoot uid d) (map fst (ct_roots c1)) c1)"

text \<open>Watches and failures of a namespace go with it.\<close>

definition retire_key :: "ctllib \<Rightarrow> SourceKey \<Rightarrow> 'd Controller \<Rightarrow> 'd Controller" where
  "retire_key lib key c =
     (case map_of (ct_watches c) key of
        None \<Rightarrow> c
      | Some w \<Rightarrow> if out_of_scope c (sk_Namespace key) then retire_both lib w c else c)"

definition drop_out_of_scope :: "ctllib \<Rightarrow> 'd Controller \<Rightarrow> 'd Controller" where
  "drop_out_of_scope lib c =
     (let c1 = fold (retire_key lib) (map fst (ct_watches c)) c
      in fold (\<lambda>request d. if out_of_scope d (wr_Namespace request) then forget_failure lib request d else d)
           (map fst (ct_watchFailures c1)) c1)"

definition watch_requests :: "'d Controller \<Rightarrow> WatchRequest list" where
  "watch_requests c = concat (map (\<lambda>gvk. map (\<lambda>ns. \<lparr>wr_GVK = gvk, wr_Namespace = ns\<rparr>) (ct_scopes c)) (wanted_kinds c))"

text \<open>
  The part under the lock, on the prepared definitions: the requests, None while no watch of namespaces is ready, and the error.
  The whole is None when an object of a watch of namespaces is not in the cache.
\<close>

definition prepareWatchRequests ::
  "ctllib \<Rightarrow> (GroupKind \<times> selectedDefinition) list xres \<Rightarrow> 'd Controller \<Rightarrow> (WatchRequest list option \<times> xerr option \<times> 'd Controller) option" where
  "prepareWatchRequests lib prepared c =
     (let (definitionErr, c1) = refreshDefinitions lib prepared c
      in if cc_NamespaceSelector (ct_config c1) then
           (case admitted_objects lib c1 (concat (map rw_objects (namespace_watches c1))) of
              None \<Rightarrow> None
            | Some admitted \<Rightarrow>
                if namespace_watches c1 = [] then Some (None, Some (Sentinel DiscoveryErrPending), c1)
                else
                  let c3 = drop_out_of_scope lib (rescope (remdups admitted) c1)
                  in Some (Some (watch_requests c3), definitionErr, c3))
         else
           let c3 = drop_out_of_scope lib c1
           in Some (Some (watch_requests c3), definitionErr, c3))"

end
