(* ===== verification/Workload_Evaluation.thy ===== *)
theory Workload_Evaluation
  imports Gang_Scheduling Exporter_Store
begin

text \<open>
  The evaluation of a Pod and of a root by the SDK, as \<^verbatim>\<open>controller/leaf.go\<close> and \<^verbatim>\<open>controller/root.go\<close> put it together: the component,
  the instance and the group of a Pod, and the status of a root. The loop over the owners of a component need not end on a Karta with
  an ownership cycle; on the others it ends, and neither evaluation panics.
\<close>

section \<open>The component of a Pod\<close>

definition ErrMissingComponentInstance :: goerr where
  "ErrMissingComponentInstance = Errorf ''required component instance is missing'' []"

text \<open>The loop over the owners of a component; None when it does not end.\<close>

definition own_replica_selector :: "Component \<Rightarrow> ReplicaSelector option" where
  "own_replica_selector component =
     (case GetPodSelector component of
        None \<Rightarrow> None
      | Some s \<Rightarrow> (case psel_ReplicaSelector s of None \<Rightarrow> None | Some r \<Rightarrow> if rs_KeyPath r \<noteq> [] then Some r else None))"

partial_function (option) replica_selector :: "ComponentFactory \<Rightarrow> Component \<Rightarrow> ReplicaSelector option res option" where
  "replica_selector factory component =
     (case own_replica_selector component of
        Some r \<Rightarrow> Some (Ok (Some r))
      | None \<Rightarrow>
          (case cd_OwnerRef (comp_definition component) of
             None \<Rightarrow> Some (Ok None)
           | Some ownerComponentName \<Rightarrow>
               (case GetComponent factory ownerComponentName of
                  Ok owner \<Rightarrow> replica_selector factory owner
                | Err e \<Rightarrow> Some (Err e)
                | Panic p \<Rightarrow> Some (Panic p)
                | NoReturn \<Rightarrow> Some NoReturn)))"

definition inherited_selector :: "ComponentFactory \<Rightarrow> Component \<Rightarrow> ReplicaSelector option res" where
  "inherited_selector factory component = (case replica_selector factory component of None \<Rightarrow> NoReturn | Some r \<Rightarrow> r)"

definition evaluatePodComponent ::
  "(rat \<Rightarrow> string) \<Rightarrow> 'p evaluator \<Rightarrow> ('r, 'o) ComponentAccessor \<Rightarrow> string \<Rightarrow> ComponentFactory \<Rightarrow> StructureSummary option
     \<Rightarrow> ('p \<times> 'r, string \<times> string \<times> string) act" where
  "evaluatePodComponent num E A podName factory summary =
     (case summary of
        None \<Rightarrow> panic_act ''invalid memory address or nil pointer dereference''
      | Some s \<Rightarrow>
          and_then (on_pod (InferPodComponent E podName s)) (\<lambda>componentName.
          and_then (lift_res (GetComponent factory componentName)) (\<lambda>component.
          and_then (InferPodComponentInstance num E A componentName factory) (\<lambda>instanceID.
          let inst = (case instanceID of None \<Rightarrow> [] | Some i \<Rightarrow> i)
          in if cd_InstanceIdPath (comp_definition component) \<noteq> None \<and> inst = [] then fail_act ErrMissingComponentInstance
             else and_then (lift_res (inherited_selector factory component)) (\<lambda>selector.
               case selector of
                 None \<Rightarrow> return_act (componentName, inst, [])
               | Some r \<Rightarrow>
                   and_then (on_pod (ExtractReplicaKey num E (Some r))) (\<lambda>(group_key, found_key).
                   return_act (componentName, inst, group_key)))))))"

section \<open>The status of a root\<close>

text \<open>The error, and the record with what was found.\<close>

definition evaluateWorkloadStatus ::
  "('r, 'o) ComponentAccessor \<Rightarrow> ComponentFactory \<Rightarrow> WorkloadRecord \<Rightarrow> ('r, xerr option \<times> WorkloadRecord) act" where
  "evaluateWorkloadStatus A factory rec = (\<lambda>r.
     case and_then (lift_res (GetRootComponent factory)) (\<lambda>component. GetStatus A component) r of
       (Ok None, r') \<Rightarrow> (Ok (None, rec), r')
     | (Ok (Some status), r') \<Rightarrow>
         (Ok (None, rec\<lparr>wrec_HasStatus := True, wrec_Phases := map ResourceStatus_string (st_MatchedStatuses status)\<rparr>), r')
     | (Err e, r') \<Rightarrow> (Ok (Some (XWrapf ''%w: %w'' [] [Sentinel DiscoveryErrEvaluation, SdkError e]), rec), r')
     | (Panic p, r') \<Rightarrow> (Panic p, r')
     | (NoReturn, r') \<Rightarrow> (NoReturn, r'))"

section \<open>The owners end\<close>

text \<open>What the evaluation needs of a Karta: different names, and no ownership cycle.\<close>

definition evaluable :: "Karta \<Rightarrow> bool" where
  "evaluable k \<longleftrightarrow> distinct (component_names k) \<and> (\<forall>n \<in> set (component_names k). \<exists>d. rooted_at (named_components k) d n)"

definition selector_named :: "Karta \<Rightarrow> string \<Rightarrow> ReplicaSelector option" where
  "selector_named k n = (case map_of (named_components k) n of None \<Rightarrow> None | Some d \<Rightarrow> own_replica_selector (component_of d))"

fun nearest :: "('a \<Rightarrow> 'b option) \<Rightarrow> 'a list \<Rightarrow> 'b option" where
  "nearest f [] = None"
| "nearest f (x # xs) = (case f x of Some y \<Rightarrow> Some y | None \<Rightarrow> nearest f xs)"

lemma replica_selector_lineage:
  assumes "NewComponentFactory (Some k) = Ok f" "distinct (component_names k)" "rooted_at (named_components k) d (comp_name c)"
    "GetComponent f (comp_name c) = Ok c"
  shows "replica_selector f c = Some (Ok (nearest (selector_named k) (lineage (parents k) d (comp_name c))))"
  using assms(3,4)
proof (induction d arbitrary: c)
  case 0
  then obtain x where x: "map_of (named_components k) (comp_name c) = Some x" "cd_OwnerRef x = None" by (auto split: option.splits)
  with 0(2) have c: "comp_definition c = x" by (cases c) (auto simp: GetComponent_def factory_lookup [OF assms(1,2)])
  with x 0(2) show ?case
    by (subst replica_selector.simps) (auto simp: selector_named_def own_replica_selector_def GetPodSelector_def component_of_def
        split: option.split)
next
  case (Suc d)
  then obtain x p where x: "map_of (named_components k) (comp_name c) = Some x" "cd_OwnerRef x = Some p" "rooted_at (named_components k) d p"
    by (auto split: option.splits)
  with Suc(3) have c: "comp_definition c = x" by (cases c) (auto simp: GetComponent_def factory_lookup [OF assms(1,2)])
  from x(3) obtain y where y: "map_of (named_components k) p = Some y" using rooted_at_dom [of "named_components k" d p] by auto
  then have own: "GetComponent f p = Ok \<lparr>comp_name = p, comp_definition = y\<rparr>"
    by (simp add: GetComponent_def factory_lookup [OF assms(1,2)])
  have par: "parent_of (parents k) (comp_name c) = p" using parents_owner [OF assms(2) x(1)] x(2) by (simp add: parent_of_def)
  have sel: "selector_named k (comp_name c) = own_replica_selector c"
    by (simp add: selector_named_def x(1) own_replica_selector_def GetPodSelector_def component_of_def c)
  from Suc.IH [of "\<lparr>comp_name = p, comp_definition = y\<rparr>"] x(3) own
  have "replica_selector f \<lparr>comp_name = p, comp_definition = y\<rparr> = Some (Ok (nearest (selector_named k) (lineage (parents k) d p)))" by simp
  then show ?case
    by (subst replica_selector.simps) (simp add: par sel c x(2) own split: option.split)
qed

lemma inherited_selector_ok:
  assumes "NewComponentFactory (Some k) = Ok f" "evaluable k" "GetComponent f n = Ok c"
  shows "\<exists>d. rooted_at (named_components k) d n \<and> inherited_selector f c = Ok (nearest (selector_named k) (lineage (parents k) d n))"
proof -
  have dist: "distinct (component_names k)" using assms(2) by (simp add: evaluable_def)
  from assms(3) have c: "comp_name c = n" "n \<in> set (component_names k)"
    unfolding GetComponent_Ok [OF assms(1) dist] by (auto simp: component_of_def component_names_def)
  with assms(2) obtain d where "rooted_at (named_components k) d n" by (auto simp: evaluable_def)
  with replica_selector_lineage [OF assms(1) dist, of d c] c(1) assms(3) show ?thesis
    by (auto simp: inherited_selector_def)
qed

section \<open>The evaluations return\<close>

definition both :: "('p \<Rightarrow> bool) \<Rightarrow> ('r \<Rightarrow> bool) \<Rightarrow> 'p \<times> 'r \<Rightarrow> bool" where
  "both P R = (\<lambda>(p, r). P p \<and> R r)"

lemma on_pair_apply:
  "on_pod m (p, r) = (fst (m p), (snd (m p), r))" "on_workload m' (p, r) = (fst (m' r), (p, snd (m' r)))"
  by (simp_all add: on_pod_def on_workload_def split: prod.split)

lemma reads_on_pod:
  assumes "reads E P view m"
  shows "reads E (both P R) (map_prod view view') (on_pod m)"
proof (rule readsI)
  fix q assume q: "both P R q"
  then show "both P R (snd (on_pod m q))" "map_prod view view' (snd (on_pod m q)) = map_prod view view' q" "ok_res E (fst (on_pod m q))"
    using readsD [OF assms, of "fst q"] by (cases q; simp add: both_def on_pair_apply)+
  fix q' assume "both P R q'" "map_prod view view' q = map_prod view view' q'"
  with q show "fst (on_pod m q) = fst (on_pod m q')"
    using reads_same [OF assms, of "fst q" "fst q'"] by (cases q; cases q') (simp add: both_def on_pair_apply)
qed

lemma reads_on_workload:
  assumes "reads E R view m"
  shows "reads E (both P R) (map_prod view' view) (on_workload m)"
proof (rule readsI)
  fix q assume q: "both P R q"
  then show "both P R (snd (on_workload m q))" "map_prod view' view (snd (on_workload m q)) = map_prod view' view q" "ok_res E (fst (on_workload m q))"
    using readsD [OF assms, of "snd q"] by (cases q; simp add: both_def on_pair_apply)+
  fix q' assume "both P R q'" "map_prod view' view q = map_prod view' view q'"
  with q show "fst (on_workload m q) = fst (on_workload m q')"
    using reads_same [OF assms, of "snd q" "snd q'"] by (cases q; cases q') (simp add: both_def on_pair_apply)
qed

lemma lift_res_then: "and_then (lift_res (Ok a)) f = f a" "and_then (lift_res (Err e)) f = fail_act e"
  by (simp_all add: fun_eq_iff and_then_def lift_res_def fail_act_def)

lemma reads_lift_then:
  assumes "ok_res E x" "\<And>a. x = Ok a \<Longrightarrow> reads E invar view (f a)"
  shows "reads E invar view (and_then (lift_res x) f)"
  using assms(1) by (cases rule: ok_res_cases) (simp_all add: assms(2) lift_res_then reads_fail)

lemma GetComponent_clean: "ok_res clean (GetComponent f n)"
  by (simp add: GetComponent_def split: option.split)

text \<open>The summary of the same Karta knows all its leaves.\<close>

lemma InferPodComponent_reads:
  assumes "evaluator_contract E view invar" "NewStructureSummary sorter (Some k) = Ok s" "distinct (component_names k)"
  shows "reads clean invar view (InferPodComponent E podName s)"
proof -
  have "ss_componentDefinitionsByName s n \<noteq> None" if "n \<in> set (ss_leafComponents s)" for n
  proof -
    from that have "n \<in> dom (go_map (map (\<lambda>d. (cd_Name d, d)) (getAllComponents k)))"
      unfolding dom_go_map NewStructureSummary_basic(4) [OF assms(2)] by (auto simp: image_image)
    then show ?thesis unfolding NewStructureSummary_basic(6) [OF assms(2)] by (simp add: domIff)
  qed
  then have "reads clean invar view (infer_loop E s podName (ss_leafComponents s))"
    by (intro evaluator_contract.infer_loop_reads [OF assms(1)]) simp
  then show ?thesis unfolding InferPodComponent_def
    by (auto split: list.split intro: reads_return)
qed

lemma evaluatePodComponent_reads:
  assumes E: "evaluator_contract E view invar" and A: "accessor_contract A view' invar'"
    and k: "evaluable k" "NewComponentFactory (Some k) = Ok f" "NewStructureSummary sorter (Some k) = Ok s"
  shows "reads clean (both invar invar') (map_prod view view') (evaluatePodComponent num E A podName f (Some s))"
proof -
  have dist: "distinct (component_names k)" using k(1) by (simp add: evaluable_def)
  have inst: "reads clean (both invar invar') (map_prod view view') (InferPodComponentInstance num E A n f)" for n
    unfolding InferPodComponentInstance_def
    by (intro reads_lift_then GetComponent_clean reads_and_then reads_list reads_option reads_if reads_return)
      (auto intro!: reads_on_workload reads_on_pod reads_and_then reads_return accessor_contract.GetInstanceIds_reads [OF A]
         evaluator_contract.GetMatchingInstanceId_reads [OF E] split: list.split option.split)
  have sel: "ok_res clean (inherited_selector f c)" if "GetComponent f n = Ok c" for n c
    using inherited_selector_ok [OF k(2,1) that] by auto
  show ?thesis
    unfolding evaluatePodComponent_def option.case Let_def
    by (intro reads_and_then reads_on_pod [OF InferPodComponent_reads [OF E k(3) dist]] reads_lift_then GetComponent_clean inst reads_if)
      (auto intro!: reads_fail reads_lift_then sel reads_option reads_return reads_and_then reads_on_pod
         evaluator_contract.ExtractReplicaKey_reads [OF E] simp: ErrMissingComponentInstance_def split: option.split prod.split)
qed

lemma evaluateWorkloadStatus_reads:
  assumes A: "accessor_contract A view invar" and k: "evaluable k" "NewComponentFactory (Some k) = Ok f"
  shows "reads clean invar view (evaluateWorkloadStatus A f rec)"
proof -
  have dist: "distinct (component_names k)" using k(1) by (simp add: evaluable_def)
  let ?m = "and_then (lift_res (GetRootComponent f)) (\<lambda>component. GetStatus A component)"
  have m: "reads clean invar view ?m"
    unfolding factory_navigation(1) [OF k(2) dist] lift_res_then by (rule accessor_contract.getters_read(6) [OF A])
  show ?thesis
  proof (rule readsI)
    fix r assume r: "invar r"
    show "invar (snd (evaluateWorkloadStatus A f rec r))" "view (snd (evaluateWorkloadStatus A f rec r)) = view r"
      using readsD(1,2) [OF m r]
      by (auto simp: evaluateWorkloadStatus_def split: prod.split res.split option.split)
    show "ok_res clean (fst (evaluateWorkloadStatus A f rec r))"
      using readsD(3) [OF m r]
      by (auto simp: evaluateWorkloadStatus_def split: prod.split res.split option.split)
    fix r' assume r': "invar r'" "view r = view r'"
    show "fst (evaluateWorkloadStatus A f rec r) = fst (evaluateWorkloadStatus A f rec r')"
      using reads_same [OF m r r']
      by (auto simp: evaluateWorkloadStatus_def split: prod.split res.split option.split)
  qed
qed

end
