(* ===== verification/Controller_Definitions.thy ===== *)
theory Controller_Definitions
  imports Controller_Runtime Workload_Evaluation
begin

text \<open>
  The definitions of the controller: what the inventory hands over has been validated, so a snapshot of it is prepared without a
  panic, and every selected definition that has no error can be evaluated. Only \<open>refreshDefinitions\<close> changes the snapshot.
\<close>

section \<open>Validated definitions can be evaluated\<close>

text \<open>The status definition that the inventory adds for the validation changes no name and no owner.\<close>

lemma with_status_parts:
  "component_names (with_status k) = component_names k" "children_of (with_status k) = children_of k"
  "cd_OwnerRef (root_of (with_status k)) = cd_OwnerRef (root_of k)" "cd_Name (root_of (with_status k)) = cd_Name (root_of k)"
  by (simp_all add: with_status_def component_names_def Let_def)

lemma with_status_owner:
  "map_option cd_OwnerRef (map_of (named_components (with_status k)) n) = map_option cd_OwnerRef (map_of (named_components k) n)"
  by (auto simp: named_components_def with_status_parts map_add_def split: option.split)

lemma rooted_same_owners:
  assumes "\<And>n. map_option cd_OwnerRef (map_of m n) = map_option cd_OwnerRef (map_of m' n)" "rooted_at m d n"
  shows "rooted_at m' d n"
  using assms(2)
proof (induction d arbitrary: n)
  case 0
  then obtain c where c: "map_of m n = Some c" "cd_OwnerRef c = None" by (auto split: option.splits)
  with assms(1) [of n] obtain c' where "map_of m' n = Some c'" "cd_OwnerRef c' = None" by (cases "map_of m' n") auto
  then show ?case by simp
next
  case (Suc d)
  then obtain c p where c: "map_of m n = Some c" "cd_OwnerRef c = Some p" "rooted_at m d p" by (auto split: option.splits)
  with assms(1) [of n] obtain c' where "map_of m' n = Some c'" "cd_OwnerRef c' = Some p" by (cases "map_of m' n") auto
  with Suc.IH c(3) show ?case by auto
qed

lemma closed_same_owners:
  assumes "\<And>n. map_option cd_OwnerRef (map_of m n) = map_option cd_OwnerRef (map_of m' n)" "owner_closed m"
  shows "owner_closed m'"
  unfolding owner_closed_def
proof (intro allI impI)
  fix n c assume c: "map_of m' n = Some c"
  with assms(1) [of n] obtain c0 where c0: "map_of m n = Some c0" "cd_OwnerRef c0 = cd_OwnerRef c" by auto
  have dom: "p \<in> dom (map_of m') \<longleftrightarrow> p \<in> dom (map_of m)" for p using assms(1) [of p] by (cases "map_of m p"; cases "map_of m' p") (simp_all add: domIff)
  from assms(2) c0 show "n \<noteq> [] \<and> (\<forall>p. cd_OwnerRef c = Some p \<longrightarrow> p \<in> dom (map_of m'))" by (auto simp: owner_closed_def dom)
qed

lemma validated_evaluable:
  assumes "Validate parse (Some (with_status k)) = None"
  shows "evaluable k" "owner_closed (named_components k)"
proof -
  have wf: "well_formed parse (with_status k)" using assms by (simp add: Validate_None)
  show "owner_closed (named_components k)"
    by (rule closed_same_owners [OF with_status_owner well_formed_closed [OF wf]])
  have "\<exists>d. rooted_at (named_components k) d n" if "n \<in> set (component_names k)" for n
    using well_formed_rooted [OF wf, of n] that rooted_same_owners [OF with_status_owner] by (auto simp: with_status_parts)
  with well_formed_distinct [OF wf] show "evaluable k" by (simp add: evaluable_def with_status_parts)
qed

lemma evaluable_summary:
  assumes "evaluable k" "owner_closed (named_components k)"
  shows "\<exists>s. NewStructureSummary sorter (Some k) = Ok s"
proof (cases "gang_of k")
  case (Some g)
  have "findEffectiveComponentCandidates (gs_PodGroups g) (parents k) (cd_Name c) = Some (ranked_candidates (gs_PodGroups g) k (cd_Name c))"
    if "c \<in> set (getAllComponents k)" for c
  proof -
    from that have "cd_Name c \<in> set (component_names k)" by (auto simp: component_names_def getAllComponents_def)
    with assms(1) obtain d where "rooted_at (named_components k) d (cd_Name c)" "distinct (component_names k)" by (auto simp: evaluable_def)
    with find_rooted [OF _ assms(2), of d "cd_Name c" "gs_PodGroups g"] show ?thesis by (simp add: ranked_candidates_def)
  qed
  with build_candidates_Ok [of "getAllComponents k" "gs_PodGroups g" "parents k" "ranked_candidates (gs_PodGroups g) k" sorter Map.empty]
  show ?thesis by (auto simp: NewStructureSummary_eq Some)
qed (simp add: NewStructureSummary_eq)

section \<open>Prepared definitions\<close>

definition checked_result :: "(string \<Rightarrow> goerr + ast) \<Rightarrow> SelectionResult \<Rightarrow> bool" where
  "checked_result parse r \<longleftrightarrow>
     (case (sr_Err r, sel_Definition (sr_Selection r)) of
        (None, Some k) \<Rightarrow> Validate parse (Some (with_status (ko_karta k))) = None
      | _ \<Rightarrow> True)"

text \<open>A definition without an error has an evaluable Karta and its summary.\<close>

definition sound_definition :: "selectedDefinition \<Rightarrow> bool" where
  "sound_definition s \<longleftrightarrow>
     (case (sd_err s, sel_Definition (sd_Selection s)) of
        (None, Some k) \<Rightarrow> evaluable (ko_karta k)
          \<and> (\<exists>sorter summary. NewStructureSummary sorter (Some (ko_karta k)) = Ok summary \<and> sd_summary s = Some summary)
      | _ \<Rightarrow> True)"

definition sound_definitions :: "(GroupKind \<times> selectedDefinition) list \<Rightarrow> bool" where
  "sound_definitions ds \<longleftrightarrow> (\<forall>s \<in> snd ` set ds. sound_definition s)"

definition sound_prepared :: "(GroupKind \<times> selectedDefinition) list xres \<Rightarrow> bool" where
  "sound_prepared prepared \<longleftrightarrow> (case prepared of Inl e \<Rightarrow> True | Inr ds \<Rightarrow> sound_definitions ds)"

lemma prepared_definition_sound:
  assumes "checked_result parse r"
  shows "\<exists>s. prepared_definition sorter r = Some s \<and> sound_definition s"
proof (cases "sr_Err r = None \<and> sel_Definition (sr_Selection r) \<noteq> None")
  case True
  then obtain k where k: "sr_Err r = None" "sel_Definition (sr_Selection r) = Some k" by auto
  with assms have v: "Validate parse (Some (with_status (ko_karta k))) = None" by (simp add: checked_result_def)
  from evaluable_summary [OF validated_evaluable [OF v]] obtain s where "NewStructureSummary sorter (Some (ko_karta k)) = Ok s" by blast
  with k validated_evaluable(1) [OF v] show ?thesis by (auto simp: prepared_definition_def sound_definition_def)
next
  case False
  then show ?thesis
    by (cases "sr_Err r"; cases "sel_Definition (sr_Selection r)") (auto simp: prepared_definition_def sound_definition_def)
qed

lemma sound_definitions_update:
  "sound_definitions ds \<Longrightarrow> sound_definition s \<Longrightarrow> sound_definitions (AList.update kind s ds)"
proof -
  have "snd ` set (AList.update kind s ds) \<subseteq> insert s (snd ` set ds)" by (induction ds) auto
  then show "sound_definitions ds \<Longrightarrow> sound_definition s \<Longrightarrow> sound_definitions (AList.update kind s ds)"
    unfolding sound_definitions_def by blast
qed

lemma prepare_results_sound:
  "(\<And>r. r \<in> set rs \<Longrightarrow> checked_result parse r) \<Longrightarrow> sound_definitions ds
     \<Longrightarrow> \<exists>ds'. prepare_results sorter rs ds = Some ds' \<and> sound_definitions ds'"
proof (induction sorter rs ds rule: prepare_results.induct)
  case (2 sorter r rs ds)
  obtain s where s: "prepared_definition sorter r = Some s" "sound_definition s"
    using prepared_definition_sound [of parse r sorter] "2.prems"(1) by auto
  from "2.IH" [OF s(1)] "2.prems" s sound_definitions_update show ?case by auto
qed simp

lemma prepareDefinitions_sound:
  assumes "\<And>rs r. results = Inr rs \<Longrightarrow> r \<in> set rs \<Longrightarrow> checked_result parse r"
  shows "\<exists>prepared. prepareDefinitions sorter results = Some prepared \<and> sound_prepared prepared"
proof (cases results)
  case (Inr rs)
  then obtain ds where "prepare_results sorter rs [] = Some ds" "sound_definitions ds"
    using prepare_results_sound [of rs parse "[]" sorter] assms by (auto simp: sound_definitions_def)
  with Inr show ?thesis by (simp add: prepareDefinitions_def sound_prepared_def)
qed (simp add: prepareDefinitions_def sound_prepared_def)

section \<open>What the inventory hands over\<close>

text \<open>Every entry of a reachable inventory carries the outcome of its validation.\<close>

definition checked_entry :: "(string \<Rightarrow> goerr + ast) \<Rightarrow> definitionEntry \<Rightarrow> bool" where
  "checked_entry parse e \<longleftrightarrow> (case de_definition e of None \<Rightarrow> True | Some k \<Rightarrow> e = validatedEntry parse k)"

lemma checked_decoded: "checked_entry (il_parse lib) (decodeKarta lib u)"
  by (auto simp: checked_entry_def decodeKarta_def validatedEntry_def split: sum.split)

definition checked_entries :: "(string \<Rightarrow> goerr + ast) \<Rightarrow> ('k \<times> definitionEntry) list \<Rightarrow> bool" where
  "checked_entries parse es \<longleftrightarrow> list_all (\<lambda>(k, e). checked_entry parse e) es"

definition checked_inventory :: "(string \<Rightarrow> goerr + ast) \<Rightarrow> Inventory \<Rightarrow> bool" where
  "checked_inventory parse i \<longleftrightarrow> checked_entries parse (iv_cluster i) \<and> checked_entries parse (iv_catalog i)"

lemma checked_update:
  "checked_entries parse es \<Longrightarrow> checked_entry parse e \<Longrightarrow> checked_entries parse (AList.update k e es)"
  by (induction es) (auto simp: checked_entries_def)

lemma checked_delete: "checked_entries parse es \<Longrightarrow> checked_entries parse (AList.delete k es)"
  by (auto simp: checked_entries_def AList.delete_eq list_all_iff)

lemma checked_listed:
  "listed_cluster lib f objs cluster = Some cluster' \<Longrightarrow> checked_entries (il_parse lib) cluster
     \<Longrightarrow> checked_entries (il_parse lib) cluster'"
  by (induction lib f objs cluster rule: listed_cluster.induct) (auto intro: checked_update checked_decoded split: if_splits)

lemma checked_step:
  assumes "istep lib i i'" "checked_inventory (il_parse lib) i"
  shows "checked_inventory (il_parse lib) i'"
  using assms
proof (induction rule: istep.induct)
  case (istep_Add i obj)
  then show ?case
    by (cases obj) (auto simp: inv_ops checked_inventory_def intro: checked_update checked_decoded)
next
  case (istep_Delete i obj)
  then show ?case by (cases obj) (auto simp: inv_ops checked_inventory_def intro: checked_delete)
next
  case (istep_Replace i now objs)
  have "checked_entries (il_parse lib) []" by (simp add: checked_entries_def)
  with istep_Replace checked_listed [of lib "iv_clusterFilter i" objs "[]"] show ?case
    by (cases "listed_cluster lib (iv_clusterFilter i) objs []") (auto simp: inv_ops checked_inventory_def)
qed (auto simp: inv_ops checked_inventory_def split: option.splits watch_event.splits)

lemma checked_reachable: "reachable lib i \<Longrightarrow> checked_inventory (il_parse lib) i"
proof (induction rule: reachable.induct)
  case (reachable_New defs has_client config i)
  then show ?case
    by (auto simp: inventory_New_def inv_ops checked_inventory_def checked_entries_def checked_entry_def validatedEntry_def list_all_iff
        split: if_splits prod.splits option.splits)
qed (rule checked_step)

lemma elected_result_checked:
  assumes "checked_inventory parse i" "elected_result i gk = Some r"
  shows "checked_result parse r"
proof -
  from assms(2) obtain w source where w: "electLocked i \<lparr>gvk_Group = fst gk, gvk_Version = [], gvk_Kind = snd gk\<rparr> = Some (w, source)"
    and r: "r = \<lparr>sr_Selection = selection (de_definition w) source, sr_Err = de_err w\<rparr>"
    by (auto simp: elected_result_def split: option.splits)
  have "w = empty_entry \<or> w \<in> snd ` set (iv_cluster i) \<union> snd ` set (iv_catalog i)"
  proof -
    obtain v where v: "elect_loop \<lparr>gvk_Group = fst gk, gvk_Version = [], gvk_Kind = snd gk\<rparr> (iv_cluster i) empty_entry = Some v"
      using w by (auto simp: electLocked_def split: option.splits)
    with elect_loop_spec [OF v] w show ?thesis
      by (auto simp: electLocked_def split: if_splits option.splits dest!: map_of_SomeD intro: rev_image_eqI)
  qed
  with assms(1) have "checked_entry parse w" by (auto simp: checked_inventory_def checked_entries_def list_all_iff checked_entry_def empty_entry_def)
  then show ?thesis
    by (auto simp: r checked_entry_def checked_result_def validatedEntry_def selection_def empty_selection_def split: option.splits)
qed

lemma inventory_List_checked:
  assumes "reachable lib i" "inventory_List sort_by str i = Some (Inr rs)" "key_sorter sort_by" "r \<in> set rs"
  shows "checked_result (il_parse lib) r"
proof -
  from assms(2) obtain results where "all_some (map (elected_result i) (selected_kinds i)) = Some results"
    "rs = sort_by (\<lambda>r. str (sel_GVK (sr_Selection r))) results"
    by (auto simp: inventory_List_def split: option.splits if_splits)
  with assms(4) key_sorter.set_sort_by [OF assms(3)] have "Some r \<in> set (map (elected_result i) (selected_kinds i))"
    by (metis all_some_Some image_eqI set_map)
  with elected_result_checked [OF checked_reachable [OF assms(1)]] show ?thesis by auto
qed

section \<open>Who changes the snapshot\<close>

named_theorems snapshot_kept \<open>operations that leave the selected definitions and their version alone\<close>

lemma definitions_basic [snapshot_kept]:
  "ct_selectedDefinitions (add_jobs js c) = ct_selectedDefinitions c"
  "ct_definitionVersion (add_jobs js c) = ct_definitionVersion c"
  "ct_selectedDefinitions (add_pods ps c) = ct_selectedDefinitions c"
  "ct_definitionVersion (add_pods ps c) = ct_definitionVersion c"
  "ct_selectedDefinitions (publish f c) = ct_selectedDefinitions c"
  "ct_definitionVersion (publish f c) = ct_definitionVersion c"
  "ct_selectedDefinitions (cancel_watch w c) = ct_selectedDefinitions c"
  "ct_definitionVersion (cancel_watch w c) = ct_definitionVersion c"
  "ct_selectedDefinitions (put_watch w c) = ct_selectedDefinitions c"
  "ct_definitionVersion (put_watch w c) = ct_definitionVersion c"
  "ct_selectedDefinitions (sync_sources c) = ct_selectedDefinitions c"
  "ct_definitionVersion (sync_sources c) = ct_definitionVersion c"
  "ct_selectedDefinitions (enqueueScopeRefresh ns c) = ct_selectedDefinitions c"
  "ct_definitionVersion (enqueueScopeRefresh ns c) = ct_definitionVersion c"
  by (simp_all add: add_jobs_def add_pods_def publish_def cancel_watch_def put_watch_def sync_sources_def enqueueScopeRefresh_def)

lemma definitions_members [snapshot_kept]:
  "ct_selectedDefinitions (update_root u f c) = ct_selectedDefinitions c"
  "ct_definitionVersion (update_root u f c) = ct_definitionVersion c"
  "ct_selectedDefinitions (enqueueMembers rt c) = ct_selectedDefinitions c"
  "ct_definitionVersion (enqueueMembers rt c) = ct_definitionVersion c"
  "ct_selectedDefinitions (removeRoot uid c) = ct_selectedDefinitions c"
  "ct_definitionVersion (removeRoot uid c) = ct_definitionVersion c"
  "ct_selectedDefinitions (unregisterPod key c) = ct_selectedDefinitions c"
  "ct_definitionVersion (unregisterPod key c) = ct_definitionVersion c"
  "ct_selectedDefinitions (trackSelectedObject key c) = ct_selectedDefinitions c"
  "ct_definitionVersion (trackSelectedObject key c) = ct_definitionVersion c"
  "ct_selectedDefinitions (removeSelectedObjectMembership key c) = ct_selectedDefinitions c"
  "ct_definitionVersion (removeSelectedObjectMembership key c) = ct_definitionVersion c"
  by (simp_all add: update_root_def enqueueMembers_def removeRoot_def unregisterPod_def trackSelectedObject_def
      removeSelectedObjectMembership_def Let_def snapshot_kept split: option.split)

lemma definitions_ensureRoot:
  "ensureRoot workload c = Some (ref, c1)
     \<Longrightarrow> ct_selectedDefinitions c1 = ct_selectedDefinitions c \<and> ct_definitionVersion c1 = ct_definitionVersion c"
  by (auto simp: ensureRoot_def Let_def snapshot_kept split: list.splits prod.splits)

lemma definitions_register:
  "registerPodRoot lib key workload c = Some (err, c')
     \<Longrightarrow> ct_selectedDefinitions c' = ct_selectedDefinitions c \<and> ct_definitionVersion c' = ct_definitionVersion c"
  "registerSelectedObjectRoot key workload sel rootSel c = Some (err, c')
     \<Longrightarrow> ct_selectedDefinitions c' = ct_selectedDefinitions c \<and> ct_definitionVersion c' = ct_definitionVersion c"
  by (auto simp: registerPodRoot_def registerSelectedObjectRoot_def Let_def snapshot_kept
      dest!: definitions_ensureRoot split: if_splits option.splits)

lemma definitions_select [snapshot_kept]:
  "ct_selectedDefinitions (snd (replaceSelectedObjectTracking key obj sel c)) = ct_selectedDefinitions c"
  "ct_definitionVersion (snd (replaceSelectedObjectTracking key obj sel c)) = ct_definitionVersion c"
  "ct_selectedDefinitions (snd (excludeSelectedObject key workload sel rootSel c)) = ct_selectedDefinitions c"
  "ct_definitionVersion (snd (excludeSelectedObject key workload sel rootSel c)) = ct_definitionVersion c"
  "ct_selectedDefinitions (failSelectedObjectDiscovery key e c) = ct_selectedDefinitions c"
  "ct_definitionVersion (failSelectedObjectDiscovery key e c) = ct_definitionVersion c"
  by (simp_all add: replaceSelectedObjectTracking_def excludeSelectedObject_def failSelectedObjectDiscovery_def Let_def snapshot_kept
      split: option.split)

lemma definitions_publish [snapshot_kept]:
  "ct_selectedDefinitions (snd (publishPodFailure key sources cause rt c)) = ct_selectedDefinitions c"
  "ct_definitionVersion (snd (publishPodFailure key sources cause rt c)) = ct_definitionVersion c"
  "ct_selectedDefinitions (snd (failWorkload c0 uid ref cause c)) = ct_selectedDefinitions c"
  "ct_definitionVersion (snd (failWorkload c0 uid ref cause c)) = ct_definitionVersion c"
  "ct_selectedDefinitions (snd (publishPod lib path rootRef sel outcome labelFailed c)) = ct_selectedDefinitions c"
  "ct_definitionVersion (snd (publishPod lib path rootRef sel outcome labelFailed c)) = ct_definitionVersion c"
  "ct_selectedDefinitions (snd (publishWorkload lib uid ref sel result c)) = ct_selectedDefinitions c"
  "ct_definitionVersion (snd (publishWorkload lib uid ref sel result c)) = ct_definitionVersion c"
  by (auto simp: publishPodFailure_def failWorkload_def publishPod_def publishWorkload_def Let_def snapshot_kept
      split: prod.split sum.split)

lemma definitions_fail [snapshot_kept]:
  "ct_selectedDefinitions (snd (failPod c0 key path cause rt c)) = ct_selectedDefinitions c"
  "ct_definitionVersion (snd (failPod c0 key path cause rt c)) = ct_definitionVersion c"
  "ct_selectedDefinitions (snd (failPodEvaluation lib c0 key path cause rt' sel c)) = ct_selectedDefinitions c"
  "ct_definitionVersion (snd (failPodEvaluation lib c0 key path cause rt' sel c)) = ct_definitionVersion c"
  by (simp_all add: failPod_def failPodEvaluation_def snapshot_kept)

lemma definitions_change [snapshot_kept]:
  "ct_selectedDefinitions (cache lib k key object c) = ct_selectedDefinitions c"
  "ct_selectedDefinitions (uncache lib key c) = ct_selectedDefinitions c"
  "ct_definitionVersion (cache lib k key object c) = ct_definitionVersion c"
  "ct_definitionVersion (uncache lib key c) = ct_definitionVersion c"
  by (simp_all add: cache_def uncache_def sans_queuesD(11,12) [OF sans_queues_change] Let_def)

lemma definitions_fold:
  "(\<And>x c. ct_selectedDefinitions (f x c) = ct_selectedDefinitions c) \<Longrightarrow> ct_selectedDefinitions (fold f xs c) = ct_selectedDefinitions c"
  "(\<And>x c. ct_definitionVersion (f x c) = ct_definitionVersion c) \<Longrightarrow> ct_definitionVersion (fold f xs c) = ct_definitionVersion c"
  by (rule fold_frame, blast)+

lemma definitions_watch [snapshot_kept]:
  "ct_selectedDefinitions (updateWatchHealth w err c) = ct_selectedDefinitions c"
  "ct_definitionVersion (updateWatchHealth w err c) = ct_definitionVersion c"
  "ct_selectedDefinitions (change_watch w f c) = ct_selectedDefinitions c"
  "ct_definitionVersion (change_watch w f c) = ct_definitionVersion c"
  "ct_selectedDefinitions (forget_failure lib request c) = ct_selectedDefinitions c"
  "ct_definitionVersion (forget_failure lib request c) = ct_definitionVersion c"
  "ct_selectedDefinitions (snd (recordWatchFailure request ref e c)) = ct_selectedDefinitions c"
  "ct_definitionVersion (snd (recordWatchFailure request ref e c)) = ct_definitionVersion c"
  "ct_selectedDefinitions (start_watch k gvk metadataOnly c) = ct_selectedDefinitions c"
  "ct_definitionVersion (start_watch k gvk metadataOnly c) = ct_definitionVersion c"
  "ct_selectedDefinitions (retire_object lib k key c) = ct_selectedDefinitions c"
  "ct_definitionVersion (retire_object lib k key c) = ct_definitionVersion c"
  by (simp_all add: updateWatchHealth_def change_watch_def forget_failure_def recordWatchFailure_def start_watch_def retire_object_def
      Let_def snapshot_kept split: option.split)

lemma definitions_event [snapshot_kept]:
  "ct_selectedDefinitions (snd (applyWatchEvent lib w v deleted c)) = ct_selectedDefinitions c"
  "ct_definitionVersion (snd (applyWatchEvent lib w v deleted c)) = ct_definitionVersion c"
  by (simp_all add: applyWatchEvent_def rejectWatchObject_def setWatchHealth_def Let_def snapshot_kept split: sum.split option.split)

lemma definitions_Replace:
  assumes "watch_Replace lib w vs c = Some (e, c')"
  shows "ct_selectedDefinitions c' = ct_selectedDefinitions c" "ct_definitionVersion c' = ct_definitionVersion c"
proof -
  have promoted: "promote w d = Some d' \<Longrightarrow> ct_selectedDefinitions d' = ct_selectedDefinitions d \<and> ct_definitionVersion d' = ct_definitionVersion d"
    for d d' :: "'a Controller"
    by (auto simp: promote_def snapshot_kept split: if_splits option.splits)
  have folds: "ct_selectedDefinitions (fold (uncache lib) keys d) = ct_selectedDefinitions d"
    "ct_selectedDefinitions (fold (\<lambda>(key, object). cache lib k key object) objects d) = ct_selectedDefinitions d"
    "ct_definitionVersion (fold (uncache lib) keys d) = ct_definitionVersion d"
    "ct_definitionVersion (fold (\<lambda>(key, object). cache lib k key object) objects d) = ct_definitionVersion d"
    for keys k objects and d :: "'a Controller"
    by (rule definitions_fold, auto simp: snapshot_kept)+
  show "ct_selectedDefinitions c' = ct_selectedDefinitions c" "ct_definitionVersion c' = ct_definitionVersion c"
    using assms promoted
    by (auto simp: watch_Replace_def rejectWatchObject_def setWatchHealth_def Let_def snapshot_kept folds split: sum.splits if_splits option.splits)
qed

lemma definitions_ensureWatch [snapshot_kept]:
  "ct_selectedDefinitions (snd (ensureWatch lib mapping ctx gvk requested metadataOnly c)) = ct_selectedDefinitions c"
  "ct_definitionVersion (snd (ensureWatch lib mapping ctx gvk requested metadataOnly c)) = ct_definitionVersion c"
  by (rule ensureWatch_cases [of lib mapping ctx gvk requested metadataOnly c]; simp add: snapshot_kept definitions_fold)+

lemma definitions_retire [snapshot_kept]: "ct_selectedDefinitions (retire_both lib w c) = ct_selectedDefinitions c"
  "ct_definitionVersion (retire_both lib w c) = ct_definitionVersion c"
  by (simp_all add: retire_both_def retireWatch_fold Let_def snapshot_kept definitions_fold split: option.split)

lemma definitions_stop [snapshot_kept]: "ct_selectedDefinitions (stopWatches c) = ct_selectedDefinitions c"
  "ct_definitionVersion (stopWatches c) = ct_definitionVersion c"
  by (simp_all add: stopWatches_def definitions_fold snapshot_kept)

lemma definitions_rescope [snapshot_kept]:
  "ct_selectedDefinitions (rescope admitted c) = ct_selectedDefinitions c" "ct_definitionVersion (rescope admitted c) = ct_definitionVersion c"
  unfolding rescope_def Let_def by ((subst definitions_fold, simp add: snapshot_kept split: option.split), simp)+

lemma definitions_scope [snapshot_kept]:
  "ct_selectedDefinitions (drop_out_of_scope lib c) = ct_selectedDefinitions c"
  "ct_definitionVersion (drop_out_of_scope lib c) = ct_definitionVersion c"
proof -
  have "ct_selectedDefinitions (fold (retire_key lib) ks d) = ct_selectedDefinitions d"
    "ct_definitionVersion (fold (retire_key lib) ks d) = ct_definitionVersion d" for ks and d :: "'a Controller"
    by (rule definitions_fold, simp add: retire_key_def snapshot_kept split: option.split)+
  then show "ct_selectedDefinitions (drop_out_of_scope lib c) = ct_selectedDefinitions c"
    "ct_definitionVersion (drop_out_of_scope lib c) = ct_definitionVersion c"
    unfolding drop_out_of_scope_def Let_def by ((subst definitions_fold, simp add: snapshot_kept), simp)+
qed

end
