(* ===== verification/Controller_Steps.thy ===== *)
theory Controller_Steps
  imports Controller_Definitions
begin

text \<open>
  The transitions of the controller: one rule per operation that takes the lock, in any order, with any outcome of what runs
  outside of it. The second part shows what every reachable state satisfies: membership relations that agree, no published workload
  without a root, and a cache that mirrors the watches.
\<close>

section \<open>Operations that leave the cache alone\<close>

definition cached_part :: "'d Controller \<Rightarrow> (objectKey \<times> 'd cachedObject) list \<times> (SourceKey \<times> cacheSource) list
     \<times> (SourceKey \<times> resourceWatch) list \<times> (SourceKey \<times> resourceWatch) list" where
  "cached_part c = (ct_objects c, ct_sources c, ct_watches c, ct_replacements c)"

named_theorems cached \<open>operations that leave the cache alone\<close>

lemma cached_part_same: "cached_part c' = cached_part c \<Longrightarrow> same_cache c c'"
  by (simp add: cached_part_def same_cache_def)

lemma cached_part_sans: "sans_queues c' = sans_queues c \<Longrightarrow> cached_part c' = cached_part c"
  by (simp add: cached_part_def sans_queuesD(5-8) [of c' c])

lemma cached_part_basic [cached]:
  "cached_part (add_jobs js c) = cached_part c" "cached_part (add_pods ps c) = cached_part c" "cached_part (publish f c) = cached_part c"
  "cached_part (c\<lparr>ct_roots := rs\<rparr>) = cached_part c" "cached_part (c\<lparr>ct_podRoots := us\<rparr>) = cached_part c"
  "cached_part (c\<lparr>ct_selectedObjectRoots := os\<rparr>) = cached_part c"
  "cached_part (c\<lparr>ct_podRoots := us, ct_selectedObjectRoots := os\<rparr>) = cached_part c"
  "cached_part (c\<lparr>ct_roots := rs, ct_ancestorPods := ancestors\<rparr>) = cached_part c" "cached_part (c\<lparr>ct_scopes := ns\<rparr>) = cached_part c"
  "cached_part (c\<lparr>ct_ancestorPods := ancestors\<rparr>) = cached_part c"
  "cached_part (c\<lparr>ct_definitionVersion := v\<rparr>) = cached_part c"
  "cached_part (c\<lparr>ct_definitionInventoryErr := e, ct_selectedDefinitions := ds\<rparr>) = cached_part c"
  "cached_part (c\<lparr>ct_running := b\<rparr>) = cached_part c" "cached_part (cancel_watch w c) = cached_part c"
  by (simp_all add: cached_part_def frame)

lemma cached_part_members [cached]:
  "cached_part (update_root u f c) = cached_part c" "cached_part (enqueueMembers rt c) = cached_part c"
  "cached_part (removeRoot uid c) = cached_part c" "cached_part (unregisterPod key c) = cached_part c"
  "cached_part (trackSelectedObject key c) = cached_part c" "cached_part (removeSelectedObjectMembership key c) = cached_part c"
  by (simp_all add: update_root_def enqueueMembers_def removeRoot_def unregisterPod_def trackSelectedObject_def
      removeSelectedObjectMembership_def Let_def cached split: option.split)

lemma cached_part_ensureRoot: "ensureRoot workload c = Some (ref, c1) \<Longrightarrow> cached_part c1 = cached_part c"
  by (auto simp: ensureRoot_def Let_def cached split: list.splits prod.splits)

lemma cached_part_register:
  "registerPodRoot lib key workload c = Some (err, c') \<Longrightarrow> cached_part c' = cached_part c"
  "registerSelectedObjectRoot key workload sel rootSel c = Some (err, c') \<Longrightarrow> cached_part c' = cached_part c"
  by (auto simp: registerPodRoot_def registerSelectedObjectRoot_def Let_def cached dest!: cached_part_ensureRoot
      split: if_splits option.splits)

lemma cached_part_select [cached]:
  "cached_part (snd (replaceSelectedObjectTracking key obj sel c)) = cached_part c"
  "cached_part (snd (excludeSelectedObject key workload sel rootSel c)) = cached_part c"
  "cached_part (failSelectedObjectDiscovery key e c) = cached_part c"
  by (simp_all add: replaceSelectedObjectTracking_def excludeSelectedObject_def failSelectedObjectDiscovery_def Let_def cached
      split: option.split)

lemma cached_part_publish [cached]:
  "cached_part (snd (publishPodFailure key sources cause rt c)) = cached_part c"
  "cached_part (snd (failWorkload c0 uid ref cause c)) = cached_part c"
  "cached_part (snd (publishPod lib path rootRef sel next labelFailed c)) = cached_part c"
  "cached_part (snd (publishWorkload lib uid ref sel next' c)) = cached_part c"
  by (auto simp: publishPodFailure_def failWorkload_def publishPod_def publishWorkload_def Let_def cached split: prod.split sum.split)

lemma cached_part_fail [cached]:
  "cached_part (snd (failPod c0 key path cause rt c)) = cached_part c"
  "cached_part (snd (failPodEvaluation lib c0 key path cause rt' sel c)) = cached_part c"
  by (simp_all add: failPod_def failPodEvaluation_def cached)

lemma fold_same_state:
  assumes "\<And>x c. sans_queues (f x c) = sans_queues c"
  shows "sans_queues (fold f xs c) = sans_queues c"
  using assms by (induction xs arbitrary: c) auto

lemma sans_queues_requeue [same_state]: "sans_queues (requeueScope lib namespace c) = sans_queues c"
  by (simp add: requeueScope_def Let_def same_state fold_same_state)

section \<open>Definitions and scopes\<close>

lemma sans_queues_definitions [same_state]: "sans_queues (requeue_definitions lib healthChanged kinds c) = sans_queues c"
proof -
  have o: "sans_queues (requeue_object lib kinds object c) = sans_queues c" for object and c :: "'a Controller"
    by (simp add: requeue_object_def Let_def same_state split: option.split)
  have r: "sans_queues (requeue_root healthChanged kinds x c) = sans_queues c" for x and c :: "'a Controller"
    by (simp add: requeue_root_def same_state)
  show ?thesis by (simp add: requeue_definitions_def Let_def same_state fold_same_state [OF o] fold_same_state [OF r])
qed

lemma accept_definitions_members: "same_members c (accept_definitions lib ds sourceErr c)"
  by (simp add: accept_definitions_def Let_def same_members_def frame)

lemma accept_definitions_cached [cached]: "cached_part (accept_definitions lib ds sourceErr c) = cached_part c"
  by (simp add: accept_definitions_def Let_def cached)

lemma refreshDefinitions_cases:
  obtains ds sourceErr where "snd (refreshDefinitions lib prepared c) = accept_definitions lib ds sourceErr c"
  | ds sourceErr h ks d where "snd (refreshDefinitions lib prepared c) = requeue_definitions lib h ks
      (d\<lparr>ct_definitionVersion := ct_definitionVersion d + 1\<rparr>)" "d = accept_definitions lib ds sourceErr c"
proof -
  obtain sourceErr ds where p: "(case prepared of Inl e \<Rightarrow> (Some e, ct_selectedDefinitions c) | Inr next \<Rightarrow> (None, next)) = (sourceErr, ds)"
    by fastforce
  let ?h = "failureReason (ct_definitionInventoryErr c) \<noteq> failureReason sourceErr" and ?ks = "changed_kinds lib c ds"
  show thesis
  proof (cases "\<not> ?h \<and> ?ks = []")
    case True
    then show thesis by (intro that(1) [of ds sourceErr]) (simp add: refreshDefinitions_def p)
  next
    case False
    then show thesis
      by (intro that(2) [of ?h ?ks "accept_definitions lib ds sourceErr c" ds sourceErr]) (auto simp: refreshDefinitions_def p Let_def)
  qed
qed

lemma refreshDefinitions_members: "same_members c (snd (refreshDefinitions lib prepared c))"
proof (rule refreshDefinitions_cases [of lib prepared c])
  fix ds sourceErr h ks d
  assume "snd (refreshDefinitions lib prepared c) = requeue_definitions lib h ks (d\<lparr>ct_definitionVersion := ct_definitionVersion d + 1\<rparr>)"
    and d: "d = accept_definitions lib ds sourceErr c"
  moreover have "same_members d (d\<lparr>ct_definitionVersion := ct_definitionVersion d + 1\<rparr>)" by (simp add: same_members_def)
  ultimately show ?thesis
    using accept_definitions_members same_members_sans [OF sans_queues_definitions] same_members_trans by metis
qed (simp add: accept_definitions_members)

lemma refreshDefinitions_cached [cached]: "cached_part (snd (refreshDefinitions lib prepared c)) = cached_part c"
  by (rule refreshDefinitions_cases [of lib prepared c])
    (simp_all add: cached_part_sans [OF sans_queues_definitions] cached)

lemma fold_inv: "(\<And>x c. P c \<Longrightarrow> P (f x c)) \<Longrightarrow> P c \<Longrightarrow> P (fold f xs c)"
  by (induction xs arbitrary: c) auto

section \<open>Published workloads\<close>

lemma published_mono:
  assumes "published_inv c" "st_workloads (ct_publications c') = st_workloads (ct_publications c)"
    "dom (map_of (ct_roots c)) \<subseteq> dom (map_of (ct_roots c'))"
  shows "published_inv c'"
  using assms by (force simp: published_inv_def store_Workload_def dom_def)

lemma same_members_published: "same_members c c' \<Longrightarrow> published_inv c \<Longrightarrow> published_inv c'"
  by (erule published_mono) (simp_all add: same_members_def)

lemma same_members_membership: "same_members c c' \<Longrightarrow> membership_inv c \<Longrightarrow> membership_inv c'"
  by (rule membership_frame) (simp_all add: same_members_def)

lemma pod_frame [frame]:
  "st_workloads (UpsertPod r s) = st_workloads s" "st_workloads (RemovePod u s) = st_workloads s"
  by (simp_all add: UpsertPod_def RemovePod_def)

lemma removeRoot_published_inv: "published_inv c \<Longrightarrow> published_inv (removeRoot uid c)"
  by (auto simp: published_inv_def frame store_Workload_def RemoveWorkload_def delete_conv' split: if_splits)

lemma dom_update_root: "dom (map_of (ct_roots (update_root u f c))) = dom (map_of (ct_roots c))"
  by (auto simp: update_root_roots split: option.splits if_splits)

lemma unregisterPod_published: "published_inv c \<Longrightarrow> published_inv (unregisterPod key c)"
  by (erule published_mono) (auto simp: unregisterPod_def Let_def frame dom_update_root split: option.split)

lemma removeSelected_published: "published_inv c \<Longrightarrow> published_inv (removeSelectedObjectMembership key c)"
  by (erule published_mono) (auto simp: removeSelectedObjectMembership_def Let_def frame dom_update_root split: option.split)

lemma trackSelected_published: "published_inv c \<Longrightarrow> published_inv (trackSelectedObject key c)"
  by (erule published_mono) (simp_all add: trackSelectedObject_def)

lemma ensureRoot_grows:
  "ensureRoot workload c = Some (ref, c1)
     \<Longrightarrow> ct_publications c1 = ct_publications c \<and> dom (map_of (ct_roots c)) \<subseteq> dom (map_of (ct_roots c1))"
  by (auto simp: ensureRoot_def Let_def frame update_conv' split: list.splits prod.splits)

lemma registerPodRoot_published:
  assumes "published_inv c" "registerPodRoot lib key workload c = Some (err, c')"
  shows "published_inv c'"
proof -
  have "st_workloads (ct_publications c') = st_workloads (ct_publications c) \<and> dom (map_of (ct_roots c)) \<subseteq> dom (map_of (ct_roots c'))"
    using assms(2) unfolding registerPodRoot_def Let_def
    by (auto simp: frame dom_update_root dest!: ensureRoot_grows split: if_splits option.splits simp del: not_None_eq del: subsetI)
  with assms(1) show ?thesis by (blast intro: published_mono)
qed

lemma registerSelectedObjectRoot_published:
  assumes "published_inv c" "registerSelectedObjectRoot key workload sel rootSel c = Some (err, c')"
  shows "published_inv c'"
proof -
  have "st_workloads (ct_publications c') = st_workloads (ct_publications c) \<and> dom (map_of (ct_roots c)) \<subseteq> dom (map_of (ct_roots c'))"
    using assms(2) unfolding registerSelectedObjectRoot_def Let_def
    by (auto simp: frame dom_update_root dest!: ensureRoot_grows split: if_splits option.splits simp del: not_None_eq del: subsetI)
  with assms(1) show ?thesis by (blast intro: published_mono)
qed

lemma excludeSelectedObject_published:
  assumes "published_inv c"
  shows "published_inv (snd (excludeSelectedObject key workload sel rootSel c))"
  using assms by (auto simp: excludeSelectedObject_def Let_def intro: published_mono [OF removeSelected_published [OF assms]])

lemma replaceSelectedObjectTracking_published:
  assumes "published_inv c"
  shows "published_inv (snd (replaceSelectedObjectTracking key obj sel c))"
proof -
  have "published_inv (add_jobs js c)" for js using assms by (auto elim!: published_mono simp: frame)
  with assms removeSelected_published show ?thesis
    by (auto simp: replaceSelectedObjectTracking_def Let_def split: option.split)
qed

lemma publishPodFailure_published: "published_inv c \<Longrightarrow> published_inv (snd (publishPodFailure key sources cause rt c))"
  by (erule published_mono) (auto simp: publishPodFailure_def Let_def frame split: prod.split)

lemma publishPod_published: "published_inv c \<Longrightarrow> published_inv (snd (publishPod lib path rootRef sel next labelFailed c))"
  by (erule published_mono) (auto simp: publishPod_def frame split: sum.split prod.split)

lemma upsert_published:
  assumes "published_inv c" "wrec_UID (wres_Record r) = uid" "map_of (ct_roots c) uid \<noteq> None"
    "dom (map_of (ct_roots c)) \<subseteq> dom (map_of (ct_roots c'))" "ct_publications c' = UpsertWorkload r (ct_publications c)"
  shows "published_inv c'"
  unfolding published_inv_def
proof (intro allI impI)
  fix u w assume u: "store_Workload (ct_publications c') u = Some w"
  have old: "map_of (ct_roots c) u \<noteq> None \<Longrightarrow> map_of (ct_roots c') u \<noteq> None" using assms(4) by (simp add: subset_iff domIff)
  show "wrec_UID (wres_Record w) = u \<and> map_of (ct_roots c') u \<noteq> None"
  proof (cases "u = uid")
    case True
    with u assms(2,3,5) old show ?thesis by (simp add: store_Workload_def UpsertWorkload_def update_conv')
  next
    case False
    with u assms(2,5) have "store_Workload (ct_publications c) u = Some w"
      by (simp add: store_Workload_def UpsertWorkload_def update_conv')
    with assms(1) old show ?thesis unfolding published_inv_def by blast
  qed
qed

lemma failWorkload_published:
  assumes "published_inv c"
  shows "published_inv (snd (failWorkload c0 uid ref cause c))"
proof (cases "errors_Is cause ContextCanceled \<or> map_of (ct_roots c) uid = None")
  case False
  let ?sources = "sourcesFor c0 [ref]"
  let ?next = "case store_Workload (ct_publications c) uid of
      None \<Rightarrow> \<lparr>wres_Record = zero_WorkloadRecord\<lparr>wrec_UID := uid, wrec_Ref := ref\<rparr>, wres_HasValue = False, wres_Error = [],
         wres_StatusError = [], wres_Sources = ?sources, wres_CreationSources = ?sources\<rparr>
    | Some previous \<Rightarrow> previous\<lparr>wres_Sources := appendSources (wres_Sources previous) ?sources,
         wres_CreationSources := appendSources (wres_CreationSources previous) ?sources\<rparr>"
  have "wrec_UID (wres_Record (?next\<lparr>wres_Error := failureReason (Some cause)\<rparr>)) = uid"
    using assms by (auto simp: published_inv_def split: option.split)
  from upsert_published [OF assms this, of "publish (UpsertWorkload (?next\<lparr>wres_Error := failureReason (Some cause)\<rparr>)) c"] False
  show ?thesis by (auto simp: failWorkload_def Let_def frame)
qed (auto simp: failWorkload_def assms)

lemma publishWorkload_published:
  assumes "published_inv c" "wrec_UID (wres_Record next) = uid"
  shows "published_inv (snd (publishWorkload lib uid ref sel next c))"
proof -
  let ?r = "if wres_StatusError next \<noteq> [] then kept_workload c uid sel next else next"
  let ?c = "publish (UpsertWorkload ?r) (update_root uid (\<lambda>rt. rt\<lparr>rs_ref := ref\<rparr>) c)"
  have "wrec_UID (wres_Record ?r) = uid"
    using assms by (auto simp: kept_workload_def published_inv_def split: option.split)
  from upsert_published [OF assms(1) this, of ?c] have "map_of (ct_roots c) uid \<noteq> None \<Longrightarrow> published_inv ?c"
    by (simp add: frame dom_update_root)
  with assms(1) show ?thesis by (auto simp: publishWorkload_def)
qed

lemma removeWorkload_published: "published_inv c \<Longrightarrow> published_inv (publish (RemoveWorkload uid) c)"
  by (auto simp: published_inv_def frame store_Workload_def RemoveWorkload_def delete_conv' split: if_splits)

section \<open>Scopes\<close>

definition ctl_inv :: "ctllib \<Rightarrow> 'd Controller \<Rightarrow> bool" where
  "ctl_inv lib c \<longleftrightarrow> membership_inv c \<and> published_inv c \<and> cache_inv lib c \<and> keyed c"

lemma ctl_inv_members: "ctl_inv lib c \<Longrightarrow> same_members c c' \<Longrightarrow> cache_inv lib c' \<Longrightarrow> keyed c' \<Longrightarrow> ctl_inv lib c'"
  by (auto simp: ctl_inv_def intro: same_members_membership same_members_published)

lemma ctl_inv_cached: "ctl_inv lib c \<Longrightarrow> membership_inv c' \<Longrightarrow> published_inv c' \<Longrightarrow> cached_part c' = cached_part c \<Longrightarrow> ctl_inv lib c'"
  by (auto simp: ctl_inv_def cached_part_def elim: keyed_frame intro: same_cache_inv [OF cached_part_same])

lemma ctl_inv_same: "ctl_inv lib c \<Longrightarrow> same_members c c' \<Longrightarrow> cached_part c' = cached_part c \<Longrightarrow> ctl_inv lib c'"
  by (rule ctl_inv_members) (auto simp: ctl_inv_def cached_part_def elim: keyed_frame intro: same_cache_inv [OF cached_part_same])

lemma ctl_inv_removeRoot: "ctl_inv lib c \<Longrightarrow> ctl_inv lib (removeRoot uid c)"
  by (rule ctl_inv_cached) (auto simp: ctl_inv_def removeRoot_inv removeRoot_published_inv cached)

lemma ctl_inv_rescope:
  assumes "ctl_inv lib c"
  shows "ctl_inv lib (rescope admitted c)"
proof -
  have "ctl_inv lib (c\<lparr>ct_scopes := admitted\<rparr>)" using assms by (rule ctl_inv_same) (simp_all add: same_members_def cached)
  then show ?thesis unfolding rescope_def Let_def by (rule fold_inv [rotated]) (auto split: option.split simp: ctl_inv_removeRoot)
qed

lemma retire_key_inv: "ctl_inv lib c \<Longrightarrow> ctl_inv lib (retire_key lib key c)"
proof -
  assume inv: "ctl_inv lib c"
  show ?thesis
  proof (cases "map_of (ct_watches c) key")
    case (Some w)
    have cache: "cache_inv lib c" using inv by (simp add: ctl_inv_def)
    have "map_of (ct_watches c) (rw_key w) = Some w" using cache_invD(2) [OF cache Some] Some by simp
    from ctl_inv_members [OF inv retire_both_members retire_both_cache [OF cache this] keyed_retire_both] inv Some
    show ?thesis by (simp add: retire_key_def ctl_inv_def)
  qed (simp add: retire_key_def inv)
qed

lemma forget_failure_same: "same_members c (forget_failure lib request c)" "cached_part (forget_failure lib request c) = cached_part c"
  by (simp_all add: forget_failure_def same_members_def cached_part_def frame)

lemma ctl_inv_drop_out_of_scope: "ctl_inv lib c \<Longrightarrow> ctl_inv lib (drop_out_of_scope lib c)"
proof -
  assume inv: "ctl_inv lib c"
  have forget: "ctl_inv lib d \<Longrightarrow> ctl_inv lib (if out_of_scope d (wr_Namespace request) then forget_failure lib request d else d)"
    for request and d :: "'a Controller" by (simp add: ctl_inv_same [OF _ forget_failure_same])
  have "ctl_inv lib (fold (retire_key lib) (map fst (ct_watches c)) c)" by (rule fold_inv [of "ctl_inv lib" "retire_key lib", OF retire_key_inv inv])
  from fold_inv [of "ctl_inv lib" "\<lambda>request d. if out_of_scope d (wr_Namespace request) then forget_failure lib request d else d", OF forget this]
  show ?thesis by (simp only: drop_out_of_scope_def Let_def)
qed

lemma prepareWatchRequests_inv:
  assumes "ctl_inv lib c" "prepareWatchRequests lib prepared c = Some (requests, e, c')"
  shows "ctl_inv lib c'"
proof -
  obtain de c1 where r: "refreshDefinitions lib prepared c = (de, c1)" by fastforce
  then have c1: "ctl_inv lib c1"
    using ctl_inv_same [OF assms(1) refreshDefinitions_members refreshDefinitions_cached, of lib prepared] by simp
  from assms(2) r have "c' = c1 \<or> c' = drop_out_of_scope lib c1 \<or> (\<exists>admitted. c' = drop_out_of_scope lib (rescope admitted c1))"
    by (auto simp: prepareWatchRequests_def Let_def split: if_splits option.splits)
  with c1 show ?thesis by (auto intro: ctl_inv_drop_out_of_scope ctl_inv_rescope)
qed

section \<open>Transitions\<close>

text \<open>
  The definitions are those that \<open>prepareDefinitions\<close> makes of checked results. A reference that discovery found has a UID; a worker publishes a workload under the UID of its root. \<open>earlier\<close> is the state in
  which the sources of a failure were collected.
\<close>

inductive cstep :: "ctllib \<Rightarrow> 'd Controller \<Rightarrow> 'd Controller \<Rightarrow> bool" for lib where
  step_unregisterPod: "cstep lib c (unregisterPod key c)"
| step_failPod: "cstep lib c (snd (failPod earlier key path cause rt c))"
| step_failPodEvaluation: "cstep lib c (snd (failPodEvaluation lib earlier key path cause rootRef sel c))"
| step_registerPodRoot: "or_UID (gw_Root workload) \<noteq> [] \<Longrightarrow> registerPodRoot lib key workload c = Some (err, c') \<Longrightarrow> cstep lib c c'"
| step_publishPod: "cstep lib c (snd (publishPod lib path rootRef sel result labelFailed c))"
| step_requeueScope: "cstep lib c (requeueScope lib namespace c)"
| step_trackSelectedObject: "cstep lib c (trackSelectedObject key c)"
| step_unregisterSelectedObject: "cstep lib c (unregisterSelectedObject key c)"
| step_failSelectedObjectDiscovery: "cstep lib c (failSelectedObjectDiscovery key cause c)"
| step_replaceSelectedObjectTracking: "cstep lib c (snd (replaceSelectedObjectTracking key object sel c))"
| step_registerSelectedObjectRoot: "or_UID (gw_Root workload) \<noteq> []
     \<Longrightarrow> registerSelectedObjectRoot key workload sel rootSel c = Some (err, c') \<Longrightarrow> cstep lib c c'"
| step_excludeSelectedObject: "cstep lib c (snd (excludeSelectedObject key workload sel rootSel c))"
| step_withdrawWorkload: "cstep lib c (withdrawWorkload uid c)"
| step_removeWorkload: "cstep lib c (publish (RemoveWorkload uid) c)"
| step_failWorkload: "cstep lib c (snd (failWorkload earlier uid ref cause c))"
| step_publishWorkload: "or_UID ref = uid \<Longrightarrow> wrec_UID (wres_Record outcome) = uid
     \<Longrightarrow> cstep lib c (snd (publishWorkload lib uid ref sel outcome c))"
| step_start: "cstep lib c (start c)"
| step_stopWatches: "cstep lib c (stopWatches c)"
| step_ensureWatch: "mapping_ok lib gvk mapping \<Longrightarrow> cstep lib c (snd (ensureWatch lib mapping ctx gvk namespace metadataOnly c))"
| step_setWatchHealth: "cstep lib c (setWatchHealth w err c)"
| step_listResource: "cstep lib c (listResource_outcome cancelled w err c)"
| step_recordWatchStart: "cstep lib c (recordWatchStart cancelled w sendInitialEvents err c)"
| step_applyWatchEvent: "same_pointer c w \<Longrightarrow> complete v \<Longrightarrow> cstep lib c (snd (applyWatchEvent lib w v deleted c))"
| step_Replace: "same_pointer c w \<Longrightarrow> list_all complete vs \<Longrightarrow> watch_Replace lib w vs c = Some (err, c') \<Longrightarrow> cstep lib c c'"
| step_prepareWatchRequests: "sound_prepared prepared \<Longrightarrow> prepareWatchRequests lib prepared c = Some (requests, err, c') \<Longrightarrow> cstep lib c c'"

inductive creachable :: "ctllib \<Rightarrow> ControllerOptions \<Rightarrow> 'd Controller \<Rightarrow> bool" for lib opts where
  creachable_New: "creachable lib opts (initial_state opts)"
| creachable_step: "creachable lib opts c \<Longrightarrow> cstep lib c c' \<Longrightarrow> creachable lib opts c'"

lemma cancel_members: "same_members c (cancel_watch w c)"
  by (simp add: same_members_def frame)

lemma stopWatches_same: "same_members c (stopWatches c)" "cached_part (stopWatches c) = cached_part c"
proof -
  have "same_members c (fold (cancel_watch \<circ> snd) ws c)" for ws :: "(SourceKey \<times> resourceWatch) list" and c :: "'a Controller"
    by (rule same_members_fold) (simp add: cancel_members)
  then show "same_members c (stopWatches c)" unfolding stopWatches_def by (blast intro: same_members_trans)
  have "cached_part (fold (cancel_watch \<circ> snd) ws c) = cached_part c" for ws :: "(SourceKey \<times> resourceWatch) list" and c :: "'a Controller"
    by (rule fold_frame) (simp add: cached)
  then show "cached_part (stopWatches c) = cached_part c" by (simp add: stopWatches_def)
qed

lemma ctl_inv_D: "ctl_inv lib c \<Longrightarrow> membership_inv c" "ctl_inv lib c \<Longrightarrow> published_inv c" "ctl_inv lib c \<Longrightarrow> cache_inv lib c"
  "ctl_inv lib c \<Longrightarrow> keyed c"
  by (simp_all add: ctl_inv_def)

lemma ctl_inv_health: "ctl_inv lib c \<Longrightarrow> ctl_inv lib (updateWatchHealth w err c)"
  by (rule ctl_inv_members [OF _ updateWatchHealth_members]) (auto intro: updateWatchHealth_cache keyed_updateWatchHealth ctl_inv_D)

lemma ctl_inv_membership:
  assumes "ctl_inv lib c" "membership_inv c \<Longrightarrow> membership_inv c'" "published_inv c \<Longrightarrow> published_inv c'" "cached_part c' = cached_part c"
  shows "ctl_inv lib c'"
  using assms by (blast intro: ctl_inv_cached ctl_inv_D)

lemma cstep_inv:
  assumes "cstep lib c c'" "ctl_inv lib c"
  shows "ctl_inv lib c'"
  using assms
proof (induction rule: cstep.induct)
  case (step_unregisterPod c key)
  then show ?case by (rule ctl_inv_membership) (simp_all add: unregisterPod_inv unregisterPod_published cached)
next
  case (step_failPod c earlier key path cause rt)
  then show ?case
    by (rule ctl_inv_membership)
      (auto simp: failPod_def cached publishPodFailure_published intro: membership_frame simp: frame)
next
  case (step_failPodEvaluation c earlier key path cause rootRef sel)
  then show ?case
    by (rule ctl_inv_membership)
      (auto simp: failPodEvaluation_def cached publishPodFailure_published intro: membership_frame simp: frame)
next
  case (step_registerPodRoot workload key c err c')
  from step_registerPodRoot(3) show ?case
    by (rule ctl_inv_membership)
      (use step_registerPodRoot in \<open>blast intro: registerPodRoot_inv registerPodRoot_published cached_part_register\<close>)+
next
  case (step_publishPod c path rootRef sel result labelFailed)
  then show ?case
    by (rule ctl_inv_membership) (auto simp: publishPod_published cached frame intro: membership_frame)
next
  case (step_requeueScope c namespace)
  then show ?case
    by (rule ctl_inv_same) (simp_all add: same_members_sans [OF sans_queues_requeue] cached_part_sans [OF sans_queues_requeue])
next
  case (step_trackSelectedObject c key)
  then show ?case by (rule ctl_inv_membership) (simp_all add: trackSelectedObject_inv trackSelected_published cached)
next
  case (step_unregisterSelectedObject c key)
  then show ?case
    by (rule ctl_inv_membership) (simp_all add: unregisterSelectedObject_def removeSelected_inv removeSelected_published cached)
next
  case (step_failSelectedObjectDiscovery c key cause)
  then show ?case by (rule ctl_inv_same) (simp_all add: failSelectedObjectDiscovery_def same_members_def frame cached)
next
  case (step_replaceSelectedObjectTracking c key object sel)
  then show ?case
    by (rule ctl_inv_membership) (simp_all add: replaceSelectedObjectTracking_inv replaceSelectedObjectTracking_published cached)
next
  case (step_registerSelectedObjectRoot workload key sel rootSel c err c')
  from step_registerSelectedObjectRoot(3) show ?case
    by (rule ctl_inv_membership)
      (use step_registerSelectedObjectRoot in
        \<open>blast intro: registerSelectedObjectRoot_inv registerSelectedObjectRoot_published cached_part_register\<close>)+
next
  case (step_excludeSelectedObject c key workload sel rootSel)
  then show ?case by (rule ctl_inv_membership) (simp_all add: excludeSelectedObject_inv excludeSelectedObject_published cached)
next
  case (step_withdrawWorkload c uid)
  then show ?case by (simp add: withdrawWorkload_def ctl_inv_removeRoot)
next
  case (step_removeWorkload c uid)
  then show ?case
    by (rule ctl_inv_membership) (auto simp: removeWorkload_published cached frame intro: membership_frame)
next
  case (step_failWorkload c earlier uid ref cause)
  then show ?case
    by (rule ctl_inv_membership) (auto simp: failWorkload_published cached frame intro: membership_frame)
next
  case (step_publishWorkload ref uid outcome c sel)
  from step_publishWorkload(3) show ?case
    by (rule ctl_inv_membership) (simp_all add: step_publishWorkload publishWorkload_inv publishWorkload_published cached)
next
  case (step_start c)
  then show ?case by (rule ctl_inv_same) (simp_all add: start_def same_members_def cached)
next
  case (step_stopWatches c)
  then show ?case by (rule ctl_inv_same) (simp_all add: stopWatches_same)
next
  case (step_ensureWatch gvk mapping c ctx namespace metadataOnly)
  then show ?case by (auto intro: ctl_inv_members ensureWatch_members ensureWatch_cache keyed_ensureWatch ctl_inv_D)
next
  case (step_setWatchHealth c w err)
  then show ?case by (simp add: setWatchHealth_def ctl_inv_health)
next
  case (step_listResource c cancelled w err)
  then show ?case by (simp add: listResource_outcome_def setWatchHealth_def ctl_inv_health)
next
  case (step_recordWatchStart c cancelled w sendInitialEvents err)
  then show ?case by (simp add: recordWatchStart_def Let_def ctl_inv_health)
next
  case (step_applyWatchEvent c w v deleted)
  then show ?case by (auto intro: ctl_inv_members applyWatchEvent_members applyWatchEvent_cache keyed_applyWatchEvent ctl_inv_D)
next
  case (step_Replace c w vs err c')
  from watch_Replace_cache [OF ctl_inv_D(3) [OF step_Replace(4)] step_Replace(1,2)] step_Replace(3)
  have "cache_inv lib c'" by auto
  with step_Replace show ?case by (blast intro: ctl_inv_members watch_Replace_members keyed_watch_Replace ctl_inv_D(4))
next
  case (step_prepareWatchRequests prepared c requests err c')
  then show ?case by (blast intro: prepareWatchRequests_inv)
qed

lemma ctl_inv_initial: "ctl_inv lib (initial_state opts)"
  by (simp add: ctl_inv_def initial_state_def Let_def newControllerState_def membership_inv_def members_ok_def published_inv_def
      store_Workload_def store_New_def cache_inv_def watches_ok_def entries_ok_def listed_ok_def keyed_def frame cache_add_frame)

lemma creachable_inv: "creachable lib opts c \<Longrightarrow> ctl_inv lib c"
  by (induction rule: creachable.induct) (auto intro: ctl_inv_initial cstep_inv)

section \<open>The selected definitions\<close>

lemma refreshDefinitions_sound:
  assumes "sound_prepared prepared" "sound_definitions (ct_selectedDefinitions c)"
  shows "sound_definitions (ct_selectedDefinitions (snd (refreshDefinitions lib prepared c)))"
proof -
  have accepted: "sound_definitions (ct_selectedDefinitions (accept_definitions lib ds e c))" if "sound_definitions ds" for ds e
  proof -
    have "sound_definition (kept_definition lib c kind s)" if "(kind, s) \<in> set ds" for kind s
      using that \<open>sound_definitions ds\<close> assms(2)
      by (force simp: kept_definition_def sound_definitions_def dest!: map_of_SomeD split: option.split)
    then show ?thesis by (auto simp: sound_definitions_def accept_definitions_def snapshot_kept Let_def)
  qed
  have ds: "sound_definitions ds"
    if "(case prepared of Inl e \<Rightarrow> (Some e, ct_selectedDefinitions c) | Inr ds \<Rightarrow> (None, ds)) = (sourceErr, ds)" for sourceErr ds
    using that assms by (auto simp: sound_prepared_def split: sum.splits)
  have requeued: "ct_selectedDefinitions (requeue_definitions lib h ks (d\<lparr>ct_definitionVersion := v\<rparr>)) = ct_selectedDefinitions d"
    for h ks v and d :: "'a Controller"
    using sans_queuesD(11) [OF sans_queues_definitions [of lib h ks "d\<lparr>ct_definitionVersion := v\<rparr>"]] by simp
  obtain sourceErr ds' where p: "(case prepared of Inl e \<Rightarrow> (Some e, ct_selectedDefinitions c) | Inr ds \<Rightarrow> (None, ds)) = (sourceErr, ds')"
    by fastforce
  show ?thesis unfolding refreshDefinitions_def p using accepted [OF ds [OF p]] by (simp add: Let_def requeued)
qed

lemma cstep_sound:
  assumes "cstep lib c c'" "sound_definitions (ct_selectedDefinitions c)"
  shows "sound_definitions (ct_selectedDefinitions c')"
  using assms
proof (induction rule: cstep.induct)
  case (step_registerPodRoot workload key c err c')
  then show ?case by (simp add: definitions_register(1))
next
  case (step_registerSelectedObjectRoot workload key sel rootSel c err c')
  then show ?case by (simp add: definitions_register(2))
next
  case (step_Replace c w vs err c')
  from definitions_Replace [OF step_Replace(3)] step_Replace(4) show ?case by simp
next
  case (step_prepareWatchRequests prepared c requests err c')
  obtain de c1 where r: "refreshDefinitions lib prepared c = (de, c1)" by fastforce
  with refreshDefinitions_sound [OF step_prepareWatchRequests(1,3), of lib] have "sound_definitions (ct_selectedDefinitions c1)" by simp
  with step_prepareWatchRequests(2) r show ?case
    by (auto simp: prepareWatchRequests_def Let_def snapshot_kept split: if_splits option.splits)
qed (simp_all add: snapshot_kept sans_queuesD(11) [OF sans_queues_requeue] unregisterSelectedObject_def withdrawWorkload_def start_def
       setWatchHealth_def listResource_outcome_def recordWatchStart_def Let_def)

lemma creachable_sound: "creachable lib opts c \<Longrightarrow> sound_definitions (ct_selectedDefinitions c)"
proof (induction rule: creachable.induct)
  case creachable_New
  show ?case by (simp add: initial_state_def Let_def newControllerState_def sound_definitions_def snapshot_kept)
qed (rule cstep_sound)

section \<open>The version of the definitions\<close>

lemma refreshDefinitions_version:
  "ct_definitionVersion (snd (refreshDefinitions lib prepared c)) \<in> {ct_definitionVersion c, ct_definitionVersion c + 1}"
proof (rule refreshDefinitions_cases [of lib prepared c])
  have accepted: "ct_definitionVersion (accept_definitions lib ds e c) = ct_definitionVersion c" for ds e
    by (simp add: accept_definitions_def Let_def snapshot_kept)
  {
    fix ds e assume "snd (refreshDefinitions lib prepared c) = accept_definitions lib ds e c"
    with accepted show ?thesis by simp
  next
    fix ds e h ks d
    assume "snd (refreshDefinitions lib prepared c) = requeue_definitions lib h ks (d\<lparr>ct_definitionVersion := ct_definitionVersion d + 1\<rparr>)"
      "d = accept_definitions lib ds e c"
    with accepted sans_queuesD(12) [OF sans_queues_definitions [of lib h ks "d\<lparr>ct_definitionVersion := ct_definitionVersion d + 1\<rparr>"]]
    show ?thesis by simp
  }
qed

lemma cstep_version:
  assumes "cstep lib c c'"
  shows "ct_definitionVersion c' \<in> {ct_definitionVersion c, ct_definitionVersion c + 1}"
  using assms
proof (induction rule: cstep.induct)
  case (step_registerPodRoot workload key c err c')
  then show ?case by (simp add: definitions_register(1))
next
  case (step_registerSelectedObjectRoot workload key sel rootSel c err c')
  then show ?case by (simp add: definitions_register(2))
next
  case (step_Replace c w vs err c')
  from definitions_Replace(2) [OF step_Replace(3)] show ?case by simp
next
  case (step_prepareWatchRequests prepared c requests err c')
  obtain de c1 where r: "refreshDefinitions lib prepared c = (de, c1)" by fastforce
  with refreshDefinitions_version [of lib prepared c] have "ct_definitionVersion c1 \<in> {ct_definitionVersion c, ct_definitionVersion c + 1}" by simp
  with step_prepareWatchRequests(2) r show ?case
    by (auto simp: prepareWatchRequests_def Let_def snapshot_kept split: if_splits option.splits)
qed (simp_all add: snapshot_kept sans_queuesD(12) [OF sans_queues_requeue] unregisterSelectedObject_def withdrawWorkload_def start_def
       setWatchHealth_def listResource_outcome_def recordWatchStart_def Let_def)

text \<open>A transition that changes the selected definitions: one is added, replaced or removed.\<close>

definition redefined :: "'d Controller \<Rightarrow> 'd Controller \<Rightarrow> bool" where
  "redefined c c' \<longleftrightarrow> (\<exists>kind. map_of (ct_selectedDefinitions c') kind \<noteq> map_of (ct_selectedDefinitions c) kind)"

lemma redefined_same: "ct_selectedDefinitions c' = ct_selectedDefinitions c \<Longrightarrow> \<not> redefined c c'"
  by (simp add: redefined_def)

lemma accept_definitions_same:
  assumes "changed_kinds lib c ds = []" "ct_selectedDefinitions c' = ct_selectedDefinitions (accept_definitions lib ds e c)"
  shows "\<not> redefined c c'"
proof -
  have kept: "map_of (map (\<lambda>(kind, selected). (kind, kept_definition lib c kind selected)) ds) kind
      = (if map_of ds kind = None then None else map_of (ct_selectedDefinitions c) kind)" (is "?kept kind = _") for kind
  proof -
    have "\<forall>(kind, selected) \<in> set ds. \<exists>previous. map_of (ct_selectedDefinitions c) kind = Some previous \<and> isSameDefinition lib previous selected"
      using assms(1) by (auto simp: changed_kinds_def filter_empty_conv split: option.splits)
    then show ?thesis by (induction ds) (auto simp: kept_definition_def)
  qed
  have listed: "map_of ds kind \<noteq> None" if "map_of (ct_selectedDefinitions c) kind \<noteq> None" for kind
  proof -
    have "\<forall>kind \<in> set (map fst (ct_selectedDefinitions c)). map_of ds kind \<noteq> None"
      using assms(1) by (simp add: changed_kinds_def filter_empty_conv)
    with that show ?thesis by (metis map_of_eq_None_iff set_map)
  qed
  have "?kept kind = map_of (ct_selectedDefinitions c) kind" for kind
    unfolding kept using listed [of kind] by (cases "map_of (ct_selectedDefinitions c) kind") (simp_all del: not_None_eq)
  then show ?thesis by (simp add: redefined_def assms(2) accept_definitions_def Let_def snapshot_kept)
qed

lemma refreshDefinitions_redefined:
  assumes "redefined c (snd (refreshDefinitions lib prepared c))"
  shows "ct_definitionVersion (snd (refreshDefinitions lib prepared c)) = ct_definitionVersion c + 1"
proof -
  obtain sourceErr ds where p: "(case prepared of Inl e \<Rightarrow> (Some e, ct_selectedDefinitions c) | Inr next \<Rightarrow> (None, next)) = (sourceErr, ds)"
    by fastforce
  have accepted: "ct_definitionVersion (accept_definitions lib ds e c) = ct_definitionVersion c" for e
    by (simp add: accept_definitions_def Let_def snapshot_kept)
  note counted = sans_queuesD(12) [OF sans_queues_definitions [where lib = lib]]
  from accept_definitions_same [of lib c ds "accept_definitions lib ds sourceErr c"] assms have "changed_kinds lib c ds \<noteq> []"
    if "snd (refreshDefinitions lib prepared c) = accept_definitions lib ds sourceErr c"
    using that by auto
  then show ?thesis by (auto simp: refreshDefinitions_def p Let_def counted accepted split: if_splits)
qed

lemma cstep_redefined:
  assumes "cstep lib c c'" "redefined c c'"
  shows "ct_definitionVersion c' = ct_definitionVersion c + 1"
  using assms
proof (induction rule: cstep.induct)
  case (step_registerPodRoot workload key c err c')
  then show ?case by (simp add: redefined_def definitions_register(1))
next
  case (step_registerSelectedObjectRoot workload key sel rootSel c err c')
  then show ?case by (simp add: redefined_def definitions_register(2))
next
  case (step_Replace c w vs err c')
  with definitions_Replace(1) [OF step_Replace(3)] show ?case by (simp add: redefined_def)
next
  case (step_listResource c cancelled w err)
  then show ?case by (cases err; cases cancelled) (simp_all add: redefined_def listResource_outcome_def setWatchHealth_def snapshot_kept)
next
  case (step_recordWatchStart c cancelled w sendInitialEvents err)
  then show ?case
    by (cases "err = None"; cases "cancelled \<or> sendInitialEvents \<and> IsBadRequest err")
      (auto simp: redefined_def recordWatchStart_def Let_def snapshot_kept)
next
  case (step_prepareWatchRequests prepared c requests err c')
  obtain de c1 where r: "refreshDefinitions lib prepared c = (de, c1)" by fastforce
  with step_prepareWatchRequests(2) have same: "ct_selectedDefinitions c' = ct_selectedDefinitions c1" "ct_definitionVersion c' = ct_definitionVersion c1"
    by (auto simp: prepareWatchRequests_def Let_def snapshot_kept split: if_splits option.splits)
  with step_prepareWatchRequests(3) have "redefined c c1" by (simp add: redefined_def)
  with refreshDefinitions_redefined [of c lib prepared] r same show ?case by simp
qed (simp_all add: redefined_def snapshot_kept sans_queuesD(11) [OF sans_queues_requeue] unregisterSelectedObject_def withdrawWorkload_def
       start_def setWatchHealth_def listResource_outcome_def recordWatchStart_def Let_def)

text \<open>The version counts at most the transitions, so that it has not wrapped around after fewer than 2^64 of them.\<close>

inductive csteps :: "ctllib \<Rightarrow> nat \<Rightarrow> 'd Controller \<Rightarrow> 'd Controller \<Rightarrow> bool" for lib where
  csteps_none: "csteps lib 0 c c"
| csteps_more: "csteps lib n c c' \<Longrightarrow> cstep lib c' c'' \<Longrightarrow> csteps lib (Suc n) c c''"

lemma csteps_version:
  "csteps lib n c c' \<Longrightarrow> \<exists>k \<le> n. ct_definitionVersion c' = ct_definitionVersion c + word_of_nat k"
proof (induction rule: csteps.induct)
  case (csteps_more n c c' c'')
  then obtain k where k: "k \<le> n" "ct_definitionVersion c' = ct_definitionVersion c + word_of_nat k" by blast
  from cstep_version [OF csteps_more(2)] show ?case
  proof (elim insertE emptyE)
    assume "ct_definitionVersion c'' = ct_definitionVersion c'"
    with k show ?thesis by (intro exI [of _ k]) simp
  next
    assume "ct_definitionVersion c'' = ct_definitionVersion c' + 1"
    with k show ?thesis by (intro exI [of _ "Suc k"]) (simp add: add.assoc add.commute)
  qed
qed (auto intro: exI [of _ 0])

lemma redefined_stale:
  assumes "csteps lib m c c1" "cstep lib c1 c2" "redefined c1 c2" "csteps lib n c2 c'" "m + n + 1 < 2 ^ 64"
    and "sd_version sel = ct_definitionVersion c"
  shows "\<not> isDefinitionCurrent c' ref sel"
proof -
  from csteps_version [OF assms(1)] obtain j where j: "j \<le> m" "ct_definitionVersion c1 = ct_definitionVersion c + word_of_nat j" by blast
  from csteps_version [OF assms(4)] obtain k where k: "k \<le> n" "ct_definitionVersion c' = ct_definitionVersion c2 + word_of_nat k" by blast
  have "(word_of_nat (j + 1 + k) :: 64 word) \<noteq> 0"
    using assms(5) j(1) k(1) by (simp only: word_of_nat_eq_0_iff) (auto simp: nat_dvd_not_less)
  moreover have "ct_definitionVersion c' = ct_definitionVersion c + word_of_nat (j + 1 + k)"
    using j(2) k(2) cstep_redefined [OF assms(2,3)] by simp
  ultimately show ?thesis using assms(6) by (simp add: isDefinitionCurrent_def)
qed

section \<open>The lock is never left by a panic\<close>

text \<open>The synchronization and the readiness probe look up every namespace that a watch lists.\<close>

lemma admitted_objects_total:
  "(\<And>key. key \<in> set keys \<Longrightarrow> map_of (ct_objects c) key \<noteq> None) \<Longrightarrow> admitted_objects lib c keys \<noteq> None"
  by (induction keys) (auto split: option.split)

lemma ready_namespaces_total:
  "(\<And>key. key \<in> set keys \<Longrightarrow> map_of (ct_objects c) key \<noteq> None) \<Longrightarrow> ready_namespaces lib c keys \<noteq> None"
  by (induction keys) (auto split: option.split)

lemma ready_watches_total:
  assumes "\<And>w key. w \<in> set ws \<Longrightarrow> rw_gvk w = namespaceGVK \<Longrightarrow> key \<in> set (rw_objects w) \<Longrightarrow> map_of (ct_objects c) key \<noteq> None"
  shows "ready_watches lib c ws b \<noteq> None"
  using assms
proof (induction ws arbitrary: b)
  case (Cons w ws)
  then have rest: "ready_watches lib c ws b' \<noteq> None" for b' by (metis list.set_intros(2))
  have "ready_namespaces lib c (rw_objects w) \<noteq> None" if "rw_gvk w = namespaceGVK"
    by (rule ready_namespaces_total) (rule Cons.prems [OF _ that], simp_all)
  with rest show ?case by (auto split: option.split bool.split simp del: not_None_eq)
qed simp

lemma controller_ready_total: "ctl_inv lib c \<Longrightarrow> controller_ready lib b c \<noteq> None"
  using ready_watches_total [of "map snd (ct_watches c)" c lib False] listed_namespaces_cached [of lib c]
  by (auto simp: controller_ready_def ctl_inv_def)

lemma prepareWatchRequests_total:
  assumes "ctl_inv lib c"
  shows "prepareWatchRequests lib prepared c \<noteq> None"
proof -
  obtain e c1 where r: "refreshDefinitions lib prepared c = (e, c1)" by fastforce
  then have c1: "ctl_inv lib c1"
    using ctl_inv_same [OF assms refreshDefinitions_members refreshDefinitions_cached, of lib prepared] by simp
  have "admitted_objects lib c1 (concat (map rw_objects (namespace_watches c1))) \<noteq> None"
    by (rule admitted_objects_total)
      (use c1 listed_namespaces_cached [of lib c1] in \<open>auto simp: namespace_watches_def ctl_inv_def\<close>)
  with r show ?thesis by (auto simp: prepareWatchRequests_def Let_def)
qed

section \<open>The scopes are closed\<close>

text \<open>A fold that only removes entries, and leaves good ones under the keys that it visits.\<close>

lemma fold_removes:
  assumes "\<And>k d. I d \<Longrightarrow> I (f k d) \<and> m (f k d) \<subseteq>\<^sub>m m d \<and> (\<forall>v. m (f k d) k = Some v \<longrightarrow> good k v)" "I c"
  shows "I (fold f ks c) \<and> m (fold f ks c) \<subseteq>\<^sub>m m c \<and> (\<forall>k \<in> set ks. \<forall>v. m (fold f ks c) k = Some v \<longrightarrow> good k v)"
  using assms(2)
proof (induction ks arbitrary: c)
  case (Cons k ks)
  let ?d = "fold f ks (f k c)"
  have k: "I (f k c)" "m (f k c) \<subseteq>\<^sub>m m c" "\<And>v. m (f k c) k = Some v \<Longrightarrow> good k v" using assms(1) [OF Cons.prems] by blast+
  have d: "I ?d" "m ?d \<subseteq>\<^sub>m m (f k c)" "\<And>q v. q \<in> set ks \<Longrightarrow> m ?d q = Some v \<Longrightarrow> good q v" using Cons.IH [OF k(1)] by blast+
  have "good k v" if "m ?d k = Some v" for v
  proof -
    from that d(2) have "m (f k c) k = Some v" by (metis domI map_le_def)
    then show ?thesis by (rule k(3))
  qed
  with d k(2) show ?case by (auto intro: map_le_trans)
qed simp

lemma fold_removes_all:
  assumes "\<And>k d. I d \<Longrightarrow> I (f k d) \<and> m (f k d) \<subseteq>\<^sub>m m d \<and> (\<forall>v. m (f k d) k = Some v \<longrightarrow> good k v)" "I c" "m c = map_of xs"
  shows "I (fold f (map fst xs) c)" and "m (fold f (map fst xs) c) k = Some v \<Longrightarrow> good k v"
proof -
  note r = fold_removes [where I = I and m = m and good = good, OF assms(1,2), of "map fst xs"]
  then show "I (fold f (map fst xs) c)" by blast
  assume k: "m (fold f (map fst xs) c) k = Some v"
  with r assms(3) have "map_of xs k = Some v" by (metis domI map_le_def)
  then have "k \<in> set (map fst xs)" by (metis map_of_eq_None_iff option.distinct(1) set_map)
  with r k show "good k v" by blast
qed

lemma scope_frame:
  "ct_scopes (removeRoot uid c) = ct_scopes c" "ct_config (removeRoot uid c) = ct_config c"
  "ct_scopes (forget_failure lib request c) = ct_scopes c" "ct_config (forget_failure lib request c) = ct_config c"
  "ct_roots (forget_failure lib request c) = ct_roots c" "ct_watches (forget_failure lib request c) = ct_watches c"
  "ct_watchFailures (forget_failure lib request c) = AList.delete request (ct_watchFailures c)"
  by (simp_all add: removeRoot_def enqueueMembers_def add_jobs_def add_pods_def publish_def forget_failure_def Let_def split: option.split)

lemma retire_scope_frame:
  "ct_scopes (retire_both lib w c) = ct_scopes c" "ct_config (retire_both lib w c) = ct_config c"
  "ct_watchFailures (retire_both lib w c) = ct_watchFailures c"
proof -
  have "ct_scopes (uncache lib key d) = ct_scopes d" "ct_config (uncache lib key d) = ct_config d"
    "ct_watchFailures (uncache lib key d) = ct_watchFailures d" for key and d :: "'a Controller"
    by (simp_all add: uncache_def Let_def sans_queuesD(9,10,14) [OF sans_queues_change])
  then have "ct_scopes (retire_object lib k key d) = ct_scopes d" "ct_config (retire_object lib k key d) = ct_config d"
    "ct_watchFailures (retire_object lib k key d) = ct_watchFailures d" for k key and d :: "'a Controller"
    by (simp_all add: retire_object_def split: option.split)
  note o = this
  have "ct_scopes (fold (retire_object lib k) ks d) = ct_scopes d" "ct_config (fold (retire_object lib k) ks d) = ct_config d"
    "ct_watchFailures (fold (retire_object lib k) ks d) = ct_watchFailures d" for k ks and d :: "'a Controller"
    by (rule fold_frame, rule o)+
  then show "ct_scopes (retire_both lib w c) = ct_scopes c" "ct_config (retire_both lib w c) = ct_config c"
    "ct_watchFailures (retire_both lib w c) = ct_watchFailures c"
    by (simp_all add: retire_both_def retireWatch_fold Let_def publish_def cancel_watch_def split: option.split)
qed

definition scoped_roots :: "'d Controller \<Rightarrow> bool" where
  "scoped_roots c \<longleftrightarrow> (\<forall>u rt. map_of (ct_roots c) u = Some rt \<longrightarrow> isNamespaceInScope c (or_Namespace (rs_ref rt)))"

lemma rescope_scoped: "scoped_roots (rescope admitted c)"
proof -
  let ?c = "c\<lparr>ct_scopes := admitted\<rparr>"
  let ?f = "\<lambda>uid d. case map_of (ct_roots d) uid of
             None \<Rightarrow> d
           | Some rt \<Rightarrow> if isNamespaceInScope d (or_Namespace (rs_ref rt)) then d else removeRoot uid d"
  let ?I = "\<lambda>d. ct_scopes d = admitted \<and> ct_config d = ct_config c"
  have "?I (?f k d) \<and> map_of (ct_roots (?f k d)) \<subseteq>\<^sub>m map_of (ct_roots d)
      \<and> (\<forall>rt. map_of (ct_roots (?f k d)) k = Some rt \<longrightarrow> isNamespaceInScope ?c (or_Namespace (rs_ref rt)))" if "?I d" for k d
    using that by (auto simp: scope_frame frame isNamespaceInScope_def map_le_def split: option.split)
  note r = fold_removes_all [where I = ?I and f = ?f and m = "\<lambda>d. map_of (ct_roots d)"
      and good = "\<lambda>k rt. isNamespaceInScope ?c (or_Namespace (rs_ref rt))" and c = ?c and xs = "ct_roots c", OF this]
  have "?I (rescope admitted c)" unfolding rescope_def Let_def using r(1) by simp
  moreover have "isNamespaceInScope ?c (or_Namespace (rs_ref rt))" if "map_of (ct_roots (rescope admitted c)) u = Some rt" for u rt
    using r(2) that unfolding rescope_def Let_def by simp
  ultimately show ?thesis by (auto simp: scoped_roots_def isNamespaceInScope_def)
qed

lemma drop_scoped:
  assumes "ctl_inv lib c"
  shows "ct_roots (drop_out_of_scope lib c) = ct_roots c" "ct_scopes (drop_out_of_scope lib c) = ct_scopes c"
    "ct_config (drop_out_of_scope lib c) = ct_config c"
    "map_of (ct_watches (drop_out_of_scope lib c)) k = Some w \<Longrightarrow> \<not> out_of_scope c (sk_Namespace k)"
    "map_of (ct_watchFailures (drop_out_of_scope lib c)) request = Some e \<Longrightarrow> \<not> out_of_scope c (wr_Namespace request)"
proof -
  let ?I = "\<lambda>d. ctl_inv lib d \<and> ct_roots d = ct_roots c \<and> ct_scopes d = ct_scopes c \<and> ct_config d = ct_config c"
  let ?g = "\<lambda>request d. if out_of_scope d (wr_Namespace request) then forget_failure lib request d else d"
  let ?c1 = "fold (retire_key lib) (map fst (ct_watches c)) c"
  have "?I (retire_key lib k d) \<and> map_of (ct_watches (retire_key lib k d)) \<subseteq>\<^sub>m map_of (ct_watches d)
      \<and> (\<forall>w. map_of (ct_watches (retire_key lib k d)) k = Some w \<longrightarrow> \<not> out_of_scope c (sk_Namespace k))" if "?I d" for k d
  proof (cases "map_of (ct_watches d) k")
    case (Some w)
    have key: "rw_key w = k" using cache_invD(2) [OF ctl_inv_D(3) [of lib d] Some] that by simp
    have "map_of (ct_watches (retire_both lib w d)) = (map_of (ct_watches d))(k := None)"
      by (simp add: retire_both_def Let_def frame retireWatch_frame key split: option.split)
    moreover have "ct_roots (retire_both lib w d) = ct_roots d" using retire_both_members [of d lib w] by (simp add: same_members_def)
    ultimately show ?thesis
      using that retire_key_inv [of lib d k] Some
      by (auto simp: retire_key_def retire_scope_frame out_of_scope_def map_le_def)
  qed (use that in \<open>auto simp: retire_key_def map_le_def\<close>)
  note one = fold_removes_all [where I = ?I and f = "retire_key lib" and m = "\<lambda>d. map_of (ct_watches d)"
      and good = "\<lambda>k w. \<not> out_of_scope c (sk_Namespace k)" and c = c and xs = "ct_watches c", OF this]
  have c1: "?I ?c1" using one(1) assms by simp
  let ?J = "\<lambda>d. ct_roots d = ct_roots c \<and> ct_scopes d = ct_scopes c \<and> ct_config d = ct_config c \<and> ct_watches d = ct_watches ?c1"
  have "?J (?g r d) \<and> map_of (ct_watchFailures (?g r d)) \<subseteq>\<^sub>m map_of (ct_watchFailures d)
      \<and> (\<forall>e. map_of (ct_watchFailures (?g r d)) r = Some e \<longrightarrow> \<not> out_of_scope c (wr_Namespace r))" if "?J d" for r d
    using that by (auto simp: scope_frame delete_conv' out_of_scope_def map_le_def)
  note two = fold_removes_all [where I = ?J and f = ?g and m = "\<lambda>d. map_of (ct_watchFailures d)"
      and good = "\<lambda>r e. \<not> out_of_scope c (wr_Namespace r)" and c = ?c1 and xs = "ct_watchFailures ?c1", OF this]
  have c2: "?J (drop_out_of_scope lib c)" unfolding drop_out_of_scope_def Let_def using two(1) c1 by simp
  then show "ct_roots (drop_out_of_scope lib c) = ct_roots c" "ct_scopes (drop_out_of_scope lib c) = ct_scopes c"
    "ct_config (drop_out_of_scope lib c) = ct_config c" by simp_all
  show "\<not> out_of_scope c (sk_Namespace k)" if "map_of (ct_watches (drop_out_of_scope lib c)) k = Some w"
    using that c2 one(2) [of k w] assms by simp
  show "\<not> out_of_scope c (wr_Namespace request)" if "map_of (ct_watchFailures (drop_out_of_scope lib c)) request = Some e"
    using that two(2) [of request e] c1 unfolding drop_out_of_scope_def Let_def by simp
qed

end
