(* ===== verification/Controller_Handlers.thy ===== *)
theory Controller_Handlers
  imports Controller_Steps Workload_Evaluation Label_Resolver
begin

text \<open>
  The workers of the controller: \<^verbatim>\<open>controller/leaf.go\<close>, \<^verbatim>\<open>controller/root.go\<close>, the reader of \<^verbatim>\<open>controller/reader.go\<close> and \<open>syncWatches\<close> of
  \<^verbatim>\<open>controller/sources.go\<close>. A handler runs between sections that hold the lock; what other goroutines do to the state after each section is
  \<open>en_interfere\<close>, so one handler is described under every interleaving. The handlers use the models of the discovery, of the label
  resolver and of the SDK as the code uses those packages.
\<close>

section \<open>The world of a handler\<close>

record 'd world =
  wd_time :: nat
  wd_state :: "'d Controller"

text \<open>
  What a handler meets at a time: the error of its context, the answer of the REST mapper, the steps of the others, the answer of
  the definition inventory; and the conversion of a cached object to its metadata.
\<close>

record 'd environment =
  en_ctx :: "nat \<Rightarrow> xerr option"
  en_mapping :: "nat \<Rightarrow> GroupVersionKind \<Rightarrow> (GroupVersionResource \<times> bool) xres"
  en_interfere :: "nat \<Rightarrow> 'd Controller \<Rightarrow> 'd Controller"
  en_inventory :: "nat \<Rightarrow> SelectionResult list xres"
  en_metadata :: "'d KubeObject \<Rightarrow> xerr option"

text \<open>
  The libraries behind the evaluation: the content of an object as the SDK and the label rules read it, its conversion to a Pod, its
  creation time, the printing of numbers, and the resolver that the application built.
\<close>

record ('d, 'o, 'c) evallib =
  ev_content :: "'d KubeObject \<Rightarrow> 'o"
  ev_pod :: "'d KubeObject \<Rightarrow> 'o xres"
  ev_created :: "'d KubeObject \<Rightarrow> int"
  ev_jq :: "('o, 'c) jqlib"
  ev_k8s :: "'o k8slib"
  ev_num :: "rat \<Rightarrow> string"
  ev_labels :: "'o resolver"
  ev_sort :: sort_slice

definition tick :: "'d environment \<Rightarrow> 'd Controller \<Rightarrow> 'd world \<Rightarrow> 'd world" where
  "tick env c w = \<lparr>wd_time = Suc (wd_time w), wd_state = en_interfere env (wd_time w) c\<rparr>"

text \<open>A section that holds the lock, one that only reads, one that has no result, and a question to the outside.\<close>

definition atomic :: "'d environment \<Rightarrow> ('d Controller \<Rightarrow> 'a \<times> 'd Controller) \<Rightarrow> ('d world, 'a) act" where
  "atomic env f = (\<lambda>w. case f (wd_state w) of (a, c) \<Rightarrow> (Ok a, tick env c w))"

definition observe :: "'d environment \<Rightarrow> ('d Controller \<Rightarrow> 'a) \<Rightarrow> ('d world, 'a) act" where
  "observe env g = atomic env (\<lambda>c. (g c, c))"

definition change :: "'d environment \<Rightarrow> ('d Controller \<Rightarrow> 'd Controller) \<Rightarrow> ('d world, xerr option) act" where
  "change env f = atomic env (\<lambda>c. (None, f c))"

definition outside :: "(nat \<Rightarrow> 'a) \<Rightarrow> ('d world, 'a) act" where
  "outside g = (\<lambda>w. (Ok (g (wd_time w)), w\<lparr>wd_time := Suc (wd_time w)\<rparr>))"

text \<open>A section under the lock that panics is None.\<close>

definition atomic_option :: "'d environment \<Rightarrow> ('d Controller \<Rightarrow> ('a \<times> 'd Controller) option) \<Rightarrow> ('d world, 'a) act" where
  "atomic_option env f = (\<lambda>w. case f (wd_state w) of
       None \<Rightarrow> (Panic ''runtime error'', w)
     | Some (a, c) \<Rightarrow> (Ok a, tick env c w))"

section \<open>The reader\<close>

definition mapped :: "ctllib \<Rightarrow> 'd environment \<Rightarrow> GroupVersionKind \<Rightarrow> nat \<Rightarrow> (GroupVersionResource \<times> bool) xres" where
  "mapped lib env gvk t =
     (case en_ctx env t of
        Some e \<Rightarrow> Inl e
      | None \<Rightarrow> (case en_mapping env t gvk of
          Inl e \<Rightarrow> Inl (XWrapf ''map %s: %w'' [AStr (cl_gvk_String lib gvk)] [e])
        | Inr m \<Rightarrow> Inr m))"

definition restMapping :: "ctllib \<Rightarrow> 'd environment \<Rightarrow> GroupVersionKind \<Rightarrow> ('d world, (GroupVersionResource \<times> bool) xres) act" where
  "restMapping lib env gvk = outside (mapped lib env gvk)"

definition ensure_watch ::
  "ctllib \<Rightarrow> 'd environment \<Rightarrow> GroupVersionKind \<Rightarrow> string \<Rightarrow> bool \<Rightarrow> ('d world, SourceKey xres) act" where
  "ensure_watch lib env gvk namespace metadataOnly =
     and_then (restMapping lib env gvk) (\<lambda>mapping.
     and_then (outside (en_ctx env)) (\<lambda>ctx.
     atomic env (ensureWatch lib mapping ctx gvk namespace metadataOnly)))"

definition reader_read :: "'d environment \<Rightarrow> ObjectRef \<Rightarrow> bool \<Rightarrow> ('d world, ('d KubeObject \<times> SourceKey) xres) act" where
  "reader_read env ref requireFullObject = observe env (\<lambda>c. lookupObject c ref requireFullObject)"

text \<open>The two methods that the discovery uses; there they are functions of the world. A reader without its controller has no \<open>ensure\<close>.\<close>

definition reader_Cached :: "'d environment \<Rightarrow> ObjectRef \<Rightarrow> 'd world \<Rightarrow> ObjectMeta option \<times> 'd world" where
  "reader_Cached env ref w =
     (case lookupObject (wd_state w) ref False of Inl e \<Rightarrow> None | Inr (object, source) \<Rightarrow> Some (kb_Meta object),
      tick env (wd_state w) w)"

definition reader_GetMetadata :: "ctllib \<Rightarrow> 'd environment \<Rightarrow> ObjectRef \<Rightarrow> 'd world \<Rightarrow> ObjectMeta option xres \<times> 'd world" where
  "reader_GetMetadata lib env ref w =
     (case en_ctx env (wd_time w) of
        Some e \<Rightarrow> (Inl e, w)
      | None \<Rightarrow>
          (case ensure_watch lib env (or_GVK ref) (or_Namespace ref) True w of
             (Ok (Inr key), w1) \<Rightarrow>
               (case lookupObject (wd_state w1) ref False of
                  Inl e \<Rightarrow> Inl e
                | Inr (object, source) \<Rightarrow>
                    (case en_metadata env object of Some e \<Rightarrow> Inl e | None \<Rightarrow> Inr (Some (kb_Meta object))),
                tick env (wd_state w1) w1)
           | (Ok (Inl e), w1) \<Rightarrow> (Inl e, w1)
           | (_, w1) \<Rightarrow> (Inr None, w1)))"

definition controller_discovery :: "ctllib \<Rightarrow> 'd environment \<Rightarrow> ControllerConfig \<Rightarrow> 'd world discovery" where
  "controller_discovery lib env config =
     \<lparr>d_reader = \<lparr>Cached = reader_Cached env, GetMetadata = reader_GetMetadata lib env\<rparr>, d_ignored = set (cc_IgnoredOwnerKinds config)\<rparr>"

definition discover :: "ctllib \<Rightarrow> 'd environment \<Rightarrow> ObjectRef \<Rightarrow> ('d world, DiscoveryResult xres) act" where
  "discover lib env ref = (\<lambda>w.
     case discovery_Get (cl_parse_gv lib) (\<lambda>v. en_ctx env (wd_time v)) (controller_discovery lib env (ct_config (wd_state w))) ref w of
       (r, w') \<Rightarrow> (Ok r, w'))"

section \<open>Which resources\<close>

text \<open>The configuration never changes, so it is read without the lock; the mapper is asked only when there are rules.\<close>

definition resource_selected :: "ctllib \<Rightarrow> 'd environment \<Rightarrow> GroupVersionKind \<Rightarrow> ('d world, bool xres) act" where
  "resource_selected lib env gvk = (\<lambda>w.
     let config = ct_config (wd_state w)
     in if cc_ResourceRules config = [] \<and> cc_ExcludeResourceRules config = [] then (Ok (Inr True), w)
        else and_then (restMapping lib env gvk) (\<lambda>mapping. return_act (isResourceSelected config mapping)) w)"

definition root_selected :: "ctllib \<Rightarrow> 'd environment \<Rightarrow> 'd KubeObject \<Rightarrow> ('d world, bool xres) act" where
  "root_selected lib env object =
     (if \<not> cl_objectSelector lib (kb_Labels object) then return_act (Inr False) else resource_selected lib env (kb_GVK object))"

section \<open>leaf.go: evaluation\<close>

text \<open>A result of the SDK as one of the controller; its errors are wrapped later.\<close>

definition sdk_result :: "'a res \<Rightarrow> ('r, 'a xres) act" where
  "sdk_result x = (\<lambda>r. case x of
       Ok a \<Rightarrow> (Ok (Inr a), r) | Err e \<Rightarrow> (Ok (Inl (SdkError e)), r) | Panic p \<Rightarrow> (Panic p, r) | NoReturn \<Rightarrow> (NoReturn, r))"

definition pod_component ::
  "('d, 'o, 'c) evallib \<Rightarrow> selectedDefinition \<Rightarrow> 'd KubeObject \<Rightarrow> 'd KubeObject \<Rightarrow> PodRecord \<Rightarrow> ('r, PodRecord xres) act" where
  "pod_component ev sel podObject rootObject rec =
     (case sel_Definition (sd_Selection sel) of
        None \<Rightarrow> return_act (Inr rec)
      | Some definition_object \<Rightarrow>
          (case ev_pod ev podObject of
             Inl e \<Rightarrow> return_act (Inl e)
           | Inr pod \<Rightarrow>
               (case NewComponentFactoryFromObject (Some (ko_karta definition_object)) (ev_content ev rootObject) of
                  Ok (factory, runner) \<Rightarrow>
                    and_then (sdk_result (fst (evaluatePodComponent (ev_num ev) (Evaluate (runner_iface (ev_jq ev)))
                        (NewAccessor (runner_iface (ev_jq ev)) (ev_k8s ev)) (kb_Name podObject) factory (sd_summary sel)
                        (NewDefaultRunner pod, runner)))) (\<lambda>r.
                    return_act (map_sum id (\<lambda>(comp_name, inst, group_key).
                      rec\<lparr>pr_Karta := og_Name (sel_Origin (sd_Selection sel)),
                        pr_KartaSource := (case og_Source (sel_Origin (sd_Selection sel)) of None \<Rightarrow> [] | Some s \<Rightarrow> Source_string s),
                        pr_Component := comp_name, pr_Instance := inst, pr_Group := group_key\<rparr>) r))
                | Err e \<Rightarrow> return_act (Inl (SdkError e))
                | Panic p \<Rightarrow> panic_act p
                | NoReturn \<Rightarrow> no_return_act)))"

text \<open>Resolve of the label resolver, with the context of the handler; the first result is read without a check.\<close>

definition resolve_labels ::
  "'d environment \<Rightarrow> ('d, 'o, 'c) evallib \<Rightarrow> 'o LabelInput \<Rightarrow> ('d world, ResolvedMetricLabels xres) act" where
  "resolve_labels env ev input = (\<lambda>w.
     case Resolve (en_ctx env) (ev_labels ev) input (wd_time w) of
       (Inl e, t) \<Rightarrow> (Ok (Inl e), w\<lparr>wd_time := t\<rparr>)
     | (Inr [], t) \<Rightarrow> (Panic ''index out of range [0] with length 0'', w\<lparr>wd_time := t\<rparr>)
     | (Inr (r # rs), t) \<Rightarrow> (Ok (Inr r), w\<lparr>wd_time := t\<rparr>))"

definition evaluatePodRecord ::
  "'d environment \<Rightarrow> ('d, 'o, 'c) evallib \<Rightarrow> selectedDefinition \<Rightarrow> 'd KubeObject \<Rightarrow> 'd KubeObject \<Rightarrow> PodRecord
     \<Rightarrow> ('d world, (PodRecord \<times> bool) xres) act" where
  "evaluatePodRecord env ev sel podObject rootObject rec0 =
     and_then (pod_component ev sel podObject rootObject rec0) (\<lambda>r.
     case r of
       Inl e \<Rightarrow> return_act (Inl e)
     | Inr rec \<Rightarrow>
         and_then (resolve_labels env ev \<lparr>li_Metrics = [MetricPodWorkloadInfo], li_Workload = Some (ev_content ev rootObject),
             li_Pod = Some (ev_content ev podObject)\<rparr>) (\<lambda>labels.
         return_act (map_sum id (\<lambda>l. (rec\<lparr>pr_Labels := rml_Labels l\<rparr>, rml_Errors l \<noteq> Map.empty)) labels)))"

section \<open>leaf.go: the handler of Pods\<close>

text \<open>The sources are collected in a section of their own before the failure is published.\<close>

definition fail_pod ::
  "'d environment \<Rightarrow> objectJobKey \<Rightarrow> ObjectRef list \<Rightarrow> xerr \<Rightarrow> ObjectRef option \<Rightarrow> ('d world, xerr option) act" where
  "fail_pod env key path cause rt =
     and_then (observe env (\<lambda>c. c)) (\<lambda>earlier. atomic env (failPod earlier key path cause rt))"

definition fail_pod_evaluation ::
  "ctllib \<Rightarrow> 'd environment \<Rightarrow> objectJobKey \<Rightarrow> ObjectRef list \<Rightarrow> xerr \<Rightarrow> ObjectRef \<Rightarrow> selectedDefinition \<Rightarrow> ('d world, xerr option) act" where
  "fail_pod_evaluation lib env key path cause rootRef sel =
     and_then (observe env (\<lambda>c. c)) (\<lambda>earlier. atomic env (failPodEvaluation lib earlier key path cause rootRef sel))"

definition new_PodRecord :: "objectJobKey \<Rightarrow> ObjectRef \<Rightarrow> ObjectRef \<Rightarrow> GenericWorkload \<Rightarrow> PodRecord" where
  "new_PodRecord key ref rootRef workload =
     \<lparr>pr_Workload = rootRef, pr_Karta = [], pr_KartaSource = [], pr_Namespace = or_Namespace ref, pr_UID = jk_UID key,
      pr_Name = or_Name ref, pr_Component = ''<unknown>'', pr_Instance = ''<unknown>'', pr_Group = [],
      pr_OwnerResolution = Some (gw_Resolution workload), pr_Labels = Map.empty\<rparr>"

text \<open>The handler in its stages: the root object is there; its watch may have to be asked for; the Pod is registered; the Pod is found.\<close>

definition pod_evaluated ::
  "ctllib \<Rightarrow> 'd environment \<Rightarrow> ('d, 'o, 'c) evallib \<Rightarrow> objectJobKey \<Rightarrow> 'd KubeObject \<Rightarrow> GenericWorkload
     \<Rightarrow> selectedDefinition \<times> xerr option \<Rightarrow> 'd KubeObject \<Rightarrow> SourceKey \<Rightarrow> ('d world, xerr option) act" where
  "pod_evaluated lib env ev key podObject workload sel rootObject rootSource =
     (let path = gw_Path workload; rootRef = refOf rootObject
      in case snd sel of
           Some e \<Rightarrow> fail_pod_evaluation lib env key path e rootRef (fst sel)
         | None \<Rightarrow>
             and_then (evaluatePodRecord env ev (fst sel) podObject rootObject (new_PodRecord key (refOf podObject) rootRef workload)) (\<lambda>r.
             case r of
               Inl e \<Rightarrow> fail_pod_evaluation lib env key path (XWrapf ''%w: %w'' [] [Sentinel DiscoveryErrEvaluation, e]) rootRef (fst sel)
             | Inr (rec, hasLabelErrors) \<Rightarrow>
                 and_then (observe env (\<lambda>c. sourcesFor c path)) (\<lambda>sources.
                 atomic env (publishPod lib path rootRef (fst sel)
                   \<lparr>pres_Record = rec, pres_Input = refOf podObject, pres_HasValue = True, pres_Error = [],
                    pres_Sources = (if rootSource \<in> set sources then sources else sources @ [rootSource])\<rparr> hasLabelErrors))))"

definition pod_root_read ::
  "ctllib \<Rightarrow> 'd environment \<Rightarrow> ('d, 'o, 'c) evallib \<Rightarrow> objectJobKey \<Rightarrow> 'd KubeObject \<Rightarrow> GenericWorkload
     \<Rightarrow> selectedDefinition \<times> xerr option \<Rightarrow> ('d KubeObject \<times> SourceKey) xres \<Rightarrow> ('d world, xerr option) act" where
  "pod_root_read lib env ev key podObject workload sel r =
     (case r of
        Inl e \<Rightarrow> fail_pod env key (gw_Path workload) e (Some (gw_Root workload))
      | Inr (rootObject, rootSource) \<Rightarrow>
          and_then (root_selected lib env rootObject) (\<lambda>selected.
          case selected of
            Inl e \<Rightarrow> fail_pod env key (gw_Path workload) e (Some (gw_Root workload))
          | Inr False \<Rightarrow> change env (unregisterPod key)
          | Inr True \<Rightarrow> pod_evaluated lib env ev key podObject workload sel rootObject rootSource))"

definition pod_registered ::
  "ctllib \<Rightarrow> 'd environment \<Rightarrow> ('d, 'o, 'c) evallib \<Rightarrow> objectJobKey \<Rightarrow> 'd KubeObject \<Rightarrow> GenericWorkload
     \<Rightarrow> selectedDefinition \<times> xerr option \<Rightarrow> ObjectRef \<Rightarrow> ('d world, xerr option) act" where
  "pod_registered lib env ev key podObject workload sel rootRef0 =
     (let rootRef = rootRef0\<lparr>or_ResourceVersion := []\<rparr>
      in and_then (reader_read env rootRef True) (\<lambda>r.
         and_then (observe env (\<lambda>c. watchFailed c rootRef)) (\<lambda>failed.
         if isl r \<or> failed then
           and_then (ensure_watch lib env (or_GVK rootRef) (or_Namespace rootRef) False) (\<lambda>ensured.
           case ensured of
             Inl e \<Rightarrow> fail_pod env key (gw_Path workload) e (Some (gw_Root workload))
           | Inr source \<Rightarrow>
               and_then (reader_read env rootRef True) (pod_root_read lib env ev key podObject workload sel))
         else pod_root_read lib env ev key podObject workload sel r)))"

definition pod_discovered ::
  "ctllib \<Rightarrow> 'd environment \<Rightarrow> ('d, 'o, 'c) evallib \<Rightarrow> objectJobKey \<Rightarrow> 'd KubeObject \<Rightarrow> GenericWorkload \<Rightarrow> ('d world, xerr option) act" where
  "pod_discovered lib env ev key podObject workload =
     and_then (observe env (\<lambda>c. lookupDefinition c (or_GVK (gw_Root workload)))) (\<lambda>sel.
     let rootRef = (if sel_Definition (sd_Selection (fst sel)) \<noteq> None
                    then (gw_Root workload)\<lparr>or_GVK := sel_GVK (sd_Selection (fst sel))\<rparr> else gw_Root workload)
     in and_then (resource_selected lib env (or_GVK rootRef)) (\<lambda>selected.
        case selected of
          Inl e \<Rightarrow> fail_pod env key (gw_Path workload) e (Some rootRef)
        | Inr False \<Rightarrow> change env (unregisterPod key)
        | Inr True \<Rightarrow>
            and_then (atomic_option env (registerPodRoot lib key workload)) (\<lambda>err.
            case err of
              Some e \<Rightarrow> if errors_Is e DiscoveryErrStale then return_act (Some e)
                        else fail_pod env key (gw_Path workload) e (Some (gw_Root workload))
            | None \<Rightarrow> pod_registered lib env ev key podObject workload sel rootRef)))"

definition pod_found ::
  "ctllib \<Rightarrow> 'd environment \<Rightarrow> ('d, 'o, 'c) evallib \<Rightarrow> objectJobKey \<Rightarrow> 'd KubeObject \<Rightarrow> ('d world, xerr option) act" where
  "pod_found lib env ev key podObject =
     (let ref = refOf podObject
      in and_then (discover lib env ref) (\<lambda>r.
         case r of
           Inl e \<Rightarrow> fail_pod env key [ref] e None
         | Inr found_result \<Rightarrow>
             (case dr_Workload found_result of
                None \<Rightarrow> fail_pod env key [ref] (Sentinel DiscoveryErrUnresolvedOwner) None
              | Some workload \<Rightarrow> pod_discovered lib env ev key podObject workload)))"

definition reconcilePod ::
  "ctllib \<Rightarrow> 'd environment \<Rightarrow> ('d, 'o, 'c) evallib \<Rightarrow> objectJobKey \<Rightarrow> ('d world, xerr option) act" where
  "reconcilePod lib env ev key =
     and_then (observe env (\<lambda>c. namespaceAdmitted c (or_Namespace (jk_ref key)))) (\<lambda>admitted.
     if \<not> admitted then change env (unregisterPod key)
     else
       and_then (reader_read env (jk_ref key) True) (\<lambda>r.
       case r of
         Inl e \<Rightarrow> if IsNotFound e then change env (unregisterPod key) else fail_pod env key [] e None
       | Inr (podObject, source) \<Rightarrow>
           if \<not> cl_podSelector lib (kb_Labels podObject) then change env (unregisterPod key)
           else pod_found lib env ev key podObject))"

definition handlePodInput ::
  "ctllib \<Rightarrow> 'd environment \<Rightarrow> ('d, 'o, 'c) evallib \<Rightarrow> objectJobKey \<Rightarrow> ('d world, xerr option) act" where
  "handlePodInput lib env ev key =
     (if \<not> jk_Rescan key then reconcilePod lib env ev key
      else change env (requeueScope lib (ky_Namespace (jk_Object key))))"

section \<open>root.go: the handlers of watched objects and roots\<close>

definition fail_selected :: "'d environment \<Rightarrow> objectJobKey \<Rightarrow> xerr \<Rightarrow> ('d world, xerr option) act" where
  "fail_selected env key e = and_then (change env (failSelectedObjectDiscovery key e)) (\<lambda>_. return_act (Some e))"

definition selected_replaced ::
  "ctllib \<Rightarrow> 'd environment \<Rightarrow> objectJobKey \<Rightarrow> selectedDefinition \<Rightarrow> ('d world, xerr option) act" where
  "selected_replaced lib env key sel =
     (let selectedRef = (jk_ref key)\<lparr>or_GVK := sel_GVK (sd_Selection sel)\<rparr>
      in and_then (ensure_watch lib env (or_GVK selectedRef) (or_Namespace selectedRef) False) (\<lambda>ensured.
         case ensured of
           Inl e \<Rightarrow> return_act (Some e)
         | Inr source \<Rightarrow>
             and_then (reader_read env selectedRef True) (\<lambda>r.
             case r of
               Inl e \<Rightarrow> if \<not> IsNotFound e then return_act (Some e)
                        else atomic env (replaceSelectedObjectTracking key None sel)
             | Inr (object, source) \<Rightarrow> atomic env (replaceSelectedObjectTracking key (Some object) sel))))"

definition selected_discovered ::
  "ctllib \<Rightarrow> 'd environment \<Rightarrow> objectJobKey \<Rightarrow> selectedDefinition \<times> xerr option \<Rightarrow> GenericWorkload \<Rightarrow> ('d world, xerr option) act" where
  "selected_discovered lib env key sel workload =
     and_then (observe env (\<lambda>c. lookupDefinition c (or_GVK (gw_Root workload)))) (\<lambda>rootSel.
     let selectedGVK = (if sel_Definition (sd_Selection (fst rootSel)) \<noteq> None then sel_GVK (sd_Selection (fst rootSel))
                        else or_GVK (gw_Root workload))
     in and_then (resource_selected lib env selectedGVK) (\<lambda>selected.
        case selected of
          Inl e \<Rightarrow> fail_selected env key e
        | Inr False \<Rightarrow>
            (case join_errors (List.map_filter id [snd sel, snd rootSel]) of
               Some e \<Rightarrow> fail_selected env key e
             | None \<Rightarrow> atomic env (excludeSelectedObject key workload (fst sel) (fst rootSel)))
        | Inr True \<Rightarrow> atomic_option env (registerSelectedObjectRoot key workload (fst sel) (fst rootSel))))"

definition selected_current ::
  "ctllib \<Rightarrow> 'd environment \<Rightarrow> objectJobKey \<Rightarrow> selectedDefinition \<times> xerr option \<Rightarrow> ('d world, xerr option) act" where
  "selected_current lib env key sel =
     and_then (reader_read env (jk_ref key) False) (\<lambda>r.
     case r of
       Inl e \<Rightarrow> if IsNotFound e then change env (unregisterSelectedObject key) else fail_selected env key e
     | Inr (selectedObject, source) \<Rightarrow>
         and_then (discover lib env (refOf selectedObject)) (\<lambda>d.
         case d of
           Inl e \<Rightarrow> fail_selected env key e
         | Inr discoveryResult \<Rightarrow>
             (case dr_Workload discoveryResult of
                None \<Rightarrow> fail_selected env key (Sentinel DiscoveryErrUnresolvedOwner)
              | Some workload \<Rightarrow> selected_discovered lib env key sel workload)))"

definition resolveSelectedObjectRoot :: "ctllib \<Rightarrow> 'd environment \<Rightarrow> objectJobKey \<Rightarrow> ('d world, xerr option) act" where
  "resolveSelectedObjectRoot lib env key =
     and_then (observe env (\<lambda>c. namespaceAdmitted c (ky_Namespace (jk_Object key)))) (\<lambda>admitted.
     if \<not> admitted then change env (unregisterSelectedObject key)
     else
       and_then (change env (trackSelectedObject key)) (\<lambda>_.
       and_then (observe env (\<lambda>c. lookupDefinition c (ky_GVK (jk_Object key)))) (\<lambda>sel.
       case (sel_Definition (sd_Selection (fst sel)), snd sel) of
         (None, Some e) \<Rightarrow> fail_selected env key e
       | (None, None) \<Rightarrow> selected_current lib env key sel
       | (Some k, _) \<Rightarrow>
           if sel_GVK (sd_Selection (fst sel)) \<noteq> ky_GVK (jk_Object key) then selected_replaced lib env key (fst sel)
           else selected_current lib env key sel)))"

text \<open>The outcome of the status of a root and of its labels: the error, and the record with what was found.\<close>

definition workload_status ::
  "('d, 'o, 'c) evallib \<Rightarrow> selectedDefinition \<Rightarrow> 'd KubeObject \<Rightarrow> WorkloadRecord \<Rightarrow> ('r, xerr option \<times> WorkloadRecord) act" where
  "workload_status ev sel object rec =
     (case sel_Definition (sd_Selection sel) of
        None \<Rightarrow> return_act (None, rec\<lparr>wrec_HasStatus := True\<rparr>)
      | Some definition_object \<Rightarrow>
          (let rec1 = rec\<lparr>wrec_Karta := og_Name (sel_Origin (sd_Selection sel)),
                 wrec_KartaSource := (case og_Source (sel_Origin (sd_Selection sel)) of None \<Rightarrow> [] | Some s \<Rightarrow> Source_string s)\<rparr>
           in case NewComponentFactoryFromObject (Some (ko_karta definition_object)) (ev_content ev object) of
                Ok (factory, runner) \<Rightarrow>
                  lift_res (fst (evaluateWorkloadStatus (NewAccessor (runner_iface (ev_jq ev)) (ev_k8s ev)) factory rec1 runner))
              | Err e \<Rightarrow> return_act (Some (SdkError e), rec1)
              | Panic p \<Rightarrow> panic_act p
              | NoReturn \<Rightarrow> no_return_act))"

definition evaluateWorkloadStatusLabels ::
  "'d environment \<Rightarrow> ('d, 'o, 'c) evallib \<Rightarrow> 'd KubeObject \<Rightarrow> WorkloadRecord \<Rightarrow> ('d world, xerr option \<times> WorkloadRecord) act" where
  "evaluateWorkloadStatusLabels env ev object rec =
     and_then (resolve_labels env ev \<lparr>li_Metrics = [MetricWorkloadStatus], li_Workload = Some (ev_content ev object), li_Pod = None\<rparr>) (\<lambda>labels.
     return_act (case labels of
         Inl e \<Rightarrow> (Some (XWrapf ''%w: %w'' [] [Sentinel DiscoveryErrEvaluation, e]), rec)
       | Inr l \<Rightarrow> if rml_Errors l \<noteq> Map.empty then (Some (Sentinel DiscoveryErrEvaluation), rec)
                  else (None, rec\<lparr>wrec_StatusLabels := rml_Labels l\<rparr>)))"

definition new_WorkloadRecord ::
  "UID \<Rightarrow> ObjectRef \<Rightarrow> ObjectRef \<Rightarrow> int \<Rightarrow> WorkloadRecord" where
  "new_WorkloadRecord uid ref owner created =
     zero_WorkloadRecord\<lparr>wrec_UID := uid, wrec_Ref := ref,
       wrec_OwnerResolution := Some (if or_UID owner \<noteq> [] then IgnoredOwner else Resolved), wrec_CreatedTimestamp := created\<rparr>"

definition workload_record ::
  "'d environment \<Rightarrow> ('d, 'o, 'c) evallib \<Rightarrow> selectedDefinition \<times> xerr option \<Rightarrow> 'd KubeObject \<Rightarrow> WorkloadRecord
     \<Rightarrow> ('d world, xerr option \<times> WorkloadRecord) act" where
  "workload_record env ev sel object rec =
     (case snd sel of
        Some e \<Rightarrow> return_act (Some e, rec)
      | None \<Rightarrow>
          and_then (workload_status ev (fst sel) object rec) (\<lambda>(statusErr, rec1).
          and_then (evaluateWorkloadStatusLabels env ev object rec1) (\<lambda>(labelErr, rec2).
          return_act (join_errors (List.map_filter id [statusErr, labelErr]), rec2))))"

definition fail_workload :: "'d environment \<Rightarrow> UID \<Rightarrow> ObjectRef \<Rightarrow> xerr \<Rightarrow> ('d world, xerr option) act" where
  "fail_workload env uid ref cause =
     (if errors_Is cause ContextCanceled then return_act (Some cause)
      else and_then (observe env (\<lambda>c. c)) (\<lambda>earlier. atomic env (failWorkload earlier uid ref cause)))"

definition is_definition_source :: "SourceKey \<Rightarrow> bool" where
  "is_definition_source key \<longleftrightarrow> gvr_Group (sk_Resource key) = gvk_Group kartaGVK \<and> gvr_Resource (sk_Resource key) = ''kartas''"

definition root_selected_result ::
  "ctllib \<Rightarrow> 'd environment \<Rightarrow> ('d, 'o, 'c) evallib \<Rightarrow> UID \<Rightarrow> selectedDefinition \<times> xerr option \<Rightarrow> 'd KubeObject \<Rightarrow> ObjectRef
     \<Rightarrow> ('d world, xerr option) act" where
  "root_selected_result lib env ev uid sel object owner =
     (let ref = refOf object
      in and_then (workload_record env ev sel object (new_WorkloadRecord uid ref owner (ev_created ev object))) (\<lambda>(statusErr, rec).
         and_then (observe env (\<lambda>c. sourcesFor c [ref])) (\<lambda>sources.
         atomic env (publishWorkload lib uid ref (fst sel)
           \<lparr>wres_Record = rec, wres_HasValue = True, wres_Error = [], wres_StatusError = failureReason statusErr, wres_Sources = sources,
            wres_CreationSources = filter (\<lambda>key. \<not> is_definition_source key) sources\<rparr>))))"

definition workload_read ::
  "ctllib \<Rightarrow> 'd environment \<Rightarrow> ('d, 'o, 'c) evallib \<Rightarrow> UID \<Rightarrow> selectedDefinition \<times> xerr option \<Rightarrow> 'd KubeObject
     \<Rightarrow> ('d world, xerr option) act" where
  "workload_read lib env ev uid sel object = (\<lambda>w.
     (let ref = refOf object
      in case ControllerOwner (cl_parse_gv lib) (kb_Meta object) of
           None \<Rightarrow> fail_workload env uid ref (Sentinel DiscoveryErrUnresolvedOwner)
         | Some owner \<Rightarrow>
             if or_UID owner \<noteq> [] \<and> or_GVK owner \<notin> set (cc_IgnoredOwnerKinds (ct_config (wd_state w)))
             then change env (withdrawWorkload uid)
             else
               and_then (observe env (\<lambda>c. isRoot lib c ref)) (\<lambda>is_root.
               if \<not> is_root then fail_workload env uid ref (Sentinel DiscoveryErrUnresolvedOwner)
               else
                 and_then (root_selected lib env object) (\<lambda>selected.
                 case selected of
                   Inl e \<Rightarrow> fail_workload env uid ref e
                 | Inr False \<Rightarrow> change env (publish (RemoveWorkload uid))
                 | Inr True \<Rightarrow> root_selected_result lib env ev uid sel object owner))) w)"

definition reconcileWorkload ::
  "ctllib \<Rightarrow> 'd environment \<Rightarrow> ('d, 'o, 'c) evallib \<Rightarrow> UID \<Rightarrow> ('d world, xerr option) act" where
  "reconcileWorkload lib env ev uid =
     and_then (observe env (\<lambda>c. snapshotRoot c uid)) (\<lambda>snapshot.
     case snapshot of
       None \<Rightarrow> return_act None
     | Some ref0 \<Rightarrow>
         and_then (observe env (\<lambda>c. lookupDefinition c (or_GVK ref0))) (\<lambda>sel.
         let ref1 = (if sel_Definition (sd_Selection (fst sel)) \<noteq> None then ref0\<lparr>or_GVK := sel_GVK (sd_Selection (fst sel))\<rparr> else ref0);
             ref = ref1\<lparr>or_ResourceVersion := []\<rparr>
         in and_then (ensure_watch lib env (or_GVK ref) (or_Namespace ref) False) (\<lambda>ensured.
            case ensured of
              Inl e \<Rightarrow> fail_workload env uid ref e
            | Inr source \<Rightarrow>
                and_then (reader_read env ref True) (\<lambda>r.
                case r of
                  Inl e \<Rightarrow> if IsNotFound e then change env (withdrawWorkload uid) else fail_workload env uid ref e
                | Inr (object, source) \<Rightarrow> workload_read lib env ev uid sel object))))"

definition handleWorkloadInput ::
  "ctllib \<Rightarrow> 'd environment \<Rightarrow> ('d, 'o, 'c) evallib \<Rightarrow> workloadJobKey \<Rightarrow> ('d world, xerr option) act" where
  "handleWorkloadInput lib env ev key =
     (if jk_UID (wk_SelectedObject key) \<noteq> [] then resolveSelectedObjectRoot lib env (wk_SelectedObject key)
      else reconcileWorkload lib env ev (wk_RootUID key))"

section \<open>sources.go: the synchronization of the watches\<close>

fun ensure_all :: "ctllib \<Rightarrow> 'd environment \<Rightarrow> WatchRequest list \<Rightarrow> ('d world, xerr list) act" where
  "ensure_all lib env [] = return_act []"
| "ensure_all lib env (request # requests) =
     and_then (ensure_watch lib env (wr_GVK request) (wr_Namespace request) False) (\<lambda>r.
     and_then (ensure_all lib env requests) (\<lambda>errs.
     return_act (case r of Inl e \<Rightarrow> e # errs | Inr source \<Rightarrow> errs)))"

definition sync_requests ::
  "ctllib \<Rightarrow> 'd environment \<Rightarrow> ('d, 'o, 'c) evallib \<Rightarrow> ('d world, xerr option) act" where
  "sync_requests lib env ev =
     and_then (outside (en_inventory env)) (\<lambda>results.
     case prepareDefinitions (ev_sort ev) results of
       None \<Rightarrow> no_return_act
     | Some prepared \<Rightarrow>
         and_then (atomic_option env (\<lambda>c. map_option (\<lambda>(requests, err, c'). ((requests, err), c')) (prepareWatchRequests lib prepared c)))
           (\<lambda>(requests, preparationErr).
           case requests of
             None \<Rightarrow> return_act preparationErr
           | Some rs \<Rightarrow>
               and_then (ensure_all lib env rs) (\<lambda>errs.
               return_act (join_errors ((case preparationErr of None \<Rightarrow> [] | Some e \<Rightarrow> [e]) @ errs)))))"

definition syncWatches ::
  "ctllib \<Rightarrow> 'd environment \<Rightarrow> ('d, 'o, 'c) evallib \<Rightarrow> ('d world, xerr option) act" where
  "syncWatches lib env ev = (\<lambda>w.
     (if cc_NamespaceSelector (ct_config (wd_state w)) then
        and_then (ensure_watch lib env namespaceGVK [] False) (\<lambda>ensured.
        case ensured of Inl e \<Rightarrow> return_act (Some e) | Inr source \<Rightarrow> sync_requests lib env ev)
      else sync_requests lib env ev) w)"

end
