(* ===== verification/Controller_Runs.thy ===== *)
theory Controller_Runs
  imports Controller_Handlers
begin

text \<open>
  Every handler is a sequence of transitions of the controller: whatever the other goroutines do in between, as long as that is
  transitions too, a handler that starts in a reachable state returns and leaves a reachable state. In particular no handler
  panics, and the evaluations that it runs end.
\<close>

section \<open>Sections that keep a predicate\<close>

text \<open>
  \<open>keeps P m Q\<close>: when the state of the controller satisfies \<open>P\<close>, then \<open>m\<close> returns a result that satisfies \<open>Q\<close>, and the state
  satisfies \<open>P\<close> again.
\<close>

definition keeps :: "('d Controller \<Rightarrow> bool) \<Rightarrow> ('d world, 'a) act \<Rightarrow> ('a \<Rightarrow> bool) \<Rightarrow> bool" where
  "keeps P m Q \<longleftrightarrow> (\<forall>w. P (wd_state w) \<longrightarrow> P (wd_state (snd (m w))) \<and> (\<exists>a. fst (m w) = Ok a \<and> Q a))"

definition fair :: "('d Controller \<Rightarrow> bool) \<Rightarrow> 'd environment \<Rightarrow> bool" where
  "fair P env \<longleftrightarrow> (\<forall>t c. P c \<longrightarrow> P (en_interfere env t c))"

abbreviation any_result :: "'a \<Rightarrow> bool" where
  "any_result \<equiv> \<lambda>_. True"

named_theorems keeps_intro \<open>actions that keep a predicate\<close>

lemma keeps_return [keeps_intro]: "Q a \<Longrightarrow> keeps P (return_act a) Q"
  by (simp add: keeps_def return_act_apply)

lemma keeps_bind: "keeps P m R \<Longrightarrow> (\<And>a. R a \<Longrightarrow> keeps P (f a) Q) \<Longrightarrow> keeps P (and_then m f) Q"
  unfolding keeps_def and_then_def by (force split: prod.split)

lemma keeps_then [keeps_intro]: "keeps P m any_result \<Longrightarrow> (\<And>a. keeps P (f a) Q) \<Longrightarrow> keeps P (and_then m f) Q"
  by (rule keeps_bind)

lemma keeps_weaken: "keeps P m Q \<Longrightarrow> (\<And>a. Q a \<Longrightarrow> Q' a) \<Longrightarrow> keeps P m Q'"
  by (auto simp: keeps_def)

lemma keeps_any: "keeps P m Q \<Longrightarrow> keeps P m any_result"
  by (erule keeps_weaken) simp

lemma keeps_atomic: "fair P env \<Longrightarrow> (\<And>c. P c \<Longrightarrow> P (snd (f c)) \<and> Q (fst (f c))) \<Longrightarrow> keeps P (atomic env f) Q"
  by (fastforce simp: keeps_def atomic_def tick_def fair_def split: prod.split)

lemma keeps_observe: "fair P env \<Longrightarrow> (\<And>c. P c \<Longrightarrow> Q (g c)) \<Longrightarrow> keeps P (observe env g) Q"
  unfolding observe_def by (rule keeps_atomic) auto

lemma keeps_observe_any [keeps_intro]: "fair P env \<Longrightarrow> keeps P (observe env g) any_result"
  by (erule keeps_observe) simp

lemma keeps_change: "fair P env \<Longrightarrow> (\<And>c. P c \<Longrightarrow> P (f c)) \<Longrightarrow> keeps P (change env f) any_result"
  unfolding change_def by (rule keeps_atomic) auto

lemma keeps_outside [keeps_intro]: "keeps P (outside g) any_result"
  by (simp add: keeps_def outside_def)

lemma keeps_reading: "(\<And>w. keeps P (f w) Q) \<Longrightarrow> keeps P (\<lambda>w. f w w) Q"
  by (auto simp: keeps_def)

section \<open>The walk of the discovery\<close>

lemma read_object_keeps:
  assumes "\<And>ref w. P w \<Longrightarrow> P (snd (Cached rd ref w)) \<and> P (snd (GetMetadata rd ref w))" "P w" "read_object rd ref w = (r, w')"
  shows "P w'"
proof -
  obtain m w1 where c: "Cached rd ref w = (m, w1)" by fastforce
  then have w1: "P w1" using assms(1) [OF assms(2), of ref] by simp
  obtain r2 w2 where g: "GetMetadata rd ref w1 = (r2, w2)" by fastforce
  then have "P w2" using assms(1) [OF w1, of ref] by simp
  with w1 assms(3) show ?thesis by (auto simp: read_object_def c g split: option.splits sum.splits)
qed

lemma Get_loop_keeps:
  assumes "\<And>ref w. P w \<Longrightarrow> P (snd (Cached (d_reader d) ref w)) \<and> P (snd (GetMetadata (d_reader d) ref w))" "P w"
  shows "P (snd (Get_loop parse_gv ctx_Err d ref path seen w))"
  using assms
proof (induction parse_gv ctx_Err d ref path seen w rule: Get_loop.induct)
  case (1 parse_gv ctx_Err d ref path seen w)
  obtain r w' where read: "read_object (d_reader d) ref w = (r, w')" by fastforce
  have w': "P w'" by (rule read_object_keeps [OF "1.prems"(1) "1.prems"(2) read])
  from "1.IH" [OF _ _ _ read [symmetric]] "1.prems" w' show ?case
    by (subst Get_loop.simps) (auto simp: read split: option.split sum.split)
qed

text \<open>A workload that the discovery finds has a root with a UID, and a path.\<close>

definition discovered_ok :: "DiscoveryResult xres \<Rightarrow> bool" where
  "discovered_ok r \<longleftrightarrow> (case r of Inl e \<Rightarrow> True | Inr res \<Rightarrow>
     (case dr_Workload res of None \<Rightarrow> True | Some workload \<Rightarrow> or_UID (gw_Root workload) \<noteq> [] \<and> gw_Path workload \<noteq> []))"

lemma discovery_Get_ok: "discovery_Get parse_gv ctx_Err d ref w = (r, w') \<Longrightarrow> discovered_ok r"
  by (cases r) (auto simp: discovered_ok_def discovery_Get_climb found_def dest!: climb_path)

section \<open>The evaluations\<close>

text \<open>A definition as \<open>lookupDefinition\<close> returns it: it has no error of its own when there is none beside it.\<close>

definition usable :: "selectedDefinition \<times> xerr option \<Rightarrow> bool" where
  "usable sel \<longleftrightarrow> sound_definition (fst sel) \<and> (snd sel = None \<longrightarrow> sd_err (fst sel) = None)"

lemma lookupDefinition_usable: "sound_definitions (ct_selectedDefinitions c) \<Longrightarrow> usable (lookupDefinition c gvk)"
  by (auto simp: lookupDefinition_def usable_def selected_of_def sound_definitions_def sound_definition_def zero_selected_def
      empty_selection_def Let_def split: option.splits dest!: map_of_SomeD intro: rev_image_eqI)

lemma pod_component_keeps:
  assumes "usable (sel, None)"
  shows "keeps P (pod_component ev sel podObject rootObject rec) any_result"
proof (cases "sel_Definition (sd_Selection sel)")
  case None
  then show ?thesis by (simp add: pod_component_def keeps_def return_act_apply)
next
  case (Some d)
  with assms obtain sorter s where k: "evaluable (ko_karta d)" "NewStructureSummary sorter (Some (ko_karta d)) = Ok s" "sd_summary sel = Some s"
    by (auto simp: usable_def sound_definition_def)
  obtain f where f: "NewComponentFactory (Some (ko_karta d)) = Ok f" using NewComponentFactory_total by blast
  show ?thesis
  proof (cases "ev_pod ev podObject")
    case (Inl e)
    then show ?thesis by (simp add: pod_component_def Some keeps_def return_act_apply)
  next
    case (Inr pod)
    let ?m = "evaluatePodComponent (ev_num ev) (Evaluate (runner_iface (ev_jq ev))) (NewAccessor (runner_iface (ev_jq ev)) (ev_k8s ev))
      (kb_Name podObject) f (Some s)"
    have "ok_res clean (fst (?m (NewDefaultRunner pod, NewDefaultRunner (ev_content ev rootObject))))"
      by (rule readsD(3) [OF evaluatePodComponent_reads [OF std.ev.evaluator_contract_axioms std.acc.accessor_contract_axioms k(1) f k(2)]])
        (simp add: both_def NewRunner_clean)
    then show ?thesis
      by (cases rule: ok_res_cases)
        (simp_all add: pod_component_def Some Inr NewComponentFactoryFromObject_def f k(3) keeps_def and_then_def sdk_result_def return_act_apply)
  qed
qed

lemma Resolve_single: "fst (Resolve ctx r \<lparr>li_Metrics = [metric], li_Workload = w, li_Pod = p\<rparr> t) \<noteq> Inr []"
  by (auto simp: Resolve_def split: option.split sum.split prod.split)

lemma resolve_labels_keeps:
  "keeps P (resolve_labels env ev \<lparr>li_Metrics = [metric], li_Workload = w, li_Pod = p\<rparr>) any_result"
  unfolding keeps_def
proof (intro allI impI)
  fix v :: "'a world" assume v: "P (wd_state v)"
  let ?r = "Resolve (en_ctx env) (ev_labels ev) \<lparr>li_Metrics = [metric], li_Workload = w, li_Pod = p\<rparr> (wd_time v)"
  have "fst ?r \<noteq> Inr []" by (rule Resolve_single)
  with v show "P (wd_state (snd (resolve_labels env ev \<lparr>li_Metrics = [metric], li_Workload = w, li_Pod = p\<rparr> v)))
      \<and> (\<exists>a. fst (resolve_labels env ev \<lparr>li_Metrics = [metric], li_Workload = w, li_Pod = p\<rparr> v) = Ok a \<and> any_result a)"
    by (cases ?r rule: prod.exhaust; cases "fst ?r") (auto simp: resolve_labels_def split: list.split)
qed

lemma evaluatePodRecord_keeps:
  assumes "usable (sel, None)"
  shows "keeps P (evaluatePodRecord env ev sel podObject rootObject rec) any_result"
  unfolding evaluatePodRecord_def
  by (rule keeps_then [OF pod_component_keeps [OF assms]])
    (auto intro!: keeps_intro resolve_labels_keeps split: sum.split)

text \<open>The record of a root keeps its UID through the evaluation.\<close>

lemma workload_status_keeps:
  assumes "usable (sel, None)" "wrec_UID rec = uid"
  shows "keeps P (workload_status ev sel object rec) (\<lambda>r. wrec_UID (snd r) = uid)"
proof (cases "sel_Definition (sd_Selection sel)")
  case None
  with assms(2) show ?thesis by (simp add: workload_status_def keeps_def return_act_apply)
next
  case (Some d)
  with assms(1) have k: "evaluable (ko_karta d)" by (auto simp: usable_def sound_definition_def)
  obtain f where f: "NewComponentFactory (Some (ko_karta d)) = Ok f" using NewComponentFactory_total by blast
  let ?A = "NewAccessor (runner_iface (ev_jq ev)) (ev_k8s ev)" and ?r = "NewDefaultRunner (ev_content ev object)"
  have "ok_res clean (fst (evaluateWorkloadStatus ?A f rec' ?r))" for rec'
    by (rule readsD(3) [OF evaluateWorkloadStatus_reads [OF std.acc.accessor_contract_axioms k f]]) (simp add: NewRunner_clean)
  moreover have "fst (evaluateWorkloadStatus ?A f rec' ?r) \<noteq> Err e" for rec' e
    by (auto simp: evaluateWorkloadStatus_def split: prod.split res.split option.split)
  moreover have "fst (evaluateWorkloadStatus ?A f rec' ?r) = Ok a \<Longrightarrow> wrec_UID (snd a) = wrec_UID rec'" for rec' a
    by (auto simp: evaluateWorkloadStatus_def split: prod.splits res.splits option.splits)
  ultimately have "\<exists>a. fst (evaluateWorkloadStatus ?A f rec' ?r) = Ok a \<and> wrec_UID (snd a) = wrec_UID rec'" for rec'
    by (metis ok_res_cases)
  from this [of "rec\<lparr>wrec_Karta := og_Name (sel_Origin (sd_Selection sel)),
      wrec_KartaSource := (case og_Source (sel_Origin (sd_Selection sel)) of None \<Rightarrow> [] | Some s \<Rightarrow> Source_string s)\<rparr>"]
  show ?thesis
    using assms(2) unfolding workload_status_def Some option.case NewComponentFactoryFromObject_def f res.case prod.case Let_def
    by (auto simp: keeps_def lift_res_def)
qed

lemma workload_labels_keeps:
  assumes "wrec_UID rec = uid"
  shows "keeps P (evaluateWorkloadStatusLabels env ev object rec) (\<lambda>r. wrec_UID (snd r) = uid)"
  unfolding evaluateWorkloadStatusLabels_def
  by (rule keeps_then [OF resolve_labels_keeps], rule keeps_return) (use assms in \<open>auto split: sum.split\<close>)

lemma workload_record_keeps:
  assumes "usable sel" "wrec_UID rec = uid"
  shows "keeps P (workload_record env ev sel object rec) (\<lambda>r. wrec_UID (snd r) = uid)"
proof (cases "snd sel")
  case None
  with assms(1) have sel: "usable (fst sel, None)" by (simp add: usable_def)
  have "keeps P (and_then (workload_status ev (fst sel) object rec) (\<lambda>(statusErr, rec1).
          and_then (evaluateWorkloadStatusLabels env ev object rec1) (\<lambda>(labelErr, rec2).
          return_act (join_errors (List.map_filter id [statusErr, labelErr]), rec2)))) (\<lambda>r. wrec_UID (snd r) = uid)"
    by (rule keeps_bind [OF workload_status_keeps [OF sel assms(2)]])
      (auto intro!: keeps_bind [OF workload_labels_keeps] keeps_return)
  with None show ?thesis by (simp add: workload_record_def)
next
  case (Some e)
  with assms show ?thesis by (auto simp: workload_record_def intro: keeps_return)
qed

section \<open>The pieces of the handlers\<close>

text \<open>An environment whose other goroutines make transitions of the controller.\<close>

locale interleaved =
  fixes lib :: ctllib and env :: "'d environment" and P :: "'d Controller \<Rightarrow> bool" and parse :: "string \<Rightarrow> goerr + ast"
  assumes steps: "P c \<Longrightarrow> cstep lib c c' \<Longrightarrow> P c'"
    and fair: "fair P env"
    and invariant: "P c \<Longrightarrow> ctl_inv lib c \<and> sound_definitions (ct_selectedDefinitions c)"
    and mapper: "mapping_ok lib gvk (en_mapping env t gvk)"
    and inventory: "en_inventory env t = Inr rs \<Longrightarrow> r \<in> set rs \<Longrightarrow> checked_result parse r"
begin

lemma step_change [keeps_intro]: "(\<And>c. cstep lib c (f c)) \<Longrightarrow> keeps P (change env f) any_result"
  by (rule keeps_change [OF fair]) (blast intro: steps)

lemma step_atomic [keeps_intro]: "(\<And>c. cstep lib c (snd (f c))) \<Longrightarrow> keeps P (atomic env f) any_result"
  by (rule keeps_atomic [OF fair]) (blast intro: steps)

lemma step_atomic_option:
  "(\<And>c. P c \<Longrightarrow> \<exists>a c'. f c = Some (a, c') \<and> cstep lib c c') \<Longrightarrow> keeps P (atomic_option env f) any_result"
  unfolding keeps_def atomic_option_def using steps fair by (fastforce simp: tick_def fair_def)

lemmas observed [keeps_intro] = keeps_observe_any [OF fair]

lemma mapped_ok: "mapping_ok lib gvk (mapped lib env gvk t)"
  using mapper [of gvk t] by (auto simp: mapped_def mapping_ok_def split: option.split sum.splits)

lemma restMapping_keeps: "keeps P (restMapping lib env gvk) (mapping_ok lib gvk)"
  by (simp add: restMapping_def keeps_def outside_def mapped_ok)

lemma ensure_watch_keeps [keeps_intro]: "keeps P (ensure_watch lib env gvk namespace metadataOnly) any_result"
  unfolding ensure_watch_def
  by (rule keeps_bind [OF restMapping_keeps]) (intro keeps_intro step_ensureWatch)

lemma discover_keeps: "keeps P (discover lib env ref) discovered_ok"
  unfolding keeps_def
proof (intro allI impI conjI)
  fix w :: "'d world" assume w: "P (wd_state w)"
  let ?d = "controller_discovery lib env (ct_config (wd_state w))"
  have tick: "P c \<Longrightarrow> P (wd_state (tick env c v))" for c v using fair by (simp add: fair_def tick_def)
  have "P (wd_state v) \<Longrightarrow> P (wd_state (snd (Cached (d_reader ?d) r v))) \<and> P (wd_state (snd (GetMetadata (d_reader ?d) r v)))" for r v
  proof
    assume v: "P (wd_state v)"
    then show "P (wd_state (snd (Cached (d_reader ?d) r v)))"
      by (simp add: controller_discovery_def reader_Cached_def tick)
    obtain x v1 where e: "ensure_watch lib env (or_GVK r) (or_Namespace r) True v = (x, v1)" by fastforce
    with v ensure_watch_keeps [of "or_GVK r" "or_Namespace r" True] have "P (wd_state v1)" by (simp add: keeps_def) (metis snd_conv)
    with v e show "P (wd_state (snd (GetMetadata (d_reader ?d) r v)))"
      by (auto simp: controller_discovery_def reader_GetMetadata_def tick split: option.split res.split sum.split)
  qed
  from Get_loop_keeps [where P = "\<lambda>v. P (wd_state v)", OF this w]
  show "P (wd_state (snd (discover lib env ref w)))"
    by (simp add: discover_def discovery_Get_def split: prod.split) (metis snd_conv)
  show "\<exists>a. fst (discover lib env ref w) = Ok a \<and> discovered_ok a"
    by (auto simp: discover_def split: prod.split dest: discovery_Get_ok)
qed

lemma resource_selected_keeps [keeps_intro]: "keeps P (resource_selected lib env gvk) any_result"
  unfolding resource_selected_def Let_def restMapping_def
  by (rule keeps_reading) (auto simp: keeps_def and_then_def outside_def return_act_apply)

lemma root_selected_keeps [keeps_intro]: "keeps P (root_selected lib env object) any_result"
  by (simp add: root_selected_def keeps_intro)

lemma fail_pod_keeps [keeps_intro]: "keeps P (fail_pod env key path cause rt) any_result"
  unfolding fail_pod_def by (intro keeps_intro) (rule step_failPod)

lemma fail_pod_evaluation_keeps [keeps_intro]: "keeps P (fail_pod_evaluation lib env key path cause rootRef sel) any_result"
  unfolding fail_pod_evaluation_def by (intro keeps_intro) (rule step_failPodEvaluation)

lemma definition_keeps: "keeps P (observe env (\<lambda>c. lookupDefinition c gvk)) usable"
  by (rule keeps_observe [OF fair]) (auto dest: invariant intro: lookupDefinition_usable)

lemma unregisterPod_keeps [keeps_intro]: "keeps P (change env (unregisterPod key)) any_result"
  by (rule step_change) (rule step_unregisterPod)

lemma publishPod_keeps [keeps_intro]: "keeps P (atomic env (publishPod lib path rootRef sel result labelFailed)) any_result"
  by (rule step_atomic) (rule step_publishPod)

lemma pod_evaluated_keeps [keeps_intro]:
  assumes "usable sel"
  shows "keeps P (pod_evaluated lib env ev key podObject workload sel rootObject rootSource) any_result"
proof (cases "snd sel")
  case None
  with assms have "usable (fst sel, None)" by (simp add: usable_def)
  note r = evaluatePodRecord_keeps [OF this]
  show ?thesis
    unfolding pod_evaluated_def Let_def None option.case
    by (rule keeps_then [OF r]) (auto intro!: keeps_intro split: sum.split prod.split)
qed (auto simp: pod_evaluated_def Let_def intro: keeps_intro)

lemma pod_root_read_keeps [keeps_intro]:
  "usable sel \<Longrightarrow> keeps P (pod_root_read lib env ev key podObject workload sel r) any_result"
  unfolding pod_root_read_def by (auto intro!: keeps_intro split: sum.split bool.split prod.split)

lemma reader_read_keeps [keeps_intro]: "keeps P (reader_read env ref requireFullObject) any_result"
  unfolding reader_read_def by (rule observed)

lemma pod_registered_keeps [keeps_intro]:
  "usable sel \<Longrightarrow> keeps P (pod_registered lib env ev key podObject workload sel rootRef) any_result"
  unfolding pod_registered_def Let_def by (auto intro!: keeps_intro split: sum.split)

lemma registerPodRoot_keeps:
  assumes "or_UID (gw_Root workload) \<noteq> []" "gw_Path workload \<noteq> []"
  shows "keeps P (atomic_option env (registerPodRoot lib key workload)) any_result"
proof (rule step_atomic_option)
  fix c assume "P c"
  from registerPodRoot_total [OF assms(2)] obtain err c' where "registerPodRoot lib key workload c = Some (err, c')" by fastforce
  with step_registerPodRoot [OF assms(1) this] show "\<exists>a c'. registerPodRoot lib key workload c = Some (a, c') \<and> cstep lib c c'" by blast
qed

lemma registerSelectedObjectRoot_keeps:
  assumes "or_UID (gw_Root workload) \<noteq> []" "gw_Path workload \<noteq> []"
  shows "keeps P (atomic_option env (registerSelectedObjectRoot key workload sel rootSel)) any_result"
proof (rule step_atomic_option)
  fix c assume "P c"
  from registerSelectedObjectRoot_total [OF assms(2)] obtain err c' where
    "registerSelectedObjectRoot key workload sel rootSel c = Some (err, c')" by fastforce
  with step_registerSelectedObjectRoot [OF assms(1) this]
  show "\<exists>a c'. registerSelectedObjectRoot key workload sel rootSel c = Some (a, c') \<and> cstep lib c c'" by blast
qed

lemma pod_discovered_keeps:
  assumes "or_UID (gw_Root workload) \<noteq> []" "gw_Path workload \<noteq> []"
  shows "keeps P (pod_discovered lib env ev key podObject workload) any_result"
  unfolding pod_discovered_def Let_def
  by (rule keeps_bind [OF definition_keeps]) (auto intro!: keeps_intro registerPodRoot_keeps assms split: sum.split bool.split option.split)

lemma pod_found_keeps [keeps_intro]: "keeps P (pod_found lib env ev key podObject) any_result"
  unfolding pod_found_def Let_def
  by (rule keeps_bind [OF discover_keeps])
    (auto simp: discovered_ok_def intro!: keeps_intro pod_discovered_keeps split: sum.splits option.splits)

lemma handlePodInput_keeps: "keeps P (handlePodInput lib env ev key) any_result"
proof -
  have "keeps P (reconcilePod lib env ev key) any_result"
    unfolding reconcilePod_def by (auto intro!: keeps_intro split: sum.split)
  moreover have "keeps P (change env (requeueScope lib namespace)) any_result" for namespace
    by (rule step_change) (rule step_requeueScope)
  ultimately show ?thesis by (simp add: handlePodInput_def)
qed

lemma fail_selected_keeps [keeps_intro]: "keeps P (fail_selected env key e) any_result"
  unfolding fail_selected_def by (intro keeps_intro step_failSelectedObjectDiscovery TrueI)

lemma selected_steps [keeps_intro]:
  "keeps P (atomic env (replaceSelectedObjectTracking key object sel)) any_result"
  "keeps P (atomic env (excludeSelectedObject key workload sel rootSel)) any_result"
  "keeps P (change env (unregisterSelectedObject key)) any_result"
  "keeps P (change env (trackSelectedObject key)) any_result"
  by (rule step_atomic step_change; simp add: cstep.intros)+

lemma selected_replaced_keeps [keeps_intro]: "keeps P (selected_replaced lib env key sel) any_result"
  unfolding selected_replaced_def Let_def by (auto intro!: keeps_intro split: sum.split)

lemma selected_discovered_keeps:
  assumes "or_UID (gw_Root workload) \<noteq> []" "gw_Path workload \<noteq> []"
  shows "keeps P (selected_discovered lib env key sel workload) any_result"
  unfolding selected_discovered_def Let_def
  by (auto intro!: keeps_intro registerSelectedObjectRoot_keeps assms split: sum.split bool.split option.split)

lemma selected_current_keeps [keeps_intro]: "keeps P (selected_current lib env key sel) any_result"
proof -
  have "keeps P (and_then (discover lib env ref) (\<lambda>d. case d of
         Inl e \<Rightarrow> fail_selected env key e
       | Inr discoveryResult \<Rightarrow> (case dr_Workload discoveryResult of
           None \<Rightarrow> fail_selected env key (Sentinel DiscoveryErrUnresolvedOwner)
         | Some workload \<Rightarrow> selected_discovered lib env key sel workload))) any_result" for ref
    by (rule keeps_bind [OF discover_keeps])
      (auto simp: discovered_ok_def intro!: keeps_intro selected_discovered_keeps split: sum.splits option.splits)
  then show ?thesis unfolding selected_current_def by (auto intro!: keeps_intro split: sum.split)
qed

lemma resolveSelectedObjectRoot_keeps: "keeps P (resolveSelectedObjectRoot lib env key) any_result"
  unfolding resolveSelectedObjectRoot_def by (auto intro!: keeps_intro split: option.split prod.split)

lemma fail_workload_keeps [keeps_intro]: "keeps P (fail_workload env uid ref cause) any_result"
  unfolding fail_workload_def by (auto intro!: keeps_intro step_failWorkload)

lemma workload_steps [keeps_intro]:
  "keeps P (change env (withdrawWorkload uid)) any_result" "keeps P (change env (publish (RemoveWorkload uid))) any_result"
  by (rule step_change; simp add: cstep.intros)+

lemma root_selected_result_keeps:
  assumes "kb_UID object = uid" "usable sel"
  shows "keeps P (root_selected_result lib env ev uid sel object owner) any_result"
proof -
  have uid: "or_UID (refOf object) = uid" using assms(1) by (simp add: refOf_def)
  have new: "wrec_UID (new_WorkloadRecord uid ref owner created) = uid" for ref created by (simp add: new_WorkloadRecord_def)
  show ?thesis
    unfolding root_selected_result_def Let_def
    by (rule keeps_bind [OF workload_record_keeps [OF assms(2) new]]) (auto intro!: keeps_intro step_publishWorkload simp: uid)
qed

lemma workload_read_keeps:
  assumes "kb_UID object = uid" "usable sel"
  shows "keeps P (workload_read lib env ev uid sel object) any_result"
  unfolding workload_read_def Let_def
  by (rule keeps_reading) (auto intro!: keeps_intro root_selected_result_keeps assms split: option.split sum.split bool.split)

lemma handleWorkloadInput_keeps: "keeps P (handleWorkloadInput lib env ev key) any_result"
proof -
  have snap: "keeps P (observe env (\<lambda>c. snapshotRoot c uid)) (\<lambda>s. case s of None \<Rightarrow> True | Some ref \<Rightarrow> or_UID ref = uid \<and> uid \<noteq> [])" for uid
    by (rule keeps_observe [OF fair])
      (auto simp: snapshotRoot_def dest!: invariant [THEN conjunct1] ctl_inv_D(1) split: option.split
        dest: members_okD(1,2) [OF membership_inv_def [THEN iffD1]])
  have read: "keeps P (reader_read env ref True) (\<lambda>r. case r of Inl e \<Rightarrow> True | Inr (object, source) \<Rightarrow> kb_UID object = or_UID ref)"
    if "or_UID ref \<noteq> []" for ref
    unfolding reader_read_def
    by (rule keeps_observe [OF fair])
      (auto simp: that split: sum.split elim: lookupObject_entry [OF ctl_inv_D(3) [OF invariant [THEN conjunct1]]])
  have "keeps P (reconcileWorkload lib env ev uid) any_result" for uid
    unfolding reconcileWorkload_def
    by (rule keeps_bind [OF snap])
      (auto intro!: keeps_intro keeps_bind [OF definition_keeps] keeps_bind [OF read] workload_read_keeps simp: Let_def split: option.splits sum.splits)
  with resolveSelectedObjectRoot_keeps show ?thesis by (simp add: handleWorkloadInput_def)
qed

lemma ensure_all_keeps [keeps_intro]: "keeps P (ensure_all lib env requests) any_result"
  by (induction requests) (auto intro!: keeps_intro)

lemma prepare_keeps:
  assumes "sound_prepared prepared"
  shows "keeps P (atomic_option env (\<lambda>c. map_option (\<lambda>(requests, err, c'). ((requests, err), c')) (prepareWatchRequests lib prepared c)))
    any_result"
proof (rule step_atomic_option)
  fix c assume "P c"
  with invariant have "ctl_inv lib c" by blast
  from prepareWatchRequests_total [OF this] obtain requests err c' where r: "prepareWatchRequests lib prepared c = Some (requests, err, c')"
    by (metis not_Some_eq prod_cases3)
  from step_prepareWatchRequests [OF assms r]
  show "\<exists>a c'. map_option (\<lambda>(requests, err, c'). ((requests, err), c')) (prepareWatchRequests lib prepared c) = Some (a, c') \<and> cstep lib c c'"
    by (simp add: r)
qed

lemma sync_requests_keeps [keeps_intro]: "keeps P (sync_requests lib env ev) any_result"
proof -
  have read: "keeps P (outside (en_inventory env)) (\<lambda>results. \<forall>rs r. results = Inr rs \<longrightarrow> r \<in> set rs \<longrightarrow> checked_result parse r)"
    by (simp add: keeps_def outside_def inventory)
  show ?thesis
    unfolding sync_requests_def
  proof (rule keeps_bind [OF read])
    fix results :: "SelectionResult list xres"
    assume checked: "\<forall>rs r. results = Inr rs \<longrightarrow> r \<in> set rs \<longrightarrow> checked_result parse r"
    obtain prepared where prepared: "prepareDefinitions (ev_sort ev) results = Some prepared" "sound_prepared prepared"
      using prepareDefinitions_sound [of results parse "ev_sort ev"] checked by blast
    show "keeps P (case prepareDefinitions (ev_sort ev) results of
        None \<Rightarrow> no_return_act
      | Some prepared \<Rightarrow>
          and_then (atomic_option env (\<lambda>c. map_option (\<lambda>(requests, err, c'). ((requests, err), c')) (prepareWatchRequests lib prepared c)))
            (\<lambda>(requests, preparationErr).
            case requests of
              None \<Rightarrow> return_act preparationErr
            | Some rs \<Rightarrow>
                and_then (ensure_all lib env rs) (\<lambda>errs.
                return_act (join_errors ((case preparationErr of None \<Rightarrow> [] | Some e \<Rightarrow> [e]) @ errs))))) any_result"
      unfolding prepared(1) option.case
      by (rule keeps_then [OF prepare_keeps [OF prepared(2)]]) (auto intro!: keeps_intro split: option.split)
  qed
qed

lemma syncWatches_keeps: "keeps P (syncWatches lib env ev) any_result"
  unfolding syncWatches_def by (rule keeps_reading) (auto intro!: keeps_intro split: sum.split)

end

text \<open>A controller whose other goroutines rest, on a cluster that serves namespaces, with an inventory whose results are checked.\<close>

definition quiet :: "ctllib \<Rightarrow> (string \<Rightarrow> goerr + ast) \<Rightarrow> 'd environment \<Rightarrow> 'd environment" where
  "quiet lib parse env = env\<lparr>en_interfere := \<lambda>t c. c,
     en_mapping := \<lambda>t gvk. if gvk = namespaceGVK \<and> \<not> isl (en_mapping env t gvk) then Inr (cl_namespaces lib, True) else en_mapping env t gvk,
     en_inventory := \<lambda>t. map_sum id (filter (checked_result parse)) (en_inventory env t)\<rparr>"

interpretation alone: interleaved lib "quiet lib parse env" "creachable lib opts" parse
  by unfold_locales
    (auto intro: creachable_step creachable_inv creachable_sound simp: fair_def quiet_def mapping_ok_def map_sum_def split: sum.splits)

end
