(* ===== verification/Controller_Samples.thy ===== *)
theory Controller_Samples
  imports Controller_Runs Karta_Samples
begin

text \<open>A controller on a small cluster: one Job and its Pod, first unknown, then watched, listed and registered.\<close>

definition job_gvk :: GroupVersionKind where
  "job_gvk = \<lparr>gvk_Group = ''batch'', gvk_Version = ''v1'', gvk_Kind = ''Job''\<rparr>"

definition resource_for :: "GroupVersionKind \<Rightarrow> GroupVersionResource" where
  "resource_for gvk = \<lparr>gvr_Group = gvk_Group gvk, gvr_Version = gvk_Version gvk, gvr_Resource = gvk_Kind gvk\<rparr>"

definition cluster_lib :: ctllib where
  "cluster_lib = \<lparr>cl_parse_gv = (\<lambda>s. if s = ''batch/v1'' then Some (''batch'', ''v1'') else Some ([], s)), cl_gvk_String = gvk_Kind,
     cl_namespaceSelector = (\<lambda>labels. True), cl_objectSelector = (\<lambda>labels. True), cl_podSelector = (\<lambda>labels. True),
     cl_DeepEqual = (\<lambda>a b. True), cl_namespaces = resource_for namespaceGVK\<rparr>"

definition cluster_options :: ControllerOptions where
  "cluster_options = \<lparr>co_IgnoredOwnerKinds = [], co_ResourceRules = [], co_ExcludeResourceRules = [], co_NamespaceSelector = None,
     co_ObjectSelector = None, co_PodSelector = None, co_ClusterDefinitions = False, co_RequiredKinds = [], co_Workers = 0,
     co_LeafWorkers = 0, co_RootWorkers = 0\<rparr>"

definition job_object :: "json KubeObject" where
  "job_object = \<lparr>kb_GVK = job_gvk, kb_Meta = \<lparr>om_UID = ''j1'', om_Namespace = ''ns'', om_Name = ''job'', om_ResourceVersion = ''1'',
     om_OwnerReferences = []\<rparr>, kb_Labels = [], kb_Data = Some sample_object\<rparr>"

definition pod_object :: "json KubeObject" where
  "pod_object = \<lparr>kb_GVK = podGVK, kb_Meta = \<lparr>om_UID = ''p1'', om_Namespace = ''ns'', om_Name = ''job-0'', om_ResourceVersion = ''1'',
     om_OwnerReferences = [\<lparr>ow_APIVersion = ''batch/v1'', ow_Kind = ''Job'', ow_Name = ''job'', ow_UID = ''j1'', ow_Controller = Some True\<rparr>]\<rparr>,
     kb_Labels = [], kb_Data = Some sample_pod\<rparr>"

definition job_workload :: GenericWorkload where
  "job_workload = \<lparr>gw_Root = refOf job_object, gw_Path = [refOf pod_object, refOf job_object], gw_Resolution = Resolved\<rparr>"

definition watch_kind :: "GroupVersionKind \<Rightarrow> 'd Controller \<Rightarrow> 'd Controller" where
  "watch_kind gvk c = snd (ensureWatch cluster_lib (Inr (resource_for gvk, False)) None gvk [] False c)"

definition key_for :: "GroupVersionKind \<Rightarrow> SourceKey" where
  "key_for gvk = \<lparr>sk_Resource = resource_for gvk, sk_Namespace = []\<rparr>"

definition watch_of :: "GroupVersionKind \<Rightarrow> 'd Controller \<Rightarrow> resourceWatch" where
  "watch_of gvk c = the (map_of (ct_watches c) (key_for gvk))"

definition list_kind :: "GroupVersionKind \<Rightarrow> 'd KubeObject list \<Rightarrow> 'd Controller \<Rightarrow> 'd Controller" where
  "list_kind gvk objects c = snd (the (watch_Replace cluster_lib (watch_of gvk c) (map Inr objects) c))"

definition controller_start :: "json Controller" where
  "controller_start = initial_state cluster_options"

definition controller_watching :: "json Controller" where
  "controller_watching = watch_kind job_gvk (watch_kind podGVK controller_start)"

definition controller_listed :: "json Controller" where
  "controller_listed = list_kind job_gvk [job_object] (list_kind podGVK [pod_object] controller_watching)"

definition pod_key :: objectJobKey where
  "pod_key = objectJobFor (refOf pod_object)"

definition controller_registered :: "json Controller" where
  "controller_registered = snd (the (registerPodRoot cluster_lib pod_key job_workload controller_listed))"

lemma watch_kind_reachable:
  assumes "creachable cluster_lib opts c" "gvk \<noteq> namespaceGVK"
  shows "creachable cluster_lib opts (watch_kind gvk c)"
  unfolding watch_kind_def by (rule creachable_step [OF assms(1) step_ensureWatch]) (simp add: mapping_ok_def assms(2))

lemma list_kind_reachable:
  assumes "creachable cluster_lib opts c" "map_of (ct_watches c) (key_for gvk) = Some w" "rw_key w = key_for gvk"
    "map_of (ct_replacements c) (key_for gvk) = None" "list_all (\<lambda>x. kb_Data x \<noteq> None) objects"
  shows "creachable cluster_lib opts (list_kind gvk objects c)"
proof -
  have ptr: "same_pointer c w" using assms(2-4) by (simp add: same_pointer_def)
  have vs: "list_all complete (map Inr objects)" using assms(5) by (simp add: list_all_iff complete_def)
  from watch_Replace_cache [OF ctl_inv_D(3) [OF creachable_inv [OF assms(1)]] ptr vs]
  obtain e c' where r: "watch_Replace cluster_lib w (map Inr objects) c = Some (e, c')" by blast
  from creachable_step [OF assms(1) step_Replace [OF ptr vs r]] r assms(2) show ?thesis by (simp add: list_kind_def watch_of_def)
qed

lemma controller_watching_reachable: "creachable cluster_lib cluster_options controller_watching"
  unfolding controller_watching_def controller_start_def
  by (intro watch_kind_reachable creachable_New) (simp_all add: job_gvk_def podGVK_def namespaceGVK_def)

lemma controller_listed_reachable: "creachable cluster_lib cluster_options controller_listed"
proof -
  have one: "creachable cluster_lib cluster_options (list_kind podGVK [pod_object] controller_watching)"
    by (rule list_kind_reachable [OF controller_watching_reachable, where w = "watch_of podGVK controller_watching"]) code_simp+
  show ?thesis unfolding controller_listed_def
    by (rule list_kind_reachable [OF one, where w = "watch_of job_gvk (list_kind podGVK [pod_object] controller_watching)"]) code_simp+
qed

lemma controller_registered_reachable: "creachable cluster_lib cluster_options controller_registered"
proof -
  have "gw_Path job_workload \<noteq> []" "or_UID (gw_Root job_workload) \<noteq> []" by code_simp+
  with registerPodRoot_total obtain e c where r: "registerPodRoot cluster_lib pod_key job_workload controller_listed = Some (e, c)"
    by fastforce
  from creachable_step [OF controller_listed_reachable step_registerPodRoot [OF \<open>or_UID (gw_Root job_workload) \<noteq> []\<close> r]]
  show ?thesis by (simp add: controller_registered_def r)
qed

lemma controller_registered_members: "map_of (ct_podRoots controller_registered) ''p1'' = Some ''j1''"
  by code_simp

end
