(* ===== verification/Controller_Properties.thy ===== *)
theory Controller_Properties
  imports Controller_Samples Exporter_Properties
begin

text \<open>
  The properties of the controllers of the workload exporter. The first composes them with the definition inventory, the discovery
  of owners, the label resolver and the evaluation by the SDK; the others are about the states that the controller can reach.
\<close>

section \<open>Runs of the handlers\<close>

text \<open>C3 Whatever the other goroutines do between the critical sections of a handler, as long as every step of theirs is a
  transition of the controller, and whatever the REST mapper, the contexts and the metadata conversion answer: on a controller whose
  definitions come from a reachable inventory, the handlers of Pods and of workloads and the synchronization of the watches return.
  None of them panics, no evaluation of a selected definition runs forever, and the controller is left in a reachable state.\<close>

theorem handlers_return:
  assumes "creachable lib opts (wd_state w)"
    and "fair (creachable lib opts) env"
    and "\<And>t gvk. mapping_ok lib gvk (en_mapping env t gvk)"
    and "\<And>t rs. en_inventory env t = Inr rs
           \<Longrightarrow> \<exists>i sort_by str. reachable il i \<and> key_sorter sort_by \<and> inventory_List sort_by str i = Some (Inr rs)"
    and "m \<in> {handlePodInput lib env ev pod, handleWorkloadInput lib env ev job, syncWatches lib env ev}"
  shows "\<exists>e. fst (m w) = Ok e \<and> creachable lib opts (wd_state (snd (m w)))"
proof -
  have runs: "interleaved lib env (creachable lib opts) (il_parse il)"
  proof
    fix t rs r assume "en_inventory env t = Inr rs" "r \<in> set rs"
    with assms(4) inventory_List_checked show "checked_result (il_parse il) r" by blast
  qed (use assms(2,3) in \<open>auto intro: creachable_step creachable_inv creachable_sound\<close>)
  from assms(5) interleaved.handlePodInput_keeps [OF runs, of ev pod] interleaved.handleWorkloadInput_keeps [OF runs, of ev job]
    interleaved.syncWatches_keeps [OF runs, of ev]
  have "keeps (creachable lib opts) m any_result" by blast
  with assms(1) show ?thesis by (auto simp: keeps_def)
qed

definition cluster_env :: "json environment" where
  "cluster_env = \<lparr>en_ctx = (\<lambda>t. None),
     en_mapping = (\<lambda>t gvk. Inr (resource_for gvk, gvk = namespaceGVK)), en_interfere = (\<lambda>t c. c),
     en_inventory = (\<lambda>t. case inventory_List sort_key gvk_Kind inventory_loaded of Some r \<Rightarrow> r | None \<Rightarrow> Inl (Sentinel InventoryErrNotReady)), en_metadata = (\<lambda>object. None)\<rparr>"

definition cluster_eval :: "(json, json, string) evallib" where
  "cluster_eval = \<lparr>ev_content = (\<lambda>object. the (kb_Data object)), ev_pod = (\<lambda>object. Inr (the (kb_Data object))), ev_created = (\<lambda>object. 0),
     ev_jq = sample_lib, ev_k8s = sample_k8s, ev_num = (\<lambda>q. []),
     ev_labels = \<lparr>rv_rules = [], rv_rulesByMetric = Map.empty, rv_podMetrics = {}\<rparr>, ev_sort = insertion_sort\<rparr>"

theorem handlers_return_witness:
  "\<exists>e. fst (syncWatches cluster_lib cluster_env cluster_eval \<lparr>wd_time = 0, wd_state = controller_registered\<rparr>) = Ok e"
proof -
  have inventory: "\<exists>i sort_by str. reachable inventory_lib i \<and> key_sorter sort_by \<and> inventory_List sort_by str i = Some (Inr rs)"
    if "en_inventory cluster_env t = Inr rs" for t rs
    using that inventory_loaded_reachable ksort.key_sorter_axioms by (auto simp: cluster_env_def split: option.splits)
  have mapper: "mapping_ok cluster_lib gvk (en_mapping cluster_env t gvk)" for t gvk
    by (simp add: mapping_ok_def cluster_env_def cluster_lib_def)
  from handlers_return [OF _ _ mapper inventory, where w = "\<lparr>wd_time = 0, wd_state = controller_registered\<rparr>" and opts = cluster_options
      and m = "syncWatches cluster_lib cluster_env cluster_eval" and ev = cluster_eval] controller_registered_reachable
  show ?thesis by (auto simp: fair_def cluster_env_def)
qed

text \<open>C18 The critical sections whose code can panic never do, in no reachable state: the readiness probe and the preparation of the
  watch requests find every namespace that a watch lists in the cache; a snapshot finds the watch that it replaces; and the registration
  of a Pod and of a watched object, which slice the path of their workload, find an element in the path of every workload that the
  discovery returned, whatever the state was in which it did.\<close>

theorem locks_total:
  assumes "creachable lib opts c" "same_pointer c w" "list_all complete vs"
    and "fst (discover lib env ref world) = Ok (Inr res)" "dr_Workload res = Some workload"
  shows "controller_ready lib stopping c \<noteq> None \<and> prepareWatchRequests lib prepared c \<noteq> None \<and> watch_Replace lib w vs c \<noteq> None
    \<and> registerPodRoot lib pod workload c \<noteq> None \<and> registerSelectedObjectRoot job workload sel rootSel c \<noteq> None"
proof -
  note inv = creachable_inv [OF assms(1)]
  have "discovered_ok (Inr res)"
    using assms(4) by (auto simp: discover_def split: prod.splits dest: discovery_Get_ok)
  with assms(5) have path: "gw_Path workload \<noteq> []" by (simp add: discovered_ok_def)
  show ?thesis
    using controller_ready_total [OF inv] prepareWatchRequests_total [OF inv] registerPodRoot_total [OF path]
      registerSelectedObjectRoot_total [OF path] watch_Replace_cache [OF ctl_inv_D(3) [OF inv] assms(2,3)] by fastforce
qed

theorem locks_total_witness:
  "watch_Replace cluster_lib (watch_of podGVK controller_listed) [Inr pod_object] controller_listed \<noteq> None
   \<and> registerPodRoot cluster_lib pod_key job_workload controller_listed \<noteq> None"
proof -
  have "same_pointer controller_listed (watch_of podGVK controller_listed)" by code_simp
  moreover have "list_all complete [Inr pod_object]" by code_simp
  moreover have "fst (discover cluster_lib cluster_env (refOf pod_object) \<lparr>wd_time = 0, wd_state = controller_listed\<rparr>)
      = Ok (Inr \<lparr>dr_Workload = Some job_workload, dr_MissingCoverage = []\<rparr>)" by code_simp
  ultimately show ?thesis using locks_total [OF controller_listed_reachable, where workload = job_workload] by fastforce
qed

section \<open>The cache\<close>

text \<open>C7 Every cached object stands under its own kind, namespace and name; it came from a watch that still lists it; it has the kind
  of that watch; and it has a payload beside its metadata exactly when that is a watch of whole objects. The health that a lookup
  consults is that of the watch.\<close>

theorem cache_typed:
  assumes "creachable lib opts c" "map_of (ct_objects c) key = Some e"
  shows "keyOf (refOf (ce_object e)) = key
    \<and> (\<exists>w. map_of (ct_watches c) (ce_source e) = Some w \<and> key \<in> set (rw_objects w) \<and> kb_GVK (ce_object e) = rw_gvk w
         \<and> (kb_Data (ce_object e) \<noteq> None \<longleftrightarrow> rw_full w) \<and> map_of (ct_sources c) (ce_source e) = Some (source_of_watch w))"
proof -
  note inv = ctl_inv_D(3) [OF creachable_inv [OF assms(1)]]
  from cache_invD(5) [OF inv assms(2)] cache_invD(1) [OF inv, of "ce_source e"] show ?thesis
    by (auto simp: cached_ok_def split: option.splits)
qed

theorem cache_typed_witness:
  "\<exists>w. map_of (ct_watches controller_listed) (key_for podGVK) = Some w \<and> keyOf (refOf pod_object) \<in> set (rw_objects w)"
proof -
  have "map_of (ct_objects controller_listed) (keyOf (refOf pod_object)) = Some \<lparr>ce_object = pod_object, ce_source = key_for podGVK\<rparr>"
    by code_simp
  from cache_typed [OF controller_listed_reachable this] show ?thesis by auto
qed

text \<open>C26 A lookup answers with an object only from a watch that has completed a list, has no failure, and lists the object; a caller
  that asks for a whole object gets one with a payload; and the object has the kind, the name, the namespace or none, and, where the
  reference has them, the UID and the resource version that were asked for.\<close>

theorem lookup_trusted:
  assumes "creachable lib opts c" "lookupObject c ref full = Inr (object, k)"
  shows "\<exists>w. map_of (ct_watches c) k = Some w \<and> rw_ready w \<and> rw_err w = None \<and> keyOf (refOf object) \<in> set (rw_objects w)
    \<and> (full \<longrightarrow> kb_Data object \<noteq> None) \<and> kb_GVK object = or_GVK ref \<and> kb_Name object = or_Name ref
    \<and> kb_Namespace object \<in> {or_Namespace ref, []} \<and> (or_UID ref \<noteq> [] \<longrightarrow> kb_UID object = or_UID ref)
    \<and> (or_ResourceVersion ref \<noteq> [] \<longrightarrow> om_ResourceVersion (kb_Meta object) = or_ResourceVersion ref)"
  by (rule lookupObject_entry [OF ctl_inv_D(3) [OF creachable_inv [OF assms(1)]] assms(2)]) blast

theorem lookup_trusted_witness: "\<exists>w. map_of (ct_watches controller_listed) (key_for job_gvk) = Some w \<and> rw_ready w \<and> rw_err w = None"
proof -
  have "lookupObject controller_listed (refOf job_object) True = Inr (job_object, key_for job_gvk)" by code_simp
  from lookup_trusted [OF controller_listed_reachable this] show ?thesis by blast
qed

text \<open>The cache as the map that the watches describe; what an event and a snapshot of a watch should do to it.\<close>

definition contents :: "'d Controller \<Rightarrow> objectKey \<Rightarrow> 'd KubeObject option" where
  "contents c key = map_option ce_object (map_of (ct_objects c) key)"

definition after_event :: "'d KubeObject \<Rightarrow> bool \<Rightarrow> (objectKey \<Rightarrow> 'd KubeObject option) \<Rightarrow> objectKey \<Rightarrow> 'd KubeObject option" where
  "after_event object deleted m =
     (let key = keyOf (refOf object)
      in if \<not> deleted then m(key \<mapsto> object)
         else case m key of None \<Rightarrow> m | Some old \<Rightarrow> if kb_UID old = kb_UID object then m(key := None) else m)"

definition after_snapshot ::
  "objectKey list \<Rightarrow> (objectKey \<times> 'd KubeObject) list \<Rightarrow> (objectKey \<Rightarrow> 'd KubeObject option) \<Rightarrow> objectKey \<Rightarrow> 'd KubeObject option" where
  "after_snapshot listed objects m = (m |` (- set listed)) ++ map_of objects"

text \<open>C14 Through its abstraction, the map from keys to objects, the cache behaves like the map: an event of the current watch
  of a resource puts its object or, when the deleted object is the cached one, removes it; a snapshot of a tracked watch removes
  what the watch in its place had listed and puts the snapshot, and afterwards that watch is ready, healthy and lists the
  snapshot; an event of any other watch changes nothing.\<close>

theorem watch_refines:
  fixes c :: "'a Controller"
  assumes "creachable lib opts c" "same_pointer c w"
  shows "(\<forall>object deleted. prepareWatchObject (Inr object) (rw_gvk w) (rw_full w) = Inr object \<longrightarrow> \<not> no_identity object \<longrightarrow>
      contents (snd (applyWatchEvent lib w (Inr object) deleted c))
        = (if is_watch (ct_watches c) w then after_event object deleted (contents c) else contents c))
    \<and> (\<forall>vs objects. prepareWatchSnapshot vs (rw_gvk w) (rw_full w) [] = Inr objects \<longrightarrow> list_all complete vs \<longrightarrow> isTrackedWatch c w \<longrightarrow>
      (\<exists>prev c' x. map_of (ct_watches c) (rw_key w) = Some prev \<and> watch_Replace lib w vs c = Some (None, c')
        \<and> contents c' = after_snapshot (rw_objects prev) objects (contents c)
        \<and> map_of (ct_watches c') (rw_key w) = Some x \<and> rw_ready x \<and> rw_err x = None \<and> rw_objects x = map fst objects))"
proof (intro conjI allI impI)
  note inv = ctl_inv_D(3) [OF creachable_inv [OF assms(1)]]
  fix object :: "'a KubeObject" and deleted :: bool
  assume object: "prepareWatchObject (Inr object) (rw_gvk w) (rw_full w) = Inr object" "\<not> no_identity object"
  have "contents (uncache lib key d) = (contents d)(key := None)" "contents (cache lib k key x d) = (contents d)(key \<mapsto> x)"
    "contents (put_watch y d) = contents d" for key k x y and d :: "'a Controller"
    by (auto simp: contents_def fun_eq_iff frame delete_conv' update_conv')
  with object show "contents (snd (applyWatchEvent lib w (Inr object) deleted c))
      = (if is_watch (ct_watches c) w then after_event object deleted (contents c) else contents c)"
    by (auto simp: applyWatchEvent_def after_event_def Let_def contents_def split: option.split)
next
  note inv = ctl_inv_D(3) [OF creachable_inv [OF assms(1)]]
  fix vs :: "'a KubeObject xres list" and objects :: "(objectKey \<times> 'a KubeObject) list"
  assume snapshot: "prepareWatchSnapshot vs (rw_gvk w) (rw_full w) [] = Inr objects" "list_all complete vs" and tracked: "isTrackedWatch c w"
  have dist: "distinct (map fst objects)"
    using prepareWatchSnapshot_ok [OF snapshot] by (simp add: snapshot_ok_def)
  obtain c' prev x where r: "watch_Replace lib w vs c = Some (None, c')" "map_of (ct_watches c) (rw_key w) = Some prev"
    "rw_key x = rw_key w" "rw_gvk x = rw_gvk w" "rw_full x = rw_full w" "rw_objects x = map fst objects" "rw_ready x" "rw_err x = None"
    "rw_gvk w = namespaceGVK \<longrightarrow> rw_key w = ns_key lib"
    "map_of (ct_watches c') = (map_of (ct_watches c))(rw_key w \<mapsto> x)"
    "map_of (ct_sources c') = (map_of (ct_sources c))(rw_key w \<mapsto> source_of_watch x)"
    "map_of (ct_replacements c') \<subseteq>\<^sub>m map_of (ct_replacements c)"
    "map_of (ct_objects c') = (\<lambda>key. case map_of objects key of
          Some object \<Rightarrow> Some \<lparr>ce_object = object, ce_source = rw_key w\<rparr>
        | None \<Rightarrow> if key \<in> set (rw_objects prev) then None else map_of (ct_objects c) key)"
    by (rule watch_Replace_contents [OF inv assms(2) tracked snapshot(1) dist])
  have "contents c' = after_snapshot (rw_objects prev) objects (contents c)"
    by (auto simp: contents_def after_snapshot_def r(13) fun_eq_iff map_add_def restrict_map_def split: option.split)
  with r show "\<exists>prev c' x. map_of (ct_watches c) (rw_key w) = Some prev \<and> watch_Replace lib w vs c = Some (None, c')
      \<and> contents c' = after_snapshot (rw_objects prev) objects (contents c)
      \<and> map_of (ct_watches c') (rw_key w) = Some x \<and> rw_ready x \<and> rw_err x = None \<and> rw_objects x = map fst objects"
    by simp
qed

theorem watch_refines_witness:
  "contents (snd (applyWatchEvent cluster_lib (watch_of podGVK controller_listed) (Inr pod_object) True controller_listed)) (keyOf (refOf pod_object))
     = None"
proof -
  have ptr: "same_pointer controller_listed (watch_of podGVK controller_listed)" by code_simp
  have pre: "prepareWatchObject (Inr pod_object) (rw_gvk (watch_of podGVK controller_listed)) (rw_full (watch_of podGVK controller_listed)) = Inr pod_object"
    "\<not> no_identity pod_object" "is_watch (ct_watches controller_listed) (watch_of podGVK controller_listed)"
    "contents controller_listed (keyOf (refOf pod_object)) = Some pod_object" by code_simp+
  from watch_refines [OF controller_listed_reachable ptr] pre show ?thesis by (auto simp: after_event_def Let_def)
qed

section \<open>Roots and their members\<close>

text \<open>C5 The relations of the workloads agree in every reachable state: a root is stored under its own UID; a Pod has a root exactly when
  that root lists the Pod, so no Pod belongs to two workloads; the same for watched objects; and a published workload is stored under
  its UID and has a root.\<close>

theorem members_agree:
  assumes "creachable lib opts c"
  shows "(\<forall>u rt. map_of (ct_roots c) u = Some rt \<longrightarrow> u \<noteq> [] \<and> or_UID (rs_ref rt) = u)
    \<and> (\<forall>p u. map_of (ct_podRoots c) p = Some u \<longleftrightarrow> (\<exists>rt. map_of (ct_roots c) u = Some rt \<and> map_of (rs_pods rt) p \<noteq> None))
    \<and> (\<forall>k u. u \<noteq> [] \<longrightarrow>
         (so_rootUID (outcome_of c k) = u \<longleftrightarrow> (\<exists>rt. map_of (ct_roots c) u = Some rt \<and> k \<in> set (rs_selected rt))))
    \<and> (\<forall>u w. store_Workload (ct_publications c) u = Some w \<longrightarrow> wrec_UID (wres_Record w) = u \<and> map_of (ct_roots c) u \<noteq> None)"
proof -
  note inv = creachable_inv [OF assms]
  have m: "members_ok (map_of (ct_roots c)) (map_of (ct_podRoots c)) (map_of (ct_selectedObjectRoots c))"
    using ctl_inv_D(1) [OF inv] by (simp add: membership_inv_def)
  have selected: "so_rootUID (outcome_of c k) = u \<longleftrightarrow> (\<exists>rt. map_of (ct_roots c) u = Some rt \<and> k \<in> set (rs_selected rt))" if "u \<noteq> []" for k u
    using members_okD(4) [OF m, of u k] that by (auto simp: outcome_of_def zero_outcome_def split: option.split)
  show ?thesis
  proof (intro conjI)
    show "\<forall>u rt. map_of (ct_roots c) u = Some rt \<longrightarrow> u \<noteq> [] \<and> or_UID (rs_ref rt) = u" using m by (simp add: members_ok_def)
    show "\<forall>p u. map_of (ct_podRoots c) p = Some u \<longleftrightarrow> (\<exists>rt. map_of (ct_roots c) u = Some rt \<and> map_of (rs_pods rt) p \<noteq> None)"
      by (intro allI members_okD(3) [OF m])
    show "\<forall>u w. store_Workload (ct_publications c) u = Some w \<longrightarrow> wrec_UID (wres_Record w) = u \<and> map_of (ct_roots c) u \<noteq> None"
      using ctl_inv_D(2) [OF inv] by (simp only: published_inv_def)
  qed (intro allI impI selected)
qed

theorem members_agree_witness: "\<exists>rt. map_of (ct_roots controller_registered) ''j1'' = Some rt \<and> map_of (rs_pods rt) ''p1'' \<noteq> None"
  using members_agree [OF controller_registered_reachable, THEN conjunct2, THEN conjunct1, THEN spec, THEN spec, THEN iffD1]
    controller_registered_members .

text \<open>C19 A workload that is withdrawn leaves nothing behind and nobody out: it is no root any more and is not published; every Pod and
  every watched object that belonged to it is queued, so that it will find its new root, and belongs to none until then; all others
  keep their roots.\<close>

theorem withdraw_requeues:
  assumes "creachable lib opts c" "map_of (ct_roots c) uid = Some rt"
  shows "map_of (ct_roots (withdrawWorkload uid c)) uid = None \<and> store_Workload (ct_publications (withdrawWorkload uid c)) uid = None
    \<and> (\<forall>p. map_of (ct_podRoots (withdrawWorkload uid c)) p
          = (if map_of (ct_podRoots c) p = Some uid then None else map_of (ct_podRoots c) p))
    \<and> (\<forall>p. map_of (ct_podRoots c) p = Some uid
          \<longrightarrow> (\<exists>key. map_of (rs_pods rt) p = Some key \<and> key \<in> ct_podQueue (withdrawWorkload uid c)))
    \<and> (\<forall>k. so_rootUID (outcome_of (withdrawWorkload uid c) k)
          = (if so_rootUID (outcome_of c k) = uid then [] else so_rootUID (outcome_of c k)))
    \<and> (\<forall>k. so_rootUID (outcome_of c k) = uid \<longrightarrow> selected_job k \<in> ct_workloadQueue (withdrawWorkload uid c))"
proof -
  have m: "members_ok (map_of (ct_roots c)) (map_of (ct_podRoots c)) (map_of (ct_selectedObjectRoots c))"
    using ctl_inv_D(1) [OF creachable_inv [OF assms(1)]] by (simp add: membership_inv_def)
  have uid: "uid \<noteq> []" using members_okD(1) [OF m assms(2)] .
  have pods: "map_of (ct_podRoots c) p = Some uid \<longleftrightarrow> p \<in> fst ` set (rs_pods rt)" for p
    using members_okD(3) [OF m, of p uid] assms(2) by (simp add: map_of_eq_None_iff)
  have sel: "so_rootUID (outcome_of c k) = uid \<longleftrightarrow> k \<in> set (rs_selected rt)" for k
    using members_okD(4) [OF m, of uid k] assms(2) uid by (auto simp: outcome_of_def zero_outcome_def split: option.split)
  let ?c = "withdrawWorkload uid c"
  have parts: "ct_podRoots ?c = fold AList.delete (map fst (rs_pods rt)) (ct_podRoots c)"
    "ct_selectedObjectRoots ?c = fold (\<lambda>key. AList.update key zero_outcome) (rs_selected rt) (ct_selectedObjectRoots c)"
    "ct_podQueue ?c = ct_podQueue c \<union> snd ` set (rs_pods rt)"
    "ct_workloadQueue ?c = ct_workloadQueue c \<union> selected_job ` set (rs_selected rt)"
    by (simp_all add: withdrawWorkload_def removeRoot_def assms(2) publish_def enqueueMembers_def add_jobs_def add_pods_def)
  have gone: "map_of (ct_podRoots ?c) p = (if map_of (ct_podRoots c) p = Some uid then None else map_of (ct_podRoots c) p)" for p
    using pods [of p] by (simp add: parts map_of_fold_delete restrict_map_def)
  have queued: "\<exists>key. map_of (rs_pods rt) p = Some key \<and> key \<in> ct_podQueue ?c" if "map_of (ct_podRoots c) p = Some uid" for p
  proof -
    from that pods obtain key where "map_of (rs_pods rt) p = Some key" by (metis map_of_eq_None_iff not_Some_eq)
    then show ?thesis unfolding parts by (metis UnI2 image_eqI map_of_SomeD snd_conv)
  qed
  have outcome: "so_rootUID (outcome_of ?c k) = (if so_rootUID (outcome_of c k) = uid then [] else so_rootUID (outcome_of c k))" for k
    using sel [of k] by (simp add: outcome_of_def parts map_of_fold_update zero_outcome_def)
  have "store_Workload (ct_publications ?c) uid = None"
    by (simp add: withdrawWorkload_def frame store_Workload_def RemoveWorkload_def delete_conv')
  moreover have "map_of (ct_roots ?c) uid = None" by (simp add: withdrawWorkload_def frame)
  moreover have "selected_job k \<in> ct_workloadQueue ?c" if "so_rootUID (outcome_of c k) = uid" for k
    using that sel by (simp add: parts)
  ultimately show ?thesis using gone queued outcome by blast
qed

theorem withdraw_requeues_witness:
  "pod_key \<in> ct_podQueue (withdrawWorkload ''j1'' controller_registered) \<and> map_of (ct_podRoots (withdrawWorkload ''j1'' controller_registered)) ''p1'' = None"
proof -
  obtain rt where rt: "map_of (ct_roots controller_registered) ''j1'' = Some rt"
    "map_of (rs_pods rt) ''p1'' = Some pod_key"
  proof -
    have "(case map_of (ct_roots controller_registered) ''j1'' of None \<Rightarrow> False | Some rt \<Rightarrow> map_of (rs_pods rt) ''p1'' = Some pod_key)"
      by code_simp
    with that show thesis by (auto split: option.splits)
  qed
  from withdraw_requeues [OF controller_registered_reachable rt(1)] rt(2) controller_registered_members show ?thesis by auto
qed

section \<open>Definitions and scopes\<close>

text \<open>C9 Work is never published under definitions that have changed since it began. A worker looks up the definition of a kind; if
  a transition changes the selected definitions while it works, because one is added, replaced or removed, then after it, and
  after any other transitions, fewer than 2 to the power of 64 in all, no operation that takes over its result does so: the
  publication of a Pod and of a workload, the registration and the exclusion of a watched object, the end of its tracking and the
  failure of an evaluation are refused as stale and leave the state as it is. That holds even when the old definition is back.\<close>

theorem stale_refused:
  assumes "csteps lib m c c1" "cstep lib c1 c2" "redefined c1 c2" "csteps lib n c2 c'" "m + n + 1 < 2 ^ 64"
    and "sel = fst (lookupDefinition c gvk)"
  shows "publishPod lib path ref sel result labelFailed c' = (Some (Sentinel DiscoveryErrStale), c')
    \<and> publishWorkload lib uid ref sel outcome c' = (Some (Sentinel DiscoveryErrStale), c')
    \<and> registerSelectedObjectRoot key workload sel rootSel c' = Some (Some (Sentinel DiscoveryErrStale), c')
    \<and> registerSelectedObjectRoot key workload other sel c' = Some (Some (Sentinel DiscoveryErrStale), c')
    \<and> excludeSelectedObject key workload sel rootSel c' = (Some (Sentinel DiscoveryErrStale), c')
    \<and> replaceSelectedObjectTracking key obj sel c' = (Some (Sentinel DiscoveryErrStale), c')
    \<and> failPodEvaluation lib earlier key path cause ref sel c' = (Some (Sentinel DiscoveryErrStale), c')"
proof -
  have "sd_version sel = ct_definitionVersion c" by (simp add: assms(6) lookupDefinition_def Let_def)
  note stale = redefined_stale [OF assms(1-5) this]
  show ?thesis
    by (simp add: publishPod_def publishWorkload_def registerSelectedObjectRoot_def excludeSelectedObject_def
        replaceSelectedObjectTracking_def failPodEvaluation_def stale)
qed

definition changed_definitions :: "(GroupKind \<times> selectedDefinition) list xres" where
  "changed_definitions = Inr [(GroupKind_of job_gvk, zero_selected)]"

definition controller_changed :: "json Controller" where
  "controller_changed = snd (snd (the (prepareWatchRequests cluster_lib changed_definitions controller_registered)))"

definition controller_undefined :: "json Controller" where
  "controller_undefined = snd (snd (the (prepareWatchRequests cluster_lib (Inr []) controller_changed)))"

lemma prepared_step:
  assumes "creachable lib opts c" "sound_prepared prepared"
  shows "cstep lib c (snd (snd (the (prepareWatchRequests lib prepared c))))"
proof -
  obtain requests e c' where r: "prepareWatchRequests lib prepared c = Some (requests, e, c')"
    using prepareWatchRequests_total [OF creachable_inv [OF assms(1)]] by (metis not_None_eq prod_cases3)
  with step_prepareWatchRequests [OF assms(2) r] show ?thesis by simp
qed

lemma controller_changed_step: "cstep cluster_lib controller_registered controller_changed"
  unfolding controller_changed_def
  by (rule prepared_step [OF controller_registered_reachable])
    (simp add: sound_prepared_def changed_definitions_def sound_definitions_def sound_definition_def zero_selected_def empty_selection_def)

lemma controller_undefined_step: "cstep cluster_lib controller_changed controller_undefined"
  unfolding controller_undefined_def
  by (rule prepared_step [OF creachable_step [OF controller_registered_reachable controller_changed_step]])
    (simp add: sound_prepared_def sound_definitions_def)

text \<open>A definition that is removed after the lookup.\<close>

theorem stale_refused_witness:
  "\<forall>result. publishPod cluster_lib [refOf pod_object] (refOf job_object) (fst (lookupDefinition controller_changed job_gvk)) result
     False controller_undefined = (Some (Sentinel DiscoveryErrStale), controller_undefined)"
proof -
  have "map_of (ct_selectedDefinitions controller_changed) (GroupKind_of job_gvk) \<noteq> None"
    "map_of (ct_selectedDefinitions controller_undefined) (GroupKind_of job_gvk) = None" by code_simp+
  then have "redefined controller_changed controller_undefined" unfolding redefined_def by metis
  from stale_refused [OF csteps_none controller_undefined_step this csteps_none _ refl] show ?thesis by simp
qed

text \<open>C28 After a preparation of watch requests the namespaces in scope are all that is left: every request is for one of them, every
  watch and every recorded failure of a watch is for one of them or for the whole cluster, and with a namespace selector every
  root is in one of them or has no namespace.\<close>

theorem scopes_closed:
  assumes "creachable lib opts c" "prepareWatchRequests lib prepared c = Some (Some requests, e, c')"
  shows "(\<forall>r \<in> set requests. wr_Namespace r \<in> set (ct_scopes c'))
    \<and> (\<forall>k w. map_of (ct_watches c') k = Some w \<longrightarrow> sk_Namespace k \<in> insert [] (set (ct_scopes c')))
    \<and> (\<forall>r f. map_of (ct_watchFailures c') r = Some f \<longrightarrow> wr_Namespace r \<in> insert [] (set (ct_scopes c')))
    \<and> (cc_NamespaceSelector (ct_config c') \<longrightarrow>
         (\<forall>u rt. map_of (ct_roots c') u = Some rt \<longrightarrow> or_Namespace (rs_ref rt) \<in> insert [] (set (ct_scopes c'))))"
proof -
  obtain de c1 where r: "refreshDefinitions lib prepared c = (de, c1)" by fastforce
  then have c1: "ctl_inv lib c1"
    using ctl_inv_same [OF creachable_inv [OF assms(1)] refreshDefinitions_members refreshDefinitions_cached, of lib prepared] by simp
  obtain d where d: "ctl_inv lib d" "c' = drop_out_of_scope lib d" "requests = watch_requests c'"
    "cc_NamespaceSelector (ct_config d) \<Longrightarrow> scoped_roots d"
  proof (cases "cc_NamespaceSelector (ct_config c1)")
    case True
    with assms(2) r obtain admitted where "c' = drop_out_of_scope lib (rescope admitted c1)" "requests = watch_requests c'"
      by (auto simp: prepareWatchRequests_def Let_def split: option.splits if_splits)
    with ctl_inv_rescope [OF c1] rescope_scoped show thesis by (rule_tac that)
  next
    case False
    with assms(2) r have "c' = drop_out_of_scope lib c1" "requests = watch_requests c'"
      by (auto simp: prepareWatchRequests_def Let_def)
    moreover have "cc_NamespaceSelector (ct_config c1) \<Longrightarrow> scoped_roots c1" using False by simp
    ultimately show thesis using c1 by (rule_tac that)
  qed
  note drop = drop_scoped [OF d(1), folded d(2)]
  show ?thesis
    using drop d(4) by (auto simp: d(3) watch_requests_def out_of_scope_def scoped_roots_def isNamespaceInScope_def)
qed

theorem scopes_closed_witness:
  "\<exists>requests e c'. prepareWatchRequests cluster_lib changed_definitions controller_registered = Some (Some requests, e, c')
     \<and> (\<forall>r \<in> set requests. wr_Namespace r \<in> set (ct_scopes c'))"
proof -
  have "(case prepareWatchRequests cluster_lib changed_definitions controller_registered of
      Some (Some requests, e, c') \<Rightarrow> True | _ \<Rightarrow> False)" by code_simp
  then obtain requests e c' where "prepareWatchRequests cluster_lib changed_definitions controller_registered = Some (Some requests, e, c')"
    by (auto split: option.splits)
  with scopes_closed [OF controller_registered_reachable this] show ?thesis by blast
qed

section \<open>Readiness\<close>

text \<open>The loops of the readiness probe, where no lookup of a namespace fails.\<close>

lemma ready_namespaces_iff:
  "ready_namespaces lib c keys \<noteq> None \<Longrightarrow> ready_namespaces lib c keys = Some True \<longleftrightarrow>
     (\<forall>key \<in> set keys. \<exists>e. map_of (ct_objects c) key = Some e
        \<and> (cl_namespaceSelector lib (kb_Labels (ce_object e)) \<longrightarrow> hasRequiredWatches c (kb_Name (ce_object e))))"
  by (induction keys) (auto split: option.splits if_splits)

definition watch_good :: "'d Controller \<Rightarrow> resourceWatch \<Rightarrow> bool" where
  "watch_good c w \<longleftrightarrow> (requiredWatch (ct_config c) (rw_gvk w) \<longrightarrow> rw_ready w \<and> rw_err w = None \<and> map_of (ct_replacements c) (rw_key w) = None)"

definition namespaces_good :: "ctllib \<Rightarrow> 'd Controller \<Rightarrow> resourceWatch \<Rightarrow> bool" where
  "namespaces_good lib c w \<longleftrightarrow> (rw_gvk w = namespaceGVK \<and> cc_NamespaceSelector (ct_config c) \<longrightarrow>
     (\<forall>key \<in> set (rw_objects w). \<exists>e. map_of (ct_objects c) key = Some e
        \<and> (cl_namespaceSelector lib (kb_Labels (ce_object e)) \<longrightarrow> hasRequiredWatches c (kb_Name (ce_object e)))))"

lemma ready_watches_iff:
  assumes "\<And>w. w \<in> set ws \<Longrightarrow> rw_gvk w = namespaceGVK \<Longrightarrow> ready_namespaces lib c (rw_objects w) \<noteq> None"
  shows "ready_watches lib c ws b = Some True \<longleftrightarrow> (\<forall>w \<in> set ws. watch_good c w \<and> namespaces_good lib c w)
     \<and> (if cc_NamespaceSelector (ct_config c) then b \<or> namespaceGVK \<in> rw_gvk ` set ws else hasRequiredWatches c [])"
  using assms
proof (induction ws arbitrary: b)
  case (Cons w ws)
  let ?rest = "\<lambda>b. (\<forall>w \<in> set ws. watch_good c w \<and> namespaces_good lib c w)
     \<and> (if cc_NamespaceSelector (ct_config c) then b \<or> namespaceGVK \<in> rw_gvk ` set ws else hasRequiredWatches c [])"
  have IH: "ready_watches lib c ws b' = Some True \<longleftrightarrow> ?rest b'" for b'
    by (rule Cons.IH) (use Cons.prems in simp)
  show ?case
  proof (cases "watch_good c w")
    case False
    then have "ready_watches lib c (w # ws) b = Some False" by (simp add: watch_good_def)
    with False show ?thesis by simp
  next
    case good: True
    show ?thesis
    proof (cases "rw_gvk w = namespaceGVK \<and> cc_NamespaceSelector (ct_config c)")
      case True
      with Cons.prems [of w] obtain r where r: "ready_namespaces lib c (rw_objects w) = Some r" by auto
      have "r \<longleftrightarrow> namespaces_good lib c w"
        using ready_namespaces_iff [of lib c "rw_objects w"] r True by (cases r) (simp_all add: namespaces_good_def)
      with True r good IH [of True] show ?thesis by (cases r) (auto simp: watch_good_def)
    next
      case False
      then have "namespaces_good lib c w" by (auto simp: namespaces_good_def)
      moreover have "cc_NamespaceSelector (ct_config c) \<Longrightarrow> rw_gvk w \<noteq> namespaceGVK" using False by simp
      ultimately show ?thesis using False good IH [of b] by (auto simp: watch_good_def)
    qed
  qed
qed simp

text \<open>C27 A reachable controller reports that it is ready exactly when it runs, its definitions were read, it has a watch, no required
  kind has a failed watch request, every watch of a required kind has completed a list, is healthy and is not being replaced, and the
  required kinds are watched: without a namespace selector across the cluster, with one in every listed namespace that the selector
  admits, with namespaces listed at all.\<close>

theorem ready_probe:
  assumes "creachable lib opts c"
  shows "controller_ready lib stopping c = Some True \<longleftrightarrow>
     ct_running c \<and> \<not> stopping \<and> ct_definitionInventoryErr c = None \<and> ct_watches c \<noteq> []
     \<and> (\<forall>r \<in> fst ` set (ct_watchFailures c). \<not> requiredWatch (ct_config c) (wr_GVK r))
     \<and> (\<forall>w \<in> snd ` set (ct_watches c). watch_good c w \<and> namespaces_good lib c w)
     \<and> (if cc_NamespaceSelector (ct_config c) then namespaceGVK \<in> rw_gvk ` snd ` set (ct_watches c) else hasRequiredWatches c [])"
proof -
  note inv = creachable_inv [OF assms]
  have "ready_namespaces lib c (rw_objects w) \<noteq> None" if "w \<in> set (map snd (ct_watches c))" "rw_gvk w = namespaceGVK" for w
    by (rule ready_namespaces_total) (rule listed_namespaces_cached [OF ctl_inv_D(3,4) [OF inv] that])
  note watches = ready_watches_iff [of "map snd (ct_watches c)", OF this, of False]
  have failures: "list_ex (\<lambda>(request, e). requiredWatch (ct_config c) (wr_GVK request)) (ct_watchFailures c)
      \<longleftrightarrow> \<not> (\<forall>r \<in> fst ` set (ct_watchFailures c). \<not> requiredWatch (ct_config c) (wr_GVK r))"
    by (simp add: list_ex_iff case_prod_beta)
  show ?thesis
  proof (cases "\<not> (ct_running c \<and> \<not> stopping) \<or> ct_definitionInventoryErr c \<noteq> None \<or> ct_watches c = []
      \<or> \<not> (\<forall>r \<in> fst ` set (ct_watchFailures c). \<not> requiredWatch (ct_config c) (wr_GVK r))")
    case True
    then have "controller_ready lib stopping c = Some False" unfolding controller_ready_def failures by argo
    with True show ?thesis by auto
  next
    case False
    then have "controller_ready lib stopping c = ready_watches lib c (map snd (ct_watches c)) False"
      unfolding controller_ready_def failures by simp
    with False watches show ?thesis by simp
  qed
qed

theorem ready_probe_witness: "controller_ready cluster_lib False (start controller_listed) = Some True"
proof -
  have r: "creachable cluster_lib cluster_options (start controller_listed)"
    by (rule creachable_step [OF controller_listed_reachable step_start])
  have "ct_running (start controller_listed) \<and> ct_definitionInventoryErr (start controller_listed) = None \<and> ct_watches (start controller_listed) \<noteq> []
     \<and> ct_watchFailures (start controller_listed) = [] \<and> \<not> cc_NamespaceSelector (ct_config (start controller_listed))
     \<and> hasRequiredWatches (start controller_listed) []
     \<and> list_all (\<lambda>w. rw_ready w \<and> rw_err w = None \<and> map_of (ct_replacements (start controller_listed)) (rw_key w) = None)
         (map snd (ct_watches (start controller_listed)))" by code_simp
  with ready_probe [OF r, of False] show ?thesis by (simp add: watch_good_def namespaces_good_def list_all_iff)
qed

section \<open>The group of a Pod\<close>

text \<open>The replica selector that gives a Pod its group is that of the nearest component with one, along the owners from the
  component of the Pod to the root; on a Karta with different names and without ownership cycles, so on every definition that the
  inventory accepts, the search ends, finds every owner, and reports no error.\<close>

theorem nearest_selector:
  assumes "Validate parse (Some (with_status k)) = None" "NewComponentFactory (Some k) = Ok f" "GetComponent f n = Ok c"
  shows "\<exists>d. rooted_at (named_components k) d n
    \<and> inherited_selector f c = Ok (nearest (selector_named k) (lineage (parents k) d n))"
  by (rule inherited_selector_ok [OF assms(2) validated_evaluable(1) [OF assms(1)] assms(3)])

theorem nearest_selector_witness:
  "inherited_selector sample_factory (component_of sample_worker) = Ok (nearest (selector_named sample_karta) [''worker'', ''job''])"
proof -
  have "with_status sample_karta = sample_karta" by code_simp
  with sample_valid have v: "Validate (jq_parse sample_lib) (Some (with_status sample_karta)) = None" by simp
  have "GetComponent sample_factory ''worker'' = Ok (component_of sample_worker)" by code_simp
  from nearest_selector [OF v sample_factory_ok this] obtain d where d: "rooted_at (named_components sample_karta) d ''worker''"
    "inherited_selector sample_factory (component_of sample_worker)
       = Ok (nearest (selector_named sample_karta) (lineage (parents sample_karta) d ''worker''))" by blast
  have one: "rooted_at (named_components sample_karta) 1 ''worker''" "\<not> rooted_at (named_components sample_karta) 0 ''worker''"
    "parent_of (parents sample_karta) ''worker'' = ''job''" by code_simp+
  have comps: "map_of (named_components sample_karta) ''worker'' = Some sample_worker" "cd_OwnerRef sample_worker = Some ''job''"
    "map_of (named_components sample_karta) ''job'' = Some sample_root" "cd_OwnerRef sample_root = None" by code_simp+
  have "d = 1"
  proof (cases d)
    case (Suc e)
    with d(1) comps show ?thesis by (cases e) auto
  qed (use d(1) one(2) in simp)
  with d(2) one(3) show ?thesis by simp
qed

end
