(* ===== verification/Metrics_Collector.thy ===== *)
theory Metrics_Collector
  imports Owner_Discovery Exporter_Store "HOL-Library.Monad_Syntax"
begin

text \<open>
  \<^verbatim>\<open>adapters/otel/{collector,names}.go\<close>: the metrics that are made of a captured view of the store. An observation is the name of its
  instrument, its value and its attributes; a value is the integer that the code converts to a float64, and a set of attributes is a
  map, in which the last value of a name wins. The result None is a panic. The context is asked once per collection, per Pod and per
  workload: \<open>ctx t\<close> is its answer to question number \<open>t\<close>.
\<close>

section \<open>Instruments\<close>

record gauge =
  g_name :: string
  g_description :: string
  g_labels :: "string list"

record observation =
  ob_name :: string
  ob_value :: int
  ob_attributes :: "string \<rightharpoonup> string"

record workloadFailure =
  wf_ref :: ObjectRef
  wf_reason :: string

record discoveryFailure =
  dfl_gvk :: GroupVersionKind
  dfl_namespace :: string
  dfl_reason :: string

definition LabelNamespace :: string where "LabelNamespace = ''namespace''"
definition LabelPod :: string where "LabelPod = ''pod_name''"
definition LabelPodUID :: string where "LabelPodUID = ''pod_uid''"
definition LabelWorkload :: string where "LabelWorkload = ''workload_name''"
definition LabelWorkloadUID :: string where "LabelWorkloadUID = ''workload_uid''"
definition LabelWorkloadKind :: string where "LabelWorkloadKind = ''workload_kind''"
definition LabelWorkloadGroup :: string where "LabelWorkloadGroup = ''workload_group''"
definition LabelWorkloadVersion :: string where "LabelWorkloadVersion = ''workload_version''"
definition LabelOwnerResolution :: string where "LabelOwnerResolution = ''owner_resolution''"
definition LabelKarta :: string where "LabelKarta = ''karta''"
definition LabelKartaSource :: string where "LabelKartaSource = ''karta_source''"
definition LabelComponent :: string where "LabelComponent = ''component''"
definition LabelComponentInstance :: string where "LabelComponentInstance = ''component_instance''"
definition LabelReplicaGroupID :: string where "LabelReplicaGroupID = ''replica_group_id''"
definition LabelPhase :: string where "LabelPhase = ''phase''"
definition LabelReason :: string where "LabelReason = ''reason''"
definition LabelObservationValid :: string where "LabelObservationValid = ''observation_valid''"
definition LabelResourceGroup :: string where "LabelResourceGroup = ''resource_group''"
definition LabelResourceVersion :: string where "LabelResourceVersion = ''resource_version''"
definition LabelResourceKind :: string where "LabelResourceKind = ''resource_kind''"

lemmas label_defs = LabelNamespace_def LabelPod_def LabelPodUID_def LabelWorkload_def LabelWorkloadUID_def LabelWorkloadKind_def
  LabelWorkloadGroup_def LabelWorkloadVersion_def LabelOwnerResolution_def LabelKarta_def LabelKartaSource_def LabelComponent_def
  LabelComponentInstance_def LabelReplicaGroupID_def LabelPhase_def LabelReason_def LabelObservationValid_def LabelResourceGroup_def
  LabelResourceVersion_def LabelResourceKind_def

definition allPhases :: "ResourceStatus list" where
  "allPhases = [InitializingStatus, RunningStatus, CompletedStatus, FailedStatus, DegradedStatus, SuspendedStatus, SuspendingStatus,
     ResumingStatus, UndefinedStatus]"

definition workloadIdentityLabels :: "string list" where
  "workloadIdentityLabels = [LabelNamespace, LabelWorkload, LabelWorkloadGroup, LabelWorkloadVersion, LabelWorkloadKind, LabelWorkloadUID]"

definition podInfo :: gauge where
  "podInfo = \<lparr>g_name = ''dsx_workload_pod_info'',
     g_description = ''Pod attribution to a confirmed workload root. Value is always 1.'',
     g_labels = workloadIdentityLabels @ [LabelOwnerResolution, LabelPod, LabelPodUID, LabelComponent, LabelComponentInstance,
       LabelReplicaGroupID, LabelObservationValid]\<rparr>"

definition workloadStatus :: gauge where
  "workloadStatus = \<lparr>g_name = ''dsx_workload_status'',
     g_description = ''Normalized root workload status. Each phase is 0 or 1; several phases can match.'',
     g_labels = workloadIdentityLabels @ [LabelPhase, LabelOwnerResolution, LabelKarta, LabelKartaSource, LabelObservationValid]\<rparr>"

definition workloadCreated :: gauge where
  "workloadCreated = \<lparr>g_name = ''dsx_workload_created_timestamp_seconds'',
     g_description = ''Root workload creation time in Unix seconds when its sources and discovery are healthy.'',
     g_labels = [LabelNamespace, LabelWorkload, LabelWorkloadUID]\<rparr>"

definition observationValid :: gauge where
  "observationValid = \<lparr>g_name = ''dsx_exporter_observation_valid'',
     g_description = ''Observed source health and last evaluation outcome for resources, workloads and unresolved discovery. Not application readiness.'',
     g_labels = [''scope'', LabelNamespace, LabelResourceGroup, LabelResourceVersion, LabelResourceKind, LabelWorkload, LabelWorkloadUID,
       LabelReason]\<rparr>"

text \<open>\<open>create\<close> and \<open>callback\<close> are the answers of the meter: the error of an instrument, and of the registration.\<close>

fun create_instruments :: "(gauge \<Rightarrow> xerr option) \<Rightarrow> gauge list \<Rightarrow> xerr option" where
  "create_instruments create [] = None"
| "create_instruments create (g # gs) =
     (case create g of
        Some e \<Rightarrow> Some (XWrapf ''create instrument %s: %w'' [AStr (g_name g)] [e])
      | None \<Rightarrow> create_instruments create gs)"

definition Register :: "(gauge \<Rightarrow> xerr option) \<Rightarrow> xerr option \<Rightarrow> gauge list xres" where
  "Register create callback =
     (let gauges = [podInfo, workloadStatus, workloadCreated, observationValid]
      in case create_instruments create gauges of
           Some e \<Rightarrow> Inl e
         | None \<Rightarrow> (case callback of Some e \<Rightarrow> Inl e | None \<Rightarrow> Inr gauges))"

text \<open>\<open>values[i]\<close> panics for a label without a value.\<close>

definition observe_gauge :: "gauge \<Rightarrow> int \<Rightarrow> (string \<rightharpoonup> string) \<Rightarrow> string list \<Rightarrow> observation option" where
  "observe_gauge g v custom vals =
     (if length vals < length (g_labels g) then None
      else Some \<lparr>ob_name = g_name g, ob_value = v, ob_attributes = custom ++ map_of (zip (g_labels g) vals)\<rparr>)"

section \<open>Reasons\<close>

definition reasons :: "string list" where
  "reasons = [ReasonPermissionDenied, ReasonAPIUnavailable, ReasonInvalidDefinition, ReasonUnresolvedOwner, ReasonEvaluationFailed]"

text \<open>slices.Index; an unknown reason has the precedence of an unavailable API.\<close>

fun index_of :: "'a \<Rightarrow> 'a list \<Rightarrow> nat option" where
  "index_of x [] = None"
| "index_of x (y # ys) = (if x = y then Some 0 else map_option Suc (index_of x ys))"

definition priority_of :: "string \<Rightarrow> nat" where
  "priority_of reason =
     (if reason = [] \<or> reason = ReasonNone then length reasons
      else case index_of reason reasons of None \<Rightarrow> 1 | Some i \<Rightarrow> i)"

definition collector_failureReason :: "string \<Rightarrow> string \<Rightarrow> string" where
  "collector_failureReason current next =
     (let priority = min (min (length reasons) (priority_of current)) (priority_of next)
      in if priority = length reasons then [] else reasons ! priority)"

section \<open>Collection\<close>

record collection =
  cn_observed :: "observation list"
  cn_failures :: "(UID \<times> workloadFailure) list"
  cn_discovery :: "discoveryFailure list"

definition emit :: "observation option \<Rightarrow> collection \<Rightarrow> collection option" where
  "emit ob s = do { x \<leftarrow> ob; Some (s\<lparr>cn_observed := cn_observed s @ [x]\<rparr>) }"

definition bool_string :: "bool \<Rightarrow> string" where
  "bool_string b = (if b then ''true'' else ''false'')"

definition OwnerResolution_string :: "OwnerResolution option \<Rightarrow> string" where
  "OwnerResolution_string r = (case r of None \<Rightarrow> [] | Some Resolved \<Rightarrow> ''resolved'' | Some IgnoredOwner \<Rightarrow> ''ignored_owner''
     | Some UnknownOwner \<Rightarrow> ''unknown'')"

definition source_row :: "CapturedView \<Rightarrow> SourceKey \<times> SourceHealth \<Rightarrow> observation option" where
  "source_row v s =
     (case s of (key, health) \<Rightarrow>
        let (ok, reason) = Valid v [key] []
        in observe_gauge observationValid (if ok then 1 else 0) Map.empty
             [''resource_type'', sk_Namespace key, gvk_Group (sh_GVK health), gvk_Version (sh_GVK health), gvk_Kind (sh_GVK health), [], [],
              if ok then reason else collector_failureReason [] reason])"

fun emit_all :: "('a \<Rightarrow> observation option) \<Rightarrow> 'a list \<Rightarrow> collection \<Rightarrow> collection option" where
  "emit_all row [] s = Some s"
| "emit_all row (x # xs) s = do { s' \<leftarrow> emit (row x) s; emit_all row xs s' }"

definition add_discovery :: "discoveryFailure \<Rightarrow> collection \<Rightarrow> collection" where
  "add_discovery d s = s\<lparr>cn_discovery := List.insert d (cn_discovery s)\<rparr>"

definition note_failure :: "DiscoveryFailure \<Rightarrow> collection \<Rightarrow> collection" where
  "note_failure f s =
     (let reason = collector_failureReason [] (df_Error f)
      in if reason \<noteq> [] then add_discovery \<lparr>dfl_gvk = or_GVK (df_Input f), dfl_namespace = or_Namespace (df_Input f), dfl_reason = reason\<rparr> s
         else s)"

definition failure_of :: "collection \<Rightarrow> UID \<Rightarrow> workloadFailure" where
  "failure_of s uid = (case map_of (cn_failures s) uid of None \<Rightarrow> \<lparr>wf_ref = no_ref, wf_reason = []\<rparr> | Some f \<Rightarrow> f)"

definition put_failure :: "UID \<Rightarrow> workloadFailure \<Rightarrow> collection \<Rightarrow> collection" where
  "put_failure uid f s = s\<lparr>cn_failures := AList.update uid f (cn_failures s)\<rparr>"

text \<open>What a Pod contributes: a failure of its workload, or of its own discovery when its workload is unknown; and its row.\<close>

definition pod_failure :: "(GroupVersionKind \<Rightarrow> string) \<Rightarrow> CapturedView \<Rightarrow> PodResult \<Rightarrow> collection \<Rightarrow> collection" where
  "pod_failure gvk_String v result s =
     (let ref = pr_Workload (pres_Record result);
          (ok, reason) = Valid v (pres_Sources result) (pres_Error result)
      in if ok then s
         else if or_UID ref = []
         then add_discovery \<lparr>dfl_gvk = or_GVK (pres_Input result), dfl_namespace = or_Namespace (pres_Input result),
                dfl_reason = collector_failureReason [] reason\<rparr> s
         else
           let previous = failure_of s (or_UID ref);
               replaced = (or_UID (wf_ref previous) = [] \<or> gvk_String (or_GVK ref) < gvk_String (or_GVK (wf_ref previous)))
           in put_failure (or_UID ref) \<lparr>wf_ref = (if replaced then ref else wf_ref previous),
                wf_reason = collector_failureReason (wf_reason previous) reason\<rparr> s)"

definition identity_values :: "string \<Rightarrow> ObjectRef \<Rightarrow> string \<Rightarrow> string list" where
  "identity_values namespace ref uid =
     [namespace, or_Name ref, gvk_Group (or_GVK ref), gvk_Version (or_GVK ref), gvk_Kind (or_GVK ref), uid]"

definition pod_values :: "CapturedView \<Rightarrow> PodResult \<Rightarrow> string list" where
  "pod_values v result =
     (let pod = pres_Record result; ref = pr_Workload pod
      in identity_values (pr_Namespace pod) ref (or_UID ref)
         @ [OwnerResolution_string (pr_OwnerResolution pod), pr_Name pod, pr_UID pod, pr_Component pod, pr_Instance pod, pr_Group pod,
            bool_string (fst (Valid v (pres_Sources result) (pres_Error result)))])"

definition collect_pod :: "(GroupVersionKind \<Rightarrow> string) \<Rightarrow> CapturedView \<Rightarrow> PodResult \<Rightarrow> collection \<Rightarrow> collection option" where
  "collect_pod gvk_String v result s =
     (let s1 = pod_failure gvk_String v result s
      in if \<not> pres_HasValue result then Some s1
         else emit (observe_gauge podInfo 1 (pr_Labels (pres_Record result)) (pod_values v result)) s1)"

text \<open>The validity of the creation time and of the status of a workload, and the reason of its failure.\<close>

definition creation_validity :: "CapturedView \<Rightarrow> WorkloadResult \<Rightarrow> bool \<times> string" where
  "creation_validity v result = Valid v (wres_CreationSources result) (wres_Error result)"

definition status_validity :: "CapturedView \<Rightarrow> WorkloadResult \<Rightarrow> bool \<times> string" where
  "status_validity v result = Valid v (wres_Sources result) (collector_failureReason (wres_Error result) (wres_StatusError result))"

definition workload_reason :: "CapturedView \<Rightarrow> WorkloadResult \<Rightarrow> string" where
  "workload_reason v result =
     (let (creationValid, creationReason) = creation_validity v result;
          (statusValid, statusReason) = status_validity v result;
          reason = (if creationValid then [] else collector_failureReason [] creationReason)
      in if statusValid then reason else collector_failureReason reason statusReason)"

definition workload_failure :: "CapturedView \<Rightarrow> WorkloadResult \<Rightarrow> collection \<Rightarrow> collection" where
  "workload_failure v result s =
     (let workload = wres_Record result; reason = workload_reason v result; previous = failure_of s (wrec_UID workload)
      in if wf_reason previous \<noteq> [] \<or> reason \<noteq> []
         then put_failure (wrec_UID workload)
                \<lparr>wf_ref = wrec_Ref workload, wf_reason = collector_failureReason (wf_reason previous) reason\<rparr> s
         else s)"

definition status_values :: "CapturedView \<Rightarrow> WorkloadResult \<Rightarrow> ResourceStatus \<Rightarrow> string list" where
  "status_values v result phase =
     (let workload = wres_Record result; ref = wrec_Ref workload
      in identity_values (or_Namespace ref) ref (wrec_UID workload)
         @ [ResourceStatus_string phase, OwnerResolution_string (wrec_OwnerResolution workload), wrec_Karta workload,
            wrec_KartaSource workload, bool_string (fst (status_validity v result))])"

definition status_row :: "CapturedView \<Rightarrow> WorkloadResult \<Rightarrow> ResourceStatus \<Rightarrow> observation option" where
  "status_row v result phase =
     observe_gauge workloadStatus (if ResourceStatus_string phase \<in> set (wrec_Phases (wres_Record result)) then 1 else 0)
       (wrec_StatusLabels (wres_Record result)) (status_values v result phase)"

definition created_row :: "WorkloadResult \<Rightarrow> observation option" where
  "created_row result =
     (let workload = wres_Record result; ref = wrec_Ref workload
      in observe_gauge workloadCreated (wrec_CreatedTimestamp workload) Map.empty [or_Namespace ref, or_Name ref, wrec_UID workload])"

definition collect_workload :: "CapturedView \<Rightarrow> WorkloadResult \<Rightarrow> collection \<Rightarrow> collection option" where
  "collect_workload v result s =
     (let s1 = workload_failure v result s
      in if \<not> wres_HasValue result then Some s1
         else do {
           s2 \<leftarrow> (if fst (creation_validity v result) \<and> wrec_CreatedTimestamp (wres_Record result) > 0
                then emit (created_row result) s1 else Some s1);
           if wrec_HasStatus (wres_Record result) then emit_all (status_row v result) allPhases s2 else Some s2 })"

definition failure_row :: "UID \<times> workloadFailure \<Rightarrow> observation option" where
  "failure_row f =
     (let ref = wf_ref (snd f)
      in observe_gauge observationValid 0 Map.empty
           [''workload'', or_Namespace ref, gvk_Group (or_GVK ref), gvk_Version (or_GVK ref), gvk_Kind (or_GVK ref), or_Name ref,
            or_UID ref, wf_reason (snd f)])"

definition discovery_row :: "discoveryFailure \<Rightarrow> observation option" where
  "discovery_row d =
     observe_gauge observationValid 0 Map.empty
       [''discovery'', dfl_namespace d, gvk_Group (dfl_gvk d), gvk_Version (dfl_gvk d), gvk_Kind (dfl_gvk d), [], [], dfl_reason d]"

text \<open>A loop that asks the context before every round: the error that ended it, the number of the next question, and the collection.\<close>

fun collect_each ::
  "(nat \<Rightarrow> xerr option) \<Rightarrow> ('a \<Rightarrow> collection \<Rightarrow> collection option) \<Rightarrow> 'a list \<Rightarrow> nat \<Rightarrow> collection
     \<Rightarrow> (xerr option \<times> nat \<times> collection) option" where
  "collect_each ctx body [] t s = Some (None, t, s)"
| "collect_each ctx body (x # xs) t s =
     (case ctx t of
        Some e \<Rightarrow> Some (Some e, Suc t, s)
      | None \<Rightarrow> do { s' \<leftarrow> body x s; collect_each ctx body xs (Suc t) s' })"

definition collect_rest :: "collection \<Rightarrow> collection option" where
  "collect_rest s = do { s1 \<leftarrow> emit_all failure_row (cn_failures s) s; emit_all discovery_row (cn_discovery s) s1 }"

definition collect :: "(GroupVersionKind \<Rightarrow> string) \<Rightarrow> (nat \<Rightarrow> xerr option) \<Rightarrow> CapturedView \<Rightarrow> (xerr option \<times> observation list) option" where
  "collect gvk_String ctx v =
     (case ctx 0 of
        Some e \<Rightarrow> Some (Some e, [])
      | None \<Rightarrow> do {
          s1 \<leftarrow> emit_all (source_row v) (cv_Sources v) \<lparr>cn_observed = [], cn_failures = [], cn_discovery = []\<rparr>;
          (e1, t1, s2) \<leftarrow> collect_each ctx (collect_pod gvk_String v) (cv_Pods v) 1 (fold note_failure (cv_Failures v) s1);
          (case e1 of
             Some e \<Rightarrow> Some (Some e, cn_observed s2)
           | None \<Rightarrow> do {
               (e2, t2, s3) \<leftarrow> collect_each ctx (collect_workload v) (cv_Workloads v) t1 s2;
               (case e2 of
                  Some e \<Rightarrow> Some (Some e, cn_observed s3)
                | None \<Rightarrow> do { s4 \<leftarrow> collect_rest s3; Some (None, cn_observed s4) }) }) })"

section \<open>Rows\<close>

text \<open>Every row has a value for every label of its instrument, so no observation panics.\<close>

definition row :: "gauge \<Rightarrow> int \<Rightarrow> (string \<rightharpoonup> string) \<Rightarrow> string list \<Rightarrow> observation" where
  "row g v custom vals = \<lparr>ob_name = g_name g, ob_value = v, ob_attributes = custom ++ map_of (zip (g_labels g) vals)\<rparr>"

lemmas gauge_defs = podInfo_def workloadStatus_def workloadCreated_def observationValid_def workloadIdentityLabels_def

lemma observe_row: "length (g_labels g) \<le> length vals \<Longrightarrow> observe_gauge g v custom vals = Some (row g v custom vals)"
  by (simp add: observe_gauge_def row_def)

lemma rows_total:
  "\<exists>y. source_row v x = Some y" "\<exists>y. observe_gauge podInfo 1 c (pod_values v p) = Some y" "\<exists>y. status_row v w phase = Some y"
  "\<exists>y. created_row w = Some y" "\<exists>y. failure_row f = Some y" "\<exists>y. discovery_row d = Some y"
  by (auto simp: source_row_def status_row_def created_row_def failure_row_def discovery_row_def observe_row pod_values_def status_values_def
      identity_values_def gauge_defs Let_def split: prod.splits)

text \<open>So every loop is a fold of a total step.\<close>

definition observed :: "observation list \<Rightarrow> collection \<Rightarrow> collection" where
  "observed os s = s\<lparr>cn_observed := cn_observed s @ os\<rparr>"

lemma observed_simps [simp]:
  "cn_observed (observed os s) = cn_observed s @ os" "cn_failures (observed os s) = cn_failures s"
  "cn_discovery (observed os s) = cn_discovery s" "observed [] s = s" "observed ps (observed os s) = observed (os @ ps) s"
  by (simp_all add: observed_def)

lemma emit_Some [simp]: "emit (Some x) s = Some (observed [x] s)" by (simp add: emit_def observed_def)

lemma emit_all_total:
  assumes "\<And>x. x \<in> set xs \<Longrightarrow> \<exists>y. row' x = Some y"
  shows "emit_all row' xs s = Some (observed (map (the \<circ> row') xs) s)"
  using assms
proof (induction xs arbitrary: s)
  case (Cons x xs)
  then obtain y where "row' x = Some y" by auto
  with Cons show ?case by simp
qed simp

lemma collect_each_total:
  assumes "\<And>t. ctx t = None" "\<And>x s. body x s = Some (step x s)"
  shows "collect_each ctx body xs t s = Some (None, t + length xs, fold step xs s)"
  by (induction xs arbitrary: t s) (simp_all add: assms)

definition pod_observations :: "CapturedView \<Rightarrow> PodResult \<Rightarrow> observation list" where
  "pod_observations v p = (if pres_HasValue p then [row podInfo 1 (pr_Labels (pres_Record p)) (pod_values v p)] else [])"

definition workload_observations :: "CapturedView \<Rightarrow> WorkloadResult \<Rightarrow> observation list" where
  "workload_observations v w =
     (if \<not> wres_HasValue w then []
      else (if fst (creation_validity v w) \<and> wrec_CreatedTimestamp (wres_Record w) > 0 then [the (created_row w)] else [])
        @ (if wrec_HasStatus (wres_Record w) then map (the \<circ> status_row v w) allPhases else []))"

lemma collect_pod_total: "collect_pod gs v p s = Some (observed (pod_observations v p) (pod_failure gs v p s))"
  using rows_total(2) [of "pr_Labels (pres_Record p)" v p]
  by (auto simp: collect_pod_def pod_observations_def Let_def observe_gauge_def row_def split: if_splits)

lemma collect_workload_total: "collect_workload v w s = Some (observed (workload_observations v w) (workload_failure v w s))"
proof -
  obtain c where c: "created_row w = Some c" using rows_total(4) by blast
  have e: "emit_all (status_row v w) allPhases s' = Some (observed (map (the \<circ> status_row v w) allPhases) s')" for s'
    by (rule emit_all_total) (rule rows_total)
  show ?thesis by (simp add: collect_workload_def workload_observations_def c e Let_def)
qed

lemma collect_rest_total:
  "collect_rest s = Some (observed (map (the \<circ> failure_row) (cn_failures s) @ map (the \<circ> discovery_row) (cn_discovery s)) s)"
  by (simp add: collect_rest_def emit_all_total rows_total)

text \<open>Failures do not depend on what has been observed.\<close>

lemma failures_observed:
  "pod_failure gs v p (observed os s) = observed os (pod_failure gs v p s)"
  "workload_failure v w (observed os s) = observed os (workload_failure v w s)"
  by (simp_all add: pod_failure_def workload_failure_def put_failure_def add_discovery_def failure_of_def observed_def Let_def
      split: prod.split)

lemma fold_observed:
  assumes "\<And>x os s. step x (observed os s) = observed os (step x s)"
  shows "fold (\<lambda>x s. observed (rows x) (step x s)) xs s = observed (concat (map rows xs)) (fold step xs s)"
proof (induction xs arbitrary: s)
  case (Cons x xs)
  have "fold step xs (observed os t) = observed os (fold step xs t)" for os t
    by (induction xs arbitrary: t) (simp_all add: assms)
  with Cons show ?case by (simp add: observed_def)
qed simp

definition final_failures :: "(GroupVersionKind \<Rightarrow> string) \<Rightarrow> CapturedView \<Rightarrow> collection" where
  "final_failures gs v =
     fold (workload_failure v) (cv_Workloads v) (fold (pod_failure gs v) (cv_Pods v)
       (fold note_failure (cv_Failures v) \<lparr>cn_observed = [], cn_failures = [], cn_discovery = []\<rparr>))"

lemma note_observed: "note_failure f (observed os s) = observed os (note_failure f s)"
  by (simp add: note_failure_def add_discovery_def observed_def Let_def)

lemma fold_through:
  assumes "\<And>x os s. step x (observed os s) = observed os (step x s)"
  shows "fold step xs (observed os s) = observed os (fold step xs s)"
  by (induction xs arbitrary: s) (simp_all add: assms)

lemma collect_total:
  assumes "\<And>t. ctx t = None"
  shows "collect gs ctx v = Some (None,
    map (the \<circ> source_row v) (cv_Sources v) @ concat (map (pod_observations v) (cv_Pods v))
    @ concat (map (workload_observations v) (cv_Workloads v))
    @ map (the \<circ> failure_row) (cn_failures (final_failures gs v)) @ map (the \<circ> discovery_row) (cn_discovery (final_failures gs v)))"
proof -
  let ?e = "\<lparr>cn_observed = [], cn_failures = [], cn_discovery = []\<rparr>"
  have pods: "collect_each ctx (collect_pod gs v) xs t s
      = Some (None, t + length xs, observed (concat (map (pod_observations v) xs)) (fold (pod_failure gs v) xs s))" for xs t s
    by (simp add: collect_each_total [OF assms collect_pod_total] fold_observed failures_observed)
  have workloads: "collect_each ctx (collect_workload v) xs t s
      = Some (None, t + length xs, observed (concat (map (workload_observations v) xs)) (fold (workload_failure v) xs s))" for xs t s
    by (simp add: collect_each_total [OF assms collect_workload_total] fold_observed failures_observed)
  have none: "cn_observed (final_failures gs v) = []"
  proof -
    have keep: "cn_observed (fold step xs s) = cn_observed s" if "\<And>x s. cn_observed (step x s) = cn_observed s"
      for step :: "'z \<Rightarrow> collection \<Rightarrow> collection" and xs s
      by (induction xs arbitrary: s) (simp_all add: that)
    show ?thesis
      by (simp add: final_failures_def keep pod_failure_def workload_failure_def note_failure_def put_failure_def add_discovery_def Let_def
          split: prod.split)
  qed
  show ?thesis
    by (simp add: collect_def assms emit_all_total rows_total pods workloads collect_rest_total fold_through note_observed failures_observed
        final_failures_def [symmetric] none)
qed

section \<open>The precedence of reasons\<close>

text \<open>The reason with a given precedence, and the worst of a set of reasons, none for no reason.\<close>

definition reason_at :: "nat \<Rightarrow> string" where
  "reason_at p = (if p = length reasons then [] else reasons ! p)"

definition worst :: "string set \<Rightarrow> string" where
  "worst R = reason_at (Min (insert (length reasons) (priority_of ` R)))"

lemmas reason_defs = reasons_def ReasonPermissionDenied_def ReasonAPIUnavailable_def ReasonInvalidDefinition_def
  ReasonUnresolvedOwner_def ReasonEvaluationFailed_def ReasonNone_def

lemma length_reasons: "length reasons = 5" by (simp add: reasons_def)

lemma index_of_less: "index_of x xs = Some i \<Longrightarrow> i < length xs"
  by (induction xs arbitrary: i) (auto split: if_splits)

lemma priority_bound: "priority_of r \<le> length reasons"
  using index_of_less [of r reasons] by (auto simp: priority_of_def length_reasons split: option.split)

lemma priority_proper: "priority_of r < length reasons \<longleftrightarrow> r \<noteq> [] \<and> r \<noteq> ReasonNone"
  using index_of_less [of r reasons] by (auto simp: priority_of_def length_reasons split: option.split)

lemma priority_reason_at: "p \<le> length reasons \<Longrightarrow> priority_of (reason_at p) = p"
proof -
  assume "p \<le> length reasons"
  then consider "p = 0" | "p = 1" | "p = 2" | "p = 3" | "p = 4" | "p = 5" unfolding length_reasons by linarith
  then show ?thesis by cases (simp_all add: priority_of_def reason_at_def reason_defs)
qed

lemma failureReason_min: "collector_failureReason a b = reason_at (min (priority_of a) (priority_of b))"
  using priority_bound [of a] by (simp add: collector_failureReason_def reason_at_def Let_def min_absorb2)

lemma worst_empty [simp]: "worst {} = []" by (simp add: worst_def reason_at_def)

lemma Min_priority: "finite R \<Longrightarrow> Min (insert (length reasons) (priority_of ` R)) \<le> length reasons"
  by simp

lemma worst_insert: "finite R \<Longrightarrow> worst (insert r R) = collector_failureReason (worst R) r"
proof -
  assume fin: "finite R"
  have "Min (insert (length reasons) (priority_of ` insert r R)) = min (Min (insert (length reasons) (priority_of ` R))) (priority_of r)"
    using fin by (simp add: insert_commute [of "length reasons"] min.commute)
  then show ?thesis by (simp add: worst_def failureReason_min priority_reason_at [OF Min_priority [OF fin]])
qed

lemma worst_single: "worst {r} = collector_failureReason [] r"
  using worst_insert [of "{}" r] by simp

lemma worst_union: "finite R \<Longrightarrow> finite S \<Longrightarrow> worst (R \<union> S) = collector_failureReason (worst R) (worst S)"
proof -
  assume fin: "finite R" "finite S"
  have "insert (length reasons) (priority_of ` (R \<union> S)) = insert (length reasons) (priority_of ` R) \<union> insert (length reasons) (priority_of ` S)"
    by auto
  then have "Min (insert (length reasons) (priority_of ` (R \<union> S)))
      = min (Min (insert (length reasons) (priority_of ` R))) (Min (insert (length reasons) (priority_of ` S)))"
    using fin by (simp only: Min_Un finite_insert finite_imageI insert_not_empty not_False_eq_True)
  then show ?thesis
    by (simp add: worst_def failureReason_min priority_reason_at [OF Min_priority [OF fin(1)]] priority_reason_at [OF Min_priority [OF fin(2)]])
qed

lemma worst_proper: "finite R \<Longrightarrow> worst R \<noteq> [] \<longleftrightarrow> (\<exists>r \<in> R. r \<noteq> [] \<and> r \<noteq> ReasonNone)"
proof -
  assume fin: "finite R"
  have "reason_at p \<noteq> [] \<longleftrightarrow> p < length reasons" if "p \<le> length reasons" for p
  proof (cases "p = length reasons")
    case False
    with that priority_reason_at [OF that] priority_proper [of "reason_at p"] show ?thesis by simp
  qed (simp add: reason_at_def)
  from this [OF Min_priority [OF fin]]
  have "worst R \<noteq> [] \<longleftrightarrow> Min (insert (length reasons) (priority_of ` R)) < length reasons" by (simp add: worst_def)
  also have "\<dots> \<longleftrightarrow> (\<exists>r \<in> R. priority_of r < length reasons)" using fin by (auto simp: Min_less_iff)
  finally show ?thesis by (simp add: priority_proper)
qed

lemma Valid_reason: "Valid v ss e = (False, r) \<Longrightarrow> r \<noteq> [] \<and> r \<noteq> ReasonNone"
  by (auto simp: Valid_def Valid_loop_spec reason_defs split: if_splits)

section \<open>Failures\<close>

text \<open>The Pods with an invalid result of a workload, the reasons of their failures and of that of a workload.\<close>

definition failed_pods :: "CapturedView \<Rightarrow> PodResult list \<Rightarrow> UID \<Rightarrow> PodResult set" where
  "failed_pods v ps uid = {p \<in> set ps. or_UID (pr_Workload (pres_Record p)) = uid \<and> \<not> fst (Valid v (pres_Sources p) (pres_Error p))}"

definition pod_reason :: "CapturedView \<Rightarrow> PodResult \<Rightarrow> string" where
  "pod_reason v p = snd (Valid v (pres_Sources p) (pres_Error p))"

definition workload_reasons :: "CapturedView \<Rightarrow> WorkloadResult \<Rightarrow> string set" where
  "workload_reasons v w =
     (let c = creation_validity v w; t = status_validity v w
      in (if fst c then {} else {snd c}) \<union> (if fst t then {} else {snd t}))"

lemma workload_reason_worst: "workload_reason v w = worst (workload_reasons v w)"
  using worst_union [of "{snd (creation_validity v w)}" "{snd (status_validity v w)}"]
    worst_insert [of "{snd (creation_validity v w)}" "snd (status_validity v w)"]
  by (auto simp: workload_reason_def workload_reasons_def worst_single insert_commute Let_def split: prod.split)

definition pod_ref :: "PodResult \<Rightarrow> ObjectRef" where
  "pod_ref p = pr_Workload (pres_Record p)"

definition pods_failure :: "(GroupVersionKind \<Rightarrow> string) \<Rightarrow> CapturedView \<Rightarrow> PodResult set \<Rightarrow> workloadFailure option \<Rightarrow> bool" where
  "pods_failure gs v P f \<longleftrightarrow>
     (case f of
        None \<Rightarrow> P = {}
      | Some x \<Rightarrow> P \<noteq> {} \<and> wf_reason x = worst (pod_reason v ` P) \<and> wf_ref x \<in> pod_ref ` P
          \<and> (\<forall>p \<in> P. gs (or_GVK (wf_ref x)) \<le> gs (or_GVK (pod_ref p))))"

lemma finite_failed_pods [simp]: "finite (failed_pods v ps uid)" by (simp add: failed_pods_def)

lemma failed_pods_append:
  "failed_pods v (ps @ [p]) uid =
     (if or_UID (pod_ref p) = uid \<and> \<not> fst (Valid v (pres_Sources p) (pres_Error p)) then insert p (failed_pods v ps uid) else failed_pods v ps uid)"
  by (auto simp: failed_pods_def pod_ref_def)

lemma pods_failure_insert:
  assumes "pods_failure gs v P (map_of F uid)" "finite P" "\<And>q. q \<in> insert p P \<Longrightarrow> or_UID (pod_ref q) = uid" "uid \<noteq> []"
    and "previous = (case map_of F uid of None \<Rightarrow> \<lparr>wf_ref = no_ref, wf_reason = []\<rparr> | Some f \<Rightarrow> f)"
  shows "pods_failure gs v (insert p P) (Some
    \<lparr>wf_ref = (if or_UID (wf_ref previous) = [] \<or> gs (or_GVK (pod_ref p)) < gs (or_GVK (wf_ref previous)) then pod_ref p else wf_ref previous),
     wf_reason = collector_failureReason (wf_reason previous) (pod_reason v p)\<rparr>)"
proof (cases "map_of F uid")
  case None
  with assms show ?thesis by (simp add: pods_failure_def worst_single no_ref_def)
next
  case (Some f)
  with assms have f: "P \<noteq> {}" "wf_reason f = worst (pod_reason v ` P)" "wf_ref f \<in> pod_ref ` P" "previous = f"
    "\<And>q. q \<in> P \<Longrightarrow> gs (or_GVK (wf_ref f)) \<le> gs (or_GVK (pod_ref q))" by (auto simp: pods_failure_def)
  have "or_UID (wf_ref f) \<noteq> []" using f(3) assms(3,4) by auto
  moreover have "worst (pod_reason v ` insert p P) = collector_failureReason (wf_reason previous) (pod_reason v p)"
    using assms(2) by (simp add: worst_insert f(2,4))
  moreover have "gs (or_GVK (pod_ref p)) \<le> gs (or_GVK (pod_ref q))"
    if "q \<in> P" "gs (or_GVK (pod_ref p)) < gs (or_GVK (wf_ref f))" for q
    using f(5) [OF that(1)] that(2) by order
  ultimately show ?thesis
    using f(3,5) by (auto simp: pods_failure_def f(4))
qed

lemma pod_failure_map:
  "map_of (cn_failures (pod_failure gs v p s)) =
     (if fst (Valid v (pres_Sources p) (pres_Error p)) \<or> or_UID (pod_ref p) = [] then map_of (cn_failures s)
      else (map_of (cn_failures s))(or_UID (pod_ref p) \<mapsto>
        \<lparr>wf_ref = (if or_UID (wf_ref (failure_of s (or_UID (pod_ref p)))) = []
            \<or> gs (or_GVK (pod_ref p)) < gs (or_GVK (wf_ref (failure_of s (or_UID (pod_ref p))))) then pod_ref p
            else wf_ref (failure_of s (or_UID (pod_ref p)))),
         wf_reason = collector_failureReason (wf_reason (failure_of s (or_UID (pod_ref p)))) (pod_reason v p)\<rparr>))"
  by (simp add: pod_failure_def put_failure_def add_discovery_def update_conv' pod_ref_def pod_reason_def Let_def split: prod.split)

lemma pods_failures:
  assumes "cn_failures s = []" "uid \<noteq> []"
  shows "pods_failure gs v (failed_pods v ps uid) (map_of (cn_failures (fold (pod_failure gs v) ps s)) uid)"
proof (induction ps rule: rev_induct)
  case Nil
  show ?case by (simp add: assms failed_pods_def pods_failure_def)
next
  case (snoc p ps)
  show ?case
  proof (cases "or_UID (pod_ref p) = uid \<and> \<not> fst (Valid v (pres_Sources p) (pres_Error p))")
    case True
    then have "or_UID (pod_ref q) = uid" if "q \<in> insert p (failed_pods v ps uid)" for q
      using that by (auto simp: failed_pods_def pod_ref_def)
    from pods_failure_insert [OF snoc finite_failed_pods this assms(2) refl] True assms(2) show ?thesis
      by (simp add: failed_pods_append pod_failure_map failure_of_def split del: if_split cong: if_cong)
  qed (use snoc in \<open>auto simp: failed_pods_append pod_failure_map\<close>)
qed

lemma no_pod_failure_without_UID:
  assumes "cn_failures s = []"
  shows "map_of (cn_failures (fold (pod_failure gs v) ps s)) [] = None"
  by (induction ps rule: rev_induct) (auto simp: assms pod_failure_map)

lemma distinct_failures:
  assumes "distinct (map fst (cn_failures s))"
  shows "distinct (map fst (cn_failures (fold (pod_failure gs v) ps s)))" "distinct (map fst (cn_failures (fold (workload_failure v) ws s)))"
proof -
  show "distinct (map fst (cn_failures (fold (pod_failure gs v) ps s)))"
    using assms by (induction ps arbitrary: s)
      (auto simp: pod_failure_def put_failure_def add_discovery_def distinct_update Let_def split: prod.split)
  show "distinct (map fst (cn_failures (fold (workload_failure v) ws s)))"
    using assms by (induction ws arbitrary: s) (auto simp: workload_failure_def put_failure_def distinct_update Let_def)
qed

lemma workload_failure_map:
  "map_of (cn_failures (workload_failure v w s)) =
     (if wf_reason (failure_of s (wrec_UID (wres_Record w))) = [] \<and> worst (workload_reasons v w) = [] then map_of (cn_failures s)
      else (map_of (cn_failures s))(wrec_UID (wres_Record w) \<mapsto>
        \<lparr>wf_ref = wrec_Ref (wres_Record w),
         wf_reason = collector_failureReason (wf_reason (failure_of s (wrec_UID (wres_Record w)))) (worst (workload_reasons v w))\<rparr>))"
  by (simp add: workload_failure_def put_failure_def update_conv' workload_reason_worst Let_def)

lemma workload_failures_other:
  "uid \<notin> (wrec_UID \<circ> wres_Record) ` set ws \<Longrightarrow>
     map_of (cn_failures (fold (workload_failure v) ws s)) uid = map_of (cn_failures s) uid"
  by (induction ws arbitrary: s) (auto simp: workload_failure_map)

lemma workload_failures_one:
  assumes "distinct (map (wrec_UID \<circ> wres_Record) ws)" "w \<in> set ws" "wrec_UID (wres_Record w) = uid"
  shows "map_of (cn_failures (fold (workload_failure v) ws s)) uid = map_of (cn_failures (workload_failure v w s)) uid"
  using assms
proof (induction ws arbitrary: s)
  case (Cons x ws)
  show ?case
  proof (cases "x = w")
    case True
    with Cons.prems have "uid \<notin> (wrec_UID \<circ> wres_Record) ` set ws" by auto
    with True show ?thesis by (simp add: workload_failures_other)
  next
    case False
    with Cons.prems have w: "w \<in> set ws" "wrec_UID (wres_Record x) \<noteq> uid" by auto
    then have "failure_of (workload_failure v x s) uid = failure_of s uid" by (simp add: failure_of_def workload_failure_map)
    with Cons w show ?thesis by (auto simp: workload_failure_map)
  qed
qed simp

text \<open>All reasons that make a workload fail.\<close>

definition failing_pods :: "CapturedView \<Rightarrow> UID \<Rightarrow> PodResult set" where
  "failing_pods v uid = (if uid = [] then {} else failed_pods v (cv_Pods v) uid)"

definition failing :: "CapturedView \<Rightarrow> UID \<Rightarrow> string set" where
  "failing v uid = pod_reason v ` failing_pods v uid
     \<union> (\<Union>w \<in> {w \<in> set (cv_Workloads v). wrec_UID (wres_Record w) = uid}. workload_reasons v w)"

lemma invalid_reason: "\<not> fst (Valid v ss e) \<Longrightarrow> snd (Valid v ss e) \<noteq> [] \<and> snd (Valid v ss e) \<noteq> ReasonNone"
  using Valid_reason [of v ss e "snd (Valid v ss e)"] by (metis prod.collapse)

lemma workload_reasons_proper:
  "finite (workload_reasons v w)" "r \<in> workload_reasons v w \<Longrightarrow> r \<noteq> [] \<and> r \<noteq> ReasonNone"
proof -
  show "finite (workload_reasons v w)" by (simp add: workload_reasons_def Let_def)
  show "r \<noteq> [] \<and> r \<noteq> ReasonNone" if "r \<in> workload_reasons v w"
    using that invalid_reason by (auto simp: workload_reasons_def creation_validity_def status_validity_def Let_def split: if_splits)
qed

lemma pod_reasons_proper:
  "finite (pod_reason v ` failing_pods v uid)" "r \<in> pod_reason v ` failing_pods v uid \<Longrightarrow> r \<noteq> [] \<and> r \<noteq> ReasonNone"
proof -
  show "finite (pod_reason v ` failing_pods v uid)" by (simp add: failing_pods_def)
  show "r \<noteq> [] \<and> r \<noteq> ReasonNone" if "r \<in> pod_reason v ` failing_pods v uid"
    using that invalid_reason by (auto simp: failing_pods_def failed_pods_def pod_reason_def split: if_splits)
qed

lemma note_failures: "cn_failures (fold note_failure fs s) = cn_failures s"
  by (induction fs arbitrary: s) (simp_all add: note_failure_def add_discovery_def Let_def)

lemma final_failures_spec:
  assumes "distinct (map (wrec_UID \<circ> wres_Record) (cv_Workloads v))"
  shows "case map_of (cn_failures (final_failures gs v)) uid of
      None \<Rightarrow> failing v uid = {}
    | Some f \<Rightarrow> failing v uid \<noteq> {} \<and> wf_reason f = worst (failing v uid)
        \<and> (\<forall>w \<in> set (cv_Workloads v). wrec_UID (wres_Record w) = uid \<longrightarrow> wf_ref f = wrec_Ref (wres_Record w))
        \<and> (uid \<notin> (wrec_UID \<circ> wres_Record) ` set (cv_Workloads v) \<longrightarrow> wf_ref f \<in> pod_ref ` failing_pods v uid
             \<and> (\<forall>p \<in> failing_pods v uid. gs (or_GVK (wf_ref f)) \<le> gs (or_GVK (pod_ref p))))"
proof -
  define s where "s = fold (pod_failure gs v) (cv_Pods v) (fold note_failure (cv_Failures v) \<lparr>cn_observed = [], cn_failures = [], cn_discovery = []\<rparr>)"
  have pods: "pods_failure gs v (failing_pods v uid) (map_of (cn_failures s) uid)"
    by (auto simp: s_def failing_pods_def note_failures no_pod_failure_without_UID intro: pods_failures) (simp add: pods_failure_def)
  have fin: "final_failures gs v = fold (workload_failure v) (cv_Workloads v) s" by (simp add: final_failures_def s_def)
  show ?thesis
  proof (cases "\<exists>w \<in> set (cv_Workloads v). wrec_UID (wres_Record w) = uid")
    case False
    then have "failing v uid = pod_reason v ` failing_pods v uid" by (auto simp: failing_def)
    moreover have "map_of (cn_failures (final_failures gs v)) uid = map_of (cn_failures s) uid"
      unfolding fin by (rule workload_failures_other) (use False in auto)
    ultimately show ?thesis using pods False by (auto simp: pods_failure_def split: option.splits)
  next
    case True
    then obtain w where w: "w \<in> set (cv_Workloads v)" "wrec_UID (wres_Record w) = uid" by blast
    with assms have only: "x = w" if "x \<in> set (cv_Workloads v)" "wrec_UID (wres_Record x) = uid" for x
      using that by (metis comp_apply distinct_map inj_onD)
    then have "{x \<in> set (cv_Workloads v). wrec_UID (wres_Record x) = uid} = {w}" using w by blast
    then have R: "failing v uid = pod_reason v ` failing_pods v uid \<union> workload_reasons v w" by (simp add: failing_def)
    have previous: "wf_reason (failure_of s uid) = worst (pod_reason v ` failing_pods v uid)"
      using pods by (auto simp: pods_failure_def failure_of_def split: option.splits)
    have empty: "worst X = [] \<longleftrightarrow> X = {}" if "finite X" "\<And>r. r \<in> X \<Longrightarrow> r \<noteq> [] \<and> r \<noteq> ReasonNone" for X
      using worst_proper [OF that(1)] that(2) by auto
    have F: "map_of (cn_failures (final_failures gs v)) uid = map_of (cn_failures (workload_failure v w s)) uid"
      unfolding fin by (rule workload_failures_one [OF assms w])
    have worst: "worst (failing v uid) = collector_failureReason (wf_reason (failure_of s uid)) (worst (workload_reasons v w))"
      unfolding R previous by (rule worst_union [OF pod_reasons_proper(1) workload_reasons_proper(1)])
    have reasons: "failing v uid = {} \<longleftrightarrow> wf_reason (failure_of s uid) = [] \<and> worst (workload_reasons v w) = []"
      unfolding R previous using empty [OF pod_reasons_proper, of v uid] empty [OF workload_reasons_proper, of v w] by simp
    show ?thesis
    proof (cases "wf_reason (failure_of s uid) = [] \<and> worst (workload_reasons v w) = []")
      case True
      then have none: "failing v uid = {}" unfolding reasons .
      then have "failing_pods v uid = {}" by (simp add: R)
      with pods have "map_of (cn_failures s) uid = None" by (simp add: pods_failure_def split: option.splits)
      with True w(2) have "map_of (cn_failures (final_failures gs v)) uid = None" by (simp add: F workload_failure_map)
      with none show ?thesis by simp
    next
      case False
      then have some: "failing v uid \<noteq> {}" unfolding reasons .
      from False w(2) have "map_of (cn_failures (final_failures gs v)) uid
          = Some \<lparr>wf_ref = wrec_Ref (wres_Record w), wf_reason = worst (failing v uid)\<rparr>"
        by (auto simp: F workload_failure_map worst)
      moreover have "uid \<in> (wrec_UID \<circ> wres_Record) ` set (cv_Workloads v)" using w by auto
      moreover have "\<forall>x \<in> set (cv_Workloads v). wrec_UID (wres_Record x) = uid \<longrightarrow> wrec_Ref (wres_Record w) = wrec_Ref (wres_Record x)"
        using only by blast
      ultimately show ?thesis using some by simp
    qed
  qed
qed

definition unresolved :: "CapturedView \<Rightarrow> discoveryFailure set" where
  "unresolved v =
     {\<lparr>dfl_gvk = or_GVK (df_Input f), dfl_namespace = or_Namespace (df_Input f), dfl_reason = worst {df_Error f}\<rparr> |
        f. f \<in> set (cv_Failures v) \<and> worst {df_Error f} \<noteq> []}
     \<union> {\<lparr>dfl_gvk = or_GVK (pres_Input p), dfl_namespace = or_Namespace (pres_Input p), dfl_reason = worst {pod_reason v p}\<rparr> |
        p. p \<in> failed_pods v (cv_Pods v) []}"

lemma final_discovery:
  "set (cn_discovery (final_failures gs v)) = unresolved v" "distinct (cn_discovery (final_failures gs v))"
proof -
  let ?note = "\<lambda>f. \<lparr>dfl_gvk = or_GVK (df_Input f), dfl_namespace = or_Namespace (df_Input f), dfl_reason = worst {df_Error f}\<rparr>"
  let ?pod = "\<lambda>p. \<lparr>dfl_gvk = or_GVK (pres_Input p), dfl_namespace = or_Namespace (pres_Input p), dfl_reason = worst {pod_reason v p}\<rparr>"
  have noted: "set (cn_discovery (fold note_failure fs s)) = set (cn_discovery s) \<union> {?note f | f. f \<in> set fs \<and> worst {df_Error f} \<noteq> []}
      \<and> (distinct (cn_discovery s) \<longrightarrow> distinct (cn_discovery (fold note_failure fs s)))" for fs s
    by (induction fs arbitrary: s) (auto simp: note_failure_def add_discovery_def worst_single Let_def)
  have step: "set (cn_discovery (pod_failure gs v p s)) = set (cn_discovery s) \<union> (if p \<in> failed_pods v [p] [] then {?pod p} else {})
      \<and> (distinct (cn_discovery s) \<longrightarrow> distinct (cn_discovery (pod_failure gs v p s)))" for p s
    by (auto simp: pod_failure_def add_discovery_def put_failure_def worst_single pod_reason_def failed_pods_def Let_def split: prod.split)
  have pods: "set (cn_discovery (fold (pod_failure gs v) ps s)) = set (cn_discovery s) \<union> {?pod p | p. p \<in> failed_pods v ps []}
      \<and> (distinct (cn_discovery s) \<longrightarrow> distinct (cn_discovery (fold (pod_failure gs v) ps s)))" for ps s
    by (induction ps arbitrary: s) (use step in \<open>auto simp: failed_pods_def\<close>)
  have same: "cn_discovery (fold (workload_failure v) ws s) = cn_discovery s" for ws s
    by (induction ws arbitrary: s) (simp_all add: workload_failure_def put_failure_def Let_def)
  show "set (cn_discovery (final_failures gs v)) = unresolved v" "distinct (cn_discovery (final_failures gs v))"
    by (simp_all add: final_failures_def same pods noted unresolved_def)
qed

end
