(* ===== verification/Publication_Properties.thy ===== *)
theory Publication_Properties
  imports Exporter_Properties Metrics_Collector
begin

text \<open>The properties of the metrics that the workload exporter makes of its store.\<close>

section \<open>What is collected\<close>

lemma captured_distinct:
  "distinct (map (pr_UID \<circ> pres_Record) (cv_Pods (Capture (history calls))))"
  "distinct (map (wrec_UID \<circ> wres_Record) (cv_Workloads (Capture (history calls))))"
  "distinct (map fst (cv_Sources (Capture (history calls))))"
proof -
  note H = history_maps [of calls]
  have "distinct (map (pr_UID \<circ> pres_Record) (map snd (st_pods (history calls))))"
    using H(1) last_uids(1) by (intro distinct_values) auto
  moreover have "distinct (map (wrec_UID \<circ> wres_Record) (map snd (st_workloads (history calls))))"
    using H(2) last_uids(2) by (intro distinct_values) auto
  ultimately show "distinct (map (pr_UID \<circ> pres_Record) (cv_Pods (Capture (history calls))))"
    "distinct (map (wrec_UID \<circ> wres_Record) (cv_Workloads (Capture (history calls))))"
    "distinct (map fst (cv_Sources (Capture (history calls))))"
    using H(3) by (simp_all add: Capture_def)
qed



text \<open>A store with a healthy and a denied source, a workload and two Pods: one of the workload, one without a known root.\<close>

definition metric_source :: "string \<Rightarrow> SourceKey" where
  "metric_source r = \<lparr>sk_Resource = \<lparr>gvr_Group = [], gvr_Version = ''v1'', gvr_Resource = r\<rparr>, sk_Namespace = []\<rparr>"

definition metric_kind :: "string \<Rightarrow> GroupVersionKind" where
  "metric_kind k = \<lparr>gvk_Group = [], gvk_Version = ''v1'', gvk_Kind = k\<rparr>"

definition metric_ref :: "string \<Rightarrow> string \<Rightarrow> ObjectRef" where
  "metric_ref k uid = no_ref\<lparr>or_GVK := metric_kind k, or_Name := ''n'', or_UID := uid\<rparr>"


definition metric_workload :: WorkloadResult where
  "metric_workload =
     \<lparr>wres_Record = \<lparr>wrec_UID = ''w1'', wrec_Ref = metric_ref ''Job'' ''w1'', wrec_Karta = ''k'', wrec_KartaSource = ''catalog'',
        wrec_OwnerResolution = Some Resolved, wrec_HasStatus = True, wrec_Phases = [''Running''], wrec_CreatedTimestamp = 7,
        wrec_StatusLabels = Map.empty\<rparr>,
      wres_HasValue = True, wres_Error = [], wres_StatusError = ReasonEvaluationFailed, wres_Sources = [metric_source ''jobs''],
      wres_CreationSources = [metric_source ''jobs'']\<rparr>"



section \<open>Cancellation\<close>

lemma kept_observed:
  "cn_observed (fold note_failure fs s) = cn_observed s" "cn_observed (fold (pod_failure gs v) ps s) = cn_observed s"
  "cn_observed (fold (workload_failure v) ws s) = cn_observed s"
proof -
  have keep: "cn_observed (fold step xs s) = cn_observed s" if "\<And>x s. cn_observed (step x s) = cn_observed s"
    for step :: "'z \<Rightarrow> collection \<Rightarrow> collection" and xs s
    by (induction xs arbitrary: s) (simp_all add: that)
  show "cn_observed (fold note_failure fs s) = cn_observed s" "cn_observed (fold (pod_failure gs v) ps s) = cn_observed s"
    "cn_observed (fold (workload_failure v) ws s) = cn_observed s"
    by (rule keep, simp add: pod_failure_def workload_failure_def note_failure_def put_failure_def add_discovery_def Let_def split: prod.split)+
qed

text \<open>A loop stops at the first of its questions that the context answers with an error.\<close>

lemma collect_each_first:
  assumes "\<And>x s. body x s = Some (step x s)"
  shows "collect_each ctx body xs t s = Some (case find (\<lambda>i. ctx i \<noteq> None) [t..<t + length xs] of
      None \<Rightarrow> (None, t + length xs, fold step xs s)
    | Some i \<Rightarrow> (ctx i, Suc i, fold step (take (i - t) xs) s))"
proof (induction xs arbitrary: t s)
  case (Cons x xs)
  have range: "[t..<t + length (x # xs)] = t # [Suc t..<Suc t + length xs]"
    by (subst upt_conv_Cons) (simp_all del: upt_Suc)
  show ?case
  proof (cases "ctx t")
    case None
    have "i \<ge> Suc t" if "find (\<lambda>i. ctx i \<noteq> None) [Suc t..<Suc t + length xs] = Some i" for i
      using that by (auto simp: find_Some_iff simp del: upt_Suc)
    then have "take (i - t) (x # xs) = x # take (i - Suc t) xs" if "find (\<lambda>i. ctx i \<noteq> None) [Suc t..<Suc t + length xs] = Some i" for i
      using that by (simp add: take_Cons' Suc_diff_le)
    with None show ?thesis unfolding range by (simp add: assms [of x s] Cons.IH [of "Suc t" "step x s"] split: option.split del: upt_Suc)
  next
    case (Some e)
    then show ?thesis unfolding range by simp
  qed
qed simp

lemma pods_first:
  "collect_each ctx (collect_pod gs v) ps t s = Some (case find (\<lambda>i. ctx i \<noteq> None) [t..<t + length ps] of
      None \<Rightarrow> (None, t + length ps, observed (concat (map (pod_observations v) ps)) (fold (pod_failure gs v) ps s))
    | Some i \<Rightarrow> (ctx i, Suc i,
        observed (concat (map (pod_observations v) (take (i - t) ps))) (fold (pod_failure gs v) (take (i - t) ps) s)))"
  using collect_each_first [where body = "collect_pod gs v" and step = "\<lambda>p s. observed (pod_observations v p) (pod_failure gs v p s)",
    OF collect_pod_total] by (simp only: fold_observed [OF failures_observed(1)])

lemma workloads_first:
  "collect_each ctx (collect_workload v) ws t s = Some (case find (\<lambda>i. ctx i \<noteq> None) [t..<t + length ws] of
      None \<Rightarrow> (None, t + length ws, observed (concat (map (workload_observations v) ws)) (fold (workload_failure v) ws s))
    | Some i \<Rightarrow> (ctx i, Suc i,
        observed (concat (map (workload_observations v) (take (i - t) ws))) (fold (workload_failure v) (take (i - t) ws) s)))"
  using collect_each_first [where body = "collect_workload v" and step = "\<lambda>w s. observed (workload_observations v w) (workload_failure v w s)",
    OF collect_workload_total] by (simp only: fold_observed [OF failures_observed(2)])

text \<open>What the rounds of a collection report: the sources before the first question after the start, then a Pod or a workload per question.\<close>

definition rounds :: "CapturedView \<Rightarrow> observation list list" where
  "rounds v = map (the \<circ> source_row v) (cv_Sources v) # map (pod_observations v) (cv_Pods v) @ map (workload_observations v) (cv_Workloads v)"

definition first_refusal :: "(nat \<Rightarrow> xerr option) \<Rightarrow> CapturedView \<Rightarrow> nat option" where
  "first_refusal ctx v = find (\<lambda>t. ctx t \<noteq> None) [0..<Suc (length (cv_Pods v) + length (cv_Workloads v))]"

lemma collect_rounds: "\<exists>rest. collect gs (\<lambda>t. None) v = Some (None, concat (rounds v) @ rest)"
  by (simp add: collect_total [of "\<lambda>t. None" gs v, OF refl] rounds_def)

lemma collect_first_error:
  "collect gs ctx v = (case first_refusal ctx v of
      None \<Rightarrow> collect gs (\<lambda>t. None) v
    | Some t \<Rightarrow> Some (ctx t, concat (take t (rounds v))))"
proof (cases "ctx 0")
  case (Some e)
  then have "first_refusal ctx v = Some 0" by (simp add: first_refusal_def upt_conv_Cons del: upt_Suc)
  with Some show ?thesis by (simp add: collect_def)
next
  case None
  let ?P = "length (cv_Pods v)" and ?W = "length (cv_Workloads v)" and ?err = "find (\<lambda>i. ctx i \<noteq> None)"
  let ?sources = "map (the \<circ> source_row v) (cv_Sources v)"
  let ?s = "fold note_failure (cv_Failures v) (observed ?sources \<lparr>cn_observed = [], cn_failures = [], cn_discovery = []\<rparr>)"
  define f1 where "f1 = ?err [1..<1 + ?P]"
  define f2 where "f2 = ?err [1 + ?P..<1 + ?P + ?W]"
  have "?err [0..<Suc (?P + ?W)] = (case f1 of None \<Rightarrow> f2 | Some t \<Rightarrow> Some t)"
    using None upt_conv_Cons [of 0 "Suc (?P + ?W)"] upt_add_eq_append [of 1 "1 + ?P" ?W]
    by (simp add: f1_def f2_def find_append cong: option.case_cong del: upt_Suc)
  then have first: "first_refusal ctx v = (case f1 of None \<Rightarrow> f2 | Some t \<Rightarrow> Some t)" by (simp only: first_refusal_def)
  have start: "cn_observed ?s = ?sources" by (simp add: kept_observed)
  note pods = pods_first [of ctx gs v "cv_Pods v" 1, folded f1_def, simplified] and workloads = workloads_first [of ctx v "cv_Workloads v" "1 + ?P", folded f2_def, simplified]
  note run = collect_def None emit_all_total [OF rows_total(1)] pods
  show ?thesis
  proof (cases f1)
    case (Some t)
    then have t: "1 \<le> t" "t \<le> ?P" "ctx t \<noteq> None" by (auto simp: f1_def find_Some_iff simp del: upt_Suc)
    then have "take t (rounds v) = ?sources # map (pod_observations v) (take (t - 1) (cv_Pods v))"
      by (simp add: rounds_def take_Cons' take_map)
    with Some t(3) show ?thesis by (auto simp: first run kept_observed)
  next
    case f1: None
    show ?thesis
    proof (cases f2)
      case (Some t)
      then have t: "1 + ?P \<le> t" "t \<le> ?P + ?W" "ctx t \<noteq> None" by (auto simp: f2_def find_Some_iff simp del: upt_Suc)
      then have "take t (rounds v) = ?sources # map (pod_observations v) (cv_Pods v) @ map (workload_observations v) (take (t - (1 + ?P)) (cv_Workloads v))"
        by (simp add: rounds_def take_Cons' take_map)
      with Some t(3) f1 show ?thesis using workloads by (auto simp: first run kept_observed)
    next
      case f2: None
      have "collect gs ctx v = Some (None, ?sources @ concat (map (pod_observations v) (cv_Pods v))
          @ concat (map (workload_observations v) (cv_Workloads v))
          @ map (the \<circ> failure_row) (cn_failures (final_failures gs v)) @ map (the \<circ> discovery_row) (cn_discovery (final_failures gs v)))"
        using f1 f2 workloads
        by (simp add: run collect_rest_total kept_observed fold_through note_observed failures_observed final_failures_def)
      with f1 f2 show ?thesis by (simp add: first collect_total [of "\<lambda>t. None" gs v, OF refl])
    qed
  qed
qed

lemma collect_prefix:
  assumes "collect gs ctx v = Some (e, os)"
  obtains rest where "collect gs (\<lambda>t. None) v = Some (None, os @ rest)"
proof (cases "first_refusal ctx v")
  case None
  from collect_rounds [of gs v] None assms that [of "[]"] show ?thesis by (auto simp: collect_first_error [of gs ctx])
next
  case (Some t)
  obtain rest where rest: "collect gs (\<lambda>t. None) v = Some (None, concat (rounds v) @ rest)" using collect_rounds by blast
  have "os = concat (take t (rounds v))" using Some assms by (simp add: collect_first_error [of gs ctx])
  then have "concat (rounds v) = os @ concat (drop t (rounds v))" by (metis append_take_drop_id concat_append)
  with rest that show ?thesis by simp
qed

text \<open>C38 A collection stops at the first of its questions to the context, one at the start and one before every Pod and every
  workload, that is answered with an error: it returns that error, without a panic, and has reported the rounds before the question and
  nothing else. When no question is answered with an error, later errors do not matter and it reports everything, the rounds of all
  Pods and workloads first.\<close>

theorem collect_cancelled:
  "collect gs ctx v = (case find (\<lambda>t. ctx t \<noteq> None) [0..<Suc (length (cv_Pods v) + length (cv_Workloads v))] of
      None \<Rightarrow> collect gs (\<lambda>t. None) v
    | Some t \<Rightarrow> Some (ctx t, concat (take t
        (map (the \<circ> source_row v) (cv_Sources v) # map (pod_observations v) (cv_Pods v) @ map (workload_observations v) (cv_Workloads v)))))
   \<and> (\<exists>rest. collect gs (\<lambda>t. None) v = Some (None, concat
        (map (the \<circ> source_row v) (cv_Sources v) # map (pod_observations v) (cv_Pods v) @ map (workload_observations v) (cv_Workloads v)) @ rest))"
  using collect_first_error [of gs ctx v] collect_rounds [of gs v] unfolding first_refusal_def rounds_def by (rule conjI)

section \<open>Series\<close>

text \<open>What tells the series of an instrument apart.\<close>

lemma pod_series:
  "pr_UID (pres_Record p) = uid \<Longrightarrow> o' \<in> set (pod_observations v p) \<Longrightarrow>
     ob_name o' = g_name podInfo \<and> ob_attributes o' LabelPodUID = Some uid"
  by (auto simp: pod_observations_def row_def gauge_defs label_defs pod_values_def identity_values_def Let_def split: if_splits)

lemma created_series:
  "ob_name (the (created_row w)) = g_name workloadCreated"
  "ob_attributes (the (created_row w)) LabelWorkloadUID = Some (wrec_UID (wres_Record w))"
  by (simp_all add: created_row_def observe_gauge_def gauge_defs label_defs Let_def)

lemma status_series:
  "ob_name (the (status_row v w phase)) = g_name workloadStatus"
  "ob_attributes (the (status_row v w phase)) LabelWorkloadUID = Some (wrec_UID (wres_Record w))"
  "ob_attributes (the (status_row v w phase)) LabelPhase = Some (ResourceStatus_string phase)"
  by (simp_all add: status_row_def observe_gauge_def gauge_defs label_defs status_values_def identity_values_def Let_def)

lemma source_series:
  "ob_name (the (source_row v (key, h))) = g_name observationValid"
  "ob_attributes (the (source_row v (key, h))) ''scope'' = Some ''resource_type''"
  "map (ob_attributes (the (source_row v (key, h)))) [LabelNamespace, LabelResourceGroup, LabelResourceVersion, LabelResourceKind]
     = map Some [sk_Namespace key, gvk_Group (sh_GVK h), gvk_Version (sh_GVK h), gvk_Kind (sh_GVK h)]"
  by (simp_all add: source_row_def observe_gauge_def gauge_defs label_defs Let_def split: prod.split)

lemma failure_series:
  "ob_name (the (failure_row f)) = g_name observationValid"
  "ob_attributes (the (failure_row f)) ''scope'' = Some ''workload''"
  "ob_attributes (the (failure_row f)) LabelWorkloadUID = Some (or_UID (wf_ref (snd f)))"
  by (simp_all add: failure_row_def observe_gauge_def gauge_defs label_defs Let_def)

lemma discovery_series:
  "ob_name (the (discovery_row d)) = g_name observationValid"
  "ob_attributes (the (discovery_row d)) ''scope'' = Some ''discovery''"
  "map (ob_attributes (the (discovery_row d))) [LabelNamespace, LabelResourceGroup, LabelResourceVersion, LabelResourceKind, LabelReason]
     = map Some [dfl_namespace d, gvk_Group (dfl_gvk d), gvk_Version (dfl_gvk d), gvk_Kind (dfl_gvk d), dfl_reason d]"
  by (simp_all add: discovery_row_def observe_gauge_def gauge_defs label_defs Let_def)

lemma gauge_names [simp]:
  "g_name podInfo = ''dsx_workload_pod_info''" "g_name workloadStatus = ''dsx_workload_status''"
  "g_name workloadCreated = ''dsx_workload_created_timestamp_seconds''" "g_name observationValid = ''dsx_exporter_observation_valid''"
  by (simp_all add: gauge_defs)

lemma distinct_map_via:
  assumes "distinct (map k xs)" "\<And>x. x \<in> set xs \<Longrightarrow> q (f x) = k x"
  shows "distinct (map f xs)"
proof -
  have "map k xs = map q (map f xs)" using assms(2) by simp
  with assms(1) show ?thesis by (metis distinct_map)
qed

lemma distinct_concat_via:
  assumes "distinct (map k xs)" "\<And>x. x \<in> set xs \<Longrightarrow> distinct (map p (f x))"
    and "\<And>x y. x \<in> set xs \<Longrightarrow> y \<in> set (f x) \<Longrightarrow> q (p y) = k x"
  shows "distinct (map p (concat (map f xs)))"
  using assms
proof (induction xs)
  case (Cons x xs)
  have "p y \<notin> p ` set (concat (map f xs))" if "y \<in> set (f x)" for y
  proof
    assume "p y \<in> p ` set (concat (map f xs))"
    then obtain x' z where x': "x' \<in> set xs" and "z \<in> set (f x')" "p y = p z" by auto
    with Cons.prems(3) [of x y] Cons.prems(3) [of x' z] that have "k x = k x'" by auto
    with x' have "k x \<in> k ` set xs" by blast
    with Cons.prems(1) show False by auto
  qed
  moreover have "distinct (map p (concat (map f xs)))" by (rule Cons.IH) (use Cons.prems in auto)
  ultimately show ?case using Cons.prems(2) by auto
qed simp

definition series :: "observation \<Rightarrow> string \<times> (string \<rightharpoonup> string)" where
  "series o' = (ob_name o', ob_attributes o')"

lemma workload_series:
  assumes "y \<in> set (workload_observations v w)"
  shows "ob_name y \<in> {g_name workloadCreated, g_name workloadStatus} \<and> ob_attributes y LabelWorkloadUID = Some (wrec_UID (wres_Record w))"
  using assms by (auto simp: workload_observations_def created_series status_series split: if_splits)

lemma workload_observations_distinct: "distinct (map series (workload_observations v w))"
proof -
  have "distinct (map series (map (the \<circ> status_row v w) allPhases))"
    by (simp only: map_map, rule distinct_map_via [where k = "Some \<circ> ResourceStatus_string" and q = "\<lambda>x. snd x LabelPhase"])
      (simp_all add: allPhases_def series_def status_series)
  moreover have "series (the (created_row w)) \<noteq> series (the (status_row v w phase))" for phase
    by (simp add: series_def created_series status_series gauge_defs)
  ultimately show ?thesis by (auto simp: workload_observations_def)
qed

text \<open>The series of everything but the sources are distinct, and differ from those of the sources.\<close>

lemma series_distinct:
  assumes "v = Capture (history calls)"
    and "\<And>w. w \<in> set (cv_Workloads v) \<Longrightarrow> or_UID (wrec_Ref (wres_Record w)) = wrec_UID (wres_Record w)"
    and "collect gs (\<lambda>t. None) v = Some (None, observations)"
  shows "\<exists>others. observations = map (the \<circ> source_row v) (cv_Sources v) @ others \<and> distinct (map series others)
    \<and> set (map series (map (the \<circ> source_row v) (cv_Sources v))) \<inter> set (map series others) = {}"
proof -
  note dist = captured_distinct [of calls, folded assms(1)]
  let ?fs = "cn_failures (final_failures gs v)" and ?ds = "cn_discovery (final_failures gs v)"
  have obs: "observations = map (the \<circ> source_row v) (cv_Sources v) @ concat (map (pod_observations v) (cv_Pods v))
      @ concat (map (workload_observations v) (cv_Workloads v)) @ map (the \<circ> failure_row) ?fs @ map (the \<circ> discovery_row) ?ds"
    using assms(3) collect_total [of "\<lambda>t. None" gs v, OF refl] by simp
  have pods: "distinct (map series (concat (map (pod_observations v) (cv_Pods v))))"
    by (rule distinct_concat_via [OF dist(1), where q = "\<lambda>p. the (snd p LabelPodUID)"])
      (simp add: pod_observations_def, simp add: series_def pod_series)
  have workloads: "distinct (map series (concat (map (workload_observations v) (cv_Workloads v))))"
  proof (rule distinct_concat_via [OF dist(2), where q = "\<lambda>p. the (snd p LabelWorkloadUID)"])
    fix w y assume "y \<in> set (workload_observations v w)"
    from workload_series [OF this] show "the (snd (series y) LabelWorkloadUID) = (wrec_UID \<circ> wres_Record) w" by (simp add: series_def)
  qed (rule workload_observations_distinct)
  have uid: "or_UID (wf_ref f) = uid" if "(uid, f) \<in> set ?fs" for uid f
  proof -
    have "distinct (map fst ?fs)" by (simp add: final_failures_def distinct_failures note_failures)
    with that have "map_of ?fs uid = Some f" by simp
    with final_failures_spec [OF dist(2), where gs = gs and uid = uid]
    have f: "\<forall>w \<in> set (cv_Workloads v). wrec_UID (wres_Record w) = uid \<longrightarrow> wf_ref f = wrec_Ref (wres_Record w)"
      "uid \<notin> (wrec_UID \<circ> wres_Record) ` set (cv_Workloads v) \<longrightarrow> wf_ref f \<in> pod_ref ` failing_pods v uid" by simp_all
    show ?thesis
    proof (cases "uid \<in> (wrec_UID \<circ> wres_Record) ` set (cv_Workloads v)")
      case True
      with f(1) assms(2) show ?thesis by auto
    next
      case False
      with f(2) show ?thesis by (auto simp: failing_pods_def failed_pods_def pod_ref_def split: if_splits)
    qed
  qed
  have failures: "distinct (map series (map (the \<circ> failure_row) ?fs))"
    by (simp only: map_map, rule distinct_map_via [where k = fst and q = "\<lambda>p. the (snd p LabelWorkloadUID)"])
      (use uid in \<open>auto simp: final_failures_def distinct_failures note_failures series_def failure_series\<close>)
  have discoveries: "distinct (map series (map (the \<circ> discovery_row) ?ds))"
  proof (simp only: map_map, rule distinct_map_via [where k = id and q = "\<lambda>p.
      \<lparr>dfl_gvk = \<lparr>gvk_Group = the (snd p LabelResourceGroup), gvk_Version = the (snd p LabelResourceVersion), gvk_Kind = the (snd p LabelResourceKind)\<rparr>,
       dfl_namespace = the (snd p LabelNamespace), dfl_reason = the (snd p LabelReason)\<rparr>"])
    fix d :: discoveryFailure
    show "\<lparr>dfl_gvk = \<lparr>gvk_Group = the (snd ((series \<circ> (the \<circ> discovery_row)) d) LabelResourceGroup),
          gvk_Version = the (snd ((series \<circ> (the \<circ> discovery_row)) d) LabelResourceVersion),
          gvk_Kind = the (snd ((series \<circ> (the \<circ> discovery_row)) d) LabelResourceKind)\<rparr>,
        dfl_namespace = the (snd ((series \<circ> (the \<circ> discovery_row)) d) LabelNamespace),
        dfl_reason = the (snd ((series \<circ> (the \<circ> discovery_row)) d) LabelReason)\<rparr> = id d"
      using discovery_series(3) [of d] by (simp add: series_def)
  qed (simp add: final_discovery)
  let ?kind = "\<lambda>p. (fst p, if fst p = g_name observationValid then snd p ''scope'' else None)"
  have kinds: "?kind ` set (map series (map (the \<circ> source_row v) (cv_Sources v))) \<subseteq> {(g_name observationValid, Some ''resource_type'')}"
    "?kind ` set (map series (concat (map (pod_observations v) (cv_Pods v)))) \<subseteq> {(g_name podInfo, None)}"
    "?kind ` set (map series (concat (map (workload_observations v) (cv_Workloads v)))) \<subseteq> {(g_name workloadCreated, None), (g_name workloadStatus, None)}"
    "?kind ` set (map series (map (the \<circ> failure_row) ?fs)) \<subseteq> {(g_name observationValid, Some ''workload'')}"
    "?kind ` set (map series (map (the \<circ> discovery_row) ?ds)) \<subseteq> {(g_name observationValid, Some ''discovery'')}"
    by (auto simp: series_def source_series failure_series discovery_series gauge_names dest: pod_series [OF refl] workload_series)
  have append: "distinct (map series (xs @ ys)) \<and> ?kind ` set (map series (xs @ ys)) \<subseteq> X \<union> Y"
    if "distinct (map series xs)" "?kind ` set (map series xs) \<subseteq> X" "distinct (map series ys) \<and> ?kind ` set (map series ys) \<subseteq> Y"
      "X \<inter> Y = {}" for xs ys X Y
  proof -
    have "set (map series xs) \<inter> set (map series ys) = {}" using that(2-4) by blast
    with that show ?thesis by (simp only: map_append distinct_append set_append image_Un) blast
  qed
  let ?others = "concat (map (pod_observations v) (cv_Pods v)) @ concat (map (workload_observations v) (cv_Workloads v))
    @ map (the \<circ> failure_row) ?fs @ map (the \<circ> discovery_row) ?ds"
  have "distinct (map series ?others) \<and> ?kind ` set (map series ?others) \<subseteq> {(g_name podInfo, None)}
      \<union> ({(g_name workloadCreated, None), (g_name workloadStatus, None)}
      \<union> ({(g_name observationValid, Some ''workload'')} \<union> {(g_name observationValid, Some ''discovery'')}))"
    by (rule append [OF pods kinds(2) append [OF workloads kinds(3) append [OF failures kinds(4) conjI [OF discoveries kinds(5)]]]])
      (simp_all add: gauge_names)
  note rest = this
  have apart: "X \<inter> Y = {}" if "?kind ` X \<subseteq> A" "?kind ` Y \<subseteq> B" "A \<inter> B = {}" for X Y A B
    using that by blast
  have "set (map series (map (the \<circ> source_row v) (cv_Sources v))) \<inter> set (map series ?others) = {}"
    by (rule apart [OF kinds(1) rest [THEN conjunct2]]) (simp add: gauge_names)
  then show ?thesis unfolding obs by (intro exI [of _ ?others] conjI refl rest [THEN conjunct1])
qed

lemma captured_workload:
  assumes "w \<in> set (cv_Workloads (Capture (history calls)))"
  shows "CUpsertWorkload w \<in> set calls"
proof -
  have "snd ` set (st_workloads (history calls)) = ran (map_of (st_workloads (history calls)))"
    using snd_ran [of "st_workloads (history calls)"] history_maps(2) [of calls] by simp
  with assms have "w \<in> ran (map_of (st_workloads (history calls)))" by (auto simp: Capture_def)
  then obtain uid where "last_workload (rev calls) uid = Some w" using history_maps(2) [of calls] by (auto simp: ran_def)
  moreover have "last_workload cs uid = Some w \<Longrightarrow> CUpsertWorkload w \<in> set cs" for cs
    by (induction cs) (auto split: store_call.splits if_splits)
  ultimately show ?thesis by force
qed

text \<open>C37 Whatever a collection reports, cancelled or not, no series is reported twice except by the sources: two observations of one
  instrument with the same attributes are the rows of two sources of one namespace with the same kind. This holds whatever labels the
  rules added, when every workload was published with a reference that carries the UID of its record.\<close>

theorem series_unique:
  assumes "v = Capture (history calls)"
    and "\<And>w. CUpsertWorkload w \<in> set calls \<Longrightarrow> or_UID (wrec_Ref (wres_Record w)) = wrec_UID (wres_Record w)"
    and "collect gs ctx v = Some (e, observations)" "i < j" "j < length observations"
    and "ob_name (observations ! i) = ob_name (observations ! j)" "ob_attributes (observations ! i) = ob_attributes (observations ! j)"
  shows "\<exists>s s'. s \<in> set (cv_Sources v) \<and> s' \<in> set (cv_Sources v) \<and> fst s \<noteq> fst s'
    \<and> sk_Namespace (fst s) = sk_Namespace (fst s') \<and> sh_GVK (snd s) = sh_GVK (snd s')
    \<and> observations ! i = the (source_row v s) \<and> observations ! j = the (source_row v s')"
proof -
  obtain rest where full: "collect gs (\<lambda>t. None) v = Some (None, observations @ rest)"
    by (rule collect_prefix [OF assms(3)])
  have "or_UID (wrec_Ref (wres_Record w)) = wrec_UID (wres_Record w)" if "w \<in> set (cv_Workloads v)" for w
    using assms(1,2) captured_workload that by blast
  from series_distinct [OF assms(1) this full] obtain others where o': "observations @ rest = map (the \<circ> source_row v) (cv_Sources v) @ others"
    "distinct (map series others)" "set (map series (map (the \<circ> source_row v) (cv_Sources v))) \<inter> set (map series others) = {}" by blast
  let ?all = "observations @ rest" and ?S = "cv_Sources v"
  have ij: "?all ! i = observations ! i" "?all ! j = observations ! j" "j < length ?all" using assms(4,5) by (simp_all add: nth_append)
  have same: "series (?all ! i) = series (?all ! j)" using assms(6,7) ij by (simp add: series_def)
  have len: "length ?all = length ?S + length others" unfolding o'(1) by simp
  have later: "?all ! k = others ! (k - length ?S) \<and> others ! (k - length ?S) \<in> set others" if "length ?S \<le> k" "k < length ?all" for k
    using that len unfolding o'(1) by (simp add: nth_append)
  have source: "?all ! k = the (source_row v (?S ! k)) \<and> ?S ! k \<in> set ?S" if "k < length ?S" for k
    using that unfolding o'(1) by (simp add: nth_append)
  have j: "j < length ?S"
  proof (rule ccontr)
    assume "\<not> j < length ?S"
    then have j: "length ?S \<le> j" by simp
    show False
    proof (cases "i < length ?S")
      case True
      then have "series (?all ! i) \<in> set (map series (map (the \<circ> source_row v) ?S))" using source [OF True] by auto
      moreover have "series (?all ! j) \<in> set (map series others)" using later [OF j ij(3)] by auto
      ultimately show False using o'(3) same by auto
    next
      case False
      then have "map series others ! (i - length ?S) = map series others ! (j - length ?S)"
        using same later [of i] later [OF j ij(3)] assms(4) ij(3) len by simp
      moreover have "i - length ?S < length others" "j - length ?S < length others" "i - length ?S \<noteq> j - length ?S"
        using False assms(4) ij(3) j len by linarith+
      ultimately show False using nth_eq_iff_index_eq [OF o'(2)] by simp
    qed
  qed
  with assms(4) have i: "i < length ?S" by simp
  have "distinct (map fst ?S)" using captured_distinct(3) [of calls] assms(1) by simp
  then have keys: "fst (?S ! i) \<noteq> fst (?S ! j)" using i j assms(4) by (simp add: distinct_conv_nth)
  have "map (ob_attributes (the (source_row v (?S ! i)))) ls = map (ob_attributes (the (source_row v (?S ! j)))) ls" for ls
    using same source [OF i] source [OF j] by (simp add: series_def)
  from this [of "[LabelNamespace, LabelResourceGroup, LabelResourceVersion, LabelResourceKind]"]
  have "sk_Namespace (fst (?S ! i)) = sk_Namespace (fst (?S ! j)) \<and> sh_GVK (snd (?S ! i)) = sh_GVK (snd (?S ! j))"
    using source_series(3) [of v "fst (?S ! i)" "snd (?S ! i)"] source_series(3) [of v "fst (?S ! j)" "snd (?S ! j)"] by simp
  with keys source [OF i] source [OF j] ij show ?thesis by metis
qed

text \<open>Two resources of one kind.\<close>

definition twin_calls :: "store_call list" where
  "twin_calls =
     [CSetSourceHealth (metric_source ''jobs'') \<lparr>sh_GVK = metric_kind ''Job'', sh_Synced = True, sh_Error = []\<rparr>,
      CSetSourceHealth (metric_source ''oldjobs'') \<lparr>sh_GVK = metric_kind ''Job'', sh_Synced = True, sh_Error = []\<rparr>,
      CUpsertWorkload metric_workload]"

theorem series_unique_witness:
  "\<exists>s s'. s \<in> set (cv_Sources (Capture (history twin_calls))) \<and> s' \<in> set (cv_Sources (Capture (history twin_calls))) \<and> fst s \<noteq> fst s'"
proof -
  let ?v = "Capture (history twin_calls)"
  obtain observations where c: "collect gvk_Kind (\<lambda>t. None) ?v = Some (None, observations)"
    "observations = map (the \<circ> source_row ?v) (cv_Sources ?v) @ drop 2 observations"
  proof -
    have "length (cv_Sources ?v) = 2" by code_simp
    with collect_total [of "\<lambda>t. None" gvk_Kind ?v, OF refl] that show thesis by simp
  qed
  have two: "length (cv_Sources ?v) = 2" by code_simp
  then have len: "(1::nat) < length observations" using c(2) by (metis length_append length_map less_add_same_cancel1 one_less_numeral_iff
    semiring_norm(76) trans_less_add1)
  have "Valid ?v [fst (cv_Sources ?v ! k)] [] = (True, ReasonNone) \<and> sk_Namespace (fst (cv_Sources ?v ! k)) = []
      \<and> sh_GVK (snd (cv_Sources ?v ! k)) = metric_kind ''Job''" if "k \<in> {0, 1}" for k
    using that by (elim insertE emptyE; hypsubst; code_simp)
  from this [of 0] this [of 1] have rows: "source_row ?v (cv_Sources ?v ! 0) = source_row ?v (cv_Sources ?v ! 1)"
    by (simp add: source_row_def case_prod_beta)
  have nth: "observations ! k = the (source_row ?v (cv_Sources ?v ! k))" if "k < 2" for k
    using that two by (subst c(2)) (simp add: nth_append)
  have refs: "or_UID (wrec_Ref (wres_Record w)) = wrec_UID (wres_Record w)" if "CUpsertWorkload w \<in> set twin_calls" for w
    using that by (auto simp: twin_calls_def metric_workload_def metric_ref_def)
  from series_unique [OF refl refs c(1) zero_less_one len] rows show ?thesis by (simp add: nth) blast
qed

end
