(* ===== verification/Operator_Reconciler.thy ===== *)
theory Operator_Reconciler
  imports Exporter_Prelude Karta_Validation
begin

text \<open>
  \<^verbatim>\<open>operator/pkg/{status,controller,cache}.go\<close>: the reconciler that writes the conditions and the index labels of a Karta. Paths are
  relative to \<^verbatim>\<open>src\<close>. The client of the API server and the recorder of events act on a world \<open>'w\<close>; the lists of conditions are read and
  written by the functions of package \<^verbatim>\<open>apimeta\<close>. Both are parameters, with their documented laws as locales. Log lines are left out.
\<close>

section \<open>Data\<close>

datatype ConditionStatus = ConditionTrue | ConditionFalse | ConditionUnknown

text \<open>metav1.Condition; LastTransitionTime is read and written by \<^verbatim>\<open>apimeta\<close> only and left out.\<close>

record StatusCondition =
  cond_Type :: string
  cond_Status :: ConditionStatus
  cond_Reason :: string
  cond_Message :: string
  cond_ObservedGeneration :: int

text \<open>A Karta with the metadata and the status that the operator reads. Missing labels are an empty map.\<close>

record KartaResource =
  kr_karta :: Karta
  kr_Labels :: "string \<rightharpoonup> string"
  kr_Generation :: int
  kr_DeletionTimestamp :: "int option"
  kr_Conditions :: "StatusCondition list"

text \<open>A CustomResourceDefinition: the fields the operator reads, and all others as \<open>Rest\<close>.\<close>

record CRDVersion =
  cdv_Name :: string
  cdv_Served :: bool
  cdv_Rest :: string

record CustomResourceDefinition =
  crd_Name :: string
  crd_ResourceVersion :: string
  crd_Generation :: int
  crd_Group :: string
  crd_Kind :: string
  crd_Versions :: "CRDVersion list"
  crd_Rest :: string

definition crd_GroupKind :: "CustomResourceDefinition \<Rightarrow> GroupKind" where
  "crd_GroupKind crd = (crd_Group crd, crd_Kind crd)"

text \<open>
  The libraries: gojq's parser, the texts of errors, of kinds and of formats, and the two functions of \<^verbatim>\<open>apimeta\<close>.
\<close>

record operatorlib =
  ol_parse :: "string \<Rightarrow> goerr + ast"
  ol_Error :: "goerr \<Rightarrow> string"
  ol_gkString :: "GroupKind \<Rightarrow> string"
  ol_gvkString :: "GroupVersionKind \<Rightarrow> string"
  ol_Sprintf :: "string \<Rightarrow> fmtarg list \<Rightarrow> string"
  ol_SetStatusCondition :: "StatusCondition \<Rightarrow> StatusCondition list \<Rightarrow> StatusCondition list"
  ol_FindStatusCondition :: "StatusCondition list \<Rightarrow> string \<Rightarrow> StatusCondition option"

text \<open>
  The client: Get by name; Patch with the base and the object in memory, which sends their difference and answers with what the object in
  memory is afterwards; the same for the status; List of the CRDs under a key of the index; and the recorder.
\<close>

record 'w karta_client =
  kc_Get :: "string \<Rightarrow> 'w \<Rightarrow> KartaResource xres \<times> 'w"
  kc_Patch :: "KartaResource \<Rightarrow> KartaResource \<Rightarrow> 'w \<Rightarrow> KartaResource xres \<times> 'w"
  kc_StatusPatch :: "KartaResource \<Rightarrow> KartaResource \<Rightarrow> 'w \<Rightarrow> KartaResource xres \<times> 'w"
  kc_ListCRDs :: "string \<Rightarrow> 'w \<Rightarrow> CustomResourceDefinition list xres \<times> 'w"
  kc_Eventf :: "KartaResource \<Rightarrow> string \<Rightarrow> string \<Rightarrow> string \<Rightarrow> 'w \<Rightarrow> 'w"

section \<open>Conditions\<close>

definition ConditionValidated :: string where "ConditionValidated = ''Validated''"
definition ConditionCRDExists :: string where "ConditionCRDExists = ''CRDExists''"
definition ConditionReady :: string where "ConditionReady = ''Ready''"

lemmas condition_types = ConditionValidated_def ConditionCRDExists_def ConditionReady_def

definition msgValidationFailed :: string where "msgValidationFailed = ''Karta validation failed''"

definition msgCRDNotFound :: string where
  "msgCRDNotFound = ''CustomResourceDefinition for the root component GVK does not exist in the cluster or does not serve the referenced version''"

definition msgNotReady :: string where "msgNotReady = ''Validated and CRDExists must both be True''"
definition msgPending :: string where "msgPending = ''Condition has not been evaluated yet''"

definition reasonForBool :: "ConditionStatus \<Rightarrow> string \<Rightarrow> string \<Rightarrow> string" where
  "reasonForBool status trueReason falseReason = (if status = ConditionTrue then trueReason else falseReason)"

definition msgWhenFalse :: "ConditionStatus \<Rightarrow> string \<Rightarrow> string" where
  "msgWhenFalse status fallback = (if status = ConditionTrue then [] else fallback)"

definition validated_condition :: "int \<Rightarrow> ConditionStatus \<Rightarrow> string \<Rightarrow> StatusCondition" where
  "validated_condition generation s msg =
     (let msg' = (if s = ConditionFalse \<and> msg = [] then msgValidationFailed else msg)
      in \<lparr>cond_Type = ConditionValidated, cond_Status = s, cond_Reason = reasonForBool s ''ValidationSucceeded'' ''ValidationFailed'',
          cond_Message = msgWhenFalse s msg', cond_ObservedGeneration = generation\<rparr>)"

definition setValidated :: "operatorlib \<Rightarrow> int \<Rightarrow> ConditionStatus \<Rightarrow> string \<Rightarrow> StatusCondition list \<Rightarrow> StatusCondition list" where
  "setValidated L generation s msg conds = ol_SetStatusCondition L (validated_condition generation s msg) conds"

definition crd_condition :: "int \<Rightarrow> ConditionStatus \<Rightarrow> string \<Rightarrow> StatusCondition" where
  "crd_condition generation s msg =
     (let msg' = (if s = ConditionFalse \<and> msg = [] then msgCRDNotFound else msg)
      in \<lparr>cond_Type = ConditionCRDExists, cond_Status = s, cond_Reason = reasonForBool s ''CRDFound'' ''CRDNotFound'',
          cond_Message = msgWhenFalse s msg', cond_ObservedGeneration = generation\<rparr>)"

definition setCRDExists :: "operatorlib \<Rightarrow> int \<Rightarrow> ConditionStatus \<Rightarrow> string \<Rightarrow> StatusCondition list \<Rightarrow> StatusCondition list" where
  "setCRDExists L generation s msg conds = ol_SetStatusCondition L (crd_condition generation s msg) conds"

definition statusOf :: "operatorlib \<Rightarrow> StatusCondition list \<Rightarrow> string \<Rightarrow> ConditionStatus" where
  "statusOf L conds t = (case ol_FindStatusCondition L conds t of Some c \<Rightarrow> cond_Status c | None \<Rightarrow> ConditionFalse)"

definition ready_condition :: "int \<Rightarrow> bool \<Rightarrow> StatusCondition" where
  "ready_condition generation r =
     \<lparr>cond_Type = ConditionReady, cond_Status = (if r then ConditionTrue else ConditionFalse),
      cond_Reason = (if r then ''Ready'' else ''NotReady''), cond_Message = (if r then [] else msgNotReady),
      cond_ObservedGeneration = generation\<rparr>"

definition setReady :: "operatorlib \<Rightarrow> int \<Rightarrow> StatusCondition list \<Rightarrow> StatusCondition list" where
  "setReady L generation conds =
     ol_SetStatusCondition L
       (ready_condition generation
          (statusOf L conds ConditionValidated = ConditionTrue \<and> statusOf L conds ConditionCRDExists = ConditionTrue)) conds"

definition pending_condition :: "int \<Rightarrow> string \<Rightarrow> StatusCondition" where
  "pending_condition generation t =
     \<lparr>cond_Type = t, cond_Status = ConditionFalse, cond_Reason = ''Pending'', cond_Message = msgPending, cond_ObservedGeneration = generation\<rparr>"

fun default_conditions :: "operatorlib \<Rightarrow> int \<Rightarrow> string list \<Rightarrow> StatusCondition list \<Rightarrow> StatusCondition list" where
  "default_conditions L generation [] conds = conds"
| "default_conditions L generation (t # ts) conds =
     default_conditions L generation ts
       (if ol_FindStatusCondition L conds t \<noteq> None then conds
        else ol_SetStatusCondition L (pending_condition generation t) conds)"

definition setDefaultConditions :: "operatorlib \<Rightarrow> int \<Rightarrow> StatusCondition list \<Rightarrow> StatusCondition list" where
  "setDefaultConditions L generation = default_conditions L generation [ConditionValidated, ConditionCRDExists, ConditionReady]"

section \<open>Kinds and labels\<close>

definition LabelRootGroup :: string where "LabelRootGroup = ''karta.run.ai/group''"
definition LabelRootVersion :: string where "LabelRootVersion = ''karta.run.ai/version''"
definition LabelRootKind :: string where "LabelRootKind = ''karta.run.ai/kind''"

lemmas root_labels = LabelRootGroup_def LabelRootVersion_def LabelRootKind_def

definition rootGVK :: "KartaResource \<Rightarrow> GroupVersionKind option" where
  "rootGVK k = cd_Kind (root_of (kr_karta k))"

text \<open>The index of the Kartas by the kind of their root, and that of the CRDs by group and kind.\<close>

definition indexKartaByRootGVK :: "operatorlib \<Rightarrow> KartaResource \<Rightarrow> string list" where
  "indexKartaByRootGVK L k = (case rootGVK k of None \<Rightarrow> [] | Some gvk \<Rightarrow> [ol_gvkString L gvk])"

definition crd_index :: "operatorlib \<Rightarrow> CustomResourceDefinition \<Rightarrow> string list" where
  "crd_index L crd = [ol_gkString L (crd_GroupKind crd)]"

definition desiredRootLabels :: "KartaResource \<Rightarrow> (string \<times> string) list option" where
  "desiredRootLabels k =
     (case rootGVK k of
        None \<Rightarrow> None
      | Some gvk \<Rightarrow> Some [(LabelRootGroup, gvk_Group gvk), (LabelRootVersion, gvk_Version gvk), (LabelRootKind, gvk_Kind gvk)])"

text \<open>A missing label reads as the empty string.\<close>

definition labelsMatch :: "(string \<rightharpoonup> string) \<Rightarrow> (string \<times> string) list \<Rightarrow> bool" where
  "labelsMatch current desired \<longleftrightarrow> (\<forall>(k, v) \<in> set desired. (case current k of None \<Rightarrow> [] | Some x \<Rightarrow> x) = v)"

definition put_labels :: "(string \<times> string) list \<Rightarrow> KartaResource \<Rightarrow> KartaResource" where
  "put_labels desired k = k\<lparr>kr_Labels := foldl (\<lambda>m (l, v). m(l \<mapsto> v)) (kr_Labels k) desired\<rparr>"

section \<open>Served kinds\<close>

definition crdServesVersion :: "CustomResourceDefinition \<Rightarrow> string \<Rightarrow> bool" where
  "crdServesVersion crd version \<longleftrightarrow> (\<exists>v \<in> set (crd_Versions crd). cdv_Name v = version \<and> cdv_Served v)"

definition checkGVKServed ::
  "operatorlib \<Rightarrow> 'w karta_client \<Rightarrow> GroupVersionKind set \<Rightarrow> GroupVersionKind \<Rightarrow> 'w \<Rightarrow> bool xres \<times> 'w" where
  "checkGVKServed L C nativeGVKs gvk w =
     (if gvk \<in> nativeGVKs then (Inr True, w)
      else case kc_ListCRDs C (ol_gkString L (GroupKind_of gvk)) w of
             (Inl e, w') \<Rightarrow> (Inl (XWrapf ''list CRDs: %w'' [] [e]), w')
           | (Inr items, w') \<Rightarrow> (Inr (\<exists>crd \<in> set items. crdServesVersion crd (gvk_Version gvk)), w'))"

text \<open>What discovery lists: a group and version with its resources.\<close>

record APIResource =
  ar_Name :: string
  ar_Kind :: string
  ar_Verbs :: "string list"

record APIResourceList =
  arl_GroupVersion :: string
  arl_APIResources :: "APIResource list"

definition native_resource :: "GroupKind set \<Rightarrow> string \<Rightarrow> APIResource \<Rightarrow> bool" where
  "native_resource crdGKs grp res \<longleftrightarrow>
     CHR ''/'' \<notin> set (ar_Name res) \<and> (grp, ar_Kind res) \<notin> crdGKs
     \<and> ''list'' \<in> set (ar_Verbs res) \<and> ''watch'' \<in> set (ar_Verbs res)"

fun native_resources :: "GroupKind set \<Rightarrow> string \<times> string \<Rightarrow> APIResource list \<Rightarrow> GroupVersionKind set \<Rightarrow> GroupVersionKind set" where
  "native_resources crdGKs gv [] natives = natives"
| "native_resources crdGKs gv (res # rest) natives =
     native_resources crdGKs gv rest
       (if native_resource crdGKs (fst gv) res
        then insert \<lparr>gvk_Group = fst gv, gvk_Version = snd gv, gvk_Kind = ar_Kind res\<rparr> natives else natives)"

fun native_lists ::
  "(string \<Rightarrow> (string \<times> string) xres) \<Rightarrow> GroupKind set \<Rightarrow> APIResourceList list \<Rightarrow> GroupVersionKind set \<Rightarrow> GroupVersionKind set" where
  "native_lists parseGV crdGKs [] natives = natives"
| "native_lists parseGV crdGKs (l # ls) natives =
     native_lists parseGV crdGKs ls
       (case parseGV (arl_GroupVersion l) of Inl e \<Rightarrow> natives | Inr gv \<Rightarrow> native_resources crdGKs gv (arl_APIResources l) natives)"

text \<open>\<open>listed\<close> is the answer to the List of all CRDs, \<open>resources\<close> what ServerGroupsAndResources returns: lists and an error.\<close>

definition discoverNativeGVKs ::
  "(string \<Rightarrow> (string \<times> string) xres) \<Rightarrow> (xerr \<Rightarrow> bool) \<Rightarrow> CustomResourceDefinition list xres \<Rightarrow> APIResourceList list \<times> xerr option
     \<Rightarrow> GroupVersionKind set xres" where
  "discoverNativeGVKs parseGV IsGroupDiscoveryFailedError listed resources =
     (case listed of
        Inl e \<Rightarrow> Inl (XWrapf ''list CRDs: %w'' [] [e])
      | Inr crds \<Rightarrow>
          (let crdGKs = set (map crd_GroupKind crds) in
           case resources of
             (lsts, Some e) \<Rightarrow>
               if \<not> IsGroupDiscoveryFailedError e then Inl (XWrapf ''list server resources: %w'' [] [e])
               else Inr (native_lists parseGV crdGKs lsts {})
           | (lsts, None) \<Rightarrow> Inr (native_lists parseGV crdGKs lsts {})))"

text \<open>
  The set-up: the answers to the construction of the discovery client, to discovery, to the two registrations of an index and to that of
  the controller; and the built-in kinds, none before.
\<close>

definition SetupWithManager ::
  "xerr option \<Rightarrow> GroupVersionKind set xres \<Rightarrow> xerr option \<Rightarrow> xerr option \<Rightarrow> xerr option \<Rightarrow> xerr option \<times> GroupVersionKind set" where
  "SetupWithManager client discovered crdIndex kartaIndex completed =
     (case client of
        Some e \<Rightarrow> (Some (XWrapf ''create discovery client: %w'' [] [e]), {})
      | None \<Rightarrow>
          (case discovered of
             Inl e \<Rightarrow> (Some (XWrapf ''discover natives GVKs: %w'' [] [e]), {})
           | Inr natives \<Rightarrow>
               (case crdIndex of
                  Some e \<Rightarrow> (Some (XWrapf ''index CRDs by %s: %w'' [AStr ''spec.group+spec.names.kind''] [e]), natives)
                | None \<Rightarrow>
                    (case kartaIndex of
                       Some e \<Rightarrow> (Some (XWrapf ''index Kartas by %s: %w'' [AStr ''spec.rootComponent.gvk''] [e]), natives)
                     | None \<Rightarrow> (completed, natives)))))"

section \<open>Reconcile\<close>

definition validateKarta :: "operatorlib \<Rightarrow> 'w karta_client \<Rightarrow> KartaResource \<Rightarrow> 'w \<Rightarrow> KartaResource \<times> 'w" where
  "validateKarta L C k w =
     (case Validate (ol_parse L) (Some (kr_karta k)) of
        Some e \<Rightarrow>
          (k\<lparr>kr_Conditions := setValidated L (kr_Generation k) ConditionFalse (ol_Error L e) (kr_Conditions k)\<rparr>,
           kc_Eventf C k ''ValidationFailed'' ''Validating'' (ol_Error L e) w)
      | None \<Rightarrow> (k\<lparr>kr_Conditions := setValidated L (kr_Generation k) ConditionTrue [] (kr_Conditions k)\<rparr>, w))"

definition crd_message :: "operatorlib \<Rightarrow> GroupVersionKind \<Rightarrow> string" where
  "crd_message L gvk = ol_Sprintf L ''CRD for %s/%s not found or does not serve version %s''
     [AStr (gvk_Group gvk), AStr (gvk_Kind gvk), AStr (gvk_Version gvk)]"

definition checkCRDExists ::
  "operatorlib \<Rightarrow> 'w karta_client \<Rightarrow> GroupVersionKind set \<Rightarrow> KartaResource \<Rightarrow> 'w \<Rightarrow> xerr option \<times> KartaResource \<times> 'w" where
  "checkCRDExists L C nativeGVKs k w =
     (case rootGVK k of
        None \<Rightarrow> (None, k\<lparr>kr_Conditions := setCRDExists L (kr_Generation k) ConditionFalse [] (kr_Conditions k)\<rparr>, w)
      | Some gvk \<Rightarrow>
          (case checkGVKServed L C nativeGVKs gvk w of
             (Inl e, w') \<Rightarrow> (Some (XWrapf ''check CRD existence for karta %q: %w'' [AStr (k_Name (kr_karta k))] [e]), k, w')
           | (Inr True, w') \<Rightarrow> (None, k\<lparr>kr_Conditions := setCRDExists L (kr_Generation k) ConditionTrue [] (kr_Conditions k)\<rparr>, w')
           | (Inr False, w') \<Rightarrow>
               (let msg = crd_message L gvk
                in (None, k\<lparr>kr_Conditions := setCRDExists L (kr_Generation k) ConditionFalse msg (kr_Conditions k)\<rparr>,
                    kc_Eventf C k ''CRDNotFound'' ''CheckingCRD'' msg w'))))"

text \<open>The client decodes the answer of Patch into the object in memory, which is the second argument of Patch.\<close>

definition ensureLabels :: "'w karta_client \<Rightarrow> KartaResource \<Rightarrow> 'w \<Rightarrow> xerr option \<times> KartaResource \<times> 'w" where
  "ensureLabels C k w =
     (case desiredRootLabels k of
        None \<Rightarrow> (None, k, w)
      | Some desired \<Rightarrow>
          if labelsMatch (kr_Labels k) desired then (None, k, w)
          else (case kc_Patch C k (put_labels desired k) w of
                  (Inl e, w') \<Rightarrow> (Some (XWrapf ''patch labels for karta %q: %w'' [AStr (k_Name (kr_karta k))] [e]), put_labels desired k, w')
                | (Inr k', w') \<Rightarrow> (None, k', w')))"

definition reconcile ::
  "operatorlib \<Rightarrow> 'w karta_client \<Rightarrow> GroupVersionKind set \<Rightarrow> KartaResource \<Rightarrow> 'w \<Rightarrow> xerr option \<times> KartaResource \<times> 'w" where
  "reconcile L C nativeGVKs k w =
     (let k1 = k\<lparr>kr_Conditions := setDefaultConditions L (kr_Generation k) (kr_Conditions k)\<rparr>;
          (k2, w2) = validateKarta L C k1 w
      in case checkCRDExists L C nativeGVKs k2 w2 of
           (Some e, k3, w3) \<Rightarrow> (Some e, k3, w3)
         | (None, k3, w3) \<Rightarrow>
             (case ensureLabels C k3 w3 of
                (Some e, k4, w4) \<Rightarrow> (Some e, k4, w4)
              | (None, k4, w4) \<Rightarrow> (None, k4\<lparr>kr_Conditions := setReady L (kr_Generation k4) (kr_Conditions k4)\<rparr>, w4)))"

definition Reconcile :: "operatorlib \<Rightarrow> 'w karta_client \<Rightarrow> GroupVersionKind set \<Rightarrow> string \<Rightarrow> 'w \<Rightarrow> xerr option \<times> 'w" where
  "Reconcile L C nativeGVKs name w =
     (case kc_Get C name w of
        (Inl e, w1) \<Rightarrow> (if IsNotFound e then None else Some (XWrapf ''get karta %q: %w'' [AStr name] [e]), w1)
      | (Inr base, w1) \<Rightarrow>
          if kr_DeletionTimestamp base \<noteq> None then (None, w1)
          else
            (let (err, k, w2) = reconcile L C nativeGVKs base w1
             in case kc_StatusPatch C base k w2 of
                  (Inr k', w3) \<Rightarrow> (err, w3)
                | (Inl e, w3) \<Rightarrow>
                    (join_errors ((case err of None \<Rightarrow> [] | Some e' \<Rightarrow> [e'])
                       @ [XWrapf ''failed to update status for karta %q: %w'' [AStr (k_Name (kr_karta k))] [e]]), w3)))"

text \<open>\<^verbatim>\<open>cache.go\<close>: what the cache keeps of a CRD.\<close>

definition TrimCRDFields :: "CustomResourceDefinition \<Rightarrow> CustomResourceDefinition" where
  "TrimCRDFields crd =
     \<lparr>crd_Name = crd_Name crd, crd_ResourceVersion = crd_ResourceVersion crd, crd_Generation = crd_Generation crd,
      crd_Group = crd_Group crd, crd_Kind = crd_Kind crd,
      crd_Versions = map (\<lambda>v. \<lparr>cdv_Name = cdv_Name v, cdv_Served = cdv_Served v, cdv_Rest = []\<rparr>) (crd_Versions crd), crd_Rest = []\<rparr>"

section \<open>Contracts\<close>

text \<open>
  What \<^verbatim>\<open>apimeta\<close> promises: after a condition was set it is found under its type, no other one changed, and setting a condition again
  changes nothing.
\<close>

locale status_conditions =
  fixes Set :: "StatusCondition \<Rightarrow> StatusCondition list \<Rightarrow> StatusCondition list"
    and Find :: "StatusCondition list \<Rightarrow> string \<Rightarrow> StatusCondition option"
  assumes find_set: "Find (Set c conds) t = (if t = cond_Type c then Some c else Find conds t)"
    and set_same: "Find conds (cond_Type c) = Some c \<Longrightarrow> Set c conds = conds"

text \<open>The list functions: the first condition of the type is replaced, or a new one is appended.\<close>

fun set_condition :: "StatusCondition \<Rightarrow> StatusCondition list \<Rightarrow> StatusCondition list" where
  "set_condition c [] = [c]"
| "set_condition c (d # ds) = (if cond_Type d = cond_Type c then c # ds else d # set_condition c ds)"

fun find_condition :: "StatusCondition list \<Rightarrow> string \<Rightarrow> StatusCondition option" where
  "find_condition [] t = None"
| "find_condition (d # ds) t = (if cond_Type d = t then Some d else find_condition ds t)"

interpretation condition_list: status_conditions set_condition find_condition
proof
  show "find_condition (set_condition c conds) t = (if t = cond_Type c then Some c else find_condition conds t)" for c conds t
    by (induction conds) auto
  show "find_condition conds (cond_Type c) = Some c \<Longrightarrow> set_condition c conds = conds" for c conds
    by (induction conds) (auto split: if_splits)
qed

text \<open>
  What the client promises, over the Kartas that the server \<open>stored\<close> and its \<open>crds\<close>: it reads what is stored, and lists what there is,
  without the delay of a cache; a Patch merges the labels that differ from the base into the stored object; the answer of the server is decoded into the object in
  memory, where a field that the answer does not have stays as it is: an object without conditions is sent without them, and labels are
  added to those in memory; a Patch of the status replaces the conditions if they differ from those of the base; only these two calls
  change what is stored. Any call may fail.
\<close>

definition decoded_into :: "KartaResource \<Rightarrow> KartaResource \<Rightarrow> KartaResource" where
  "decoded_into k answer = answer\<lparr>kr_Labels := kr_Labels k ++ kr_Labels answer,
     kr_DeletionTimestamp := (if kr_DeletionTimestamp answer = None then kr_DeletionTimestamp k else kr_DeletionTimestamp answer),
     kr_Conditions := (if kr_Conditions answer = [] then kr_Conditions k else kr_Conditions answer)\<rparr>"

definition merge_labels :: "KartaResource \<Rightarrow> KartaResource \<Rightarrow> KartaResource \<Rightarrow> KartaResource" where
  "merge_labels base k s = s\<lparr>kr_Labels := (\<lambda>l. if kr_Labels k l = kr_Labels base l then kr_Labels s l else kr_Labels k l)\<rparr>"

definition merge_conditions :: "KartaResource \<Rightarrow> KartaResource \<Rightarrow> KartaResource \<Rightarrow> KartaResource" where
  "merge_conditions base k s = (if kr_Conditions k = kr_Conditions base then s else s\<lparr>kr_Conditions := kr_Conditions k\<rparr>)"

locale api_client =
  fixes C :: "'w karta_client" and stored :: "'w \<Rightarrow> string \<rightharpoonup> KartaResource" and crds :: "'w \<Rightarrow> CustomResourceDefinition list"
    and index :: "CustomResourceDefinition \<Rightarrow> string list"
  assumes get_reads: "kc_Get C name w = (Inr k, w') \<Longrightarrow> stored w name = Some k \<and> k_Name (kr_karta k) = name"
    and get_keeps: "kc_Get C name w = (r, w') \<Longrightarrow> stored w' = stored w \<and> crds w' = crds w"
    and patch_merges: "kc_Patch C base k w = (Inr k', w') \<Longrightarrow> stored w (k_Name (kr_karta base)) = Some s
           \<Longrightarrow> stored w' = (stored w)(k_Name (kr_karta base) \<mapsto> merge_labels base k s)"
    and patch_decodes: "kc_Patch C base k w = (Inr k', w') \<Longrightarrow> stored w (k_Name (kr_karta base)) = Some s
           \<Longrightarrow> kr_karta s = kr_karta k \<Longrightarrow> k' = decoded_into k (merge_labels base k s)"
    and patch_keeps: "kc_Patch C base k w = (r, w') \<Longrightarrow> crds w' = crds w"
    and status_merges: "kc_StatusPatch C base k w = (Inr k', w') \<Longrightarrow> stored w (k_Name (kr_karta base)) = Some s
           \<Longrightarrow> stored w' = (stored w)(k_Name (kr_karta base) \<mapsto> merge_conditions base k s)"
    and status_keeps: "kc_StatusPatch C base k w = (r, w') \<Longrightarrow> crds w' = crds w"
    and list_reads: "kc_ListCRDs C key w = (Inr items, w') \<Longrightarrow> set items = {crd \<in> set (crds w). key \<in> set (index crd)}"
    and list_keeps: "kc_ListCRDs C key w = (r', w') \<Longrightarrow> stored w' = stored w \<and> crds w' = crds w"
    and event_keeps: "stored (kc_Eventf C k a b c w) = stored w \<and> crds (kc_Eventf C k a b c w) = crds w"

text \<open>A server that answers every call.\<close>

record server =
  sv_kartas :: "string \<rightharpoonup> KartaResource"
  sv_crds :: "CustomResourceDefinition list"
  sv_events :: "(string \<times> string) list"

definition missing_object :: "string \<Rightarrow> xerr" where
  "missing_object name = ApiError NotFound name"

definition server_client :: "(CustomResourceDefinition \<Rightarrow> string list) \<Rightarrow> server karta_client" where
  "server_client index =
     \<lparr>kc_Get = (\<lambda>name s. (case sv_kartas s name of
          Some k \<Rightarrow> (if k_Name (kr_karta k) = name then Inr k else Inl (missing_object name)) | None \<Rightarrow> Inl (missing_object name), s)),
      kc_Patch = (\<lambda>base k s. case sv_kartas s (k_Name (kr_karta base)) of
          None \<Rightarrow> (Inl (missing_object (k_Name (kr_karta base))), s)
        | Some old \<Rightarrow> (Inr (decoded_into k (merge_labels base k old)), s\<lparr>sv_kartas := (sv_kartas s)(k_Name (kr_karta base) \<mapsto> merge_labels base k old)\<rparr>)),
      kc_StatusPatch = (\<lambda>base k s. case sv_kartas s (k_Name (kr_karta base)) of
          None \<Rightarrow> (Inl (missing_object (k_Name (kr_karta base))), s)
        | Some old \<Rightarrow> (Inr (merge_conditions base k old), s\<lparr>sv_kartas := (sv_kartas s)(k_Name (kr_karta base) \<mapsto> merge_conditions base k old)\<rparr>)),
      kc_ListCRDs = (\<lambda>key s. (Inr (filter (\<lambda>crd. key \<in> set (index crd)) (sv_crds s)), s)),
      kc_Eventf = (\<lambda>k reason action note s. s\<lparr>sv_events := sv_events s @ [(reason, note)]\<rparr>)\<rparr>"

interpretation server: api_client "server_client index" sv_kartas sv_crds index
  by unfold_locales (auto simp: server_client_def split: option.splits if_splits)

end
