(* ===== verification/Operator_Runs.thy ===== *)
theory Operator_Runs
  imports Operator_Reconciler
begin

text \<open>
  What one run of Reconcile does, proved once from the contracts of the client and of the conditions (locale \<open>reconciler\<close>), and
  interpreted on the server that answers every call.
\<close>

section \<open>Verdicts\<close>

text \<open>What the reconciler should find: the root kind is built in, or some CRD of its group and kind serves its version.\<close>

definition root_served :: "operatorlib \<Rightarrow> GroupVersionKind set \<Rightarrow> CustomResourceDefinition list \<Rightarrow> KartaResource \<Rightarrow> bool" where
  "root_served L nativeGVKs crds k \<longleftrightarrow>
     (case rootGVK k of
        None \<Rightarrow> False
      | Some gvk \<Rightarrow> gvk \<in> nativeGVKs
          \<or> (\<exists>crd \<in> set crds. ol_gkString L (crd_GroupKind crd) = ol_gkString L (GroupKind_of gvk) \<and> crdServesVersion crd (gvk_Version gvk)))"

definition accepted :: "operatorlib \<Rightarrow> KartaResource \<Rightarrow> bool" where
  "accepted L k \<longleftrightarrow> Validate (ol_parse L) (Some (kr_karta k)) = None"

definition validated_verdict :: "operatorlib \<Rightarrow> KartaResource \<Rightarrow> StatusCondition" where
  "validated_verdict L k =
     (case Validate (ol_parse L) (Some (kr_karta k)) of
        None \<Rightarrow> validated_condition (kr_Generation k) ConditionTrue []
      | Some e \<Rightarrow> validated_condition (kr_Generation k) ConditionFalse (ol_Error L e))"

definition crd_verdict :: "operatorlib \<Rightarrow> GroupVersionKind set \<Rightarrow> CustomResourceDefinition list \<Rightarrow> KartaResource \<Rightarrow> StatusCondition" where
  "crd_verdict L nativeGVKs crds k =
     (if root_served L nativeGVKs crds k then crd_condition (kr_Generation k) ConditionTrue []
      else crd_condition (kr_Generation k) ConditionFalse (case rootGVK k of None \<Rightarrow> [] | Some gvk \<Rightarrow> crd_message L gvk))"

definition verdicts :: "operatorlib \<Rightarrow> GroupVersionKind set \<Rightarrow> CustomResourceDefinition list \<Rightarrow> KartaResource \<Rightarrow> StatusCondition list" where
  "verdicts L nativeGVKs crds k =
     [validated_verdict L k, crd_verdict L nativeGVKs crds k,
      ready_condition (kr_Generation k) (accepted L k \<and> root_served L nativeGVKs crds k)]"

definition labelled :: "KartaResource \<Rightarrow> bool" where
  "labelled k \<longleftrightarrow> (case desiredRootLabels k of None \<Rightarrow> True | Some desired \<Rightarrow> labelsMatch (kr_Labels k) desired)"

text \<open>A Karta is settled when its labels match and each condition is the verdict on its current generation.\<close>

definition settled :: "operatorlib \<Rightarrow> GroupVersionKind set \<Rightarrow> CustomResourceDefinition list \<Rightarrow> KartaResource \<Rightarrow> bool" where
  "settled L nativeGVKs crds k \<longleftrightarrow>
     labelled k \<and> (\<forall>c \<in> set (verdicts L nativeGVKs crds k). ol_FindStatusCondition L (kr_Conditions k) (cond_Type c) = Some c)"

lemma verdict_types [simp]:
  "cond_Type (validated_verdict L k) = ConditionValidated" "cond_Type (crd_verdict L nativeGVKs crds k) = ConditionCRDExists"
  "cond_Type (ready_condition g r) = ConditionReady" "cond_Type (pending_condition g t) = t"
  by (auto simp: validated_verdict_def crd_verdict_def validated_condition_def crd_condition_def ready_condition_def pending_condition_def
      Let_def split: option.split)

lemma verdict_status [simp]:
  "cond_Status (validated_verdict L k) = ConditionTrue \<longleftrightarrow> accepted L k"
  "cond_Status (crd_verdict L nativeGVKs crds k) = ConditionTrue \<longleftrightarrow> root_served L nativeGVKs crds k"
  by (auto simp: validated_verdict_def crd_verdict_def validated_condition_def crd_condition_def accepted_def Let_def split: option.split)

lemma types_differ [simp]:
  "ConditionValidated \<noteq> ConditionCRDExists" "ConditionValidated \<noteq> ConditionReady" "ConditionCRDExists \<noteq> ConditionReady"
  "ConditionCRDExists \<noteq> ConditionValidated" "ConditionReady \<noteq> ConditionValidated" "ConditionReady \<noteq> ConditionCRDExists"
  by (simp_all add: condition_types)

text \<open>The verdicts read the spec and the generation only.\<close>

lemma same_spec:
  assumes "kr_karta k' = kr_karta k" "kr_Generation k' = kr_Generation k"
  shows "rootGVK k' = rootGVK k" "desiredRootLabels k' = desiredRootLabels k" "verdicts L nativeGVKs crds k' = verdicts L nativeGVKs crds k"
    "validated_verdict L k' = validated_verdict L k" "crd_verdict L nativeGVKs crds k' = crd_verdict L nativeGVKs crds k"
    "accepted L k' = accepted L k" "root_served L nativeGVKs crds k' = root_served L nativeGVKs crds k"
proof -
  show root: "rootGVK k' = rootGVK k" using assms by (simp add: rootGVK_def)
  show "validated_verdict L k' = validated_verdict L k" "accepted L k' = accepted L k"
    using assms by (simp_all add: validated_verdict_def accepted_def cong: option.case_cong)
  show "root_served L nativeGVKs crds k' = root_served L nativeGVKs crds k" "desiredRootLabels k' = desiredRootLabels k"
    by (simp_all add: root_served_def desiredRootLabels_def root)
  then show "crd_verdict L nativeGVKs crds k' = crd_verdict L nativeGVKs crds k" using assms by (simp add: crd_verdict_def root)
  then show "verdicts L nativeGVKs crds k' = verdicts L nativeGVKs crds k"
    using assms \<open>validated_verdict L k' = _\<close> \<open>accepted L k' = _\<close> \<open>root_served L nativeGVKs crds k' = _\<close> by (simp add: verdicts_def)
qed

lemma labelled_cong:
  "kr_karta k' = kr_karta k \<Longrightarrow> kr_Labels k' = kr_Labels k \<Longrightarrow> labelled k' \<longleftrightarrow> labelled k"
  by (simp add: labelled_def desiredRootLabels_def rootGVK_def split: option.split)

lemma put_labels_simps [simp]:
  "kr_karta (put_labels d k) = kr_karta k" "kr_Generation (put_labels d k) = kr_Generation k"
  "kr_Conditions (put_labels d k) = kr_Conditions k" "kr_DeletionTimestamp (put_labels d k) = kr_DeletionTimestamp k"
  by (simp_all add: put_labels_def)

lemma merge_simps [simp]:
  "kr_karta (merge_labels b k s) = kr_karta s" "kr_Generation (merge_labels b k s) = kr_Generation s"
  "kr_Conditions (merge_labels b k s) = kr_Conditions s" "kr_DeletionTimestamp (merge_labels b k s) = kr_DeletionTimestamp s"
  by (simp_all add: merge_labels_def)

text \<open>After the labels were merged they match.\<close>

lemma labels_put: "desiredRootLabels k = Some d \<Longrightarrow> (l, v) \<in> set d \<Longrightarrow> kr_Labels (put_labels d k) l = Some v"
  by (auto simp: desiredRootLabels_def put_labels_def root_labels split: option.splits)

lemma merged_labelled:
  assumes "desiredRootLabels k = Some d" "kr_karta s = kr_karta k" "kr_Labels s = kr_Labels k"
  shows "labelled (merge_labels k (put_labels d k) s)"
proof -
  have "desiredRootLabels (merge_labels k (put_labels d k) s) = Some d"
    using assms by (simp add: desiredRootLabels_def rootGVK_def)
  moreover have "kr_Labels (merge_labels k (put_labels d k) s) l = Some v" if "(l, v) \<in> set d" for l v
    using labels_put [OF assms(1) that] assms(3) by (simp add: merge_labels_def)
  ultimately show ?thesis by (auto simp: labelled_def labelsMatch_def)
qed

section \<open>The contract of the reconciler\<close>

locale reconciler =
  api_client C stored crds "crd_index L" + status_conditions "ol_SetStatusCondition L" "ol_FindStatusCondition L"
  for C :: "'w karta_client" and stored :: "'w \<Rightarrow> string \<rightharpoonup> KartaResource" and crds :: "'w \<Rightarrow> CustomResourceDefinition list"
    and L :: operatorlib
begin

lemma default_noop:
  "(\<And>t. t \<in> set ts \<Longrightarrow> ol_FindStatusCondition L conds t \<noteq> None) \<Longrightarrow> default_conditions L g ts conds = conds"
  by (induction ts) auto

text \<open>The validation and the check of the kind write their verdicts and leave the store alone.\<close>

lemma validate_writes:
  assumes "validateKarta L C k w = (k', w')"
  shows "k' = k\<lparr>kr_Conditions := ol_SetStatusCondition L (validated_verdict L k) (kr_Conditions k)\<rparr>"
    "stored w' = stored w" "crds w' = crds w"
  using assms event_keeps by (auto simp: validateKarta_def validated_verdict_def setValidated_def split: option.splits)

lemma served_reads:
  assumes "checkGVKServed L C nativeGVKs gvk w = (r, w')"
  shows "stored w' = stored w" "crds w' = crds w"
    "r = Inr b \<Longrightarrow> rootGVK k = Some gvk \<Longrightarrow> b = root_served L nativeGVKs (crds w) k"
proof -
  show "stored w' = stored w" "crds w' = crds w"
    using assms list_keeps by (auto simp: checkGVKServed_def split: if_splits prod.splits sum.splits)
  show "b = root_served L nativeGVKs (crds w) k" if "r = Inr b" "rootGVK k = Some gvk"
  proof (cases "gvk \<in> nativeGVKs")
    case True
    then show ?thesis using assms that by (auto simp: checkGVKServed_def root_served_def)
  next
    case False
    from assms that(1) have "checkGVKServed L C nativeGVKs gvk w = (Inr b, w')" by simp
    with False obtain items where items: "kc_ListCRDs C (ol_gkString L (GroupKind_of gvk)) w = (Inr items, w')"
      and b: "b = (\<exists>crd \<in> set items. crdServesVersion crd (gvk_Version gvk))"
      by (auto simp: checkGVKServed_def split: prod.splits sum.splits)
    show ?thesis using False that(2) unfolding b list_reads [OF items] by (auto simp: root_served_def crd_index_def)
  qed
qed

lemma check_writes:
  assumes "checkCRDExists L C nativeGVKs k w = (None, k', w')"
  shows "k' = k\<lparr>kr_Conditions := ol_SetStatusCondition L (crd_verdict L nativeGVKs (crds w) k) (kr_Conditions k)\<rparr>"
    "stored w' = stored w" "crds w' = crds w"
proof (atomize (full), cases "rootGVK k")
  case None
  then show "k' = k\<lparr>kr_Conditions := ol_SetStatusCondition L (crd_verdict L nativeGVKs (crds w) k) (kr_Conditions k)\<rparr>
      \<and> stored w' = stored w \<and> crds w' = crds w"
    using assms by (auto simp: checkCRDExists_def crd_verdict_def root_served_def setCRDExists_def)
next
  case (Some gvk)
  obtain r w1 where s: "checkGVKServed L C nativeGVKs gvk w = (r, w1)" by force
  with assms Some obtain b where b: "r = Inr b" by (auto simp: checkCRDExists_def split: sum.splits)
  note reads = served_reads [OF s]
  have "b = root_served L nativeGVKs (crds w) k" by (rule reads(3) [OF b Some])
  with assms s b reads(1,2) Some event_keeps
  show "k' = k\<lparr>kr_Conditions := ol_SetStatusCondition L (crd_verdict L nativeGVKs (crds w) k) (kr_Conditions k)\<rparr>
      \<and> stored w' = stored w \<and> crds w' = crds w"
    by (cases b) (auto simp: checkCRDExists_def crd_verdict_def setCRDExists_def Let_def)
qed

lemma checks_write:
  assumes "validateKarta L C (k\<lparr>kr_Conditions := setDefaultConditions L (kr_Generation k) (kr_Conditions k)\<rparr>) w = (k2, w2)"
    and "checkCRDExists L C nativeGVKs k2 w2 = (None, k3, w3)"
  obtains cs where "k3 = k\<lparr>kr_Conditions := cs\<rparr>" "stored w3 = stored w" "crds w3 = crds w"
    "ol_FindStatusCondition L cs ConditionValidated = Some (validated_verdict L k)"
    "ol_FindStatusCondition L cs ConditionCRDExists = Some (crd_verdict L nativeGVKs (crds w) k)"
    "settled L nativeGVKs (crds w) k \<Longrightarrow> cs = kr_Conditions k"
proof -
  note v = validate_writes [OF assms(1)] and c = check_writes [OF assms(2)]
  let ?ds = "setDefaultConditions L (kr_Generation k) (kr_Conditions k)"
  let ?vs = "ol_SetStatusCondition L (validated_verdict L k) ?ds"
  let ?cs = "ol_SetStatusCondition L (crd_verdict L nativeGVKs (crds w) k) ?vs"
  have k2: "k2 = k\<lparr>kr_Conditions := ?vs\<rparr>" using v(1) by (simp add: same_spec [of "k\<lparr>kr_Conditions := ?ds\<rparr>" k])
  have "k3 = k\<lparr>kr_Conditions := ?cs\<rparr>" using c(1) unfolding k2 v(3) by (simp add: same_spec [of "k\<lparr>kr_Conditions := ?vs\<rparr>" k])
  moreover have "?cs = kr_Conditions k" if "settled L nativeGVKs (crds w) k"
  proof -
    from that have found: "ol_FindStatusCondition L (kr_Conditions k) ConditionValidated = Some (validated_verdict L k)"
      "ol_FindStatusCondition L (kr_Conditions k) ConditionCRDExists = Some (crd_verdict L nativeGVKs (crds w) k)"
      "ol_FindStatusCondition L (kr_Conditions k) ConditionReady \<noteq> None"
      by (simp_all add: settled_def verdicts_def)
    then have "?ds = kr_Conditions k" unfolding setDefaultConditions_def by (intro default_noop) auto
    with found show ?thesis by (simp add: set_same)
  qed
  ultimately show thesis using v(2,3) c(2,3) by (intro that [of ?cs]) (simp_all add: find_set)
qed

lemma ready_writes:
  assumes "ol_FindStatusCondition L cs ConditionValidated = Some (validated_verdict L k)"
    "ol_FindStatusCondition L cs ConditionCRDExists = Some (crd_verdict L nativeGVKs cd k)" "c \<in> set (verdicts L nativeGVKs cd k)"
  shows "ol_FindStatusCondition L (setReady L (kr_Generation k) cs) (cond_Type c) = Some c"
  using assms by (auto simp: setReady_def statusOf_def find_set verdicts_def)

lemma reconcile_labelled:
  assumes "reconcile L C nativeGVKs k w = (None, k', w')" "labelled k"
  shows "settled L nativeGVKs (crds w) k'" "kr_karta k' = kr_karta k" "kr_Generation k' = kr_Generation k" "kr_Labels k' = kr_Labels k"
    "kr_DeletionTimestamp k' = kr_DeletionTimestamp k" "stored w' = stored w" "crds w' = crds w"
    "settled L nativeGVKs (crds w) k \<Longrightarrow> kr_Conditions k' = kr_Conditions k"
proof -
  obtain k2 w2 where v: "validateKarta L C (k\<lparr>kr_Conditions := setDefaultConditions L (kr_Generation k) (kr_Conditions k)\<rparr>) w = (k2, w2)"
    by force
  with assms(1) obtain k3 w3 where c: "checkCRDExists L C nativeGVKs k2 w2 = (None, k3, w3)"
    and rest: "(case ensureLabels C k3 w3 of (Some e, k4, w4) \<Rightarrow> (Some e, k4, w4)
        | (None, k4, w4) \<Rightarrow> (None, k4\<lparr>kr_Conditions := setReady L (kr_Generation k4) (kr_Conditions k4)\<rparr>, w4)) = (None, k', w')"
    by (auto simp: reconcile_def Let_def split: prod.splits option.splits)
  from checks_write [OF v c] obtain cs where cs: "k3 = k\<lparr>kr_Conditions := cs\<rparr>" "stored w3 = stored w" "crds w3 = crds w"
    "ol_FindStatusCondition L cs ConditionValidated = Some (validated_verdict L k)"
    "ol_FindStatusCondition L cs ConditionCRDExists = Some (crd_verdict L nativeGVKs (crds w) k)"
    "settled L nativeGVKs (crds w) k \<Longrightarrow> cs = kr_Conditions k" by blast
  have "ensureLabels C k3 w3 = (None, k3, w3)"
    using assms(2) by (auto simp: ensureLabels_def cs(1) labelled_def desiredRootLabels_def rootGVK_def split: option.splits)
  with rest cs(1) have k': "k' = k\<lparr>kr_Conditions := setReady L (kr_Generation k) cs\<rparr>" "w' = w3" by auto
  have spec: "verdicts L nativeGVKs (crds w) k' = verdicts L nativeGVKs (crds w) k" "desiredRootLabels k' = desiredRootLabels k"
    by (simp_all add: k' same_spec [of "k\<lparr>kr_Conditions := setReady L (kr_Generation k) cs\<rparr>" k])
  have "labelled k'" using assms(2) by (simp add: k'(1) labelled_cong [of "k\<lparr>kr_Conditions := setReady L (kr_Generation k) cs\<rparr>" k])
  then show "settled L nativeGVKs (crds w) k'"
    unfolding settled_def spec using ready_writes [OF cs(4,5)] by (simp add: k'(1))
  show "kr_Conditions k' = kr_Conditions k" if s: "settled L nativeGVKs (crds w) k"
  proof -
    from s have "ol_FindStatusCondition L cs ConditionReady
        = Some (ready_condition (kr_Generation k) (accepted L k \<and> root_served L nativeGVKs (crds w) k))"
      by (simp add: cs(6) settled_def verdicts_def)
    then have "setReady L (kr_Generation k) cs = cs"
      using cs(4,5) by (simp add: setReady_def statusOf_def set_same)
    with s show ?thesis by (simp add: k'(1) cs(6))
  qed
  show "kr_karta k' = kr_karta k" "kr_Generation k' = kr_Generation k" "kr_Labels k' = kr_Labels k"
    "kr_DeletionTimestamp k' = kr_DeletionTimestamp k" "stored w' = stored w" "crds w' = crds w"
    using k' cs(2,3) by simp_all
qed

lemma reconcile_unlabelled:
  assumes "reconcile L C nativeGVKs k w = (None, k', w')" "\<not> labelled k" "stored w (k_Name (kr_karta k)) = Some k"
  obtains s cs where "stored w' = (stored w)(k_Name (kr_karta k) \<mapsto> s)" "kr_karta s = kr_karta k" "kr_Generation s = kr_Generation k"
    "kr_Conditions s = kr_Conditions k" "kr_DeletionTimestamp s = kr_DeletionTimestamp k" "labelled s" "crds w' = crds w"
    "k' = s\<lparr>kr_Conditions := setReady L (kr_Generation k) (if kr_Conditions k = [] then cs else kr_Conditions k)\<rparr>"
    "ol_FindStatusCondition L cs ConditionValidated = Some (validated_verdict L k)"
    "ol_FindStatusCondition L cs ConditionCRDExists = Some (crd_verdict L nativeGVKs (crds w) k)"
proof -
  obtain k2 w2 where v: "validateKarta L C (k\<lparr>kr_Conditions := setDefaultConditions L (kr_Generation k) (kr_Conditions k)\<rparr>) w = (k2, w2)"
    by force
  with assms(1) obtain k3 w3 where c: "checkCRDExists L C nativeGVKs k2 w2 = (None, k3, w3)"
    and rest: "(case ensureLabels C k3 w3 of (Some e, k4, w4) \<Rightarrow> (Some e, k4, w4)
        | (None, k4, w4) \<Rightarrow> (None, k4\<lparr>kr_Conditions := setReady L (kr_Generation k4) (kr_Conditions k4)\<rparr>, w4)) = (None, k', w')"
    by (auto simp: reconcile_def Let_def split: prod.splits option.splits)
  from checks_write [OF v c] obtain cs where cs: "k3 = k\<lparr>kr_Conditions := cs\<rparr>" "stored w3 = stored w" "crds w3 = crds w"
    "ol_FindStatusCondition L cs ConditionValidated = Some (validated_verdict L k)"
    "ol_FindStatusCondition L cs ConditionCRDExists = Some (crd_verdict L nativeGVKs (crds w) k)" by blast
  from assms(2) obtain d where d: "desiredRootLabels k = Some d" "\<not> labelsMatch (kr_Labels k) d"
    by (auto simp: labelled_def split: option.splits)
  have d3: "desiredRootLabels k3 = Some d" using d(1) by (simp add: cs(1) desiredRootLabels_def rootGVK_def)
  obtain k4 where p: "kc_Patch C k3 (put_labels d k3) w3 = (Inr k4, w')"
    and k': "k' = k4\<lparr>kr_Conditions := setReady L (kr_Generation k4) (kr_Conditions k4)\<rparr>"
    using rest d d3 by (auto simp: ensureLabels_def cs(1) split: prod.splits sum.splits)
  let ?s = "merge_labels k3 (put_labels d k3) k"
  have "stored w3 (k_Name (kr_karta k3)) = Some k" using assms(3) by (simp add: cs)
  note m = patch_merges [OF p this] patch_decodes [OF p this] patch_keeps [OF p]
  have labels: "kr_Labels (put_labels d k3) ++ kr_Labels ?s = kr_Labels ?s"
  proof
    fix l
    have "kr_Labels (put_labels d k3) l \<noteq> None \<Longrightarrow> kr_Labels ?s l = kr_Labels (put_labels d k3) l"
      by (simp add: merge_labels_def cs(1))
    then show "(kr_Labels (put_labels d k3) ++ kr_Labels ?s) l = kr_Labels ?s l"
      by (cases "kr_Labels (put_labels d k3) l") (auto simp: map_add_def split: option.split)
  qed
  have "k4 = ?s\<lparr>kr_Conditions := (if kr_Conditions k = [] then cs else kr_Conditions k)\<rparr>"
    using m(2) labels by (cases k) (simp add: cs(1) decoded_into_def)
  then have "k' = ?s\<lparr>kr_Conditions := setReady L (kr_Generation k) (if kr_Conditions k = [] then cs else kr_Conditions k)\<rparr>"
    by (simp add: k')
  moreover have "labelled ?s" using merged_labelled [OF d3, of k] by (simp add: cs(1))
  ultimately show thesis using m(1,3) cs by (intro that [of ?s cs]) simp_all
qed

text \<open>A run that returns no error on a Karta that is stored and not being deleted.\<close>

lemma run_cases:
  assumes "Reconcile L C nativeGVKs name w = (None, w')" "kc_Get C name w = (Inr k, w1)" "kr_DeletionTimestamp k = None"
  obtains k' w2 k'' where "reconcile L C nativeGVKs k w1 = (None, k', w2)" "kc_StatusPatch C k k' w2 = (Inr k'', w')"
  using assms that by (auto simp: Reconcile_def join_errors_def split: prod.splits sum.splits)

lemma run_labelled:
  assumes "Reconcile L C nativeGVKs name w = (None, w')" "kc_Get C name w = (Inr k, w1)" "kr_DeletionTimestamp k = None" "labelled k"
  obtains k' where "stored w' = (stored w)(name \<mapsto> k')" "settled L nativeGVKs (crds w) k'" "kr_karta k' = kr_karta k"
    "kr_Generation k' = kr_Generation k" "kr_DeletionTimestamp k' = None" "crds w' = crds w"
    "settled L nativeGVKs (crds w) k \<Longrightarrow> k' = k"
proof -
  note g = get_reads [OF assms(2)] get_keeps [OF assms(2)]
  from run_cases [OF assms(1-3)] obtain k2 w2 k3 where r: "reconcile L C nativeGVKs k w1 = (None, k2, w2)"
    and p: "kc_StatusPatch C k k2 w2 = (Inr k3, w')" by blast
  note R = reconcile_labelled [OF r assms(4)]
  have s: "stored w2 (k_Name (kr_karta k)) = Some k" using g R(6) by simp
  note P = status_merges [OF p s] status_keeps [OF p]
  have k': "merge_conditions k k2 k = k2"
    using R(2-5) by (cases k, cases k2) (simp add: merge_conditions_def)
  have "k2 = k" if "settled L nativeGVKs (crds w) k" using R(2-5,8) that g(2) by (cases k, cases k2) simp
  with that [of k2] P g R k' assms(3) show thesis by simp
qed

lemma run_unlabelled:
  assumes "Reconcile L C nativeGVKs name w = (None, w')" "kc_Get C name w = (Inr k, w1)" "kr_DeletionTimestamp k = None" "\<not> labelled k"
  obtains k' where "stored w' = (stored w)(name \<mapsto> k')" "labelled k'" "kr_karta k' = kr_karta k" "kr_Generation k' = kr_Generation k"
    "kr_DeletionTimestamp k' = None" "crds w' = crds w"
    "kr_Conditions k \<noteq> [] \<Longrightarrow> kr_Conditions k' = setReady L (kr_Generation k) (kr_Conditions k)"
    "kr_Conditions k = [] \<Longrightarrow> settled L nativeGVKs (crds w) k'"
proof -
  note g = get_reads [OF assms(2)] get_keeps [OF assms(2)]
  from run_cases [OF assms(1-3)] obtain k2 w2 k3 where r: "reconcile L C nativeGVKs k w1 = (None, k2, w2)"
    and p: "kc_StatusPatch C k k2 w2 = (Inr k3, w')" by blast
  have "stored w1 (k_Name (kr_karta k)) = Some k" using g by simp
  from reconcile_unlabelled [OF r assms(4) this] obtain s cs
    where s: "stored w2 = (stored w)(name \<mapsto> s)" "kr_karta s = kr_karta k" "kr_Generation s = kr_Generation k"
      "kr_Conditions s = kr_Conditions k" "kr_DeletionTimestamp s = kr_DeletionTimestamp k" "labelled s" "crds w2 = crds w"
      "k2 = s\<lparr>kr_Conditions := setReady L (kr_Generation k) (if kr_Conditions k = [] then cs else kr_Conditions k)\<rparr>"
      "ol_FindStatusCondition L cs ConditionValidated = Some (validated_verdict L k)"
      "ol_FindStatusCondition L cs ConditionCRDExists = Some (crd_verdict L nativeGVKs (crds w) k)"
    using g by auto
  have "stored w2 (k_Name (kr_karta k)) = Some s" using s(1) g by simp
  note P = status_merges [OF p this] status_keeps [OF p]
  have k2: "merge_conditions k k2 s = k2" using s(4,8) by (cases s) (simp add: merge_conditions_def)
  have lab: "labelled k2" using s(6,8) labelled_cong [of k2 s] by simp
  have "settled L nativeGVKs (crds w) k2" if "kr_Conditions k = []"
  proof -
    have "kr_karta k2 = kr_karta k" "kr_Generation k2 = kr_Generation k" using s(2,3,8) by simp_all
    from same_spec [OF this] have "verdicts L nativeGVKs (crds w) k2 = verdicts L nativeGVKs (crds w) k" by simp
    then show ?thesis using lab ready_writes [OF s(9,10)] that s(8) by (simp add: settled_def)
  qed
  with that [of k2] P s g assms(3) k2 lab show thesis by simp
qed

end

text \<open>The server with the list functions, and texts that are good enough to tell kinds apart.\<close>

definition list_operatorlib :: "(string \<Rightarrow> goerr + ast) \<Rightarrow> operatorlib" where
  "list_operatorlib parse = \<lparr>ol_parse = parse, ol_Error = (\<lambda>e. ''invalid''), ol_gkString = (\<lambda>(g, k). k @ ''.'' @ g),
     ol_gvkString = (\<lambda>g. gvk_Group g @ ''/'' @ gvk_Version g @ '', Kind='' @ gvk_Kind g), ol_Sprintf = (\<lambda>f as. f),
     ol_SetStatusCondition = set_condition, ol_FindStatusCondition = find_condition\<rparr>"

interpretation list_reconciler: reconciler "server_client (crd_index (list_operatorlib parse))" sv_kartas sv_crds "list_operatorlib parse"
  by (intro reconciler.intro server.api_client_axioms) (simp add: list_operatorlib_def condition_list.status_conditions_axioms)

end
