(* ===== verification/Operator_Admission.thy ===== *)
theory Operator_Admission
  imports Operator_Reconciler
begin

text \<open>
  \<^verbatim>\<open>operator/pkg/{webhook,eventfilter}.go\<close>: the admission of Kartas and the requests that a CRD event leads to. The Kartas of the
  cluster are a map from names; a request that the webhooks accept is a step (\<open>admission_step\<close>). \<open>listing\<close> is the answer of the client to a
  List of the Kartas under a key of the index, which may lag behind the cluster; the parameter \<open>view\<close> says which answers a cluster allows.
\<close>

section \<open>Webhooks\<close>

definition Default :: "KartaResource \<Rightarrow> KartaResource" where
  "Default k = (case desiredRootLabels k of None \<Rightarrow> k | Some desired \<Rightarrow> put_labels desired k)"

definition checkUniqueRootGVK :: "operatorlib \<Rightarrow> (string \<Rightarrow> KartaResource list xres) \<Rightarrow> KartaResource \<Rightarrow> xerr option" where
  "checkUniqueRootGVK L listing k =
     (case rootGVK k of
        None \<Rightarrow> None
      | Some gvk \<Rightarrow>
          (case listing (ol_gvkString L gvk) of
             Inl e \<Rightarrow> Some (XWrapf ''check karta uniqueness: %w'' [] [e])
           | Inr items \<Rightarrow>
               (case find (\<lambda>item. k_Name (kr_karta item) \<noteq> k_Name (kr_karta k)) items of
                  None \<Rightarrow> None
                | Some item \<Rightarrow> Some (XErrorf
                    ''a Karta for group %q version %q kind %q already exists (%q); only one Karta per group/version/kind is allowed''
                    [AStr (gvk_Group gvk), AStr (gvk_Version gvk), AStr (gvk_Kind gvk), AStr (k_Name (kr_karta item))]))))"

definition ValidateCreate :: "operatorlib \<Rightarrow> (string \<Rightarrow> KartaResource list xres) \<Rightarrow> KartaResource \<Rightarrow> xerr option" where
  "ValidateCreate L listing k =
     (case Validate (ol_parse L) (Some (kr_karta k)) of
        Some e \<Rightarrow> Some (SdkError e)
      | None \<Rightarrow> checkUniqueRootGVK L listing k)"

text \<open>Ranging over a missing map does nothing.\<close>

definition checkRootLabels :: "KartaResource \<Rightarrow> xerr option" where
  "checkRootLabels k =
     (case desiredRootLabels k of
        None \<Rightarrow> None
      | Some desired \<Rightarrow>
          (case find (\<lambda>(l, want). kr_Labels k l \<noteq> Some want) desired of
             None \<Rightarrow> None
           | Some (l, want) \<Rightarrow> Some (XErrorf ''label %q is managed by the operator and must equal %q; it cannot be edited or removed''
               [AStr l, AStr want])))"

definition ValidateUpdate ::
  "operatorlib \<Rightarrow> (string \<Rightarrow> KartaResource list xres) \<Rightarrow> KartaResource \<Rightarrow> KartaResource \<Rightarrow> xerr option" where
  "ValidateUpdate L listing oldObj k =
     (case Validate (ol_parse L) (Some (kr_karta k)) of
        Some e \<Rightarrow> Some (SdkError e)
      | None \<Rightarrow>
          if rootGVK oldObj = None \<or> rootGVK k = None \<or> rootGVK oldObj \<noteq> rootGVK k
          then Some (XErrorf ''the root component GVK is immutable and cannot be changed after creation'' [])
          else (case checkRootLabels k of Some e \<Rightarrow> Some e | None \<Rightarrow> checkUniqueRootGVK L listing k))"

definition ValidateDelete :: "KartaResource \<Rightarrow> xerr option" where
  "ValidateDelete k = None"

section \<open>Events of CRDs\<close>

text \<open>The names of the Kartas to reconcile; \<open>listing\<close> answers a List by labels. \<open>None\<close> is an object of another type.\<close>

definition MapCRDToKartaEvent ::
  "((string \<times> string) list \<Rightarrow> KartaResource list xres) \<Rightarrow> CustomResourceDefinition option \<Rightarrow> string list" where
  "MapCRDToKartaEvent listing obj =
     (case obj of
        None \<Rightarrow> []
      | Some crd \<Rightarrow>
          (case listing [(LabelRootGroup, crd_Group crd), (LabelRootKind, crd_Kind crd)] of
             Inl e \<Rightarrow> []
           | Inr items \<Rightarrow> map (\<lambda>k. k_Name (kr_karta k)) items))"

text \<open>
  The watch of the CRDs: every event is mapped with the objects that it carries, an update with both of its objects, and an update that
  did not change the generation is filtered out.
\<close>

datatype crd_event =
    CRDCreated CustomResourceDefinition
  | CRDUpdated CustomResourceDefinition CustomResourceDefinition
  | CRDDeleted CustomResourceDefinition
  | CRDGeneric CustomResourceDefinition

fun GenerationChangedPredicate :: "crd_event \<Rightarrow> bool" where
  "GenerationChangedPredicate (CRDUpdated old new) = (crd_Generation new \<noteq> crd_Generation old)"
| "GenerationChangedPredicate event = True"

fun event_objects :: "crd_event \<Rightarrow> CustomResourceDefinition list" where
  "event_objects (CRDUpdated old new) = [old, new]"
| "event_objects (CRDCreated crd) = [crd]"
| "event_objects (CRDDeleted crd) = [crd]"
| "event_objects (CRDGeneric crd) = [crd]"

definition crd_requests :: "((string \<times> string) list \<Rightarrow> KartaResource list xres) \<Rightarrow> crd_event \<Rightarrow> string list" where
  "crd_requests listing event =
     (if GenerationChangedPredicate event
      then concat (map (\<lambda>crd. MapCRDToKartaEvent listing (Some (TrimCRDFields crd))) (event_objects event)) else [])"

section \<open>The cluster under admission\<close>

type_synonym cluster = "string \<rightharpoonup> KartaResource"

text \<open>
  Creation passes both webhooks, an update the validating one, and writes to the status none. A deletion is always allowed.
\<close>

inductive admission_step ::
  "operatorlib \<Rightarrow> (cluster \<Rightarrow> (string \<Rightarrow> KartaResource list xres) \<Rightarrow> bool) \<Rightarrow> cluster \<Rightarrow> cluster \<Rightarrow> bool" for L view where
  create: "c name = None \<Longrightarrow> k_Name (kr_karta k) = name \<Longrightarrow> view c listing \<Longrightarrow> ValidateCreate L listing (Default k) = None
     \<Longrightarrow> admission_step L view c (c(name \<mapsto> Default k))"
| update: "c name = Some old \<Longrightarrow> k_Name (kr_karta k) = name \<Longrightarrow> view c listing \<Longrightarrow> ValidateUpdate L listing old k = None
     \<Longrightarrow> admission_step L view c (c(name \<mapsto> k))"
| status: "c name = Some k \<Longrightarrow> admission_step L view c (c(name \<mapsto> k\<lparr>kr_Conditions := conds\<rparr>))"
| delete: "c name = Some k \<Longrightarrow> ValidateDelete k = None \<Longrightarrow> admission_step L view c (c(name := None))"

inductive admitted ::
  "operatorlib \<Rightarrow> (cluster \<Rightarrow> (string \<Rightarrow> KartaResource list xres) \<Rightarrow> bool) \<Rightarrow> cluster \<Rightarrow> bool" for L view where
  empty: "admitted L view Map.empty"
| step: "admitted L view c \<Longrightarrow> admission_step L view c c' \<Longrightarrow> admitted L view c'"

text \<open>Answers that are up to date: by the index of the roots, and by labels.\<close>

definition exact_view :: "operatorlib \<Rightarrow> cluster \<Rightarrow> (string \<Rightarrow> KartaResource list xres) \<Rightarrow> bool" where
  "exact_view L c listing \<longleftrightarrow>
     (\<forall>key items. listing key = Inr items \<longrightarrow> set items = {k \<in> ran c. key \<in> set (indexKartaByRootGVK L k)})"

definition exact_labels :: "cluster \<Rightarrow> ((string \<times> string) list \<Rightarrow> KartaResource list xres) \<Rightarrow> bool" where
  "exact_labels c listing \<longleftrightarrow>
     (\<forall>ls items. listing ls = Inr items \<longrightarrow> set items = {k \<in> ran c. \<forall>(l, v) \<in> set ls. kr_Labels k l = Some v})"

section \<open>What admission guarantees\<close>

definition root_labelled :: "KartaResource \<Rightarrow> bool" where
  "root_labelled k \<longleftrightarrow>
     (\<exists>gvk. rootGVK k = Some gvk \<and> kr_Labels k LabelRootGroup = Some (gvk_Group gvk)
        \<and> kr_Labels k LabelRootVersion = Some (gvk_Version gvk) \<and> kr_Labels k LabelRootKind = Some (gvk_Kind gvk))"

definition admissible :: "operatorlib \<Rightarrow> string \<Rightarrow> KartaResource \<Rightarrow> bool" where
  "admissible L name k \<longleftrightarrow>
     k_Name (kr_karta k) = name \<and> Validate (ol_parse L) (Some (kr_karta k)) = None \<and> root_labelled k"

lemma validated_root: "Validate parse (Some k) = None \<Longrightarrow> cd_Kind (root_of k) \<noteq> None"
  by (auto simp: Validate_None well_formed_def full_kind_def split: option.splits)

lemma label_keys [simp]:
  "LabelRootGroup \<noteq> LabelRootVersion" "LabelRootGroup \<noteq> LabelRootKind" "LabelRootVersion \<noteq> LabelRootKind"
  "LabelRootVersion \<noteq> LabelRootGroup" "LabelRootKind \<noteq> LabelRootGroup" "LabelRootKind \<noteq> LabelRootVersion"
  by (simp_all add: root_labels)

lemma Default_simps [simp]: "kr_karta (Default k) = kr_karta k" "rootGVK (Default k) = rootGVK k"
  by (simp_all add: Default_def put_labels_def rootGVK_def split: option.split)

lemma Default_labels: "rootGVK k \<noteq> None \<Longrightarrow> root_labelled (Default k)"
  by (auto simp: root_labelled_def Default_def desiredRootLabels_def put_labels_def rootGVK_def)

lemma checkRootLabels_None: "rootGVK k \<noteq> None \<Longrightarrow> checkRootLabels k = None \<longleftrightarrow> root_labelled k"
  by (auto simp: checkRootLabels_def desiredRootLabels_def root_labelled_def split: if_splits)

lemma create_admissible: "ValidateCreate L listing (Default k) = None \<Longrightarrow> admissible L (k_Name (kr_karta k)) (Default k)"
  using validated_root Default_labels [of k]
  by (auto simp: ValidateCreate_def admissible_def rootGVK_def split: option.splits)

lemma update_admissible:
  "ValidateUpdate L listing old k = None \<Longrightarrow> admissible L (k_Name (kr_karta k)) k \<and> rootGVK k = rootGVK old"
  using checkRootLabels_None [of k]
  by (auto simp: ValidateUpdate_def admissible_def split: option.splits if_splits)

lemma step_admissible:
  assumes "admission_step L view c c'" "\<And>name k. c name = Some k \<Longrightarrow> admissible L name k" "c' name = Some k"
  shows "admissible L name k"
  using assms
proof (cases rule: admission_step.cases)
  case (create n k' listing)
  with assms(2,3) create_admissible [of L listing k'] show ?thesis by (auto split: if_splits)
next
  case (update n old k' listing)
  with assms(2,3) update_admissible [of L listing old k'] show ?thesis by (auto split: if_splits)
next
  case (status n k' conds)
  from assms(2) [of n k'] status have "admissible L n (k'\<lparr>kr_Conditions := conds\<rparr>)"
    by (simp add: admissible_def root_labelled_def rootGVK_def)
  with assms(2,3) status show ?thesis by (auto split: if_splits)
qed (use assms(2,3) in \<open>auto split: if_splits\<close>)

lemma admitted_admissible: "admitted L view c \<Longrightarrow> c name = Some k \<Longrightarrow> admissible L name k"
proof (induction arbitrary: name k rule: admitted.induct)
  case (step c c')
  then show ?case by (blast intro: step_admissible)
qed simp

text \<open>Roots are unique as long as the answers of the client are up to date.\<close>

definition unique_roots :: "cluster \<Rightarrow> bool" where
  "unique_roots c \<longleftrightarrow> (\<forall>n1 n2 k1 k2. c n1 = Some k1 \<longrightarrow> c n2 = Some k2 \<longrightarrow> rootGVK k1 = rootGVK k2 \<longrightarrow> n1 = n2)"

lemma unique_check:
  assumes "exact_view L c listing" "checkUniqueRootGVK L listing k = None" "\<And>name k. c name = Some k \<Longrightarrow> k_Name (kr_karta k) = name"
    and "c n = Some k'" "rootGVK k' = rootGVK k" "rootGVK k \<noteq> None"
  shows "n = k_Name (kr_karta k)"
proof -
  from assms(6) obtain gvk where gvk: "rootGVK k = Some gvk" by blast
  with assms(2) obtain items where items: "listing (ol_gvkString L gvk) = Inr items"
    "\<forall>item \<in> set items. k_Name (kr_karta item) = k_Name (kr_karta k)"
    by (auto simp: checkUniqueRootGVK_def find_None_iff split: sum.splits option.splits)
  have "k' \<in> ran c" using assms(4) by (rule ranI)
  with assms(1,5) gvk items(1) have "k' \<in> set items" by (auto simp: exact_view_def indexKartaByRootGVK_def)
  with items(2) assms(3,4) show ?thesis by auto
qed

lemma unique_upd:
  assumes "unique_roots c" "\<And>n k'. c n = Some k' \<Longrightarrow> rootGVK k' = rootGVK k \<Longrightarrow> n = name"
  shows "unique_roots (c(name \<mapsto> k))"
  using assms unfolding unique_roots_def by (auto split: if_splits)

lemma admitted_unique:
  assumes "admitted L view c" "\<And>c listing. view c listing \<Longrightarrow> exact_view L c listing"
  shows "unique_roots c"
  using assms(1)
proof (induction rule: admitted.induct)
  case empty
  show ?case by (simp add: unique_roots_def)
next
  case (step c c')
  have named: "k_Name (kr_karta k) = name" if "c name = Some k" for name k
    using admitted_admissible [OF step.hyps(1) that] by (simp add: admissible_def)
  from step.hyps(2) show ?case
  proof (cases rule: admission_step.cases)
    case (create n k listing)
    then have "checkUniqueRootGVK L listing (Default k) = None" "rootGVK (Default k) \<noteq> None"
      using validated_root [of "ol_parse L" "kr_karta k"] by (auto simp: ValidateCreate_def rootGVK_def split: option.splits)
    note check = unique_check [OF assms(2) [OF create(4)] this(1) named _ _ this(2)]
    have "n' = n" if "c n' = Some k'" "rootGVK k' = rootGVK (Default k)" for n' k'
      using check [OF _ that] create(3) by simp
    then show ?thesis unfolding create(1) by (rule unique_upd [OF step.IH])
  next
    case (update n old k listing)
    with update_admissible [of L listing old k] step.IH show ?thesis unfolding unique_roots_def by (auto split: if_splits)
  next
    case (status n k conds)
    moreover have "rootGVK (k\<lparr>kr_Conditions := conds\<rparr>) = rootGVK k" by (simp add: rootGVK_def)
    ultimately show ?thesis using step.IH unfolding unique_roots_def by (auto split: if_splits)
  next
    case (delete n k)
    with step.IH show ?thesis unfolding unique_roots_def by (auto split: if_splits)
  qed
qed

end
