(* ===== verification/Operator_Properties.thy ===== *)
theory Operator_Properties
  imports Operator_Runs Operator_Admission Karta_Samples
begin

text \<open>The properties of the operator: what its conditions come to say, what its webhooks guarantee, and whom its events reach.\<close>

section \<open>Reconciliation\<close>

text \<open>C11 Two undisturbed reconciliations without an error settle a Karta that is not being deleted: its labels match its root,
  Validated says whether the validator accepts it, CRDExists whether its root kind is served, and Ready whether both hold, all for the
  current generation and whatever conditions and labels it had before; the spec stays as it was, and no later reconciliation without
  an error changes what is stored.\<close>

theorem reconcile_settles:
  assumes "reconciler C stored crds L" "stored w name = Some k" "kr_DeletionTimestamp k = None"
    and "fst (kc_Get C name w) = Inr k" "Reconcile L C nativeGVKs name w = (None, w1)"
    and "fst (kc_Get C name w1) = Inr (the (stored w1 name))" "Reconcile L C nativeGVKs name w1 = (None, w2)"
  shows "\<exists>k'. stored w2 = (stored w)(name \<mapsto> k') \<and> kr_karta k' = kr_karta k \<and> kr_Generation k' = kr_Generation k
      \<and> settled L nativeGVKs (crds w) k'
      \<and> (\<forall>w3. fst (kc_Get C name w2) = Inr k' \<and> Reconcile L C nativeGVKs name w2 = (None, w3) \<longrightarrow> stored w3 = stored w2)"
proof -
  have get: "kc_Get C name v = (Inr x, snd (kc_Get C name v))" if "fst (kc_Get C name v) = Inr x" for v x
    using that by (cases "kc_Get C name v") auto
  note R = reconciler.run_labelled [OF assms(1)] and U = reconciler.run_unlabelled [OF assms(1)]
  obtain k1 where k1: "stored w1 = (stored w)(name \<mapsto> k1)" "labelled k1" "kr_karta k1 = kr_karta k" "kr_Generation k1 = kr_Generation k"
    "kr_DeletionTimestamp k1 = None" "crds w1 = crds w"
  proof (cases "labelled k")
    case True
    from R [OF assms(5) get [OF assms(4)] assms(3) True] that show thesis by (metis settled_def)
  next
    case False
    from U [OF assms(5) get [OF assms(4)] assms(3) False] that show thesis by metis
  qed
  from k1(1) assms(6) have "fst (kc_Get C name w1) = Inr k1" by simp
  from R [OF assms(7) get [OF this] k1(5,2)] obtain k2 where k2: "stored w2 = (stored w1)(name \<mapsto> k2)"
    "settled L nativeGVKs (crds w1) k2" "kr_karta k2 = kr_karta k1" "kr_Generation k2 = kr_Generation k1" "kr_DeletionTimestamp k2 = None"
    "crds w2 = crds w1" by metis
  have "stored w3 = stored w2" if "fst (kc_Get C name w2) = Inr k2" "Reconcile L C nativeGVKs name w2 = (None, w3)" for w3
  proof -
    from k2(2) have "labelled k2" by (simp add: settled_def)
    from R [OF that(2) get [OF that(1)] k2(5) this] k2(1,2,6) show ?thesis by (metis fun_upd_triv fun_upd_same)
  qed
  with k1 k2 show ?thesis by (intro exI [of _ k2]) simp
qed

text \<open>C30 A reconciliation that has to add labels to a Karta with stored conditions throws away the conditions it computed:
  the answer of the Patch overwrites them, so that Validated and CRDExists are what they were before, whatever the validator and the
  cluster say, and Ready is made of these; the next reconciliation puts them right. A Karta without stored conditions keeps the
  computed ones and is settled at once.\<close>

theorem labelling_discards:
  assumes "reconciler C stored crds L" "stored w name = Some k" "kr_DeletionTimestamp k = None" "\<not> labelled k"
    and "fst (kc_Get C name w) = Inr k" "Reconcile L C nativeGVKs name w = (None, w1)"
  shows "\<exists>k'. stored w1 name = Some k' \<and> labelled k'
      \<and> (if kr_Conditions k = [] then settled L nativeGVKs (crds w) k'
         else (\<forall>t. t \<noteq> ConditionReady \<longrightarrow> ol_FindStatusCondition L (kr_Conditions k') t = ol_FindStatusCondition L (kr_Conditions k) t)
           \<and> ol_FindStatusCondition L (kr_Conditions k') ConditionReady = Some (ready_condition (kr_Generation k)
                (statusOf L (kr_Conditions k) ConditionValidated = ConditionTrue \<and> statusOf L (kr_Conditions k) ConditionCRDExists = ConditionTrue)))"
proof -
  have get: "kc_Get C name w = (Inr k, snd (kc_Get C name w))" using assms(5) by (cases "kc_Get C name w") auto
  have conds: "status_conditions (ol_SetStatusCondition L) (ol_FindStatusCondition L)" using assms(1) by (simp add: reconciler_def)
  from reconciler.run_unlabelled [OF assms(1) assms(6) get assms(3,4)] obtain k' where k': "stored w1 = (stored w)(name \<mapsto> k')"
    "labelled k'" "kr_Conditions k \<noteq> [] \<Longrightarrow> kr_Conditions k' = setReady L (kr_Generation k) (kr_Conditions k)"
    "kr_Conditions k = [] \<Longrightarrow> settled L nativeGVKs (crds w) k'" by metis
  then show ?thesis by (intro exI [of _ k']) (simp add: setReady_def status_conditions.find_set [OF conds])
qed

text \<open>A server with one Karta and a built-in kind.\<close>

definition sample_operator :: operatorlib where
  "sample_operator = list_operatorlib (jq_parse sample_lib)"

definition sample_resource :: KartaResource where
  "sample_resource = \<lparr>kr_karta = sample_karta, kr_Labels = Map.empty, kr_Generation = 3, kr_DeletionTimestamp = None, kr_Conditions = []\<rparr>"

definition sample_job_kind :: GroupVersionKind where
  "sample_job_kind = \<lparr>gvk_Group = ''batch'', gvk_Version = ''v1'', gvk_Kind = ''Job''\<rparr>"

definition sample_server :: server where
  "sample_server = \<lparr>sv_kartas = [''sample'' \<mapsto> sample_resource], sv_crds = [], sv_events = []\<rparr>"

abbreviation sample_client :: "server karta_client" where
  "sample_client \<equiv> server_client (crd_index sample_operator)"

lemma sample_reconciler: "reconciler sample_client sv_kartas sv_crds sample_operator"
  unfolding sample_operator_def by (rule list_reconciler.reconciler_axioms)

lemma sample_resource_root: "rootGVK sample_resource = Some sample_job_kind"
  by (simp add: rootGVK_def sample_resource_def sample_karta_def karta_with_def sample_root_def sample_job_kind_def)

text \<open>On this server a run has no error, and every answer to a Get is the Karta that is stored.\<close>

lemma server_get: "sv_kartas s name = Some k \<Longrightarrow> k_Name (kr_karta k) = name \<Longrightarrow> kc_Get (server_client index) name s = (Inr k, s)"
  by (simp add: server_client_def)

lemma server_run:
  assumes "sv_kartas s name = Some k" "k_Name (kr_karta k) = name"
  shows "fst (Reconcile L (server_client index) nativeGVKs name s) = None"
proof (cases "kr_DeletionTimestamp k")
  case None
  let ?C = "server_client index"
  have v: "sv_kartas (snd (validateKarta L ?C k' s')) = sv_kartas s' \<and> kr_karta (fst (validateKarta L ?C k' s')) = kr_karta k'" for k' s'
    by (auto simp: validateKarta_def server_client_def split: option.split)
  have c: "\<exists>k1 s1. checkCRDExists L ?C nativeGVKs k' s' = (None, k1, s1) \<and> sv_kartas s1 = sv_kartas s' \<and> kr_karta k1 = kr_karta k'" for k' s'
    by (auto simp: checkCRDExists_def checkGVKServed_def server_client_def Let_def split: option.split bool.split)
  have e: "\<exists>k1 s1. ensureLabels ?C k' s' = (None, k1, s1) \<and> sv_kartas s1 name \<noteq> None"
    if "sv_kartas s' name = Some x" "k_Name (kr_karta k') = name" for k' s' x
    using that by (auto simp: ensureLabels_def server_client_def split: option.split)
  have "\<exists>k1 s1. reconcile L ?C nativeGVKs k s = (None, k1, s1) \<and> sv_kartas s1 name \<noteq> None"
  proof -
    let ?k = "k\<lparr>kr_Conditions := setDefaultConditions L (kr_Generation k) (kr_Conditions k)\<rparr>"
    obtain k2 s2 where 2: "validateKarta L ?C ?k s = (k2, s2)" by force
    with v [of ?k s] have k2: "sv_kartas s2 = sv_kartas s" "kr_karta k2 = kr_karta k" by auto
    from c [of k2 s2] obtain k3 s3 where 3: "checkCRDExists L ?C nativeGVKs k2 s2 = (None, k3, s3)"
      "sv_kartas s3 = sv_kartas s" "kr_karta k3 = kr_karta k" using k2 by auto
    from e [of s3 k k3] 3 assms obtain k4 s4 where "ensureLabels ?C k3 s3 = (None, k4, s4)" "sv_kartas s4 name \<noteq> None" by auto
    with 2 3 show ?thesis by (simp add: reconcile_def)
  qed
  then obtain k1 s1 x where "reconcile L ?C nativeGVKs k s = (None, k1, s1)" "sv_kartas s1 name = Some x" by auto
  moreover from this(2) assms(2) have "\<exists>r. kc_StatusPatch ?C k k1 s1 = (Inr (fst r), snd r)" by (simp add: server_client_def)
  ultimately show ?thesis using None server_get [OF assms] by (auto simp: Reconcile_def Let_def)
next
  case (Some d)
  with server_get [OF assms] show ?thesis by (simp add: Reconcile_def)
qed

text \<open>The first run adds the labels.\<close>

lemma sample_facts:
  "sv_kartas sample_server ''sample'' = Some sample_resource" "k_Name (kr_karta sample_resource) = ''sample''"
  "kr_DeletionTimestamp sample_resource = None" "kr_Generation sample_resource = 3" "kr_Conditions sample_resource = []"
  "\<not> labelled sample_resource" "accepted sample_operator sample_resource"
proof -
  show "\<not> labelled sample_resource"
    by (simp add: labelled_def desiredRootLabels_def sample_resource_root sample_job_kind_def labelsMatch_def)
      (simp add: sample_resource_def)
  show "accepted sample_operator sample_resource"
    using sample_valid by (simp add: accepted_def sample_operator_def list_operatorlib_def sample_resource_def)
qed (simp_all add: sample_server_def sample_resource_def sample_karta_def karta_with_def)

lemma sample_first_run:
  obtains w1 k1 where "Reconcile sample_operator sample_client {sample_job_kind} ''sample'' sample_server = (None, w1)"
    "sv_kartas w1 ''sample'' = Some k1" "kr_karta k1 = kr_karta sample_resource"
proof -
  note F = sample_facts
  obtain w1 where w1: "Reconcile sample_operator sample_client {sample_job_kind} ''sample'' sample_server = (None, w1)"
    using server_run [OF F(1,2)] by (metis prod.collapse)
  from reconciler.run_unlabelled [OF sample_reconciler this server_get [OF F(1,2)] F(3,6)] that w1 show thesis by (metis fun_upd_same)
qed

theorem reconcile_settles_witness:
  "\<exists>w1 w2 k'. Reconcile sample_operator sample_client {sample_job_kind} ''sample'' sample_server = (None, w1)
     \<and> Reconcile sample_operator sample_client {sample_job_kind} ''sample'' w1 = (None, w2)
     \<and> sv_kartas w2 ''sample'' = Some k' \<and> ol_FindStatusCondition sample_operator (kr_Conditions k') ConditionReady = Some (ready_condition 3 True)"
proof -
  let ?R = "Reconcile sample_operator sample_client {sample_job_kind} ''sample''"
  note F = sample_facts
  obtain w1 k1 where w1: "?R sample_server = (None, w1)" and k1: "sv_kartas w1 ''sample'' = Some k1" "kr_karta k1 = kr_karta sample_resource"
    by (rule sample_first_run)
  have n1: "k_Name (kr_karta k1) = ''sample''" using k1(2) F(2) by simp
  obtain w2 where w2: "?R w1 = (None, w2)" using server_run [OF k1(1) n1] by (metis prod.collapse)
  have g: "fst (kc_Get sample_client ''sample'' sample_server) = Inr sample_resource"
    "fst (kc_Get sample_client ''sample'' w1) = Inr (the (sv_kartas w1 ''sample''))"
    using server_get [OF F(1,2)] server_get [OF k1(1) n1] k1(1) by auto
  from reconcile_settles [OF sample_reconciler F(1,3) g(1) w1 g(2) w2] obtain k'
    where k': "sv_kartas w2 = (sv_kartas sample_server)(''sample'' \<mapsto> k')" "kr_karta k' = kr_karta sample_resource"
      "kr_Generation k' = kr_Generation sample_resource" "settled sample_operator {sample_job_kind} (sv_crds sample_server) k'" by blast
  have "root_served sample_operator {sample_job_kind} (sv_crds sample_server) sample_resource"
    by (simp add: root_served_def sample_resource_root)
  with k'(3,4) F(4,7) have "ol_FindStatusCondition sample_operator (kr_Conditions k') ConditionReady = Some (ready_condition 3 True)"
    using same_spec [OF k'(2,3)] by (simp add: settled_def verdicts_def)
  with w1 w2 k'(1) show ?thesis by auto
qed

text \<open>A Karta that was invalid in its second generation and is valid in its third; the run that labels it leaves the old verdict.\<close>

definition stale_resource :: KartaResource where
  "stale_resource = sample_resource\<lparr>kr_Conditions := [validated_condition 2 ConditionFalse ''invalid'', crd_condition 2 ConditionTrue []]\<rparr>"

definition stale_server :: server where
  "stale_server = sample_server\<lparr>sv_kartas := [''sample'' \<mapsto> stale_resource]\<rparr>"

lemma stale_facts:
  "sv_kartas stale_server ''sample'' = Some stale_resource" "k_Name (kr_karta stale_resource) = ''sample''"
  "kr_DeletionTimestamp stale_resource = None" "\<not> labelled stale_resource" "accepted sample_operator stale_resource"
  "kr_Conditions stale_resource = [validated_condition 2 ConditionFalse ''invalid'', crd_condition 2 ConditionTrue []]"
proof -
  show "\<not> labelled stale_resource" using sample_facts(6) labelled_cong [of stale_resource sample_resource] by (simp add: stale_resource_def)
  show "accepted sample_operator stale_resource" using sample_facts(7) by (simp add: accepted_def stale_resource_def)
qed (use sample_facts in \<open>simp_all add: stale_server_def stale_resource_def\<close>)

theorem labelling_discards_witness:
  "\<exists>w1 k'. Reconcile sample_operator sample_client {sample_job_kind} ''sample'' stale_server = (None, w1)
     \<and> sv_kartas w1 ''sample'' = Some k' \<and> accepted sample_operator stale_resource
     \<and> ol_FindStatusCondition sample_operator (kr_Conditions k') ConditionValidated = Some (validated_condition 2 ConditionFalse ''invalid'')"
proof -
  note F = stale_facts
  obtain w1 where w1: "Reconcile sample_operator sample_client {sample_job_kind} ''sample'' stale_server = (None, w1)"
    using server_run [OF F(1,2)] by (metis prod.collapse)
  have g: "fst (kc_Get sample_client ''sample'' stale_server) = Inr stale_resource" using server_get [OF F(1,2)] by simp
  have "ol_FindStatusCondition sample_operator (kr_Conditions stale_resource) ConditionValidated = Some (validated_condition 2 ConditionFalse ''invalid'')"
    by (simp add: F(6) sample_operator_def list_operatorlib_def validated_condition_def Let_def)
  with labelling_discards [OF sample_reconciler F(1,3,4) g w1] w1 F(5,6) show ?thesis by auto
qed

section \<open>Admission\<close>

lemma first_admitted:
  assumes "view Map.empty (\<lambda>key. Inr [])"
  shows "admitted sample_operator view [''sample'' \<mapsto> Default sample_resource]"
proof -
  have "ValidateCreate sample_operator (\<lambda>key. Inr []) (Default sample_resource) = None"
    using sample_facts(7) by (simp add: ValidateCreate_def accepted_def checkUniqueRootGVK_def sample_resource_root)
  from admission_step.create [where c = Map.empty and name = "''sample''" and view = view, OF _ sample_facts(2) assms this]
  have "admission_step sample_operator view Map.empty [''sample'' \<mapsto> Default sample_resource]" by simp
  from admitted.step [OF admitted.empty this] show ?thesis .
qed

text \<open>C12 Every Karta in a cluster whose requests pass the webhooks is accepted by the validator, has a root kind and carries the
  three labels of it, however late the answers of the client are; and as long as these are up to date no two Kartas have the same root
  kind.\<close>

theorem admission_sound:
  assumes "admitted L view c" "c name = Some k"
  shows "Validate (ol_parse L) (Some (kr_karta k)) = None \<and> root_labelled k \<and> k_Name (kr_karta k) = name
    \<and> ((\<forall>c listing. view c listing \<longrightarrow> exact_view L c listing)
         \<longrightarrow> (\<forall>name' k'. c name' = Some k' \<and> rootGVK k' = rootGVK k \<longrightarrow> name' = name))"
  using admitted_admissible [OF assms] admitted_unique [OF assms(1)] assms(2)
  by (auto simp: admissible_def unique_roots_def)

theorem admission_sound_witness:
  "\<exists>c k. admitted sample_operator (exact_view sample_operator) c \<and> c ''sample'' = Some k \<and> root_labelled k"
proof -
  have c: "admitted sample_operator (exact_view sample_operator) [''sample'' \<mapsto> Default sample_resource]"
    by (rule first_admitted) (simp add: exact_view_def)
  have "root_labelled (Default sample_resource)"
    using conjunct1 [OF conjunct2 [OF admission_sound [OF c, of "''sample''" "Default sample_resource"]]] by simp
  with c show ?thesis by (intro exI [of _ "[''sample'' \<mapsto> Default sample_resource]"] exI [of _ "Default sample_resource"] conjI) simp_all
qed

text \<open>C29 In such a cluster an event of a CRD, as the cache keeps it, leads to requests for exactly the Kartas whose root has
  the group and kind of one of its objects, of any version. An update that leaves the generation of the CRD as it is leads to none, and
  when the Kartas of an object cannot be listed nothing is requested for it. The answers of the client that are not errors are
  taken to be current.\<close>

theorem crd_event_reaches:
  assumes "admitted L view c" "exact_labels c listing"
  shows "set (crd_requests listing event)
    = {name. (case event of CRDUpdated old new \<Rightarrow> crd_Generation old \<noteq> crd_Generation new | _ \<Rightarrow> True)
        \<and> (\<exists>crd k gvk. crd \<in> set (event_objects event)
             \<and> \<not> isl (listing [(LabelRootGroup, crd_Group crd), (LabelRootKind, crd_Kind crd)])
             \<and> c name = Some k \<and> rootGVK k = Some gvk \<and> GroupKind_of gvk = crd_GroupKind crd)}"
proof -
  have one: "set (MapCRDToKartaEvent listing (Some (TrimCRDFields crd)))
      = {name. \<not> isl (listing [(LabelRootGroup, crd_Group crd), (LabelRootKind, crd_Kind crd)])
          \<and> (\<exists>k gvk. c name = Some k \<and> rootGVK k = Some gvk \<and> GroupKind_of gvk = crd_GroupKind crd)}" for crd
  proof (cases "listing [(LabelRootGroup, crd_Group crd), (LabelRootKind, crd_Kind crd)]")
    case (Inl e)
    then show ?thesis by (simp add: MapCRDToKartaEvent_def TrimCRDFields_def)
  next
    case (Inr items)
    with assms(2) have set: "set items = {k \<in> ran c. kr_Labels k LabelRootGroup = Some (crd_Group crd) \<and> kr_Labels k LabelRootKind = Some (crd_Kind crd)}"
      by (auto simp: exact_labels_def)
    have reached: "kr_Labels k LabelRootGroup = Some (crd_Group crd) \<and> kr_Labels k LabelRootKind = Some (crd_Kind crd)
        \<longleftrightarrow> (\<exists>gvk. rootGVK k = Some gvk \<and> GroupKind_of gvk = crd_GroupKind crd)" "k_Name (kr_karta k) = name"
      if "c name = Some k" for name k
      using admitted_admissible [OF assms(1) that]
      by (auto simp: admissible_def root_labelled_def GroupKind_of_def crd_GroupKind_def)
    have "set (MapCRDToKartaEvent listing (Some (TrimCRDFields crd))) = (\<lambda>k. k_Name (kr_karta k)) ` set items"
      by (simp add: MapCRDToKartaEvent_def TrimCRDFields_def Inr)
    also have "\<dots> = {name. \<exists>k gvk. c name = Some k \<and> rootGVK k = Some gvk \<and> GroupKind_of gvk = crd_GroupKind crd}"
      unfolding set using reached by (auto simp: ran_def image_iff) metis+
    finally show ?thesis by (simp add: Inr)
  qed
  have "GenerationChangedPredicate event \<longleftrightarrow> (case event of CRDUpdated old new \<Rightarrow> crd_Generation old \<noteq> crd_Generation new | _ \<Rightarrow> True)"
    by (cases event) auto
  then show ?thesis by (auto simp: crd_requests_def one)
qed

definition sample_crd :: CustomResourceDefinition where
  "sample_crd = \<lparr>crd_Name = ''jobs.batch'', crd_ResourceVersion = ''7'', crd_Generation = 1, crd_Group = ''batch'', crd_Kind = ''Job'',
     crd_Versions = [\<lparr>cdv_Name = ''v1'', cdv_Served = True, cdv_Rest = ''schema''\<rparr>], crd_Rest = ''status''\<rparr>"

theorem crd_event_reaches_witness:
  "\<exists>c listing. c ''sample'' = Some (Default sample_resource) \<and> ''sample'' \<in> set (crd_requests listing (CRDCreated sample_crd))
     \<and> set (crd_requests listing (CRDUpdated sample_crd (sample_crd\<lparr>crd_ResourceVersion := ''8''\<rparr>))) = {}"
proof -
  let ?c = "[''sample'' \<mapsto> Default sample_resource]"
  let ?listing = "\<lambda>ls. Inr (if \<forall>(l, v) \<in> set ls. kr_Labels (Default sample_resource) l = Some v then [Default sample_resource] else [])"
  have c: "admitted sample_operator (\<lambda>c l. True) ?c" by (rule first_admitted) simp
  have "exact_labels ?c ?listing" by (simp add: exact_labels_def) auto
  note reaches = crd_event_reaches [OF c this]
  have "''sample'' \<in> set (crd_requests ?listing (CRDCreated sample_crd))"
    unfolding reaches by (simp add: sample_resource_root sample_job_kind_def GroupKind_of_def crd_GroupKind_def sample_crd_def)
  moreover have "set (crd_requests ?listing (CRDUpdated sample_crd (sample_crd\<lparr>crd_ResourceVersion := ''8''\<rparr>))) = {}"
    unfolding reaches by simp
  ultimately show ?thesis by (intro exI [of _ ?c] exI [of _ ?listing]) simp
qed

text \<open>C31 A Karta of a core kind, whose group is the empty string, that lacks the label of the group only is left as it is by
  the reconciler, for which a missing label is the empty string; the webhook, for which it is not, then refuses every update that
  does not add the label.\<close>

theorem group_label_missing:
  assumes "rootGVK k = Some gvk" "gvk_Group gvk = []" "kr_Labels k LabelRootGroup = None"
    and "kr_Labels k LabelRootVersion = Some (gvk_Version gvk)" "kr_Labels k LabelRootKind = Some (gvk_Kind gvk)"
  shows "ensureLabels C k w = (None, k, w) \<and> ValidateUpdate L listing old k \<noteq> None"
proof -
  have "labelsMatch (kr_Labels k) [(LabelRootGroup, gvk_Group gvk), (LabelRootVersion, gvk_Version gvk), (LabelRootKind, gvk_Kind gvk)]"
    using assms(2-5) by (simp add: labelsMatch_def)
  moreover have "checkRootLabels k \<noteq> None" using checkRootLabels_None [of k] assms(1,3) by (simp add: root_labelled_def)
  ultimately show ?thesis
    using assms(1) by (auto simp: ensureLabels_def ValidateUpdate_def desiredRootLabels_def split: option.split)
qed

definition sample_pod_resource :: KartaResource where
  "sample_pod_resource = sample_resource\<lparr>
     kr_karta := karta_with (sample_root\<lparr>cd_Kind := Some \<lparr>gvk_Group = [], gvk_Version = ''v1'', gvk_Kind = ''Pod''\<rparr>\<rparr>) [sample_worker],
     kr_Labels := [LabelRootVersion \<mapsto> ''v1'', LabelRootKind \<mapsto> ''Pod'']\<rparr>"

theorem group_label_missing_witness:
  "ensureLabels sample_client sample_pod_resource sample_server = (None, sample_pod_resource, sample_server)
     \<and> ValidateUpdate sample_operator (\<lambda>key. Inr []) sample_pod_resource sample_pod_resource \<noteq> None"
  by (rule group_label_missing [where gvk = "\<lparr>gvk_Group = [], gvk_Version = ''v1'', gvk_Kind = ''Pod''\<rparr>"])
    (simp_all add: sample_pod_resource_def rootGVK_def karta_with_def)

section \<open>What the operator reads of the cluster\<close>

text \<open>Nothing that the operator does depends on what the cache drops of a CRD: a reconciliation over trimmed CRDs has the same
  outcome as over whole ones, the index finds them under the same keys, and their events lead to the same requests.\<close>

theorem trim_invisible:
  "Reconcile L (C\<lparr>kc_ListCRDs := (\<lambda>key w. case kc_ListCRDs C key w of (r, w') \<Rightarrow> (map_sum id (map TrimCRDFields) r, w'))\<rparr>) nativeGVKs name w
     = Reconcile L C nativeGVKs name w
   \<and> crd_index L (TrimCRDFields crd) = crd_index L crd
   \<and> MapCRDToKartaEvent listing (Some (TrimCRDFields crd)) = MapCRDToKartaEvent listing (Some crd)"
proof -
  let ?C = "C\<lparr>kc_ListCRDs := (\<lambda>key w. case kc_ListCRDs C key w of (r, w') \<Rightarrow> (map_sum id (map TrimCRDFields) r, w'))\<rparr>"
  have serves: "crdServesVersion (TrimCRDFields crd) v \<longleftrightarrow> crdServesVersion crd v" for crd v
    by (simp add: crdServesVersion_def TrimCRDFields_def)
  have "checkGVKServed L ?C nativeGVKs gvk w' = checkGVKServed L C nativeGVKs gvk w'" for gvk w'
    by (auto simp: checkGVKServed_def serves split: prod.split sum.split)
  then have c: "checkCRDExists L ?C nativeGVKs = checkCRDExists L C nativeGVKs"
    by (simp add: fun_eq_iff checkCRDExists_def split: option.split prod.split sum.split bool.split)
  have v: "validateKarta L ?C = validateKarta L C" by (simp add: fun_eq_iff validateKarta_def split: option.split)
  have e: "ensureLabels ?C = ensureLabels C" by (simp add: fun_eq_iff ensureLabels_def split: option.split)
  have r: "reconcile L ?C nativeGVKs = reconcile L C nativeGVKs" unfolding fun_eq_iff reconcile_def v c e by simp
  have g: "kc_Get ?C = kc_Get C" "kc_StatusPatch ?C = kc_StatusPatch C" by simp_all
  have "Reconcile L ?C nativeGVKs name w = Reconcile L C nativeGVKs name w" unfolding Reconcile_def r g ..
  then show ?thesis by (simp add: crd_index_def crd_GroupKind_def MapCRDToKartaEvent_def TrimCRDFields_def)
qed

lemma native_resources_set:
  "native_resources crdGKs gv rs natives
     = natives \<union> {gvk. gvk_Group gvk = fst gv \<and> gvk_Version gvk = snd gv \<and> (\<exists>res \<in> set rs. native_resource crdGKs (fst gv) res \<and> gvk_Kind gvk = ar_Kind res)}"
  by (induction rs arbitrary: natives) auto

definition natives_of :: "(string \<Rightarrow> (string \<times> string) xres) \<Rightarrow> CustomResourceDefinition list \<Rightarrow> APIResourceList list \<Rightarrow> GroupVersionKind set" where
  "natives_of parseGV crds lsts = native_lists parseGV (set (map crd_GroupKind crds)) lsts {}"

lemma native_lists_set:
  "native_lists parseGV crdGKs ls natives
     = natives \<union> {gvk. \<exists>l \<in> set ls. parseGV (arl_GroupVersion l) = Inr (gvk_Group gvk, gvk_Version gvk)
           \<and> (\<exists>res \<in> set (arl_APIResources l). native_resource crdGKs (gvk_Group gvk) res \<and> gvk_Kind gvk = ar_Kind res)}"
  by (induction ls arbitrary: natives) (auto simp: native_resources_set split: sum.splits)

text \<open>The built-in kinds that the operator discovers are exactly those of the resources, subresources aside, that can be listed and
  watched and that no CRD defines, in every group and version that parses; it fails when the CRDs cannot be listed, or when discovery
  fails with an error that is not about single groups.\<close>

theorem natives_exact:
  "discoverNativeGVKs parseGV isGroupFailure (Inr crds) (lsts, failure)
     = (case failure of
          Some e \<Rightarrow> if isGroupFailure e then Inr (natives_of parseGV crds lsts) else Inl (XWrapf ''list server resources: %w'' [] [e])
        | None \<Rightarrow> Inr (natives_of parseGV crds lsts))
   \<and> (gvk \<in> natives_of parseGV crds lsts \<longleftrightarrow>
        (\<exists>l \<in> set lsts. parseGV (arl_GroupVersion l) = Inr (gvk_Group gvk, gvk_Version gvk)
           \<and> (\<exists>res \<in> set (arl_APIResources l). ar_Kind res = gvk_Kind gvk \<and> CHR ''/'' \<notin> set (ar_Name res)
                \<and> {''list'', ''watch''} \<subseteq> set (ar_Verbs res) \<and> GroupKind_of gvk \<notin> set (map crd_GroupKind crds))))"
proof -
  have "native_resource K (gvk_Group gvk) res \<and> gvk_Kind gvk = ar_Kind res \<longleftrightarrow> ar_Kind res = gvk_Kind gvk \<and> CHR ''/'' \<notin> set (ar_Name res)
      \<and> {''list'', ''watch''} \<subseteq> set (ar_Verbs res) \<and> GroupKind_of gvk \<notin> K" for K res
    by (auto simp: native_resource_def GroupKind_of_def)
  then show ?thesis by (simp add: discoverNativeGVKs_def natives_of_def native_lists_set split: option.split)
qed

end
