(* ===== verification/CLI_Definitions.thy ===== *)
theory CLI_Definitions
  imports Exporter_Prelude Catalog
begin

text \<open>
  \<^verbatim>\<open>cli/pkg/definitions/{resolver,load}.go\<close>: the definitions that the command line tool knows, built in and read from the cluster. Paths
  are relative to \<^verbatim>\<open>src\<close>. Go maps are association lists. The sorting functions of package slices, the texts of kinds and quoted names and the
  texts of errors are parameters; the former keep the locale \<open>key_sorter\<close>.
\<close>

section \<open>Definitions and the resolver\<close>

datatype DefinitionOrigin = OriginCatalog | OriginCluster

record Definition =
  def_Karta :: Karta
  def_Origin :: DefinitionOrigin

record Collision =
  col_GVK :: GroupVersionKind
  col_Names :: "string list"

record Resolver =
  rs_definitions :: "Definition list"

record resolverlib =
  rl_sortKartas :: "(Karta \<Rightarrow> string) \<Rightarrow> Karta list \<Rightarrow> Karta list"
  rl_sortDefinitions :: "(Definition \<Rightarrow> string) \<Rightarrow> Definition list \<Rightarrow> Definition list"
  rl_sortGVKs :: "(GroupVersionKind \<Rightarrow> string) \<Rightarrow> GroupVersionKind list \<Rightarrow> GroupVersionKind list"
  rl_gvkString :: "GroupVersionKind \<Rightarrow> string"
  rl_gvString :: "string \<Rightarrow> string \<Rightarrow> string"
  rl_Quote :: "string \<Rightarrow> string"
  rl_Error :: "xerr \<Rightarrow> string"

definition ErrNoDefinition :: xerr where
  "ErrNoDefinition = XErrorf ''definitions: no Karta definition for GVK'' []"

definition ErrNameNotFound :: xerr where
  "ErrNameNotFound = XErrorf ''definitions: no Karta definition named'' []"

definition ErrAmbiguous :: xerr where
  "ErrAmbiguous = XErrorf ''definitions: more than one Karta definition for GVK'' []"

definition FormatGVK :: "resolverlib \<Rightarrow> GroupVersionKind \<Rightarrow> string" where
  "FormatGVK L gvk = rl_gvString L (gvk_Group gvk) (gvk_Version gvk) @ ''/'' @ gvk_Kind gvk"

definition mappable :: "Definition \<Rightarrow> GroupVersionKind \<times> bool" where
  "mappable d = (let gvk = RootKey (def_Karta d) in (gvk, gvk_Version gvk \<noteq> [] \<and> gvk_Kind gvk \<noteq> []))"

text \<open>\<open>claimed[gvk] = append(claimed[gvk], def)\<close>; a missing key reads as no definitions.\<close>

definition claims_in :: "(GroupVersionKind \<times> Definition list) list \<Rightarrow> GroupVersionKind \<Rightarrow> Definition list" where
  "claims_in claimed gvk = (case map_of claimed gvk of None \<Rightarrow> [] | Some ds \<Rightarrow> ds)"

definition append_claim :: "GroupVersionKind \<Rightarrow> Definition \<Rightarrow> (GroupVersionKind \<times> Definition list) list \<Rightarrow> (GroupVersionKind \<times> Definition list) list" where
  "append_claim gvk d claimed = AList.update gvk (claims_in claimed gvk @ [d]) claimed"

fun index_loop ::
  "DefinitionOrigin \<Rightarrow> Karta list \<Rightarrow> Definition list \<Rightarrow> (GroupVersionKind \<times> Definition list) list
     \<Rightarrow> Definition list \<times> (GroupVersionKind \<times> Definition list) list" where
  "index_loop origin [] unmapped claimed = (unmapped, claimed)"
| "index_loop origin (k # ks) unmapped claimed =
     (let d = \<lparr>def_Karta = k, def_Origin = origin\<rparr>; (gvk, ok) = mappable d
      in if \<not> ok then index_loop origin ks (unmapped @ [d]) claimed
         else index_loop origin ks unmapped (append_claim gvk d claimed))"

text \<open>The listing after one source, and the definitions of it that name no kind.\<close>

definition index_source ::
  "resolverlib \<Rightarrow> (GroupVersionKind \<times> Definition list) list \<Rightarrow> Karta list \<Rightarrow> DefinitionOrigin
     \<Rightarrow> (GroupVersionKind \<times> Definition list) list \<times> Definition list" where
  "index_source L listing kartas origin =
     (let (unmapped, claimed) = index_loop origin (rl_sortKartas L k_Name kartas) [] []
      in (fold (\<lambda>(gvk, ds). AList.update gvk ds) claimed listing, unmapped))"

definition definitions_New :: "resolverlib \<Rightarrow> Karta list \<Rightarrow> Karta list \<Rightarrow> Resolver" where
  "definitions_New L catalogKartas cluster =
     (let (listing1, unmapped1) = index_source L [] catalogKartas OriginCatalog;
          (listing, unmapped2) = index_source L listing1 cluster OriginCluster;
          gvks = rl_sortGVKs L (rl_gvkString L) (map fst listing)
      in \<lparr>rs_definitions =
            concat (map (claims_in listing) gvks)
            @ rl_sortDefinitions L (\<lambda>d. k_Name (def_Karta d)) (unmapped1 @ unmapped2)\<rparr>)"

definition covers :: "GroupVersionKind \<Rightarrow> Definition \<Rightarrow> bool" where
  "covers gvk d \<longleftrightarrow> mappable d = (gvk, True)"

definition definitions_Resolve :: "resolverlib \<Rightarrow> Resolver \<Rightarrow> GroupVersionKind \<Rightarrow> Definition xres" where
  "definitions_Resolve L r gvk =
     (case filter (covers gvk) (rs_definitions r) of
        [] \<Rightarrow> Inl (XWrapf ''%w: %s'' [AStr (FormatGVK L gvk)] [ErrNoDefinition])
      | [d] \<Rightarrow> Inr d
      | ds \<Rightarrow> Inl (XWrapf ''%w: %s: %s''
          [AStr (FormatGVK L gvk), AStr (strings_Join (map (\<lambda>d. rl_Quote L (k_Name (def_Karta d))) ds) '', '')] [ErrAmbiguous]))"

definition definitions_List :: "Resolver \<Rightarrow> Definition list" where
  "definitions_List r = rs_definitions r"

text \<open>The model of strings.ToLower is that of ASCII.\<close>

definition ByRootKind :: "Resolver \<Rightarrow> string \<Rightarrow> Definition list" where
  "ByRootKind r kind =
     filter (\<lambda>d. snd (mappable d) \<and> to_lower (gvk_Kind (fst (mappable d))) = to_lower kind) (rs_definitions r)"

fun by_name_loop :: "string \<Rightarrow> Definition list \<Rightarrow> Definition option \<Rightarrow> Definition option" where
  "by_name_loop name [] catalogMatch = catalogMatch"
| "by_name_loop name (d # ds) catalogMatch =
     (if k_Name (def_Karta d) \<noteq> name then by_name_loop name ds catalogMatch
      else if def_Origin d = OriginCluster then Some d
      else by_name_loop name ds (if catalogMatch = None then Some d else catalogMatch))"

definition ByName :: "resolverlib \<Rightarrow> Resolver \<Rightarrow> string \<Rightarrow> Definition xres" where
  "ByName L r name =
     (case by_name_loop name (rs_definitions r) None of
        None \<Rightarrow> Inl (XWrapf ''%w: %q'' [AStr name] [ErrNameNotFound])
      | Some d \<Rightarrow> Inr d)"

definition flush :: "GroupVersionKind \<Rightarrow> string list \<Rightarrow> Collision list \<Rightarrow> Collision list" where
  "flush gvk names out = (if length names > 1 then out @ [\<lparr>col_GVK = gvk, col_Names = names\<rparr>] else out)"

fun collisions_loop :: "Definition list \<Rightarrow> GroupVersionKind \<Rightarrow> string list \<Rightarrow> Collision list \<Rightarrow> Collision list" where
  "collisions_loop [] current names out = flush current names out"
| "collisions_loop (d # ds) current names out =
     (let (gvk, ok) = mappable d;
          (current', names', out') = (if \<not> ok \<or> gvk \<noteq> current then (gvk, [], flush current names out) else (current, names, out))
      in collisions_loop ds current' (if ok then names' @ [k_Name (def_Karta d)] else names') out')"

definition Collisions :: "Resolver \<Rightarrow> Collision list" where
  "Collisions r = collisions_loop (rs_definitions r) zero_GroupVersionKind [] []"

section \<open>Loading\<close>

record Warning =
  wn_Reason :: string
  wn_Message :: string

text \<open>
  What the tool gets from the cluster: the error of the configuration, of the client and of the list, or the listed objects \<open>'u\<close>, which a
  converter decodes.
\<close>

record 'u loadlib =
  ll_resolver :: resolverlib
  ll_convert :: "'u \<Rightarrow> Karta xres"
  ll_GetName :: "'u \<Rightarrow> string"
  ll_IsEmptyConfig :: "xerr \<Rightarrow> bool"
  ll_Sprint :: "string \<Rightarrow> fmtarg list \<Rightarrow> string"

text \<open>strings.Fields on ASCII; the second argument is the word read so far.\<close>

fun strings_Fields :: "string \<Rightarrow> string \<Rightarrow> string list" where
  "strings_Fields [] w = (if w = [] then [] else [w])"
| "strings_Fields (c # cs) w =
     (if c \<in> {CHR 0x09, CHR 0x0A, CHR 0x0B, CHR 0x0C, CHR 0x0D, CHR '' ''}
      then (if w = [] then [] else [w]) @ strings_Fields cs []
      else strings_Fields cs (w @ [c]))"

text \<open>errors.Unwrap: an error with a single wrapped one has a cause.\<close>

fun unwrap_chain :: "xerr \<Rightarrow> xerr list" where
  "unwrap_chain (XWrapf f as [e]) = XWrapf f as [e] # unwrap_chain e"
| "unwrap_chain e = [e]"

definition classify :: "'u loadlib \<Rightarrow> xerr \<Rightarrow> Warning option" where
  "classify L err =
     (if \<exists>cause \<in> set (unwrap_chain err). ll_IsEmptyConfig L cause then None
      else if IsNotFound err
      then Some \<lparr>wn_Reason = ''no_crd'', wn_Message = ''the kartas.run.ai CRD is not installed; showing built-in definitions only''\<rparr>
      else if IsForbidden err
      then Some \<lparr>wn_Reason = ''forbidden'', wn_Message =
        ''not allowed to list kartas.run.ai; showing built-in definitions only. Ask a cluster administrator for \"list\" permission on kartas.run.ai to include cluster definitions.''\<rparr>
      else Some \<lparr>wn_Reason = ''unreachable'', wn_Message = strings_Join (strings_Fields
        (ll_Sprint L ''could not read Karta definitions from the cluster: %v; showing built-in definitions only''
           [AStr (rl_Error (ll_resolver L) err)]) []) '' ''\<rparr>)"

definition warn :: "string \<Rightarrow> string \<Rightarrow> Warning list \<Rightarrow> Warning list" where
  "warn reason message warnings = warnings @ [\<lparr>wn_Reason = reason, wn_Message = message\<rparr>]"

fun convert_all :: "'u loadlib \<Rightarrow> 'u list \<Rightarrow> Karta list \<Rightarrow> Warning list \<Rightarrow> Karta list \<times> Warning list" where
  "convert_all L [] kartas warnings = (kartas, warnings)"
| "convert_all L (item # items) kartas warnings =
     (case ll_convert L item of
        Inl e \<Rightarrow> convert_all L items kartas (warn ''invalid''
          (ll_Sprint L ''skipping Karta definition %q: %v'' [AStr (ll_GetName L item), AStr (rl_Error (ll_resolver L) e)]) warnings)
      | Inr k \<Rightarrow> convert_all L items (kartas @ [k]) warnings)"

definition listWithClient :: "'u loadlib \<Rightarrow> 'u list xres \<Rightarrow> Warning list \<Rightarrow> Karta list xres \<times> Warning list" where
  "listWithClient L listed warnings =
     (case listed of
        Inl e \<Rightarrow> (Inl (XWrapf ''list Karta definitions: %w'' [] [e]), warnings)
      | Inr items \<Rightarrow> (case convert_all L items [] warnings of (kartas, ws) \<Rightarrow> (Inr kartas, ws)))"

definition fetchCluster :: "'u loadlib \<Rightarrow> xerr option \<Rightarrow> xerr option \<Rightarrow> 'u list xres \<Rightarrow> Warning list \<Rightarrow> Karta list xres \<times> Warning list" where
  "fetchCluster L config client listed warnings =
     (case config of
        Some e \<Rightarrow> (Inl (XWrapf ''kubernetes config: %w'' [] [e]), warnings)
      | None \<Rightarrow>
          (case client of
             Some e \<Rightarrow> (Inl (XWrapf ''kubernetes dynamic client: %w'' [] [e]), warnings)
           | None \<Rightarrow> listWithClient L listed warnings))"

definition collision_message :: "'u loadlib \<Rightarrow> Collision \<Rightarrow> string" where
  "collision_message L c =
     ll_Sprint L ''%d cluster Karta definitions claim %s: %s'' [AInt (int (length (col_Names c))),
       AStr (FormatGVK (ll_resolver L) (col_GVK c)), AStr (strings_Join (map (rl_Quote (ll_resolver L)) (col_Names c)) '', '')]"

definition definitions_Load ::
  "'u loadlib \<Rightarrow> Karta list \<Rightarrow> xerr option \<Rightarrow> xerr option \<Rightarrow> 'u list xres \<Rightarrow> Resolver \<times> Warning list" where
  "definitions_Load L catalog config client listed =
     (let (fetched, warnings) = fetchCluster L config client listed [];
          (cluster, warnings1) = (case fetched of
             Inr ks \<Rightarrow> (ks, warnings)
           | Inl e \<Rightarrow> ([], case classify L e of None \<Rightarrow> warnings | Some w \<Rightarrow> warnings @ [w]));
          r = definitions_New (ll_resolver L) catalog cluster
      in (r, fold (\<lambda>c. warn ''collision'' (collision_message L c)) (Collisions r) warnings1))"

section \<open>What the resolver holds\<close>

text \<open>
  The claimants of a kind: those of the cluster if there is one, else those of the catalog, each by name.
\<close>

definition source_claims :: "resolverlib \<Rightarrow> DefinitionOrigin \<Rightarrow> Karta list \<Rightarrow> GroupVersionKind \<Rightarrow> Definition list" where
  "source_claims L origin kartas gvk =
     filter (covers gvk) (map (\<lambda>k. \<lparr>def_Karta = k, def_Origin = origin\<rparr>) (rl_sortKartas L k_Name kartas))"

definition claimants :: "resolverlib \<Rightarrow> Karta list \<Rightarrow> Karta list \<Rightarrow> GroupVersionKind \<Rightarrow> Definition list" where
  "claimants L catalogKartas cluster gvk =
     (if source_claims L OriginCluster cluster gvk = [] then source_claims L OriginCatalog catalogKartas gvk
      else source_claims L OriginCluster cluster gvk)"

definition unmapped_of :: "resolverlib \<Rightarrow> DefinitionOrigin \<Rightarrow> Karta list \<Rightarrow> Definition list" where
  "unmapped_of L origin kartas =
     filter (\<lambda>d. \<not> snd (mappable d)) (map (\<lambda>k. \<lparr>def_Karta = k, def_Origin = origin\<rparr>) (rl_sortKartas L k_Name kartas))"

abbreviation from_source :: "DefinitionOrigin \<Rightarrow> Karta list \<Rightarrow> Definition list" where
  "from_source origin ks \<equiv> map (\<lambda>k. \<lparr>def_Karta = k, def_Origin = origin\<rparr>) ks"

text \<open>The same without the sorting functions, when names are unique in each source; and the built-in definitions that the cluster replaces.\<close>

definition winners :: "Karta list \<Rightarrow> Karta list \<Rightarrow> GroupVersionKind \<Rightarrow> Definition list" where
  "winners catalogKartas cluster gvk =
     (let claims = (\<lambda>ks. filter (\<lambda>k. RootKey k = gvk) (sort_key k_Name ks))
      in if gvk_Version gvk = [] \<or> gvk_Kind gvk = [] then []
         else if claims cluster = [] then from_source OriginCatalog (claims catalogKartas)
         else from_source OriginCluster (claims cluster))"

definition overridden :: "Karta list \<Rightarrow> Karta \<Rightarrow> bool" where
  "overridden cluster k \<longleftrightarrow>
     gvk_Version (RootKey k) \<noteq> [] \<and> gvk_Kind (RootKey k) \<noteq> [] \<and> (\<exists>k' \<in> set cluster. RootKey k' = RootKey k)"

lemma append_claim_simps [simp]:
  "claims_in (append_claim g d cl) gvk = claims_in cl gvk @ (if g = gvk then [d] else [])"
  "distinct (map fst cl) \<Longrightarrow> distinct (map fst (append_claim g d cl))"
  "map_of (append_claim g d cl) gvk = (if g = gvk then Some (claims_in cl g @ [d]) else map_of cl gvk)"
  by (simp_all add: append_claim_def claims_in_def AList.update_conv' AList.distinct_update)

definition no_empty_claim :: "(GroupVersionKind \<times> Definition list) list \<Rightarrow> bool" where
  "no_empty_claim cl \<longleftrightarrow> (\<forall>gvk. map_of cl gvk \<noteq> Some [])"

lemma index_loop_claims:
  "fst (index_loop origin ks un cl) = un @ filter (\<lambda>d. \<not> snd (mappable d)) (from_source origin ks)"
  "claims_in (snd (index_loop origin ks un cl)) gvk = claims_in cl gvk @ filter (covers gvk) (from_source origin ks)"
  "distinct (map fst cl) \<Longrightarrow> distinct (map fst (snd (index_loop origin ks un cl)))"
  "no_empty_claim cl \<Longrightarrow> no_empty_claim (snd (index_loop origin ks un cl))"
proof -
  have eq: "index_loop origin (k # ks) un cl
      = (if snd (mappable \<lparr>def_Karta = k, def_Origin = origin\<rparr>)
         then index_loop origin ks un (append_claim (fst (mappable \<lparr>def_Karta = k, def_Origin = origin\<rparr>)) \<lparr>def_Karta = k, def_Origin = origin\<rparr> cl)
         else index_loop origin ks (un @ [\<lparr>def_Karta = k, def_Origin = origin\<rparr>]) cl)" for k ks un cl
    by (simp add: Let_def split: prod.split)
  have cov: "covers gvk d \<longleftrightarrow> snd (mappable d) \<and> fst (mappable d) = gvk" for d by (auto simp: covers_def prod_eq_iff)
  show "fst (index_loop origin ks un cl) = un @ filter (\<lambda>d. \<not> snd (mappable d)) (from_source origin ks)"
    by (induction ks arbitrary: un cl) (simp_all only: eq, simp_all)
  show "claims_in (snd (index_loop origin ks un cl)) gvk = claims_in cl gvk @ filter (covers gvk) (from_source origin ks)"
    by (induction ks arbitrary: un cl) (simp_all only: eq, simp_all add: cov)
  show "distinct (map fst cl) \<Longrightarrow> distinct (map fst (snd (index_loop origin ks un cl)))"
    by (induction ks arbitrary: un cl) (simp_all only: eq, simp_all)
  show "no_empty_claim cl \<Longrightarrow> no_empty_claim (snd (index_loop origin ks un cl))"
    by (induction ks arbitrary: un cl) (simp_all only: eq, simp_all add: no_empty_claim_def)
qed

lemma fold_update:
  "distinct (map fst cl) \<Longrightarrow> map_of (fold (\<lambda>(gvk, ds). AList.update gvk ds) cl listing) = map_of listing ++ map_of cl"
proof (induction cl arbitrary: listing)
  case (Cons x cl)
  then have "map_of cl (fst x) = None" by (simp add: map_of_eq_None_iff)
  moreover have "map_of (fold (\<lambda>(gvk, ds). AList.update gvk ds) (x # cl) listing) = (map_of listing)(fst x \<mapsto> snd x) ++ map_of cl"
    using Cons by (cases x) (simp add: AList.update_conv')
  ultimately show ?case by (cases x) (auto simp: map_add_def fun_eq_iff split: option.split)
qed simp

lemma fold_update_distinct:
  "distinct (map fst listing) \<Longrightarrow> distinct (map fst (fold (\<lambda>(gvk, ds). AList.update gvk ds) cl listing))"
  by (induction cl arbitrary: listing) (auto simp: AList.distinct_update)

lemma index_source_claims:
  assumes "index_source L listing kartas origin = (listing', unmapped)" "distinct (map fst listing)" "no_empty_claim listing"
  shows "claims_in listing' gvk = (if source_claims L origin kartas gvk = [] then claims_in listing gvk else source_claims L origin kartas gvk)"
    "unmapped = unmapped_of L origin kartas" "distinct (map fst listing')" "no_empty_claim listing'"
proof -
  let ?i = "index_loop origin (rl_sortKartas L k_Name kartas) [] []"
  have def: "listing' = fold (\<lambda>(gvk, ds). AList.update gvk ds) (snd ?i) listing" "unmapped = fst ?i"
    using assms(1) by (simp_all add: index_source_def split: prod.splits)
  note R = index_loop_claims [where origin = origin and ks = "rl_sortKartas L k_Name kartas" and un = "[]" and cl = "[]"]
  have claims: "claims_in (snd ?i) gvk = source_claims L origin kartas gvk" by (simp add: R(2) source_claims_def) (simp add: claims_in_def)
  have d: "distinct (map fst (snd ?i))" and n: "no_empty_claim (snd ?i)"
    using R(3,4) by (simp_all add: no_empty_claim_def)
  note m = fold_update [OF d, of listing, folded def(1)]
  show "claims_in listing' gvk = (if source_claims L origin kartas gvk = [] then claims_in listing gvk else source_claims L origin kartas gvk)"
    unfolding claims [symmetric] using n by (auto simp: claims_in_def m map_add_def no_empty_claim_def split: option.splits)
  show "unmapped = unmapped_of L origin kartas" by (simp add: def(2) R(1) unmapped_of_def)
  show "distinct (map fst listing')" unfolding def(1) by (rule fold_update_distinct [OF assms(2)])
  show "no_empty_claim listing'"
    using n assms(3) by (auto simp: m map_add_def no_empty_claim_def split: option.splits)
qed

text \<open>Blocks of claimants of the same kind make one collision each.\<close>

definition collision_of :: "GroupVersionKind \<Rightarrow> Definition list \<Rightarrow> Collision list" where
  "collision_of gvk ds = flush gvk (map (\<lambda>d. k_Name (def_Karta d)) ds) []"

lemma flush_append: "flush g names out = out @ flush g names []"
  by (simp add: flush_def)

lemma collisions_block_rest:
  "\<forall>d \<in> set ds. mappable d = (g, True) \<Longrightarrow>
     collisions_loop (ds @ rest) g names out = collisions_loop rest g (names @ map (\<lambda>d. k_Name (def_Karta d)) ds) out"
  by (induction ds arbitrary: names) simp_all

lemma collisions_block:
  assumes "\<forall>d \<in> set ds. mappable d = (g, True)" "ds \<noteq> []" "g \<noteq> current"
  shows "collisions_loop (ds @ rest) current names out = collisions_loop rest g (map (\<lambda>d. k_Name (def_Karta d)) ds) (flush current names out)"
  using assms collisions_block_rest [of "tl ds" g rest] by (cases ds) simp_all

lemma collisions_unmapped:
  "\<forall>d \<in> set ds. \<not> snd (mappable d) \<Longrightarrow> collisions_loop ds current names out = flush current names out"
proof (induction ds arbitrary: current names out)
  case (Cons d ds)
  then show ?case by (cases "mappable d") (simp add: flush_def)
qed simp

lemma collisions_blocks:
  assumes "\<And>g d. d \<in> set (f g) \<Longrightarrow> mappable d = (g, True)" "\<forall>d \<in> set unmapped. \<not> snd (mappable d)"
  shows "distinct gs \<Longrightarrow> \<forall>g \<in> set gs. f g \<noteq> [] \<and> g \<noteq> current \<Longrightarrow>
    collisions_loop (concat (map f gs) @ unmapped) current names out = flush current names out @ concat (map (\<lambda>g. collision_of g (f g)) gs)"
proof (induction gs arbitrary: current names out)
  case Nil
  show ?case by (simp add: collisions_unmapped [OF assms(2)])
next
  case (Cons g gs)
  have "collisions_loop (concat (map f (g # gs)) @ unmapped) current names out
      = collisions_loop (concat (map f gs) @ unmapped) g (map (\<lambda>d. k_Name (def_Karta d)) (f g)) (flush current names out)"
    using collisions_block [of "f g" g current "concat (map f gs) @ unmapped" names out] assms(1) Cons.prems by simp
  also have "\<dots> = flush g (map (\<lambda>d. k_Name (def_Karta d)) (f g)) (flush current names out) @ concat (map (\<lambda>g. collision_of g (f g)) gs)"
    by (rule Cons.IH) (use Cons.prems in auto)
  finally show ?case by (simp add: collision_of_def flush_append [of g _ "flush current names out"])
qed

text \<open>The search by name takes the first definition of the cluster, else the first one.\<close>

lemma by_name_find:
  "by_name_loop name ds m =
     (case find (\<lambda>d. k_Name (def_Karta d) = name \<and> def_Origin d = OriginCluster) ds of
        Some d \<Rightarrow> Some d
      | None \<Rightarrow> if m \<noteq> None then m else find (\<lambda>d. k_Name (def_Karta d) = name) ds)"
proof (induction ds arbitrary: m)
  case (Cons d ds)
  then show ?case by (cases "k_Name (def_Karta d) = name"; cases "def_Origin d") (auto split: option.split)
qed simp

text \<open>The three sorting functions of the resolver sort.\<close>

locale resolver_sorters =
  kartas: key_sorter "rl_sortKartas L" + defs: key_sorter "rl_sortDefinitions L" + gvks: key_sorter "rl_sortGVKs L"
  for L :: resolverlib
begin

lemma New_structure:
  obtains gvks unmapped where
    "rs_definitions (definitions_New L catalogKartas cluster) = concat (map (claimants L catalogKartas cluster) gvks) @ unmapped"
    "distinct gvks" "set gvks = {gvk. claimants L catalogKartas cluster gvk \<noteq> []}" "sorted (map (rl_gvkString L) gvks)"
    "mset unmapped = mset (unmapped_of L OriginCatalog catalogKartas @ unmapped_of L OriginCluster cluster)"
    "sorted (map (\<lambda>d. k_Name (def_Karta d)) unmapped)"
proof -
  obtain l1 u1 where 1: "index_source L [] catalogKartas OriginCatalog = (l1, u1)" by force
  obtain l2 u2 where 2: "index_source L l1 cluster OriginCluster = (l2, u2)" by force
  have "no_empty_claim []" by (simp add: no_empty_claim_def)
  note A = index_source_claims [OF 1 _ this, simplified]
  note B = index_source_claims [OF 2 A(3,4)]
  have claims: "claims_in l2 = claimants L catalogKartas cluster"
    by (rule ext) (simp add: B(1) A(1) claimants_def, simp add: claims_in_def)
  let ?gvks = "rl_sortGVKs L (rl_gvkString L) (map fst l2)"
    and ?un = "rl_sortDefinitions L (\<lambda>d. k_Name (def_Karta d)) (u1 @ u2)"
  have "rs_definitions (definitions_New L catalogKartas cluster) = concat (map (claimants L catalogKartas cluster) ?gvks) @ ?un"
    using 1 2 by (simp add: definitions_New_def claims)
  moreover have "distinct ?gvks" by (rule gvks.distinct_sort_by [OF B(3)])
  moreover have "set ?gvks = {gvk. claimants L catalogKartas cluster gvk \<noteq> []}"
  proof -
    have "gvk \<in> fst ` set l2 \<longleftrightarrow> claims_in l2 gvk \<noteq> []" for gvk
      using B(4) map_of_eq_None_iff [of l2 gvk] by (auto simp: claims_in_def no_empty_claim_def split: option.splits)
    then show ?thesis by (simp add: claims) blast
  qed
  moreover have "sorted (map (rl_gvkString L) ?gvks)" by (rule gvks.sort_by_sorts)
  moreover have "mset ?un = mset (unmapped_of L OriginCatalog catalogKartas @ unmapped_of L OriginCluster cluster)"
    by (simp add: defs.sort_by_permutes A(2) B(2))
  moreover have "sorted (map (\<lambda>d. k_Name (def_Karta d)) ?un)" by (rule defs.sort_by_sorts)
  ultimately show thesis by (rule that)
qed

lemma covers_unmapped: "d \<in> set (unmapped_of L origin ks) \<Longrightarrow> \<not> snd (mappable d)"
  by (simp add: unmapped_of_def)

lemma covers_claimants: "d \<in> set (claimants L catalogKartas cluster gvk) \<Longrightarrow> mappable d = (gvk, True)"
  by (auto simp: claimants_def source_claims_def covers_def split: if_splits)

lemma filter_concat_one:
  assumes "distinct gs" "\<And>g d. d \<in> set (f g) \<Longrightarrow> mappable d = (g, True)"
  shows "filter (covers gvk) (concat (map f gs)) = (if gvk \<in> set gs then f gvk else [])"
  using assms(1)
proof (induction gs)
  case (Cons g gs)
  have "filter (covers gvk) (f g) = (if g = gvk then f g else [])"
    using assms(2) [of _ g] by (auto simp: covers_def filter_id_conv filter_empty_conv)
  with Cons show ?case by auto
qed simp

lemma filter_New: "filter (covers gvk) (rs_definitions (definitions_New L catalogKartas cluster)) = claimants L catalogKartas cluster gvk"
proof -
  obtain gvks unmapped where N: "rs_definitions (definitions_New L catalogKartas cluster) = concat (map (claimants L catalogKartas cluster) gvks) @ unmapped"
    "distinct gvks" "set gvks = {gvk. claimants L catalogKartas cluster gvk \<noteq> []}"
    "mset unmapped = mset (unmapped_of L OriginCatalog catalogKartas @ unmapped_of L OriginCluster cluster)"
    by (rule New_structure)
  have "\<not> snd (mappable d)" if "d \<in> set unmapped" for d
    using that mset_eq_setD [OF N(4)] by (auto dest: covers_unmapped)
  then have "filter (covers gvk) unmapped = []" by (fastforce simp: filter_empty_conv covers_def)
  moreover have "filter (covers gvk) (concat (map (claimants L catalogKartas cluster) gvks)) = claimants L catalogKartas cluster gvk"
    using filter_concat_one [OF N(2) covers_claimants] N(3) by auto
  ultimately show ?thesis by (simp add: N(1))
qed

lemma Collisions_New:
  assumes "rs_definitions (definitions_New L catalogKartas cluster) = concat (map (claimants L catalogKartas cluster) gvks) @ unmapped"
    "distinct gvks" "set gvks = {gvk. claimants L catalogKartas cluster gvk \<noteq> []}" "\<forall>d \<in> set unmapped. \<not> snd (mappable d)"
  shows "Collisions (definitions_New L catalogKartas cluster)
    = concat (map (\<lambda>g. collision_of g (claimants L catalogKartas cluster g)) gvks)"
proof -
  have "zero_GroupVersionKind \<notin> set gvks"
  proof
    assume "zero_GroupVersionKind \<in> set gvks"
    then have "claimants L catalogKartas cluster zero_GroupVersionKind \<noteq> []" using assms(3) by simp
    then obtain d where "d \<in> set (claimants L catalogKartas cluster zero_GroupVersionKind)" by (meson list.set_sel(1))
    from covers_claimants [OF this] show False by (auto simp: mappable_def Let_def zero_GroupVersionKind_def)
  qed
  then have distinct: "\<forall>g \<in> set gvks. claimants L catalogKartas cluster g \<noteq> [] \<and> g \<noteq> zero_GroupVersionKind"
    using assms(3) by blast
  have "collisions_loop (concat (map (claimants L catalogKartas cluster) gvks) @ unmapped) zero_GroupVersionKind [] []
      = flush zero_GroupVersionKind [] [] @ concat (map (\<lambda>g. collision_of g (claimants L catalogKartas cluster g)) gvks)"
    by (rule collisions_blocks [OF _ assms(4,2) distinct]) (rule covers_claimants)
  then show ?thesis by (simp add: Collisions_def assms(1) flush_def)
qed

text \<open>Which definitions can be seen.\<close>

lemma visible:
  "d \<in> set (rs_definitions (definitions_New L catalogKartas cluster)) \<longleftrightarrow>
     (case def_Origin d of
        OriginCluster \<Rightarrow> def_Karta d \<in> set cluster
      | OriginCatalog \<Rightarrow> def_Karta d \<in> set catalogKartas \<and> \<not> overridden cluster (def_Karta d))"
proof -
  obtain gvks unmapped where N: "rs_definitions (definitions_New L catalogKartas cluster) = concat (map (claimants L catalogKartas cluster) gvks) @ unmapped"
    "set gvks = {gvk. claimants L catalogKartas cluster gvk \<noteq> []}"
    "mset unmapped = mset (unmapped_of L OriginCatalog catalogKartas @ unmapped_of L OriginCluster cluster)"
    by (rule New_structure)
  have member: "x \<in> set (from_source origin (rl_sortKartas L k_Name ks)) \<longleftrightarrow> def_Origin x = origin \<and> def_Karta x \<in> set ks" for x origin ks
    by (cases x) auto
  have "set (rs_definitions (definitions_New L catalogKartas cluster))
      = (\<Union>gvk. set (claimants L catalogKartas cluster gvk)) \<union> set (unmapped_of L OriginCatalog catalogKartas @ unmapped_of L OriginCluster cluster)"
    using N(2) mset_eq_setD [OF N(3)] by (auto simp: N(1))
  then have "d \<in> set (rs_definitions (definitions_New L catalogKartas cluster)) \<longleftrightarrow>
      (\<exists>gvk. d \<in> set (claimants L catalogKartas cluster gvk)) \<or> (\<not> snd (mappable d)
         \<and> (def_Origin d = OriginCatalog \<and> def_Karta d \<in> set catalogKartas \<or> def_Origin d = OriginCluster \<and> def_Karta d \<in> set cluster))"
    using member [of d] by (auto simp: unmapped_of_def)
  moreover have "(\<exists>gvk. d \<in> set (claimants L catalogKartas cluster gvk)) \<longleftrightarrow> snd (mappable d)
      \<and> (def_Origin d = OriginCluster \<and> def_Karta d \<in> set cluster
         \<or> def_Origin d = OriginCatalog \<and> def_Karta d \<in> set catalogKartas \<and> \<not> overridden cluster (def_Karta d))"
  proof -
    have claim: "x \<in> set (source_claims L origin ks gvk) \<longleftrightarrow> def_Origin x = origin \<and> def_Karta x \<in> set ks \<and> covers gvk x" for x origin ks gvk
      unfolding source_claims_def using member [of x origin ks] by auto
    have none: "source_claims L OriginCluster cluster gvk = [] \<longleftrightarrow> \<not> (gvk_Version gvk \<noteq> [] \<and> gvk_Kind gvk \<noteq> [] \<and> (\<exists>k \<in> set cluster. RootKey k = gvk))" for gvk
      unfolding source_claims_def by (auto simp: filter_empty_conv covers_def mappable_def Let_def)
    show ?thesis
      by (auto simp: claimants_def claim none covers_def mappable_def Let_def overridden_def)
  qed
  moreover have "overridden cluster (def_Karta d) \<Longrightarrow> snd (mappable d)" by (simp add: overridden_def mappable_def Let_def)
  ultimately show ?thesis by (cases "def_Origin d") auto
qed

text \<open>Names are unique in each source, so the order by name is one.\<close>

lemma claimants_by_name:
  assumes "distinct (map k_Name catalogKartas)" "distinct (map k_Name cluster)"
  shows "claimants L catalogKartas cluster gvk = winners catalogKartas cluster gvk"
proof -
  have "source_claims L origin ks gvk = (if gvk_Version gvk = [] \<or> gvk_Kind gvk = [] then []
      else from_source origin (filter (\<lambda>k. RootKey k = gvk) (sort_key k_Name ks)))" if "distinct (map k_Name ks)" for origin ks
  proof -
    have "rl_sortKartas L k_Name ks = sort_key k_Name ks" using that by (intro kartas.sort_by_unique) (simp add: distinct_map)
    then show ?thesis by (auto simp: source_claims_def filter_map covers_def mappable_def Let_def comp_def intro!: arg_cong [where f = "from_source origin"] filter_cong)
  qed
  with assms show ?thesis by (simp add: claimants_def winners_def)
qed

end

definition list_resolverlib :: resolverlib where
  "list_resolverlib = \<lparr>rl_sortKartas = sort_key, rl_sortDefinitions = sort_key, rl_sortGVKs = sort_key,
     rl_gvkString = (\<lambda>g. gvk_Group g @ ''/'' @ gvk_Version g @ '', Kind='' @ gvk_Kind g),
     rl_gvString = (\<lambda>g v. if g = [] then v else g @ ''/'' @ v), rl_Quote = (\<lambda>s. [CHR 0x22] @ s @ [CHR 0x22]), rl_Error = (\<lambda>e. ''error'')\<rparr>"

interpretation list_resolver: resolver_sorters list_resolverlib
  by (unfold_locales) (simp_all add: list_resolverlib_def)

end
