(* ===== verification/CLI_Owners.thy ===== *)
theory CLI_Owners
  imports Owner_Discovery Exporter_Store "HOL-Library.Monad_Syntax"
begin

text \<open>
  \<^verbatim>\<open>cli/pkg/workload/{owners,pods}.go\<close>: the walk up the controller chains of objects, with its caches, and the Pods of a workload. The
  client and the REST mapper act on a world \<open>'w\<close>; a page of a list is its objects and the token of the next page. The result None is a
  list whose pages never end. An answer of an owner and an error is \<open>Inl\<close> the error or \<open>Inr\<close> the owner, if there is one.
\<close>

section \<open>The walker\<close>

type_synonym listKey = "GroupVersionResource \<times> string"

record 'w ownerlib =
  wl_ParseGroupVersion :: "string \<Rightarrow> (string \<times> string) xres"
  wl_FromAPIVersionAndKind :: "string \<Rightarrow> string \<Rightarrow> GroupVersionKind"
  wl_RESTMapping :: "GroupKind \<Rightarrow> string option \<Rightarrow> 'w \<Rightarrow> (GroupVersionResource \<times> bool) xres \<times> 'w"
  wl_IsNoMatchError :: "xerr \<Rightarrow> bool"
  wl_List :: "listKey \<Rightarrow> string \<Rightarrow> 'w \<Rightarrow> (ObjectMeta list \<times> string) xres \<times> 'w"
  wl_Get :: "listKey \<Rightarrow> string \<Rightarrow> 'w \<Rightarrow> ObjectMeta xres \<times> 'w"
  wl_Error :: "xerr \<Rightarrow> string"

record OwnerWalker =
  wk_lists :: "listKey \<rightharpoonup> (string \<rightharpoonup> ObjectMeta) xres"
  wk_named :: "listKey \<times> string \<rightharpoonup> ObjectMeta option xres"

definition maxOwnerDepth :: nat where
  "maxOwnerDepth = 6"

definition errChainTooLong :: xerr where
  "errChainTooLong = XErrorf ''owner chain longer than %d links'' [AInt (int maxOwnerDepth)]"

definition NewOwnerWalker :: OwnerWalker where
  "NewOwnerWalker = \<lparr>wk_lists = Map.empty, wk_named = Map.empty\<rparr>"

definition controllerRef :: "OwnerReference list \<Rightarrow> OwnerReference option" where
  "controllerRef refs = find (\<lambda>ref. ow_Controller ref = Some True) refs"

partial_function (option) listOwners_loop ::
  "'w ownerlib \<Rightarrow> listKey \<Rightarrow> string \<Rightarrow> (string \<rightharpoonup> ObjectMeta) \<Rightarrow> 'w \<Rightarrow> ((string \<rightharpoonup> ObjectMeta) xres \<times> 'w) option" where
  "listOwners_loop L key continue owners w =
     (case wl_List L key continue w of
        (Inl e, w') \<Rightarrow> Some (Inl e, w')
      | (Inr (items, continue'), w') \<Rightarrow>
          (let owners' = foldl (\<lambda>m x. m(om_Name x \<mapsto> x)) owners items
           in if continue' = [] then Some (Inr owners', w') else listOwners_loop L key continue' owners' w'))"

definition listOwners :: "'w ownerlib \<Rightarrow> listKey \<Rightarrow> 'w \<Rightarrow> ((string \<rightharpoonup> ObjectMeta) xres \<times> 'w) option" where
  "listOwners L key w = listOwners_loop L key [] Map.empty w"

definition by_name :: "(string \<rightharpoonup> ObjectMeta) xres \<Rightarrow> string \<Rightarrow> ObjectMeta option xres" where
  "by_name owners name = (case owners of Inl e \<Rightarrow> Inl e | Inr m \<Rightarrow> Inr (m name))"

definition walker_listed :: "'w ownerlib \<Rightarrow> listKey \<Rightarrow> string \<Rightarrow> OwnerWalker \<Rightarrow> 'w \<Rightarrow> (ObjectMeta option xres \<times> OwnerWalker \<times> 'w) option" where
  "walker_listed L key name W w =
     (case wk_lists W key of
        Some owners \<Rightarrow> Some (by_name owners name, W, w)
      | None \<Rightarrow> do {
          (owners, w') \<leftarrow> listOwners L key w;
          Some (by_name owners name, W\<lparr>wk_lists := (wk_lists W)(key \<mapsto> owners)\<rparr>, w') })"

definition named_answer :: "ObjectMeta xres \<Rightarrow> ObjectMeta option xres" where
  "named_answer r = (case r of Inr x \<Rightarrow> Inr (Some x) | Inl e \<Rightarrow> if IsNotFound e then Inr None else Inl e)"

definition getNamed :: "'w ownerlib \<Rightarrow> listKey \<Rightarrow> string \<Rightarrow> OwnerWalker \<Rightarrow> 'w \<Rightarrow> ObjectMeta option xres \<times> OwnerWalker \<times> 'w" where
  "getNamed L key name W w =
     (case wk_named W (key, name) of
        Some r \<Rightarrow> (r, W, w)
      | None \<Rightarrow>
          (case wl_Get L key name w of
             (r, w') \<Rightarrow> (named_answer r, W\<lparr>wk_named := (wk_named W)((key, name) \<mapsto> named_answer r)\<rparr>, w')))"

definition walker_restMapping :: "'w ownerlib \<Rightarrow> OwnerReference \<Rightarrow> 'w \<Rightarrow> (GroupVersionResource \<times> bool) xres \<times> 'w" where
  "walker_restMapping L ref w =
     (case wl_ParseGroupVersion L (ow_APIVersion ref) of
        Inl e \<Rightarrow> (Inl (XWrapf ''parse owner apiVersion %q: %w'' [AStr (ow_APIVersion ref)] [e]), w)
      | Inr (grp, version) \<Rightarrow>
          (let first = wl_RESTMapping L (grp, ow_Kind ref) (Some version) w;
               second = (case first of
                  (Inl e, w') \<Rightarrow> if wl_IsNoMatchError L e then wl_RESTMapping L (grp, ow_Kind ref) None w' else first
                | _ \<Rightarrow> first)
           in case second of
                (Inl e, w') \<Rightarrow> (Inl (XWrapf ''discover %s: %w'' [AStr (ow_Kind ref)] [e]), w')
              | (Inr m, w') \<Rightarrow> (Inr m, w')))"

text \<open>The owner that the list, or a read by name when listing is forbidden, has under the name, if it has the UID too.\<close>

definition owner_answer :: "OwnerReference \<Rightarrow> ObjectMeta option xres \<Rightarrow> ObjectMeta option xres" where
  "owner_answer ref r =
     (case r of
        Inl e \<Rightarrow> Inl e
      | Inr None \<Rightarrow> Inr None
      | Inr (Some x) \<Rightarrow> Inr (if om_UID x \<noteq> ow_UID ref then None else Some x))"

definition walker_get ::
  "'w ownerlib \<Rightarrow> OwnerReference \<Rightarrow> string \<Rightarrow> OwnerWalker \<Rightarrow> 'w \<Rightarrow> (ObjectMeta option xres \<times> OwnerWalker \<times> 'w) option" where
  "walker_get L ref namespace W w =
     (case walker_restMapping L ref w of
        (Inl e, w') \<Rightarrow> Some (Inl e, W, w')
      | (Inr (resource, namespaced), w') \<Rightarrow>
          (let key = (resource, if namespaced then namespace else [])
           in do {
             (r, W1, w1) \<leftarrow> walker_listed L key (ow_Name ref) W w';
             (case r of
                Inr x \<Rightarrow> Some (owner_answer ref r, W1, w1)
              | Inl listErr \<Rightarrow>
                  if \<not> IsForbidden listErr then Some (Inl listErr, W1, w1)
                  else (case getNamed L key (ow_Name ref) W1 w1 of
                          (r2, W2, w2) \<Rightarrow>
                            (let r3 = (case r2 of Inl e \<Rightarrow> if IsForbidden e then Inl listErr else Inl e | Inr x \<Rightarrow> Inr x)
                             in Some (owner_answer ref r3, W2, w2)))) }))"

text \<open>\<open>climb_loop n\<close> may still read \<open>n\<close> owners.\<close>

fun climb_loop ::
  "'w ownerlib \<Rightarrow> (OwnerReference list \<Rightarrow> bool) \<Rightarrow> string \<Rightarrow> nat \<Rightarrow> OwnerReference list \<Rightarrow> OwnerWalker \<Rightarrow> 'w
     \<Rightarrow> ((bool \<times> xerr option) \<times> OwnerWalker \<times> 'w) option" where
  "climb_loop L hit namespace n refs W w =
     (if hit refs then Some ((True, None), W, w)
      else case controllerRef refs of
             None \<Rightarrow> Some ((False, None), W, w)
           | Some controller \<Rightarrow>
               (case n of
                  0 \<Rightarrow> Some ((False, Some errChainTooLong), W, w)
                | Suc m \<Rightarrow> do {
                    (r, W', w') \<leftarrow> walker_get L controller namespace W w;
                    (case r of
                       Inl e \<Rightarrow> Some ((False, Some e), W', w')
                     | Inr None \<Rightarrow> Some ((False, None), W', w')
                     | Inr (Some owner) \<Rightarrow> climb_loop L hit namespace m (om_OwnerReferences owner) W' w') }))"

declare climb_loop.simps [simp del]

definition climb ::
  "'w ownerlib \<Rightarrow> OwnerReference list \<Rightarrow> string \<Rightarrow> (OwnerReference list \<Rightarrow> bool) \<Rightarrow> OwnerWalker \<Rightarrow> 'w
     \<Rightarrow> ((bool \<times> xerr option) \<times> OwnerWalker \<times> 'w) option" where
  "climb L refs namespace hit W w = climb_loop L hit namespace maxOwnerDepth refs W w"

definition covered_controller :: "'w ownerlib \<Rightarrow> (GroupKind \<Rightarrow> bool) \<Rightarrow> OwnerReference list \<Rightarrow> bool" where
  "covered_controller L covered refs =
     (case controllerRef refs of
        None \<Rightarrow> False
      | Some controller \<Rightarrow> covered (GroupKind_of (wl_FromAPIVersionAndKind L (ow_APIVersion controller) (ow_Kind controller))))"

definition TopLevel ::
  "'w ownerlib \<Rightarrow> ObjectMeta \<Rightarrow> (GroupKind \<Rightarrow> bool) \<Rightarrow> OwnerWalker \<Rightarrow> 'w \<Rightarrow> ((bool \<times> xerr option) \<times> OwnerWalker \<times> 'w) option" where
  "TopLevel L obj covered W w = do {
     ((nested, err), W', w') \<leftarrow> climb L (om_OwnerReferences obj) (om_Namespace obj) (covered_controller L covered) W w;
     Some ((\<not> nested, err), W', w') }"

section \<open>Failed walks\<close>

record WalkFailures =
  wfs_causes :: "string list"
  wfs_objects :: "string \<rightharpoonup> string list"

definition Add :: "string \<Rightarrow> string \<Rightarrow> WalkFailures \<Rightarrow> WalkFailures" where
  "Add cause object f =
     f\<lparr>wfs_causes := (if wfs_objects f cause = None then wfs_causes f @ [cause] else wfs_causes f),
       wfs_objects := (wfs_objects f)(cause \<mapsto> (case wfs_objects f cause of None \<Rightarrow> [] | Some os \<Rightarrow> os) @ [object])\<rparr>"

definition Warnings :: "(string \<Rightarrow> string list \<Rightarrow> 'a) \<Rightarrow> WalkFailures \<Rightarrow> 'a list" where
  "Warnings warning f = map (\<lambda>cause. warning cause (case wfs_objects f cause of None \<Rightarrow> [] | Some os \<Rightarrow> os)) (wfs_causes f)"

definition no_failures :: WalkFailures where
  "no_failures = \<lparr>wfs_causes = [], wfs_objects = Map.empty\<rparr>"

section \<open>The Pods of a workload\<close>

text \<open>A Pod is its metadata and the object that \<open>decode\<close> turns into a typed Pod. \<open>sprintf\<close> is fmt.Sprintf.\<close>

definition refers_to :: "UID \<Rightarrow> OwnerReference list \<Rightarrow> bool" where
  "refers_to rootUID refs \<longleftrightarrow> (\<exists>ref \<in> set refs. ow_UID ref = rootUID)"

fun filter_loop ::
  "'w ownerlib \<Rightarrow> ('p \<Rightarrow> 'q xres) \<Rightarrow> UID \<Rightarrow> (ObjectMeta \<times> 'p) list \<Rightarrow> 'q list \<Rightarrow> WalkFailures \<Rightarrow> OwnerWalker \<Rightarrow> 'w
     \<Rightarrow> (('q list \<times> WalkFailures) xres \<times> OwnerWalker \<times> 'w) option" where
  "filter_loop L decode rootUID [] matched failures W w = Some (Inr (matched, failures), W, w)"
| "filter_loop L decode rootUID ((meta, pod) # pods) matched failures W w = do {
     ((owned, err), W', w') \<leftarrow> climb L (om_OwnerReferences meta) (om_Namespace meta) (refers_to rootUID) W w;
     (case err of
        Some e \<Rightarrow> filter_loop L decode rootUID pods matched (Add (wl_Error L e) (om_Name meta) failures) W' w'
      | None \<Rightarrow>
          if \<not> owned then filter_loop L decode rootUID pods matched failures W' w'
          else (case decode pod of
                  Inl e \<Rightarrow> Some (Inl (XWrapf ''decode pod %s: %w'' [AStr (om_Name meta)] [e]), W', w')
                | Inr q \<Rightarrow> filter_loop L decode rootUID pods (matched @ [q]) failures W' w')) }"

definition pod_warning :: "(string \<Rightarrow> fmtarg list \<Rightarrow> string) \<Rightarrow> string \<Rightarrow> string list \<Rightarrow> string" where
  "pod_warning sprintf cause pods =
     sprintf ''could not tell whether %d pod(s) belong to this workload, so pod counts may be low: %s'' [AInt (int (length pods)), AStr cause]"

definition Filter ::
  "'w ownerlib \<Rightarrow> (string \<Rightarrow> fmtarg list \<Rightarrow> string) \<Rightarrow> ('p \<Rightarrow> 'q xres) \<Rightarrow> (ObjectMeta \<times> 'p) list \<Rightarrow> UID \<Rightarrow> OwnerWalker \<Rightarrow> 'w
     \<Rightarrow> (('q list \<times> string list) xres \<times> OwnerWalker \<times> 'w) option" where
  "Filter L sprintf decode pods rootUID W w = do {
     (r, W', w') \<leftarrow> filter_loop L decode rootUID pods [] no_failures W w;
     (case r of
        Inl e \<Rightarrow> Some (Inl e, W', w')
      | Inr (matched, failures) \<Rightarrow> Some (Inr (matched, Warnings (pod_warning sprintf) failures), W', w')) }"

section \<open>What the caches change\<close>

text \<open>A steady client gives the same answer whenever it is asked.\<close>

definition steady :: "'w ownerlib \<Rightarrow> bool" where
  "steady L \<longleftrightarrow>
     (\<forall>key c w w'. fst (wl_List L key c w) = fst (wl_List L key c w'))
     \<and> (\<forall>key name w w'. fst (wl_Get L key name w) = fst (wl_Get L key name w'))
     \<and> (\<forall>gk v w w'. fst (wl_RESTMapping L gk v w) = fst (wl_RESTMapping L gk v w'))"

lemma steady_list: "steady L \<Longrightarrow> wl_List L key c w = (r, w1) \<Longrightarrow> \<exists>w1'. wl_List L key c w' = (r, w1')"
  by (metis fst_conv prod.collapse steady_def)

lemma steady_get: "steady L \<Longrightarrow> fst (wl_Get L key name w) = fst (wl_Get L key name w')"
  unfolding steady_def by blast

lemma steady_mapping: "steady L \<Longrightarrow> fst (wl_RESTMapping L gk v w) = fst (wl_RESTMapping L gk v w')"
  unfolding steady_def by blast

lemma listOwners_loop_steady:
  assumes "steady L" "listOwners_loop L key c m w = Some (r, w1)"
  shows "\<exists>w1'. listOwners_loop L key c m w' = Some (r, w1')"
proof -
  have "steady L \<longrightarrow> (\<forall>w'. \<exists>w1'. listOwners_loop L key c m w' = Some (fst x, w1'))" if "listOwners_loop L key c m w = Some x"
    for x :: "(string \<rightharpoonup> ObjectMeta) xres \<times> 'a" and L key c m w
  proof (rule listOwners_loop.raw_induct [OF _ that, of "\<lambda>L key c m w x. steady L \<longrightarrow> (\<forall>w'. \<exists>w1'. listOwners_loop L key c m w' = Some (fst x, w1'))"],
      intro impI allI)
    fix f and L :: "'a ownerlib" and key c m w y w'
    assume IH: "\<And>L key c m w y. f L key c m w = Some y \<Longrightarrow> steady L \<longrightarrow> (\<forall>w'. \<exists>w1'. listOwners_loop L key c m w' = Some (fst y, w1'))"
      and y: "(case wl_List L key c w of
            (Inl e, w') \<Rightarrow> Some (Inl e, w')
          | (Inr (items, c'), w') \<Rightarrow> let owners' = foldl (\<lambda>m x. m(om_Name x \<mapsto> x)) m items
              in if c' = [] then Some (Inr owners', w') else f L key c' owners' w') = Some y" and steady: "steady L"
    obtain r w2 where p: "wl_List L key c w = (r, w2)" by force
    from steady_list [OF steady p] obtain w2' where p': "wl_List L key c w' = (r, w2')" by blast
    show "\<exists>w1'. listOwners_loop L key c m w' = Some (fst y, w1')"
    proof (cases "\<exists>items c2. r = Inr (items, c2) \<and> c2 \<noteq> []")
      case True
      then obtain items c2 where r: "r = Inr (items, c2)" "c2 \<noteq> []" by blast
      with y p have "f L key c2 (foldl (\<lambda>m x. m(om_Name x \<mapsto> x)) m items) w2 = Some y" by (simp add: Let_def)
      from IH [OF this] steady obtain w1' where "listOwners_loop L key c2 (foldl (\<lambda>m x. m(om_Name x \<mapsto> x)) m items) w2' = Some (fst y, w1')"
        by blast
      then show ?thesis using r p' by (subst listOwners_loop.simps) simp
    next
      case False
      then show ?thesis using y p p' by (subst listOwners_loop.simps) (auto simp: Let_def split: sum.splits)
    qed
  qed
  from this [OF assms(2)] assms(1) show ?thesis by simp
qed

lemma listOwners_steady: "steady L \<Longrightarrow> map_option fst (listOwners L key w) = map_option fst (listOwners L key w')"
  using listOwners_loop_steady [of L key "[]" Map.empty w _ _ w'] listOwners_loop_steady [of L key "[]" Map.empty w' _ _ w]
  by (cases "listOwners_loop L key [] Map.empty w"; cases "listOwners_loop L key [] Map.empty w'") (auto simp: listOwners_def)

text \<open>The walk without caches: every owner is read by a new walker in the world \<open>w\<close>.\<close>

definition fresh_get :: "'w ownerlib \<Rightarrow> 'w \<Rightarrow> string \<Rightarrow> OwnerReference \<Rightarrow> ObjectMeta option xres option" where
  "fresh_get L w namespace ref = map_option fst (walker_get L ref namespace NewOwnerWalker w)"

fun fresh_climb ::
  "'w ownerlib \<Rightarrow> 'w \<Rightarrow> string \<Rightarrow> (OwnerReference list \<Rightarrow> bool) \<Rightarrow> nat \<Rightarrow> OwnerReference list \<Rightarrow> (bool \<times> xerr option) option" where
  "fresh_climb L w namespace hit n refs =
     (if hit refs then Some (True, None)
      else case controllerRef refs of
             None \<Rightarrow> Some (False, None)
           | Some controller \<Rightarrow>
               (case n of
                  0 \<Rightarrow> Some (False, Some errChainTooLong)
                | Suc m \<Rightarrow>
                    (case fresh_get L w namespace controller of
                       None \<Rightarrow> None
                     | Some (Inl e) \<Rightarrow> Some (False, Some e)
                     | Some (Inr None) \<Rightarrow> Some (False, None)
                     | Some (Inr (Some owner)) \<Rightarrow> fresh_climb L w namespace hit m (om_OwnerReferences owner))))"

declare fresh_climb.simps [simp del]

definition walker_ok :: "'w ownerlib \<Rightarrow> OwnerWalker \<Rightarrow> bool" where
  "walker_ok L W \<longleftrightarrow>
     (\<forall>key owners w. wk_lists W key = Some owners \<longrightarrow> map_option fst (listOwners L key w) = Some owners)
     \<and> (\<forall>key name r w. wk_named W (key, name) = Some r \<longrightarrow> named_answer (fst (wl_Get L key name w)) = r)"

definition agrees :: "'w ownerlib \<Rightarrow> ('a \<times> OwnerWalker \<times> 'w) option \<Rightarrow> 'a option \<Rightarrow> bool" where
  "agrees L r f \<longleftrightarrow> map_option fst r = f \<and> (\<forall>v W' w'. r = Some (v, W', w') \<longrightarrow> walker_ok L W')"

lemma walker_ok_new: "walker_ok L NewOwnerWalker"
  by (simp add: walker_ok_def NewOwnerWalker_def)

lemma fresh_listed: "map_option (\<lambda>x. by_name (fst x) name) r = map_option (\<lambda>m. by_name m name) (map_option fst r)"
  by (simp add: option.map_comp comp_def)

lemma listed_agrees:
  assumes "steady L" "walker_ok L W"
  shows "agrees L (walker_listed L key name W w) (map_option (\<lambda>x. by_name (fst x) name) (listOwners L key w0))"
proof (cases "wk_lists W key")
  case None
  show ?thesis
  proof (cases "listOwners L key w")
    case None': None
    then have "listOwners L key w0 = None" using listOwners_steady [OF assms(1), of key w w0] by simp
    with None None' show ?thesis by (simp add: walker_listed_def agrees_def)
  next
    case (Some x)
    obtain owners w' where x: "x = (owners, w')" by force
    have all: "map_option fst (listOwners L key v) = Some owners" for v
      using listOwners_steady [OF assms(1), of key v w] Some x by simp
    have fresh: "map_option (\<lambda>x. by_name (fst x) name) (listOwners L key w0) = Some (by_name owners name)"
      unfolding fresh_listed by (simp add: all)
    have ok: "walker_ok L (W\<lparr>wk_lists := (wk_lists W)(key \<mapsto> owners)\<rparr>)" using assms(2) all by (simp add: walker_ok_def)
    have r: "walker_listed L key name W w = Some (by_name owners name, W\<lparr>wk_lists := (wk_lists W)(key \<mapsto> owners)\<rparr>, w')"
      using None Some x by (simp add: walker_listed_def)
    show ?thesis unfolding agrees_def fresh r using ok by simp
  qed
next
  case (Some owners)
  then have fresh: "map_option fst (listOwners L key w0) = Some owners" using assms(2) unfolding walker_ok_def by blast
  show ?thesis unfolding fresh_listed fresh using Some assms(2) by (simp add: walker_listed_def agrees_def)
qed

lemma getNamed_agrees:
  assumes "steady L" "walker_ok L W" "getNamed L key name W w = (r, W', w')"
  shows "r = named_answer (fst (wl_Get L key name w0))" "walker_ok L W'"
proof -
  obtain a where all: "\<And>v. fst (wl_Get L key name v) = a" using steady_get [OF assms(1)] by blast
  have "r = named_answer (fst (wl_Get L key name w0)) \<and> walker_ok L W'"
  proof (cases "wk_named W (key, name)")
    case (Some r')
    then have "named_answer (fst (wl_Get L key name w0)) = r'" using assms(2) unfolding walker_ok_def by blast
    with Some assms(2,3) show ?thesis by (simp add: getNamed_def)
  next
    case None
    let ?r = "named_answer (fst (wl_Get L key name w))"
    have r: "r = ?r" "W' = W\<lparr>wk_named := (wk_named W)((key, name) \<mapsto> ?r)\<rparr>"
      using None assms(3) by (auto simp: getNamed_def split: prod.splits)
    moreover have "walker_ok L W'" using assms(2) unfolding walker_ok_def r(2) by (simp del: split_paired_All add: all)
    ultimately show ?thesis by (simp add: all)
  qed
  then show "r = named_answer (fst (wl_Get L key name w0))" "walker_ok L W'" by simp_all
qed

text \<open>Reading one owner, and a whole walk, agree with what a new walker reads in any world.\<close>

lemma steady_mapping_ex: "steady L \<Longrightarrow> \<exists>r s. \<forall>w. wl_RESTMapping L gk v w = (r, s w)"
  by (intro exI [of _ "fst (wl_RESTMapping L gk v undefined)"] exI [of _ "\<lambda>w. snd (wl_RESTMapping L gk v w)"] allI)
    (simp add: prod_eq_iff steady_mapping)

lemma mapping_agrees:
  assumes "steady L"
  shows "fst (walker_restMapping L ref w) = fst (walker_restMapping L ref w0)"
proof (cases "wl_ParseGroupVersion L (ow_APIVersion ref)")
  case (Inr gv)
  obtain grp version where gv: "gv = (grp, version)" by force
  from steady_mapping_ex [OF assms] obtain r1 s1 where 1: "\<And>w. wl_RESTMapping L (grp, ow_Kind ref) (Some version) w = (r1, s1 w)" by metis
  from steady_mapping_ex [OF assms] obtain r2 s2 where 2: "\<And>w. wl_RESTMapping L (grp, ow_Kind ref) None w = (r2, s2 w)" by metis
  show ?thesis by (cases r1; cases r2) (simp_all add: walker_restMapping_def Inr gv 1 2 Let_def)
qed (simp add: walker_restMapping_def)

definition owner_read :: "'w ownerlib \<Rightarrow> 'w \<Rightarrow> listKey \<Rightarrow> OwnerReference \<Rightarrow> ObjectMeta option xres option" where
  "owner_read L w key ref =
     map_option (\<lambda>r. case r of
         Inr x \<Rightarrow> owner_answer ref (Inr x)
       | Inl e \<Rightarrow> if \<not> IsForbidden e then Inl e
           else owner_answer ref (case named_answer (fst (wl_Get L key (ow_Name ref) w)) of
                  Inl e2 \<Rightarrow> if IsForbidden e2 then Inl e else Inl e2 | Inr x \<Rightarrow> Inr x))
       (map_option (\<lambda>x. by_name (fst x) (ow_Name ref)) (listOwners L key w))"

lemma walker_get_agrees:
  assumes "steady L" "walker_ok L W"
  shows "agrees L (walker_get L ref namespace W w)
    (case fst (walker_restMapping L ref w0) of
       Inl e \<Rightarrow> Some (Inl e)
     | Inr (resource, namespaced) \<Rightarrow> owner_read L w0 (resource, if namespaced then namespace else []) ref)"
proof -
  obtain m w1 where m: "walker_restMapping L ref w = (m, w1)" by force
  then have m0: "fst (walker_restMapping L ref w0) = m" using mapping_agrees [OF assms(1), of ref w0 w] by simp
  show ?thesis
  proof (cases m)
    case (Inl e)
    then show ?thesis unfolding m0 using m assms(2) by (simp add: walker_get_def agrees_def)
  next
    case (Inr rn)
    obtain resource namespaced where rn: "rn = (resource, namespaced)" by force
    define key where "key = (resource, if namespaced then namespace else [])"
    have goal: "agrees L (walker_get L ref namespace W w) (owner_read L w0 key ref)"
    proof -
      from listed_agrees [OF assms, of key "ow_Name ref" w1 w0]
      have l: "agrees L (walker_listed L key (ow_Name ref) W w1) (map_option (\<lambda>x. by_name (fst x) (ow_Name ref)) (listOwners L key w0))" .
      show ?thesis
      proof (cases "walker_listed L key (ow_Name ref) W w1")
        case None
        with l have n: "map_option (\<lambda>x. by_name (fst x) (ow_Name ref)) (listOwners L key w0) = None" by (simp add: agrees_def)
        show ?thesis unfolding owner_read_def n by (simp add: walker_get_def m Inr rn Let_def key_def [symmetric] None agrees_def)
      next
        case (Some x)
        obtain r W1 w2 where x: "x = (r, W1, w2)" by (cases x) auto
        from l have n: "map_option (\<lambda>x. by_name (fst x) (ow_Name ref)) (listOwners L key w0) = Some r" and ok: "walker_ok L W1"
          unfolding agrees_def Some x by auto
        obtain r2 W2 w3 where g: "getNamed L key (ow_Name ref) W1 w2 = (r2, W2, w3)" by (metis prod_cases3)
        note G = getNamed_agrees(1) [OF assms(1) ok g, of w0] getNamed_agrees(2) [OF assms(1) ok g]
        have walk: "walker_get L ref namespace W w =
          (case r of Inr x \<Rightarrow> Some (owner_answer ref r, W1, w2)
           | Inl listErr \<Rightarrow> if \<not> IsForbidden listErr then Some (Inl listErr, W1, w2)
               else Some (owner_answer ref (case r2 of Inl e \<Rightarrow> if IsForbidden e then Inl listErr else Inl e | Inr x \<Rightarrow> Inr x), W2, w3))"
          unfolding walker_get_def m Inr rn prod.case sum.case Let_def key_def [symmetric] Some x by (simp add: g split: sum.split)
        show ?thesis unfolding owner_read_def n walk using ok G by (auto simp: agrees_def split: sum.splits)
      qed
    qed
    then show ?thesis unfolding m0 Inr rn key_def by simp
  qed
qed

lemma walker_get_fresh:
  assumes "steady L" "walker_ok L W"
  shows "agrees L (walker_get L ref namespace W w) (fresh_get L w0 namespace ref)"
proof -
  let ?s = "case fst (walker_restMapping L ref w0) of Inl e \<Rightarrow> Some (Inl e)
    | Inr (resource, namespaced) \<Rightarrow> owner_read L w0 (resource, if namespaced then namespace else []) ref"
  have "fresh_get L w0 namespace ref = ?s"
    using walker_get_agrees [OF assms(1) walker_ok_new, of ref namespace w0 w0] unfolding agrees_def fresh_get_def by (rule conjunct1)
  then show ?thesis by (simp only: walker_get_agrees [OF assms])
qed

lemma climb_agrees:
  assumes "steady L"
  shows "walker_ok L W \<Longrightarrow> agrees L (climb_loop L hit namespace n refs W w) (fresh_climb L w0 namespace hit n refs)"
proof (induction n arbitrary: refs W w)
  case 0
  then show ?case by (auto simp: climb_loop.simps [of _ _ _ 0] fresh_climb.simps [of _ _ _ _ 0] agrees_def split: option.split)
next
  case (Suc n)
  show ?case
  proof (cases "hit refs \<or> controllerRef refs = None")
    case True
    with Suc.prems show ?thesis
      by (auto simp: climb_loop.simps [of _ _ _ "Suc n"] fresh_climb.simps [of _ _ _ _ "Suc n"] agrees_def)
  next
    case False
    then obtain c where c: "\<not> hit refs" "controllerRef refs = Some c" by blast
    note g = walker_get_fresh [OF assms Suc.prems, of c namespace w w0]
    show ?thesis
    proof (cases "walker_get L c namespace W w")
      case None
      with g have "fresh_get L w0 namespace c = None" by (simp add: agrees_def)
      with None c show ?thesis
        by (simp add: climb_loop.simps [of _ _ _ "Suc n"] fresh_climb.simps [of _ _ _ _ "Suc n"] agrees_def)
    next
      case (Some x)
      obtain r W1 w1 where x: "x = (r, W1, w1)" by (cases x) auto
      from g have f: "fresh_get L w0 namespace c = Some r" and ok: "walker_ok L W1" unfolding agrees_def Some x by auto
      have left: "climb_loop L hit namespace (Suc n) refs W w = (case r of
           Inl e \<Rightarrow> Some ((False, Some e), W1, w1) | Inr None \<Rightarrow> Some ((False, None), W1, w1)
         | Inr (Some owner) \<Rightarrow> climb_loop L hit namespace n (om_OwnerReferences owner) W1 w1)"
        using c Some x by (simp add: climb_loop.simps [of _ _ _ "Suc n"])
      have right: "fresh_climb L w0 namespace hit (Suc n) refs = (case r of
           Inl e \<Rightarrow> Some (False, Some e) | Inr None \<Rightarrow> Some (False, None)
         | Inr (Some owner) \<Rightarrow> fresh_climb L w0 namespace hit n (om_OwnerReferences owner))"
        using c f by (simp add: fresh_climb.simps [of _ _ _ _ "Suc n"] split: sum.split option.split)
      show ?thesis unfolding left right using Suc.IH [OF ok] ok by (auto simp: agrees_def split: sum.split option.split)
    qed
  qed
qed

text \<open>The walkers that any sequence of walks leads to.\<close>

inductive walked :: "'w ownerlib \<Rightarrow> OwnerWalker \<Rightarrow> bool" for L where
  new: "walked L NewOwnerWalker"
| climb: "walked L W \<Longrightarrow> climb L refs namespace hit W w = Some (r, W', w') \<Longrightarrow> walked L W'"

lemma walked_ok:
  assumes "steady L" "walked L W"
  shows "walker_ok L W"
  using assms(2)
proof (induction rule: walked.induct)
  case new
  show ?case by (rule walker_ok_new)
next
  case (climb W refs namespace hit w r W' w')
  from climb.hyps(2) show ?case
    using climb_agrees [OF assms(1) climb.IH, of hit namespace maxOwnerDepth refs w w] unfolding climb_def agrees_def by blast
qed

end
