(* ===== verification/CLI_Properties.thy ===== *)
theory CLI_Properties
  imports CLI_Definitions CLI_Owners Karta_Samples
begin

text \<open>The properties of the command line tool: which definition it uses, and which objects it counts to a workload.\<close>

section \<open>Definitions\<close>

text \<open>C21 When names are unique in the catalog and in the cluster, a kind is resolved to its only definition in the cluster or, when the
  cluster has none, to its only built-in one; several of the same source are an error that names them, and none is one too.\<close>

theorem resolve_effective:
  assumes "resolver_sorters L" "distinct (map k_Name catalogKartas)" "distinct (map k_Name cluster)"
  shows "definitions_Resolve L (definitions_New L catalogKartas cluster) gvk =
    (case winners catalogKartas cluster gvk of
       [] \<Rightarrow> Inl (XWrapf ''%w: %s'' [AStr (FormatGVK L gvk)] [ErrNoDefinition])
     | [d] \<Rightarrow> Inr d
     | ds \<Rightarrow> Inl (XWrapf ''%w: %s: %s''
         [AStr (FormatGVK L gvk), AStr (strings_Join (map (\<lambda>d. rl_Quote L (k_Name (def_Karta d))) ds) '', '')] [ErrAmbiguous]))"
  by (simp add: definitions_Resolve_def resolver_sorters.filter_New [OF assms(1)] resolver_sorters.claimants_by_name [OF assms])

definition other_karta :: Karta where
  "other_karta = sample_karta\<lparr>k_Name := ''other''\<rparr>"

lemma sample_names: "k_Name sample_karta = ''sample''" "k_Name other_karta = ''other''"
  "RootKey sample_karta = \<lparr>gvk_Group = ''batch'', gvk_Version = ''v1'', gvk_Kind = ''Job''\<rparr>" "RootKey other_karta = RootKey sample_karta"
  by (simp_all add: other_karta_def sample_karta_def karta_with_def sample_root_def RootKey_def)

theorem resolve_effective_witness:
  "definitions_Resolve list_resolverlib (definitions_New list_resolverlib [sample_karta] [other_karta]) (RootKey sample_karta)
     = Inr \<lparr>def_Karta = other_karta, def_Origin = OriginCluster\<rparr>"
  using resolve_effective [OF list_resolver.resolver_sorters_axioms, of "[sample_karta]" "[other_karta]" "RootKey sample_karta"]
  by (simp add: winners_def sample_names)

text \<open>C33 The collisions are exactly the kinds with more than one claimant in the source that counts, each once and in the order of their
  texts, with the names of the claimants in order.\<close>

theorem collisions_exact:
  assumes "resolver_sorters L" "distinct (map k_Name catalogKartas)" "distinct (map k_Name cluster)"
  defines "cs \<equiv> Collisions (definitions_New L catalogKartas cluster)"
  shows "set cs = {\<lparr>col_GVK = gvk, col_Names = map (k_Name \<circ> def_Karta) (winners catalogKartas cluster gvk)\<rparr> |
        gvk. length (winners catalogKartas cluster gvk) > 1}
      \<and> distinct (map col_GVK cs) \<and> sorted (map (rl_gvkString L \<circ> col_GVK) cs)"
proof -
  note W = resolver_sorters.claimants_by_name [OF assms(1-3)]
  obtain gvks unmapped where N: "rs_definitions (definitions_New L catalogKartas cluster) = concat (map (claimants L catalogKartas cluster) gvks) @ unmapped"
    "distinct gvks" "set gvks = {gvk. claimants L catalogKartas cluster gvk \<noteq> []}" "sorted (map (rl_gvkString L) gvks)"
    "mset unmapped = mset (unmapped_of L OriginCatalog catalogKartas @ unmapped_of L OriginCluster cluster)"
    by (rule resolver_sorters.New_structure [OF assms(1)])
  have un: "\<forall>d \<in> set unmapped. \<not> snd (mappable d)"
    using mset_eq_setD [OF N(5)] by (auto simp: unmapped_of_def)
  let ?f = "\<lambda>g. \<lparr>col_GVK = g, col_Names = map (k_Name \<circ> def_Karta) (winners catalogKartas cluster g)\<rparr>"
    and ?gs = "filter (\<lambda>g. length (winners catalogKartas cluster g) > 1) gvks"
  have "concat (map (\<lambda>g. collision_of g (winners catalogKartas cluster g)) gs)
      = map ?f (filter (\<lambda>g. length (winners catalogKartas cluster g) > 1) gs)" for gs
    by (induction gs) (simp_all add: collision_of_def flush_def comp_def)
  then have cs: "cs = map ?f ?gs"
    using resolver_sorters.Collisions_New [OF assms(1) N(1-3) un] by (simp add: cs_def W)
  have "set cs = {?f gvk | gvk. length (winners catalogKartas cluster gvk) > 1}"
    using N(3) by (auto simp: cs W)
  moreover have "distinct (map col_GVK cs)" using N(2) by (simp add: cs comp_def)
  moreover have "sorted (map (rl_gvkString L \<circ> col_GVK) cs)" using N(4) by (simp add: cs comp_def sorted_filter)
  ultimately show ?thesis by simp
qed

theorem collisions_exact_witness:
  "Collisions (definitions_New list_resolverlib [] [sample_karta, other_karta]) \<noteq> []"
proof -
  have "length (winners [] [sample_karta, other_karta] (RootKey sample_karta)) > 1" by (simp add: winners_def sample_names)
  with collisions_exact [OF list_resolver.resolver_sorters_axioms, of "[]" "[sample_karta, other_karta]"] show ?thesis
    by (auto simp: sample_names)
qed

text \<open>By its name a definition of the cluster is always found, and a built-in one when no definition of the cluster has the name or
  replaces it for its kind; any other name is an error.\<close>

theorem name_lookup:
  assumes "resolver_sorters L" "distinct (map k_Name catalogKartas)" "distinct (map k_Name cluster)"
  shows "ByName L (definitions_New L catalogKartas cluster) name =
    (case find (\<lambda>k. k_Name k = name) cluster of
       Some k \<Rightarrow> Inr \<lparr>def_Karta = k, def_Origin = OriginCluster\<rparr>
     | None \<Rightarrow> (case find (\<lambda>k. k_Name k = name \<and> \<not> overridden cluster k) catalogKartas of
          Some k \<Rightarrow> Inr \<lparr>def_Karta = k, def_Origin = OriginCatalog\<rparr>
        | None \<Rightarrow> Inl (XWrapf ''%w: %q'' [AStr name] [ErrNameNotFound])))"
proof -
  let ?ds = "rs_definitions (definitions_New L catalogKartas cluster)"
  note V = resolver_sorters.visible [OF assms(1)]
  have find_one: "find P xs = Some x" if "x \<in> set xs" "P x" "\<And>y. y \<in> set xs \<Longrightarrow> P y \<Longrightarrow> y = x" for P :: "Definition \<Rightarrow> bool" and xs x
  proof (cases "find P xs")
    case None
    with that(1,2) show ?thesis by (auto simp: find_None_iff)
  next
    case (Some y)
    then have "y \<in> set xs" "P y" by (auto simp: find_Some_iff)
    with that(3) [of y] Some show ?thesis by simp
  qed
  have same: "k' = k" if "k \<in> set ks" "k' \<in> set ks" "k_Name k' = k_Name k" "distinct (map k_Name ks)" for k k' ks
    using that by (metis distinct_map inj_onD)
  show ?thesis
  proof (cases "find (\<lambda>k. k_Name k = name) cluster")
    case (Some k)
    then have k: "k \<in> set cluster" "k_Name k = name" by (auto simp: find_Some_iff)
    have "find (\<lambda>d. k_Name (def_Karta d) = name \<and> def_Origin d = OriginCluster) ?ds = Some \<lparr>def_Karta = k, def_Origin = OriginCluster\<rparr>"
    proof (rule find_one)
      fix d assume d: "d \<in> set ?ds" "k_Name (def_Karta d) = name \<and> def_Origin d = OriginCluster"
      then have "def_Karta d \<in> set cluster" by (simp add: V)
      from same [OF k(1) this _ assms(3)] d(2) k(2) show "d = \<lparr>def_Karta = k, def_Origin = OriginCluster\<rparr>" by (cases d) auto
    qed (use k in \<open>auto simp: V\<close>)
    with Some show ?thesis by (simp add: ByName_def by_name_find)
  next
    case None
    then have no: "find (\<lambda>d. k_Name (def_Karta d) = name \<and> def_Origin d = OriginCluster) ?ds = None"
      by (auto simp: find_None_iff V)
    show ?thesis
    proof (cases "find (\<lambda>k. k_Name k = name \<and> \<not> overridden cluster k) catalogKartas")
      case (Some k)
      then have k: "k \<in> set catalogKartas" "k_Name k = name" "\<not> overridden cluster k" by (auto simp: find_Some_iff)
      have "find (\<lambda>d. k_Name (def_Karta d) = name) ?ds = Some \<lparr>def_Karta = k, def_Origin = OriginCatalog\<rparr>"
      proof (rule find_one)
        fix d assume d: "d \<in> set ?ds" "k_Name (def_Karta d) = name"
        with None have origin: "def_Origin d = OriginCatalog" by (cases "def_Origin d") (auto simp: V find_None_iff)
        with d(1) have "def_Karta d \<in> set catalogKartas" by (simp add: V)
        from same [OF k(1) this _ assms(2)] d(2) k(2) origin show "d = \<lparr>def_Karta = k, def_Origin = OriginCatalog\<rparr>" by (cases d) auto
      qed (use k in \<open>auto simp: V\<close>)
      with Some None no show ?thesis by (simp add: ByName_def by_name_find)
    next
      case None': None
      then have "find (\<lambda>d. k_Name (def_Karta d) = name) ?ds = None"
        using None by (auto simp: find_None_iff V split: DefinitionOrigin.splits)
      with None None' no show ?thesis by (simp add: ByName_def by_name_find)
    qed
  qed
qed

theorem name_lookup_witness:
  "ByName list_resolverlib (definitions_New list_resolverlib [sample_karta] [other_karta]) ''sample''
     = Inl (XWrapf ''%w: %q'' [AStr ''sample''] [ErrNameNotFound])"
  using name_lookup [OF list_resolver.resolver_sorters_axioms, of "[sample_karta]" "[other_karta]" "''sample''"]
  by (simp add: sample_names overridden_def)

text \<open>The built-in definitions survive every failure to read the cluster; a definition that cannot be decoded costs only itself.\<close>

definition decoded :: "'u loadlib \<Rightarrow> 'u list \<Rightarrow> Karta list" where
  "decoded L items = List.map_filter (\<lambda>i. case ll_convert L i of Inl e \<Rightarrow> None | Inr k \<Rightarrow> Some k) items"

lemma convert_all_decodes: "fst (convert_all L items kartas ws) = kartas @ decoded L items"
  by (induction items arbitrary: kartas ws) (auto simp: decoded_def map_filter_simps split: sum.split)

theorem load_survives:
  "fst (definitions_Load L catalog config client answer) = definitions_New (ll_resolver L) catalog
     (case answer of Inr items \<Rightarrow> if config = None \<and> client = None then decoded L items else [] | Inl e \<Rightarrow> [])"
  using convert_all_decodes [of L _ "[]" "[]"]
  by (auto simp: definitions_Load_def fetchCluster_def listWithClient_def Let_def split: option.splits sum.splits prod.splits)
    (metis append_Nil fst_conv)+

section \<open>Owners\<close>

text \<open>The owner references at a level of the controller chain.\<close>

fun chain_level :: "'w ownerlib \<Rightarrow> 'w \<Rightarrow> string \<Rightarrow> nat \<Rightarrow> OwnerReference list \<Rightarrow> OwnerReference list option" where
  "chain_level L w namespace 0 refs = Some refs"
| "chain_level L w namespace (Suc i) refs =
     (case controllerRef refs of
        None \<Rightarrow> None
      | Some controller \<Rightarrow>
          (case fresh_get L w namespace controller of
             Some (Inr (Some owner)) \<Rightarrow> chain_level L w namespace i (om_OwnerReferences owner)
           | _ \<Rightarrow> None))"

text \<open>What a walk may say of the chain at its last level: a hit, the end, an owner that cannot be read, or that the limit is reached.\<close>

definition ends_with ::
  "'w ownerlib \<Rightarrow> 'w \<Rightarrow> string \<Rightarrow> (OwnerReference list \<Rightarrow> bool) \<Rightarrow> bool \<Rightarrow> OwnerReference list \<Rightarrow> bool \<times> xerr option \<Rightarrow> bool" where
  "ends_with L w namespace hit limit rs v \<longleftrightarrow>
     (if hit rs then v = (True, None)
      else case controllerRef rs of
        None \<Rightarrow> v = (False, None)
      | Some c \<Rightarrow>
          if limit then v = (False, Some errChainTooLong)
          else fresh_get L w namespace c = Some (Inr None) \<and> v = (False, None)
            \<or> (\<exists>e. fresh_get L w namespace c = Some (Inl e) \<and> v = (False, Some e)))"

definition chain_verdict ::
  "'w ownerlib \<Rightarrow> 'w \<Rightarrow> string \<Rightarrow> (OwnerReference list \<Rightarrow> bool) \<Rightarrow> nat \<Rightarrow> OwnerReference list \<Rightarrow> bool \<times> xerr option \<Rightarrow> bool" where
  "chain_verdict L w namespace hit n refs v \<longleftrightarrow>
     (\<exists>i rs. i \<le> n \<and> chain_level L w namespace i refs = Some rs
        \<and> (\<forall>j < i. \<forall>rs'. chain_level L w namespace j refs = Some rs' \<longrightarrow> \<not> hit rs') \<and> ends_with L w namespace hit (i = n) rs v)"

lemma fresh_climb_verdict: "fresh_climb L w namespace hit n refs = Some v \<Longrightarrow> chain_verdict L w namespace hit n refs v"
proof (induction n arbitrary: refs)
  case 0
  then show ?case
    unfolding chain_verdict_def by (intro exI [of _ 0] exI [of _ refs])
      (auto simp: ends_with_def fresh_climb.simps [of _ _ _ _ 0] split: if_splits option.splits)
next
  case (Suc n)
  show ?case
  proof (cases "\<exists>c owner. \<not> hit refs \<and> controllerRef refs = Some c \<and> fresh_get L w namespace c = Some (Inr (Some owner))")
    case True
    then obtain c owner where c: "\<not> hit refs" "controllerRef refs = Some c" "fresh_get L w namespace c = Some (Inr (Some owner))" by blast
    with Suc.prems have "fresh_climb L w namespace hit n (om_OwnerReferences owner) = Some v"
      by (simp add: fresh_climb.simps [of _ _ _ _ "Suc n"])
    from Suc.IH [OF this] obtain i rs where i: "i \<le> n" "chain_level L w namespace i (om_OwnerReferences owner) = Some rs"
      "\<forall>j < i. \<forall>rs'. chain_level L w namespace j (om_OwnerReferences owner) = Some rs' \<longrightarrow> \<not> hit rs'"
      "ends_with L w namespace hit (i = n) rs v"
      unfolding chain_verdict_def by blast
    have lv: "chain_level L w namespace (Suc j) refs = chain_level L w namespace j (om_OwnerReferences owner)" for j using c by simp
    have "\<not> hit rs'" if "j < Suc i" "chain_level L w namespace j refs = Some rs'" for j rs'
      using that i(3) c(1) lv by (cases j) auto
    with i lv show ?thesis unfolding chain_verdict_def by (intro exI [of _ "Suc i"] exI [of _ rs]) simp
  next
    case False
    with Suc.prems show ?thesis
      unfolding chain_verdict_def by (intro exI [of _ 0] exI [of _ refs])
        (auto simp: ends_with_def fresh_climb.simps [of _ _ _ _ "Suc n"] split: if_splits option.splits sum.splits)
  qed
qed

text \<open>C22 On a steady cluster a walk answers, after any earlier walks, with the first level of the controller chain that is accepted, or that the
  chain ends without one; it fails when an owner cannot be read or when the chain has more than six owners. When it answers without
  an error the chain was seen up to the hit or to its end.\<close>

theorem walk_exact:
  assumes "steady L" "walked L W" "climb L refs namespace hit W w = Some (v, W', w')"
  shows "chain_verdict L w0 namespace hit 6 refs v"
proof -
  have "fresh_climb L w0 namespace hit maxOwnerDepth refs = Some v"
    using climb_agrees [OF assms(1) walked_ok [OF assms(1,2)], of hit namespace maxOwnerDepth refs w w0] assms(3)
    by (simp add: agrees_def climb_def)
  from fresh_climb_verdict [OF this] show ?thesis by (simp add: maxOwnerDepth_def)
qed

text \<open>A client of a small cluster: it may not list Jobs but may read the Job of the name n.\<close>

definition job_meta :: ObjectMeta where
  "job_meta = \<lparr>om_UID = ''u1'', om_Namespace = ''ns'', om_Name = ''n'', om_ResourceVersion = [], om_OwnerReferences = []\<rparr>"

definition sample_owner :: "string \<Rightarrow> OwnerReference" where
  "sample_owner name = \<lparr>ow_APIVersion = ''v1'', ow_Kind = ''Job'', ow_Name = name, ow_UID = ''u1'', ow_Controller = Some True\<rparr>"

definition sample_ownerlib :: "unit ownerlib" where
  "sample_ownerlib = \<lparr>wl_ParseGroupVersion = (\<lambda>s. Inr ([], s)),
     wl_FromAPIVersionAndKind = (\<lambda>v k. \<lparr>gvk_Group = [], gvk_Version = v, gvk_Kind = k\<rparr>),
     wl_RESTMapping = (\<lambda>gk v w. (Inr (\<lparr>gvr_Group = [], gvr_Version = ''v1'', gvr_Resource = ''jobs''\<rparr>, True), w)),
     wl_IsNoMatchError = (\<lambda>e. False), wl_List = (\<lambda>key c w. (Inl (ApiError Forbidden ''list''), w)),
     wl_Get = (\<lambda>key name w. (if name = ''n'' then Inr job_meta else Inl (ApiError NotFound name), w)), wl_Error = (\<lambda>e. ''error'')\<rparr>"

lemma sample_steady: "steady sample_ownerlib"
  by (simp add: steady_def sample_ownerlib_def)

lemma sample_fresh: "fresh_get sample_ownerlib () ns (sample_owner name) = Some (if name = ''n'' then Inr (Some job_meta) else Inr None)"
  by (simp add: fresh_get_def walker_get_def walker_restMapping_def walker_listed_def listOwners_def listOwners_loop.simps getNamed_def
      by_name_def named_answer_def owner_answer_def IsForbidden_def IsNotFound_def sample_ownerlib_def sample_owner_def job_meta_def
      NewOwnerWalker_def Let_def)

lemma sample_refs:
  "controllerRef [sample_owner name] = Some (sample_owner name)" "\<not> refers_to ''other'' [sample_owner name]"
  "om_OwnerReferences job_meta = []" "controllerRef [] = None" "\<not> refers_to uid []" "refers_to ''u1'' [sample_owner name]"
  by (simp_all add: controllerRef_def sample_owner_def refers_to_def job_meta_def)

lemma sample_walk:
  obtains W w where "climb sample_ownerlib [sample_owner ''n''] ''ns'' (refers_to ''other'') NewOwnerWalker () = Some ((False, None), W, w)"
proof -
  have depth: "maxOwnerDepth = Suc 5" by (simp add: maxOwnerDepth_def)
  have "fresh_climb sample_ownerlib () ''ns'' (refers_to ''other'') 5 [] = Some (False, None)"
    by (subst fresh_climb.simps) (simp add: sample_refs)
  then have "fresh_climb sample_ownerlib () ''ns'' (refers_to ''other'') maxOwnerDepth [sample_owner ''n''] = Some (False, None)"
    unfolding depth by (subst fresh_climb.simps) (simp add: sample_refs sample_fresh)
  then have "map_option fst (climb sample_ownerlib [sample_owner ''n''] ''ns'' (refers_to ''other'') NewOwnerWalker ()) = Some (False, None)"
    using climb_agrees [OF sample_steady walker_ok_new, of "refers_to ''other''" "''ns''" maxOwnerDepth "[sample_owner ''n'']" "()" "()"]
    by (simp add: agrees_def climb_def)
  with that show thesis by auto
qed

theorem walk_exact_witness:
  "chain_verdict sample_ownerlib () ''ns'' (refers_to ''other'') 6 [sample_owner ''n''] (False, None)"
  by (rule sample_walk) (rule walk_exact [OF sample_steady walked.new])

text \<open>C32 On a steady cluster the caches of the walker change no answer: after any earlier walks, whether an object is at the top level, and
  whether the question can be answered at all, is what a new walker finds.\<close>

theorem caches_invisible:
  assumes "steady L" "walked L W"
  shows "map_option fst (TopLevel L obj covered W w) = map_option fst (TopLevel L obj covered NewOwnerWalker w0)"
proof -
  let ?c = "\<lambda>W w. climb L (om_OwnerReferences obj) (om_Namespace obj) (covered_controller L covered) W w"
  have "map_option fst (?c W w) = map_option fst (?c NewOwnerWalker w0)"
    using climb_agrees [OF assms(1) walked_ok [OF assms], of "covered_controller L covered" "om_Namespace obj" maxOwnerDepth "om_OwnerReferences obj" w w]
      climb_agrees [OF assms(1) walker_ok_new, of "covered_controller L covered" "om_Namespace obj" maxOwnerDepth "om_OwnerReferences obj" w0 w]
    by (simp add: agrees_def climb_def)
  then show ?thesis
    by (cases "?c W w"; cases "?c NewOwnerWalker w0") (auto simp: TopLevel_def)
qed

theorem caches_invisible_witness:
  "\<exists>W w. climb sample_ownerlib [sample_owner ''n''] ''ns'' (refers_to ''other'') NewOwnerWalker () = Some ((False, None), W, w)
     \<and> map_option fst (TopLevel sample_ownerlib job_meta (\<lambda>k. True) W ())
       = map_option fst (TopLevel sample_ownerlib job_meta (\<lambda>k. True) NewOwnerWalker ())"
proof -
  obtain W w where c: "climb sample_ownerlib [sample_owner ''n''] ''ns'' (refers_to ''other'') NewOwnerWalker () = Some ((False, None), W, w)"
    by (rule sample_walk)
  from caches_invisible [OF sample_steady walked.climb [OF walked.new c]] c show ?thesis by blast
qed

section \<open>Pods\<close>

text \<open>What a new walker says of a Pod; and the failed Pods with their causes.\<close>

definition pod_verdict :: "'w ownerlib \<Rightarrow> 'w \<Rightarrow> UID \<Rightarrow> ObjectMeta \<times> 'p \<Rightarrow> (bool \<times> xerr option) option" where
  "pod_verdict L w rootUID p = fresh_climb L w (om_Namespace (fst p)) (refers_to rootUID) maxOwnerDepth (om_OwnerReferences (fst p))"

definition failed_walks :: "'w ownerlib \<Rightarrow> 'w \<Rightarrow> UID \<Rightarrow> (ObjectMeta \<times> 'p) list \<Rightarrow> (string \<times> string) list" where
  "failed_walks L w rootUID pods = List.map_filter (\<lambda>p. case pod_verdict L w rootUID p of
     Some (b, Some e) \<Rightarrow> Some (wl_Error L e, om_Name (fst p)) | _ \<Rightarrow> None) pods"

definition owned_pods :: "'w ownerlib \<Rightarrow> 'w \<Rightarrow> UID \<Rightarrow> (ObjectMeta \<times> 'p) list \<Rightarrow> (ObjectMeta \<times> 'p) list" where
  "owned_pods L w rootUID pods = filter (\<lambda>p. pod_verdict L w rootUID p = Some (True, None)) pods"

definition undecoded :: "('p \<Rightarrow> 'q xres) \<Rightarrow> (ObjectMeta \<times> 'p) list \<Rightarrow> xerr option" where
  "undecoded decode pods = (case find (\<lambda>p. \<exists>e. decode (snd p) = Inl e) pods of
     None \<Rightarrow> None | Some p \<Rightarrow> Some (XWrapf ''decode pod %s: %w'' [AStr (om_Name (fst p))] [projl (decode (snd p))]))"

lemma filter_loop_spec:
  assumes "steady L"
  shows "walker_ok L W \<Longrightarrow> \<forall>p \<in> set pods. pod_verdict L w0 rootUID p \<noteq> None \<Longrightarrow>
    map_option fst (filter_loop L decode rootUID pods matched failures W w)
      = Some (case undecoded decode (owned_pods L w0 rootUID pods) of
          Some e \<Rightarrow> Inl e
        | None \<Rightarrow> Inr (matched @ map (\<lambda>p. projr (decode (snd p))) (owned_pods L w0 rootUID pods),
            fold (\<lambda>(cause, object). Add cause object) (failed_walks L w0 rootUID pods) failures))"
proof (induction pods arbitrary: matched failures W w)
  case Nil
  show ?case by (simp add: owned_pods_def failed_walks_def undecoded_def map_filter_simps)
next
  case (Cons p pods)
  obtain meta pod where p: "p = (meta, pod)" by force
  from Cons.prems(2) obtain owned err where v: "pod_verdict L w0 rootUID p = Some (owned, err)" by auto
  have "agrees L (climb L (om_OwnerReferences meta) (om_Namespace meta) (refers_to rootUID) W w) (Some (owned, err))"
    using climb_agrees [OF assms Cons.prems(1), of "refers_to rootUID" "om_Namespace meta" maxOwnerDepth "om_OwnerReferences meta" w w0] v
    by (simp add: climb_def pod_verdict_def p)
  then obtain W1 w1 where c: "climb L (om_OwnerReferences meta) (om_Namespace meta) (refers_to rootUID) W w = Some ((owned, err), W1, w1)"
    "walker_ok L W1" by (auto simp: agrees_def)
  have rest: "\<forall>p \<in> set pods. pod_verdict L w0 rootUID p \<noteq> None" using Cons.prems(2) by simp
  note IH = Cons.IH [OF c(2) rest]
  have owned: "owned_pods L w0 rootUID (p # pods) = (if owned \<and> err = None then p # owned_pods L w0 rootUID pods else owned_pods L w0 rootUID pods)"
    by (simp add: owned_pods_def v)
  have failed: "failed_walks L w0 rootUID (p # pods) = (case err of None \<Rightarrow> failed_walks L w0 rootUID pods
      | Some e \<Rightarrow> (wl_Error L e, om_Name meta) # failed_walks L w0 rootUID pods)"
    by (simp add: failed_walks_def v [unfolded p] p map_filter_simps split: option.split)
  show ?case
  proof (cases err)
    case (Some e)
    then show ?thesis unfolding owned failed Some option.case using IH by (simp add: p c [unfolded Some] cong: option.case_cong)
  next
    case None
    show ?thesis
    proof (cases owned)
      case False
      then show ?thesis unfolding owned failed None option.case using IH by (simp add: p c [unfolded None])
    next
      case True
      show ?thesis
      proof (cases "decode pod")
        case (Inl e)
        with True show ?thesis unfolding owned failed None option.case by (simp add: p c [unfolded None] undecoded_def)
      next
        case (Inr q)
        then have u: "undecoded decode (p # owned_pods L w0 rootUID pods) = undecoded decode (owned_pods L w0 rootUID pods)"
          by (simp add: undecoded_def p)
        show ?thesis
          using IH [of "matched @ [q]" failures w1] True Inr u unfolding owned failed None option.case
          by (simp add: p c [unfolded None] cong: option.case_cong)
      qed
    qed
  qed
qed

text \<open>The causes in the order in which they were first met, each with its objects in order.\<close>

lemma failures_grouped:
  "Warnings warning (fold (\<lambda>(cause, object). Add cause object) xs no_failures)
     = map (\<lambda>cause. warning cause (map snd (filter (\<lambda>x. fst x = cause) xs))) (rev (remdups (rev (map fst xs))))"
proof -
  let ?f = "fold (\<lambda>(cause, object). Add cause object) xs no_failures"
  have "wfs_causes ?f = rev (remdups (rev (map fst xs)))
      \<and> (\<forall>c. wfs_objects ?f c = (if c \<in> fst ` set xs then Some (map snd (filter (\<lambda>x. fst x = c) xs)) else None))"
  proof (induction xs rule: rev_induct)
    case Nil
    show ?case by (simp add: no_failures_def)
  next
    case (snoc x xs)
    obtain c ob where x: "x = (c, ob)" by force
    define g where "g = fold (\<lambda>(cause, object). Add cause object) xs no_failures"
    from snoc have g: "wfs_causes g = rev (remdups (rev (map fst xs)))"
      "\<And>c. wfs_objects g c = (if c \<in> fst ` set xs then Some (map snd (filter (\<lambda>x. fst x = c) xs)) else None)"
      unfolding g_def by simp_all
    have last: "fold (\<lambda>(cause, object). Add cause object) (xs @ [x]) no_failures = Add c ob g" by (simp add: x g_def)
    have none: "filter (\<lambda>x. fst x = c) xs = []" if "c \<notin> fst ` set xs" for c using that by (auto simp: filter_empty_conv image_iff)
    show ?case unfolding last using none by (auto simp: x Add_def g)
  qed
  then show ?thesis by (auto simp: Warnings_def intro!: map_cong)
qed

text \<open>C23 On a steady cluster whose lists end, the Pods of a workload are, in order, those with the root among the owners on their
  controller chain; the Pods whose chain cannot be walked are reported by cause, the causes in the order in which they were met; and
  the first Pod of the workload that cannot be decoded fails the call.\<close>

theorem pods_exact:
  assumes "steady L" "walked L W" "\<forall>p \<in> set pods. pod_verdict L w0 rootUID p \<noteq> None"
  shows "map_option fst (Filter L sprintf decode pods rootUID W w)
    = Some (case undecoded decode (owned_pods L w0 rootUID pods) of
        Some e \<Rightarrow> Inl e
      | None \<Rightarrow> Inr (map (\<lambda>p. projr (decode (snd p))) (owned_pods L w0 rootUID pods),
          let failed = failed_walks L w0 rootUID pods
          in map (\<lambda>cause. pod_warning sprintf cause (map snd (filter (\<lambda>x. fst x = cause) failed))) (rev (remdups (rev (map fst failed))))))"
  using filter_loop_spec [OF assms(1) walked_ok [OF assms(1,2)] assms(3), of decode "[]" no_failures w]
  by (cases "filter_loop L decode rootUID pods [] no_failures W w")
    (auto simp: Filter_def failures_grouped Let_def split: option.splits sum.splits prod.splits)

definition sample_pod_meta :: "string \<Rightarrow> ObjectMeta" where
  "sample_pod_meta name = \<lparr>om_UID = name, om_Namespace = ''ns'', om_Name = name, om_ResourceVersion = [], om_OwnerReferences = [sample_owner ''n'']\<rparr>"

theorem pods_exact_witness:
  "map_option fst (Filter sample_ownerlib (\<lambda>f as. f) Inr [(sample_pod_meta ''p'', 7 :: nat)] ''u1'' NewOwnerWalker ()) = Some (Inr ([7], []))"
proof -
  have v: "pod_verdict sample_ownerlib () ''u1'' (sample_pod_meta ''p'', 7 :: nat) = Some (True, None)"
    by (simp add: pod_verdict_def sample_pod_meta_def) (subst fresh_climb.simps, simp add: sample_refs)
  then have "owned_pods sample_ownerlib () ''u1'' [(sample_pod_meta ''p'', 7 :: nat)] = [(sample_pod_meta ''p'', 7)]"
    "failed_walks sample_ownerlib () ''u1'' [(sample_pod_meta ''p'', 7 :: nat)] = []"
    by (simp_all add: owned_pods_def failed_walks_def map_filter_simps)
  with pods_exact [OF sample_steady walked.new, of "[(sample_pod_meta ''p'', 7)]" "()" "''u1''" "\<lambda>f as. f" "Inr :: nat \<Rightarrow> nat xres" "()"] v
  show ?thesis by (simp add: undecoded_def)
qed

end
