(* ===== verification/CLI_Describe.thy ===== *)
theory CLI_Describe
  imports CLI_Definitions Workload_Tree
begin

text \<open>
  \<^verbatim>\<open>cli/pkg/workload/{view,describe}.go\<close>: the view of one workload, with its Pods placed on its components. The types of
  Kubernetes that the code reads are records of the fields it reads, over a type \<open>'q\<close> of quantities; the values behind the type \<open>'o\<close> of
  the accessor are read by \<open>describelib\<close>. A call that may fail is a \<open>res\<close>, and a loop over a list is \<open>fold_res\<close>. A component of the view is its
  own row and its children. Strings are ordered by their bytes; Pods of equal names, which slices.SortFunc may swap, keep their order.
\<close>

section \<open>Fallible calls and loops\<close>

type_synonym int64 = "64 word"

definition bind_res :: "'a res \<Rightarrow> ('a \<Rightarrow> 'b res) \<Rightarrow> 'b res" where
  "bind_res m f = (case m of Ok a \<Rightarrow> f a | Err e \<Rightarrow> Err e | Panic p \<Rightarrow> Panic p | NoReturn \<Rightarrow> NoReturn)"

definition wrap_res :: "string \<Rightarrow> fmtarg list \<Rightarrow> 'a res \<Rightarrow> 'a res" where
  "wrap_res f as m = (case m of Err e \<Rightarrow> Err (Wrapf f as e) | _ \<Rightarrow> m)"

fun fold_res :: "('b \<Rightarrow> 'a \<Rightarrow> 'b res) \<Rightarrow> 'a list \<Rightarrow> 'b \<Rightarrow> 'b res" where
  "fold_res f [] b = Ok b"
| "fold_res f (x # xs) b = bind_res (f b x) (fold_res f xs)"

lemma bind_res_cong [fundef_cong]: "m = m' \<Longrightarrow> (\<And>a. f a = g a) \<Longrightarrow> bind_res m f = bind_res m' g"
  by (simp add: bind_res_def split: res.split)

lemma fold_res_cong [fundef_cong]:
  assumes "xs = ys" "b = c" "\<And>b x. x \<in> set ys \<Longrightarrow> f b x = g b x"
  shows "fold_res f xs b = fold_res g ys c"
proof -
  have "fold_res f ys c = fold_res g ys c"
    using assms(3) by (induction ys arbitrary: c) (auto intro: bind_res_cong)
  with assms(1,2) show ?thesis by simp
qed

section \<open>Data\<close>

record 'q ResourceRequirements =
  rq_Requests :: "string \<rightharpoonup> 'q"
  rq_Limits :: "string \<rightharpoonup> 'q"

record 'q Container =
  ct_Resources :: "'q ResourceRequirements"
  ct_RestartPolicy :: "string option"

record 'q PodSpec =
  psp_Containers :: "'q Container list"
  psp_InitContainers :: "'q Container list"
  psp_Resources :: "'q ResourceRequirements option"
  psp_Overhead :: "string \<rightharpoonup> 'q"
  psp_NodeName :: string

record PodCondition =
  pc_Type :: string
  pc_Status :: string
  pc_Reason :: string

record PodStatus =
  pst_Phase :: string
  pst_Conditions :: "PodCondition list"
  pst_Reason :: string

record 'q CorePod =
  pod_Name :: string
  pod_Spec :: "'q PodSpec"
  pod_Status :: PodStatus

record Replicas =
  rep_Desired :: int32
  rep_Current :: int32
  rep_Ready :: int32

record Resources =
  res_GPUs :: int64
  res_CPUMillis :: int64
  res_MemoryBytes :: int64

record PodView =
  pv_Name :: string
  pv_Phase :: string
  pv_Ready :: bool
  pv_Node :: "string option"
  pv_Reason :: string
  pv_Resources :: Resources

record ComponentRow =
  cr_Name :: string
  cr_Kind :: string
  cr_Replicas :: Replicas
  cr_Resources :: Resources
  cr_Nodes :: "string list"
  cr_Pods :: "PodView list"

datatype ComponentView = ComponentView (cv_row: ComponentRow) (cv_Children: "ComponentView list")

record View =
  vw_Name :: string
  vw_Namespace :: string
  vw_Kind :: string
  vw_APIVersion :: string
  vw_CreatedAt :: int
  vw_Definition :: string
  vw_Origin :: string
  vw_Phases :: "string list"

record DescribeView =
  dv_View :: View
  dv_FileMode :: bool
  dv_Resources :: Resources
  dv_Components :: "ComponentView list"

text \<open>The readers of Kubernetes values, \<open>%v\<close> of a number, and the Pod as the object that a query runs on.\<close>

record ('o, 'q) describelib =
  dl_PodTemplateSpec :: "'o \<Rightarrow> 'q PodSpec"
  dl_PodSpec :: "'o \<Rightarrow> 'q PodSpec"
  dl_Container :: "'o \<Rightarrow> 'q Container"
  dl_ResourceRequirements :: "'o \<Rightarrow> 'q ResourceRequirements"
  dl_Value :: "'q \<Rightarrow> int64"
  dl_MilliValue :: "'q \<Rightarrow> int64"
  dl_number :: "rat \<Rightarrow> string"
  dl_pod :: "'q CorePod \<Rightarrow> 'o"
  dl_GetName :: "'o \<Rightarrow> string"
  dl_GetNamespace :: "'o \<Rightarrow> string"
  dl_GetKind :: "'o \<Rightarrow> string"
  dl_GetAPIVersion :: "'o \<Rightarrow> string"
  dl_GetCreationTimestamp :: "'o \<Rightarrow> int"

section \<open>Resources and replicas\<close>

definition no_replicas :: Replicas where
  "no_replicas = \<lparr>rep_Desired = 0, rep_Current = 0, rep_Ready = 0\<rparr>"

definition Replicas_isEmpty :: "Replicas \<Rightarrow> bool" where
  "Replicas_isEmpty r \<longleftrightarrow> r = no_replicas"

definition no_resources :: Resources where
  "no_resources = \<lparr>res_GPUs = 0, res_CPUMillis = 0, res_MemoryBytes = 0\<rparr>"

definition Resources_add :: "Resources \<Rightarrow> Resources \<Rightarrow> Resources" where
  "Resources_add r other =
     \<lparr>res_GPUs = res_GPUs r + res_GPUs other,
      res_CPUMillis = res_CPUMillis r + res_CPUMillis other,
      res_MemoryBytes = res_MemoryBytes r + res_MemoryBytes other\<rparr>"

definition Resources_isEmpty :: "Resources \<Rightarrow> bool" where
  "Resources_isEmpty r \<longleftrightarrow> r = no_resources"

definition Resources_scaled :: "Resources \<Rightarrow> int32 \<Rightarrow> Resources" where
  "Resources_scaled r replicas =
     \<lparr>res_GPUs = res_GPUs r * scast replicas,
      res_CPUMillis = res_CPUMillis r * scast replicas,
      res_MemoryBytes = res_MemoryBytes r * scast replicas\<rparr>"

definition max64 :: "int64 \<Rightarrow> int64 \<Rightarrow> int64" where
  "max64 a b = (if sint a < sint b then b else a)"

definition Resources_max :: "Resources \<Rightarrow> Resources \<Rightarrow> Resources" where
  "Resources_max r request =
     \<lparr>res_GPUs = max64 (res_GPUs r) (res_GPUs request),
      res_CPUMillis = max64 (res_CPUMillis r) (res_CPUMillis request),
      res_MemoryBytes = max64 (res_MemoryBytes r) (res_MemoryBytes request)\<rparr>"

definition gpuResourceName :: string where
  "gpuResourceName = ''nvidia.com/gpu''"

definition quantityOf :: "('o, 'q) describelib \<Rightarrow> 'q ResourceRequirements \<Rightarrow> string \<Rightarrow> int64 \<times> bool" where
  "quantityOf D requirements name =
     (case (case rq_Requests requirements name of Some q \<Rightarrow> Some q | None \<Rightarrow> rq_Limits requirements name) of
        None \<Rightarrow> (0, False)
      | Some q \<Rightarrow> (if name = ''cpu'' then dl_MilliValue D q else dl_Value D q, True))"

definition requirementsOf :: "('o, 'q) describelib \<Rightarrow> 'q ResourceRequirements \<Rightarrow> Resources" where
  "requirementsOf D requirements =
     \<lparr>res_GPUs = fst (quantityOf D requirements gpuResourceName),
      res_CPUMillis = fst (quantityOf D requirements ''cpu''),
      res_MemoryBytes = fst (quantityOf D requirements ''memory'')\<rparr>"

definition sumContainers :: "('o, 'q) describelib \<Rightarrow> 'q Container list \<Rightarrow> Resources" where
  "sumContainers D containers =
     foldl (\<lambda>total container. Resources_add total (requirementsOf D (ct_Resources container))) no_resources containers"

text \<open>The loop over the init containers: what runs along with the containers, and the largest of the others.\<close>

definition init_container :: "('o, 'q) describelib \<Rightarrow> Resources \<times> Resources \<Rightarrow> 'q Container \<Rightarrow> Resources \<times> Resources" where
  "init_container D = (\<lambda>(running, largestInit) container.
     let request = requirementsOf D (ct_Resources container)
     in if ct_RestartPolicy container = Some ''Always'' then (Resources_add running request, largestInit)
        else (running, Resources_max largestInit request))"

definition pod_level :: "('o, 'q) describelib \<Rightarrow> 'q ResourceRequirements option \<Rightarrow> Resources \<Rightarrow> Resources" where
  "pod_level D resources charged =
     (case resources of
        None \<Rightarrow> charged
      | Some r \<Rightarrow>
          let (cpu, cpuOk) = quantityOf D r ''cpu'';
              charged' = (if cpuOk then charged\<lparr>res_CPUMillis := cpu\<rparr> else charged);
              (memory, memoryOk) = quantityOf D r ''memory''
          in if memoryOk then charged'\<lparr>res_MemoryBytes := memory\<rparr> else charged')"

definition podRequest :: "('o, 'q) describelib \<Rightarrow> 'q PodSpec \<Rightarrow> Resources" where
  "podRequest D spec =
     (let (running, largestInit) =
            foldl (init_container D) (sumContainers D (psp_Containers spec), no_resources) (psp_InitContainers spec);
          total = pod_level D (psp_Resources spec) (Resources_max largestInit running)
      in Resources_add total (requirementsOf D \<lparr>rq_Requests = psp_Overhead spec, rq_Limits = Map.empty\<rparr>))"

definition fragmentedRequest :: "('o, 'q) describelib \<Rightarrow> 'o FragmentedPodSpec \<Rightarrow> Resources" where
  "fragmentedRequest D spec =
     (let containers = (case fp_Containers spec of None \<Rightarrow> [] | Some cs \<Rightarrow> map (dl_Container D) cs);
          total = sumContainers D containers;
          total' = (case fp_Container spec of
              None \<Rightarrow> total | Some c \<Rightarrow> Resources_add total (sumContainers D [dl_Container D c]))
      in case fp_Resources spec of
           Some r \<Rightarrow> if Resources_isEmpty total' then requirementsOf D (dl_ResourceRequirements D r) else total'
         | None \<Rightarrow> total')"

definition requestOf :: "('o, 'q) describelib \<Rightarrow> 'o ExtractedInstance \<Rightarrow> Resources" where
  "requestOf D i =
     (case ei_PodTemplateSpec i of
        Some t \<Rightarrow> podRequest D (dl_PodTemplateSpec D t)
      | None \<Rightarrow> (case ei_PodSpec i of
          Some s \<Rightarrow> podRequest D (dl_PodSpec D s)
        | None \<Rightarrow> (case ei_FragmentedPodSpec i of Some f \<Rightarrow> fragmentedRequest D f | None \<Rightarrow> no_resources)))"

definition replicasOf :: "Scale option \<Rightarrow> int32" where
  "replicasOf scale =
     (case scale of
        None \<Rightarrow> 1
      | Some s \<Rightarrow> (case scale_Replicas s of
          Some n \<Rightarrow> n
        | None \<Rightarrow> (case scale_MinReplicas s of Some n \<Rightarrow> n | None \<Rightarrow> 1)))"

section \<open>Rows\<close>

definition isPodReady :: "'q CorePod \<Rightarrow> bool" where
  "isPodReady pod =
     (case find (\<lambda>condition. pc_Type condition = ''Ready'') (pst_Conditions (pod_Status pod)) of
        None \<Rightarrow> False
      | Some condition \<Rightarrow> pc_Status condition = ''True'')"

definition podReason :: "PodStatus \<Rightarrow> string" where
  "podReason status =
     (case find (\<lambda>c. pc_Type c = ''PodScheduled'' \<and> pc_Status c = ''False'') (pst_Conditions status) of
        Some c \<Rightarrow> pc_Reason c
      | None \<Rightarrow>
          if pst_Reason status \<noteq> [] then pst_Reason status
          else (case find (\<lambda>c. pc_Type c = ''Ready'' \<and> pc_Status c = ''False'') (pst_Conditions status) of
                  Some c \<Rightarrow> pc_Reason c | None \<Rightarrow> []))"

definition mergeNodes :: "string list \<Rightarrow> string list \<Rightarrow> string list" where
  "mergeNodes existing add = remdups_adj (sort (existing @ add))"

definition pod_view :: "('o, 'q) describelib \<Rightarrow> 'q CorePod \<Rightarrow> PodView" where
  "pod_view D pod =
     \<lparr>pv_Name = pod_Name pod, pv_Phase = pst_Phase (pod_Status pod), pv_Ready = isPodReady pod,
      pv_Node = (if psp_NodeName (pod_Spec pod) \<noteq> [] then Some (psp_NodeName (pod_Spec pod)) else None),
      pv_Reason = (if \<not> isPodReady pod then podReason (pod_Status pod) else []),
      pv_Resources = podRequest D (pod_Spec pod)\<rparr>"

definition attach_pod :: "('o, 'q) describelib \<Rightarrow> ComponentRow \<Rightarrow> 'q CorePod \<Rightarrow> ComponentRow" where
  "attach_pod D c pod =
     (let replicas = cr_Replicas c;
          node = psp_NodeName (pod_Spec pod)
      in c\<lparr>cr_Replicas := replicas\<lparr>rep_Current := rep_Current replicas + 1,
             rep_Ready := (if isPodReady pod then rep_Ready replicas + 1 else rep_Ready replicas)\<rparr>,
           cr_Nodes := (if node \<noteq> [] then mergeNodes (cr_Nodes c) [node] else cr_Nodes c),
           cr_Pods := cr_Pods c @ [pod_view D pod]\<rparr>)"

definition attach :: "('o, 'q) describelib \<Rightarrow> 'q CorePod list \<Rightarrow> ComponentRow \<Rightarrow> ComponentRow" where
  "attach D pods c = (let c' = foldl (attach_pod D) c pods in c'\<lparr>cr_Pods := sort_key pv_Name (cr_Pods c')\<rparr>)"

definition new_row :: "string \<Rightarrow> string \<Rightarrow> ComponentRow" where
  "new_row name kind =
     \<lparr>cr_Name = name, cr_Kind = kind, cr_Replicas = no_replicas, cr_Resources = no_resources, cr_Nodes = [], cr_Pods = []\<rparr>"

fun ComponentView_isEmpty :: "ComponentView \<Rightarrow> bool" where
  "ComponentView_isEmpty (ComponentView c children) \<longleftrightarrow>
     cr_Pods c = [] \<and> children = [] \<and> Replicas_isEmpty (cr_Replicas c) \<and> Resources_isEmpty (cr_Resources c)"

definition appendComponent :: "ComponentView list \<Rightarrow> ComponentView \<Rightarrow> bool \<Rightarrow> ComponentView list" where
  "appendComponent components component podBearing =
     (if \<not> podBearing \<and> ComponentView_isEmpty component then components else components @ [component])"

definition aggregate :: "ComponentRow \<Rightarrow> ComponentRow \<Rightarrow> ComponentRow" where
  "aggregate c child =
     (let replicas = cr_Replicas c; other = cr_Replicas child
      in c\<lparr>cr_Replicas := \<lparr>rep_Desired = rep_Desired replicas + rep_Desired other,
             rep_Current = rep_Current replicas + rep_Current other, rep_Ready = rep_Ready replicas + rep_Ready other\<rparr>,
           cr_Resources := Resources_add (cr_Resources c) (cr_Resources child),
           cr_Nodes := mergeNodes (cr_Nodes c) (cr_Nodes child)\<rparr>)"

text \<open>A child under a component that wraps it, and under one that has Pods of its own.\<close>

definition wrap_child :: "ComponentView \<Rightarrow> ComponentView \<Rightarrow> bool \<Rightarrow> ComponentView" where
  "wrap_child c child podBearing =
     ComponentView (aggregate (cv_row c) (cv_row child)) (appendComponent (cv_Children c) child podBearing)"

definition adopt_child :: "ComponentView \<Rightarrow> ComponentView \<Rightarrow> bool \<Rightarrow> ComponentView" where
  "adopt_child c child podBearing =
     ComponentView ((cv_row c)\<lparr>cr_Resources := Resources_add (cr_Resources (cv_row c)) (cr_Resources (cv_row child)),
         cr_Nodes := mergeNodes (cr_Nodes (cv_row c)) (cr_Nodes (cv_row child))\<rparr>)
       (appendComponent (cv_Children c) child podBearing)"

definition add_desired :: "int32 \<Rightarrow> ComponentView \<Rightarrow> ComponentView" where
  "add_desired n c =
     (let row = cv_row c
      in ComponentView (row\<lparr>cr_Replicas := (cr_Replicas row)\<lparr>rep_Desired := rep_Desired (cr_Replicas row) + n\<rparr>\<rparr>) (cv_Children c))"

definition add_resources :: "Resources \<Rightarrow> ComponentView \<Rightarrow> ComponentView" where
  "add_resources r c =
     (let row = cv_row c
      in ComponentView (row\<lparr>cr_Resources := Resources_add (cr_Resources row) r\<rparr>) (cv_Children c))"

section \<open>Which Pods belong to a component\<close>

definition pod_querier :: "('o, 'q) describelib \<Rightarrow> 'q CorePod \<Rightarrow> 'o runner" where
  "pod_querier D pod = NewDefaultRunner (dl_pod D pod)"

definition indexComponentDefs :: "Karta \<Rightarrow> (string \<times> ComponentDefinition) list" where
  "indexComponentDefs karta = write_all ((cd_Name (root_of karta), root_of karta) # map (\<lambda>c. (cd_Name c, c)) (children_of karta))"

definition isSolePodOwner :: "(string \<times> ComponentDefinition) list \<Rightarrow> bool" where
  "isSolePodOwner defs \<longleftrightarrow> length (filter (\<lambda>(name, d). cd_SpecDefinition d \<noteq> None) defs) = 1"

text \<open>\<open>defs[name].PodSelector\<close>: a missing definition reads as one without a selector.\<close>

definition pod_selector_of :: "(string \<times> ComponentDefinition) list \<Rightarrow> string \<Rightarrow> PodSelector option" where
  "pod_selector_of defs name = (case map_of defs name of None \<Rightarrow> None | Some d \<Rightarrow> cd_PodSelector d)"

definition keep_if :: "('a \<Rightarrow> bool res) \<Rightarrow> 'a list \<Rightarrow> 'a list res" where
  "keep_if p xs = fold_res (\<lambda>matched x. bind_res (p x) (\<lambda>ok. Ok (if ok then matched @ [x] else matched))) xs []"

definition matchComponentType ::
  "('o, 'c) jqlib \<Rightarrow> ('o, 'q) describelib \<Rightarrow> PodSelector option \<Rightarrow> 'q CorePod list \<Rightarrow> bool \<Rightarrow> 'q CorePod list res" where
  "matchComponentType L D selector pods claimsAll =
     (case (case selector of None \<Rightarrow> None | Some s \<Rightarrow> psel_ComponentTypeSelector s) of
        None \<Rightarrow> Ok (if claimsAll then pods else [])
      | Some s \<Rightarrow> keep_if (\<lambda>pod. fst (MatchesComponentType (runner_Evaluate L) (Some s) (pod_querier D pod))) pods)"

definition key_agrees :: "string option \<Rightarrow> (string \<times> bool) res \<Rightarrow> bool res" where
  "key_agrees key extracted =
     (case key of
        None \<Rightarrow> Ok True
      | Some k \<Rightarrow> bind_res extracted (\<lambda>(v, found). Ok (found \<and> v = k)))"

text \<open>The two queries run on one querier, so that the second one sees the runner that the first one left.\<close>

definition pod_of_instance ::
  "('o, 'c) jqlib \<Rightarrow> ('o, 'q) describelib \<Rightarrow> PodSelector \<Rightarrow> 'i InstanceNode \<Rightarrow> 'q CorePod \<Rightarrow> bool res" where
  "pod_of_instance L D selector i pod =
     (let querier = pod_querier D pod;
          (id, querier') = ExtractInstanceId (dl_number D) (runner_Evaluate L) (psel_ComponentInstanceSelector selector) querier;
          (key, querier'') = ExtractReplicaKey (dl_number D) (runner_Evaluate L) (psel_ReplicaSelector selector)
             (if in_InstanceKey i = None then querier else querier')
      in bind_res (key_agrees (in_InstanceKey i) id) (\<lambda>ok.
           if ok then key_agrees (in_ReplicaKey i) key else Ok False))"

definition filterByInstance ::
  "('o, 'c) jqlib \<Rightarrow> ('o, 'q) describelib \<Rightarrow> PodSelector option \<Rightarrow> 'i InstanceNode \<Rightarrow> 'q CorePod list \<Rightarrow> 'q CorePod list res" where
  "filterByInstance L D selector i pods =
     (case selector of None \<Rightarrow> Ok pods | Some s \<Rightarrow> keep_if (pod_of_instance L D s i) pods)"

section \<open>Components\<close>

definition isMultiInstance :: "'i InstanceNode list \<Rightarrow> bool" where
  "isMultiInstance instances \<longleftrightarrow> list_ex (\<lambda>i. in_InstanceKey i \<noteq> None \<or> in_ReplicaKey i \<noteq> None) instances"

definition instanceLabel :: "string \<Rightarrow> 'i InstanceNode \<Rightarrow> string" where
  "instanceLabel componentName i =
     (case in_InstanceKey i of
        Some k \<Rightarrow> k
      | None \<Rightarrow> (case in_ReplicaKey i of Some k \<Rightarrow> componentName @ ''['' @ k @ '']'' | None \<Rightarrow> componentName))"

definition kindOf :: "GroupVersionKind option \<Rightarrow> string" where
  "kindOf gvk = (case gvk of None \<Rightarrow> [] | Some g \<Rightarrow> gvk_Kind g)"

definition declare_instance :: "('o, 'q) describelib \<Rightarrow> ComponentView \<Rightarrow> 'o InstanceNode \<Rightarrow> ComponentView" where
  "declare_instance D component i =
     (let replicas = replicasOf (in_Scale i);
          component' = add_desired replicas component
      in case in_ExtractedInstance i of
           Some e \<Rightarrow> add_resources (Resources_scaled (requestOf D e) replicas) component'
         | None \<Rightarrow> component')"

definition declared_scale :: "'i InstanceNode list \<Rightarrow> ComponentView \<Rightarrow> ComponentView" where
  "declared_scale instances component =
     (if cv_Children component = []
      then foldl (\<lambda>c i. if in_Scale i \<noteq> None then add_desired (replicasOf (in_Scale i)) c else c) component instances
      else component)"

lemma size_child: "node \<in> set (in_Children i) \<Longrightarrow> size node < size i"
  by (cases i) (auto dest!: size_list_estimation' [where f = size, OF _ order_refl])

lemma size_instance: "i \<in> set instances \<Longrightarrow> size i < size_list size instances"
  for instances :: "'i InstanceNode list"
  by (induction instances) auto

function (sequential)
  buildComponent :: "('o, 'c) jqlib \<Rightarrow> ('o, 'q) describelib \<Rightarrow> (string \<times> ComponentDefinition) list
     \<Rightarrow> 'o ComponentNode \<Rightarrow> 'q CorePod list \<Rightarrow> ComponentView res"
  and buildGroupingComponent :: "('o, 'c) jqlib \<Rightarrow> ('o, 'q) describelib \<Rightarrow> (string \<times> ComponentDefinition) list
     \<Rightarrow> string \<Rightarrow> string \<Rightarrow> 'o InstanceNode list \<Rightarrow> 'q CorePod list \<Rightarrow> ComponentView res"
  and buildPodBearingComponent :: "('o, 'c) jqlib \<Rightarrow> ('o, 'q) describelib \<Rightarrow> (string \<times> ComponentDefinition) list
     \<Rightarrow> string \<Rightarrow> string \<Rightarrow> 'o InstanceNode list \<Rightarrow> 'q CorePod list \<Rightarrow> ComponentView res" where
  "buildComponent L D defs (ComponentNode name gvk podBearing instances) pods =
     bind_res
       (if podBearing
        then wrap_res ''match pods to component %q: %w'' [AStr name]
               (matchComponentType L D (pod_selector_of defs name) pods (isSolePodOwner defs))
        else Ok pods) (\<lambda>claimed.
     if \<not> isMultiInstance instances
     then (if podBearing then buildPodBearingComponent L D defs name (kindOf gvk) instances claimed
           else buildGroupingComponent L D defs name (kindOf gvk) instances claimed)
     else fold_res (\<lambda>parent i.
            bind_res (wrap_res ''match pods to instance of %q: %w'' [AStr name]
                (filterByInstance L D (pod_selector_of defs name) i claimed)) (\<lambda>scoped.
            bind_res
              (if podBearing then buildPodBearingComponent L D defs (instanceLabel name i) (kindOf gvk) [i] scoped
               else buildGroupingComponent L D defs (instanceLabel name i) (kindOf gvk) [i] scoped) (\<lambda>child.
            Ok (wrap_child parent child podBearing))))
          instances (ComponentView (new_row name (kindOf gvk)) []))"
| "buildGroupingComponent L D defs name kind instances pods =
     bind_res (fold_res (\<lambda>component i.
         fold_res (\<lambda>component node.
             bind_res (buildComponent L D defs node pods) (\<lambda>child.
             Ok (wrap_child component child (cn_HasPodDefinition node))))
           (in_Children i) component)
       instances (ComponentView (new_row name kind) [])) (\<lambda>component.
     Ok (declared_scale instances component))"
| "buildPodBearingComponent L D defs name kind instances pods =
     fold_res (\<lambda>component i.
         fold_res (\<lambda>component node.
             bind_res (buildComponent L D defs node pods) (\<lambda>child.
             Ok (adopt_child component child (cn_HasPodDefinition node))))
           (in_Children i) (declare_instance D component i))
       instances (ComponentView (attach D pods (new_row name kind)) [])"
  by pat_completeness auto
termination
proof (relation "measure (\<lambda>call. case call of
      Inl (L, D, defs, node, pods) \<Rightarrow> 3 * size node
    | Inr (Inl (L, D, defs, name, kind, instances, pods)) \<Rightarrow> Suc (3 * size_list size instances)
    | Inr (Inr (L, D, defs, name, kind, instances, pods)) \<Rightarrow> Suc (3 * size_list size instances))", goal_cases)
qed (auto dest!: size_child size_instance)

declare buildGroupingComponent.simps [simp del] buildPodBearingComponent.simps [simp del]

section \<open>The view\<close>

definition DefinitionOrigin_string :: "DefinitionOrigin \<Rightarrow> string" where
  "DefinitionOrigin_string origin = (case origin of OriginCatalog \<Rightarrow> ''catalog'' | OriginCluster \<Rightarrow> ''cluster'')"

definition undefinedPhase :: string where
  "undefinedPhase = ''Undefined''"

definition phases :: "'i WorkloadTree \<Rightarrow> string list" where
  "phases t =
     (case wt_Status t of
        None \<Rightarrow> [undefinedPhase]
      | Some s \<Rightarrow> if ws_Phases s = [] then [undefinedPhase] else ws_Phases s)"

definition viewOf :: "('o, 'q) describelib \<Rightarrow> 'o \<Rightarrow> Definition \<Rightarrow> 'i WorkloadTree \<Rightarrow> View" where
  "viewOf D obj d t =
     \<lparr>vw_Name = dl_GetName D obj, vw_Namespace = dl_GetNamespace D obj, vw_Kind = dl_GetKind D obj,
      vw_APIVersion = dl_GetAPIVersion D obj, vw_CreatedAt = dl_GetCreationTimestamp D obj,
      vw_Definition = k_Name (def_Karta d), vw_Origin = DefinitionOrigin_string (def_Origin d), vw_Phases = phases t\<rparr>"

text \<open>An action on the runner of a new factory for the object.\<close>

definition with_factory ::
  "Karta \<Rightarrow> 'o \<Rightarrow> (ComponentFactory \<Rightarrow> ('o runner, 'a) act) \<Rightarrow> 'a res" where
  "with_factory karta obj body =
     bind_res (NewComponentFactoryFromObject (Some karta) obj) (\<lambda>(factory, r). fst (body factory r))"

abbreviation accessor_of :: "('o, 'c) jqlib \<Rightarrow> 'o k8slib \<Rightarrow> ('o runner, 'o) ComponentAccessor" where
  "accessor_of L K \<equiv> NewAccessor (runner_iface L) K"

definition built_tree :: "nat \<Rightarrow> ('o, 'c) jqlib \<Rightarrow> 'o k8slib \<Rightarrow> ComponentFactory \<Rightarrow> ('o runner, 'o WorkloadTree) act" where
  "built_tree fuel L K factory = wrap_error ''build tree: %w'' [] (Build fuel (jq_parse L) (accessor_of L K) factory)"

definition workload_Resolve ::
  "nat \<Rightarrow> ('o, 'c) jqlib \<Rightarrow> 'o k8slib \<Rightarrow> ('o, 'q) describelib \<Rightarrow> 'o \<Rightarrow> Definition \<Rightarrow> View res" where
  "workload_Resolve fuel L K D obj d =
     with_factory (def_Karta d) obj (\<lambda>factory.
       and_then (built_tree fuel L K factory) (\<lambda>t. return_act (viewOf D obj d t)))"

definition root_instance :: "'o ExtractedInstance by_instance \<Rightarrow> string \<Rightarrow> 'o InstanceNode list" where
  "root_instance extracted key =
     (case map_of extracted key of
        None \<Rightarrow> []
      | Some i \<Rightarrow> [InstanceNode (if key \<noteq> [] then Some key else None) None (ei_Scale i) (Some i) []])"

definition rootInstances :: "('r, 'o) ComponentAccessor \<Rightarrow> Component \<Rightarrow> ('r, 'o InstanceNode list) act" where
  "rootInstances A root_component =
     and_then (wrap_error ''extract root instances: %w'' [] (GetExtractedInstances A root_component)) (\<lambda>extracted.
     return_act (concat (map (root_instance extracted) (sort (map fst extracted)))))"

definition root_view ::
  "('o, 'c) jqlib \<Rightarrow> ('o, 'q) describelib \<Rightarrow> (string \<times> ComponentDefinition) list \<Rightarrow> Component \<Rightarrow> 'o InstanceNode list
     \<Rightarrow> 'q CorePod list \<Rightarrow> ComponentView list res" where
  "root_view L D defs root_component instances pods =
     bind_res (wrap_res ''match pods to root component: %w'' []
         (matchComponentType L D (pod_selector_of defs (comp_name root_component)) pods (isSolePodOwner defs))) (\<lambda>claimed.
     bind_res (wrap_res ''build root component: %w'' []
         (buildPodBearingComponent L D defs (comp_name root_component) (kindOf (Component_Kind root_component)) instances claimed)) (\<lambda>component.
     Ok (appendComponent [] component True)))"

definition tree_views ::
  "('o, 'c) jqlib \<Rightarrow> ('o, 'q) describelib \<Rightarrow> (string \<times> ComponentDefinition) list \<Rightarrow> 'o ComponentNode list \<Rightarrow> 'q CorePod list
     \<Rightarrow> ComponentView list \<Rightarrow> ComponentView list res" where
  "tree_views L D defs nodes pods components =
     fold_res (\<lambda>components node.
         bind_res (wrap_res ''build component %q: %w'' [AStr (cn_Name node)] (buildComponent L D defs node pods)) (\<lambda>component.
         Ok (appendComponent components component (cn_HasPodDefinition node))))
       nodes components"

definition total_of :: "ComponentView list \<Rightarrow> Resources" where
  "total_of components = foldl (\<lambda>total c. Resources_add total (cr_Resources (cv_row c))) no_resources components"

definition ResolveDescribe ::
  "nat \<Rightarrow> ('o, 'c) jqlib \<Rightarrow> 'o k8slib \<Rightarrow> ('o, 'q) describelib \<Rightarrow> 'o \<Rightarrow> Definition \<Rightarrow> 'q CorePod list \<Rightarrow> DescribeView res" where
  "ResolveDescribe fuel L K D obj d pods =
     with_factory (def_Karta d) obj (\<lambda>factory.
     and_then (built_tree fuel L K factory) (\<lambda>t.
     let defs = indexComponentDefs (def_Karta d)
     in and_then (wrap_error ''get root component: %w'' [] (lift_res (GetRootComponent factory))) (\<lambda>root_component.
        and_then
          (if HasPodDefinition root_component
           then and_then (rootInstances (accessor_of L K) root_component) (\<lambda>instances.
                lift_res (root_view L D defs root_component instances pods))
           else return_act []) (\<lambda>hosted.
        and_then (lift_res (tree_views L D defs (wt_Children t) pods hosted)) (\<lambda>components.
        return_act \<lparr>dv_View = viewOf D obj d t, dv_FileMode = False, dv_Resources = total_of components,
          dv_Components = components\<rparr>)))))"

section \<open>Loops\<close>

lemma bind_res_simps [simp]:
  "bind_res (Ok a) f = f a" "bind_res (Err e) f = Err e" "bind_res (Panic p) f = Panic p" "bind_res NoReturn f = NoReturn"
  by (simp_all add: bind_res_def)

lemma bind_res_Ok: "bind_res m f = Ok b \<longleftrightarrow> (\<exists>a. m = Ok a \<and> f a = Ok b)"
  by (cases m) simp_all

lemma wrap_res_Ok [simp]: "wrap_res f as m = Ok a \<longleftrightarrow> m = Ok a" "wrap_res f as (Ok a) = Ok a"
  by (simp_all add: wrap_res_def split: res.split)

text \<open>A loop simulates another one when each of its rounds does.\<close>

lemma fold_res_sim:
  assumes "fold_res f xs b = Ok b'" and "R b c"
    and "\<And>b c b' x. x \<in> set xs \<Longrightarrow> R b c \<Longrightarrow> f b x = Ok b' \<Longrightarrow> \<exists>c'. g c x = Ok c' \<and> R b' c'"
  shows "\<exists>c'. fold_res g xs c = Ok c' \<and> R b' c'"
  using assms
proof (induction xs arbitrary: b c)
  case Nil
  then show ?case by simp
next
  case (Cons x xs)
  from Cons.prems(1) obtain b1 where b1: "f b x = Ok b1" and rest: "fold_res f xs b1 = Ok b'"
    by (auto simp: bind_res_Ok)
  from Cons.prems(3) [OF _ Cons.prems(2) b1] obtain c1 where c1: "g c x = Ok c1" "R b1 c1" by auto
  from Cons.IH [OF rest c1(2) Cons.prems(3)] c1(1) show ?case by auto
qed

lemma fold_res_inv:
  assumes "fold_res f xs b = Ok b'" and "I b"
    and "\<And>b b' x. x \<in> set xs \<Longrightarrow> I b \<Longrightarrow> f b x = Ok b' \<Longrightarrow> I b'"
  shows "I b'"
proof -
  have "\<exists>c'. fold_res (\<lambda>c x. Ok c) xs () = Ok c' \<and> I b'"
    using assms(2) by (rule fold_res_sim [OF assms(1), where R = "\<lambda>b c. I b"]) (auto dest: assms(3))
  then show ?thesis by blast
qed

lemma keep_if_Ok:
  assumes "keep_if p xs = Ok ys"
  shows "ys = filter (\<lambda>x. p x = Ok True) xs"
proof -
  have "ys = pre @ filter (\<lambda>x. p x = Ok True) xs"
    if "fold_res (\<lambda>matched x. bind_res (p x) (\<lambda>ok. Ok (if ok then matched @ [x] else matched))) xs pre = Ok ys" for pre
    using that by (induction xs arbitrary: pre) (force simp: bind_res_Ok split: if_splits)+
  from this [of "[]"] assms show ?thesis by (simp add: keep_if_def)
qed

lemma keep_if_Nil [simp]: "keep_if p [] = Ok []"
  by (simp add: keep_if_def)

lemma matched_none [simp]: "matchComponentType L D selector [] claimsAll = Ok []"
  by (simp add: matchComponentType_def split: option.split)

lemma filtered_none [simp]: "filterByInstance L D selector i [] = Ok []"
  by (simp add: filterByInstance_def split: option.split)

section \<open>A view without Pods\<close>

text \<open>What a view of the same workload without Pods keeps: all but the live fields.\<close>

definition file_row :: "ComponentRow \<Rightarrow> ComponentRow" where
  "file_row c = c\<lparr>cr_Replicas := (cr_Replicas c)\<lparr>rep_Current := 0, rep_Ready := 0\<rparr>, cr_Nodes := [], cr_Pods := []\<rparr>"

fun file_component :: "ComponentView \<Rightarrow> ComponentView" where
  "file_component (ComponentView c children) = ComponentView (file_row c) (map file_component children)"

definition file_view :: "DescribeView \<Rightarrow> DescribeView" where
  "file_view v = v\<lparr>dv_Components := map file_component (dv_Components v)\<rparr>"

text \<open>A component without Pods of its own: without children, it counts none.\<close>

definition podless :: "ComponentView \<Rightarrow> bool" where
  "podless c \<longleftrightarrow> cr_Pods (cv_row c) = []
     \<and> (cv_Children c = [] \<longrightarrow> rep_Current (cr_Replicas (cv_row c)) = 0 \<and> rep_Ready (cr_Replicas (cv_row c)) = 0)"

lemma file_component_sel [simp]:
  "cv_row (file_component c) = file_row (cv_row c)" "cv_Children (file_component c) = map file_component (cv_Children c)"
  by (cases c; simp)+

lemma mergeNodes_Nil [simp]: "mergeNodes [] [] = []"
  by (simp add: mergeNodes_def)

lemma file_row_simps [simp]:
  "aggregate (file_row c) (file_row d) = file_row (aggregate c d)"
  "cr_Resources (file_row c) = cr_Resources c"
  "file_row (new_row name kind) = new_row name kind"
  by (simp_all add: file_row_def aggregate_def Let_def new_row_def no_replicas_def)

lemma file_empty: "podless c \<Longrightarrow> ComponentView_isEmpty (file_component c) \<longleftrightarrow> ComponentView_isEmpty c"
  by (cases c; cases "cr_Replicas (cv_row c)") (auto simp: podless_def file_row_def Replicas_isEmpty_def no_replicas_def)

lemma file_append:
  "pod \<or> podless c \<Longrightarrow>
     appendComponent (map file_component cs) (file_component c) pod = map file_component (appendComponent cs c pod)"
  by (auto simp: appendComponent_def file_empty)

lemma wrap_file:
  "pod \<or> podless child \<Longrightarrow> wrap_child (file_component c) (file_component child) pod = file_component (wrap_child c child pod)"
  by (simp add: wrap_child_def file_append)

lemma adopt_file:
  "pod \<or> podless child \<Longrightarrow> adopt_child (file_component c) (file_component child) pod = file_component (adopt_child c child pod)"
  by (simp add: adopt_child_def file_append file_row_def)

lemma wrap_podless: "podless c \<Longrightarrow> podless (wrap_child c child pod)"
  by (cases child)
    (auto simp: podless_def wrap_child_def appendComponent_def aggregate_def Let_def Replicas_isEmpty_def no_replicas_def)

lemma add_desired_sel [simp]:
  "cv_Children (add_desired n c) = cv_Children c" "cv_Children (add_resources r c) = cv_Children c"
  by (simp_all add: add_desired_def add_resources_def Let_def)

lemma add_desired_file:
  "file_component (add_desired n c) = add_desired n (file_component c)"
  "file_component (add_resources r c) = add_resources r (file_component c)"
  by (simp_all add: add_desired_def add_resources_def Let_def file_row_def)

lemma declare_file: "file_component (declare_instance D c i) = declare_instance D (file_component c) i"
  by (simp add: declare_instance_def Let_def add_desired_file split: option.split)

lemma declared_file: "file_component (declared_scale instances c) = declared_scale instances (file_component c)"
proof -
  have "file_component (foldl (\<lambda>c i. if in_Scale i \<noteq> None then add_desired (replicasOf (in_Scale i)) c else c) c instances)
      = foldl (\<lambda>c i. if in_Scale i \<noteq> None then add_desired (replicasOf (in_Scale i)) c else c) (file_component c) instances"
    by (induction instances arbitrary: c) (simp_all add: add_desired_file)
  then show ?thesis by (simp add: declared_scale_def)
qed

lemma add_desired_podless [simp]: "podless (add_desired n c) = podless c"
  by (simp add: podless_def add_desired_def Let_def)

lemma declared_podless [simp]: "podless (declared_scale instances c) = podless c"
proof -
  have "podless (foldl (\<lambda>c i. if in_Scale i \<noteq> None then add_desired (replicasOf (in_Scale i)) c else c) c instances) = podless c"
    by (induction instances arbitrary: c) simp_all
  then show ?thesis by (simp add: declared_scale_def)
qed

lemma attach_file: "file_row (attach D pods (new_row name kind)) = attach D [] (new_row name kind)"
proof -
  have "file_row (foldl (attach_pod D) c pods) = file_row c" for c
    by (induction pods arbitrary: c) (simp_all add: attach_pod_def Let_def file_row_def)
  then have "file_row (foldl (attach_pod D) (new_row name kind) pods) = new_row name kind" by simp
  then show ?thesis by (simp add: attach_def Let_def file_row_def new_row_def)
qed

lemma new_podless [simp]: "podless (ComponentView (new_row name kind) [])"
  by (simp add: podless_def new_row_def no_replicas_def)

text \<open>\<open>without f g Q\<close>: whenever the call with Pods succeeds, so does the one without, with the same view but for the live fields.\<close>

definition without :: "ComponentView res \<Rightarrow> ComponentView res \<Rightarrow> bool \<Rightarrow> bool" where
  "without f g pod \<longleftrightarrow> (\<forall>v. f = Ok v \<longrightarrow> g = Ok (file_component v) \<and> (pod \<or> podless v))"

lemma withoutD: "without f g pod \<Longrightarrow> f = Ok v \<Longrightarrow> g = Ok (file_component v) \<and> (pod \<or> podless v)"
  by (simp add: without_def)

lemma wrapping_without:
  assumes "fold_res f xs c = Ok v" and "podless c"
    and step: "\<And>c c' x. x \<in> set xs \<Longrightarrow> f c x = Ok c' \<Longrightarrow> podless c \<Longrightarrow> g (file_component c) x = Ok (file_component c') \<and> podless c'"
  shows "fold_res g xs (file_component c) = Ok (file_component v) \<and> podless v"
proof -
  have "\<exists>d. fold_res g xs (file_component c) = Ok d \<and> (d = file_component v \<and> podless v)"
    by (rule fold_res_sim [OF assms(1), where R = "\<lambda>c d. d = file_component c \<and> podless c"]) (auto simp: assms(2) dest!: step)
  then show ?thesis by blast
qed

lemma adopting_without:
  assumes "fold_res f xs c = Ok v"
    and step: "\<And>c c' x. x \<in> set xs \<Longrightarrow> f c x = Ok c' \<Longrightarrow> g (file_component c) x = Ok (file_component c')"
  shows "fold_res g xs (file_component c) = Ok (file_component v)"
proof -
  have "\<exists>d. fold_res g xs (file_component c) = Ok d \<and> d = file_component v"
    by (rule fold_res_sim [OF assms(1), where R = "\<lambda>c d. d = file_component c"]) (auto dest!: step)
  then show ?thesis by blast
qed

lemma build_without:
  "without (buildComponent L D defs node pods) (buildComponent L D defs node []) (cn_HasPodDefinition node)"
  "without (buildGroupingComponent L D defs name kind instances pods) (buildGroupingComponent L D defs name kind instances []) False"
  "without (buildPodBearingComponent L D defs name kind instances pods) (buildPodBearingComponent L D defs name kind instances []) True"
proof (induction L D defs node pods and L D defs name kind instances pods and L D defs name kind instances pods
    rule: buildComponent_buildGroupingComponent_buildPodBearingComponent.induct)
  case (1 L D defs name gvk pod instances pods)
  show ?case
    unfolding without_def
  proof (intro allI impI)
    fix v assume v: "buildComponent L D defs (ComponentNode name gvk pod instances) pods = Ok v"
    then obtain claimed where claimed: "(if pod then wrap_res ''match pods to component %q: %w'' [AStr name]
          (matchComponentType L D (pod_selector_of defs name) pods (isSolePodOwner defs)) else Ok pods) = Ok claimed"
      by (auto simp: bind_res_Ok)
    have none: "(if pod then wrap_res ''match pods to component %q: %w'' [AStr name]
          (matchComponentType L D (pod_selector_of defs name) [] (isSolePodOwner defs)) else Ok []) = Ok []"
      by simp
    show "buildComponent L D defs (ComponentNode name gvk pod instances) [] = Ok (file_component v)
      \<and> (cn_HasPodDefinition (ComponentNode name gvk pod instances) \<or> podless v)"
    proof (cases "isMultiInstance instances")
      case False
      with v claimed 1(1,2) [OF _, of claimed] none show ?thesis
        by (auto split: if_splits dest: withoutD)
    next
      case True
      have child: "without
          (if pod then buildPodBearingComponent L D defs (instanceLabel name i) (kindOf gvk) [i] scoped
           else buildGroupingComponent L D defs (instanceLabel name i) (kindOf gvk) [i] scoped)
          (if pod then buildPodBearingComponent L D defs (instanceLabel name i) (kindOf gvk) [i] []
           else buildGroupingComponent L D defs (instanceLabel name i) (kindOf gvk) [i] []) pod"
        if "i \<in> set instances" for i scoped
        using 1(3,4) that True by (cases pod) auto
      have "fold_res (\<lambda>parent i. bind_res (wrap_res ''match pods to instance of %q: %w'' [AStr name]
            (filterByInstance L D (pod_selector_of defs name) i [])) (\<lambda>scoped.
          bind_res (if pod then buildPodBearingComponent L D defs (instanceLabel name i) (kindOf gvk) [i] scoped
              else buildGroupingComponent L D defs (instanceLabel name i) (kindOf gvk) [i] scoped)
            (\<lambda>child. Ok (wrap_child parent child pod))))
          instances (file_component (ComponentView (new_row name (kindOf gvk)) [])) = Ok (file_component v) \<and> podless v"
      proof (rule wrapping_without [OF _ new_podless])
        show "fold_res (\<lambda>parent i. bind_res (wrap_res ''match pods to instance of %q: %w'' [AStr name]
            (filterByInstance L D (pod_selector_of defs name) i claimed)) (\<lambda>scoped.
          bind_res (if pod then buildPodBearingComponent L D defs (instanceLabel name i) (kindOf gvk) [i] scoped
              else buildGroupingComponent L D defs (instanceLabel name i) (kindOf gvk) [i] scoped)
            (\<lambda>child. Ok (wrap_child parent child pod))))
          instances (ComponentView (new_row name (kindOf gvk)) []) = Ok v"
          using v claimed True by simp
      qed (auto simp: bind_res_Ok wrap_file wrap_podless dest!: withoutD [OF child])
      with True none show ?thesis by simp
    qed
  qed
next
  case (2 L D defs name kind instances pods)
  show ?case
    unfolding without_def
  proof (intro allI impI)
    fix v assume "buildGroupingComponent L D defs name kind instances pods = Ok v"
    then obtain c where c: "fold_res (\<lambda>component i. fold_res (\<lambda>component node. bind_res (buildComponent L D defs node pods)
          (\<lambda>child. Ok (wrap_child component child (cn_HasPodDefinition node)))) (in_Children i) component)
        instances (ComponentView (new_row name kind) []) = Ok c" and v: "v = declared_scale instances c"
      by (auto simp: bind_res_Ok buildGroupingComponent.simps)
    have "fold_res (\<lambda>component i. fold_res (\<lambda>component node. bind_res (buildComponent L D defs node [])
          (\<lambda>child. Ok (wrap_child component child (cn_HasPodDefinition node)))) (in_Children i) component)
        instances (file_component (ComponentView (new_row name kind) [])) = Ok (file_component c) \<and> podless c"
      apply (rule wrapping_without [OF c new_podless])
      apply (rule wrapping_without, assumption, assumption)
      apply (auto simp: bind_res_Ok wrap_file wrap_podless dest!: withoutD [OF 2])
      done
    then show "buildGroupingComponent L D defs name kind instances [] = Ok (file_component v) \<and> (False \<or> podless v)"
      by (simp add: v declared_file buildGroupingComponent.simps)
  qed
next
  case (3 L D defs name kind instances pods)
  show ?case
    unfolding without_def
  proof (intro allI impI)
    fix v assume v: "buildPodBearingComponent L D defs name kind instances pods = Ok v"
    have "fold_res (\<lambda>component i. fold_res (\<lambda>component node. bind_res (buildComponent L D defs node [])
          (\<lambda>child. Ok (adopt_child component child (cn_HasPodDefinition node)))) (in_Children i) (declare_instance D component i))
        instances (file_component (ComponentView (attach D pods (new_row name kind)) [])) = Ok (file_component v)"
      apply (rule adopting_without [OF v [unfolded buildPodBearingComponent.simps]])
      apply (simp only: declare_file [symmetric])
      apply (rule adopting_without, assumption)
      apply (auto simp: bind_res_Ok adopt_file dest!: withoutD [OF 3])
      done
    then show "buildPodBearingComponent L D defs name kind instances [] = Ok (file_component v) \<and> (True \<or> podless v)"
      by (simp add: attach_file buildPodBearingComponent.simps)
  qed
qed

lemma build_view:
  assumes "buildComponent L D defs node pods = Ok v"
  shows "buildComponent L D defs node [] = Ok (file_component v)" "cn_HasPodDefinition node \<or> podless v"
  using withoutD [OF build_without(1) assms] by simp_all

lemma tree_views_without:
  assumes "tree_views L D defs nodes pods cs = Ok v"
  shows "tree_views L D defs nodes [] (map file_component cs) = Ok (map file_component v)"
proof -
  have "\<exists>d. fold_res (\<lambda>components node. bind_res (wrap_res ''build component %q: %w'' [AStr (cn_Name node)] (buildComponent L D defs node []))
        (\<lambda>component. Ok (appendComponent components component (cn_HasPodDefinition node)))) nodes (map file_component cs) = Ok d
      \<and> d = map file_component v"
  proof (rule fold_res_sim [OF assms [unfolded tree_views_def], where R = "\<lambda>c d. d = map file_component c"])
    fix b c b' node
    assume "c = map file_component b"
      and "bind_res (wrap_res ''build component %q: %w'' [AStr (cn_Name node)] (buildComponent L D defs node pods))
        (\<lambda>component. Ok (appendComponent b component (cn_HasPodDefinition node))) = Ok b'"
    then obtain w where w: "buildComponent L D defs node pods = Ok w" and b': "b' = appendComponent b w (cn_HasPodDefinition node)"
      by (auto simp: bind_res_Ok)
    show "\<exists>c'. bind_res (wrap_res ''build component %q: %w'' [AStr (cn_Name node)] (buildComponent L D defs node []))
        (\<lambda>component. Ok (appendComponent c component (cn_HasPodDefinition node))) = Ok c' \<and> c' = map file_component b'"
      using build_view [OF w] by (simp add: b' \<open>c = map file_component b\<close> file_append)
  qed simp
  then show ?thesis by (simp add: tree_views_def)
qed

lemma root_view_without:
  assumes "root_view L D defs c instances pods = Ok v"
  shows "root_view L D defs c instances [] = Ok (map file_component v)"
proof -
  from assms obtain claimed w
    where "buildPodBearingComponent L D defs (comp_name c) (kindOf (Component_Kind c)) instances claimed = Ok w"
      and v: "v = appendComponent [] w True"
    by (auto simp: root_view_def bind_res_Ok)
  from withoutD [OF build_without(3) this(1)] show ?thesis
    by (simp add: root_view_def v appendComponent_def)
qed

lemma total_file [simp]: "total_of (map file_component cs) = total_of cs"
proof -
  have "foldl (\<lambda>total c. Resources_add total (cr_Resources (cv_row c))) r (map file_component cs)
      = foldl (\<lambda>total c. Resources_add total (cr_Resources (cv_row c))) r cs" for r
    by (induction cs arbitrary: r) simp_all
  then show ?thesis by (simp add: total_of_def)
qed

text \<open>The views of a workload with and without Pods, from the same tree and the same instances of the root.\<close>

lemma fst_Ok: "fst x = Ok v \<longleftrightarrow> (\<exists>r. x = (Ok v, r))"
  by (cases x) auto

text \<open>What a view of the workload reads before its Pods are placed.\<close>

definition described :: "nat \<Rightarrow> ('o, 'c) jqlib \<Rightarrow> 'o k8slib \<Rightarrow> 'o \<Rightarrow> Definition \<Rightarrow> 'o WorkloadTree \<Rightarrow> Component \<Rightarrow> 'o InstanceNode list option \<Rightarrow> bool" where
  "described fuel L K obj d t root_component instances \<longleftrightarrow>
     (\<exists>factory r r1 r2. NewComponentFactoryFromObject (Some (def_Karta d)) obj = Ok (factory, r)
        \<and> built_tree fuel L K factory r = (Ok t, r1) \<and> GetRootComponent factory = Ok root_component
        \<and> (if HasPodDefinition root_component
           then \<exists>found_instances. rootInstances (accessor_of L K) root_component r1 = (Ok found_instances, r2) \<and> instances = Some found_instances
           else instances = None))"

definition root_views ::
  "('o, 'c) jqlib \<Rightarrow> ('o, 'q) describelib \<Rightarrow> Definition \<Rightarrow> Component \<Rightarrow> 'o InstanceNode list option \<Rightarrow> 'q CorePod list \<Rightarrow> ComponentView list res" where
  "root_views L D d root_component instances pods =
     (case instances of None \<Rightarrow> Ok [] | Some found_instances \<Rightarrow> root_view L D (indexComponentDefs (def_Karta d)) root_component found_instances pods)"

lemma ResolveDescribe_OkD:
  assumes "ResolveDescribe fuel L K D obj d pods = Ok v"
  obtains t root_component instances hosted components where "described fuel L K obj d t root_component instances"
    "root_views L D d root_component instances pods = Ok hosted"
    "tree_views L D (indexComponentDefs (def_Karta d)) (wt_Children t) pods hosted = Ok components"
    "v = \<lparr>dv_View = viewOf D obj d t, dv_FileMode = False, dv_Resources = total_of components, dv_Components = components\<rparr>"
proof -
  from assms obtain factory r t r1 c hosted r2 components where
    run: "NewComponentFactoryFromObject (Some (def_Karta d)) obj = Ok (factory, r)" "built_tree fuel L K factory r = (Ok t, r1)"
      "GetRootComponent factory = Ok c"
    and root: "(if HasPodDefinition c
           then and_then (rootInstances (accessor_of L K) c) (\<lambda>instances.
                lift_res (root_view L D (indexComponentDefs (def_Karta d)) c instances pods))
           else return_act []) r1 = (Ok hosted, r2)"
    and rest: "tree_views L D (indexComponentDefs (def_Karta d)) (wt_Children t) pods hosted = Ok components"
      "v = \<lparr>dv_View = viewOf D obj d t, dv_FileMode = False, dv_Resources = total_of components, dv_Components = components\<rparr>"
    unfolding ResolveDescribe_def with_factory_def
    by (clarsimp simp: bind_res_Ok fst_Ok and_then_Ok wrap_error_Ok lift_res_apply return_act_apply Let_def)
  show thesis
  proof (cases "HasPodDefinition c")
    case True
    with root obtain found_instances where "rootInstances (accessor_of L K) c r1 = (Ok found_instances, r2)"
      "root_view L D (indexComponentDefs (def_Karta d)) c found_instances pods = Ok hosted"
      by (auto simp: and_then_Ok lift_res_apply)
    with run True show thesis by (intro that [OF _ _ rest, of c "Some found_instances"]) (auto simp: described_def root_views_def)
  next
    case False
    with root run show thesis
      by (intro that [OF _ _ rest, of c None]) (auto simp: described_def root_views_def return_act_apply)
  qed
qed

lemma ResolveDescribe_OkI:
  assumes "described fuel L K obj d t root_component instances" "root_views L D d root_component instances pods = Ok hosted"
    and "tree_views L D (indexComponentDefs (def_Karta d)) (wt_Children t) pods hosted = Ok components"
  shows "ResolveDescribe fuel L K D obj d pods
    = Ok \<lparr>dv_View = viewOf D obj d t, dv_FileMode = False, dv_Resources = total_of components, dv_Components = components\<rparr>"
  using assms
  by (auto simp: described_def root_views_def ResolveDescribe_def with_factory_def and_then_apply wrap_error_apply lift_res_apply
      return_act_apply Let_def split: if_splits)

lemma describe_without:
  assumes "ResolveDescribe fuel L K D obj d pods = Ok v"
  shows "ResolveDescribe fuel L K D obj d [] = Ok (file_view v)"
proof (rule ResolveDescribe_OkD [OF assms])
  fix t root_component instances hosted components
  assume run: "described fuel L K obj d t root_component instances"
    and root: "root_views L D d root_component instances pods = Ok hosted"
    and tree: "tree_views L D (indexComponentDefs (def_Karta d)) (wt_Children t) pods hosted = Ok components"
    and v: "v = \<lparr>dv_View = viewOf D obj d t, dv_FileMode = False, dv_Resources = total_of components, dv_Components = components\<rparr>"
  have "root_views L D d root_component instances [] = Ok (map file_component hosted)"
    using root root_view_without by (cases instances) (auto simp: root_views_def)
  from ResolveDescribe_OkI [OF run this tree_views_without [OF tree]] show ?thesis by (simp add: v file_view_def)
qed

end
