(* ===== verification/Describe_Properties.thy ===== *)
theory Describe_Properties
  imports CLI_Describe Karta_Samples
begin

text \<open>What the view of a workload shows of its Pods, and what it keeps without them.\<close>

section \<open>The Pods of a view\<close>

text \<open>
  Every component lists given Pods, ordered by name, and the distinct nodes of these and of its children, in order.
\<close>

definition row_nodes :: "ComponentRow \<Rightarrow> string set" where
  "row_nodes c = {node. \<exists>row \<in> set (cr_Pods c). pv_Node row = Some node}"

fun placed :: "('o, 'q) describelib \<Rightarrow> 'q CorePod list \<Rightarrow> ComponentView \<Rightarrow> bool" where
  "placed D pods (ComponentView c children) \<longleftrightarrow>
     set (cr_Pods c) \<subseteq> pod_view D ` set pods \<and> sorted (map pv_Name (cr_Pods c))
     \<and> sorted (cr_Nodes c) \<and> distinct (cr_Nodes c)
     \<and> set (cr_Nodes c) = row_nodes c \<union> (\<Union>child \<in> set children. set (cr_Nodes (cv_row child)))
     \<and> (\<forall>child \<in> set children. placed D pods child)"

lemma placed_iff:
  "placed D pods c \<longleftrightarrow>
     set (cr_Pods (cv_row c)) \<subseteq> pod_view D ` set pods \<and> sorted (map pv_Name (cr_Pods (cv_row c)))
     \<and> sorted (cr_Nodes (cv_row c)) \<and> distinct (cr_Nodes (cv_row c))
     \<and> set (cr_Nodes (cv_row c)) = row_nodes (cv_row c) \<union> (\<Union>child \<in> set (cv_Children c). set (cr_Nodes (cv_row child)))
     \<and> (\<forall>child \<in> set (cv_Children c). placed D pods child)"
  by (cases c) simp

lemma mergeNodes_ordered [simp]:
  "set (mergeNodes a b) = set a \<union> set b" "sorted (mergeNodes a b)" "distinct (mergeNodes a b)"
proof -
  have "distinct (remdups_adj xs)" if "sorted xs" for xs :: "string list"
    using that by (induction xs rule: remdups_adj.induct) (auto simp: order.antisym)
  then show "distinct (mergeNodes a b)" by (simp add: mergeNodes_def)
qed (simp_all add: mergeNodes_def)

lemma placed_mono: "placed D pods c \<Longrightarrow> set pods \<subseteq> set pods' \<Longrightarrow> placed D pods' c"
  by (induction D pods c rule: placed.induct) (force simp: image_iff)

lemma keep_subset: "keep_if p xs = Ok ys \<Longrightarrow> set ys \<subseteq> set xs"
  by (auto dest: keep_if_Ok)

lemma matched_subset: "matchComponentType L D selector pods claimsAll = Ok claimed \<Longrightarrow> set claimed \<subseteq> set pods"
  by (auto simp: matchComponentType_def split: option.splits if_splits dest: keep_subset)

lemma filtered_subset: "filterByInstance L D selector i pods = Ok scoped \<Longrightarrow> set scoped \<subseteq> set pods"
  by (auto simp: filterByInstance_def split: option.splits dest: keep_subset)

lemma empty_nodes: "placed D pods c \<Longrightarrow> ComponentView_isEmpty c \<Longrightarrow> set (cr_Nodes (cv_row c)) = {}"
  by (cases c) (auto simp: row_nodes_def)

lemma append_children:
  assumes "placed D pods child"
  shows "(\<Union>c \<in> set (appendComponent cs child pod). set (cr_Nodes (cv_row c)))
      = (\<Union>c \<in> set cs. set (cr_Nodes (cv_row c))) \<union> set (cr_Nodes (cv_row child))"
    and "(\<forall>c \<in> set cs. placed D pods c) \<Longrightarrow> (\<forall>c \<in> set (appendComponent cs child pod). placed D pods c)"
  using empty_nodes [OF assms] assms by (auto simp: appendComponent_def)

lemma placed_extended:
  assumes "placed D pods c" "placed D pods child"
    and "cr_Pods row = cr_Pods (cv_row c)" "cr_Nodes row = mergeNodes (cr_Nodes (cv_row c)) (cr_Nodes (cv_row child))"
  shows "placed D pods (ComponentView row (appendComponent (cv_Children c) child pod))"
proof -
  note c = assms(1) [unfolded placed_iff [of D pods c]]
  have "set (cr_Nodes row) = row_nodes row \<union> (\<Union>c \<in> set (appendComponent (cv_Children c) child pod). set (cr_Nodes (cv_row c)))"
    using c by (simp only: append_children [OF assms(2)] assms(4) mergeNodes_ordered Un_assoc row_nodes_def assms(3))
  moreover have "\<forall>c \<in> set (appendComponent (cv_Children c) child pod). placed D pods c"
    using c by (intro append_children(2) [OF assms(2)]) simp
  ultimately show ?thesis using c by (simp only: placed.simps assms(3,4) mergeNodes_ordered)
qed

lemma placed_wrap: "placed D pods c \<Longrightarrow> placed D pods child \<Longrightarrow> placed D pods (wrap_child c child pod)"
  unfolding wrap_child_def by (rule placed_extended) (simp_all add: aggregate_def Let_def)

lemma placed_adopt: "placed D pods c \<Longrightarrow> placed D pods child \<Longrightarrow> placed D pods (adopt_child c child pod)"
  unfolding adopt_child_def by (rule placed_extended) simp_all

lemma placed_new [simp]: "placed D pods (ComponentView (new_row name kind) [])"
  by (simp add: new_row_def row_nodes_def)

lemma placed_desired [simp]: "placed D pods (add_desired n c) = placed D pods c" "placed D pods (add_resources r c) = placed D pods c"
  by (simp_all add: placed_iff [of D pods c] add_desired_def add_resources_def Let_def row_nodes_def)

lemma placed_declare [simp]: "placed D pods (declare_instance D c i) = placed D pods c"
  by (simp add: declare_instance_def Let_def split: option.split)

lemma placed_declared [simp]: "placed D pods (declared_scale instances c) = placed D pods c"
proof -
  have "placed D pods (foldl (\<lambda>c i. if in_Scale i \<noteq> None then add_desired (replicasOf (in_Scale i)) c else c) c instances) = placed D pods c"
    by (induction instances arbitrary: c) simp_all
  then show ?thesis by (simp add: declared_scale_def)
qed

lemma placed_attach: "placed D pods (ComponentView (attach D pods (new_row name kind)) [])"
proof -
  have "set (cr_Pods (foldl (attach_pod D) c qs)) = set (cr_Pods c) \<union> pod_view D ` set qs
      \<and> set (cr_Nodes (foldl (attach_pod D) c qs)) = row_nodes (foldl (attach_pod D) c qs)
      \<and> sorted (cr_Nodes (foldl (attach_pod D) c qs)) \<and> distinct (cr_Nodes (foldl (attach_pod D) c qs))"
    if "set (cr_Nodes c) = row_nodes c" "sorted (cr_Nodes c)" "distinct (cr_Nodes c)" for c qs
    using that
  proof (induction qs arbitrary: c)
    case (Cons q qs)
    have "set (cr_Nodes (attach_pod D c q)) = row_nodes (attach_pod D c q)"
      using Cons.prems(1) by (auto simp: attach_pod_def Let_def row_nodes_def pod_view_def)
    moreover have "sorted (cr_Nodes (attach_pod D c q))" "distinct (cr_Nodes (attach_pod D c q))"
      using Cons.prems(2,3) by (simp_all add: attach_pod_def Let_def)
    ultimately show ?case using Cons.IH [of "attach_pod D c q"] by (auto simp: attach_pod_def Let_def)
  qed simp
  from this [of "new_row name kind" pods] show ?thesis
    by (simp add: attach_def Let_def row_nodes_def new_row_def)
qed

lemma build_placed:
  "buildComponent L D defs node pods = Ok v \<Longrightarrow> placed D pods v"
  "buildGroupingComponent L D defs name kind instances pods = Ok v \<Longrightarrow> placed D pods v"
  "buildPodBearingComponent L D defs name kind instances pods = Ok v \<Longrightarrow> placed D pods v"
proof (induction L D defs node pods and L D defs name kind instances pods and L D defs name kind instances pods
    arbitrary: v and v and v rule: buildComponent_buildGroupingComponent_buildPodBearingComponent.induct)
  case (1 L D defs name gvk pod instances pods)
  then obtain claimed where claimed: "(if pod then wrap_res ''match pods to component %q: %w'' [AStr name]
        (matchComponentType L D (pod_selector_of defs name) pods (isSolePodOwner defs)) else Ok pods) = Ok claimed"
    by (auto simp: bind_res_Ok)
  have sub: "set claimed \<subseteq> set pods" using claimed by (auto split: if_splits dest: matched_subset)
  show ?case
  proof (cases "isMultiInstance instances")
    case False
    with 1 claimed sub show ?thesis by (auto split: if_splits intro: placed_mono)
  next
    case True
    have run: "fold_res (\<lambda>parent i. bind_res (wrap_res ''match pods to instance of %q: %w'' [AStr name]
            (filterByInstance L D (pod_selector_of defs name) i claimed)) (\<lambda>scoped.
          bind_res (if pod then buildPodBearingComponent L D defs (instanceLabel name i) (kindOf gvk) [i] scoped
              else buildGroupingComponent L D defs (instanceLabel name i) (kindOf gvk) [i] scoped)
            (\<lambda>child. Ok (wrap_child parent child pod))))
          instances (ComponentView (new_row name (kindOf gvk)) []) = Ok v"
      using 1(5) claimed True by simp
    show ?thesis
    proof (rule fold_res_inv [OF run, where I = "placed D pods"])
      fix b b' i
      assume i: "i \<in> set instances" and b: "placed D pods b"
        and "bind_res (wrap_res ''match pods to instance of %q: %w'' [AStr name]
            (filterByInstance L D (pod_selector_of defs name) i claimed)) (\<lambda>scoped.
          bind_res (if pod then buildPodBearingComponent L D defs (instanceLabel name i) (kindOf gvk) [i] scoped
              else buildGroupingComponent L D defs (instanceLabel name i) (kindOf gvk) [i] scoped)
            (\<lambda>child. Ok (wrap_child b child pod))) = Ok b'"
      then obtain scoped child where scoped: "filterByInstance L D (pod_selector_of defs name) i claimed = Ok scoped"
        and child: "(if pod then buildPodBearingComponent L D defs (instanceLabel name i) (kindOf gvk) [i] scoped
              else buildGroupingComponent L D defs (instanceLabel name i) (kindOf gvk) [i] scoped) = Ok child"
        and b': "b' = wrap_child b child pod"
        by (auto simp: bind_res_Ok)
      have "placed D scoped child" using 1(3,4) i True child by (cases pod) auto
      with filtered_subset [OF scoped] sub b show "placed D pods b'"
        unfolding b' by (blast intro: placed_wrap placed_mono)
    qed (rule placed_new)
  qed
next
  case (2 L D defs name kind instances pods)
  from 2(2) obtain c where c: "fold_res (\<lambda>component i. fold_res (\<lambda>component node. bind_res (buildComponent L D defs node pods)
          (\<lambda>child. Ok (wrap_child component child (cn_HasPodDefinition node)))) (in_Children i) component)
        instances (ComponentView (new_row name kind) []) = Ok c" and v: "v = declared_scale instances c"
    by (auto simp: bind_res_Ok buildGroupingComponent.simps)
  have "placed D pods c"
    apply (rule fold_res_inv [OF c, where I = "placed D pods"])
     apply (rule placed_new)
    apply (erule fold_res_inv, assumption)
    apply (auto simp: bind_res_Ok intro: placed_wrap 2(1))
    done
  then show ?case by (simp add: v)
next
  case (3 L D defs name kind instances pods)
  show ?case
    apply (rule fold_res_inv [OF 3(2) [unfolded buildPodBearingComponent.simps], where I = "placed D pods"])
     apply (rule placed_attach)
    apply (erule fold_res_inv, simp)
    apply (auto simp: bind_res_Ok intro: placed_adopt 3(1))
    done
qed

lemma describe_placed:
  assumes "ResolveDescribe fuel L K D obj d pods = Ok v"
  shows "\<forall>c \<in> set (dv_Components v). placed D pods c"
proof (rule ResolveDescribe_OkD [OF assms])
  fix t root_component instances hosted components
  assume root: "root_views L D d root_component instances pods = Ok hosted"
    and tree: "tree_views L D (indexComponentDefs (def_Karta d)) (wt_Children t) pods hosted = Ok components"
    and v: "v = \<lparr>dv_View = viewOf D obj d t, dv_FileMode = False, dv_Resources = total_of components, dv_Components = components\<rparr>"
  have "\<forall>c \<in> set hosted. placed D pods c"
    using root
    by (auto simp: root_views_def root_view_def bind_res_Ok appendComponent_def split: option.splits
        intro: placed_mono [OF build_placed(3) matched_subset])
  then have "\<forall>c \<in> set components. placed D pods c"
    using build_placed(1)
    by (rule_tac fold_res_inv [OF tree [unfolded tree_views_def]]) (auto simp: bind_res_Ok appendComponent_def split: if_splits)
  then show ?thesis by (simp add: v)
qed

section \<open>The property\<close>

text \<open>C24 When the view of a workload resolves, every component in it lists given Pods only, ordered by name, and, in order
  and once each, exactly the nodes of these Pods and of its children. Without Pods, which is what file mode asks for, the
  same workload resolves to the same view with every live field empty: the structure, the desired replicas, the
  resources and their total do not depend on the Pods.\<close>

theorem described_pods:
  assumes "ResolveDescribe fuel L K D obj d pods = Ok v"
  shows "(\<forall>c \<in> set (dv_Components v). placed D pods c) \<and> ResolveDescribe fuel L K D obj d [] = Ok (file_view v)"
  using describe_placed [OF assms] describe_without [OF assms] by blast

definition sample_requests :: "int \<Rightarrow> int ResourceRequirements" where
  "sample_requests n = \<lparr>rq_Requests = Map.empty(''cpu'' \<mapsto> n), rq_Limits = Map.empty\<rparr>"

definition sample_spec :: "string \<Rightarrow> int PodSpec" where
  "sample_spec node = \<lparr>psp_Containers = [\<lparr>ct_Resources = sample_requests 2, ct_RestartPolicy = None\<rparr>],
     psp_InitContainers = [\<lparr>ct_Resources = sample_requests 3, ct_RestartPolicy = None\<rparr>], psp_Resources = None,
     psp_Overhead = Map.empty, psp_NodeName = node\<rparr>"

definition sample_live :: "string \<Rightarrow> string \<Rightarrow> int CorePod" where
  "sample_live name node = \<lparr>pod_Name = name, pod_Spec = sample_spec node,
     pod_Status = \<lparr>pst_Phase = ''Running'', pst_Conditions = [\<lparr>pc_Type = ''Ready'', pc_Status = ''True'', pc_Reason = []\<rparr>], pst_Reason = []\<rparr>\<rparr>"

definition sample_describe :: "(json, int) describelib" where
  "sample_describe = \<lparr>dl_PodTemplateSpec = (\<lambda>j. sample_spec []), dl_PodSpec = (\<lambda>j. sample_spec []),
     dl_Container = (\<lambda>j. \<lparr>ct_Resources = sample_requests 1, ct_RestartPolicy = None\<rparr>), dl_ResourceRequirements = (\<lambda>j. sample_requests 1),
     dl_Value = of_int, dl_MilliValue = (\<lambda>q. 1000 * of_int q), dl_number = (\<lambda>r. []), dl_pod = (\<lambda>p. sample_pod),
     dl_GetName = (\<lambda>j. ''train''), dl_GetNamespace = (\<lambda>j. ''ml''), dl_GetKind = (\<lambda>j. ''Job''), dl_GetAPIVersion = (\<lambda>j. ''batch/v1''),
     dl_GetCreationTimestamp = (\<lambda>j. 5)\<rparr>"

abbreviation sample_description :: "int CorePod list \<Rightarrow> DescribeView res" where
  "sample_description pods \<equiv> ResolveDescribe 3 sample_lib sample_k8s sample_describe sample_object
     \<lparr>def_Karta = sample_karta, def_Origin = OriginCatalog\<rparr> pods"

fun listed_pods :: "ComponentView \<Rightarrow> string list" where
  "listed_pods (ComponentView c children) = map pv_Name (cr_Pods c) @ concat (map listed_pods children)"

theorem described_pods_witness:
  "\<exists>v. sample_description [sample_live ''y'' ''node2'', sample_live ''x'' ''node1''] = Ok v
     \<and> map listed_pods (dv_Components v) = [[''x'', ''y'']]
     \<and> map (\<lambda>c. cr_Nodes (cv_row c)) (dv_Components v) = [[''node1'', ''node2'']]
     \<and> sample_description [] = Ok (file_view v)"
proof -
  let ?v = "sample_description [sample_live ''y'' ''node2'', sample_live ''x'' ''node1'']"
  have "case ?v of Ok v \<Rightarrow> map listed_pods (dv_Components v) = [[''x'', ''y'']]
      \<and> map (\<lambda>c. cr_Nodes (cv_row c)) (dv_Components v) = [[''node1'', ''node2'']] | _ \<Rightarrow> False"
    by code_simp
  then obtain v where v: "?v = Ok v" and rows: "map listed_pods (dv_Components v) = [[''x'', ''y'']]"
      "map (\<lambda>c. cr_Nodes (cv_row c)) (dv_Components v) = [[''node1'', ''node2'']]"
    by (auto split: res.splits)
  show ?thesis using conjunct2 [OF described_pods [OF v]] by (intro exI [of _ v] conjI v rows)
qed

end
