(* ===== verification/Spec2Isabelle.thy ===== *)
theory Spec2Isabelle
  imports Validation_Properties Resource_Properties Instruction_Properties Catalog_Properties Exporter_Properties Controller_Properties Publication_Properties
    Operator_Properties CLI_Properties Describe_Properties
begin

text \<open>
  A verification development of Karta, a description language for Kubernetes workloads. A Karta (a custom resource) says how a
  workload of some kind is built: a root component, child components with their owners, and, per component, jq expressions that
  find pod specs, replica counts, statuses and instance ids inside the workload object. The Go code validates a Karta, reads and
  updates workload objects through it, and derives a tree of the workload, its scale and its gang scheduling groups. An exporter uses
  the definitions to publish metrics of running workloads: it elects one definition per kind among those built in and those in the
  cluster, walks from Pods to the objects that own them, evaluates label rules and keeps the results in a store for collection.

  \<^bold>\<open>Parts and theories.\<close> Paths of the first group are relative to \<^verbatim>\<open>src/karta/sdk/pkg\<close>.

  \<^item> \<^verbatim>\<open>Karta_Prelude\<close>: JSON values, errors, results (value, error, panic, no return), stateful actions and their combinators, a
    Hoare triple and the notion of a read-only action (\<open>reads\<close>), Go maps as association lists and as maps.
  \<^item> \<^verbatim>\<open>Karta_Types\<close>: the structs of \<^verbatim>\<open>api/runai/v1alpha1/{structure,instructions,types}.go\<close>, one record each, with the fields in
    the order of the code.
  \<^item> \<^verbatim>\<open>JQ_Validation\<close>, \<^verbatim>\<open>Karta_Paths\<close>: \<^verbatim>\<open>jq/validation.go\<close>. Reflection is modelled by a tree of reflected values (\<open>rval\<close>); every
    struct has its reflected value (\<open>..._rval\<close>). \<^verbatim>\<open>Karta_Paths\<close> lists the tagged expressions of a Karta (\<open>karta_jq\<close>) and shows that the
    walk checks exactly these.
  \<^item> \<^verbatim>\<open>Karta_Validation\<close>: \<^verbatim>\<open>api/runai/v1alpha1/validation.go\<close>, and the declarative predicate \<open>well_formed\<close> it decides.
  \<^item> \<^verbatim>\<open>JQ_Runner\<close>: \<^verbatim>\<open>jq/execution\<close>. The runner is a record with the lazily converted object. The interface Runner is a record of
    operations; locale \<open>runner_contract\<close> states what its clients rely on and is interpreted on the runner of the code (\<open>std\<close>).
  \<^item> \<^verbatim>\<open>Accessor\<close>, \<^verbatim>\<open>Component\<close>: \<^verbatim>\<open>resource/{accessor,component,component_factory}.go\<close>. ComponentAccessor is again a record of
    operations with the locale \<open>accessor_contract\<close>; every runner that keeps its contract gives an accessor that keeps this one.
  \<^item> \<^verbatim>\<open>Pod_Querier\<close>: \<^verbatim>\<open>resource/pod_querier.go\<close>, over the locale \<open>evaluator_contract\<close> of evaluators.
  \<^item> \<^verbatim>\<open>Structure_Summary\<close>, \<^verbatim>\<open>Gang_Scheduling\<close>: \<^verbatim>\<open>instructions/{summary,gang_scheduling,pod}.go\<close>. sort.Slice is a parameter that satisfies
    the locale \<open>slice_sorter\<close> (a sorted permutation), interpreted on the insertion sort that Go uses for short slices.
  \<^item> \<^verbatim>\<open>Workload_Tree\<close>: \<^verbatim>\<open>tree/{tree,builder}.go\<close>.
  \<^item> \<^verbatim>\<open>Product_Version\<close>: \<^verbatim>\<open>version/version.go\<close>.
  \<^item> \<^verbatim>\<open>Catalog_Kartas\<close>, \<^verbatim>\<open>Catalog\<close>: the built-in Kartas (\<^verbatim>\<open>catalog/kartas/*.go\<close>, the values of the code field by field) and their index,
    \<^verbatim>\<open>catalog/catalog.go\<close>. The sorting functions of package slices satisfy the locale \<open>key_sorter\<close>, interpreted on \<open>sort_key\<close>.
  \<^item> \<^verbatim>\<open>Karta_Samples\<close>: a small Karta, workload and jq library on which the hypotheses of the properties are evaluated.
  \<^item> \<^verbatim>\<open>Validation_Properties\<close>, \<^verbatim>\<open>Resource_Properties\<close>, \<^verbatim>\<open>Instruction_Properties\<close>, \<^verbatim>\<open>Catalog_Properties\<close> and this theory: the properties.

  The theories of the exporter, with paths relative to \<^verbatim>\<open>src/dsx-workload-exporter/pkg\<close>:

  \<^item> \<^verbatim>\<open>Exporter_Prelude\<close>: its errors with the sentinel values, errors.Is, the classes of API errors, object references.
  \<^item> \<^verbatim>\<open>Owner_Discovery\<close>: \<^verbatim>\<open>discovery/{discovery,resolve}.go\<close>, the walk to the top owner, a function whose termination rests on the limit
    of the code; the relation \<open>ascent\<close> follows the answers of the reader from object to controller and says exactly what it returns.
  \<^item> \<^verbatim>\<open>Definition_Inventory\<close>: \<^verbatim>\<open>kartadefinitioninventory/inventory.go\<close>. Its methods hold one lock, so each is one transition of the
    state; \<open>istep\<close> collects them, \<open>reachable\<close> are the states after construction and any sequence of them, \<open>inventory_inv\<close> their invariant.
  \<^item> \<^verbatim>\<open>Inventory_History\<close>: the same calls as a history of occurrences, and what the history alone says of the failure, the first complete list
    and the objects last reported; the flags and counters of the code are shown to agree with it.
  \<^item> \<^verbatim>\<open>Exporter_Store\<close>: \<^verbatim>\<open>store/store.go\<close>, refined by the functions \<open>last_pod\<close> and so on of the history of its calls.
  \<^item> \<^verbatim>\<open>Label_Resolver\<close>: \<^verbatim>\<open>labelresolver/{resolver,validate}.go\<close>, with a reference that has neither cache nor index.
  \<^item> \<^verbatim>\<open>Exporter_Properties\<close>: their properties.
  \<^item> \<^verbatim>\<open>Controller_State\<close>, \<^verbatim>\<open>Controller_Membership\<close>: \<^verbatim>\<open>controller/state.go\<close> and the cache of \<^verbatim>\<open>controller/reader.go\<close>. The record \<open>Controller\<close> is
    the struct controllerState with its cache; every section that holds the lock stateMu is a function of it.
  \<^item> \<^verbatim>\<open>Controller_Watches\<close>, \<^verbatim>\<open>Controller_Cache\<close>: \<^verbatim>\<open>controller/sources.go\<close>, the watches, and the invariant of the cache that they keep.
  \<^item> \<^verbatim>\<open>Controller_Runtime\<close>, \<^verbatim>\<open>Controller_Definitions\<close>: \<^verbatim>\<open>controller/runtime.go\<close> (construction, readiness, the refresh of the definitions) and the
    resource rules of \<^verbatim>\<open>controller/root.go\<close>; the definitions that come from a reachable inventory are sound for evaluation.
  \<^item> \<^verbatim>\<open>Controller_Steps\<close>: the step relation \<open>cstep\<close> with one rule per critical section, the states \<open>creachable\<close> after construction and any
    sequence of steps, their invariant \<open>ctl_inv\<close>, the counted runs \<open>csteps\<close>, and \<open>redefined\<close>, which compares the selected definitions of two states,
    whatever their version says.
  \<^item> \<^verbatim>\<open>Workload_Evaluation\<close>, \<^verbatim>\<open>Controller_Handlers\<close>: \<^verbatim>\<open>controller/{leaf,root}.go\<close> and syncWatches. A handler is an action on a world: the state
    and a clock. Between two critical sections the environment may change the state.
  \<^item> \<^verbatim>\<open>Controller_Runs\<close>: the judgement \<open>keeps\<close> of total correctness under interference, and the locale \<open>interleaved\<close> over the environments
    whose steps are transitions of the controller; it is interpreted on the environment without interference.
  \<^item> \<^verbatim>\<open>Controller_Samples\<close>, \<^verbatim>\<open>Controller_Properties\<close>: a small cluster with a Job and its Pod, and the properties of the controllers.

  \<^item> \<^verbatim>\<open>Metrics_Collector\<close>: \<^verbatim>\<open>adapters/otel/{collector,names}.go\<close>, the metrics made of a captured view, with the specification of what
    fails and why (\<open>failing\<close>, \<open>worst\<close>, \<open>unresolved\<close>); \<^verbatim>\<open>Publication_Properties\<close>: their properties.

  The theories of the operator, with paths relative to \<^verbatim>\<open>src/operator/pkg\<close>:

  \<^item> \<^verbatim>\<open>Operator_Reconciler\<close>: \<^verbatim>\<open>{status,controller,cache}.go\<close>. The client of the API server acts on a world; the locales \<open>api_client\<close> and
    \<open>status_conditions\<close> state what it and package \<^verbatim>\<open>apimeta\<close> promise, and are interpreted on a server that answers every call and on lists. Reads are
    taken to be current, without the delay of the client's cache; the answer of a Patch is decoded into the object in memory (\<open>decoded_into\<close>).
  \<^item> \<^verbatim>\<open>Operator_Runs\<close>: what one reconciliation does, proved in the locale \<open>reconciler\<close> that joins the two contracts; \<open>settled\<close> is its goal.
  \<^item> \<^verbatim>\<open>Operator_Admission\<close>: \<^verbatim>\<open>{webhook,eventfilter}.go\<close>, the relation \<open>admission_step\<close> of the requests that the webhooks accept, and the
    invariants of the clusters they lead to; the watch of the CRDs with its predicate. \<^verbatim>\<open>Operator_Properties\<close>: the properties of the operator.

  The theories of the command line tool, with paths relative to \<^verbatim>\<open>src/cli/pkg\<close>:

  \<^item> \<^verbatim>\<open>CLI_Definitions\<close>: \<^verbatim>\<open>definitions/{resolver,load}.go\<close>, in the locale \<open>resolver_sorters\<close> of the functions of package slices; \<open>winners\<close>
    are the definitions that count for a kind.
  \<^item> \<^verbatim>\<open>CLI_Owners\<close>: \<^verbatim>\<open>workload/{owners,pods}.go\<close>. Listing is a \<open>partial_function\<close> over the pages; \<open>fresh_climb\<close> is the walk without caches, and
    \<open>walked\<close> are the walkers after any walks. \<^verbatim>\<open>CLI_Properties\<close>: their properties.
  \<^item> \<^verbatim>\<open>CLI_Describe\<close>: \<^verbatim>\<open>workload/{view,describe}.go\<close>, the view of one workload, over the tree of the workload; \<open>file_view\<close> empties its live
    fields. \<^verbatim>\<open>Describe_Properties\<close>: \<open>placed\<close>, what a component may list, and the property.

  \<^bold>\<open>State and errors.\<close> Code that reads or changes the workload object is an action \<open>'r \<Rightarrow> 'a res \<times> 'r\<close> on the runner; errors are values
  of \<open>goerr\<close> with the format string and its arguments, wrapped the way the code wraps them; a Go panic and a call that does not return
  are results of their own, so that a property that excludes them says so. Replica counts are 32-bit words. A Go map that is ranged
  over is an association list, and what depends on its order is shown not to.

  \<^bold>\<open>Libraries.\<close> gojq (parse, compile, run), json.Marshal, the decoding into Kubernetes types, the accessors of unstructured objects,
  the printing of numbers by fmt and debug.ReadBuildInfo are parameters (\<open>jqlib\<close>, \<open>k8slib\<close>, \<open>unstructuredlib\<close>), and so
  are the comparison of Kubernetes versions, the conversion of unstructured objects to Kartas, the reader of objects, the parser of
  group versions and the compiler of label expressions. No property assumes anything of them; the properties hold for every such
  library. The numbers that gojq and json exchange are taken to be ones a float64 holds. The sorting functions are assumed to sort. The runs of the controllers assume of the REST mapper only that it serves namespaces,
  under one resource of cluster scope (\<open>mapping_ok\<close>).

  \<^bold>\<open>Fuel.\<close> The subtree scale and the tree builder recurse along the ownership relation, which only validation makes well founded. They
  take fuel and give \<open>NoReturn\<close> without it. An owner chain of a valid Karta has at most as many steps as there are child components, so one
  level more than there are children is enough for the scale and two more for the tree, as the properties state. The walk to
  the parents in the summary is a \<open>partial_function\<close>: it returns nothing on a cycle, and exactly then.

  \<^bold>\<open>What the properties show.\<close> The validator decides well-formedness; its cycle search is exact. Queries read and do not write; assignments
  write the first result or leave the object as it was. Getters, updates, suspension and navigation behave as documented on
  every branch. The catalog is complete and valid. The exporter elects the oldest definition, never answers from a view of the
  cluster that failed or is incomplete, publishes a value as valid only when every source is healthy, and its caches change no
  result. Its controllers keep their cache and the relations of roots and members consistent under every interleaving, refuse work that
  definitions have overtaken, and their handlers return; the registration of a root slices the path of its workload, a panic when that is empty,
  which no path of the discovery is. The operator brings the conditions and labels of a Karta to what its spec and the
  cluster demand, and its webhooks keep every Karta valid and labelled. The command line tool
  uses the definition of the cluster where there is one, finds the Pods of a workload whatever its caches hold, and places them on its components. Summary, gang candidates, scale, pod inference and tree return on every
  valid Karta and mirror its ownership structure.

  \<^bold>\<open>Not modelled.\<close> The cancellation of queries and their timing (the timeout is handed to the library; the discovery, the collection and the label rules
  do ask their context); concurrency on one runner
  (sync.Once is modelled for one goroutine); the metadata of Kubernetes objects that the code does not read; generated deep copies and
  mocks; the printing of a Karta as YAML; the reflector of client-go, whose calls are the transitions of the inventory and of the watches;
  the rate limits of the work queues, which are sets of keys here; the conversion of objects to and from unstructured ones; logging. The
  configuration of the exporter and its start-up, the CEL evaluator, the start-up and the certificates of the operator, the commands,
  the printing of the views and the generated examples of the command line tool, the
  WebAssembly bindings and the repository's tools are not modelled in these theories.
\<close>

section \<open>The workload tree over the whole stack\<close>

lemma Build_invalid:
  assumes "NewComponentFactory (Some k) = Ok f" "\<not> well_formed parse k"
  shows "\<exists>e. Build fuel parse A f r = (Err e, r)"
proof -
  obtain e where "Validate parse (cf_karta f) = Some e"
    using assms by (auto simp: NewComponentFactory_fields(1) Validate_None [symmetric])
  then show ?thesis by (simp add: Build_def fail_act_apply)
qed

text \<open>C2 Given two levels of recursion more than the Karta has child components, Build always returns. It answers with an
  error on a Karta that Validate refuses; on an accepted one the tree it returns has a status and mirrors the ownership structure:
  below the root and below every instance there is one node per owned component, in the order of the definition, with its name,
  kind and pod flag, its instances sorted by their keys. Build never panics and leaves the workload object, the result limit and
  the timeout as they were, also when it fails.\<close>

theorem tree_build:
  assumes "NewComponentFactory (Some k) = Ok f" "clean_runner r" "Suc (length (children_of k)) < fuel"
    and "Build fuel (jq_parse L) (NewAccessor (runner_iface L) K) f r = (answer, r')"
  shows "clean_runner r' \<and> runner_view L r' = runner_view L r
    \<and> ((\<exists>e. answer = Err e) \<or> well_formed (jq_parse L) k \<and> (\<exists>t. answer = Ok t \<and> tree_ok k t))"
proof (cases "well_formed (jq_parse L) k")
  case True
  note T = std.acc.Build_triple [OF assms(1) True assms(3), of L "runner_view L r" K]
  have pre: "clean_runner r \<and> runner_view L r = runner_view L r" using assms(2) by simp
  show ?thesis
  proof (cases answer)
    case (Ok t)
    with triple_OkD [OF T pre] assms(4) True show ?thesis by simp
  next
    case (Err e)
    with triple_ErrD [OF T pre] assms(4) show ?thesis by simp
  next
    case (Panic p)
    with triple_no_panic [OF T pre, of p r'] assms(4) show ?thesis by simp
  next
    case NoReturn
    with triple_returns [OF T pre, of r'] assms(4) show ?thesis by simp
  qed
next
  case False
  from Build_invalid [OF assms(1) this, of fuel "NewAccessor (runner_iface L) K" r] obtain e
    where "Build fuel (jq_parse L) (NewAccessor (runner_iface L) K) f r = (Err e, r)" by blast
  with assms(2,4) show ?thesis by auto
qed

theorem tree_build_witness:
  "\<exists>t. fst (Build 3 (jq_parse sample_lib) sample_accessor sample_factory sample_runner) = Ok t \<and> tree_ok sample_karta t"
proof -
  let ?b = "Build 3 (jq_parse sample_lib) sample_accessor sample_factory sample_runner"
  have fuel: "Suc (length (children_of sample_karta)) < 3" by (simp add: sample_karta_def karta_with_def)
  have "case fst ?b of Ok t \<Rightarrow> True | _ \<Rightarrow> False" by code_simp
  then obtain t where t: "fst ?b = Ok t" by (auto split: res.splits)
  have "?b = (Ok t, snd ?b)" using t by (cases ?b) simp
  from tree_build [OF sample_factory_ok sample_clean(1) fuel this] t show ?thesis by auto
qed

end
